(* ===== verification/Prelude.thy ===== *)
theory Prelude
  imports Main "HOL-Library.Word"
begin

section \<open>Prelude: results, machine integers, lists\<close>

text \<open>
  What every component of the development shares: the result type of fallible code (a Solidity
  transaction that reverts, a TypeScript function that throws), the ranges of the Solidity integer
  types, truncating division, the collections of simplification rules, and generic lemmas on
  lists and division.

  Solidity's \<open>uint256\<close> and \<open>int256\<close> and ethers' \<open>BigNumber\<close> are all read as \<open>int\<close>. What the
  width changes is written out: checked operations compare with the bounds below and fail, and
  unchecked ones wrap with \<open>wrap_uint256\<close> and \<open>wrap_int256\<close>.
\<close>

unbundle bit_operations_syntax

named_theorems result_simps \<open>unfolding the result monad\<close>
named_theorems range_simps \<open>unfolding the integer ranges\<close>
named_theorems safe_math_simps \<open>unfolding the checked arithmetic\<close>
named_theorems contract_defs \<open>definitions of contract operations\<close>

text \<open>Contract addresses: only compared, never computed with. The zero address is 0.\<close>

type_synonym address = nat

abbreviation (input) address_zero :: address where
  "address_zero \<equiv> 0"

subsection \<open>Results\<close>

text \<open>
  \<open>Revert\<close> carries the reason string of a \<open>require\<close> or \<open>revert\<close>; \<open>Invalid\<close> is the invalid
  opcode that Solidity 0.6 executes on an out-of-range array access; \<open>Throw\<close> carries the message of
  a JavaScript exception.
\<close>

datatype error = Revert string | Invalid | Throw string

type_synonym 'a result = "error + 'a"

abbreviation Ok :: "'a \<Rightarrow> 'a result" where
  "Ok \<equiv> Inr"

abbreviation Err :: "error \<Rightarrow> 'a result" where
  "Err \<equiv> Inl"

fun rbind :: "'a result \<Rightarrow> ('a \<Rightarrow> 'b result) \<Rightarrow> 'b result" where
  "rbind (Inl e) f = Inl e"
| "rbind (Inr x) f = f x"

definition require :: "bool \<Rightarrow> string \<Rightarrow> unit result" where
  "require b msg = (if b then Ok () else Err (Revert msg))"

text \<open>Reading an array element: out of range is the invalid opcode.\<close>

definition array_get :: "'a list \<Rightarrow> nat \<Rightarrow> 'a result" where
  "array_get xs i = (if i < length xs then Ok (xs ! i) else Err Invalid)"

definition is_ok :: "'a result \<Rightarrow> bool" where
  "is_ok r = (case r of Inl e \<Rightarrow> False | Inr x \<Rightarrow> True)"

lemma rbind_eq_Inr [result_simps]:
  "rbind m f = Inr y \<longleftrightarrow> (\<exists>x. m = Inr x \<and> f x = Inr y)"
  by (cases m) auto

lemma rbind_eq_Inl [result_simps]:
  "rbind m f = Inl e \<longleftrightarrow> m = Inl e \<or> (\<exists>x. m = Inr x \<and> f x = Inl e)"
  by (cases m) auto

lemma rbind_assoc: "rbind (rbind m f) g = rbind m (\<lambda>x. rbind (f x) g)"
  by (cases m) auto

lemma rbind_Inr [simp]: "rbind m Inr = m"
  by (cases m) auto

lemma require_eq_Inr [result_simps]: "require b msg = Inr u \<longleftrightarrow> b"
  by (simp add: require_def)

lemma require_eq_Inl [result_simps]: "require b msg = Inl e \<longleftrightarrow> \<not> b \<and> e = Revert msg"
  by (auto simp: require_def)

lemma require_True [simp]: "require True msg = Inr ()"
  by (simp add: require_def)

lemma require_False [simp]: "require False msg = Inl (Revert msg)"
  by (simp add: require_def)

lemma array_get_eq_Inr [result_simps]:
  "array_get xs i = Inr x \<longleftrightarrow> i < length xs \<and> x = xs ! i"
  by (auto simp: array_get_def)

lemma is_ok_Inr [simp]: "is_ok (Inr x)" and is_ok_Inl [simp]: "\<not> is_ok (Inl e)"
  by (simp_all add: is_ok_def)

lemma is_ok_iff: "is_ok r \<longleftrightarrow> (\<exists>x. r = Inr x)"
  by (cases r) auto

subsection \<open>Integer ranges\<close>

abbreviation MAX_UINT_256 :: int where
  "MAX_UINT_256 \<equiv> 2 ^ 256 - 1"

abbreviation MAX_INT_256 :: int where
  "MAX_INT_256 \<equiv> 2 ^ 255 - 1"

abbreviation MIN_INT_256 :: int where
  "MIN_INT_256 \<equiv> - (2 ^ 255)"

definition is_uint256 :: "int \<Rightarrow> bool" where
  [range_simps]: "is_uint256 x \<longleftrightarrow> 0 \<le> x \<and> x \<le> MAX_UINT_256"

definition is_int256 :: "int \<Rightarrow> bool" where
  [range_simps]: "is_int256 x \<longleftrightarrow> MIN_INT_256 \<le> x \<and> x \<le> MAX_INT_256"

definition wrap_uint256 :: "int \<Rightarrow> int" where
  "wrap_uint256 x = x mod 2 ^ 256"

definition wrap_int256 :: "int \<Rightarrow> int" where
  "wrap_int256 x = (x + 2 ^ 255) mod 2 ^ 256 - 2 ^ 255"

lemma wrap_uint256_id: "is_uint256 x \<Longrightarrow> wrap_uint256 x = x"
  by (simp add: wrap_uint256_def is_uint256_def)

lemma wrap_int256_id: "is_int256 x \<Longrightarrow> wrap_int256 x = x"
  by (simp add: wrap_int256_def is_int256_def)

lemma is_int256_wrap: "is_int256 (wrap_int256 x)"
proof -
  have "0 \<le> (x + 2 ^ 255) mod (2 ^ 256 :: int)" "(x + 2 ^ 255) mod (2 ^ 256 :: int) < 2 ^ 256"
    by simp_all
  then show ?thesis by (simp add: wrap_int256_def is_int256_def)
qed

subsection \<open>Division that rounds towards zero\<close>

text \<open>
  The EVM's \<open>SDIV\<close> and \<open>SMOD\<close> (Solidity's \<open>/\<close> and \<open>%\<close> on \<open>int256\<close>) and the \<open>div\<close> of ethers'
  \<open>BigNumber\<close> round towards zero; the remainder has the sign of the dividend.
\<close>

definition tdiv :: "int \<Rightarrow> int \<Rightarrow> int" where
  "tdiv a b = sgn a * sgn b * (\<bar>a\<bar> div \<bar>b\<bar>)"

definition tmod :: "int \<Rightarrow> int \<Rightarrow> int" where
  "tmod a b = a - tdiv a b * b"

lemma tdiv_nonneg [simp]: "0 \<le> a \<Longrightarrow> 0 < b \<Longrightarrow> tdiv a b = a div b"
  by (cases "a = 0") (auto simp: tdiv_def)

lemma tdiv_0_left [simp]: "tdiv 0 b = 0"
  by (simp add: tdiv_def)

lemma tmod_0_left [simp]: "tmod 0 b = 0"
  by (simp add: tmod_def)

lemma tmod_pos [simp]: "0 \<le> a \<Longrightarrow> 0 < b \<Longrightarrow> tmod a b = a mod b"
  by (simp add: tmod_def minus_div_mult_eq_mod)

lemma tdiv_neg_left: "tdiv (- a) b = - tdiv a b"
  by (simp add: tdiv_def)

lemma tdiv_neg_right: "tdiv a (- b) = - tdiv a b"
  by (simp add: tdiv_def)

lemma tmod_eq_0_iff: "b \<noteq> 0 \<Longrightarrow> tmod a b = 0 \<longleftrightarrow> b dvd a"
proof
  assume "tmod a b = 0"
  then have "a = tdiv a b * b" by (simp add: tmod_def)
  then show "b dvd a" by (metis dvd_triv_right)
next
  assume "b \<noteq> 0" and "b dvd a"
  then obtain k where a: "a = b * k" by (auto elim: dvdE)
  have "\<bar>b * k\<bar> div \<bar>b\<bar> = \<bar>k\<bar>" using \<open>b \<noteq> 0\<close> by (simp add: abs_mult)
  then have "tdiv a b = sgn (b * k) * sgn b * \<bar>k\<bar>" by (simp add: tdiv_def a)
  also have "\<dots> = (sgn b * sgn b) * (sgn k * \<bar>k\<bar>)" by (simp add: sgn_mult algebra_simps)
  also have "\<dots> = k" using \<open>b \<noteq> 0\<close> by (simp add: sgn_mult_abs sgn_if)
  finally show "tmod a b = 0" by (simp add: tmod_def a algebra_simps)
qed

text \<open>Truncation against the flooring \<open>div\<close> of HOL.\<close>

lemma tdiv_same_sign:
  assumes "(0 \<le> a \<and> 0 < b) \<or> (a \<le> 0 \<and> b < 0)"
  shows "tdiv a b = a div b"
  using assms
proof
  assume h: "a \<le> 0 \<and> b < 0"
  then have "tdiv a b = tdiv (- a) (- b)" by (simp add: tdiv_neg_left tdiv_neg_right)
  also have "\<dots> = (- a) div (- b)" using h by simp
  also have "\<dots> = a div b" by (rule div_minus_minus)
  finally show ?thesis .
qed simp

lemma div_ceiling_pos: "0 < (b::int) \<Longrightarrow> - ((- a) div b) = (if b dvd a then a div b else a div b + 1)"
  by (auto simp: zdiv_zminus1_eq_if dvd_eq_mod_eq_0)

lemma tdiv_opposite_sign:
  assumes "(a < 0 \<and> 0 < b) \<or> (0 < a \<and> b < 0)"
  shows "tdiv a b = (if b dvd a then a div b else a div b + 1)"
  using assms
proof
  assume h: "a < 0 \<and> 0 < b"
  then have "tdiv a b = - tdiv (- a) b" by (simp add: tdiv_neg_left)
  also have "\<dots> = - ((- a) div b)" using h by simp
  also have "\<dots> = (if b dvd a then a div b else a div b + 1)" using h by (simp add: div_ceiling_pos)
  finally show ?thesis .
next
  assume h: "0 < a \<and> b < 0"
  then have "tdiv a b = - (a div (- b))" using tdiv_neg_right [of a "- b"] by simp
  also have "\<dots> = - ((- (- a)) div (- b))" by simp
  also have "\<dots> = (if - b dvd - a then (- a) div (- b) else (- a) div (- b) + 1)"
    using h by (subst div_ceiling_pos) simp_all
  also have "\<dots> = (if b dvd a then a div b else a div b + 1)" by (simp add: div_minus_minus)
  finally show ?thesis .
qed

lemma abs_tdiv: "\<bar>tdiv a b\<bar> = \<bar>a\<bar> div \<bar>b\<bar>"
  by (auto simp: tdiv_def abs_mult sgn_if pos_imp_zdiv_nonneg_iff)

lemma abs_tdiv_le: "\<bar>tdiv a b\<bar> \<le> \<bar>a\<bar>"
proof (cases "b = 0")
  case False
  have "\<bar>a\<bar> div \<bar>b\<bar> \<le> \<bar>a\<bar> div 1" using False by (intro zdiv_mono2) auto
  then show ?thesis by (simp add: abs_tdiv)
qed (simp add: tdiv_def)

text \<open>The quotient as the largest integer whose multiple fits.\<close>

lemma le_div_iff_int: "0 < (c::int) \<Longrightarrow> b \<le> a div c \<longleftrightarrow> b * c \<le> a"
proof -
  assume c: "0 < c"
  have eq: "a = (a div c) * c + a mod c" by simp
  have m: "0 \<le> a mod c" "a mod c < c" using c by simp_all
  show ?thesis
  proof
    assume "b \<le> a div c"
    then have "b * c \<le> (a div c) * c" using c by (simp add: mult_right_mono)
    then show "b * c \<le> a" using eq m by linarith
  next
    assume "b * c \<le> a"
    then have "b * c < (a div c) * c + c" using eq m by linarith
    then have "b * c < (a div c + 1) * c" by (simp add: distrib_right)
    then have "b < a div c + 1" using c by (simp add: mult_less_cancel_right)
    then show "b \<le> a div c" by simp
  qed
qed

lemma div_less_iff_int: "0 < (c::int) \<Longrightarrow> a div c < b \<longleftrightarrow> a < b * c"
  using le_div_iff_int [of c b a] by linarith

lemma div_mult_le_int: "0 < (c::int) \<Longrightarrow> (a div c) * c \<le> a"
  using le_div_iff_int [of c "a div c" a] by simp

lemma less_div_mult_int: "0 < (c::int) \<Longrightarrow> a < (a div c + 1) * c"
  using div_less_iff_int [of c a "a div c + 1"] by simp

subsection \<open>Signs and exclusive or\<close>

lemma xor_neg_iff: "((a::int) XOR b) < 0 \<longleftrightarrow> (a < 0) \<noteq> (b < 0)"
  by (simp add: xor_negative_int_iff)

lemma xor_pos_iff: "((a::int) XOR b) > 0 \<longleftrightarrow> (a < 0) = (b < 0) \<and> a \<noteq> b"
proof -
  have "(a XOR b) = 0 \<longleftrightarrow> a = b"
    by (auto simp: bit_eq_iff bit_xor_iff)
  then show ?thesis using xor_neg_iff [of a b] by linarith
qed

end
