(* ===== verification/SafeMath.thy ===== *)
theory SafeMath
  imports Prelude
begin

section \<open>Checked arithmetic\<close>

text \<open>
  \<open>SafeMath\<close> is translated from the copy vendored in
  \<^verbatim>\<open>src/external/contracts/aave/v1/AaveTokenV2Mintable.sol\<close>: the wrapping EVM operation is performed
  first and the overflow is detected afterwards, exactly as that code does it. The lemmas
  \<open>safe_add_exact\<close> to \<open>safe_mod_exact\<close> show that on \<open>uint256\<close> operands this detects exactly
  the overflows; from there on the proofs use the exact forms (collected in \<open>safe_math_simps\<close>).

  \<open>SignedSafeMath\<close> and \<open>SafeCast\<close> have no copy under \<^verbatim>\<open>src/\<close>. The interface locale
  \<open>signed_safe_math\<close> states their documented behaviour (the exact result when it fits, a revert
  when it does not, truncating division); \<open>agrees\<close> shows that the laws leave no freedom, so the
  definitions \<open>sadd\<close>, \<open>ssub\<close>, \<open>smul\<close>, \<open>sdiv\<close>, \<open>toUint256\<close> and \<open>toInt256\<close>, on which the locale is
  interpreted, are the only functions with that behaviour on 256-bit operands.
\<close>

subsection \<open>SafeMath on uint256\<close>

definition safe_add :: "int \<Rightarrow> int \<Rightarrow> int result" where
  "safe_add a b =
     (let c = wrap_uint256 (a + b)
      in if c \<ge> a then Ok c else Err (Revert ''SafeMath: addition overflow''))"

definition safe_sub_msg :: "int \<Rightarrow> int \<Rightarrow> string \<Rightarrow> int result" where
  "safe_sub_msg a b msg =
     (if b \<le> a then Ok (wrap_uint256 (a - b)) else Err (Revert msg))"

definition safe_sub :: "int \<Rightarrow> int \<Rightarrow> int result" where
  "safe_sub a b = safe_sub_msg a b ''SafeMath: subtraction overflow''"

definition safe_mul :: "int \<Rightarrow> int \<Rightarrow> int result" where
  "safe_mul a b =
     (if a = 0 then Ok 0
      else let c = wrap_uint256 (a * b)
           in if c div a = b then Ok c else Err (Revert ''SafeMath: multiplication overflow''))"

definition safe_div_msg :: "int \<Rightarrow> int \<Rightarrow> string \<Rightarrow> int result" where
  "safe_div_msg a b msg = (if b > 0 then Ok (a div b) else Err (Revert msg))"

definition safe_div :: "int \<Rightarrow> int \<Rightarrow> int result" where
  "safe_div a b = safe_div_msg a b ''SafeMath: division by zero''"

definition safe_mod_msg :: "int \<Rightarrow> int \<Rightarrow> string \<Rightarrow> int result" where
  "safe_mod_msg a b msg = (if b \<noteq> 0 then Ok (a mod b) else Err (Revert msg))"

definition safe_mod :: "int \<Rightarrow> int \<Rightarrow> int result" where
  "safe_mod a b = safe_mod_msg a b ''SafeMath: modulo by zero''"

text \<open>A wrapped sum is smaller than an operand exactly when the addition overflows.\<close>

lemma safe_add_exact [safe_math_simps]:
  assumes "is_uint256 a" "is_uint256 b"
  shows "safe_add a b = (if a + b \<le> MAX_UINT_256 then Ok (a + b)
                         else Err (Revert ''SafeMath: addition overflow''))"
proof (cases "a + b \<le> MAX_UINT_256")
  case True
  then have "wrap_uint256 (a + b) = a + b" using assms by (simp add: wrap_uint256_def is_uint256_def)
  then show ?thesis using True assms by (simp add: safe_add_def is_uint256_def)
next
  case False
  then have "(a + b) mod 2 ^ 256 = a + b - 2 ^ 256"
    using assms by (intro int_mod_pos_eq [where q = 1]) (auto simp: is_uint256_def)
  then show ?thesis using False assms by (simp add: safe_add_def wrap_uint256_def is_uint256_def)
qed

lemma safe_sub_msg_exact [safe_math_simps]:
  assumes "is_uint256 a" "is_uint256 b"
  shows "safe_sub_msg a b msg = (if b \<le> a then Ok (a - b) else Err (Revert msg))"
  using assms by (simp add: safe_sub_msg_def wrap_uint256_def is_uint256_def)

lemma safe_sub_exact [safe_math_simps]:
  assumes "is_uint256 a" "is_uint256 b"
  shows "safe_sub a b =
    (if b \<le> a then Ok (a - b) else Err (Revert ''SafeMath: subtraction overflow''))"
  using assms by (simp add: safe_sub_def safe_sub_msg_exact)

text \<open>Dividing the wrapped product by the first factor gives the second one exactly when nothing was lost.\<close>

lemma safe_mul_exact [safe_math_simps]:
  assumes "is_uint256 a" "is_uint256 b"
  shows "safe_mul a b = (if a * b \<le> MAX_UINT_256 then Ok (a * b)
                         else Err (Revert ''SafeMath: multiplication overflow''))"
proof (cases "a = 0")
  case False
  then have a: "0 < a" using assms by (simp add: is_uint256_def)
  show ?thesis
  proof (cases "a * b \<le> MAX_UINT_256")
    case True
    then have "wrap_uint256 (a * b) = a * b"
      using assms by (simp add: wrap_uint256_def is_uint256_def)
    then show ?thesis using True a by (simp add: safe_mul_def)
  next
    case False
    have "(a * b) mod 2 ^ 256 < a * b"
    proof -
      have "(a * b) mod 2 ^ 256 < (2 ^ 256 :: int)" by simp
      with False show ?thesis by linarith
    qed
    then have "(a * b) mod 2 ^ 256 < b * a" by (simp add: mult.commute)
    then have "(a * b) mod 2 ^ 256 div a < b" using a by (simp only: div_less_iff_int)
    then show ?thesis using False a by (simp add: safe_mul_def wrap_uint256_def Let_def)
  qed
qed (simp add: safe_mul_def)

lemma safe_div_exact [safe_math_simps]:
  assumes "is_uint256 b"
  shows "safe_div a b =
    (if b = 0 then Err (Revert ''SafeMath: division by zero'') else Ok (a div b))"
  using assms by (simp add: safe_div_def safe_div_msg_def is_uint256_def)

lemma safe_mod_exact [safe_math_simps]:
  "safe_mod a b = (if b = 0 then Err (Revert ''SafeMath: modulo by zero'') else Ok (a mod b))"
  by (simp add: safe_mod_def safe_mod_msg_def)

subsection \<open>SignedSafeMath and SafeCast\<close>

locale signed_safe_math =
  fixes add sub mul div' :: "int \<Rightarrow> int \<Rightarrow> int result"
    and to_uint to_int :: "int \<Rightarrow> int result"
  assumes add_law: "is_int256 a \<Longrightarrow> is_int256 b \<Longrightarrow> add a b =
      (if is_int256 (a + b) then Ok (a + b) else Err (Revert ''SignedSafeMath: addition overflow''))"
    and sub_law: "is_int256 a \<Longrightarrow> is_int256 b \<Longrightarrow> sub a b =
      (if is_int256 (a - b) then Ok (a - b) else Err (Revert ''SignedSafeMath: subtraction overflow''))"
    and mul_law: "is_int256 a \<Longrightarrow> is_int256 b \<Longrightarrow> mul a b =
      (if is_int256 (a * b) then Ok (a * b) else Err (Revert ''SignedSafeMath: multiplication overflow''))"
    and div_law: "is_int256 a \<Longrightarrow> is_int256 b \<Longrightarrow> div' a b =
      (if b = 0 then Err (Revert ''SignedSafeMath: division by zero'')
       else if is_int256 (tdiv a b) then Ok (tdiv a b)
       else Err (Revert ''SignedSafeMath: division overflow''))"
    and to_uint_law: "is_int256 a \<Longrightarrow> to_uint a =
      (if 0 \<le> a then Ok a else Err (Revert ''SafeCast: value must be positive''))"
    and to_int_law: "is_uint256 a \<Longrightarrow> to_int a =
      (if a \<le> MAX_INT_256 then Ok a else Err (Revert ''SafeCast: value doesn't fit in an int256''))"
begin

lemma agrees:
  assumes "signed_safe_math add2 sub2 mul2 div2 to_uint2 to_int2"
    and "is_int256 a" "is_int256 b"
  shows "add2 a b = add a b" "sub2 a b = sub a b" "mul2 a b = mul a b" "div2 a b = div' a b"
    "to_uint2 a = to_uint a"
  using assms
  by (simp_all add: signed_safe_math.add_law signed_safe_math.sub_law signed_safe_math.mul_law
      signed_safe_math.div_law signed_safe_math.to_uint_law add_law sub_law mul_law div_law to_uint_law)

lemma add_typed: "is_int256 a \<Longrightarrow> is_int256 b \<Longrightarrow> add a b = Inr c \<Longrightarrow> is_int256 c \<and> c = a + b"
  by (simp add: add_law split: if_splits)

lemma mul_typed: "is_int256 a \<Longrightarrow> is_int256 b \<Longrightarrow> mul a b = Inr c \<Longrightarrow> is_int256 c \<and> c = a * b"
  by (simp add: mul_law split: if_splits)

lemma casts_inverse: "is_int256 a \<Longrightarrow> to_uint a = Inr u \<Longrightarrow> to_int u = Inr a"
  by (simp add: to_uint_law to_int_law is_int256_def is_uint256_def split: if_splits)

end

definition sadd :: "int \<Rightarrow> int \<Rightarrow> int result" where
  [safe_math_simps]: "sadd a b = (if is_int256 (a + b) then Ok (a + b)
     else Err (Revert ''SignedSafeMath: addition overflow''))"

definition ssub :: "int \<Rightarrow> int \<Rightarrow> int result" where
  [safe_math_simps]: "ssub a b = (if is_int256 (a - b) then Ok (a - b)
     else Err (Revert ''SignedSafeMath: subtraction overflow''))"

definition smul :: "int \<Rightarrow> int \<Rightarrow> int result" where
  [safe_math_simps]: "smul a b = (if is_int256 (a * b) then Ok (a * b)
     else Err (Revert ''SignedSafeMath: multiplication overflow''))"

definition sdiv :: "int \<Rightarrow> int \<Rightarrow> int result" where
  [safe_math_simps]: "sdiv a b =
     (if b = 0 then Err (Revert ''SignedSafeMath: division by zero'')
      else if is_int256 (tdiv a b) then Ok (tdiv a b)
      else Err (Revert ''SignedSafeMath: division overflow''))"

definition toUint256 :: "int \<Rightarrow> int result" where
  [safe_math_simps]: "toUint256 a =
     (if 0 \<le> a then Ok a else Err (Revert ''SafeCast: value must be positive''))"

definition toInt256 :: "int \<Rightarrow> int result" where
  [safe_math_simps]: "toInt256 a =
     (if a \<le> MAX_INT_256 then Ok a else Err (Revert ''SafeCast: value doesn't fit in an int256''))"

interpretation oz_signed: signed_safe_math sadd ssub smul sdiv toUint256 toInt256
  by unfold_locales (simp_all add: safe_math_simps)

lemma sadd_eq_Inr [result_simps]: "sadd a b = Inr c \<longleftrightarrow> is_int256 (a + b) \<and> c = a + b"
  by (auto simp: sadd_def)

lemma ssub_eq_Inr [result_simps]: "ssub a b = Inr c \<longleftrightarrow> is_int256 (a - b) \<and> c = a - b"
  by (auto simp: ssub_def)

lemma smul_eq_Inr [result_simps]: "smul a b = Inr c \<longleftrightarrow> is_int256 (a * b) \<and> c = a * b"
  by (auto simp: smul_def)

lemma sdiv_eq_Inr [result_simps]:
  "sdiv a b = Inr c \<longleftrightarrow> b \<noteq> 0 \<and> is_int256 (tdiv a b) \<and> c = tdiv a b"
  by (auto simp: sdiv_def)

lemma toUint256_eq_Inr [result_simps]: "toUint256 a = Inr c \<longleftrightarrow> 0 \<le> a \<and> c = a"
  by (auto simp: toUint256_def)

lemma toInt256_eq_Inr [result_simps]: "toInt256 a = Inr c \<longleftrightarrow> a \<le> MAX_INT_256 \<and> c = a"
  by (auto simp: toInt256_def)

subsection \<open>Successful checked operations, as equivalences\<close>

lemma safe_add_eq_Inr [result_simps]:
  "is_uint256 a \<Longrightarrow> is_uint256 b \<Longrightarrow>
   safe_add a b = Inr c \<longleftrightarrow> a + b \<le> MAX_UINT_256 \<and> c = a + b"
  by (auto simp: safe_add_exact)

lemma safe_sub_msg_eq_Inr [result_simps]:
  "is_uint256 a \<Longrightarrow> is_uint256 b \<Longrightarrow> safe_sub_msg a b msg = Inr c \<longleftrightarrow> b \<le> a \<and> c = a - b"
  by (auto simp: safe_sub_msg_exact)

lemma safe_sub_eq_Inr [result_simps]:
  "is_uint256 a \<Longrightarrow> is_uint256 b \<Longrightarrow> safe_sub a b = Inr c \<longleftrightarrow> b \<le> a \<and> c = a - b"
  by (auto simp: safe_sub_exact)

lemma safe_mul_eq_Inr [result_simps]:
  "is_uint256 a \<Longrightarrow> is_uint256 b \<Longrightarrow>
   safe_mul a b = Inr c \<longleftrightarrow> a * b \<le> MAX_UINT_256 \<and> c = a * b"
  by (auto simp: safe_mul_exact)

lemma safe_div_eq_Inr [result_simps]: "safe_div a b = Inr c \<longleftrightarrow> 0 < b \<and> c = a div b"
  by (auto simp: safe_div_def safe_div_msg_def)

text \<open>Ranges of sums, products and quotients of \<open>uint256\<close> values.\<close>

lemma is_uint256_0 [simp]: "is_uint256 0" and is_uint256_1 [simp]: "is_uint256 1"
  by (simp_all add: is_uint256_def)

lemma is_uint256_nonneg: "is_uint256 a \<Longrightarrow> 0 \<le> a"
  by (simp add: is_uint256_def)

lemma is_uint256_diff: "is_uint256 a \<Longrightarrow> is_uint256 b \<Longrightarrow> b \<le> a \<Longrightarrow> is_uint256 (a - b)"
  by (simp add: is_uint256_def)

lemma is_uint256_add: "is_uint256 a \<Longrightarrow> is_uint256 b \<Longrightarrow> a + b \<le> MAX_UINT_256 \<Longrightarrow> is_uint256 (a + b)"
  by (simp add: is_uint256_def)

lemma is_uint256_mult:
  "is_uint256 a \<Longrightarrow> is_uint256 b \<Longrightarrow> a * b \<le> MAX_UINT_256 \<Longrightarrow> is_uint256 (a * b)"
  by (simp add: is_uint256_def)

lemma is_uint256_div: "is_uint256 a \<Longrightarrow> 0 < b \<Longrightarrow> is_uint256 (a div b)"
proof -
  assume a: "is_uint256 a" and b: "0 < b"
  have "a div b \<le> a div 1" using a b by (intro zdiv_mono2) (auto simp: is_uint256_def)
  then show ?thesis using a b by (simp add: is_uint256_def pos_imp_zdiv_nonneg_iff)
qed

end
