(* ===== verification/ERC20.thy ===== *)
theory ERC20
  imports SafeMath
begin

section \<open>The ERC20 ledger\<close>

text \<open>
  The token base contract that \<open>SetToken\<close> and the token mocks inherit, translated from the copy in
  \<^verbatim>\<open>src/external/contracts/aave/v1/AaveTokenV2Mintable.sol\<close>. The state is a record, so that
  \<open>SetToken\<close> extends it the way the contract inherits it, and every operation is polymorphic in the
  extension. The first argument of an operation is \<open>msg.sender\<close> where the code reads it. Events are
  not part of the state; \<open>_beforeTokenTransfer\<close> is empty in this contract.

  The locale \<open>ledger\<close> is the accounting contract of a token (what mint, burn and transfer do to
  balances and supply); conservation of supply is proved once from it and holds for every
  interpretation.
\<close>

record erc20 =
  balances :: "address \<Rightarrow> int"
  allowances :: "address \<Rightarrow> address \<Rightarrow> int"
  totalSupply :: int
  token_name :: string
  token_symbol :: string
  token_decimals :: int

definition erc20_constructor :: "string \<Rightarrow> string \<Rightarrow> erc20" where
  "erc20_constructor nm smb =
     \<lparr>balances = (\<lambda>_. 0), allowances = (\<lambda>_ _. 0), totalSupply = 0,
      token_name = nm, token_symbol = smb, token_decimals = 18\<rparr>"

definition balanceOf :: "('z erc20_scheme) \<Rightarrow> address \<Rightarrow> int" where
  "balanceOf s account = balances s account"

definition allowance :: "('z erc20_scheme) \<Rightarrow> address \<Rightarrow> address \<Rightarrow> int" where
  "allowance s owner spender = allowances s owner spender"

definition erc20_approve_internal ::
  "address \<Rightarrow> address \<Rightarrow> int \<Rightarrow> 'z erc20_scheme \<Rightarrow> ('z erc20_scheme) result" where
  "erc20_approve_internal owner spender amount s =
     rbind (require (owner \<noteq> address_zero) ''ERC20: approve from the zero address'') (\<lambda>_.
     rbind (require (spender \<noteq> address_zero) ''ERC20: approve to the zero address'') (\<lambda>_.
     Ok (s\<lparr>allowances := (allowances s)(owner := (allowances s owner)(spender := amount))\<rparr>)))"

definition erc20_transfer_internal ::
  "address \<Rightarrow> address \<Rightarrow> int \<Rightarrow> 'z erc20_scheme \<Rightarrow> ('z erc20_scheme) result" where
  "erc20_transfer_internal sender recipient amount s =
     rbind (require (sender \<noteq> address_zero) ''ERC20: transfer from the zero address'') (\<lambda>_.
     rbind (require (recipient \<noteq> address_zero) ''ERC20: transfer to the zero address'') (\<lambda>_.
     rbind (safe_sub_msg (balances s sender) amount ''ERC20: transfer amount exceeds balance'') (\<lambda>b.
     let s1 = s\<lparr>balances := (balances s)(sender := b)\<rparr> in
     rbind (safe_add (balances s1 recipient) amount) (\<lambda>b'.
     Ok (s1\<lparr>balances := (balances s1)(recipient := b')\<rparr>)))))"

definition erc20_mint ::
  "address \<Rightarrow> int \<Rightarrow> 'z erc20_scheme \<Rightarrow> ('z erc20_scheme) result" where
  "erc20_mint account amount s =
     rbind (require (account \<noteq> address_zero) ''ERC20: mint to the zero address'') (\<lambda>_.
     rbind (safe_add (totalSupply s) amount) (\<lambda>supply.
     rbind (safe_add (balances s account) amount) (\<lambda>b.
     Ok (s\<lparr>totalSupply := supply, balances := (balances s)(account := b)\<rparr>))))"

definition erc20_burn ::
  "address \<Rightarrow> int \<Rightarrow> 'z erc20_scheme \<Rightarrow> ('z erc20_scheme) result" where
  "erc20_burn account amount s =
     rbind (require (account \<noteq> address_zero) ''ERC20: burn from the zero address'') (\<lambda>_.
     rbind (safe_sub_msg (balances s account) amount ''ERC20: burn amount exceeds balance'') (\<lambda>b.
     rbind (safe_sub (totalSupply s) amount) (\<lambda>supply.
     Ok (s\<lparr>balances := (balances s)(account := b), totalSupply := supply\<rparr>))))"

definition transfer ::
  "address \<Rightarrow> address \<Rightarrow> int \<Rightarrow> 'z erc20_scheme \<Rightarrow> ('z erc20_scheme) result" where
  "transfer msg_sender recipient amount s = erc20_transfer_internal msg_sender recipient amount s"

definition approve ::
  "address \<Rightarrow> address \<Rightarrow> int \<Rightarrow> 'z erc20_scheme \<Rightarrow> ('z erc20_scheme) result" where
  "approve msg_sender spender amount s = erc20_approve_internal msg_sender spender amount s"

definition transferFrom ::
  "address \<Rightarrow> address \<Rightarrow> address \<Rightarrow> int \<Rightarrow> 'z erc20_scheme \<Rightarrow> ('z erc20_scheme) result" where
  "transferFrom msg_sender sender recipient amount s =
     rbind (erc20_transfer_internal sender recipient amount s) (\<lambda>s1.
     rbind (safe_sub_msg (allowances s1 sender msg_sender) amount
              ''ERC20: transfer amount exceeds allowance'') (\<lambda>a.
     erc20_approve_internal sender msg_sender a s1))"

definition increaseAllowance ::
  "address \<Rightarrow> address \<Rightarrow> int \<Rightarrow> 'z erc20_scheme \<Rightarrow> ('z erc20_scheme) result" where
  "increaseAllowance msg_sender spender addedValue s =
     rbind (safe_add (allowances s msg_sender spender) addedValue) (\<lambda>a.
     erc20_approve_internal msg_sender spender a s)"

definition decreaseAllowance ::
  "address \<Rightarrow> address \<Rightarrow> int \<Rightarrow> 'z erc20_scheme \<Rightarrow> ('z erc20_scheme) result" where
  "decreaseAllowance msg_sender spender subtractedValue s =
     rbind (safe_sub_msg (allowances s msg_sender spender) subtractedValue
              ''ERC20: decreased allowance below zero'') (\<lambda>a.
     erc20_approve_internal msg_sender spender a s)"

subsection \<open>Sums over the accounts\<close>

definition total :: "(address \<Rightarrow> int) \<Rightarrow> int" where
  "total f = sum f {a. f a \<noteq> 0}"

lemma total_superset: "finite A \<Longrightarrow> {a. f a \<noteq> 0} \<subseteq> A \<Longrightarrow> total f = sum f A"
  unfolding total_def by (rule sum.mono_neutral_left) auto

lemma finite_support_upd: "finite {a. f a \<noteq> 0} \<Longrightarrow> finite {a. (f(x := v)) a \<noteq> 0}"
  by (rule finite_subset [of _ "insert x {a. f a \<noteq> 0}"]) auto

lemma total_upd:
  assumes "finite {a. f a \<noteq> 0}"
  shows "total (f(x := v)) = total f - f x + v"
proof -
  let ?A = "insert x {a. f a \<noteq> 0}"
  have "total (f(x := v)) = sum (f(x := v)) ?A" using assms by (intro total_superset) auto
  also have "\<dots> = v + sum f (?A - {x})" using assms by (subst sum.remove [of _ x]) auto
  also have "sum f (?A - {x}) = sum f ?A - f x" using assms by (subst sum.remove [of ?A x]) auto
  also have "sum f ?A = total f" using assms by (intro total_superset [symmetric]) auto
  finally show ?thesis by (simp del: fun_upd_apply)
qed

lemma le_total:
  assumes "finite {a. f a \<noteq> 0}" "\<And>a. 0 \<le> f a"
  shows "f x \<le> total f"
proof -
  have "f x \<le> sum f (insert x {a. f a \<noteq> 0})"
    using assms by (intro member_le_sum) auto
  also have "\<dots> = total f" using assms(1) by (intro total_superset [symmetric]) auto
  finally show ?thesis .
qed

definition conserved :: "(address \<Rightarrow> int) \<Rightarrow> int \<Rightarrow> bool" where
  "conserved f supply \<longleftrightarrow> finite {a. f a \<noteq> 0} \<and> total f = supply"

lemma conserved_credit: "conserved f n \<Longrightarrow> conserved (f(x := f x + k)) (n + k)"
  by (simp add: conserved_def total_upd finite_support_upd del: fun_upd_apply)

lemma conserved_debit: "conserved f n \<Longrightarrow> conserved (f(x := f x - k)) (n - k)"
  by (simp add: conserved_def total_upd finite_support_upd del: fun_upd_apply)

subsection \<open>The accounting interface\<close>

locale ledger =
  fixes bal :: "'s \<Rightarrow> address \<Rightarrow> int"
    and supply_of :: "'s \<Rightarrow> int"
    and typed :: "'s \<Rightarrow> bool"
    and mint burn :: "address \<Rightarrow> int \<Rightarrow> 's \<Rightarrow> 's result"
    and move :: "address \<Rightarrow> address \<Rightarrow> int \<Rightarrow> 's \<Rightarrow> 's result"
  assumes mint_law: "typed s \<Longrightarrow> is_uint256 n \<Longrightarrow> mint x n s = Inr s' \<Longrightarrow>
      bal s' = (bal s)(x := bal s x + n) \<and> supply_of s' = supply_of s + n \<and> typed s'"
    and burn_law: "typed s \<Longrightarrow> is_uint256 n \<Longrightarrow> burn x n s = Inr s' \<Longrightarrow>
      bal s' = (bal s)(x := bal s x - n) \<and> supply_of s' = supply_of s - n \<and> typed s'"
    and move_law: "typed s \<Longrightarrow> is_uint256 n \<Longrightarrow> move x y n s = Inr s' \<Longrightarrow>
      bal s' = ((bal s)(x := bal s x - n))(y := ((bal s)(x := bal s x - n)) y + n)
      \<and> supply_of s' = supply_of s \<and> typed s'"
begin

lemma mint_conserves:
  "typed s \<Longrightarrow> is_uint256 n \<Longrightarrow> mint x n s = Inr s' \<Longrightarrow> conserved (bal s) (supply_of s) \<Longrightarrow>
   conserved (bal s') (supply_of s')"
  using mint_law [of s n x s'] conserved_credit by simp

lemma burn_conserves:
  "typed s \<Longrightarrow> is_uint256 n \<Longrightarrow> burn x n s = Inr s' \<Longrightarrow> conserved (bal s) (supply_of s) \<Longrightarrow>
   conserved (bal s') (supply_of s')"
  using burn_law [of s n x s'] conserved_debit by simp

lemma move_conserves:
  assumes "typed s" "is_uint256 n" "move x y n s = Inr s'" "conserved (bal s) (supply_of s)"
  shows "conserved (bal s') (supply_of s')"
proof -
  have "conserved ((bal s)(x := bal s x - n)) (supply_of s - n)" using assms(4) by (rule conserved_debit)
  from conserved_credit [OF this, of y n] show ?thesis using move_law [OF assms(1-3)] by simp
qed

end

definition erc20_typed :: "'z erc20_scheme \<Rightarrow> bool" where
  "erc20_typed s \<longleftrightarrow> (\<forall>a. is_uint256 (balances s a)) \<and> is_uint256 (totalSupply s) \<and>
     (\<forall>a b. is_uint256 (allowances s a b))"

interpretation erc20: ledger balances totalSupply erc20_typed erc20_mint erc20_burn erc20_transfer_internal
proof
  fix s s' :: "'z erc20_scheme" and n x
  assume t: "erc20_typed s" "is_uint256 n" and e: "erc20_mint x n s = Inr s'"
  then have b: "is_uint256 (balances s x)" "is_uint256 (totalSupply s)" by (simp_all add: erc20_typed_def)
  from e b t(2) show "balances s' = (balances s)(x := balances s x + n) \<and>
      totalSupply s' = totalSupply s + n \<and> erc20_typed s'"
    using t by (auto simp: erc20_mint_def result_simps erc20_typed_def is_uint256_add)
next
  fix s s' :: "'z erc20_scheme" and n x
  assume t: "erc20_typed s" "is_uint256 n" and e: "erc20_burn x n s = Inr s'"
  then have b: "is_uint256 (balances s x)" "is_uint256 (totalSupply s)" by (simp_all add: erc20_typed_def)
  from e b t(2) show "balances s' = (balances s)(x := balances s x - n) \<and>
      totalSupply s' = totalSupply s - n \<and> erc20_typed s'"
    using t by (auto simp: erc20_burn_def result_simps erc20_typed_def is_uint256_diff)
next
  fix s s' :: "'z erc20_scheme" and n x y
  assume t: "erc20_typed s" "is_uint256 n" and e: "erc20_transfer_internal x y n s = Inr s'"
  then have b: "is_uint256 (balances s x)" "is_uint256 (balances s y)"
    by (simp_all add: erc20_typed_def)
  from e b t(2) have le: "n \<le> balances s x"
    by (auto simp: erc20_transfer_internal_def result_simps)
  then have d: "is_uint256 (balances s x - n)" using b t(2) by (simp add: is_uint256_def)
  have r: "is_uint256 (((balances s)(x := balances s x - n)) y)" using b d by simp
  have s': "s' = s\<lparr>balances := ((balances s)(x := balances s x - n))
      (y := ((balances s)(x := balances s x - n)) y + n)\<rparr>"
    and fits: "((balances s)(x := balances s x - n)) y + n \<le> MAX_UINT_256"
    using e b d r t(2) le
    by (auto simp: erc20_transfer_internal_def result_simps Let_def)
  have credit: "is_uint256 (((balances s)(x := balances s x - n)) y + n)"
    using r t(2) fits by (rule is_uint256_add)
  show "balances s' = ((balances s)(x := balances s x - n))
        (y := ((balances s)(x := balances s x - n)) y + n) \<and>
      totalSupply s' = totalSupply s \<and> erc20_typed s'"
    using t d credit by (auto simp: s' erc20_typed_def split: if_splits)
qed

subsection \<open>Delegated transfers\<close>

text \<open>
  \<open>transferFrom\<close> moves exactly the amount, lowers the allowance of the caller by exactly the amount,
  touches no other balance or allowance, and keeps the sum of all balances equal to the supply.
\<close>

lemma transferFrom_exact:
  assumes "erc20_typed s" "is_uint256 n" "conserved (balances s) (totalSupply s)" "x \<noteq> y"
    and "transferFrom sender x y n s = Inr s'"
  shows "balances s' = (balances s)(x := balances s x - n, y := balances s y + n) \<and> n \<le> balances s x
    \<and> allowances s' x sender = allowances s x sender - n \<and> n \<le> allowances s x sender
    \<and> (\<forall>p q. (p, q) \<noteq> (x, sender) \<longrightarrow> allowances s' p q = allowances s p q)
    \<and> totalSupply s' = totalSupply s \<and> conserved (balances s') (totalSupply s')"
proof -
  from assms(5) obtain s1 k where mv: "erc20_transfer_internal x y n s = Inr s1"
    and sub: "safe_sub_msg (allowances s1 x sender) n ''ERC20: transfer amount exceeds allowance'' = Inr k"
    and appr: "erc20_approve_internal x sender k s1 = Inr s'"
    by (auto simp: transferFrom_def rbind_eq_Inr)
  note law = erc20.move_law [OF assms(1,2) mv]
  then have t1: "is_uint256 (allowances s1 x sender)" by (simp add: erc20_typed_def)
  from sub have al: "n \<le> allowances s1 x sender" "k = allowances s1 x sender - n"
    using t1 assms(2) by (auto simp: safe_sub_msg_eq_Inr)
  from appr have s': "s' = s1\<lparr>allowances := (allowances s1)(x := (allowances s1 x)(sender := k))\<rparr>"
    by (auto simp: erc20_approve_internal_def rbind_eq_Inr)
  have same: "allowances s1 = allowances s" using mv by (auto simp: erc20_transfer_internal_def rbind_eq_Inr Let_def)
  have le: "n \<le> balances s x"
    using mv assms(1,2) by (auto simp: erc20_transfer_internal_def rbind_eq_Inr Let_def safe_sub_msg_eq_Inr erc20_typed_def)
  have "conserved (balances s1) (totalSupply s1)" by (rule erc20.move_conserves [OF assms(1,2) mv assms(3)])
  then show ?thesis using law le same al s' assms(4) by auto
qed

lemma transferFrom_exact_example:
  "\<exists>s'. transferFrom 3 1 2 5 ((erc20_constructor ''T'' ''T'')\<lparr>balances := (\<lambda>_. 0)(1 := 9), totalSupply := 9,
        allowances := (\<lambda>_ _. 0)(1 := (\<lambda>_. 0)(3 := 6))\<rparr>) = Inr s'
     \<and> balances s' 1 = 4 \<and> balances s' 2 = 5 \<and> allowances s' 1 3 = 1"
proof -
  define s where "s = (erc20_constructor ''T'' ''T'')\<lparr>balances := (\<lambda>_. 0)(1 := 9), totalSupply := 9,
        allowances := (\<lambda>_ _. 0)(1 := (\<lambda>_. 0)(3 := 6))\<rparr>"
  have t: "erc20_typed s" "is_uint256 5" by (auto simp: s_def erc20_typed_def erc20_constructor_def is_uint256_def)
  have "conserved (\<lambda>_::address. 0::int) 0" by (simp add: conserved_def total_def)
  from conserved_credit [OF this, of 1 9] have c: "conserved (balances s) (totalSupply s)" by (simp add: s_def)
  have "is_ok (transferFrom 3 1 2 5 s)" unfolding s_def by code_simp
  then obtain s' where "transferFrom 3 1 2 5 s = Inr s'" by (auto simp: is_ok_iff)
  with transferFrom_exact [OF t c _ this] show ?thesis by (auto simp: s_def erc20_constructor_def)
qed

end
