(* ===== verification/PreciseUnitMath.thy ===== *)
theory PreciseUnitMath
  imports SafeMath
begin

section \<open>PreciseUnitMath: fixed-point arithmetic with 18 decimals\<close>

text \<open>
  The library \<^verbatim>\<open>src/contracts/lib/PreciseUnitMath.sol\<close>. Overloaded functions carry the operand type
  in their name (\<open>preciseMul_uint\<close>, \<open>preciseMul_int\<close>). Every function is built from the checked
  operations of \<open>SafeMath\<close>; what Solidity leaves unchecked (\<open>result -= 1\<close>, \<open>++c\<close>, \<open>--c\<close>, unary minus)
  wraps with \<open>wrap_int256\<close>. The lemmas \<open>*_exact\<close> give each function as a closed form with its
  rounding: down for \<open>uint256\<close>, towards zero or towards minus infinity for \<open>int256\<close>, away from zero
  for the \<open>Ceil\<close> versions, together with every error branch.
\<close>

abbreviation PRECISE_UNIT :: int where
  "PRECISE_UNIT \<equiv> 10 ^ 18"

abbreviation PRECISE_UNIT_INT :: int where
  "PRECISE_UNIT_INT \<equiv> 10 ^ 18"

definition preciseUnit :: int where
  "preciseUnit = PRECISE_UNIT"

definition preciseUnitInt :: int where
  "preciseUnitInt = PRECISE_UNIT_INT"

definition maxUint256 :: int where
  "maxUint256 = MAX_UINT_256"

definition maxInt256 :: int where
  "maxInt256 = MAX_INT_256"

definition minInt256 :: int where
  "minInt256 = MIN_INT_256"

definition preciseMul_uint :: "int \<Rightarrow> int \<Rightarrow> int result" where
  "preciseMul_uint a b = rbind (safe_mul a b) (\<lambda>c. safe_div c PRECISE_UNIT)"

definition preciseMul_int :: "int \<Rightarrow> int \<Rightarrow> int result" where
  "preciseMul_int a b = rbind (smul a b) (\<lambda>c. sdiv c PRECISE_UNIT_INT)"

definition preciseMulCeil_uint :: "int \<Rightarrow> int \<Rightarrow> int result" where
  "preciseMulCeil_uint a b =
     (if a = 0 \<or> b = 0 then Ok 0
      else rbind (safe_mul a b) (\<lambda>c. rbind (safe_sub c 1) (\<lambda>d.
           rbind (safe_div d PRECISE_UNIT) (\<lambda>q. safe_add q 1))))"

definition preciseDiv_uint :: "int \<Rightarrow> int \<Rightarrow> int result" where
  "preciseDiv_uint a b = rbind (safe_mul a PRECISE_UNIT) (\<lambda>c. safe_div c b)"

definition preciseDiv_int :: "int \<Rightarrow> int \<Rightarrow> int result" where
  "preciseDiv_int a b = rbind (smul a PRECISE_UNIT_INT) (\<lambda>c. sdiv c b)"

definition preciseDivCeil_uint :: "int \<Rightarrow> int \<Rightarrow> int result" where
  "preciseDivCeil_uint a b =
     rbind (require (b \<noteq> 0) ''Cant divide by 0'') (\<lambda>_.
     if a > 0 then
       rbind (safe_mul a PRECISE_UNIT) (\<lambda>c. rbind (safe_sub c 1) (\<lambda>d.
       rbind (safe_div d b) (\<lambda>q. safe_add q 1)))
     else Ok 0)"

definition preciseDivCeil_int :: "int \<Rightarrow> int \<Rightarrow> int result" where
  "preciseDivCeil_int a0 b =
     rbind (require (b \<noteq> 0) ''Cant divide by 0'') (\<lambda>_.
     rbind (smul a0 PRECISE_UNIT_INT) (\<lambda>a.
     rbind (sdiv a b) (\<lambda>c.
     if tmod a b \<noteq> 0
     then Ok (if (a XOR b) > 0 then wrap_int256 (c + 1) else wrap_int256 (c - 1))
     else Ok c)))"

definition divDown_int :: "int \<Rightarrow> int \<Rightarrow> int result" where
  "divDown_int a b =
     rbind (require (b \<noteq> 0) ''Cant divide by 0'') (\<lambda>_.
     rbind (require (a \<noteq> MIN_INT_256 \<or> b \<noteq> -1) ''Invalid input'') (\<lambda>_.
     rbind (sdiv a b) (\<lambda>result.
     if (a XOR b) < 0 \<and> tmod a b \<noteq> 0 then Ok (wrap_int256 (result - 1)) else Ok result)))"

definition conservativePreciseMul :: "int \<Rightarrow> int \<Rightarrow> int result" where
  "conservativePreciseMul a b = rbind (smul a b) (\<lambda>c. divDown_int c PRECISE_UNIT_INT)"

definition conservativePreciseDiv :: "int \<Rightarrow> int \<Rightarrow> int result" where
  "conservativePreciseDiv a b = rbind (smul a PRECISE_UNIT_INT) (\<lambda>c. divDown_int c b)"

text \<open>The loop of \<open>safePower\<close>: \<open>n\<close> iterations are left and \<open>result\<close> is the running product.\<close>

fun safePower_loop :: "int \<Rightarrow> nat \<Rightarrow> int \<Rightarrow> int result" where
  "safePower_loop a 0 result = Ok result"
| "safePower_loop a (Suc n) result = rbind (safe_mul result a) (safePower_loop a n)"

definition safePower :: "int \<Rightarrow> int \<Rightarrow> int result" where
  "safePower a pow =
     rbind (require (a > 0) ''Value must be positive'') (\<lambda>_. safePower_loop a (nat pow) 1)"

definition approximatelyEquals :: "int \<Rightarrow> int \<Rightarrow> int \<Rightarrow> bool result" where
  "approximatelyEquals a b rng =
     rbind (safe_add b rng) (\<lambda>hi.
     if a \<le> hi then rbind (safe_sub b rng) (\<lambda>lo. Ok (a \<ge> lo)) else Ok False)"

definition abs_int :: "int \<Rightarrow> int result" where
  "abs_int a = (if a \<ge> 0 then toUint256 a else rbind (smul a (-1)) toUint256)"

definition neg_int :: "int \<Rightarrow> int result" where
  "neg_int a =
     rbind (require (a > MIN_INT_256) ''Inversion overflow'') (\<lambda>_. Ok (wrap_int256 (- a)))"

subsection \<open>Closed forms on uint256\<close>

lemma is_uint256_unit [simp]: "is_uint256 1000000000000000000"
  by (simp add: is_uint256_def)

lemma is_int256_unit [simp]: "is_int256 1000000000000000000"
  by (simp add: is_int256_def)

lemma preciseMul_uint_exact [safe_math_simps]:
  assumes "is_uint256 a" "is_uint256 b"
  shows "preciseMul_uint a b =
    (if a * b \<le> MAX_UINT_256 then Ok (a * b div PRECISE_UNIT)
     else Err (Revert ''SafeMath: multiplication overflow''))"
  using assms by (simp add: preciseMul_uint_def safe_mul_exact safe_div_exact)

lemma preciseMul_uint_eq_Inr [result_simps]:
  "is_uint256 a \<Longrightarrow> is_uint256 b \<Longrightarrow>
   preciseMul_uint a b = Inr c \<longleftrightarrow> a * b \<le> MAX_UINT_256 \<and> c = a * b div PRECISE_UNIT"
  by (auto simp: preciseMul_uint_exact)

lemma preciseDiv_uint_exact [safe_math_simps]:
  assumes "is_uint256 a" "is_uint256 b"
  shows "preciseDiv_uint a b =
    (if MAX_UINT_256 < a * PRECISE_UNIT then Err (Revert ''SafeMath: multiplication overflow'')
     else if b = 0 then Err (Revert ''SafeMath: division by zero'')
     else Ok (a * PRECISE_UNIT div b))"
  using assms by (simp add: preciseDiv_uint_def safe_mul_exact safe_div_exact)

lemma preciseDiv_uint_eq_Inr [result_simps]:
  "is_uint256 a \<Longrightarrow> is_uint256 b \<Longrightarrow> preciseDiv_uint a b = Inr c \<longleftrightarrow>
   a * PRECISE_UNIT \<le> MAX_UINT_256 \<and> b \<noteq> 0 \<and> c = a * PRECISE_UNIT div b"
  by (auto simp: preciseDiv_uint_exact)

text \<open>\<open>(x - 1) div u + 1\<close> is the quotient rounded up, for a positive \<open>x\<close>.\<close>

lemma ceil_div_pred: "0 < (u::int) \<Longrightarrow> (x - 1) div u + 1 = - ((- x) div u)"
proof -
  assume u: "0 < u"
  have k: "(x - 1) div u < k \<longleftrightarrow> - k \<le> (- x) div u" for k
    using u by (auto simp: div_less_iff_int le_div_iff_int)
  show ?thesis using k [of "(x - 1) div u + 1"] k [of "- ((- x) div u)"] by linarith
qed

lemma pred_div_less_bound:
  assumes "0 < x" "x \<le> MAX_UINT_256" "0 < (u::int)"
  shows "(x - 1) div u + 1 \<le> MAX_UINT_256"
proof -
  have "(x - 1) div u \<le> (x - 1) div 1" using assms by (intro zdiv_mono2) auto
  then show ?thesis using assms(2) by simp
qed

lemma preciseMulCeil_uint_exact [safe_math_simps]:
  assumes "is_uint256 a" "is_uint256 b"
  shows "preciseMulCeil_uint a b =
    (if a * b \<le> MAX_UINT_256 then Ok (- ((- (a * b)) div PRECISE_UNIT))
     else Err (Revert ''SafeMath: multiplication overflow''))"
proof (cases "a = 0 \<or> b = 0")
  case False
  with assms have ab: "0 < a * b" by (auto simp: is_uint256_def)
  show ?thesis
  proof (cases "a * b \<le> MAX_UINT_256")
    case True
    with ab assms have t: "is_uint256 (a * b)" "is_uint256 (a * b - 1)"
      by (auto simp: is_uint256_def)
    have "safe_add ((a * b - 1) div PRECISE_UNIT) 1 = Ok ((a * b - 1) div PRECISE_UNIT + 1)"
      using pred_div_less_bound [OF ab True, of PRECISE_UNIT] is_uint256_div [OF t(2), of PRECISE_UNIT]
      by (simp add: safe_add_exact)
    then show ?thesis using True False t ab assms
      by (simp add: preciseMulCeil_uint_def safe_mul_exact safe_sub_exact safe_div_exact ceil_div_pred)
  qed (use False assms in \<open>simp add: preciseMulCeil_uint_def safe_mul_exact\<close>)
qed (auto simp: preciseMulCeil_uint_def)

lemma preciseDivCeil_uint_exact [safe_math_simps]:
  assumes "is_uint256 a" "is_uint256 b"
  shows "preciseDivCeil_uint a b =
    (if b = 0 then Err (Revert ''Cant divide by 0'')
     else if a * PRECISE_UNIT \<le> MAX_UINT_256 then Ok (- ((- (a * PRECISE_UNIT)) div b))
     else Err (Revert ''SafeMath: multiplication overflow''))"
proof (cases "b = 0 \<or> a = 0")
  case False
  with assms have b: "0 < b" and a: "0 < a" by (auto simp: is_uint256_def)
  show ?thesis
  proof (cases "a * PRECISE_UNIT \<le> MAX_UINT_256")
    case True
    with a assms have t: "is_uint256 (a * PRECISE_UNIT)" "is_uint256 (a * PRECISE_UNIT - 1)"
      by (auto simp: is_uint256_def)
    have "safe_add ((a * PRECISE_UNIT - 1) div b) 1 = Ok ((a * PRECISE_UNIT - 1) div b + 1)"
      using pred_div_less_bound [of "a * PRECISE_UNIT" b] is_uint256_div [OF t(2) b] True a b
      by (simp add: safe_add_exact)
    then show ?thesis using True False t a b assms
      by (simp add: preciseDivCeil_uint_def safe_mul_exact safe_sub_exact safe_div_exact ceil_div_pred)
  qed (use False a assms in \<open>simp add: preciseDivCeil_uint_def safe_mul_exact\<close>)
qed (auto simp: preciseDivCeil_uint_def)

subsection \<open>Closed forms on int256\<close>

lemma tdiv_in_range:
  assumes "is_int256 a" "b \<noteq> 0" "\<not> (a = MIN_INT_256 \<and> b = -1)"
  shows "is_int256 (tdiv a b)"
proof (cases "b = -1")
  case True
  then have "tdiv a b = - a" by (simp add: tdiv_def sgn_if)
  then show ?thesis using assms True by (auto simp: is_int256_def)
next
  case False
  show ?thesis
  proof (cases "b = 1")
    case True
    then have "tdiv a b = a" by (simp add: tdiv_def sgn_if)
    then show ?thesis using assms by simp
  next
    case b1: False
    have "2 \<le> \<bar>b\<bar>" using assms(2) False b1 by linarith
    then have "\<bar>a\<bar> div \<bar>b\<bar> \<le> \<bar>a\<bar> div 2" by (intro zdiv_mono2) auto
    also have "\<dots> \<le> 2 ^ 254" using assms(1) by (auto simp: is_int256_def abs_if)
    finally have "\<bar>tdiv a b\<bar> \<le> 2 ^ 254" by (simp add: abs_tdiv)
    then show ?thesis by (auto simp: is_int256_def)
  qed
qed

lemma tdiv_inexact_small:
  assumes "is_int256 a" "b \<noteq> 0" "\<not> b dvd a"
  shows "\<bar>tdiv a b\<bar> \<le> 2 ^ 254"
proof -
  have "2 \<le> \<bar>b\<bar>"
  proof (rule ccontr)
    assume "\<not> 2 \<le> \<bar>b\<bar>"
    with assms(2) have "b = 1 \<or> b = -1" by linarith
    with assms(3) show False by auto
  qed
  then have "\<bar>a\<bar> div \<bar>b\<bar> \<le> \<bar>a\<bar> div 2" by (intro zdiv_mono2) auto
  also have "\<dots> \<le> 2 ^ 254" using assms(1) by (auto simp: is_int256_def abs_if)
  finally show ?thesis by (simp add: abs_tdiv)
qed

lemma divDown_int_exact [safe_math_simps]:
  assumes a: "is_int256 a" and b: "is_int256 b"
  shows "divDown_int a b =
    (if b = 0 then Err (Revert ''Cant divide by 0'')
     else if a = MIN_INT_256 \<and> b = -1 then Err (Revert ''Invalid input'')
     else Ok (a div b))"
proof (cases "b = 0 \<or> a = MIN_INT_256 \<and> b = -1")
  case False
  then have b0: "b \<noteq> 0" and r: "is_int256 (tdiv a b)" using tdiv_in_range [OF a] by auto
  show ?thesis
  proof (cases "(a < 0) \<noteq> (b < 0) \<and> \<not> b dvd a")
    case True
    then have "a \<noteq> 0" by auto
    with True b0 have "tdiv a b = a div b + 1" by (subst tdiv_opposite_sign) auto
    moreover have "is_int256 (tdiv a b - 1)"
      using tdiv_inexact_small [OF a b0] True by (auto simp: is_int256_def)
    ultimately show ?thesis using False True b0 r
      by (simp add: divDown_int_def sdiv_def xor_neg_iff tmod_eq_0_iff wrap_int256_id)
  next
    case sign: False
    have "tdiv a b = a div b"
    proof (cases "b dvd a")
      case True
      then obtain k where "a = b * k" by (auto elim: dvdE)
      then show ?thesis using b0 tmod_eq_0_iff [OF b0, of a] by (simp add: tmod_def)
    next
      case False
      then have "a \<noteq> 0" by auto
      with sign False b0 show ?thesis by (subst tdiv_same_sign) auto
    qed
    then show ?thesis using False sign b0 r
      by (auto simp: divDown_int_def sdiv_def xor_neg_iff tmod_eq_0_iff)
  qed
qed (auto simp: divDown_int_def)

lemma conservativePreciseMul_exact [safe_math_simps]:
  assumes "is_int256 a" "is_int256 b"
  shows "conservativePreciseMul a b =
    (if is_int256 (a * b) then Ok (a * b div PRECISE_UNIT_INT)
     else Err (Revert ''SignedSafeMath: multiplication overflow''))"
  using assms by (simp add: conservativePreciseMul_def smul_def divDown_int_exact)

lemma conservativePreciseDiv_exact [safe_math_simps]:
  assumes "is_int256 a" "is_int256 b"
  shows "conservativePreciseDiv a b =
    (if \<not> is_int256 (a * PRECISE_UNIT_INT) then Err (Revert ''SignedSafeMath: multiplication overflow'')
     else if b = 0 then Err (Revert ''Cant divide by 0'')
     else if a * PRECISE_UNIT_INT = MIN_INT_256 \<and> b = -1 then Err (Revert ''Invalid input'')
     else Ok (a * PRECISE_UNIT_INT div b))"
  using assms by (simp add: conservativePreciseDiv_def smul_def divDown_int_exact)

text \<open>\<open>-(2 ^ 255)\<close> is no multiple of \<open>10 ^ 18\<close>, so the last error branch is never taken.\<close>

lemma unit_multiple_not_min: "a * PRECISE_UNIT_INT \<noteq> MIN_INT_256"
proof
  assume "a * PRECISE_UNIT_INT = MIN_INT_256"
  then have "MIN_INT_256 = 5 * (a * 200000000000000000)" by simp
  then have "MIN_INT_256 mod 5 = 0" by (metis mod_mult_self1_is_0)
  then show False by simp
qed

lemma preciseMul_int_exact [safe_math_simps]:
  assumes "is_int256 a" "is_int256 b"
  shows "preciseMul_int a b =
    (if is_int256 (a * b) then Ok (tdiv (a * b) PRECISE_UNIT_INT)
     else Err (Revert ''SignedSafeMath: multiplication overflow''))"
  using assms tdiv_in_range [of "a * b" PRECISE_UNIT_INT]
  by (simp add: preciseMul_int_def smul_def sdiv_def)

lemma preciseDiv_int_exact [safe_math_simps]:
  assumes "is_int256 a" "is_int256 b"
  shows "preciseDiv_int a b =
    (if \<not> is_int256 (a * PRECISE_UNIT_INT) then Err (Revert ''SignedSafeMath: multiplication overflow'')
     else if b = 0 then Err (Revert ''SignedSafeMath: division by zero'')
     else Ok (tdiv (a * PRECISE_UNIT_INT) b))"
  using assms tdiv_in_range [of "a * PRECISE_UNIT_INT" b] unit_multiple_not_min [of a]
  by (simp add: preciseDiv_int_def smul_def sdiv_def)

text \<open>Division rounded away from zero.\<close>

definition adiv :: "int \<Rightarrow> int \<Rightarrow> int" where
  "adiv a b = sgn a * sgn b * (- ((- \<bar>a\<bar>) div \<bar>b\<bar>))"

lemma adiv_tdiv:
  assumes "b \<noteq> 0"
  shows "adiv a b = (if b dvd a then tdiv a b else if (a < 0) = (b < 0) then tdiv a b + 1 else tdiv a b - 1)"
proof -
  have "- ((- \<bar>a\<bar>) div \<bar>b\<bar>) = (if b dvd a then \<bar>a\<bar> div \<bar>b\<bar> else \<bar>a\<bar> div \<bar>b\<bar> + 1)"
    using assms by (subst div_ceiling_pos) auto
  moreover have "\<not> b dvd a \<Longrightarrow> sgn a * sgn b = (if (a < 0) = (b < 0) then 1 else -1)"
    using assms by (auto simp: sgn_if)
  ultimately show ?thesis by (auto simp: adiv_def tdiv_def distrib_left)
qed

lemma preciseDivCeil_int_exact [safe_math_simps]:
  assumes "is_int256 a" "is_int256 b"
  shows "preciseDivCeil_int a b =
    (if b = 0 then Err (Revert ''Cant divide by 0'')
     else if \<not> is_int256 (a * PRECISE_UNIT_INT) then Err (Revert ''SignedSafeMath: multiplication overflow'')
     else Ok (adiv (a * PRECISE_UNIT_INT) b))"
proof (cases "b = 0 \<or> \<not> is_int256 (a * PRECISE_UNIT_INT)")
  case False
  define x where "x = a * PRECISE_UNIT_INT"
  with False have b0: "b \<noteq> 0" and x: "is_int256 x" by auto
  have r: "is_int256 (tdiv x b)"
    using tdiv_in_range [OF x b0] unit_multiple_not_min [of a] by (auto simp: x_def)
  have w: "\<not> b dvd x \<Longrightarrow> wrap_int256 (tdiv x b + 1) = tdiv x b + 1 \<and> wrap_int256 (tdiv x b - 1) = tdiv x b - 1"
    using tdiv_inexact_small [OF x b0] by (auto simp: is_int256_def intro!: wrap_int256_id)
  have unfold: "preciseDivCeil_int a b =
      (if tmod x b \<noteq> 0
       then Ok (if (x XOR b) > 0 then wrap_int256 (tdiv x b + 1) else wrap_int256 (tdiv x b - 1))
       else Ok (tdiv x b))"
    using b0 x r by (simp add: preciseDivCeil_int_def smul_def sdiv_def x_def)
  have "preciseDivCeil_int a b = Ok (adiv x b)"
  proof (cases "b dvd x")
    case True
    then show ?thesis using unfold b0 by (simp add: adiv_tdiv [OF b0] tmod_eq_0_iff)
  next
    case inexact: False
    then have "x \<noteq> b" by auto
    then show ?thesis using unfold b0 inexact w
      by (simp add: adiv_tdiv [OF b0] tmod_eq_0_iff xor_pos_iff)
  qed
  then show ?thesis using False by (simp add: x_def)
qed (auto simp: preciseDivCeil_int_def smul_def)

subsection \<open>Powers, comparison, absolute value\<close>

lemma safePower_loop_exact:
  assumes "1 \<le> a" "is_uint256 a" "1 \<le> r" "is_uint256 r"
  shows "safePower_loop a n r =
    (if r * a ^ n \<le> MAX_UINT_256 then Ok (r * a ^ n)
     else Err (Revert ''SafeMath: multiplication overflow''))"
  using assms(3,4)
proof (induction n arbitrary: r)
  case 0
  then show ?case by (simp add: is_uint256_def)
next
  case (Suc n)
  show ?case
  proof (cases "r * a \<le> MAX_UINT_256")
    case True
    then have "is_uint256 (r * a)" using Suc.prems assms by (simp add: is_uint256_mult)
    moreover have "1 * 1 \<le> r * a" using Suc.prems assms by (intro mult_mono) auto
    then have "1 \<le> r * a" by simp
    ultimately have "is_uint256 (r * a)" "1 \<le> r * a" by simp_all
    then show ?thesis using Suc.IH [of "r * a"] Suc.prems assms True
      by (simp add: safe_mul_exact mult.assoc)
  next
    case False
    have "r * a * 1 \<le> r * a * a ^ n"
      using Suc.prems assms by (intro mult_left_mono) (auto simp: one_le_power)
    then have "\<not> r * a ^ Suc n \<le> MAX_UINT_256" using False by (simp add: mult.assoc)
    then show ?thesis using False Suc.prems assms by (simp add: safe_mul_exact)
  qed
qed

lemma safePower_exact:
  assumes "is_uint256 a" "is_uint256 pow"
  shows "safePower a pow =
    (if a = 0 then Err (Revert ''Value must be positive'')
     else if a ^ nat pow \<le> MAX_UINT_256 then Ok (a ^ nat pow)
     else Err (Revert ''SafeMath: multiplication overflow''))"
  using assms safePower_loop_exact [of a 1 "nat pow"]
  by (auto simp: safePower_def is_uint256_def require_def)

lemma approximatelyEquals_exact:
  assumes "is_uint256 a" "is_uint256 b" "is_uint256 rng"
  shows "approximatelyEquals a b rng =
    (if MAX_UINT_256 < b + rng then Err (Revert ''SafeMath: addition overflow'')
     else if b + rng < a then Ok False
     else if b < rng then Err (Revert ''SafeMath: subtraction overflow'')
     else Ok (\<bar>a - b\<bar> \<le> rng))"
  using assms by (auto simp: approximatelyEquals_def safe_add_exact safe_sub_exact)

lemma abs_int_exact [safe_math_simps]:
  assumes "is_int256 a"
  shows "abs_int a = (if a = MIN_INT_256 then Err (Revert ''SignedSafeMath: multiplication overflow'')
                      else Ok \<bar>a\<bar>)"
  using assms by (auto simp: abs_int_def smul_def toUint256_def is_int256_def)

lemma neg_int_exact:
  assumes "is_int256 a"
  shows "neg_int a = (if a = MIN_INT_256 then Err (Revert ''Inversion overflow'') else Ok (- a))"
  using assms by (auto simp: neg_int_def is_int256_def require_def wrap_int256_def)

subsection \<open>Rounding brackets the exact value\<close>

text \<open>
  Rounding down and rounding up bracket the exact quotient: on unsigned arguments for which both
  multiplications return, the scaled results lie on either side of the exact product, differ by at
  most one, and are equal exactly when the product is a multiple of the unit.
\<close>

lemma precise_mul_bracket:
  assumes "is_uint256 a" "is_uint256 b" "preciseMul_uint a b = Inr lo" "preciseMulCeil_uint a b = Inr hi"
  shows "lo * PRECISE_UNIT \<le> a * b \<and> a * b \<le> hi * PRECISE_UNIT \<and> lo \<le> hi \<and> hi \<le> lo + 1
    \<and> (lo = hi \<longleftrightarrow> PRECISE_UNIT dvd a * b)"
proof -
  let ?U = "PRECISE_UNIT :: int"
  have nn: "0 \<le> a" "0 \<le> b" using assms(1,2) by (auto simp: is_uint256_def)
  have lo: "lo = a * b div ?U" using assms(1-3) by (simp add: preciseMul_uint_exact split: if_splits)
  have hi: "hi = - ((- (a * b)) div ?U)"
    using assms(1,2,4) by (simp add: preciseMulCeil_uint_exact split: if_splits)
  have "- ((- (a * b)) div ?U) = (if ?U dvd a * b then a * b div ?U else a * b div ?U + 1)"
    by (rule div_ceiling_pos) simp
  then have hi': "hi = (if ?U dvd a * b then lo else lo + 1)" using hi lo by simp
  have "lo * ?U \<le> a * b" "a * b < (lo + 1) * ?U"
    unfolding lo using div_mult_le_int [of ?U "a * b"] less_div_mult_int [of ?U "a * b"] by simp_all
  moreover have "?U dvd a * b \<Longrightarrow> lo * ?U = a * b" unfolding lo by (rule dvd_div_mult_self)
  ultimately show ?thesis using hi' by (auto split: if_splits)
qed

lemma precise_mul_bracket_example:
  "\<exists>lo hi. preciseMul_uint 3 5 = Inr lo \<and> preciseMulCeil_uint 3 5 = Inr hi \<and> hi \<le> lo + 1 \<and> lo \<noteq> hi"
proof -
  have v: "preciseMul_uint 3 5 = Inr 0" "preciseMulCeil_uint 3 5 = Inr 1" by code_simp+
  have "is_uint256 3" "is_uint256 5" by (simp_all add: is_uint256_def)
  from precise_mul_bracket [OF this v] v show ?thesis by auto
qed

subsection \<open>Results stay in their type\<close>

lemma sdiv_typed: "is_int256 a \<Longrightarrow> sdiv a b = Inr c \<Longrightarrow> is_int256 c"
  using tdiv_in_range [of a b] by (auto simp: sdiv_eq_Inr)

lemma safe_ops_typed:
  assumes "is_uint256 a" "is_uint256 b"
  shows "safe_add a b = Inr c \<Longrightarrow> is_uint256 c" "safe_sub a b = Inr c \<Longrightarrow> is_uint256 c"
    "safe_mul a b = Inr c \<Longrightarrow> is_uint256 c" "safe_div a b = Inr c \<Longrightarrow> is_uint256 c"
  using assms by (auto simp: safe_add_eq_Inr safe_sub_eq_Inr safe_mul_eq_Inr safe_div_eq_Inr
      intro: is_uint256_add is_uint256_diff is_uint256_mult is_uint256_div)

text \<open>The two shapes of the unsigned code: multiply and divide, and the same rounded up.\<close>

lemma mul_div_typed:
  assumes "is_uint256 a" "is_uint256 b" "is_uint256 d" "rbind (safe_mul a b) (\<lambda>c. safe_div c d) = Inr r"
  shows "is_uint256 r"
proof -
  obtain c where c: "safe_mul a b = Inr c" "safe_div c d = Inr r" using assms(4) by (auto simp: rbind_eq_Inr)
  show ?thesis by (rule safe_ops_typed(4) [OF safe_ops_typed(3) [OF assms(1,2) c(1)] assms(3) c(2)])
qed

lemma mul_div_up_typed:
  assumes "is_uint256 a" "is_uint256 b" "is_uint256 e"
    "rbind (safe_mul a b) (\<lambda>c. rbind (safe_sub c 1) (\<lambda>d. rbind (safe_div d e) (\<lambda>q. safe_add q 1))) = Inr r"
  shows "is_uint256 r"
proof -
  obtain c d q where st: "safe_mul a b = Inr c" "safe_sub c 1 = Inr d" "safe_div d e = Inr q" "safe_add q 1 = Inr r"
    using assms(4) by (auto simp: rbind_eq_Inr)
  have "is_uint256 d" by (rule safe_ops_typed(2) [OF safe_ops_typed(3) [OF assms(1,2) st(1)] is_uint256_1 st(2)])
  from safe_ops_typed(1) [OF safe_ops_typed(4) [OF this assms(3) st(3)] is_uint256_1 st(4)] show ?thesis .
qed

lemma divDown_typed: "is_int256 a \<Longrightarrow> divDown_int a b = Inr c \<Longrightarrow> is_int256 c"
  by (auto simp: divDown_int_def rbind_eq_Inr require_eq_Inr is_int256_wrap dest: sdiv_typed split: if_splits)

end
