(* ===== verification/AddressArrayUtils.thy ===== *)
theory AddressArrayUtils
  imports Prelude "HOL-Library.Multiset"
begin

section \<open>AddressArrayUtils: address arrays as sets\<close>

text \<open>
  The library \<^verbatim>\<open>src/contracts/lib/AddressArrayUtils.sol\<close>. Indices are array positions (\<open>nat\<close>); the
  index returned by \<open>indexOf\<close> is a \<open>uint256\<close>, \<open>uint256(-1)\<close> when the element is absent. The two
  removal functions are related to the list operations of HOL: \<open>remove\<close> keeps the order
  (\<open>remove1\<close>), \<open>removeStorage\<close> moves the last element into the gap.
\<close>

fun indexOf_from :: "address list \<Rightarrow> address \<Rightarrow> nat \<Rightarrow> int \<times> bool" where
  "indexOf_from [] a i = (wrap_uint256 (-1), False)"
| "indexOf_from (x # A) a i = (if x = a then (int i, True) else indexOf_from A a (Suc i))"

definition indexOf :: "address list \<Rightarrow> address \<Rightarrow> int \<times> bool" where
  "indexOf A a = indexOf_from A a 0"

definition contains :: "address list \<Rightarrow> address \<Rightarrow> bool" where
  "contains A a = (let (_, isIn) = indexOf A a in isIn)"

definition hasDuplicate :: "address list \<Rightarrow> bool result" where
  "hasDuplicate A =
     rbind (require (length A > 0) ''A is empty'') (\<lambda>_.
     Ok (list_ex (\<lambda>i. list_ex (\<lambda>j. A ! i = A ! j) [i + 1 ..< length A]) [0 ..< length A - 1]))"

definition pop :: "address list \<Rightarrow> nat \<Rightarrow> (address list \<times> address) result" where
  "pop A index =
     rbind (require (index < length A) ''Index must be < A length'') (\<lambda>_.
     Ok (map (\<lambda>i. A ! i) [0 ..< index] @ map (\<lambda>j. A ! j) [index + 1 ..< length A], A ! index))"

definition remove :: "address list \<Rightarrow> address \<Rightarrow> address list result" where
  "remove A a =
     (let (index, isIn) = indexOf A a
      in if \<not> isIn then Err (Revert ''Address not in array.'')
         else rbind (pop A (nat index)) (\<lambda>(A', _). Ok A'))"

definition removeStorage :: "address list \<Rightarrow> address \<Rightarrow> address list result" where
  "removeStorage A a =
     (let (index, isIn) = indexOf A a
      in if \<not> isIn then Err (Revert ''Address not in array.'')
         else let lastIndex = length A - 1;
                  A' = (if nat index \<noteq> lastIndex then A[nat index := A ! lastIndex] else A)
              in Ok (butlast A'))"

definition extend :: "address list \<Rightarrow> address list \<Rightarrow> address list" where
  "extend A B = map (\<lambda>i. A ! i) [0 ..< length A] @ map (\<lambda>j. B ! j) [0 ..< length B]"

definition validateLengthAndUniqueness :: "address list \<Rightarrow> unit result" where
  "validateLengthAndUniqueness A =
     rbind (require (length A > 0) ''Array length must be > 0'') (\<lambda>_.
     rbind (hasDuplicate A) (\<lambda>dup. require (\<not> dup) ''Cannot duplicate addresses''))"

text \<open>The five overloads differ only in the element type of the second array.\<close>

definition validatePairsWithArray :: "address list \<Rightarrow> 'b list \<Rightarrow> unit result" where
  "validatePairsWithArray A B =
     rbind (require (length A = length B) ''Array length mismatch'') (\<lambda>_.
     validateLengthAndUniqueness A)"

subsection \<open>Searching\<close>

lemma indexOf_from_spec:
  "indexOf_from A a i =
     (if a \<in> set A then (int (i + length (takeWhile (\<lambda>x. x \<noteq> a) A)), True)
      else (wrap_uint256 (-1), False))"
  by (induction A arbitrary: i) auto

lemma takeWhile_neq_less: "a \<in> set A \<Longrightarrow> length (takeWhile (\<lambda>x. x \<noteq> a) A) < length A"
  by (induction A) auto

lemma nth_takeWhile_neq: "a \<in> set A \<Longrightarrow> A ! length (takeWhile (\<lambda>x. x \<noteq> a) A) = a"
  by (induction A) auto

lemma contains_iff [simp]: "contains A a \<longleftrightarrow> a \<in> set A"
  by (simp add: contains_def indexOf_def indexOf_from_spec)

lemma indexOf_found:
  assumes "indexOf A a = (i, True)"
  shows "nat i < length A \<and> A ! nat i = a \<and> (\<forall>j < nat i. A ! j \<noteq> a)"
proof -
  have a: "a \<in> set A" and i: "i = int (length (takeWhile (\<lambda>x. x \<noteq> a) A))"
    using assms by (auto simp: indexOf_def indexOf_from_spec split: if_splits)
  have "\<forall>j < length (takeWhile (\<lambda>x. x \<noteq> a) A). A ! j \<noteq> a"
    by (metis (mono_tags, lifting) nth_mem set_takeWhileD takeWhile_nth)
  then show ?thesis using a i by (simp add: takeWhile_neq_less nth_takeWhile_neq)
qed

lemma hasDuplicate_exact:
  "hasDuplicate A = (if A = [] then Err (Revert ''A is empty'') else Ok (\<not> distinct A))"
proof (cases "A = []")
  case False
  have "list_ex (\<lambda>i. list_ex (\<lambda>j. A ! i = A ! j) [i + 1 ..< length A]) [0 ..< length A - 1]
      \<longleftrightarrow> (\<exists>i j. i < j \<and> j < length A \<and> A ! i = A ! j)"
  proof
    assume "\<exists>i j. i < j \<and> j < length A \<and> A ! i = A ! j"
    then obtain i j where ij: "i < j" "j < length A" "A ! i = A ! j" by blast
    then have "i \<in> set [0 ..< length A - 1]" "j \<in> set [i + 1 ..< length A]" by auto
    with ij(3) show "list_ex (\<lambda>i. list_ex (\<lambda>j. A ! i = A ! j) [i + 1 ..< length A]) [0 ..< length A - 1]"
      unfolding list_ex_iff by blast
  qed (auto simp: list_ex_iff Bex_def Suc_le_eq intro: exI conjI)
  also have "\<dots> \<longleftrightarrow> \<not> distinct A"
  proof
    assume "\<not> distinct A"
    then obtain i j where ij: "i < length A" "j < length A" "i \<noteq> j" "A ! i = A ! j"
      unfolding distinct_conv_nth by blast
    then consider "i < j" | "j < i" by linarith
    then show "\<exists>i j. i < j \<and> j < length A \<and> A ! i = A ! j" by cases (use ij in metis)+
  next
    assume "\<exists>i j. i < j \<and> j < length A \<and> A ! i = A ! j"
    then obtain i j where ij: "i < j" "j < length A" "A ! i = A ! j" by blast
    then have "i < length A" "i \<noteq> j" by simp_all
    with ij show "\<not> distinct A" unfolding distinct_conv_nth by blast
  qed
  finally show ?thesis using False by (simp add: hasDuplicate_def)
qed (simp add: hasDuplicate_def)

subsection \<open>Removing\<close>

lemma pop_exact:
  "pop A i = (if i < length A then Ok (take i A @ drop (Suc i) A, A ! i)
              else Err (Revert ''Index must be < A length''))"
proof (cases "i < length A")
  case True
  have "map ((!) A) [0 ..< i] = take i A"
    using True by (simp add: list_eq_iff_nth_eq)
  moreover have "map ((!) A) [i + 1 ..< length A] = drop (Suc i) A"
    using True by (simp add: list_eq_iff_nth_eq add.commute)
  ultimately show ?thesis using True by (simp add: pop_def)
qed (simp add: pop_def)

lemma take_drop_takeWhile_neq:
  "a \<in> set A \<Longrightarrow>
   take (length (takeWhile (\<lambda>x. x \<noteq> a) A)) A @ drop (Suc (length (takeWhile (\<lambda>x. x \<noteq> a) A))) A
   = remove1 a A"
  by (induction A) auto

lemma remove_exact:
  "remove A a = (if a \<in> set A then Ok (remove1 a A) else Err (Revert ''Address not in array.''))"
  by (simp add: remove_def indexOf_def indexOf_from_spec pop_exact takeWhile_neq_less
      take_drop_takeWhile_neq)

lemma remove_eq_Inr [result_simps]: "remove A a = Inr B \<longleftrightarrow> a \<in> set A \<and> B = remove1 a A"
  by (auto simp: remove_exact)

lemma extend_exact [simp]: "extend A B = A @ B"
  by (simp add: extend_def map_nth)

text \<open>
  \<open>removeStorage\<close>: the swap-and-pop result is a permutation of \<open>remove1\<close>, so it has the same
  multiset of elements and stays duplicate-free.
\<close>

lemma nth_mem_mset_butlast: "i < length A - 1 \<Longrightarrow> A ! i \<in># mset (butlast A)"
  by (metis length_butlast nth_butlast nth_mem_mset)

lemma swap_pop_mset:
  assumes "i < length A"
  shows "mset (butlast (if i \<noteq> length A - 1 then A[i := A ! (length A - 1)] else A)) = mset A - {#A ! i#}"
proof -
  have ne: "A \<noteq> []" using assms by auto
  show ?thesis
  proof (cases "i = length A - 1")
    case True
    then have "mset A = mset (butlast A) + {#A ! i#}"
      using ne by (metis append_butlast_last_id last_conv_nth mset_append mset_single_iff_right mset.simps)
    then show ?thesis using True by simp
  next
    case False
    then have i: "i < length A - 1" using assms by simp
    have "butlast (A[i := A ! (length A - 1)]) = (butlast A)[i := last A]"
      using i ne by (simp add: butlast_list_update last_conv_nth)
    moreover have "mset ((butlast A)[i := last A]) = add_mset (last A) (mset (butlast A)) - {#A ! i#}"
      using i nth_mem_mset_butlast [OF i]
      by (simp add: mset_update nth_butlast add_mset_diff_bothsides)
    moreover have "add_mset (last A) (mset (butlast A)) = mset A"
      using ne by (metis append_butlast_last_id mset_append add_mset_add_single mset_single_iff_right mset.simps)
    ultimately show ?thesis using False by simp
  qed
qed

lemma removeStorage_absent:
  "a \<notin> set A \<Longrightarrow> removeStorage A a = Err (Revert ''Address not in array.'')"
  by (simp add: removeStorage_def indexOf_def indexOf_from_spec)

lemma removeStorage_mset:
  assumes "removeStorage A a = Inr B"
  shows "a \<in> set A \<and> mset B = mset A - {#a#}"
proof -
  have a: "a \<in> set A" using assms removeStorage_absent by fastforce
  define i where "i = length (takeWhile (\<lambda>x. x \<noteq> a) A)"
  have i: "i < length A" "A ! i = a" using a by (simp_all add: i_def takeWhile_neq_less nth_takeWhile_neq)
  have "B = butlast (if i \<noteq> length A - 1 then A[i := A ! (length A - 1)] else A)"
    using assms a by (auto simp: removeStorage_def indexOf_def indexOf_from_spec i_def Let_def)
  then show ?thesis using swap_pop_mset [OF i(1)] a i(2) by simp
qed

lemma removeStorage_present: "a \<in> set A \<Longrightarrow> \<exists>B. removeStorage A a = Inr B"
  by (simp add: removeStorage_def indexOf_def indexOf_from_spec Let_def)

lemma removeStorage_distinct:
  assumes "removeStorage A a = Inr B" "distinct A"
  shows "distinct B \<and> set B = set A - {a}"
proof -
  have m: "mset B = mset A - {#a#}" and a: "a \<in> set A"
    using removeStorage_mset [OF assms(1)] by simp_all
  then have "mset B = mset (remove1 a A)" by simp
  then have "distinct B = distinct (remove1 a A)" "set B = set (remove1 a A)"
    by (metis mset_eq_imp_distinct_iff, metis set_mset_mset)
  then show ?thesis using assms(2) by simp
qed

lemma removeStorage_length:
  assumes "removeStorage A a = Inr B"
  shows "length B = length A - 1"
proof -
  have "size (mset B) = size (mset A - {#a#})" and "a \<in># mset A"
    using removeStorage_mset [OF assms] by simp_all
  then show ?thesis by (simp add: size_Diff_singleton)
qed

lemma validatePairsWithArray_ok:
  "validatePairsWithArray A B = Inr u \<longleftrightarrow> length A = length B \<and> A \<noteq> [] \<and> distinct A"
  by (auto simp: validatePairsWithArray_def validateLengthAndUniqueness_def hasDuplicate_exact
      result_simps)

text \<open>
  \<open>removeStorage\<close>, the swap with the last element and pop, removes exactly one occurrence and keeps
  every other element with its multiplicity; it reverts exactly when the address is absent.
\<close>

lemma removeStorage_exact:
  "(case removeStorage A a of
      Inl e \<Rightarrow> a \<notin> set A \<and> e = Revert ''Address not in array.''
    | Inr B \<Rightarrow> a \<in> set A \<and> mset A = add_mset a (mset B) \<and> length A = Suc (length B))"
proof (cases "a \<in> set A")
  case True
  then obtain B where B: "removeStorage A a = Inr B" using removeStorage_present by blast
  then have "mset A = add_mset a (mset B)" using removeStorage_mset [OF B] True by simp
  moreover have "length A = Suc (length B)" using removeStorage_length [OF B] True by (cases A) auto
  ultimately show ?thesis using B True by simp
next
  case False
  then show ?thesis by (simp add: removeStorage_absent)
qed

end
