(* ===== verification/Controller.thy ===== *)
theory Controller
  imports AddressArrayUtils
begin

section \<open>The Controller: what the system consists of\<close>

text \<open>
  \<^verbatim>\<open>src/contracts/protocol/Controller.sol\<close>: the registry of Sets, factories, modules and resources and
  of the protocol fees. The state variables are the record \<open>controller\<close>; each external function is
  a definition that takes \<open>msg.sender\<close>, its arguments and the state, and returns the new state or the
  revert reason of the first failing \<open>require\<close> (modifiers first, in the order they are written).
  \<open>Ownable\<close> comes from a package outside the repository; of it the model has the owner field and the
  \<open>onlyOwner\<close> check, and \<open>controller_step\<close> lets the owner change arbitrarily, which covers
  \<open>transferOwnership\<close> and \<open>renounceOwnership\<close>.

  \<open>initialize\<close> does not check its arrays for duplicates: \<open>controller_reachable uniq\<close> are the reachable states, with arrays without duplicates if \<open>uniq\<close> holds,
  and each theorem says which of its conclusions need that.

  The locale \<open>address_registry\<close> is the contract shared by the add/remove pairs of Sets, factories
  and modules: an enumerated list together with a membership flag.
\<close>

record controller =
  ctl_owner :: address
  ctl_sets :: "address list"
  ctl_factories :: "address list"
  ctl_modules :: "address list"
  ctl_resources :: "address list"
  isSet :: "address \<Rightarrow> bool"
  isFactory :: "address \<Rightarrow> bool"
  isModule :: "address \<Rightarrow> bool"
  isResource :: "address \<Rightarrow> bool"
  fees :: "address \<Rightarrow> int \<Rightarrow> int"
  resourceId :: "int \<Rightarrow> address"
  ctl_feeRecipient :: address
  isInitialized :: bool

definition controller_constructor :: "address \<Rightarrow> address \<Rightarrow> controller" where
  "controller_constructor msg_sender feeRecipient0 =
     \<lparr>ctl_owner = msg_sender, ctl_sets = [], ctl_factories = [], ctl_modules = [], ctl_resources = [],
      isSet = (\<lambda>_. False), isFactory = (\<lambda>_. False), isModule = (\<lambda>_. False), isResource = (\<lambda>_. False),
      fees = (\<lambda>_ _. 0), resourceId = (\<lambda>_. address_zero),
      ctl_feeRecipient = feeRecipient0, isInitialized = False\<rparr>"

definition onlyOwner :: "address \<Rightarrow> controller \<Rightarrow> unit result" where
  "onlyOwner msg_sender c = require (ctl_owner c = msg_sender) ''Ownable: caller is not the owner''"

definition onlyFactory :: "address \<Rightarrow> controller \<Rightarrow> unit result" where
  "onlyFactory msg_sender c = require (isFactory c msg_sender) ''Only valid factories can call''"

definition onlyInitialized :: "controller \<Rightarrow> unit result" where
  "onlyInitialized c = require (isInitialized c) ''Contract must be initialized.''"

text \<open>The three loops of \<open>initialize\<close>.\<close>

fun init_factories :: "address list \<Rightarrow> controller \<Rightarrow> controller result" where
  "init_factories [] c = Ok c"
| "init_factories (f # fs) c =
     rbind (require (f \<noteq> address_zero) ''Zero address submitted.'') (\<lambda>_.
     init_factories fs (c\<lparr>isFactory := (isFactory c)(f := True)\<rparr>))"

fun init_modules :: "address list \<Rightarrow> controller \<Rightarrow> controller result" where
  "init_modules [] c = Ok c"
| "init_modules (m # ms) c =
     rbind (require (m \<noteq> address_zero) ''Zero address submitted.'') (\<lambda>_.
     init_modules ms (c\<lparr>isModule := (isModule c)(m := True)\<rparr>))"

fun init_resources :: "(address \<times> int) list \<Rightarrow> controller \<Rightarrow> controller result" where
  "init_resources [] c = Ok c"
| "init_resources ((r, i) # rs) c =
     rbind (require (r \<noteq> address_zero) ''Zero address submitted.'') (\<lambda>_.
     rbind (require (resourceId c i = address_zero) ''Resource ID already exists'') (\<lambda>_.
     init_resources rs (c\<lparr>isResource := (isResource c)(r := True),
                          resourceId := (resourceId c)(i := r)\<rparr>)))"

definition controller_initialize ::
  "address \<Rightarrow> address list \<Rightarrow> address list \<Rightarrow> address list \<Rightarrow> int list \<Rightarrow>
   controller \<Rightarrow> controller result" where
  "controller_initialize msg_sender factories0 modules0 resources0 resourceIds0 c =
     rbind (onlyOwner msg_sender c) (\<lambda>_.
     rbind (require (\<not> isInitialized c) ''Controller is already initialized'') (\<lambda>_.
     rbind (require (length resources0 = length resourceIds0) ''Array lengths do not match.'') (\<lambda>_.
     rbind (init_factories factories0
             (c\<lparr>ctl_factories := factories0, ctl_modules := modules0, ctl_resources := resources0\<rparr>)) (\<lambda>c1.
     rbind (init_modules modules0 c1) (\<lambda>c2.
     rbind (init_resources (zip resources0 resourceIds0) c2) (\<lambda>c3.
     Ok (c3\<lparr>isInitialized := True\<rparr>)))))))"

definition addSet :: "address \<Rightarrow> address \<Rightarrow> controller \<Rightarrow> controller result" where
  "addSet msg_sender setToken c =
     rbind (onlyInitialized c) (\<lambda>_. rbind (onlyFactory msg_sender c) (\<lambda>_.
     rbind (require (\<not> isSet c setToken) ''Set already exists'') (\<lambda>_.
     Ok (c\<lparr>isSet := (isSet c)(setToken := True), ctl_sets := ctl_sets c @ [setToken]\<rparr>))))"

definition removeSet :: "address \<Rightarrow> address \<Rightarrow> controller \<Rightarrow> controller result" where
  "removeSet msg_sender setToken c =
     rbind (onlyInitialized c) (\<lambda>_. rbind (onlyOwner msg_sender c) (\<lambda>_.
     rbind (require (isSet c setToken) ''Set does not exist'') (\<lambda>_.
     rbind (remove (ctl_sets c) setToken) (\<lambda>sets.
     Ok (c\<lparr>ctl_sets := sets, isSet := (isSet c)(setToken := False)\<rparr>)))))"

definition addFactory :: "address \<Rightarrow> address \<Rightarrow> controller \<Rightarrow> controller result" where
  "addFactory msg_sender factory c =
     rbind (onlyInitialized c) (\<lambda>_. rbind (onlyOwner msg_sender c) (\<lambda>_.
     rbind (require (\<not> isFactory c factory) ''Factory already exists'') (\<lambda>_.
     Ok (c\<lparr>isFactory := (isFactory c)(factory := True), ctl_factories := ctl_factories c @ [factory]\<rparr>))))"

definition removeFactory :: "address \<Rightarrow> address \<Rightarrow> controller \<Rightarrow> controller result" where
  "removeFactory msg_sender factory c =
     rbind (onlyInitialized c) (\<lambda>_. rbind (onlyOwner msg_sender c) (\<lambda>_.
     rbind (require (isFactory c factory) ''Factory does not exist'') (\<lambda>_.
     rbind (remove (ctl_factories c) factory) (\<lambda>fs.
     Ok (c\<lparr>ctl_factories := fs, isFactory := (isFactory c)(factory := False)\<rparr>)))))"

definition controller_addModule :: "address \<Rightarrow> address \<Rightarrow> controller \<Rightarrow> controller result" where
  "controller_addModule msg_sender m c =
     rbind (onlyInitialized c) (\<lambda>_. rbind (onlyOwner msg_sender c) (\<lambda>_.
     rbind (require (\<not> isModule c m) ''Module already exists'') (\<lambda>_.
     Ok (c\<lparr>isModule := (isModule c)(m := True), ctl_modules := ctl_modules c @ [m]\<rparr>))))"

definition controller_removeModule :: "address \<Rightarrow> address \<Rightarrow> controller \<Rightarrow> controller result" where
  "controller_removeModule msg_sender m c =
     rbind (onlyInitialized c) (\<lambda>_. rbind (onlyOwner msg_sender c) (\<lambda>_.
     rbind (require (isModule c m) ''Module does not exist'') (\<lambda>_.
     rbind (remove (ctl_modules c) m) (\<lambda>ms.
     Ok (c\<lparr>ctl_modules := ms, isModule := (isModule c)(m := False)\<rparr>)))))"

definition addResource :: "address \<Rightarrow> address \<Rightarrow> int \<Rightarrow> controller \<Rightarrow> controller result" where
  "addResource msg_sender resource i c =
     rbind (onlyInitialized c) (\<lambda>_. rbind (onlyOwner msg_sender c) (\<lambda>_.
     rbind (require (\<not> isResource c resource) ''Resource already exists'') (\<lambda>_.
     rbind (require (resourceId c i = address_zero) ''Resource ID already exists'') (\<lambda>_.
     Ok (c\<lparr>isResource := (isResource c)(resource := True),
            resourceId := (resourceId c)(i := resource),
            ctl_resources := ctl_resources c @ [resource]\<rparr>)))))"

definition removeResource :: "address \<Rightarrow> int \<Rightarrow> controller \<Rightarrow> controller result" where
  "removeResource msg_sender i c =
     rbind (onlyInitialized c) (\<lambda>_. rbind (onlyOwner msg_sender c) (\<lambda>_.
     let resourceToRemove = resourceId c i in
     rbind (require (resourceToRemove \<noteq> address_zero) ''Resource does not exist'') (\<lambda>_.
     rbind (remove (ctl_resources c) resourceToRemove) (\<lambda>rs.
     Ok (c\<lparr>ctl_resources := rs,
            resourceId := (resourceId c)(i := address_zero),
            isResource := (isResource c)(resourceToRemove := False)\<rparr>)))))"

definition addFee :: "address \<Rightarrow> address \<Rightarrow> int \<Rightarrow> int \<Rightarrow> controller \<Rightarrow> controller result" where
  "addFee msg_sender m feeType newFeePercentage c =
     rbind (onlyInitialized c) (\<lambda>_. rbind (onlyOwner msg_sender c) (\<lambda>_.
     rbind (require (isModule c m) ''Module does not exist'') (\<lambda>_.
     rbind (require (fees c m feeType = 0) ''Fee type already exists on module'') (\<lambda>_.
     Ok (c\<lparr>fees := (fees c)(m := (fees c m)(feeType := newFeePercentage))\<rparr>)))))"

definition editFee :: "address \<Rightarrow> address \<Rightarrow> int \<Rightarrow> int \<Rightarrow> controller \<Rightarrow> controller result" where
  "editFee msg_sender m feeType newFeePercentage c =
     rbind (onlyInitialized c) (\<lambda>_. rbind (onlyOwner msg_sender c) (\<lambda>_.
     rbind (require (isModule c m) ''Module does not exist'') (\<lambda>_.
     rbind (require (fees c m feeType \<noteq> 0) ''Fee type does not exist on module'') (\<lambda>_.
     Ok (c\<lparr>fees := (fees c)(m := (fees c m)(feeType := newFeePercentage))\<rparr>)))))"

definition editFeeRecipient :: "address \<Rightarrow> address \<Rightarrow> controller \<Rightarrow> controller result" where
  "editFeeRecipient msg_sender newFeeRecipient c =
     rbind (onlyInitialized c) (\<lambda>_. rbind (onlyOwner msg_sender c) (\<lambda>_.
     rbind (require (newFeeRecipient \<noteq> address_zero) ''Address must not be 0'') (\<lambda>_.
     Ok (c\<lparr>ctl_feeRecipient := newFeeRecipient\<rparr>))))"

definition getModuleFee :: "controller \<Rightarrow> address \<Rightarrow> int \<Rightarrow> int" where
  "getModuleFee c moduleAddress feeType = fees c moduleAddress feeType"

definition isSystemContract :: "address \<Rightarrow> controller \<Rightarrow> address \<Rightarrow> bool" where
  "isSystemContract this c a \<longleftrightarrow>
     isSet c a \<or> isModule c a \<or> isResource c a \<or> isFactory c a \<or> a = this"

lemmas controller_guards = onlyOwner_def onlyFactory_def onlyInitialized_def

lemmas controller_ops = addSet_def removeSet_def addFactory_def removeFactory_def controller_addModule_def
  controller_removeModule_def addResource_def removeResource_def addFee_def editFee_def editFeeRecipient_def
  controller_guards

subsection \<open>Registries: a list and a membership flag\<close>

definition registry_ok :: "address list \<Rightarrow> (address \<Rightarrow> bool) \<Rightarrow> bool" where
  "registry_ok lst flag \<longleftrightarrow> distinct lst \<and> (\<forall>a. flag a \<longleftrightarrow> a \<in> set lst)"

lemma registry_ok_add: "registry_ok lst flag \<Longrightarrow> \<not> flag a \<Longrightarrow> registry_ok (lst @ [a]) (flag(a := True))"
  by (auto simp: registry_ok_def)

lemma registry_ok_remove: "registry_ok lst flag \<Longrightarrow> registry_ok (remove1 a lst) (flag(a := False))"
  by (auto simp: registry_ok_def)

lemma registry_ok_removeStorage:
  "registry_ok lst flag \<Longrightarrow> removeStorage lst a = Inr ts \<Longrightarrow> registry_ok ts (flag(a := False))"
  by (auto simp: registry_ok_def dest: removeStorage_distinct)

locale address_registry =
  fixes lst :: "'s \<Rightarrow> address list"
    and flag :: "'s \<Rightarrow> address \<Rightarrow> bool"
    and add rem :: "address \<Rightarrow> address \<Rightarrow> 's \<Rightarrow> 's result"
  assumes add_law: "add sender a s = Inr s' \<Longrightarrow>
      \<not> flag s a \<and> lst s' = lst s @ [a] \<and> flag s' = (flag s)(a := True)"
    and rem_law: "rem sender a s = Inr s' \<Longrightarrow>
      flag s a \<and> lst s' = remove1 a (lst s) \<and> flag s' = (flag s)(a := False)"
begin

lemma add_ok: "registry_ok (lst s) (flag s) \<Longrightarrow> add sender a s = Inr s' \<Longrightarrow>
    registry_ok (lst s') (flag s') \<and> a \<in> set (lst s')"
  using add_law [of sender a s s'] by (auto simp: registry_ok_add)

lemma rem_ok: "registry_ok (lst s) (flag s) \<Longrightarrow> rem sender a s = Inr s' \<Longrightarrow>
    registry_ok (lst s') (flag s') \<and> a \<notin> set (lst s')"
  using rem_law [of sender a s s'] by (auto simp: registry_ok_remove registry_ok_def)

lemma add_then_rem:
  assumes "registry_ok (lst s) (flag s)" "add x a s = Inr s1" "rem y a s1 = Inr s2"
  shows "lst s2 = lst s \<and> flag s2 = flag s"
proof -
  have "\<not> flag s a" "lst s1 = lst s @ [a]" "flag s1 = (flag s)(a := True)" using add_law [OF assms(2)] by auto
  moreover have "lst s2 = remove1 a (lst s1)" "flag s2 = (flag s1)(a := False)" using rem_law [OF assms(3)] by auto
  moreover have "a \<notin> set (lst s)" using calculation(1) assms(1) by (simp add: registry_ok_def)
  ultimately show ?thesis by (auto simp: remove1_append fun_eq_iff)
qed

lemma no_double_add: "registry_ok (lst s) (flag s) \<Longrightarrow> a \<in> set (lst s) \<Longrightarrow> \<exists>e. add sender a s = Inl e"
  using add_law [of sender a s] by (cases "add sender a s") (auto simp: registry_ok_def)

end

interpretation set_registry: address_registry ctl_sets isSet addSet removeSet
  by unfold_locales (auto simp: controller_ops result_simps)

interpretation factory_registry: address_registry ctl_factories isFactory addFactory removeFactory
  by unfold_locales (auto simp: controller_ops result_simps)

interpretation module_registry: address_registry ctl_modules isModule controller_addModule controller_removeModule
  by unfold_locales (auto simp: controller_ops result_simps)

subsection \<open>The loops of initialize\<close>

lemma init_factories_exact:
  "init_factories fs c =
     (if address_zero \<in> set fs then Err (Revert ''Zero address submitted.'')
      else Ok (c\<lparr>isFactory := (\<lambda>a. a \<in> set fs \<or> isFactory c a)\<rparr>))"
  by (induction fs arbitrary: c) (auto simp: require_def fun_eq_iff intro!: controller.equality)

lemma init_modules_exact:
  "init_modules ms c =
     (if address_zero \<in> set ms then Err (Revert ''Zero address submitted.'')
      else Ok (c\<lparr>isModule := (\<lambda>a. a \<in> set ms \<or> isModule c a)\<rparr>))"
  by (induction ms arbitrary: c) (auto simp: require_def fun_eq_iff intro!: controller.equality)

text \<open>What the resource loop leaves: each identifier it was given points to its resource.\<close>

definition id_map :: "(address \<times> int) list \<Rightarrow> int \<rightharpoonup> address" where
  "id_map rs = map_of (map prod.swap rs)"

definition resource_after :: "(address \<times> int) list \<Rightarrow> (int \<Rightarrow> address) \<Rightarrow> int \<Rightarrow> address" where
  "resource_after rs f i = (case id_map rs i of Some r \<Rightarrow> r | None \<Rightarrow> f i)"

lemma init_resources_frame:
  "init_resources rs c = Inr c' \<Longrightarrow> c' = c\<lparr>isResource := isResource c', resourceId := resourceId c'\<rparr>"
  by (induction rs c rule: init_resources.induct) (auto simp: result_simps intro!: controller.equality)

lemma init_resources_flags:
  "init_resources rs c = Inr c' \<Longrightarrow> isResource c' a \<longleftrightarrow> a \<in> fst ` set rs \<or> isResource c a"
  by (induction rs c rule: init_resources.induct) (auto simp: result_simps)

lemma init_resources_ids:
  assumes "init_resources rs c = Inr c'"
  shows "distinct (map snd rs) \<and> address_zero \<notin> fst ` set rs
    \<and> (\<forall>i \<in> snd ` set rs. resourceId c i = address_zero)
    \<and> resourceId c' = resource_after rs (resourceId c)"
  using assms
proof (induction rs c rule: init_resources.induct)
  case (2 r i rs c)
  let ?c1 = "c\<lparr>isResource := (isResource c)(r := True), resourceId := (resourceId c)(i := r)\<rparr>"
  from "2.prems" have r: "r \<noteq> address_zero" "resourceId c i = address_zero" and rest: "init_resources rs ?c1 = Inr c'"
    by (auto simp: result_simps)
  note IH = "2.IH" [OF rest]
  note ih = IH [THEN conjunct1] IH [THEN conjunct2, THEN conjunct1]
    IH [THEN conjunct2, THEN conjunct2, THEN conjunct1] IH [THEN conjunct2, THEN conjunct2, THEN conjunct2]
  have fresh: "i \<notin> snd ` set rs" using ih(3) r(1) by auto
  then have none: "id_map rs i = None" by (force simp: id_map_def map_of_eq_None_iff)
  have "\<forall>j \<in> snd ` set rs. resourceId c j = address_zero" 
  proof
    fix j assume j: "j \<in> snd ` set rs"
    then have "j \<noteq> i" using fresh by blast
    then show "resourceId c j = address_zero" using bspec [OF ih(3) j] by simp
  qed
  moreover have "resourceId c' = resource_after ((r, i) # rs) (resourceId c)"
    unfolding ih(4) using none by (auto simp: resource_after_def id_map_def fun_eq_iff split: option.splits)
  ultimately show ?case using ih(1,2) r fresh by simp
qed (simp add: id_map_def resource_after_def fun_eq_iff)

subsection \<open>The invariant of the registries\<close>

definition resources_ok :: "controller \<Rightarrow> bool" where
  "resources_ok c \<longleftrightarrow> registry_ok (ctl_resources c) (isResource c)
     \<and> (\<forall>i. resourceId c i \<noteq> address_zero \<longrightarrow> isResource c (resourceId c i))
     \<and> (\<forall>i j. resourceId c i \<noteq> address_zero \<and> resourceId c i = resourceId c j \<longrightarrow> i = j)"

definition controller_inv :: "controller \<Rightarrow> bool" where
  "controller_inv c \<longleftrightarrow> registry_ok (ctl_sets c) (isSet c) \<and> registry_ok (ctl_factories c) (isFactory c)
     \<and> registry_ok (ctl_modules c) (isModule c) \<and> resources_ok c"

lemma controller_inv_constructor: "controller_inv (controller_constructor sender fr)"
  by (simp add: controller_inv_def controller_constructor_def registry_ok_def resources_ok_def)

text \<open>Before initialization every registry is empty.\<close>

definition uninitialized_empty :: "controller \<Rightarrow> bool" where
  "uninitialized_empty c \<longleftrightarrow> (\<not> isInitialized c \<longrightarrow>
     (\<forall>a. \<not> isSet c a \<and> \<not> isFactory c a \<and> \<not> isModule c a \<and> \<not> isResource c a)
     \<and> (\<forall>i. resourceId c i = address_zero) \<and> ctl_sets c = [])"

lemma initialize_fields:
  assumes "controller_initialize sender fs ms rs ids c = Inr c'"
  shows "\<not> isInitialized c \<and> isInitialized c' \<and> sender = ctl_owner c \<and> length rs = length ids
    \<and> ctl_owner c' = ctl_owner c \<and> ctl_sets c' = ctl_sets c \<and> isSet c' = isSet c
    \<and> fees c' = fees c \<and> ctl_feeRecipient c' = ctl_feeRecipient c
    \<and> ctl_factories c' = fs \<and> ctl_modules c' = ms \<and> ctl_resources c' = rs
    \<and> (\<forall>a. isFactory c' a \<longleftrightarrow> a \<in> set fs \<or> isFactory c a)
    \<and> (\<forall>a. isModule c' a \<longleftrightarrow> a \<in> set ms \<or> isModule c a)
    \<and> (\<forall>a. isResource c' a \<longleftrightarrow> a \<in> set rs \<or> isResource c a)
    \<and> distinct ids \<and> address_zero \<notin> set fs \<and> address_zero \<notin> set ms \<and> address_zero \<notin> set rs
    \<and> resourceId c' = resource_after (zip rs ids) (resourceId c)"
proof -
  let ?c0 = "c\<lparr>ctl_factories := fs, ctl_modules := ms, ctl_resources := rs\<rparr>"
  from assms obtain c3 where g: "\<not> isInitialized c" "sender = ctl_owner c" "length rs = length ids"
    and z: "address_zero \<notin> set fs" "address_zero \<notin> set ms"
    and c3: "init_resources (zip rs ids)
      (?c0\<lparr>isFactory := \<lambda>a. a \<in> set fs \<or> isFactory c a, isModule := \<lambda>a. a \<in> set ms \<or> isModule c a\<rparr>) = Inr c3"
    and c': "c' = c3\<lparr>isInitialized := True\<rparr>"
    by (auto simp: controller_initialize_def onlyOwner_def init_factories_exact init_modules_exact
        result_simps split: if_splits)
  have fst_snd: "fst ` set (zip rs ids) = set rs" "map snd (zip rs ids) = ids"
    using g(3) by (metis list.set_map map_fst_zip, metis map_snd_zip)
  obtain A B where "c3 = c\<lparr>ctl_factories := fs, ctl_modules := ms, ctl_resources := rs,
      isFactory := \<lambda>a. a \<in> set fs \<or> isFactory c a, isModule := \<lambda>a. a \<in> set ms \<or> isModule c a,
      isResource := A, resourceId := B\<rparr>"
    using init_resources_frame [OF c3] by blast
  then show ?thesis
    using g z c' init_resources_flags [OF c3] init_resources_ids [OF c3] fst_snd by simp
qed

lemma id_map_zip_range: "length rs = length ids \<Longrightarrow> id_map (zip rs ids) i = Some r \<Longrightarrow> r \<in> set rs"
  by (auto simp: id_map_def dest!: map_of_SomeD dest: set_zip_leftD)

lemma id_map_zip_inj:
  assumes "length rs = length ids" "distinct rs" "distinct ids"
    "id_map (zip rs ids) i = Some r" "id_map (zip rs ids) j = Some r"
  shows "i = j"
proof -
  have "(r, i) \<in> set (zip rs ids)" "(r, j) \<in> set (zip rs ids)"
    using assms(4,5) by (auto simp: id_map_def dest!: map_of_SomeD)
  then show ?thesis using assms(1,2) by (auto simp: in_set_zip nth_eq_iff_index_eq)
qed

text \<open>
  What holds even when the arrays given to \<open>initialize\<close> have duplicates: a flag is set only for listed addresses. After removing an
  address that was given twice it is still listed, without its flag.
\<close>

definition flags_listed :: "controller \<Rightarrow> bool" where
  "flags_listed c \<longleftrightarrow> registry_ok (ctl_sets c) (isSet c)
     \<and> (\<forall>a. (isFactory c a \<longrightarrow> a \<in> set (ctl_factories c)) \<and> (isModule c a \<longrightarrow> a \<in> set (ctl_modules c))
          \<and> (isResource c a \<longrightarrow> a \<in> set (ctl_resources c)))"

lemma initialize_flags:
  assumes "controller_initialize sender fs ms rs ids c = Inr c'" "flags_listed c" "uninitialized_empty c"
  shows "flags_listed c'"
  using initialize_fields [OF assms(1)] assms(2,3) by (simp add: flags_listed_def uninitialized_empty_def)

lemma initialize_inv:
  assumes "controller_initialize sender fs ms rs ids c = Inr c'"
    and "distinct fs" "distinct ms" "distinct rs"
    and "controller_inv c" "uninitialized_empty c"
  shows "controller_inv c'"
proof -
  note f = initialize_fields [OF assms(1)]
  have e: "\<forall>a. \<not> isSet c a \<and> \<not> isFactory c a \<and> \<not> isModule c a \<and> \<not> isResource c a"
    "\<forall>i. resourceId c i = address_zero" "ctl_sets c = []"
    using assms(6) f by (auto simp: uninitialized_empty_def)
  have len: "length rs = length ids" and ids: "distinct ids" using f by auto
  have "\<forall>i. resourceId c' i \<noteq> address_zero \<longrightarrow> id_map (zip rs ids) i = Some (resourceId c' i)"
    using f e(2) by (auto simp: resource_after_def split: option.splits)
  then have "resources_ok c'"
    using f e assms(4) id_map_zip_range [OF len] id_map_zip_inj [OF len assms(4) ids]
    unfolding resources_ok_def registry_ok_def by metis
  then show ?thesis
    using f e assms(2,3,5) by (simp add: controller_inv_def registry_ok_def)
qed

subsection \<open>Every transaction keeps the invariant\<close>

text \<open>
  One transition per external function, by any sender with any arguments. \<open>uniq\<close> says whether the arrays given to \<open>initialize\<close>
  had no duplicates, which the code does not check.
\<close>

inductive controller_step :: "bool \<Rightarrow> controller \<Rightarrow> controller \<Rightarrow> bool" for uniq where
  ctl_initialize: "(uniq \<longrightarrow> distinct fs \<and> distinct ms \<and> distinct rs) \<Longrightarrow>
     controller_initialize sender fs ms rs ids c = Inr c' \<Longrightarrow> controller_step uniq c c'"
| ctl_addSet: "addSet sender a c = Inr c' \<Longrightarrow> controller_step uniq c c'"
| ctl_removeSet: "removeSet sender a c = Inr c' \<Longrightarrow> controller_step uniq c c'"
| ctl_addFactory: "addFactory sender a c = Inr c' \<Longrightarrow> controller_step uniq c c'"
| ctl_removeFactory: "removeFactory sender a c = Inr c' \<Longrightarrow> controller_step uniq c c'"
| ctl_addModule: "controller_addModule sender a c = Inr c' \<Longrightarrow> controller_step uniq c c'"
| ctl_removeModule: "controller_removeModule sender a c = Inr c' \<Longrightarrow> controller_step uniq c c'"
| ctl_addResource: "addResource sender a i c = Inr c' \<Longrightarrow> controller_step uniq c c'"
| ctl_removeResource: "removeResource sender i c = Inr c' \<Longrightarrow> controller_step uniq c c'"
| ctl_addFee: "addFee sender a i n c = Inr c' \<Longrightarrow> controller_step uniq c c'"
| ctl_editFee: "editFee sender a i n c = Inr c' \<Longrightarrow> controller_step uniq c c'"
| ctl_editFeeRecipient: "editFeeRecipient sender a c = Inr c' \<Longrightarrow> controller_step uniq c c'"
| ctl_ownership: "controller_step uniq c (c\<lparr>ctl_owner := a\<rparr>)"

inductive controller_reachable :: "bool \<Rightarrow> controller \<Rightarrow> bool" for uniq where
  ctl_deployed: "controller_reachable uniq (controller_constructor sender fr)"
| ctl_transaction: "controller_reachable uniq c \<Longrightarrow> controller_step uniq c c' \<Longrightarrow> controller_reachable uniq c'"

lemma resources_ok_frame:
  "resources_ok c \<Longrightarrow> ctl_resources c' = ctl_resources c \<Longrightarrow> isResource c' = isResource c \<Longrightarrow>
   resourceId c' = resourceId c \<Longrightarrow> resources_ok c'"
  by (simp add: resources_ok_def)

lemma addSet_inv: "controller_inv c \<Longrightarrow> addSet sender a c = Inr c' \<Longrightarrow> controller_inv c'"
  by (auto simp: controller_inv_def controller_ops result_simps registry_ok_add resources_ok_def)

lemma removeSet_inv: "controller_inv c \<Longrightarrow> removeSet sender a c = Inr c' \<Longrightarrow> controller_inv c'"
  by (auto simp: controller_inv_def controller_ops result_simps registry_ok_remove resources_ok_def)

lemma addFactory_inv: "controller_inv c \<Longrightarrow> addFactory sender a c = Inr c' \<Longrightarrow> controller_inv c'"
  by (auto simp: controller_inv_def controller_ops result_simps registry_ok_add resources_ok_def)

lemma removeFactory_inv: "controller_inv c \<Longrightarrow> removeFactory sender a c = Inr c' \<Longrightarrow> controller_inv c'"
  by (auto simp: controller_inv_def controller_ops result_simps registry_ok_remove resources_ok_def)

lemma addModule_inv: "controller_inv c \<Longrightarrow> controller_addModule sender a c = Inr c' \<Longrightarrow> controller_inv c'"
  by (auto simp: controller_inv_def controller_ops result_simps registry_ok_add resources_ok_def)

lemma removeModule_inv: "controller_inv c \<Longrightarrow> controller_removeModule sender a c = Inr c' \<Longrightarrow> controller_inv c'"
  by (auto simp: controller_inv_def controller_ops result_simps registry_ok_remove resources_ok_def)

lemma addResource_inv:
  assumes "controller_inv c" "addResource sender r i c = Inr c'"
  shows "controller_inv c'"
proof -
  have g: "\<not> isResource c r" "resourceId c i = address_zero"
    and c': "c' = c\<lparr>isResource := (isResource c)(r := True), resourceId := (resourceId c)(i := r),
                     ctl_resources := ctl_resources c @ [r]\<rparr>"
    using assms(2) by (auto simp: controller_ops result_simps)
  have "registry_ok (ctl_resources c') (isResource c')"
    using assms(1) g by (simp add: c' controller_inv_def resources_ok_def registry_ok_add)
  moreover have "\<forall>j. resourceId c j \<noteq> address_zero \<longrightarrow> resourceId c j \<noteq> r"
    using assms(1) g by (auto simp: controller_inv_def resources_ok_def)
  ultimately have "resources_ok c'"
    using assms(1) g by (auto simp: c' controller_inv_def resources_ok_def)
  then show ?thesis using assms(1) by (simp add: c' controller_inv_def)
qed

lemma removeResource_inv:
  assumes "controller_inv c" "removeResource sender i c = Inr c'"
  shows "controller_inv c'"
proof -
  define r where "r = resourceId c i"
  have g: "r \<noteq> address_zero"
    and c': "c' = c\<lparr>ctl_resources := remove1 r (ctl_resources c), resourceId := (resourceId c)(i := address_zero),
                     isResource := (isResource c)(r := False)\<rparr>"
    using assms(2) by (auto simp: controller_ops result_simps r_def Let_def)
  have "\<forall>j. j \<noteq> i \<longrightarrow> resourceId c j \<noteq> address_zero \<longrightarrow> resourceId c j \<noteq> r"
    using assms(1) unfolding controller_inv_def resources_ok_def r_def by metis
  then have "resources_ok c'"
    using assms(1) by (auto simp: c' controller_inv_def resources_ok_def registry_ok_remove)
  then show ?thesis using assms(1) by (simp add: c' controller_inv_def)
qed

lemma fee_ops_inv:
  "controller_inv c \<Longrightarrow> addFee sender a i n c = Inr c' \<Longrightarrow> controller_inv c'"
  "controller_inv c \<Longrightarrow> editFee sender a i n c = Inr c' \<Longrightarrow> controller_inv c'"
  "controller_inv c \<Longrightarrow> editFeeRecipient sender a c = Inr c' \<Longrightarrow> controller_inv c'"
  by (auto simp: controller_inv_def controller_ops result_simps resources_ok_def)

lemmas controller_op_invs = addSet_inv removeSet_inv addFactory_inv removeFactory_inv addModule_inv
  removeModule_inv addResource_inv removeResource_inv fee_ops_inv

lemma initialized_uninitialized_empty: "isInitialized c \<Longrightarrow> uninitialized_empty c"
  by (simp add: uninitialized_empty_def)

lemma step_uninitialized_empty:
  "controller_step uniq c c' \<Longrightarrow> uninitialized_empty c \<Longrightarrow> uninitialized_empty c'"
proof (induction rule: controller_step.induct)
  case (ctl_initialize fs ms rs sender ids c c')
  then show ?case using initialize_fields initialized_uninitialized_empty by blast
next
  case (ctl_ownership c a)
  then show ?case by (simp add: uninitialized_empty_def)
qed (auto simp: controller_ops result_simps Let_def intro!: initialized_uninitialized_empty)

lemma controller_step_flags:
  "controller_step uniq c c' \<Longrightarrow> flags_listed c \<Longrightarrow> uninitialized_empty c \<Longrightarrow> flags_listed c'"
proof (induction rule: controller_step.induct)
  case (ctl_initialize fs ms rs sender ids c c')
  then show ?case using initialize_flags by blast
next
  case (ctl_ownership c a)
  then show ?case by (simp add: flags_listed_def)
next
  case (ctl_addSet sender a c c')
  then show ?case by (auto simp: flags_listed_def controller_ops result_simps registry_ok_add)
next
  case (ctl_removeSet sender a c c')
  then show ?case by (auto simp: flags_listed_def controller_ops result_simps registry_ok_remove)
qed (auto simp: flags_listed_def controller_ops result_simps Let_def)

lemma controller_step_inv:
  "controller_step uniq c c' \<Longrightarrow> uniq \<Longrightarrow> controller_inv c \<Longrightarrow> uninitialized_empty c \<Longrightarrow> controller_inv c'"
proof (induction rule: controller_step.induct)
  case (ctl_ownership c a)
  then show ?case by (simp add: controller_inv_def resources_ok_def)
qed (blast intro: initialize_inv controller_op_invs)+

lemma controller_reachable_flags: "controller_reachable uniq c \<Longrightarrow> flags_listed c \<and> uninitialized_empty c"
proof (induction rule: controller_reachable.induct)
  case (ctl_deployed sender fr)
  then show ?case by (simp add: flags_listed_def registry_ok_def uninitialized_empty_def controller_constructor_def)
next
  case (ctl_transaction c c')
  then show ?case using controller_step_flags step_uninitialized_empty by blast
qed

lemma controller_reachable_inv: "controller_reachable uniq c \<Longrightarrow> uniq \<Longrightarrow> controller_inv c \<and> uninitialized_empty c"
proof (induction rule: controller_reachable.induct)
  case (ctl_deployed sender fr)
  then show ?case
    by (simp add: controller_inv_constructor) (simp add: uninitialized_empty_def controller_constructor_def)
next
  case (ctl_transaction c c')
  then show ?case using controller_step_inv step_uninitialized_empty by blast
qed

subsection \<open>Properties of the controller\<close>

text \<open>
  C11. In every state the controller can reach, the list of Sets has no duplicates and agrees with its flag, every flagged factory, module and
  resource is listed, and before initialization everything is empty. If the arrays given to \<open>initialize\<close> had no duplicates (\<open>uniq\<close>), all the
  lists have no duplicates and agree with their flags, every resource identifier in use points to a
  registered resource and no two identifiers to the same one.
\<close>

theorem controller_invariant:
  assumes "controller_reachable uniq c"
  shows "distinct (ctl_sets c) \<and> (\<forall>a. isSet c a \<longleftrightarrow> a \<in> set (ctl_sets c))
    \<and> (\<forall>a. (isFactory c a \<longrightarrow> a \<in> set (ctl_factories c)) \<and> (isModule c a \<longrightarrow> a \<in> set (ctl_modules c))
         \<and> (isResource c a \<longrightarrow> a \<in> set (ctl_resources c)))
    \<and> (isInitialized c \<or> ctl_sets c = [] \<and> (\<forall>a. \<not> isFactory c a \<and> \<not> isModule c a \<and> \<not> isResource c a))
    \<and> (uniq \<longrightarrow> distinct (ctl_factories c) \<and> distinct (ctl_modules c) \<and> distinct (ctl_resources c)
         \<and> (\<forall>a. (isFactory c a \<longleftrightarrow> a \<in> set (ctl_factories c)) \<and> (isModule c a \<longleftrightarrow> a \<in> set (ctl_modules c))
              \<and> (isResource c a \<longleftrightarrow> a \<in> set (ctl_resources c)))
         \<and> (\<forall>i. resourceId c i \<noteq> address_zero \<longrightarrow> isResource c (resourceId c i))
         \<and> (\<forall>i j. resourceId c i \<noteq> address_zero \<and> resourceId c i = resourceId c j \<longrightarrow> i = j))"
  using controller_reachable_flags [OF assms] controller_reachable_inv [OF assms]
  unfolding flags_listed_def controller_inv_def resources_ok_def registry_ok_def uninitialized_empty_def by blast

text \<open>The duplicate that \<open>initialize\<close> accepts: after its removal the factory is still listed.\<close>

lemma duplicate_factory_stays:
  "\<exists>c. rbind (controller_initialize 1 [10, 10] [11] [12] [0] (controller_constructor 1 9)) (removeFactory 1 10) = Inr c
     \<and> \<not> isFactory c 10 \<and> ctl_factories c = [10]"
proof -
  let ?r = "rbind (controller_initialize 1 [10, 10] [11] [12] [0] (controller_constructor 1 9)) (removeFactory 1 10)"
  have "case ?r of Inl e \<Rightarrow> False | Inr c \<Rightarrow> \<not> isFactory c 10 \<and> ctl_factories c = [10]" by code_simp
  then show ?thesis by (cases ?r) simp_all
qed

text \<open>A system with a factory, a module and a resource, and a Set created by the factory.\<close>

definition registry_demo :: "controller result" where
  "registry_demo = rbind (controller_initialize 1 [10] [11] [12] [0] (controller_constructor 1 9)) (addSet 10 20)"

lemma registry_demo_reachable: "\<exists>c. registry_demo = Inr c \<and> controller_reachable True c \<and> isSet c 20"
proof -
  have "is_ok registry_demo" unfolding registry_demo_def by code_simp
  then obtain c1 c where c1: "controller_initialize 1 [10] [11] [12] [0] (controller_constructor 1 9) = Inr c1"
    and c: "addSet 10 20 c1 = Inr c" "registry_demo = Inr c"
    by (auto simp: registry_demo_def is_ok_iff rbind_eq_Inr)
  have "controller_reachable True c1"
    by (rule ctl_transaction [OF ctl_deployed ctl_initialize [OF _ c1]]) simp
  then have "controller_reachable True c" by (rule ctl_transaction [OF _ ctl_addSet [OF c(1)]])
  moreover have "isSet c 20" using set_registry.add_law [OF c(1)] by simp
  ultimately show ?thesis using c(2) by blast
qed

theorem controller_invariant_witness: "\<exists>c. registry_demo = Inr c \<and> 20 \<in> set (ctl_sets c) \<and> distinct (ctl_sets c) \<and> distinct (ctl_resources c)"
  using registry_demo_reachable controller_invariant [of True] by blast

text \<open>
  After initialization every administrative function reverts for a sender that is not the owner,
  and so does adding a Set for a sender that is not a factory; initialization itself is refused.
\<close>

lemma controller_access:
  assumes "isInitialized c" "sender \<noteq> ctl_owner c" "\<not> isFactory c sender"
  shows "{removeSet sender a c, addFactory sender a c, removeFactory sender a c, controller_addModule sender a c,
      controller_removeModule sender a c, addResource sender a i c, removeResource sender i c, addFee sender a i n c,
      editFee sender a i n c, editFeeRecipient sender a c, controller_initialize sender fs ms rs ids c}
      = {Inl (Revert ''Ownable: caller is not the owner'')}
    \<and> addSet sender a c = Inl (Revert ''Only valid factories can call'')
    \<and> controller_initialize (ctl_owner c) fs ms rs ids c = Inl (Revert ''Controller is already initialized'')"
  using assms by (simp add: controller_ops controller_initialize_def)

lemma controller_access_example:
  "\<exists>c. registry_demo = Inr c \<and> addSet 5 30 c = Inl (Revert ''Only valid factories can call'')"
proof -
  obtain c where c: "registry_demo = Inr c" using registry_demo_reachable by blast
  have "isInitialized (projr registry_demo) \<and> ctl_owner (projr registry_demo) = 1 \<and> \<not> isFactory (projr registry_demo) 5"
    unfolding registry_demo_def by code_simp
  then have "isInitialized c" "5 \<noteq> ctl_owner c" "\<not> isFactory c 5" unfolding c by simp_all
  from controller_access [OF this] c show ?thesis by blast
qed

subsection \<open>Refinement of an abstract registry\<close>

text \<open>
  What the Controller promises its clients: three sets of addresses and a directory from resource
  identifiers to addresses, with plain set and map operations.
\<close>

datatype registry_kind = SetKind | FactoryKind | ModuleKind

record registry =
  members :: "registry_kind \<Rightarrow> address set"
  directory :: "int \<rightharpoonup> address"

definition enter :: "registry_kind \<Rightarrow> address \<Rightarrow> registry \<Rightarrow> registry" where
  "enter k a r = r\<lparr>members := (members r)(k := insert a (members r k))\<rparr>"

definition leave :: "registry_kind \<Rightarrow> address \<Rightarrow> registry \<Rightarrow> registry" where
  "leave k a r = r\<lparr>members := (members r)(k := members r k - {a})\<rparr>"

definition assign :: "int \<Rightarrow> address \<Rightarrow> registry \<Rightarrow> registry" where
  "assign i a r = r\<lparr>directory := (directory r)(i \<mapsto> a)\<rparr>"

definition release :: "int \<Rightarrow> registry \<Rightarrow> registry" where
  "release i r = r\<lparr>directory := (directory r)(i := None)\<rparr>"

text \<open>The flags and the identifier mapping, read as sets and a map; the zero address means no entry.\<close>

definition registry_of :: "controller \<Rightarrow> registry" where
  "registry_of c = \<lparr>members = (\<lambda>k. case k of SetKind \<Rightarrow> {a. isSet c a} | FactoryKind \<Rightarrow> {a. isFactory c a} | ModuleKind \<Rightarrow> {a. isModule c a}),
     directory = (\<lambda>i. if resourceId c i = address_zero then None else Some (resourceId c i))\<rparr>"

lemmas registry_defs = registry_of_def enter_def leave_def assign_def release_def

text \<open>
  The lists that the getters return represent the members: exactly and without duplicates for Sets, and for factories and modules when the arrays
  given to \<open>initialize\<close> had no duplicates; otherwise they hold at least the members.
\<close>

definition represents :: "bool \<Rightarrow> controller \<Rightarrow> registry \<Rightarrow> bool" where
  "represents uniq c r \<longleftrightarrow> r = registry_of c \<and> distinct (ctl_sets c) \<and> set (ctl_sets c) = members r SetKind
     \<and> members r FactoryKind \<subseteq> set (ctl_factories c) \<and> members r ModuleKind \<subseteq> set (ctl_modules c)
     \<and> (uniq \<longrightarrow> distinct (ctl_factories c) \<and> set (ctl_factories c) = members r FactoryKind
          \<and> distinct (ctl_modules c) \<and> set (ctl_modules c) = members r ModuleKind)"

lemma reachable_represents: "controller_reachable uniq c \<Longrightarrow> represents uniq c (registry_of c)"
  using controller_reachable_flags [of uniq c] controller_reachable_inv [of uniq c]
  by (auto simp: represents_def registry_of_def flags_listed_def controller_inv_def registry_ok_def)

lemma registry_enter:
  "addSet x a c = Inr c' \<Longrightarrow> a \<notin> members (registry_of c) SetKind \<and> registry_of c' = enter SetKind a (registry_of c)"
  "addFactory x a c = Inr c' \<Longrightarrow> a \<notin> members (registry_of c) FactoryKind \<and> registry_of c' = enter FactoryKind a (registry_of c)"
  "controller_addModule x a c = Inr c' \<Longrightarrow> a \<notin> members (registry_of c) ModuleKind \<and> registry_of c' = enter ModuleKind a (registry_of c)"
  by (auto simp: controller_ops result_simps registry_defs fun_eq_iff split: registry_kind.splits)

lemma registry_leave:
  "removeSet x a c = Inr c' \<Longrightarrow> a \<in> members (registry_of c) SetKind \<and> registry_of c' = leave SetKind a (registry_of c)"
  "removeFactory x a c = Inr c' \<Longrightarrow> a \<in> members (registry_of c) FactoryKind \<and> registry_of c' = leave FactoryKind a (registry_of c)"
  "controller_removeModule x a c = Inr c' \<Longrightarrow> a \<in> members (registry_of c) ModuleKind \<and> registry_of c' = leave ModuleKind a (registry_of c)"
  by (auto simp: controller_ops result_simps registry_defs fun_eq_iff split: registry_kind.splits if_splits)

lemma registry_resources:
  "addResource x a i c = Inr c' \<Longrightarrow> a \<noteq> address_zero \<Longrightarrow> directory (registry_of c) i = None \<and> registry_of c' = assign i a (registry_of c)"
  "removeResource x i c = Inr c' \<Longrightarrow> directory (registry_of c) i \<noteq> None \<and> registry_of c' = release i (registry_of c)"
  by (auto simp: controller_ops result_simps registry_defs Let_def fun_eq_iff split: registry_kind.splits if_splits)

lemma new_resource_unused:
  "resources_ok c \<Longrightarrow> addResource x a i c = Inr c' \<Longrightarrow> a \<noteq> address_zero \<Longrightarrow> a \<notin> ran (directory (registry_of c))"
  by (auto simp: controller_ops result_simps registry_defs resources_ok_def ran_def split: if_splits)

lemma registry_fees:
  "addFee x a i n c = Inr c' \<Longrightarrow> registry_of c' = registry_of c" "editFee x a i n c = Inr c' \<Longrightarrow> registry_of c' = registry_of c"
  "editFeeRecipient x a c = Inr c' \<Longrightarrow> registry_of c' = registry_of c"
  by (auto simp: controller_ops result_simps registry_of_def fun_eq_iff split: registry_kind.splits)

text \<open>
  C4. The Controller refines the abstract registry: every reachable state represents its members, and each successful operation is,
  under the abstraction, exactly the set or map operation it stands for and was enabled there (but for adding the zero address as a resource); the fee
  operations do not touch the registry. What depends on arrays without duplicates given to \<open>initialize\<close> (\<open>uniq\<close>) is that the lists of factories and
  modules hold nothing but the members, and that a new resource was not in the directory before.
\<close>

theorem controller_refines_registry:
  assumes "controller_reachable uniq c"
  shows "represents uniq c (registry_of c)
    \<and> (addSet x a c = Inr c' \<longrightarrow> a \<notin> members (registry_of c) SetKind \<and> represents uniq c' (enter SetKind a (registry_of c)))
    \<and> (removeSet x a c = Inr c' \<longrightarrow> a \<in> members (registry_of c) SetKind \<and> represents uniq c' (leave SetKind a (registry_of c)))
    \<and> (addFactory x a c = Inr c' \<longrightarrow> a \<notin> members (registry_of c) FactoryKind \<and> represents uniq c' (enter FactoryKind a (registry_of c)))
    \<and> (removeFactory x a c = Inr c' \<longrightarrow> a \<in> members (registry_of c) FactoryKind \<and> represents uniq c' (leave FactoryKind a (registry_of c)))
    \<and> (controller_addModule x a c = Inr c' \<longrightarrow> a \<notin> members (registry_of c) ModuleKind \<and> represents uniq c' (enter ModuleKind a (registry_of c)))
    \<and> (controller_removeModule x a c = Inr c' \<longrightarrow> a \<in> members (registry_of c) ModuleKind \<and> represents uniq c' (leave ModuleKind a (registry_of c)))
    \<and> (addResource x a i c = Inr c' \<and> a \<noteq> address_zero \<longrightarrow> directory (registry_of c) i = None
         \<and> (uniq \<longrightarrow> a \<notin> ran (directory (registry_of c))) \<and> represents uniq c' (assign i a (registry_of c)))
    \<and> (removeResource x i c = Inr c' \<longrightarrow> directory (registry_of c) i \<noteq> None \<and> represents uniq c' (release i (registry_of c)))
    \<and> (addFee x a i n c = Inr c' \<or> editFee x a i n c = Inr c' \<or> editFeeRecipient x a c = Inr c' \<longrightarrow> represents uniq c' (registry_of c))"
proof -
  have next_state: "registry_of c' = r \<Longrightarrow> controller_step uniq c c' \<Longrightarrow> represents uniq c' r" for r c'
    using reachable_represents [OF ctl_transaction [OF assms]] by blast
  have res: "uniq \<longrightarrow> resources_ok c" using controller_reachable_inv [OF assms] by (simp add: controller_inv_def)
  show ?thesis
    by (intro conjI impI; use reachable_represents [OF assms] res in
        \<open>blast dest: registry_enter registry_leave registry_resources registry_fees new_resource_unused
          intro: next_state ctl_addSet ctl_removeSet ctl_addFactory ctl_removeFactory ctl_addModule ctl_removeModule
            ctl_addResource ctl_removeResource ctl_addFee ctl_editFee ctl_editFeeRecipient\<close>)
qed

theorem controller_refines_registry_witness:
  "\<exists>c c'. registry_demo = Inr c \<and> removeSet 1 20 c = Inr c' \<and> represents True c' (leave SetKind 20 (registry_of c))"
proof -
  obtain c where c: "registry_demo = Inr c" "controller_reachable True c" using registry_demo_reachable by blast
  have "is_ok (rbind registry_demo (removeSet 1 20))" unfolding registry_demo_def by code_simp
  then obtain c' where c': "removeSet 1 20 c = Inr c'" unfolding c(1) by (auto simp: is_ok_iff)
  then show ?thesis using controller_refines_registry [OF c(2)] c(1) by blast
qed

end
