(* ===== verification/SetToken.thy ===== *)
theory SetToken
  imports ERC20 PreciseUnitMath Controller
begin

section \<open>SetToken: positions, modules and privileged operations\<close>

text \<open>
  \<^verbatim>\<open>src/contracts/protocol/SetToken.sol\<close> with the structs of \<^verbatim>\<open>src/contracts/interfaces/ISetToken.sol\<close>.
  The contract inherits the ERC20 ledger, so the record \<open>set_token\<close> extends \<open>erc20\<close>. Every external
  function takes \<open>msg.sender\<close>, the state of the Controller it asks (\<open>controller.isModule\<close>), its
  arguments and the state, and returns the new state or the revert reason. Code of other contracts
  that runs inside a call is a parameter: the target of \<open>invoke\<close> and the module's own
  \<open>removeModule\<close>, both of which may call back and therefore take and return the state.

  The second half proves: the read-after-write laws of the position units (locale \<open>unit_store\<close>,
  interpreted for default and for external positions), that \<open>getPositions\<close> fills exactly the array
  it allocates, and that the invariant \<open>set_inv\<close> (duplicate-free component and module lists, module
  list and module states in agreement, a positive multiplier, the supply
  equal to the sum of the balances) holds after any sequence of calls, those that foreign code makes
  during \<open>invoke\<close> and \<open>removeModule\<close> included (\<open>set_run\<close>). That the locker of a locked Set is one of its
  modules (\<open>locker_ok\<close>) holds as long as no module keeps the lock while it is removed, which the code does not prevent.
\<close>

type_synonym bytes = "8 word list"

datatype ModuleState = NONE | PENDING | INITIALIZED

record Position =
  pos_component :: address
  pos_module :: address
  pos_unit :: int
  positionState :: int
  pos_data :: bytes

record ExternalPosition =
  ext_virtualUnit :: int
  ext_data :: bytes

record ComponentPosition =
  virtualUnit :: int
  externalPositionModules :: "address list"
  externalPositions :: "address \<Rightarrow> ExternalPosition"

abbreviation (input) DEFAULT :: int where "DEFAULT \<equiv> 0"
abbreviation (input) EXTERNAL :: int where "EXTERNAL \<equiv> 1"

record set_token = erc20 +
  st_controller :: address
  manager :: address
  locker :: address
  modules :: "address list"
  moduleStates :: "address \<Rightarrow> ModuleState"
  isLocked :: bool
  components :: "address list"
  componentPositions :: "address \<Rightarrow> ComponentPosition"
  positionMultiplier :: int

abbreviation no_external :: ExternalPosition where
  "no_external \<equiv> \<lparr>ext_virtualUnit = 0, ext_data = []\<rparr>"

abbreviation no_position :: ComponentPosition where
  "no_position \<equiv> \<lparr>virtualUnit = 0, externalPositionModules = [], externalPositions = (\<lambda>_. no_external)\<rparr>"

subsection \<open>Construction\<close>

fun pend_modules :: "address list \<Rightarrow> set_token \<Rightarrow> set_token" where
  "pend_modules [] s = s"
| "pend_modules (m # ms) s = pend_modules ms (s\<lparr>moduleStates := (moduleStates s)(m := PENDING)\<rparr>)"

fun set_default_units :: "address list \<Rightarrow> int list \<Rightarrow> nat \<Rightarrow> set_token \<Rightarrow> set_token result" where
  "set_default_units [] units j s = Ok s"
| "set_default_units (k # ks) units j s =
     rbind (array_get units j) (\<lambda>u.
     set_default_units ks units (Suc j)
       (s\<lparr>componentPositions := (componentPositions s)
            (k := (componentPositions s k)\<lparr>virtualUnit := u\<rparr>)\<rparr>))"

definition set_token_constructor ::
  "address list \<Rightarrow> int list \<Rightarrow> address list \<Rightarrow> address \<Rightarrow> address \<Rightarrow> string \<Rightarrow> string \<Rightarrow> set_token result" where
  "set_token_constructor components0 units modules0 controller0 manager0 nm smb =
     (let s = \<lparr>balances = balances (erc20_constructor nm smb),
               allowances = allowances (erc20_constructor nm smb),
               totalSupply = totalSupply (erc20_constructor nm smb),
               token_name = token_name (erc20_constructor nm smb),
               token_symbol = token_symbol (erc20_constructor nm smb),
               token_decimals = token_decimals (erc20_constructor nm smb),
               st_controller = controller0, manager = manager0, locker = address_zero,
               modules = [], moduleStates = (\<lambda>_. NONE), isLocked = False,
               components = components0, componentPositions = (\<lambda>_. no_position),
               positionMultiplier = preciseUnitInt\<rparr>
      in set_default_units components0 units 0 (pend_modules modules0 s))"

subsection \<open>Validation\<close>

definition validateOnlyModule :: "address \<Rightarrow> controller \<Rightarrow> set_token \<Rightarrow> unit result" where
  "validateOnlyModule msg_sender c s =
     rbind (require (moduleStates s msg_sender = INITIALIZED) ''Only the module can call'') (\<lambda>_.
     require (isModule c msg_sender) ''Module must be enabled on controller'')"

definition validateOnlyManager :: "address \<Rightarrow> set_token \<Rightarrow> unit result" where
  "validateOnlyManager msg_sender s = require (msg_sender = manager s) ''Only manager can call''"

definition validateWhenLockedOnlyLocker :: "address \<Rightarrow> set_token \<Rightarrow> unit result" where
  "validateWhenLockedOnlyLocker msg_sender s =
     (if isLocked s then require (msg_sender = locker s) ''When locked, only the locker can call'' else Ok ())"

text \<open>The pair of modifiers \<open>onlyModule whenLockedOnlyLocker\<close> in front of a function body.\<close>

definition privileged :: "address \<Rightarrow> controller \<Rightarrow> set_token \<Rightarrow> 'a result \<Rightarrow> 'a result" where
  "privileged msg_sender c s body =
     rbind (validateOnlyModule msg_sender c s) (\<lambda>_.
     rbind (validateWhenLockedOnlyLocker msg_sender s) (\<lambda>_. body))"

subsection \<open>Reading positions\<close>

definition isComponent :: "set_token \<Rightarrow> address \<Rightarrow> bool" where
  "isComponent s k = contains (components s) k"

definition defaultPositionVirtualUnit :: "set_token \<Rightarrow> address \<Rightarrow> int" where
  "defaultPositionVirtualUnit s k = virtualUnit (componentPositions s k)"

definition getExternalPositionModules :: "set_token \<Rightarrow> address \<Rightarrow> address list" where
  "getExternalPositionModules s k = externalPositionModules (componentPositions s k)"

definition externalPositionVirtualUnit :: "set_token \<Rightarrow> address \<Rightarrow> address \<Rightarrow> int" where
  "externalPositionVirtualUnit s k m = ext_virtualUnit (externalPositions (componentPositions s k) m)"

definition getExternalPositionData :: "set_token \<Rightarrow> address \<Rightarrow> address \<Rightarrow> bytes" where
  "getExternalPositionData s k m = ext_data (externalPositions (componentPositions s k) m)"

definition isExternalPositionModule :: "set_token \<Rightarrow> address \<Rightarrow> address \<Rightarrow> bool" where
  "isExternalPositionModule s k m = contains (getExternalPositionModules s k) m"

definition isInitializedModule :: "set_token \<Rightarrow> address \<Rightarrow> bool" where
  "isInitializedModule s m \<longleftrightarrow> moduleStates s m = INITIALIZED"

definition isPendingModule :: "set_token \<Rightarrow> address \<Rightarrow> bool" where
  "isPendingModule s m \<longleftrightarrow> moduleStates s m = PENDING"

definition convertVirtualToRealUnit :: "set_token \<Rightarrow> int \<Rightarrow> int result" where
  "convertVirtualToRealUnit s v = conservativePreciseMul v (positionMultiplier s)"

definition convertRealToVirtualUnit :: "set_token \<Rightarrow> int \<Rightarrow> int result" where
  "convertRealToVirtualUnit s realUnit =
     rbind (conservativePreciseDiv realUnit (positionMultiplier s)) (\<lambda>v.
     if realUnit > 0 \<and> v = 0 then Err (Revert ''Real to Virtual unit conversion invalid'')
     else if realUnit > 0 then
       rbind (convertVirtualToRealUnit s v) (\<lambda>r.
       if r = 0 then Err (Revert ''Virtual to Real unit conversion invalid'') else Ok v)
     else Ok v)"

definition getDefaultPositionRealUnit :: "set_token \<Rightarrow> address \<Rightarrow> int result" where
  "getDefaultPositionRealUnit s k = convertVirtualToRealUnit s (defaultPositionVirtualUnit s k)"

definition getExternalPositionRealUnit :: "set_token \<Rightarrow> address \<Rightarrow> address \<Rightarrow> int result" where
  "getExternalPositionRealUnit s k m = convertVirtualToRealUnit s (externalPositionVirtualUnit s k m)"

text \<open>The array size and the array of \<open>getPositions\<close>: writing past the allocated size is the invalid opcode.\<close>

fun getPositionCount_from :: "set_token \<Rightarrow> address list \<Rightarrow> nat \<Rightarrow> nat" where
  "getPositionCount_from s [] n = n"
| "getPositionCount_from s (k # ks) n =
     (let n1 = (if defaultPositionVirtualUnit s k > 0 then n + 1 else n);
          ms = getExternalPositionModules s k;
          n2 = (if length ms > 0 then n1 + length ms else n1)
      in getPositionCount_from s ks n2)"

definition getPositionCount :: "set_token \<Rightarrow> nat" where
  "getPositionCount s = getPositionCount_from s (components s) 0"

definition array_put :: "'a list \<Rightarrow> nat \<Rightarrow> 'a \<Rightarrow> 'a list result" where
  "array_put xs i x = (if i < length xs then Ok (xs[i := x]) else Err Invalid)"

definition default_position :: "set_token \<Rightarrow> address \<Rightarrow> Position result" where
  "default_position s k =
     rbind (getDefaultPositionRealUnit s k) (\<lambda>u.
     Ok \<lparr>pos_component = k, pos_module = address_zero, pos_unit = u, positionState = DEFAULT, pos_data = []\<rparr>)"

definition external_position :: "set_token \<Rightarrow> address \<Rightarrow> address \<Rightarrow> Position result" where
  "external_position s k m =
     rbind (getExternalPositionRealUnit s k m) (\<lambda>u.
     Ok \<lparr>pos_component = k, pos_module = m, pos_unit = u, positionState = EXTERNAL,
         pos_data = getExternalPositionData s k m\<rparr>)"

fun put_externals :: "set_token \<Rightarrow> address \<Rightarrow> address list \<Rightarrow> Position list \<times> nat \<Rightarrow> (Position list \<times> nat) result" where
  "put_externals s k [] (ps, n) = Ok (ps, n)"
| "put_externals s k (m # ms) (ps, n) =
     rbind (external_position s k m) (\<lambda>p.
     rbind (array_put ps n p) (\<lambda>ps'. put_externals s k ms (ps', n + 1)))"

fun put_positions :: "set_token \<Rightarrow> address list \<Rightarrow> Position list \<times> nat \<Rightarrow> (Position list \<times> nat) result" where
  "put_positions s [] (ps, n) = Ok (ps, n)"
| "put_positions s (k # ks) (ps, n) =
     rbind (if defaultPositionVirtualUnit s k > 0
            then rbind (default_position s k) (\<lambda>p. rbind (array_put ps n p) (\<lambda>ps'. Ok (ps', n + 1)))
            else Ok (ps, n)) (\<lambda>(ps1, n1).
     rbind (put_externals s k (getExternalPositionModules s k) (ps1, n1)) (\<lambda>(ps2, n2).
     put_positions s ks (ps2, n2)))"

definition empty_position :: Position where
  "empty_position = \<lparr>pos_component = address_zero, pos_module = address_zero, pos_unit = 0,
                     positionState = 0, pos_data = []\<rparr>"

definition getPositions :: "set_token \<Rightarrow> Position list result" where
  "getPositions s =
     rbind (put_positions s (components s) (replicate (getPositionCount s) empty_position, 0)) (\<lambda>(ps, _).
     Ok ps)"

fun sum_external_units :: "set_token \<Rightarrow> address \<Rightarrow> address list \<Rightarrow> int \<Rightarrow> int result" where
  "sum_external_units s k [] totalUnits = Ok totalUnits"
| "sum_external_units s k (m # ms) totalUnits =
     rbind (getExternalPositionRealUnit s k m) (\<lambda>u.
     rbind (sadd totalUnits u) (sum_external_units s k ms))"

definition getTotalComponentRealUnits :: "set_token \<Rightarrow> address \<Rightarrow> int result" where
  "getTotalComponentRealUnits s k =
     rbind (getDefaultPositionRealUnit s k) (sum_external_units s k (getExternalPositionModules s k))"
subsection \<open>The multiplier\<close>

definition absoluteValue :: "int \<Rightarrow> int result" where
  "absoluteValue a = (if a \<ge> 0 then toUint256 a else toUint256 (wrap_int256 (- a)))"

fun min_external_unit :: "set_token \<Rightarrow> address \<Rightarrow> address list \<Rightarrow> int \<Rightarrow> int result" where
  "min_external_unit s k [] minimumUnit = Ok minimumUnit"
| "min_external_unit s k (m # ms) minimumUnit =
     rbind (absoluteValue (externalPositionVirtualUnit s k m)) (\<lambda>v.
     min_external_unit s k ms (if v > 0 \<and> v < minimumUnit then v else minimumUnit))"

fun min_unit :: "set_token \<Rightarrow> address list \<Rightarrow> int \<Rightarrow> int result" where
  "min_unit s [] minimumUnit = Ok minimumUnit"
| "min_unit s (k # ks) minimumUnit =
     rbind (toUint256 (defaultPositionVirtualUnit s k)) (\<lambda>defaultUnit.
     rbind (min_external_unit s k (getExternalPositionModules s k)
             (if defaultUnit > 0 \<and> defaultUnit < minimumUnit then defaultUnit else minimumUnit))
       (min_unit s ks))"

definition getPositionsAbsMinimumVirtualUnit :: "set_token \<Rightarrow> int result" where
  "getPositionsAbsMinimumVirtualUnit s =
     rbind (min_unit s (components s) (wrap_uint256 (-1))) toInt256"

definition validateNewMultiplier :: "int \<Rightarrow> set_token \<Rightarrow> unit result" where
  "validateNewMultiplier newMultiplier s =
     rbind (getPositionsAbsMinimumVirtualUnit s) (\<lambda>minVirtualUnit.
     rbind (conservativePreciseMul minVirtualUnit newMultiplier) (\<lambda>r.
     require (r > 0) ''New multiplier too small''))"

subsection \<open>Privileged module functions\<close>

text \<open>
  The call of \<open>invoke\<close> goes to arbitrary code, which may call back into this contract; its result
  type is left open, so that a caller can carry more of the chain's state through the call.
\<close>

definition invoke ::
  "(address \<Rightarrow> int \<Rightarrow> bytes \<Rightarrow> set_token \<Rightarrow> 'r result) \<Rightarrow>
   address \<Rightarrow> controller \<Rightarrow> address \<Rightarrow> int \<Rightarrow> bytes \<Rightarrow> set_token \<Rightarrow> 'r result" where
  "invoke functionCallWithValue msg_sender c target value data s =
     privileged msg_sender c s (functionCallWithValue target value data s)"

definition addComponent :: "address \<Rightarrow> controller \<Rightarrow> address \<Rightarrow> set_token \<Rightarrow> set_token result" where
  "addComponent msg_sender c k s =
     privileged msg_sender c s (
     rbind (require (\<not> isComponent s k) ''Must not be component'') (\<lambda>_.
     Ok (s\<lparr>components := components s @ [k]\<rparr>)))"

definition removeComponent :: "address \<Rightarrow> controller \<Rightarrow> address \<Rightarrow> set_token \<Rightarrow> set_token result" where
  "removeComponent msg_sender c k s =
     privileged msg_sender c s (
     rbind (removeStorage (components s) k) (\<lambda>ks. Ok (s\<lparr>components := ks\<rparr>)))"

definition editDefaultPositionUnit ::
  "address \<Rightarrow> controller \<Rightarrow> address \<Rightarrow> int \<Rightarrow> set_token \<Rightarrow> set_token result" where
  "editDefaultPositionUnit msg_sender c k realUnit s =
     privileged msg_sender c s (
     rbind (convertRealToVirtualUnit s realUnit) (\<lambda>v.
     Ok (s\<lparr>componentPositions := (componentPositions s)
              (k := (componentPositions s k)\<lparr>virtualUnit := v\<rparr>)\<rparr>)))"

definition addExternalPositionModule ::
  "address \<Rightarrow> controller \<Rightarrow> address \<Rightarrow> address \<Rightarrow> set_token \<Rightarrow> set_token result" where
  "addExternalPositionModule msg_sender c k m s =
     privileged msg_sender c s (
     rbind (require (\<not> isExternalPositionModule s k m) ''Module already added'') (\<lambda>_.
     Ok (s\<lparr>componentPositions := (componentPositions s)
              (k := (componentPositions s k)
                 \<lparr>externalPositionModules := externalPositionModules (componentPositions s k) @ [m]\<rparr>)\<rparr>)))"

definition removeExternalPositionModule ::
  "address \<Rightarrow> controller \<Rightarrow> address \<Rightarrow> address \<Rightarrow> set_token \<Rightarrow> set_token result" where
  "removeExternalPositionModule msg_sender c k m s =
     privileged msg_sender c s (
     rbind (removeStorage (externalPositionModules (componentPositions s k)) m) (\<lambda>ms.
     Ok (s\<lparr>componentPositions := (componentPositions s)
              (k := (componentPositions s k)
                 \<lparr>externalPositionModules := ms,
                  externalPositions := (externalPositions (componentPositions s k))(m := no_external)\<rparr>)\<rparr>)))"

definition editExternalPositionUnit ::
  "address \<Rightarrow> controller \<Rightarrow> address \<Rightarrow> address \<Rightarrow> int \<Rightarrow> set_token \<Rightarrow> set_token result" where
  "editExternalPositionUnit msg_sender c k m realUnit s =
     privileged msg_sender c s (
     rbind (convertRealToVirtualUnit s realUnit) (\<lambda>v.
     Ok (s\<lparr>componentPositions := (componentPositions s)
              (k := (componentPositions s k)
                 \<lparr>externalPositions := (externalPositions (componentPositions s k))
                    (m := (externalPositions (componentPositions s k) m)\<lparr>ext_virtualUnit := v\<rparr>)\<rparr>)\<rparr>)))"

definition editExternalPositionData ::
  "address \<Rightarrow> controller \<Rightarrow> address \<Rightarrow> address \<Rightarrow> bytes \<Rightarrow> set_token \<Rightarrow> set_token result" where
  "editExternalPositionData msg_sender c k m data s =
     privileged msg_sender c s (
     Ok (s\<lparr>componentPositions := (componentPositions s)
              (k := (componentPositions s k)
                 \<lparr>externalPositions := (externalPositions (componentPositions s k))
                    (m := (externalPositions (componentPositions s k) m)\<lparr>ext_data := data\<rparr>)\<rparr>)\<rparr>))"

definition editPositionMultiplier ::
  "address \<Rightarrow> controller \<Rightarrow> int \<Rightarrow> set_token \<Rightarrow> set_token result" where
  "editPositionMultiplier msg_sender c newMultiplier s =
     privileged msg_sender c s (
     rbind (validateNewMultiplier newMultiplier s) (\<lambda>_.
     Ok (s\<lparr>positionMultiplier := newMultiplier\<rparr>)))"

definition set_mint :: "address \<Rightarrow> controller \<Rightarrow> address \<Rightarrow> int \<Rightarrow> set_token \<Rightarrow> set_token result" where
  "set_mint msg_sender c account quantity s =
     privileged msg_sender c s (erc20_mint account quantity s)"

definition set_burn :: "address \<Rightarrow> controller \<Rightarrow> address \<Rightarrow> int \<Rightarrow> set_token \<Rightarrow> set_token result" where
  "set_burn msg_sender c account quantity s =
     privileged msg_sender c s (erc20_burn account quantity s)"

definition lock :: "address \<Rightarrow> controller \<Rightarrow> set_token \<Rightarrow> set_token result" where
  "lock msg_sender c s =
     rbind (validateOnlyModule msg_sender c s) (\<lambda>_.
     rbind (require (\<not> isLocked s) ''Must not be locked'') (\<lambda>_.
     Ok (s\<lparr>locker := msg_sender, isLocked := True\<rparr>)))"

definition unlock :: "address \<Rightarrow> controller \<Rightarrow> set_token \<Rightarrow> set_token result" where
  "unlock msg_sender c s =
     rbind (validateOnlyModule msg_sender c s) (\<lambda>_.
     rbind (require (isLocked s) ''Must be locked'') (\<lambda>_.
     rbind (require (locker s = msg_sender) ''Must be locker'') (\<lambda>_.
     Ok (s\<lparr>locker := address_zero, isLocked := False\<rparr>))))"

subsection \<open>Manager functions and module initialization\<close>

definition addModule :: "address \<Rightarrow> controller \<Rightarrow> address \<Rightarrow> set_token \<Rightarrow> set_token result" where
  "addModule msg_sender c m s =
     rbind (validateOnlyManager msg_sender s) (\<lambda>_.
     rbind (require (moduleStates s m = NONE) ''Module must not be added'') (\<lambda>_.
     rbind (require (isModule c m) ''Must be enabled on Controller'') (\<lambda>_.
     Ok (s\<lparr>moduleStates := (moduleStates s)(m := PENDING)\<rparr>))))"

text \<open>The parameter is the module's own \<open>removeModule\<close>; the state it returns is the one the code goes on with.\<close>

definition removeModule ::
  "(address \<Rightarrow> set_token \<Rightarrow> set_token result) \<Rightarrow> address \<Rightarrow> address \<Rightarrow> set_token \<Rightarrow> set_token result" where
  "removeModule module_removeModule msg_sender m s =
     rbind (validateOnlyManager msg_sender s) (\<lambda>_.
     rbind (require (\<not> isLocked s) ''Only when unlocked'') (\<lambda>_.
     rbind (require (moduleStates s m = INITIALIZED) ''Module must be added'') (\<lambda>_.
     rbind (module_removeModule m s) (\<lambda>s1.
     let s2 = s1\<lparr>moduleStates := (moduleStates s1)(m := NONE)\<rparr> in
     rbind (removeStorage (modules s2) m) (\<lambda>ms.
     Ok (s2\<lparr>modules := ms\<rparr>))))))"

definition removePendingModule :: "address \<Rightarrow> address \<Rightarrow> set_token \<Rightarrow> set_token result" where
  "removePendingModule msg_sender m s =
     rbind (validateOnlyManager msg_sender s) (\<lambda>_.
     rbind (require (\<not> isLocked s) ''Only when unlocked'') (\<lambda>_.
     rbind (require (moduleStates s m = PENDING) ''Module must be pending'') (\<lambda>_.
     Ok (s\<lparr>moduleStates := (moduleStates s)(m := NONE)\<rparr>))))"

definition initializeModule :: "address \<Rightarrow> set_token \<Rightarrow> set_token result" where
  "initializeModule msg_sender s =
     rbind (require (\<not> isLocked s) ''Only when unlocked'') (\<lambda>_.
     rbind (require (moduleStates s msg_sender = PENDING) ''Module must be pending'') (\<lambda>_.
     Ok (s\<lparr>moduleStates := (moduleStates s)(msg_sender := INITIALIZED),
            modules := modules s @ [msg_sender]\<rparr>)))"

definition setManager :: "address \<Rightarrow> address \<Rightarrow> set_token \<Rightarrow> set_token result" where
  "setManager msg_sender manager0 s =
     rbind (validateOnlyManager msg_sender s) (\<lambda>_.
     rbind (require (\<not> isLocked s) ''Only when unlocked'') (\<lambda>_.
     Ok (s\<lparr>manager := manager0\<rparr>)))"

subsection \<open>The whole interface as one step\<close>

text \<open>Every state-changing call that runs no foreign code.\<close>

datatype set_call =
    AddComponent address
  | RemoveComponent address
  | EditDefaultPositionUnit address int
  | AddExternalPositionModule address address
  | RemoveExternalPositionModule address address
  | EditExternalPositionUnit address address int
  | EditExternalPositionData address address bytes
  | EditPositionMultiplier int
  | Mint address int
  | Burn address int
  | Lock
  | Unlock
  | AddModule address
  | RemovePendingModule address
  | InitializeModule
  | SetManager address
  | Transfer address int
  | Approve address int
  | TransferFrom address address int
  | IncreaseAllowance address int
  | DecreaseAllowance address int

fun set_exec :: "address \<Rightarrow> controller \<Rightarrow> set_call \<Rightarrow> set_token \<Rightarrow> set_token result" where
  "set_exec x c (AddComponent k) s = addComponent x c k s"
| "set_exec x c (RemoveComponent k) s = removeComponent x c k s"
| "set_exec x c (EditDefaultPositionUnit k u) s = editDefaultPositionUnit x c k u s"
| "set_exec x c (AddExternalPositionModule k m) s = addExternalPositionModule x c k m s"
| "set_exec x c (RemoveExternalPositionModule k m) s = removeExternalPositionModule x c k m s"
| "set_exec x c (EditExternalPositionUnit k m u) s = editExternalPositionUnit x c k m u s"
| "set_exec x c (EditExternalPositionData k m d) s = editExternalPositionData x c k m d s"
| "set_exec x c (EditPositionMultiplier u) s = editPositionMultiplier x c u s"
| "set_exec x c (Mint a n) s = set_mint x c a n s"
| "set_exec x c (Burn a n) s = set_burn x c a n s"
| "set_exec x c Lock s = lock x c s"
| "set_exec x c Unlock s = unlock x c s"
| "set_exec x c (AddModule m) s = addModule x c m s"
| "set_exec x c (RemovePendingModule m) s = removePendingModule x m s"
| "set_exec x c InitializeModule s = initializeModule x s"
| "set_exec x c (SetManager a) s = setManager x a s"
| "set_exec x c (Transfer a n) s = transfer x a n s"
| "set_exec x c (Approve a n) s = approve x a n s"
| "set_exec x c (TransferFrom a b n) s = transferFrom x a b n s"
| "set_exec x c (IncreaseAllowance a n) s = increaseAllowance x a n s"
| "set_exec x c (DecreaseAllowance a n) s = decreaseAllowance x a n s"

text \<open>Arguments are in the range of their Solidity type.\<close>

fun call_typed :: "set_call \<Rightarrow> bool" where
  "call_typed (EditDefaultPositionUnit k u) = is_int256 u"
| "call_typed (EditExternalPositionUnit k m u) = is_int256 u"
| "call_typed (EditPositionMultiplier u) = is_int256 u"
| "call_typed (Mint a n) = is_uint256 n"
| "call_typed (Burn a n) = is_uint256 n"
| "call_typed (Transfer a n) = is_uint256 n"
| "call_typed (Approve a n) = is_uint256 n"
| "call_typed (TransferFrom a b n) = is_uint256 n"
| "call_typed (IncreaseAllowance a n) = is_uint256 n"
| "call_typed (DecreaseAllowance a n) = is_uint256 n"
| "call_typed _ = True"

text \<open>
  The two functions that run foreign code beside these. \<open>I\<close> is the code called by \<open>invoke\<close> and \<open>R\<close> the \<open>removeModule\<close> of a module; both
  return the state the function goes on with. For each entry \<open>handed_back\<close> is the state to which its own effect is applied.
\<close>

datatype set_entry = Plain set_call | Invoke address int bytes | RemoveModule address

fun entry_exec ::
  "(address \<Rightarrow> int \<Rightarrow> bytes \<Rightarrow> set_token \<Rightarrow> (set_token \<times> bytes) result) \<Rightarrow> (address \<Rightarrow> set_token \<Rightarrow> set_token result) \<Rightarrow>
   address \<Rightarrow> controller \<Rightarrow> set_entry \<Rightarrow> set_token \<Rightarrow> set_token result" where
  "entry_exec I R x c (Plain f) s = set_exec x c f s"
| "entry_exec I R x c (Invoke target value data) s = rbind (invoke I x c target value data s) (\<lambda>(s', ret). Ok s')"
| "entry_exec I R x c (RemoveModule m) s = removeModule R x m s"

fun handed_back ::
  "(address \<Rightarrow> int \<Rightarrow> bytes \<Rightarrow> set_token \<Rightarrow> (set_token \<times> bytes) result) \<Rightarrow> (address \<Rightarrow> set_token \<Rightarrow> set_token result) \<Rightarrow>
   set_entry \<Rightarrow> set_token \<Rightarrow> set_token result" where
  "handed_back I R (Plain f) s = Ok s"
| "handed_back I R (Invoke target value data) s = rbind (I target value data s) (\<lambda>(s', ret). Ok s')"
| "handed_back I R (RemoveModule m) s = R m s"

text \<open>
  \<open>set_run P strict s t\<close>: a sequence of successful calls by senders in \<open>P\<close>, under arbitrary (changing) controller states, leads
  from \<open>s\<close> to \<open>t\<close>. Foreign code run by \<open>invoke\<close> or by a module's \<open>removeModule\<close> acts on the contract only through
  further calls, so it is itself a \<open>set_run\<close>. \<open>strict\<close> rules out a module that locks the Set while it is being removed and
  keeps the lock, which the code does not check.
\<close>

inductive set_run :: "(address \<Rightarrow> bool) \<Rightarrow> bool \<Rightarrow> set_token \<Rightarrow> set_token \<Rightarrow> bool" for P strict where
  run_refl: "set_run P strict s s"
| run_call: "set_run P strict s t \<Longrightarrow> P x \<Longrightarrow> call_typed f \<Longrightarrow> set_exec x c f t = Inr u \<Longrightarrow> set_run P strict s u"
| run_invoke: "set_run P strict s t \<Longrightarrow> P x \<Longrightarrow> set_run P strict t r \<Longrightarrow>
    invoke (\<lambda>_ _ _ _. Ok (r, out :: bytes)) x c target value data t = Inr (u, ret) \<Longrightarrow> set_run P strict s u"
| run_remove: "set_run P strict s t \<Longrightarrow> P x \<Longrightarrow> set_run P strict t r \<Longrightarrow> (strict \<longrightarrow> \<not> (isLocked r \<and> locker r = m)) \<Longrightarrow>
    removeModule (\<lambda>_ _. Ok r) x m t = Inr u \<Longrightarrow> set_run P strict s u"

subsection \<open>Unit conversion\<close>

lemmas set_ops = addComponent_def removeComponent_def editDefaultPositionUnit_def
  addExternalPositionModule_def removeExternalPositionModule_def editExternalPositionUnit_def
  editExternalPositionData_def editPositionMultiplier_def set_mint_def set_burn_def lock_def unlock_def
  addModule_def removeModule_def removePendingModule_def initializeModule_def setManager_def

lemmas guard_defs = privileged_def validateOnlyModule_def validateOnlyManager_def
  validateWhenLockedOnlyLocker_def

lemma privileged_eq_Inr [result_simps]:
  "privileged x c s body = Inr r \<longleftrightarrow>
     moduleStates s x = INITIALIZED \<and> isModule c x \<and> (isLocked s \<longrightarrow> x = locker s) \<and> body = Inr r"
  by (auto simp: guard_defs result_simps)

definition units_ok :: "set_token \<Rightarrow> bool" where
  "units_ok s \<longleftrightarrow> is_int256 (positionMultiplier s) \<and> 0 < positionMultiplier s"

text \<open>The most by which a unit can shrink when it is stored and read back: the multiplier, rounded up.\<close>

definition unit_slack :: "set_token \<Rightarrow> int" where
  "unit_slack s = (positionMultiplier s + PRECISE_UNIT_INT - 1) div PRECISE_UNIT_INT"

lemma is_int256_div: "is_int256 a \<Longrightarrow> 0 < b \<Longrightarrow> is_int256 (a div b)"
proof -
  assume a: "is_int256 a" and b: "0 < b"
  have "MIN_INT_256 * b \<le> MIN_INT_256 * 1" using b by (intro mult_left_mono_neg) simp_all
  then have "MIN_INT_256 \<le> a div b"
    using a b by (subst le_div_iff_int) (simp_all add: is_int256_def)
  moreover have "(MAX_INT_256 + 1) * 1 \<le> (MAX_INT_256 + 1) * b" using b by (intro mult_left_mono) simp_all
  then have "a div b < MAX_INT_256 + 1"
    using a b by (subst div_less_iff_int) (simp_all add: is_int256_def)
  ultimately show ?thesis by (simp add: is_int256_def)
qed

lemma convertRealToVirtualUnit_typed:
  assumes "units_ok s" "is_int256 u" "convertRealToVirtualUnit s u = Inr v"
  shows "v = u * PRECISE_UNIT_INT div positionMultiplier s \<and> is_int256 v"
proof -
  have "is_int256 (u * PRECISE_UNIT_INT)" and v: "v = u * PRECISE_UNIT_INT div positionMultiplier s"
    using assms by (auto simp: convertRealToVirtualUnit_def result_simps units_ok_def
        conservativePreciseDiv_exact split: if_splits)
  then show ?thesis using assms(1) by (simp add: is_int256_div units_ok_def)
qed

lemma convertVirtualToRealUnit_eq:
  assumes "units_ok s" "is_int256 v" "convertVirtualToRealUnit s v = Inr r"
  shows "r = v * positionMultiplier s div PRECISE_UNIT_INT"
  using assms by (auto simp: convertVirtualToRealUnit_def conservativePreciseMul_exact units_ok_def split: if_splits)

lemma floor_round_trip:
  assumes "0 < (m::int)" "0 < U"
  shows "((u * U div m) * m) div U \<le> u \<and> u - (m + U - 1) div U \<le> ((u * U div m) * m) div U"
proof
  have le: "(u * U div m) * m \<le> u * U" using assms by (intro div_mult_le_int)
  have gt: "u * U < (u * U div m) * m + m"
    using less_div_mult_int [OF assms(1), of "u * U"] by (simp add: distrib_right)
  show "((u * U div m) * m) div U \<le> u"
    using zdiv_mono1 [OF le assms(2)] assms(2) by simp
  have "u * U - (m + U - 1) div U * U \<le> u * U - m"
    using less_div_mult_int [OF assms(2), of "m + U - 1"] by (simp add: distrib_right)
  then have "(u - (m + U - 1) div U) * U \<le> (u * U div m) * m"
    using gt by (simp add: left_diff_distrib)
  then show "u - (m + U - 1) div U \<le> ((u * U div m) * m) div U"
    using assms(2) by (simp add: le_div_iff_int)
qed

lemma convert_round_trip:
  assumes "units_ok s" "is_int256 u" "convertRealToVirtualUnit s u = Inr v" "convertVirtualToRealUnit s v = Inr r"
  shows "r \<le> u \<and> u - unit_slack s \<le> r"
proof -
  have v: "v = u * PRECISE_UNIT_INT div positionMultiplier s" "is_int256 v"
    using convertRealToVirtualUnit_typed [OF assms(1-3)] by blast+
  show ?thesis
    using floor_round_trip [of "positionMultiplier s" PRECISE_UNIT_INT u] assms(1)
    by (simp add: convertVirtualToRealUnit_eq [OF assms(1) v(2) assms(4)] v(1) unit_slack_def units_ok_def)
qed

lemma convert_positive:
  assumes "units_ok s" "is_int256 u" "0 < u" "convertRealToVirtualUnit s u = Inr v"
  shows "\<exists>r. convertVirtualToRealUnit s v = Inr r \<and> 0 < r"
proof -
  have v: "v = u * PRECISE_UNIT_INT div positionMultiplier s" "is_int256 v"
    using convertRealToVirtualUnit_typed [OF assms(1,2,4)] by blast+
  have "0 \<le> v" using assms by (simp add: v(1) pos_imp_zdiv_nonneg_iff units_ok_def)
  moreover obtain r where r: "convertVirtualToRealUnit s v = Inr r" "r \<noteq> 0"
    using assms(3,4) by (auto simp: convertRealToVirtualUnit_def result_simps split: if_splits)
  ultimately have "0 \<le> r"
    using convertVirtualToRealUnit_eq [OF assms(1) v(2) r(1)] assms(1)
    by (simp add: pos_imp_zdiv_nonneg_iff units_ok_def)
  then show ?thesis using r by auto
qed

subsection \<open>Position units as a store\<close>

text \<open>
  What a client of the position functions relies on: after a successful write the unit reads back
  at most as large as written and at most \<open>slack\<close> smaller, a positive unit stays readable and
  positive, and no other position changes.
\<close>

fun write_all :: "('k \<Rightarrow> int \<Rightarrow> 's \<Rightarrow> 's result) \<Rightarrow> ('k \<times> int) list \<Rightarrow> 's \<Rightarrow> 's result" where
  "write_all wr [] s = Ok s"
| "write_all wr ((k, u) # kus) s = rbind (wr k u s) (write_all wr kus)"

locale unit_store =
  fixes unit_of :: "'s \<Rightarrow> 'k \<Rightarrow> int result"
    and wr :: "'k \<Rightarrow> int \<Rightarrow> 's \<Rightarrow> 's result"
    and ok :: "'s \<Rightarrow> bool"
    and slack :: "'s \<Rightarrow> int"
  assumes write_ok: "ok s \<Longrightarrow> is_int256 u \<Longrightarrow> wr k u s = Inr s' \<Longrightarrow> ok s' \<and> slack s' = slack s"
    and read_written: "ok s \<Longrightarrow> is_int256 u \<Longrightarrow> wr k u s = Inr s' \<Longrightarrow> unit_of s' k = Inr r \<Longrightarrow>
          r \<le> u \<and> u - slack s \<le> r"
    and read_positive: "ok s \<Longrightarrow> is_int256 u \<Longrightarrow> wr k u s = Inr s' \<Longrightarrow> 0 < u \<Longrightarrow>
          \<exists>r. unit_of s' k = Inr r \<and> 0 < r"
    and read_other: "ok s \<Longrightarrow> is_int256 u \<Longrightarrow> wr k u s = Inr s' \<Longrightarrow> j \<noteq> k \<Longrightarrow> unit_of s' j = unit_of s j"
begin

lemma write_all_ok:
  "ok s \<Longrightarrow> \<forall>(k, u) \<in> set kus. is_int256 u \<Longrightarrow> write_all wr kus s = Inr s' \<Longrightarrow> ok s' \<and> slack s' = slack s"
proof (induction kus arbitrary: s)
  case (Cons ku kus)
  obtain k u where ku: "ku = (k, u)" by (cases ku)
  with Cons.prems obtain s1 where s1: "wr k u s = Inr s1" "write_all wr kus s1 = Inr s'"
    by (auto simp: result_simps)
  have "ok s1 \<and> slack s1 = slack s" using write_ok [OF _ _ s1(1)] Cons.prems ku by simp
  then show ?case using Cons.IH [of s1] Cons.prems(2) s1(2) by simp
qed simp

lemma write_all_other:
  "ok s \<Longrightarrow> \<forall>(k, u) \<in> set kus. is_int256 u \<Longrightarrow> write_all wr kus s = Inr s' \<Longrightarrow> j \<notin> fst ` set kus \<Longrightarrow>
   unit_of s' j = unit_of s j"
proof (induction kus arbitrary: s)
  case (Cons ku kus)
  obtain k u where ku: "ku = (k, u)" by (cases ku)
  with Cons.prems obtain s1 where s1: "wr k u s = Inr s1" "write_all wr kus s1 = Inr s'"
    by (auto simp: result_simps)
  have "unit_of s' j = unit_of s1 j"
    using Cons.IH [of s1] Cons.prems s1 ku write_ok by auto
  also have "\<dots> = unit_of s j" using read_other [OF _ _ s1(1), of j] Cons.prems ku by auto
  finally show ?case .
qed simp

text \<open>A batch of writes to different positions: every one of them reads back within the slack.\<close>

lemma write_all_reads:
  "ok s \<Longrightarrow> \<forall>(k, u) \<in> set kus. is_int256 u \<Longrightarrow> distinct (map fst kus) \<Longrightarrow> write_all wr kus s = Inr s' \<Longrightarrow>
   (k, u) \<in> set kus \<Longrightarrow> unit_of s' k = Inr r \<Longrightarrow> r \<le> u \<and> u - slack s \<le> r"
proof (induction kus arbitrary: s)
  case (Cons ku kus)
  obtain k1 u1 where ku: "ku = (k1, u1)" by (cases ku)
  with Cons.prems obtain s1 where s1: "wr k1 u1 s = Inr s1" "write_all wr kus s1 = Inr s'"
    by (auto simp: result_simps)
  have typed: "is_int256 u1" "\<forall>(k, u) \<in> set kus. is_int256 u" using Cons.prems(2) ku by auto
  have ok1: "ok s1" "slack s1 = slack s" using write_ok [OF Cons.prems(1) typed(1) s1(1)] by simp_all
  show ?case
  proof (cases "(k, u) = (k1, u1)")
    case True
    have "k1 \<notin> fst ` set kus" using Cons.prems(3) ku by simp
    then have "unit_of s1 k1 = Inr r"
      using write_all_other [OF ok1(1) typed(2) s1(2)] Cons.prems(6) True by simp
    then show ?thesis using read_written [OF Cons.prems(1) typed(1) s1(1)] True by simp
  next
    case False
    then have "(k, u) \<in> set kus" using Cons.prems(5) ku by auto
    then show ?thesis
      using Cons.IH [OF ok1(1) typed(2) _ s1(2)] Cons.prems(3,6) ok1(2) by simp
  qed
qed simp

end

lemma editDefaultPositionUnit_Inr:
  "editDefaultPositionUnit x c k u s = Inr s' \<Longrightarrow>
   \<exists>v. convertRealToVirtualUnit s u = Inr v \<and>
       s' = s\<lparr>componentPositions := (componentPositions s)(k := (componentPositions s k)\<lparr>virtualUnit := v\<rparr>)\<rparr>"
  by (auto simp: editDefaultPositionUnit_def result_simps)

lemma editExternalPositionUnit_Inr:
  "editExternalPositionUnit x c k m u s = Inr s' \<Longrightarrow>
   \<exists>v. convertRealToVirtualUnit s u = Inr v \<and>
       s' = s\<lparr>componentPositions := (componentPositions s)(k := (componentPositions s k)
          \<lparr>externalPositions := (externalPositions (componentPositions s k))
             (m := (externalPositions (componentPositions s k) m)\<lparr>ext_virtualUnit := v\<rparr>)\<rparr>)\<rparr>"
  by (auto simp: editExternalPositionUnit_def result_simps)

lemmas real_unit_defs = getDefaultPositionRealUnit_def getExternalPositionRealUnit_def
  defaultPositionVirtualUnit_def externalPositionVirtualUnit_def

lemma convert_update [simp]:
  "convertVirtualToRealUnit (s\<lparr>componentPositions := p\<rparr>) = convertVirtualToRealUnit s"
  "units_ok (s\<lparr>componentPositions := p\<rparr>) = units_ok s"
  "unit_slack (s\<lparr>componentPositions := p\<rparr>) = unit_slack s"
  by (simp_all add: convertVirtualToRealUnit_def units_ok_def unit_slack_def fun_eq_iff)

interpretation default_units: unit_store getDefaultPositionRealUnit "editDefaultPositionUnit x c" units_ok unit_slack
  for x c
  by unfold_locales
     (auto simp: real_unit_defs dest!: editDefaultPositionUnit_Inr dest: convert_round_trip convert_positive)

interpretation external_units: unit_store "\<lambda>s (k, m). getExternalPositionRealUnit s k m"
    "\<lambda>(k, m). editExternalPositionUnit x c k m" units_ok unit_slack
  for x c
  by unfold_locales
     (auto simp: real_unit_defs split: if_splits dest!: editExternalPositionUnit_Inr dest: convert_round_trip convert_positive)

subsection \<open>getPositions fills the array it allocates\<close>

text \<open>The positions without the array: one list, component by component.\<close>

fun external_list :: "set_token \<Rightarrow> address \<Rightarrow> address list \<Rightarrow> Position list result" where
  "external_list s k [] = Ok []"
| "external_list s k (m # ms) =
     rbind (external_position s k m) (\<lambda>p. rbind (external_list s k ms) (\<lambda>ps. Ok (p # ps)))"

fun position_list :: "set_token \<Rightarrow> address list \<Rightarrow> Position list result" where
  "position_list s [] = Ok []"
| "position_list s (k # ks) =
     rbind (if defaultPositionVirtualUnit s k > 0
            then rbind (default_position s k) (\<lambda>p. Ok [p]) else Ok []) (\<lambda>ds.
     rbind (external_list s k (getExternalPositionModules s k)) (\<lambda>es.
     rbind (position_list s ks) (\<lambda>ps. Ok (ds @ es @ ps))))"

fun position_total :: "set_token \<Rightarrow> address list \<Rightarrow> nat" where
  "position_total s [] = 0"
| "position_total s (k # ks) =
     (if defaultPositionVirtualUnit s k > 0 then 1 else 0) + length (getExternalPositionModules s k)
     + position_total s ks"

lemma getPositionCount_from_total: "getPositionCount_from s ks n = n + position_total s ks"
  by (induction s ks n rule: getPositionCount_from.induct) (auto simp: Let_def)

lemma external_list_length: "external_list s k ms = Inr ps \<Longrightarrow> length ps = length ms"
  by (induction ms arbitrary: ps) (auto simp: result_simps)

lemma position_list_length: "position_list s ks = Inr ps \<Longrightarrow> length ps = position_total s ks"
  by (induction ks arbitrary: ps) (auto simp: result_simps dest: external_list_length split: if_splits)

definition place :: "'a list \<times> nat \<Rightarrow> 'a list \<Rightarrow> 'a list \<times> nat" where
  "place a xs = (take (snd a) (fst a) @ xs @ drop (snd a + length xs) (fst a), snd a + length xs)"

lemma array_put_place: "n < length ps \<Longrightarrow> array_put ps n p = Inr (take n ps @ p # drop (Suc n) ps)"
  by (simp add: array_put_def upd_conv_take_nth_drop)

lemma place_Nil [simp]: "place (ps, n) [] = (ps, n)"
  by (simp add: place_def)

lemma place_append:
  "snd a + length xs \<le> length (fst a) \<Longrightarrow> place (place a xs) ys = place a (xs @ ys)"
  by (cases xs) (auto simp: place_def min_def ac_simps)

lemma put_externals_place:
  "n + length ms \<le> length ps \<Longrightarrow>
   put_externals s k ms (ps, n) = rbind (external_list s k ms) (\<lambda>es. Ok (place (ps, n) es))"
proof (induction ms arbitrary: ps n)
  case (Cons m ms)
  show ?case
  proof (cases "external_position s k m")
    case (Inr p)
    have "put_externals s k (m # ms) (ps, n) =
        rbind (external_list s k ms) (\<lambda>es. Ok (place (place (ps, n) [p]) es))"
      using Cons Inr by (simp add: array_put_place place_def)
    also have "\<dots> = rbind (external_list s k (m # ms)) (\<lambda>es. Ok (place (ps, n) es))"
      using Cons.prems Inr by (simp add: rbind_assoc place_append)
    finally show ?thesis .
  qed simp
qed simp

lemma place_length: "snd a + length xs \<le> length (fst a) \<Longrightarrow> length (fst (place a xs)) = length (fst a)"
  by (simp add: place_def)

lemma put_positions_place:
  "n + position_total s ks \<le> length ps \<Longrightarrow>
   put_positions s ks (ps, n) = rbind (position_list s ks) (\<lambda>xs. Ok (place (ps, n) xs))"
proof (induction ks arbitrary: ps n)
  case (Cons k ks)
  define ds where "ds = (if defaultPositionVirtualUnit s k > 0
      then rbind (default_position s k) (\<lambda>p. Ok [p]) else Ok [])"
  let ?ms = "getExternalPositionModules s k"
  have first: "(if defaultPositionVirtualUnit s k > 0
      then rbind (default_position s k) (\<lambda>p. rbind (array_put ps n p) (\<lambda>ps'. Ok (ps', n + 1)))
      else Ok (ps, n)) = rbind ds (\<lambda>d. Ok (place (ps, n) d))"
    using Cons.prems by (cases "default_position s k") (auto simp: ds_def array_put_place place_def)
  show ?case
  proof (cases ds)
    case (Inr d)
    then have d: "length d = (if defaultPositionVirtualUnit s k > 0 then 1 else 0)"
      by (auto simp: ds_def result_simps split: if_splits)
    obtain ps1 n1 where p1: "place (ps, n) d = (ps1, n1)" by force
    then have l1: "length ps1 = length ps" "n1 = n + length d"
      using place_length [of "(ps, n)" d] Cons.prems d by (auto simp: place_def)
    show ?thesis
    proof (cases "external_list s k ?ms")
      case (Inr es)
      obtain ps2 n2 where p2: "place (ps1, n1) es = (ps2, n2)" by force
      have le: "length es = length ?ms" using Inr by (rule external_list_length)
      then have l2: "length ps2 = length ps" "n2 = n1 + length es"
        using place_length [of "(ps1, n1)" es] p2 l1 d Cons.prems by (auto simp: place_def)
      have "place (ps2, n2) xs = place (ps, n) (d @ es @ xs)" for xs
        using place_append [of "(ps, n)" "d @ es" xs] place_append [of "(ps, n)" d es] p1 p2 d le Cons.prems by simp
      moreover have "n2 + position_total s ks \<le> length ps2" using Cons.prems l1 l2 d le by simp
      ultimately show ?thesis
        using Cons.IH Inr \<open>ds = Inr d\<close> first p1 p2 l1 d le Cons.prems
        by (simp add: put_externals_place rbind_assoc ds_def)
    qed (use Inr first p1 l1 d Cons.prems in \<open>simp add: put_externals_place ds_def\<close>)
  qed (use first in \<open>simp add: ds_def\<close>)
qed simp

lemma getPositions_list: "getPositions s = position_list s (components s)"
proof (cases "position_list s (components s)")
  case (Inr xs)
  let ?n = "position_total s (components s)"
  have "length xs = ?n" using Inr by (rule position_list_length)
  then have "place (replicate ?n empty_position, 0) xs = (xs, ?n)" by (simp add: place_def)
  then show ?thesis
    using Inr put_positions_place [of 0 s "components s" "replicate ?n empty_position"]
    by (simp add: getPositions_def getPositionCount_def getPositionCount_from_total)
next
  case (Inl e)
  then show ?thesis
    using put_positions_place [of 0 s "components s" "replicate (position_total s (components s)) empty_position"]
    by (simp add: getPositions_def getPositionCount_def getPositionCount_from_total)
qed

subsection \<open>The new multiplier\<close>

definition virtual_typed :: "set_token \<Rightarrow> bool" where
  "virtual_typed s \<longleftrightarrow> (\<forall>k. is_int256 (defaultPositionVirtualUnit s k))
     \<and> (\<forall>k m. is_int256 (externalPositionVirtualUnit s k m))"

lemma absoluteValue_Inr: "is_int256 a \<Longrightarrow> absoluteValue a = Inr v \<Longrightarrow> v = \<bar>a\<bar>"
proof -
  assume a: "is_int256 a" and v: "absoluteValue a = Inr v"
  have "wrap_int256 (- a) = - a \<or> wrap_int256 (- a) < 0"
  proof (cases "a = MIN_INT_256")
    case False
    then show ?thesis using a by (simp add: wrap_int256_id is_int256_def)
  qed (simp add: wrap_int256_def)
  then show ?thesis using v by (auto simp: absoluteValue_def result_simps split: if_splits)
qed

lemma min_external_unit_spec:
  assumes "virtual_typed s" "0 < n" "min_external_unit s k ms n = Inr r"
  shows "0 < r \<and> r \<le> n \<and> (\<forall>m \<in> set ms. externalPositionVirtualUnit s k m \<noteq> 0 \<longrightarrow> r \<le> \<bar>externalPositionVirtualUnit s k m\<bar>)"
  using assms(2,3)
proof (induction ms arbitrary: n)
  case (Cons m ms)
  have v: "absoluteValue (externalPositionVirtualUnit s k m) = Inr v \<Longrightarrow> v = \<bar>externalPositionVirtualUnit s k m\<bar>" for v
    using assms(1) by (simp add: absoluteValue_Inr virtual_typed_def)
  obtain n' where n': "min_external_unit s k ms n' = Inr r" "0 < n'" "n' \<le> n"
    "externalPositionVirtualUnit s k m \<noteq> 0 \<longrightarrow> n' \<le> \<bar>externalPositionVirtualUnit s k m\<bar>"
  proof
    let ?n = "if \<bar>externalPositionVirtualUnit s k m\<bar> > 0 \<and> \<bar>externalPositionVirtualUnit s k m\<bar> < n
       then \<bar>externalPositionVirtualUnit s k m\<bar> else n"
    show "min_external_unit s k ms ?n = Inr r"
      using Cons.prems(2) v by (force simp: result_simps)
  qed (use Cons.prems in auto)
  then show ?case using Cons.IH [of n'] by auto
qed simp

lemma min_unit_spec:
  assumes "virtual_typed s" "0 < n" "min_unit s ks n = Inr r"
  shows "0 < r \<and> r \<le> n \<and> (\<forall>k \<in> set ks. 0 \<le> defaultPositionVirtualUnit s k
    \<and> (defaultPositionVirtualUnit s k \<noteq> 0 \<longrightarrow> r \<le> defaultPositionVirtualUnit s k)
    \<and> (\<forall>m \<in> set (getExternalPositionModules s k).
        externalPositionVirtualUnit s k m \<noteq> 0 \<longrightarrow> r \<le> \<bar>externalPositionVirtualUnit s k m\<bar>))"
  using assms(2,3)
proof (induction ks arbitrary: n)
  case (Cons k ks)
  let ?d = "defaultPositionVirtualUnit s k"
  let ?n = "if ?d > 0 \<and> ?d < n then ?d else n"
  obtain e where d: "0 \<le> ?d" and e: "min_external_unit s k (getExternalPositionModules s k) ?n = Inr e"
    and r: "min_unit s ks e = Inr r"
    using Cons.prems(2) by (auto simp: result_simps)
  have n: "0 < ?n" "?n \<le> n" "?d \<noteq> 0 \<longrightarrow> ?n \<le> ?d" using Cons.prems(1) d by auto
  note E = min_external_unit_spec [OF assms(1) n(1) e]
  have "0 < r \<and> r \<le> e \<and> (\<forall>k \<in> set ks. 0 \<le> defaultPositionVirtualUnit s k
    \<and> (defaultPositionVirtualUnit s k \<noteq> 0 \<longrightarrow> r \<le> defaultPositionVirtualUnit s k)
    \<and> (\<forall>m \<in> set (getExternalPositionModules s k).
        externalPositionVirtualUnit s k m \<noteq> 0 \<longrightarrow> r \<le> \<bar>externalPositionVirtualUnit s k m\<bar>))"
    using Cons.IH [of e] E r by blast
  then show ?case using E n d by (auto intro: order_trans)
qed simp

lemma editPositionMultiplier_Inr:
  assumes "virtual_typed s" "is_int256 nm" "editPositionMultiplier x c nm s = Inr s'"
  obtains r where "s' = s\<lparr>positionMultiplier := nm\<rparr>" "0 < nm" "0 < r" "PRECISE_UNIT_INT \<le> r * nm"
    "min_unit s (components s) MAX_UINT_256 = Inr r"
proof -
  obtain r where s': "s' = s\<lparr>positionMultiplier := nm\<rparr>" and m: "min_unit s (components s) MAX_UINT_256 = Inr r"
    and le: "r \<le> MAX_INT_256" and v: "\<exists>w. conservativePreciseMul r nm = Inr w \<and> 0 < w"
    using assms(3) by (auto simp: editPositionMultiplier_def validateNewMultiplier_def
        getPositionsAbsMinimumVirtualUnit_def result_simps wrap_uint256_def)
  have r: "0 < r" using min_unit_spec [OF assms(1) _ m] by simp
  have "0 < r * nm div PRECISE_UNIT_INT"
    using v r le assms(2) by (auto simp: conservativePreciseMul_exact is_int256_def split: if_splits)
  then have p: "PRECISE_UNIT_INT \<le> r * nm" using le_div_iff_int [of PRECISE_UNIT_INT 1 "r * nm"] by simp
  then have "0 < nm" using r by (simp add: zero_less_mult_iff) (smt (verit) mult_nonneg_nonpos)
  with s' r p m show thesis using that by blast
qed

subsection \<open>The invariant of the contract\<close>

definition module_inv :: "set_token \<Rightarrow> bool" where
  "module_inv s \<longleftrightarrow> distinct (modules s) \<and> (\<forall>m. m \<in> set (modules s) \<longleftrightarrow> moduleStates s m = INITIALIZED)"

definition locker_ok :: "set_token \<Rightarrow> bool" where
  "locker_ok s \<longleftrightarrow> (isLocked s \<longrightarrow> moduleStates s (locker s) = INITIALIZED)"

definition position_inv :: "set_token \<Rightarrow> bool" where
  "position_inv s \<longleftrightarrow> distinct (components s) \<and> (\<forall>k. distinct (getExternalPositionModules s k))
     \<and> virtual_typed s \<and> units_ok s"

definition ledger_inv :: "set_token \<Rightarrow> bool" where
  "ledger_inv s \<longleftrightarrow> erc20_typed s \<and> conserved (balances s) (totalSupply s)"

definition set_inv :: "set_token \<Rightarrow> bool" where
  "set_inv s \<longleftrightarrow> module_inv s \<and> position_inv s \<and> ledger_inv s"

lemmas erc20_ops = erc20_mint_def erc20_burn_def transfer_def approve_def transferFrom_def
  increaseAllowance_def decreaseAllowance_def erc20_transfer_internal_def erc20_approve_internal_def

definition ledger_call :: "set_call \<Rightarrow> bool" where
  "ledger_call f \<longleftrightarrow> (case f of Mint a n \<Rightarrow> True | Burn a n \<Rightarrow> True | Transfer a n \<Rightarrow> True | Approve a n \<Rightarrow> True
     | TransferFrom a b n \<Rightarrow> True | IncreaseAllowance a n \<Rightarrow> True | DecreaseAllowance a n \<Rightarrow> True | _ \<Rightarrow> False)"

lemma ledger_call_frame:
  assumes "ledger_call f" "set_exec x c f s = Inr s'"
  shows "modules s' = modules s \<and> moduleStates s' = moduleStates s \<and> isLocked s' = isLocked s \<and> locker s' = locker s"
  using assms by (cases f) (auto simp: ledger_call_def set_mint_def set_burn_def erc20_ops result_simps Let_def)

lemma other_call_ledger:
  assumes "\<not> ledger_call f" "set_exec x c f s = Inr s'"
  shows "balances s' = balances s \<and> allowances s' = allowances s \<and> totalSupply s' = totalSupply s"
  using assms by (cases f) (auto simp: ledger_call_def set_ops result_simps Let_def)

lemma approve_internal_ledger:
  assumes "erc20_typed s" "conserved (balances s) (totalSupply s)" "is_uint256 n"
    "erc20_approve_internal o1 sp n s = Inr s'"
  shows "erc20_typed s' \<and> conserved (balances s') (totalSupply s')"
  using assms by (auto simp: erc20_approve_internal_def erc20_typed_def result_simps)

lemma transfer_internal_allowances:
  "erc20_transfer_internal a b n s = Inr s' \<Longrightarrow> allowances s' = allowances s"
  by (auto simp: erc20_transfer_internal_def result_simps Let_def)

lemma ledger_inv_step:
  assumes "ledger_inv s" "call_typed f" "set_exec x c f s = Inr s'"
  shows "ledger_inv s'"
proof (cases "ledger_call f")
  case False
  then show ?thesis using other_call_ledger [OF _ assms(3)] assms(1) by (simp add: ledger_inv_def erc20_typed_def)
next
  case True
  have I: "erc20_typed s" "conserved (balances s) (totalSupply s)" using assms(1) by (simp_all add: ledger_inv_def)
  have al: "is_uint256 (allowances s a b)" for a b using I(1) by (simp add: erc20_typed_def)
  from True show ?thesis
  proof (cases f)
    case (Mint a n)
    then show ?thesis using assms I erc20.mint_conserves [of s n a s'] erc20.mint_law [of s n a s']
      by (auto simp: set_mint_def result_simps ledger_inv_def)
  next
    case (Burn a n)
    then show ?thesis using assms I erc20.burn_conserves [of s n a s'] erc20.burn_law [of s n a s']
      by (auto simp: set_burn_def result_simps ledger_inv_def)
  next
    case (Transfer a n)
    then show ?thesis using assms I erc20.move_conserves [of s n x a s'] erc20.move_law [of s n x a s']
      by (auto simp: transfer_def ledger_inv_def)
  next
    case (TransferFrom a b n)
    then obtain s1 m where s1: "erc20_transfer_internal a b n s = Inr s1"
      and m: "safe_sub_msg (allowances s1 a x) n ''ERC20: transfer amount exceeds allowance'' = Inr m"
      and s': "erc20_approve_internal a x m s1 = Inr s'" and n: "is_uint256 n"
      using assms by (auto simp: transferFrom_def result_simps)
    have "is_uint256 m"
      using m n al transfer_internal_allowances [OF s1] by (auto simp: result_simps is_uint256_diff)
    then show ?thesis
      using approve_internal_ledger [OF _ _ _ s'] erc20.move_conserves [OF I(1) n s1 I(2)] erc20.move_law [OF I(1) n s1]
      by (simp add: ledger_inv_def)
  next
    case (Approve a n)
    then show ?thesis using assms I approve_internal_ledger by (simp add: approve_def ledger_inv_def)
  next
    case (IncreaseAllowance a n)
    then obtain m where "safe_add (allowances s x a) n = Inr m" "erc20_approve_internal x a m s = Inr s'"
      using assms by (auto simp: increaseAllowance_def result_simps)
    moreover have "is_uint256 m"
      using calculation(1) al assms(2) IncreaseAllowance by (auto simp: result_simps is_uint256_add)
    ultimately show ?thesis using I approve_internal_ledger by (simp add: ledger_inv_def)
  next
    case (DecreaseAllowance a n)
    then obtain m where
      "safe_sub_msg (allowances s x a) n ''ERC20: decreased allowance below zero'' = Inr m" "erc20_approve_internal x a m s = Inr s'"
      using assms by (auto simp: decreaseAllowance_def result_simps)
    moreover have "is_uint256 m"
      using calculation(1) al assms(2) DecreaseAllowance by (auto simp: result_simps is_uint256_diff)
    ultimately show ?thesis using I approve_internal_ledger by (simp add: ledger_inv_def)
  qed (simp_all add: ledger_call_def)
qed

lemma module_inv_step:
  assumes "module_inv s" "set_exec x c f s = Inr s'"
  shows "module_inv s'"
proof (cases "ledger_call f")
  case True
  then show ?thesis using ledger_call_frame [OF _ assms(2)] assms(1) by (simp add: module_inv_def)
next
  case False
  then show ?thesis
    using assms by (cases f) (auto simp: ledger_call_def set_ops guard_defs result_simps module_inv_def split: if_splits)
qed

lemma locker_ok_step:
  assumes "locker_ok s" "set_exec x c f s = Inr s'"
  shows "locker_ok s'"
proof (cases "ledger_call f")
  case True
  then show ?thesis using ledger_call_frame [OF _ assms(2)] assms(1) by (simp add: locker_ok_def)
next
  case False
  then show ?thesis
    using assms by (cases f) (auto simp: ledger_call_def set_ops guard_defs result_simps locker_ok_def split: if_splits)
qed

lemma virtual_typed_upd:
  assumes "virtual_typed s" "is_int256 (virtualUnit p)" "\<And>m. is_int256 (ext_virtualUnit (externalPositions p m))"
  shows "virtual_typed (s\<lparr>componentPositions := (componentPositions s)(k := p)\<rparr>)"
  using assms by (auto simp: virtual_typed_def defaultPositionVirtualUnit_def externalPositionVirtualUnit_def)

lemma position_inv_upd:
  assumes "position_inv s" "is_int256 (virtualUnit p)" "\<And>m. is_int256 (ext_virtualUnit (externalPositions p m))"
    "distinct (externalPositionModules p)"
  shows "position_inv (s\<lparr>componentPositions := (componentPositions s)(k := p)\<rparr>)"
  using assms virtual_typed_upd [OF _ assms(2,3)]
  by (auto simp: position_inv_def units_ok_def getExternalPositionModules_def)

lemma position_inv_frame:
  "components s' = components s \<Longrightarrow> componentPositions s' = componentPositions s \<Longrightarrow>
   positionMultiplier s' = positionMultiplier s \<Longrightarrow> position_inv s' = position_inv s"
  by (simp add: position_inv_def virtual_typed_def units_ok_def getExternalPositionModules_def
      defaultPositionVirtualUnit_def externalPositionVirtualUnit_def)

lemma position_inv_at:
  assumes "position_inv s"
  shows "is_int256 (virtualUnit (componentPositions s k))"
    "is_int256 (ext_virtualUnit (externalPositions (componentPositions s k) m))"
    "distinct (externalPositionModules (componentPositions s k))" "units_ok s" "virtual_typed s"
  using assms by (simp_all add: position_inv_def virtual_typed_def defaultPositionVirtualUnit_def
      externalPositionVirtualUnit_def getExternalPositionModules_def)

definition position_call :: "set_call \<Rightarrow> bool" where
  "position_call f \<longleftrightarrow> (case f of AddComponent k \<Rightarrow> True | RemoveComponent k \<Rightarrow> True
     | EditDefaultPositionUnit k u \<Rightarrow> True | AddExternalPositionModule k m \<Rightarrow> True
     | RemoveExternalPositionModule k m \<Rightarrow> True | EditExternalPositionUnit k m u \<Rightarrow> True
     | EditExternalPositionData k m d \<Rightarrow> True | EditPositionMultiplier u \<Rightarrow> True | _ \<Rightarrow> False)"

lemma other_call_positions:
  assumes "\<not> position_call f" "set_exec x c f s = Inr s'"
  shows "components s' = components s \<and> componentPositions s' = componentPositions s
    \<and> positionMultiplier s' = positionMultiplier s"
  using assms by (cases f) (auto simp: position_call_def set_ops erc20_ops result_simps Let_def)

lemma position_inv_step:
  assumes "position_inv s" "call_typed f" "set_exec x c f s = Inr s'"
  shows "position_inv s'"
proof (cases "position_call f")
  case False
  then show ?thesis using other_call_positions [OF _ assms(3)] assms(1) position_inv_frame by blast
next
  case True
  note at = position_inv_at [OF assms(1)]
  from True show ?thesis
  proof (cases f)
    case (EditDefaultPositionUnit k u)
    then show ?thesis
      using assms at by (auto simp: position_inv_upd convertRealToVirtualUnit_typed
          dest!: editDefaultPositionUnit_Inr dest: convertRealToVirtualUnit_typed)
  next
    case (EditExternalPositionUnit k m u)
    then show ?thesis
      using assms at by (auto simp: intro!: position_inv_upd
          dest!: editExternalPositionUnit_Inr dest: convertRealToVirtualUnit_typed)
  next
    case (AddExternalPositionModule k m)
    then show ?thesis
      using assms at by (auto simp: addExternalPositionModule_def result_simps isExternalPositionModule_def
          getExternalPositionModules_def intro!: position_inv_upd)
  next
    case (RemoveExternalPositionModule k m)
    then show ?thesis
      using assms at by (auto simp: removeExternalPositionModule_def result_simps is_int256_def
          dest: removeStorage_distinct intro!: position_inv_upd)
  next
    case (EditExternalPositionData k m d)
    then show ?thesis
      using assms at by (auto simp: editExternalPositionData_def result_simps intro!: position_inv_upd)
  next
    case (EditPositionMultiplier u)
    then have "is_int256 u" and e: "editPositionMultiplier x c u s = Inr s'" using assms by simp_all
    then show ?thesis
      by (rule editPositionMultiplier_Inr [OF at(5)])
         (use assms(1) \<open>is_int256 u\<close> in \<open>simp add: position_inv_def units_ok_def virtual_typed_def
            getExternalPositionModules_def defaultPositionVirtualUnit_def externalPositionVirtualUnit_def\<close>)
  next
    case (AddComponent k)
    then show ?thesis
      using assms by (auto simp: addComponent_def result_simps isComponent_def position_inv_def units_ok_def
          virtual_typed_def getExternalPositionModules_def defaultPositionVirtualUnit_def externalPositionVirtualUnit_def)
  next
    case (RemoveComponent k)
    then show ?thesis
      using assms by (auto simp: removeComponent_def result_simps position_inv_def units_ok_def
          virtual_typed_def getExternalPositionModules_def defaultPositionVirtualUnit_def externalPositionVirtualUnit_def
          dest: removeStorage_distinct)
  qed (simp_all add: position_call_def)
qed

lemma set_inv_exec: "set_inv s \<Longrightarrow> call_typed f \<Longrightarrow> set_exec x c f s = Inr s' \<Longrightarrow> set_inv s'"
  using module_inv_step position_inv_step ledger_inv_step by (simp add: set_inv_def) blast

lemma st_removeModule_Inr:
  assumes "removeModule R x m s = Inr s'"
  obtains r ms where "R m s = Inr r" "removeStorage (modules r) m = Inr ms" "x = manager s" "\<not> isLocked s"
    "moduleStates s m = INITIALIZED" "s' = r\<lparr>moduleStates := (moduleStates r)(m := NONE), modules := ms\<rparr>"
  using assms by (auto simp: removeModule_def validateOnlyManager_def result_simps Let_def)

lemma st_removeModule_inv:
  assumes "set_inv r" "removeModule (\<lambda>_ _. Ok r) x m s = Inr s'"
  shows "set_inv s' \<and> (locker_ok r \<and> \<not> (isLocked r \<and> locker r = m) \<longrightarrow> locker_ok s')"
  using assms(2)
proof (rule st_removeModule_Inr)
  fix r' ms assume "Ok r = Inr r'" and ms: "removeStorage (modules r') m = Inr ms"
    and s': "s' = r'\<lparr>moduleStates := (moduleStates r')(m := NONE), modules := ms\<rparr>"
  then have r: "r' = r" by simp
  have "module_inv s'"
    using assms(1) removeStorage_distinct [OF ms] by (auto simp: s' r set_inv_def module_inv_def)
  moreover have "position_inv s'" using assms(1) position_inv_frame [of s' r] by (simp add: s' r set_inv_def)
  moreover have "ledger_inv s'" using assms(1) by (simp add: s' r set_inv_def ledger_inv_def erc20_typed_def)
  ultimately show ?thesis by (auto simp: set_inv_def locker_ok_def s' r)
qed

lemma invoke_returned: "invoke (\<lambda>_ _ _ _. Ok (r, out)) x c target value data s = Inr (u, ret) \<Longrightarrow> u = r"
  by (simp add: invoke_def result_simps)

lemma set_run_inv: "set_run P strict s t \<Longrightarrow> set_inv s \<Longrightarrow> set_inv t \<and> (strict \<longrightarrow> locker_ok s \<longrightarrow> locker_ok t)"
proof (induction rule: set_run.induct)
  case (run_call s t x f c u)
  then show ?case using set_inv_exec locker_ok_step by blast
next
  case (run_invoke s t x r out c target v data u ret)
  then show ?case using invoke_returned by metis
next
  case (run_remove s t x r m u)
  then show ?case using st_removeModule_inv by blast
qed simp

lemma pend_modules_eq:
  "pend_modules ms s = s\<lparr>moduleStates := (\<lambda>m. if m \<in> set ms then PENDING else moduleStates s m)\<rparr>"
  by (induction ms arbitrary: s) (auto simp: fun_eq_iff intro!: set_token.equality)

lemma set_default_units_frame:
  "set_default_units ks us j s = Inr s' \<Longrightarrow> s' = s\<lparr>componentPositions := componentPositions s'\<rparr>"
proof (induction ks arbitrary: j s)
  case (Cons k ks)
  then obtain u where u: "set_default_units ks us (Suc j) (s\<lparr>componentPositions := (componentPositions s)
      (k := (componentPositions s k)\<lparr>virtualUnit := u\<rparr>)\<rparr>) = Inr s'" by (auto simp: result_simps)
  show ?case by (subst Cons.IH [OF u]) simp
qed simp

lemma set_default_units_inv:
  "set_default_units ks us j s = Inr s' \<Longrightarrow> \<forall>u \<in> set us. is_int256 u \<Longrightarrow> position_inv s \<Longrightarrow> position_inv s'"
proof (induction ks arbitrary: j s)
  case (Cons k ks)
  then obtain u where u: "u \<in> set us" and rest: "set_default_units ks us (Suc j) (s\<lparr>componentPositions :=
      (componentPositions s)(k := (componentPositions s k)\<lparr>virtualUnit := u\<rparr>)\<rparr>) = Inr s'"
    by (auto simp: result_simps intro: nth_mem)
  show ?case
    using Cons.IH [OF rest Cons.prems(2) position_inv_upd [OF Cons.prems(3)]] u Cons.prems(2)
      position_inv_at [OF Cons.prems(3)] by simp
qed simp

lemma constructor_inv:
  assumes "set_token_constructor ks us ms c0 mgr nm smb = Inr s" "distinct ks" "\<forall>u \<in> set us. is_int256 u"
  shows "set_inv s \<and> locker_ok s"
proof -
  obtain t where t: "set_default_units ks us 0 t = Inr s" "modules t = []" "\<not> isLocked t"
    "\<forall>m. moduleStates t m \<noteq> INITIALIZED" "balances t = (\<lambda>_. 0)" "allowances t = (\<lambda>_ _. 0)" "totalSupply t = 0"
    "components t = ks" "componentPositions t = (\<lambda>_. no_position)" "positionMultiplier t = PRECISE_UNIT_INT"
    using assms(1) by (auto simp: set_token_constructor_def erc20_constructor_def pend_modules_eq Let_def
        preciseUnitInt_def)
  have "position_inv t" using t assms(2) by (simp add: position_inv_def getExternalPositionModules_def
        virtual_typed_def defaultPositionVirtualUnit_def externalPositionVirtualUnit_def units_ok_def is_int256_def)
  then have "position_inv s" using set_default_units_inv [OF t(1) assms(3)] by simp
  moreover obtain p where p: "s = t\<lparr>componentPositions := p\<rparr>" using set_default_units_frame [OF t(1)] by blast
  moreover have "conserved (\<lambda>_. 0) 0" by (simp add: conserved_def total_def)
  ultimately show ?thesis using t
    by (simp add: set_inv_def module_inv_def locker_ok_def ledger_inv_def erc20_typed_def)
qed

subsection \<open>Access control, the lock and the module life cycle\<close>

definition privileged_call :: "set_call \<Rightarrow> bool" where
  "privileged_call f \<longleftrightarrow> position_call f \<or> (\<exists>a n. f = Mint a n \<or> f = Burn a n)"

lemma privileged_guard:
  "privileged_call f \<Longrightarrow> set_exec x c f s = privileged x c s (set_exec x c f s)"
  by (cases f) (auto simp: privileged_call_def position_call_def set_ops privileged_def validateOnlyModule_def
      validateWhenLockedOnlyLocker_def require_def)

lemma locked_foreign_call:
  assumes "isLocked s" "x \<noteq> locker s" "set_exec x c f s = Inr s'"
  shows "isLocked s' \<and> locker s' = locker s \<and> manager s' = manager s \<and> modules s' = modules s
    \<and> components s' = components s \<and> componentPositions s' = componentPositions s
    \<and> positionMultiplier s' = positionMultiplier s \<and> totalSupply s' = totalSupply s"
proof (cases "privileged_call f")
  case True
  then show ?thesis using privileged_guard [OF True, of x c s] assms privileged_eq_Inr [of x c s "Inr s'" s'] by simp
next
  case False
  then show ?thesis
    using assms by (cases f) (auto simp: privileged_call_def position_call_def set_ops erc20_ops guard_defs
        result_simps Let_def)
qed

text \<open>Entries that only an initialized module may call, those of them that only the locker may call while the Set is locked, and those of the manager.\<close>

definition privileged_entry :: "set_entry \<Rightarrow> bool" where
  "privileged_entry e \<longleftrightarrow> (case e of Plain f \<Rightarrow> privileged_call f | Invoke target value data \<Rightarrow> True | RemoveModule m \<Rightarrow> False)"

definition module_entry :: "set_entry \<Rightarrow> bool" where
  "module_entry e \<longleftrightarrow> privileged_entry e \<or> e = Plain Lock \<or> e = Plain Unlock"

definition manager_entry :: "set_entry \<Rightarrow> bool" where
  "manager_entry e \<longleftrightarrow> (\<exists>m. e = Plain (AddModule m) \<or> e = Plain (RemovePendingModule m) \<or> e = Plain (SetManager m) \<or> e = RemoveModule m)"

lemma privileged_entry_guard:
  "privileged_entry e \<Longrightarrow> entry_exec I R x c e s = privileged x c s (entry_exec I R x c e s)"
proof (cases e)
  case (Plain f)
  then show "privileged_entry e \<Longrightarrow> ?thesis" using privileged_guard [of f x c s] by (simp add: privileged_entry_def)
qed (simp_all add: privileged_entry_def invoke_def privileged_def validateOnlyModule_def validateWhenLockedOnlyLocker_def require_def)

text \<open>What the lock freezes.\<close>

definition frozen :: "set_token \<Rightarrow> set_token \<Rightarrow> bool" where
  "frozen s s' \<longleftrightarrow> isLocked s' \<and> locker s' = locker s \<and> manager s' = manager s \<and> modules s' = modules s
    \<and> components s' = components s \<and> componentPositions s' = componentPositions s
    \<and> positionMultiplier s' = positionMultiplier s \<and> totalSupply s' = totalSupply s"

lemma locked_run: "set_run P strict s t \<Longrightarrow> isLocked s \<Longrightarrow> \<not> P (locker s) \<Longrightarrow> frozen s t"
proof (induction rule: set_run.induct)
  case (run_call s t x f c u)
  then have t: "frozen s t" by simp
  then have "x \<noteq> locker t" using run_call.hyps(2) run_call.prems(2) by (auto simp: frozen_def)
  then show ?case using locked_foreign_call [OF _ _ run_call.hyps(4)] t by (simp add: frozen_def)
next
  case (run_invoke s t x r out c target v data u ret)
  then have t: "frozen s t" by simp
  then have "x \<noteq> locker t" using run_invoke.hyps(2) run_invoke.prems(2) by (auto simp: frozen_def)
  then show ?case using run_invoke.hyps(4) t by (simp add: invoke_def privileged_eq_Inr frozen_def)
next
  case (run_remove s t x r m u)
  then have "isLocked t" by (simp add: frozen_def)
  then show ?case using st_removeModule_Inr [OF run_remove.hyps(5)] by blast
qed (simp add: frozen_def)

subsection \<open>Changes of a module's state\<close>

lemma life_cycle_call:
  assumes "set_exec x c f s = Inr s'" "moduleStates s' m \<noteq> moduleStates s m"
  shows "(f = AddModule m \<and> moduleStates s m = NONE \<and> moduleStates s' m = PENDING \<and> x = manager s \<and> isModule c m)
    \<or> (f = InitializeModule \<and> moduleStates s m = PENDING \<and> moduleStates s' m = INITIALIZED \<and> x = m \<and> \<not> isLocked s)
    \<or> (f = RemovePendingModule m \<and> moduleStates s m = PENDING \<and> moduleStates s' m = NONE \<and> x = manager s \<and> \<not> isLocked s)"
proof (cases "ledger_call f")
  case True
  then show ?thesis using ledger_call_frame [OF _ assms(1)] assms(2) by simp
next
  case False
  then show ?thesis
    using assms by (cases f) (auto simp: ledger_call_def set_ops guard_defs result_simps split: if_splits)
qed

lemma manager_call:
  assumes "set_exec x c f s = Inr s'" "manager s' \<noteq> manager s"
  shows "x = manager s"
  using assms by (cases f) (auto simp: set_ops erc20_ops guard_defs result_simps Let_def split: if_splits)

lemma uninitialized_run: "set_run P strict s t \<Longrightarrow> \<not> P m \<Longrightarrow> moduleStates t m = INITIALIZED \<Longrightarrow> moduleStates s m = INITIALIZED"
proof (induction rule: set_run.induct)
  case (run_call s t x f c u)
  then show ?case using life_cycle_call [OF run_call.hyps(4), of m] by fastforce
next
  case (run_invoke s t x r out c target v data u ret)
  then show ?case using invoke_returned by metis
next
  case (run_remove s t x r k u)
  show ?case
    by (rule st_removeModule_Inr [OF run_remove.hyps(5)]) (use run_remove in \<open>auto split: if_splits\<close>)
qed simp

lemma unmanaged_run:
  "set_run P strict s t \<Longrightarrow> \<not> P (manager s) \<Longrightarrow> manager t = manager s
    \<and> (moduleStates t m = moduleStates s m \<or> moduleStates s m = PENDING \<and> moduleStates t m = INITIALIZED \<and> P m)"
proof (induction rule: set_run.induct)
  case (run_call s t x f c u)
  then show ?case using life_cycle_call [OF run_call.hyps(4), of m] manager_call [OF run_call.hyps(4)] by fastforce
next
  case (run_invoke s t x r out c target v data u ret)
  then show ?case using invoke_returned [OF run_invoke.hyps(4)] by auto
next
  case (run_remove s t x r k u)
  then show ?case using st_removeModule_Inr [OF run_remove.hyps(5)] by metis
qed simp

lemma multiplier_keeps_positions:
  assumes "virtual_typed s" "is_int256 nm" "editPositionMultiplier x c nm s = Inr s'" "k \<in> set (components s)"
  shows "defaultPositionVirtualUnit s k \<noteq> 0 \<Longrightarrow> getDefaultPositionRealUnit s' k = Inr r \<Longrightarrow> 0 < r"
    and "m \<in> set (getExternalPositionModules s k) \<Longrightarrow> externalPositionVirtualUnit s k m \<noteq> 0 \<Longrightarrow>
         getExternalPositionRealUnit s' k m = Inr r \<Longrightarrow> r \<noteq> 0"
proof -
  obtain q where s': "s' = s\<lparr>positionMultiplier := nm\<rparr>" and nm: "0 < nm" and q: "PRECISE_UNIT_INT \<le> q * nm"
    and mq: "min_unit s (components s) MAX_UINT_256 = Inr q"
    using assms(1-3) by (rule editPositionMultiplier_Inr)
  note spec = min_unit_spec [OF assms(1) _ mq]
  have ok: "units_ok s'" using nm assms(2) by (simp add: s' units_ok_def)
  have same: "defaultPositionVirtualUnit s' = defaultPositionVirtualUnit s"
      "externalPositionVirtualUnit s' = externalPositionVirtualUnit s"
    by (simp_all add: s' defaultPositionVirtualUnit_def externalPositionVirtualUnit_def fun_eq_iff)
  have typed: "is_int256 (defaultPositionVirtualUnit s k)" "is_int256 (externalPositionVirtualUnit s k m)"
    using assms(1) by (simp_all add: virtual_typed_def)
  { assume d: "defaultPositionVirtualUnit s k \<noteq> 0" and r: "getDefaultPositionRealUnit s' k = Inr r"
    have "q * nm \<le> defaultPositionVirtualUnit s k * nm" using spec d assms(4) nm by (simp add: mult_right_mono)
    then have "1 \<le> defaultPositionVirtualUnit s k * nm div PRECISE_UNIT_INT"
      using q by (subst le_div_iff_int) simp_all
    then show "0 < r"
      using convertVirtualToRealUnit_eq [OF ok typed(1)] r same by (simp add: getDefaultPositionRealUnit_def s') }
  { assume m: "m \<in> set (getExternalPositionModules s k)" "externalPositionVirtualUnit s k m \<noteq> 0"
      and r: "getExternalPositionRealUnit s' k m = Inr r"
    let ?v = "externalPositionVirtualUnit s k m"
    have "q * nm \<le> \<bar>?v\<bar> * nm" using spec m assms(4) nm by (simp add: mult_right_mono)
    then have "PRECISE_UNIT_INT \<le> \<bar>?v\<bar> * nm" using q by linarith
    then have "PRECISE_UNIT_INT \<le> \<bar>?v * nm\<bar>" using nm by (simp add: abs_mult)
    then have "?v * nm \<le> - PRECISE_UNIT_INT \<or> PRECISE_UNIT_INT \<le> ?v * nm" by linarith
    then have "?v * nm div PRECISE_UNIT_INT \<noteq> 0" by (simp add: div_eq_0_iff) linarith
    then show "r \<noteq> 0"
      using convertVirtualToRealUnit_eq [OF ok typed(2)] r same by (simp add: getExternalPositionRealUnit_def s') }
qed

subsection \<open>Properties\<close>

text \<open>
  C1. A SetToken built by the constructor with distinct components and 256-bit units satisfies the
  invariant \<open>set_inv\<close> after any sequence of calls, whoever sends them, including re-entrant ones made by
  the targets of \<open>invoke\<close> and by modules being removed: the module list and the module states agree,
  components are distinct, the multiplier is positive and the total supply is the sum of the balances. The locker of a locked Set is an initialized
  module, provided no module locks the Set while it is being removed and keeps the lock (\<open>strict\<close>).
\<close>

theorem set_token_invariant:
  assumes "set_token_constructor ks us ms c0 mgr nm smb = Inr s0" "distinct ks" "\<forall>u \<in> set us. is_int256 u"
    and "set_run (\<lambda>_. True) strict s0 s"
  shows "set_inv s \<and> (strict \<longrightarrow> isLocked s \<longrightarrow> moduleStates s (locker s) = INITIALIZED)"
  using set_run_inv [OF assms(4)] constructor_inv [OF assms(1-3)] by (simp add: locker_ok_def)

text \<open>The example Set of the witnesses: components 1 and 2, module 7, manager 9, controller 5.\<close>

definition demo_controller :: controller where
  "demo_controller = (controller_constructor 3 4)\<lparr>isModule := (\<lambda>a. a = 7 \<or> a = 8)\<rparr>"

definition demo_set :: set_token where
  "demo_set = \<lparr>balances = (\<lambda>_. 0), allowances = (\<lambda>_ _. 0), totalSupply = 0, token_name = ''Set'',
     token_symbol = ''SET'', token_decimals = 18, st_controller = 5, manager = 9, locker = 0, modules = [7],
     moduleStates = (\<lambda>_. NONE)(7 := INITIALIZED), isLocked = False, components = [1, 2],
     componentPositions = (\<lambda>_. no_position)
       (1 := no_position\<lparr>virtualUnit := 3 * 10 ^ 18\<rparr>, 2 := no_position\<lparr>virtualUnit := 5 * 10 ^ 17\<rparr>),
     positionMultiplier = 10 ^ 18\<rparr>"

lemma demo_constructor:
  "set_token_constructor [1, 2] [3 * 10 ^ 18, 5 * 10 ^ 17] [7] 5 9 ''Set'' ''SET'' =
     Inr (demo_set\<lparr>modules := [], moduleStates := (\<lambda>_. NONE)(7 := PENDING)\<rparr>)"
  by (simp add: set_token_constructor_def erc20_constructor_def Let_def array_get_def demo_set_def preciseUnitInt_def)

lemma demo_initialized:
  "set_exec 7 demo_controller InitializeModule
     (demo_set\<lparr>modules := [], moduleStates := (\<lambda>_. NONE)(7 := PENDING)\<rparr>) = Inr demo_set"
  by (simp add: initializeModule_def demo_set_def)

lemma demo_steps: "set_run (\<lambda>_. True) strict (demo_set\<lparr>modules := [], moduleStates := (\<lambda>_. NONE)(7 := PENDING)\<rparr>) demo_set"
  by (rule run_call [OF run_refl _ _ demo_initialized]) simp_all

lemma demo_set_inv: "set_inv demo_set"
  using set_run_inv [OF demo_steps] constructor_inv [OF demo_constructor] by (simp add: is_int256_def)

lemma demo_locked_steps:
  "set_run (\<lambda>_. True) True (demo_set\<lparr>modules := [], moduleStates := (\<lambda>_. NONE)(7 := PENDING)\<rparr>) (demo_set\<lparr>locker := 7, isLocked := True\<rparr>)"
proof (rule run_call [OF demo_steps [of True]])
  show "set_exec 7 demo_controller Lock demo_set = Inr (demo_set\<lparr>locker := 7, isLocked := True\<rparr>)"
    by (simp add: lock_def guard_defs demo_set_def demo_controller_def)
qed simp_all

theorem set_token_invariant_witness:
  "\<exists>s. set_inv s \<and> isLocked s \<and> moduleStates s (locker s) = INITIALIZED"
  using set_token_invariant [OF demo_constructor _ _ demo_locked_steps]
  by (intro exI [of _ "demo_set\<lparr>locker := 7, isLocked := True\<rparr>"]) (simp add: is_int256_def)

text \<open>
  What \<open>removeModule\<close> does not check. Module 7 of the example locks the Set while it is being removed. Then the
  Set is locked by an address that is no module any more: nobody can unlock it, and issuing is blocked.
\<close>

lemma lock_survives_removal:
  "\<exists>s. removeModule (\<lambda>m. lock m demo_controller) 9 7 demo_set = Inr s \<and> isLocked s \<and> moduleStates s (locker s) = NONE
     \<and> (\<forall>x c. \<exists>e. unlock x c s = Inl e) \<and> (\<forall>x c a n. \<exists>e. set_mint x c a n s = Inl e)"
proof -
  let ?s = "demo_set\<lparr>modules := [], moduleStates := (\<lambda>_. NONE), locker := 7, isLocked := True\<rparr>"
  have "removeModule (\<lambda>m. lock m demo_controller) 9 7 demo_set = Inr ?s"
    by (simp add: removeModule_def lock_def guard_defs demo_set_def demo_controller_def removeStorage_def indexOf_def fun_eq_iff Let_def)
  then show ?thesis by (intro exI [of _ ?s]) (simp add: unlock_def set_mint_def guard_defs require_def)
qed

text \<open>
  C13. Who may call: a function of the modules, \<open>invoke\<close>, \<open>lock\<close> and \<open>unlock\<close> included, rejects a sender that is not an initialized module and one the
  Controller does not enable; while the Set is locked all but \<open>lock\<close> reject everybody but the locker; the functions of the manager, \<open>removeModule\<close> included, reject
  everybody else. Each with its reason, no change of state, and before any foreign code runs.
\<close>

theorem privileged_access:
  "(module_entry e \<and> moduleStates s x \<noteq> INITIALIZED \<longrightarrow> entry_exec I R x c e s = Inl (Revert ''Only the module can call''))
    \<and> (module_entry e \<and> moduleStates s x = INITIALIZED \<and> \<not> isModule c x \<longrightarrow>
         entry_exec I R x c e s = Inl (Revert ''Module must be enabled on controller''))
    \<and> (privileged_entry e \<and> moduleStates s x = INITIALIZED \<and> isModule c x \<and> isLocked s \<and> x \<noteq> locker s \<longrightarrow>
         entry_exec I R x c e s = Inl (Revert ''When locked, only the locker can call''))
    \<and> (e = Plain Unlock \<and> moduleStates s x = INITIALIZED \<and> isModule c x \<and> isLocked s \<and> x \<noteq> locker s \<longrightarrow>
         entry_exec I R x c e s = Inl (Revert ''Must be locker''))
    \<and> (manager_entry e \<and> x \<noteq> manager s \<longrightarrow> entry_exec I R x c e s = Inl (Revert ''Only manager can call''))"
proof -
  have "privileged x c s b = (if moduleStates s x \<noteq> INITIALIZED then Inl (Revert ''Only the module can call'')
      else if \<not> isModule c x then Inl (Revert ''Module must be enabled on controller'')
      else if isLocked s \<and> x \<noteq> locker s then Inl (Revert ''When locked, only the locker can call'') else b)"
    for b :: "set_token result"
    by (simp add: guard_defs)
  then have "privileged_entry e \<Longrightarrow> entry_exec I R x c e s = (if moduleStates s x \<noteq> INITIALIZED then Inl (Revert ''Only the module can call'')
      else if \<not> isModule c x then Inl (Revert ''Module must be enabled on controller'')
      else if isLocked s \<and> x \<noteq> locker s then Inl (Revert ''When locked, only the locker can call'') else entry_exec I R x c e s)"
    using privileged_entry_guard [of e I R x c s] by metis
  then show ?thesis
    by (auto simp: module_entry_def manager_entry_def lock_def unlock_def addModule_def removePendingModule_def setManager_def
        removeModule_def validateOnlyModule_def validateOnlyManager_def require_def)
qed

theorem privileged_access_witness:
  "entry_exec (\<lambda>_ _ _ _. Err Invalid) (\<lambda>_ _. Err Invalid) 6 demo_controller (Plain (Mint 1 5)) demo_set = Inl (Revert ''Only the module can call'')
   \<and> entry_exec (\<lambda>_ _ _ _. Err Invalid) (\<lambda>_ _. Err Invalid) 7 (controller_constructor 3 4) (Plain (Burn 1 5)) demo_set = Inl (Revert ''Module must be enabled on controller'')
   \<and> entry_exec (\<lambda>_ _ _ _. Err Invalid) (\<lambda>_ _. Err Invalid) 7 demo_controller (Invoke 1 0 []) (demo_set\<lparr>isLocked := True, locker := 8\<rparr>)
      = Inl (Revert ''When locked, only the locker can call'')
   \<and> entry_exec (\<lambda>_ _ _ _. Err Invalid) (\<lambda>_ _. Err Invalid) 6 demo_controller (RemoveModule 7) demo_set = Inl (Revert ''Only manager can call'')"
  using privileged_access [of "Plain (Mint 1 5)" demo_set 6 "\<lambda>_ _ _ _. Err Invalid" "\<lambda>_ _. Err Invalid" demo_controller]
    privileged_access [of "Plain (Burn 1 5)" demo_set 7 "\<lambda>_ _ _ _. Err Invalid" "\<lambda>_ _. Err Invalid" "controller_constructor 3 4"]
    privileged_access [of "Invoke 1 0 []" "demo_set\<lparr>isLocked := True, locker := 8\<rparr>" 7 "\<lambda>_ _ _ _. Err Invalid" "\<lambda>_ _. Err Invalid" demo_controller]
    privileged_access [of "RemoveModule 7" demo_set 6 "\<lambda>_ _ _ _. Err Invalid" "\<lambda>_ _. Err Invalid" demo_controller]
  by (simp add: module_entry_def privileged_entry_def manager_entry_def privileged_call_def demo_set_def demo_controller_def controller_constructor_def)

text \<open>
  C7. The lock excludes everybody else: as long as the Set is locked, a sequence of successful calls of any functions, \<open>invoke\<close>,
  \<open>removeModule\<close> and re-entrant calls included, by senders other than the locker, however long, leaves the lock, the locker, the manager, the
  list of modules, the components, all positions, the multiplier and the supply as they are.
\<close>

theorem lock_exclusive:
  assumes "set_run P strict s s'" "isLocked s" "\<not> P (locker s)"
  shows "isLocked s' \<and> locker s' = locker s \<and> manager s' = manager s \<and> modules s' = modules s
    \<and> components s' = components s \<and> componentPositions s' = componentPositions s
    \<and> positionMultiplier s' = positionMultiplier s \<and> totalSupply s' = totalSupply s"
  using locked_run [OF assms] by (simp add: frozen_def)

theorem lock_exclusive_witness:
  "\<exists>s'. set_run (\<lambda>x. x \<noteq> 7) False (demo_set\<lparr>isLocked := True, locker := 7\<rparr>) s' \<and> moduleStates s' 8 = PENDING
     \<and> isLocked s' \<and> locker s' = 7 \<and> components s' = [1, 2]"
proof -
  let ?s = "demo_set\<lparr>isLocked := True, locker := 7\<rparr>"
  let ?t = "?s\<lparr>moduleStates := (moduleStates demo_set)(8 := PENDING)\<rparr>"
  have ad: "set_exec 9 demo_controller (AddModule 8) ?s = Inr ?t"
    by (simp add: addModule_def validateOnlyManager_def demo_set_def demo_controller_def)
  have r: "set_run (\<lambda>x. x \<noteq> 7) False ?s ?t" by (rule run_call [OF run_refl _ _ ad]) simp_all
  have "isLocked ?t \<and> locker ?t = locker ?s \<and> components ?t = components ?s" using lock_exclusive [OF r] by simp
  then show ?thesis using r by (intro exI [of _ ?t]) (simp add: demo_set_def)
qed

text \<open>
  Writing a default position unit and reading it back: the unit that is read is never larger than
  the one written and at most the rounded-up multiplier smaller, a positive unit stays positive, and
  no other component's unit changes.
\<close>

lemma default_unit_round_trip:
  assumes "units_ok s" "is_int256 u" "editDefaultPositionUnit x c k u s = Inr s'"
  shows "(\<forall>r. getDefaultPositionRealUnit s' k = Inr r \<longrightarrow> r \<le> u \<and> u - unit_slack s \<le> r)
    \<and> (0 < u \<longrightarrow> (\<exists>r. getDefaultPositionRealUnit s' k = Inr r \<and> 0 < r))
    \<and> (\<forall>j. j \<noteq> k \<longrightarrow> getDefaultPositionRealUnit s' j = getDefaultPositionRealUnit s j)"
  using default_units.read_written [OF assms] default_units.read_positive [OF assms]
    default_units.read_other [OF assms] by blast

lemma default_unit_round_trip_example:
  "\<exists>s' r. editDefaultPositionUnit 7 demo_controller 1 7 (demo_set\<lparr>positionMultiplier := 9 * 10 ^ 17\<rparr>) = Inr s'
     \<and> getDefaultPositionRealUnit s' 1 = Inr r \<and> 0 < r \<and> r \<le> 7 \<and> 6 \<le> r"
proof -
  let ?s = "demo_set\<lparr>positionMultiplier := 9 * 10 ^ 17\<rparr>"
  have ok: "units_ok ?s" by (simp add: units_ok_def is_int256_def)
  have u: "is_int256 7" by (simp add: is_int256_def)
  have "\<exists>s'. editDefaultPositionUnit 7 demo_controller 1 7 ?s = Inr s'"
    by (simp add: editDefaultPositionUnit_def guard_defs convertRealToVirtualUnit_def convertVirtualToRealUnit_def
        conservativePreciseDiv_exact conservativePreciseMul_exact is_int256_def demo_set_def demo_controller_def)
  then obtain s' where e: "editDefaultPositionUnit 7 demo_controller 1 7 ?s = Inr s'" by blast
  obtain r where r: "getDefaultPositionRealUnit s' 1 = Inr r" "0 < r"
    using default_unit_round_trip [OF ok u e] by auto
  then show ?thesis using default_unit_round_trip [OF ok u e] e by (simp add: unit_slack_def)
qed

text \<open>
  The same for external positions, for a whole batch: after writing the units of pairwise
  different (component, module) positions, each of them reads back at most as large as written and at
  most the rounded-up multiplier smaller.
\<close>

lemma external_units_batch:
  assumes "units_ok s" "\<forall>(k, u) \<in> set kus. is_int256 u" "distinct (map fst kus)"
    and "write_all (\<lambda>(k, m). editExternalPositionUnit x c k m) kus s = Inr s'"
    and "((k, m), u) \<in> set kus" "getExternalPositionRealUnit s' k m = Inr r"
  shows "r \<le> u \<and> u - unit_slack s \<le> r"
  using external_units.write_all_reads [OF assms(1-5)] assms(6) by simp

lemma external_units_batch_example:
  "\<exists>s'. write_all (\<lambda>(k, m). editExternalPositionUnit 7 demo_controller k m)
       [((1, 7), 5), ((1, 8), -3)] demo_set = Inr s'
     \<and> (\<forall>r. getExternalPositionRealUnit s' 1 8 = Inr r \<longrightarrow> r \<le> -3 \<and> -4 \<le> r)"
proof -
  let ?kus = "[((1, 7), 5), ((1, 8), -3)]"
  have ok: "units_ok demo_set" by (simp add: units_ok_def is_int256_def demo_set_def)
  have "\<exists>s'. write_all (\<lambda>(k, m). editExternalPositionUnit 7 demo_controller k m) ?kus demo_set = Inr s'"
    by (simp add: editExternalPositionUnit_def guard_defs convertRealToVirtualUnit_def convertVirtualToRealUnit_def
        conservativePreciseDiv_exact conservativePreciseMul_exact is_int256_def demo_set_def demo_controller_def)
  then obtain s' where e: "write_all (\<lambda>(k, m). editExternalPositionUnit 7 demo_controller k m) ?kus demo_set = Inr s'"
    by blast
  show ?thesis
    using external_units_batch [OF ok _ _ e, of 1 8 "-3"] e by (simp add: unit_slack_def is_int256_def demo_set_def)
qed

text \<open>
  \<open>getPositions\<close> returns exactly the positions of the components in order (the default position
  when its virtual unit is positive, then one per external module): the array it allocates with
  \<open>_getPositionCount\<close> is neither overrun nor left with empty slots.
\<close>

lemma getPositions_exact:
  "getPositions s = position_list s (components s)
   \<and> (getPositions s = Inr ps \<longrightarrow> length ps = getPositionCount s)"
  using getPositions_list [of s] position_list_length [of s "components s" ps]
  by (simp add: getPositionCount_def getPositionCount_from_total)

lemma getPositions_exact_example:
  "map pos_unit (case getPositions demo_set of Inr ps \<Rightarrow> ps | Inl e \<Rightarrow> []) = [3 * 10 ^ 18, 5 * 10 ^ 17]
   \<and> length (case getPositions demo_set of Inr ps \<Rightarrow> ps | Inl e \<Rightarrow> []) = getPositionCount demo_set"
proof -
  have "\<exists>ps. position_list demo_set (components demo_set) = Inr ps \<and> map pos_unit ps = [3 * 10 ^ 18, 5 * 10 ^ 17]"
    by (simp add: demo_set_def default_position_def getDefaultPositionRealUnit_def defaultPositionVirtualUnit_def
        getExternalPositionModules_def convertVirtualToRealUnit_def conservativePreciseMul_exact is_int256_def)
  then obtain ps where ps: "getPositions demo_set = Inr ps" "map pos_unit ps = [3 * 10 ^ 18, 5 * 10 ^ 17]"
    using getPositions_exact [of demo_set, THEN conjunct1] by metis
  then show ?thesis using getPositions_exact [of demo_set ps] by simp
qed

text \<open>
  A multiplier that \<open>editPositionMultiplier\<close> accepts leaves no position with a real unit of zero:
  every default position of a component still reads as positive and every external position as
  nonzero.
\<close>

lemma multiplier_no_vanishing:
  assumes "virtual_typed s" "is_int256 nm" "editPositionMultiplier x c nm s = Inr s'" "k \<in> set (components s)"
  shows "(\<forall>r. defaultPositionVirtualUnit s k \<noteq> 0 \<and> getDefaultPositionRealUnit s' k = Inr r \<longrightarrow> 0 < r)
    \<and> (\<forall>m r. m \<in> set (getExternalPositionModules s k) \<and> externalPositionVirtualUnit s k m \<noteq> 0
         \<and> getExternalPositionRealUnit s' k m = Inr r \<longrightarrow> r \<noteq> 0)"
  using multiplier_keeps_positions [OF assms] by blast

lemma multiplier_no_vanishing_example:
  "\<exists>s'. editPositionMultiplier 7 demo_controller (10 ^ 15) demo_set = Inr s'
     \<and> (\<forall>r. getDefaultPositionRealUnit s' 2 = Inr r \<longrightarrow> 0 < r)"
proof -
  have "\<exists>s'. editPositionMultiplier 7 demo_controller (10 ^ 15) demo_set = Inr s'"
    by (simp add: editPositionMultiplier_def guard_defs validateNewMultiplier_def getPositionsAbsMinimumVirtualUnit_def
        defaultPositionVirtualUnit_def getExternalPositionModules_def toUint256_def toInt256_def wrap_uint256_def
        conservativePreciseMul_exact is_int256_def demo_set_def demo_controller_def)
  then obtain s' where e: "editPositionMultiplier 7 demo_controller (10 ^ 15) demo_set = Inr s'" by blast
  have v: "virtual_typed demo_set" using demo_set_inv by (simp add: set_inv_def position_inv_def)
  show ?thesis
    using multiplier_no_vanishing [OF v _ e, of 2] e
    by (simp add: is_int256_def demo_set_def defaultPositionVirtualUnit_def)
qed

text \<open>
  C12. The life cycle of a module. A call changes a module's state only from \<open>NONE\<close> to \<open>PENDING\<close> (\<open>addModule\<close> by the
  manager, for a module the Controller enables), from \<open>PENDING\<close> to \<open>INITIALIZED\<close> (\<open>initializeModule\<close> by the module
  itself, while unlocked), from \<open>PENDING\<close> back to \<open>NONE\<close> (\<open>removePendingModule\<close> by the manager, while unlocked) or from \<open>INITIALIZED\<close> to
  \<open>NONE\<close> (\<open>removeModule\<close> by the manager, while unlocked); \<open>invoke\<close> by itself changes nothing, and foreign code acts through calls. So in a run of any length, re-entrant calls included, a module that
  makes no call is not initialized by others, and when the manager makes no call, modules can only initialize themselves.
\<close>

theorem module_life_cycle:
  "(entry_exec I R x c e s = Inr s' \<longrightarrow> (\<exists>r. handed_back I R e s = Inr r \<and> (moduleStates s' m \<noteq> moduleStates r m \<longrightarrow>
       (e = Plain (AddModule m) \<and> moduleStates r m = NONE \<and> moduleStates s' m = PENDING \<and> x = manager s \<and> isModule c m)
     \<or> (e = Plain InitializeModule \<and> moduleStates r m = PENDING \<and> moduleStates s' m = INITIALIZED \<and> x = m \<and> \<not> isLocked s)
     \<or> (e = Plain (RemovePendingModule m) \<and> moduleStates r m = PENDING \<and> moduleStates s' m = NONE \<and> x = manager s \<and> \<not> isLocked s)
     \<or> (e = RemoveModule m \<and> moduleStates s m = INITIALIZED \<and> moduleStates s' m = NONE \<and> x = manager s \<and> \<not> isLocked s))))
   \<and> (set_run P strict s t \<longrightarrow>
       (\<not> P m \<longrightarrow> moduleStates t m = INITIALIZED \<longrightarrow> moduleStates s m = INITIALIZED)
     \<and> (\<not> P (manager s) \<longrightarrow> manager t = manager s
          \<and> (moduleStates t m = moduleStates s m \<or> moduleStates s m = PENDING \<and> moduleStates t m = INITIALIZED \<and> P m)))"
proof (intro conjI impI)
  assume run: "entry_exec I R x c e s = Inr s'"
  show "\<exists>r. handed_back I R e s = Inr r \<and> (moduleStates s' m \<noteq> moduleStates r m \<longrightarrow>
       (e = Plain (AddModule m) \<and> moduleStates r m = NONE \<and> moduleStates s' m = PENDING \<and> x = manager s \<and> isModule c m)
     \<or> (e = Plain InitializeModule \<and> moduleStates r m = PENDING \<and> moduleStates s' m = INITIALIZED \<and> x = m \<and> \<not> isLocked s)
     \<or> (e = Plain (RemovePendingModule m) \<and> moduleStates r m = PENDING \<and> moduleStates s' m = NONE \<and> x = manager s \<and> \<not> isLocked s)
     \<or> (e = RemoveModule m \<and> moduleStates s m = INITIALIZED \<and> moduleStates s' m = NONE \<and> x = manager s \<and> \<not> isLocked s))"
  proof (cases e)
    case (Plain f)
    then show ?thesis using run life_cycle_call [of x c f s s' m] by auto
  next
    case (Invoke target v data)
    then show ?thesis using run by (auto simp: invoke_def result_simps)
  next
    case (RemoveModule k)
    then have "removeModule R x k s = Inr s'" using run by simp
    then show ?thesis by (rule st_removeModule_Inr) (auto simp: RemoveModule split: if_splits)
  qed
qed (use uninitialized_run unmanaged_run in blast)+

theorem module_life_cycle_witness:
  "moduleStates demo_set 7 = INITIALIZED
   \<and> set_exec 7 demo_controller InitializeModule
      (demo_set\<lparr>modules := [], moduleStates := (\<lambda>_. NONE)(7 := PENDING)\<rparr>) = Inr demo_set
   \<and> set_run (\<lambda>x. x = 7) True (demo_set\<lparr>modules := [], moduleStates := (\<lambda>_. NONE)(7 := PENDING)\<rparr>) demo_set
   \<and> moduleStates demo_set 8 = NONE"
proof -
  let ?s = "demo_set\<lparr>modules := [], moduleStates := (\<lambda>_. NONE)(7 := PENDING)\<rparr>"
  have r: "set_run (\<lambda>x. x = 7) True ?s demo_set" by (rule run_call [OF run_refl _ _ demo_initialized]) simp_all
  note L = module_life_cycle [of undefined undefined 7 demo_controller "Plain InitializeModule" ?s demo_set 8 "\<lambda>x. x = 7" True demo_set]
  have "moduleStates demo_set 8 = moduleStates ?s 8"
    using L r by (simp add: demo_set_def)
  then show ?thesis using demo_initialized r by (simp add: demo_set_def)
qed
end
