(* ===== verification/StreamingFeeModule.thy ===== *)
theory StreamingFeeModule
  imports SetToken
begin

section \<open>ModuleBase and the StreamingFeeModule\<close>

text \<open>
  \<^verbatim>\<open>src/contracts/protocol/lib/ModuleBase.sol\<close> (the validations modules share) and
  \<^verbatim>\<open>src/contracts/protocol/modules/v1/StreamingFeeModule.sol\<close>. A module function takes \<open>this\<close> (the
  module's address, which is \<open>msg.sender\<close> of the calls it makes on the Set), the Controller state, the
  address and the state of the Set, and the module's own state. The module calls no foreign code
  between its own steps, so its \<open>nonReentrant\<close> guard never fires and is left out.

  The theorems: an accrual keeps \<open>supply * multiplier\<close> up to rounding and never raises it, and it raises no unit that is read; what is minted is exactly the fee, split between manager and protocol, and
  is the configured share of the new supply up to rounding; the fee settings stay below their maximum.
\<close>

subsection \<open>ModuleBase\<close>

definition isSetPendingInitialization :: "address \<Rightarrow> set_token \<Rightarrow> bool" where
  "isSetPendingInitialization this s = isPendingModule s this"

definition isSetManager :: "set_token \<Rightarrow> address \<Rightarrow> bool" where
  "isSetManager s toCheck \<longleftrightarrow> manager s = toCheck"

definition isSetValidAndInitialized :: "address \<Rightarrow> controller \<Rightarrow> address \<Rightarrow> set_token \<Rightarrow> bool" where
  "isSetValidAndInitialized this c setToken s \<longleftrightarrow> isSet c setToken \<and> isInitializedModule s this"

definition validateOnlyManagerAndValidSet ::
  "address \<Rightarrow> address \<Rightarrow> controller \<Rightarrow> address \<Rightarrow> set_token \<Rightarrow> unit result" where
  "validateOnlyManagerAndValidSet this msg_sender c setToken s =
     rbind (require (isSetManager s msg_sender) ''Must be the SetToken manager'') (\<lambda>_.
     require (isSetValidAndInitialized this c setToken s) ''Must be a valid and initialized SetToken'')"

definition validateOnlySetManager :: "address \<Rightarrow> set_token \<Rightarrow> unit result" where
  "validateOnlySetManager caller s = require (isSetManager s caller) ''Must be the SetToken manager''"

definition validateOnlyValidAndInitializedSet ::
  "address \<Rightarrow> controller \<Rightarrow> address \<Rightarrow> set_token \<Rightarrow> unit result" where
  "validateOnlyValidAndInitializedSet this c setToken s =
     require (isSetValidAndInitialized this c setToken s) ''Must be a valid and initialized SetToken''"

definition module_validateOnlyModule :: "address \<Rightarrow> controller \<Rightarrow> set_token \<Rightarrow> unit result" where
  "module_validateOnlyModule msg_sender c s =
     rbind (require (moduleStates s msg_sender = INITIALIZED) ''Only the module can call'') (\<lambda>_.
     require (isModule c msg_sender) ''Module must be enabled on controller'')"

definition validateOnlyValidAndPendingSet ::
  "address \<Rightarrow> controller \<Rightarrow> address \<Rightarrow> set_token \<Rightarrow> unit result" where
  "validateOnlyValidAndPendingSet this c setToken s =
     rbind (require (isSet c setToken) ''Must be controller-enabled SetToken'') (\<lambda>_.
     require (isSetPendingInitialization this s) ''Must be pending initialization'')"

definition base_getModuleFee :: "address \<Rightarrow> controller \<Rightarrow> int \<Rightarrow> int \<Rightarrow> int result" where
  "base_getModuleFee this c feeIndex quantity = preciseMul_uint quantity (getModuleFee c this feeIndex)"

text \<open>The guards of a module pass only on a Set that has the module initialized.\<close>

lemma manager_initialized: "validateOnlyManagerAndValidSet this u c self s = Inr r \<Longrightarrow> moduleStates s this = INITIALIZED"
  by (auto simp: validateOnlyManagerAndValidSet_def isSetValidAndInitialized_def isInitializedModule_def result_simps)

lemma valid_initialized: "validateOnlyValidAndInitializedSet this c self s = Inr r \<Longrightarrow> moduleStates s this = INITIALIZED"
  by (auto simp: validateOnlyValidAndInitializedSet_def isSetValidAndInitialized_def isInitializedModule_def result_simps)

subsection \<open>StreamingFeeModule\<close>

record FeeState =
  fs_feeRecipient :: address
  maxStreamingFeePercentage :: int
  streamingFeePercentage :: int
  lastStreamingFeeTimestamp :: int

type_synonym fee_states = "address \<Rightarrow> FeeState"

abbreviation no_fee :: FeeState where
  "no_fee \<equiv> \<lparr>fs_feeRecipient = 0, maxStreamingFeePercentage = 0, streamingFeePercentage = 0,
             lastStreamingFeeTimestamp = 0\<rparr>"

definition ONE_YEAR_IN_SECONDS :: int where
  "ONE_YEAR_IN_SECONDS = 31557600"

definition calculateStreamingFee :: "int \<Rightarrow> address \<Rightarrow> fee_states \<Rightarrow> int result" where
  "calculateStreamingFee block_timestamp setToken f =
     rbind (safe_sub block_timestamp (lastStreamingFeeTimestamp (f setToken))) (\<lambda>timeSinceLastFee.
     rbind (safe_mul timeSinceLastFee (streamingFeePercentage (f setToken))) (\<lambda>x.
     safe_div x ONE_YEAR_IN_SECONDS))"

definition calculateStreamingFeeInflation :: "int \<Rightarrow> set_token \<Rightarrow> int result" where
  "calculateStreamingFeeInflation feePercentage s =
     rbind (safe_mul feePercentage (totalSupply s)) (\<lambda>a.
     rbind (safe_sub preciseUnit feePercentage) (\<lambda>b.
     safe_div a b))"

definition mintManagerAndProtocolFee ::
  "address \<Rightarrow> controller \<Rightarrow> address \<Rightarrow> int \<Rightarrow> fee_states \<Rightarrow> set_token \<Rightarrow> ((int \<times> int) \<times> set_token) result" where
  "mintManagerAndProtocolFee this c setToken feeQuantity f s =
     (let protocolFeeRecipient = ctl_feeRecipient c;
          protocolFee = getModuleFee c this 0
      in rbind (preciseMul_uint feeQuantity protocolFee) (\<lambda>protocolFeeAmount.
         rbind (safe_sub feeQuantity protocolFeeAmount) (\<lambda>managerFeeAmount.
         rbind (set_mint this c (fs_feeRecipient (f setToken)) managerFeeAmount s) (\<lambda>s1.
         rbind (if protocolFeeAmount > 0 then set_mint this c protocolFeeRecipient protocolFeeAmount s1
                else Ok s1) (\<lambda>s2.
         Ok ((managerFeeAmount, protocolFeeAmount), s2))))))"

definition module_editPositionMultiplier :: "address \<Rightarrow> controller \<Rightarrow> int \<Rightarrow> set_token \<Rightarrow> set_token result" where
  "module_editPositionMultiplier this c inflationFee s =
     (let currentMultiplier = positionMultiplier s
      in rbind (safe_sub preciseUnit inflationFee) (\<lambda>d.
         rbind (toInt256 d) (\<lambda>i.
         rbind (preciseMul_int currentMultiplier i) (\<lambda>newMultiplier.
         editPositionMultiplier this c newMultiplier s))))"

text \<open>Returns the new module and Set states with the manager's and the protocol's fee (the event's data).\<close>

definition accrueFee ::
  "address \<Rightarrow> int \<Rightarrow> controller \<Rightarrow> address \<Rightarrow> fee_states \<Rightarrow> set_token \<Rightarrow>
   (fee_states \<times> set_token \<times> int \<times> int) result" where
  "accrueFee this block_timestamp c setToken f s =
     rbind (validateOnlyValidAndInitializedSet this c setToken s) (\<lambda>_.
     rbind (if streamingFeePercentage (f setToken) > 0 then
              rbind (calculateStreamingFee block_timestamp setToken f) (\<lambda>inflationFeePercentage.
              rbind (calculateStreamingFeeInflation inflationFeePercentage s) (\<lambda>feeQuantity.
              rbind (mintManagerAndProtocolFee this c setToken feeQuantity f s) (\<lambda>((managerFee, protocolFee), s1).
              rbind (module_editPositionMultiplier this c inflationFeePercentage s1) (\<lambda>s2.
              Ok (s2, managerFee, protocolFee)))))
            else Ok (s, 0, 0)) (\<lambda>(s', managerFee, protocolFee).
     Ok (f(setToken := (f setToken)\<lparr>lastStreamingFeeTimestamp := block_timestamp\<rparr>), s', managerFee, protocolFee)))"

definition fee_initialize ::
  "address \<Rightarrow> address \<Rightarrow> int \<Rightarrow> controller \<Rightarrow> address \<Rightarrow> FeeState \<Rightarrow> fee_states \<Rightarrow> set_token \<Rightarrow>
   (fee_states \<times> set_token) result" where
  "fee_initialize this msg_sender block_timestamp c setToken settings f s =
     rbind (validateOnlySetManager msg_sender s) (\<lambda>_.
     rbind (validateOnlyValidAndPendingSet this c setToken s) (\<lambda>_.
     rbind (require (fs_feeRecipient settings \<noteq> address_zero) ''Fee Recipient must be non-zero address.'') (\<lambda>_.
     rbind (require (maxStreamingFeePercentage settings < preciseUnit) ''Max fee must be < 100%.'') (\<lambda>_.
     rbind (require (streamingFeePercentage settings \<le> maxStreamingFeePercentage settings) ''Fee must be <= max.'') (\<lambda>_.
     rbind (initializeModule this s) (\<lambda>s'.
     Ok (f(setToken := settings\<lparr>lastStreamingFeeTimestamp := block_timestamp\<rparr>), s')))))))"

definition fee_removeModule :: "address \<Rightarrow> fee_states \<Rightarrow> fee_states" where
  "fee_removeModule msg_sender f = f(msg_sender := no_fee)"

definition updateStreamingFee ::
  "address \<Rightarrow> address \<Rightarrow> int \<Rightarrow> controller \<Rightarrow> address \<Rightarrow> int \<Rightarrow> fee_states \<Rightarrow> set_token \<Rightarrow>
   (fee_states \<times> set_token) result" where
  "updateStreamingFee this msg_sender block_timestamp c setToken newFee f s =
     rbind (validateOnlySetManager msg_sender s) (\<lambda>_.
     rbind (validateOnlyValidAndInitializedSet this c setToken s) (\<lambda>_.
     rbind (require (newFee < maxStreamingFeePercentage (f setToken)) ''Fee must be less than max'') (\<lambda>_.
     rbind (accrueFee this block_timestamp c setToken f s) (\<lambda>(f1, s1, _).
     Ok (f1(setToken := (f1 setToken)\<lparr>streamingFeePercentage := newFee\<rparr>), s1)))))"

definition updateFeeRecipient ::
  "address \<Rightarrow> address \<Rightarrow> controller \<Rightarrow> address \<Rightarrow> address \<Rightarrow> fee_states \<Rightarrow> set_token \<Rightarrow> fee_states result" where
  "updateFeeRecipient this msg_sender c setToken newFeeRecipient f s =
     rbind (validateOnlySetManager msg_sender s) (\<lambda>_.
     rbind (validateOnlyValidAndInitializedSet this c setToken s) (\<lambda>_.
     rbind (require (newFeeRecipient \<noteq> address_zero) ''Fee Recipient must be non-zero address.'') (\<lambda>_.
     Ok (f(setToken := (f setToken)\<lparr>fs_feeRecipient := newFeeRecipient\<rparr>)))))"

definition getFee :: "int \<Rightarrow> address \<Rightarrow> fee_states \<Rightarrow> int result" where
  "getFee block_timestamp setToken f = calculateStreamingFee block_timestamp setToken f"

subsection \<open>The arithmetic of an accrual\<close>

lemma inflation_mint:
  assumes "0 \<le> fee" "fee < U" "0 \<le> (supply_0::int)"
  defines "q \<equiv> fee * supply_0 div (U - fee)"
  shows "0 \<le> q" "(supply_0 + q) * (U - fee) \<le> supply_0 * U" "q * U \<le> fee * (supply_0 + q)"
    "fee * (supply_0 + q) < q * U + (U - fee)"
proof -
  have d: "0 < U - fee" using assms by simp
  show "0 \<le> q" using assms d by (simp add: q_def pos_imp_zdiv_nonneg_iff)
  have le: "q * (U - fee) \<le> fee * supply_0" unfolding q_def using d by (rule div_mult_le_int)
  have gt: "fee * supply_0 < (q + 1) * (U - fee)" unfolding q_def using d by (rule less_div_mult_int)
  show "(supply_0 + q) * (U - fee) \<le> supply_0 * U" using le by (simp add: algebra_simps)
  show "q * U \<le> fee * (supply_0 + q)" using le by (simp add: algebra_simps)
  show "fee * (supply_0 + q) < q * U + (U - fee)" using gt by (simp add: algebra_simps)
qed

lemma inflation_collateral:
  assumes "0 \<le> fee" "fee < U" "0 \<le> supply_0" "0 \<le> (mp::int)"
    "supply_1 = supply_0 + fee * supply_0 div (U - fee)" "mp_1 = mp * (U - fee) div U"
  shows "supply_1 * mp_1 \<le> supply_0 * mp"
proof -
  have U: "0 < U" "0 < U - fee" using assms by simp_all
  have a: "supply_1 * (U - fee) \<le> supply_0 * U" "0 \<le> supply_1"
    using inflation_mint [OF assms(1-3)] assms(3,5) by simp_all
  have b: "mp_1 * U \<le> mp * (U - fee)" unfolding assms(6) using U(1) by (rule div_mult_le_int)
  have n: "0 \<le> mp_1 * U" "0 \<le> supply_0 * U" using assms U by (simp_all add: pos_imp_zdiv_nonneg_iff)
  have "(supply_1 * (U - fee)) * (mp_1 * U) \<le> (supply_0 * U) * (mp * (U - fee))"
    using a(1) b n(2,1) by (rule mult_mono)
  then have "(supply_1 * mp_1) * (U * (U - fee)) \<le> (supply_0 * mp) * (U * (U - fee))"
    by (simp add: ac_simps)
  then show ?thesis using U by (simp add: mult_le_cancel_right)
qed

lemma inflation_not_lost:
  assumes "0 \<le> fee" "fee < U" "0 \<le> supply_0" "0 \<le> (mp::int)"
    "supply_1 = supply_0 + fee * supply_0 div (U - fee)" "mp_1 = mp * (U - fee) div U"
  shows "supply_0 * mp \<le> supply_1 * mp_1 + mp + supply_1"
proof -
  have U: "0 < U" "0 < U - fee" using assms by simp_all
  have n: "0 \<le> supply_1" using inflation_mint [OF assms(1-3)] assms(3,5) by simp
  have "fee * supply_0 < (fee * supply_0 div (U - fee) + 1) * (U - fee)" using less_div_mult_int [OF U(2)] by simp
  then have "supply_0 * U \<le> (supply_1 + 1) * (U - fee)" unfolding assms(5) by (simp add: algebra_simps)
  then have a: "mp * (supply_0 * U) \<le> mp * ((supply_1 + 1) * (U - fee))" using assms(4) by (rule mult_left_mono)
  have "mp * (U - fee) \<le> (mp_1 + 1) * U" using less_div_mult_int [OF U(1), of "mp * (U - fee)"] unfolding assms(6) by simp
  then have b: "supply_1 * (mp * (U - fee)) \<le> supply_1 * ((mp_1 + 1) * U)" using n by (rule mult_left_mono)
  have c: "mp * (U - fee) \<le> mp * U" using assms(1,4) by (intro mult_left_mono) simp_all
  have "(supply_0 * mp) * U \<le> supply_1 * (mp * (U - fee)) + mp * (U - fee)" using a by (simp add: algebra_simps)
  also have "\<dots> \<le> supply_1 * ((mp_1 + 1) * U) + mp * U" by (rule add_mono [OF b c])
  also have "\<dots> = (supply_1 * mp_1 + mp + supply_1) * U" by (simp add: algebra_simps)
  finally show ?thesis using U(1) by (simp add: mult_le_cancel_right)
qed

definition fee_ok :: "FeeState \<Rightarrow> bool" where
  "fee_ok fs \<longleftrightarrow> 0 \<le> streamingFeePercentage fs \<and> streamingFeePercentage fs \<le> maxStreamingFeePercentage fs
     \<and> maxStreamingFeePercentage fs < PRECISE_UNIT \<and> is_uint256 (lastStreamingFeeTimestamp fs)"

lemma fee_ok_typed: "fee_ok fs \<Longrightarrow> is_uint256 (streamingFeePercentage fs) \<and> is_uint256 (lastStreamingFeeTimestamp fs)"
  by (simp add: fee_ok_def is_uint256_def)

lemma is_uint256_year [simp]: "is_uint256 ONE_YEAR_IN_SECONDS"
  by (simp add: ONE_YEAR_IN_SECONDS_def is_uint256_def)

lemma calculateStreamingFee_Inr:
  assumes "fee_ok (f a)" "is_uint256 now" "calculateStreamingFee now a f = Inr fee"
  shows "fee = (now - lastStreamingFeeTimestamp (f a)) * streamingFeePercentage (f a) div ONE_YEAR_IN_SECONDS
    \<and> is_uint256 fee"
proof -
  let ?t = "now - lastStreamingFeeTimestamp (f a)"
  have ty: "is_uint256 (streamingFeePercentage (f a))" "is_uint256 (lastStreamingFeeTimestamp (f a))"
    using fee_ok_typed [OF assms(1)] by simp_all
  have t: "is_uint256 ?t"
    using assms ty by (auto simp: calculateStreamingFee_def result_simps is_uint256_diff)
  have m: "?t * streamingFeePercentage (f a) \<le> MAX_UINT_256"
    and fee: "fee = ?t * streamingFeePercentage (f a) div ONE_YEAR_IN_SECONDS"
    using assms ty t by (auto simp: calculateStreamingFee_def result_simps)
  have "is_uint256 (?t * streamingFeePercentage (f a))" using t ty(1) m by (rule is_uint256_mult)
  then show ?thesis using fee by (simp add: is_uint256_div ONE_YEAR_IN_SECONDS_def)
qed

lemma calculateStreamingFeeInflation_Inr:
  assumes "is_uint256 (totalSupply s)" "is_uint256 fee" "calculateStreamingFeeInflation fee s = Inr q"
  shows "fee < PRECISE_UNIT \<and> q = fee * totalSupply s div (PRECISE_UNIT - fee) \<and> is_uint256 q"
proof -
  have e: "fee * totalSupply s \<le> MAX_UINT_256" "fee < PRECISE_UNIT" "q = fee * totalSupply s div (PRECISE_UNIT - fee)"
    using assms by (auto simp: calculateStreamingFeeInflation_def result_simps preciseUnit_def)
  have "is_uint256 (fee * totalSupply s)" using assms(2,1) e(1) by (rule is_uint256_mult)
  then show ?thesis using e by (simp add: is_uint256_div)
qed

lemma mint_Inr:
  assumes "set_inv s" "is_uint256 n" "set_mint x c a n s = Inr s'"
  shows "set_inv s' \<and> totalSupply s' = totalSupply s + n \<and> balances s' = (balances s)(a := balances s a + n)
    \<and> positionMultiplier s' = positionMultiplier s \<and> componentPositions s' = componentPositions s
    \<and> components s' = components s"
proof -
  have e: "set_exec x c (Mint a n) s = Inr s'" using assms(3) by simp
  have t: "erc20_typed s" using assms(1) by (simp add: set_inv_def ledger_inv_def)
  have "erc20_mint a n s = Inr s'" using assms(3) by (simp add: set_mint_def result_simps)
  then show ?thesis
    using erc20.mint_law [OF t assms(2)] set_inv_exec [OF assms(1) _ e] assms(2)
      other_call_positions [OF _ e] by (simp add: position_call_def)
qed

lemma mintManagerAndProtocolFee_Inr:
  assumes "set_inv s" "is_uint256 q" "is_uint256 (getModuleFee c this 0)"
    and "mintManagerAndProtocolFee this c a q f s = Inr ((mf, pf), s')"
  shows "set_inv s' \<and> mf + pf = q \<and> 0 \<le> mf \<and> 0 \<le> pf \<and> totalSupply s' = totalSupply s + q
    \<and> pf = q * getModuleFee c this 0 div PRECISE_UNIT
    \<and> positionMultiplier s' = positionMultiplier s \<and> componentPositions s' = componentPositions s
    \<and> components s' = components s
    \<and> balances s' = (let b = (balances s)(fs_feeRecipient (f a) := balances s (fs_feeRecipient (f a)) + mf)
                     in b(ctl_feeRecipient c := b (ctl_feeRecipient c) + pf))"
proof -
  have pm: "preciseMul_uint q (getModuleFee c this 0) = Inr pf"
    using assms(4) by (auto simp: mintManagerAndProtocolFee_def Let_def result_simps)
  then have pf: "pf = q * getModuleFee c this 0 div PRECISE_UNIT" "q * getModuleFee c this 0 \<le> MAX_UINT_256"
    using assms(2,3) by (simp_all add: preciseMul_uint_eq_Inr)
  then have pt: "is_uint256 pf" using assms(2,3) by (simp add: is_uint256_div is_uint256_mult)
  obtain s1 where mf: "mf = q - pf" "pf \<le> q" and s1: "set_mint this c (fs_feeRecipient (f a)) mf s = Inr s1"
    and s2: "(if pf > 0 then set_mint this c (ctl_feeRecipient c) pf s1 else Ok s1) = Inr s'"
    using assms(2,4) pt pm by (auto simp: mintManagerAndProtocolFee_def Let_def result_simps)
  have mt: "is_uint256 mf" using assms(2) pt mf by (simp add: is_uint256_diff)
  note M1 = mint_Inr [OF assms(1) mt s1]
  show ?thesis
  proof (cases "pf > 0")
    case True
    then have "set_mint this c (ctl_feeRecipient c) pf s1 = Inr s'" using s2 by simp
    from mint_Inr [OF _ pt this] M1 show ?thesis
      using mf pf(1) mt pt by (simp add: is_uint256_nonneg Let_def)
  next
    case False
    then have "pf = 0" using pt by (simp add: is_uint256_def)
    then show ?thesis using s2 M1 mf pf(1) mt by (simp add: is_uint256_nonneg Let_def)
  qed
qed

lemma module_editPositionMultiplier_Inr:
  assumes "set_inv s" "is_uint256 fee" "fee < PRECISE_UNIT" "module_editPositionMultiplier this c fee s = Inr s'"
  shows "set_inv s' \<and> s' = s\<lparr>positionMultiplier := positionMultiplier s * (PRECISE_UNIT - fee) div PRECISE_UNIT\<rparr>"
proof -
  have U: "is_int256 (positionMultiplier s)" "0 < positionMultiplier s" "virtual_typed s"
    using assms(1) by (simp_all add: set_inv_def position_inv_def units_ok_def)
  have d: "is_int256 (PRECISE_UNIT - fee)" using assms by (simp add: is_int256_def is_uint256_def)
  have in_range: "is_int256 (positionMultiplier s * (PRECISE_UNIT - fee))"
    and ed: "editPositionMultiplier this c (tdiv (positionMultiplier s * (PRECISE_UNIT - fee)) PRECISE_UNIT) s = Inr s'"
    using assms U d by (auto simp: module_editPositionMultiplier_def Let_def result_simps preciseUnit_def
        preciseMul_int_exact split: if_splits)
  have "0 \<le> positionMultiplier s * (PRECISE_UNIT - fee)" using U assms(3) by simp
  then have t: "tdiv (positionMultiplier s * (PRECISE_UNIT - fee)) PRECISE_UNIT
      = positionMultiplier s * (PRECISE_UNIT - fee) div PRECISE_UNIT" by (rule tdiv_nonneg) simp
  have typed: "is_int256 (positionMultiplier s * (PRECISE_UNIT - fee) div PRECISE_UNIT)"
    using in_range by (simp add: is_int256_div)
  have "set_inv s'"
    using set_inv_exec [of s "EditPositionMultiplier (positionMultiplier s * (PRECISE_UNIT - fee) div PRECISE_UNIT)"]
      assms(1) ed typed t by simp
  moreover have "s' = s\<lparr>positionMultiplier := positionMultiplier s * (PRECISE_UNIT - fee) div PRECISE_UNIT\<rparr>"
    using editPositionMultiplier_Inr [OF U(3) typed ed [unfolded t]] by blast
  ultimately show ?thesis by simp
qed

text \<open>Everything an accrual with a positive fee does.\<close>

lemma accrueFee_Inr:
  assumes "set_inv s" "fee_ok (f a)" "is_uint256 now" "is_uint256 (getModuleFee c this 0)"
    "streamingFeePercentage (f a) > 0" "accrueFee this now c a f s = Inr (f', s', mf, pf)"
  obtains fee q where
    "fee = (now - lastStreamingFeeTimestamp (f a)) * streamingFeePercentage (f a) div ONE_YEAR_IN_SECONDS"
    "0 \<le> fee" "fee < PRECISE_UNIT" "q = fee * totalSupply s div (PRECISE_UNIT - fee)"
    "mf + pf = q" "0 \<le> mf" "0 \<le> pf" "totalSupply s' = totalSupply s + q"
    "positionMultiplier s' = positionMultiplier s * (PRECISE_UNIT - fee) div PRECISE_UNIT"
    "components s' = components s" "componentPositions s' = componentPositions s" "set_inv s'"
    "f' = f(a := (f a)\<lparr>lastStreamingFeeTimestamp := now\<rparr>)"
    "balances s' = (let b = (balances s)(fs_feeRecipient (f a) := balances s (fs_feeRecipient (f a)) + mf)
                     in b(ctl_feeRecipient c := b (ctl_feeRecipient c) + pf))"
proof -
  obtain fee q s1 where fee: "calculateStreamingFee now a f = Inr fee"
    and q: "calculateStreamingFeeInflation fee s = Inr q"
    and s1: "mintManagerAndProtocolFee this c a q f s = Inr ((mf, pf), s1)"
    and s2: "module_editPositionMultiplier this c fee s1 = Inr s'"
    and f': "f' = f(a := (f a)\<lparr>lastStreamingFeeTimestamp := now\<rparr>)"
    using assms(5,6) by (auto simp: accrueFee_def result_simps)
  have ts: "is_uint256 (totalSupply s)" using assms(1) by (simp add: set_inv_def ledger_inv_def erc20_typed_def)
  note F = calculateStreamingFee_Inr [OF assms(2,3) fee]
  have Q: "fee < PRECISE_UNIT" "q = fee * totalSupply s div (PRECISE_UNIT - fee)" "is_uint256 q"
    using calculateStreamingFeeInflation_Inr [OF ts conjunct2 [OF F] q] by blast+
  note M = mintManagerAndProtocolFee_Inr [OF assms(1) Q(3) assms(4) s1]
  have s': "s' = s1\<lparr>positionMultiplier := positionMultiplier s1 * (PRECISE_UNIT - fee) div PRECISE_UNIT\<rparr>" "set_inv s'"
    using module_editPositionMultiplier_Inr [OF conjunct1 [OF M] conjunct2 [OF F] Q(1) s2] by blast+
  have frame: "totalSupply s' = totalSupply s1" "components s' = components s1" "balances s' = balances s1"
    "componentPositions s' = componentPositions s1"
    "positionMultiplier s' = positionMultiplier s1 * (PRECISE_UNIT - fee) div PRECISE_UNIT"
    using arg_cong [OF s'(1), of totalSupply] arg_cong [OF s'(1), of components] arg_cong [OF s'(1), of balances]
      arg_cong [OF s'(1), of componentPositions] arg_cong [OF s'(1), of positionMultiplier] by simp_all
  have M': "mf + pf = q" "0 \<le> mf" "0 \<le> pf" "totalSupply s1 = totalSupply s + q"
    "positionMultiplier s1 = positionMultiplier s" "components s1 = components s"
    "componentPositions s1 = componentPositions s"
    "balances s1 = (let b = (balances s)(fs_feeRecipient (f a) := balances s (fs_feeRecipient (f a)) + mf)
                     in b(ctl_feeRecipient c := b (ctl_feeRecipient c) + pf))"
    using M by blast+
  show thesis
    by (rule that [OF conjunct1 [OF F] is_uint256_nonneg [OF conjunct2 [OF F]] Q(1,2)])
       (simp_all only: M' frame s'(2) f')
qed

lemma accrueFee_no_fee:
  assumes "\<not> streamingFeePercentage (f a) > 0" "accrueFee this now c a f s = Inr (f', s', mf, pf)"
  shows "s' = s \<and> mf = 0 \<and> pf = 0 \<and> f' = f(a := (f a)\<lparr>lastStreamingFeeTimestamp := now\<rparr>)"
  using assms by (auto simp: accrueFee_def result_simps)

subsection \<open>The fee settings over any sequence of calls\<close>

inductive fee_reachable :: "address \<Rightarrow> fee_states \<Rightarrow> bool" for this :: address where
  fee_start: "fee_reachable this (\<lambda>_. no_fee)"
| fee_init: "fee_reachable this f \<Longrightarrow> is_uint256 now \<Longrightarrow> 0 \<le> streamingFeePercentage settings \<Longrightarrow>
    fee_initialize this x now c a settings f s = Inr (f', s') \<Longrightarrow> fee_reachable this f'"
| fee_accrue: "fee_reachable this f \<Longrightarrow> is_uint256 now \<Longrightarrow> accrueFee this now c a f s = Inr (f', s', fs) \<Longrightarrow>
    fee_reachable this f'"
| fee_update: "fee_reachable this f \<Longrightarrow> is_uint256 now \<Longrightarrow> 0 \<le> newFee \<Longrightarrow>
    updateStreamingFee this x now c a newFee f s = Inr (f', s') \<Longrightarrow> fee_reachable this f'"
| fee_recipient: "fee_reachable this f \<Longrightarrow> updateFeeRecipient this x c a r f s = Inr f' \<Longrightarrow> fee_reachable this f'"
| fee_remove: "fee_reachable this f \<Longrightarrow> fee_reachable this (fee_removeModule x f)"

lemma accrueFee_states:
  "accrueFee this now c a f s = Inr (f', s', fs) \<Longrightarrow> f' = f(a := (f a)\<lparr>lastStreamingFeeTimestamp := now\<rparr>)"
  by (auto simp: accrueFee_def result_simps)

lemma fee_ok_no_fee: "fee_ok no_fee"
  by (simp add: fee_ok_def)

lemma fee_reachable_ok: "fee_reachable this f \<Longrightarrow> fee_ok (f b)"
proof (induction arbitrary: b rule: fee_reachable.induct)
  case (fee_init f now settings x c a s f' s')
  then have "f' = f(a := settings\<lparr>lastStreamingFeeTimestamp := now\<rparr>)"
    "maxStreamingFeePercentage settings < PRECISE_UNIT" "streamingFeePercentage settings \<le> maxStreamingFeePercentage settings"
    by (auto simp: fee_initialize_def result_simps preciseUnit_def)
  then show ?case using fee_init by (simp add: fee_ok_def)
next
  case (fee_accrue f now c a s f' s' fs)
  then show ?case using accrueFee_states [OF fee_accrue.hyps(3)] by (simp add: fee_ok_def)
next
  case (fee_update f now newFee x c a s f' s')
  then obtain f1 s1 fs where a1: "accrueFee this now c a f s = Inr (f1, s1, fs)"
    and f': "f' = f1(a := (f1 a)\<lparr>streamingFeePercentage := newFee\<rparr>)" and lt: "newFee < maxStreamingFeePercentage (f a)"
    by (auto simp: updateStreamingFee_def result_simps)
  show ?case using fee_update.IH [of b] fee_update.IH [of a] fee_update.hyps lt
    by (auto simp: f' accrueFee_states [OF a1] fee_ok_def)
next
  case (fee_recipient f x c a r s f')
  then show ?case by (auto simp: updateFeeRecipient_def result_simps fee_ok_def)
qed (simp_all add: fee_ok_no_fee fee_removeModule_def)

subsection \<open>Properties\<close>

text \<open>
  C30. What an accrual of the streaming fee does to the obligations of a Set, whatever the fee and the elapsed time. The product of supply and
  multiplier does not grow, and falls by rounding only, by at most one multiplier and one base unit of multiplier per Set; so the unrounded obligation
  of a component (with a default unit of at least 0), supply times virtual unit times multiplier, does not grow either. Virtual units do not change and the unit that is read never rises.
  (The obligation in units as they are read, each rounded down, can grow: C31 bounds by how much.)
\<close>

theorem accrual_keeps_obligation:
  assumes "set_inv s" "fee_ok (f a)" "is_uint256 now" "is_uint256 (getModuleFee c this 0)"
    and "accrueFee this now c a f s = Inr (f', s', mf, pf)" "0 \<le> defaultPositionVirtualUnit s k"
  shows "totalSupply s' * positionMultiplier s' \<le> totalSupply s * positionMultiplier s
    \<and> totalSupply s * positionMultiplier s \<le> totalSupply s' * positionMultiplier s' + positionMultiplier s + totalSupply s'
    \<and> defaultPositionVirtualUnit s' k = defaultPositionVirtualUnit s k
    \<and> totalSupply s' * (defaultPositionVirtualUnit s' k * positionMultiplier s')
      \<le> totalSupply s * (defaultPositionVirtualUnit s k * positionMultiplier s)
    \<and> (getDefaultPositionRealUnit s k = Inr u \<and> getDefaultPositionRealUnit s' k = Inr u' \<longrightarrow> u' \<le> u)"
proof -
  let ?S = "totalSupply s" and ?m = "positionMultiplier s" and ?v = "defaultPositionVirtualUnit s k"
  have n: "0 \<le> ?S" "0 \<le> ?m"
    using assms(1) by (simp_all add: set_inv_def ledger_inv_def erc20_typed_def is_uint256_def position_inv_def units_ok_def)
  have le: "totalSupply s' * positionMultiplier s' \<le> ?S * ?m \<and> ?S * ?m \<le> totalSupply s' * positionMultiplier s' + ?m + totalSupply s'
      \<and> componentPositions s' = componentPositions s \<and> positionMultiplier s' \<le> ?m \<and> set_inv s'"
  proof (cases "streamingFeePercentage (f a) > 0")
    case True
    have "x * (PRECISE_UNIT - fee) div PRECISE_UNIT \<le> x" if "0 \<le> x" "0 \<le> fee" for x fee :: int
    proof -
      have "x * (PRECISE_UNIT - fee) \<le> x * PRECISE_UNIT" using that by (intro mult_left_mono) simp_all
      from zdiv_mono1 [OF this, of PRECISE_UNIT] show ?thesis by simp
    qed
    with n show ?thesis
      by (rule_tac accrueFee_Inr [OF assms(1-4) True assms(5)]) (simp add: inflation_collateral inflation_not_lost)
  qed (use accrueFee_no_fee [OF _ assms(5)] n assms(1) in simp)
  then have v: "defaultPositionVirtualUnit s' k = ?v" by (simp add: defaultPositionVirtualUnit_def)
  have "?v * (totalSupply s' * positionMultiplier s') \<le> ?v * (?S * ?m)" using le assms(6) by (simp add: mult_left_mono)
  moreover have "u' \<le> u" if "getDefaultPositionRealUnit s k = Inr u" "getDefaultPositionRealUnit s' k = Inr u'"
  proof -
    have ok: "units_ok s" "is_int256 ?v" "units_ok s'" "is_int256 (defaultPositionVirtualUnit s' k)"
      using assms(1) le by (simp_all add: set_inv_def position_inv_def virtual_typed_def)
    have "u = ?v * ?m div PRECISE_UNIT_INT" "u' = ?v * positionMultiplier s' div PRECISE_UNIT_INT"
      using convertVirtualToRealUnit_eq [OF ok(1,2)] convertVirtualToRealUnit_eq [OF ok(3,4)] that by (simp_all add: getDefaultPositionRealUnit_def v)
    moreover have "?v * positionMultiplier s' \<le> ?v * ?m" using le assms(6) by (intro mult_left_mono) simp_all
    ultimately show ?thesis by (simp add: zdiv_mono1)
  qed
  ultimately show ?thesis using le v by (simp add: ac_simps)
qed

text \<open>The example Set with one token outstanding, registered at address 20; module 7 charges 10% a year.\<close>

definition fee_controller :: controller where
  "fee_controller = demo_controller\<lparr>isSet := (\<lambda>a. a = 20), fees := (\<lambda>m t. 2 * 10 ^ 17)\<rparr>"

definition funded_set :: set_token where
  "funded_set = demo_set\<lparr>balances := (\<lambda>_. 0)(11 := 10 ^ 18), totalSupply := 10 ^ 18\<rparr>"

definition demo_fees :: fee_states where
  "demo_fees = (\<lambda>_. no_fee)(20 := \<lparr>fs_feeRecipient = 12, maxStreamingFeePercentage = 2 * 10 ^ 17,
     streamingFeePercentage = 10 ^ 17, lastStreamingFeeTimestamp = 1000\<rparr>)"

lemma funded_mint: "set_mint 7 demo_controller 11 (10 ^ 18) demo_set = Inr funded_set"
  by (simp add: set_mint_def guard_defs erc20_mint_def safe_add_exact funded_set_def demo_set_def demo_controller_def)

lemma funded_inv: "set_inv funded_set"
  using mint_Inr [OF demo_set_inv _ funded_mint] by (simp add: is_uint256_def)

lemma demo_fee_ok: "fee_ok (demo_fees 20)"
  by (simp add: demo_fees_def fee_ok_def is_uint256_def)

lemma demo_fee_typed: "is_uint256 (getModuleFee fee_controller 7 0)"
  by (simp add: getModuleFee_def fee_controller_def is_uint256_def)

lemma demo_accrual:
  "\<exists>r. accrueFee 7 31558600 fee_controller 20 demo_fees funded_set = Inr r"
  by (simp add: accrueFee_def validateOnlyValidAndInitializedSet_def isSetValidAndInitialized_def
      isInitializedModule_def calculateStreamingFee_def calculateStreamingFeeInflation_def
      mintManagerAndProtocolFee_def module_editPositionMultiplier_def set_mint_def erc20_mint_def guard_defs
      safe_math_simps range_simps preciseUnit_def getModuleFee_def editPositionMultiplier_def
      validateNewMultiplier_def getPositionsAbsMinimumVirtualUnit_def defaultPositionVirtualUnit_def
      getExternalPositionModules_def wrap_uint256_def ONE_YEAR_IN_SECONDS_def
      demo_fees_def funded_set_def demo_set_def fee_controller_def demo_controller_def controller_constructor_def)

theorem accrual_keeps_obligation_witness:
  "\<exists>f' s' mf pf. accrueFee 7 31558600 fee_controller 20 demo_fees funded_set = Inr (f', s', mf, pf)
     \<and> totalSupply s' * positionMultiplier s' \<le> 10 ^ 36"
proof -
  obtain f' s' mf pf where e: "accrueFee 7 31558600 fee_controller 20 demo_fees funded_set = Inr (f', s', mf, pf)"
    using demo_accrual by (metis prod.collapse)
  have "0 \<le> defaultPositionVirtualUnit funded_set 1"
    by (simp add: defaultPositionVirtualUnit_def funded_set_def demo_set_def)
  from accrual_keeps_obligation [OF funded_inv demo_fee_ok _ demo_fee_typed e this]
  show ?thesis using e by (simp add: is_uint256_def funded_set_def demo_set_def)
qed

text \<open>
  What an accrual mints: manager and protocol together receive exactly
  \<open>fee * supply / (1 - fee)\<close> rounded down, which is the fee's share of the new supply up to rounding
  (never more than the share); supply and recipient balances grow by exactly these amounts.
\<close>

lemma accrual_mints_share:
  assumes "set_inv s" "fee_ok (f a)" "is_uint256 now" "is_uint256 (getModuleFee c this 0)"
    and "streamingFeePercentage (f a) > 0" "accrueFee this now c a f s = Inr (f', s', mf, pf)"
  shows "\<exists>fee. fee = (now - lastStreamingFeeTimestamp (f a)) * streamingFeePercentage (f a) div ONE_YEAR_IN_SECONDS
    \<and> totalSupply s' = totalSupply s + (mf + pf)
    \<and> (mf + pf) * PRECISE_UNIT \<le> fee * totalSupply s'
    \<and> fee * totalSupply s' < (mf + pf) * PRECISE_UNIT + (PRECISE_UNIT - fee)
    \<and> (\<forall>x. x \<noteq> fs_feeRecipient (f a) \<and> x \<noteq> ctl_feeRecipient c \<longrightarrow> balances s' x = balances s x)
    \<and> (fs_feeRecipient (f a) \<noteq> ctl_feeRecipient c \<longrightarrow>
         balances s' (fs_feeRecipient (f a)) = balances s (fs_feeRecipient (f a)) + mf
         \<and> balances s' (ctl_feeRecipient c) = balances s (ctl_feeRecipient c) + pf)"
proof -
  obtain fee q where fee: "fee = (now - lastStreamingFeeTimestamp (f a)) * streamingFeePercentage (f a) div ONE_YEAR_IN_SECONDS"
    "0 \<le> fee" "fee < PRECISE_UNIT" and q: "q = fee * totalSupply s div (PRECISE_UNIT - fee)" "mf + pf = q"
    "totalSupply s' = totalSupply s + q"
    and b: "balances s' = (let b = (balances s)(fs_feeRecipient (f a) := balances s (fs_feeRecipient (f a)) + mf)
                     in b(ctl_feeRecipient c := b (ctl_feeRecipient c) + pf))"
    using accrueFee_Inr [OF assms] by metis
  have "0 \<le> totalSupply s" using assms(1) by (simp add: set_inv_def ledger_inv_def erc20_typed_def is_uint256_def)
  note I = inflation_mint [OF fee(2,3) this]
  show ?thesis
    by (rule exI [of _ fee]) (use I(3,4) fee(1) q b in \<open>simp add: Let_def\<close>)
qed

lemma accrual_mints_share_example:
  "\<exists>f' s' mf pf. accrueFee 7 31558600 fee_controller 20 demo_fees funded_set = Inr (f', s', mf, pf)
     \<and> totalSupply s' = 10 ^ 18 + (mf + pf) \<and> (mf + pf) * 10 ^ 18 \<le> 10 ^ 17 * totalSupply s'"
proof -
  obtain f' s' mf pf where e: "accrueFee 7 31558600 fee_controller 20 demo_fees funded_set = Inr (f', s', mf, pf)"
    using demo_accrual by (metis prod.collapse)
  have "streamingFeePercentage (demo_fees 20) > 0" by (simp add: demo_fees_def)
  from accrual_mints_share [OF funded_inv demo_fee_ok _ demo_fee_typed this e]
  show ?thesis using e
    by (simp add: is_uint256_def funded_set_def demo_fees_def ONE_YEAR_IN_SECONDS_def)
qed

text \<open>
  In every state the module can reach, for every Set the streaming fee is at most the maximum the
  manager committed to and that maximum is below 100%.
\<close>

lemma streaming_fee_bounded:
  assumes "fee_reachable this f"
  shows "0 \<le> streamingFeePercentage (f a) \<and> streamingFeePercentage (f a) \<le> maxStreamingFeePercentage (f a)
    \<and> maxStreamingFeePercentage (f a) < PRECISE_UNIT"
  using fee_reachable_ok [OF assms] by (simp add: fee_ok_def)

lemma demo_fee_reachable: "fee_reachable 7 demo_fees"
proof -
  let ?s = "demo_set\<lparr>modules := [], moduleStates := (\<lambda>_. NONE)(7 := PENDING)\<rparr>"
  have "fee_initialize 7 9 1000 fee_controller 20 (demo_fees 20) (\<lambda>_. no_fee) ?s = Inr (demo_fees, demo_set)"
    using demo_initialized by (simp add: fee_initialize_def validateOnlySetManager_def isSetManager_def
        validateOnlyValidAndPendingSet_def isSetPendingInitialization_def isPendingModule_def preciseUnit_def
        demo_fees_def) (simp add: demo_set_def fee_controller_def)
  from fee_init [OF fee_start _ _ this] show ?thesis by (simp add: is_uint256_def demo_fees_def)
qed

lemma streaming_fee_bounded_example:
  "streamingFeePercentage (demo_fees 20) \<le> maxStreamingFeePercentage (demo_fees 20)
   \<and> maxStreamingFeePercentage (demo_fees 20) < 10 ^ 18"
  using streaming_fee_bounded [OF demo_fee_reachable, of 20] by simp
end
