(* ===== verification/Ethers.thy ===== *)
theory Ethers
  imports PreciseUnitMath
begin

section \<open>What the TypeScript code uses of ethers and of JavaScript\<close>

text \<open>
  The utilities under \<^verbatim>\<open>src/utils\<close> compute with ethers' \<open>BigNumber\<close>, an immutable arbitrary-precision
  integer, read here as \<open>int\<close>. Addition, subtraction, multiplication and the comparison methods
  (\<open>.gt\<close>, \<open>.lt\<close>, \<open>.eq\<close>, \dots) are those of \<open>int\<close>. The package is not part of the repository:
  the locale \<open>bignumber\<close> states the documented behaviour of its partial operations (\<open>.div\<close> rounds
  towards zero and throws on zero, \<open>.mod\<close> gives the non-negative remainder of a positive modulus),
  and \<open>unique\<close> shows that this fixes them.

  JavaScript's own operators on such objects are another matter: \<open>==\<close> compares object identities,
  and \<open><\<close>, \<open>>\<close> convert both objects with \<open>toString\<close> and compare the decimal strings by code units
  (\<open>js_lt\<close>, \<open>js_gt\<close>). \<open>src/utils/common/uniswapUtils.ts\<close> uses them, so they are modelled as such.
\<close>

subsection \<open>BigNumber division\<close>

locale bignumber =
  fixes div' mod' :: "int \<Rightarrow> int \<Rightarrow> int result"
  assumes div_zero: "div' a 0 = Err (Throw ''division-by-zero'')"
    and div_trunc: "b \<noteq> 0 \<Longrightarrow> div' a b = Ok (tdiv a b)"
    and mod_zero: "mod' a 0 = Err (Throw ''division-by-zero'')"
    and mod_neg: "b < 0 \<Longrightarrow> mod' a b = Err (Throw ''cannot modulo negative values'')"
    and mod_pos: "0 < b \<Longrightarrow> mod' a b = Ok (a mod b)"
begin

lemma unique:
  assumes "bignumber div2 mod2"
  shows "div2 a b = div' a b \<and> mod2 a b = mod' a b"
proof -
  have "div2 a b = div' a b"
    by (cases "b = 0") (simp_all add: div_zero div_trunc bignumber.div_zero [OF assms]
        bignumber.div_trunc [OF assms])
  moreover have "mod2 a b = mod' a b"
    by (cases b "0 :: int" rule: linorder_cases)
      (simp_all add: mod_zero mod_neg mod_pos bignumber.mod_zero [OF assms]
        bignumber.mod_neg [OF assms] bignumber.mod_pos [OF assms])
  ultimately show ?thesis ..
qed

end

definition bn_div :: "int \<Rightarrow> int \<Rightarrow> int result" where
  "bn_div a b = (if b = 0 then Err (Throw ''division-by-zero'') else Ok (tdiv a b))"

definition bn_mod :: "int \<Rightarrow> int \<Rightarrow> int result" where
  "bn_mod a b = (if b = 0 then Err (Throw ''division-by-zero'')
     else if b < 0 then Err (Throw ''cannot modulo negative values'') else Ok (a mod b))"

interpretation ethers: bignumber bn_div bn_mod
  by unfold_locales (simp_all add: bn_div_def bn_mod_def)

lemma bn_div_eq_Inr [result_simps]: "bn_div a b = Inr c \<longleftrightarrow> b \<noteq> 0 \<and> c = tdiv a b"
  by (auto simp: bn_div_def)

lemma bn_div_nonneg: "0 \<le> a \<Longrightarrow> 0 < b \<Longrightarrow> bn_div a b = Ok (a div b)"
  by (simp add: bn_div_def)

subsection \<open>Decimal strings and their order\<close>

definition digit_char :: "nat \<Rightarrow> char" where
  "digit_char d = char_of (48 + d)"

fun nat_toString :: "nat \<Rightarrow> string" where
  "nat_toString n =
     (if n < 10 then [digit_char n] else nat_toString (n div 10) @ [digit_char (n mod 10)])"

declare nat_toString.simps [simp del]

definition bn_toString :: "int \<Rightarrow> string" where
  "bn_toString x = (if x < 0 then CHR ''-'' # nat_toString (nat (- x)) else nat_toString (nat x))"

text \<open>JavaScript compares strings by code units, a proper prefix being smaller.\<close>

fun js_string_lt :: "string \<Rightarrow> string \<Rightarrow> bool" where
  "js_string_lt [] [] = False"
| "js_string_lt [] (d # ds) = True"
| "js_string_lt (c # cs) [] = False"
| "js_string_lt (c # cs) (d # ds) =
     ((of_char c :: nat) < of_char d \<or> (c = d \<and> js_string_lt cs ds))"

definition js_lt :: "int \<Rightarrow> int \<Rightarrow> bool" where
  "js_lt a b = js_string_lt (bn_toString a) (bn_toString b)"

definition js_gt :: "int \<Rightarrow> int \<Rightarrow> bool" where
  "js_gt a b = js_lt b a"

text \<open>
  A reference to a \<open>BigNumber\<close> object: the value and the identity of the object. Every
  arithmetic method and every decoded contract result is a new object.
\<close>

record bn_ref =
  ref_id :: nat
  ref_val :: int

definition ref_eq :: "bn_ref \<Rightarrow> bn_ref \<Rightarrow> bool" where
  "ref_eq a b = (ref_id a = ref_id b)"

subsection \<open>The string order on numbers of one length\<close>

lemma of_char_digit [simp]: "d < 10 \<Longrightarrow> (of_char (digit_char d) :: nat) = 48 + d"
  by (simp add: digit_char_def)

lemma digit_char_inj: "d < 10 \<Longrightarrow> e < 10 \<Longrightarrow> digit_char d = digit_char e \<longleftrightarrow> d = e"
  by (metis of_char_digit add_left_imp_eq)

lemma js_string_lt_append:
  "length xs = length ys \<Longrightarrow>
   js_string_lt (xs @ us) (ys @ vs) \<longleftrightarrow> js_string_lt xs ys \<or> (xs = ys \<and> js_string_lt us vs)"
  by (induction xs ys rule: list_induct2) auto

lemma js_string_lt_irrefl [simp]: "\<not> js_string_lt xs xs"
  by (induction xs) auto

lemma js_string_lt_trans: "js_string_lt xs ys \<Longrightarrow> js_string_lt ys zs \<Longrightarrow> js_string_lt xs zs"
proof (induction xs zs arbitrary: ys rule: js_string_lt.induct)
  case (1 ys)
  then show ?case by (cases ys) simp_all
next
  case (3 c cs ys)
  then show ?case by (cases ys) simp_all
next
  case (4 c cs d ds)
  then show ?case by (cases ys) (auto intro: less_trans)
qed simp

lemma js_string_lt_total: "xs \<noteq> ys \<Longrightarrow> js_string_lt xs ys \<or> js_string_lt ys xs"
proof (induction xs ys rule: js_string_lt.induct)
  case (4 c cs d ds)
  then show ?case using linorder_less_linear [of "of_char c :: nat" "of_char d"] by auto
qed simp_all

lemma js_string_lt_asym: "js_string_lt xs ys \<Longrightarrow> \<not> js_string_lt ys xs"
  using js_string_lt_trans js_string_lt_irrefl by blast

lemma nat_toString_length_div:
  "\<not> n < 10 \<Longrightarrow> length (nat_toString n) = Suc (length (nat_toString (n div 10)))"
  by (subst nat_toString.simps) simp

lemma nat_toString_nonempty: "nat_toString n \<noteq> []"
  by (subst nat_toString.simps) simp

lemma nat_toString_length_1: "n < 10 \<longleftrightarrow> length (nat_toString n) = 1"
proof (cases "n < 10")
  case False
  then show ?thesis using nat_toString_length_div nat_toString_nonempty [of "n div 10"] by simp
qed (subst nat_toString.simps, simp)

lemma less_by_decimal_digit:
  "(m::nat) < n \<longleftrightarrow> m div 10 < n div 10 \<or> (m div 10 = n div 10 \<and> m mod 10 < n mod 10)"
proof -
  have cmp: "10 * q + r < 10 * q' + r' \<longleftrightarrow> q < q' \<or> (q = q' \<and> r < r')"
    if "r < 10" "r' < 10" for q r q' r' :: nat
    using that by arith
  show ?thesis
    using cmp [of "m mod 10" "n mod 10" "m div 10" "n div 10"] by simp
qed

lemma eq_by_decimal_digit: "(m::nat) = n \<longleftrightarrow> m div 10 = n div 10 \<and> m mod 10 = n mod 10"
  by (metis div_mult_mod_eq)

lemma digit_char_0: "digit_char 0 = CHR ''0''"
  by code_simp

lemma js_string_lt_digits:
  "length (nat_toString m) = length (nat_toString n) \<Longrightarrow>
   (js_string_lt (nat_toString m) (nat_toString n) \<longleftrightarrow> m < n) \<and>
   (nat_toString m = nat_toString n \<longleftrightarrow> m = n)"
proof (induction m arbitrary: n rule: nat_toString.induct)
  case (1 m)
  show ?case
  proof (cases "m < 10")
    case True
    then have "n < 10" using nat_toString_length_1 "1.prems" by metis
    with True show ?thesis
      by (simp add: nat_toString.simps [of m] nat_toString.simps [of n] digit_char_inj)
  next
    case False
    then have n: "\<not> n < 10" using nat_toString_length_1 "1.prems" by metis
    with False "1.prems" have len: "length (nat_toString (m div 10)) = length (nat_toString (n div 10))"
      by (simp add: nat_toString_length_div)
    have IH: "(js_string_lt (nat_toString (m div 10)) (nat_toString (n div 10)) \<longleftrightarrow> m div 10 < n div 10)"
      "(nat_toString (m div 10) = nat_toString (n div 10) \<longleftrightarrow> m div 10 = n div 10)"
      using "1.IH" [OF False len] by simp_all
    have "js_string_lt (nat_toString m) (nat_toString n) \<longleftrightarrow>
        m div 10 < n div 10 \<or> (m div 10 = n div 10 \<and> m mod 10 < n mod 10)"
      using False n len IH
      by (simp add: nat_toString.simps [of m] nat_toString.simps [of n] js_string_lt_append digit_char_inj)
    also have "\<dots> \<longleftrightarrow> m < n" by (rule less_by_decimal_digit [symmetric])
    finally have lt: "js_string_lt (nat_toString m) (nat_toString n) \<longleftrightarrow> m < n" .
    have "nat_toString m = nat_toString n \<longleftrightarrow> m div 10 = n div 10 \<and> m mod 10 = n mod 10"
      using False n len IH
      by (simp add: nat_toString.simps [of m] nat_toString.simps [of n] digit_char_inj)
    also have "\<dots> \<longleftrightarrow> m = n" by (rule eq_by_decimal_digit [symmetric])
    finally show ?thesis using lt by simp
  qed
qed

lemma js_lt_same_length:
  assumes "0 \<le> a" "0 \<le> b" "length (bn_toString a) = length (bn_toString b)"
  shows "js_lt a b \<longleftrightarrow> a < b"
  using assms js_string_lt_digits [of "nat a" "nat b"]
  by (auto simp: js_lt_def bn_toString_def)

lemma js_gt_zero: "js_gt a 0 \<longleftrightarrow> 0 < a"
proof -
  have zero: "bn_toString 0 = ''0''" by (simp add: bn_toString_def nat_toString.simps digit_char_0)
  have pos: "js_string_lt ''0'' (nat_toString n) \<longleftrightarrow> 0 < n" for n
  proof (induction n rule: nat_toString.induct)
    case (1 n)
    show ?case
    proof (cases "n < 10")
      case True
      then show ?thesis by (simp add: nat_toString.simps [of n])
    next
      case False
      then have n0: "0 < n div 10" by simp
      obtain c cs where c: "nat_toString (n div 10) = c # cs"
        using nat_toString_nonempty by (metis neq_Nil_conv)
      have "js_string_lt ''0'' (c # cs)" using 1 [OF False] n0 c by simp
      then have "js_string_lt ''0'' ((c # cs) @ [digit_char (n mod 10)])" by (cases cs) auto
      then show ?thesis using False n0 c by (simp add: nat_toString.simps [of n])
    qed
  qed
  show ?thesis
  proof (cases "a < 0")
    case True
    then show ?thesis by (simp add: js_gt_def js_lt_def zero) (simp add: bn_toString_def)
  next
    case False
    then show ?thesis using pos [of "nat a"] by (simp add: js_gt_def js_lt_def zero) (simp add: bn_toString_def)
  qed
qed

end
