(* ===== verification/MathUtils.thy ===== *)
theory MathUtils
  imports Ethers
begin

section \<open>mathUtils.ts: the reference arithmetic of the test-suite\<close>

text \<open>
  \<^verbatim>\<open>src/utils/common/mathUtils.ts\<close> recomputes in TypeScript what \<open>PreciseUnitMath.sol\<close> computes on chain.
  Each function is translated as written; the closed forms say how it rounds. The locale
  \<open>reference_of\<close> is the contract between the two: whenever the Solidity function returns, the
  TypeScript function returns the same number. It is interpreted on every pair of functions.
\<close>

definition preciseMul :: "int \<Rightarrow> int \<Rightarrow> int result" where
  "preciseMul a b = bn_div (a * b) PRECISE_UNIT"

definition preciseMulCeil :: "int \<Rightarrow> int \<Rightarrow> int result" where
  "preciseMulCeil a b =
     (if a = 0 \<or> b = 0 then Ok 0
      else rbind (bn_div (a * b - 1) PRECISE_UNIT) (\<lambda>q. Ok (q + 1)))"

definition preciseMulCeilInt :: "int \<Rightarrow> int \<Rightarrow> int result" where
  "preciseMulCeilInt a b =
     (if a = 0 \<or> b = 0 then Ok 0
      else if (a > 0 \<and> b > 0) \<or> (a < 0 \<and> b < 0)
      then rbind (bn_div (a * b - 1) PRECISE_UNIT) (\<lambda>q. Ok (q + 1))
      else rbind (bn_div (a * b + 1) PRECISE_UNIT) (\<lambda>q. Ok (q - 1)))"

definition preciseDiv :: "int \<Rightarrow> int \<Rightarrow> int result" where
  "preciseDiv a b = bn_div (a * PRECISE_UNIT) b"

definition preciseDivCeil :: "int \<Rightarrow> int \<Rightarrow> int result" where
  "preciseDivCeil a b =
     (if a = 0 \<or> b = 0 then Ok 0
      else rbind (bn_div (a * PRECISE_UNIT - 1) b) (\<lambda>q. Ok (q + 1)))"

definition preciseDivCeilInt :: "int \<Rightarrow> int \<Rightarrow> int result" where
  "preciseDivCeilInt a b =
     rbind (bn_div (a * PRECISE_UNIT) b) (\<lambda>result.
     if result * b = a * PRECISE_UNIT then Ok result
     else if (a > 0 \<and> b > 0) \<or> (a < 0 \<and> b < 0) then Ok (result + 1)
     else Ok (result - 1))"

definition divDown :: "int \<Rightarrow> int \<Rightarrow> int result" where
  "divDown a b =
     rbind (bn_div a b) (\<lambda>result.
     if a < 0 \<and> b > 0 then
       rbind (bn_mod a b) (\<lambda>m. if m \<noteq> 0 then Ok (result - 1) else Ok result)
     else if a > 0 \<and> b < 0 then
       rbind (bn_mod a (b * -1)) (\<lambda>m. if m \<noteq> 0 then Ok (result - 1) else Ok result)
     else Ok result)"

definition min_bn :: "int \<Rightarrow> int \<Rightarrow> int" where
  "min_bn valueOne valueTwo = (if valueOne < valueTwo then valueOne else valueTwo)"

subsection \<open>Closed forms\<close>

lemma preciseMul_eq: "preciseMul a b = Ok (tdiv (a * b) PRECISE_UNIT)"
  by (simp add: preciseMul_def bn_div_def)

lemma preciseMul_nonneg: "0 \<le> a \<Longrightarrow> 0 \<le> b \<Longrightarrow> preciseMul a b = Ok (a * b div PRECISE_UNIT)"
  by (simp add: preciseMul_eq)

lemma preciseDiv_eq:
  "preciseDiv a b = (if b = 0 then Err (Throw ''division-by-zero'') else Ok (tdiv (a * PRECISE_UNIT) b))"
  by (simp add: preciseDiv_def bn_div_def)

lemma preciseDiv_nonneg: "0 \<le> a \<Longrightarrow> 0 < b \<Longrightarrow> preciseDiv a b = Ok (a * PRECISE_UNIT div b)"
  by (simp add: preciseDiv_eq)

lemma preciseMulCeil_nonneg:
  assumes "0 \<le> a" "0 \<le> b"
  shows "preciseMulCeil a b = Ok (- ((- (a * b)) div PRECISE_UNIT))"
proof (cases "a = 0 \<or> b = 0")
  case False
  with assms have "0 < a * b" by auto
  then show ?thesis using False by (simp add: preciseMulCeil_def bn_div_nonneg ceil_div_pred)
qed (auto simp: preciseMulCeil_def)

lemma preciseDivCeil_nonneg:
  assumes "0 \<le> a" "0 \<le> b"
  shows "preciseDivCeil a b = Ok (- ((- (a * PRECISE_UNIT)) div b))"
proof (cases "a = 0 \<or> b = 0")
  case False
  with assms show ?thesis by (simp add: preciseDivCeil_def bn_div_nonneg ceil_div_pred)
qed (auto simp: preciseDivCeil_def)

text \<open>Stepping the numerator towards zero before, and the quotient away from zero after, rounds away from zero.\<close>

lemma adiv_pos: "0 < a \<Longrightarrow> 0 < b \<Longrightarrow> adiv a b = - ((- a) div b)"
  by (simp add: adiv_def)

lemma adiv_neg_left: "adiv (- a) b = - adiv a b"
  by (simp add: adiv_def)

lemma adiv_0 [simp]: "adiv 0 b = 0"
  by (simp add: adiv_def)

lemma preciseMulCeilInt_eq: "preciseMulCeilInt a b = Ok (adiv (a * b) PRECISE_UNIT)"
proof -
  consider "a = 0 \<or> b = 0" | "0 < a * b" | "a * b < 0" using linorder_cases [of "a * b" 0] by auto
  then show ?thesis
  proof cases
    case 1
    then show ?thesis by (auto simp: preciseMulCeilInt_def)
  next
    case 2
    then have "(a > 0 \<and> b > 0) \<or> (a < 0 \<and> b < 0)" by (simp add: zero_less_mult_iff)
    then show ?thesis using 2
      by (auto simp: preciseMulCeilInt_def bn_div_nonneg ceil_div_pred adiv_pos)
  next
    case 3
    then have s: "\<not> ((a > 0 \<and> b > 0) \<or> (a < 0 \<and> b < 0))" "a \<noteq> 0" "b \<noteq> 0"
      by (auto simp: mult_less_0_iff)
    define x where "x = - (a * b)"
    then have x: "0 < x" and ab: "a * b = - x" using 3 by simp_all
    have "tdiv (a * b + 1) PRECISE_UNIT = - tdiv (x - 1) PRECISE_UNIT"
      using tdiv_neg_left [of "x - 1" PRECISE_UNIT] by (simp add: ab)
    also have "\<dots> = - ((x - 1) div PRECISE_UNIT)" using x by simp
    finally have "tdiv (a * b + 1) PRECISE_UNIT - 1 = - ((x - 1) div PRECISE_UNIT + 1)" by simp
    also have "\<dots> = - adiv x PRECISE_UNIT" using x by (simp add: ceil_div_pred adiv_pos)
    also have "\<dots> = adiv (a * b) PRECISE_UNIT" by (simp add: ab adiv_neg_left)
    finally show ?thesis using s by (auto simp: preciseMulCeilInt_def bn_div_def)
  qed
qed

lemma preciseDivCeilInt_eq:
  "preciseDivCeilInt a b =
     (if b = 0 then Err (Throw ''division-by-zero'') else Ok (adiv (a * PRECISE_UNIT) b))"
proof (cases "b = 0")
  case False
  define x where "x = a * PRECISE_UNIT"
  have sgn: "(a > 0) = (x > 0)" "(a < 0) = (x < 0)" by (simp_all add: x_def)
  have exact: "tdiv x b * b = x \<longleftrightarrow> b dvd x"
    using tmod_eq_0_iff [OF False, of x] by (auto simp: tmod_def)
  have unfold: "preciseDivCeilInt a b =
      (if b dvd x then Ok (tdiv x b)
       else if (x > 0 \<and> b > 0) \<or> (x < 0 \<and> b < 0) then Ok (tdiv x b + 1) else Ok (tdiv x b - 1))"
    unfolding preciseDivCeilInt_def bn_div_def x_def [symmetric]
    by (simp only: False if_False rbind.simps exact sgn)
  have "preciseDivCeilInt a b = Ok (adiv x b)"
  proof (cases "b dvd x")
    case inexact: False
    then have "x \<noteq> 0" by auto
    then have "(x > 0 \<and> b > 0) \<or> (x < 0 \<and> b < 0) \<longleftrightarrow> (x < 0) = (b < 0)" using False by linarith
    then show ?thesis using unfold inexact by (simp add: adiv_tdiv [OF False])
  qed (simp add: unfold adiv_tdiv [OF False])
  then show ?thesis using False by (simp add: x_def)
qed (simp add: preciseDivCeilInt_def bn_div_def)

lemma divDown_eq: "divDown a b = (if b = 0 then Err (Throw ''division-by-zero'') else Ok (a div b))"
proof (cases "b = 0")
  case False
  consider "a < 0 \<and> 0 < b" | "0 < a \<and> b < 0" | "(0 \<le> a \<and> 0 < b) \<or> (a \<le> 0 \<and> b < 0)"
    using False by linarith
  then show ?thesis
  proof cases
    case 1
    then show ?thesis
      by (auto simp: divDown_def bn_div_def bn_mod_def tdiv_opposite_sign dvd_eq_mod_eq_0)
  next
    case 2
    then have "a mod (- b) = 0 \<longleftrightarrow> b dvd a" by (metis dvd_eq_mod_eq_0 minus_dvd_iff)
    then show ?thesis using 2
      by (auto simp: divDown_def bn_div_def bn_mod_def tdiv_opposite_sign)
  next
    case 3
    then show ?thesis using False by (auto simp: divDown_def bn_div_def tdiv_same_sign)
  qed
qed (simp add: divDown_def bn_div_def)

subsection \<open>The TypeScript functions are references for the contract's\<close>

locale reference_of =
  fixes impl ref :: "int \<Rightarrow> int \<Rightarrow> int result"
    and typed :: "int \<Rightarrow> bool"
  assumes agree: "typed a \<Longrightarrow> typed b \<Longrightarrow> impl a b = Inr c \<Longrightarrow> ref a b = Inr c"
begin

lemma ref_error_impl_error: "typed a \<Longrightarrow> typed b \<Longrightarrow> ref a b = Inl e \<Longrightarrow> \<exists>e'. impl a b = Inl e'"
  using agree [of a b] by (cases "impl a b") auto

lemma both_return: "typed a \<Longrightarrow> typed b \<Longrightarrow> impl a b = Inr c \<Longrightarrow> ref a b = Inr d \<Longrightarrow> c = d"
  using agree [of a b c] by simp

end

interpretation mul_u: reference_of preciseMul_uint preciseMul is_uint256
  by unfold_locales (auto simp: preciseMul_uint_exact preciseMul_nonneg is_uint256_def split: if_splits)

interpretation mul_i: reference_of preciseMul_int preciseMul is_int256
  by unfold_locales (auto simp: preciseMul_int_exact preciseMul_eq split: if_splits)

interpretation mul_ceil: reference_of preciseMulCeil_uint preciseMulCeil is_uint256
  by unfold_locales
    (auto simp: preciseMulCeil_uint_exact preciseMulCeil_nonneg is_uint256_nonneg split: if_splits)

interpretation div_u: reference_of preciseDiv_uint preciseDiv is_uint256
  by unfold_locales
    (auto simp: preciseDiv_uint_exact preciseDiv_eq is_uint256_def split: if_splits)

interpretation div_i: reference_of preciseDiv_int preciseDiv is_int256
  by unfold_locales (auto simp: preciseDiv_int_exact preciseDiv_eq split: if_splits)

interpretation div_ceil_u: reference_of preciseDivCeil_uint preciseDivCeil is_uint256
  by unfold_locales
    (auto simp: preciseDivCeil_uint_exact preciseDivCeil_nonneg is_uint256_nonneg split: if_splits)

interpretation div_ceil_i: reference_of preciseDivCeil_int preciseDivCeilInt is_int256
  by unfold_locales (auto simp: preciseDivCeil_int_exact preciseDivCeilInt_eq split: if_splits)

interpretation div_down: reference_of divDown_int divDown is_int256
  by unfold_locales (auto simp: divDown_int_exact divDown_eq split: if_splits)

subsection \<open>Agreement\<close>

text \<open>
  C27. The off-chain functions are references for \<open>PreciseUnitMath\<close>: whenever a contract function returns
  on arguments of its type, the TypeScript function returns the same number.
\<close>

theorem math_utils_agree:
  assumes "is_uint256 a" "is_uint256 b" "is_int256 x" "is_int256 y"
  shows "(preciseMul_uint a b = Inr c \<longrightarrow> preciseMul a b = Inr c) \<and> (preciseMulCeil_uint a b = Inr c \<longrightarrow> preciseMulCeil a b = Inr c)
    \<and> (preciseDiv_uint a b = Inr c \<longrightarrow> preciseDiv a b = Inr c) \<and> (preciseDivCeil_uint a b = Inr c \<longrightarrow> preciseDivCeil a b = Inr c)
    \<and> (preciseMul_int x y = Inr c \<longrightarrow> preciseMul x y = Inr c) \<and> (preciseDiv_int x y = Inr c \<longrightarrow> preciseDiv x y = Inr c)
    \<and> (preciseDivCeil_int x y = Inr c \<longrightarrow> preciseDivCeilInt x y = Inr c) \<and> (divDown_int x y = Inr c \<longrightarrow> divDown x y = Inr c)"
  by (intro conjI impI)
    (erule mul_u.agree [OF assms(1,2)] mul_ceil.agree [OF assms(1,2)] div_u.agree [OF assms(1,2)] div_ceil_u.agree [OF assms(1,2)]
      mul_i.agree [OF assms(3,4)] div_i.agree [OF assms(3,4)] div_ceil_i.agree [OF assms(3,4)] div_down.agree [OF assms(3,4)])+

theorem math_utils_agree_witness:
  "divDown_int (- 7) 2 = Inr (- 4) \<and> divDown (- 7) 2 = Inr (- 4)"
proof
  show d: "divDown_int (- 7) 2 = Inr (- 4)" by code_simp
  have "is_uint256 0" "is_int256 (- 7)" "is_int256 2" by (simp_all add: is_int256_def)
  with math_utils_agree [of 0 0 "- 7" 2 "- 4"] d show "divDown (- 7) 2 = Inr (- 4)" by simp
qed

end
