(* ===== verification/FeeModuleUtils.thy ===== *)
theory FeeModuleUtils
  imports StreamingFeeModule MathUtils
begin

section \<open>feeModuleUtils.ts: the expected streaming fee\<close>

text \<open>
  \<^verbatim>\<open>src/utils/common/feeModuleUtils.ts\<close>, the TypeScript recomputation of what
  \<open>StreamingFeeModule.sol\<close> does, and the theorem that the two agree: whenever the contract accrues, the
  fee and the minted quantity are the ones the utilities predict, and so are the position units, exactly while the
  multiplier is 1 and up to the rounding of the multiplier afterwards.
\<close>

definition TS_ONE_YEAR_IN_SECONDS :: int where
  "TS_ONE_YEAR_IN_SECONDS = 31557600"

text \<open>\<open>feeModule.feeStates(setToken)\<close> is read from the contract's state; an omitted argument is \<open>None\<close>.\<close>

definition getStreamingFee :: "fee_states \<Rightarrow> address \<Rightarrow> int \<Rightarrow> int \<Rightarrow> int option \<Rightarrow> int result" where
  "getStreamingFee feeStates setToken previousAccrueTimestamp recentAccrueTimestamp streamingFee =
     (let feeState = feeStates setToken;
          accrualRate = (case streamingFee of Some x \<Rightarrow> x | None \<Rightarrow> streamingFeePercentage feeState);
          timeElapsed = recentAccrueTimestamp - previousAccrueTimestamp
      in bn_div (timeElapsed * accrualRate) TS_ONE_YEAR_IN_SECONDS)"

definition getStreamingFeeInflationAmount :: "int \<Rightarrow> int \<Rightarrow> int result" where
  "getStreamingFeeInflationAmount inflationPercent supply_0 =
     (let a = inflationPercent * supply_0;
          b = PRECISE_UNIT - inflationPercent
      in bn_div a b)"

fun getPostFeePositionUnits :: "int list \<Rightarrow> int \<Rightarrow> int list result" where
  "getPostFeePositionUnits [] inflationPercent = Ok []"
| "getPostFeePositionUnits (u # preFeeUnits) inflationPercent =
     rbind (if u \<ge> 0 then preciseMul u (PRECISE_UNIT - inflationPercent)
            else preciseMulCeilInt u (PRECISE_UNIT - inflationPercent)) (\<lambda>n.
     rbind (getPostFeePositionUnits preFeeUnits inflationPercent) (\<lambda>ns. Ok (n # ns)))"

subsection \<open>Closed forms\<close>

lemma adiv_neg_floor: "x < 0 \<Longrightarrow> 0 < U \<Longrightarrow> adiv x U = x div U"
  by (simp add: adiv_def sgn_if)

lemma getPostFeePositionUnits_eq:
  "fee < PRECISE_UNIT \<Longrightarrow>
   getPostFeePositionUnits us fee = Ok (map (\<lambda>u. u * (PRECISE_UNIT - fee) div PRECISE_UNIT) us)"
proof (induction us)
  case (Cons u us)
  have "preciseMulCeilInt u (PRECISE_UNIT - fee) = Ok (u * (PRECISE_UNIT - fee) div PRECISE_UNIT)" if "u < 0"
    using that Cons.prems by (simp add: preciseMulCeilInt_eq adiv_neg_floor mult_neg_pos)
  then show ?case using Cons by (simp add: preciseMul_nonneg)
qed simp

text \<open>The real units of a list of components, read one after the other.\<close>

fun real_units :: "set_token \<Rightarrow> address list \<Rightarrow> int list result" where
  "real_units s [] = Ok []"
| "real_units s (k # ks) =
     rbind (getDefaultPositionRealUnit s k) (\<lambda>u. rbind (real_units s ks) (\<lambda>us. Ok (u # us)))"

lemma real_units_eq:
  assumes "units_ok s" "virtual_typed s"
  shows "real_units s ks = Inr us \<Longrightarrow>
    us = map (\<lambda>k. defaultPositionVirtualUnit s k * positionMultiplier s div PRECISE_UNIT) ks"
proof (induction ks arbitrary: us)
  case (Cons k ks)
  have "getDefaultPositionRealUnit s k = Inr u \<Longrightarrow>
      u = defaultPositionVirtualUnit s k * positionMultiplier s div PRECISE_UNIT" for u
    using convertVirtualToRealUnit_eq [OF assms(1)] assms(2)
    by (simp add: getDefaultPositionRealUnit_def virtual_typed_def)
  then show ?case using Cons by (auto simp: result_simps)
qed simp

subsection \<open>Properties\<close>

text \<open>
  How far a predicted unit is from the one that is read. With the unit \<open>v\<close>, the multiplier \<open>m\<close> and the rest \<open>D\<close> after the fee, the contract rounds the
  multiplier and then the unit, the utility works on the rounded unit.
\<close>

lemma predicted_unit_close:
  assumes "0 \<le> D" "D \<le> U" "0 < (U::int)"
  shows "\<bar>v * (m * D div U) div U - v * m div U * D div U\<bar> \<le> 1 + (\<bar>v\<bar> + U - 1) div U"
proof -
  define X n u p c where "X = v * m * D" and "n = m * D div U" and "u = v * m div U" and "p = v * n div U" and "c = (\<bar>v\<bar> + U - 1) div U"
  define w where "w = u * D div U"
  have n: "n * U \<le> m * D" "m * D < (n + 1) * U" unfolding n_def using assms(3) by (auto intro: div_mult_le_int less_div_mult_int)
  have p: "p * U \<le> v * n" "v * n < (p + 1) * U" unfolding p_def using assms(3) by (auto intro: div_mult_le_int less_div_mult_int)
  have u: "u * U \<le> v * m" "v * m < (u + 1) * U" unfolding u_def using assms(3) by (auto intro: div_mult_le_int less_div_mult_int)
  have w: "w * U \<le> u * D" "u * D < (w + 1) * U" unfolding w_def using assms(3) by (auto intro: div_mult_le_int less_div_mult_int)
  have c: "\<bar>v\<bar> \<le> c * U" unfolding c_def using less_div_mult_int [OF assms(3), of "\<bar>v\<bar> + U - 1"] by (simp add: algebra_simps)
  have "\<bar>v\<bar> * \<bar>m * D - n * U\<bar> \<le> \<bar>v\<bar> * U" using n by (intro mult_left_mono) (auto simp: algebra_simps)
  then have v: "\<bar>X - v * n * U\<bar> \<le> \<bar>v\<bar> * U" by (simp add: X_def abs_mult [symmetric] algebra_simps)
  have "u * U * D \<le> v * m * D" "v * m * D \<le> (u + 1) * U * D" using u assms(1) by (auto intro: mult_right_mono)
  then have x: "u * D * U \<le> X" "X \<le> u * D * U + U * D" by (simp_all add: X_def algebra_simps)
  have ud: "U * D \<le> U * U" using assms by (intro mult_left_mono) simp_all
  have cu: "\<bar>v\<bar> * U \<le> c * U * U" using c assms(3) by (intro mult_right_mono) simp_all
  have pu: "p * U * U \<le> v * n * U" "v * n * U < (p + 1) * U * U" using p assms(3) by (auto intro: mult_right_mono mult_strict_right_mono)
  have wu: "w * U * U \<le> u * D * U" "u * D * U < (w + 1) * U * U" using w assms(3) by (auto intro: mult_right_mono mult_strict_right_mono)
  have UU: "0 < U * U" using assms(3) by simp
  have "p * (U * U) < (w + 2 + c) * (U * U)" using pu(1) v cu x ud wu(2) by (simp add: algebra_simps)
  then have 1: "p < w + 2 + c" using UU by (simp add: mult_less_cancel_right)
  have "w * (U * U) < (p + 1 + c) * (U * U)" using pu(2) v cu x wu(1) by (simp add: algebra_simps)
  then have 2: "w < p + 1 + c" using UU by (simp add: mult_less_cancel_right)
  show ?thesis using 1 2 unfolding p_def n_def w_def u_def c_def by linarith
qed

text \<open>
  C26. The utilities predict the contract: whenever \<open>accrueFee\<close> succeeds, with any fee and any multiplier, \<open>getStreamingFee\<close> returns the inflation
  percentage the contract used, \<open>getStreamingFeeInflationAmount\<close> the quantity it minted (manager and protocol together), and
  \<open>getPostFeePositionUnits\<close> predicts the default units of any list of components that are read from the Set afterwards: exactly when the multiplier
  was still 1 before, and otherwise up to two base units for components of at most one whole token per Set, and one more for each further
  whole token of the virtual unit, because the contract rounds the multiplier and the utility does not know it.
\<close>

theorem fee_utils_predict_contract:
  assumes "set_inv s" "fee_ok (f a)" "is_uint256 now" "is_uint256 (getModuleFee c this 0)"
    and "accrueFee this now c a f s = Inr (f', s', mf, pf)" "real_units s ks = Inr us" "real_units s' ks = Inr us'"
  shows "\<exists>fee us''. getStreamingFee f a (lastStreamingFeeTimestamp (f a)) now None = Inr fee
    \<and> getStreamingFeeInflationAmount fee (totalSupply s) = Inr (mf + pf)
    \<and> getPostFeePositionUnits us fee = Inr us'' \<and> length us'' = length ks \<and> length us' = length ks
    \<and> (positionMultiplier s = PRECISE_UNIT \<longrightarrow> us'' = us')
    \<and> (\<forall>i < length ks. \<bar>us' ! i - us'' ! i\<bar> \<le> 1 + (\<bar>defaultPositionVirtualUnit s (ks ! i)\<bar> + PRECISE_UNIT - 1) div PRECISE_UNIT)"
proof (cases "streamingFeePercentage (f a) > 0")
  case False
  then have zero: "streamingFeePercentage (f a) = 0" using assms(2) by (simp add: fee_ok_def)
  from accrueFee_no_fee [OF False assms(5)] have s': "s' = s" "mf = 0" "pf = 0" by simp_all
  have units: "us' = us" using assms(6,7) s' by simp
  have "length us = length ks"
    using real_units_eq [OF _ _ assms(6)] assms(1) by (simp add: set_inv_def position_inv_def)
  moreover have "getPostFeePositionUnits us 0 = Inr us" using getPostFeePositionUnits_eq [of 0 us] by simp
  moreover have "0 \<le> 1 + (\<bar>v\<bar> + PRECISE_UNIT - 1) div PRECISE_UNIT" for v :: int by (simp add: pos_imp_zdiv_nonneg_iff)
  ultimately show ?thesis
    by (intro exI [of _ 0] exI [of _ us])
       (simp add: getStreamingFee_def zero Let_def TS_ONE_YEAR_IN_SECONDS_def bn_div_nonneg getStreamingFeeInflationAmount_def s' units)
next
  case True
  show ?thesis
  proof (rule accrueFee_Inr [OF assms(1-4) True assms(5)])
    fix fee q
    assume fee: "fee = (now - lastStreamingFeeTimestamp (f a)) * streamingFeePercentage (f a) div ONE_YEAR_IN_SECONDS"
      "0 \<le> fee" "fee < PRECISE_UNIT" and q: "q = fee * totalSupply s div (PRECISE_UNIT - fee)" "mf + pf = q"
      and m: "positionMultiplier s' = positionMultiplier s * (PRECISE_UNIT - fee) div PRECISE_UNIT"
      and p: "componentPositions s' = componentPositions s" and inv: "set_inv s'"
    have supply_0: "0 \<le> totalSupply s" using assms(1) by (simp add: set_inv_def ledger_inv_def erc20_typed_def is_uint256_def)
    have elapsed: "lastStreamingFeeTimestamp (f a) \<le> now"
      using assms(2,3,5) True fee_ok_typed [OF assms(2)]
      by (auto simp: accrueFee_def calculateStreamingFee_def result_simps)
    have "getStreamingFee f a (lastStreamingFeeTimestamp (f a)) now None = Inr fee"
      using fee(1) elapsed True
      by (simp add: getStreamingFee_def Let_def TS_ONE_YEAR_IN_SECONDS_def ONE_YEAR_IN_SECONDS_def bn_div_nonneg)
    moreover have "getStreamingFeeInflationAmount fee (totalSupply s) = Inr (mf + pf)"
      using fee(2,3) supply_0 q by (simp add: getStreamingFeeInflationAmount_def bn_div_nonneg)
    moreover
    let ?us = "map (\<lambda>u. u * (PRECISE_UNIT - fee) div PRECISE_UNIT) us"
    have ok: "units_ok s" "virtual_typed s" "units_ok s'" "virtual_typed s'"
      using assms(1) inv by (simp_all add: set_inv_def position_inv_def)
    have us': "us' = map (\<lambda>k. defaultPositionVirtualUnit s k * (positionMultiplier s * (PRECISE_UNIT - fee) div PRECISE_UNIT) div PRECISE_UNIT) ks"
      using real_units_eq [OF ok(3,4) assms(7)] m p by (simp add: defaultPositionVirtualUnit_def)
    have us: "us = map (\<lambda>k. defaultPositionVirtualUnit s k * positionMultiplier s div PRECISE_UNIT) ks"
      using real_units_eq [OF ok(1,2) assms(6)] .
    have "positionMultiplier s = PRECISE_UNIT \<longrightarrow> ?us = us'" unfolding us us' by simp
    moreover have "\<bar>us' ! i - ?us ! i\<bar> \<le> 1 + (\<bar>defaultPositionVirtualUnit s (ks ! i)\<bar> + PRECISE_UNIT - 1) div PRECISE_UNIT" if "i < length ks" for i
      using predicted_unit_close [of "PRECISE_UNIT - fee" PRECISE_UNIT "defaultPositionVirtualUnit s (ks ! i)" "positionMultiplier s"] fee(2,3) that
      by (simp add: us us')
    ultimately show ?thesis using getPostFeePositionUnits_eq [OF fee(3), of us]
      by (intro exI [of _ fee] exI [of _ ?us]) (simp add: us us')
  qed
qed

theorem fee_utils_predict_contract_witness:
  "\<exists>f' s' mf pf fee. accrueFee 7 31558600 fee_controller 20 demo_fees funded_set = Inr (f', s', mf, pf)
     \<and> getStreamingFee demo_fees 20 1000 31558600 None = Inr fee
     \<and> getStreamingFeeInflationAmount fee (10 ^ 18) = Inr (mf + pf)
     \<and> getPostFeePositionUnits [3 * 10 ^ 18, 5 * 10 ^ 17] fee = real_units s' [1, 2]"
proof -
  obtain f' s' mf pf where e: "accrueFee 7 31558600 fee_controller 20 demo_fees funded_set = Inr (f', s', mf, pf)"
    using demo_accrual by (metis prod.collapse)
  have pos: "streamingFeePercentage (demo_fees 20) > 0" "positionMultiplier funded_set = PRECISE_UNIT"
    by (simp_all add: demo_fees_def funded_set_def demo_set_def)
  have now: "is_uint256 31558600" by (simp add: is_uint256_def)
  have us: "real_units funded_set [1, 2] = Inr [3 * 10 ^ 18, 5 * 10 ^ 17]"
    by (simp add: getDefaultPositionRealUnit_def defaultPositionVirtualUnit_def convertVirtualToRealUnit_def
        conservativePreciseMul_exact is_int256_def funded_set_def demo_set_def)
  have "positionMultiplier s' = 9 * 10 ^ 17 \<and> componentPositions s' = componentPositions funded_set"
    by (rule accrueFee_Inr [OF funded_inv demo_fee_ok now demo_fee_typed pos(1) e])
       (simp add: demo_fees_def ONE_YEAR_IN_SECONDS_def pos(2))
  then obtain us' where us': "real_units s' [1, 2] = Inr us'"
    by (auto simp: getDefaultPositionRealUnit_def defaultPositionVirtualUnit_def convertVirtualToRealUnit_def
        conservativePreciseMul_exact is_int256_def funded_set_def demo_set_def)
  from fee_utils_predict_contract [OF funded_inv demo_fee_ok now demo_fee_typed e us us'] pos(2)
  show ?thesis using e us' by (auto simp: demo_fees_def funded_set_def)
qed

end
