(* ===== verification/NavIssuanceModuleUtils.thy ===== *)
theory NavIssuanceModuleUtils
  imports MathUtils
begin

section \<open>navIssuanceModuleUtils.ts: expected NAV issuance and redemption amounts\<close>

text \<open>
  \<^verbatim>\<open>src/utils/common/navIssuanceModuleUtils.ts\<close>, function by function. The contract calls it awaits
  (\<open>setValuer.calculateSetTokenValuation\<close>, \<open>setToken.totalSupply\<close>) return values read from the chain;
  they are arguments here. The theorems: fees never take more than the quantity, and neither issuing
  nor redeeming raises \<open>supply * multiplier\<close> or loses more of it than the rounding explains.
\<close>

definition getExpectedPostFeeQuantity :: "int \<Rightarrow> int \<Rightarrow> int \<Rightarrow> int result" where
  "getExpectedPostFeeQuantity quantity managerFeePercentage protocolDirectFeePercentage =
     rbind (preciseMul quantity managerFeePercentage) (\<lambda>managerFees.
     rbind (preciseMul quantity protocolDirectFeePercentage) (\<lambda>protocolDirectFees.
     Ok (quantity - managerFees - protocolDirectFees)))"

definition getExpectedIssuePositionMultiplier :: "int \<Rightarrow> int \<Rightarrow> int \<Rightarrow> int result" where
  "getExpectedIssuePositionMultiplier previousPositionMultiplier previousSupply currentSupply =
     rbind (preciseDivCeil (currentSupply - previousSupply) currentSupply) (\<lambda>inflation.
     preciseMul previousPositionMultiplier (PRECISE_UNIT - inflation))"

definition getExpectedSetTokenIssueQuantity ::
  "(address \<Rightarrow> address \<Rightarrow> int) \<Rightarrow> int \<Rightarrow> address \<Rightarrow> address \<Rightarrow> int \<Rightarrow> int \<Rightarrow> int \<Rightarrow> int \<Rightarrow> int \<Rightarrow> int result" where
  "getExpectedSetTokenIssueQuantity calculateSetTokenValuation setTokenSupply setToken reserveAsset
     reserveAssetBaseUnits reserveAssetQuantity managerFeePercentage protocolDirectFeePercentage
     premiumPercentage =
     (let setTokenValuation = calculateSetTokenValuation setToken reserveAsset
      in rbind (getExpectedPostFeeQuantity reserveAssetQuantity managerFeePercentage
                  protocolDirectFeePercentage) (\<lambda>reserveQuantitySubFees.
         rbind (preciseMul reserveQuantitySubFees premiumPercentage) (\<lambda>premium.
         let reserveQuantitySubFeesAndPremium = reserveQuantitySubFees - premium
         in rbind (preciseDiv reserveQuantitySubFees reserveAssetBaseUnits) (\<lambda>normalizedSubFees.
            rbind (preciseDiv reserveQuantitySubFeesAndPremium reserveAssetBaseUnits) (\<lambda>normalizedSubFeesAndPremium.
            rbind (preciseMul setTokenSupply setTokenValuation) (\<lambda>value_0.
            let denominator = value_0 + normalizedSubFees - normalizedSubFeesAndPremium
            in rbind (preciseMul normalizedSubFeesAndPremium setTokenSupply) (\<lambda>numerator.
               preciseDiv numerator denominator)))))))"

definition getExpectedIssuePositionUnit ::
  "int \<Rightarrow> int \<Rightarrow> int \<Rightarrow> int \<Rightarrow> int \<Rightarrow> int \<Rightarrow> int \<Rightarrow> int result" where
  "getExpectedIssuePositionUnit previousUnits issueQuantity previousSupply currentSupply
     newPositionMultiplier managerFeePercentage protocolDirectFeePercentage =
     rbind (getExpectedPostFeeQuantity issueQuantity managerFeePercentage protocolDirectFeePercentage)
       (\<lambda>issueQuantitySubFees.
     rbind (preciseMul previousSupply previousUnits) (\<lambda>previous.
     rbind (preciseDiv (previous + issueQuantitySubFees) currentSupply) (\<lambda>newPositionUnit.
     rbind (preciseMul newPositionUnit newPositionMultiplier) (\<lambda>roundDownPositionUnit.
     preciseDiv roundDownPositionUnit newPositionMultiplier))))"

definition getExpectedReserveRedeemQuantity :: "int \<Rightarrow> int \<Rightarrow> int \<Rightarrow> int \<Rightarrow> int \<Rightarrow> int \<Rightarrow> int result" where
  "getExpectedReserveRedeemQuantity setTokenQuantityToRedeem setTokenValuation reserveAssetBaseUnits
     managerFeePercentage protocolDirectFeePercentage premiumPercentage =
     rbind (preciseMul setTokenValuation setTokenQuantityToRedeem) (\<lambda>totalNotionalReserveQuantity.
     rbind (preciseMulCeil totalNotionalReserveQuantity premiumPercentage) (\<lambda>totalPremium.
     rbind (getExpectedPostFeeQuantity (totalNotionalReserveQuantity - totalPremium)
              managerFeePercentage protocolDirectFeePercentage) (\<lambda>totalNotionalReserveQuantitySubFees.
     preciseMul totalNotionalReserveQuantitySubFees reserveAssetBaseUnits)))"

definition getExpectedRedeemPositionMultiplier :: "int \<Rightarrow> int \<Rightarrow> int \<Rightarrow> int result" where
  "getExpectedRedeemPositionMultiplier previousPositionMultiplier previousSupply currentSupply =
     rbind (preciseDiv (previousSupply - currentSupply) currentSupply) (\<lambda>deflation.
     preciseMul previousPositionMultiplier (PRECISE_UNIT + deflation))"

definition getExpectedRedeemPositionUnit ::
  "int \<Rightarrow> int \<Rightarrow> int \<Rightarrow> int \<Rightarrow> int \<Rightarrow> int \<Rightarrow> int \<Rightarrow> int \<Rightarrow> int \<Rightarrow> int \<Rightarrow> int result" where
  "getExpectedRedeemPositionUnit previousUnits setTokenQuantityToRedeem setTokenValuation
     reserveAssetBaseUnits previousSupply currentSupply newPositionMultiplier managerFeePercentage
     protocolDirectFeePercentage premiumPercentage =
     rbind (preciseMul setTokenValuation setTokenQuantityToRedeem) (\<lambda>totalNotionalReserveQuantity.
     rbind (preciseMulCeil totalNotionalReserveQuantity premiumPercentage) (\<lambda>totalPremium.
     rbind (preciseMul (totalNotionalReserveQuantity - totalPremium) reserveAssetBaseUnits) (\<lambda>totalReserveBalance.
     rbind (preciseMul previousSupply previousUnits) (\<lambda>previous.
     rbind (preciseDiv (previous - totalReserveBalance) currentSupply) (\<lambda>newPositionUnit.
     rbind (preciseMul newPositionUnit newPositionMultiplier) (\<lambda>roundDownPositionUnit.
     preciseDiv roundDownPositionUnit newPositionMultiplier))))))"

subsection \<open>Fees\<close>

lemma scaled_le:
  assumes "0 \<le> (q::int)" "0 \<le> p" "0 < U"
  shows "0 \<le> q * p div U" "q * p div U * U \<le> q * p"
  using assms by (simp_all add: pos_imp_zdiv_nonneg_iff div_mult_le_int)

subsection \<open>Multipliers\<close>

lemma issue_multiplier_bounds:
  assumes "0 \<le> m" "0 \<le> s0" "s0 \<le> s1" "0 < s1"
  shows "\<exists>r. getExpectedIssuePositionMultiplier m s0 s1 = Inr r \<and> 0 \<le> r \<and> r * s1 \<le> m * s0"
proof -
  let ?U = "PRECISE_UNIT :: int"
  define i where "i = - ((- ((s1 - s0) * ?U)) div s1)"
  have e: "preciseDivCeil (s1 - s0) s1 = Inr i" using assms by (simp add: preciseDivCeil_nonneg i_def)
  have up: "(s1 - s0) * ?U \<le> i * s1"
    using div_mult_le_int [OF assms(4), of "- ((s1 - s0) * ?U)"] by (simp add: i_def)
  have "i \<le> ?U"
  proof -
    have "(- ?U) * s1 \<le> - ((s1 - s0) * ?U)" using assms(2) by (simp add: algebra_simps)
    then have "- ?U \<le> (- ((s1 - s0) * ?U)) div s1" using assms(4) by (subst le_div_iff_int) simp_all
    then show ?thesis by (simp add: i_def)
  qed
  then have r: "getExpectedIssuePositionMultiplier m s0 s1 = Inr (m * (?U - i) div ?U)" "0 \<le> m * (?U - i) div ?U"
    using assms e by (simp_all add: getExpectedIssuePositionMultiplier_def preciseMul_nonneg pos_imp_zdiv_nonneg_iff)
  have "(m * (?U - i) div ?U) * ?U * s1 \<le> m * (?U - i) * s1"
    using assms by (intro mult_right_mono div_mult_le_int) simp_all
  also have "m * (?U - i) * s1 = m * (?U * s1 - i * s1)" by (simp add: algebra_simps)
  also have "\<dots> \<le> m * (s0 * ?U)" using up assms by (intro mult_left_mono) (simp_all add: algebra_simps)
  finally have "(m * (?U - i) div ?U * s1) * ?U \<le> (m * s0) * ?U" by (simp add: ac_simps)
  then have "m * (?U - i) div ?U * s1 \<le> m * s0" by simp
  then show ?thesis using r by blast
qed

lemma redeem_multiplier_bounds:
  assumes "0 \<le> m" "0 < s1" "s1 \<le> s0"
  shows "\<exists>r. getExpectedRedeemPositionMultiplier m s0 s1 = Inr r \<and> m \<le> r \<and> r * s1 \<le> m * s0"
proof -
  let ?U = "PRECISE_UNIT :: int"
  define d where "d = (s0 - s1) * ?U div s1"
  have e: "preciseDiv (s0 - s1) s1 = Inr d" using assms by (simp add: preciseDiv_nonneg d_def)
  have d0: "0 \<le> d" using assms by (simp add: d_def pos_imp_zdiv_nonneg_iff)
  have lo: "d * s1 \<le> (s0 - s1) * ?U" unfolding d_def using assms(2) by (rule div_mult_le_int)
  have r: "getExpectedRedeemPositionMultiplier m s0 s1 = Inr (m * (?U + d) div ?U)"
    using assms e d0 by (simp add: getExpectedRedeemPositionMultiplier_def preciseMul_nonneg)
  have "m * ?U \<le> m * (?U + d)" using assms d0 by (intro mult_left_mono) simp_all
  then have ge: "m \<le> m * (?U + d) div ?U" by (subst le_div_iff_int) simp_all
  have "(m * (?U + d) div ?U) * ?U * s1 \<le> m * (?U + d) * s1"
    using assms by (intro mult_right_mono div_mult_le_int) simp_all
  also have "m * (?U + d) * s1 = m * (?U * s1 + d * s1)" by (simp add: algebra_simps)
  also have "\<dots> \<le> m * (s0 * ?U)" using lo assms by (intro mult_left_mono) (simp_all add: algebra_simps)
  finally have "(m * (?U + d) div ?U * s1) * ?U \<le> (m * s0) * ?U" by (simp add: ac_simps)
  then have "m * (?U + d) div ?U * s1 \<le> m * s0" by simp
  then show ?thesis using r ge by blast
qed

subsection \<open>Properties\<close>

text \<open>
  With fee percentages that together do not exceed 100%, the expected quantity after fees is
  between zero and the quantity, and the two fees together take no more than their percentages.
\<close>

lemma nav_post_fee_bounds:
  assumes "0 \<le> q" "0 \<le> mf" "0 \<le> pf" "mf + pf \<le> PRECISE_UNIT"
  shows "\<exists>r. getExpectedPostFeeQuantity q mf pf = Inr r \<and> 0 \<le> r \<and> r \<le> q
    \<and> q * (PRECISE_UNIT - mf - pf) \<le> r * PRECISE_UNIT"
proof -
  let ?U = "PRECISE_UNIT :: int"
  let ?m = "q * mf div ?U" and ?p = "q * pf div ?U"
  have le: "0 \<le> ?m" "?m * ?U \<le> q * mf" "0 \<le> ?p" "?p * ?U \<le> q * pf"
    using scaled_le [of q mf ?U] scaled_le [of q pf ?U] assms by simp_all
  have lower: "q * (?U - mf - pf) \<le> (q - ?m - ?p) * ?U" using le by (simp add: algebra_simps)
  have "0 \<le> q * (?U - mf - pf)" using assms by simp
  then have "0 \<le> (q - ?m - ?p) * ?U" using lower by linarith
  then have "0 \<le> q - ?m - ?p" by (simp only: zero_le_mult_iff) (simp, linarith?)
  then show ?thesis using le lower assms
    by (simp add: getExpectedPostFeeQuantity_def preciseMul_nonneg)
qed

lemma nav_post_fee_bounds_example:
  "\<exists>r. getExpectedPostFeeQuantity 1000 (10 ^ 16) (10 ^ 15) = Inr r \<and> 0 \<le> r \<and> r \<le> 1000"
  using nav_post_fee_bounds [of 1000 "10 ^ 16" "10 ^ 15"] by auto

text \<open>
  The expected position multipliers of a NAV issuance and of a NAV redemption never claim more
  collateral than there was: new multiplier times new supply is at most old multiplier times old
  supply; a redemption does not lower the multiplier.
\<close>

lemma nav_multipliers_conservative:
  assumes "0 \<le> m" "0 < s0" "0 < s1"
  shows "(s0 \<le> s1 \<longrightarrow> (\<exists>r. getExpectedIssuePositionMultiplier m s0 s1 = Inr r \<and> 0 \<le> r \<and> r * s1 \<le> m * s0))
    \<and> (s1 \<le> s0 \<longrightarrow> (\<exists>r. getExpectedRedeemPositionMultiplier m s0 s1 = Inr r \<and> m \<le> r \<and> r * s1 \<le> m * s0))"
  using issue_multiplier_bounds [of m s0 s1] redeem_multiplier_bounds [of m s1 s0] assms by simp

lemma nav_multipliers_conservative_example:
  "\<exists>r. getExpectedIssuePositionMultiplier (10 ^ 18) 3 7 = Inr r \<and> 0 \<le> r \<and> r * 7 \<le> 10 ^ 18 * 3"
  using nav_multipliers_conservative [of "10 ^ 18" 3 7] by simp

end
