(* ===== verification/UniswapUtils.thy ===== *)
theory UniswapUtils
  imports MathUtils
begin

section \<open>uniswapUtils.ts: expected amounts of the Uniswap adapters\<close>

text \<open>
  \<^verbatim>\<open>src/utils/common/uniswapUtils.ts\<close>. Contract views the functions await are arguments: the reserves and
  total supply of the pair, the token balances of the Set, \<open>router.getAmountsOut\<close>. Token addresses are
  strings, as in the code.

  The file compares \<open>BigNumber\<close> objects with JavaScript's \<open><\<close>, \<open>>\<close>, \<open>==\<close> and \<open>!=\<close> in some places and with
  methods in others; each comparison is translated as the language evaluates it (\<open>js_lt\<close>, \<open>js_gt\<close>,
  \<open>ref_eq\<close>). The square root loop is a \<open>partial_function\<close>; \<open>sqrt_terminates\<close> proves that it always
  ends, because the string order of the iterates strictly decreases inside a finite range.
\<close>

definition MINIMUM_LIQUIDITY :: int where
  "MINIMUM_LIQUIDITY = 1000"

text \<open>The shared object \<open>ZERO\<close> of \<^verbatim>\<open>constants.ts\<close>; every computed number is another object.\<close>

definition ZERO_ref :: bn_ref where
  "ZERO_ref = \<lparr>ref_id = 0, ref_val = 0\<rparr>"

definition min_js :: "int \<Rightarrow> int \<Rightarrow> int" where
  "min_js valueOne valueTwo = (if js_lt valueOne valueTwo then valueOne else valueTwo)"

partial_function (option) sqrt_loop :: "int \<Rightarrow> int \<Rightarrow> int \<Rightarrow> int result option" where
  "sqrt_loop val x z =
     (if js_lt x z then
        (case bn_div val x of
           Inl e \<Rightarrow> Some (Inl e)
         | Inr q \<Rightarrow> sqrt_loop val (tdiv (q + x) 2) x)
      else Some (Inr z))"

text \<open>The argument of \<open>sqrt\<close> is an object; \<open>value != ZERO\<close> compares identities.\<close>

definition sqrt_bn :: "bn_ref \<Rightarrow> int result option" where
  "sqrt_bn v =
     (if js_gt (ref_val v) 3 then sqrt_loop (ref_val v) (tdiv (ref_val v) 2 + 1) (ref_val v)
      else if \<not> ref_eq v ZERO_ref then Some (Inr 1)
      else Some (Inr (ref_val v)))"

definition calculateLPTokensIssued ::
  "int \<Rightarrow> int \<Rightarrow> bn_ref \<Rightarrow> int \<Rightarrow> int \<Rightarrow> nat \<Rightarrow> int result option" where
  "calculateLPTokensIssued reserve0 reserve1 pool_totalSupply amountOne amountTwo fresh =
     (if ref_eq pool_totalSupply ZERO_ref then
        (case sqrt_bn \<lparr>ref_id = fresh, ref_val = amountOne * amountTwo\<rparr> of
           None \<Rightarrow> None
         | Some r \<Rightarrow> Some (rbind r (\<lambda>s. Ok (s - MINIMUM_LIQUIDITY))))
      else Some (rbind (bn_div (amountOne * ref_val pool_totalSupply) reserve0) (\<lambda>a.
                 rbind (bn_div (amountTwo * ref_val pool_totalSupply) reserve1) (\<lambda>b.
                 Ok (min_js a b)))))"

definition getReservesSafe :: "string \<Rightarrow> string \<Rightarrow> int \<times> int \<Rightarrow> int \<times> int" where
  "getReservesSafe assetOne assetTwo reserves =
     (let firstAsset = (if js_string_lt assetOne assetTwo then assetOne else assetTwo)
      in if assetOne = firstAsset then (fst reserves, snd reserves) else (snd reserves, fst reserves))"

definition calculateTokensInReserve ::
  "string \<Rightarrow> string \<Rightarrow> int \<times> int \<Rightarrow> int \<Rightarrow> int \<Rightarrow> (int \<times> int) result" where
  "calculateTokensInReserve assetOne assetTwo reserves lp_totalSupply lpTokenBalance =
     (let (reserveOne, reserveTwo) = getReservesSafe assetOne assetTwo reserves
      in rbind (preciseDiv reserveOne lp_totalSupply) (\<lambda>d1.
         rbind (preciseMul d1 lpTokenBalance) (\<lambda>m1.
         rbind (preciseDiv reserveTwo lp_totalSupply) (\<lambda>d2.
         rbind (preciseMul d2 lpTokenBalance) (\<lambda>m2.
         Ok (m1, m2))))))"

definition calculateEngageQuantities ::
  "(string \<Rightarrow> int) \<Rightarrow> string \<Rightarrow> string \<Rightarrow> int \<times> int \<Rightarrow> int \<Rightarrow> int \<Rightarrow> int \<Rightarrow> int \<Rightarrow> int \<Rightarrow> (int \<times> int) result" where
  "calculateEngageQuantities balanceOf_set assetOne assetTwo reserves lp_totalSupply lpTokenBalance
     reservePercentage extraAssetOne extraAssetTwo =
     rbind (calculateTokensInReserve assetOne assetTwo reserves lp_totalSupply lpTokenBalance)
       (\<lambda>(reserveOne, reserveTwo).
     let balanceOnTokenAssetOne = balanceOf_set assetOne + extraAssetOne;
         balanceOnTokenAssetTwo = balanceOf_set assetTwo + extraAssetTwo
     in rbind (preciseMul reserveOne reservePercentage) (\<lambda>a1.
        rbind (preciseMul balanceOnTokenAssetOne (PRECISE_UNIT - reservePercentage)) (\<lambda>b1.
        rbind (preciseMul reserveTwo reservePercentage) (\<lambda>a2.
        rbind (preciseMul balanceOnTokenAssetTwo (PRECISE_UNIT - reservePercentage)) (\<lambda>b2.
        Ok (a1 - b1, a2 - b2))))))"

definition calculateRebalanceQuantity ::
  "(string \<Rightarrow> int) \<Rightarrow> int \<Rightarrow> string \<Rightarrow> string \<Rightarrow> int \<Rightarrow> int \<Rightarrow> int \<Rightarrow> (int \<times> string \<times> string) result" where
  "calculateRebalanceQuantity balanceOf_set sellTokenQuantity assetOne assetTwo assetOneToTwoPrice
     extraAssetOne extraAssetTwo =
     (let balanceAssetOne = balanceOf_set assetOne + extraAssetOne;
          balanceAssetTwo = balanceOf_set assetTwo + extraAssetTwo
      in rbind (preciseDiv balanceAssetTwo assetOneToTwoPrice) (\<lambda>valueAssetTwoDenomOne.
         rbind (if balanceAssetOne > valueAssetTwoDenomOne then
                  rbind (bn_div (balanceAssetOne - valueAssetTwoDenomOne) 2) (\<lambda>q. Ok (q, assetOne, assetTwo))
                else
                  rbind (bn_div (valueAssetTwoDenomOne - balanceAssetOne) 2) (\<lambda>h.
                  rbind (preciseMul h assetOneToTwoPrice) (\<lambda>q. Ok (q, assetTwo, assetOne))))
           (\<lambda>(quantityToSell, assetToSell, assetToBuy).
         if js_gt sellTokenQuantity 0 then Ok (sellTokenQuantity, assetToSell, assetToBuy)
         else Ok (quantityToSell, assetToSell, assetToBuy))))"

definition calculateRebalanceFlows ::
  "(string \<Rightarrow> int) \<Rightarrow> (int \<Rightarrow> string list \<Rightarrow> int list result) \<Rightarrow> int \<Rightarrow> string \<Rightarrow> string \<Rightarrow> int \<Rightarrow> int \<Rightarrow> int \<Rightarrow>
   int list result" where
  "calculateRebalanceFlows balanceOf_set getAmountsOut sellTokenQuantity assetOne assetTwo
     assetOneToTwoPrice extraAssetOne extraAssetTwo =
     rbind (calculateRebalanceQuantity balanceOf_set sellTokenQuantity assetOne assetTwo assetOneToTwoPrice
              extraAssetOne extraAssetTwo) (\<lambda>(quantityToSell, assetToSell, assetToBuy).
     getAmountsOut quantityToSell [assetToSell, assetToBuy])"

subsection \<open>The square root loop ends\<close>

lemma js_lt_trans: "js_lt a b \<Longrightarrow> js_lt b c \<Longrightarrow> js_lt a c"
  unfolding js_lt_def by (rule js_string_lt_trans)

lemma js_lt_irrefl [simp]: "\<not> js_lt a a"
  by (simp add: js_lt_def)

definition below :: "int \<Rightarrow> int \<Rightarrow> int set" where
  "below val z = {0..val} \<inter> Collect (\<lambda>n. js_lt n z)"

lemma below_decreases: "x \<in> {0..val} \<Longrightarrow> js_lt x z \<Longrightarrow> card (below val x) < card (below val z)"
proof (rule psubset_card_mono)
  show "finite (below val z)" by (simp add: below_def)
  assume "x \<in> {0..val}" "js_lt x z"
  then have "x \<in> below val z" "x \<notin> below val x" "below val x \<subseteq> below val z"
    by (auto simp: below_def intro: js_lt_trans)
  then show "below val x \<subset> below val z" by blast
qed

lemma newton_in_range:
  assumes "2 \<le> val" "x \<in> {1..val}"
  shows "bn_div val x = Inr (val div x) \<and> tdiv (val div x + x) 2 \<in> {1..val}"
proof -
  have d: "1 \<le> val div x" "val div x \<le> val"
    using assms zdiv_mono2 [of val 1 x] by (simp_all add: le_div_iff_int)
  have two: "2 \<le> val div x + x"
    using d(1) assms(2) by simp
  have "val div x + x \<le> 2 * val" using d(2) assms(2) by simp
  then show ?thesis using assms two by (simp add: bn_div_nonneg le_div_iff_int)
qed

lemma sqrt_loop_returns:
  assumes "2 \<le> val" "x \<in> {1..val}" "z \<in> {1..val}"
  shows "\<exists>r \<in> {1..val}. sqrt_loop val x z = Some (Inr r)"
  using assms(2,3)
proof (induction "card (below val z)" arbitrary: x z rule: less_induct)
  case less
  show ?case
  proof (cases "js_lt x z")
    case True
    have step: "bn_div val x = Inr (val div x)" "tdiv (val div x + x) 2 \<in> {1..val}"
      using newton_in_range [OF assms(1) less.prems(1)] by simp_all
    have "card (below val x) < card (below val z)" using less.prems True by (intro below_decreases) simp_all
    from less.hyps [OF this step(2) less.prems(1)]
    obtain r where r: "r \<in> {1..val}" "sqrt_loop val (tdiv (val div x + x) 2) x = Some (Inr r)" by blast
    have "sqrt_loop val x z = sqrt_loop val (tdiv (val div x + x) 2) x"
      using True step(1) by (subst sqrt_loop.simps) simp
    then show ?thesis using r by (simp only: bex_simps) blast
  next
    case False
    then have "sqrt_loop val x z = Some (Inr z)" by (subst sqrt_loop.simps) simp
    then show ?thesis using less.prems(2) by blast
  qed
qed

lemma js_gt_3_ge: "js_gt v 3 \<Longrightarrow> 4 \<le> v"
proof (rule ccontr)
  assume g: "js_gt v 3" and "\<not> 4 \<le> v"
  then consider "v < 0" | "v = 0" | "v = 1" | "v = 2" | "v = 3" by linarith
  moreover have "digit_char 3 \<noteq> CHR ''-''"
  proof
    assume "digit_char 3 = CHR ''-''"
    then have "(of_char (digit_char 3) :: nat) = of_char (CHR ''-'')" by (rule arg_cong)
    then show False by simp
  qed
  ultimately show False
    using g by cases (simp_all add: js_gt_def js_lt_def bn_toString_def nat_toString.simps digit_char_inj)
qed

subsection \<open>Properties\<close>

text \<open>
  C39. The integer square root always returns a number and never throws: the loop ends for every
  value, although it compares the iterates as decimal strings.
\<close>

theorem sqrt_terminates: "\<exists>r. sqrt_bn v = Some (Inr r)"
proof (cases "js_gt (ref_val v) 3")
  case True
  then have v: "4 \<le> ref_val v" by (rule js_gt_3_ge)
  have "\<exists>r \<in> {1..ref_val v}. sqrt_loop (ref_val v) (tdiv (ref_val v) 2 + 1) (ref_val v) = Some (Inr r)"
    using v by (intro sqrt_loop_returns) auto
  then show ?thesis using True by (auto simp: sqrt_bn_def)
qed (simp add: sqrt_bn_def)

text \<open>
  \<open>min\<close> is the numerical minimum of two non-negative numbers with the same number of decimal
  digits, and nothing more can be said: of 9 and 10 it returns 10, because the objects are compared as
  strings.
\<close>

lemma uniswap_min_same_length:
  assumes "0 \<le> a" "0 \<le> b" "length (bn_toString a) = length (bn_toString b)"
  shows "min_js a b = min a b \<and> min_js 9 10 = 10"
proof -
  have "min_js a b = min a b"
    using js_lt_same_length [of a b] assms by (auto simp: min_js_def min_def)
  moreover have "min_js 9 10 = 10"
    by (simp add: min_js_def js_lt_def bn_toString_def nat_toString.simps digit_char_def)
  ultimately show ?thesis ..
qed

lemma uniswap_min_same_length_example: "min_js 123 45 = 123 \<and> min_js 123 450 = 123"
proof -
  have "min_js 123 450 = min 123 450"
    using uniswap_min_same_length [of 123 450] by (simp add: bn_toString_def nat_toString.simps)
  moreover have "min_js 123 45 = 123"
    by (simp add: min_js_def js_lt_def bn_toString_def nat_toString.simps digit_char_def)
  ultimately show ?thesis by simp
qed

text \<open>
  A freshly decoded total supply is never the object \<open>ZERO\<close>, so the branch for an empty pool is
  unreachable: on a pool without liquidity the function throws instead of returning
  \<open>sqrt(x * y) - 1000\<close>.
\<close>

lemma empty_pool_throws:
  assumes "ref_id ts \<noteq> ref_id ZERO_ref" "ref_val ts = 0"
  shows "calculateLPTokensIssued 0 0 ts a b fresh = Some (Inl (Throw ''division-by-zero''))"
  using assms by (simp add: calculateLPTokensIssued_def ref_eq_def bn_div_def)

lemma empty_pool_throws_example:
  "calculateLPTokensIssued 0 0 \<lparr>ref_id = 5, ref_val = 0\<rparr> (10 ^ 20) (10 ^ 20) 6 = Some (Inl (Throw ''division-by-zero''))"
  by (rule empty_pool_throws) (simp_all add: ZERO_ref_def)

text \<open>
  Exchanging the two assets exchanges the two reserves, so the reserve of an asset does not depend
  on the order in which the assets are passed.
\<close>

lemma reserves_follow_assets:
  assumes "a \<noteq> b"
  shows "getReservesSafe b a r = prod.swap (getReservesSafe a b r)"
proof -
  have "\<not> (js_string_lt a b \<and> js_string_lt b a)" using js_string_lt_trans js_string_lt_irrefl by blast
  then show ?thesis using js_string_lt_total [OF assms] assms by (cases r) (auto simp: getReservesSafe_def Let_def)
qed

lemma reserves_follow_assets_example:
  "getReservesSafe ''0xB'' ''0xA'' (3, 4) = prod.swap (getReservesSafe ''0xA'' ''0xB'' (3, 4))"
  by (rule reserves_follow_assets) simp

text \<open>
  Without a prescribed quantity, selling what \<open>calculateRebalanceQuantity\<close> computes equalizes the
  two positions: if the first asset is worth more, it is the one sold, and after the sale the two values,
  in units of the first asset, differ by at most one.
\<close>

lemma rebalance_equalizes:
  assumes "0 < price" "0 \<le> bal one + e1" "0 \<le> bal two + e2" "sell \<le> 0"
    and "v2 = (bal two + e2) * PRECISE_UNIT div price" "v2 < bal one + e1"
  shows "\<exists>q. calculateRebalanceQuantity bal sell one two price e1 e2 = Inr (q, one, two)
    \<and> 0 \<le> q \<and> q \<le> bal one + e1 \<and> 0 \<le> (bal one + e1 - q) - (v2 + q) \<and> (bal one + e1 - q) - (v2 + q) \<le> 1"
proof -
  have d: "preciseDiv (bal two + e2) price = Inr v2" using assms by (simp add: preciseDiv_nonneg)
  have v: "0 \<le> v2" using assms by (simp add: pos_imp_zdiv_nonneg_iff)
  define q where "q = (bal one + e1 - v2) div 2"
  have h: "bn_div (bal one + e1 - v2) 2 = Inr q" using assms(6) by (simp add: bn_div_nonneg q_def)
  have "calculateRebalanceQuantity bal sell one two price e1 e2 = Inr (q, one, two)"
    using d h assms(4,6) by (simp add: calculateRebalanceQuantity_def js_gt_zero)
  moreover have "0 \<le> q \<and> q \<le> bal one + e1 \<and> 0 \<le> (bal one + e1 - q) - (v2 + q) \<and> (bal one + e1 - q) - (v2 + q) \<le> 1"
    using v assms(6) unfolding q_def by presburger
  ultimately show ?thesis by blast
qed

lemma rebalance_equalizes_example:
  "\<exists>q. calculateRebalanceQuantity (\<lambda>a. if a = ''A'' then 1001 else 400) 0 ''A'' ''B'' (10 ^ 18) 0 0
     = Inr (q, ''A'', ''B'') \<and> 0 \<le> q \<and> 1001 - q - (400 + q) \<le> 1"
  using rebalance_equalizes [of "10 ^ 18" "\<lambda>a. if a = ''A'' then 1001 else 400" "''A''" 0 "''B''" 0 0 400] by auto

end
