(* ===== verification/PerpV2Utils.thy ===== *)
theory PerpV2Utils
  imports MathUtils
begin

section \<open>perpV2Utils.ts: expected amounts of the Perp V2 modules\<close>

text \<open>
  \<^verbatim>\<open>src/utils/common/perpV2Utils.ts\<close>. What the functions await from the chain (account and position
  information of the module, prices and swap quotes of the fixture, the supply of the Set) is one
  record of views, \<open>perp_view\<close>, passed as an argument; addresses are strings as in the code.
  \<open>leverUp\<close> also sends a transaction, which is returned with the result.

  The theorems: the USDC to transfer in on issuance is the collateral share plus the signed swap
  quotes, whatever the spot price; the funding growth changes sign with the position; leverUp trades
  in the direction asked for and returns the unit it traded.
\<close>

record AccountInfo =
  collateralBalance :: int
  owedRealizedPnl :: int
  pendingFundingPayments :: int
  netQuoteBalance :: int

record PositionUnitInfo =
  pu_baseToken :: string
  baseUnit :: int

record PositionNotionalInfo =
  pn_baseToken :: string
  baseBalance :: int
  quoteBalance :: int

record perp_view =
  pv_totalSupply :: int
  getAccountInfo :: "string \<Rightarrow> AccountInfo"
  getPositionUnitInfo :: "string \<Rightarrow> PositionUnitInfo list"
  getPositionNotionalInfo :: "string \<Rightarrow> PositionNotionalInfo list"
  getSpotPrice :: "string \<Rightarrow> int"
  getSwapQuote :: "string \<Rightarrow> int \<Rightarrow> bool \<Rightarrow> int"
  fundingGrowthGlobalAndTwaps :: "string \<Rightarrow> int \<times> int \<times> int"
  vTokenAddress :: "string \<Rightarrow> string"
  getIndexPrice :: "string \<Rightarrow> int"
  getImRatio :: int
  unrealizedPnl :: "string \<Rightarrow> int"
  getTotalDebtValue :: "string \<Rightarrow> int"
  getTotalAbsPositionValue :: "string \<Rightarrow> int"

datatype perp_tx =
    Trade string string int int
  | TradeAndTrackFunding string string int int

definition ONE_DAY_IN_SECONDS :: int where
  "ONE_DAY_IN_SECONDS = 60 * 60 * 24"

definition toUSDCDecimals :: "int \<Rightarrow> int result" where
  "toUSDCDecimals quantity = bn_div quantity (10 ^ 12)"

definition leverUp ::
  "perp_view \<Rightarrow> string \<Rightarrow> string \<Rightarrow> int \<Rightarrow> int \<Rightarrow> bool \<Rightarrow> bool \<Rightarrow> (perp_tx \<times> int) result" where
  "leverUp v setToken baseToken leverageRatio slippagePercentage isLong trackFunding =
     (let spotPrice = getSpotPrice v baseToken;
          totalSupply = pv_totalSupply v;
          collateral = collateralBalance (getAccountInfo v setToken)
      in rbind (preciseDiv (collateral * leverageRatio) spotPrice) (\<lambda>baseTradeQuantityNotional.
         rbind (if isLong then preciseDiv baseTradeQuantityNotional totalSupply
                else rbind (preciseDiv baseTradeQuantityNotional totalSupply) (\<lambda>u. Ok (u * -1)))
           (\<lambda>baseTradeQuantityUnit.
         rbind (preciseMul baseTradeQuantityNotional spotPrice) (\<lambda>quote.
         let estimatedQuoteQuantityNotional = \<bar>quote\<bar>
         in rbind (preciseMul estimatedQuoteQuantityNotional (2 * 10 ^ 16)) (\<lambda>allowedSlippage.
            let slippageAdjustedQuoteQuantityNotional =
                  (if isLong then estimatedQuoteQuantityNotional + allowedSlippage
                   else estimatedQuoteQuantityNotional - allowedSlippage)
            in rbind (preciseDiv slippageAdjustedQuoteQuantityNotional totalSupply) (\<lambda>receiveQuoteQuantityUnit.
               Ok (if trackFunding
                   then TradeAndTrackFunding setToken baseToken baseTradeQuantityUnit receiveQuoteQuantityUnit
                   else Trade setToken baseToken baseTradeQuantityUnit receiveQuoteQuantityUnit,
                   baseTradeQuantityUnit)))))))"

text \<open>The loop over the positions, with the running amount.\<close>

fun transferIn_loop :: "perp_view \<Rightarrow> int \<Rightarrow> PositionUnitInfo list \<Rightarrow> int \<Rightarrow> int result" where
  "transferIn_loop v setQuantity [] usdcAmountIn = Ok usdcAmountIn"
| "transferIn_loop v setQuantity (positionInfo # rest) usdcAmountIn =
     rbind (preciseMul (baseUnit positionInfo) setQuantity) (\<lambda>baseTradeQuantityNotional.
     let isLong = (baseTradeQuantityNotional \<ge> 0);
         deltaQuote = getSwapQuote v (pu_baseToken positionInfo) \<bar>baseTradeQuantityNotional\<bar> isLong
     in rbind (preciseMul baseTradeQuantityNotional (getSpotPrice v (pu_baseToken positionInfo))) (\<lambda>idealQuote.
        let expectedSlippage = (if isLong then deltaQuote - idealQuote else \<bar>idealQuote\<bar> - deltaQuote)
        in transferIn_loop v setQuantity rest (usdcAmountIn + idealQuote + expectedSlippage)))"

definition calculateUSDCTransferInPreciseUnits ::
  "perp_view \<Rightarrow> string \<Rightarrow> int \<Rightarrow> bool \<Rightarrow> int result" where
  "calculateUSDCTransferInPreciseUnits v setToken setQuantity includeFunding =
     (let accountInfo = getAccountInfo v setToken;
          total_0 = collateralBalance accountInfo + owedRealizedPnl accountInfo + netQuoteBalance accountInfo;
          totalCollateralValue = (if includeFunding then total_0 + pendingFundingPayments accountInfo else total_0)
      in rbind (preciseDiv totalCollateralValue (pv_totalSupply v)) (\<lambda>d.
         rbind (preciseMul d setQuantity) (\<lambda>usdcAmountIn.
         transferIn_loop v setQuantity (getPositionUnitInfo v setToken) usdcAmountIn)))"

definition calculateUSDCTransferIn :: "perp_view \<Rightarrow> string \<Rightarrow> int \<Rightarrow> int result" where
  "calculateUSDCTransferIn v setToken setQuantity =
     rbind (calculateUSDCTransferInPreciseUnits v setToken setQuantity True) toUSDCDecimals"

fun transferOut_loop :: "perp_view \<Rightarrow> int \<Rightarrow> PositionNotionalInfo list \<Rightarrow> int \<Rightarrow> int result" where
  "transferOut_loop v setQuantity [] totalRealizedPnl = Ok totalRealizedPnl"
| "transferOut_loop v setQuantity (positionInfo # rest) totalRealizedPnl =
     rbind (preciseDiv (baseBalance positionInfo) (pv_totalSupply v)) (\<lambda>basePositionUnit.
     rbind (preciseMul basePositionUnit setQuantity) (\<lambda>baseTradeQuantityNotional.
     let isLong = (basePositionUnit \<ge> 0)
     in rbind (preciseDiv \<bar>baseTradeQuantityNotional\<bar> \<bar>baseBalance positionInfo\<bar>) (\<lambda>closeRatio.
        rbind (preciseMul (quoteBalance positionInfo) closeRatio) (\<lambda>reducedOpenNotional.
        let deltaQuote = getSwapQuote v (pn_baseToken positionInfo) \<bar>baseTradeQuantityNotional\<bar> (\<not> isLong);
            realizedPnl = (if isLong then reducedOpenNotional + deltaQuote else reducedOpenNotional - deltaQuote)
        in transferOut_loop v setQuantity rest (totalRealizedPnl + realizedPnl)))))"

definition calculateUSDCTransferOutPreciseUnits ::
  "perp_view \<Rightarrow> string \<Rightarrow> int \<Rightarrow> bool \<Rightarrow> int result" where
  "calculateUSDCTransferOutPreciseUnits v setToken setQuantity includeFunding =
     (let allPositionInfo = getPositionNotionalInfo v setToken;
          accountInfo = getAccountInfo v setToken;
          total_0 = collateralBalance accountInfo + owedRealizedPnl accountInfo;
          totalCollateralBalance = (if includeFunding then total_0 + pendingFundingPayments accountInfo else total_0)
      in rbind (preciseDiv totalCollateralBalance (pv_totalSupply v)) (\<lambda>collateralPositionUnit.
         rbind (preciseMul collateralPositionUnit setQuantity) (\<lambda>collateralQuantityNotional.
         rbind (transferOut_loop v setQuantity allPositionInfo 0) (\<lambda>totalRealizedPnl.
         Ok \<bar>collateralQuantityNotional + totalRealizedPnl\<bar>))))"

definition calculateUSDCTransferOut :: "perp_view \<Rightarrow> string \<Rightarrow> int \<Rightarrow> int result" where
  "calculateUSDCTransferOut v setToken setQuantity =
     rbind (calculateUSDCTransferOutPreciseUnits v setToken setQuantity True) toUSDCDecimals"

definition calculateExternalPositionUnit :: "perp_view \<Rightarrow> string \<Rightarrow> int result" where
  "calculateExternalPositionUnit v setToken =
     rbind (preciseDiv (collateralBalance (getAccountInfo v setToken)) (pv_totalSupply v)) toUSDCDecimals"

definition getNetFundingGrowth :: "perp_view \<Rightarrow> string \<Rightarrow> int \<Rightarrow> int result" where
  "getNetFundingGrowth v baseToken baseBalance0 =
     (let (twPremiumX96, markTwap, indexTwap) = fundingGrowthGlobalAndTwaps v baseToken
      in rbind (bn_div (twPremiumX96 * PRECISE_UNIT) (2 ^ 96)) (\<lambda>twPremium.
         rbind (bn_div twPremium ONE_DAY_IN_SECONDS) (\<lambda>daily.
         rbind (preciseMul baseBalance0 daily) (\<lambda>growth.
         let fundingGrowth = \<bar>growth\<bar>;
             isLong = (baseBalance0 > 0)
         in Ok (if markTwap < indexTwap
                then (if isLong then fundingGrowth else fundingGrowth * -1)
                else (if isLong then fundingGrowth * -1 else fundingGrowth))))))"

definition getUSDCDeltaDueToFundingGrowth :: "perp_view \<Rightarrow> int \<Rightarrow> string \<Rightarrow> int \<Rightarrow> int result" where
  "getUSDCDeltaDueToFundingGrowth v setQuantity baseToken baseBalance0 =
     rbind (getNetFundingGrowth v baseToken baseBalance0) (\<lambda>netFundingGrowth.
     rbind (preciseDiv netFundingGrowth (pv_totalSupply v)) (\<lambda>d.
     preciseMul d setQuantity))"

fun leverage_loop :: "perp_view \<Rightarrow> int \<Rightarrow> PositionNotionalInfo list \<Rightarrow> string list \<times> int list \<Rightarrow>
    (string list \<times> int list) result" where
  "leverage_loop v totalCollateralValue [] (vTokens, leverageRatios) = Ok (vTokens, leverageRatios)"
| "leverage_loop v totalCollateralValue (positionInfo # rest) (vTokens, leverageRatios) =
     (let tokenPrice = getIndexPrice v (pn_baseToken positionInfo)
      in rbind (preciseMul tokenPrice (baseBalance positionInfo)) (\<lambda>positionValue.
         let accountValue = positionValue + totalCollateralValue + quoteBalance positionInfo
         in rbind (preciseDiv positionValue accountValue) (\<lambda>ratio.
            leverage_loop v totalCollateralValue rest
              (vTokens @ [vTokenAddress v (pn_baseToken positionInfo)], leverageRatios @ [ratio]))))"

definition calculateLeverageRatios :: "perp_view \<Rightarrow> string \<Rightarrow> (string list \<times> int list) result" where
  "calculateLeverageRatios v setToken =
     (let accountInfo = getAccountInfo v setToken;
          totalCollateralValue = collateralBalance accountInfo + owedRealizedPnl accountInfo
            + pendingFundingPayments accountInfo
      in leverage_loop v totalCollateralValue (getPositionNotionalInfo v setToken) ([], []))"

definition calculateMaxIssueQuantity :: "perp_view \<Rightarrow> string \<Rightarrow> int \<Rightarrow> int result" where
  "calculateMaxIssueQuantity v setToken slippage =
     (let imRatio = getImRatio v;
          accountInfo = getAccountInfo v setToken;
          totalCollateralValue = collateralBalance accountInfo + owedRealizedPnl accountInfo
            + pendingFundingPayments accountInfo
      in rbind (if unrealizedPnl v setToken \<ge> 0
                then bn_div (totalCollateralValue * 10 ^ 6) imRatio
                else bn_div ((totalCollateralValue + unrealizedPnl v setToken) * 10 ^ 6) imRatio) (\<lambda>d.
         let availableDebt = d - getTotalDebtValue v setToken
         in rbind (preciseMul availableDebt slippage) (\<lambda>s.
            rbind (bn_div (s * 10 ^ 6) imRatio) (\<lambda>t.
            rbind (preciseDiv (availableDebt - t) (getTotalAbsPositionValue v setToken)) (\<lambda>q.
            preciseMul q (pv_totalSupply v))))))"

subsection \<open>Transfer in\<close>

text \<open>What one position contributes: the swap quote, negative for a short position.\<close>

definition quote_of :: "perp_view \<Rightarrow> int \<Rightarrow> PositionUnitInfo \<Rightarrow> int" where
  "quote_of v setQuantity p =
     (let n = tdiv (baseUnit p * setQuantity) PRECISE_UNIT
      in if n \<ge> 0 then getSwapQuote v (pu_baseToken p) \<bar>n\<bar> True else - getSwapQuote v (pu_baseToken p) \<bar>n\<bar> False)"

lemma tdiv_nonpos: "a \<le> 0 \<Longrightarrow> 0 < b \<Longrightarrow> tdiv a b \<le> 0"
  using tdiv_neg_left [of "- a" b] by (simp add: pos_imp_zdiv_nonneg_iff)

lemma transferIn_loop_sum:
  assumes "\<And>t. 0 \<le> getSpotPrice v t"
  shows "transferIn_loop v q ps acc = Ok (acc + sum_list (map (quote_of v q) ps))"
proof (induction ps arbitrary: acc)
  case (Cons p ps)
  let ?n = "tdiv (baseUnit p * q) PRECISE_UNIT" and ?price = "getSpotPrice v (pu_baseToken p)"
  have ideal: "?n < 0 \<Longrightarrow> \<bar>tdiv (?n * ?price) PRECISE_UNIT\<bar> = - tdiv (?n * ?price) PRECISE_UNIT"
    using tdiv_nonpos [of "?n * ?price" PRECISE_UNIT] assms
    by (simp add: mult_nonpos_nonneg)
  show ?case
  proof (cases "0 \<le> ?n")
    case True
    then show ?thesis by (simp add: preciseMul_eq Let_def Cons.IH quote_of_def)
  next
    case False
    then show ?thesis using ideal by (simp add: preciseMul_eq Let_def Cons.IH quote_of_def)
  qed
qed simp

lemma leverage_loop_lengths:
  "leverage_loop v t ps (vs, ls) = Inr (vs', ls') \<Longrightarrow>
   vs' = vs @ map (\<lambda>p. vTokenAddress v (pn_baseToken p)) ps \<and> length ls' = length ls + length ps"
  by (induction ps arbitrary: vs ls) (fastforce simp: result_simps Let_def)+

subsection \<open>Properties\<close>

text \<open>
  With non-negative spot prices, the USDC to transfer in for issuing \<open>setQuantity\<close> Sets is the
  quantity's share of the account's collateral value plus, over all positions, the swap quote of the
  long ones and minus the quote of the short ones: the spot prices in the computation cancel out.
\<close>

lemma transfer_in_is_share_plus_quotes:
  assumes "\<And>t. 0 \<le> getSpotPrice v t" "pv_totalSupply v \<noteq> 0"
  shows "calculateUSDCTransferInPreciseUnits v a q fund =
    Ok (tdiv (tdiv ((collateralBalance (getAccountInfo v a) + owedRealizedPnl (getAccountInfo v a)
          + netQuoteBalance (getAccountInfo v a)
          + (if fund then pendingFundingPayments (getAccountInfo v a) else 0)) * PRECISE_UNIT) (pv_totalSupply v) * q)
        PRECISE_UNIT
      + sum_list (map (quote_of v q) (getPositionUnitInfo v a)))"
  using assms(2) transferIn_loop_sum [OF assms(1)]
  by (simp add: calculateUSDCTransferInPreciseUnits_def preciseDiv_eq preciseMul_eq Let_def)

definition demo_view :: perp_view where
  "demo_view = \<lparr>pv_totalSupply = 10 ^ 18,
     getAccountInfo = (\<lambda>_. \<lparr>collateralBalance = 10 ^ 20, owedRealizedPnl = 0, pendingFundingPayments = 5, netQuoteBalance = -7\<rparr>),
     getPositionUnitInfo = (\<lambda>_. [\<lparr>pu_baseToken = ''vETH'', baseUnit = 10 ^ 18\<rparr>, \<lparr>pu_baseToken = ''vBTC'', baseUnit = - (10 ^ 17)\<rparr>]),
     getPositionNotionalInfo = (\<lambda>_. [\<lparr>pn_baseToken = ''vETH'', baseBalance = 10 ^ 18, quoteBalance = - (10 ^ 19)\<rparr>]),
     getSpotPrice = (\<lambda>_. 10 ^ 19), getSwapQuote = (\<lambda>t n long. if long then 11 * n else 9 * n),
     fundingGrowthGlobalAndTwaps = (\<lambda>_. (2 ^ 96 * 86400, 8, 9)),
     vTokenAddress = (\<lambda>t. t), getIndexPrice = (\<lambda>_. 10 ^ 19), getImRatio = 100000, unrealizedPnl = (\<lambda>_. 0),
     getTotalDebtValue = (\<lambda>_. 0), getTotalAbsPositionValue = (\<lambda>_. 10 ^ 19)\<rparr>"

lemma transfer_in_is_share_plus_quotes_example:
  "calculateUSDCTransferInPreciseUnits demo_view ''set'' (10 ^ 18) True
     = Ok (10 ^ 20 - 2 + 11 * 10 ^ 18 - 9 * 10 ^ 17)"
  using transfer_in_is_share_plus_quotes [of demo_view "''set''" "10 ^ 18" True]
  by (simp add: demo_view_def quote_of_def Let_def tdiv_def)

text \<open>
  Funding growth is odd in the position: the opposite of a non-zero base balance has the opposite
  net funding growth, and when the mark price is below the index price a long position gains.
\<close>

lemma funding_growth_odd:
  assumes "b \<noteq> 0" "getNetFundingGrowth v t b = Inr g"
  shows "getNetFundingGrowth v t (- b) = Inr (- g)
    \<and> (0 < b \<and> fst (snd (fundingGrowthGlobalAndTwaps v t)) < snd (snd (fundingGrowthGlobalAndTwaps v t)) \<longrightarrow> 0 \<le> g)"
proof -
  obtain p m i where f: "fundingGrowthGlobalAndTwaps v t = (p, m, i)" by (metis prod.collapse)
  have "tdiv (- b * x) PRECISE_UNIT = - tdiv (b * x) PRECISE_UNIT" for x
    using tdiv_neg_left [of "b * x" PRECISE_UNIT] by simp
  then show ?thesis
    using assms by (auto simp: getNetFundingGrowth_def f preciseMul_eq Let_def result_simps split: if_splits)
qed

lemma funding_growth_odd_example:
  "getNetFundingGrowth demo_view ''vETH'' (-3) = Inr (-3) \<and> getNetFundingGrowth demo_view ''vETH'' 3 = Inr 3"
proof -
  have g: "getNetFundingGrowth demo_view ''vETH'' 3 = Inr 3"
    by (simp add: getNetFundingGrowth_def demo_view_def bn_div_nonneg preciseMul_nonneg ONE_DAY_IN_SECONDS_def)
  show ?thesis using funding_growth_odd [OF _ g] g by simp
qed

text \<open>
  \<open>leverUp\<close> returns exactly the base unit of the trade it sends, and for a positive collateral, ratio,
  price and supply that unit is non-negative for a long and non-positive for a short position.
\<close>

lemma leverUp_direction:
  assumes "leverUp v a t ratio slip isLong track = Inr (tx, u)"
    and "0 \<le> collateralBalance (getAccountInfo v a)" "0 \<le> ratio" "0 < getSpotPrice v t" "0 < pv_totalSupply v"
  shows "\<exists>r. tx = (if track then TradeAndTrackFunding a t u r else Trade a t u r)
    \<and> 0 \<le> r \<and> (isLong \<longrightarrow> 0 \<le> u) \<and> (\<not> isLong \<longrightarrow> u \<le> 0)"
proof -
  have div_pos: "\<exists>q. preciseDiv x y = Inr q \<and> 0 \<le> q" if "0 \<le> x" "0 < y" for x y
    using that by (simp add: preciseDiv_nonneg pos_imp_zdiv_nonneg_iff)
  obtain n where n: "preciseDiv (collateralBalance (getAccountInfo v a) * ratio) (getSpotPrice v t) = Inr n" "0 \<le> n"
    using div_pos assms by (meson mult_nonneg_nonneg)
  obtain w where w: "preciseDiv n (pv_totalSupply v) = Inr w" "0 \<le> w" using div_pos n(2) assms(5) by blast
  define e where "e = n * getSpotPrice v t div PRECISE_UNIT"
  have e: "preciseMul n (getSpotPrice v t) = Inr e" "0 \<le> e"
    using n(2) assms(4) by (simp_all add: e_def preciseMul_nonneg pos_imp_zdiv_nonneg_iff)
  define sl where "sl = e * (2 * 10 ^ 16) div PRECISE_UNIT"
  have sl: "preciseMul e (2 * 10 ^ 16) = Inr sl" using e(2) by (simp add: preciseMul_nonneg sl_def)
  have "0 \<le> sl" using e(2) by (simp add: sl_def pos_imp_zdiv_nonneg_iff)
  moreover have "sl * PRECISE_UNIT \<le> e * (2 * 10 ^ 16)" unfolding sl_def by (rule div_mult_le_int) simp
  then have "sl \<le> e" using e(2) by simp
  ultimately have "0 \<le> (if isLong then e + sl else e - sl)" using e(2) by simp
  then obtain r where r: "preciseDiv (if isLong then e + sl else e - sl) (pv_totalSupply v) = Inr r" "0 \<le> r"
    using div_pos assms(5) by blast
  show ?thesis
    using assms(1) n w e sl r by (auto simp: leverUp_def Let_def split: if_splits)
qed

lemma leverUp_direction_example:
  "\<exists>tx u. leverUp demo_view ''set'' ''vETH'' 2 0 False True = Inr (tx, u) \<and> u \<le> 0"
proof -
  have "\<exists>tx u. leverUp demo_view ''set'' ''vETH'' 2 0 False True = Inr (tx, u)"
    by (simp add: leverUp_def Let_def preciseDiv_eq preciseMul_eq demo_view_def)
  then obtain tx u where e: "leverUp demo_view ''set'' ''vETH'' 2 0 False True = Inr (tx, u)" by blast
  have "u \<le> 0" using leverUp_direction [OF e] by (auto simp: demo_view_def)
  then show ?thesis using e by blast
qed

text \<open>
  The leverage report has one entry per position: the token list is the positions' tokens in order
  and the list of ratios has the same length.
\<close>

lemma leverage_report_aligned:
  assumes "calculateLeverageRatios v a = Inr (ts, rs)"
  shows "ts = map (\<lambda>p. vTokenAddress v (pn_baseToken p)) (getPositionNotionalInfo v a) \<and> length rs = length ts"
  using leverage_loop_lengths assms by (fastforce simp: calculateLeverageRatios_def Let_def)

lemma leverage_report_aligned_example:
  "\<exists>ts rs. calculateLeverageRatios demo_view ''set'' = Inr (ts, rs) \<and> ts = [''vETH''] \<and> length rs = length ts"
proof -
  have "\<exists>ts rs. calculateLeverageRatios demo_view ''set'' = Inr (ts, rs)"
    by (simp add: calculateLeverageRatios_def Let_def demo_view_def preciseMul_eq preciseDiv_eq tdiv_def)
  then obtain ts rs where e: "calculateLeverageRatios demo_view ''set'' = Inr (ts, rs)" by blast
  show ?thesis using leverage_report_aligned [OF e] e by (simp add: demo_view_def)
qed

end
