(* ===== verification/PositionLib.thy ===== *)
theory PositionLib
  imports SetToken
begin

section \<open>The Position library\<close>

text \<open>
  \<^verbatim>\<open>src/contracts/protocol/lib/Position.sol\<close>: what modules use to edit the positions of a Set. The
  library runs inside the module, so \<open>this\<close> (the module) is the sender of its calls on the Set; \<open>c\<close> is
  the state of the Controller the Set asks. The component's \<open>balanceOf\<close> is read by the caller and
  passed in, because the token is a foreign contract.

  The theorems: the two edit functions keep the list of components exact, that is a component is
  listed if and only if it has a default or an external position; and the unit recomputed after an
  action never counts what was airdropped to the Set.
\<close>

subsection \<open>Definitions\<close>

definition hasDefaultPosition :: "set_token \<Rightarrow> address \<Rightarrow> bool result" where
  "hasDefaultPosition s k = rbind (getDefaultPositionRealUnit s k) (\<lambda>u. Ok (u > 0))"

definition hasExternalPosition :: "set_token \<Rightarrow> address \<Rightarrow> bool" where
  "hasExternalPosition s k \<longleftrightarrow> length (getExternalPositionModules s k) > 0"

definition hasSufficientDefaultUnits :: "set_token \<Rightarrow> address \<Rightarrow> int \<Rightarrow> bool result" where
  "hasSufficientDefaultUnits s k un =
     rbind (getDefaultPositionRealUnit s k) (\<lambda>u. rbind (toInt256 un) (\<lambda>n. Ok (u \<ge> n)))"

definition hasSufficientExternalUnits :: "set_token \<Rightarrow> address \<Rightarrow> address \<Rightarrow> int \<Rightarrow> bool result" where
  "hasSufficientExternalUnits s k positionModule un =
     rbind (getExternalPositionRealUnit s k positionModule) (\<lambda>u. rbind (toInt256 un) (\<lambda>n. Ok (u \<ge> n)))"

definition editDefaultPosition :: "address \<Rightarrow> controller \<Rightarrow> address \<Rightarrow> int \<Rightarrow> set_token \<Rightarrow> set_token result" where
  "editDefaultPosition this c k newUnit s =
     rbind (hasDefaultPosition s k) (\<lambda>isPositionFound.
     rbind (if \<not> isPositionFound \<and> newUnit > 0 then
              (if \<not> hasExternalPosition s k then addComponent this c k s else Ok s)
            else if isPositionFound \<and> newUnit = 0 then
              (if \<not> hasExternalPosition s k then removeComponent this c k s else Ok s)
            else Ok s) (\<lambda>s1.
     rbind (toInt256 newUnit) (\<lambda>u.
     editDefaultPositionUnit this c k u s1)))"

definition editExternalPosition ::
  "address \<Rightarrow> controller \<Rightarrow> address \<Rightarrow> address \<Rightarrow> int \<Rightarrow> bytes \<Rightarrow> set_token \<Rightarrow> set_token result" where
  "editExternalPosition this c k m newUnit data s =
     (if newUnit \<noteq> 0 then
        rbind (if \<not> isComponent s k then
                 rbind (addComponent this c k s) (addExternalPositionModule this c k m)
               else if \<not> isExternalPositionModule s k m then addExternalPositionModule this c k m s
               else Ok s) (\<lambda>s1.
        rbind (editExternalPositionUnit this c k m newUnit s1)
          (editExternalPositionData this c k m data))
      else
        rbind (require (length data = 0) ''Passed data must be null'') (\<lambda>_.
        rbind (getExternalPositionRealUnit s k m) (\<lambda>u.
        if u \<noteq> 0 then
          let positionModules = getExternalPositionModules s k in
          rbind (getDefaultPositionRealUnit s k) (\<lambda>d.
          rbind (if d = 0 \<and> length positionModules = 1 then
                   rbind (array_get positionModules 0) (\<lambda>m0.
                   rbind (require (m0 = m) ''External positions must be 0 to remove component'') (\<lambda>_.
                   removeComponent this c k s))
                 else Ok s)
            (removeExternalPositionModule this c k m))
        else Ok s)))"

definition getDefaultTotalNotional :: "int \<Rightarrow> int \<Rightarrow> int result" where
  "getDefaultTotalNotional setTokenSupply positionUnit = preciseMul_uint setTokenSupply positionUnit"

definition getDefaultPositionUnit :: "int \<Rightarrow> int \<Rightarrow> int result" where
  "getDefaultPositionUnit setTokenSupply totalNotional = preciseDiv_uint totalNotional setTokenSupply"

definition getDefaultTrackedBalance :: "set_token \<Rightarrow> address \<Rightarrow> int result" where
  "getDefaultTrackedBalance s k =
     rbind (getDefaultPositionRealUnit s k) (\<lambda>positionUnit.
     rbind (toUint256 positionUnit) (\<lambda>u. preciseMul_uint (totalSupply s) u))"

definition calculateDefaultEditPositionUnit :: "int \<Rightarrow> int \<Rightarrow> int \<Rightarrow> int \<Rightarrow> int result" where
  "calculateDefaultEditPositionUnit setTokenSupply preTotalNotional postTotalNotional prePositionUnit =
     rbind (preciseMul_uint prePositionUnit setTokenSupply) (\<lambda>tracked.
     rbind (safe_sub preTotalNotional tracked) (\<lambda>airdroppedAmount.
     rbind (safe_sub postTotalNotional airdroppedAmount) (\<lambda>n.
     preciseDiv_uint n setTokenSupply)))"

definition calculateAndEditDefaultPosition ::
  "address \<Rightarrow> controller \<Rightarrow> address \<Rightarrow> int \<Rightarrow> int \<Rightarrow> int \<Rightarrow> set_token \<Rightarrow> (set_token \<times> int \<times> int \<times> int) result" where
  "calculateAndEditDefaultPosition this c k currentBalance setTotalSupply componentPreviousBalance s =
     rbind (getDefaultPositionRealUnit s k) (\<lambda>u.
     rbind (toUint256 u) (\<lambda>positionUnit.
     rbind (if currentBalance > 0 then
              calculateDefaultEditPositionUnit setTotalSupply componentPreviousBalance currentBalance positionUnit
            else Ok 0) (\<lambda>newTokenUnit.
     rbind (editDefaultPosition this c k newTokenUnit s) (\<lambda>s1.
     Ok (s1, currentBalance, positionUnit, newTokenUnit)))))"

subsection \<open>The component list stays exact\<close>

text \<open>
  \<open>tracked s k\<close>: the component is listed exactly when it has a positive default unit or an external
  position. Default units are never negative.
\<close>

definition tracked :: "set_token \<Rightarrow> address \<Rightarrow> bool" where
  "tracked s k \<longleftrightarrow> (\<exists>u \<ge> 0. getDefaultPositionRealUnit s k = Inr u
     \<and> (k \<in> set (components s) \<longleftrightarrow> 0 < u \<or> getExternalPositionModules s k \<noteq> []))"

definition tracking :: "set_token \<Rightarrow> bool" where
  "tracking s \<longleftrightarrow> position_inv s \<and> (\<forall>k. tracked s k)"

lemma tracking_D: "tracking s \<Longrightarrow> tracked s k" and tracking_inv: "tracking s \<Longrightarrow> position_inv s"
  by (simp_all add: tracking_def)

lemma tracked_cong:
  assumes "k \<in> set (components s') \<longleftrightarrow> k \<in> set (components s)" "componentPositions s' k = componentPositions s k"
    "positionMultiplier s' = positionMultiplier s"
  shows "tracked s' k = tracked s k"
  using assms by (simp add: tracked_def getDefaultPositionRealUnit_def defaultPositionVirtualUnit_def
      convertVirtualToRealUnit_def getExternalPositionModules_def)

text \<open>What the calls of the library do to the fields it reads.\<close>

lemma components_frame:
  "addComponent x c k s = Inr s' \<Longrightarrow> componentPositions s' = componentPositions s \<and> positionMultiplier s' = positionMultiplier s
     \<and> set (components s') = insert k (set (components s))"
  "distinct (components s) \<Longrightarrow> removeComponent x c k s = Inr s' \<Longrightarrow> componentPositions s' = componentPositions s
     \<and> positionMultiplier s' = positionMultiplier s \<and> set (components s') = set (components s) - {k}"
  by (auto simp: addComponent_def removeComponent_def result_simps dest: removeStorage_distinct)

lemma positions_frame:
  "editDefaultPositionUnit x c k u s = Inr s' \<Longrightarrow> components s' = components s \<and> positionMultiplier s' = positionMultiplier s
     \<and> (\<forall>j. externalPositionModules (componentPositions s' j) = externalPositionModules (componentPositions s j))
     \<and> (\<forall>j. j \<noteq> k \<longrightarrow> componentPositions s' j = componentPositions s j)"
  "addExternalPositionModule x c k m s = Inr s' \<Longrightarrow> components s' = components s \<and> positionMultiplier s' = positionMultiplier s
     \<and> externalPositionModules (componentPositions s' k) = externalPositionModules (componentPositions s k) @ [m]
     \<and> (\<forall>j. virtualUnit (componentPositions s' j) = virtualUnit (componentPositions s j))
     \<and> (\<forall>j. j \<noteq> k \<longrightarrow> componentPositions s' j = componentPositions s j)"
  "editExternalPositionUnit x c k m u s = Inr s' \<Longrightarrow> components s' = components s \<and> positionMultiplier s' = positionMultiplier s
     \<and> (\<forall>j. externalPositionModules (componentPositions s' j) = externalPositionModules (componentPositions s j))
     \<and> (\<forall>j. virtualUnit (componentPositions s' j) = virtualUnit (componentPositions s j))
     \<and> (\<forall>j. j \<noteq> k \<longrightarrow> componentPositions s' j = componentPositions s j)"
  "editExternalPositionData x c k m d s = Inr s' \<Longrightarrow> components s' = components s \<and> positionMultiplier s' = positionMultiplier s
     \<and> (\<forall>j. externalPositionModules (componentPositions s' j) = externalPositionModules (componentPositions s j))
     \<and> (\<forall>j. virtualUnit (componentPositions s' j) = virtualUnit (componentPositions s j))
     \<and> (\<forall>j. j \<noteq> k \<longrightarrow> componentPositions s' j = componentPositions s j)"
  by (auto simp: set_ops result_simps)

lemma removeExternal_frame:
  assumes "position_inv s" "removeExternalPositionModule x c k m s = Inr s'"
  shows "components s' = components s \<and> positionMultiplier s' = positionMultiplier s
     \<and> m \<in> set (externalPositionModules (componentPositions s k))
     \<and> length (externalPositionModules (componentPositions s' k)) = length (externalPositionModules (componentPositions s k)) - 1
     \<and> (\<forall>j. virtualUnit (componentPositions s' j) = virtualUnit (componentPositions s j))
     \<and> (\<forall>j. j \<noteq> k \<longrightarrow> componentPositions s' j = componentPositions s j)"
  using assms(2) by (auto simp: removeExternalPositionModule_def result_simps dest: removeStorage_length removeStorage_mset)

lemma default_zero:
  assumes "units_ok s" "editDefaultPositionUnit x c k 0 s = Inr s'"
  shows "getDefaultPositionRealUnit s' k = Inr 0"
proof -
  obtain v where v: "convertRealToVirtualUnit s 0 = Inr v"
    and s': "s' = s\<lparr>componentPositions := (componentPositions s)(k := (componentPositions s k)\<lparr>virtualUnit := v\<rparr>)\<rparr>"
    using editDefaultPositionUnit_Inr [OF assms(2)] by blast
  have "v = 0" using convertRealToVirtualUnit_typed [OF assms(1) _ v] by (simp add: is_int256_def)
  then show ?thesis
    using assms(1) by (simp add: s' real_unit_defs convertVirtualToRealUnit_def units_ok_def
        conservativePreciseMul_exact is_int256_def)
qed

lemma edit_default_steps:
  assumes "tracking s" "editDefaultPosition this c k n s = Inr s'" "0 \<le> n"
  obtains s1 where "editDefaultPositionUnit this c k n s1 = Inr s'" "n \<le> MAX_INT_256" "position_inv s1"
    "componentPositions s1 = componentPositions s" "positionMultiplier s1 = positionMultiplier s"
    "\<forall>j. j \<noteq> k \<longrightarrow> (j \<in> set (components s1) \<longleftrightarrow> j \<in> set (components s))"
    "k \<in> set (components s1) \<longleftrightarrow> 0 < n \<or> getExternalPositionModules s k \<noteq> []"
proof -
  obtain u where u: "getDefaultPositionRealUnit s k = Inr u"
    and tr: "k \<in> set (components s) \<longleftrightarrow> 0 < u \<or> getExternalPositionModules s k \<noteq> []"
    using tracking_D [OF assms(1), of k] by (auto simp: tracked_def)
  note inv = tracking_inv [OF assms(1)]
  then have dist: "distinct (components s)" by (simp add: position_inv_def)
  obtain s1 where e: "editDefaultPositionUnit this c k n s1 = Inr s'" "n \<le> MAX_INT_256"
    and s1: "(if \<not> 0 < u \<and> n > 0 then (if \<not> hasExternalPosition s k then addComponent this c k s else Ok s)
            else if 0 < u \<and> n = 0 then (if \<not> hasExternalPosition s k then removeComponent this c k s else Ok s)
            else Ok s) = Inr s1"
    using assms(2) by (auto simp: editDefaultPosition_def hasDefaultPosition_def u rbind_eq_Inr toInt256_eq_Inr)
  have "(s1 = s \<and> (0 < u \<longleftrightarrow> 0 < n)) \<or> (s1 = s \<and> hasExternalPosition s k) \<or> (addComponent this c k s = Inr s1 \<and> 0 < n)
      \<or> (removeComponent this c k s = Inr s1 \<and> n = 0 \<and> \<not> hasExternalPosition s k)"
    using s1 assms(3) by (cases "0 < u"; cases "n = 0") (auto split: if_splits)
  then consider "s1 = s" "0 < u \<longleftrightarrow> 0 < n" | "s1 = s" "getExternalPositionModules s k \<noteq> []"
    | "addComponent this c k s = Inr s1" "0 < n" | "removeComponent this c k s = Inr s1" "n = 0" "getExternalPositionModules s k = []"
    unfolding hasExternalPosition_def length_greater_0_conv by blast
  then show thesis
  proof cases
    case 1
    then show thesis using that [OF e] inv tr by auto
  next
    case 2
    then show thesis using that [OF e] inv tr by auto
  next
    case 3
    have "position_inv s1" using position_inv_step [OF inv, of "AddComponent k"] 3(1) by simp
    then show thesis using that [OF e] components_frame(1) [OF 3(1)] 3(2) by simp
  next
    case 4
    have "position_inv s1" using position_inv_step [OF inv, of "RemoveComponent k"] 4(1) by simp
    then show thesis using that [OF e] components_frame(2) [OF dist 4(1)] 4(2,3) by simp
  qed
qed

lemma editDefaultPosition_tracking:
  assumes "tracking s" "0 \<le> n" "editDefaultPosition this c k n s = Inr s'"
  shows "tracking s'"
proof -
  obtain s1 where e: "editDefaultPositionUnit this c k n s1 = Inr s'" and le: "n \<le> MAX_INT_256" and inv: "position_inv s1"
    and s1: "componentPositions s1 = componentPositions s" "positionMultiplier s1 = positionMultiplier s"
      "\<forall>j. j \<noteq> k \<longrightarrow> (j \<in> set (components s1) \<longleftrightarrow> j \<in> set (components s))"
      "k \<in> set (components s1) \<longleftrightarrow> 0 < n \<or> getExternalPositionModules s k \<noteq> []"
    by (rule edit_default_steps [OF assms(1,3,2)])
  have t: "is_int256 n" using le assms(2) by (simp add: is_int256_def)
  have u: "units_ok s1" using inv by (simp add: position_inv_def)
  note fr = positions_frame(1) [OF e]
  have "position_inv s'" using position_inv_step [OF inv, of "EditDefaultPositionUnit k n"] t e by simp
  moreover have "tracked s' j" if "j \<noteq> k" for j
    using tracking_D [OF assms(1), of j] tracked_cong [of j s' s] that fr s1 by simp
  moreover have "tracked s' k"
  proof (cases "0 < n")
    case True
    with default_units.read_positive [OF u t e True] fr s1 show ?thesis
      by (auto simp: tracked_def intro: order_less_imp_le)
  next
    case False
    then have "getDefaultPositionRealUnit s' k = Inr 0" using default_zero [OF u] e assms(2) by simp
    then show ?thesis using fr s1 False by (simp add: tracked_def getExternalPositionModules_def)
  qed
  ultimately show ?thesis unfolding tracking_def by metis
qed

lemma real_unit_cong:
  "virtualUnit (componentPositions s' k) = virtualUnit (componentPositions s k) \<Longrightarrow> positionMultiplier s' = positionMultiplier s \<Longrightarrow>
   getDefaultPositionRealUnit s' k = getDefaultPositionRealUnit s k"
  by (simp add: getDefaultPositionRealUnit_def defaultPositionVirtualUnit_def convertVirtualToRealUnit_def)

text \<open>An edit that leaves default units alone keeps the tracking if it does so at the component it touches.\<close>

lemma tracking_external:
  assumes "tracking s" "position_inv s'" "positionMultiplier s' = positionMultiplier s"
    "\<forall>j. virtualUnit (componentPositions s' j) = virtualUnit (componentPositions s j)"
    "\<forall>j. j \<noteq> k \<longrightarrow> componentPositions s' j = componentPositions s j \<and> (j \<in> set (components s') \<longleftrightarrow> j \<in> set (components s))"
    "getDefaultPositionRealUnit s k = Inr u" "k \<in> set (components s') \<longleftrightarrow> 0 < u \<or> getExternalPositionModules s' k \<noteq> []"
  shows "tracking s'"
proof -
  have "tracked s' j" if "j \<noteq> k" for j
    using tracking_D [OF assms(1), of j] tracked_cong [of j s' s] that assms(3,5) by simp
  moreover have "tracked s' k"
    using tracking_D [OF assms(1), of k] assms(6,7) real_unit_cong [of s' k s] assms(3,4) by (simp add: tracked_def)
  ultimately show ?thesis using assms(2) unfolding tracking_def by metis
qed

lemma open_external_tracking:
  assumes "tracking s" "is_int256 n" "n \<noteq> 0" "editExternalPosition this c k m n d s = Inr s'"
  shows "tracking s'"
proof -
  note inv = tracking_inv [OF assms(1)]
  obtain s1 s2 where s1: "(if \<not> isComponent s k then rbind (addComponent this c k s) (addExternalPositionModule this c k m)
               else if \<not> isExternalPositionModule s k m then addExternalPositionModule this c k m s else Ok s) = Inr s1"
    and s2: "editExternalPositionUnit this c k m n s1 = Inr s2" and s': "editExternalPositionData this c k m d s2 = Inr s'"
    using assms(3,4) by (auto simp: editExternalPosition_def rbind_eq_Inr)
  have S: "position_inv s1 \<and> positionMultiplier s1 = positionMultiplier s \<and> set (components s1) = insert k (set (components s))
      \<and> externalPositionModules (componentPositions s1 k) \<noteq> []
      \<and> (\<forall>j. virtualUnit (componentPositions s1 j) = virtualUnit (componentPositions s j))
      \<and> (\<forall>j. j \<noteq> k \<longrightarrow> componentPositions s1 j = componentPositions s j)"
  proof (cases "isComponent s k")
    case False
    then obtain s0 where s0: "addComponent this c k s = Inr s0" and e: "addExternalPositionModule this c k m s0 = Inr s1"
      using s1 by (auto simp: rbind_eq_Inr)
    have "position_inv s0" using position_inv_step [OF inv, of "AddComponent k"] s0 by simp
    then have "position_inv s1" using position_inv_step [of s0 "AddExternalPositionModule k m"] e by simp
    then show ?thesis using components_frame(1) [OF s0] positions_frame(2) [OF e] by simp
  next
    case True
    then have k: "k \<in> set (components s)" by (simp add: isComponent_def)
    show ?thesis
    proof (cases "isExternalPositionModule s k m")
      case False
      then have e: "addExternalPositionModule this c k m s = Inr s1" using s1 True by simp
      have "position_inv s1" using position_inv_step [OF inv, of "AddExternalPositionModule k m"] e by simp
      then show ?thesis using positions_frame(2) [OF e] k by auto
    next
      case yes: True
      then show ?thesis using s1 True k inv
        by (auto simp: isExternalPositionModule_def getExternalPositionModules_def)
    qed
  qed
  have "position_inv s2" using position_inv_step [of s1 "EditExternalPositionUnit k m n"] S s2 assms(2) by simp
  then have inv': "position_inv s'" using position_inv_step [of s2 "EditExternalPositionData k m d"] s' by simp
  obtain u where u: "getDefaultPositionRealUnit s k = Inr u" using tracking_D [OF assms(1), of k] by (auto simp: tracked_def)
  show ?thesis
    by (rule tracking_external [OF assms(1) inv' _ _ _ u])
       (use S positions_frame(3) [OF s2] positions_frame(4) [OF s'] in \<open>auto simp: getExternalPositionModules_def\<close>)
qed

lemma close_external_tracking:
  assumes "tracking s" "editExternalPosition this c k m 0 d s = Inr s'"
  shows "tracking s'"
proof (cases "s' = s")
  case False
  note inv = tracking_inv [OF assms(1)]
  then have dist: "distinct (components s)" by (simp add: position_inv_def)
  obtain u where u: "getDefaultPositionRealUnit s k = Inr u" "0 \<le> u"
    and tr: "k \<in> set (components s) \<longleftrightarrow> 0 < u \<or> getExternalPositionModules s k \<noteq> []"
    using tracking_D [OF assms(1), of k] by (auto simp: tracked_def)
  let ?last = "u = 0 \<and> length (getExternalPositionModules s k) = 1"
  obtain s1 where s1: "(if ?last then removeComponent this c k s else Ok s) = Inr s1"
    and s': "removeExternalPositionModule this c k m s1 = Inr s'"
    using assms(2) False by (auto simp: editExternalPosition_def result_simps u Let_def split: if_splits)
  have S: "position_inv s1 \<and> positionMultiplier s1 = positionMultiplier s \<and> componentPositions s1 = componentPositions s
      \<and> set (components s1) = (if ?last then set (components s) - {k} else set (components s))"
  proof (cases ?last)
    case True
    then have e: "removeComponent this c k s = Inr s1" using s1 by simp
    then show ?thesis
      using components_frame(2) [OF dist e] position_inv_step [OF inv, of "RemoveComponent k"] True by simp
  next
    case False
    then have "s1 = s" using s1 by auto
    then show ?thesis using inv False by auto
  qed
  then have fr: "position_inv s1" by simp
  note R = removeExternal_frame [OF fr s']
  have "position_inv s'" using position_inv_step [OF fr, of "RemoveExternalPositionModule k m"] s' by simp
  then show ?thesis
  proof (rule tracking_external [OF assms(1) _ _ _ _ u(1)])
    let ?n = "length (getExternalPositionModules s k)"
    have len: "length (getExternalPositionModules s' k) = ?n - 1" "0 < ?n"
      using R S by (auto simp: getExternalPositionModules_def)
    have k': "k \<in> set (components s') \<longleftrightarrow> \<not> ?last \<and> k \<in> set (components s)" using R S by (auto split: if_splits)
    have "getExternalPositionModules s' k \<noteq> [] \<longleftrightarrow> ?n \<noteq> 1"
      using len by (metis One_nat_def Suc_pred diff_self_eq_0 length_0_conv)
    then show "k \<in> set (components s') \<longleftrightarrow> 0 < u \<or> getExternalPositionModules s' k \<noteq> []"
      using k' tr u(2) len by auto
  qed (use R S in \<open>auto split: if_splits\<close>)
qed (use assms in simp)

lemma real_unit_typed:
  assumes "position_inv s" "getDefaultPositionRealUnit s k = Inr u"
  shows "is_int256 u \<and> u = virtualUnit (componentPositions s k) * positionMultiplier s div PRECISE_UNIT_INT"
proof -
  let ?v = "virtualUnit (componentPositions s k)"
  have "is_int256 ?v" "is_int256 (positionMultiplier s)"
    using position_inv_at [OF assms(1)] by (simp_all add: units_ok_def)
  then have "is_int256 (?v * positionMultiplier s) \<and> u = ?v * positionMultiplier s div PRECISE_UNIT_INT"
    using assms(2) by (simp add: real_unit_defs convertVirtualToRealUnit_def conservativePreciseMul_exact split: if_splits)
  then show ?thesis by (simp add: is_int256_div)
qed

lemma calculateDefaultEditPositionUnit_Inr:
  assumes "is_uint256 supply_0" "is_uint256 pre" "is_uint256 post" "is_uint256 u"
    "calculateDefaultEditPositionUnit supply_0 pre post u = Inr n"
  shows "0 < supply_0 \<and> 0 \<le> n \<and> u * supply_0 div PRECISE_UNIT \<le> pre
    \<and> pre - u * supply_0 div PRECISE_UNIT \<le> post
    \<and> n = (post - (pre - u * supply_0 div PRECISE_UNIT)) * PRECISE_UNIT div supply_0"
proof -
  let ?t = "u * supply_0 div PRECISE_UNIT"
  obtain t a b where steps: "preciseMul_uint u supply_0 = Inr t" "safe_sub pre t = Inr a" "safe_sub post a = Inr b"
    "preciseDiv_uint b supply_0 = Inr n"
    using assms(5) by (auto simp: calculateDefaultEditPositionUnit_def rbind_eq_Inr)
  have t: "t = ?t" "is_uint256 t"
    using steps(1) assms(1,4) by (auto simp: preciseMul_uint_eq_Inr intro!: is_uint256_div is_uint256_mult)
  have a: "?t \<le> pre" "a = pre - ?t" "is_uint256 a"
    using steps(2) t assms(2) by (auto simp: safe_sub_eq_Inr intro: is_uint256_diff)
  have b: "pre - ?t \<le> post" "b = post - (pre - ?t)" "is_uint256 b"
    using steps(3) a assms(3) by (auto simp: safe_sub_eq_Inr intro: is_uint256_diff)
  have n: "supply_0 \<noteq> 0" "n = (post - (pre - ?t)) * PRECISE_UNIT div supply_0"
    using steps(4) b assms(1) by (auto simp: preciseDiv_uint_eq_Inr)
  have "0 < supply_0" using assms(1) n(1) by (simp add: is_uint256_def)
  moreover have "0 \<le> n" using b(1) calculation by (simp add: n(2) pos_imp_zdiv_nonneg_iff)
  ultimately show ?thesis using a(1) b(1) n(2) by blast
qed

subsection \<open>Properties\<close>

text \<open>
  C14. The library keeps the component list of a Set exact. If before an edit every component is listed
  exactly when it has a positive default unit or an external position, the same holds after
  \<open>editDefaultPosition\<close>, after \<open>editExternalPosition\<close> (opening, changing or closing a position) and
  after \<open>calculateAndEditDefaultPosition\<close>.
\<close>

theorem position_tracking:
  assumes "tracking s" "is_uint256 n" "is_int256 u" "is_uint256 bal" "is_uint256 supply_0" "is_uint256 prev"
  shows "(editDefaultPosition this c k n s = Inr s1 \<longrightarrow> tracking s1)
    \<and> (editExternalPosition this c k m u d s = Inr s2 \<longrightarrow> tracking s2)
    \<and> (calculateAndEditDefaultPosition this c k bal supply_0 prev s = Inr (s3, r) \<longrightarrow> tracking s3)"
proof (intro conjI impI)
  show "tracking s1" if "editDefaultPosition this c k n s = Inr s1"
    using editDefaultPosition_tracking [OF assms(1) _ that] assms(2) by (simp add: is_uint256_def)
  show "tracking s2" if "editExternalPosition this c k m u d s = Inr s2"
    using open_external_tracking [OF assms(1,3) _ that] close_external_tracking [OF assms(1)] that by (cases "u = 0") auto
  assume "calculateAndEditDefaultPosition this c k bal supply_0 prev s = Inr (s3, r)"
  then obtain p n' where p: "getDefaultPositionRealUnit s k = Inr p" "0 \<le> p"
    and n': "(if bal > 0 then calculateDefaultEditPositionUnit supply_0 prev bal p else Ok 0) = Inr n'"
    and e: "editDefaultPosition this c k n' s = Inr s3"
    by (auto simp: calculateAndEditDefaultPosition_def result_simps)
  have "is_uint256 p"
    using p real_unit_typed [OF tracking_inv [OF assms(1)] p(1)] by (simp add: is_int256_def is_uint256_def)
  then have "0 \<le> n'"
    using n' calculateDefaultEditPositionUnit_Inr [OF assms(5,6,4)] by (auto split: if_splits)
  then show "tracking s3" by (rule editDefaultPosition_tracking [OF assms(1) _ e])
qed

text \<open>A module opens an external position in a component the Set holds, and closes its default position.\<close>

lemma demo_tracking: "tracking (demo_set\<lparr>components := [], componentPositions := (\<lambda>_. no_position)\<rparr>)"
  by (auto simp: tracking_def tracked_def position_inv_def virtual_typed_def units_ok_def demo_set_def real_unit_defs
      getExternalPositionModules_def convertVirtualToRealUnit_def conservativePreciseMul_exact is_int256_def)

theorem position_tracking_witness:
  "\<exists>s. editDefaultPosition 7 demo_controller 5 100 (demo_set\<lparr>components := [], componentPositions := (\<lambda>_. no_position)\<rparr>) = Inr s
     \<and> tracking s \<and> components s = [5]"
proof -
  let ?s = "demo_set\<lparr>components := [], componentPositions := (\<lambda>_. no_position)\<rparr>"
  have "is_ok (editDefaultPosition 7 demo_controller 5 100 ?s)"
    "components (projr (editDefaultPosition 7 demo_controller 5 100 ?s)) = [5]"
    unfolding demo_set_def demo_controller_def by code_simp+
  then obtain s where s: "editDefaultPosition 7 demo_controller 5 100 ?s = Inr s" "components s = [5]"
    by (metis is_ok_iff sum.sel(2))
  have "is_uint256 100" "is_int256 0" by (simp_all add: is_uint256_def is_int256_def)
  then have "tracking s" using position_tracking [OF demo_tracking, of 100 0 0 0 0] s(1) by simp
  then show ?thesis using s by blast
qed

text \<open>
  The unit recomputed after an action claims what the action left of the tracked balance and nothing
  else: supply times the new unit is the balance less the airdropped amount, rounded down by less than
  one supply, and an airdrop of any size that is on the Set before and after the action changes nothing.
\<close>

lemma airdrop_not_counted:
  assumes "is_uint256 supply_0" "is_uint256 (pre + extra)" "is_uint256 (post + extra)" "is_uint256 pre" "is_uint256 post"
    "is_uint256 u" "calculateDefaultEditPositionUnit supply_0 pre post u = Inr n" "0 \<le> extra"
  shows "n * supply_0 \<le> (post - (pre - u * supply_0 div PRECISE_UNIT)) * PRECISE_UNIT
    \<and> (post - (pre - u * supply_0 div PRECISE_UNIT)) * PRECISE_UNIT < (n + 1) * supply_0
    \<and> calculateDefaultEditPositionUnit supply_0 (pre + extra) (post + extra) u = Inr n"
proof -
  let ?t = "u * supply_0 div PRECISE_UNIT"
  note C = calculateDefaultEditPositionUnit_Inr [OF assms(1,4,5,6,7)]
  have mu: "u * supply_0 \<le> MAX_UINT_256"
    using assms(1,4-7) by (auto simp: calculateDefaultEditPositionUnit_def result_simps)
  then have t: "is_uint256 ?t" using assms(1,6) by (simp add: is_uint256_div is_uint256_mult)
  have d: "is_uint256 (pre - ?t)" "is_uint256 (pre + extra - ?t)"
    using assms(2,4,8) t C by (simp_all add: is_uint256_diff)
  have "n * supply_0 \<le> (post - (pre - ?t)) * PRECISE_UNIT" "(post - (pre - ?t)) * PRECISE_UNIT < (n + 1) * supply_0"
    using div_mult_le_int [of supply_0] less_div_mult_int [of supply_0] C by simp_all
  moreover have "calculateDefaultEditPositionUnit supply_0 (pre + extra) (post + extra) u
      = calculateDefaultEditPositionUnit supply_0 pre post u"
    using assms(1-6,8) mu t d C
    by (simp add: calculateDefaultEditPositionUnit_def preciseMul_uint_exact safe_sub_exact add_diff_eq diff_diff_eq2)
  ultimately show ?thesis using assms(7) by simp
qed

lemma airdrop_not_counted_example:
  "\<exists>n. calculateDefaultEditPositionUnit (2 * PRECISE_UNIT) 25 35 10 = Inr n \<and> n = 15
     \<and> calculateDefaultEditPositionUnit (2 * PRECISE_UNIT) (25 + 1000) (35 + 1000) 10 = Inr n"
proof -
  have c: "calculateDefaultEditPositionUnit (2 * PRECISE_UNIT) 25 35 10 = Inr 15" by code_simp
  have "is_uint256 (2 * PRECISE_UNIT)" "is_uint256 (25 + 1000)" "is_uint256 (35 + 1000)" "is_uint256 25" "is_uint256 35" "is_uint256 10"
    by (simp_all add: is_uint256_def)
  from airdrop_not_counted [OF this c] c show ?thesis by simp
qed

end
