(* ===== verification/Invoke.thy ===== *)
theory Invoke
  imports PositionLib StreamingFeeModule
begin

section \<open>Calls on foreign contracts: Invoke, ExplicitERC20 and ModuleBase\<close>

text \<open>
  \<^verbatim>\<open>src/contracts/protocol/lib/Invoke.sol\<close>, \<^verbatim>\<open>src/contracts/lib/ExplicitERC20.sol\<close> and the functions of
  \<^verbatim>\<open>src/contracts/protocol/lib/ModuleBase.sol\<close> that move tokens.

  The tokens a Set holds, OpenZeppelin's \<open>SafeERC20\<close> and \<open>Address\<close> and a manager's issuance hook are
  code outside the repository. The record \<open>foreign\<close> collects what the modules call of it. Every such
  call takes and returns the whole state \<open>evm\<close> (the Controller, the Set, the state of the issuance
  module and \<open>outside\<close>, everything else), so it may call back. \<open>balance_of\<close> is a static call and
  returns no state. \<open>selector\<close> is the first four bytes of the \<open>keccak256\<close> of a signature.

  The locale \<open>component_tokens\<close> names what the theorems rely on. It is interpreted, at the end, for
  components that are ERC20 contracts as modelled in \<open>ERC20\<close>.
\<close>

subsection \<open>The state and the foreign code\<close>

record 'w evm =
  the_controller :: controller
  the_set :: set_token
  managerIssuanceHook :: "address \<Rightarrow> address"
  module_entered :: bool
  outside :: 'w

record 'w foreign =
  balance_of :: "address \<Rightarrow> address \<Rightarrow> 'w evm \<Rightarrow> int result"
  safeTransferFrom :: "address \<Rightarrow> address \<Rightarrow> address \<Rightarrow> address \<Rightarrow> int \<Rightarrow> 'w evm \<Rightarrow> ('w evm) result"
  functionCallWithValue :: "address \<Rightarrow> address \<Rightarrow> int \<Rightarrow> bytes \<Rightarrow> 'w evm \<Rightarrow> ('w evm \<times> bytes) result"
  invokePreIssueHook :: "address \<Rightarrow> address \<Rightarrow> int \<Rightarrow> address \<Rightarrow> address \<Rightarrow> 'w evm \<Rightarrow> ('w evm) result"
  selector :: "string \<Rightarrow> bytes"

text \<open>The ABI encoding of static arguments: one big-endian word of 32 bytes each, after the selector.\<close>

primrec be_bytes :: "nat \<Rightarrow> nat \<Rightarrow> bytes" where
  "be_bytes 0 n = []"
| "be_bytes (Suc k) n = be_bytes k (n div 256) @ [of_nat (n mod 256)]"

definition be_value :: "bytes \<Rightarrow> nat" where
  "be_value bs = foldl (\<lambda>a b. a * 256 + unat b) 0 bs"

definition abi_word :: "int \<Rightarrow> bytes" where
  "abi_word x = be_bytes 32 (nat (x mod 2 ^ 256))"

definition encodeWithSignature :: "'w foreign \<Rightarrow> string \<Rightarrow> int list \<Rightarrow> bytes" where
  "encodeWithSignature F sig args = selector F sig @ concat (map abi_word args)"

subsection \<open>Invoke\<close>

text \<open>\<open>_setToken.invoke(target, value, data)\<close> as the module \<open>this\<close> makes it; \<open>self\<close> is the address of the Set.\<close>

definition set_invoke ::
  "'w foreign \<Rightarrow> address \<Rightarrow> address \<Rightarrow> address \<Rightarrow> int \<Rightarrow> bytes \<Rightarrow> 'w evm \<Rightarrow> ('w evm) result" where
  "set_invoke F this self target value data e =
     rbind (invoke (\<lambda>target value data s. functionCallWithValue F self target value data (e\<lparr>the_set := s\<rparr>))
              this (the_controller e) target value data (the_set e)) (\<lambda>(e', ret). Ok e')"

definition invokeApprove ::
  "'w foreign \<Rightarrow> address \<Rightarrow> address \<Rightarrow> address \<Rightarrow> address \<Rightarrow> int \<Rightarrow> 'w evm \<Rightarrow> ('w evm) result" where
  "invokeApprove F this self token spender quantity e =
     (let callData = encodeWithSignature F ''approve(address,uint256)'' [int spender, quantity]
      in set_invoke F this self token 0 callData e)"

definition invokeTransfer ::
  "'w foreign \<Rightarrow> address \<Rightarrow> address \<Rightarrow> address \<Rightarrow> address \<Rightarrow> int \<Rightarrow> 'w evm \<Rightarrow> ('w evm) result" where
  "invokeTransfer F this self token to_account quantity e =
     (if quantity > 0 then
        let callData = encodeWithSignature F ''transfer(address,uint256)'' [int to_account, quantity]
        in set_invoke F this self token 0 callData e
      else Ok e)"

definition strictInvokeTransfer ::
  "'w foreign \<Rightarrow> address \<Rightarrow> address \<Rightarrow> address \<Rightarrow> address \<Rightarrow> int \<Rightarrow> 'w evm \<Rightarrow> ('w evm) result" where
  "strictInvokeTransfer F this self token to_account quantity e =
     (if quantity > 0 then
        rbind (balance_of F token self e) (\<lambda>existingBalance.
        rbind (invokeTransfer F this self token to_account quantity e) (\<lambda>e1.
        rbind (balance_of F token self e1) (\<lambda>newBalance.
        rbind (safe_sub existingBalance quantity) (\<lambda>expected.
        rbind (require (newBalance = expected) ''Invalid post transfer balance'') (\<lambda>_.
        Ok e1)))))
      else Ok e)"

definition invokeUnwrapWETH ::
  "'w foreign \<Rightarrow> address \<Rightarrow> address \<Rightarrow> address \<Rightarrow> int \<Rightarrow> 'w evm \<Rightarrow> ('w evm) result" where
  "invokeUnwrapWETH F this self weth quantity e =
     (let callData = encodeWithSignature F ''withdraw(uint256)'' [quantity]
      in set_invoke F this self weth 0 callData e)"

definition invokeWrapWETH ::
  "'w foreign \<Rightarrow> address \<Rightarrow> address \<Rightarrow> address \<Rightarrow> int \<Rightarrow> 'w evm \<Rightarrow> ('w evm) result" where
  "invokeWrapWETH F this self weth quantity e =
     (let callData = encodeWithSignature F ''deposit()'' []
      in set_invoke F this self weth quantity callData e)"

subsection \<open>ExplicitERC20 and ModuleBase\<close>

definition explicit_transferFrom ::
  "'w foreign \<Rightarrow> address \<Rightarrow> address \<Rightarrow> address \<Rightarrow> address \<Rightarrow> int \<Rightarrow> 'w evm \<Rightarrow> ('w evm) result" where
  "explicit_transferFrom F this token from_account to_account quantity e =
     (if quantity > 0 then
        rbind (balance_of F token to_account e) (\<lambda>existingBalance.
        rbind (safeTransferFrom F this token from_account to_account quantity e) (\<lambda>e1.
        rbind (balance_of F token to_account e1) (\<lambda>newBalance.
        rbind (safe_add existingBalance quantity) (\<lambda>expected.
        rbind (require (newBalance = expected) ''Invalid post transfer balance'') (\<lambda>_.
        Ok e1)))))
      else Ok e)"

definition base_transferFrom ::
  "'w foreign \<Rightarrow> address \<Rightarrow> address \<Rightarrow> address \<Rightarrow> address \<Rightarrow> int \<Rightarrow> 'w evm \<Rightarrow> ('w evm) result" where
  "base_transferFrom F this token from_account to_account quantity e =
     explicit_transferFrom F this token from_account to_account quantity e"

definition payProtocolFeeFromSetToken ::
  "'w foreign \<Rightarrow> address \<Rightarrow> address \<Rightarrow> address \<Rightarrow> int \<Rightarrow> 'w evm \<Rightarrow> ('w evm) result" where
  "payProtocolFeeFromSetToken F this self token feeQuantity e =
     (if feeQuantity > 0
      then strictInvokeTransfer F this self token (ctl_feeRecipient (the_controller e)) feeQuantity e
      else Ok e)"

subsection \<open>What the theorems rely on\<close>

text \<open>
  \<open>bal t a e\<close> is the balance of the account \<open>a\<close> in token \<open>t\<close>. A token's balances are readable numbers
  of its type, and do not depend on the state of the Set, the module or the controller; a transfer of
  one token, whether pulled by the module or sent by the Set, leaves the Set and the balances in other
  tokens alone; an issuance hook does not touch the Set and does not take tokens from it. Whether a
  transfer moves the amount it says is not assumed: the code checks it.
\<close>

locale component_tokens =
  fixes F :: "'w foreign"
    and self :: address
    and bal :: "address \<Rightarrow> address \<Rightarrow> 'w evm \<Rightarrow> int"
    and wf :: "'w evm \<Rightarrow> bool"
  assumes readable: "t \<noteq> self \<Longrightarrow> balance_of F t a e = Inr (bal t a e)"
    and bal_typed: "wf e \<Longrightarrow> is_uint256 (bal t a e)"
    and own_state: "outside e' = outside e \<Longrightarrow> bal t a e' = bal t a e \<and> (wf e' \<longleftrightarrow> wf e)"
    and pull_law: "wf e \<Longrightarrow> is_uint256 n \<Longrightarrow> t \<noteq> self \<Longrightarrow> safeTransferFrom F sp t x y n e = Inr e' \<Longrightarrow>
      wf e' \<and> the_set e' = the_set e \<and> the_controller e' = the_controller e \<and> (\<forall>t' a. t' \<noteq> t \<longrightarrow> bal t' a e' = bal t' a e)"
    and call_law: "wf e \<Longrightarrow> t \<noteq> self \<Longrightarrow> functionCallWithValue F self t v d e = Inr (e', ret) \<Longrightarrow>
      wf e' \<and> the_set e' = the_set e \<and> the_controller e' = the_controller e \<and> (\<forall>t' a. t' \<noteq> t \<longrightarrow> bal t' a e' = bal t' a e)"
    and hook_law: "wf e \<Longrightarrow> is_uint256 n \<Longrightarrow> invokePreIssueHook F h self n x y e = Inr e' \<Longrightarrow>
      wf e' \<and> the_set e' = the_set e \<and> the_controller e' = the_controller e \<and> (\<forall>t. bal t self e \<le> bal t self e')"
begin

text \<open>A step that changed one token only, by \<open>n\<close> at the Set.\<close>

definition moved :: "address \<Rightarrow> int \<Rightarrow> 'w evm \<Rightarrow> 'w evm \<Rightarrow> bool" where
  "moved t n e e' \<longleftrightarrow> wf e' \<and> the_set e' = the_set e \<and> the_controller e' = the_controller e
     \<and> bal t self e' = bal t self e + n \<and> (\<forall>t'. t' \<noteq> t \<longrightarrow> bal t' self e' = bal t' self e)"

lemma explicit_transferFrom_Inr:
  assumes "wf e" "is_uint256 n" "t \<noteq> self" "base_transferFrom F this t x self n e = Inr e'"
  shows "moved t n e e'"
proof (cases "0 < n")
  case True
  then obtain k where e': "safeTransferFrom F this t x self n e = Inr e'" and k: "safe_add (bal t self e) n = Inr k" "bal t self e' = k"
    using assms(3,4) by (auto simp: base_transferFrom_def explicit_transferFrom_def rbind_eq_Inr require_eq_Inr readable)
  have "k = bal t self e + n" using k(1) bal_typed [OF assms(1)] assms(2) by (simp add: safe_add_eq_Inr)
  then show ?thesis using pull_law [OF assms(1-3) e'] k(2) by (simp add: moved_def)
next
  case False
  then have "e' = e" "n = 0" using assms(2,4) by (auto simp: base_transferFrom_def explicit_transferFrom_def is_uint256_def)
  then show ?thesis using assms(1) by (simp add: moved_def)
qed

lemma set_invoke_Inr:
  assumes "wf e" "t \<noteq> self" "set_invoke F this self t v d e = Inr e'"
  shows "wf e' \<and> the_set e' = the_set e \<and> the_controller e' = the_controller e \<and> (\<forall>t' a. t' \<noteq> t \<longrightarrow> bal t' a e' = bal t' a e)"
  using assms call_law [of e t v d e'] by (auto simp: set_invoke_def invoke_def result_simps)

lemma strictInvokeTransfer_Inr:
  assumes "wf e" "is_uint256 n" "t \<noteq> self" "strictInvokeTransfer F this self t y n e = Inr e'"
  shows "moved t (- n) e e'"
proof (cases "0 < n")
  case True
  then obtain d k where e': "set_invoke F this self t 0 d e = Inr e'" and k: "safe_sub (bal t self e) n = Inr k" "bal t self e' = k"
    using assms(3,4) by (auto simp: strictInvokeTransfer_def invokeTransfer_def Let_def rbind_eq_Inr require_eq_Inr readable)
  have "k = bal t self e - n" using k(1) bal_typed [OF assms(1)] assms(2) by (simp add: safe_sub_eq_Inr)
  then show ?thesis using set_invoke_Inr [OF assms(1,3) e'] k(2) by (simp add: moved_def)
next
  case False
  then have "e' = e" "n = 0" using assms(2,4) by (auto simp: strictInvokeTransfer_def is_uint256_def)
  then show ?thesis using assms(1) by (simp add: moved_def)
qed

end

subsection \<open>Components that are ERC20 contracts\<close>

lemma be_value_append: "be_value (bs @ [b]) = be_value bs * 256 + unat b"
  by (simp add: be_value_def)

lemma be_bytes_length [simp]: "length (be_bytes k n) = k"
  by (induction k arbitrary: n) simp_all

lemma be_value_bytes: "n < 256 ^ k \<Longrightarrow> be_value (be_bytes k n) = n"
proof (induction k arbitrary: n)
  case (Suc k)
  have "n div 256 < 256 ^ k" using Suc.prems by (simp add: less_mult_imp_div_less)
  moreover have "unat (of_nat (n mod 256) :: 8 word) = n mod 256" by (simp add: unat_of_nat)
  ultimately show ?case using Suc.IH by (simp add: be_value_append)
qed (simp add: be_value_def)

lemma be_value_bound: "be_value bs < 256 ^ length bs"
proof (induction bs rule: rev_induct)
  case (snoc b bs)
  have "unat b < 256" using unsigned_less [of b, where 'a = nat] by simp
  then have "be_value bs * 256 + unat b < (be_value bs + 1) * 256" by simp
  also have "\<dots> \<le> 256 ^ length bs * 256" using snoc.IH by (intro mult_right_mono) simp_all
  finally show ?case by (simp add: be_value_append mult.commute)
qed (simp add: be_value_def)

lemma abi_word_length [simp]: "length (abi_word x) = 32"
  by (simp add: abi_word_def)

lemma abi_word_value: "is_uint256 x \<Longrightarrow> be_value (abi_word x) = nat x"
  using be_value_bytes [of "nat x" 32] by (simp add: abi_word_def is_uint256_def nat_less_iff)

definition token_selector :: "string \<Rightarrow> bytes" where
  "token_selector sig =
     (if sig = ''transfer(address,uint256)'' then [0xa9, 0x05, 0x9c, 0xbb]
      else if sig = ''approve(address,uint256)'' then [0x09, 0x5e, 0xa7, 0xb3]
      else if sig = ''withdraw(uint256)'' then [0x2e, 0x1a, 0x7d, 0x4d]
      else [0xd0, 0xe3, 0x0d, 0xb0])"

text \<open>The dispatcher of a token: no function is payable and there is no fallback function.\<close>

definition token_dispatch :: "address \<Rightarrow> int \<Rightarrow> bytes \<Rightarrow> erc20 \<Rightarrow> erc20 result" where
  "token_dispatch caller value data tok =
     (let a = be_value (take 32 (drop 4 data)); n = int (be_value (take 32 (drop 36 data))) in
      if value \<noteq> 0 \<or> length data < 68 then Err (Revert [])
      else if take 4 data = token_selector ''transfer(address,uint256)'' then transfer caller a n tok
      else if take 4 data = token_selector ''approve(address,uint256)'' then approve caller a n tok
      else Err (Revert []))"

definition update_token :: "address \<Rightarrow> (address \<Rightarrow> erc20) evm \<Rightarrow> erc20 result \<Rightarrow> ((address \<Rightarrow> erc20) evm) result" where
  "update_token t e r = rbind r (\<lambda>tok. Ok (e\<lparr>outside := (outside e)(t := tok)\<rparr>))"

definition ledger_foreign :: "(address \<Rightarrow> erc20) foreign" where
  "ledger_foreign =
     \<lparr>balance_of = (\<lambda>t a e. Ok (balanceOf (outside e t) a)),
      safeTransferFrom = (\<lambda>sp t x y n e. update_token t e (transferFrom sp x y n (outside e t))),
      functionCallWithValue = (\<lambda>caller t v d e.
        rbind (update_token t e (token_dispatch caller v d (outside e t))) (\<lambda>e'. Ok (e', abi_word 1))),
      invokePreIssueHook = (\<lambda>h a n x y e. Ok e),
      selector = token_selector\<rparr>"

abbreviation ledger_bal :: "address \<Rightarrow> address \<Rightarrow> (address \<Rightarrow> erc20) evm \<Rightarrow> int" where
  "ledger_bal t a e \<equiv> balances (outside e t) a"

definition ledger_wf :: "(address \<Rightarrow> erc20) evm \<Rightarrow> bool" where
  "ledger_wf e \<longleftrightarrow> (\<forall>t. erc20_typed (outside e t))"

lemma approve_internal_typed:
  "erc20_typed s \<Longrightarrow> is_uint256 n \<Longrightarrow> erc20_approve_internal x y n s = Inr s' \<Longrightarrow> erc20_typed s' \<and> balances s' = balances s"
  by (auto simp: erc20_approve_internal_def result_simps erc20_typed_def)

lemma transferFrom_typed:
  assumes "erc20_typed s" "is_uint256 n" "transferFrom sp x y n s = Inr s'"
  shows "erc20_typed s'"
proof -
  obtain s1 k where s1: "erc20_transfer_internal x y n s = Inr s1"
    and k: "safe_sub_msg (allowances s1 x sp) n ''ERC20: transfer amount exceeds allowance'' = Inr k"
    and s': "erc20_approve_internal x sp k s1 = Inr s'"
    using assms(3) by (auto simp: transferFrom_def rbind_eq_Inr)
  have t: "erc20_typed s1" using erc20.move_law [OF assms(1,2) s1] by simp
  then have "is_uint256 (allowances s1 x sp)" by (simp add: erc20_typed_def)
  then have "is_uint256 k" using k assms(2) by (auto simp: safe_sub_msg_eq_Inr intro: is_uint256_diff)
  then show ?thesis using approve_internal_typed [OF t _ s'] by simp
qed

lemma token_dispatch_typed:
  assumes "erc20_typed s" "token_dispatch caller v d s = Inr s'"
  shows "erc20_typed s'"
proof -
  let ?n = "int (be_value (take 32 (drop 36 d)))"
  have "be_value (take 32 (drop 36 d)) < 256 ^ 32"
    by (rule order_less_le_trans [OF be_value_bound]) (rule power_increasing, simp_all)
  then have n: "is_uint256 ?n" by (simp add: is_uint256_def)
  show ?thesis
    using assms erc20.move_law [OF assms(1) n] approve_internal_typed [OF assms(1) n]
    by (auto simp: token_dispatch_def Let_def transfer_def approve_def split: if_splits)
qed

interpretation ledger: component_tokens ledger_foreign self ledger_bal ledger_wf
  for self
proof
  show "is_uint256 (ledger_bal t a e)" if "ledger_wf e" for e t a
    using that by (simp add: ledger_wf_def erc20_typed_def)
next
  fix e e' :: "(address \<Rightarrow> erc20) evm" and n t sp x y
  assume "ledger_wf e" "is_uint256 n" "t \<noteq> self" "safeTransferFrom ledger_foreign sp t x y n e = Inr e'"
  then show "ledger_wf e' \<and> the_set e' = the_set e \<and> the_controller e' = the_controller e
      \<and> (\<forall>t' a. t' \<noteq> t \<longrightarrow> ledger_bal t' a e' = ledger_bal t' a e)"
    by (auto simp: ledger_foreign_def update_token_def ledger_wf_def result_simps) (blast intro: transferFrom_typed)
next
  fix e e' :: "(address \<Rightarrow> erc20) evm" and t v d ret
  assume "ledger_wf e" "t \<noteq> self" "functionCallWithValue ledger_foreign self t v d e = Inr (e', ret)"
  then show "ledger_wf e' \<and> the_set e' = the_set e \<and> the_controller e' = the_controller e
      \<and> (\<forall>t' a. t' \<noteq> t \<longrightarrow> ledger_bal t' a e' = ledger_bal t' a e)"
    by (auto simp: ledger_foreign_def update_token_def ledger_wf_def result_simps) (blast intro: token_dispatch_typed)
qed (auto simp: ledger_foreign_def ledger_wf_def balanceOf_def)

text \<open>The calldata of a transfer, dispatched by a token, is the transfer.\<close>

lemma dispatch_transfer:
  assumes "is_uint256 (int a)" "is_uint256 n"
  shows "token_dispatch caller 0 (encodeWithSignature ledger_foreign ''transfer(address,uint256)'' [int a, n]) tok
    = transfer caller a n tok"
proof -
  let ?d = "encodeWithSignature ledger_foreign ''transfer(address,uint256)'' [int a, n]"
  have l: "length (token_selector ''transfer(address,uint256)'') = 4" by (simp add: token_selector_def)
  have d: "?d = token_selector ''transfer(address,uint256)'' @ abi_word (int a) @ abi_word n"
    by (simp add: encodeWithSignature_def ledger_foreign_def)
  have "take 4 ?d = token_selector ''transfer(address,uint256)''" "take 32 (drop 4 ?d) = abi_word (int a)"
    "take 32 (drop 36 ?d) = abi_word n" "length ?d = 68" unfolding d using l by simp_all
  then show ?thesis
    using assms is_uint256_nonneg [OF assms(2)] by (simp add: token_dispatch_def abi_word_value Let_def)
qed

subsection \<open>Foreign code beside the state of a module\<close>

text \<open>
  A module whose state the foreign code may reach keeps it as the first component of \<open>outside\<close>. \<open>beside\<close>
  is foreign code that does not reach it.
\<close>

definition bare :: "('s \<times> 'w) evm \<Rightarrow> 'w evm" where
  "bare e = \<lparr>the_controller = the_controller e, the_set = the_set e, managerIssuanceHook = managerIssuanceHook e,
     module_entered = module_entered e, outside = snd (outside e)\<rparr>"

definition dress :: "'s \<Rightarrow> 'w evm \<Rightarrow> ('s \<times> 'w) evm" where
  "dress st e = \<lparr>the_controller = the_controller e, the_set = the_set e, managerIssuanceHook = managerIssuanceHook e,
     module_entered = module_entered e, outside = (st, outside e)\<rparr>"

definition beside :: "'w foreign \<Rightarrow> ('s \<times> 'w) foreign" where
  "beside F = \<lparr>balance_of = (\<lambda>t a e. balance_of F t a (bare e)),
     safeTransferFrom = (\<lambda>sp t x y n e. rbind (safeTransferFrom F sp t x y n (bare e)) (\<lambda>e'. Ok (dress (fst (outside e)) e'))),
     functionCallWithValue = (\<lambda>c t v d e. rbind (functionCallWithValue F c t v d (bare e)) (\<lambda>(e', r). Ok (dress (fst (outside e)) e', r))),
     invokePreIssueHook = (\<lambda>h a n x y e. rbind (invokePreIssueHook F h a n x y (bare e)) (\<lambda>e'. Ok (dress (fst (outside e)) e'))),
     selector = selector F\<rparr>"

lemma bare_dress [simp]: "bare (dress st e) = e" "fst (outside (dress st e)) = st" "the_set (bare e') = the_set e'"
  "the_controller (bare e') = the_controller e'" "the_set (dress st e) = the_set e" "the_controller (dress st e) = the_controller e"
  "outside (bare e') = snd (outside e')"
  by (simp_all add: bare_def dress_def)

lemma component_tokens_beside:
  fixes F :: "'w foreign" and P :: "'s \<Rightarrow> bool"
  assumes "component_tokens F self bal ok"
  shows "component_tokens (beside F) self (\<lambda>t a e. bal t a (bare e)) (\<lambda>e. ok (bare e) \<and> P (fst (outside e)))"
proof
  fix e e' :: "('s \<times> 'w) evm" and t a
  show "t \<noteq> self \<Longrightarrow> balance_of (beside F) t a e = Inr (bal t a (bare e))"
    using component_tokens.readable [OF assms] by (simp add: beside_def)
  show "ok (bare e) \<and> P (fst (outside e)) \<Longrightarrow> is_uint256 (bal t a (bare e))"
    using component_tokens.bal_typed [OF assms] by blast
  show "bal t a (bare e') = bal t a (bare e) \<and> (ok (bare e') \<and> P (fst (outside e'))) = (ok (bare e) \<and> P (fst (outside e)))"
    if "outside e' = outside e"
    using component_tokens.own_state [OF assms, of "bare e'" "bare e"] that by simp
next
  fix e e' :: "('s \<times> 'w) evm" and n t sp x y
  assume "ok (bare e) \<and> P (fst (outside e))" "is_uint256 n" "t \<noteq> self" "safeTransferFrom (beside F) sp t x y n e = Inr e'"
  then show "(ok (bare e') \<and> P (fst (outside e'))) \<and> the_set e' = the_set e \<and> the_controller e' = the_controller e
      \<and> (\<forall>t' a. t' \<noteq> t \<longrightarrow> bal t' a (bare e') = bal t' a (bare e))"
    using component_tokens.pull_law [OF assms, of "bare e" n t sp x y] by (auto simp: beside_def rbind_eq_Inr)
next
  fix e e' :: "('s \<times> 'w) evm" and t v d ret
  assume "ok (bare e) \<and> P (fst (outside e))" "t \<noteq> self" "functionCallWithValue (beside F) self t v d e = Inr (e', ret)"
  then show "(ok (bare e') \<and> P (fst (outside e'))) \<and> the_set e' = the_set e \<and> the_controller e' = the_controller e
      \<and> (\<forall>t' a. t' \<noteq> t \<longrightarrow> bal t' a (bare e') = bal t' a (bare e))"
    using component_tokens.call_law [OF assms, of "bare e" t v d] by (auto simp: beside_def rbind_eq_Inr)
next
  fix e e' :: "('s \<times> 'w) evm" and n h x y
  assume "ok (bare e) \<and> P (fst (outside e))" "is_uint256 n" "invokePreIssueHook (beside F) h self n x y e = Inr e'"
  then show "(ok (bare e') \<and> P (fst (outside e'))) \<and> the_set e' = the_set e \<and> the_controller e' = the_controller e
      \<and> (\<forall>t. bal t self (bare e) \<le> bal t self (bare e'))"
    using component_tokens.hook_law [OF assms, of "bare e" n h x y] by (auto simp: beside_def rbind_eq_Inr)
qed

end
