(* ===== verification/BasicIssuanceModule.thy ===== *)
theory BasicIssuanceModule
  imports Invoke
begin

section \<open>BasicIssuanceModule: issuing and redeeming Sets\<close>

text \<open>
  \<^verbatim>\<open>src/contracts/protocol/modules/v1/BasicIssuanceModule.sol\<close>. An external function takes the foreign
  code, \<open>this\<close> (the module), \<open>msg.sender\<close>, the address \<open>self\<close> of the Set and its arguments; the state is
  \<open>evm\<close>. The reentrancy guard is OpenZeppelin's: a flag set on entry and cleared on return.

  The theorems: issuing and redeeming keep the Set collateralized, whatever the component tokens do
  with the transfers they are asked for; issuing and then redeeming the same quantity gives the Set
  back its state and leaves with it at most one unit more of every component; redeeming always works
  for a holder of a collateralized Set whose components are ERC20 tokens.
\<close>

subsection \<open>Definitions\<close>

definition nonReentrant :: "('w evm \<Rightarrow> ('w evm) result) \<Rightarrow> 'w evm \<Rightarrow> ('w evm) result" where
  "nonReentrant body e =
     rbind (require (\<not> module_entered e) ''ReentrancyGuard: reentrant call'') (\<lambda>_.
     rbind (body (e\<lparr>module_entered := True\<rparr>)) (\<lambda>e1.
     Ok (e1\<lparr>module_entered := False\<rparr>)))"

definition callPreIssueHooks ::
  "'w foreign \<Rightarrow> address \<Rightarrow> int \<Rightarrow> address \<Rightarrow> address \<Rightarrow> 'w evm \<Rightarrow> (address \<times> 'w evm) result" where
  "callPreIssueHooks F self quantity caller to_account e =
     (let preIssueHook = managerIssuanceHook e self in
      if preIssueHook \<noteq> address_zero then
        rbind (invokePreIssueHook F preIssueHook self quantity caller to_account e) (\<lambda>e1. Ok (preIssueHook, e1))
      else Ok (address_zero, e))"

fun notional_units :: "set_token \<Rightarrow> address list \<Rightarrow> int \<Rightarrow> (int list) result" where
  "notional_units s [] quantity = Ok []"
| "notional_units s (k # ks) quantity =
     rbind (require (\<not> hasExternalPosition s k) ''Only default positions are supported'') (\<lambda>_.
     rbind (getDefaultPositionRealUnit s k) (\<lambda>u.
     rbind (toUint256 u) (\<lambda>un.
     rbind (preciseMulCeil_uint un quantity) (\<lambda>n.
     rbind (notional_units s ks quantity) (\<lambda>ns.
     Ok (n # ns))))))"

definition getRequiredComponentUnitsForIssue ::
  "address \<Rightarrow> address \<Rightarrow> int \<Rightarrow> 'w evm \<Rightarrow> (address list \<times> int list) result" where
  "getRequiredComponentUnitsForIssue this self quantity e =
     rbind (validateOnlyValidAndInitializedSet this (the_controller e) self (the_set e)) (\<lambda>_.
     rbind (notional_units (the_set e) (components (the_set e)) quantity) (\<lambda>notionalUnits.
     Ok (components (the_set e), notionalUnits)))"

fun deposit_loop ::
  "'w foreign \<Rightarrow> address \<Rightarrow> address \<Rightarrow> address \<Rightarrow> address list \<Rightarrow> int list \<Rightarrow> nat \<Rightarrow> 'w evm \<Rightarrow> ('w evm) result" where
  "deposit_loop F this msg_sender self [] componentQuantities i e = Ok e"
| "deposit_loop F this msg_sender self (k # ks) componentQuantities i e =
     rbind (array_get componentQuantities i) (\<lambda>n.
     rbind (base_transferFrom F this k msg_sender self n e)
       (deposit_loop F this msg_sender self ks componentQuantities (Suc i)))"

text \<open>A call of the Set by this module: the Set's new state replaces the old one.\<close>

definition on_set :: "(controller \<Rightarrow> set_token \<Rightarrow> set_token result) \<Rightarrow> 'w evm \<Rightarrow> ('w evm) result" where
  "on_set f e = rbind (f (the_controller e) (the_set e)) (\<lambda>s. Ok (e\<lparr>the_set := s\<rparr>))"

definition issue ::
  "'w foreign \<Rightarrow> address \<Rightarrow> address \<Rightarrow> address \<Rightarrow> int \<Rightarrow> address \<Rightarrow> 'w evm \<Rightarrow> ('w evm) result" where
  "issue F this msg_sender self quantity to_account = nonReentrant (\<lambda>e.
     rbind (validateOnlyValidAndInitializedSet this (the_controller e) self (the_set e)) (\<lambda>_.
     rbind (require (quantity > 0) ''Issue quantity must be > 0'') (\<lambda>_.
     rbind (callPreIssueHooks F self quantity msg_sender to_account e) (\<lambda>(hookContract, e1).
     rbind (getRequiredComponentUnitsForIssue this self quantity e1) (\<lambda>(ks, componentQuantities).
     rbind (deposit_loop F this msg_sender self ks componentQuantities 0 e1)
       (on_set (\<lambda>c. set_mint this c to_account quantity)))))))"

fun redeem_loop ::
  "'w foreign \<Rightarrow> address \<Rightarrow> address \<Rightarrow> int \<Rightarrow> address \<Rightarrow> address list \<Rightarrow> 'w evm \<Rightarrow> ('w evm) result" where
  "redeem_loop F this self quantity to_account [] e = Ok e"
| "redeem_loop F this self quantity to_account (k # ks) e =
     rbind (require (\<not> hasExternalPosition (the_set e) k) ''Only default positions are supported'') (\<lambda>_.
     rbind (getDefaultPositionRealUnit (the_set e) k) (\<lambda>u.
     rbind (toUint256 u) (\<lambda>un.
     rbind (preciseMul_uint quantity un) (\<lambda>componentQuantity.
     rbind (strictInvokeTransfer F this self k to_account componentQuantity e)
       (redeem_loop F this self quantity to_account ks)))))"

definition redeem ::
  "'w foreign \<Rightarrow> address \<Rightarrow> address \<Rightarrow> address \<Rightarrow> int \<Rightarrow> address \<Rightarrow> 'w evm \<Rightarrow> ('w evm) result" where
  "redeem F this msg_sender self quantity to_account = nonReentrant (\<lambda>e.
     rbind (validateOnlyValidAndInitializedSet this (the_controller e) self (the_set e)) (\<lambda>_.
     rbind (require (quantity > 0) ''Redeem quantity must be > 0'') (\<lambda>_.
     rbind (on_set (\<lambda>c. set_burn this c msg_sender quantity) e) (\<lambda>e1.
     redeem_loop F this self quantity to_account (components (the_set e1)) e1))))"

definition issuance_initialize :: "address \<Rightarrow> address \<Rightarrow> address \<Rightarrow> address \<Rightarrow> 'w evm \<Rightarrow> ('w evm) result" where
  "issuance_initialize this msg_sender self preIssueHook e =
     rbind (validateOnlySetManager msg_sender (the_set e)) (\<lambda>_.
     rbind (validateOnlyValidAndPendingSet this (the_controller e) self (the_set e)) (\<lambda>_.
     on_set (\<lambda>c. initializeModule this)
       (e\<lparr>managerIssuanceHook := (managerIssuanceHook e)(self := preIssueHook)\<rparr>)))"

definition issuance_removeModule :: "'w evm \<Rightarrow> ('w evm) result" where
  "issuance_removeModule e = Err (Revert ''The BasicIssuanceModule module cannot be removed'')"

subsection \<open>The quantities\<close>

text \<open>The real unit of a default position, as a number; only meaningful where it does not overflow.\<close>

definition real_unit :: "set_token \<Rightarrow> address \<Rightarrow> int" where
  "real_unit s k = virtualUnit (componentPositions s k) * positionMultiplier s div PRECISE_UNIT"

definition deposit_quantity :: "int \<Rightarrow> int \<Rightarrow> int" where
  "deposit_quantity u q = - ((- (u * q)) div PRECISE_UNIT)"

lemma real_unit_Inr:
  assumes "position_inv s" "getDefaultPositionRealUnit s k = Inr u" "toUint256 u = Inr n"
  shows "u = real_unit s k \<and> n = real_unit s k \<and> is_uint256 (real_unit s k)"
proof -
  have "u = real_unit s k" "is_int256 u" using real_unit_typed [OF assms(1,2)] unfolding real_unit_def by blast+
  moreover have "0 \<le> u" "n = u" using assms(3) by (simp_all add: toUint256_eq_Inr)
  ultimately show ?thesis by (simp add: is_int256_def is_uint256_def)
qed

lemma deposit_quantity_bounds:
  assumes "0 \<le> u * q"
  shows "u * q div PRECISE_UNIT \<le> deposit_quantity u q" "deposit_quantity u q \<le> u * q div PRECISE_UNIT + 1"
    "u * q \<le> deposit_quantity u q * PRECISE_UNIT" "0 \<le> deposit_quantity u q"
proof -
  have d: "deposit_quantity u q = (if PRECISE_UNIT dvd u * q then u * q div PRECISE_UNIT else u * q div PRECISE_UNIT + 1)"
    unfolding deposit_quantity_def by (rule div_ceiling_pos) simp
  then show le: "u * q div PRECISE_UNIT \<le> deposit_quantity u q" "deposit_quantity u q \<le> u * q div PRECISE_UNIT + 1" by auto
  show "u * q \<le> deposit_quantity u q * PRECISE_UNIT"
    unfolding d using less_div_mult_int [of PRECISE_UNIT "u * q"] by (auto simp: dvd_div_mult_self)
  show "0 \<le> deposit_quantity u q" using le(1) assms by (simp add: pos_imp_zdiv_nonneg_iff order_trans [rotated])
qed

lemma notional_units_Inr:
  assumes "position_inv s" "is_uint256 q" "notional_units s ks q = Inr ns"
  shows "ns = map (\<lambda>k. deposit_quantity (real_unit s k) q) ks
    \<and> (\<forall>k \<in> set ks. is_uint256 (real_unit s k) \<and> real_unit s k * q \<le> MAX_UINT_256 \<and> getExternalPositionModules s k = [])"
  using assms(3)
proof (induction ks arbitrary: ns)
  case (Cons k ks)
  then obtain u un n ns' where st: "\<not> hasExternalPosition s k" "getDefaultPositionRealUnit s k = Inr u" "toUint256 u = Inr un"
    "preciseMulCeil_uint un q = Inr n" "notional_units s ks q = Inr ns'" "ns = n # ns'"
    by (auto simp: rbind_eq_Inr require_eq_Inr)
  note R = real_unit_Inr [OF assms(1) st(2,3)]
  have "real_unit s k * q \<le> MAX_UINT_256 \<and> n = deposit_quantity (real_unit s k) q"
    using st(4) R assms(2) by (auto simp: preciseMulCeil_uint_exact deposit_quantity_def split: if_splits)
  then show ?case using Cons.IH [OF st(5)] st(1,6) R by (simp add: hasExternalPosition_def)
qed simp

lemma deposit_quantity_typed:
  assumes "is_uint256 u" "is_uint256 q" "u * q \<le> MAX_UINT_256"
  shows "is_uint256 (deposit_quantity u q)"
proof -
  have p: "0 \<le> u * q" using assms(1,2) by (simp add: is_uint256_def)
  have "u * q div PRECISE_UNIT < MAX_UINT_256" using assms(3) by (simp add: div_less_iff_int)
  then show ?thesis using deposit_quantity_bounds(2,4) [OF p] by (simp add: is_uint256_def)
qed

lemma issue_amounts:
  assumes "set_inv s" "is_uint256 n"
  shows "set_mint x c a n s = Inr s' \<Longrightarrow> set_inv s' \<and>
      s' = s\<lparr>balances := (balances s)(a := balances s a + n), totalSupply := totalSupply s + n\<rparr>"
    "set_burn x c a n s = Inr s' \<Longrightarrow> set_inv s' \<and> n \<le> balances s a \<and>
      s' = s\<lparr>balances := (balances s)(a := balances s a - n), totalSupply := totalSupply s - n\<rparr>"
proof -
  have ty: "is_uint256 (balances s b)" "is_uint256 (totalSupply s)" for b
    using assms(1) by (simp_all add: set_inv_def ledger_inv_def erc20_typed_def)
  assume m: "set_mint x c a n s = Inr s'"
  then have "erc20_mint a n s = Inr s'" by (simp add: set_mint_def privileged_eq_Inr)
  then show "set_inv s' \<and> s' = s\<lparr>balances := (balances s)(a := balances s a + n), totalSupply := totalSupply s + n\<rparr>"
    using set_inv_exec [OF assms(1), of "Mint a n"] m assms(2) ty
    by (auto simp: erc20_mint_def rbind_eq_Inr require_eq_Inr safe_add_eq_Inr)
next
  have ty: "is_uint256 (balances s b)" "is_uint256 (totalSupply s)" for b
    using assms(1) by (simp_all add: set_inv_def ledger_inv_def erc20_typed_def)
  assume b: "set_burn x c a n s = Inr s'"
  then have "erc20_burn a n s = Inr s'" by (simp add: set_burn_def privileged_eq_Inr)
  then show "set_inv s' \<and> n \<le> balances s a \<and> s' = s\<lparr>balances := (balances s)(a := balances s a - n), totalSupply := totalSupply s - n\<rparr>"
    using set_inv_exec [OF assms(1), of "Burn a n"] b assms(2) ty
    by (auto simp: erc20_burn_def rbind_eq_Inr require_eq_Inr safe_sub_eq_Inr safe_sub_msg_eq_Inr)
qed

lemma supply_update_positions [simp]:
  "getDefaultPositionRealUnit (s\<lparr>balances := b, totalSupply := n\<rparr>) = getDefaultPositionRealUnit s"
  "real_unit (s\<lparr>balances := b, totalSupply := n\<rparr>) = real_unit s"
  by (simp_all add: fun_eq_iff real_unit_defs convertVirtualToRealUnit_def real_unit_def)

subsection \<open>The loops\<close>

context component_tokens
begin

text \<open>A sequence of transfers of the tokens \<open>ks\<close>, each by \<open>f k\<close> at the Set.\<close>

definition all_moved :: "address list \<Rightarrow> (address \<Rightarrow> int) \<Rightarrow> 'w evm \<Rightarrow> 'w evm \<Rightarrow> bool" where
  "all_moved ks f e e' \<longleftrightarrow> wf e' \<and> the_set e' = the_set e \<and> the_controller e' = the_controller e
     \<and> (\<forall>k \<in> set ks. bal k self e' = bal k self e + f k) \<and> (\<forall>t. t \<notin> set ks \<longrightarrow> bal t self e' = bal t self e)"

lemma all_moved_Cons: "moved k (f k) e e1 \<Longrightarrow> all_moved ks f e1 e' \<Longrightarrow> k \<notin> set ks \<Longrightarrow> all_moved (k # ks) f e e'"
  by (auto simp: moved_def all_moved_def)

lemma deposit_loop_Inr:
  assumes "wf e" "distinct ks" "self \<notin> set ks" "\<forall>k \<in> set ks. is_uint256 (f k)"
    "\<forall>j < length ks. i + j < length qs \<and> qs ! (i + j) = f (ks ! j)" "deposit_loop F this x self ks qs i e = Inr e'"
  shows "all_moved ks f e e'"
  using assms
proof (induction ks arbitrary: i e)
  case (Cons k ks)
  have "qs ! i = f k" using Cons.prems(5) by force
  then obtain e1 where e1: "base_transferFrom F this k x self (f k) e = Inr e1"
    and e': "deposit_loop F this x self ks qs (Suc i) e1 = Inr e'"
    using Cons.prems(6) by (auto simp: rbind_eq_Inr array_get_eq_Inr)
  have m: "moved k (f k) e e1" using explicit_transferFrom_Inr [OF Cons.prems(1) _ _ e1] Cons.prems(3,4) by simp
  have "\<forall>j < length ks. Suc i + j < length qs \<and> qs ! (Suc i + j) = f (ks ! j)"
    using Cons.prems(5) by (metis Suc_less_eq add_Suc_shift length_Cons nth_Cons_Suc)
  then have "all_moved ks f e1 e'" using Cons.IH [OF _ _ _ _ _ e'] Cons.prems m by (simp add: moved_def)
  then show ?case using m Cons.prems(2) by (simp add: all_moved_Cons)
qed (simp add: all_moved_def)

lemma redeem_loop_Inr:
  assumes "wf e" "position_inv (the_set e)" "is_uint256 q" "distinct ks" "self \<notin> set ks"
    "redeem_loop F this self q y ks e = Inr e'"
  shows "all_moved ks (\<lambda>k. - (q * real_unit (the_set e) k div PRECISE_UNIT)) e e'
    \<and> (\<forall>k \<in> set ks. is_uint256 (real_unit (the_set e) k))"
  using assms
proof (induction ks arbitrary: e)
  case (Cons k ks)
  obtain u un n e1 where st: "getDefaultPositionRealUnit (the_set e) k = Inr u" "toUint256 u = Inr un"
    "preciseMul_uint q un = Inr n" and e1: "strictInvokeTransfer F this self k y n e = Inr e1"
    and e': "redeem_loop F this self q y ks e1 = Inr e'"
    using Cons.prems(6) by (auto simp: rbind_eq_Inr)
  note R = real_unit_Inr [OF Cons.prems(2) st(1,2)]
  have n: "n = q * real_unit (the_set e) k div PRECISE_UNIT" "is_uint256 n"
    using st(3) R Cons.prems(3) by (auto simp: preciseMul_uint_eq_Inr intro!: is_uint256_div is_uint256_mult)
  have m: "moved k (- n) e e1" using strictInvokeTransfer_Inr [OF Cons.prems(1) n(2) _ e1] Cons.prems(5) by simp
  then have "the_set e1 = the_set e" "wf e1" by (simp_all add: moved_def)
  with Cons.IH [OF _ _ Cons.prems(3) _ _ e'] Cons.prems(2,4,5)
  have "all_moved ks (\<lambda>k. - (q * real_unit (the_set e) k div PRECISE_UNIT)) e1 e' \<and> (\<forall>k \<in> set ks. is_uint256 (real_unit (the_set e) k))"
    by simp
  then show ?case using m n(1) R Cons.prems(4) by (simp add: all_moved_Cons)
qed (simp add: all_moved_def)

lemma hook_step:
  assumes "wf e" "is_uint256 q" "callPreIssueHooks F self q x y e = Inr (h, e1)"
  shows "wf e1 \<and> the_set e1 = the_set e \<and> the_controller e1 = the_controller e \<and> (\<forall>t. bal t self e \<le> bal t self e1)
    \<and> (managerIssuanceHook e self = address_zero \<longrightarrow> e1 = e)"
  using assms hook_law [OF assms(1,2)] by (auto simp: callPreIssueHooks_def Let_def rbind_eq_Inr split: if_splits)

lemma issue_Inr:
  assumes "wf e" "set_inv (the_set e)" "self \<notin> set (components (the_set e))" "is_uint256 q"
    "issue F this x self q y e = Inr e'"
  shows "wf e' \<and> set_mint this (the_controller e) y q (the_set e) = Inr (the_set e')
    \<and> (\<forall>k \<in> set (components (the_set e)). is_uint256 (real_unit (the_set e) k)
         \<and> bal k self e + deposit_quantity (real_unit (the_set e) k) q \<le> bal k self e'
         \<and> (managerIssuanceHook e self = address_zero \<longrightarrow>
              bal k self e' = bal k self e + deposit_quantity (real_unit (the_set e) k) q))"
proof -
  let ?s = "the_set e" and ?e0 = "e\<lparr>module_entered := True\<rparr>"
  have inv: "position_inv ?s" "distinct (components ?s)" using assms(2) by (simp_all add: set_inv_def position_inv_def)
  obtain h e1 ns e2 e3 where h: "callPreIssueHooks F self q x y ?e0 = Inr (h, e1)"
    and ns: "notional_units (the_set e1) (components (the_set e1)) q = Inr ns"
    and e2: "deposit_loop F this x self (components (the_set e1)) ns 0 e1 = Inr e2"
    and e3: "set_mint this (the_controller e2) y q (the_set e2) = Inr e3" "e' = e2\<lparr>the_set := e3, module_entered := False\<rparr>"
    using assms(5) by (auto simp: issue_def nonReentrant_def on_set_def getRequiredComponentUnitsForIssue_def rbind_eq_Inr)
  have w0: "wf ?e0" using own_state [of ?e0 e] assms(1) by simp
  note H = hook_step [OF w0 assms(4) h]
  then have s1: "the_set e1 = ?s" "the_controller e1 = the_controller e" by simp_all
  let ?d = "\<lambda>k. deposit_quantity (real_unit ?s k) q"
  have N: "ns = map ?d (components ?s)" "\<forall>k \<in> set (components ?s). is_uint256 (real_unit ?s k) \<and> is_uint256 (?d k)"
    using notional_units_Inr [OF inv(1) assms(4)] ns s1 deposit_quantity_typed [OF _ assms(4)] by auto
  have M: "all_moved (components ?s) ?d e1 e2"
    using deposit_loop_Inr [of e1 "components ?s" ?d 0 ns] H inv(2) assms(3) N e2 s1 by simp
  have b: "bal k self e' = bal k self e2" "bal k self ?e0 = bal k self e" for k
    using own_state [of e' e2] own_state [of ?e0 e] e3(2) by simp_all
  have "wf e'" using own_state [of e' e2] e3(2) M by (simp add: all_moved_def)
  moreover have "set_mint this (the_controller e) y q ?s = Inr (the_set e')"
    using e3 M s1 by (simp add: all_moved_def)
  ultimately show ?thesis using M N(2) H b by (auto simp: all_moved_def)
qed

lemma redeem_Inr:
  assumes "wf e" "set_inv (the_set e)" "self \<notin> set (components (the_set e))" "is_uint256 q"
    "redeem F this x self q y e = Inr e'"
  shows "wf e' \<and> set_burn this (the_controller e) x q (the_set e) = Inr (the_set e')
    \<and> (\<forall>k \<in> set (components (the_set e)). is_uint256 (real_unit (the_set e) k)
         \<and> bal k self e' = bal k self e - q * real_unit (the_set e) k div PRECISE_UNIT)"
proof -
  let ?s = "the_set e" and ?e0 = "e\<lparr>module_entered := True\<rparr>"
  obtain s1 e2 where s1: "set_burn this (the_controller e) x q ?s = Inr s1"
    and e2: "redeem_loop F this self q y (components s1) (?e0\<lparr>the_set := s1\<rparr>) = Inr e2" and e': "e' = e2\<lparr>module_entered := False\<rparr>"
    using assms(5) by (auto simp: redeem_def nonReentrant_def on_set_def rbind_eq_Inr)
  let ?e1 = "?e0\<lparr>the_set := s1\<rparr>"
  note B = issue_amounts(2) [OF assms(2,4) s1]
  have w: "wf ?e1" and b1: "bal k self ?e1 = bal k self e" for k
    using own_state [of ?e1 e] assms(1) by simp_all
  have fr: "components s1 = components ?s" "real_unit s1 = real_unit ?s" using B by simp_all
  have "set_inv s1" using B by blast
  then have inv: "position_inv s1" "distinct (components s1)" by (simp_all add: set_inv_def position_inv_def)
  have R: "all_moved (components ?s) (\<lambda>k. - (q * real_unit ?s k div PRECISE_UNIT)) ?e1 e2"
    "\<forall>k \<in> set (components ?s). is_uint256 (real_unit ?s k)"
    using redeem_loop_Inr [OF w _ assms(4) inv(2) _ e2] inv(1) assms(3) fr by simp_all
  have "wf e'" "bal k self e' = bal k self e2" for k
    using own_state [of e' e2] e' R(1) by (simp_all add: all_moved_def)
  then show ?thesis using R b1 s1 e' by (auto simp: all_moved_def)
qed

end

subsection \<open>Collateral\<close>

text \<open>Every Set token is backed: supply times unit is on the Set's account, for every component.\<close>

definition collateralized :: "'w foreign \<Rightarrow> address \<Rightarrow> 'w evm \<Rightarrow> bool" where
  "collateralized F self e \<longleftrightarrow> (\<forall>k \<in> set (components (the_set e)). \<forall>u b.
     getDefaultPositionRealUnit (the_set e) k = Inr u \<longrightarrow> balance_of F k self e = Inr b \<longrightarrow>
     totalSupply (the_set e) * u \<le> b * PRECISE_UNIT)"

context component_tokens
begin

lemma collateral_issue:
  assumes "wf e" "set_inv (the_set e)" "self \<notin> set (components (the_set e))" "is_uint256 q" "collateralized F self e"
    "issue F this x self q y e = Inr e'"
  shows "collateralized F self e' \<and> set_inv (the_set e')"
proof -
  let ?s = "the_set e"
  have I: "set_mint this (the_controller e) y q ?s = Inr (the_set e')"
    "\<forall>k \<in> set (components ?s). is_uint256 (real_unit ?s k) \<and> bal k self e + deposit_quantity (real_unit ?s k) q \<le> bal k self e'"
    using issue_Inr [OF assms(1-4,6)] by blast+
  note M = issue_amounts(1) [OF assms(2,4) I(1)]
  have "(totalSupply ?s + q) * u \<le> b * PRECISE_UNIT"
    if k: "k \<in> set (components ?s)" and u: "getDefaultPositionRealUnit ?s k = Inr u" and b: "balance_of F k self e' = Inr b" for k u b
  proof -
    have r: "u = real_unit ?s k" "is_uint256 (real_unit ?s k)"
      using real_unit_typed [OF _ u] assms(2) I(2) k by (auto simp: set_inv_def real_unit_def)
    have ks: "k \<noteq> self" using k assms(3) by blast
    have "totalSupply ?s * u \<le> bal k self e * PRECISE_UNIT"
      using assms(5) k u readable [OF ks] unfolding collateralized_def by blast
    moreover have "u * q \<le> deposit_quantity u q * PRECISE_UNIT"
      using deposit_quantity_bounds(3) [of u q] r assms(4) by (simp add: is_uint256_def)
    moreover have "(bal k self e + deposit_quantity u q) * PRECISE_UNIT \<le> b * PRECISE_UNIT"
      using I(2) k r b readable [OF ks] by (intro mult_right_mono) auto
    ultimately show ?thesis by (simp add: distrib_right mult.commute [of u q])
  qed
  moreover have "components (the_set e') = components ?s" "totalSupply (the_set e') = totalSupply ?s + q"
    "getDefaultPositionRealUnit (the_set e') = getDefaultPositionRealUnit ?s" using M by simp_all
  ultimately show ?thesis using conjunct1 [OF M] unfolding collateralized_def by simp
qed

lemma collateral_redeem:
  assumes "wf e" "set_inv (the_set e)" "self \<notin> set (components (the_set e))" "is_uint256 q" "collateralized F self e"
    "redeem F this x self q y e = Inr e'"
  shows "collateralized F self e' \<and> set_inv (the_set e')"
proof -
  let ?s = "the_set e"
  have I: "set_burn this (the_controller e) x q ?s = Inr (the_set e')"
    "\<forall>k \<in> set (components ?s). is_uint256 (real_unit ?s k) \<and> bal k self e' = bal k self e - q * real_unit ?s k div PRECISE_UNIT"
    using redeem_Inr [OF assms(1-4,6)] by blast+
  note M = issue_amounts(2) [OF assms(2,4) I(1)]
  have "(totalSupply ?s - q) * u \<le> b * PRECISE_UNIT"
    if k: "k \<in> set (components ?s)" and u: "getDefaultPositionRealUnit ?s k = Inr u" and b: "balance_of F k self e' = Inr b" for k u b
  proof -
    have r: "u = real_unit ?s k" using real_unit_typed [OF _ u] assms(2) by (auto simp: set_inv_def real_unit_def)
    have ks: "k \<noteq> self" using k assms(3) by blast
    have "totalSupply ?s * u \<le> bal k self e * PRECISE_UNIT"
      using assms(5) k u readable [OF ks] unfolding collateralized_def by blast
    moreover have "q * u div PRECISE_UNIT * PRECISE_UNIT \<le> q * u" by (rule div_mult_le_int) simp
    moreover have "b = bal k self e - q * u div PRECISE_UNIT" using I(2) k r b readable [OF ks] by auto
    ultimately show ?thesis by (simp add: left_diff_distrib)
  qed
  moreover have "components (the_set e') = components ?s" "totalSupply (the_set e') = totalSupply ?s - q"
    "getDefaultPositionRealUnit (the_set e') = getDefaultPositionRealUnit ?s" using M by simp_all
  ultimately show ?thesis using conjunct1 [OF M] unfolding collateralized_def by simp
qed

lemma round_trip:
  assumes "wf e" "set_inv (the_set e)" "self \<notin> set (components (the_set e))" "is_uint256 q" "managerIssuanceHook e self = address_zero"
    "issue F this x self q y e = Inr e1" "redeem F this' y self q z e1 = Inr e2"
  shows "the_set e2 = the_set e \<and> (\<forall>k \<in> set (components (the_set e)). bal k self e \<le> bal k self e2 \<and> bal k self e2 \<le> bal k self e + 1)"
proof -
  let ?s = "the_set e"
  note I = issue_Inr [OF assms(1-4,6)]
  have m: "set_mint this (the_controller e) y q ?s = Inr (the_set e1)" using I by blast
  note M = issue_amounts(1) [OF assms(2,4) m]
  then have s1: "set_inv (the_set e1)" "the_set e1 = ?s\<lparr>balances := (balances ?s)(y := balances ?s y + q), totalSupply := totalSupply ?s + q\<rparr>"
    by blast+
  have c1: "components (the_set e1) = components ?s" "real_unit (the_set e1) = real_unit ?s" unfolding s1(2) by simp_all
  have R: "set_burn this' (the_controller e1) y q (the_set e1) = Inr (the_set e2)"
    "\<forall>k \<in> set (components ?s). bal k self e2 = bal k self e1 - q * real_unit ?s k div PRECISE_UNIT"
    using redeem_Inr [OF _ s1(1) _ assms(4,7)] I assms(3) unfolding c1 by blast+
  have "the_set e2 = ?s" using issue_amounts(2) [OF s1(1) assms(4) R(1)] s1(2) by simp
  moreover have "bal k self e \<le> bal k self e2 \<and> bal k self e2 \<le> bal k self e + 1" if k: "k \<in> set (components ?s)" for k
  proof -
    have "is_uint256 (real_unit ?s k)" "bal k self e1 = bal k self e + deposit_quantity (real_unit ?s k) q"
      using I k assms(5) by blast+
    then show ?thesis
      using deposit_quantity_bounds(1,2) [of "real_unit ?s k" q] R(2) k assms(4)
      by (simp add: is_uint256_def mult.commute [of q])
  qed
  ultimately show ?thesis by blast
qed

end

subsection \<open>Redeeming works\<close>

lemma conserved_bounds:
  assumes "conserved f n" "\<And>a. 0 \<le> f a"
  shows "f x \<le> n" "x \<noteq> y \<Longrightarrow> f x + f y \<le> n"
proof -
  let ?A = "{a. f a \<noteq> 0} \<union> {x, y}"
  have fin: "finite ?A" using assms(1) by (simp add: conserved_def)
  have n: "n = sum f ?A" using assms(1) total_superset [OF fin, of f] by (auto simp: conserved_def)
  show "f x \<le> n" unfolding n using fin assms(2) by (intro member_le_sum) auto
  show "f x + f y \<le> n" if "x \<noteq> y"
  proof -
    have "sum f {x, y} \<le> sum f ?A" using fin assms(2) by (intro sum_mono2) auto
    then show ?thesis using that n by simp
  qed
qed

text \<open>The transfer of a component out of the Set, with the checks around it.\<close>

lemma ledger_transfer_ok:
  assumes "ledger_wf e" "moduleStates (the_set e) this = INITIALIZED" "isModule (the_controller e) this" "\<not> isLocked (the_set e)"
    and acc: "self \<noteq> 0" "y \<noteq> 0" "y \<noteq> self" "is_uint256 (int y)"
    and amount: "is_uint256 n" "n \<le> ledger_bal k self e" "ledger_bal k y e + n \<le> MAX_UINT_256"
  shows "\<exists>tok. strictInvokeTransfer ledger_foreign this self k y n e = Inr (e\<lparr>outside := (outside e)(k := tok)\<rparr>)
    \<and> balances tok y = ledger_bal k y e + n"
proof (cases "0 < n")
  case True
  let ?t = "outside e k"
  let ?tok = "?t\<lparr>balances := (balances ?t)(self := balances ?t self - n, y := balances ?t y + n)\<rparr>"
  have ty: "is_uint256 (balances ?t a)" for a using assms(1) by (simp add: ledger_wf_def erc20_typed_def)
  have tr: "transfer self y n ?t = Inr ?tok"
    using acc amount ty by (simp add: transfer_def erc20_transfer_internal_def Let_def safe_sub_msg_exact safe_add_exact)
  have call: "functionCallWithValue ledger_foreign self k 0
      (encodeWithSignature ledger_foreign ''transfer(address,uint256)'' [int y, n]) e
      = Inr (e\<lparr>outside := (outside e)(k := ?tok)\<rparr>, abi_word 1)"
    using dispatch_transfer [OF acc(4) amount(1), of self ?t] tr
    by (simp add: ledger_foreign_def update_token_def)
  have inv: "invokeTransfer ledger_foreign this self k y n e = Inr (e\<lparr>outside := (outside e)(k := ?tok)\<rparr>)"
    using True assms(2-4) call
    by (simp add: invokeTransfer_def set_invoke_def invoke_def guard_defs Let_def)
  have bal: "balance_of ledger_foreign k self e = Inr (balances ?t self)"
    "balance_of ledger_foreign k self (e\<lparr>outside := (outside e)(k := ?tok)\<rparr>) = Inr (balances ?t self - n)"
    using acc(3) by (simp_all add: ledger_foreign_def balanceOf_def)
  have "strictInvokeTransfer ledger_foreign this self k y n e = Inr (e\<lparr>outside := (outside e)(k := ?tok)\<rparr>)"
    using True amount ty by (simp add: strictInvokeTransfer_def inv bal safe_sub_exact)
  then show ?thesis by auto
next
  case False
  then have "n = 0" using amount(1) by (simp add: is_uint256_def)
  then show ?thesis by (intro exI [of _ "outside e k"]) (simp add: strictInvokeTransfer_def)
qed

definition redeemable :: "address \<Rightarrow> address \<Rightarrow> int \<Rightarrow> address \<Rightarrow> (address \<Rightarrow> erc20) evm \<Rightarrow> bool" where
  "redeemable self y q k e \<longleftrightarrow> (\<exists>u. getDefaultPositionRealUnit (the_set e) k = Inr u \<and> is_uint256 u \<and> q * u \<le> MAX_UINT_256
     \<and> getExternalPositionModules (the_set e) k = [] \<and> q * u div PRECISE_UNIT \<le> ledger_bal k self e
     \<and> ledger_bal k y e + q * u div PRECISE_UNIT \<le> MAX_UINT_256)"

lemma redeem_loop_ok:
  assumes "ledger_wf e" "moduleStates (the_set e) this = INITIALIZED" "isModule (the_controller e) this" "\<not> isLocked (the_set e)"
    "self \<noteq> 0" "y \<noteq> 0" "y \<noteq> self" "is_uint256 (int y)" "is_uint256 q" "distinct ks" "self \<notin> set ks"
    "\<forall>k \<in> set ks. redeemable self y q k e"
  shows "\<exists>e'. redeem_loop ledger_foreign this self q y ks e = Inr e' \<and> (\<forall>t. t \<notin> set ks \<longrightarrow> outside e' t = outside e t)
    \<and> (\<forall>k \<in> set ks. \<forall>u. getDefaultPositionRealUnit (the_set e) k = Inr u \<longrightarrow> ledger_bal k y e' = ledger_bal k y e + q * u div PRECISE_UNIT)"
  using assms
proof (induction ks arbitrary: e)
  case (Cons k ks)
  obtain u where u: "getDefaultPositionRealUnit (the_set e) k = Inr u" "is_uint256 u" "q * u \<le> MAX_UINT_256"
    "getExternalPositionModules (the_set e) k = []" "q * u div PRECISE_UNIT \<le> ledger_bal k self e"
    "ledger_bal k y e + q * u div PRECISE_UNIT \<le> MAX_UINT_256"
    using Cons.prems(12) by (auto simp: redeemable_def)
  let ?n = "q * u div PRECISE_UNIT"
  have n: "is_uint256 ?n" using u(2,3) Cons.prems(9) by (simp add: is_uint256_div is_uint256_mult)
  obtain tok where tok: "strictInvokeTransfer ledger_foreign this self k y ?n e = Inr (e\<lparr>outside := (outside e)(k := tok)\<rparr>)"
    "balances tok y = ledger_bal k y e + ?n"
    using ledger_transfer_ok [OF Cons.prems(1-8) n u(5,6)] by blast
  let ?e1 = "e\<lparr>outside := (outside e)(k := tok)\<rparr>"
  have wf: "ledger_wf ?e1"
    using ledger.strictInvokeTransfer_Inr [OF Cons.prems(1) n _ tok(1)] Cons.prems(11) by (simp add: ledger.moved_def)
  have "\<forall>j \<in> set ks. redeemable self y q j ?e1"
    using Cons.prems(10,12) by (auto simp: redeemable_def)
  then obtain e' where e': "redeem_loop ledger_foreign this self q y ks ?e1 = Inr e'" "\<forall>t. t \<notin> set ks \<longrightarrow> outside e' t = outside ?e1 t"
    "\<forall>j \<in> set ks. \<forall>u. getDefaultPositionRealUnit (the_set e) j = Inr u \<longrightarrow> ledger_bal j y e' = ledger_bal j y ?e1 + q * u div PRECISE_UNIT"
    using Cons.IH [OF wf] Cons.prems(2-11) by auto
  have "redeem_loop ledger_foreign this self q y (k # ks) e = Inr e'"
    using u tok(1) e'(1) Cons.prems(9)
    by (simp add: hasExternalPosition_def toUint256_def is_uint256_def preciseMul_uint_exact)
  then show ?case using e'(2,3) u(1) tok(2) Cons.prems(10) by auto
qed simp

subsection \<open>Properties\<close>

text \<open>A holder (account 30) of two tokens, the Set at address 20, the issuance module 7.\<close>

definition demo_token :: erc20 where
  "demo_token = (erc20_constructor ''T'' ''T'')\<lparr>balances := (\<lambda>_. 0)(30 := 10 ^ 24), totalSupply := 10 ^ 24,
     allowances := (\<lambda>_ _. 0)(30 := (\<lambda>_. 0)(7 := 10 ^ 24))\<rparr>"

definition demo_evm :: "(address \<Rightarrow> erc20) evm" where
  "demo_evm = \<lparr>the_controller = demo_controller\<lparr>isSet := (\<lambda>a. a = 20)\<rparr>, the_set = demo_set,
     managerIssuanceHook = (\<lambda>_. 0), module_entered = False, outside = (\<lambda>_. demo_token)\<rparr>"

lemma demo_evm_ok: "ledger_wf demo_evm" "set_inv (the_set demo_evm)" "20 \<notin> set (components (the_set demo_evm))"
  "is_uint256 (10 ^ 18)" "collateralized ledger_foreign 20 demo_evm"
proof -
  show "set_inv (the_set demo_evm)" by (simp add: demo_evm_def demo_set_inv)
qed (auto simp: demo_evm_def ledger_wf_def erc20_typed_def demo_token_def erc20_constructor_def is_uint256_def demo_set_def
      collateralized_def ledger_foreign_def balanceOf_def)

lemma demo_issue: "\<exists>e. issue ledger_foreign 7 30 20 (10 ^ 18) 30 demo_evm = Inr e"
proof -
  have "is_ok (issue ledger_foreign 7 30 20 (10 ^ 18) 30 demo_evm)"
    unfolding demo_evm_def demo_token_def demo_set_def demo_controller_def by code_simp
  then show ?thesis by (simp add: is_ok_iff)
qed

text \<open>
  C2. Issuing and redeeming keep a Set collateralized and its invariant intact: supply times unit stays
  covered by the Set's balance in every component. Nothing is assumed about the amounts the component
  tokens really move, only that a transfer of one token does not touch the Set or its other balances.
\<close>

theorem issuance_keeps_collateral:
  assumes "component_tokens F self bal ok" "ok e" "set_inv (the_set e)" "self \<notin> set (components (the_set e))" "is_uint256 q"
    "collateralized F self e"
  shows "(issue F this x self q y e = Inr e1 \<longrightarrow> collateralized F self e1 \<and> set_inv (the_set e1))
    \<and> (redeem F this x self q y e = Inr e2 \<longrightarrow> collateralized F self e2 \<and> set_inv (the_set e2))"
  using component_tokens.collateral_issue [OF assms(1-6)] component_tokens.collateral_redeem [OF assms(1-6)] by blast

theorem issuance_keeps_collateral_witness:
  "\<exists>e. issue ledger_foreign 7 30 20 (10 ^ 18) 30 demo_evm = Inr e \<and> collateralized ledger_foreign 20 e"
  using demo_issue issuance_keeps_collateral [OF ledger.component_tokens_axioms demo_evm_ok] by blast

text \<open>
  C9. Issuing a quantity and redeeming it again restores the Set exactly, and leaves with it, of every
  component, what it held before and at most one unit more: rounding is never in the user's favour.
\<close>

theorem issue_redeem_round_trip:
  assumes "component_tokens F self bal ok" "ok e" "set_inv (the_set e)" "self \<notin> set (components (the_set e))" "is_uint256 q"
    "managerIssuanceHook e self = address_zero" "issue F this x self q y e = Inr e1" "redeem F this' y self q z e1 = Inr e2"
  shows "the_set e2 = the_set e
    \<and> (\<forall>k \<in> set (components (the_set e)). bal k self e \<le> bal k self e2 \<and> bal k self e2 \<le> bal k self e + 1)"
  using component_tokens.round_trip [OF assms] .

text \<open>One base unit of a Set that holds half a unit of component 2 per Set: the half stays with the Set.\<close>

abbreviation (input) half_evm :: "(address \<Rightarrow> erc20) evm" where
  "half_evm \<equiv> demo_evm\<lparr>the_set := demo_set\<lparr>components := [2]\<rparr>\<rparr>"

lemma half_evm_ok: "ledger_wf half_evm" "set_inv (the_set half_evm)" "20 \<notin> set (components (the_set half_evm))" "is_uint256 1"
  "managerIssuanceHook half_evm 20 = address_zero"
  using demo_evm_ok(1) demo_set_inv
  by (simp_all add: ledger_wf_def demo_evm_def set_inv_def module_inv_def position_inv_def ledger_inv_def erc20_typed_def
      virtual_typed_def units_ok_def getExternalPositionModules_def defaultPositionVirtualUnit_def externalPositionVirtualUnit_def)

theorem issue_redeem_round_trip_witness:
  "\<exists>e1 e2. issue ledger_foreign 7 30 20 1 30 half_evm = Inr e1 \<and> redeem ledger_foreign 7 30 20 1 40 e1 = Inr e2
     \<and> the_set e2 = the_set half_evm \<and> ledger_bal 2 20 e2 \<le> ledger_bal 2 20 half_evm + 1"
proof -
  have "is_ok (rbind (issue ledger_foreign 7 30 20 1 30 half_evm) (redeem ledger_foreign 7 30 20 1 40))"
    unfolding demo_evm_def demo_token_def demo_set_def demo_controller_def by code_simp
  then obtain e1 e2 where e: "issue ledger_foreign 7 30 20 1 30 half_evm = Inr e1" "redeem ledger_foreign 7 30 20 1 40 e1 = Inr e2"
    by (auto simp: is_ok_iff rbind_eq_Inr)
  from issue_redeem_round_trip [OF ledger.component_tokens_axioms half_evm_ok e] e show ?thesis by auto
qed

definition plain_component :: "int \<Rightarrow> address \<Rightarrow> (address \<Rightarrow> erc20) evm \<Rightarrow> bool" where
  "plain_component q k e \<longleftrightarrow> getExternalPositionModules (the_set e) k = []
     \<and> conserved (balances (outside e k)) (totalSupply (outside e k))
     \<and> (\<exists>u \<ge> 0. getDefaultPositionRealUnit (the_set e) k = Inr u \<and> q * u \<le> MAX_UINT_256)"

lemma plain_redeemable:
  assumes "ledger_wf e" "set_inv (the_set e)" "collateralized ledger_foreign self e" "k \<in> set (components (the_set e))"
    "0 < q" "q \<le> totalSupply (the_set e)" "y \<noteq> self" "plain_component q k e"
  shows "redeemable self y q k e"
proof -
  let ?t = "outside e k" and ?S = "totalSupply (the_set e)"
  have ty: "is_uint256 (balances ?t a)" "is_uint256 (totalSupply ?t)" for a
    using assms(1) by (simp_all add: ledger_wf_def erc20_typed_def)
  obtain u where u: "getDefaultPositionRealUnit (the_set e) k = Inr u" "0 \<le> u" "q * u \<le> MAX_UINT_256"
    and ext: "getExternalPositionModules (the_set e) k = []" and cons: "conserved (balances ?t) (totalSupply ?t)"
    using assms(8) by (auto simp: plain_component_def)
  have "?S * u \<le> balances ?t self * PRECISE_UNIT"
    using assms(3,4) u(1) by (auto simp: collateralized_def ledger_foreign_def balanceOf_def)
  moreover have "q * u \<le> ?S * u" using assms(6) u(2) by (rule mult_right_mono)
  ultimately have "q * u \<le> balances ?t self * PRECISE_UNIT" by simp
  then have "q * u div PRECISE_UNIT \<le> balances ?t self * PRECISE_UNIT div PRECISE_UNIT" by (rule zdiv_mono1) simp
  then have n: "q * u div PRECISE_UNIT \<le> balances ?t self" by simp
  have "balances ?t y + balances ?t self \<le> totalSupply ?t"
    using conserved_bounds(2) [OF cons] ty(1) assms(7) by (simp add: is_uint256_def)
  then have "balances ?t y + q * u div PRECISE_UNIT \<le> MAX_UINT_256" using n ty(2) by (simp add: is_uint256_def)
  moreover have "is_uint256 u"
    using real_unit_typed [OF _ u(1)] assms(2) u(2) by (simp add: set_inv_def is_int256_def is_uint256_def)
  ultimately show ?thesis using u ext n unfolding redeemable_def by blast
qed

text \<open>
  C10. Users can always redeem. For a collateralized Set whose components are plain default positions in
  ERC20 tokens, \<open>redeem\<close> succeeds for every holder and every quantity up to the holder's balance, burns
  exactly the quantity, and pays the recipient the floor of quantity times unit of every component.
\<close>

theorem redeem_always_possible:
  assumes "ledger_wf e" "set_inv (the_set e)" "self \<notin> set (components (the_set e))" "collateralized ledger_foreign self e"
    and module: "isSet (the_controller e) self" "moduleStates (the_set e) this = INITIALIZED" "isModule (the_controller e) this"
      "\<not> isLocked (the_set e)" "\<not> module_entered e"
    and holder: "0 < q" "q \<le> balances (the_set e) x" "x \<noteq> 0"
    and recipient: "self \<noteq> 0" "y \<noteq> 0" "y \<noteq> self" "is_uint256 (int y)"
    and plain: "\<forall>k \<in> set (components (the_set e)). plain_component q k e"
  shows "\<exists>e'. redeem ledger_foreign this x self q y e = Inr e' \<and> balances (the_set e') x = balances (the_set e) x - q
    \<and> (\<forall>k \<in> set (components (the_set e)). \<forall>u. getDefaultPositionRealUnit (the_set e) k = Inr u \<longrightarrow>
         ledger_bal k y e' = ledger_bal k y e + q * u div PRECISE_UNIT)"
proof -
  let ?s = "the_set e"
  have ty: "is_uint256 (balances ?s a)" "is_uint256 (totalSupply ?s)" for a
    using assms(2) by (simp_all add: set_inv_def ledger_inv_def erc20_typed_def)
  have q: "is_uint256 q" using ty(1) [of x] holder by (simp add: is_uint256_def)
  have "conserved (balances ?s) (totalSupply ?s)" using assms(2) by (simp add: set_inv_def ledger_inv_def)
  then have "balances ?s x \<le> totalSupply ?s" by (rule conserved_bounds(1)) (rule is_uint256_nonneg [OF ty(1)])
  then have S: "q \<le> totalSupply ?s" using holder(2) by simp
  let ?s1 = "?s\<lparr>balances := (balances ?s)(x := balances ?s x - q), totalSupply := totalSupply ?s - q\<rparr>"
  let ?e1 = "e\<lparr>module_entered := True, the_set := ?s1\<rparr>"
  have burn: "set_burn this (the_controller e) x q ?s = Inr ?s1"
    using module holder ty S q by (simp add: set_burn_def guard_defs erc20_burn_def safe_sub_msg_exact safe_sub_exact)
  have R: "\<forall>k \<in> set (components ?s). redeemable self y q k e"
    using plain_redeemable [OF assms(1,2,4) _ holder(1) S recipient(3)] plain by blast
  then have "\<forall>k \<in> set (components ?s1). redeemable self y q k ?e1"
    by (simp add: redeemable_def getExternalPositionModules_def)
  moreover have "ledger_wf ?e1" using assms(1) by (simp add: ledger_wf_def)
  moreover have "distinct (components ?s1)" using assms(2) by (simp add: set_inv_def position_inv_def)
  ultimately obtain e2 where loop: "redeem_loop ledger_foreign this self q y (components ?s1) ?e1 = Inr e2"
    and paid: "\<forall>k \<in> set (components ?s). \<forall>u. getDefaultPositionRealUnit ?s k = Inr u \<longrightarrow>
      ledger_bal k y e2 = ledger_bal k y e + q * u div PRECISE_UNIT"
    using redeem_loop_ok [of ?e1 this self y q "components ?s1"] module recipient q assms(3) by auto
  have "redeem ledger_foreign this x self q y e = Inr (e2\<lparr>module_entered := False\<rparr>)"
    using burn loop module holder(1)
    by (simp add: redeem_def nonReentrant_def on_set_def validateOnlyValidAndInitializedSet_def isSetValidAndInitialized_def
        isInitializedModule_def)
  moreover from ledger.redeem_Inr [OF assms(1-3) q this]
  have "the_set (e2\<lparr>module_entered := False\<rparr>) = ?s1" using burn by simp
  then have "balances (the_set (e2\<lparr>module_entered := False\<rparr>)) x = balances ?s x - q" by simp
  ultimately show ?thesis using paid by auto
qed

text \<open>The Set of the examples after account 30 was issued one Set, with its components on the Set's account.\<close>

definition held_evm :: "(address \<Rightarrow> erc20) evm" where
  "held_evm = \<lparr>the_controller = demo_controller\<lparr>isSet := (\<lambda>a. a = 20)\<rparr>,
     the_set = demo_set\<lparr>balances := (\<lambda>_. 0)(30 := 10 ^ 18), totalSupply := 10 ^ 18\<rparr>,
     managerIssuanceHook = (\<lambda>_. 0), module_entered = False,
     outside = (\<lambda>_. (erc20_constructor ''T'' ''T'')\<lparr>balances := (\<lambda>_. 0)(20 := 10 ^ 24), totalSupply := 10 ^ 24\<rparr>)\<rparr>"

lemma held_evm_inv: "set_inv (the_set held_evm)"
proof -
  have m: "set_mint 7 demo_controller 30 (10 ^ 18) demo_set = Inr (the_set held_evm)"
    by (simp add: set_mint_def guard_defs erc20_mint_def demo_set_def demo_controller_def held_evm_def safe_add_exact is_uint256_def)
  have "is_uint256 (10 ^ 18)" by (simp add: is_uint256_def)
  from conjunct1 [OF issue_amounts(1) [OF demo_set_inv this m]] show ?thesis .
qed

lemma held_evm_plain: "\<forall>k \<in> set (components (the_set held_evm)). plain_component (10 ^ 18) k held_evm"
proof -
  have "conserved (\<lambda>_ :: address. 0 :: int) 0" by (simp add: conserved_def total_def)
  from conserved_credit [OF this, of 20 "10 ^ 24"]
  have "conserved ((\<lambda>_. 0)(20 := 10 ^ 24)) (10 ^ 24 :: int)" by simp
  then show ?thesis
    by (simp add: plain_component_def held_evm_def demo_set_def getExternalPositionModules_def real_unit_defs
        convertVirtualToRealUnit_def conservativePreciseMul_exact is_int256_def erc20_constructor_def)
qed

theorem redeem_always_possible_witness:
  "\<exists>e'. redeem ledger_foreign 7 30 20 (10 ^ 18) 40 held_evm = Inr e' \<and> balances (the_set e') 30 = 0"
proof -
  have "ledger_wf held_evm" "20 \<notin> set (components (the_set held_evm))" "collateralized ledger_foreign 20 held_evm"
    by (auto simp: held_evm_def ledger_wf_def erc20_typed_def erc20_constructor_def is_uint256_def demo_set_def collateralized_def
        ledger_foreign_def balanceOf_def real_unit_defs convertVirtualToRealUnit_def conservativePreciseMul_exact is_int256_def)
  then show ?thesis
    using redeem_always_possible [OF _ held_evm_inv _ _ _ _ _ _ _ _ _ _ _ _ _ _ held_evm_plain, of 20 7 30 40]
    by (auto simp: held_evm_def demo_set_def demo_controller_def is_uint256_def)
qed

end
