(* ===== verification/SetTokenCreator.thy ===== *)
theory SetTokenCreator
  imports PositionLib
begin

section \<open>SetTokenCreator: creating and registering Sets\<close>

text \<open>
  \<^verbatim>\<open>src/contracts/protocol/SetTokenCreator.sol\<close>. The state of the factory is the address of its
  controller. \<open>new_address\<close> is the address the chain gives to the new contract; it is a parameter.
  \<open>create\<close> returns the state of the new Set with that of the Controller.

  The theorems say exactly when \<open>create\<close> succeeds, and what the Set it creates looks like.
\<close>

subsection \<open>Definitions\<close>

record set_token_creator =
  creator_controller :: address

definition creator_constructor :: "address \<Rightarrow> set_token_creator" where
  "creator_constructor controller0 = \<lparr>creator_controller = controller0\<rparr>"

fun check_components :: "address list \<Rightarrow> int list \<Rightarrow> nat \<Rightarrow> unit result" where
  "check_components [] units i = Ok ()"
| "check_components (k # ks) units i =
     rbind (require (k \<noteq> address_zero) ''Component must not be null address'') (\<lambda>_.
     rbind (array_get units i) (\<lambda>u.
     rbind (require (u > 0) ''Units must be greater than 0'') (\<lambda>_.
     check_components ks units (Suc i))))"

fun check_modules :: "controller \<Rightarrow> address list \<Rightarrow> unit result" where
  "check_modules c [] = Ok ()"
| "check_modules c (m # ms) =
     rbind (require (isModule c m) ''Must be enabled module'') (\<lambda>_. check_modules c ms)"

definition create ::
  "set_token_creator \<Rightarrow> address \<Rightarrow> address \<Rightarrow> address list \<Rightarrow> int list \<Rightarrow> address list \<Rightarrow> address \<Rightarrow> string \<Rightarrow> string \<Rightarrow>
   controller \<Rightarrow> (set_token \<times> controller) result" where
  "create cr this new_address ks units ms mgr nm smb c =
     rbind (require (length ks > 0) ''Must have at least 1 component'') (\<lambda>_.
     rbind (require (length ks = length units) ''Component and unit lengths must be the same'') (\<lambda>_.
     rbind (hasDuplicate ks) (\<lambda>dup.
     rbind (require (\<not> dup) ''Components must not have a duplicate'') (\<lambda>_.
     rbind (require (length ms > 0) ''Must have at least 1 module'') (\<lambda>_.
     rbind (require (mgr \<noteq> address_zero) ''Manager must not be empty'') (\<lambda>_.
     rbind (check_components ks units 0) (\<lambda>_.
     rbind (check_modules c ms) (\<lambda>_.
     rbind (set_token_constructor ks units ms (creator_controller cr) mgr nm smb) (\<lambda>s.
     rbind (addSet this new_address c) (\<lambda>c'.
     Ok (s, c')))))))))))"

subsection \<open>The checks and the constructor\<close>

lemma check_components_ok:
  "i + length ks \<le> length us \<Longrightarrow> check_components ks us i = Inr r \<longleftrightarrow>
     address_zero \<notin> set ks \<and> (\<forall>j < length ks. 0 < us ! (i + j))"
proof (induction ks arbitrary: i)
  case (Cons k ks)
  have "(\<forall>j < length (k # ks). 0 < us ! (i + j)) \<longleftrightarrow> 0 < us ! i \<and> (\<forall>j < length ks. 0 < us ! (Suc i + j))"
    by (auto simp: less_Suc_eq_0_disj)
  then show ?case using Cons by (auto simp: result_simps)
qed simp

lemma check_modules_ok: "check_modules c ms = Inr r \<longleftrightarrow> (\<forall>m \<in> set ms. isModule c m)"
  by (induction ms) (auto simp: result_simps)

lemma set_default_units_ok:
  "i + length ks \<le> length us \<Longrightarrow> \<exists>s'. set_default_units ks us i s = Inr s'"
  by (induction ks arbitrary: i s) (simp_all add: array_get_def)

lemma set_default_units_reads:
  assumes "distinct ks" "set_default_units ks us i s = Inr s'"
  shows "(\<forall>j < length ks. componentPositions s' (ks ! j) = (componentPositions s (ks ! j))\<lparr>virtualUnit := us ! (i + j)\<rparr>)
    \<and> (\<forall>k. k \<notin> set ks \<longrightarrow> componentPositions s' k = componentPositions s k)"
  using assms
proof (induction ks arbitrary: i s)
  case (Cons k ks)
  let ?s = "s\<lparr>componentPositions := (componentPositions s)(k := (componentPositions s k)\<lparr>virtualUnit := us ! i\<rparr>)\<rparr>"
  have rest: "set_default_units ks us (Suc i) ?s = Inr s'" using Cons.prems(2) by (auto simp: result_simps)
  have IH: "\<forall>j < length ks. componentPositions s' (ks ! j) = (componentPositions ?s (ks ! j))\<lparr>virtualUnit := us ! (Suc i + j)\<rparr>"
    "\<forall>k. k \<notin> set ks \<longrightarrow> componentPositions s' k = componentPositions ?s k"
    using Cons.IH [OF _ rest] Cons.prems(1) by simp_all
  have "ks ! j \<noteq> k" if "j < length ks" for j using Cons.prems(1) that by auto
  then show ?case using IH Cons.prems(1) by (auto simp: less_Suc_eq_0_disj)
qed simp

lemma constructor_fields:
  assumes "distinct ks" "length us = length ks" "set_token_constructor ks us ms c0 mgr nm smb = Inr s"
  shows "components s = ks \<and> modules s = [] \<and> manager s = mgr \<and> st_controller s = c0 \<and> totalSupply s = 0 \<and> \<not> isLocked s
    \<and> moduleStates s = (\<lambda>m. if m \<in> set ms then PENDING else NONE) \<and> positionMultiplier s = PRECISE_UNIT
    \<and> (\<forall>j < length ks. componentPositions s (ks ! j) = no_position\<lparr>virtualUnit := us ! j\<rparr>)
    \<and> (\<forall>k. k \<notin> set ks \<longrightarrow> componentPositions s k = no_position)"
proof -
  obtain t where t: "set_default_units ks us 0 t = Inr s" "components t = ks" "modules t = []" "manager t = mgr" "st_controller t = c0"
    "totalSupply t = 0" "\<not> isLocked t" "\<forall>m. moduleStates t m = (if m \<in> set ms then PENDING else NONE)"
    "positionMultiplier t = PRECISE_UNIT" "componentPositions t = (\<lambda>_. no_position)"
    using assms(3) by (auto simp: set_token_constructor_def erc20_constructor_def pend_modules_eq Let_def preciseUnitInt_def)
  obtain p where p: "s = t\<lparr>componentPositions := p\<rparr>" using set_default_units_frame [OF t(1)] by blast
  show ?thesis using set_default_units_reads [OF assms(1) t(1)] t(2-10) unfolding p by (simp add: fun_eq_iff)
qed

lemma constructor_ok:
  "length us = length ks \<Longrightarrow> \<exists>s. set_token_constructor ks us ms c0 mgr nm smb = Inr s"
  using set_default_units_ok [of 0 ks us] by (simp add: set_token_constructor_def Let_def)

subsection \<open>Properties\<close>

text \<open>
  Creation succeeds exactly on valid arguments: as many positive units as components, at least one of
  each, no zero or repeated component, at least one module and every module enabled on the Controller, a
  manager, and a caller that is a factory of the initialized Controller creating a new address.
\<close>

lemma create_succeeds_iff:
  "(\<exists>r. create cr this a ks us ms mgr nm smb c = Inr r) \<longleftrightarrow>
     ks \<noteq> [] \<and> length us = length ks \<and> distinct ks \<and> address_zero \<notin> set ks \<and> (\<forall>u \<in> set us. 0 < u)
     \<and> ms \<noteq> [] \<and> (\<forall>m \<in> set ms. isModule c m) \<and> mgr \<noteq> address_zero
     \<and> isInitialized c \<and> isFactory c this \<and> \<not> isSet c a"
proof (cases "length us = length ks")
  case True
  obtain s where s: "set_token_constructor ks us ms (creator_controller cr) mgr nm smb = Inr s"
    using constructor_ok [OF True] by blast
  have u: "(\<forall>j < length ks. 0 < us ! j) \<longleftrightarrow> (\<forall>u \<in> set us. 0 < u)" using True by (auto simp: set_conv_nth)
  have "check_components ks us 0 = Inr () \<longleftrightarrow> address_zero \<notin> set ks \<and> (\<forall>u \<in> set us. 0 < u)"
    using check_components_ok [of 0 ks us] True u by simp
  then show ?thesis
    using True s by (auto simp: create_def rbind_eq_Inr require_eq_Inr hasDuplicate_exact check_modules_ok
        controller_ops controller_guards split: if_splits)
next
  case False
  then show ?thesis by (auto simp: create_def rbind_eq_Inr require_eq_Inr)
qed

lemma create_succeeds_iff_example:
  "\<exists>c. registry_demo = Inr c \<and> (\<exists>r. create (creator_constructor 5) 10 21 [1, 2] [3, 5] [11] 9 ''Set'' ''SET'' c = Inr r)"
proof -
  obtain c where c: "registry_demo = Inr c" using registry_demo_reachable by blast
  have "isInitialized (projr registry_demo) \<and> isFactory (projr registry_demo) 10 \<and> isModule (projr registry_demo) 11
      \<and> \<not> isSet (projr registry_demo) 21"
    unfolding registry_demo_def by code_simp
  then have "isInitialized c" "isFactory c 10" "isModule c 11" "\<not> isSet c 21" unfolding c by simp_all
  then show ?thesis
    using create_succeeds_iff [of "creator_constructor 5" 10 21 "[1, 2]" "[3, 5]" "[11]" 9 "''Set''" "''SET''" c]
    by (intro exI [of _ c] conjI c) simp
qed

lemma create_Inr:
  assumes "create cr this a ks us ms mgr nm smb c = Inr (s, c')"
  shows "set_token_constructor ks us ms (creator_controller cr) mgr nm smb = Inr s \<and> addSet this a c = Inr c'
    \<and> ks \<noteq> [] \<and> length us = length ks \<and> distinct ks \<and> (\<forall>j < length ks. 0 < us ! j)"
  using assms check_components_ok [of 0 ks us]
  by (auto simp: create_def rbind_eq_Inr require_eq_Inr hasDuplicate_exact split: if_splits)

lemma new_unit_read:
  assumes "componentPositions s k = no_position\<lparr>virtualUnit := u\<rparr>" "positionMultiplier s = PRECISE_UNIT"
    "is_int256 u" "is_int256 (u * PRECISE_UNIT)"
  shows "getDefaultPositionRealUnit s k = Inr u"
proof -
  have "is_int256 PRECISE_UNIT" by (simp add: is_int256_def)
  then show ?thesis
    using assms conservativePreciseMul_exact [of u PRECISE_UNIT] by (simp add: real_unit_defs convertVirtualToRealUnit_def)
qed

text \<open>
  C29. A created Set is ready to use: it satisfies the contract invariant and its component list is exact;
  it holds the given components with exactly the given units (none of them so large that scaling it
  overflows), no supply, no lock, and every requested module pending; and the Controller has it
  registered, with its own invariant intact.
\<close>

theorem created_set_ready:
  assumes "create cr this a ks us ms mgr nm smb c = Inr (s, c')" "controller_inv c"
    "\<forall>u \<in> set us. is_int256 (u * PRECISE_UNIT)"
  shows "set_inv s \<and> tracking s \<and> components s = ks \<and> (\<forall>j < length ks. getDefaultPositionRealUnit s (ks ! j) = Inr (us ! j))
    \<and> totalSupply s = 0 \<and> \<not> isLocked s \<and> manager s = mgr \<and> (\<forall>m. moduleStates s m = (if m \<in> set ms then PENDING else NONE))
    \<and> isSet c' a \<and> controller_inv c'"
proof -
  note C = create_Inr [OF assms(1)]
  have typed: "is_int256 u" if "u \<in> set us" for u
  proof -
    have "0 < u" "is_int256 (u * PRECISE_UNIT)" using assms(3) that C by (auto simp: in_set_conv_nth)
    then show ?thesis by (simp add: is_int256_def)
  qed
  have inv: "set_inv s" using constructor_inv [of ks us ms] C typed by blast
  have F: "components s = ks" "totalSupply s = 0" "\<not> isLocked s" "manager s = mgr" "positionMultiplier s = PRECISE_UNIT"
    "moduleStates s = (\<lambda>m. if m \<in> set ms then PENDING else NONE)"
    "\<forall>j < length ks. componentPositions s (ks ! j) = no_position\<lparr>virtualUnit := us ! j\<rparr>"
    "\<forall>k. k \<notin> set ks \<longrightarrow> componentPositions s k = no_position"
    using constructor_fields [of ks us ms] C by blast+
  have units: "getDefaultPositionRealUnit s (ks ! j) = Inr (us ! j)" if "j < length ks" for j
    using new_unit_read [of s "ks ! j" "us ! j"] F(5,7) that C assms(3) typed by simp
  have "tracked s k" for k
  proof (cases "k \<in> set ks")
    case True
    then obtain j where "j < length ks" "k = ks ! j" by (auto simp: in_set_conv_nth)
    then show ?thesis using units C F(1) by (auto simp: tracked_def intro: order_less_imp_le)
  next
    case False
    then show ?thesis
      using F(1,8) new_unit_read [of s k 0] F(5) by (simp add: tracked_def getExternalPositionModules_def is_int256_def)
  qed
  then have "tracking s" using inv by (simp add: tracking_def set_inv_def)
  moreover have "isSet c' a \<and> controller_inv c'" using addSet_inv [OF assms(2)] set_registry.add_law C by auto
  ultimately show ?thesis using inv F units by simp
qed

theorem created_set_ready_witness:
  "\<exists>s c'. rbind registry_demo (create (creator_constructor 5) 10 21 [1, 2] [3 * 10 ^ 18, 5] [11] 9 ''Set'' ''SET'') = Inr (s, c')
     \<and> set_inv s \<and> getDefaultPositionRealUnit s 2 = Inr 5 \<and> isSet c' 21"
proof -
  obtain c where c: "registry_demo = Inr c" "controller_reachable True c" using registry_demo_reachable by blast
  have "is_ok (rbind registry_demo (create (creator_constructor 5) 10 21 [1, 2] [3 * 10 ^ 18, 5] [11] 9 ''Set'' ''SET''))"
    unfolding registry_demo_def by code_simp
  then have "is_ok (create (creator_constructor 5) 10 21 [1, 2] [3 * 10 ^ 18, 5] [11] 9 ''Set'' ''SET'' c)" unfolding c(1) by simp
  then obtain s c' where r: "create (creator_constructor 5) 10 21 [1, 2] [3 * 10 ^ 18, 5] [11] 9 ''Set'' ''SET'' c = Inr (s, c')"
    by (auto simp: is_ok_iff)
  have "controller_inv c" using controller_reachable_inv [OF c(2) TrueI] by simp
  moreover have "\<forall>u \<in> set [3 * 10 ^ 18, 5]. is_int256 (u * PRECISE_UNIT)" by (simp add: is_int256_def)
  ultimately have "set_inv s \<and> isSet c' 21 \<and> (\<forall>j < 2. getDefaultPositionRealUnit s ([1, 2] ! j) = Inr ([3 * 10 ^ 18, 5] ! j))"
    using created_set_ready [OF r] by simp
  then have "set_inv s" "isSet c' 21" "getDefaultPositionRealUnit s 2 = Inr 5" by (simp_all add: less_2_cases_iff)
  then show ?thesis unfolding c(1) using r by simp
qed

end
