(* ===== verification/Scripts.thy ===== *)
theory Scripts
  imports MathUtils "HOL-Library.Monad_Syntax"
begin

section \<open>Scripts against a chain\<close>

text \<open>
  What the deployment helpers and fixtures under \<^verbatim>\<open>src/utils/deploys\<close> and \<^verbatim>\<open>src/utils/fixtures\<close> use of
  ethers and of the node behind it. A script sends requests one after the other and goes on with the
  answers; the node is the parameter \<open>chain\<close>, a function from a request and its own state to an answer
  and the next state (\<open>None\<close>: the request is rejected and the awaiting script throws). A \<open>world\<close> is the
  list of requests sent so far together with the state of the chain, so that theorems can speak about
  what a script sends, in which order and with which arguments, whatever the chain answers.

  Scripts are written in the option monad; \<open>None\<close> is a thrown exception. The class fields of a
  fixture that have not been assigned are \<open>None\<close>, and reading one of them throws.
\<close>

text \<open>Values passed to and returned by contracts. Numbers and \<open>BigNumber\<close>s are both \<open>JNum\<close>.\<close>

datatype js =
    JStr string
  | JNum int
  | JBool bool
  | JArr "js list"
  | JObj "(string \<times> js) list"

text \<open>A typechain contract object: contract name, address, and the signer it is connected to.\<close>

record handle =
  contract_name :: string
  addr :: string
  signer_of :: string

record Account =
  acc_address :: string
  acc_wallet :: string

text \<open>
  \<open>Deploy signer contract libraries args\<close> is \<open>new C__factory(libraries, signer).deploy(args)\<close>;
  \<open>Transact signer contract address method args\<close> is a method call on a contract object, a transaction
  or a view; \<open>Rpc method args\<close> is a request to the provider.
\<close>

datatype request =
    Deploy string string "(string \<times> string) list" "js list"
  | Transact string string string string "js list"
  | Rpc string "js list"

type_synonym 'w chain = "request \<Rightarrow> 'w \<Rightarrow> (js \<times> 'w) option"
type_synonym 'w world = "request list \<times> 'w"

definition perform :: "'w chain \<Rightarrow> request \<Rightarrow> 'w world \<Rightarrow> (js \<times> 'w world) option" where
  "perform ch r w = (case ch r (snd w) of None \<Rightarrow> None | Some (v, s) \<Rightarrow> Some (v, (fst w @ [r], s)))"

fun as_str :: "js \<Rightarrow> string option" where
  "as_str (JStr s) = Some s"
| "as_str _ = None"

fun as_num :: "js \<Rightarrow> int option" where
  "as_num (JNum n) = Some n"
| "as_num _ = None"

fun as_arr :: "js \<Rightarrow> js list option" where
  "as_arr (JArr xs) = Some xs"
| "as_arr _ = None"

fun field :: "string \<Rightarrow> js \<Rightarrow> js option" where
  "field f (JObj kvs) = map_of kvs f"
| "field f _ = None"

text \<open>\<open>xs[i]\<close>, where an index out of range gives \<open>undefined\<close>, which no further use survives.\<close>

definition elem_at :: "'a list \<Rightarrow> nat \<Rightarrow> 'a option" where
  "elem_at xs i = (if i < length xs then Some (xs ! i) else None)"

definition deploy ::
  "'w chain \<Rightarrow> string \<Rightarrow> string \<Rightarrow> (string \<times> string) list \<Rightarrow> js list \<Rightarrow> 'w world \<Rightarrow> (handle \<times> 'w world) option" where
  "deploy ch signer c libs args w = do {
     (v, w) \<leftarrow> perform ch (Deploy signer c libs args) w;
     a \<leftarrow> as_str v;
     Some (\<lparr>contract_name = c, addr = a, signer_of = signer\<rparr>, w)
   }"

definition attach :: "string \<Rightarrow> string \<Rightarrow> string \<Rightarrow> handle" where
  "attach signer c a = \<lparr>contract_name = c, addr = a, signer_of = signer\<rparr>"

definition connect :: "handle \<Rightarrow> string \<Rightarrow> handle" where
  "connect h signer = h\<lparr>signer_of := signer\<rparr>"

definition reattach :: "handle \<Rightarrow> string \<Rightarrow> handle" where
  "reattach h a = h\<lparr>addr := a\<rparr>"

definition call :: "'w chain \<Rightarrow> handle \<Rightarrow> string \<Rightarrow> js list \<Rightarrow> 'w world \<Rightarrow> (js \<times> 'w world) option" where
  "call ch h m args w = perform ch (Transact (signer_of h) (contract_name h) (addr h) m args) w"

definition rpc :: "'w chain \<Rightarrow> string \<Rightarrow> js list \<Rightarrow> 'w world \<Rightarrow> (js \<times> 'w world) option" where
  "rpc ch m args w = perform ch (Rpc m args) w"

text \<open>An argument with a default value.\<close>

definition default_to :: "'a \<Rightarrow> 'a option \<Rightarrow> 'a" where
  "default_to d x = (case x of None \<Rightarrow> d | Some v \<Rightarrow> v)"

lemma default_to_simps [simp]: "default_to d None = d" "default_to d (Some v) = v"
  by (simp_all add: default_to_def)

subsection \<open>Units\<close>

text \<open>
  \<^verbatim>\<open>src/utils/common/unitsUtils.ts\<close>. JavaScript passes decimal literals such as \<open>0.5\<close>; an amount is
  therefore given as numerator and denominator of the literal, and the scaled value is exact for the
  literals that occur.
\<close>

definition ether :: "int \<Rightarrow> int \<Rightarrow> int" where
  "ether n d = n * 10 ^ 18 div d"

definition gWei :: "int \<Rightarrow> int" where
  "gWei amount = 1000000000 * amount"

definition bitcoin :: "int \<Rightarrow> int" where
  "bitcoin amount = 100000000 * amount"

definition usdc_units :: "int \<Rightarrow> int" where
  "usdc_units amount = 1000000 * amount"

definition ADDRESS_ZERO :: string where
  "ADDRESS_ZERO = ''0x0000000000000000000000000000000000000000''"

definition ZERO_BYTES :: string where
  "ZERO_BYTES = ''0x0000000000000000000000000000000000000000000000000000000000000000''"

subsection \<open>The trace of a script\<close>

named_theorems script_simps \<open>unfolding scripts into their requests\<close>

lemma perform_eq_Some [script_simps]:
  "perform ch r w = Some (v, w') \<longleftrightarrow> (\<exists>s. ch r (snd w) = Some (v, s) \<and> w' = (fst w @ [r], s))"
  by (auto simp: perform_def split: option.splits)

lemma deploy_eq_Some [script_simps]:
  "deploy ch sg c libs args w = Some (h, w') \<longleftrightarrow>
     (\<exists>a s. ch (Deploy sg c libs args) (snd w) = Some (JStr a, s) \<and> w' = (fst w @ [Deploy sg c libs args], s)
        \<and> h = \<lparr>contract_name = c, addr = a, signer_of = sg\<rparr>)"
proof -
  have "as_str v = Some a \<longleftrightarrow> v = JStr a" for v a by (cases v) auto
  then show ?thesis by (auto simp: deploy_def bind_eq_Some_conv perform_eq_Some)
qed

lemma call_eq_Some [script_simps]:
  "call ch h m args w = Some (v, w') \<longleftrightarrow>
     (\<exists>s. ch (Transact (signer_of h) (contract_name h) (addr h) m args) (snd w) = Some (v, s)
        \<and> w' = (fst w @ [Transact (signer_of h) (contract_name h) (addr h) m args], s))"
  by (simp add: call_def perform_eq_Some)

lemma rpc_eq_Some [script_simps]:
  "rpc ch m args w = Some (v, w') \<longleftrightarrow> (\<exists>s. ch (Rpc m args) (snd w) = Some (v, s) \<and> w' = (fst w @ [Rpc m args], s))"
  by (simp add: rpc_def perform_eq_Some)

lemma as_str_eq_Some [script_simps]: "as_str v = Some a \<longleftrightarrow> v = JStr a"
  by (cases v) auto

lemma as_num_eq_Some [script_simps]: "as_num v = Some a \<longleftrightarrow> v = JNum a"
  by (cases v) auto

lemma as_arr_eq_Some [script_simps]: "as_arr v = Some a \<longleftrightarrow> v = JArr a"
  by (cases v) auto

lemma elem_at_eq_Some [script_simps]: "elem_at xs i = Some x \<longleftrightarrow> i < length xs \<and> x = xs ! i"
  by (auto simp: elem_at_def)

declare bind_eq_Some_conv [script_simps]

subsection \<open>Taking a script apart\<close>

named_theorems script_elims \<open>elimination of the steps of a script\<close>

lemma bind_stepE [script_elims]:
  assumes "Option.bind m (\<lambda>(x, w). k x w) = Some r"
  obtains x w where "m = Some (x, w)" "k x w = Some r"
  using assms by (auto simp: bind_eq_Some_conv)

lemma bind_step2E:
  assumes "Option.bind m (\<lambda>((x, y), w). k x y w) = Some r"
  obtains x y w where "m = Some ((x, y), w)" "k x y w = Some r"
  using assms by (auto simp: bind_eq_Some_conv)

lemma bind_someE:
  assumes "Option.bind m k = Some r"
  obtains x where "m = Some x" "k x = Some r"
  using assms by (auto simp: bind_eq_Some_conv)

lemma some_pairE: "Some (a, b) = Some (c, d) \<Longrightarrow> (a = c \<Longrightarrow> b = d \<Longrightarrow> P) \<Longrightarrow> P"
  by simp

subsection \<open>Fresh addresses\<close>

text \<open>
  What scripts rely on of a node: a deployment is given an address that no earlier deployment has and that
  is not the zero address. \<open>used s\<close> is the set of addresses the node has given out in state \<open>s\<close>.
\<close>

definition fresh_addresses :: "'w chain \<Rightarrow> ('w \<Rightarrow> string set) \<Rightarrow> bool" where
  "fresh_addresses ch used \<longleftrightarrow>
     (\<forall>r s v s'. ch r s = Some (v, s') \<longrightarrow> used s \<subseteq> used s') \<and>
     (\<forall>sg c libs args s a s'. ch (Deploy sg c libs args) s = Some (JStr a, s') \<longrightarrow>
        a \<notin> used s \<and> a \<in> used s' \<and> a \<noteq> ADDRESS_ZERO)"

text \<open>The contracts a script holds have pairwise different addresses.\<close>

definition known :: "('w \<Rightarrow> string set) \<Rightarrow> handle list \<Rightarrow> 'w world \<Rightarrow> bool" where
  "known used hs w \<longleftrightarrow> distinct (map addr hs) \<and> addr ` set hs \<subseteq> used (snd w) \<and> ADDRESS_ZERO \<notin> addr ` set hs"

lemma known_Nil [simp]: "known used [] w"
  by (simp add: known_def)

lemma known_perform: "fresh_addresses ch used \<Longrightarrow> known used hs w \<Longrightarrow> perform ch r w = Some (v, w') \<Longrightarrow> known used hs w'"
  by (fastforce simp: known_def fresh_addresses_def perform_eq_Some)

lemma known_call: "fresh_addresses ch used \<Longrightarrow> known used hs w \<Longrightarrow> call ch h m args w = Some (v, w') \<Longrightarrow> known used hs w'"
  unfolding call_def by (rule known_perform)

lemma known_rpc: "fresh_addresses ch used \<Longrightarrow> known used hs w \<Longrightarrow> rpc ch m args w = Some (v, w') \<Longrightarrow> known used hs w'"
  unfolding rpc_def by (rule known_perform)

lemma known_deploy:
  assumes "fresh_addresses ch used" "known used hs w" "deploy ch sg c libs args w = Some (h, w')"
  shows "known used (h # hs) w'"
proof -
  from assms(3) obtain a s where step: "ch (Deploy sg c libs args) (snd w) = Some (JStr a, s)"
    and w': "w' = (fst w @ [Deploy sg c libs args], s)" and h: "addr h = a"
    by (auto simp: deploy_eq_Some)
  have "a \<notin> used (snd w)" "a \<in> used s" "a \<noteq> ADDRESS_ZERO" "used (snd w) \<subseteq> used s"
    using assms(1) step unfolding fresh_addresses_def by blast+
  then show ?thesis using assms(2) w' h unfolding known_def by auto
qed

lemma known_drop: "known used (h # hs) w \<Longrightarrow> known used hs w"
  by (auto simp: known_def)

lemma known_keep:
  assumes "fresh_addresses ch used"
  shows "deploy ch sg c libs args w = Some (h, w') \<Longrightarrow> known used hs w \<Longrightarrow> known used hs w'"
    and "call ch h m margs w = Some (v, w') \<Longrightarrow> known used hs w \<Longrightarrow> known used hs w'"
    and "rpc ch m margs w = Some (v, w') \<Longrightarrow> known used hs w \<Longrightarrow> known used hs w'"
  by (blast intro: known_drop known_deploy [OF assms] known_call [OF assms] known_rpc [OF assms])+

lemma deploy_handle:
  "deploy ch sg c libs args w = Some (h, w') \<Longrightarrow>
     contract_name h = c \<and> signer_of h = sg \<and> fst w' = fst w @ [Deploy sg c libs args]"
  by (auto simp: deploy_eq_Some)

lemma call_trace:
  "call ch h m args w = Some (v, w') \<Longrightarrow> fst w' = fst w @ [Transact (signer_of h) (contract_name h) (addr h) m args]"
  by (auto simp: call_eq_Some)

lemma rpc_trace: "rpc ch m args w = Some (v, w') \<Longrightarrow> fst w' = fst w @ [Rpc m args]"
  by (auto simp: rpc_eq_Some)

text \<open>
  A node for concrete runs: it answers a deployment with the next of a supply of addresses and other
  requests as the given table says.
\<close>

definition table_chain :: "(request \<Rightarrow> js) \<Rightarrow> nat chain" where
  "table_chain answer r n = (case r of
       Deploy _ _ _ _ \<Rightarrow> Some (JStr (CHR ''0'' # CHR ''x'' # replicate (Suc n) CHR ''1''), Suc n)
     | _ \<Rightarrow> Some (answer r, n))"

lemma table_chain_fresh:
  "fresh_addresses (table_chain answer) (\<lambda>n. (\<lambda>k. CHR ''0'' # CHR ''x'' # replicate (Suc k) CHR ''1'') ` {..<n})"
proof -
  have "CHR ''0'' # CHR ''x'' # replicate (Suc n) CHR ''1'' \<noteq> ADDRESS_ZERO" for n
    by (simp add: ADDRESS_ZERO_def)
  moreover have "replicate (Suc n) CHR ''1'' = replicate (Suc k) CHR ''1'' \<Longrightarrow> n = k" for n k
    by (drule arg_cong [where f = length]) simp
  ultimately show ?thesis
    by (auto simp: fresh_addresses_def table_chain_def split: request.splits)
qed

end
