(* ===== verification/DeployExternal.thy ===== *)
theory DeployExternal
  imports Deploys
begin

section \<open>Deployment helpers: external protocols\<close>

text \<open>
  \<^verbatim>\<open>src/utils/deploys/deployExternal.ts\<close>: the contracts of Compound, Aave, Curve, Uniswap, Balancer, Yearn,
  Kyber and Perp that the fixtures set up.
\<close>

subsection \<open>deployExternal.ts\<close>

definition deployComp :: "'w chain \<Rightarrow> string \<Rightarrow> string \<Rightarrow>
  'w world \<Rightarrow> (handle \<times> 'w world) option" where
  "deployComp ch signer account w =
     deploy ch signer ''Comp'' [] [JStr account] w"

definition deployCompoundTimelock :: "'w chain \<Rightarrow> string \<Rightarrow>
  string \<Rightarrow> int \<Rightarrow> 'w world \<Rightarrow> (handle \<times> 'w world) option" where
  "deployCompoundTimelock ch signer admin delay w =
     deploy ch signer ''CompoundTimelock'' [] [JStr admin, JNum delay] w"

definition deployCompoundGovernorAlpha :: "'w chain \<Rightarrow> string \<Rightarrow>
  string \<Rightarrow> string \<Rightarrow> string \<Rightarrow> 'w world \<Rightarrow>
  (handle \<times> 'w world) option" where
  "deployCompoundGovernorAlpha ch signer timelock comp0 guardian w =
     deploy ch signer ''CompoundGovernorAlpha'' [] [JStr timelock, JStr comp0, JStr guardian] w"

definition deployCompoundGovernorBravoDelegate :: "'w chain \<Rightarrow> string \<Rightarrow>
  'w world \<Rightarrow> (handle \<times> 'w world) option" where
  "deployCompoundGovernorBravoDelegate ch signer w =
     deploy ch signer ''CompoundGovernorBravoDelegate'' [] [] w"

definition deployCompoundGovernorBravoDelegator :: "'w chain \<Rightarrow> string \<Rightarrow>
  string \<Rightarrow> string \<Rightarrow> string \<Rightarrow> string \<Rightarrow>
  int \<Rightarrow> int \<Rightarrow> int \<Rightarrow> 'w world \<Rightarrow>
  (handle \<times> 'w world) option" where
  "deployCompoundGovernorBravoDelegator ch signer timelock comp0 admin implementation votingPeriod
       votingDelay proposalThreshold w =
     deploy ch signer ''CompoundGovernorBravoDelegator'' [] [JStr timelock, JStr comp0, JStr admin,
       JStr implementation, JNum votingPeriod, JNum votingDelay, JNum proposalThreshold] w"

definition deployCeRc20 :: "'w chain \<Rightarrow> string \<Rightarrow> string \<Rightarrow>
  string \<Rightarrow> string \<Rightarrow> int \<Rightarrow> string \<Rightarrow>
  string \<Rightarrow> int \<Rightarrow> 'w world \<Rightarrow> (handle \<times> 'w world) option" where
  "deployCeRc20 ch signer underlying comptroller interestRateModel initialExchangeRateMantissa nm
       smb decimals w =
     deploy ch signer ''CERc20'' [] [JStr underlying, JStr comptroller, JStr interestRateModel,
       JNum initialExchangeRateMantissa, JStr nm, JStr smb, JNum decimals] w"

definition deployCEther :: "'w chain \<Rightarrow> string \<Rightarrow> string \<Rightarrow>
  string \<Rightarrow> int \<Rightarrow> string \<Rightarrow> string \<Rightarrow>
  int \<Rightarrow> 'w world \<Rightarrow> (handle \<times> 'w world) option" where
  "deployCEther ch signer comptroller interestRateModel initialExchangeRateMantissa nm smb decimals w =
     deploy ch signer ''CEther'' [] [JStr comptroller, JStr interestRateModel,
       JNum initialExchangeRateMantissa, JStr nm, JStr smb, JNum decimals] w"

definition deployCompoundPriceOracleMock :: "'w chain \<Rightarrow> string \<Rightarrow>
  'w world \<Rightarrow> (handle \<times> 'w world) option" where
  "deployCompoundPriceOracleMock ch signer w =
     deploy ch signer ''CompoundPriceOracleMock'' [] [] w"

definition deployPriceOracleProxy :: "'w chain \<Rightarrow> string \<Rightarrow>
  string \<Rightarrow> string \<Rightarrow> string \<Rightarrow> string \<Rightarrow>
  string \<Rightarrow> string \<Rightarrow> string \<Rightarrow> 'w world \<Rightarrow>
  (handle \<times> 'w world) option" where
  "deployPriceOracleProxy ch signer guardian v1PriceOracle cEthAddress cUsdcAddress cSaiAddress
       cDaiAddress cUsdtAddress w =
     deploy ch signer ''PriceOracleProxy'' [] [JStr guardian, JStr v1PriceOracle, JStr cEthAddress,
       JStr cUsdcAddress, JStr cSaiAddress, JStr cDaiAddress, JStr cUsdtAddress] w"

definition deployComptroller :: "'w chain \<Rightarrow> string \<Rightarrow> 'w world \<Rightarrow>
  (handle \<times> 'w world) option" where
  "deployComptroller ch signer w =
     deploy ch signer ''Comptroller'' [] [] w"

definition deployUnitroller :: "'w chain \<Rightarrow> string \<Rightarrow> 'w world \<Rightarrow>
  (handle \<times> 'w world) option" where
  "deployUnitroller ch signer w =
     deploy ch signer ''Unitroller'' [] [] w"

definition deployWhitePaperInterestRateModel :: "'w chain \<Rightarrow> string \<Rightarrow>
  int \<Rightarrow> int \<Rightarrow> 'w world \<Rightarrow> (handle \<times> 'w world) option" where
  "deployWhitePaperInterestRateModel ch signer baseRate multiplier w =
     deploy ch signer ''WhitePaperInterestRateModel'' [] [JNum baseRate, JNum multiplier] w"

definition deployWETH :: "'w chain \<Rightarrow> string \<Rightarrow> 'w world \<Rightarrow>
  (handle \<times> 'w world) option" where
  "deployWETH ch signer w =
     deploy ch signer ''WETH9'' [] [] w"

definition getWETH :: "string \<Rightarrow> string \<Rightarrow> handle" where
  "getWETH signer weth = attach signer ''WETH9'' weth"

definition deployAaveV2LendingPoolAddressesProvider :: "'w chain \<Rightarrow> string \<Rightarrow>
  string \<Rightarrow> 'w world \<Rightarrow> (handle \<times> 'w world) option" where
  "deployAaveV2LendingPoolAddressesProvider ch signer marketId w =
     deploy ch signer ''AaveV2LendingPoolAddressesProvider'' [] [JStr marketId] w"

definition deployAaveV2LendingPool :: "'w chain \<Rightarrow> string \<Rightarrow>
  string \<Rightarrow> string \<Rightarrow> 'w world \<Rightarrow>
  (handle \<times> 'w world) option" where
  "deployAaveV2LendingPool ch signer validationLogicAddress reserveLogicAddress w =
     deploy ch signer ''AaveV2LendingPool'' [(''__$de8c0cf1a7d7c36c802af9a64fb9d86036$__'',
       validationLogicAddress), (''__$22cd43a9dda9ce44e9b92ba393b88fb9ac$__'',
       reserveLogicAddress)] [] w"

definition deployAaveV2LendingPoolConfigurator :: "'w chain \<Rightarrow> string \<Rightarrow>
  'w world \<Rightarrow> (handle \<times> 'w world) option" where
  "deployAaveV2LendingPoolConfigurator ch signer w =
     deploy ch signer ''AaveV2LendingPoolConfigurator'' [] [] w"

definition deployAaveV2LendingPoolCollateralManager :: "'w chain \<Rightarrow> string \<Rightarrow>
  'w world \<Rightarrow> (handle \<times> 'w world) option" where
  "deployAaveV2LendingPoolCollateralManager ch signer w =
     deploy ch signer ''AaveV2LendingPoolCollateralManager'' [] [] w"

definition deployAaveV2LendingRateOracle :: "'w chain \<Rightarrow> string \<Rightarrow>
  'w world \<Rightarrow> (handle \<times> 'w world) option" where
  "deployAaveV2LendingRateOracle ch signer w =
     deploy ch signer ''AaveV2LendingRateOracle'' [] [] w"

definition deployAaveV2Oracle :: "'w chain \<Rightarrow> string \<Rightarrow>
  string list \<Rightarrow> js list \<Rightarrow> string \<Rightarrow> string \<Rightarrow>
  'w world \<Rightarrow> (handle \<times> 'w world) option" where
  "deployAaveV2Oracle ch signer assets sources fallBackOracle weth w =
     deploy ch signer ''AaveV2Oracle'' [] [JArr (map JStr assets), JArr sources,
       JStr fallBackOracle, JStr weth] w"

definition deployAaveV2PriceOracle :: "'w chain \<Rightarrow> string \<Rightarrow>
  'w world \<Rightarrow> (handle \<times> 'w world) option" where
  "deployAaveV2PriceOracle ch signer w =
     deploy ch signer ''AaveV2PriceOracle'' [] [] w"

definition deployAaveV2DefaultReserveInterestRateStrategy :: "'w chain \<Rightarrow>
  string \<Rightarrow> string \<Rightarrow> int option \<Rightarrow> int option \<Rightarrow>
  int option \<Rightarrow> int option \<Rightarrow> int option \<Rightarrow>
  int option \<Rightarrow> 'w world \<Rightarrow> (handle \<times> 'w world) option" where
  "deployAaveV2DefaultReserveInterestRateStrategy ch signer AddressesProvider
       optimalUtilizationRate baseVariableBorrowRate variableRateSlope1 variableRateSlope2
       stableRateSlope1 stableRateSlope2 w =
     deploy ch signer ''AaveV2DefaultReserveInterestRateStrategy'' [] [JStr AddressesProvider,
       JNum (default_to (ether 1 1) optimalUtilizationRate),
       JNum (default_to (ether 1 1) baseVariableBorrowRate),
       JNum (default_to (ether 1 1) variableRateSlope1),
       JNum (default_to (ether 1 1) variableRateSlope2),
       JNum (default_to (ether 1 1) stableRateSlope1),
       JNum (default_to (ether 1 1) stableRateSlope2)] w"

definition deployAaveV2ProtocolDataProvider :: "'w chain \<Rightarrow> string \<Rightarrow>
  string \<Rightarrow> 'w world \<Rightarrow> (handle \<times> 'w world) option" where
  "deployAaveV2ProtocolDataProvider ch signer addressProvider w =
     deploy ch signer ''AaveV2ProtocolDataProvider'' [] [JStr addressProvider] w"

definition deployAaveV2AToken :: "'w chain \<Rightarrow> string \<Rightarrow>
  'w world \<Rightarrow> (handle \<times> 'w world) option" where
  "deployAaveV2AToken ch signer w =
     deploy ch signer ''AaveV2AToken'' [] [] w"

definition deployAaveV2StableDebtToken :: "'w chain \<Rightarrow> string \<Rightarrow>
  'w world \<Rightarrow> (handle \<times> 'w world) option" where
  "deployAaveV2StableDebtToken ch signer w =
     deploy ch signer ''AaveV2StableDebtToken'' [] [] w"

definition deployAaveV2VariableDebtToken :: "'w chain \<Rightarrow> string \<Rightarrow>
  'w world \<Rightarrow> (handle \<times> 'w world) option" where
  "deployAaveV2VariableDebtToken ch signer w =
     deploy ch signer ''AaveV2VariableDebtToken'' [] [] w"

definition deployAaveV2StakedTokenIncentivesController :: "'w chain \<Rightarrow>
  string \<Rightarrow> string \<Rightarrow> string \<Rightarrow> 'w world \<Rightarrow>
  (handle \<times> 'w world) option" where
  "deployAaveV2StakedTokenIncentivesController ch signer stakeToken emissionManager w =
     deploy ch signer ''AaveV2StakedTokenIncentivesController'' [] [JStr stakeToken,
       JStr emissionManager] w"

definition getForkedAaveLendingPoolAddressesProvider :: "string \<Rightarrow> string \<Rightarrow>
  handle" where
  "getForkedAaveLendingPoolAddressesProvider signer mainnetAddressesProvider = attach signer
       ''AaveV2LendingPoolAddressesProvider'' mainnetAddressesProvider"

definition getForkedAaveV2ProtocolDataProvider :: "string \<Rightarrow> string \<Rightarrow>
  handle" where
  "getForkedAaveV2ProtocolDataProvider signer mainnetAddressesProvider = attach signer
       ''AaveV2ProtocolDataProvider'' mainnetAddressesProvider"

definition deployGeneralLogic :: "'w chain \<Rightarrow> string \<Rightarrow>
  'w world \<Rightarrow> (handle \<times> 'w world) option" where
  "deployGeneralLogic ch signer w =
     deploy ch signer ''GenericLogic'' [] [] w"

definition deployValidationLogic :: "'w chain \<Rightarrow> string \<Rightarrow>
  string \<Rightarrow> 'w world \<Rightarrow> (handle \<times> 'w world) option" where
  "deployValidationLogic ch signer genericLogicLibraryAddress w =
     deploy ch signer ''ValidationLogic'' [(''__$52a8a86ab43135662ff256bbc95497e8e3$__'',
       genericLogicLibraryAddress)] [] w"

definition deployReserveLogic :: "'w chain \<Rightarrow> string \<Rightarrow>
  'w world \<Rightarrow> (handle \<times> 'w world) option" where
  "deployReserveLogic ch signer w =
     deploy ch signer ''ReserveLogic'' [] [] w"

definition deployAaveGovernanceV2 :: "'w chain \<Rightarrow> string \<Rightarrow>
  string \<Rightarrow> int \<Rightarrow> string \<Rightarrow> string list \<Rightarrow>
  'w world \<Rightarrow> (handle \<times> 'w world) option" where
  "deployAaveGovernanceV2 ch signer governanceStrategy votingDelay guardian executors w =
     deploy ch signer ''AaveGovernanceV2'' [] [JStr governanceStrategy, JNum votingDelay,
       JStr guardian, JArr (map JStr executors)] w"

definition deployExecutor :: "'w chain \<Rightarrow> string \<Rightarrow> string \<Rightarrow>
  int \<Rightarrow> int \<Rightarrow> int \<Rightarrow> int \<Rightarrow> int \<Rightarrow>
  int \<Rightarrow> int \<Rightarrow> int \<Rightarrow> 'w world \<Rightarrow>
  (handle \<times> 'w world) option" where
  "deployExecutor ch signer admin delay gracePeriod minimumDelay maximumDelay propositionThreshold
       voteDuration voteDifferential minmumQuorum w =
     deploy ch signer ''Executor'' [] [JStr admin, JNum delay, JNum gracePeriod, JNum minimumDelay,
       JNum maximumDelay, JNum propositionThreshold, JNum voteDuration, JNum voteDifferential,
       JNum minmumQuorum] w"

definition deployGovernanceStrategy :: "'w chain \<Rightarrow> string \<Rightarrow>
  string \<Rightarrow> string \<Rightarrow> 'w world \<Rightarrow>
  (handle \<times> 'w world) option" where
  "deployGovernanceStrategy ch signer aave stkaave w =
     deploy ch signer ''GovernanceStrategy'' [] [JStr aave, JStr stkaave] w"

definition deployAaveTokenV2Mintable :: "'w chain \<Rightarrow> string \<Rightarrow>
  'w world \<Rightarrow> (handle \<times> 'w world) option" where
  "deployAaveTokenV2Mintable ch signer w =
     deploy ch signer ''AaveTokenV2Mintable'' [] [] w"

definition deployCurveDeposit :: "'w chain \<Rightarrow> string \<Rightarrow>
  string list \<Rightarrow> string list \<Rightarrow> string \<Rightarrow> string \<Rightarrow>
  'w world \<Rightarrow> (handle \<times> 'w world) option" where
  "deployCurveDeposit ch signer coins underlying_coins curve token w =
     deploy ch signer ''CurveDeposit'' [] [JArr (map JStr coins), JArr (map JStr underlying_coins),
       JStr curve, JStr token] w"

definition deployCurvePoolERC20 :: "'w chain \<Rightarrow> string \<Rightarrow>
  string \<Rightarrow> string \<Rightarrow> int option \<Rightarrow> int \<Rightarrow>
  'w world \<Rightarrow> (handle \<times> 'w world) option" where
  "deployCurvePoolERC20 ch signer nm smb decimals supply w =
     deploy ch signer ''CurvePoolERC20'' [] [JStr nm, JStr smb, JNum (default_to (18) decimals),
       JNum supply] w"

definition getCurveStEthStableswapMock :: "string \<Rightarrow> handle option" where
  "getCurveStEthStableswapMock signer = do { a \<leftarrow> dependency ''CURVE_ETH_STETH_EXCHANGE''
       1; Some (attach signer ''CurveStableswapMock'' a) }"

definition getCurveWethStethStableswapMock :: "string \<Rightarrow> handle option" where
  "getCurveWethStethStableswapMock signer = do { a \<leftarrow> dependency
       ''CURVE_WETH_STETH_EXCHANGE'' 1; Some (attach signer ''CurveStableswapMock'' a) }"

definition deployStableswap :: "'w chain \<Rightarrow> string \<Rightarrow>
  string list \<Rightarrow> string list \<Rightarrow> string \<Rightarrow> int option \<Rightarrow>
  int option \<Rightarrow> 'w world \<Rightarrow> (handle \<times> 'w world) option" where
  "deployStableswap ch signer coins underlying_coins pool_token aCoefficient fee w =
     deploy ch signer ''Stableswap'' [] [JArr (map JStr coins), JArr (map JStr underlying_coins),
       JStr pool_token, JNum (default_to (1) aCoefficient), JNum (default_to (0) fee)] w"

definition deployCrvToken :: "'w chain \<Rightarrow> string \<Rightarrow> string \<Rightarrow>
  string \<Rightarrow> int option \<Rightarrow> 'w world \<Rightarrow>
  (handle \<times> 'w world) option" where
  "deployCrvToken ch signer nm smb decimals w =
     deploy ch signer ''CRVToken'' [] [JStr nm, JStr smb, JNum (default_to (18) decimals)] w"

definition deployGaugeController :: "'w chain \<Rightarrow> string \<Rightarrow>
  string \<Rightarrow> string \<Rightarrow> 'w world \<Rightarrow>
  (handle \<times> 'w world) option" where
  "deployGaugeController ch signer token voting_escrow w =
     deploy ch signer ''GaugeController'' [] [JStr token, JStr voting_escrow] w"

definition deployLiquidityGaugeReward :: "'w chain \<Rightarrow> string \<Rightarrow>
  string \<Rightarrow> string \<Rightarrow> string \<Rightarrow> string \<Rightarrow>
  'w world \<Rightarrow> (handle \<times> 'w world) option" where
  "deployLiquidityGaugeReward ch signer lpAddr minter reward_contract rewarded_token w =
     deploy ch signer ''LiquidityGaugeReward'' [] [JStr lpAddr, JStr minter, JStr reward_contract,
       JStr rewarded_token] w"

definition deployLiquidityGauge :: "'w chain \<Rightarrow> string \<Rightarrow>
  string \<Rightarrow> string \<Rightarrow> 'w world \<Rightarrow>
  (handle \<times> 'w world) option" where
  "deployLiquidityGauge ch signer lpAddr minter w =
     deploy ch signer ''LiquidityGauge'' [] [JStr lpAddr, JStr minter] w"

definition deployMinter :: "'w chain \<Rightarrow> string \<Rightarrow> string \<Rightarrow>
  string \<Rightarrow> 'w world \<Rightarrow> (handle \<times> 'w world) option" where
  "deployMinter ch signer token controller w =
     deploy ch signer ''Minter'' [] [JStr token, JStr controller] w"

definition deployUni :: "'w chain \<Rightarrow> string \<Rightarrow> string \<Rightarrow>
  string \<Rightarrow> int \<Rightarrow> 'w world \<Rightarrow> (handle \<times> 'w world) option" where
  "deployUni ch signer account minter mintingAllowedAfter w =
     deploy ch signer ''Uni'' [] [JStr account, JStr minter, JNum mintingAllowedAfter] w"

definition deployUniswapTimelock :: "'w chain \<Rightarrow> string \<Rightarrow>
  string \<Rightarrow> int \<Rightarrow> 'w world \<Rightarrow> (handle \<times> 'w world) option" where
  "deployUniswapTimelock ch signer admin delay w =
     deploy ch signer ''UniswapTimelock'' [] [JStr admin, JNum delay] w"

definition deployUniswapGovernorAlpha :: "'w chain \<Rightarrow> string \<Rightarrow>
  string \<Rightarrow> string \<Rightarrow> 'w world \<Rightarrow>
  (handle \<times> 'w world) option" where
  "deployUniswapGovernorAlpha ch signer timelock uni w =
     deploy ch signer ''UniswapGovernorAlpha'' [] [JStr timelock, JStr uni] w"

definition deployUniswapV2Factory :: "'w chain \<Rightarrow> string \<Rightarrow>
  string \<Rightarrow> 'w world \<Rightarrow> (handle \<times> 'w world) option" where
  "deployUniswapV2Factory ch signer feeToSetter w =
     deploy ch signer ''UniswapV2Factory'' [] [JStr feeToSetter] w"

definition deployUniswapV2Router02 :: "'w chain \<Rightarrow> string \<Rightarrow>
  string \<Rightarrow> string \<Rightarrow> 'w world \<Rightarrow>
  (handle \<times> 'w world) option" where
  "deployUniswapV2Router02 ch signer factory weth w =
     deploy ch signer ''UniswapV2Router02'' [] [JStr factory, JStr weth] w"

definition getForkedUniswapV2Router02 :: "string \<Rightarrow> string \<Rightarrow> handle" where
  "getForkedUniswapV2Router02 signer mainnetRouter = attach signer ''UniswapV2Router02'' mainnetRouter"

definition deployUniswapV2Pair :: "'w chain \<Rightarrow> string \<Rightarrow>
  'w world \<Rightarrow> (handle \<times> 'w world) option" where
  "deployUniswapV2Pair ch signer w =
     deploy ch signer ''UniswapV2Pair'' [] [] w"

definition deployStakingRewards :: "'w chain \<Rightarrow> string \<Rightarrow>
  string \<Rightarrow> string \<Rightarrow> string \<Rightarrow> 'w world \<Rightarrow>
  (handle \<times> 'w world) option" where
  "deployStakingRewards ch signer rewardsDistribution rewardsToken stakingToken w =
     deploy ch signer ''StakingRewards'' [] [JStr rewardsDistribution, JStr rewardsToken,
       JStr stakingToken] w"

definition deployB__factory :: "'w chain \<Rightarrow> string \<Rightarrow> 'w world \<Rightarrow>
  (handle \<times> 'w world) option" where
  "deployB__factory ch signer w =
     deploy ch signer ''BFactory'' [] [] w"

definition deployExchangeProxy :: "'w chain \<Rightarrow> string \<Rightarrow> string \<Rightarrow>
  'w world \<Rightarrow> (handle \<times> 'w world) option" where
  "deployExchangeProxy ch signer weth w =
     deploy ch signer ''ExchangeProxy'' [] [JStr weth] w"

definition deployBRegistry :: "'w chain \<Rightarrow> string \<Rightarrow> string \<Rightarrow>
  'w world \<Rightarrow> (handle \<times> 'w world) option" where
  "deployBRegistry ch signer factory w =
     deploy ch signer ''BRegistry'' [] [JStr factory] w"

definition deployDelegateRegistry :: "'w chain \<Rightarrow> string \<Rightarrow>
  'w world \<Rightarrow> (handle \<times> 'w world) option" where
  "deployDelegateRegistry ch signer w =
     deploy ch signer ''DelegateRegistry'' [] [] w"

definition deployVault :: "'w chain \<Rightarrow> string \<Rightarrow> 'w world \<Rightarrow>
  (handle \<times> 'w world) option" where
  "deployVault ch signer w =
     deploy ch signer ''Vault'' [] [] w"

definition getVault :: "string \<Rightarrow> string \<Rightarrow> handle" where
  "getVault signer vaultAddress = attach signer ''Vault'' vaultAddress"

definition deployRegistry :: "'w chain \<Rightarrow> string \<Rightarrow> 'w world \<Rightarrow>
  (handle \<times> 'w world) option" where
  "deployRegistry ch signer w =
     deploy ch signer ''Registry'' [] [] w"

definition deployKyberNetworkTokenV2 :: "'w chain \<Rightarrow> string \<Rightarrow>
  'w world \<Rightarrow> (handle \<times> 'w world) option" where
  "deployKyberNetworkTokenV2 ch signer w =
     deploy ch signer ''KyberNetworkTokenV2'' [] [] w"

definition deployDMMFactory :: "'w chain \<Rightarrow> string \<Rightarrow> string \<Rightarrow>
  'w world \<Rightarrow> (handle \<times> 'w world) option" where
  "deployDMMFactory ch signer feeToSetter w =
     deploy ch signer ''DMMFactory'' [] [JStr feeToSetter] w"

definition deployDMMRouter02 :: "'w chain \<Rightarrow> string \<Rightarrow> string \<Rightarrow>
  string \<Rightarrow> 'w world \<Rightarrow> (handle \<times> 'w world) option" where
  "deployDMMRouter02 ch signer factory weth w =
     deploy ch signer ''DMMRouter02'' [] [JStr factory, JStr weth] w"

definition deployDMMPool :: "'w chain \<Rightarrow> string \<Rightarrow> 'w world \<Rightarrow>
  (handle \<times> 'w world) option" where
  "deployDMMPool ch signer w =
     deploy ch signer ''DMMPool'' [] [] w"

definition deployUniswapV3Factory :: "'w chain \<Rightarrow> string \<Rightarrow>
  'w world \<Rightarrow> (handle \<times> 'w world) option" where
  "deployUniswapV3Factory ch signer w =
     deploy ch signer ''UniswapV3Factory'' [] [] w"

definition deploySwapRouter :: "'w chain \<Rightarrow> string \<Rightarrow> string \<Rightarrow>
  string \<Rightarrow> 'w world \<Rightarrow> (handle \<times> 'w world) option" where
  "deploySwapRouter ch signer factory weth w =
     deploy ch signer ''SwapRouter'' [] [JStr factory, JStr weth] w"

definition deployNftPositionManager :: "'w chain \<Rightarrow> string \<Rightarrow>
  string \<Rightarrow> string \<Rightarrow> string \<Rightarrow> 'w world \<Rightarrow>
  (handle \<times> 'w world) option" where
  "deployNftPositionManager ch signer factory weth nftDesc w =
     deploy ch signer ''NonfungiblePositionManager'' [] [JStr factory, JStr weth, JStr nftDesc] w"

definition deployQuoter :: "'w chain \<Rightarrow> string \<Rightarrow> string \<Rightarrow>
  string \<Rightarrow> 'w world \<Rightarrow> (handle \<times> 'w world) option" where
  "deployQuoter ch signer factory weth w =
     deploy ch signer ''Quoter'' [] [JStr factory, JStr weth] w"

definition deployNFTDescriptor :: "'w chain \<Rightarrow> string \<Rightarrow>
  'w world \<Rightarrow> (handle \<times> 'w world) option" where
  "deployNFTDescriptor ch signer w =
     deploy ch signer ''NFTDescriptor'' [] [] w"

definition getUniswapV3PoolInstance :: "string \<Rightarrow> string \<Rightarrow> handle" where
  "getUniswapV3PoolInstance signer pool = attach signer ''UniswapV3Pool'' pool"

definition deployPerpV2OrderBook :: "'w chain \<Rightarrow> string \<Rightarrow>
  'w world \<Rightarrow> (handle \<times> 'w world) option" where
  "deployPerpV2OrderBook ch signer w =
     deploy ch signer ''PerpV2OrderBook'' [] [] w"

definition deployPerpV2MarketRegistry :: "'w chain \<Rightarrow> string \<Rightarrow>
  'w world \<Rightarrow> (handle \<times> 'w world) option" where
  "deployPerpV2MarketRegistry ch signer w =
     deploy ch signer ''PerpV2MarketRegistry'' [] [] w"

definition deployPerpV2Quoter :: "'w chain \<Rightarrow> string \<Rightarrow> string \<Rightarrow>
  'w world \<Rightarrow> (handle \<times> 'w world) option" where
  "deployPerpV2Quoter ch signer marketRegistry w =
     deploy ch signer ''PerpV2Quoter'' [] [JStr marketRegistry] w"

definition deployPerpV2QuoteToken :: "'w chain \<Rightarrow> string \<Rightarrow>
  'w world \<Rightarrow> (handle \<times> 'w world) option" where
  "deployPerpV2QuoteToken ch signer w =
     deploy ch signer ''PerpV2QuoteToken'' [] [] w"

definition deployPerpV2Vault :: "'w chain \<Rightarrow> string \<Rightarrow> 'w world \<Rightarrow>
  (handle \<times> 'w world) option" where
  "deployPerpV2Vault ch signer w =
     deploy ch signer ''PerpV2Vault'' [] [] w"

definition deployPerpV2TestAggregatorV3 :: "'w chain \<Rightarrow> string \<Rightarrow>
  'w world \<Rightarrow> (handle \<times> 'w world) option" where
  "deployPerpV2TestAggregatorV3 ch signer w =
     deploy ch signer ''PerpV2TestAggregatorV3'' [] [] w"

definition deployPerpV2ChainlinkPriceFeed :: "'w chain \<Rightarrow> string \<Rightarrow>
  'w world \<Rightarrow> (handle \<times> 'w world) option" where
  "deployPerpV2ChainlinkPriceFeed ch signer w =
     deploy ch signer ''PerpV2ChainlinkPriceFeed'' [] [] w"

definition deployPerpV2BaseToken :: "'w chain \<Rightarrow> string \<Rightarrow>
  'w world \<Rightarrow> (handle \<times> 'w world) option" where
  "deployPerpV2BaseToken ch signer w =
     deploy ch signer ''PerpV2BaseToken'' [] [] w"

definition deployPerpV2ClearingHouseConfig :: "'w chain \<Rightarrow> string \<Rightarrow>
  'w world \<Rightarrow> (handle \<times> 'w world) option" where
  "deployPerpV2ClearingHouseConfig ch signer w =
     deploy ch signer ''PerpV2ClearingHouseConfig'' [] [] w"

definition deployPerpV2InsuranceFund :: "'w chain \<Rightarrow> string \<Rightarrow>
  'w world \<Rightarrow> (handle \<times> 'w world) option" where
  "deployPerpV2InsuranceFund ch signer w =
     deploy ch signer ''PerpV2InsuranceFund'' [] [] w"

definition deployPerpV2AccountBalance :: "'w chain \<Rightarrow> string \<Rightarrow>
  'w world \<Rightarrow> (handle \<times> 'w world) option" where
  "deployPerpV2AccountBalance ch signer w =
     deploy ch signer ''PerpV2AccountBalance'' [] [] w"

definition deployPerpV2Exchange :: "'w chain \<Rightarrow> string \<Rightarrow>
  'w world \<Rightarrow> (handle \<times> 'w world) option" where
  "deployPerpV2Exchange ch signer w =
     deploy ch signer ''PerpV2Exchange'' [] [] w"

definition deployPerpV2ClearingHouse :: "'w chain \<Rightarrow> string \<Rightarrow>
  'w world \<Rightarrow> (handle \<times> 'w world) option" where
  "deployPerpV2ClearingHouse ch signer w =
     deploy ch signer ''PerpV2ClearingHouse'' [] [] w"

definition deployWrappedfCash :: "'w chain \<Rightarrow> string \<Rightarrow> string \<Rightarrow>
  string \<Rightarrow> 'w world \<Rightarrow> (handle \<times> 'w world) option" where
  "deployWrappedfCash ch signer notionalProxy weth w =
     deploy ch signer ''WrappedfCash'' [] [JStr notionalProxy, JStr weth] w"

definition deployWrappedfCashFactory :: "'w chain \<Rightarrow> string \<Rightarrow>
  string \<Rightarrow> 'w world \<Rightarrow> (handle \<times> 'w world) option" where
  "deployWrappedfCashFactory ch signer beacon w =
     deploy ch signer ''WrappedfCashFactory'' [] [JStr beacon] w"

definition getVToken :: "string \<Rightarrow> string \<Rightarrow> handle" where
  "getVToken signer token = attach signer ''PerpV2BaseToken'' token"

end
