(* ===== verification/DeployMocks.thy ===== *)
theory DeployMocks
  imports Deploys
begin

section \<open>Deployment helpers: mocks\<close>

text \<open>
  \<^verbatim>\<open>src/utils/deploys/deployMocks.ts\<close>: the mock contracts of the test-suite.
\<close>

subsection \<open>deployMocks.ts\<close>

definition deployExplicitErc20Mock :: "'w chain \<Rightarrow> string \<Rightarrow>
  'w world \<Rightarrow> (handle \<times> 'w world) option" where
  "deployExplicitErc20Mock ch signer w =
     deploy ch signer ''ExplicitERC20Mock'' [] [] w"

definition deployInvokeMock :: "'w chain \<Rightarrow> string \<Rightarrow> 'w world \<Rightarrow>
  (handle \<times> 'w world) option" where
  "deployInvokeMock ch signer w =
     deploy ch signer ''InvokeMock'' [] [] w"

definition deployManagerIssuanceHookMock :: "'w chain \<Rightarrow> string \<Rightarrow>
  'w world \<Rightarrow> (handle \<times> 'w world) option" where
  "deployManagerIssuanceHookMock ch signer w =
     deploy ch signer ''ManagerIssuanceHookMock'' [] [] w"

definition deployModuleIssuanceHookMock :: "'w chain \<Rightarrow> string \<Rightarrow>
  'w world \<Rightarrow> (handle \<times> 'w world) option" where
  "deployModuleIssuanceHookMock ch signer w =
     deploy ch signer ''ModuleIssuanceHookMock'' [] [] w"

definition deployNavIssuanceHookMock :: "'w chain \<Rightarrow> string \<Rightarrow>
  'w world \<Rightarrow> (handle \<times> 'w world) option" where
  "deployNavIssuanceHookMock ch signer w =
     deploy ch signer ''NAVIssuanceHookMock'' [] [] w"

definition deployNAVIssuanceCaller :: "'w chain \<Rightarrow> string \<Rightarrow>
  string \<Rightarrow> 'w world \<Rightarrow> (handle \<times> 'w world) option" where
  "deployNAVIssuanceCaller ch signer navIssuanceModule w =
     deploy ch signer ''NAVIssuanceCaller'' [] [JStr navIssuanceModule] w"

definition deployAddressArrayUtilsMock :: "'w chain \<Rightarrow> string \<Rightarrow>
  'w world \<Rightarrow> (handle \<times> 'w world) option" where
  "deployAddressArrayUtilsMock ch signer w =
     deploy ch signer ''AddressArrayUtilsMock'' [] [] w"

definition deployUint256ArrayUtilsMock :: "'w chain \<Rightarrow> string \<Rightarrow>
  'w world \<Rightarrow> (handle \<times> 'w world) option" where
  "deployUint256ArrayUtilsMock ch signer w =
     deploy ch signer ''Uint256ArrayUtilsMock'' [] [] w"

definition deployKyberNetworkProxyMock :: "'w chain \<Rightarrow> string \<Rightarrow>
  string \<Rightarrow> 'w world \<Rightarrow> (handle \<times> 'w world) option" where
  "deployKyberNetworkProxyMock ch signer mockWethAddress w =
     deploy ch signer ''KyberNetworkProxyMock'' [] [JStr mockWethAddress] w"

definition deployModuleBaseMock :: "'w chain \<Rightarrow> string \<Rightarrow>
  string \<Rightarrow> 'w world \<Rightarrow> (handle \<times> 'w world) option" where
  "deployModuleBaseMock ch signer controllerAddress w =
     deploy ch signer ''ModuleBaseMock'' [] [JStr controllerAddress] w"

definition deployModuleBaseV2Mock :: "'w chain \<Rightarrow> string \<Rightarrow>
  string \<Rightarrow> 'w world \<Rightarrow> (handle \<times> 'w world) option" where
  "deployModuleBaseV2Mock ch signer controllerAddress w =
     deploy ch signer ''ModuleBaseV2Mock'' [] [JStr controllerAddress] w"

definition deployGodModeMock :: "'w chain \<Rightarrow> string \<Rightarrow> string \<Rightarrow>
  'w world \<Rightarrow> (handle \<times> 'w world) option" where
  "deployGodModeMock ch signer controllerAddress w =
     deploy ch signer ''GodModeMock'' [] [JStr controllerAddress] w"

definition deployDebtModuleMock :: "'w chain \<Rightarrow> string \<Rightarrow>
  string \<Rightarrow> 'w world \<Rightarrow> (handle \<times> 'w world) option" where
  "deployDebtModuleMock ch signer controllerAddress w =
     deploy ch signer ''DebtModuleMock'' [] [JStr controllerAddress] w"

definition deployGovernanceAdapterMock :: "'w chain \<Rightarrow> string \<Rightarrow>
  int \<Rightarrow> 'w world \<Rightarrow> (handle \<times> 'w world) option" where
  "deployGovernanceAdapterMock ch signer initialProposalId w =
     deploy ch signer ''GovernanceAdapterMock'' [] [JNum initialProposalId] w"

definition deployCurveStableswapMock :: "'w chain \<Rightarrow> string \<Rightarrow>
  string list \<Rightarrow> 'w world \<Rightarrow> (handle \<times> 'w world) option" where
  "deployCurveStableswapMock ch signer coins w =
     deploy ch signer ''CurveStableswapMock'' [] [JArr (map JStr coins)] w"

definition deployOneInchExchangeMock :: "'w chain \<Rightarrow> string \<Rightarrow>
  string \<Rightarrow> string \<Rightarrow> int \<Rightarrow> int \<Rightarrow>
  'w world \<Rightarrow> (handle \<times> 'w world) option" where
  "deployOneInchExchangeMock ch signer sendToken receiveToken sendQuantity receiveQuantity w =
     deploy ch signer ''OneInchExchangeMock'' [] [JStr sendToken, JStr receiveToken,
       JNum sendQuantity, JNum receiveQuantity] w"

definition deployZeroExMock :: "'w chain \<Rightarrow> string \<Rightarrow> string \<Rightarrow>
  string \<Rightarrow> int \<Rightarrow> int \<Rightarrow> 'w world \<Rightarrow>
  (handle \<times> 'w world) option" where
  "deployZeroExMock ch signer sendToken receiveToken sendQuantity receiveQuantity w =
     deploy ch signer ''ZeroExMock'' [] [JStr sendToken, JStr receiveToken, JNum sendQuantity,
       JNum receiveQuantity] w"

definition deployOracleMock :: "'w chain \<Rightarrow> string \<Rightarrow> int \<Rightarrow>
  'w world \<Rightarrow> (handle \<times> 'w world) option" where
  "deployOracleMock ch signer initialValue w =
     deploy ch signer ''OracleMock'' [] [JNum initialValue] w"

definition deployYearnVaultMock :: "'w chain \<Rightarrow> string \<Rightarrow> int \<Rightarrow>
  'w world \<Rightarrow> (handle \<times> 'w world) option" where
  "deployYearnVaultMock ch signer pricePerShare w =
     deploy ch signer ''YearnVaultMock'' [] [JNum pricePerShare] w"

definition deployOracleAdapterMock :: "'w chain \<Rightarrow> string \<Rightarrow>
  string \<Rightarrow> int \<Rightarrow> 'w world \<Rightarrow> (handle \<times> 'w world) option" where
  "deployOracleAdapterMock ch signer asset dummyPrice w =
     deploy ch signer ''OracleAdapterMock'' [] [JStr asset, JNum dummyPrice] w"

definition deployPositionMock :: "'w chain \<Rightarrow> string \<Rightarrow>
  'w world \<Rightarrow> (handle \<times> 'w world) option" where
  "deployPositionMock ch signer w =
     deploy ch signer ''PositionMock'' [] [] w"

definition deployPositionV2Mock :: "'w chain \<Rightarrow> string \<Rightarrow>
  string \<Rightarrow> string \<Rightarrow> 'w world \<Rightarrow>
  (handle \<times> 'w world) option" where
  "deployPositionV2Mock ch signer libraryName libraryAddress w =
     deploy ch signer ''PositionV2Mock'' [(libraryName, libraryAddress)] [] w"

definition deployPreciseUnitMathMock :: "'w chain \<Rightarrow> string \<Rightarrow>
  'w world \<Rightarrow> (handle \<times> 'w world) option" where
  "deployPreciseUnitMathMock ch signer w =
     deploy ch signer ''PreciseUnitMathMock'' [] [] w"

definition deployResourceIdentifierMock :: "'w chain \<Rightarrow> string \<Rightarrow>
  'w world \<Rightarrow> (handle \<times> 'w world) option" where
  "deployResourceIdentifierMock ch signer w =
     deploy ch signer ''ResourceIdentifierMock'' [] [] w"

definition deployStakingAdapterMock :: "'w chain \<Rightarrow> string \<Rightarrow>
  string \<Rightarrow> 'w world \<Rightarrow> (handle \<times> 'w world) option" where
  "deployStakingAdapterMock ch signer stakingAsset w =
     deploy ch signer ''StakingAdapterMock'' [] [JStr stakingAsset] w"

definition deployTokenMock :: "'w chain \<Rightarrow> string \<Rightarrow> string \<Rightarrow>
  int option \<Rightarrow> int option \<Rightarrow> string option \<Rightarrow>
  string option \<Rightarrow> 'w world \<Rightarrow> (handle \<times> 'w world) option" where
  "deployTokenMock ch signer initialAccount initialBalance decimals nm smb w =
     deploy ch signer ''StandardTokenMock'' [] [JStr initialAccount,
       JNum (default_to (ether 1000000000 1) initialBalance), JStr (default_to (''Token'') nm),
       JStr (default_to (''Symbol'') smb), JNum (default_to (18) decimals)] w"

definition deployTokenWithFeeMock :: "'w chain \<Rightarrow> string \<Rightarrow>
  string \<Rightarrow> int option \<Rightarrow> int option \<Rightarrow>
  string option \<Rightarrow> string option \<Rightarrow> 'w world \<Rightarrow>
  (handle \<times> 'w world) option" where
  "deployTokenWithFeeMock ch signer initialAccount initialBalance fee nm smb w =
     deploy ch signer ''StandardTokenWithFeeMock'' [] [JStr initialAccount,
       JNum (default_to (ether 1000000000 1) initialBalance), JStr (default_to (''Token'') nm),
       JStr (default_to (''Symbol'') smb), JNum (default_to (ether 1 10) fee)] w"

definition deployTokenWithErrorMock :: "'w chain \<Rightarrow> string \<Rightarrow>
  string \<Rightarrow> int \<Rightarrow> int \<Rightarrow> string option \<Rightarrow>
  string option \<Rightarrow> int option \<Rightarrow> 'w world \<Rightarrow>
  (handle \<times> 'w world) option" where
  "deployTokenWithErrorMock ch signer initialAccount initialBalance err nm smb decimals w =
     deploy ch signer ''StandardTokenWithRoundingErrorMock'' [] [JStr initialAccount,
       JNum initialBalance, JNum err, JStr (default_to (''Token'') nm),
       JStr (default_to (''Symbol'') smb), JNum (default_to (18) decimals)] w"

definition deployTradeAdapterMock :: "'w chain \<Rightarrow> string \<Rightarrow>
  'w world \<Rightarrow> (handle \<times> 'w world) option" where
  "deployTradeAdapterMock ch signer w =
     deploy ch signer ''TradeAdapterMock'' [] [] w"

definition deployAmmAdapterMock :: "'w chain \<Rightarrow> string \<Rightarrow>
  string list \<Rightarrow> 'w world \<Rightarrow> (handle \<times> 'w world) option" where
  "deployAmmAdapterMock ch signer underlyingTokens w =
     deploy ch signer ''AmmAdapterMock'' [] [JArr (map JStr underlyingTokens)] w"

definition deployWrapAdapterMock :: "'w chain \<Rightarrow> string \<Rightarrow>
  'w world \<Rightarrow> (handle \<times> 'w world) option" where
  "deployWrapAdapterMock ch signer w =
     deploy ch signer ''WrapAdapterMock'' [] [] w"

definition deployAaveLendingPoolCoreMock :: "'w chain \<Rightarrow> string \<Rightarrow>
  'w world \<Rightarrow> (handle \<times> 'w world) option" where
  "deployAaveLendingPoolCoreMock ch signer w =
     deploy ch signer ''AaveLendingPoolCoreMock'' [] [] w"

definition deployAaveLendingPoolMock :: "'w chain \<Rightarrow> string \<Rightarrow>
  string \<Rightarrow> 'w world \<Rightarrow> (handle \<times> 'w world) option" where
  "deployAaveLendingPoolMock ch signer aaveLendingPoolCore w =
     deploy ch signer ''AaveLendingPoolMock'' [] [JStr aaveLendingPoolCore] w"

definition deployAaveV2Mock :: "'w chain \<Rightarrow> string \<Rightarrow> string \<Rightarrow>
  string \<Rightarrow> 'w world \<Rightarrow> (handle \<times> 'w world) option" where
  "deployAaveV2Mock ch signer libraryName libraryAddress w =
     deploy ch signer ''AaveV2Mock'' [(libraryName, libraryAddress)] [] w"

definition deployPerpV2Mock :: "'w chain \<Rightarrow> string \<Rightarrow> string \<Rightarrow>
  string \<Rightarrow> 'w world \<Rightarrow> (handle \<times> 'w world) option" where
  "deployPerpV2Mock ch signer libraryName libraryAddress w =
     deploy ch signer ''PerpV2Mock'' [(libraryName, libraryAddress)] [] w"

definition deployPerpV2LibraryV2Mock :: "'w chain \<Rightarrow> string \<Rightarrow>
  string \<Rightarrow> string \<Rightarrow> 'w world \<Rightarrow>
  (handle \<times> 'w world) option" where
  "deployPerpV2LibraryV2Mock ch signer libraryName libraryAddress w =
     deploy ch signer ''PerpV2LibraryV2Mock'' [(libraryName, libraryAddress)] [] w"

definition deployPerpV2PositionsMock :: "'w chain \<Rightarrow> string \<Rightarrow>
  string \<Rightarrow> string \<Rightarrow> 'w world \<Rightarrow>
  (handle \<times> 'w world) option" where
  "deployPerpV2PositionsMock ch signer libraryName libraryAddress w =
     deploy ch signer ''PerpV2PositionsMock'' [(libraryName, libraryAddress)] [] w"

definition deployUniswapV3MathMock :: "'w chain \<Rightarrow> string \<Rightarrow>
  'w world \<Rightarrow> (handle \<times> 'w world) option" where
  "deployUniswapV3MathMock ch signer w =
     deploy ch signer ''UniswapV3MathMock'' [] [] w"

definition deployUnitConversionUtilsMock :: "'w chain \<Rightarrow> string \<Rightarrow>
  'w world \<Rightarrow> (handle \<times> 'w world) option" where
  "deployUnitConversionUtilsMock ch signer w =
     deploy ch signer ''UnitConversionUtilsMock'' [] [] w"

definition deploySetTokenAccessibleMock :: "'w chain \<Rightarrow> string \<Rightarrow>
  string \<Rightarrow> 'w world \<Rightarrow> (handle \<times> 'w world) option" where
  "deploySetTokenAccessibleMock ch signer controller w =
     deploy ch signer ''SetTokenAccessibleMock'' [] [JStr controller] w"

definition deployClaimAdapterMock :: "'w chain \<Rightarrow> string \<Rightarrow>
  'w world \<Rightarrow> (handle \<times> 'w world) option" where
  "deployClaimAdapterMock ch signer w =
     deploy ch signer ''ClaimAdapterMock'' [] [] w"

definition deployGaugeControllerMock :: "'w chain \<Rightarrow> string \<Rightarrow>
  'w world \<Rightarrow> (handle \<times> 'w world) option" where
  "deployGaugeControllerMock ch signer w =
     deploy ch signer ''GaugeControllerMock'' [] [] w"

definition deployContractCallerMock :: "'w chain \<Rightarrow> string \<Rightarrow>
  'w world \<Rightarrow> (handle \<times> 'w world) option" where
  "deployContractCallerMock ch signer w =
     deploy ch signer ''ContractCallerMock'' [] [] w"

definition deployDebtIssuanceMock :: "'w chain \<Rightarrow> string \<Rightarrow>
  'w world \<Rightarrow> (handle \<times> 'w world) option" where
  "deployDebtIssuanceMock ch signer w =
     deploy ch signer ''DebtIssuanceMock'' [] [] w"

definition deployComptrollerMock :: "'w chain \<Rightarrow> string \<Rightarrow>
  string \<Rightarrow> int \<Rightarrow> string \<Rightarrow> 'w world \<Rightarrow>
  (handle \<times> 'w world) option" where
  "deployComptrollerMock ch signer comp0 compAmount cToken w =
     deploy ch signer ''ComptrollerMock'' [] [JStr comp0, JNum compAmount, JStr cToken] w"

definition deployCompoundMock :: "'w chain \<Rightarrow> string \<Rightarrow> string \<Rightarrow>
  string \<Rightarrow> 'w world \<Rightarrow> (handle \<times> 'w world) option" where
  "deployCompoundMock ch signer libraryName libraryAddress w =
     deploy ch signer ''CompoundMock'' [(libraryName, libraryAddress)] [] w"

definition deploySynthMock :: "'w chain \<Rightarrow> string \<Rightarrow> string \<Rightarrow>
  string \<Rightarrow> int option \<Rightarrow> string option \<Rightarrow>
  string option \<Rightarrow> 'w world \<Rightarrow> (handle \<times> 'w world) option" where
  "deploySynthMock ch signer initialAccount currencyKey initialBalance nm smb w =
     deploy ch signer ''SynthMock'' [] [JStr initialAccount,
       JNum (default_to (ether 1000000000 1) initialBalance), JStr (default_to (''Token'') nm),
       JStr (default_to (''Symbol'') smb), JNum 18, JStr currencyKey] w"

definition deploySynthetixExchangerMock :: "'w chain \<Rightarrow> string \<Rightarrow>
  string \<Rightarrow> string \<Rightarrow> string \<Rightarrow> js \<Rightarrow> js \<Rightarrow>
  'w world \<Rightarrow> (handle \<times> 'w world) option" where
  "deploySynthetixExchangerMock ch signer sUsd sEth sBtc currencyKeys rates w =
     do { x0 \<leftarrow> field ''sUsd'' currencyKeys; x1 \<leftarrow> field ''sEth'' currencyKeys;
       x2 \<leftarrow> field ''sBtc'' currencyKeys; x3 \<leftarrow> field ''usd'' rates;
       x4 \<leftarrow> field ''eth'' x3; x5 \<leftarrow> field ''eth'' rates;
       x6 \<leftarrow> field ''usd'' x5; x7 \<leftarrow> field ''usd'' rates;
       x8 \<leftarrow> field ''btc'' x7; x9 \<leftarrow> field ''btc'' rates;
       x10 \<leftarrow> field ''usd'' x9;
       deploy ch signer ''SynthetixExchangerMock'' [] [JStr sUsd, JStr sEth, JStr sBtc, x0, x1, x2,
       x4, x6, x8, x10] w }"

definition deployCustomSetValuerMock :: "'w chain \<Rightarrow> string \<Rightarrow>
  'w world \<Rightarrow> (handle \<times> 'w world) option" where
  "deployCustomSetValuerMock ch signer w =
     deploy ch signer ''CustomSetValuerMock'' [] [] w"

definition deployYearnStrategyMock :: "'w chain \<Rightarrow> string \<Rightarrow>
  string \<Rightarrow> 'w world \<Rightarrow> (handle \<times> 'w world) option" where
  "deployYearnStrategyMock ch signer vault w =
     deploy ch signer ''YearnStrategyMock'' [] [JStr vault] w"

definition deployForceFunderMock :: "'w chain \<Rightarrow> string \<Rightarrow>
  'w world \<Rightarrow> (handle \<times> 'w world) option" where
  "deployForceFunderMock ch signer w =
     deploy ch signer ''ForceFunderMock'' [] [] w"

definition deployWrapV2AdapterMock :: "'w chain \<Rightarrow> string \<Rightarrow>
  'w world \<Rightarrow> (handle \<times> 'w world) option" where
  "deployWrapV2AdapterMock ch signer w =
     deploy ch signer ''WrapV2AdapterMock'' [] [] w"

definition deployChainlinkAggregatorMock :: "'w chain \<Rightarrow> string \<Rightarrow>
  int \<Rightarrow> 'w world \<Rightarrow> (handle \<times> 'w world) option" where
  "deployChainlinkAggregatorMock ch signer decimals w =
     deploy ch signer ''ChainlinkAggregatorMock'' [] [JNum decimals] w"

definition deployTribePegExchangerMock :: "'w chain \<Rightarrow> string \<Rightarrow>
  string \<Rightarrow> string \<Rightarrow> 'w world \<Rightarrow>
  (handle \<times> 'w world) option" where
  "deployTribePegExchangerMock ch signer rgt tribe w =
     deploy ch signer ''TribePegExchangerMock'' [] [JStr rgt, JStr tribe] w"

definition deployStringArrayUtilsMock :: "'w chain \<Rightarrow> string \<Rightarrow>
  'w world \<Rightarrow> (handle \<times> 'w world) option" where
  "deployStringArrayUtilsMock ch signer w =
     deploy ch signer ''StringArrayUtilsMock'' [] [] w"

definition deployBytesArrayUtilsMock :: "'w chain \<Rightarrow> string \<Rightarrow>
  'w world \<Rightarrow> (handle \<times> 'w world) option" where
  "deployBytesArrayUtilsMock ch signer w =
     deploy ch signer ''BytesArrayUtilsMock'' [] [] w"

definition deployWrappedfCashMock :: "'w chain \<Rightarrow> string \<Rightarrow>
  string \<Rightarrow> string \<Rightarrow> string \<Rightarrow> 'w world \<Rightarrow>
  (handle \<times> 'w world) option" where
  "deployWrappedfCashMock ch signer assetToken underlyingToken weth w =
     deploy ch signer ''WrappedfCashMock'' [] [JStr assetToken, JStr underlyingToken, JStr weth] w"

definition deployWrappedfCashFactoryMock :: "'w chain \<Rightarrow> string \<Rightarrow>
  'w world \<Rightarrow> (handle \<times> 'w world) option" where
  "deployWrappedfCashFactoryMock ch signer w =
     deploy ch signer ''WrappedfCashFactoryMock'' [] [] w"

definition getTokenMock :: "string \<Rightarrow> string \<Rightarrow> handle" where
  "getTokenMock signer token = attach signer ''StandardTokenMock'' token"

definition getForkedZeroExExchange :: "string \<Rightarrow> handle option" where
  "getForkedZeroExExchange signer = do { a \<leftarrow> dependency ''ZERO_EX_EXCHANGE'' 1;
       Some (attach signer ''ZeroExMock'' a) }"

end
