(* ===== verification/CommonUtils.thy ===== *)
theory CommonUtils
  imports Scripts
begin

section \<open>Provider helpers, encodings and build utilities\<close>

text \<open>
  The remaining small files of \<^verbatim>\<open>src/utils\<close>: \<^verbatim>\<open>constants.ts\<close>, \<^verbatim>\<open>types.ts\<close>, \<^verbatim>\<open>wallets.ts\<close>,
  \<^verbatim>\<open>common/adapterUtils.ts\<close>, \<^verbatim>\<open>common/libraryUtils.ts\<close>, \<^verbatim>\<open>common/blockchainUtils.ts\<close>,
  \<^verbatim>\<open>common/protocolUtils.ts\<close>, \<^verbatim>\<open>test/testingUtils.ts\<close> and \<^verbatim>\<open>tasks/artifactUtils.ts\<close>. The hash function
  keccak256 and the event decoder of ethers are parameters.
\<close>

subsection \<open>constants.ts\<close>

definition MODULE_STATE :: "(string \<times> int) list" where
  "MODULE_STATE = [(''NONE'', 0), (''PENDING'', 1), (''INITIALIZED'', 2)]"

definition POSITION_STATE :: "(string \<times> int) list" where
  "POSITION_STATE = [(''DEFAULT'', 0), (''EXTERNAL'', 1)]"

definition EMPTY_BYTES :: string where
  "EMPTY_BYTES = ''0x''"

definition TS_MAX_UINT_256 :: int where
  "TS_MAX_UINT_256 = 2 ^ 256 - 1"

definition TS_MAX_INT_256 :: string where
  "TS_MAX_INT_256 = ''0x7fffffffffffffffffffffffffffffffffffffffffffffffffffffffffffffff''"

definition TS_MIN_INT_256 :: string where
  "TS_MIN_INT_256 = ''-0x8000000000000000000000000000000000000000000000000000000000000000''"

definition ETH_ADDRESS :: string where
  "ETH_ADDRESS = ''0xEeeeeEeeeEeEeeEeEeEeeEEEeeeeEeeeeeeeEEeE''"

subsection \<open>Strings\<close>

text \<open>\<open>s.replace(pat, rep)\<close> with a string pattern: the first occurrence only.\<close>

fun replace_first :: "string \<Rightarrow> string \<Rightarrow> string \<Rightarrow> string" where
  "replace_first pat rep [] = (if pat = [] then rep else [])"
| "replace_first pat rep (c # cs) =
     (if take (length pat) (c # cs) = pat then rep @ drop (length pat) (c # cs)
      else c # replace_first pat rep cs)"

definition padStart :: "nat \<Rightarrow> char \<Rightarrow> string \<Rightarrow> string" where
  "padStart n c s = replicate (n - length s) c @ s"

fun str_includes :: "string \<Rightarrow> string \<Rightarrow> bool" where
  "str_includes [] pat \<longleftrightarrow> pat = []"
| "str_includes (c # cs) pat \<longleftrightarrow> take (length pat) (c # cs) = pat \<or> str_includes cs pat"

definition hex_digit :: "nat \<Rightarrow> char" where
  "hex_digit d = (''0123456789abcdef'' ! d)"

text \<open>\<open>BigNumber.toHexString\<close> always has an even number of digits.\<close>

fun hex_bytes :: "nat \<Rightarrow> string" where
  "hex_bytes n = (if n < 256 then [] else hex_bytes (n div 256)) @ [hex_digit (n mod 256 div 16), hex_digit (n mod 16)]"

declare hex_bytes.simps [simp del]

definition toHexString :: "int \<Rightarrow> string" where
  "toHexString n = (if n < 0 then ''-0x'' @ hex_bytes (nat (- n)) else ''0x'' @ hex_bytes (nat n))"

text \<open>The reading of a digit string, in either case.\<close>

definition hex_value1 :: "char \<Rightarrow> nat option" where
  "hex_value1 c =
     (let k = of_char c :: nat in
      if 48 \<le> k \<and> k \<le> 57 then Some (k - 48)
      else if 97 \<le> k \<and> k \<le> 102 then Some (k - 97 + 10)
      else if 65 \<le> k \<and> k \<le> 70 then Some (k - 65 + 10)
      else None)"

fun hex_value_from :: "nat \<Rightarrow> string \<Rightarrow> nat option" where
  "hex_value_from a [] = Some a"
| "hex_value_from a (c # cs) = (case hex_value1 c of None \<Rightarrow> None | Some d \<Rightarrow> hex_value_from (16 * a + d) cs)"

definition hex_value :: "string \<Rightarrow> nat option" where
  "hex_value s = hex_value_from 0 s"

subsection \<open>adapterUtils.ts and libraryUtils.ts\<close>

definition addressToData :: "string \<Rightarrow> string" where
  "addressToData address = replace_first ''0x'' ''000000000000000000000000'' address"

definition bigNumberToData :: "int \<Rightarrow> string" where
  "bigNumberToData number = padStart 64 CHR ''0'' (replace_first ''0x'' '''' (toHexString number))"

definition hashAdapterName :: "(string \<Rightarrow> string) \<Rightarrow> string \<Rightarrow> string" where
  "hashAdapterName keccak256 nm = keccak256 nm"

definition convertLibraryNameToLinkId :: "(string \<Rightarrow> string) \<Rightarrow> string \<Rightarrow> string option" where
  "convertLibraryNameToLinkId keccak256 libraryName =
     (if \<not> (str_includes libraryName ''/'' \<and> str_includes libraryName '':'') then None
      else Some (''__$'' @ take 34 (drop 2 (keccak256 libraryName)) @ ''$__''))"

subsection \<open>wallets.ts\<close>

definition privateKeys :: "string list" where
  "privateKeys = [
     ''0xf2f48ee19680706196e2e339e5da3491186e0c4c5030670656b0e0164837257d'',
     ''0x5d862464fe9303452126c8bc94274b8c5f9874cbd219789b3eb2128075a76f72'',
     ''0xdf02719c4df8b9b8ac7f551fcb5d9ef48fa27eef7a66453879f4d8fdc6e78fb1'',
     ''0xff12e391b79415e941a94de3bf3a9aee577aed0731e297d5cfa0b8a1e02fa1d0'',
     ''0x752dd9cf65e68cfaba7d60225cbdbc1f4729dd5e5507def72815ed0d8abc6249'',
     ''0xefb595a0178eb79a8df953f87c5148402a224cdf725e88c0146727c6aceadccd'',
     ''0x83c6d2cc5ddcf9711a6d59b417dc20eb48afd58d45290099e5987e3d768f328f'',
     ''0xbb2d3f7c9583780a7d3904a2f55d792707c345f21de1bacb2d389934d82796b2'',
     ''0xb2fd4d29c1390b71b8795ae81196bfd60293adf99f9d32a0aff06288fcdac55f'']"

text \<open>The constructor of an ethers wallet is the parameter.\<close>

definition generatedWallets :: "(string \<Rightarrow> 'provider \<Rightarrow> 'wallet) \<Rightarrow> 'provider \<Rightarrow> 'wallet list" where
  "generatedWallets mk_wallet provider = map (\<lambda>key. mk_wallet key provider) privateKeys"

subsection \<open>blockchainUtils.ts\<close>

text \<open>Snapshot identifiers are whatever the node answers; the field starts as the number 0.\<close>

record Blockchain =
  snapshotId :: js

definition new_Blockchain :: Blockchain where
  "new_Blockchain = \<lparr>snapshotId = JNum 0\<rparr>"

definition saveSnapshotAsync :: "'w chain \<Rightarrow> Blockchain \<Rightarrow> 'w world \<Rightarrow> (js \<times> Blockchain \<times> 'w world) option" where
  "saveSnapshotAsync ch b w = do {
     (response, w) \<leftarrow> rpc ch ''evm_snapshot'' [] w;
     let b = b\<lparr>snapshotId := response\<rparr>;
     Some (response, b, w)
   }"

definition revertAsync :: "'w chain \<Rightarrow> Blockchain \<Rightarrow> 'w world \<Rightarrow> (unit \<times> 'w world) option" where
  "revertAsync ch b w = do { (_, w) \<leftarrow> rpc ch ''evm_revert'' [snapshotId b] w; Some ((), w) }"

definition revertByIdAsync :: "'w chain \<Rightarrow> js \<Rightarrow> 'w world \<Rightarrow> (unit \<times> 'w world) option" where
  "revertByIdAsync ch sid w = do { (_, w) \<leftarrow> rpc ch ''evm_revert'' [sid] w; Some ((), w) }"

definition resetAsync :: "'w chain \<Rightarrow> 'w world \<Rightarrow> (unit \<times> 'w world) option" where
  "resetAsync ch w = do { (_, w) \<leftarrow> rpc ch ''evm_revert'' [JStr ''0x1''] w; Some ((), w) }"

definition blockchain_increaseTimeAsync :: "'w chain \<Rightarrow> int \<Rightarrow> 'w world \<Rightarrow> (unit \<times> 'w world) option" where
  "blockchain_increaseTimeAsync ch duration w = do { (_, w) \<leftarrow> rpc ch ''evm_increaseTime'' [JNum duration] w; Some ((), w) }"

definition getCurrentTimestamp :: "'w chain \<Rightarrow> 'w world \<Rightarrow> (js \<times> 'w world) option" where
  "getCurrentTimestamp ch w = do {
     (n, w) \<leftarrow> rpc ch ''getBlockNumber'' [] w;
     rpc ch ''getBlock'' [n] w
   }"

definition setNextBlockTimestamp :: "'w chain \<Rightarrow> int \<Rightarrow> 'w world \<Rightarrow> (unit \<times> 'w world) option" where
  "setNextBlockTimestamp ch timestamp w = do {
     (_, w) \<leftarrow> rpc ch ''evm_setNextBlockTimestamp'' [JNum timestamp] w;
     Some ((), w)
   }"

fun waitBlocksAsync :: "'w chain \<Rightarrow> nat \<Rightarrow> 'w world \<Rightarrow> (unit \<times> 'w world) option" where
  "waitBlocksAsync ch 0 w = Some ((), w)"
| "waitBlocksAsync ch (Suc n) w = do { (_, w) \<leftarrow> rpc ch ''evm_mine'' [] w; waitBlocksAsync ch n w }"

subsection \<open>protocolUtils.ts\<close>

definition truthy :: "js option \<Rightarrow> bool" where
  "truthy v = (case v of None \<Rightarrow> False | Some (JNum n) \<Rightarrow> n \<noteq> 0 | Some (JStr s) \<Rightarrow> s \<noteq> [] | Some (JBool b) \<Rightarrow> b
     | Some _ \<Rightarrow> True)"

definition SetTokenCreated_abi :: string where
  "SetTokenCreated_abi = ''event SetTokenCreated(address indexed _setToken, address _manager, string _name, string _symbol)''"

text \<open>
  \<open>event_id\<close> is \<open>ethers.utils.id\<close>, the hash of an event signature; \<open>parseLog abi log\<close> decodes the
  arguments of a log entry. An array index \<open>-1\<close> is \<open>undefined\<close>, on which the decoder throws.
\<close>

definition getCreatedSetTokenAddress ::
  "'w chain \<Rightarrow> (string \<Rightarrow> string) \<Rightarrow> (string \<Rightarrow> js \<Rightarrow> js option) \<Rightarrow> string option \<Rightarrow> 'w world \<Rightarrow> (string \<times> 'w world) option" where
  "getCreatedSetTokenAddress ch event_id parseLog txnHash w =
     (if \<not> truthy (map_option JStr txnHash) then None
      else do {
        hash \<leftarrow> txnHash;
        (txnReceipt, w) \<leftarrow> rpc ch ''waitForTransaction'' [JStr hash] w;
        (if \<not> truthy (field ''status'' txnReceipt) then None
         else do {
           let topic = event_id ''SetTokenCreated(address,address,string,string)'';
           (v, w) \<leftarrow> rpc ch ''getLogs'' [JObj [(''fromBlock'', JStr ''latest''), (''toBlock'', JStr ''latest''),
                         (''topics'', JArr [JStr topic])]] w;
           logs \<leftarrow> as_arr v;
           last_log \<leftarrow> (if logs = [] then None else elem_at logs (length logs - 1));
           parsed \<leftarrow> parseLog SetTokenCreated_abi last_log;
           a \<leftarrow> field ''_setToken'' parsed;
           setToken \<leftarrow> as_str a;
           Some (setToken, w)
         })
      })"

definition getDefaultPosition :: "string \<Rightarrow> int \<Rightarrow> js" where
  "getDefaultPosition component unit =
     JObj [(''component'', JStr component), (''module'', JStr ADDRESS_ZERO), (''unit'', JNum unit),
           (''positionState'', JNum 0), (''data'', JStr EMPTY_BYTES)]"

definition getExternalPosition :: "string \<Rightarrow> string \<Rightarrow> int \<Rightarrow> string \<Rightarrow> js" where
  "getExternalPosition component md unit data =
     JObj [(''component'', JStr component), (''module'', JStr md), (''unit'', JNum unit),
           (''positionState'', JNum 1), (''data'', JStr data)]"

subsection \<open>testingUtils.ts\<close>

text \<open>
  The hooks registered by \<open>addSnapshotBeforeRestoreAfterEach\<close> and \<open>cacheBeforeEach\<close>. The state of the
  latter is the closure variable \<open>initialized\<close>, the stack \<open>SNAPSHOTS\<close> shared by all suites of the process
  and the private \<open>Blockchain\<close>; the suite's initializer is a parameter.
\<close>

definition snapshot_beforeEach :: "'w chain \<Rightarrow> Blockchain \<Rightarrow> 'w world \<Rightarrow> (Blockchain \<times> 'w world) option" where
  "snapshot_beforeEach ch b w = do { (_, b, w) \<leftarrow> saveSnapshotAsync ch b w; Some (b, w) }"

definition snapshot_afterEach :: "'w chain \<Rightarrow> Blockchain \<Rightarrow> 'w world \<Rightarrow> (Blockchain \<times> 'w world) option" where
  "snapshot_afterEach ch b w = do { (_, w) \<leftarrow> revertAsync ch b w; Some (b, w) }"

record cache_state =
  initialized :: bool
  SNAPSHOTS :: "js list"
  cache_blockchain :: Blockchain

definition cache_beforeEach ::
  "'w chain \<Rightarrow> ('w world \<Rightarrow> 'w world option) \<Rightarrow> cache_state \<Rightarrow> 'w world \<Rightarrow> (cache_state \<times> 'w world) option" where
  "cache_beforeEach ch initializer c w =
     (if \<not> initialized c then do {
        w \<leftarrow> initializer w;
        (sid, b, w) \<leftarrow> saveSnapshotAsync ch (cache_blockchain c) w;
        Some (\<lparr>initialized = True, SNAPSHOTS = sid # SNAPSHOTS c, cache_blockchain = b\<rparr>, w)
      } else (case SNAPSHOTS c of [] \<Rightarrow> None | snapshot # rest \<Rightarrow> do {
        (_, w) \<leftarrow> revertByIdAsync ch snapshot w;
        (sid, b, w) \<leftarrow> saveSnapshotAsync ch (cache_blockchain c) w;
        Some (c\<lparr>SNAPSHOTS := sid # rest, cache_blockchain := b\<rparr>, w)
      }))"

definition cache_after :: "cache_state \<Rightarrow> cache_state" where
  "cache_after c = (if initialized c then c\<lparr>SNAPSHOTS := tl (SNAPSHOTS c)\<rparr> else c)"

definition getTransactionTimestamp :: "'w chain \<Rightarrow> js \<Rightarrow> 'w world \<Rightarrow> (int \<times> 'w world) option" where
  "getTransactionTimestamp ch txData w = do {
     block \<leftarrow> field ''block'' txData;
     (b, w) \<leftarrow> rpc ch ''getBlock'' [block] w;
     v \<leftarrow> field ''timestamp'' b;
     t \<leftarrow> as_num v;
     Some (t, w)
   }"

definition getLastBlockTimestamp :: "'w chain \<Rightarrow> 'w world \<Rightarrow> (int \<times> 'w world) option" where
  "getLastBlockTimestamp ch w = do {
     (b, w) \<leftarrow> rpc ch ''getBlock'' [JStr ''latest''] w;
     v \<leftarrow> field ''timestamp'' b;
     t \<leftarrow> as_num v;
     Some (t, w)
   }"

definition mineBlockAsync :: "'w chain \<Rightarrow> 'w world \<Rightarrow> (unit \<times> 'w world) option" where
  "mineBlockAsync ch w = do { (_, w) \<leftarrow> rpc ch ''evm_mine'' [] w; Some ((), w) }"

text \<open>\<open>duration.toNumber()\<close> throws beyond \<open>2 ^ 53 - 1\<close>.\<close>

definition increaseTimeAsync :: "'w chain \<Rightarrow> int \<Rightarrow> 'w world \<Rightarrow> (unit \<times> 'w world) option" where
  "increaseTimeAsync ch duration w =
     (if \<bar>duration\<bar> > 2 ^ 53 - 1 then None else do {
        (_, w) \<leftarrow> rpc ch ''evm_increaseTime'' [JNum duration] w;
        mineBlockAsync ch w
      })"

subsection \<open>artifactUtils.ts\<close>

text \<open>An ABI element is an object; the spread \<open>{...e, gas: g}\<close> keeps the place of an existing key.\<close>

fun set_key :: "string \<Rightarrow> js \<Rightarrow> (string \<times> js) list \<Rightarrow> (string \<times> js) list" where
  "set_key k v [] = [(k, v)]"
| "set_key k v ((k', v') # kvs) = (if k' = k then (k, v) # kvs else (k', v') # set_key k v kvs)"

definition delete_key :: "string \<Rightarrow> (string \<times> js) list \<Rightarrow> (string \<times> js) list" where
  "delete_key k kvs = filter (\<lambda>(k', _). k' \<noteq> k) kvs"

definition is_function_element :: "(string \<times> js) list \<Rightarrow> bool" where
  "is_function_element e \<longleftrightarrow> map_of e ''type'' = Some (JStr ''function'')"

text \<open>\<open>coverage\<close> is the gas limit of the coverage tool when \<open>COVERAGE\<close> is set.\<close>

definition addGasToAbiMethods :: "int option \<Rightarrow> int \<Rightarrow> (string \<times> js) list list \<Rightarrow> (string \<times> js) list list" where
  "addGasToAbiMethods coverage network_gas abi =
     (let gas = default_to network_gas coverage;
          gasLimit = toHexString (gas - 1000000)
      in map (\<lambda>e. if \<not> is_function_element e then e else set_key ''gas'' (JStr gasLimit) e) abi)"

definition removeGasFromAbiMethods :: "(string \<times> js) list list \<Rightarrow> (string \<times> js) list list" where
  "removeGasFromAbiMethods abi = map (\<lambda>e. if \<not> is_function_element e then e else delete_key ''gas'' e) abi"

subsection \<open>Digit strings\<close>

lemma hex_value1_hex_digit: "d < 16 \<Longrightarrow> hex_value1 (hex_digit d) = Some d"
proof -
  have "\<forall>d<16. hex_value1 (hex_digit d) = Some d" by code_simp
  then show "d < 16 \<Longrightarrow> ?thesis" by blast
qed

lemma hex_value_from_append:
  "hex_value_from a (xs @ ys) = (case hex_value_from a xs of None \<Rightarrow> None | Some b \<Rightarrow> hex_value_from b ys)"
  by (induction xs arbitrary: a) (auto split: option.splits)

lemma hex_value_from_zeros: "hex_value_from 0 (replicate k CHR ''0'' @ s) = hex_value_from 0 s"
proof -
  have "hex_value1 CHR ''0'' = Some 0" by code_simp
  then show ?thesis by (induction k) simp_all
qed

lemma hex_value_from_replicate:
  "hex_value_from a (replicate k CHR ''f'') = Some ((a + 1) * 16 ^ k - 1)"
  "hex_value_from a (replicate k CHR ''0'') = Some (a * 16 ^ k)"
proof -
  have digits: "hex_value1 CHR ''f'' = Some 15" "hex_value1 CHR ''0'' = Some 0" by code_simp+
  show "hex_value_from a (replicate k CHR ''f'') = Some ((a + 1) * 16 ^ k - 1)"
    by (induction k arbitrary: a) (simp_all add: digits algebra_simps)
  show "hex_value_from a (replicate k CHR ''0'') = Some (a * 16 ^ k)"
    by (induction k arbitrary: a) (simp_all add: digits algebra_simps)
qed

lemma hex_value_hex_bytes: "hex_value (hex_bytes n) = Some n"
proof (induction n rule: hex_bytes.induct)
  case (1 n)
  have digits: "n mod 256 div 16 < 16" "n mod 16 < 16" by (simp_all add: less_mult_imp_div_less)
  have "n mod 256 mod 16 = n mod 16" by (simp add: mod_mod_cancel)
  then have split: "16 * (n mod 256 div 16) + n mod 16 = n mod 256"
    using mult_div_mod_eq [of 16 "n mod 256"] by simp
  show ?case
  proof (cases "n < 256")
    case True
    then show ?thesis using digits split
      by (subst hex_bytes.simps) (simp add: hex_value_def hex_value1_hex_digit)
  next
    case False
    have "16 * (16 * (n div 256) + n mod 256 div 16) + n mod 16 = n"
    proof -
      have "16 * y + z = r \<Longrightarrow> 256 * x + r = n \<Longrightarrow> 16 * (16 * x + y) + z = n" for x y z r :: nat by simp
      from this [OF split mult_div_mod_eq] show ?thesis .
    qed
    then show ?thesis using 1 False digits
      by (subst hex_bytes.simps) (simp add: hex_value_def hex_value_from_append hex_value1_hex_digit)
  qed
qed

lemma length_hex_bytes: "0 < k \<Longrightarrow> n < 256 ^ k \<Longrightarrow> length (hex_bytes n) \<le> 2 * k"
proof (induction k arbitrary: n)
  case (Suc k)
  show ?case
  proof (cases "n < 256")
    case True
    then show ?thesis by (subst hex_bytes.simps) simp
  next
    case False
    then have "0 < k" using Suc.prems(2) by (cases k) auto
    moreover have "n div 256 < 256 ^ k" using Suc.prems(2) by (simp add: less_mult_imp_div_less mult.commute)
    ultimately have "length (hex_bytes (n div 256)) \<le> 2 * k" by (rule Suc.IH)
    then show ?thesis using False by (subst hex_bytes.simps) simp
  qed
qed simp

lemma replace_first_prefix: "replace_first ''0x'' rep (''0x'' @ s) = rep @ s"
  by simp

text \<open>
  C40. \<open>bigNumberToData\<close> writes an unsigned 256-bit number as one ABI word: exactly 64 digits, and
  reading the digits gives the number back.
\<close>

theorem bigNumberToData_encodes:
  assumes "0 \<le> n" "n \<le> TS_MAX_UINT_256"
  shows "length (bigNumberToData n) = 64 \<and> hex_value (bigNumberToData n) = Some (nat n)"
proof -
  have "nat n < 256 ^ 32" using assms by (simp add: TS_MAX_UINT_256_def nat_less_iff)
  then have short: "length (hex_bytes (nat n)) \<le> 64" using length_hex_bytes [of 32 "nat n"] by simp
  have eq: "bigNumberToData n = padStart 64 CHR ''0'' (hex_bytes (nat n))"
    using assms replace_first_prefix [of "[]"] by (simp add: bigNumberToData_def toHexString_def)
  have "hex_value (bigNumberToData n) = hex_value (hex_bytes (nat n))"
    unfolding eq padStart_def hex_value_def by (rule hex_value_from_zeros)
  then show ?thesis using short by (simp add: eq padStart_def hex_value_hex_bytes)
qed

theorem bigNumberToData_encodes_witness:
  "length (bigNumberToData 1000) = 64 \<and> hex_value (bigNumberToData 1000) = Some 1000
     \<and> drop 60 (bigNumberToData 1000) = ''03e8''"
proof -
  have "length (bigNumberToData 1000) = 64 \<and> hex_value (bigNumberToData 1000) = Some (nat 1000)"
    by (rule bigNumberToData_encodes) (simp_all add: TS_MAX_UINT_256_def)
  moreover have "drop 60 (bigNumberToData 1000) = ''03e8''" by code_simp
  ultimately show ?thesis by simp
qed

lemma addressToData_word:
  assumes "length ds = 40"
  shows "length (addressToData (''0x'' @ ds)) = 64" "hex_value (addressToData (''0x'' @ ds)) = hex_value ds"
proof -
  have eq: "addressToData (''0x'' @ ds) = replicate 24 CHR ''0'' @ ds"
    unfolding addressToData_def replace_first_prefix by (simp add: numeral_eq_Suc)
  show "length (addressToData (''0x'' @ ds)) = 64" using assms unfolding eq by simp
  show "hex_value (addressToData (''0x'' @ ds)) = hex_value ds"
    unfolding eq hex_value_def by (rule hex_value_from_zeros)
qed

text \<open>
  The two encoders agree: the ABI word of an address string and the ABI word of the address read
  as a number have the same length and the same value.
\<close>

lemma address_encoders_agree:
  assumes "length ds = 40" "hex_value ds = Some v"
  shows "length (addressToData (''0x'' @ ds)) = length (bigNumberToData (int v))
     \<and> hex_value (addressToData (''0x'' @ ds)) = hex_value (bigNumberToData (int v))"
proof -
  have step: "hex_value_from a xs = Some b \<Longrightarrow> b < (a + 1) * 16 ^ length xs" for a b xs
  proof (induction xs arbitrary: a)
    case (Cons c xs)
    then obtain d where d: "hex_value1 c = Some d" "hex_value_from (16 * a + d) xs = Some b"
      by (auto split: option.splits)
    from d(1) have "d < 16" by (auto simp: hex_value1_def Let_def split: if_splits)
    then have "(16 * a + d + 1) * 16 ^ length xs \<le> ((a + 1) * 16) * 16 ^ length xs"
      by (intro mult_right_mono) simp_all
    also have "\<dots> = (a + 1) * 16 ^ length (c # xs)" by (simp only: list.size power_Suc mult.assoc add_0_right add_Suc_right)
    finally show ?case using Cons.IH [OF d(2)] by linarith
  qed simp
  have "v < 16 ^ 40" using step [of 0 ds v] assms by (simp add: hex_value_def)
  then have "int v \<le> TS_MAX_UINT_256" by (simp add: TS_MAX_UINT_256_def)
  moreover have "bigNumberToData (int v) = padStart 64 CHR ''0'' (hex_bytes v)"
    using replace_first_prefix [of "[]"] by (simp add: bigNumberToData_def toHexString_def)
  moreover have "v < 256 ^ 32" using \<open>v < 16 ^ 40\<close> by simp
  then have "length (hex_bytes v) \<le> 64" using length_hex_bytes [of 32 v] by simp
  moreover have "hex_value (padStart 64 CHR ''0'' (hex_bytes v)) = Some v"
    unfolding padStart_def hex_value_def hex_value_from_zeros by (fold hex_value_def) (rule hex_value_hex_bytes)
  ultimately show ?thesis using assms by (simp only: addressToData_word) (simp add: padStart_def)
qed

lemma address_encoders_agree_example:
  "hex_value (addressToData (''0x'' @ replicate 39 CHR ''0'' @ ''F'')) = hex_value (bigNumberToData 15)"
proof -
  have "length (replicate 39 CHR ''0'' @ ''F'') = 40" by simp
  moreover have "hex_value (replicate 39 CHR ''0'' @ ''F'') = Some 15" by code_simp
  ultimately have "hex_value (addressToData (''0x'' @ (replicate 39 CHR ''0'' @ ''F''))) = hex_value (bigNumberToData (int 15))"
    by (rule address_encoders_agree [THEN conjunct2])
  then show ?thesis by (simp only: of_nat_numeral)
qed

text \<open>
  The limits the scripts use are the limits of the contracts: the largest unsigned word, and the
  largest and smallest signed words, which the scripts write as digit strings.
\<close>

lemma constants_match_contracts:
  "TS_MAX_UINT_256 = maxUint256 \<and> take 2 TS_MAX_INT_256 = ''0x'' \<and> hex_value (drop 2 TS_MAX_INT_256) = Some (nat maxInt256)
   \<and> take 3 TS_MIN_INT_256 = ''-0x'' \<and> hex_value (drop 3 TS_MIN_INT_256) = Some (nat (- minInt256))"
proof (intro conjI)
  show "TS_MAX_UINT_256 = maxUint256"
    by (simp add: TS_MAX_UINT_256_def maxUint256_def)
  show "take 2 TS_MAX_INT_256 = ''0x''" "take 3 TS_MIN_INT_256 = ''-0x''" by code_simp+
  have "drop 2 TS_MAX_INT_256 = CHR ''7'' # replicate 63 CHR ''f''"
    "drop 3 TS_MIN_INT_256 = CHR ''8'' # replicate 63 CHR ''0''" by code_simp+
  moreover have "hex_value1 CHR ''7'' = Some 7" "hex_value1 CHR ''8'' = Some 8" by code_simp+
  ultimately show "hex_value (drop 2 TS_MAX_INT_256) = Some (nat maxInt256)"
    "hex_value (drop 3 TS_MIN_INT_256) = Some (nat (- minInt256))"
    by (simp_all only: hex_value_def hex_value_from.simps option.case hex_value_from_replicate)
      (simp_all add: maxInt256_def minInt256_def)
qed

subsection \<open>Link placeholders\<close>

text \<open>
  The link id of a library is a placeholder of exactly the 40 characters an address takes in the
  bytecode, for every fully qualified name; any other name is refused.
\<close>

lemma link_id_shape:
  assumes "\<And>nm. length (keccak256 nm) = 66"
  shows "(case convertLibraryNameToLinkId keccak256 nm of
            None \<Rightarrow> CHR ''/'' \<notin> set nm \<or> CHR '':'' \<notin> set nm
          | Some l \<Rightarrow> CHR ''/'' \<in> set nm \<and> CHR '':'' \<in> set nm \<and> length l = 40
              \<and> take 3 l = ''__$'' \<and> drop 37 l = ''$__'')"
proof -
  have char: "str_includes s [c] \<longleftrightarrow> c \<in> set s" for s c by (induction s) auto
  show ?thesis using assms [of nm] by (auto simp: convertLibraryNameToLinkId_def char)
qed

lemma link_id_shape_witness:
  "(case convertLibraryNameToLinkId (\<lambda>_. replicate 66 CHR ''a'') ''contracts/lib/A.sol:A'' of
      None \<Rightarrow> False | Some l \<Rightarrow> length l = 40)"
  using link_id_shape [of "\<lambda>_. replicate 66 CHR ''a''" "''contracts/lib/A.sol:A''"]
  by (auto split: option.splits)

subsection \<open>Snapshots\<close>

text \<open>
  Test sandboxing. What \<open>afterEach\<close> reverts to is the identifier the node gave in the
  \<open>beforeEach\<close> of the same test, whatever the test sent in between.
\<close>

lemma sandbox_reverts_own_snapshot:
  assumes "snapshot_beforeEach ch b w = Some (b1, w1)" "snapshot_afterEach ch b1 w2 = Some (b2, w3)"
  shows "\<exists>sid s. ch (Rpc ''evm_snapshot'' []) (snd w) = Some (sid, s) \<and> w1 = (fst w @ [Rpc ''evm_snapshot'' []], s)
     \<and> fst w3 = fst w2 @ [Rpc ''evm_revert'' [sid]] \<and> b2 = b1"
  using assms
  by (auto simp: snapshot_beforeEach_def snapshot_afterEach_def saveSnapshotAsync_def revertAsync_def script_simps)

text \<open>A node that counts its snapshots, as hardhat does.\<close>

definition counting_chain :: "nat chain" where
  "counting_chain r n = (case r of Rpc m _ \<Rightarrow> if m = ''evm_snapshot'' then Some (JNum (int n), n + 1) else Some (JBool True, n)
     | _ \<Rightarrow> None)"

lemma sandbox_reverts_own_snapshot_example:
  "\<exists>sid s. counting_chain (Rpc ''evm_snapshot'' []) 7 = Some (sid, s)
     \<and> [Rpc ''evm_mine'' [], Rpc ''evm_revert'' [JNum 7]] = [Rpc ''evm_mine'' []] @ [Rpc ''evm_revert'' [sid]]"
  using sandbox_reverts_own_snapshot
    [of counting_chain new_Blockchain "([], 7)" "\<lparr>snapshotId = JNum 7\<rparr>" "([Rpc ''evm_snapshot'' []], 8)"
      "([Rpc ''evm_mine'' []], 8)" "\<lparr>snapshotId = JNum 7\<rparr>" "([Rpc ''evm_mine'' [], Rpc ''evm_revert'' [JNum 7]], 8)"]
  by (simp add: snapshot_beforeEach_def snapshot_afterEach_def saveSnapshotAsync_def revertAsync_def
      counting_chain_def new_Blockchain_def rpc_def perform_def)

text \<open>The hook over the tests of a suite.\<close>

fun cache_runs ::
  "'w chain \<Rightarrow> ('w world \<Rightarrow> 'w world option) list \<Rightarrow> ('w world \<Rightarrow> 'w world option) \<Rightarrow> cache_state \<Rightarrow> 'w world
    \<Rightarrow> (cache_state \<times> 'w world) option" where
  "cache_runs ch [] initializer c w = Some (c, w)"
| "cache_runs ch (test # tests) initializer c w = do {
     (c, w) \<leftarrow> cache_beforeEach ch initializer c w;
     w \<leftarrow> test w;
     cache_runs ch tests initializer c w
   }"

lemma cache_beforeEach_stack:
  assumes "cache_beforeEach ch initializer c w = Some (c', w')"
  shows "initialized c'" "tl (SNAPSHOTS c') = (if initialized c then tl (SNAPSHOTS c) else SNAPSHOTS c)"
  using assms by (auto simp: cache_beforeEach_def saveSnapshotAsync_def revertByIdAsync_def script_simps
      split: if_splits list.splits)

lemma cache_runs_stack:
  assumes "cache_runs ch tests initializer c w = Some (c', w')"
  shows "initialized c \<Longrightarrow> initialized c' \<and> tl (SNAPSHOTS c') = tl (SNAPSHOTS c)"
  using assms
proof (induction tests arbitrary: c w)
  case (Cons t ts)
  from Cons.prems(2) obtain c1 w1 w2 where
    "cache_beforeEach ch initializer c w = Some (c1, w1)" "cache_runs ch ts initializer c1 w2 = Some (c', w')"
    by (auto simp: bind_eq_Some_conv)
  with Cons show ?case using cache_beforeEach_stack [of ch initializer c w c1 w1] by simp
qed simp

text \<open>
  Nested suites. However many tests a suite runs, when it ends it leaves the shared snapshot stack as
  it found it, so that the enclosing suite reverts to its own snapshot.
\<close>

lemma cache_keeps_outer_stack:
  assumes "cache_runs ch tests initializer c w = Some (c', w')" "\<not> initialized c"
  shows "SNAPSHOTS (cache_after c') = SNAPSHOTS c"
proof (cases tests)
  case Nil
  then show ?thesis using assms by (simp add: cache_after_def)
next
  case (Cons t ts)
  then obtain c1 w1 w2 where "cache_beforeEach ch initializer c w = Some (c1, w1)" "cache_runs ch ts initializer c1 w2 = Some (c', w')"
    using assms(1) by (auto simp: bind_eq_Some_conv)
  with assms(2) show ?thesis
    using cache_beforeEach_stack [of ch initializer c w c1 w1] cache_runs_stack [of ch ts initializer c1 w2 c' w']
    by (simp add: cache_after_def)
qed

lemma cache_keeps_outer_stack_example:
  "SNAPSHOTS (cache_after (fst (the (cache_runs counting_chain [Some, Some] Some
      \<lparr>initialized = False, SNAPSHOTS = [JNum 3], cache_blockchain = new_Blockchain\<rparr> ([], 4))))) = [JNum 3]"
proof -
  define c where "c = \<lparr>initialized = False, SNAPSHOTS = [JNum 3], cache_blockchain = new_Blockchain\<rparr>"
  have "cache_runs counting_chain [Some, Some] Some c ([], 4) \<noteq> None" unfolding c_def by code_simp
  then obtain c' w' where run: "cache_runs counting_chain [Some, Some] Some c ([], 4) = Some (c', w')" by auto
  then have "SNAPSHOTS (cache_after c') = SNAPSHOTS c"
    by (rule cache_keeps_outer_stack) (simp add: c_def)
  with run show ?thesis by (simp add: c_def)
qed

subsection \<open>Gas fields\<close>

lemma delete_set_key:
  assumes "k \<notin> fst ` set e"
  shows "delete_key k (set_key k v e) = e"
proof -
  have "filter (\<lambda>(k', _). k' \<noteq> k) e = e" using assms by (induction e) auto
  then show ?thesis using assms unfolding delete_key_def by (induction e) (auto split: if_splits)
qed

lemma map_of_set_key: "map_of (set_key k v e) k' = (if k' = k then Some v else map_of e k')"
  by (induction e) auto

text \<open>
  The typechain task rewrites artifacts with a gas field and restores them afterwards: removing the
  field gives back exactly the original ABI when it had none, and in between exactly the functions carry it.
\<close>

lemma gas_round_trip:
  assumes "\<And>e. e \<in> set abi \<Longrightarrow> ''gas'' \<notin> fst ` set e"
  shows "removeGasFromAbiMethods (addGasToAbiMethods cov g abi) = abi
     \<and> (\<forall>i < length abi. map_of (addGasToAbiMethods cov g abi ! i) ''gas'' =
          (if is_function_element (abi ! i) then Some (JStr (toHexString (default_to g cov - 1000000))) else None))"
proof (intro conjI allI impI)
  have "(if \<not> is_function_element e' then e' else delete_key ''gas'' e') = e"
    if "e \<in> set abi" "e' = (if \<not> is_function_element e then e else set_key ''gas'' v e)" for e e' v
    using that assms by (auto simp: is_function_element_def map_of_set_key delete_set_key)
  then show "removeGasFromAbiMethods (addGasToAbiMethods cov g abi) = abi"
    by (auto simp: removeGasFromAbiMethods_def addGasToAbiMethods_def Let_def intro!: map_idI)
  show "map_of (addGasToAbiMethods cov g abi ! i) ''gas'' =
      (if is_function_element (abi ! i) then Some (JStr (toHexString (default_to g cov - 1000000))) else None)"
    if "i < length abi" for i
    using that assms [of "abi ! i"] by (simp add: addGasToAbiMethods_def Let_def map_of_set_key map_of_eq_None_iff)
qed

lemma gas_round_trip_example:
  "removeGasFromAbiMethods (addGasToAbiMethods None 12000000
      [[(''type'', JStr ''function''), (''name'', JStr ''issue'')], [(''type'', JStr ''event'')]])
     = [[(''type'', JStr ''function''), (''name'', JStr ''issue'')], [(''type'', JStr ''event'')]]"
  by (rule gas_round_trip [THEN conjunct1]) auto

end
