(* ===== verification/SystemFixture.thy ===== *)
theory SystemFixture
  imports Deploys DeployExternal DeployMocks CommonUtils
begin

section \<open>The fixture that deploys the system\<close>

text \<open>
  \<^verbatim>\<open>src/utils/fixtures/systemFixture.ts\<close>. The fields of the class are the record \<open>SystemFixture\<close>; a field
  that no method has assigned yet is \<open>None\<close> and using it throws. A method takes the node, the fixture
  and the world. The signer of a contract object is named by its address.
\<close>

record SystemFixture =
  sf_ownerAddress :: string
  sf_feeRecipient :: "string option"
  sf_controller :: "handle option"
  sf_factory :: "handle option"
  sf_priceOracle :: "handle option"
  sf_integrationRegistry :: "handle option"
  sf_setValuer :: "handle option"
  sf_issuanceModule :: "handle option"
  sf_streamingFeeModule :: "handle option"
  sf_navIssuanceModule :: "handle option"
  sf_weth :: "handle option"
  sf_usdc :: "handle option"
  sf_wbtc :: "handle option"
  sf_dai :: "handle option"
  sf_ETH_USD_Oracle :: "handle option"
  sf_USD_USD_Oracle :: "handle option"
  sf_BTC_USD_Oracle :: "handle option"
  sf_DAI_USD_Oracle :: "handle option"
  sf_component1Price :: "int option"
  sf_component2Price :: "int option"
  sf_component3Price :: "int option"
  sf_component4Price :: "int option"

definition new_SystemFixture :: "string \<Rightarrow> SystemFixture" where
  "new_SystemFixture ownerAddress =
     \<lparr>sf_ownerAddress = ownerAddress, sf_feeRecipient = None, sf_controller = None, sf_factory = None,
      sf_priceOracle = None, sf_integrationRegistry = None, sf_setValuer = None, sf_issuanceModule = None,
      sf_streamingFeeModule = None, sf_navIssuanceModule = None, sf_weth = None, sf_usdc = None, sf_wbtc = None,
      sf_dai = None, sf_ETH_USD_Oracle = None, sf_USD_USD_Oracle = None, sf_BTC_USD_Oracle = None,
      sf_DAI_USD_Oracle = None, sf_component1Price = None, sf_component2Price = None, sf_component3Price = None,
      sf_component4Price = None\<rparr>"

definition sf_initializeStandardComponents ::
  "'w chain \<Rightarrow> SystemFixture \<Rightarrow> 'w world \<Rightarrow> (SystemFixture \<times> 'w world) option" where
  "sf_initializeStandardComponents ch f w = do {
     let owner = sf_ownerAddress f;
     (weth, w) \<leftarrow> deployWETH ch owner w;
     (usdc, w) \<leftarrow> deployTokenMock ch owner owner (Some (ether 10000 1)) (Some 6) None None w;
     (wbtc, w) \<leftarrow> deployTokenMock ch owner owner (Some (ether 10000 1)) (Some 8) None None w;
     (dai, w) \<leftarrow> deployTokenMock ch owner owner (Some (ether 1000000 1)) (Some 18) None None w;
     let f = f\<lparr>sf_weth := Some weth, sf_usdc := Some usdc, sf_wbtc := Some wbtc, sf_dai := Some dai\<rparr>;
     let f = f\<lparr>sf_component1Price := Some (ether 230 1), sf_component2Price := Some (ether 1 1),
               sf_component3Price := Some (ether 9000 1), sf_component4Price := Some (ether 1 1)\<rparr>;
     (oETH, w) \<leftarrow> deployOracleMock ch owner (ether 230 1) w;
     (oUSD, w) \<leftarrow> deployOracleMock ch owner (ether 1 1) w;
     (oBTC, w) \<leftarrow> deployOracleMock ch owner (ether 9000 1) w;
     (oDAI, w) \<leftarrow> deployOracleMock ch owner (ether 1 1) w;
     let f = f\<lparr>sf_ETH_USD_Oracle := Some oETH, sf_USD_USD_Oracle := Some oUSD, sf_BTC_USD_Oracle := Some oBTC,
               sf_DAI_USD_Oracle := Some oDAI\<rparr>;
     (_, w) \<leftarrow> call ch weth ''deposit'' [JObj [(''value'', JNum (ether 5000 1))]] w;
     issuance \<leftarrow> sf_issuanceModule f;
     (_, w) \<leftarrow> call ch weth ''approve'' [JStr (addr issuance), JNum (ether 10000 1)] w;
     (_, w) \<leftarrow> call ch usdc ''approve'' [JStr (addr issuance), JNum (ether 10000 1)] w;
     (_, w) \<leftarrow> call ch wbtc ''approve'' [JStr (addr issuance), JNum (ether 10000 1)] w;
     (_, w) \<leftarrow> call ch dai ''approve'' [JStr (addr issuance), JNum (ether 10000 1)] w;
     Some (f, w)
   }"

text \<open>The fourth account of the node receives the protocol fees.\<close>

definition sf_initialize :: "'w chain \<Rightarrow> SystemFixture \<Rightarrow> 'w world \<Rightarrow> (SystemFixture \<times> 'w world) option" where
  "sf_initialize ch f w = do {
     let owner = sf_ownerAddress f;
     (v, w) \<leftarrow> rpc ch ''listAccounts'' [] w;
     accounts \<leftarrow> as_arr v;
     a \<leftarrow> elem_at accounts 3;
     feeRecipient \<leftarrow> as_str a;
     let f = f\<lparr>sf_feeRecipient := Some feeRecipient\<rparr>;
     (ctl, w) \<leftarrow> deployController ch owner feeRecipient w;
     let f = f\<lparr>sf_controller := Some ctl\<rparr>;
     (issuance, w) \<leftarrow> deployBasicIssuanceModule ch owner (addr ctl) w;
     let f = f\<lparr>sf_issuanceModule := Some issuance\<rparr>;
     (f, w) \<leftarrow> sf_initializeStandardComponents ch f w;
     (factory, w) \<leftarrow> deploySetTokenCreator ch owner (addr ctl) w;
     let f = f\<lparr>sf_factory := Some factory\<rparr>;
     weth \<leftarrow> sf_weth f;
     usdc \<leftarrow> sf_usdc f;
     wbtc \<leftarrow> sf_wbtc f;
     dai \<leftarrow> sf_dai f;
     oETH \<leftarrow> sf_ETH_USD_Oracle f;
     oUSD \<leftarrow> sf_USD_USD_Oracle f;
     oBTC \<leftarrow> sf_BTC_USD_Oracle f;
     oDAI \<leftarrow> sf_DAI_USD_Oracle f;
     (priceOracle, w) \<leftarrow> deployPriceOracle ch owner (addr ctl) (addr usdc) []
        [addr weth, addr usdc, addr wbtc, addr dai]
        [addr usdc, addr usdc, addr usdc, addr usdc]
        [addr oETH, addr oUSD, addr oBTC, addr oDAI] w;
     let f = f\<lparr>sf_priceOracle := Some priceOracle\<rparr>;
     (registry, w) \<leftarrow> deployIntegrationRegistry ch owner (addr ctl) w;
     let f = f\<lparr>sf_integrationRegistry := Some registry\<rparr>;
     (valuer, w) \<leftarrow> deploySetValuer ch owner (addr ctl) w;
     let f = f\<lparr>sf_setValuer := Some valuer\<rparr>;
     (streaming, w) \<leftarrow> deployStreamingFeeModule ch owner (addr ctl) w;
     let f = f\<lparr>sf_streamingFeeModule := Some streaming\<rparr>;
     (nav, w) \<leftarrow> deployCustomOracleNavIssuanceModule ch owner (addr ctl) (addr weth) w;
     let f = f\<lparr>sf_navIssuanceModule := Some nav\<rparr>;
     (_, w) \<leftarrow> call ch ctl ''initialize''
        [JArr [JStr (addr factory)],
         JArr [JStr (addr issuance), JStr (addr streaming), JStr (addr nav)],
         JArr [JStr (addr registry), JStr (addr priceOracle), JStr (addr valuer)],
         JArr [JNum 0, JNum 1, JNum 2]] w;
     Some (f, w)
   }"

definition sf_createSetToken ::
  "'w chain \<Rightarrow> (string \<Rightarrow> string) \<Rightarrow> (string \<Rightarrow> js \<Rightarrow> js option) \<Rightarrow> SystemFixture \<Rightarrow> string list \<Rightarrow> int list \<Rightarrow>
   string list \<Rightarrow> string option \<Rightarrow> string option \<Rightarrow> string option \<Rightarrow> 'w world \<Rightarrow> (handle \<times> 'w world) option" where
  "sf_createSetToken ch event_id parseLog f components units modules manager nm smb w = do {
     factory \<leftarrow> sf_factory f;
     (tx, w) \<leftarrow> call ch factory ''create''
        [JArr (map JStr components), JArr (map JNum units), JArr (map JStr modules),
         JStr (default_to (sf_ownerAddress f) manager), JStr (default_to ''SetToken'' nm), JStr (default_to ''SET'' smb)] w;
     (a, w) \<leftarrow> getCreatedSetTokenAddress ch event_id parseLog (Option.bind (field ''hash'' tx) as_str) w;
     Some (attach (sf_ownerAddress f) ''SetToken'' a, w)
   }"

definition sf_createNonControllerEnabledSetToken ::
  "'w chain \<Rightarrow> SystemFixture \<Rightarrow> string list \<Rightarrow> int list \<Rightarrow> string list \<Rightarrow> string option \<Rightarrow> string option \<Rightarrow>
   string option \<Rightarrow> 'w world \<Rightarrow> (handle \<times> 'w world) option" where
  "sf_createNonControllerEnabledSetToken ch f components units modules manager nm smb w = do {
     ctl \<leftarrow> sf_controller f;
     deploySetToken ch (sf_ownerAddress f) components units modules (addr ctl)
       (default_to (sf_ownerAddress f) manager) (default_to ''SetToken'' nm) (default_to ''SET'' smb) w
   }"

text \<open>The loop over the positions of the Set.\<close>

fun approve_components :: "'w chain \<Rightarrow> SystemFixture \<Rightarrow> js list \<Rightarrow> 'w world \<Rightarrow> (unit \<times> 'w world) option" where
  "approve_components ch f [] w = Some ((), w)"
| "approve_components ch f (p # ps) w = do {
     v \<leftarrow> field ''component'' p;
     component \<leftarrow> as_str v;
     let componentInstance = getTokenMock (sf_ownerAddress f) component;
     issuance \<leftarrow> sf_issuanceModule f;
     (_, w) \<leftarrow> call ch componentInstance ''approve'' [JStr (addr issuance), JNum TS_MAX_UINT_256] w;
     approve_components ch f ps w
   }"

definition sf_approveAndIssueSetToken ::
  "'w chain \<Rightarrow> SystemFixture \<Rightarrow> handle \<Rightarrow> int \<Rightarrow> string option \<Rightarrow> 'w world \<Rightarrow> (unit \<times> 'w world) option" where
  "sf_approveAndIssueSetToken ch f setToken issueQuantity to w = do {
     (v, w) \<leftarrow> call ch setToken ''getPositions'' [] w;
     positions \<leftarrow> as_arr v;
     (_, w) \<leftarrow> approve_components ch f positions w;
     issuance \<leftarrow> sf_issuanceModule f;
     (_, w) \<leftarrow> call ch issuance ''issue'' [JStr (addr setToken), JNum issueQuantity, JStr (default_to (sf_ownerAddress f) to)] w;
     Some ((), w)
   }"

subsection \<open>What initialize sends\<close>

lemmas system_deploys = deployController_def deployBasicIssuanceModule_def deploySetTokenCreator_def deployPriceOracle_def
  deployIntegrationRegistry_def deploySetValuer_def deployStreamingFeeModule_def deployCustomOracleNavIssuanceModule_def
  deployWETH_def deployTokenMock_def deployOracleMock_def

text \<open>The contracts that are told the address of the controller when they are deployed.\<close>

definition controlled_contracts :: "string list" where
  "controlled_contracts = [''BasicIssuanceModule'', ''SetTokenCreator'', ''PriceOracle'', ''IntegrationRegistry'', ''SetValuer'',
     ''StreamingFeeModule'', ''CustomOracleNavIssuanceModule'']"

definition wired :: "string \<Rightarrow> request list \<Rightarrow> bool" where
  "wired a t = list_all (\<lambda>r. case r of Deploy _ c _ args \<Rightarrow> c \<in> set controlled_contracts \<longrightarrow> args \<noteq> [] \<and> hd args = JStr a | _ \<Rightarrow> True) t"

lemma wired_append [simp]: "wired a (t @ t') \<longleftrightarrow> wired a t \<and> wired a t'"
  by (simp add: wired_def)

lemma wired_Cons [simp]:
  "wired a []"
  "wired a (Deploy sg c libs args # t) \<longleftrightarrow> (c \<in> set controlled_contracts \<longrightarrow> args \<noteq> [] \<and> hd args = JStr a) \<and> wired a t"
  "wired a (Transact sg c d m args # t) \<longleftrightarrow> wired a t"
  "wired a (Rpc m args # t) \<longleftrightarrow> wired a t"
  by (simp_all add: wired_def)

lemma standard_components:
  assumes "fresh_addresses ch used" "sf_initializeStandardComponents ch f w = Some (f', w')" "known used hs w"
  shows "known used hs w' \<and> (\<exists>t. fst w' = fst w @ t \<and> wired a t) \<and> sf_ownerAddress f' = sf_ownerAddress f
     \<and> sf_feeRecipient f' = sf_feeRecipient f \<and> sf_controller f' = sf_controller f \<and> sf_issuanceModule f' = sf_issuanceModule f"
proof -
  note steps = assms(2) [unfolded sf_initializeStandardComponents_def Let_def system_deploys]
  have "known used hs w'"
    using steps by (elim script_elims bind_someE) (simp, ((erule known_keep [OF assms(1)])+, rule assms(3))?)
  moreover have "\<exists>t. fst w' = fst w @ t \<and> wired a t"
    using steps
    by (elim script_elims bind_someE) (auto dest!: deploy_handle call_trace simp: controlled_contracts_def)
  moreover have "sf_ownerAddress f' = sf_ownerAddress f \<and> sf_feeRecipient f' = sf_feeRecipient f
      \<and> sf_controller f' = sf_controller f \<and> sf_issuanceModule f' = sf_issuanceModule f"
    using steps by (elim script_elims bind_someE) auto
  ultimately show ?thesis by blast
qed

lemma known_distinct:
  "known used hs w \<Longrightarrow> distinct (map addr hs)"
  "known used hs w \<Longrightarrow> ADDRESS_ZERO \<notin> addr ` set hs"
  by (auto simp: known_def)

text \<open>The steps of a successful run, in order.\<close>

lemma sf_initializeE [consumes 1, case_names steps]:
  assumes "sf_initialize ch f0 w0 = Some (f, w)"
  obtains v w1 accounts a feeRecipient ctl w2 issuance w3 f3 w4 factory w5 prices w6 registry w7 valuer w8
    streaming w9 nav w10 u and weth usdc wbtc dai oETH oUSD oBTC oDAI :: handle
  where "rpc ch ''listAccounts'' [] w0 = Some (v, w1)" "as_arr v = Some accounts" "elem_at accounts 3 = Some a"
    "as_str a = Some feeRecipient" "deployController ch (sf_ownerAddress f0) feeRecipient w1 = Some (ctl, w2)"
    "deployBasicIssuanceModule ch (sf_ownerAddress f0) (addr ctl) w2 = Some (issuance, w3)"
    "sf_initializeStandardComponents ch
       (f0\<lparr>sf_feeRecipient := Some feeRecipient, sf_controller := Some ctl, sf_issuanceModule := Some issuance\<rparr>) w3 = Some (f3, w4)"
    "deploySetTokenCreator ch (sf_ownerAddress f0) (addr ctl) w4 = Some (factory, w5)"
    "deployPriceOracle ch (sf_ownerAddress f0) (addr ctl) (addr usdc) [] [addr weth, addr usdc, addr wbtc, addr dai]
       [addr usdc, addr usdc, addr usdc, addr usdc] [addr oETH, addr oUSD, addr oBTC, addr oDAI] w5 = Some (prices, w6)"
    "deployIntegrationRegistry ch (sf_ownerAddress f0) (addr ctl) w6 = Some (registry, w7)"
    "deploySetValuer ch (sf_ownerAddress f0) (addr ctl) w7 = Some (valuer, w8)"
    "deployStreamingFeeModule ch (sf_ownerAddress f0) (addr ctl) w8 = Some (streaming, w9)"
    "deployCustomOracleNavIssuanceModule ch (sf_ownerAddress f0) (addr ctl) (addr weth) w9 = Some (nav, w10)"
    "call ch ctl ''initialize'' [JArr [JStr (addr factory)], JArr [JStr (addr issuance), JStr (addr streaming), JStr (addr nav)],
       JArr [JStr (addr registry), JStr (addr prices), JStr (addr valuer)], JArr [JNum 0, JNum 1, JNum 2]] w10 = Some (u, w)"
    "f = f3\<lparr>sf_factory := Some factory, sf_priceOracle := Some prices, sf_integrationRegistry := Some registry,
       sf_setValuer := Some valuer, sf_streamingFeeModule := Some streaming, sf_navIssuanceModule := Some nav\<rparr>"
  using assms unfolding sf_initialize_def Let_def
  by (elim script_elims bind_someE some_pairE) (hypsubst+, rule that, assumption+)

lemma system_wiring:
  assumes "fresh_addresses ch used" "sf_initialize ch (new_SystemFixture owner) ([], s) = Some (f, w)"
  obtains accounts t and ctl factory issuance streaming nav registry prices valuer :: handle where
    "sf_controller f = Some ctl" "sf_factory f = Some factory" "sf_issuanceModule f = Some issuance"
    "sf_streamingFeeModule f = Some streaming" "sf_navIssuanceModule f = Some nav"
    "sf_integrationRegistry f = Some registry" "sf_priceOracle f = Some prices" "sf_setValuer f = Some valuer"
    "distinct (map addr [ctl, factory, issuance, streaming, nav, registry, prices, valuer])"
    "ADDRESS_ZERO \<notin> addr ` set [ctl, factory, issuance, streaming, nav, registry, prices, valuer]"
    "fst w = [Rpc ''listAccounts'' [], Deploy owner ''Controller'' [] [accounts ! 3]] @ t @
       [Transact owner ''Controller'' (addr ctl) ''initialize''
         [JArr [JStr (addr factory)], JArr (map (JStr \<circ> addr) [issuance, streaming, nav]),
          JArr (map (JStr \<circ> addr) [registry, prices, valuer]), JArr [JNum 0, JNum 1, JNum 2]]]"
    "wired (addr ctl) t" "3 < length accounts" "map_option JStr (sf_feeRecipient f) = Some (accounts ! 3)"
  using assms(2)
proof (cases rule: sf_initializeE)
  case (steps v w1 accounts a feeRecipient ctl w2 issuance w3 f3 w4 factory w5 prices w6 registry w7 valuer w8
    streaming w9 nav w10 u weth usdc wbtc dai oETH oUSD oBTC oDAI)
  note ds = steps(5,6,8-13) [unfolded system_deploys]
  have k3: "known used [issuance, ctl] w3"
    by (rule known_deploy [OF assms(1) known_deploy [OF assms(1) known_Nil ds(1)] ds(2)])
  note sc = standard_components [OF assms(1) steps(7) k3, of "addr ctl"]
  then obtain t where t: "fst w4 = fst w3 @ t" "wired (addr ctl) t" by blast
  have "known used [nav, streaming, valuer, registry, prices, factory, issuance, ctl] w10"
    by (rule known_deploy [OF assms(1) _ ds(8)] known_deploy [OF assms(1) _ ds(7)] known_deploy [OF assms(1) _ ds(6)]
        known_deploy [OF assms(1) _ ds(5)] known_deploy [OF assms(1) _ ds(4)] known_deploy [OF assms(1) _ ds(3)]
        sc [THEN conjunct1])+
  note distinct = known_distinct [OF this]
  have owner: "sf_ownerAddress (new_SystemFixture owner) = owner" by (simp add: new_SystemFixture_def)
  note trace = ds [THEN deploy_handle, unfolded owner] rpc_trace [OF steps(1)] call_trace [OF steps(14)]
  obtain t' where t': "fst w10 = fst w4 @ t'" "wired (addr ctl) t'" using trace by (simp add: controlled_contracts_def)
  have a: "a = JStr feeRecipient" "a = accounts ! 3" "3 < length accounts"
    using steps(3,4) by (simp_all add: as_str_eq_Some elem_at_eq_Some)
  have pre: "fst w4 = [Rpc ''listAccounts'' [], Deploy owner ''Controller'' [] [accounts ! 3],
      Deploy owner ''BasicIssuanceModule'' [] [JStr (addr ctl)]] @ t"
    using trace t(1) a by simp
  have fields: "sf_controller f = Some ctl \<and> sf_factory f = Some factory \<and> sf_issuanceModule f = Some issuance
     \<and> sf_streamingFeeModule f = Some streaming \<and> sf_navIssuanceModule f = Some nav
     \<and> sf_integrationRegistry f = Some registry \<and> sf_priceOracle f = Some prices \<and> sf_setValuer f = Some valuer"
    and fee: "map_option JStr (sf_feeRecipient f) = Some (accounts ! 3)"
    using sc steps(15) a by simp_all
  have distinct': "distinct (map addr [ctl, factory, issuance, streaming, nav, registry, prices, valuer])"
    "ADDRESS_ZERO \<notin> addr ` set [ctl, factory, issuance, streaming, nav, registry, prices, valuer]"
    using distinct by auto
  have tr: "fst w = [Rpc ''listAccounts'' [], Deploy owner ''Controller'' [] [accounts ! 3]]
      @ (Deploy owner ''BasicIssuanceModule'' [] [JStr (addr ctl)] # t @ t')
      @ [Transact owner ''Controller'' (addr ctl) ''initialize''
         [JArr [JStr (addr factory)], JArr (map (JStr \<circ> addr) [issuance, streaming, nav]),
          JArr (map (JStr \<circ> addr) [registry, prices, valuer]), JArr [JNum 0, JNum 1, JNum 2]]]"
    using trace(1,10) t'(1) pre by simp
  have "wired (addr ctl) (Deploy owner ''BasicIssuanceModule'' [] [JStr (addr ctl)] # t @ t')" using t(2) t'(2) by simp
  with fields distinct' tr fee a(3) show thesis using that by blast
qed

text \<open>
  C38. \<open>SystemFixture.initialize\<close> wires the system together. On any node that gives fresh addresses, when
  it returns, its last request is \<open>Controller.initialize\<close> on the deployed controller, with exactly the
  deployed factory, the three modules and the three resources under the identifiers 0, 1, 2; the eight
  contracts are distinct and none is the zero address; the controller was deployed before every contract
  that takes its address and each of them was given it; fees go to the node's fourth account.
\<close>

theorem system_fixture_wiring:
  assumes "fresh_addresses ch used" "sf_initialize ch (new_SystemFixture owner) ([], s) = Some (f, w)"
  shows "\<exists>ctl factory issuance streaming nav registry prices valuer accounts t.
     sf_controller f = Some ctl \<and> sf_factory f = Some factory \<and> sf_issuanceModule f = Some issuance
   \<and> sf_streamingFeeModule f = Some streaming \<and> sf_navIssuanceModule f = Some nav
   \<and> sf_integrationRegistry f = Some registry \<and> sf_priceOracle f = Some prices \<and> sf_setValuer f = Some valuer
   \<and> distinct (map addr [ctl, factory, issuance, streaming, nav, registry, prices, valuer])
   \<and> ADDRESS_ZERO \<notin> addr ` set [ctl, factory, issuance, streaming, nav, registry, prices, valuer]
   \<and> fst w = [Rpc ''listAccounts'' [], Deploy owner ''Controller'' [] [accounts ! 3]] @ t @
       [Transact owner ''Controller'' (addr ctl) ''initialize''
         [JArr [JStr (addr factory)], JArr (map (JStr \<circ> addr) [issuance, streaming, nav]),
          JArr (map (JStr \<circ> addr) [registry, prices, valuer]), JArr [JNum 0, JNum 1, JNum 2]]]
   \<and> wired (addr ctl) t \<and> 3 < length accounts \<and> map_option JStr (sf_feeRecipient f) = Some (accounts ! 3)"
  by (rule system_wiring [OF assms]) blast

text \<open>A node with four accounts.\<close>

definition demo_node :: "nat chain" where
  "demo_node = table_chain (\<lambda>r. case r of
      Rpc m _ \<Rightarrow> if m = ''listAccounts'' then JArr [JStr ''0xa'', JStr ''0xb'', JStr ''0xc'', JStr ''0xd''] else JBool True
    | Transact _ _ _ m _ \<Rightarrow>
        if m = ''getPositions'' then JArr [JObj [(''component'', JStr ''0xe'')], JObj [(''component'', JStr ''0xf'')]] else JBool True
    | _ \<Rightarrow> JBool True)"

theorem system_fixture_wiring_witness:
  "\<exists>f w ctl. sf_initialize demo_node (new_SystemFixture ''0xa'') ([], 0) = Some (f, w)
     \<and> sf_controller f = Some ctl \<and> addr ctl \<noteq> ADDRESS_ZERO \<and> sf_feeRecipient f = Some ''0xd''"
proof -
  have "sf_initialize demo_node (new_SystemFixture ''0xa'') ([], 0) \<noteq> None"
    "Option.bind (sf_initialize demo_node (new_SystemFixture ''0xa'') ([], 0)) (\<lambda>(f, _). sf_feeRecipient f) = Some ''0xd''"
    by code_simp+
  then obtain f w where run: "sf_initialize demo_node (new_SystemFixture ''0xa'') ([], 0) = Some (f, w)"
    and fee: "sf_feeRecipient f = Some ''0xd''" by (auto simp: bind_eq_Some_conv)
  have "fresh_addresses demo_node (\<lambda>n. (\<lambda>k. CHR ''0'' # CHR ''x'' # replicate (Suc k) CHR ''1'') ` {..<n})"
    unfolding demo_node_def by (rule table_chain_fresh)
  from system_fixture_wiring [OF this run] obtain ctl where "sf_controller f = Some ctl" "addr ctl \<noteq> ADDRESS_ZERO" by auto
  with run fee show ?thesis by blast
qed

subsection \<open>Issuing\<close>

lemma approve_components_trace:
  assumes "approve_components ch f ps w = Some (u, w')" "sf_issuanceModule f = Some issuance"
  shows "\<exists>cs. map (field ''component'') ps = map (Some \<circ> JStr) cs
     \<and> fst w' = fst w @ map (\<lambda>c. Transact (sf_ownerAddress f) ''StandardTokenMock'' c ''approve''
         [JStr (addr issuance), JNum TS_MAX_UINT_256]) cs"
  using assms(1)
proof (induction ps arbitrary: w)
  case (Cons p ps)
  then obtain c v w1 where c: "field ''component'' p = Some (JStr c)"
    and step: "call ch (getTokenMock (sf_ownerAddress f) c) ''approve'' [JStr (addr issuance), JNum TS_MAX_UINT_256] w = Some (v, w1)"
    and rest: "approve_components ch f ps w1 = Some (u, w')"
    using assms(2) by (auto simp: bind_eq_Some_conv as_str_eq_Some)
  obtain cs where "map (field ''component'') ps = map (Some \<circ> JStr) cs"
    "fst w' = fst w1 @ map (\<lambda>c. Transact (sf_ownerAddress f) ''StandardTokenMock'' c ''approve''
         [JStr (addr issuance), JNum TS_MAX_UINT_256]) cs"
    using Cons.IH [OF rest] by blast
  then show ?case using c call_trace [OF step]
    by (intro exI [of _ "c # cs"]) (simp add: getTokenMock_def attach_def)
qed simp

text \<open>
  \<open>approveAndIssueSetToken\<close> asks the Set for its positions, then approves the issuance module for every
  component in their order, and only then issues, once, to the given receiver or else the owner.
\<close>

lemma issue_after_approvals:
  assumes "sf_approveAndIssueSetToken ch f setToken q to w = Some (u, w')"
  shows "\<exists>issuance positions cs. sf_issuanceModule f = Some issuance \<and> map (field ''component'') positions = map (Some \<circ> JStr) cs
     \<and> (\<exists>s. ch (Transact (signer_of setToken) (contract_name setToken) (addr setToken) ''getPositions'' []) (snd w) = Some (JArr positions, s))
     \<and> fst w' = fst w @ Transact (signer_of setToken) (contract_name setToken) (addr setToken) ''getPositions'' []
         # map (\<lambda>c. Transact (sf_ownerAddress f) ''StandardTokenMock'' c ''approve'' [JStr (addr issuance), JNum TS_MAX_UINT_256]) cs
         @ [Transact (signer_of issuance) (contract_name issuance) (addr issuance) ''issue''
              [JStr (addr setToken), JNum q, JStr (default_to (sf_ownerAddress f) to)]]"
proof -
  obtain v w1 positions w2 issuance x
    where g: "call ch setToken ''getPositions'' [] w = Some (v, w1)" "as_arr v = Some positions"
    and ap: "approve_components ch f positions w1 = Some ((), w2)" and i: "sf_issuanceModule f = Some issuance"
    and last: "call ch issuance ''issue'' [JStr (addr setToken), JNum q, JStr (default_to (sf_ownerAddress f) to)] w2 = Some (x, w')"
    using assms unfolding sf_approveAndIssueSetToken_def by (auto simp: bind_eq_Some_conv)
  obtain cs where "map (field ''component'') positions = map (Some \<circ> JStr) cs"
    "fst w2 = fst w1 @ map (\<lambda>c. Transact (sf_ownerAddress f) ''StandardTokenMock'' c ''approve''
         [JStr (addr issuance), JNum TS_MAX_UINT_256]) cs"
    using approve_components_trace [OF ap i] by blast
  then show ?thesis using i g(2) call_trace [OF last] call_trace [OF g(1)] g(1)
    by (intro exI [of _ issuance] exI [of _ positions] exI [of _ cs]) (auto simp: call_eq_Some as_arr_eq_Some)
qed

lemma issue_after_approvals_example:
  "\<exists>w'. sf_approveAndIssueSetToken demo_node ((new_SystemFixture ''0xa'')\<lparr>sf_issuanceModule := Some (attach ''0xa'' ''BasicIssuanceModule'' ''0x9'')\<rparr>)
      (attach ''0xa'' ''SetToken'' ''0x8'') 5 None ([], 0) = Some ((), w')
     \<and> last (fst w') = Transact ''0xa'' ''BasicIssuanceModule'' ''0x9'' ''issue'' [JStr ''0x8'', JNum 5, JStr ''0xa'']"
proof -
  let ?f = "(new_SystemFixture ''0xa'')\<lparr>sf_issuanceModule := Some (attach ''0xa'' ''BasicIssuanceModule'' ''0x9'')\<rparr>"
  have "sf_approveAndIssueSetToken demo_node ?f (attach ''0xa'' ''SetToken'' ''0x8'') 5 None ([], 0) \<noteq> None" by code_simp
  then obtain w' where run: "sf_approveAndIssueSetToken demo_node ?f (attach ''0xa'' ''SetToken'' ''0x8'') 5 None ([], 0) = Some ((), w')"
    by auto
  from issue_after_approvals [OF run] have
    "last (fst w') = Transact ''0xa'' ''BasicIssuanceModule'' ''0x9'' ''issue'' [JStr ''0x8'', JNum 5, JStr ''0xa'']"
    by (auto simp: new_SystemFixture_def attach_def)
  with run show ?thesis by blast
qed

end
