(* ===== verification/ExchangeFixtures.thy ===== *)
theory ExchangeFixtures
  imports Deploys DeployExternal DeployMocks CommonUtils PerpV2Utils
begin

section \<open>Fixtures of the exchanges\<close>

text \<open>
  \<^verbatim>\<open>src/utils/fixtures/uniswapFixture.ts\<close>, \<^verbatim>\<open>balancerFixture.ts\<close>, \<^verbatim>\<open>kyberV3DMMFixture.ts\<close>,
  \<^verbatim>\<open>kyberV3DMMFixtureDeploy.ts\<close> and the liquidity part of \<^verbatim>\<open>uniswapV3Fixture.ts\<close> (its initial prices are
  floating point computations and are not modelled). Class fields are records of options, as in
  \<open>SystemFixture\<close>.
\<close>

subsection \<open>Token order\<close>

definition js_toLowerCase :: "string \<Rightarrow> string" where
  "js_toLowerCase s = map (\<lambda>c. let k = of_char c :: nat in if 65 \<le> k \<and> k \<le> 90 then char_of (k + 32) else c) s"

definition getTokenOrder :: "string \<Rightarrow> string \<Rightarrow> string \<times> string" where
  "getTokenOrder tokenOne tokenTwo =
     (if js_string_lt (js_toLowerCase tokenOne) (js_toLowerCase tokenTwo) then (tokenOne, tokenTwo) else (tokenTwo, tokenOne))"

subsection \<open>uniswapFixture.ts\<close>

record UniswapFixture =
  uf_ownerSigner :: string
  uf_owner :: "Account option"
  uf_uni :: "handle option"
  uf_uniswapGovernorAlpha :: "handle option"
  uf_uniswapTimelock :: "handle option"
  uf_factory :: "handle option"
  uf_router :: "handle option"
  uf_wethDaiPool :: "handle option"
  uf_wethDaiStakingRewards :: "handle option"
  uf_wethWbtcPool :: "handle option"
  uf_wethWbtcStakingRewards :: "handle option"
  uf_uniWethPool :: "handle option"

definition new_UniswapFixture :: "string \<Rightarrow> UniswapFixture" where
  "new_UniswapFixture ownerAddress =
     \<lparr>uf_ownerSigner = ownerAddress, uf_owner = None, uf_uni = None, uf_uniswapGovernorAlpha = None, uf_uniswapTimelock = None,
      uf_factory = None, uf_router = None, uf_wethDaiPool = None, uf_wethDaiStakingRewards = None, uf_wethWbtcPool = None,
      uf_wethWbtcStakingRewards = None, uf_uniWethPool = None\<rparr>"

definition uf_createNewPair :: "'w chain \<Rightarrow> UniswapFixture \<Rightarrow> string \<Rightarrow> string \<Rightarrow> 'w world \<Rightarrow> (handle \<times> 'w world) option" where
  "uf_createNewPair ch f tokenOne tokenTwo w = do {
     factory \<leftarrow> uf_factory f;
     (_, w) \<leftarrow> call ch factory ''createPair'' [JStr tokenOne, JStr tokenTwo] w;
     (v, w) \<leftarrow> call ch factory ''allPairsLength'' [] w;
     n \<leftarrow> as_num v;
     (v, w) \<leftarrow> call ch factory ''allPairs'' [JNum (n - 1)] w;
     poolAddress \<leftarrow> as_str v;
     Some (attach (uf_ownerSigner f) ''UniswapV2Pair'' poolAddress, w)
   }"

definition uf_createNewStakingPair ::
  "'w chain \<Rightarrow> UniswapFixture \<Rightarrow> string \<Rightarrow> string \<Rightarrow> 'w world \<Rightarrow> ((handle \<times> handle) \<times> 'w world) option" where
  "uf_createNewStakingPair ch f tokenOne tokenTwo w = do {
     (pool, w) \<leftarrow> uf_createNewPair ch f tokenOne tokenTwo w;
     owner \<leftarrow> uf_owner f;
     uni \<leftarrow> uf_uni f;
     (staking, w) \<leftarrow> deployStakingRewards ch (uf_ownerSigner f) (acc_address owner) (addr uni) (addr pool) w;
     (_, w) \<leftarrow> call ch (connect uni (acc_wallet owner)) ''transfer'' [JStr (addr staking), JNum (ether 5000000 1)] w;
     (_, w) \<leftarrow> call ch (connect staking (acc_wallet owner)) ''notifyRewardAmount'' [JNum (ether 5000000 1)] w;
     Some ((pool, staking), w)
   }"

definition uf_initialize ::
  "'w chain \<Rightarrow> UniswapFixture \<Rightarrow> Account \<Rightarrow> string \<Rightarrow> string \<Rightarrow> string \<Rightarrow> 'w world \<Rightarrow> (UniswapFixture \<times> 'w world) option" where
  "uf_initialize ch f owner weth wbtc dai w = do {
     let sg = uf_ownerSigner f;
     let f = f\<lparr>uf_owner := Some owner\<rparr>;
     (factory, w) \<leftarrow> deployUniswapV2Factory ch sg (acc_address owner) w;
     let f = f\<lparr>uf_factory := Some factory\<rparr>;
     (router, w) \<leftarrow> deployUniswapV2Router02 ch sg (addr factory) weth w;
     let f = f\<lparr>uf_router := Some router\<rparr>;
     (lastBlock, w) \<leftarrow> rpc ch ''getBlock'' [JStr ''latest''] w;
     v \<leftarrow> field ''timestamp'' lastBlock;
     timestamp \<leftarrow> as_num v;
     (uni, w) \<leftarrow> deployUni ch sg (acc_address owner) (acc_address owner) (timestamp + 2) w;
     let f = f\<lparr>uf_uni := Some uni\<rparr>;
     (timelock, w) \<leftarrow> deployUniswapTimelock ch sg (acc_address owner) (ONE_DAY_IN_SECONDS * 2) w;
     let f = f\<lparr>uf_uniswapTimelock := Some timelock\<rparr>;
     (governor, w) \<leftarrow> deployUniswapGovernorAlpha ch sg (addr timelock) (addr uni) w;
     let f = f\<lparr>uf_uniswapGovernorAlpha := Some governor\<rparr>;
     ((pool1, staking1), w) \<leftarrow> uf_createNewStakingPair ch f weth dai w;
     let f = f\<lparr>uf_wethDaiPool := Some pool1, uf_wethDaiStakingRewards := Some staking1\<rparr>;
     ((pool2, staking2), w) \<leftarrow> uf_createNewStakingPair ch f weth wbtc w;
     let f = f\<lparr>uf_wethWbtcPool := Some pool2, uf_wethWbtcStakingRewards := Some staking2\<rparr>;
     (pool3, w) \<leftarrow> uf_createNewPair ch f weth (addr uni) w;
     Some (f\<lparr>uf_uniWethPool := Some pool3\<rparr>, w)
   }"

definition uf_getForkedUniswapRouter :: "UniswapFixture \<Rightarrow> handle option" where
  "uf_getForkedUniswapRouter f = map_option (getForkedUniswapV2Router02 (uf_ownerSigner f)) (dependency ''UNISWAP_ROUTER'' 1)"

definition uf_getForkedSushiswapRouter :: "UniswapFixture \<Rightarrow> handle option" where
  "uf_getForkedSushiswapRouter f = map_option (getForkedUniswapV2Router02 (uf_ownerSigner f)) (dependency ''SUSHISWAP_ROUTER'' 1)"

subsection \<open>balancerFixture.ts\<close>

record BalancerFixture =
  bf_ownerSigner :: string
  bf_owner :: "Account option"
  bf_factory :: "handle option"
  bf_exchange :: "handle option"
  bf_registry :: "handle option"
  bf_wethDaiPool :: "handle option"
  bf_wethWbtcPool :: "handle option"
  bf_wbtcDaiPool :: "handle option"

definition new_BalancerFixture :: "string \<Rightarrow> BalancerFixture" where
  "new_BalancerFixture ownerAddress =
     \<lparr>bf_ownerSigner = ownerAddress, bf_owner = None, bf_factory = None, bf_exchange = None, bf_registry = None,
      bf_wethDaiPool = None, bf_wethWbtcPool = None, bf_wbtcDaiPool = None\<rparr>"

definition LOG_NEW_POOL :: string where
  "LOG_NEW_POOL = ''0x8ccec77b0cb63ac2cafd0f5de8cdfadab91ce656d262240ba8a6343bccc5f945''"

definition log_has_topic :: "string \<Rightarrow> js \<Rightarrow> bool" where
  "log_has_topic topic log = (case field ''topics'' log of Some (JArr ts) \<Rightarrow> JStr topic \<in> set ts | _ \<Rightarrow> False)"

definition bf_getPoolAddressFromTransaction :: "'w chain \<Rightarrow> js \<Rightarrow> 'w world \<Rightarrow> (string \<times> 'w world) option" where
  "bf_getPoolAddressFromTransaction ch tx w = do {
     hash \<leftarrow> field ''hash'' tx;
     (receipt, w) \<leftarrow> rpc ch ''getTransactionReceipt'' [hash] w;
     v \<leftarrow> field ''logs'' receipt;
     logs \<leftarrow> as_arr v;
     log \<leftarrow> elem_at (filter (log_has_topic LOG_NEW_POOL) logs) 0;
     t \<leftarrow> field ''topics'' log;
     topics \<leftarrow> as_arr t;
     v \<leftarrow> elem_at topics 2;
     topic \<leftarrow> as_str v;
     Some (''0x'' @ drop 26 topic, w)
   }"

definition bf_createNewPool ::
  "'w chain \<Rightarrow> BalancerFixture \<Rightarrow> handle \<Rightarrow> handle \<Rightarrow> int \<Rightarrow> int \<Rightarrow> 'w world \<Rightarrow> (handle \<times> 'w world) option" where
  "bf_createNewPool ch f tokenOne tokenTwo tokenOneBalance tokenTwoBalance w = do {
     let sg = bf_ownerSigner f;
     factory \<leftarrow> bf_factory f;
     (tx, w) \<leftarrow> call ch factory ''newBPool'' [] w;
     (poolAddress, w) \<leftarrow> bf_getPoolAddressFromTransaction ch tx w;
     let pool = attach sg ''BPool'' poolAddress;
     (_, w) \<leftarrow> call ch (connect tokenOne sg) ''approve'' [JStr poolAddress, JNum tokenOneBalance] w;
     (_, w) \<leftarrow> call ch (connect pool sg) ''bind'' [JStr (addr tokenOne), JNum tokenOneBalance, JNum (ether 5 1)] w;
     (_, w) \<leftarrow> call ch (connect tokenTwo sg) ''approve'' [JStr poolAddress, JNum tokenTwoBalance] w;
     (_, w) \<leftarrow> call ch pool ''bind'' [JStr (addr tokenTwo), JNum tokenTwoBalance, JNum (ether 5 1)] w;
     (_, w) \<leftarrow> call ch pool ''setPublicSwap'' [JBool True] w;
     Some (pool, w)
   }"

definition bf_initialize ::
  "'w chain \<Rightarrow> BalancerFixture \<Rightarrow> Account \<Rightarrow> handle \<Rightarrow> handle \<Rightarrow> handle \<Rightarrow> 'w world \<Rightarrow> (BalancerFixture \<times> 'w world) option" where
  "bf_initialize ch f owner weth wbtc dai w = do {
     let sg = bf_ownerSigner f;
     let f = f\<lparr>bf_owner := Some owner\<rparr>;
     (factory, w) \<leftarrow> deployB__factory ch sg w;
     let f = f\<lparr>bf_factory := Some factory\<rparr>;
     (wethDai, w) \<leftarrow> bf_createNewPool ch f weth dai (ether 400 1) (ether 92000 1) w;
     let f = f\<lparr>bf_wethDaiPool := Some wethDai\<rparr>;
     (wethWbtc, w) \<leftarrow> bf_createNewPool ch f wbtc weth (ether 3913043 10000) (bitcoin 10) w;
     let f = f\<lparr>bf_wethWbtcPool := Some wethWbtc\<rparr>;
     (wbtcDai, w) \<leftarrow> bf_createNewPool ch f wbtc dai (bitcoin 10) (ether 90000 1) w;
     let f = f\<lparr>bf_wbtcDaiPool := Some wbtcDai\<rparr>;
     (registry, w) \<leftarrow> deployBRegistry ch sg (addr factory) w;
     let f = f\<lparr>bf_registry := Some registry\<rparr>;
     (exchange, w) \<leftarrow> deployExchangeProxy ch sg (addr weth) w;
     let f = f\<lparr>bf_exchange := Some exchange\<rparr>;
     (_, w) \<leftarrow> call ch registry ''addPoolPair'' [JStr (addr wethDai), JStr (addr weth), JStr (addr dai)] w;
     (_, w) \<leftarrow> call ch registry ''addPoolPair'' [JStr (addr wethWbtc), JStr (addr weth), JStr (addr wbtc)] w;
     (_, w) \<leftarrow> call ch registry ''addPoolPair'' [JStr (addr wbtcDai), JStr (addr wbtc), JStr (addr dai)] w;
     (_, w) \<leftarrow> call ch registry ''sortPools'' [JArr [JStr (addr weth), JStr (addr dai)], JNum 1] w;
     (_, w) \<leftarrow> call ch registry ''sortPools'' [JArr [JStr (addr wbtc), JStr (addr dai)], JNum 1] w;
     (_, w) \<leftarrow> call ch registry ''sortPools'' [JArr [JStr (addr weth), JStr (addr wbtc)], JNum 1] w;
     (_, w) \<leftarrow> call ch exchange ''setRegistry'' [JStr (addr registry)] w;
     Some (f, w)
   }"

subsection \<open>kyberV3DMMFixture.ts\<close>

record KyberV3DMMFixture =
  kf_ownerSigner :: string
  kf_owner :: "Account option"
  kf_knc :: "handle option"
  kf_dmmFactory :: "handle option"
  kf_dmmRouter :: "handle option"
  kf_kncWethPool :: "handle option"
  kf_wethDaiPool :: "handle option"
  kf_wethWbtcPool :: "handle option"

definition new_KyberV3DMMFixture :: "string \<Rightarrow> KyberV3DMMFixture" where
  "new_KyberV3DMMFixture ownerAddress =
     \<lparr>kf_ownerSigner = ownerAddress, kf_owner = None, kf_knc = None, kf_dmmFactory = None, kf_dmmRouter = None,
      kf_kncWethPool = None, kf_wethDaiPool = None, kf_wethWbtcPool = None\<rparr>"

definition kf_createNewPool :: "'w chain \<Rightarrow> KyberV3DMMFixture \<Rightarrow> string \<Rightarrow> string \<Rightarrow> int \<Rightarrow> 'w world \<Rightarrow> (handle \<times> 'w world) option" where
  "kf_createNewPool ch f tokenA tokenB ampBps w = do {
     factory \<leftarrow> kf_dmmFactory f;
     (_, w) \<leftarrow> call ch factory ''createPool'' [JStr tokenA, JStr tokenB, JNum ampBps] w;
     (v, w) \<leftarrow> call ch factory ''allPoolsLength'' [] w;
     n \<leftarrow> as_num v;
     (v, w) \<leftarrow> call ch factory ''allPools'' [JNum (n - 1)] w;
     poolAddress \<leftarrow> as_str v;
     Some (attach (kf_ownerSigner f) ''DMMPool'' poolAddress, w)
   }"

definition kf_initialize ::
  "'w chain \<Rightarrow> KyberV3DMMFixture \<Rightarrow> Account \<Rightarrow> string \<Rightarrow> string \<Rightarrow> string \<Rightarrow> 'w world \<Rightarrow> (KyberV3DMMFixture \<times> 'w world) option" where
  "kf_initialize ch f owner weth wbtc dai w = do {
     let sg = kf_ownerSigner f;
     let f = f\<lparr>kf_owner := Some owner\<rparr>;
     (factory, w) \<leftarrow> deployDMMFactory ch sg (acc_address owner) w;
     let f = f\<lparr>kf_dmmFactory := Some factory\<rparr>;
     (router, w) \<leftarrow> deployDMMRouter02 ch sg (addr factory) weth w;
     let f = f\<lparr>kf_dmmRouter := Some router\<rparr>;
     (knc, w) \<leftarrow> deployTokenMock ch sg (acc_address owner) (Some (ether 100000 1)) (Some 18) None None w;
     let f = f\<lparr>kf_knc := Some knc\<rparr>;
     (pool1, w) \<leftarrow> kf_createNewPool ch f weth (addr knc) 19000 w;
     let f = f\<lparr>kf_kncWethPool := Some pool1\<rparr>;
     (pool2, w) \<leftarrow> kf_createNewPool ch f weth dai 10000 w;
     let f = f\<lparr>kf_wethDaiPool := Some pool2\<rparr>;
     (pool3, w) \<leftarrow> kf_createNewPool ch f weth wbtc 15000 w;
     Some (f\<lparr>kf_wethWbtcPool := Some pool3\<rparr>, w)
   }"

subsection \<open>kyberV3DMMFixtureDeploy.ts\<close>

text \<open>\<open>tx.wait()\<close> is a request to the provider. The map of pools is an association list in order of insertion.\<close>

record KyberV3DMMFixtureDeploy =
  kd_ownerSigner :: string
  kd_owner :: "Account option"
  kd_dmmFactory :: "handle option"
  kd_dmmRouter :: "handle option"
  kd_componentPoolsMap :: "(string \<times> handle) list"

definition map_set :: "'k \<Rightarrow> 'v \<Rightarrow> ('k \<times> 'v) list \<Rightarrow> ('k \<times> 'v) list" where
  "map_set k v kvs =
     (if k \<in> fst ` set kvs then map (\<lambda>(k', v'). if k' = k then (k, v) else (k', v')) kvs else kvs @ [(k, v)])"

definition kd_createNewPool :: "'w chain \<Rightarrow> KyberV3DMMFixtureDeploy \<Rightarrow> string \<Rightarrow> string \<Rightarrow> int \<Rightarrow> 'w world \<Rightarrow> (handle \<times> 'w world) option" where
  "kd_createNewPool ch f tokenA tokenB ampBps w = do {
     factory \<leftarrow> kd_dmmFactory f;
     (tx, w) \<leftarrow> call ch factory ''createPool'' [JStr tokenA, JStr tokenB, JNum ampBps] w;
     (_, w) \<leftarrow> rpc ch ''wait'' [tx] w;
     (v, w) \<leftarrow> call ch factory ''allPoolsLength'' [] w;
     n \<leftarrow> as_num v;
     (v, w) \<leftarrow> call ch factory ''allPools'' [JNum (n - 1)] w;
     poolAddress \<leftarrow> as_str v;
     Some (attach (kd_ownerSigner f) ''DMMPool'' poolAddress, w)
   }"

definition kd_componentAmount :: "int \<Rightarrow> int \<Rightarrow> int" where
  "kd_componentAmount wethAmount oraclePrice = tdiv (wethAmount * oraclePrice) (ether 1 1)"

definition kd_addLiquidityToPool ::
  "'w chain \<Rightarrow> KyberV3DMMFixtureDeploy \<Rightarrow> handle \<Rightarrow> Account \<Rightarrow> handle \<Rightarrow> handle \<Rightarrow> handle \<Rightarrow> int \<Rightarrow> 'w world \<Rightarrow> (unit \<times> 'w world) option" where
  "kd_addLiquidityToPool ch f pool manager weth component orc wethAmt w = do {
     (v, w) \<leftarrow> call ch orc ''read'' [] w;
     oraclePrice \<leftarrow> as_num v;
     let wethAmount = tdiv wethAmt 10;
     let componentAmount = kd_componentAmount wethAmount oraclePrice;
     router \<leftarrow> kd_dmmRouter f;
     (tx, w) \<leftarrow> call ch (connect weth (acc_wallet manager)) ''approve'' [JStr (addr router), JNum wethAmount] w;
     (tx2, w) \<leftarrow> call ch (connect component (acc_wallet manager)) ''approve'' [JStr (addr router), JNum componentAmount] w;
     (_, w) \<leftarrow> rpc ch ''wait'' [tx] w;
     (_, w) \<leftarrow> rpc ch ''wait'' [tx2] w;
     (_, w) \<leftarrow> call ch (connect router (acc_wallet manager)) ''addLiquidity''
        [JStr (addr weth), JStr (addr component), JStr (addr pool), JNum wethAmount, JNum componentAmount,
         JNum (tdiv (wethAmount * 75) 100), JNum (tdiv (componentAmount * 75) 100),
         JArr [JNum 0, JNum TS_MAX_UINT_256], JStr (acc_address manager), JNum TS_MAX_UINT_256] w;
     Some ((), w)
   }"

text \<open>The loop; a component without an oracle at its index throws when the oracle is read.\<close>

fun kd_pools_loop ::
  "'w chain \<Rightarrow> Account \<Rightarrow> handle \<Rightarrow> int \<Rightarrow> handle list \<Rightarrow> handle list \<Rightarrow> KyberV3DMMFixtureDeploy \<Rightarrow> 'w world \<Rightarrow>
   (KyberV3DMMFixtureDeploy \<times> 'w world) option" where
  "kd_pools_loop ch owner weth wethAmount [] oracles f w = Some (f, w)"
| "kd_pools_loop ch owner weth wethAmount (component # components) oracles f w = do {
     (pool, w) \<leftarrow> kd_createNewPool ch f (addr weth) (addr component) 19000 w;
     let f = f\<lparr>kd_componentPoolsMap := map_set (addr component) pool (kd_componentPoolsMap f)\<rparr>;
     orc \<leftarrow> elem_at oracles 0;
     (_, w) \<leftarrow> kd_addLiquidityToPool ch f pool owner weth component orc wethAmount w;
     kd_pools_loop ch owner weth wethAmount components (tl oracles) f w
   }"

definition kd_initialize ::
  "'w chain \<Rightarrow> KyberV3DMMFixtureDeploy \<Rightarrow> Account \<Rightarrow> handle \<Rightarrow> handle list \<Rightarrow> handle list \<Rightarrow> int \<Rightarrow> 'w world \<Rightarrow>
   (KyberV3DMMFixtureDeploy \<times> 'w world) option" where
  "kd_initialize ch f owner weth components oracles wethAmount w = do {
     let sg = kd_ownerSigner f;
     let f = f\<lparr>kd_owner := Some owner\<rparr>;
     (factory, w) \<leftarrow> deployDMMFactory ch sg (acc_address owner) w;
     let f = f\<lparr>kd_dmmFactory := Some factory\<rparr>;
     (router, w) \<leftarrow> deployDMMRouter02 ch sg (addr factory) (addr weth) w;
     let f = f\<lparr>kd_dmmRouter := Some router\<rparr>;
     kd_pools_loop ch owner weth wethAmount components oracles f w
   }"

subsection \<open>uniswapV3Fixture.ts\<close>

record UniswapV3Fixture =
  v3_ownerSigner :: string
  v3_factory :: "handle option"
  v3_nftPositionManager :: "handle option"

definition v3_getTokenOrder :: "handle \<Rightarrow> handle \<Rightarrow> handle \<times> handle" where
  "v3_getTokenOrder token0 token1 =
     (if js_string_lt (js_toLowerCase (addr token0)) (js_toLowerCase (addr token1)) then (token0, token1) else (token1, token0))"

text \<open>The fee tiers 500, 3000 and 10000 are multiples of 50, on which the division is exact.\<close>

definition v3_validTicks :: "int \<Rightarrow> int \<times> int" where
  "v3_validTicks fee =
     (let tickSpacing = fee div 50; maxTick = 887272
      in (- (maxTick div tickSpacing) * tickSpacing, maxTick div tickSpacing * tickSpacing))"

definition v3_addLiquidityWide ::
  "'w chain \<Rightarrow> UniswapV3Fixture \<Rightarrow> handle \<Rightarrow> handle \<Rightarrow> int \<Rightarrow> int \<Rightarrow> int \<Rightarrow> string \<Rightarrow> 'w world \<Rightarrow> (unit \<times> 'w world) option" where
  "v3_addLiquidityWide ch f token0 token1 fee amount0 amount1 recipient w = do {
     let ((amount0Ordered, amount1Ordered), (token0Ordered, token1Ordered)) =
       (if js_string_lt (js_toLowerCase (addr token1)) (js_toLowerCase (addr token0))
        then ((amount1, amount0), (token1, token0)) else ((amount0, amount1), (token0, token1)));
     let (minValidTick, maxValidTick) = v3_validTicks fee;
     manager \<leftarrow> v3_nftPositionManager f;
     (_, w) \<leftarrow> call ch (connect manager (v3_ownerSigner f)) ''mint''
        [JObj [(''fee'', JNum fee), (''token0'', JStr (addr token0Ordered)), (''token1'', JStr (addr token1Ordered)),
               (''tickLower'', JNum minValidTick), (''tickUpper'', JNum maxValidTick),
               (''amount0Desired'', JNum amount0Ordered), (''amount1Desired'', JNum amount1Ordered),
               (''amount0Min'', JNum 0), (''amount1Min'', JNum 0), (''deadline'', JNum TS_MAX_UINT_256),
               (''recipient'', JStr recipient)]] w;
     Some ((), w)
   }"

definition v3_getPool :: "'w chain \<Rightarrow> UniswapV3Fixture \<Rightarrow> handle \<Rightarrow> handle \<Rightarrow> int \<Rightarrow> 'w world \<Rightarrow> (handle \<times> 'w world) option" where
  "v3_getPool ch f token0 token1 fee w = do {
     let (token0Ordered, token1Ordered) = v3_getTokenOrder token0 token1;
     factory \<leftarrow> v3_factory f;
     (v, w) \<leftarrow> call ch factory ''getPool'' [JStr (addr token0Ordered), JStr (addr token1Ordered), JNum fee] w;
     poolAddress \<leftarrow> as_str v;
     Some (attach (v3_ownerSigner f) ''UniswapV3Pool'' poolAddress, w)
   }"

subsection \<open>Order of tokens\<close>

text \<open>
  Exchanges identify a pair by its tokens in ascending order. For tokens that are different addresses
  \<open>getTokenOrder\<close> gives the same pair whichever way it is asked, the smaller address first, and nothing
  but the two tokens.
\<close>

lemma token_order_canonical:
  assumes "js_toLowerCase a \<noteq> js_toLowerCase b"
  shows "getTokenOrder a b = getTokenOrder b a \<and> {fst (getTokenOrder a b), snd (getTokenOrder a b)} = {a, b}
     \<and> js_string_lt (js_toLowerCase (fst (getTokenOrder a b))) (js_toLowerCase (snd (getTokenOrder a b)))"
proof -
  consider "js_string_lt (js_toLowerCase a) (js_toLowerCase b)" "\<not> js_string_lt (js_toLowerCase b) (js_toLowerCase a)"
    | "js_string_lt (js_toLowerCase b) (js_toLowerCase a)" "\<not> js_string_lt (js_toLowerCase a) (js_toLowerCase b)"
    using js_string_lt_total [OF assms] js_string_lt_asym by blast
  then show ?thesis by cases (auto simp: getTokenOrder_def)
qed

lemma token_order_canonical_example:
  "getTokenOrder ''0xAb'' ''0xaC'' = getTokenOrder ''0xaC'' ''0xAb'' \<and> getTokenOrder ''0xaC'' ''0xAb'' = (''0xAb'', ''0xaC'')"
proof -
  have "js_toLowerCase ''0xAb'' \<noteq> js_toLowerCase ''0xaC''" by code_simp
  then have "getTokenOrder ''0xAb'' ''0xaC'' = getTokenOrder ''0xaC'' ''0xAb''"
    using token_order_canonical by blast
  moreover have "getTokenOrder ''0xaC'' ''0xAb'' = (''0xAb'', ''0xaC'')" by code_simp
  ultimately show ?thesis by blast
qed

lemma v3_ticks:
  assumes "fee \<in> {500, 3000, 10000}" "v3_validTicks fee = (lo, hi)"
  shows "lo = - hi \<and> (fee div 50) dvd hi \<and> 0 < hi \<and> hi \<le> 887272 \<and> 887272 < hi + fee div 50"
  using assms by (auto simp: v3_validTicks_def Let_def)

text \<open>
  \<open>addLiquidityWide\<close> does not depend on the order in which the tokens are given: naming them the other
  way round, each with its amount, sends the same request. For every fee tier the range is symmetric, its
  ends are valid ticks within the limits of Uniswap, and the next tick would be beyond them.
\<close>

lemma wide_liquidity_order_free:
  assumes "js_toLowerCase (addr t0) \<noteq> js_toLowerCase (addr t1)" "fee \<in> {500, 3000, 10000}" "v3_validTicks fee = (lo, hi)"
  shows "v3_addLiquidityWide ch f t0 t1 fee a0 a1 r w = v3_addLiquidityWide ch f t1 t0 fee a1 a0 r w
     \<and> lo = - hi \<and> (fee div 50) dvd hi \<and> hi \<le> 887272 \<and> 887272 < hi + fee div 50"
proof -
  have "v3_addLiquidityWide ch f t0 t1 fee a0 a1 r w = v3_addLiquidityWide ch f t1 t0 fee a1 a0 r w"
    using js_string_lt_total [OF assms(1)] js_string_lt_asym
    by (auto simp: v3_addLiquidityWide_def)
  then show ?thesis using v3_ticks [OF assms(2,3)] by blast
qed

lemma wide_liquidity_order_free_example:
  "v3_addLiquidityWide (\<lambda>_ s. Some (JBool True, s)) \<lparr>v3_ownerSigner = ''o'', v3_factory = None, v3_nftPositionManager = Some (attach ''o'' ''NFT'' ''0x1'')\<rparr>
      (attach ''o'' ''A'' ''0xa'') (attach ''o'' ''B'' ''0xb'') 3000 5 7 ''r'' ([], ())
   = v3_addLiquidityWide (\<lambda>_ s. Some (JBool True, s)) \<lparr>v3_ownerSigner = ''o'', v3_factory = None, v3_nftPositionManager = Some (attach ''o'' ''NFT'' ''0x1'')\<rparr>
      (attach ''o'' ''B'' ''0xb'') (attach ''o'' ''A'' ''0xa'') 3000 7 5 ''r'' ([], ())
   \<and> v3_validTicks 3000 = (-887220, 887220)"
proof
  show ticks: "v3_validTicks 3000 = (-887220, 887220)" by (simp add: v3_validTicks_def)
  have "js_toLowerCase (addr (attach ''o'' ''A'' ''0xa'')) \<noteq> js_toLowerCase (addr (attach ''o'' ''B'' ''0xb''))" by code_simp
  then show "v3_addLiquidityWide (\<lambda>_ s. Some (JBool True, s)) \<lparr>v3_ownerSigner = ''o'', v3_factory = None, v3_nftPositionManager = Some (attach ''o'' ''NFT'' ''0x1'')\<rparr>
      (attach ''o'' ''A'' ''0xa'') (attach ''o'' ''B'' ''0xb'') 3000 5 7 ''r'' ([], ())
   = v3_addLiquidityWide (\<lambda>_ s. Some (JBool True, s)) \<lparr>v3_ownerSigner = ''o'', v3_factory = None, v3_nftPositionManager = Some (attach ''o'' ''NFT'' ''0x1'')\<rparr>
      (attach ''o'' ''B'' ''0xb'') (attach ''o'' ''A'' ''0xa'') 3000 7 5 ''r'' ([], ())"
    using wide_liquidity_order_free [OF _ _ ticks] by blast
qed

subsection \<open>A pool per component\<close>

lemma kd_pools_loop_keys:
  assumes "kd_pools_loop ch owner weth n cs os f w = Some (f', w')"
    and "distinct (map fst (kd_componentPoolsMap f) @ map addr cs)"
  shows "map fst (kd_componentPoolsMap f') = map fst (kd_componentPoolsMap f) @ map addr cs \<and> length cs \<le> length os
     \<and> kd_dmmFactory f' = kd_dmmFactory f"
  using assms
proof (induction cs arbitrary: os f w)
  case (Cons c cs)
  let ?f = "\<lambda>pool. f\<lparr>kd_componentPoolsMap := map_set (addr c) pool (kd_componentPoolsMap f)\<rparr>"
  from Cons.prems(1) obtain pool w2 where "os \<noteq> []"
    and rest: "kd_pools_loop ch owner weth n cs (tl os) (?f pool) w2 = Some (f', w')"
    by (auto simp: bind_eq_Some_conv elem_at_def Let_def split: if_splits)
  have keys: "map fst (map_set (addr c) pool (kd_componentPoolsMap f)) = map fst (kd_componentPoolsMap f) @ [addr c]"
    using Cons.prems(2) by (auto simp: map_set_def)
  then have "distinct (map fst (kd_componentPoolsMap (?f pool)) @ map addr cs)" using Cons.prems(2) by simp
  from Cons.IH [OF rest this] keys \<open>os \<noteq> []\<close> show ?case by (cases os) simp_all
qed simp

text \<open>
  When the Kyber deployment fixture returns, it has one pool for every component, in the order of the
  components and under their addresses, and every component had an oracle.
\<close>

lemma kyber_pool_per_component:
  assumes "kd_initialize ch f owner weth cs os n w = Some (f', w')" "kd_componentPoolsMap f = []" "distinct (map addr cs)"
  shows "map fst (kd_componentPoolsMap f') = map addr cs \<and> length cs \<le> length os"
proof -
  from assms(1) obtain g w1 where "kd_pools_loop ch owner weth n cs os g w1 = Some (f', w')"
    "kd_componentPoolsMap g = kd_componentPoolsMap f"
    unfolding kd_initialize_def Let_def by (elim script_elims bind_someE) simp
  with kd_pools_loop_keys [of ch owner weth n cs os g w1 f' w'] assms(2,3) show ?thesis by simp
qed

definition kyber_demo_node :: "nat chain" where
  "kyber_demo_node = table_chain (\<lambda>r. case r of
      Transact _ _ _ m _ \<Rightarrow> if m = ''allPools'' then JStr ''0xp'' else JNum (10 ^ 18)
    | _ \<Rightarrow> JBool True)"

lemma kyber_pool_per_component_example:
  "map_option (\<lambda>(f, _). map fst (kd_componentPoolsMap f))
     (kd_initialize kyber_demo_node \<lparr>kd_ownerSigner = ''o'', kd_owner = None, kd_dmmFactory = None, kd_dmmRouter = None, kd_componentPoolsMap = []\<rparr>
       \<lparr>acc_address = ''o'', acc_wallet = ''o''\<rparr> (attach ''o'' ''WETH9'' ''0xw'') [attach ''o'' ''ERC20'' ''0xa'', attach ''o'' ''ERC20'' ''0xb'']
       [attach ''o'' ''OracleMock'' ''0x1'', attach ''o'' ''OracleMock'' ''0x2''] 1000 ([], 0)) = Some [''0xa'', ''0xb'']"
proof -
  let ?f = "\<lparr>kd_ownerSigner = ''o'', kd_owner = None, kd_dmmFactory = None, kd_dmmRouter = None, kd_componentPoolsMap = []\<rparr>"
  let ?run = "kd_initialize kyber_demo_node ?f
       \<lparr>acc_address = ''o'', acc_wallet = ''o''\<rparr> (attach ''o'' ''WETH9'' ''0xw'') [attach ''o'' ''ERC20'' ''0xa'', attach ''o'' ''ERC20'' ''0xb'']
       [attach ''o'' ''OracleMock'' ''0x1'', attach ''o'' ''OracleMock'' ''0x2''] 1000 ([], 0)"
  have "?run \<noteq> None" by code_simp
  then obtain f' w' where run: "?run = Some (f', w')" by auto
  from kyber_pool_per_component [OF run] have "map fst (kd_componentPoolsMap f') = [''0xa'', ''0xb'']"
    by (simp add: attach_def)
  with run show ?thesis by simp
qed

subsection \<open>Balancer pools\<close>

text \<open>
  \<open>createNewPool\<close> binds each token with exactly the balance it approved to the new pool, both with the
  same weight, and opens the pool to swaps last.
\<close>

lemma balancer_pool_setup:
  assumes "bf_createNewPool ch f t1 t2 b1 b2 w = Some (pool, w')"
  shows "\<exists>factory tx. bf_factory f = Some factory
     \<and> fst w' = fst w @ [Transact (signer_of factory) (contract_name factory) (addr factory) ''newBPool'' [], Rpc ''getTransactionReceipt'' [tx]]
       @ concat (map (\<lambda>(t, b). [Transact (bf_ownerSigner f) (contract_name t) (addr t) ''approve'' [JStr (addr pool), JNum b],
             Transact (bf_ownerSigner f) ''BPool'' (addr pool) ''bind'' [JStr (addr t), JNum b, JNum (ether 5 1)]]) [(t1, b1), (t2, b2)])
       @ [Transact (bf_ownerSigner f) ''BPool'' (addr pool) ''setPublicSwap'' [JBool True]]"
  using assms unfolding bf_createNewPool_def bf_getPoolAddressFromTransaction_def Let_def
  by (elim script_elims bind_someE some_pairE)
     (auto dest!: call_trace rpc_trace simp: connect_def attach_def)

end
