(* ===== verification/LendingFixtures.thy ===== *)
theory LendingFixtures
  imports Deploys DeployExternal DeployMocks CommonUtils PerpV2Utils
begin

section \<open>Fixtures of lending markets, vaults and gauges\<close>

text \<open>
  \<^verbatim>\<open>src/utils/fixtures/compoundFixture.ts\<close>, \<^verbatim>\<open>aaveV2Fixture.ts\<close>, \<^verbatim>\<open>curveFixture.ts\<close> and \<^verbatim>\<open>yearnFixture.ts\<close>.
  The ABI encoder of ethers and the source of random addresses are parameters. A call that the code does
  not await is sent at its place in the program.
\<close>

subsection \<open>compoundFixture.ts\<close>

record CompoundFixture =
  cf_ownerAddress :: string
  cf_unitroller :: "handle option"
  cf_comp :: "handle option"
  cf_compoundTimelock :: "handle option"
  cf_compoundGovernorAlpha :: "handle option"
  cf_compoundGovernorBravoDelegate :: "handle option"
  cf_compoundGovernorBravoDelegator :: "handle option"
  cf_comptroller :: "handle option"
  cf_interestRateModel :: "handle option"
  cf_priceOracle :: "handle option"
  cf_priceOracleProxy :: "handle option"

definition new_CompoundFixture :: "string \<Rightarrow> CompoundFixture" where
  "new_CompoundFixture ownerAddress =
     \<lparr>cf_ownerAddress = ownerAddress, cf_unitroller = None, cf_comp = None, cf_compoundTimelock = None,
      cf_compoundGovernorAlpha = None, cf_compoundGovernorBravoDelegate = None, cf_compoundGovernorBravoDelegator = None,
      cf_comptroller = None, cf_interestRateModel = None, cf_priceOracle = None, cf_priceOracleProxy = None\<rparr>"

definition cf_initialize :: "'w chain \<Rightarrow> CompoundFixture \<Rightarrow> 'w world \<Rightarrow> (CompoundFixture \<times> 'w world) option" where
  "cf_initialize ch f w = do {
     let owner = cf_ownerAddress f;
     (prices, w) \<leftarrow> deployCompoundPriceOracleMock ch owner w;
     let f = f\<lparr>cf_priceOracle := Some prices\<rparr>;
     (proxy, w) \<leftarrow> deployPriceOracleProxy ch owner ADDRESS_ZERO (addr prices) ADDRESS_ZERO ADDRESS_ZERO ADDRESS_ZERO
        ADDRESS_ZERO ADDRESS_ZERO w;
     let f = f\<lparr>cf_priceOracleProxy := Some proxy\<rparr>;
     (unitroller, w) \<leftarrow> deployUnitroller ch owner w;
     let f = f\<lparr>cf_unitroller := Some unitroller\<rparr>;
     (comptroller, w) \<leftarrow> deployComptroller ch owner w;
     let f = f\<lparr>cf_comptroller := Some comptroller\<rparr>;
     (_, w) \<leftarrow> call ch unitroller ''_setPendingImplementation'' [JStr (addr comptroller)] w;
     (_, w) \<leftarrow> call ch comptroller ''_become'' [JStr (addr unitroller), JNum 0, JArr [], JArr []] w;
     (_, w) \<leftarrow> call ch comptroller ''_setPriceOracle'' [JStr (addr prices)] w;
     (_, w) \<leftarrow> call ch comptroller ''_setMaxAssets'' [JNum 10] w;
     (_, w) \<leftarrow> call ch comptroller ''_setCloseFactor'' [JNum (ether 5 10)] w;
     (_, w) \<leftarrow> call ch comptroller ''_setLiquidationIncentive'' [JNum (ether 108 100)] w;
     (model, w) \<leftarrow> deployWhitePaperInterestRateModel ch owner (ether 1 1) (ether 1 1) w;
     let f = f\<lparr>cf_interestRateModel := Some model\<rparr>;
     (comp0, w) \<leftarrow> deployComp ch owner owner w;
     let f = f\<lparr>cf_comp := Some comp0\<rparr>;
     (_, w) \<leftarrow> call ch comp0 ''transfer'' [JStr (addr comptroller), JNum (ether 400000 1)] w;
     (timelock, w) \<leftarrow> deployCompoundTimelock ch owner owner (ONE_DAY_IN_SECONDS * 2) w;
     let f = f\<lparr>cf_compoundTimelock := Some timelock\<rparr>;
     (governor, w) \<leftarrow> deployCompoundGovernorAlpha ch owner (addr timelock) (addr comp0) owner w;
     Some (f\<lparr>cf_compoundGovernorAlpha := Some governor\<rparr>, w)
   }"

text \<open>\<open>encode function arguments\<close> is \<open>interface.encodeFunctionData\<close>.\<close>

definition cf_initializeGovernorBravo ::
  "'w chain \<Rightarrow> (string \<Rightarrow> js list \<Rightarrow> string) \<Rightarrow> CompoundFixture \<Rightarrow> 'w world \<Rightarrow> (CompoundFixture \<times> 'w world) option" where
  "cf_initializeGovernorBravo ch encode f w = do {
     let owner = cf_ownerAddress f;
     (delegate, w) \<leftarrow> deployCompoundGovernorBravoDelegate ch owner w;
     let f = f\<lparr>cf_compoundGovernorBravoDelegate := Some delegate\<rparr>;
     timelock \<leftarrow> cf_compoundTimelock f;
     comp0 \<leftarrow> cf_comp f;
     (delegator, w) \<leftarrow> deployCompoundGovernorBravoDelegator ch owner (addr timelock) (addr comp0) owner (addr delegate)
        10000 1 (ether 100000 1) w;
     let f = f\<lparr>cf_compoundGovernorBravoDelegator := Some delegator\<rparr>;
     let setAdminData = encode ''setPendingAdmin'' [JStr (addr delegator)];
     (now, w) \<leftarrow> getLastBlockTimestamp ch w;
     let eta = now + ONE_DAY_IN_SECONDS * 2 + 1;
     (_, w) \<leftarrow> call ch timelock ''queueTransaction'' [JStr (addr timelock), JNum 0, JStr '''', JStr setAdminData, JNum eta] w;
     (_, w) \<leftarrow> increaseTimeAsync ch (ONE_DAY_IN_SECONDS * 2 + 2) w;
     (_, w) \<leftarrow> call ch timelock ''executeTransaction'' [JStr (addr timelock), JNum 0, JStr '''', JStr setAdminData, JNum eta] w;
     (_, w) \<leftarrow> call ch comp0 ''delegate'' [JStr owner] w;
     governorAlpha \<leftarrow> cf_compoundGovernorAlpha f;
     (_, w) \<leftarrow> call ch (connect governorAlpha owner) ''propose''
        [JArr [JStr ADDRESS_ZERO], JArr [JNum 0], JArr [JStr ''''], JArr [JStr ZERO_BYTES], JStr ''dummy prop''] w;
     let initiateCallData = encode ''_initiate'' [JStr (addr governorAlpha)];
     (_, w) \<leftarrow> call ch delegator ''fallback'' [JObj [(''data'', JStr initiateCallData)]] w;
     Some (f, w)
   }"

text \<open>A default value that reads a field of the fixture throws when the field is unassigned.\<close>

definition cf_createAndEnableCToken ::
  "'w chain \<Rightarrow> CompoundFixture \<Rightarrow> string \<Rightarrow> int \<Rightarrow> string option \<Rightarrow> string option \<Rightarrow> string option \<Rightarrow> string option \<Rightarrow>
   int option \<Rightarrow> int \<Rightarrow> int \<Rightarrow> 'w world \<Rightarrow> (handle \<times> 'w world) option" where
  "cf_createAndEnableCToken ch f underlying initialExchangeRateMantissa comptroller interestRateModel nm smb decimals
     collateralFactor currentPrice w = do {
     c \<leftarrow> (case comptroller of Some c \<Rightarrow> Some c | None \<Rightarrow> map_option addr (cf_unitroller f));
     i \<leftarrow> (case interestRateModel of Some i \<Rightarrow> Some i | None \<Rightarrow> map_option addr (cf_interestRateModel f));
     (newCToken, w) \<leftarrow> deployCeRc20 ch (cf_ownerAddress f) underlying c i initialExchangeRateMantissa
        (default_to ''CToken'' nm) (default_to ''CT'' smb) (default_to 8 decimals) w;
     ctr \<leftarrow> cf_comptroller f;
     (_, w) \<leftarrow> call ch ctr ''_supportMarket'' [JStr (addr newCToken)] w;
     prices \<leftarrow> cf_priceOracle f;
     (_, w) \<leftarrow> call ch prices ''setUnderlyingPrice'' [JStr (addr newCToken), JNum currentPrice] w;
     (_, w) \<leftarrow> call ch ctr ''_setCollateralFactor'' [JStr (addr newCToken), JNum collateralFactor] w;
     Some (newCToken, w)
   }"

definition cf_createAndEnableCEther ::
  "'w chain \<Rightarrow> CompoundFixture \<Rightarrow> int \<Rightarrow> string option \<Rightarrow> string option \<Rightarrow> string option \<Rightarrow> string option \<Rightarrow>
   int option \<Rightarrow> int \<Rightarrow> int \<Rightarrow> 'w world \<Rightarrow> (handle \<times> 'w world) option" where
  "cf_createAndEnableCEther ch f initialExchangeRateMantissa comptroller interestRateModel nm smb decimals
     collateralFactor currentPrice w = do {
     c \<leftarrow> (case comptroller of Some c \<Rightarrow> Some c | None \<Rightarrow> map_option addr (cf_unitroller f));
     i \<leftarrow> (case interestRateModel of Some i \<Rightarrow> Some i | None \<Rightarrow> map_option addr (cf_interestRateModel f));
     (newCToken, w) \<leftarrow> deployCEther ch (cf_ownerAddress f) c i initialExchangeRateMantissa
        (default_to ''CEther'' nm) (default_to ''CETH'' smb) (default_to 8 decimals) w;
     ctr \<leftarrow> cf_comptroller f;
     (_, w) \<leftarrow> call ch ctr ''_supportMarket'' [JStr (addr newCToken)] w;
     prices \<leftarrow> cf_priceOracle f;
     (_, w) \<leftarrow> call ch prices ''setUnderlyingPrice'' [JStr (addr newCToken), JNum currentPrice] w;
     (_, w) \<leftarrow> call ch ctr ''_setCollateralFactor'' [JStr (addr newCToken), JNum collateralFactor] w;
     Some (newCToken, w)
   }"

subsection \<open>curveFixture.ts\<close>

record CurveFixture =
  cu_ownerSigner :: string
  cu_poolToken :: "handle option"
  cu_stableSwap :: "handle option"
  cu_deposit :: "handle option"
  cu_crvToken :: "handle option"
  cu_gaugeController :: "handle option"
  cu_minter :: "handle option"

definition cu_initializePool :: "'w chain \<Rightarrow> CurveFixture \<Rightarrow> string list \<Rightarrow> 'w world \<Rightarrow> (CurveFixture \<times> 'w world) option" where
  "cu_initializePool ch f tokens w = do {
     let sg = cu_ownerSigner f;
     (poolToken, w) \<leftarrow> deployCurvePoolERC20 ch sg ''Curve.fi DAI/USDC/USDT/sUSD'' ''crvUSD'' (Some 18) 0 w;
     let f = f\<lparr>cu_poolToken := Some poolToken\<rparr>;
     (stableSwap, w) \<leftarrow> deployStableswap ch sg tokens tokens (addr poolToken) None None w;
     let f = f\<lparr>cu_stableSwap := Some stableSwap\<rparr>;
     (dep, w) \<leftarrow> deployCurveDeposit ch sg tokens tokens (addr stableSwap) (addr poolToken) w;
     let f = f\<lparr>cu_deposit := Some dep\<rparr>;
     (_, w) \<leftarrow> call ch poolToken ''set_minter'' [JStr (addr stableSwap)] w;
     Some (f, w)
   }"

definition cu_initializeDAO :: "'w chain \<Rightarrow> CurveFixture \<Rightarrow> 'w world \<Rightarrow> (CurveFixture \<times> 'w world) option" where
  "cu_initializeDAO ch f w = do {
     let sg = cu_ownerSigner f;
     (crv, w) \<leftarrow> deployCrvToken ch sg ''Curve DAO Token'' ''CRV'' None w;
     let f = f\<lparr>cu_crvToken := Some crv\<rparr>;
     (gauges, w) \<leftarrow> deployGaugeController ch sg (addr crv) (addr crv) w;
     let f = f\<lparr>cu_gaugeController := Some gauges\<rparr>;
     (_, w) \<leftarrow> call ch gauges ''add_type(string,uint256)'' [JStr ''Liquidity'', JNum (ether 5 10)] w;
     (minter, w) \<leftarrow> deployMinter ch sg (addr crv) (addr gauges) w;
     let f = f\<lparr>cu_minter := Some minter\<rparr>;
     (_, w) \<leftarrow> call ch crv ''set_minter'' [JStr (addr minter)] w;
     Some (f, w)
   }"

definition cu_initializeGauge :: "'w chain \<Rightarrow> CurveFixture \<Rightarrow> string \<Rightarrow> 'w world \<Rightarrow> (handle \<times> 'w world) option" where
  "cu_initializeGauge ch f lpToken w = do {
     minter \<leftarrow> cu_minter f;
     (gauge, w) \<leftarrow> deployLiquidityGauge ch (cu_ownerSigner f) lpToken (addr minter) w;
     gauges \<leftarrow> cu_gaugeController f;
     (_, w) \<leftarrow> call ch gauges ''add_gauge(address,int128,uint256)'' [JStr (addr gauge), JNum 0, JNum (ether 1 1)] w;
     Some (gauge, w)
   }"

definition cu_initializeGaugeRewards ::
  "'w chain \<Rightarrow> CurveFixture \<Rightarrow> string \<Rightarrow> string \<Rightarrow> string \<Rightarrow> 'w world \<Rightarrow> (handle \<times> 'w world) option" where
  "cu_initializeGaugeRewards ch f lpToken rewardContract rewardedToken w = do {
     minter \<leftarrow> cu_minter f;
     (gauge, w) \<leftarrow> deployLiquidityGaugeReward ch (cu_ownerSigner f) lpToken (addr minter) rewardContract rewardedToken w;
     gauges \<leftarrow> cu_gaugeController f;
     (_, w) \<leftarrow> call ch gauges ''add_gauge(address,int128,uint256)'' [JStr (addr gauge), JNum 0, JNum (ether 1 1)] w;
     Some (gauge, w)
   }"

definition cu_getForkedCurveStEthStableswapPool :: "CurveFixture \<Rightarrow> handle option" where
  "cu_getForkedCurveStEthStableswapPool f = getCurveStEthStableswapMock (cu_ownerSigner f)"

definition cu_getForkedWethStethCurveStableswapPool :: "CurveFixture \<Rightarrow> handle option" where
  "cu_getForkedWethStethCurveStableswapPool f = getCurveWethStethStableswapMock (cu_ownerSigner f)"

subsection \<open>yearnFixture.ts\<close>

record YearnFixture =
  yf_ownerAddress :: string
  yf_registry :: "handle option"

definition yf_initialize :: "'w chain \<Rightarrow> YearnFixture \<Rightarrow> 'w world \<Rightarrow> (YearnFixture \<times> 'w world) option" where
  "yf_initialize ch f w = do {
     (registry, w) \<leftarrow> deployRegistry ch (yf_ownerAddress f) w;
     Some (f\<lparr>yf_registry := Some registry\<rparr>, w)
   }"

definition yf_createAndEnableVaultWithStrategyMock ::
  "'w chain \<Rightarrow> YearnFixture \<Rightarrow> string \<Rightarrow> string \<Rightarrow> string \<Rightarrow> string \<Rightarrow> string \<Rightarrow> string \<Rightarrow> int \<Rightarrow> 'w world \<Rightarrow>
   (handle \<times> 'w world) option" where
  "yf_createAndEnableVaultWithStrategyMock ch f underlying governance guardian rewards nm smb depositLimit w = do {
     let owner = yf_ownerAddress f;
     (emptyVault, w) \<leftarrow> deployVault ch owner w;
     (_, w) \<leftarrow> call ch emptyVault ''initialize(address,address,address,string,string,address)''
        [JStr underlying, JStr governance, JStr rewards, JStr nm, JStr smb, JStr guardian] w;
     (_, w) \<leftarrow> call ch emptyVault ''setGovernance'' [JStr owner] w;
     (_, w) \<leftarrow> call ch emptyVault ''acceptGovernance'' [] w;
     registry \<leftarrow> yf_registry f;
     (_, w) \<leftarrow> call ch registry ''newRelease'' [JStr (addr emptyVault)] w;
     (_, w) \<leftarrow> call ch registry ''newVault(address,address,address,string,string)''
        [JStr underlying, JStr guardian, JStr rewards, JStr nm, JStr smb] w;
     (v, w) \<leftarrow> call ch registry ''latestVault'' [JStr underlying] w;
     vaultAddress \<leftarrow> as_str v;
     let vault = getVault owner vaultAddress;
     (_, w) \<leftarrow> call ch vault ''setDepositLimit'' [JNum depositLimit] w;
     (_, w) \<leftarrow> call ch vault ''setManagementFee'' [JNum 0] w;
     (strategy, w) \<leftarrow> deployYearnStrategyMock ch owner (addr vault) w;
     (_, w) \<leftarrow> call ch vault ''addStrategy'' [JStr (addr strategy), JNum 9800, JNum 0, JNum 1000, JNum 0] w;
     (_, w) \<leftarrow> call ch strategy ''setKeeper'' [JStr owner] w;
     (_, w) \<leftarrow> call ch strategy ''setRewards'' [JStr rewards] w;
     Some (vault, w)
   }"

subsection \<open>aaveV2Fixture.ts\<close>

text \<open>\<open>random i\<close> is the address that the \<open>i\<close>-th call of \<open>getRandomAddress\<close> gives.\<close>

record ReserveTokens =
  rt_aToken :: handle
  rt_stableDebtToken :: handle
  rt_variableDebtToken :: handle

record AaveV2Fixture =
  af_owner :: string
  af_wethReserveTokens :: "ReserveTokens option"
  af_daiReserveTokens :: "ReserveTokens option"
  af_genericLogicLibraryAddress :: "string option"
  af_reserveLogicAddress :: "string option"
  af_validationLogicAddress :: "string option"
  af_marketId :: "string option"
  af_lendingPool :: "handle option"
  af_protocolDataProvider :: "handle option"
  af_lendingPoolConfigurator :: "handle option"
  af_lendingPoolCollateralManager :: "handle option"
  af_lendingPoolAddressesProvider :: "handle option"
  af_reserveInterestRateStrategy :: "handle option"
  af_priceOracle :: "handle option"
  af_fallbackOracle :: "handle option"
  af_lendingRateOracle :: "handle option"
  af_treasuryAddress :: "string option"
  af_incentivesControllerAddress :: "string option"
  af_aaveToken :: "handle option"
  af_stkAaveToken :: "handle option"
  af_aaveGovernanceV2 :: "handle option"
  af_executor :: "handle option"
  af_governanceStrategy :: "handle option"

definition af_setAssetPriceInOracle :: "'w chain \<Rightarrow> AaveV2Fixture \<Rightarrow> string \<Rightarrow> int \<Rightarrow> 'w world \<Rightarrow> (unit \<times> 'w world) option" where
  "af_setAssetPriceInOracle ch f asset priceInEth w = do {
     fallback \<leftarrow> af_fallbackOracle f;
     (_, w) \<leftarrow> call ch fallback ''setAssetPrice'' [JStr asset, JNum priceInEth] w;
     Some ((), w)
   }"

definition af_setMarketBorrowRate :: "'w chain \<Rightarrow> AaveV2Fixture \<Rightarrow> string \<Rightarrow> int \<Rightarrow> 'w world \<Rightarrow> (unit \<times> 'w world) option" where
  "af_setMarketBorrowRate ch f asset rate w = do {
     rates \<leftarrow> af_lendingRateOracle f;
     (_, w) \<leftarrow> call ch rates ''setMarketBorrowRate'' [JStr asset, JNum rate] w;
     Some ((), w)
   }"

definition reserve_input ::
  "handle \<Rightarrow> handle \<Rightarrow> handle \<Rightarrow> string \<Rightarrow> string \<Rightarrow> int \<Rightarrow> string \<Rightarrow> string \<Rightarrow> string \<Rightarrow> js" where
  "reserve_input aToken stableDebtToken variableDebtToken underlyingAsset assetSymbol decimals strategy treasury incentives =
     JObj [(''aTokenImpl'', JStr (addr aToken)), (''stableDebtTokenImpl'', JStr (addr stableDebtToken)),
           (''variableDebtTokenImpl'', JStr (addr variableDebtToken)), (''underlyingAssetDecimals'', JNum decimals),
           (''interestRateStrategyAddress'', JStr strategy), (''underlyingAsset'', JStr underlyingAsset),
           (''treasury'', JStr treasury), (''incentivesController'', JStr incentives),
           (''underlyingAssetName'', JStr assetSymbol),
           (''aTokenName'', JStr (''Aave interest bearing '' @ assetSymbol)), (''aTokenSymbol'', JStr (''a'' @ assetSymbol)),
           (''variableDebtTokenName'', JStr (''Aave variable debt bearing '' @ assetSymbol)),
           (''variableDebtTokenSymbol'', JStr (''variableDebt'' @ assetSymbol)),
           (''stableDebtTokenName'', JStr (''Aave stable debt bearing '' @ assetSymbol)),
           (''stableDebtTokenSymbol'', JStr (''stableDebt'' @ assetSymbol)), (''params'', JStr ''0x'')]"

definition af_createAndEnableReserve ::
  "'w chain \<Rightarrow> AaveV2Fixture \<Rightarrow> string \<Rightarrow> string \<Rightarrow> int \<Rightarrow> int \<Rightarrow> int \<Rightarrow> int \<Rightarrow> int \<Rightarrow> bool \<Rightarrow> bool \<Rightarrow> string option \<Rightarrow>
   string option \<Rightarrow> string option \<Rightarrow> 'w world \<Rightarrow> (ReserveTokens \<times> 'w world) option" where
  "af_createAndEnableReserve ch f underlyingAsset assetSymbol decimals baseLTV liquidationThreshold liquidationBonus
     reserveFactor borrowingEnabled stableBorrowingEnabled treasury0 incentives0 strategy0 w = do {
     treasury \<leftarrow> (case treasury0 of Some t \<Rightarrow> Some t | None \<Rightarrow> af_treasuryAddress f);
     incentives \<leftarrow> (case incentives0 of Some i \<Rightarrow> Some i | None \<Rightarrow> af_incentivesControllerAddress f);
     strategy \<leftarrow> (case strategy0 of Some i \<Rightarrow> Some i | None \<Rightarrow> map_option addr (af_reserveInterestRateStrategy f));
     (aToken, w) \<leftarrow> deployAaveV2AToken ch (af_owner f) w;
     (stableDebtToken, w) \<leftarrow> deployAaveV2StableDebtToken ch (af_owner f) w;
     (variableDebtToken, w) \<leftarrow> deployAaveV2VariableDebtToken ch (af_owner f) w;
     configurator \<leftarrow> af_lendingPoolConfigurator f;
     (_, w) \<leftarrow> call ch configurator ''batchInitReserve''
        [JArr [reserve_input aToken stableDebtToken variableDebtToken underlyingAsset assetSymbol decimals strategy treasury incentives]] w;
     (_, w) \<leftarrow> call ch configurator ''configureReserveAsCollateral''
        [JStr underlyingAsset, JNum baseLTV, JNum liquidationThreshold, JNum liquidationBonus] w;
     (_, w) \<leftarrow> (if borrowingEnabled
        then call ch configurator ''enableBorrowingOnReserve'' [JStr underlyingAsset, JBool stableBorrowingEnabled] w
        else Some (JBool False, w));
     (_, w) \<leftarrow> call ch configurator ''setReserveFactor'' [JStr underlyingAsset, JNum reserveFactor] w;
     dataProvider \<leftarrow> af_protocolDataProvider f;
     (v, w) \<leftarrow> call ch dataProvider ''getReserveTokensAddresses'' [JStr underlyingAsset] w;
     proxies \<leftarrow> as_arr v;
     a \<leftarrow> Option.bind (elem_at proxies 0) as_str;
     s \<leftarrow> Option.bind (elem_at proxies 1) as_str;
     d \<leftarrow> Option.bind (elem_at proxies 2) as_str;
     Some (\<lparr>rt_aToken = reattach aToken a, rt_stableDebtToken = reattach stableDebtToken s,
            rt_variableDebtToken = reattach variableDebtToken d\<rparr>, w)
   }"

definition af_initializeGovernance :: "'w chain \<Rightarrow> (nat \<Rightarrow> string) \<Rightarrow> AaveV2Fixture \<Rightarrow> 'w world \<Rightarrow> (AaveV2Fixture \<times> 'w world) option" where
  "af_initializeGovernance ch random f w = do {
     let owner = af_owner f;
     (executor, w) \<leftarrow> deployExecutor ch owner owner 0 0 0 TS_MAX_UINT_256 50 100 50 (ether 100 1) w;
     let f = f\<lparr>af_executor := Some executor\<rparr>;
     (aave, w) \<leftarrow> deployAaveTokenV2Mintable ch owner w;
     let f = f\<lparr>af_aaveToken := Some aave\<rparr>;
     (_, w) \<leftarrow> call ch aave ''mint'' [JStr owner, JNum (ether 100000 1)] w;
     (stkAave, w) \<leftarrow> deployAaveTokenV2Mintable ch owner w;
     let f = f\<lparr>af_stkAaveToken := Some stkAave\<rparr>;
     (_, w) \<leftarrow> call ch stkAave ''mint'' [JStr owner, JNum (ether 100000 1)] w;
     (strategy, w) \<leftarrow> deployGovernanceStrategy ch owner (addr aave) (addr stkAave) w;
     let f = f\<lparr>af_governanceStrategy := Some strategy\<rparr>;
     (governance, w) \<leftarrow> deployAaveGovernanceV2 ch owner (addr strategy) 0 owner [addr executor] w;
     let f = f\<lparr>af_aaveGovernanceV2 := Some governance\<rparr>;
     (_, w) \<leftarrow> call ch (connect aave owner) ''transfer'' [JStr (random 1), JNum 100] w;
     (_, w) \<leftarrow> call ch (connect stkAave owner) ''transfer'' [JStr (random 2), JNum 100] w;
     (_, w) \<leftarrow> deployAaveV2StakedTokenIncentivesController ch owner (addr stkAave) (addr executor) w;
     (incentives, w) \<leftarrow> deployAaveV2StakedTokenIncentivesController ch owner (addr stkAave) (addr executor) w;
     Some (f\<lparr>af_incentivesControllerAddress := Some (addr incentives)\<rparr>, w)
   }"

definition af_initialize ::
  "'w chain \<Rightarrow> (nat \<Rightarrow> string) \<Rightarrow> AaveV2Fixture \<Rightarrow> string \<Rightarrow> string \<Rightarrow> string option \<Rightarrow> int option \<Rightarrow> 'w world \<Rightarrow>
   (AaveV2Fixture \<times> 'w world) option" where
  "af_initialize ch random f weth dai marketId0 daiPriceInEth w = do {
     let owner = af_owner f;
     let marketId = default_to ''Commons'' marketId0;
     let f = f\<lparr>af_marketId := Some marketId\<rparr>;
     (genericLogic, w) \<leftarrow> deployGeneralLogic ch owner w;
     let f = f\<lparr>af_genericLogicLibraryAddress := Some (addr genericLogic)\<rparr>;
     (reserveLogic, w) \<leftarrow> deployReserveLogic ch owner w;
     let f = f\<lparr>af_reserveLogicAddress := Some (addr reserveLogic)\<rparr>;
     (validationLogic, w) \<leftarrow> deployValidationLogic ch owner (addr genericLogic) w;
     let f = f\<lparr>af_validationLogicAddress := Some (addr validationLogic)\<rparr>;
     (configurator, w) \<leftarrow> deployAaveV2LendingPoolConfigurator ch owner w;
     (collateralManager, w) \<leftarrow> deployAaveV2LendingPoolCollateralManager ch owner w;
     let f = f\<lparr>af_lendingPoolCollateralManager := Some collateralManager\<rparr>;
     (pool, w) \<leftarrow> deployAaveV2LendingPool ch owner (addr validationLogic) (addr reserveLogic) w;
     (provider, w) \<leftarrow> deployAaveV2LendingPoolAddressesProvider ch owner marketId w;
     let f = f\<lparr>af_lendingPoolAddressesProvider := Some provider\<rparr>;
     (dataProvider, w) \<leftarrow> deployAaveV2ProtocolDataProvider ch owner (addr provider) w;
     let f = f\<lparr>af_protocolDataProvider := Some dataProvider\<rparr>;
     (strategy, w) \<leftarrow> deployAaveV2DefaultReserveInterestRateStrategy ch owner (addr provider) None None None None None None w;
     let f = f\<lparr>af_reserveInterestRateStrategy := Some strategy\<rparr>;
     (rates, w) \<leftarrow> deployAaveV2LendingRateOracle ch owner w;
     let f = f\<lparr>af_lendingRateOracle := Some rates\<rparr>;
     (fallback, w) \<leftarrow> deployAaveV2PriceOracle ch owner w;
     let f = f\<lparr>af_fallbackOracle := Some fallback\<rparr>;
     (prices, w) \<leftarrow> deployAaveV2Oracle ch owner [] [] (addr fallback) weth w;
     let f = f\<lparr>af_priceOracle := Some prices\<rparr>;
     (_, w) \<leftarrow> call ch provider ''setPriceOracle'' [JStr (addr prices)] w;
     (_, w) \<leftarrow> call ch provider ''setLendingRateOracle'' [JStr (addr rates)] w;
     (_, w) \<leftarrow> call ch provider ''setPoolAdmin'' [JStr owner] w;
     (_, w) \<leftarrow> call ch provider ''setLendingPoolCollateralManager'' [JStr (addr collateralManager)] w;
     (_, w) \<leftarrow> call ch provider ''setAddress''
        [JStr ''0x0100000000000000000000000000000000000000000000000000000000000000'', JStr (addr dataProvider)] w;
     (_, w) \<leftarrow> call ch provider ''setLendingPoolImpl'' [JStr (addr pool)] w;
     (v, w) \<leftarrow> call ch provider ''getLendingPool'' [] w;
     proxyPool \<leftarrow> as_str v;
     let f = f\<lparr>af_lendingPool := Some (reattach pool proxyPool)\<rparr>;
     (_, w) \<leftarrow> call ch provider ''setLendingPoolConfiguratorImpl'' [JStr (addr configurator)] w;
     (v, w) \<leftarrow> call ch provider ''getLendingPoolConfigurator'' [] w;
     proxyConfigurator \<leftarrow> as_str v;
     let f = f\<lparr>af_lendingPoolConfigurator := Some (reattach configurator proxyConfigurator)\<rparr>;
     let f = f\<lparr>af_treasuryAddress := Some (random 0), af_incentivesControllerAddress := Some ADDRESS_ZERO\<rparr>;
     (_, w) \<leftarrow> af_setAssetPriceInOracle ch f dai (default_to (ether 1 1000) daiPriceInEth) w;
     let oneRay = 10 ^ 27;
     (_, w) \<leftarrow> af_setMarketBorrowRate ch f weth (tdiv (oneRay * 3) 100) w;
     (_, w) \<leftarrow> af_setMarketBorrowRate ch f dai (tdiv (oneRay * 39) 1000) w;
     (wethTokens, w) \<leftarrow> af_createAndEnableReserve ch f weth ''WETH'' 18 8000 8250 10500 1000 True True None None None w;
     let f = f\<lparr>af_wethReserveTokens := Some wethTokens\<rparr>;
     (daiTokens, w) \<leftarrow> af_createAndEnableReserve ch f dai ''DAI'' 18 7500 8000 10500 1000 True True None None None w;
     let f = f\<lparr>af_daiReserveTokens := Some daiTokens\<rparr>;
     af_initializeGovernance ch random f w
   }"

definition af_getForkedAaveLendingPoolAddressesProvider :: "AaveV2Fixture \<Rightarrow> handle option" where
  "af_getForkedAaveLendingPoolAddressesProvider f =
     map_option (getForkedAaveLendingPoolAddressesProvider (af_owner f)) (dependency ''AAVE_LENDING_POOL_ADDRESSES_PROVIDER'' 1)"

definition af_getForkedAaveV2ProtocolDataProvider :: "AaveV2Fixture \<Rightarrow> handle option" where
  "af_getForkedAaveV2ProtocolDataProvider f =
     map_option (getForkedAaveV2ProtocolDataProvider (af_owner f)) (dependency ''AAVE_PROTOCOL_DATA_PROVIDER'' 1)"

subsection \<open>The Compound timelock is respected\<close>

lemma cf_initialize_timelock:
  assumes "cf_initialize ch (new_CompoundFixture owner) w0 = Some (f, w1)"
  shows "\<exists>timelock. cf_compoundTimelock f = Some timelock \<and> contract_name timelock = ''CompoundTimelock''
     \<and> signer_of timelock = owner \<and> cf_ownerAddress f = owner
     \<and> Deploy owner ''CompoundTimelock'' [] [JStr owner, JNum (ONE_DAY_IN_SECONDS * 2)] \<in> set (fst w1)"
  using assms
  unfolding cf_initialize_def Let_def deployCompoundTimelock_def deployCompoundGovernorAlpha_def new_CompoundFixture_def
  by (elim script_elims bind_someE some_pairE) (auto dest!: deploy_handle)

lemmas bravo_deploys = deployCompoundGovernorBravoDelegate_def deployCompoundGovernorBravoDelegator_def

text \<open>The steps of a successful run, in order.\<close>

lemma cf_bravoE [consumes 1, case_names steps]:
  assumes "cf_initializeGovernorBravo ch encode f w = Some (g, w')"
  obtains delegate wa delegator wb now wc q wd u wf x wg y wh p wi z and comp0 governorAlpha timelock :: handle
  where "deployCompoundGovernorBravoDelegate ch (cf_ownerAddress f) w = Some (delegate, wa)"
    "deployCompoundGovernorBravoDelegator ch (cf_ownerAddress f) (addr timelock) (addr comp0) (cf_ownerAddress f)
       (addr delegate) 10000 1 (ether 100000 1) wa = Some (delegator, wb)"
    "getLastBlockTimestamp ch wb = Some (now, wc)"
    "call ch timelock ''queueTransaction'' [JStr (addr timelock), JNum 0, JStr [],
       JStr (encode ''setPendingAdmin'' [JStr (addr delegator)]), JNum (now + ONE_DAY_IN_SECONDS * 2 + 1)] wc = Some (q, wd)"
    "increaseTimeAsync ch (ONE_DAY_IN_SECONDS * 2 + 2) wd = Some (u, wf)"
    "call ch timelock ''executeTransaction'' [JStr (addr timelock), JNum 0, JStr [],
       JStr (encode ''setPendingAdmin'' [JStr (addr delegator)]), JNum (now + ONE_DAY_IN_SECONDS * 2 + 1)] wf = Some (x, wg)"
    "call ch comp0 ''delegate'' [JStr (cf_ownerAddress f)] wg = Some (y, wh)"
    "call ch (connect governorAlpha (cf_ownerAddress f)) ''propose''
       [JArr [JStr ADDRESS_ZERO], JArr [JNum 0], JArr [JStr []], JArr [JStr ZERO_BYTES], JStr ''dummy prop''] wh = Some (p, wi)"
    "call ch delegator ''fallback'' [JObj [(''data'', JStr (encode ''_initiate'' [JStr (addr governorAlpha)]))]] wi = Some (z, w')"
    "cf_compoundTimelock f = Some timelock" "cf_comp f = Some comp0" "cf_compoundGovernorAlpha f = Some governorAlpha"
    "cf_compoundTimelock g = Some timelock"
  using assms unfolding cf_initializeGovernorBravo_def Let_def
  by (elim script_elims bind_someE some_pairE) (hypsubst+, rule that, (assumption | simp)+)

text \<open>
  Handing the Compound timelock to Governor Bravo. The fixture queues the call that changes the
  admin with an execution time later than now by more than the delay the timelock was deployed with,
  moves the clock past that time, and executes exactly the queued call, in this order.
\<close>

lemma bravo_respects_timelock:
  assumes "cf_initialize ch (new_CompoundFixture owner) w0 = Some (f, w1)"
    and "cf_initializeGovernorBravo ch encode f w2 = Some (g, w3)"
  shows "\<exists>timelock delay now eta args moved t1 t2.
     cf_compoundTimelock g = Some timelock
   \<and> Deploy owner ''CompoundTimelock'' [] [JStr owner, JNum delay] \<in> set (fst w1)
   \<and> fst w3 = fst w2 @ t1 @ [Rpc ''getBlock'' [JStr ''latest''],
          Transact owner ''CompoundTimelock'' (addr timelock) ''queueTransaction'' (args @ [JNum eta]),
          Rpc ''evm_increaseTime'' [JNum moved], Rpc ''evm_mine'' [],
          Transact owner ''CompoundTimelock'' (addr timelock) ''executeTransaction'' (args @ [JNum eta])] @ t2
   \<and> (\<exists>s b s'. ch (Rpc ''getBlock'' [JStr ''latest'']) s = Some (b, s') \<and> field ''timestamp'' b = Some (JNum now))
   \<and> now + delay < eta \<and> eta < now + moved"
proof -
  obtain timelock where tl: "cf_compoundTimelock f = Some timelock" "contract_name timelock = ''CompoundTimelock''"
      "signer_of timelock = owner" "Deploy owner ''CompoundTimelock'' [] [JStr owner, JNum (ONE_DAY_IN_SECONDS * 2)] \<in> set (fst w1)"
    using cf_initialize_timelock [OF assms(1)] by blast
  from assms(2) show ?thesis
  proof (cases rule: cf_bravoE)
    case (steps delegate wa delegator wb now wc q wd u wf x wg y wh p wi z comp0 governorAlpha tlk)
    have tlk: "tlk = timelock" using steps(10) tl(1) by simp
    obtain b s s' where b: "ch (Rpc ''getBlock'' [JStr ''latest'']) s = Some (b, s')" "field ''timestamp'' b = Some (JNum now)"
      and wc: "fst wc = fst wb @ [Rpc ''getBlock'' [JStr ''latest'']]"
      using steps(3) by (auto simp: getLastBlockTimestamp_def script_simps)
    have wf: "fst wf = fst wd @ [Rpc ''evm_increaseTime'' [JNum (ONE_DAY_IN_SECONDS * 2 + 2)], Rpc ''evm_mine'' []]"
      using steps(5) by (auto simp: increaseTimeAsync_def mineBlockAsync_def script_simps split: if_splits)
    let ?args = "[JStr (addr timelock), JNum 0, JStr [], JStr (encode ''setPendingAdmin'' [JStr (addr delegator)])]"
    let ?eta = "now + ONE_DAY_IN_SECONDS * 2 + 1"
    note trace = steps(1,2) [unfolded bravo_deploys, THEN deploy_handle] steps(4,6,7,8,9) [THEN call_trace] wc wf
    have "\<exists>t1 t2. fst w3 = fst w2 @ t1 @ [Rpc ''getBlock'' [JStr ''latest''],
          Transact owner ''CompoundTimelock'' (addr timelock) ''queueTransaction'' (?args @ [JNum ?eta]),
          Rpc ''evm_increaseTime'' [JNum (ONE_DAY_IN_SECONDS * 2 + 2)], Rpc ''evm_mine'' [],
          Transact owner ''CompoundTimelock'' (addr timelock) ''executeTransaction'' (?args @ [JNum ?eta])] @ t2"
      using trace tl tlk by (intro exI [of _ "drop (length (fst w2)) (fst wb)"] exI [of _ "drop (length (fst wg)) (fst w3)"]) simp
    then show ?thesis using tl(4) b steps(13) tlk
      by (intro exI [of _ timelock] exI [of _ "ONE_DAY_IN_SECONDS * 2"] exI [of _ now] exI [of _ ?eta] exI [of _ ?args]
          exI [of _ "ONE_DAY_IN_SECONDS * 2 + 2"]) auto
  qed
qed

text \<open>A node whose clock stands at 1000.\<close>

definition clock_node :: "nat chain" where
  "clock_node = table_chain (\<lambda>r. case r of Rpc m _ \<Rightarrow> if m = ''getBlock'' then JObj [(''timestamp'', JNum 1000)] else JBool True
     | _ \<Rightarrow> JBool True)"

lemma bravo_respects_timelock_example:
  "\<exists>f w1 g w3 timelock. cf_initialize clock_node (new_CompoundFixture ''o'') ([], 0) = Some (f, w1)
     \<and> cf_initializeGovernorBravo clock_node (\<lambda>m _. m) f w1 = Some (g, w3) \<and> cf_compoundTimelock g = Some timelock"
proof -
  let ?r1 = "cf_initialize clock_node (new_CompoundFixture ''o'') ([], 0)"
  have "Option.bind ?r1 (\<lambda>(f, w). cf_initializeGovernorBravo clock_node (\<lambda>m _. m) f w) \<noteq> None" by code_simp
  then obtain f w1 g w3 where run: "?r1 = Some (f, w1)" "cf_initializeGovernorBravo clock_node (\<lambda>m _. m) f w1 = Some (g, w3)"
    by (auto simp: bind_eq_Some_conv)
  from bravo_respects_timelock [OF this] run show ?thesis by blast
qed

end
