(* ===== verification/PerpV2Fixture.thy ===== *)
theory PerpV2Fixture
  imports Deploys DeployExternal DeployMocks CommonUtils PerpV2Utils ExchangeFixtures
begin

section \<open>The fixture of Perpetual Protocol V2\<close>

text \<open>
  \<^verbatim>\<open>src/utils/fixtures/perpV2Fixture.ts\<close>. Fields are options as in \<open>SystemFixture\<close>; \<open>_priceFeeds\<close> and
  \<open>_pools\<close> are objects keyed by address. \<open>encodeSqrtRatioX96\<close> comes from the Uniswap SDK and is a
  parameter. The search for a token whose address sorts before another may not end: \<open>token0_loop\<close> is a
  partial function whose value \<open>None\<close> also stands for a loop that runs forever.
\<close>

record PerpV2Fixture =
  pf_ownerAddress :: string
  pf_feeTier :: int
  pf_usdcDecimals :: "int option"
  pf_priceFeeds :: "(string \<times> handle) list"
  pf_pools :: "(string \<times> handle) list"
  pf_maker :: "Account option"
  pf_otherTrader :: "Account option"
  pf_usdc :: "handle option"
  pf_clearingHouse :: "handle option"
  pf_orderBook :: "handle option"
  pf_accountBalance :: "handle option"
  pf_marketRegistry :: "handle option"
  pf_clearingHouseConfig :: "handle option"
  pf_quoter :: "handle option"
  pf_exchange :: "handle option"
  pf_vault :: "handle option"
  pf_insuranceFund :: "handle option"
  pf_uniV3Factory :: "handle option"
  pf_vETHPool :: "handle option"
  pf_vBTCPool :: "handle option"
  pf_vETH :: "handle option"
  pf_vBTC :: "handle option"
  pf_ethPriceFeed :: "handle option"
  pf_btcPriceFeed :: "handle option"
  pf_vQuote :: "handle option"
  pf_feeTierPercent :: int

definition new_PerpV2Fixture :: "string \<Rightarrow> PerpV2Fixture" where
  "new_PerpV2Fixture ownerAddress =
     \<lparr>pf_ownerAddress = ownerAddress, pf_feeTier = 10000, pf_usdcDecimals = None, pf_priceFeeds = [], pf_pools = [],
      pf_maker = None, pf_otherTrader = None, pf_usdc = None, pf_clearingHouse = None, pf_orderBook = None,
      pf_accountBalance = None, pf_marketRegistry = None, pf_clearingHouseConfig = None, pf_quoter = None,
      pf_exchange = None, pf_vault = None, pf_insuranceFund = None, pf_uniV3Factory = None, pf_vETHPool = None,
      pf_vBTCPool = None, pf_vETH = None, pf_vBTC = None, pf_ethPriceFeed = None, pf_btcPriceFeed = None,
      pf_vQuote = None, pf_feeTierPercent = ether 1 100\<rparr>"

subsection \<open>Virtual tokens\<close>

definition isAscendingTokenOrder :: "string \<Rightarrow> string \<Rightarrow> bool" where
  "isAscendingTokenOrder addr0 addr1 = js_string_lt (js_toLowerCase addr0) (js_toLowerCase addr1)"

definition pf_createQuoteTokenFixture ::
  "'w chain \<Rightarrow> string \<Rightarrow> string \<Rightarrow> string \<Rightarrow> 'w world \<Rightarrow> (handle \<times> 'w world) option" where
  "pf_createQuoteTokenFixture ch owner nm smb w = do {
     (quoteToken, w) \<leftarrow> deployPerpV2QuoteToken ch owner w;
     (_, w) \<leftarrow> call ch quoteToken ''initialize'' [JStr nm, JStr smb] w;
     Some (quoteToken, w)
   }"

text \<open>The result is the base token and its mock aggregator.\<close>

definition pf_createBaseTokenFixture ::
  "'w chain \<Rightarrow> string \<Rightarrow> string \<Rightarrow> string \<Rightarrow> 'w world \<Rightarrow> ((handle \<times> handle) \<times> 'w world) option" where
  "pf_createBaseTokenFixture ch owner nm smb w = do {
     (mockAggregator, w) \<leftarrow> deployChainlinkAggregatorMock ch owner 6 w;
     (chainlinkPriceFeed, w) \<leftarrow> deployPerpV2ChainlinkPriceFeed ch owner w;
     (_, w) \<leftarrow> call ch chainlinkPriceFeed ''initialize'' [JStr (addr mockAggregator)] w;
     (baseToken, w) \<leftarrow> deployPerpV2BaseToken ch owner w;
     (_, w) \<leftarrow> call ch baseToken ''initialize'' [JStr nm, JStr smb, JStr (addr chainlinkPriceFeed)] w;
     Some ((baseToken, mockAggregator), w)
   }"

record TokensFixture =
  tf_token0 :: handle
  tf_token1 :: handle
  tf_mockAggregator0 :: handle
  tf_mockAggregator1 :: handle

definition pf_tokensFixture :: "'w chain \<Rightarrow> string \<Rightarrow> 'w world \<Rightarrow> (TokensFixture \<times> 'w world) option" where
  "pf_tokensFixture ch owner w = do {
     ((randomToken0, randomMockAggregator0), w) \<leftarrow> pf_createBaseTokenFixture ch owner ''RandomTestToken0'' ''randomToken0'' w;
     ((randomToken1, randomMockAggregator1), w) \<leftarrow> pf_createBaseTokenFixture ch owner ''RandomTestToken1'' ''randomToken1'' w;
     Some (if isAscendingTokenOrder (addr randomToken0) (addr randomToken1)
           then \<lparr>tf_token0 = randomToken0, tf_token1 = randomToken1,
                 tf_mockAggregator0 = randomMockAggregator0, tf_mockAggregator1 = randomMockAggregator1\<rparr>
           else \<lparr>tf_token0 = randomToken1, tf_token1 = randomToken0,
                 tf_mockAggregator0 = randomMockAggregator1, tf_mockAggregator1 = randomMockAggregator0\<rparr>, w)
   }"

partial_function (option) token0_loop ::
  "'w chain \<Rightarrow> string \<Rightarrow> string \<Rightarrow> (handle \<times> handle) option \<Rightarrow> 'w world \<Rightarrow> ((handle \<times> handle) \<times> 'w world) option" where
  "token0_loop ch owner token1Addr token0Fixture w =
     (case token0Fixture of
        Some (t, g) \<Rightarrow>
          if isAscendingTokenOrder (addr t) token1Addr then Some ((t, g), w)
          else Option.bind (pf_createBaseTokenFixture ch owner ''RandomTestToken0'' ''randomToken0'' w)
                 (\<lambda>(x, w). token0_loop ch owner token1Addr (Some x) w)
      | None \<Rightarrow> Option.bind (pf_createBaseTokenFixture ch owner ''RandomTestToken0'' ''randomToken0'' w)
                 (\<lambda>(x, w). token0_loop ch owner token1Addr (Some x) w))"

definition pf_token0Fixture :: "'w chain \<Rightarrow> string \<Rightarrow> string \<Rightarrow> 'w world \<Rightarrow> ((handle \<times> handle) \<times> 'w world) option" where
  "pf_token0Fixture ch owner token1Addr w = token0_loop ch owner token1Addr None w"

subsection \<open>Deploying the exchange\<close>

text \<open>\<open>utils.parseUnits(amount, decimals)\<close> of an integral amount.\<close>

definition parseUnits :: "int \<Rightarrow> int \<Rightarrow> int option" where
  "parseUnits amount decimals = (if 0 \<le> decimals \<and> decimals \<le> 256 then Some (amount * 10 ^ nat decimals) else None)"

definition ONE_MILLION :: int where
  "ONE_MILLION = 1000000"

definition pf_deposit :: "'w chain \<Rightarrow> PerpV2Fixture \<Rightarrow> Account \<Rightarrow> int \<Rightarrow> handle \<Rightarrow> 'w world \<Rightarrow> (unit \<times> 'w world) option" where
  "pf_deposit ch f sender amount token w = do {
     (v, w) \<leftarrow> call ch token ''decimals'' [] w;
     decimals \<leftarrow> as_num v;
     parsedAmount \<leftarrow> parseUnits amount decimals;
     vault \<leftarrow> pf_vault f;
     (_, w) \<leftarrow> call ch (connect token (acc_wallet sender)) ''approve'' [JStr (addr vault), JNum parsedAmount] w;
     (_, w) \<leftarrow> call ch (connect vault (acc_wallet sender)) ''deposit'' [JStr (addr token), JNum parsedAmount] w;
     Some ((), w)
   }"

text \<open>
  \<open>initialize\<close> is one method in the code; here it is cut at its comments into the deployment of the
  contracts, the pools, the clearing house and the collateral, which \<open>pf_initialize\<close> runs in sequence.
\<close>

definition pf_deployContracts :: "'w chain \<Rightarrow> PerpV2Fixture \<Rightarrow> 'w world \<Rightarrow> (PerpV2Fixture \<times> 'w world) option" where
  "pf_deployContracts ch f w = do {
     let owner = pf_ownerAddress f;
     (usdc, w) \<leftarrow> deployTokenMock ch owner owner (Some (ether 100000000000000 1)) (Some 6) None None w;
     let f = f\<lparr>pf_usdc := Some usdc, pf_usdcDecimals := Some 6\<rparr>;
     (tokens, w) \<leftarrow> pf_tokensFixture ch owner w;
     let vETH = tf_token0 tokens;
     let vQuote = tf_token1 tokens;
     ((vBTC, btcPriceFeed), w) \<leftarrow> pf_token0Fixture ch owner (addr vQuote) w;
     let f = f\<lparr>pf_vETH := Some vETH, pf_vBTC := Some vBTC, pf_vQuote := Some vQuote,
               pf_ethPriceFeed := Some (tf_mockAggregator0 tokens), pf_btcPriceFeed := Some btcPriceFeed,
               pf_priceFeeds := map_set (addr vBTC) btcPriceFeed
                 (map_set (addr vETH) (tf_mockAggregator0 tokens) (pf_priceFeeds f))\<rparr>;
     (factory, w) \<leftarrow> deployUniswapV3Factory ch owner w;
     let f = f\<lparr>pf_uniV3Factory := Some factory\<rparr>;
     (config, w) \<leftarrow> deployPerpV2ClearingHouseConfig ch owner w;
     let f = f\<lparr>pf_clearingHouseConfig := Some config\<rparr>;
     (_, w) \<leftarrow> call ch config ''initialize'' [] w;
     (_, w) \<leftarrow> call ch factory ''createPool'' [JStr (addr vETH), JStr (addr vQuote), JNum (pf_feeTier f)] w;
     (_, w) \<leftarrow> call ch factory ''createPool'' [JStr (addr vBTC), JStr (addr vQuote), JNum (pf_feeTier f)] w;
     (registry, w) \<leftarrow> deployPerpV2MarketRegistry ch owner w;
     let f = f\<lparr>pf_marketRegistry := Some registry\<rparr>;
     (_, w) \<leftarrow> call ch registry ''initialize'' [JStr (addr factory), JStr (addr vQuote)] w;
     (orderBook, w) \<leftarrow> deployPerpV2OrderBook ch owner w;
     let f = f\<lparr>pf_orderBook := Some orderBook\<rparr>;
     (_, w) \<leftarrow> call ch orderBook ''initialize'' [JStr (addr registry)] w;
     (fund, w) \<leftarrow> deployPerpV2InsuranceFund ch owner w;
     let f = f\<lparr>pf_insuranceFund := Some fund\<rparr>;
     (_, w) \<leftarrow> call ch fund ''initialize'' [JStr (addr usdc)] w;
     (balance, w) \<leftarrow> deployPerpV2AccountBalance ch owner w;
     let f = f\<lparr>pf_accountBalance := Some balance\<rparr>;
     (exchange, w) \<leftarrow> deployPerpV2Exchange ch owner w;
     let f = f\<lparr>pf_exchange := Some exchange\<rparr>;
     (_, w) \<leftarrow> call ch exchange ''initialize'' [JStr (addr registry), JStr (addr orderBook), JStr (addr config)] w;
     (_, w) \<leftarrow> call ch exchange ''setAccountBalance'' [JStr (addr balance)] w;
     (_, w) \<leftarrow> call ch orderBook ''setExchange'' [JStr (addr exchange)] w;
     (_, w) \<leftarrow> call ch balance ''initialize'' [JStr (addr config), JStr (addr orderBook)] w;
     (vault, w) \<leftarrow> deployPerpV2Vault ch owner w;
     let f = f\<lparr>pf_vault := Some vault\<rparr>;
     (_, w) \<leftarrow> call ch vault ''initialize'' [JStr (addr fund), JStr (addr config), JStr (addr balance), JStr (addr exchange)] w;
     (_, w) \<leftarrow> call ch fund ''setBorrower'' [JStr (addr vault)] w;
     (_, w) \<leftarrow> call ch balance ''setVault'' [JStr (addr vault)] w;
     Some (f, w)
   }"

definition pf_whitelistPools :: "'w chain \<Rightarrow> PerpV2Fixture \<Rightarrow> 'w world \<Rightarrow> (PerpV2Fixture \<times> 'w world) option" where
  "pf_whitelistPools ch f w = do {
     let owner = pf_ownerAddress f;
     factory \<leftarrow> pf_uniV3Factory f;
     vETH \<leftarrow> pf_vETH f;
     vBTC \<leftarrow> pf_vBTC f;
     vQuote \<leftarrow> pf_vQuote f;
     (v, w) \<leftarrow> call ch factory ''getPool'' [JStr (addr vETH), JStr (addr vQuote), JNum (pf_feeTier f)] w;
     poolAddrA \<leftarrow> as_str v;
     (v, w) \<leftarrow> call ch factory ''getPool'' [JStr (addr vBTC), JStr (addr vQuote), JNum (pf_feeTier f)] w;
     poolAddrB \<leftarrow> as_str v;
     let vETHPool = getUniswapV3PoolInstance owner poolAddrA;
     let vBTCPool = getUniswapV3PoolInstance owner poolAddrB;
     let f = f\<lparr>pf_vETHPool := Some vETHPool, pf_vBTCPool := Some vBTCPool,
               pf_pools := map_set (addr vBTC) vBTCPool (map_set (addr vETH) vETHPool (pf_pools f))\<rparr>;
     (_, w) \<leftarrow> call ch vETH ''addWhitelist'' [JStr poolAddrA] w;
     (_, w) \<leftarrow> call ch vBTC ''addWhitelist'' [JStr poolAddrB] w;
     (_, w) \<leftarrow> call ch vQuote ''addWhitelist'' [JStr poolAddrA] w;
     (_, w) \<leftarrow> call ch vQuote ''addWhitelist'' [JStr poolAddrB] w;
     Some (f, w)
   }"

definition pf_deployClearingHouse :: "'w chain \<Rightarrow> PerpV2Fixture \<Rightarrow> 'w world \<Rightarrow> (PerpV2Fixture \<times> 'w world) option" where
  "pf_deployClearingHouse ch f w = do {
     let owner = pf_ownerAddress f;
     config \<leftarrow> pf_clearingHouseConfig f;
     vault \<leftarrow> pf_vault f;
     vQuote \<leftarrow> pf_vQuote f;
     vETH \<leftarrow> pf_vETH f;
     vBTC \<leftarrow> pf_vBTC f;
     factory \<leftarrow> pf_uniV3Factory f;
     exchange \<leftarrow> pf_exchange f;
     balance \<leftarrow> pf_accountBalance f;
     fund \<leftarrow> pf_insuranceFund f;
     registry \<leftarrow> pf_marketRegistry f;
     orderBook \<leftarrow> pf_orderBook f;
     (house, w) \<leftarrow> deployPerpV2ClearingHouse ch owner w;
     let f = f\<lparr>pf_clearingHouse := Some house\<rparr>;
     (_, w) \<leftarrow> call ch house ''initialize''
        [JStr (addr config), JStr (addr vault), JStr (addr vQuote), JStr (addr factory), JStr (addr exchange),
         JStr (addr balance), JStr (addr fund)] w;
     (_, w) \<leftarrow> call ch config ''setSettlementTokenBalanceCap'' [JNum TS_MAX_UINT_256] w;
     (quoter, w) \<leftarrow> deployPerpV2Quoter ch owner (addr registry) w;
     let f = f\<lparr>pf_quoter := Some quoter\<rparr>;
     (_, w) \<leftarrow> call ch vQuote ''mintMaximumTo'' [JStr (addr house)] w;
     (_, w) \<leftarrow> call ch vETH ''mintMaximumTo'' [JStr (addr house)] w;
     (_, w) \<leftarrow> call ch vBTC ''mintMaximumTo'' [JStr (addr house)] w;
     (_, w) \<leftarrow> call ch vQuote ''addWhitelist'' [JStr (addr house)] w;
     (_, w) \<leftarrow> call ch vETH ''addWhitelist'' [JStr (addr house)] w;
     (_, w) \<leftarrow> call ch vBTC ''addWhitelist'' [JStr (addr house)] w;
     (_, w) \<leftarrow> call ch registry ''setClearingHouse'' [JStr (addr house)] w;
     (_, w) \<leftarrow> call ch orderBook ''setClearingHouse'' [JStr (addr house)] w;
     (_, w) \<leftarrow> call ch exchange ''setClearingHouse'' [JStr (addr house)] w;
     (_, w) \<leftarrow> call ch balance ''setClearingHouse'' [JStr (addr house)] w;
     (_, w) \<leftarrow> call ch vault ''setClearingHouse'' [JStr (addr house)] w;
     Some (f, w)
   }"

definition pf_depositCollateral :: "'w chain \<Rightarrow> PerpV2Fixture \<Rightarrow> Account \<Rightarrow> 'w world \<Rightarrow> (unit \<times> 'w world) option" where
  "pf_depositCollateral ch f account w = do {
     decimals \<leftarrow> pf_usdcDecimals f;
     collateralAmount \<leftarrow> parseUnits ONE_MILLION decimals;
     usdc \<leftarrow> pf_usdc f;
     (_, w) \<leftarrow> call ch usdc ''mint'' [JStr (acc_address account), JNum collateralAmount] w;
     pf_deposit ch f account ONE_MILLION usdc w
   }"

definition pf_initialize ::
  "'w chain \<Rightarrow> PerpV2Fixture \<Rightarrow> Account \<Rightarrow> Account \<Rightarrow> 'w world \<Rightarrow> (PerpV2Fixture \<times> 'w world) option" where
  "pf_initialize ch f maker otherTrader w = do {
     let f = f\<lparr>pf_maker := Some maker, pf_otherTrader := Some otherTrader\<rparr>;
     (f, w) \<leftarrow> pf_deployContracts ch f w;
     (f, w) \<leftarrow> pf_whitelistPools ch f w;
     (f, w) \<leftarrow> pf_deployClearingHouse ch f w;
     (_, w) \<leftarrow> pf_depositCollateral ch f maker w;
     (_, w) \<leftarrow> pf_depositCollateral ch f otherTrader w;
     Some (f, w)
   }"

subsection \<open>Liquidity, prices and quotes\<close>

unbundle bit_operations_syntax

text \<open>In JavaScript \<open>2 ^ 16\<close> is exclusive or.\<close>

definition observation_cardinality :: int where
  "observation_cardinality = (2 XOR 16) - 1"

text \<open>Division by a zero tick spacing gives \<open>NaN\<close>, which no contract call accepts.\<close>

definition getMinTick :: "int \<Rightarrow> int option" where
  "getMinTick tickSpacing = (if tickSpacing = 0 then None else Some (- (887272 div tickSpacing) * tickSpacing))"

definition getMaxTick :: "int \<Rightarrow> int option" where
  "getMaxTick tickSpacing = (if tickSpacing = 0 then None else Some (887272 div tickSpacing * tickSpacing))"

definition encodePriceSqrt :: "(int \<Rightarrow> int \<Rightarrow> int) \<Rightarrow> int \<Rightarrow> int \<Rightarrow> int" where
  "encodePriceSqrt encodeSqrtRatioX96 token1Amount token0Amount = encodeSqrtRatioX96 token1Amount token0Amount"

definition pf_initializePoolWithLiquidityWithinTicks ::
  "'w chain \<Rightarrow> (int \<Rightarrow> int \<Rightarrow> int) \<Rightarrow> PerpV2Fixture \<Rightarrow> handle \<Rightarrow> int \<Rightarrow> int \<Rightarrow> int \<Rightarrow> int \<Rightarrow> 'w world \<Rightarrow> (unit \<times> 'w world) option" where
  "pf_initializePoolWithLiquidityWithinTicks ch encodeSqrtRatioX96 f baseToken baseTokenAmount quoteTokenAmount lowerTick upperTick w = do {
     pool \<leftarrow> map_of (pf_pools f) (addr baseToken);
     (_, w) \<leftarrow> call ch pool ''initialize'' [JNum (encodePriceSqrt encodeSqrtRatioX96 quoteTokenAmount baseTokenAmount)] w;
     (_, w) \<leftarrow> call ch pool ''increaseObservationCardinalityNext'' [JNum observation_cardinality] w;
     registry \<leftarrow> pf_marketRegistry f;
     (_, w) \<leftarrow> call ch registry ''addPool'' [JStr (addr baseToken), JNum (pf_feeTier f)] w;
     (_, w) \<leftarrow> call ch registry ''setFeeRatio'' [JStr (addr baseToken), JNum (pf_feeTier f)] w;
     house \<leftarrow> pf_clearingHouse f;
     maker \<leftarrow> pf_maker f;
     (_, w) \<leftarrow> call ch (connect house (acc_wallet maker)) ''addLiquidity''
        [JObj [(''baseToken'', JStr (addr baseToken)), (''base'', JNum baseTokenAmount), (''quote'', JNum quoteTokenAmount),
               (''lowerTick'', JNum lowerTick), (''upperTick'', JNum upperTick), (''minBase'', JNum 0), (''minQuote'', JNum 0),
               (''useTakerBalance'', JBool False), (''deadline'', JNum TS_MAX_UINT_256)]] w;
     Some ((), w)
   }"

definition pf_initializePoolWithLiquidityWide ::
  "'w chain \<Rightarrow> (int \<Rightarrow> int \<Rightarrow> int) \<Rightarrow> PerpV2Fixture \<Rightarrow> handle \<Rightarrow> int \<Rightarrow> int \<Rightarrow> 'w world \<Rightarrow> (unit \<times> 'w world) option" where
  "pf_initializePoolWithLiquidityWide ch encodeSqrtRatioX96 f baseToken baseTokenAmount quoteTokenAmount w = do {
     pool \<leftarrow> map_of (pf_pools f) (addr baseToken);
     (_, w) \<leftarrow> call ch pool ''initialize'' [JNum (encodePriceSqrt encodeSqrtRatioX96 quoteTokenAmount baseTokenAmount)] w;
     (_, w) \<leftarrow> call ch pool ''increaseObservationCardinalityNext'' [JNum observation_cardinality] w;
     (v, w) \<leftarrow> call ch pool ''tickSpacing'' [] w;
     tickSpacing \<leftarrow> as_num v;
     lowerTick \<leftarrow> getMinTick tickSpacing;
     upperTick \<leftarrow> getMaxTick tickSpacing;
     registry \<leftarrow> pf_marketRegistry f;
     (_, w) \<leftarrow> call ch registry ''addPool'' [JStr (addr baseToken), JNum (pf_feeTier f)] w;
     (_, w) \<leftarrow> call ch registry ''setFeeRatio'' [JStr (addr baseToken), JNum (pf_feeTier f)] w;
     house \<leftarrow> pf_clearingHouse f;
     maker \<leftarrow> pf_maker f;
     (_, w) \<leftarrow> call ch (connect house (acc_wallet maker)) ''addLiquidity''
        [JObj [(''baseToken'', JStr (addr baseToken)), (''base'', JNum baseTokenAmount), (''quote'', JNum quoteTokenAmount),
               (''lowerTick'', JNum lowerTick), (''upperTick'', JNum upperTick), (''minBase'', JNum 0), (''minQuote'', JNum 0),
               (''useTakerBalance'', JBool False), (''deadline'', JNum TS_MAX_UINT_256)]] w;
     Some ((), w)
   }"

definition pf_setBaseTokenOraclePrice :: "'w chain \<Rightarrow> PerpV2Fixture \<Rightarrow> handle \<Rightarrow> int \<Rightarrow> 'w world \<Rightarrow> (unit \<times> 'w world) option" where
  "pf_setBaseTokenOraclePrice ch f baseToken price w = do {
     feed \<leftarrow> map_of (pf_priceFeeds f) (addr baseToken);
     (_, w) \<leftarrow> call ch feed ''setRoundData'' [JNum 0, JNum price, JNum 0, JNum 0, JNum 0] w;
     Some ((), w)
   }"

definition getPriceFromSqrtPriceX96 :: "int \<Rightarrow> int" where
  "getPriceFromSqrtPriceX96 sqrtPriceX96 = tdiv (sqrtPriceX96 * sqrtPriceX96 * 10 ^ 18) (2 ^ 192)"

definition pf_getSpotPrice :: "'w chain \<Rightarrow> PerpV2Fixture \<Rightarrow> string \<Rightarrow> 'w world \<Rightarrow> (int \<times> 'w world) option" where
  "pf_getSpotPrice ch f baseToken w = do {
     pool \<leftarrow> map_of (pf_pools f) baseToken;
     (v, w) \<leftarrow> call ch pool ''slot0'' [] w;
     s \<leftarrow> field ''sqrtPriceX96'' v;
     sqrtPriceX96 \<leftarrow> as_num s;
     Some (getPriceFromSqrtPriceX96 sqrtPriceX96, w)
   }"

definition pf_getSwapQuote :: "'w chain \<Rightarrow> PerpV2Fixture \<Rightarrow> string \<Rightarrow> int \<Rightarrow> bool \<Rightarrow> 'w world \<Rightarrow> ((int \<times> int) \<times> 'w world) option" where
  "pf_getSwapQuote ch f baseToken baseQuantity isBuy w = do {
     house \<leftarrow> pf_clearingHouse f;
     trader \<leftarrow> pf_otherTrader f;
     (v, w) \<leftarrow> call ch (connect house (acc_wallet trader)) ''callStatic.openPosition''
        [JObj [(''baseToken'', JStr baseToken), (''isBaseToQuote'', JBool (\<not> isBuy)), (''isExactInput'', JBool (\<not> isBuy)),
               (''amount'', JNum baseQuantity), (''oppositeAmountBound'', JNum 0), (''deadline'', JNum TS_MAX_UINT_256),
               (''sqrtPriceLimitX96'', JNum 0), (''referralCode'', JStr ZERO_BYTES)]] w;
     b \<leftarrow> field ''base'' v;
     deltaBase \<leftarrow> as_num b;
     q \<leftarrow> field ''quote'' v;
     deltaQuote \<leftarrow> as_num q;
     Some ((deltaBase, deltaQuote), w)
   }"

text \<open>A thrown division by zero is \<open>None\<close>.\<close>

definition currentLeverage :: "int \<Rightarrow> int \<Rightarrow> int \<Rightarrow> int \<Rightarrow> int result" where
  "currentLeverage price base0 quote0 collateral0 =
     rbind (preciseMul base0 price) (\<lambda>basePositionNetValue.
     preciseDiv \<bar>basePositionNetValue\<bar> (basePositionNetValue + quote0 + collateral0))"

definition pf_getCurrentLeverage ::
  "'w chain \<Rightarrow> PerpV2Fixture \<Rightarrow> string \<Rightarrow> int \<Rightarrow> int \<Rightarrow> int \<Rightarrow> 'w world \<Rightarrow> (int \<times> 'w world) option" where
  "pf_getCurrentLeverage ch f baseToken base0 quote0 collateral0 w = do {
     (price, w) \<leftarrow> pf_getSpotPrice ch f baseToken w;
     leverage \<leftarrow> (case currentLeverage price base0 quote0 collateral0 of Inl _ \<Rightarrow> None | Inr r \<Rightarrow> Some r);
     Some (leverage, w)
   }"

definition pf_getVTokenInstance :: "PerpV2Fixture \<Rightarrow> string \<Rightarrow> handle" where
  "pf_getVTokenInstance f token = getVToken (pf_ownerAddress f) token"

subsection \<open>The search for a base token\<close>

lemma token0_loop_ascending:
  assumes "token0_loop ch owner t1 x w = Some y"
  shows "isAscendingTokenOrder (addr (fst (fst y))) t1"
proof (rule token0_loop.raw_induct [where P = "\<lambda>_ _ t1 _ _ y. isAscendingTokenOrder (addr (fst (fst y))) t1"])
  show "token0_loop ch owner t1 x w = Some y" by (rule assms)
qed (fastforce simp: bind_eq_Some_conv split: option.splits prod.splits if_splits)

text \<open>The token of the \<open>n\<close>-th attempt and the world after it.\<close>

fun attempt :: "'w chain \<Rightarrow> string \<Rightarrow> nat \<Rightarrow> 'w world \<Rightarrow> ((handle \<times> handle) \<times> 'w world) option" where
  "attempt ch owner 0 w = pf_createBaseTokenFixture ch owner ''RandomTestToken0'' ''randomToken0'' w"
| "attempt ch owner (Suc n) w = do {
     (_, w) \<leftarrow> pf_createBaseTokenFixture ch owner ''RandomTestToken0'' ''randomToken0'' w;
     attempt ch owner n w
   }"

lemma token0_loop_returns:
  assumes "attempt ch owner n w = Some ((t, g), w')" "isAscendingTokenOrder (addr t) t1"
    and "\<And>y h. x = Some (y, h) \<Longrightarrow> \<not> isAscendingTokenOrder (addr y) t1"
  shows "\<exists>r. token0_loop ch owner t1 x w = Some r"
  using assms(1,3)
proof (induction n arbitrary: x w)
  case 0
  have "token0_loop ch owner t1 x w = token0_loop ch owner t1 (Some (t, g)) w'"
    using 0 by (subst token0_loop.simps) (auto split: option.splits)
  also have "\<dots> = Some ((t, g), w')" using assms(2) by (subst token0_loop.simps) simp
  finally show ?case by blast
next
  case (Suc n)
  then obtain y h w1 where step: "pf_createBaseTokenFixture ch owner ''RandomTestToken0'' ''randomToken0'' w = Some ((y, h), w1)"
    and rest: "attempt ch owner n w1 = Some ((t, g), w')" by (auto simp: bind_eq_Some_conv)
  have eq: "token0_loop ch owner t1 x w = token0_loop ch owner t1 (Some (y, h)) w1"
    using Suc.prems(2) step by (subst token0_loop.simps) (auto split: option.splits)
  show ?case
  proof (cases "isAscendingTokenOrder (addr y) t1")
    case True
    then show ?thesis using eq by (subst (asm) (2) token0_loop.simps) simp
  next
    case False
    then show ?thesis using Suc.IH [OF rest, of "Some (y, h)"] eq by auto
  qed
qed

text \<open>
  The search for a base token returns as soon as some attempt gives a token whose address sorts before
  the quote token, and what it returns sorts before the quote token.
\<close>

lemma token0_search_returns:
  assumes "attempt ch owner n w = Some ((t, g), w')" "isAscendingTokenOrder (addr t) t1"
  shows "\<exists>t' g' w''. pf_token0Fixture ch owner t1 w = Some ((t', g'), w'') \<and> isAscendingTokenOrder (addr t') t1"
proof -
  obtain t' g' w'' where r: "pf_token0Fixture ch owner t1 w = Some ((t', g'), w'')"
    using token0_loop_returns [OF assms, of None] unfolding pf_token0Fixture_def by auto
  then show ?thesis using token0_loop_ascending [of ch owner t1 None w "((t', g'), w'')"] unfolding pf_token0Fixture_def by simp
qed

lemma token0_search_returns_example:
  "\<exists>t g w. pf_token0Fixture (table_chain (\<lambda>_. JBool True)) ''o'' ''0x11112'' ([], 0) = Some ((t, g), w)
     \<and> isAscendingTokenOrder (addr t) ''0x11112''"
proof -
  let ?ch = "table_chain (\<lambda>_. JBool True)"
  have "attempt ?ch ''o'' 0 ([], 0) \<noteq> None
      \<and> isAscendingTokenOrder (addr (fst (fst (the (attempt ?ch ''o'' 0 ([], 0)))))) ''0x11112''" by code_simp
  then obtain t g w' where "attempt ?ch ''o'' 0 ([], 0) = Some ((t, g), w')" "isAscendingTokenOrder (addr t) ''0x11112''"
    by auto
  then show ?thesis by (rule token0_search_returns)
qed

subsection \<open>Base tokens sort before the quote token\<close>

lemmas base_token_deploys = deployChainlinkAggregatorMock_def deployPerpV2ChainlinkPriceFeed_def deployPerpV2BaseToken_def

lemma createBaseToken_known:
  assumes "fresh_addresses ch used" "known used hs w" "pf_createBaseTokenFixture ch owner nm smb w = Some ((b, m), w')"
  shows "known used (b # hs) w'"
proof -
  from assms(3) obtain w1 feed w2 u w3 w4 u' where
    d: "deploy ch owner ''ChainlinkAggregatorMock'' [] [JNum 6] w = Some (m, w1)"
    "deploy ch owner ''PerpV2ChainlinkPriceFeed'' [] [] w1 = Some (feed, w2)"
    "call ch feed ''initialize'' [JStr (addr m)] w2 = Some (u, w3)"
    "deploy ch owner ''PerpV2BaseToken'' [] [] w3 = Some (b, w4)"
    "call ch b ''initialize'' [JStr nm, JStr smb, JStr (addr feed)] w4 = Some (u', w')"
    unfolding pf_createBaseTokenFixture_def base_token_deploys
    by (elim script_elims some_pairE prod.inject [THEN iffD1, elim_format] conjE) (hypsubst+, rule that, assumption+)
  have "known used hs w3"
    by (rule known_keep [OF assms(1)] d assms(2))+
  then have "known used (b # hs) w4" by (rule known_deploy [OF assms(1) _ d(4)])
  then show ?thesis by (rule known_call [OF assms(1) _ d(5)])
qed

lemma tokensFixture_ascending:
  assumes "fresh_addresses ch used" "\<And>s. inj_on js_toLowerCase (used s)" "pf_tokensFixture ch owner w = Some (t, w')"
  shows "isAscendingTokenOrder (addr (tf_token0 t)) (addr (tf_token1 t))"
proof -
  from assms(3) obtain t0 a0 w1 t1 a1 where steps:
    "pf_createBaseTokenFixture ch owner ''RandomTestToken0'' ''randomToken0'' w = Some ((t0, a0), w1)"
    "pf_createBaseTokenFixture ch owner ''RandomTestToken1'' ''randomToken1'' w1 = Some ((t1, a1), w')"
    and t: "{(tf_token0 t, tf_token1 t)} = (if isAscendingTokenOrder (addr t0) (addr t1) then {(t0, t1)} else {(t1, t0)})"
    unfolding pf_tokensFixture_def by (auto simp: bind_eq_Some_conv)
  have "known used [t1, t0] w'"
    using createBaseToken_known [OF assms(1) createBaseToken_known [OF assms(1) known_Nil steps(1)] steps(2)] .
  then have "js_toLowerCase (addr t0) \<noteq> js_toLowerCase (addr t1)"
    using assms(2) [of "snd w'"] by (auto simp: known_def inj_on_def)
  then show ?thesis using t js_string_lt_total by (fastforce simp: isAscendingTokenOrder_def split: if_splits)
qed

lemma deployContracts_ascending:
  assumes "fresh_addresses ch used" "\<And>s. inj_on js_toLowerCase (used s)" "pf_deployContracts ch f w = Some (f', w')"
  shows "\<exists>vETH vBTC vQuote. pf_vETH f' = Some vETH \<and> pf_vBTC f' = Some vBTC \<and> pf_vQuote f' = Some vQuote
     \<and> isAscendingTokenOrder (addr vETH) (addr vQuote) \<and> isAscendingTokenOrder (addr vBTC) (addr vQuote)"
proof -
  from assms(3) obtain w1 tokens w2 vBTC feed w3 where steps:
    "pf_tokensFixture ch (pf_ownerAddress f) w1 = Some (tokens, w2)"
    "pf_token0Fixture ch (pf_ownerAddress f) (addr (tf_token1 tokens)) w2 = Some ((vBTC, feed), w3)"
    "pf_vETH f' = Some (tf_token0 tokens)" "pf_vBTC f' = Some vBTC" "pf_vQuote f' = Some (tf_token1 tokens)"
    unfolding pf_deployContracts_def Let_def
    by (elim bind_step2E script_elims bind_someE some_pairE) (hypsubst+, rule that, assumption+, simp_all)
  have "isAscendingTokenOrder (addr (tf_token0 tokens)) (addr (tf_token1 tokens))"
    by (rule tokensFixture_ascending [OF assms(1,2) steps(1)])
  moreover have "isAscendingTokenOrder (addr vBTC) (addr (tf_token1 tokens))"
    using token0_loop_ascending [OF steps(2) [unfolded pf_token0Fixture_def]] by simp
  ultimately show ?thesis using steps(3-5) by blast
qed

lemma later_steps_keep_tokens:
  "pf_whitelistPools ch f w = Some (f', w') \<Longrightarrow> pf_vETH f' = pf_vETH f \<and> pf_vBTC f' = pf_vBTC f \<and> pf_vQuote f' = pf_vQuote f"
  "pf_deployClearingHouse ch f w = Some (f', w') \<Longrightarrow> pf_vETH f' = pf_vETH f \<and> pf_vBTC f' = pf_vBTC f \<and> pf_vQuote f' = pf_vQuote f"
  unfolding pf_whitelistPools_def pf_deployClearingHouse_def Let_def
  by (elim script_elims bind_someE some_pairE, hypsubst, simp)+

text \<open>
  The fixture assumes that in both Uniswap pools the virtual base token is \<open>token0\<close> and the quote token
  \<open>token1\<close>. When \<open>initialize\<close> returns this holds: on a node that gives fresh addresses, different also
  without regard to case, vETH and vBTC both sort before vQuote.
\<close>

lemma perp_base_before_quote:
  assumes "fresh_addresses ch used" "\<And>s. inj_on js_toLowerCase (used s)"
    and "pf_initialize ch (new_PerpV2Fixture owner) maker trader w = Some (f, w')"
  shows "\<exists>vETH vBTC vQuote. pf_vETH f = Some vETH \<and> pf_vBTC f = Some vBTC \<and> pf_vQuote f = Some vQuote
     \<and> isAscendingTokenOrder (addr vETH) (addr vQuote) \<and> isAscendingTokenOrder (addr vBTC) (addr vQuote)"
proof -
  from assms(3) obtain f0 f1 w1 f2 w2 w3 where "pf_deployContracts ch f0 w = Some (f1, w1)"
    "pf_whitelistPools ch f1 w1 = Some (f2, w2)" "pf_deployClearingHouse ch f2 w2 = Some (f, w3)"
    unfolding pf_initialize_def Let_def by (elim script_elims bind_someE some_pairE) (hypsubst+, rule that, assumption+)
  then show ?thesis using deployContracts_ascending [OF assms(1,2)] later_steps_keep_tokens by metis
qed

text \<open>A node whose next address always sorts before the earlier ones.\<close>

definition descending_address :: "nat \<Rightarrow> string" where
  "descending_address n = CHR ''0'' # CHR ''x'' # replicate (40 - n) CHR ''1''"

definition descending_node :: "nat chain" where
  "descending_node r n = (case r of
       Deploy _ _ _ _ \<Rightarrow> if n < 40 then Some (JStr (descending_address n), Suc n) else None
     | Transact _ _ _ m _ \<Rightarrow> Some (if m = ''getPool'' then JStr ''0xp'' else JNum 6, n)
     | _ \<Rightarrow> Some (JBool True, n))"

lemma descending_address_length: "length (descending_address n) = 42 - n \<or> 40 \<le> n"
  by (auto simp: descending_address_def)

lemma descending_node_fresh: "fresh_addresses descending_node (\<lambda>n. descending_address ` {..<min n 40})"
proof -
  have "x < s \<Longrightarrow> s < 40 \<Longrightarrow> descending_address s \<noteq> descending_address x" for x s
    using descending_address_length [of x] descending_address_length [of s] by auto
  moreover have "descending_address n \<noteq> ADDRESS_ZERO" if "n < 40" for n
    using that by (cases "40 - n") (auto simp: descending_address_def ADDRESS_ZERO_def)
  ultimately show ?thesis
    by (auto simp: fresh_addresses_def descending_node_def split: request.splits if_splits)
qed

lemma js_toLowerCase_length: "length (js_toLowerCase s) = length s"
  by (simp add: js_toLowerCase_def)

lemma descending_inj: "inj_on js_toLowerCase (descending_address ` {..<min n 40})"
proof (rule inj_onI, elim imageE)
  fix a b k l
  assume "js_toLowerCase a = js_toLowerCase b" "a = descending_address k" "b = descending_address l"
    and kl: "k \<in> {..<min n 40}" "l \<in> {..<min n 40}"
  then have "length (descending_address k) = length (descending_address l)"
    using js_toLowerCase_length by metis
  then have "k = l" using kl descending_address_length [of k] descending_address_length [of l] by auto
  then show "a = b" using \<open>a = _\<close> \<open>b = _\<close> by simp
qed

declare token0_loop.simps [code]

lemma perp_base_before_quote_example:
  "\<exists>f w vETH vBTC vQuote. pf_initialize descending_node (new_PerpV2Fixture ''o'') \<lparr>acc_address = ''m'', acc_wallet = ''m''\<rparr>
       \<lparr>acc_address = ''t'', acc_wallet = ''t''\<rparr> ([], 0) = Some (f, w)
     \<and> pf_vETH f = Some vETH \<and> pf_vBTC f = Some vBTC \<and> pf_vQuote f = Some vQuote
     \<and> isAscendingTokenOrder (addr vETH) (addr vQuote) \<and> isAscendingTokenOrder (addr vBTC) (addr vQuote)"
proof -
  let ?run = "pf_initialize descending_node (new_PerpV2Fixture ''o'') \<lparr>acc_address = ''m'', acc_wallet = ''m''\<rparr>
       \<lparr>acc_address = ''t'', acc_wallet = ''t''\<rparr> ([], 0)"
  have "?run \<noteq> None" by code_simp
  then obtain f w where run: "?run = Some (f, w)" by auto
  from perp_base_before_quote [OF descending_node_fresh descending_inj run] run show ?thesis by blast
qed

end
