(* ===== verification/SystemFixtureDeploys.thy ===== *)
theory SystemFixtureDeploys
  imports SystemFixture ExchangeFixtures
begin

section \<open>The fixtures that deploy to a live or forked network\<close>

text \<open>
  \<^verbatim>\<open>src/utils/fixtures/systemFixtureDeploy.ts\<close> and \<^verbatim>\<open>systemFixtureDeployReduced.ts\<close>, which share their
  fields and most of \<open>initialize\<close>. \<open>hre_signer\<close> is the first signer of the hardhat environment, which
  deploys the price adapter; \<open>date_now\<close> is \<open>Date.now()\<close> in milliseconds. Console output is left out.
\<close>

record SystemFixtureDeploy =
  sd_ownerAddress :: string
  sd_controller :: "handle option"
  sd_factory :: "handle option"
  sd_priceOracle :: "handle option"
  sd_integrationRegistry :: "handle option"
  sd_setValuer :: "handle option"
  sd_issuanceModule :: "handle option"
  sd_navIssuanceModule :: "handle option"
  sd_uniswapFactoryAddress :: "string option"
  sd_uniswapRouterAddress :: "string option"
  sd_uniswapNonFungiblePositionManagerAddress :: "string option"
  sd_weth :: "handle option"
  sd_components :: "handle list"
  sd_poolAddresses :: "string list"
  sd_uniswapPriceAdapter :: "handle option"

definition new_SystemFixtureDeploy :: "string \<Rightarrow> SystemFixtureDeploy" where
  "new_SystemFixtureDeploy ownerAddress =
     \<lparr>sd_ownerAddress = ownerAddress, sd_controller = None, sd_factory = None, sd_priceOracle = None,
      sd_integrationRegistry = None, sd_setValuer = None, sd_issuanceModule = None, sd_navIssuanceModule = None,
      sd_uniswapFactoryAddress = None, sd_uniswapRouterAddress = None, sd_uniswapNonFungiblePositionManagerAddress = None,
      sd_weth = None, sd_components = [], sd_poolAddresses = [], sd_uniswapPriceAdapter = None\<rparr>"

definition UNISWAP_V3_FACTORY :: string where
  "UNISWAP_V3_FACTORY = ''0x1F98431c8aD98523631AE4a59f267346ea31F984''"

definition UNISWAP_V3_ROUTER :: string where
  "UNISWAP_V3_ROUTER = ''0x68b3465833fb72A70ecDF485E0e4C7bD8665Fc45''"

definition UNISWAP_V3_POSITION_MANAGER :: string where
  "UNISWAP_V3_POSITION_MANAGER = ''0xC36442b4a4522E871399CD717aBDD847Ab11FE88''"

subsection \<open>systemFixtureDeploy.ts\<close>

definition componentData :: "(string \<times> int) list" where
  "componentData = [
     (''0xfa7f8980b0f1e64a2062791cc3b0871572f1f7f0'', 3000),
     (''0x9623063377ad1b27544c965ccd7342f7ea7e88c7'', 3000),
     (''0x13ad51ed4f1b7e9dc168d8a00cb3f4ddd85efa60'', 3000),
     (''0x0c880f6761f1af8d9aa9c466984b80dab9a8c9e8'', 3000),
     (''0x912ce59144191c1204e64559fe8253a0e49e6548'', 500),
     (''0xfc5a1a6eb076a2c7ad06ed22c90d7e710e35ad0a'', 10000),
     (''0x371c7ec6d8039ff7933a2aa28eb827ffe1f52f07'', 10000),
     (''0x18c11fd286c5ec11c3b683caa813b77f5163a122'', 3000),
     (''0x3082cc23568ea640225c2467653db90e9250aaa0'', 3000),
     (''0x4e352cf164e64adcbad318c3a1e222e9eba4ce42'', 10000),
     (''0x7dd747d63b094971e6638313a6a2685e80c7fb2e'', 3000),
     (''0x0341c0c0ec423328621788d4854119b97f44e391'', 10000),
     (''0x58b9cb810a68a7f3e1e4f8cb45d1b9b3c79705e8'', 10000),
     (''0xf1264873436a0771e440e2b28072fafcc5eebd01'', 100)]"

text \<open>The loop over the indices of the components.\<close>

fun sd_pools_loop :: "'w chain \<Rightarrow> handle \<Rightarrow> nat list \<Rightarrow> SystemFixtureDeploy \<Rightarrow> 'w world \<Rightarrow> (SystemFixtureDeploy \<times> 'w world) option" where
  "sd_pools_loop ch factoryContract [] f w = Some (f, w)"
| "sd_pools_loop ch factoryContract (i # is) f w = do {
     component \<leftarrow> elem_at (sd_components f) i;
     issuance \<leftarrow> sd_issuanceModule f;
     (_, w) \<leftarrow> call ch component ''approve'' [JStr (addr issuance), JNum (ether 10000 1)] w;
     d \<leftarrow> elem_at componentData i;
     weth \<leftarrow> sd_weth f;
     (v, w) \<leftarrow> call ch factoryContract ''getPool'' [JStr (fst d), JStr (addr weth), JNum (snd d)] w;
     poolAddress \<leftarrow> as_str v;
     sd_pools_loop ch factoryContract is (f\<lparr>sd_poolAddresses := sd_poolAddresses f @ [poolAddress]\<rparr>) w
   }"

definition sd_initializeStandardComponents ::
  "'w chain \<Rightarrow> SystemFixtureDeploy \<Rightarrow> 'w world \<Rightarrow> (SystemFixtureDeploy \<times> 'w world) option" where
  "sd_initializeStandardComponents ch f w = do {
     let owner = sd_ownerAddress f;
     let weth = attach owner ''ERC20'' ''0x82aF49447D8a07e3bd95BD0d56f35241523fBab1'';
     let f = f\<lparr>sd_weth := Some weth\<rparr>;
     issuance \<leftarrow> sd_issuanceModule f;
     (_, w) \<leftarrow> call ch weth ''approve'' [JStr (addr issuance), JNum (ether 10000 1)] w;
     let f = f\<lparr>sd_components := map (\<lambda>d. attach owner ''ERC20'' (fst d)) componentData,
               sd_uniswapFactoryAddress := Some UNISWAP_V3_FACTORY, sd_uniswapRouterAddress := Some UNISWAP_V3_ROUTER,
               sd_uniswapNonFungiblePositionManagerAddress := Some UNISWAP_V3_POSITION_MANAGER\<rparr>;
     let factoryContract = attach owner ''UniswapV3Factory'' UNISWAP_V3_FACTORY;
     sd_pools_loop ch factoryContract [0..<10] f w
   }"

text \<open>The part of \<open>initialize\<close> after the standard components, the same in both classes.\<close>

definition sd_deploySystem ::
  "'w chain \<Rightarrow> string \<Rightarrow> handle \<Rightarrow> handle \<Rightarrow> SystemFixtureDeploy \<Rightarrow> 'w world \<Rightarrow> (SystemFixtureDeploy \<times> 'w world) option" where
  "sd_deploySystem ch hre_signer ctl issuance f w = do {
     let owner = sd_ownerAddress f;
     (factory, w) \<leftarrow> deploySetTokenCreator ch owner (addr ctl) w;
     let f = f\<lparr>sd_factory := Some factory\<rparr>;
     (adapter, w) \<leftarrow> deploy ch hre_signer ''UniswapV3PairPriceAdapter'' [] [JArr (map JStr (sd_poolAddresses f))] w;
     let f = f\<lparr>sd_uniswapPriceAdapter := Some adapter\<rparr>;
     (_, w) \<leftarrow> rpc ch ''deployed'' [JStr (addr adapter)] w;
     weth \<leftarrow> sd_weth f;
     (prices, w) \<leftarrow> deployPriceOracle ch owner (addr ctl) (addr weth) [addr adapter] [] [] [] w;
     let f = f\<lparr>sd_priceOracle := Some prices\<rparr>;
     (registry, w) \<leftarrow> deployIntegrationRegistry ch owner (addr ctl) w;
     let f = f\<lparr>sd_integrationRegistry := Some registry\<rparr>;
     (valuer, w) \<leftarrow> deploySetValuer ch owner (addr ctl) w;
     let f = f\<lparr>sd_setValuer := Some valuer\<rparr>;
     (nav, w) \<leftarrow> deployCustomOracleNavIssuanceModule ch owner (addr ctl) (addr weth) w;
     let f = f\<lparr>sd_navIssuanceModule := Some nav\<rparr>;
     (_, w) \<leftarrow> call ch weth ''approve'' [JStr (addr nav), JNum TS_MAX_UINT_256] w;
     (_, w) \<leftarrow> call ch ctl ''initialize''
        [JArr [JStr (addr factory)], JArr [JStr (addr issuance), JStr (addr nav)],
         JArr [JStr (addr registry), JStr (addr prices), JStr (addr valuer)], JArr [JNum 0, JNum 1, JNum 2]] w;
     Some (f, w)
   }"

definition sd_initialize :: "'w chain \<Rightarrow> string \<Rightarrow> SystemFixtureDeploy \<Rightarrow> 'w world \<Rightarrow> (SystemFixtureDeploy \<times> 'w world) option" where
  "sd_initialize ch hre_signer f w = do {
     let owner = sd_ownerAddress f;
     (ctl, w) \<leftarrow> deployController ch owner owner w;
     let f = f\<lparr>sd_controller := Some ctl\<rparr>;
     (issuance, w) \<leftarrow> deployBasicIssuanceModule ch owner (addr ctl) w;
     let f = f\<lparr>sd_issuanceModule := Some issuance\<rparr>;
     (f, w) \<leftarrow> sd_initializeStandardComponents ch f w;
     sd_deploySystem ch hre_signer ctl issuance f w
   }"

definition sd_createSetToken ::
  "'w chain \<Rightarrow> (string \<Rightarrow> string) \<Rightarrow> (string \<Rightarrow> js \<Rightarrow> js option) \<Rightarrow> SystemFixtureDeploy \<Rightarrow> string list \<Rightarrow> int list \<Rightarrow>
   string list \<Rightarrow> string option \<Rightarrow> string option \<Rightarrow> string option \<Rightarrow> 'w world \<Rightarrow> (handle \<times> 'w world) option" where
  "sd_createSetToken ch event_id parseLog f components units modules manager nm smb w = do {
     factory \<leftarrow> sd_factory f;
     (tx, w) \<leftarrow> call ch factory ''create''
        [JArr (map JStr components), JArr (map JNum units), JArr (map JStr modules),
         JStr (default_to (sd_ownerAddress f) manager), JStr (default_to ''SetToken'' nm), JStr (default_to ''SET'' smb)] w;
     (a, w) \<leftarrow> getCreatedSetTokenAddress ch event_id parseLog (Option.bind (field ''hash'' tx) as_str) w;
     Some (attach (sd_ownerAddress f) ''SetToken'' a, w)
   }"

subsection \<open>systemFixtureDeployReduced.ts\<close>

text \<open>The tokens are ordered by address before anything is sent.\<close>

definition sr_createUniswapPoolAndAddLiquidity ::
  "'w chain \<Rightarrow> int \<Rightarrow> string \<Rightarrow> string \<Rightarrow> string \<Rightarrow> string \<Rightarrow> string \<Rightarrow> 'w world \<Rightarrow> (string \<times> 'w world) option" where
  "sr_createUniswapPoolAndAddLiquidity ch date_now signer factoryAddress routerAddress token_A token_B w = do {
     let (tokenA, tokenB) =
       (if js_string_lt (js_toLowerCase token_B) (js_toLowerCase token_A) then (token_B, token_A) else (token_A, token_B));
     let factoryContract = attach signer ''UniswapV3Factory'' factoryAddress;
     (approve1, w) \<leftarrow> call ch (attach signer ''ERC20'' tokenA) ''approve'' [JStr routerAddress, JNum (ether 10000 1)] w;
     (approve2, w) \<leftarrow> call ch (attach signer ''ERC20'' tokenB) ''approve'' [JStr routerAddress, JNum (ether 10000 1)] w;
     (_, w) \<leftarrow> rpc ch ''wait'' [approve1] w;
     (_, w) \<leftarrow> rpc ch ''wait'' [approve2] w;
     let router = attach signer ''NonfungiblePositionManager'' routerAddress;
     (tx2, w) \<leftarrow> call ch router ''createAndInitializePoolIfNecessary''
        [JStr tokenA, JStr tokenB, JNum 500, JNum 79228162514264337593543950336] w;
     (_, w) \<leftarrow> rpc ch ''wait'' [tx2] w;
     (tx, w) \<leftarrow> call ch router ''mint''
        [JObj [(''token0'', JStr tokenA), (''token1'', JStr tokenB), (''fee'', JNum 500),
               (''tickLower'', JNum (- 60)), (''tickUpper'', JNum 60),
               (''amount0Desired'', JNum (ether 1000 1)), (''amount1Desired'', JNum (ether 1000 1)),
               (''amount0Min'', JNum (ether 800 1)), (''amount1Min'', JNum (ether 800 1)),
               (''recipient'', JStr signer), (''deadline'', JNum (date_now div 1000 + 86400000))],
         JObj [(''gasLimit'', JNum 2000000), (''value'', JNum (ether 0 1))]] w;
     (_, w) \<leftarrow> rpc ch ''wait'' [tx] w;
     (v, w) \<leftarrow> call ch factoryContract ''getPool'' [JStr tokenA, JStr tokenB, JNum 500] w;
     poolAddress \<leftarrow> as_str v;
     Some (poolAddress, w)
   }"

fun sr_tokens_loop :: "'w chain \<Rightarrow> nat list \<Rightarrow> SystemFixtureDeploy \<Rightarrow> 'w world \<Rightarrow> (SystemFixtureDeploy \<times> 'w world) option" where
  "sr_tokens_loop ch [] f w = Some (f, w)"
| "sr_tokens_loop ch (i # is) f w = do {
     (token, w) \<leftarrow> deployTokenMock ch (sd_ownerAddress f) (sd_ownerAddress f) (Some (ether 10000 1)) (Some 18)
        (Some (''token'' @ nat_toString i)) (Some (''TOKEN'' @ nat_toString i)) w;
     issuance \<leftarrow> sd_issuanceModule f;
     (_, w) \<leftarrow> call ch token ''approve'' [JStr (addr issuance), JNum (ether 10000 1)] w;
     sr_tokens_loop ch is (f\<lparr>sd_components := sd_components f @ [token]\<rparr>) w
   }"

fun sr_pools_loop :: "'w chain \<Rightarrow> int \<Rightarrow> nat list \<Rightarrow> SystemFixtureDeploy \<Rightarrow> 'w world \<Rightarrow> (SystemFixtureDeploy \<times> 'w world) option" where
  "sr_pools_loop ch date_now [] f w = Some (f, w)"
| "sr_pools_loop ch date_now (i # is) f w = do {
     component \<leftarrow> elem_at (sd_components f) i;
     weth \<leftarrow> sd_weth f;
     (poolAddress, w) \<leftarrow> sr_createUniswapPoolAndAddLiquidity ch date_now (sd_ownerAddress f) UNISWAP_V3_FACTORY
        UNISWAP_V3_POSITION_MANAGER (addr component) (addr weth) w;
     sr_pools_loop ch date_now is (f\<lparr>sd_poolAddresses := sd_poolAddresses f @ [poolAddress]\<rparr>) w
   }"

definition sr_initializeStandardComponents ::
  "'w chain \<Rightarrow> int \<Rightarrow> SystemFixtureDeploy \<Rightarrow> 'w world \<Rightarrow> (SystemFixtureDeploy \<times> 'w world) option" where
  "sr_initializeStandardComponents ch date_now f w = do {
     let owner = sd_ownerAddress f;
     (f, w) \<leftarrow> sr_tokens_loop ch [0..<1] f w;
     (weth, w) \<leftarrow> deployTokenMock ch owner owner (Some (ether 50000 1)) (Some 18) (Some ''weth'') (Some ''WETH'') w;
     let f = f\<lparr>sd_weth := Some weth\<rparr>;
     issuance \<leftarrow> sd_issuanceModule f;
     (_, w) \<leftarrow> call ch weth ''approve'' [JStr (addr issuance), JNum (ether 10000 1)] w;
     let f = f\<lparr>sd_uniswapFactoryAddress := Some UNISWAP_V3_FACTORY, sd_uniswapRouterAddress := Some UNISWAP_V3_ROUTER,
               sd_uniswapNonFungiblePositionManagerAddress := Some UNISWAP_V3_POSITION_MANAGER\<rparr>;
     sr_pools_loop ch date_now [0..<1] f w
   }"

definition sr_initialize :: "'w chain \<Rightarrow> string \<Rightarrow> int \<Rightarrow> SystemFixtureDeploy \<Rightarrow> 'w world \<Rightarrow> (SystemFixtureDeploy \<times> 'w world) option" where
  "sr_initialize ch hre_signer date_now f w = do {
     let owner = sd_ownerAddress f;
     (ctl, w) \<leftarrow> deployController ch owner owner w;
     let f = f\<lparr>sd_controller := Some ctl\<rparr>;
     (issuance, w) \<leftarrow> deployBasicIssuanceModule ch owner (addr ctl) w;
     let f = f\<lparr>sd_issuanceModule := Some issuance\<rparr>;
     (f, w) \<leftarrow> sr_initializeStandardComponents ch date_now f w;
     sd_deploySystem ch hre_signer ctl issuance f w
   }"

subsection \<open>Which components get a pool\<close>

lemma sd_pools_loop_pools:
  assumes "sd_pools_loop ch fc is f w = Some (f', w')"
  shows "length (sd_poolAddresses f') = length (sd_poolAddresses f) + length is \<and> sd_components f' = sd_components f"
  using assms by (induction "is" arbitrary: f w) (fastforce simp: bind_eq_Some_conv)+

lemma sd_deploySystem_adapter:
  assumes "sd_deploySystem ch hre ctl issuance f w = Some (f', w')"
  shows "sd_poolAddresses f' = sd_poolAddresses f \<and> sd_components f' = sd_components f
     \<and> Deploy hre ''UniswapV3PairPriceAdapter'' [] [JArr (map JStr (sd_poolAddresses f))] \<in> set (fst w')"
  using assms unfolding sd_deploySystem_def Let_def system_deploys
  by (elim script_elims bind_someE some_pairE) (auto dest!: deploy_handle call_trace rpc_trace)

text \<open>
  The deployment fixture looks up a pool for the first ten of its fourteen components only, and
  the price adapter is deployed with exactly these ten pools.
\<close>

lemma deploy_fixture_pools:
  assumes "sd_initialize ch hre (new_SystemFixtureDeploy owner) w = Some (f, w')"
  shows "length (sd_components f) = 14 \<and> length (sd_poolAddresses f) = 10
     \<and> Deploy hre ''UniswapV3PairPriceAdapter'' [] [JArr (map JStr (sd_poolAddresses f))] \<in> set (fst w')"
proof -
  from assms obtain ctl issuance f0 w1 f1 w2 where f0: "sd_poolAddresses f0 = []"
    and std: "sd_initializeStandardComponents ch f0 w1 = Some (f1, w2)"
    and sys: "sd_deploySystem ch hre ctl issuance f1 w2 = Some (f, w')"
    unfolding sd_initialize_def Let_def
    by (elim script_elims) (rule that; simp add: new_SystemFixtureDeploy_def)
  from std obtain fc f2 w3 where loop: "sd_pools_loop ch fc [0..<10] f2 w3 = Some (f1, w2)"
    and f2: "sd_poolAddresses f2 = []" "length (sd_components f2) = 14"
    unfolding sd_initializeStandardComponents_def Let_def
    by (elim script_elims bind_someE) (rule that, assumption, simp_all add: f0 componentData_def)
  show ?thesis using sd_pools_loop_pools [OF loop] sd_deploySystem_adapter [OF sys] f2 by simp
qed

definition pool_node :: "nat chain" where
  "pool_node = table_chain (\<lambda>r. case r of Transact _ _ _ m _ \<Rightarrow> if m = ''getPool'' then JStr ''0xp'' else JBool True | _ \<Rightarrow> JBool True)"

lemma deploy_fixture_pools_example:
  "\<exists>f w. sd_initialize pool_node ''hre'' (new_SystemFixtureDeploy ''o'') ([], 0) = Some (f, w) \<and> length (sd_poolAddresses f) = 10"
proof -
  have "sd_initialize pool_node ''hre'' (new_SystemFixtureDeploy ''o'') ([], 0) \<noteq> None" by code_simp
  then obtain f w where run: "sd_initialize pool_node ''hre'' (new_SystemFixtureDeploy ''o'') ([], 0) = Some (f, w)" by auto
  from deploy_fixture_pools [OF this] run show ?thesis by blast
qed

end
