(* ===== verification/AccountUtils.thy ===== *)
theory AccountUtils
  imports DeployMocks
begin

section \<open>Test accounts and forked tokens\<close>

text \<open>
  \<^verbatim>\<open>src/utils/test/accountUtils.ts\<close>: the accounts of the node, and, for runs on a fork of the main net, the
  large holders (whales) of five tokens, whom the node is asked to impersonate and who are given ether for
  gas. \<open>ethers.getSigners\<close>, \<open>getAddress\<close>, \<open>getBalance\<close> and the provider's own methods are requests to the node.
\<close>

subsection \<open>Accounts\<close>

text \<open>\<open>ethers.getSigners()\<close>, the signers by name.\<close>

definition getWallets :: "'w chain \<Rightarrow> 'w world \<Rightarrow> (string list \<times> 'w world) option" where
  "getWallets ch w = do {
     (v, w) \<leftarrow> rpc ch ''getSigners'' [] w;
     vs \<leftarrow> as_arr v;
     names \<leftarrow> those (map as_str vs);
     Some (names, w)
   }"

text \<open>The loop of \<open>getAccounts\<close> over the wallets that are left.\<close>

fun push_accounts :: "'w chain \<Rightarrow> Account list \<Rightarrow> string list \<Rightarrow> 'w world \<Rightarrow> (Account list \<times> 'w world) option" where
  "push_accounts ch accounts [] w = Some (accounts, w)"
| "push_accounts ch accounts (wallet # wallets) w = do {
     (v, w) \<leftarrow> rpc ch ''getAddress'' [JStr wallet] w;
     a \<leftarrow> as_str v;
     push_accounts ch (accounts @ [\<lparr>acc_address = a, acc_wallet = wallet\<rparr>]) wallets w
   }"

definition getAccounts :: "'w chain \<Rightarrow> 'w world \<Rightarrow> (Account list \<times> 'w world) option" where
  "getAccounts ch w = do {
     (wallets, w) \<leftarrow> getWallets ch w;
     push_accounts ch [] wallets w
   }"

text \<open>\<open>accounts[accounts.length - 1]\<close> is \<open>undefined\<close>, here \<open>None\<close>, when there is no account.\<close>

definition getRandomAccount :: "'w chain \<Rightarrow> 'w world \<Rightarrow> (Account option \<times> 'w world) option" where
  "getRandomAccount ch w = do {
     (accounts, w) \<leftarrow> getAccounts ch w;
     Some (if accounts = [] then None else elem_at accounts (length accounts - 1), w)
   }"

definition getEthBalance :: "'w chain \<Rightarrow> string \<Rightarrow> 'w world \<Rightarrow> (int \<times> 'w world) option" where
  "getEthBalance ch account w = do {
     (v, w) \<leftarrow> rpc ch ''getBalance'' [JStr account] w;
     n \<leftarrow> as_num v;
     Some (n, w)
   }"

subsection \<open>Tokens of a forked main net\<close>

text \<open>The fields \<open>whales\<close> and \<open>tokens\<close>; a name that is missing from the table is \<open>undefined\<close>.\<close>

definition getForkedDependencyAddresses :: "string option list \<times> string option list" where
  "getForkedDependencyAddresses =
     (map (map_of whales) [''DAI_WHALE'', ''WETH_WHALE'', ''WBTC_WHALE'', ''USDC_WHALE'', ''STETH_WHALE''],
      map (\<lambda>nm. dependency nm 1) [''DAI'', ''WETH'', ''WBTC'', ''USDC'', ''STETH''])"

text \<open>The enum of the positions in these lists.\<close>

datatype ids = DAI | WETH | WBTC | USDC | STETH

primrec id_index :: "ids \<Rightarrow> nat" where
  "id_index DAI = 0"
| "id_index WETH = 1"
| "id_index WBTC = 2"
| "id_index USDC = 3"
| "id_index STETH = 4"

text \<open>\<open>IERC20__factory.connect(tokens[i], provider.getSigner(whales[i]))\<close>, which needs both addresses.\<close>

definition forked_token :: "ids \<Rightarrow> handle option" where
  "forked_token i = do {
     t \<leftarrow> elem_at (snd getForkedDependencyAddresses) (id_index i);
     wh \<leftarrow> elem_at (fst getForkedDependencyAddresses) (id_index i);
     token \<leftarrow> t;
     whale \<leftarrow> wh;
     Some (attach whale ''IERC20'' token)
   }"

definition getForkedTokens :: "(string \<times> handle) list option" where
  "getForkedTokens = do {
     dai \<leftarrow> forked_token DAI;
     weth \<leftarrow> forked_token WETH;
     wbtc \<leftarrow> forked_token WBTC;
     usdc \<leftarrow> forked_token USDC;
     steth \<leftarrow> forked_token STETH;
     Some [(''dai'', dai), (''weth'', weth), (''wbtc'', wbtc), (''usdc'', usdc), (''steth'', steth)]
   }"

text \<open>The loop of \<open>initializeForkedTokens\<close> over the whales that are left.\<close>

fun fund_whales :: "'w chain \<Rightarrow> string \<Rightarrow> string option list \<Rightarrow> 'w world \<Rightarrow> (unit \<times> 'w world) option" where
  "fund_whales ch deployer [] w = Some ((), w)"
| "fund_whales ch deployer (wh # whs) w = do {
     whale \<leftarrow> wh;
     (_, w) \<leftarrow> rpc ch ''hardhat_impersonateAccount'' [JStr whale] w;
     (funder, w) \<leftarrow> deployForceFunderMock ch deployer w;
     (_, w) \<leftarrow> call ch funder ''fund'' [JStr whale, JObj [(''value'', JNum (ether 100 1))]] w;
     fund_whales ch deployer whs w
   }"

definition initializeForkedTokens :: "'w chain \<Rightarrow> string \<Rightarrow> 'w world \<Rightarrow> (unit \<times> 'w world) option" where
  "initializeForkedTokens ch deployer w = fund_whales ch deployer (fst getForkedDependencyAddresses) w"

text \<open>What one round of the loop sends: the request to impersonate, a funder of its own, and the payment.\<close>

definition funding_round :: "string \<Rightarrow> string \<times> string \<Rightarrow> request list" where
  "funding_round deployer = (\<lambda>(whale, funder).
     [Rpc ''hardhat_impersonateAccount'' [JStr whale],
      Deploy deployer ''ForceFunderMock'' [] [],
      Transact deployer ''ForceFunderMock'' funder ''fund'' [JStr whale, JObj [(''value'', JNum (ether 100 1))]]])"

subsection \<open>Accounts follow the wallets\<close>

lemma push_accounts_wallets:
  "push_accounts ch acc wallets w = Some (accounts, w') \<Longrightarrow> map acc_wallet accounts = map acc_wallet acc @ wallets"
  by (induction ch acc wallets w rule: push_accounts.induct) (auto simp: script_simps)

lemma push_accounts_trace:
  "push_accounts ch acc wallets w = Some (accounts, w') \<Longrightarrow>
     fst w' = fst w @ map (\<lambda>s. Rpc ''getAddress'' [JStr s]) wallets"
  by (induction ch acc wallets w rule: push_accounts.induct) (auto simp: script_simps)

text \<open>
  \<open>getRandomAccount\<close> is not random: it is the account of the last signer of the node, and \<open>undefined\<close>
  exactly when the node has no signer.
\<close>

lemma getRandomAccount_last:
  assumes "getWallets ch w = Some (wallets, w1)" "getRandomAccount ch w = Some (r, w2)"
  shows "map_option acc_wallet r = (if wallets = [] then None else Some (last wallets))"
proof -
  from assms obtain accounts where acc: "push_accounts ch [] wallets w1 = Some (accounts, w2)"
    and r: "r = (if accounts = [] then None else elem_at accounts (length accounts - 1))"
    by (auto simp: getRandomAccount_def getAccounts_def bind_eq_Some_conv)
  from push_accounts_wallets [OF acc] have wallets: "wallets = map acc_wallet accounts" by simp
  show ?thesis
    by (cases "accounts = []") (simp_all add: r wallets elem_at_def last_map last_conv_nth)
qed

subsection \<open>Every forked token can be used\<close>

text \<open>The five tokens are at the main net's addresses and connected to an address of a whale.\<close>

lemma forked_tokens_defined:
  "getForkedTokens = Some
     [(''dai'', attach ''0x47ac0Fb4F2D84898e4D9E7b4DaB3C24507a6D503'' ''IERC20'' ''0x6b175474e89094c44da98b954eedeac495271d0f''),
      (''weth'', attach ''0x2f0b23f53734252bda2277357e97e1517d6b042a'' ''IERC20'' ''0xc02aaa39b223fe8d0a0e5c4f27ead9083c756cc2''),
      (''wbtc'', attach ''0x2260fac5e5542a773aa44fbcfedf7c193bc2c599'' ''IERC20'' ''0x2260FAC5E5542a773Aa44fBCfeDf7C193bc2C599''),
      (''usdc'', attach ''0x47ac0Fb4F2D84898e4D9E7b4DaB3C24507a6D503'' ''IERC20'' ''0xA0b86991c6218b36c1d19D4a2e9Eb0cE3606eB48''),
      (''steth'', attach ''0xdc24316b9ae028f1497c275eb9192a3ea0f67022'' ''IERC20'' ''0xae7ab96520DE3A18E5e111B5EaAb095312D7fE84'')]"
  by code_simp

lemma fund_whales_trace:
  "fund_whales ch sg (map Some whs) w = Some (u, w') \<Longrightarrow>
   \<exists>funders. length funders = length whs \<and> fst w' = fst w @ concat (map (funding_round sg) (zip whs funders))"
proof (induction whs arbitrary: w)
  case (Cons wh whs)
  then obtain a s where a: "fund_whales ch sg (map Some whs) (fst w @ funding_round sg (wh, a), s) = Some (u, w')"
    by (auto simp: script_simps deployForceFunderMock_def funding_round_def)
  from Cons.IH [OF this] obtain fs where "length fs = length whs"
    "fst w' = fst w @ funding_round sg (wh, a) @ concat (map (funding_round sg) (zip whs fs))" by auto
  then show ?case by (intro exI [of _ "a # fs"]) simp
qed simp

lemma forked_whales:
  "\<exists>whs. fst getForkedDependencyAddresses = map Some whs \<and> length whs = 5 \<and>
     (\<forall>i. \<exists>h. forked_token i = Some h \<and> signer_of h = whs ! id_index i)"
proof -
  have "fst getForkedDependencyAddresses = map Some (map the (fst getForkedDependencyAddresses))" by code_simp
  moreover have "length (map the (fst getForkedDependencyAddresses)) = 5" by code_simp
  moreover have "\<exists>h. forked_token i = Some h \<and> signer_of h = map the (fst getForkedDependencyAddresses) ! id_index i" for i
  proof -
    have "case forked_token i of None \<Rightarrow> False
        | Some h \<Rightarrow> signer_of h = map the (fst getForkedDependencyAddresses) ! id_index i"
      by (cases i; hypsubst; code_simp)
    then show ?thesis by (auto split: option.splits)
  qed
  ultimately show ?thesis by blast
qed

lemma id_index_less [simp]: "id_index i < 5"
  by (cases i) simp_all

text \<open>
  After \<open>initializeForkedTokens\<close> every object that \<open>getForkedTokens\<close> returns can send transactions: its
  signer is impersonated and, after that, paid a hundred ether for gas by a funder deployed in between.
\<close>

lemma forked_tokens_usable:
  assumes "initializeForkedTokens ch deployer w = Some (u, w')" "forked_token i = Some h"
  shows "\<exists>pre post funder. fst w' = fst w @ pre @ funding_round deployer (signer_of h, funder) @ post"
proof -
  obtain whs where whs: "fst getForkedDependencyAddresses = map Some whs" "length whs = 5"
    and tok: "\<And>i. \<exists>h. forked_token i = Some h \<and> signer_of h = whs ! id_index i"
    using forked_whales by blast
  obtain fs where fs: "length fs = length whs" "fst w' = fst w @ concat (map (funding_round deployer) (zip whs fs))"
    using assms(1) fund_whales_trace whs(1) unfolding initializeForkedTokens_def by metis
  have "signer_of h = whs ! id_index i" using tok [of i] assms(2) by auto
  then have "(signer_of h, fs ! id_index i) \<in> set (zip whs fs)"
    using fs(1) whs(2) by (auto simp: set_zip)
  then obtain xs ys where "zip whs fs = xs @ (signer_of h, fs ! id_index i) # ys" by (auto dest: split_list)
  then show ?thesis using fs(2) by fastforce
qed

end
