(* ===== verification/Subtasks.thy ===== *)
theory Subtasks
  imports CommonUtils
begin

section \<open>Build subtasks\<close>

text \<open>
  \<^verbatim>\<open>src/tasks/subtasks.ts\<close>: two hooks into the build. The first puts a gas field into the ABI of every
  compiled artifact; the second rewrites the artifacts of external projects on disk, runs the type
  generator and writes them back. The file system is a map from paths to the artifacts in the files
  (\<open>JSON.stringify\<close> and the parser of \<open>require\<close> are inverse on them, the layout of the text is left out).
  \<open>require\<close> caches: a second \<open>require\<close> of a path gives the same object, so the objects live in a store of
  their own, by path. Code outside the repository is a parameter: the compiler and the type generator
  (\<open>runSuper\<close>), which may throw.

  The loops write files before they can fail, so an action returns the state together with whether it
  ended normally; a thrown exception keeps the files written so far.
\<close>

record artifact =
  abi :: "(string \<times> js) list list"
  other_fields :: "(string \<times> js) list"

record build =
  files :: "string \<Rightarrow> artifact option"
  required :: "string \<Rightarrow> artifact option"

subsection \<open>Artifacts of the compiler\<close>

text \<open>\<open>!process.env.SKIP_ABI_GAS_MODS\<close>: unset or the empty string.\<close>

definition gas_mods_on :: "string option \<Rightarrow> bool" where
  "gas_mods_on skip \<longleftrightarrow> skip = None \<or> skip = Some []"

definition artifact_action :: "string option \<Rightarrow> int option \<Rightarrow> int \<Rightarrow> artifact option \<Rightarrow> artifact option" where
  "artifact_action skip coverage network_gas runSuper = (case runSuper of None \<Rightarrow> None
     | Some art \<Rightarrow> Some (if gas_mods_on skip then art\<lparr>abi := addGasToAbiMethods coverage network_gas (abi art)\<rparr> else art))"

subsection \<open>Artifacts of external projects\<close>

text \<open>\<open>require(path)\<close>: the cached object, else the file's; \<open>None\<close> when there is no such file.\<close>

definition require_artifact :: "string \<Rightarrow> build \<Rightarrow> artifact option" where
  "require_artifact path b = (case required b path of Some art \<Rightarrow> Some art | None \<Rightarrow> files b path)"

text \<open>
  \<open>artifact.abi = f(artifact.abi)\<close> on the object of a path, which is then written to its file.
\<close>

definition rewrite :: "((string \<times> js) list list \<Rightarrow> (string \<times> js) list list) \<Rightarrow> string \<Rightarrow> build \<Rightarrow> build option" where
  "rewrite f path b = (case require_artifact path b of None \<Rightarrow> None
     | Some art \<Rightarrow> let art = art\<lparr>abi := f (abi art)\<rparr>
         in Some (b\<lparr>files := (files b)(path \<mapsto> art), required := (required b)(path \<mapsto> art)\<rparr>))"

definition artifact_path :: "string \<Rightarrow> string \<Rightarrow> string \<Rightarrow> string" where
  "artifact_path cwd project file = cwd @ ''/'' @ project @ ''/'' @ file"

text \<open>The inner loop over the files of a project; the paths visited are pushed to \<open>artifacts\<close>.\<close>

fun inject_files :: "int option \<Rightarrow> int \<Rightarrow> string \<Rightarrow> string \<Rightarrow> string list \<Rightarrow> string list \<Rightarrow> build
    \<Rightarrow> (string list \<times> build) \<times> bool" where
  "inject_files coverage g cwd project [] artifacts b = ((artifacts, b), True)"
| "inject_files coverage g cwd project (file # fs) artifacts b =
     (case rewrite (addGasToAbiMethods coverage g) (artifact_path cwd project file) b of
        None \<Rightarrow> ((artifacts, b), False)
      | Some b \<Rightarrow> inject_files coverage g cwd project fs (artifacts @ [artifact_path cwd project file]) b)"

text \<open>The outer loop; \<open>readdir\<close> lists the files of a directory and is \<open>None\<close> where \<open>readdirSync\<close> throws.\<close>

fun inject_projects :: "int option \<Rightarrow> int \<Rightarrow> string \<Rightarrow> (string \<Rightarrow> string list option) \<Rightarrow> string list
    \<Rightarrow> string list \<Rightarrow> build \<Rightarrow> (string list \<times> build) \<times> bool" where
  "inject_projects coverage g cwd readdir [] artifacts b = ((artifacts, b), True)"
| "inject_projects coverage g cwd readdir (project # ps) artifacts b = (case readdir project of
       None \<Rightarrow> ((artifacts, b), False)
     | Some fs \<Rightarrow> (case inject_files coverage g cwd project fs artifacts b of
           ((artifacts, b), False) \<Rightarrow> ((artifacts, b), False)
         | ((artifacts, b), True) \<Rightarrow> inject_projects coverage g cwd readdir ps artifacts b))"

text \<open>The last loop, over the objects that were pushed.\<close>

fun restore :: "string list \<Rightarrow> build \<Rightarrow> build \<times> bool" where
  "restore [] b = (b, True)"
| "restore (path # ps) b = (case rewrite removeGasFromAbiMethods path b of
     None \<Rightarrow> (b, False) | Some b \<Rightarrow> restore ps b)"

text \<open>\<open>runSuper\<close> gives the state after the type generator and whether it ended normally.\<close>

definition typechain_action :: "int option \<Rightarrow> int \<Rightarrow> string \<Rightarrow> (string \<Rightarrow> string list option) \<Rightarrow> string list
    \<Rightarrow> (build \<Rightarrow> build \<times> bool) \<Rightarrow> build \<Rightarrow> build \<times> bool" where
  "typechain_action coverage g cwd readdir externalGasMods runSuper b =
     (case inject_projects coverage g cwd readdir externalGasMods [] b of
        ((artifacts, b), False) \<Rightarrow> (b, False)
      | ((artifacts, b), True) \<Rightarrow> (case runSuper b of
            (b, False) \<Rightarrow> (b, False)
          | (b, True) \<Rightarrow> restore artifacts b))"

text \<open>The paths the action visits, in order, when every directory can be listed.\<close>

definition listed :: "string \<Rightarrow> (string \<Rightarrow> string list option) \<Rightarrow> string list \<Rightarrow> string list" where
  "listed cwd readdir projects =
     concat (map (\<lambda>project. map (artifact_path cwd project) (the (readdir project))) projects)"

text \<open>What a loop over paths does to the artifacts: a function of the ABI, applied to those on the list.\<close>

definition on_paths :: "string list \<Rightarrow> ((string \<times> js) list list \<Rightarrow> (string \<times> js) list list)
    \<Rightarrow> (string \<Rightarrow> artifact option) \<Rightarrow> (string \<Rightarrow> artifact option)" where
  "on_paths ps f m = (\<lambda>p. if p \<in> set ps then map_option (\<lambda>art. art\<lparr>abi := f (abi art)\<rparr>) (m p) else m p)"

text \<open>The cached objects agree with the files.\<close>

definition in_sync :: "build \<Rightarrow> bool" where
  "in_sync b \<longleftrightarrow> (\<forall>p art. required b p = Some art \<longrightarrow> files b p = Some art)"

subsection \<open>Rewriting is idempotent and keeps files and objects together\<close>

lemma set_key_idem: "set_key k v (set_key k v e) = set_key k v e"
  by (induction e) auto

lemma delete_key_idem: "delete_key k (delete_key k e) = delete_key k e"
  by (simp add: delete_key_def)

lemma is_function_set_gas [simp]: "is_function_element (set_key ''gas'' v e) = is_function_element e"
  by (simp add: is_function_element_def map_of_set_key)

lemma map_of_delete_key: "k' \<noteq> k \<Longrightarrow> map_of (delete_key k e) k' = map_of e k'"
  unfolding delete_key_def by (induction e) auto

lemma is_function_delete_gas [simp]: "is_function_element (delete_key ''gas'' e) = is_function_element e"
  by (simp add: is_function_element_def map_of_delete_key)

lemma addGas_idem: "addGasToAbiMethods c g (addGasToAbiMethods c g xs) = addGasToAbiMethods c g xs"
  by (simp add: addGasToAbiMethods_def Let_def set_key_idem)

lemma removeGas_idem: "removeGasFromAbiMethods (removeGasFromAbiMethods xs) = removeGasFromAbiMethods xs"
  by (simp add: removeGasFromAbiMethods_def delete_key_idem)

lemma require_in_sync: "in_sync b \<Longrightarrow> require_artifact p b = files b p"
  by (auto simp: in_sync_def require_artifact_def split: option.splits)

lemma rewrite_in_sync:
  assumes "in_sync b"
  shows "case rewrite f p b of None \<Rightarrow> files b p = None
     | Some b' \<Rightarrow> files b p \<noteq> None \<and> in_sync b' \<and> files b' = on_paths [p] f (files b)"
  using assms
  by (auto simp: rewrite_def require_in_sync Let_def in_sync_def on_paths_def fun_eq_iff split: option.splits)

lemma on_paths_Cons:
  assumes "\<And>xs. f (f xs) = f xs"
  shows "on_paths ps f (on_paths [p] f m) = on_paths (p # ps) f m"
  using assms by (auto simp: on_paths_def fun_eq_iff option.map_comp comp_def intro!: option.map_cong)

lemma on_paths_append:
  assumes "\<And>xs. f (f xs) = f xs"
  shows "on_paths qs f (on_paths ps f m) = on_paths (ps @ qs) f m"
  using assms by (auto simp: on_paths_def fun_eq_iff option.map_comp comp_def intro!: option.map_cong)

lemma on_paths_dom: "on_paths ps f m p = None \<longleftrightarrow> m p = None"
  by (simp add: on_paths_def)

subsection \<open>The loops\<close>

lemma rewrite_SomeE:
  assumes "in_sync b" "files b p \<noteq> None"
  obtains b' where "rewrite f p b = Some b'" "in_sync b'" "files b' = on_paths [p] f (files b)"
  using rewrite_in_sync [OF assms(1), where f = f and p = p] assms(2) by (auto split: option.splits)

lemma inject_files_all:
  assumes "in_sync b" "\<And>f. f \<in> set fs \<Longrightarrow> files b (artifact_path cwd project f) \<noteq> None"
  shows "\<exists>b'. inject_files c g cwd project fs arts b = ((arts @ map (artifact_path cwd project) fs, b'), True)
     \<and> in_sync b' \<and> files b' = on_paths (map (artifact_path cwd project) fs) (addGasToAbiMethods c g) (files b)"
  using assms
proof (induction fs arbitrary: arts b)
  case Nil
  then show ?case by (simp add: on_paths_def)
next
  case (Cons f fs)
  have "files b (artifact_path cwd project f) \<noteq> None" using Cons.prems(2) by simp
  with Cons.prems(1) obtain b1 where b1: "rewrite (addGasToAbiMethods c g) (artifact_path cwd project f) b = Some b1"
    "in_sync b1" "files b1 = on_paths [artifact_path cwd project f] (addGasToAbiMethods c g) (files b)"
    by (rule rewrite_SomeE)
  have "files b1 (artifact_path cwd project f') \<noteq> None" if "f' \<in> set fs" for f'
    using Cons.prems(2) [of f'] that by (simp add: b1(3) on_paths_dom del: not_None_eq)
  from Cons.IH [OF b1(2) this, of "arts @ [artifact_path cwd project f]"] show ?case
    by (auto simp: b1 on_paths_Cons [OF addGas_idem])
qed

lemma inject_projects_all:
  assumes "in_sync b" "\<And>p. p \<in> set ps \<Longrightarrow> readdir p \<noteq> None" "\<And>p. p \<in> set (listed cwd readdir ps) \<Longrightarrow> files b p \<noteq> None"
  shows "\<exists>b'. inject_projects c g cwd readdir ps arts b = ((arts @ listed cwd readdir ps, b'), True)
     \<and> in_sync b' \<and> files b' = on_paths (listed cwd readdir ps) (addGasToAbiMethods c g) (files b)"
  using assms
proof (induction ps arbitrary: arts b)
  case Nil
  then show ?case by (simp add: on_paths_def listed_def)
next
  case (Cons project ps)
  obtain fs where fs: "readdir project = Some fs" using Cons.prems(2) by fastforce
  have listed: "listed cwd readdir (project # ps) = map (artifact_path cwd project) fs @ listed cwd readdir ps"
    by (simp add: listed_def fs)
  have "files b (artifact_path cwd project f) \<noteq> None" if "f \<in> set fs" for f
    using Cons.prems(3) that by (simp add: listed)
  from inject_files_all [OF Cons.prems(1) this, where c = c and g = g and arts = arts] obtain b1 where
    b1: "inject_files c g cwd project fs arts b = ((arts @ map (artifact_path cwd project) fs, b1), True)" "in_sync b1"
    "files b1 = on_paths (map (artifact_path cwd project) fs) (addGasToAbiMethods c g) (files b)" by blast
  have "files b1 p \<noteq> None" if "p \<in> set (listed cwd readdir ps)" for p
    using Cons.prems(3) that by (simp add: listed b1(3) on_paths_dom del: not_None_eq)
  from Cons.IH [OF b1(2) _ this, where arts = "arts @ map (artifact_path cwd project) fs"] Cons.prems(2) show ?case
    by (auto simp: fs b1 listed on_paths_append [OF addGas_idem])
qed

lemma restore_all:
  assumes "in_sync b" "\<And>p. p \<in> set ps \<Longrightarrow> files b p \<noteq> None"
  shows "\<exists>b'. restore ps b = (b', True) \<and> in_sync b' \<and> files b' = on_paths ps removeGasFromAbiMethods (files b)"
  using assms
proof (induction ps arbitrary: b)
  case Nil
  then show ?case by (simp add: on_paths_def)
next
  case (Cons p ps)
  have "files b p \<noteq> None" using Cons.prems(2) by simp
  with Cons.prems(1) obtain b1 where b1: "rewrite removeGasFromAbiMethods p b = Some b1" "in_sync b1"
    "files b1 = on_paths [p] removeGasFromAbiMethods (files b)" by (rule rewrite_SomeE)
  have "files b1 q \<noteq> None" if "q \<in> set ps" for q
    using Cons.prems(2) [of q] that by (simp add: b1(3) on_paths_dom del: not_None_eq)
  from Cons.IH [OF b1(2) this] show ?case by (auto simp: b1 on_paths_Cons [OF removeGas_idem])
qed

subsection \<open>The type generator runs between two rewritings that cancel\<close>

text \<open>
  The artifacts on the list have no gas fields, and the type generator ends normally and leaves the artifacts
  on disk and in the cache alone. Then the action ends normally with every artifact as it was, while the
  generator saw exactly the listed ones with the gas of the network.
\<close>

theorem typechain_action_restores:
  assumes "in_sync b" "\<And>p. p \<in> set projects \<Longrightarrow> readdir p \<noteq> None"
    and artifacts: "\<And>p. p \<in> set (listed cwd readdir projects) \<Longrightarrow>
          \<exists>art. files b p = Some art \<and> (\<forall>e \<in> set (abi art). ''gas'' \<notin> fst ` set e)"
    and generator: "\<And>x. \<exists>y. runSuper x = (y, True) \<and> required y = required x
          \<and> (\<forall>p. files x p \<noteq> None \<longrightarrow> files y p = files x p)"
  shows "\<exists>seen b'. typechain_action c g cwd readdir projects runSuper b = (b', True)
     \<and> files seen = on_paths (listed cwd readdir projects) (addGasToAbiMethods c g) (files b)
     \<and> typechain_action c g cwd readdir projects runSuper b = restore (listed cwd readdir projects) (fst (runSuper seen))
     \<and> (\<forall>p. files b p \<noteq> None \<longrightarrow> files b' p = files b p)"
proof -
  let ?ps = "listed cwd readdir projects"
  have ex: "files b p \<noteq> None" if "p \<in> set ?ps" for p using artifacts [OF that] by auto
  from inject_projects_all [where ps = projects and readdir = readdir and cwd = cwd and c = c and g = g and arts = "[]", OF assms(1,2) ex] obtain s where
    s: "inject_projects c g cwd readdir projects [] b = ((?ps, s), True)" "in_sync s"
    "files s = on_paths ?ps (addGasToAbiMethods c g) (files b)" by auto
  obtain y where y: "runSuper s = (y, True)" "required y = required s" "\<And>p. files s p \<noteq> None \<Longrightarrow> files y p = files s p"
    using generator [of s] by blast
  have dom: "files s p = None \<longleftrightarrow> files b p = None" for p by (simp add: s(3) on_paths_dom)
  have "in_sync y" using s(2) y(2,3) by (auto simp: in_sync_def)
  moreover have "files y p \<noteq> None" if "p \<in> set ?ps" for p using ex [OF that] y(3) [of p] dom [of p] by auto
  ultimately obtain b' where b': "restore ?ps y = (b', True)" "files b' = on_paths ?ps removeGasFromAbiMethods (files y)"
    using restore_all by blast
  have run: "typechain_action c g cwd readdir projects runSuper b = (b', True)"
    by (simp add: typechain_action_def s(1) y(1) b'(1))
  have "files b' p = files b p" if "files b p \<noteq> None" for p
  proof (cases "p \<in> set ?ps")
    case True
    then obtain art where art: "files b p = Some art" "\<forall>e \<in> set (abi art). ''gas'' \<notin> fst ` set e"
      using artifacts by blast
    then have "removeGasFromAbiMethods (addGasToAbiMethods c g (abi art)) = abi art"
      using gas_round_trip [THEN conjunct1] by blast
    then show ?thesis using True art(1) y(3) [of p] by (simp add: b'(2) s(3) on_paths_def)
  next
    case False
    then show ?thesis using that y(3) [of p] by (simp add: b'(2) s(3) on_paths_def)
  qed
  then show ?thesis using run s(3) b'(1) y(1) by (intro exI [of _ s] exI [of _ b']) simp
qed

text \<open>
  The rewriting is not undone when the type generator throws: the action ends with the gas fields on disk.
\<close>

lemma typechain_action_failure_leaves_gas:
  assumes "in_sync b" "\<And>p. p \<in> set projects \<Longrightarrow> readdir p \<noteq> None"
    "\<And>p. p \<in> set (listed cwd readdir projects) \<Longrightarrow> files b p \<noteq> None" "\<And>x. runSuper x = (x, False)"
  shows "\<exists>b'. typechain_action c g cwd readdir projects runSuper b = (b', False)
     \<and> files b' = on_paths (listed cwd readdir projects) (addGasToAbiMethods c g) (files b)"
  using inject_projects_all [where ps = projects and readdir = readdir and cwd = cwd and c = c and g = g and arts = "[]", OF assms(1-3)] by (auto simp: typechain_action_def assms(4))

text \<open>One project with one artifact.\<close>

definition demo_build :: build where
  "demo_build = \<lparr>files = [''/repo/external/abi.json'' \<mapsto>
       \<lparr>abi = [[(''type'', JStr ''function''), (''name'', JStr ''swap'')], [(''type'', JStr ''event'')]], other_fields = []\<rparr>],
     required = (\<lambda>_. None)\<rparr>"

lemma typechain_action_example:
  "files (fst (typechain_action None 12000000 ''/repo'' [''external'' \<mapsto> [''abi.json'']] [''external''] (\<lambda>x. (x, True)) demo_build))
       ''/repo/external/abi.json'' = files demo_build ''/repo/external/abi.json''"
proof -
  have "\<exists>seen b'. typechain_action None 12000000 ''/repo'' [''external'' \<mapsto> [''abi.json'']] [''external''] (\<lambda>x. (x, True)) demo_build = (b', True)
     \<and> files seen = on_paths (listed ''/repo'' [''external'' \<mapsto> [''abi.json'']] [''external'']) (addGasToAbiMethods None 12000000) (files demo_build)
     \<and> typechain_action None 12000000 ''/repo'' [''external'' \<mapsto> [''abi.json'']] [''external''] (\<lambda>x. (x, True)) demo_build
         = restore (listed ''/repo'' [''external'' \<mapsto> [''abi.json'']] [''external'']) (fst ((\<lambda>x. (x, True)) seen))
     \<and> (\<forall>p. files demo_build p \<noteq> None \<longrightarrow> files b' p = files demo_build p)"
    by (rule typechain_action_restores) (auto simp: demo_build_def in_sync_def listed_def artifact_path_def split: if_splits)
  moreover have "files demo_build ''/repo/external/abi.json'' \<noteq> None" by (simp add: demo_build_def)
  ultimately show ?thesis by auto
qed

end
