(* ===== verification/IntegrationRegistry.thy ===== *)
theory IntegrationRegistry
  imports Controller
begin

section \<open>The IntegrationRegistry: adapters by module and name\<close>

text \<open>
  \<^verbatim>\<open>src/contracts/protocol/IntegrationRegistry.sol\<close>, the getters of
  \<^verbatim>\<open>src/contracts/protocol/lib/ResourceIdentifier.sol\<close> and the adapter lookup of
  \<^verbatim>\<open>src/contracts/protocol/lib/ModuleBase.sol\<close>.

  The registry keeps adapters by module and by the hash of a name; the zero address is no adapter. The hash
  \<open>keccak256\<close> is a parameter, here \<open>hash\<close>. What the registry promises to its users is a map from modules and
  names to adapters: the theorems relate the two for any set of names on which the hash is injective.
\<close>

record integration_registry =
  ir_owner :: address
  ir_controller :: address
  integrations :: "address \<Rightarrow> nat \<Rightarrow> address"

definition ir_constructor :: "address \<Rightarrow> address \<Rightarrow> integration_registry" where
  "ir_constructor msg_sender c = \<lparr>ir_owner = msg_sender, ir_controller = c, integrations = (\<lambda>_ _. address_zero)\<rparr>"

definition ir_onlyOwner :: "address \<Rightarrow> integration_registry \<Rightarrow> unit result" where
  "ir_onlyOwner msg_sender r = require (ir_owner r = msg_sender) ''Ownable: caller is not the owner''"

definition nameHash :: "(string \<Rightarrow> nat) \<Rightarrow> string \<Rightarrow> nat" where
  "nameHash hash nm = hash nm"

text \<open>\<open>integrations[m][h] = a\<close>\<close>

definition set_integration :: "address \<Rightarrow> nat \<Rightarrow> address \<Rightarrow> integration_registry \<Rightarrow> integration_registry" where
  "set_integration m h a r = r\<lparr>integrations := (integrations r)(m := (integrations r m)(h := a))\<rparr>"

text \<open>The argument \<open>c\<close> is the state of the controller, on which \<open>isModule\<close> is read.\<close>

definition addIntegration ::
  "(string \<Rightarrow> nat) \<Rightarrow> controller \<Rightarrow> address \<Rightarrow> address \<Rightarrow> string \<Rightarrow> address \<Rightarrow> integration_registry \<Rightarrow> integration_registry result" where
  "addIntegration hash c msg_sender m nm adapter r =
     rbind (ir_onlyOwner msg_sender r) (\<lambda>_.
     let hashedName = nameHash hash nm in
     rbind (require (isModule c m) ''Must be valid module.'') (\<lambda>_.
     rbind (require (integrations r m hashedName = address_zero) ''Integration exists already.'') (\<lambda>_.
     rbind (require (adapter \<noteq> address_zero) ''Adapter address must exist.'') (\<lambda>_.
     Ok (set_integration m hashedName adapter r)))))"

definition editIntegration ::
  "(string \<Rightarrow> nat) \<Rightarrow> controller \<Rightarrow> address \<Rightarrow> address \<Rightarrow> string \<Rightarrow> address \<Rightarrow> integration_registry \<Rightarrow> integration_registry result" where
  "editIntegration hash c msg_sender m nm adapter r =
     rbind (ir_onlyOwner msg_sender r) (\<lambda>_.
     let hashedName = nameHash hash nm in
     rbind (require (isModule c m) ''Must be valid module.'') (\<lambda>_.
     rbind (require (integrations r m hashedName \<noteq> address_zero) ''Integration does not exist.'') (\<lambda>_.
     rbind (require (adapter \<noteq> address_zero) ''Adapter address must exist.'') (\<lambda>_.
     Ok (set_integration m hashedName adapter r)))))"

text \<open>The loop of the two batch functions, from index \<open>i\<close> on, over the three arrays.\<close>

fun batch_loop ::
  "(address \<Rightarrow> string \<Rightarrow> address \<Rightarrow> 's \<Rightarrow> 's result) \<Rightarrow> address list \<Rightarrow> string list \<Rightarrow> address list \<Rightarrow> 's \<Rightarrow> 's result" where
  "batch_loop f [] nms as r = Ok r"
| "batch_loop f (m # ms) (nm # nms) (a # as) r = rbind (f m nm a r) (batch_loop f ms nms as)"
| "batch_loop f (m # ms) _ _ r = Err Invalid"

definition batch_checks :: "address list \<Rightarrow> string list \<Rightarrow> address list \<Rightarrow> unit result" where
  "batch_checks ms nms as =
     rbind (require (length ms > 0) ''Modules must not be empty'') (\<lambda>_.
     rbind (require (length ms = length nms) ''Module and name lengths mismatch'') (\<lambda>_.
     require (length ms = length as) ''Module and adapter lengths mismatch''))"

definition batchAddIntegration ::
  "(string \<Rightarrow> nat) \<Rightarrow> controller \<Rightarrow> address \<Rightarrow> address list \<Rightarrow> string list \<Rightarrow> address list \<Rightarrow> integration_registry \<Rightarrow> integration_registry result" where
  "batchAddIntegration hash c msg_sender ms nms as r =
     rbind (ir_onlyOwner msg_sender r) (\<lambda>_.
     rbind (batch_checks ms nms as) (\<lambda>_.
     batch_loop (addIntegration hash c msg_sender) ms nms as r))"

definition batchEditIntegration ::
  "(string \<Rightarrow> nat) \<Rightarrow> controller \<Rightarrow> address \<Rightarrow> address list \<Rightarrow> string list \<Rightarrow> address list \<Rightarrow> integration_registry \<Rightarrow> integration_registry result" where
  "batchEditIntegration hash c msg_sender ms nms as r =
     rbind (ir_onlyOwner msg_sender r) (\<lambda>_.
     rbind (batch_checks ms nms as) (\<lambda>_.
     batch_loop (editIntegration hash c msg_sender) ms nms as r))"

definition removeIntegration ::
  "(string \<Rightarrow> nat) \<Rightarrow> address \<Rightarrow> address \<Rightarrow> string \<Rightarrow> integration_registry \<Rightarrow> integration_registry result" where
  "removeIntegration hash msg_sender m nm r =
     rbind (ir_onlyOwner msg_sender r) (\<lambda>_.
     let hashedName = nameHash hash nm in
     rbind (require (integrations r m hashedName \<noteq> address_zero) ''Integration does not exist.'') (\<lambda>_.
     Ok (set_integration m hashedName address_zero r)))"

definition getIntegrationAdapter :: "(string \<Rightarrow> nat) \<Rightarrow> integration_registry \<Rightarrow> address \<Rightarrow> string \<Rightarrow> address" where
  "getIntegrationAdapter hash r m nm = integrations r m (nameHash hash nm)"

definition getIntegrationAdapterWithHash :: "integration_registry \<Rightarrow> address \<Rightarrow> nat \<Rightarrow> address" where
  "getIntegrationAdapterWithHash r m h = integrations r m h"

definition isValidIntegration :: "(string \<Rightarrow> nat) \<Rightarrow> integration_registry \<Rightarrow> address \<Rightarrow> string \<Rightarrow> bool" where
  "isValidIntegration hash r m nm \<longleftrightarrow> integrations r m (nameHash hash nm) \<noteq> address_zero"

subsection \<open>ResourceIdentifier\<close>

definition INTEGRATION_REGISTRY_RESOURCE_ID :: int where
  "INTEGRATION_REGISTRY_RESOURCE_ID = 0"

definition PRICE_ORACLE_RESOURCE_ID :: int where
  "PRICE_ORACLE_RESOURCE_ID = 1"

definition SET_VALUER_RESOURCE_ID :: int where
  "SET_VALUER_RESOURCE_ID = 2"

definition rid_getIntegrationRegistry :: "controller \<Rightarrow> address" where
  "rid_getIntegrationRegistry c = resourceId c INTEGRATION_REGISTRY_RESOURCE_ID"

definition rid_getPriceOracle :: "controller \<Rightarrow> address" where
  "rid_getPriceOracle c = resourceId c PRICE_ORACLE_RESOURCE_ID"

definition rid_getSetValuer :: "controller \<Rightarrow> address" where
  "rid_getSetValuer c = resourceId c SET_VALUER_RESOURCE_ID"

subsection \<open>The adapter lookup of ModuleBase\<close>

text \<open>
  \<open>registry_at a\<close> is the registry contract at the address \<open>a\<close>, if there is one; a call of an address
  without code reverts with no reason. \<open>this\<close> is the module.
\<close>

definition getAndValidateAdapterWithHash ::
  "(address \<Rightarrow> integration_registry option) \<Rightarrow> controller \<Rightarrow> address \<Rightarrow> nat \<Rightarrow> address result" where
  "getAndValidateAdapterWithHash registry_at c this integrationHash =
     (case registry_at (rid_getIntegrationRegistry c) of
        None \<Rightarrow> Err (Revert '''')
      | Some r \<Rightarrow>
          let adapter = getIntegrationAdapterWithHash r this integrationHash in
          rbind (require (adapter \<noteq> address_zero) ''Must be valid adapter'') (\<lambda>_. Ok adapter))"

definition getNameHash :: "(string \<Rightarrow> nat) \<Rightarrow> string \<Rightarrow> nat" where
  "getNameHash hash nm = hash nm"

definition getAndValidateAdapter ::
  "(string \<Rightarrow> nat) \<Rightarrow> (address \<Rightarrow> integration_registry option) \<Rightarrow> controller \<Rightarrow> address \<Rightarrow> string \<Rightarrow> address result" where
  "getAndValidateAdapter hash registry_at c this integrationName =
     getAndValidateAdapterWithHash registry_at c this (getNameHash hash integrationName)"

subsection \<open>The map of adapters\<close>

text \<open>The abstract registry: a partial map from module and name to adapter.\<close>

definition adapters_of :: "(string \<Rightarrow> nat) \<Rightarrow> integration_registry \<Rightarrow> address \<times> string \<rightharpoonup> address" where
  "adapters_of hash r = (\<lambda>(m, nm). if integrations r m (hash nm) = address_zero then None
     else Some (integrations r m (hash nm)))"

lemma adapters_of_None: "adapters_of hash r (m, nm) = None \<longleftrightarrow> integrations r m (hash nm) = address_zero"
  by (simp add: adapters_of_def)

lemma adapters_of_set:
  assumes "inj_on hash N" "nm \<in> N" "nm' \<in> N"
  shows "adapters_of hash (set_integration m (hash nm) a r) (m', nm') =
     (if (m', nm') = (m, nm) then (if a = address_zero then None else Some a) else adapters_of hash r (m', nm'))"
  using assms by (auto simp: adapters_of_def set_integration_def inj_on_eq_iff)

lemma addIntegration_Inr:
  "addIntegration hash c x m nm a r = Inr r' \<longleftrightarrow> x = ir_owner r \<and> isModule c m \<and> a \<noteq> address_zero
     \<and> adapters_of hash r (m, nm) = None \<and> r' = set_integration m (hash nm) a r"
  by (auto simp: addIntegration_def ir_onlyOwner_def nameHash_def Let_def result_simps adapters_of_None)

lemma editIntegration_Inr:
  "editIntegration hash c x m nm a r = Inr r' \<longleftrightarrow> x = ir_owner r \<and> isModule c m \<and> a \<noteq> address_zero
     \<and> adapters_of hash r (m, nm) \<noteq> None \<and> r' = set_integration m (hash nm) a r"
  by (auto simp: editIntegration_def ir_onlyOwner_def nameHash_def Let_def result_simps adapters_of_def)

lemma removeIntegration_Inr:
  "removeIntegration hash x m nm r = Inr r' \<longleftrightarrow> x = ir_owner r
     \<and> adapters_of hash r (m, nm) \<noteq> None \<and> r' = set_integration m (hash nm) address_zero r"
  by (auto simp: removeIntegration_def ir_onlyOwner_def nameHash_def Let_def result_simps adapters_of_def)

lemma set_integration_owner [simp]: "ir_owner (set_integration m h a r) = ir_owner r"
  by (simp add: set_integration_def)

text \<open>A single write, on the names of \<open>N\<close>.\<close>

definition writes :: "(string \<Rightarrow> nat) \<Rightarrow> string set \<Rightarrow> (address \<times> string \<rightharpoonup> address) \<Rightarrow> integration_registry \<Rightarrow> integration_registry \<Rightarrow> bool" where
  "writes hash N U r r' \<longleftrightarrow> ir_owner r' = ir_owner r \<and> (\<forall>m. \<forall>nm \<in> N. adapters_of hash r' (m, nm) =
     (case U (m, nm) of None \<Rightarrow> adapters_of hash r (m, nm) | Some a \<Rightarrow> if a = address_zero then None else Some a))"

lemma writes_refl: "writes hash N Map.empty r r"
  by (simp add: writes_def)

lemma writes_set:
  assumes "inj_on hash N" "nm \<in> N"
  shows "writes hash N [(m, nm) \<mapsto> a] r (set_integration m (hash nm) a r)"
  using assms by (auto simp: writes_def adapters_of_set)

lemma writes_trans: "writes hash N U r r1 \<Longrightarrow> writes hash N V r1 r2 \<Longrightarrow> writes hash N (U ++ V) r r2"
  by (auto simp: writes_def map_add_def split: option.splits)

subsection \<open>Batches\<close>

text \<open>
  The two batch functions differ in the condition under which one entry is accepted: \<open>ok M k\<close>, where \<open>M\<close> is the
  adapter registered under the key \<open>k\<close>. The locale is what the loop relies on.
\<close>

locale batched_write =
  fixes hash :: "string \<Rightarrow> nat"
    and c :: controller
    and x :: address
    and f :: "address \<Rightarrow> string \<Rightarrow> address \<Rightarrow> integration_registry \<Rightarrow> integration_registry result"
    and ok :: "address option \<Rightarrow> bool"
  assumes accepts: "f m nm a r = Inr r' \<longleftrightarrow> x = ir_owner r \<and> isModule c m \<and> a \<noteq> address_zero
     \<and> ok (adapters_of hash r (m, nm)) \<and> r' = set_integration m (hash nm) a r"
begin

lemma loop_writes:
  assumes "inj_on hash N" "length ms = length nms" "length nms = length as" "set nms \<subseteq> N"
    "batch_loop f ms nms as r = Inr r'"
  shows "writes hash N (map_of (rev (zip (zip ms nms) as))) r r'"
  using assms(2,3,1,4,5)
proof (induction ms nms as arbitrary: r rule: list_induct3)
  case (Cons m ms nm nms a as)
  then obtain r1 where r1: "f m nm a r = Inr r1" "batch_loop f ms nms as r1 = Inr r'" by (auto simp: result_simps)
  have "writes hash N [(m, nm) \<mapsto> a] r r1" using r1(1) writes_set Cons.prems by (auto simp: accepts)
  from writes_trans [OF this Cons.IH [OF Cons.prems(1) _ r1(2)]] Cons.prems(2) show ?case
    by (auto simp: map_of_append map_add_def)
qed (simp add: writes_refl)

end

interpretation adding: batched_write hash c x "addIntegration hash c x" "\<lambda>M. M = None"
  by unfold_locales (rule addIntegration_Inr)

interpretation editing: batched_write hash c x "editIntegration hash c x" "\<lambda>M. M \<noteq> None"
  by unfold_locales (rule editIntegration_Inr)

lemma batch_add_succeeds:
  assumes "inj_on hash N" "length ms = length nms" "length nms = length as" "set nms \<subseteq> N" "x = ir_owner r"
  shows "(\<exists>r'. batch_loop (addIntegration hash c x) ms nms as r = Inr r') \<longleftrightarrow>
     (\<forall>m \<in> set ms. isModule c m) \<and> address_zero \<notin> set as \<and> distinct (zip ms nms)
     \<and> (\<forall>k \<in> set (zip ms nms). adapters_of hash r k = None)"
  using assms(2,3,1,4,5)
proof (induction ms nms as arbitrary: r rule: list_induct3)
  case (Cons m ms nm nms a as)
  let ?r1 = "set_integration m (hash nm) a r"
  have new: "adapters_of hash ?r1 (m', nm') = (if (m', nm') = (m, nm) then (if a = address_zero then None else Some a) else adapters_of hash r (m', nm'))"
    if "nm' \<in> N" for m' nm' using adapters_of_set [OF Cons.prems(1) _ that, of nm] Cons.prems(2) by simp
  have sub: "nm' \<in> N" if "(m', nm') \<in> set (zip ms nms)" for m' nm' using that Cons.prems(2) by (auto dest: set_zip_rightD)
  have rest: "(\<forall>k \<in> set (zip ms nms). adapters_of hash ?r1 k = None) \<longleftrightarrow>
      (m, nm) \<notin> set (zip ms nms) \<and> (\<forall>k \<in> set (zip ms nms). adapters_of hash r k = None)" if "a \<noteq> address_zero"
    using that new sub by (auto split: if_splits)
  have "(\<exists>r'. batch_loop (addIntegration hash c x) (m # ms) (nm # nms) (a # as) r = Inr r') \<longleftrightarrow>
      isModule c m \<and> a \<noteq> address_zero \<and> adapters_of hash r (m, nm) = None
      \<and> (\<exists>r'. batch_loop (addIntegration hash c x) ms nms as ?r1 = Inr r')"
    using Cons.prems(3) by (auto simp: result_simps addIntegration_Inr)
  also have "\<dots> \<longleftrightarrow> isModule c m \<and> a \<noteq> address_zero \<and> adapters_of hash r (m, nm) = None
      \<and> (\<forall>m \<in> set ms. isModule c m) \<and> address_zero \<notin> set as \<and> distinct (zip ms nms)
      \<and> (\<forall>k \<in> set (zip ms nms). adapters_of hash ?r1 k = None)"
    using Cons.IH [of ?r1] Cons.prems by simp
  finally show ?case using rest by auto
qed simp

lemma writes_restrict:
  assumes "writes hash N U r r'"
  shows "adapters_of hash r' |` (UNIV \<times> N) =
    (\<lambda>k. case U k of None \<Rightarrow> adapters_of hash r k | Some a \<Rightarrow> if a = address_zero then None else Some a) |` (UNIV \<times> N)"
  using assms by (auto simp: writes_def restrict_map_def fun_eq_iff)

lemma batchAddIntegration_Inr:
  "batchAddIntegration hash c x ms nms as r = Inr r' \<longleftrightarrow> x = ir_owner r \<and> ms \<noteq> [] \<and> length ms = length nms
     \<and> length nms = length as \<and> batch_loop (addIntegration hash c x) ms nms as r = Inr r'"
  by (auto simp: batchAddIntegration_def batch_checks_def ir_onlyOwner_def result_simps)

lemma batchEditIntegration_Inr:
  "batchEditIntegration hash c x ms nms as r = Inr r' \<longleftrightarrow> x = ir_owner r \<and> ms \<noteq> [] \<and> length ms = length nms
     \<and> length nms = length as \<and> batch_loop (editIntegration hash c x) ms nms as r = Inr r'"
  by (auto simp: batchEditIntegration_def batch_checks_def ir_onlyOwner_def result_simps)

lemma batchEdit_writes:
  assumes "inj_on hash N" "set nms \<subseteq> N" "batchEditIntegration hash c x ms nms as r = Inr r'"
  shows "writes hash N (map_of (rev (zip (zip ms nms) as))) r r'"
  using assms editing.loop_writes [OF assms(1) _ _ assms(2)] by (auto simp: batchEditIntegration_Inr)

lemma case_result_iff:
  assumes "\<And>r'. res = Inr r' \<longleftrightarrow> P \<and> r' = g" "P \<Longrightarrow> Q g"
  shows "case res of Inl _ \<Rightarrow> \<not> P | Inr r' \<Rightarrow> P \<and> Q r'"
proof (cases res)
  case (Inl e)
  then show ?thesis using assms(1) [of g] by simp
next
  case (Inr r')
  then show ?thesis using assms(1) [of r'] assms(2) by simp
qed

subsection \<open>The registry is a map\<close>

text \<open>
  C19. On names whose hashes differ the registry is the partial map from modules and names to adapters that it
  stands for: an addition is accepted exactly for a valid module, a free name and a real adapter, an edit
  exactly for a name in use, a removal exactly for a name in use even when the module is gone; each changes
  the map at that one key, and a reader gets the zero address exactly where the map has no adapter.
\<close>

theorem integrations_refine_map:
  assumes "inj_on hash N" "nm \<in> N"
  shows "(case addIntegration hash c x m nm a r of
       Inl _ \<Rightarrow> \<not> (x = ir_owner r \<and> isModule c m \<and> adapters_of hash r (m, nm) = None \<and> a \<noteq> address_zero)
     | Inr r' \<Rightarrow> (x = ir_owner r \<and> isModule c m \<and> adapters_of hash r (m, nm) = None \<and> a \<noteq> address_zero)
         \<and> adapters_of hash r' |` (UNIV \<times> N) = (adapters_of hash r)((m, nm) \<mapsto> a) |` (UNIV \<times> N))
    \<and> (case editIntegration hash c x m nm a r of
       Inl _ \<Rightarrow> \<not> (x = ir_owner r \<and> isModule c m \<and> adapters_of hash r (m, nm) \<noteq> None \<and> a \<noteq> address_zero)
     | Inr r' \<Rightarrow> (x = ir_owner r \<and> isModule c m \<and> adapters_of hash r (m, nm) \<noteq> None \<and> a \<noteq> address_zero)
         \<and> adapters_of hash r' |` (UNIV \<times> N) = (adapters_of hash r)((m, nm) \<mapsto> a) |` (UNIV \<times> N))
    \<and> (case removeIntegration hash x m nm r of
       Inl _ \<Rightarrow> \<not> (x = ir_owner r \<and> adapters_of hash r (m, nm) \<noteq> None)
     | Inr r' \<Rightarrow> (x = ir_owner r \<and> adapters_of hash r (m, nm) \<noteq> None)
         \<and> adapters_of hash r' |` (UNIV \<times> N) = (adapters_of hash r)((m, nm) := None) |` (UNIV \<times> N))
    \<and> adapters_of hash r (m, nm) = (if isValidIntegration hash r m nm then Some (getIntegrationAdapter hash r m nm) else None)"
proof -
  have w: "adapters_of hash (set_integration m (hash nm) b r) |` (UNIV \<times> N) =
      (adapters_of hash r)((m, nm) := (if b = address_zero then None else Some b)) |` (UNIV \<times> N)" for b
    unfolding writes_restrict [OF writes_set [OF assms]] by (auto simp: restrict_map_def fun_eq_iff)
  have 1: "case addIntegration hash c x m nm a r of
       Inl _ \<Rightarrow> \<not> (x = ir_owner r \<and> isModule c m \<and> adapters_of hash r (m, nm) = None \<and> a \<noteq> address_zero)
     | Inr r' \<Rightarrow> (x = ir_owner r \<and> isModule c m \<and> adapters_of hash r (m, nm) = None \<and> a \<noteq> address_zero)
         \<and> adapters_of hash r' |` (UNIV \<times> N) = (adapters_of hash r)((m, nm) \<mapsto> a) |` (UNIV \<times> N)"
    by (rule case_result_iff [where g = "set_integration m (hash nm) a r"]) (auto simp: addIntegration_Inr w)
  have 2: "case editIntegration hash c x m nm a r of
       Inl _ \<Rightarrow> \<not> (x = ir_owner r \<and> isModule c m \<and> adapters_of hash r (m, nm) \<noteq> None \<and> a \<noteq> address_zero)
     | Inr r' \<Rightarrow> (x = ir_owner r \<and> isModule c m \<and> adapters_of hash r (m, nm) \<noteq> None \<and> a \<noteq> address_zero)
         \<and> adapters_of hash r' |` (UNIV \<times> N) = (adapters_of hash r)((m, nm) \<mapsto> a) |` (UNIV \<times> N)"
    by (rule case_result_iff [where g = "set_integration m (hash nm) a r"]) (auto simp: editIntegration_Inr w)
  have 3: "case removeIntegration hash x m nm r of
       Inl _ \<Rightarrow> \<not> (x = ir_owner r \<and> adapters_of hash r (m, nm) \<noteq> None)
     | Inr r' \<Rightarrow> (x = ir_owner r \<and> adapters_of hash r (m, nm) \<noteq> None)
         \<and> adapters_of hash r' |` (UNIV \<times> N) = (adapters_of hash r)((m, nm) := None) |` (UNIV \<times> N)"
    by (rule case_result_iff [where g = "set_integration m (hash nm) address_zero r"]) (auto simp: removeIntegration_Inr w)
  show ?thesis using 1 2 3
    by (simp add: adapters_of_def isValidIntegration_def getIntegrationAdapter_def nameHash_def)
qed

text \<open>A registry with two names, for the controller with the module 7; the length stands for the hash.\<close>

definition demo_integrations :: integration_registry where
  "demo_integrations = set_integration 7 (length ''Uniswap'') 50 (ir_constructor 1 2)"

lemma demo_hash_inj: "inj_on length {''Uniswap'', ''Kyber'', ''Aave''}"
  by (simp add: inj_on_def)

definition one_module :: controller where
  "one_module = (controller_constructor 1 9)\<lparr>isModule := (\<lambda>a. a = 7)\<rparr>"

theorem integrations_refine_map_witness:
  "(case addIntegration length one_module 1 7 ''Kyber'' 51 demo_integrations of
       Inl _ \<Rightarrow> False
     | Inr r' \<Rightarrow> (adapters_of length r' |` (UNIV \<times> {''Uniswap'', ''Kyber'', ''Aave''})) (7, ''Kyber'') = Some 51
         \<and> (adapters_of length r' |` (UNIV \<times> {''Uniswap'', ''Kyber'', ''Aave''})) (7, ''Uniswap'') = Some 50)"
proof -
  have free: "adapters_of length demo_integrations (7, ''Kyber'') = None"
    by (simp add: adapters_of_def demo_integrations_def set_integration_def ir_constructor_def)
  have used: "adapters_of length demo_integrations (7, ''Uniswap'') = Some 50"
    by (simp add: adapters_of_def demo_integrations_def set_integration_def ir_constructor_def)
  have owner: "ir_owner demo_integrations = 1" "isModule one_module 7"
    by (simp_all add: demo_integrations_def ir_constructor_def one_module_def)
  have "''Kyber'' \<in> {''Uniswap'', ''Kyber'', ''Aave''}" by simp
  note spec = integrations_refine_map [OF demo_hash_inj this, where c = one_module and x = 1 and m = 7 and a = 51
      and r = demo_integrations, THEN conjunct1]
  obtain r' where r': "addIntegration length one_module 1 7 ''Kyber'' 51 demo_integrations = Inr r'"
    using spec free owner by (cases "addIntegration length one_module 1 7 ''Kyber'' 51 demo_integrations") auto
  have "adapters_of length r' |` (UNIV \<times> {''Uniswap'', ''Kyber'', ''Aave''}) =
      (adapters_of length demo_integrations)((7, ''Kyber'') \<mapsto> 51) |` (UNIV \<times> {''Uniswap'', ''Kyber'', ''Aave''})"
    using spec by (simp only: r' sum.case)
  with r' used show ?thesis by (simp del: restrict_fun_upd)
qed

text \<open>
  A batch of additions is all or nothing: it is accepted exactly when the arrays are not empty and of one
  length, every module is valid, every adapter is real, and no key is in use or given twice. Afterwards every
  module of the batch finds its adapter by name, through the resource 0 of the controller, and adapters
  under other keys are as before.
\<close>

lemma batch_registers_adapters:
  assumes "inj_on hash N" "set nms \<subseteq> N"
  shows "((\<exists>r'. batchAddIntegration hash c x ms nms as r = Inr r') \<longleftrightarrow>
       x = ir_owner r \<and> ms \<noteq> [] \<and> length ms = length nms \<and> length nms = length as
       \<and> (\<forall>m \<in> set ms. isModule c m) \<and> address_zero \<notin> set as \<and> distinct (zip ms nms)
       \<and> (\<forall>k \<in> set (zip ms nms). adapters_of hash r k = None))
    \<and> (\<forall>r'. batchAddIntegration hash c x ms nms as r = Inr r' \<longrightarrow>
        (\<forall>i < length ms. \<forall>registry_at. registry_at (resourceId c 0) = Some r' \<longrightarrow>
           getAndValidateAdapter hash registry_at c (ms ! i) (nms ! i) = Inr (as ! i))
        \<and> (\<forall>m. \<forall>nm \<in> N. (m, nm) \<notin> set (zip ms nms) \<longrightarrow> adapters_of hash r' (m, nm) = adapters_of hash r (m, nm)))"
proof (rule conjI)
  show "(\<exists>r'. batchAddIntegration hash c x ms nms as r = Inr r') \<longleftrightarrow>
       x = ir_owner r \<and> ms \<noteq> [] \<and> length ms = length nms \<and> length nms = length as
       \<and> (\<forall>m \<in> set ms. isModule c m) \<and> address_zero \<notin> set as \<and> distinct (zip ms nms)
       \<and> (\<forall>k \<in> set (zip ms nms). adapters_of hash r k = None)" (is "?l \<longleftrightarrow> ?r")
    using batch_add_succeeds [OF assms(1) _ _ assms(2), of ms as x r c] unfolding batchAddIntegration_Inr by auto
  show "\<forall>r'. batchAddIntegration hash c x ms nms as r = Inr r' \<longrightarrow>
        (\<forall>i < length ms. \<forall>registry_at. registry_at (resourceId c 0) = Some r' \<longrightarrow>
           getAndValidateAdapter hash registry_at c (ms ! i) (nms ! i) = Inr (as ! i))
        \<and> (\<forall>m. \<forall>nm \<in> N. (m, nm) \<notin> set (zip ms nms) \<longrightarrow> adapters_of hash r' (m, nm) = adapters_of hash r (m, nm))"
  proof (intro allI impI)
    fix r' assume run: "batchAddIntegration hash c x ms nms as r = Inr r'"
    then have len: "length ms = length nms" "length nms = length as"
      and loop: "batch_loop (addIntegration hash c x) ms nms as r = Inr r'" "x = ir_owner r"
      by (auto simp: batchAddIntegration_Inr)
    have ok: "address_zero \<notin> set as" "distinct (zip ms nms)"
      using batch_add_succeeds [OF assms(1) len assms(2) loop(2), of c] loop(1) by auto
    let ?es = "zip (zip ms nms) as"
    have keys: "map fst ?es = zip ms nms" using len by (simp add: map_fst_zip)
    then have dist: "distinct (map fst (rev ?es))" using ok(2) by (simp add: rev_map [symmetric])
    have w: "writes hash N (map_of (rev ?es)) r r'" by (rule adding.loop_writes [OF assms(1) len assms(2) loop(1)])
    show "(\<forall>i < length ms. \<forall>registry_at. registry_at (resourceId c 0) = Some r' \<longrightarrow>
           getAndValidateAdapter hash registry_at c (ms ! i) (nms ! i) = Inr (as ! i))
        \<and> (\<forall>m. \<forall>nm \<in> N. (m, nm) \<notin> set (zip ms nms) \<longrightarrow> adapters_of hash r' (m, nm) = adapters_of hash r (m, nm))"
    proof (intro conjI allI impI ballI)
      fix i and registry_at :: "address \<Rightarrow> integration_registry option"
      assume i: "i < length ms" and at: "registry_at (resourceId c 0) = Some r'"
      have "?es ! i \<in> set ?es" using i len by (intro nth_mem) simp
      then have "((ms ! i, nms ! i), as ! i) \<in> set (rev ?es)" using i len by simp
      then have "map_of (rev ?es) (ms ! i, nms ! i) = Some (as ! i)" by (rule map_of_is_SomeI [OF dist])
      moreover have "as ! i \<noteq> address_zero" "nms ! i \<in> N" using ok(1) i len assms(2) by (metis nth_mem, metis nth_mem subsetD)
      ultimately have "adapters_of hash r' (ms ! i, nms ! i) = Some (as ! i)" using w by (simp add: writes_def)
      then show "getAndValidateAdapter hash registry_at c (ms ! i) (nms ! i) = Inr (as ! i)"
        using at by (simp add: getAndValidateAdapter_def getAndValidateAdapterWithHash_def rid_getIntegrationRegistry_def
            INTEGRATION_REGISTRY_RESOURCE_ID_def getIntegrationAdapterWithHash_def getNameHash_def adapters_of_def split: if_splits)
    next
      fix m nm assume "nm \<in> N" "(m, nm) \<notin> set (zip ms nms)"
      moreover from this have "map_of (rev ?es) (m, nm) = None" using keys by (metis map_of_eq_None_iff list.set_map set_rev)
      ultimately show "adapters_of hash r' (m, nm) = adapters_of hash r (m, nm)" using w by (simp add: writes_def)
    qed
  qed
qed

lemma batch_registers_adapters_example:
  "\<exists>r'. batchAddIntegration length one_module 1 [7, 7] [''Kyber'', ''Aave''] [51, 52] demo_integrations = Inr r'
     \<and> getAndValidateAdapter length (\<lambda>_. Some r') one_module 7 ''Aave'' = Inr 52"
proof -
  have names: "set [''Kyber'', ''Aave''] \<subseteq> {''Uniswap'', ''Kyber'', ''Aave''}" by simp
  note batch = batch_registers_adapters [OF demo_hash_inj names, where c = one_module and x = 1 and ms = "[7, 7]" and as = "[51, 52]" and r = demo_integrations]
  have "\<exists>r'. batchAddIntegration length one_module 1 [7, 7] [''Kyber'', ''Aave''] [51, 52] demo_integrations = Inr r'"
    unfolding batch [THEN conjunct1]
    by (simp add: demo_integrations_def ir_constructor_def one_module_def adapters_of_def set_integration_def)
  then obtain r' where r': "batchAddIntegration length one_module 1 [7, 7] [''Kyber'', ''Aave''] [51, 52] demo_integrations = Inr r'" ..
  have "\<forall>i < length [7, 7 :: address]. \<forall>registry_at. registry_at (resourceId one_module 0) = Some r' \<longrightarrow>
      getAndValidateAdapter length registry_at one_module ([7, 7] ! i) ([''Kyber'', ''Aave''] ! i) = Inr ([51, 52] ! i)"
    using batch [THEN conjunct2, rule_format, OF r', THEN conjunct1] by blast
  then have "getAndValidateAdapter length (\<lambda>_. Some r') one_module ([7, 7] ! 1) ([''Kyber'', ''Aave''] ! 1) = Inr ([51, 52] ! 1)"
    by (elim allE [where x = "1 :: nat"]) simp
  with r' show ?thesis by simp
qed

end
