(* ===== verification/PriceOracle.thy ===== *)
theory PriceOracle
  imports IntegrationRegistry PreciseUnitMath
begin

section \<open>The PriceOracle\<close>

text \<open>
  \<^verbatim>\<open>src/contracts/protocol/PriceOracle.sol\<close>. The contract keeps one oracle per ordered pair of assets, a master
  quote asset and a list of adapters, and answers price requests of contracts of the system. The oracles
  and adapters it calls are code outside the repository: \<open>rd a\<close> is the answer of \<open>IOracle(a).read()\<close>, and
  \<open>adp a x y\<close> the answer of \<open>IOracleAdapter(a).getPrice(x, y)\<close>; both may revert. Prices are unsigned
  integers in units of \<open>10 ^ -18\<close>.

  The theorems say where a price comes from and when there is none, and that prices of one oracle taken in
  both directions, and of three pairs linked by the master quote asset, agree up to rounding down.
\<close>

record price_oracle =
  po_owner :: address
  po_controller :: address
  oracles :: "address \<Rightarrow> address \<Rightarrow> address"
  masterQuoteAsset :: address
  po_adapters :: "address list"

definition set_pair :: "address \<Rightarrow> address \<Rightarrow> address \<Rightarrow> price_oracle \<Rightarrow> price_oracle" where
  "set_pair x y a s = s\<lparr>oracles := (oracles s)(x := (oracles s x)(y := a))\<rparr>"

fun pair_loop :: "address list \<Rightarrow> address list \<Rightarrow> address list \<Rightarrow> price_oracle \<Rightarrow> price_oracle result" where
  "pair_loop [] ys as s = Ok s"
| "pair_loop (x # xs) (y # ys) (a # as) s = pair_loop xs ys as (set_pair x y a s)"
| "pair_loop (x # xs) _ _ s = Err Invalid"

definition po_constructor ::
  "address \<Rightarrow> address \<Rightarrow> address \<Rightarrow> address list \<Rightarrow> address list \<Rightarrow> address list \<Rightarrow> address list \<Rightarrow> price_oracle result" where
  "po_constructor msg_sender c master adapters0 assetOnes assetTwos oracles0 =
     rbind (require (length assetOnes = length assetTwos \<and> length assetTwos = length oracles0)
       ''Array lengths do not match.'') (\<lambda>_.
     pair_loop assetOnes assetTwos oracles0
       \<lparr>po_owner = msg_sender, po_controller = c, oracles = (\<lambda>_ _. address_zero),
        masterQuoteAsset = master, po_adapters = adapters0\<rparr>)"

subsection \<open>Prices\<close>

definition calculateInversePrice :: "(address \<Rightarrow> int result) \<Rightarrow> address \<Rightarrow> int result" where
  "calculateInversePrice rd inverseOracle =
     rbind (rd inverseOracle) (\<lambda>inverseValue. preciseDiv_uint preciseUnit inverseValue)"

definition getDirectOrInversePrice ::
  "(address \<Rightarrow> int result) \<Rightarrow> price_oracle \<Rightarrow> address \<Rightarrow> address \<Rightarrow> (bool \<times> int) result" where
  "getDirectOrInversePrice rd s x y =
     (let directOracle = oracles s x y in
      if directOracle \<noteq> address_zero then rbind (rd directOracle) (\<lambda>p. Ok (True, p))
      else let inverseOracle = oracles s y x in
        if inverseOracle \<noteq> address_zero then rbind (calculateInversePrice rd inverseOracle) (\<lambda>p. Ok (True, p))
        else Ok (False, 0))"

definition getPriceFromMasterQuote ::
  "(address \<Rightarrow> int result) \<Rightarrow> price_oracle \<Rightarrow> address \<Rightarrow> address \<Rightarrow> (bool \<times> int) result" where
  "getPriceFromMasterQuote rd s x y =
     rbind (getDirectOrInversePrice rd s x (masterQuoteAsset s)) (\<lambda>(priceFoundOne, assetOnePrice).
     rbind (getDirectOrInversePrice rd s y (masterQuoteAsset s)) (\<lambda>(priceFoundTwo, assetTwoPrice).
     if priceFoundOne \<and> priceFoundTwo
     then rbind (preciseDiv_uint assetOnePrice assetTwoPrice) (\<lambda>p. Ok (True, p))
     else Ok (False, 0)))"

fun adapter_scan ::
  "(address \<Rightarrow> address \<Rightarrow> address \<Rightarrow> (bool \<times> int) result) \<Rightarrow> address list \<Rightarrow> address \<Rightarrow> address \<Rightarrow> (bool \<times> int) result" where
  "adapter_scan adp [] x y = Ok (False, 0)"
| "adapter_scan adp (a # as) x y =
     rbind (adp a x y) (\<lambda>(priceFound, price).
     if priceFound then Ok (priceFound, price) else adapter_scan adp as x y)"

definition getPriceFromAdapters ::
  "(address \<Rightarrow> address \<Rightarrow> address \<Rightarrow> (bool \<times> int) result) \<Rightarrow> price_oracle \<Rightarrow> address \<Rightarrow> address \<Rightarrow> (bool \<times> int) result" where
  "getPriceFromAdapters adp s x y = adapter_scan adp (po_adapters s) x y"

text \<open>\<open>c\<close> is the state of the controller.\<close>

definition getPrice ::
  "(address \<Rightarrow> int result) \<Rightarrow> (address \<Rightarrow> address \<Rightarrow> address \<Rightarrow> (bool \<times> int) result) \<Rightarrow> controller \<Rightarrow> address \<Rightarrow>
   price_oracle \<Rightarrow> address \<Rightarrow> address \<Rightarrow> int result" where
  "getPrice rd adp c msg_sender s x y =
     rbind (require (isSystemContract (po_controller s) c msg_sender)
       ''PriceOracle.getPrice: Caller must be system contract.'') (\<lambda>_.
     rbind (getDirectOrInversePrice rd s x y) (\<lambda>(priceFound, price).
     rbind (if \<not> priceFound then getPriceFromMasterQuote rd s x y else Ok (priceFound, price)) (\<lambda>(priceFound, price).
     rbind (if \<not> priceFound then getPriceFromAdapters adp s x y else Ok (priceFound, price)) (\<lambda>(priceFound, price).
     rbind (require priceFound ''PriceOracle.getPrice: Price not found.'') (\<lambda>_.
     Ok price)))))"

subsection \<open>Administration\<close>

definition po_onlyOwner :: "address \<Rightarrow> price_oracle \<Rightarrow> unit result" where
  "po_onlyOwner msg_sender s = require (po_owner s = msg_sender) ''Ownable: caller is not the owner''"

definition addPair :: "address \<Rightarrow> address \<Rightarrow> address \<Rightarrow> address \<Rightarrow> price_oracle \<Rightarrow> price_oracle result" where
  "addPair msg_sender x y a s =
     rbind (po_onlyOwner msg_sender s) (\<lambda>_.
     rbind (require (oracles s x y = address_zero) ''PriceOracle.addPair: Pair already exists.'') (\<lambda>_.
     Ok (set_pair x y a s)))"

definition editPair :: "address \<Rightarrow> address \<Rightarrow> address \<Rightarrow> address \<Rightarrow> price_oracle \<Rightarrow> price_oracle result" where
  "editPair msg_sender x y a s =
     rbind (po_onlyOwner msg_sender s) (\<lambda>_.
     rbind (require (oracles s x y \<noteq> address_zero) ''PriceOracle.editPair: Pair doesn't exist.'') (\<lambda>_.
     Ok (set_pair x y a s)))"

definition removePair :: "address \<Rightarrow> address \<Rightarrow> address \<Rightarrow> price_oracle \<Rightarrow> price_oracle result" where
  "removePair msg_sender x y s =
     rbind (po_onlyOwner msg_sender s) (\<lambda>_.
     rbind (require (oracles s x y \<noteq> address_zero) ''PriceOracle.removePair: Pair doesn't exist.'') (\<lambda>_.
     Ok (set_pair x y address_zero s)))"

definition addAdapter :: "address \<Rightarrow> address \<Rightarrow> price_oracle \<Rightarrow> price_oracle result" where
  "addAdapter msg_sender a s =
     rbind (po_onlyOwner msg_sender s) (\<lambda>_.
     rbind (require (\<not> contains (po_adapters s) a) ''PriceOracle.addAdapter: Adapter already exists.'') (\<lambda>_.
     Ok (s\<lparr>po_adapters := po_adapters s @ [a]\<rparr>)))"

definition removeAdapter :: "address \<Rightarrow> address \<Rightarrow> price_oracle \<Rightarrow> price_oracle result" where
  "removeAdapter msg_sender a s =
     rbind (po_onlyOwner msg_sender s) (\<lambda>_.
     rbind (require (contains (po_adapters s) a) ''PriceOracle.removeAdapter: Adapter does not exist.'') (\<lambda>_.
     rbind (remove (po_adapters s) a) (\<lambda>as.
     Ok (s\<lparr>po_adapters := as\<rparr>))))"

definition editMasterQuoteAsset :: "address \<Rightarrow> address \<Rightarrow> price_oracle \<Rightarrow> price_oracle result" where
  "editMasterQuoteAsset msg_sender newMaster s =
     rbind (po_onlyOwner msg_sender s) (\<lambda>_. Ok (s\<lparr>masterQuoteAsset := newMaster\<rparr>))"

definition getAdapters :: "price_oracle \<Rightarrow> address list" where
  "getAdapters s = po_adapters s"

subsection \<open>Which oracle answers\<close>

definition has_oracle :: "price_oracle \<Rightarrow> address \<Rightarrow> address \<Rightarrow> bool" where
  "has_oracle s x y \<longleftrightarrow> oracles s x y \<noteq> address_zero \<or> oracles s y x \<noteq> address_zero"

definition linked :: "price_oracle \<Rightarrow> address \<Rightarrow> address \<Rightarrow> bool" where
  "linked s x y \<longleftrightarrow> has_oracle s x (masterQuoteAsset s) \<and> has_oracle s y (masterQuoteAsset s)"

text \<open>
  Oracles that answer, with a price above zero and at most \<open>10 ^ 18\<close> in whole units: then an inverted
  price is not zero and no product leaves the type.
\<close>

definition healthy :: "(address \<Rightarrow> int result) \<Rightarrow> price_oracle \<Rightarrow> bool" where
  "healthy rd s \<longleftrightarrow> (\<forall>x y. oracles s x y \<noteq> address_zero \<longrightarrow>
     (\<exists>p. rd (oracles s x y) = Inr p \<and> 0 < p \<and> p \<le> 10 ^ 36))"

definition reading :: "(address \<Rightarrow> int result) \<Rightarrow> address \<Rightarrow> int" where
  "reading rd a = (case rd a of Inr p \<Rightarrow> p | Inl _ \<Rightarrow> 0)"

text \<open>The price of a pair by its own oracle, or by that of the opposite pair.\<close>

definition spot :: "(address \<Rightarrow> int result) \<Rightarrow> price_oracle \<Rightarrow> address \<Rightarrow> address \<Rightarrow> int" where
  "spot rd s x y = (if oracles s x y \<noteq> address_zero then reading rd (oracles s x y)
     else 10 ^ 36 div reading rd (oracles s y x))"

lemma healthy_reading:
  assumes "healthy rd s" "oracles s x y \<noteq> address_zero"
  shows "rd (oracles s x y) = Inr (reading rd (oracles s x y)) \<and> 0 < reading rd (oracles s x y)
     \<and> reading rd (oracles s x y) \<le> 10 ^ 36"
  using assms unfolding healthy_def reading_def by fastforce

lemma spot_bounds:
  assumes "healthy rd s" "has_oracle s x y"
  shows "0 < spot rd s x y \<and> spot rd s x y \<le> 10 ^ 36"
proof (cases "oracles s x y = address_zero")
  case True
  then have "oracles s y x \<noteq> address_zero" using assms(2) by (simp add: has_oracle_def)
  note r = healthy_reading [OF assms(1) this]
  define r where "r = reading rd (oracles s y x)"
  have b: "0 < r" "r \<le> 10 ^ 36" using r by (simp_all add: r_def)
  have "1 \<le> 10 ^ 36 div r" using b by (simp add: le_div_iff_int)
  moreover have "10 ^ 36 div r \<le> 10 ^ 36 div 1" using b by (intro zdiv_mono2) simp_all
  ultimately show ?thesis using True by (simp add: spot_def r_def)
next
  case False
  then show ?thesis using healthy_reading [OF assms(1) False] by (simp add: spot_def)
qed

lemma getDirectOrInversePrice_exact:
  assumes "healthy rd s"
  shows "getDirectOrInversePrice rd s x y = Ok (if has_oracle s x y then (True, spot rd s x y) else (False, 0))"
proof -
  have inverse: "preciseDiv_uint preciseUnit r = Inr (10 ^ 36 div r)" if "0 < r" "r \<le> 10 ^ 36" for r
    using that by (simp add: preciseDiv_uint_exact preciseUnit_def is_uint256_def)
  consider (direct) "oracles s x y \<noteq> address_zero" | (inv) "oracles s x y = address_zero" "oracles s y x \<noteq> address_zero"
    | (none) "\<not> has_oracle s x y" by (auto simp: has_oracle_def)
  then show ?thesis
  proof cases
    case direct
    then show ?thesis using healthy_reading [OF assms direct]
      by (simp add: getDirectOrInversePrice_def has_oracle_def spot_def)
  next
    case inv
    then show ?thesis using healthy_reading [OF assms inv(2)] inverse
      by (simp add: getDirectOrInversePrice_def calculateInversePrice_def has_oracle_def spot_def)
  next
    case none
    then show ?thesis by (simp add: getDirectOrInversePrice_def has_oracle_def)
  qed
qed

lemma getPriceFromMasterQuote_exact:
  assumes "healthy rd s"
  shows "getPriceFromMasterQuote rd s x y =
    Ok (if linked s x y then (True, spot rd s x (masterQuoteAsset s) * 10 ^ 18 div spot rd s y (masterQuoteAsset s)) else (False, 0))"
proof (cases "linked s x y")
  case True
  then have "0 < spot rd s x (masterQuoteAsset s)" "spot rd s x (masterQuoteAsset s) \<le> 10 ^ 36"
    "0 < spot rd s y (masterQuoteAsset s)" "spot rd s y (masterQuoteAsset s) \<le> 10 ^ 36"
    using spot_bounds [OF assms] by (auto simp: linked_def)
  with True show ?thesis
    by (simp add: getPriceFromMasterQuote_def getDirectOrInversePrice_exact [OF assms] linked_def preciseDiv_uint_exact is_uint256_def)
qed (auto simp: getPriceFromMasterQuote_def getDirectOrInversePrice_exact [OF assms] linked_def)

lemma getPrice_routes:
  assumes "healthy rd s" "isSystemContract (po_controller s) c sender"
  shows "getPrice rd adp c sender s x y =
    (if has_oracle s x y then Ok (spot rd s x y)
     else if linked s x y then Ok (spot rd s x (masterQuoteAsset s) * 10 ^ 18 div spot rd s y (masterQuoteAsset s))
     else rbind (adapter_scan adp (po_adapters s) x y) (\<lambda>(found, p).
            if found then Ok p else Err (Revert ''PriceOracle.getPrice: Price not found.'')))"
proof -
  note parts = getDirectOrInversePrice_exact [OF assms(1)] getPriceFromMasterQuote_exact [OF assms(1)]
  consider "has_oracle s x y" | "\<not> has_oracle s x y" "linked s x y" | "\<not> has_oracle s x y" "\<not> linked s x y" by blast
  then show ?thesis
  proof cases
    case 3
    then show ?thesis using assms(2)
      by (cases "adapter_scan adp (po_adapters s) x y") (auto simp: getPrice_def parts getPriceFromAdapters_def require_def)
  qed (use assms(2) in \<open>simp_all add: getPrice_def parts\<close>)
qed

text \<open>The first adapter that has a price decides, provided the ones before it answer.\<close>

lemma adapter_scan_first:
  "adapter_scan adp as x y = Inr (True, p) \<longleftrightarrow>
     (\<exists>us a vs. as = us @ a # vs \<and> adp a x y = Inr (True, p) \<and> (\<forall>u \<in> set us. \<exists>q. adp u x y = Inr (False, q)))"
proof (induction as)
  case (Cons b as)
  have split: "(\<exists>us a vs. b # as = us @ a # vs \<and> P a \<and> (\<forall>u \<in> set us. Q u)) \<longleftrightarrow>
      P b \<or> Q b \<and> (\<exists>us a vs. as = us @ a # vs \<and> P a \<and> (\<forall>u \<in> set us. Q u))" for P Q :: "address \<Rightarrow> bool"
  proof
    assume "\<exists>us a vs. b # as = us @ a # vs \<and> P a \<and> (\<forall>u \<in> set us. Q u)"
    then obtain us a vs where "b # as = us @ a # vs" "P a" "\<forall>u \<in> set us. Q u" by blast
    then show "P b \<or> Q b \<and> (\<exists>us a vs. as = us @ a # vs \<and> P a \<and> (\<forall>u \<in> set us. Q u))" by (cases us) auto
  next
    assume "P b \<or> Q b \<and> (\<exists>us a vs. as = us @ a # vs \<and> P a \<and> (\<forall>u \<in> set us. Q u))"
    then show "\<exists>us a vs. b # as = us @ a # vs \<and> P a \<and> (\<forall>u \<in> set us. Q u)"
    proof
      assume "P b"
      then show ?thesis by (intro exI [of _ "[]"] exI [of _ b] exI [of _ as]) simp
    next
      assume "Q b \<and> (\<exists>us a vs. as = us @ a # vs \<and> P a \<and> (\<forall>u \<in> set us. Q u))"
      then obtain us a vs where "Q b" "as = us @ a # vs" "P a" "\<forall>u \<in> set us. Q u" by blast
      then show ?thesis by (intro exI [of _ "b # us"] exI [of _ a] exI [of _ vs]) simp
    qed
  qed
  show ?case unfolding split Cons.IH [symmetric] by (cases "adp b x y") (auto split: if_splits)
qed simp

subsection \<open>Prices are found and agree\<close>

text \<open>An adapter declines a pair when it answers that it has no price for it; it may also revert.\<close>

definition declines :: "(address \<Rightarrow> address \<Rightarrow> address \<Rightarrow> (bool \<times> int) result) \<Rightarrow> address \<Rightarrow> address \<Rightarrow> address \<Rightarrow> bool" where
  "declines adp x y a \<longleftrightarrow> (case adp a x y of Inl e \<Rightarrow> False | Inr (found, p) \<Rightarrow> \<not> found)"

lemma adapter_route:
  "rbind (adapter_scan adp as x y) (\<lambda>(found, p). if found then Ok p else Err e0) =
     (case dropWhile (declines adp x y) as of
        [] \<Rightarrow> Err e0
      | a # _ \<Rightarrow> (case adp a x y of Inl e \<Rightarrow> Err e | Inr (found, p) \<Rightarrow> Ok p))"
proof (induction as)
  case (Cons a as)
  then show ?case by (cases "adp a x y") (auto simp: declines_def)
qed simp

text \<open>
  C21. With healthy oracles (each answers, with a price above zero and at most \<open>10 ^ 18\<close> whole units) a contract of the system gets the price of a
  pair from its oracle or the inverse of the opposite one; else, when both assets are linked to the master quote asset, as the quotient of their
  prices in it. Otherwise the first adapter of the list that does not decline the pair decides: its price is the answer, and if it reverts the request
  reverts with its error, whatever the adapters after it would say; when all decline, the request reverts. Nobody else gets a price.
\<close>

theorem getPrice_exact:
  assumes "healthy rd s"
  shows "getPrice rd adp c sender s x y =
    (if \<not> isSystemContract (po_controller s) c sender then Err (Revert ''PriceOracle.getPrice: Caller must be system contract.'')
     else if has_oracle s x y then Ok (spot rd s x y)
     else if linked s x y then Ok (spot rd s x (masterQuoteAsset s) * 10 ^ 18 div spot rd s y (masterQuoteAsset s))
     else case dropWhile (declines adp x y) (po_adapters s) of
         [] \<Rightarrow> Err (Revert ''PriceOracle.getPrice: Price not found.'')
       | a # _ \<Rightarrow> (case adp a x y of Inl e \<Rightarrow> Err e | Inr (found, p) \<Rightarrow> Ok p))"
proof (cases "isSystemContract (po_controller s) c sender")
  case True
  then show ?thesis by (simp add: getPrice_routes [OF assms True] adapter_route)
qed (simp add: getPrice_def)

text \<open>An oracle for the assets 10 and 11, priced in 12, the master quote asset.\<close>

definition demo_oracle :: price_oracle where
  "demo_oracle = \<lparr>po_owner = 1, po_controller = 2,
     oracles = (\<lambda>x y. if (x, y) = (10, 12) then 60 else if (x, y) = (12, 11) then 61 else 0),
     masterQuoteAsset = 12, po_adapters = []\<rparr>"

definition demo_read :: "address \<Rightarrow> int result" where
  "demo_read a = (if a = 60 then Ok (230 * 10 ^ 18) else Ok (4 * 10 ^ 18))"

lemma demo_healthy: "healthy demo_read demo_oracle"
  by (simp add: healthy_def demo_read_def demo_oracle_def)

text \<open>Adapters 70, which declines every pair, 71, which knows one, and 72, which reverts.\<close>

definition demo_adapters :: "address \<Rightarrow> address \<Rightarrow> address \<Rightarrow> (bool \<times> int) result" where
  "demo_adapters a x y = (if a = 72 then Err (Revert ''no pool'') else Ok (a = 71 \<and> (x, y) = (20, 21), 5))"

theorem getPrice_exact_witness:
  "getPrice demo_read demo_adapters (controller_constructor 1 9) 2 demo_oracle 10 11 = Ok (920 * 10 ^ 18)
   \<and> getPrice demo_read demo_adapters (controller_constructor 1 9) 2 (demo_oracle\<lparr>po_adapters := [70, 71, 72]\<rparr>) 20 21 = Ok 5
   \<and> getPrice demo_read demo_adapters (controller_constructor 1 9) 2 (demo_oracle\<lparr>po_adapters := [70, 71, 72]\<rparr>) 20 22 = Err (Revert ''no pool'')
   \<and> getPrice demo_read demo_adapters (controller_constructor 1 9) 2 demo_oracle 12 12 =
       Err (Revert ''PriceOracle.getPrice: Price not found.'')"
proof -
  have h: "healthy demo_read (demo_oracle\<lparr>po_adapters := as\<rparr>)" for as using demo_healthy by (simp add: healthy_def)
  show ?thesis unfolding getPrice_exact [OF demo_healthy] getPrice_exact [OF h] by code_simp
qed

text \<open>
  Prices agree up to rounding down. A pair with one oracle: the product of the prices in the two
  directions is at most one, and more than one with the next higher inverse. Two assets with prices in the
  master quote asset and no oracle of their own: the quotient of these prices lies between their price
  and the next higher one.
\<close>

lemma prices_consistent:
  assumes "healthy rd s" "isSystemContract (po_controller s) c sender"
  shows "(oracles s x y \<noteq> address_zero \<and> oracles s y x = address_zero \<longrightarrow>
      (\<exists>p q. getPrice rd adp c sender s x y = Ok p \<and> getPrice rd adp c sender s y x = Ok q
         \<and> p * q \<le> 10 ^ 36 \<and> 10 ^ 36 < p * (q + 1)))
    \<and> (linked s x y \<and> \<not> has_oracle s x y \<longrightarrow>
      (\<exists>p px py. getPrice rd adp c sender s x y = Ok p \<and> getPrice rd adp c sender s x (masterQuoteAsset s) = Ok px
         \<and> getPrice rd adp c sender s y (masterQuoteAsset s) = Ok py
         \<and> p * py \<le> px * 10 ^ 18 \<and> px * 10 ^ 18 < (p + 1) * py))"
proof (intro conjI impI)
  assume o1: "oracles s x y \<noteq> address_zero \<and> oracles s y x = address_zero"
  then have b: "0 < spot rd s x y" using spot_bounds [OF assms(1)] by (simp add: has_oracle_def)
  have q: "spot rd s y x = 10 ^ 36 div spot rd s x y" using o1 by (simp add: spot_def)
  show "\<exists>p q. getPrice rd adp c sender s x y = Ok p \<and> getPrice rd adp c sender s y x = Ok q
      \<and> p * q \<le> 10 ^ 36 \<and> 10 ^ 36 < p * (q + 1)"
    using o1 div_mult_le_int [OF b, of "10 ^ 36"] less_div_mult_int [OF b, of "10 ^ 36"]
    by (simp add: getPrice_routes [OF assms] has_oracle_def q mult.commute del: power_numeral)
next
  assume l: "linked s x y \<and> \<not> has_oracle s x y"
  then have h: "has_oracle s x (masterQuoteAsset s)" "has_oracle s y (masterQuoteAsset s)" by (simp_all add: linked_def)
  have b: "0 < spot rd s y (masterQuoteAsset s)" using spot_bounds [OF assms(1) h(2)] by simp
  let ?a = "spot rd s x (masterQuoteAsset s) * 10 ^ 18"
  show "\<exists>p px py. getPrice rd adp c sender s x y = Ok p \<and> getPrice rd adp c sender s x (masterQuoteAsset s) = Ok px
      \<and> getPrice rd adp c sender s y (masterQuoteAsset s) = Ok py \<and> p * py \<le> px * 10 ^ 18 \<and> px * 10 ^ 18 < (p + 1) * py"
    using l h div_mult_le_int [OF b, of ?a] less_div_mult_int [OF b, of ?a] by (simp add: getPrice_routes [OF assms])
qed

lemma prices_consistent_example:
  "\<exists>p px py. getPrice demo_read (\<lambda>_ _ _. Ok (False, 0)) (controller_constructor 1 9) 2 demo_oracle 10 11 = Ok p
     \<and> getPrice demo_read (\<lambda>_ _ _. Ok (False, 0)) (controller_constructor 1 9) 2 demo_oracle 10 12 = Ok px
     \<and> getPrice demo_read (\<lambda>_ _ _. Ok (False, 0)) (controller_constructor 1 9) 2 demo_oracle 11 12 = Ok py
     \<and> p * py \<le> px * 10 ^ 18 \<and> px * 10 ^ 18 < (p + 1) * py"
proof -
  have sys: "isSystemContract (po_controller demo_oracle) (controller_constructor 1 9) 2"
    by (simp add: isSystemContract_def demo_oracle_def)
  have l: "linked demo_oracle 10 11 \<and> \<not> has_oracle demo_oracle 10 11" "masterQuoteAsset demo_oracle = 12"
    by (simp_all add: linked_def has_oracle_def demo_oracle_def)
  show ?thesis
    using prices_consistent [OF demo_healthy sys, where x = 10 and y = 11 and adp = "\<lambda>_ _ _. Ok (False, 0)", THEN conjunct2, THEN mp, OF l(1)]
    unfolding l(2) .
qed

subsection \<open>Administration keeps the adapters distinct\<close>

lemma set_pair_oracles: "oracles (set_pair x y a s) x' y' = (if (x', y') = (x, y) then a else oracles s x' y')"
  by (simp add: set_pair_def)

text \<open>
  The administrative functions change one pair or the list of adapters, for the owner only. A pair whose oracle is
  set to the zero address counts as absent: \<open>addPair\<close> and \<open>editPair\<close> accept it.
\<close>

lemma pair_ops_exact:
  "addPair u x y a s = Inr s' \<longleftrightarrow> u = po_owner s \<and> oracles s x y = address_zero \<and> s' = set_pair x y a s"
  "editPair u x y a s = Inr s' \<longleftrightarrow> u = po_owner s \<and> oracles s x y \<noteq> address_zero \<and> s' = set_pair x y a s"
  "removePair u x y s = Inr s' \<longleftrightarrow> u = po_owner s \<and> oracles s x y \<noteq> address_zero \<and> s' = set_pair x y address_zero s"
  by (auto simp: addPair_def editPair_def removePair_def po_onlyOwner_def result_simps)

lemma adapter_ops_distinct:
  assumes "distinct (po_adapters s)"
  shows "addAdapter u a s = Inr s' \<Longrightarrow> distinct (po_adapters s') \<and> set (po_adapters s') = insert a (set (po_adapters s))"
    and "removeAdapter u a s = Inr s' \<Longrightarrow> distinct (po_adapters s') \<and> set (po_adapters s') = set (po_adapters s) - {a}"
  using assms by (auto simp: addAdapter_def removeAdapter_def po_onlyOwner_def result_simps remove_exact split: if_splits)

end
