(* ===== verification/SetValuer.thy ===== *)
theory SetValuer
  imports Complex_Main PriceOracle SetToken
begin

section \<open>The SetValuer\<close>

text \<open>
  \<^verbatim>\<open>src/contracts/protocol/SetValuer.sol\<close>: the value of one Set in a quote asset, by the prices of the
  \<open>PriceOracle\<close> (resource 1 of the controller) and the units of the Set. External and debt positions
  count with their sign. The decimals of a component are an answer of the token, the parameter \<open>dec\<close>;
  \<open>oracle_at\<close> gives the price oracle at an address. The exact value is a sum of rational numbers, and the
  theorem bounds what the two roundings per component can take from it or add to it.
\<close>

record set_valuer =
  sv_controller :: address

definition sv_constructor :: "address \<Rightarrow> set_valuer" where
  "sv_constructor c = \<lparr>sv_controller = c\<rparr>"

text \<open>
  The loop over the components; \<open>price k\<close> is \<open>priceOracle.getPrice(k, masterQuoteAsset)\<close>. The power
  \<open>10 ** unitDecimals\<close> is unchecked.
\<close>

fun valuation_loop ::
  "(address \<Rightarrow> int result) \<Rightarrow> (address \<Rightarrow> int result) \<Rightarrow> set_token \<Rightarrow> address list \<Rightarrow> int \<Rightarrow> int result" where
  "valuation_loop price dec s [] valuation = Ok valuation"
| "valuation_loop price dec s (k # ks) valuation =
     rbind (price k) (\<lambda>componentPrice.
     rbind (getTotalComponentRealUnits s k) (\<lambda>aggregateUnits.
     rbind (dec k) (\<lambda>unitDecimals.
     let baseUnits = wrap_uint256 (10 ^ nat unitDecimals) in
     rbind (toInt256 baseUnits) (\<lambda>b.
     rbind (preciseDiv_int aggregateUnits b) (\<lambda>normalizedUnits.
     rbind (toInt256 componentPrice) (\<lambda>p.
     rbind (preciseMul_int normalizedUnits p) (\<lambda>t.
     rbind (sadd t valuation) (\<lambda>valuation.
     valuation_loop price dec s ks valuation))))))))"

definition calculateSetTokenValuation ::
  "(address \<Rightarrow> int result) \<Rightarrow> (address \<Rightarrow> address \<Rightarrow> address \<Rightarrow> (bool \<times> int) result) \<Rightarrow> (address \<Rightarrow> int result) \<Rightarrow>
   (address \<Rightarrow> price_oracle option) \<Rightarrow> controller \<Rightarrow> address \<Rightarrow> set_token \<Rightarrow> address \<Rightarrow> int result" where
  "calculateSetTokenValuation rd adp dec oracle_at c this s quoteAsset =
     (case oracle_at (rid_getPriceOracle c) of
        None \<Rightarrow> Err (Revert '''')
      | Some priceOracle \<Rightarrow>
          let master = masterQuoteAsset priceOracle in
          rbind (valuation_loop (\<lambda>k. getPrice rd adp c this priceOracle k master) dec s (components s) 0) (\<lambda>valuation.
          rbind (if master \<noteq> quoteAsset
                 then rbind (getPrice rd adp c this priceOracle quoteAsset master) (\<lambda>quoteToMaster.
                      rbind (toInt256 quoteToMaster) (\<lambda>q. preciseDiv_int valuation q))
                 else Ok valuation) (\<lambda>valuation.
          toUint256 valuation)))"

subsection \<open>Rounding towards zero, in the reals\<close>

lemma tdiv_error:
  assumes "0 < b"
  shows "\<bar>real_of_int (tdiv a b) - real_of_int a / real_of_int b\<bar> < 1"
proof -
  have nonneg: "\<bar>real_of_int (x div b) - real_of_int x / real_of_int b\<bar> < 1" for x
  proof -
    have e: "x div b = \<lfloor>real_of_int x / real_of_int b\<rfloor>" by (simp add: floor_divide_of_int_eq)
    show ?thesis unfolding e by linarith
  qed
  show ?thesis
  proof (cases "0 \<le> a")
    case True
    then show ?thesis using assms nonneg [of a] by simp
  next
    case False
    then have "tdiv a b = - ((- a) div b)" using assms tdiv_neg_left [of "- a" b] by simp
    then show ?thesis using nonneg [of "- a"] by (simp add: abs_minus_commute)
  qed
qed

text \<open>One component: units \<open>u\<close>, base \<open>b\<close>, price \<open>p\<close>.\<close>

lemma component_error:
  assumes "0 < b" "0 \<le> p"
  shows "\<bar>real_of_int (tdiv (tdiv (u * 10 ^ 18) b * p) (10 ^ 18)) - real_of_int u * real_of_int p / real_of_int b\<bar>
    \<le> 1 + real_of_int p / 10 ^ 18"
proof -
  define n where "n = tdiv (u * 10 ^ 18) b"
  have 1: "\<bar>real_of_int (tdiv (n * p) (10 ^ 18)) - real_of_int n * real_of_int p / 10 ^ 18\<bar> < 1"
    using tdiv_error [of "10 ^ 18" "n * p"] by simp
  have eq: "real_of_int n * real_of_int p / 10 ^ 18 - real_of_int u * real_of_int p / real_of_int b
      = (real_of_int n - real_of_int (u * 10 ^ 18) / real_of_int b) * (real_of_int p / 10 ^ 18)"
    using assms(1) by (simp add: field_simps)
  have "\<bar>real_of_int n * real_of_int p / 10 ^ 18 - real_of_int u * real_of_int p / real_of_int b\<bar>
      = \<bar>real_of_int n - real_of_int (u * 10 ^ 18) / real_of_int b\<bar> * (real_of_int p / 10 ^ 18)"
    unfolding eq abs_mult using assms(2) by (subst (2) abs_of_nonneg) auto
  also have "\<dots> \<le> 1 * (real_of_int p / 10 ^ 18)"
    using tdiv_error [OF assms(1), of "u * 10 ^ 18"] assms(2) unfolding n_def by (intro mult_right_mono) auto
  finally show ?thesis using 1 unfolding n_def by linarith
qed

subsection \<open>The sum over the components\<close>

definition ok_value :: "int result \<Rightarrow> int" where
  "ok_value r = (case r of Inr v \<Rightarrow> v | Inl _ \<Rightarrow> 0)"

lemma ok_value_Inr [simp]: "ok_value (Inr v) = v"
  by (simp add: ok_value_def)

text \<open>The exact value of the units of one component, in units of \<open>10 ^ -18\<close> of the master quote asset.\<close>

definition exact_value :: "(address \<Rightarrow> int result) \<Rightarrow> (address \<Rightarrow> int result) \<Rightarrow> set_token \<Rightarrow> address \<Rightarrow> real" where
  "exact_value price dec s k =
     real_of_int (ok_value (getTotalComponentRealUnits s k)) * real_of_int (ok_value (price k)) / 10 ^ nat (ok_value (dec k))"

text \<open>What rounding can change per component.\<close>

definition rounding_slack :: "(address \<Rightarrow> int result) \<Rightarrow> address \<Rightarrow> real" where
  "rounding_slack price k = 1 + real_of_int (ok_value (price k)) / 10 ^ 18"

definition small_decimals :: "(address \<Rightarrow> int result) \<Rightarrow> address list \<Rightarrow> bool" where
  "small_decimals dec ks \<longleftrightarrow> (\<forall>k \<in> set ks. \<forall>d. dec k = Inr d \<longrightarrow> 0 \<le> d \<and> d \<le> 76)"

lemma wrap_power_of_ten: "n \<le> 76 \<Longrightarrow> wrap_uint256 (10 ^ n) = 10 ^ n"
proof -
  assume "n \<le> 76"
  then have "(10 :: int) ^ n \<le> 10 ^ 76" by (intro power_increasing) simp_all
  then show ?thesis by (intro wrap_uint256_id) (simp add: is_uint256_def)
qed

lemma valuation_loop_error:
  assumes "small_decimals dec ks" "\<And>k p. k \<in> set ks \<Longrightarrow> price k = Inr p \<Longrightarrow> 0 \<le> p"
    "valuation_loop price dec s ks v0 = Inr v"
  shows "(\<forall>k \<in> set ks. \<exists>p. price k = Inr p)
    \<and> \<bar>real_of_int (v - v0) - (\<Sum>k\<leftarrow>ks. exact_value price dec s k)\<bar> \<le> (\<Sum>k\<leftarrow>ks. rounding_slack price k)"
  using assms
proof (induction ks arbitrary: v0)
  case (Cons k ks)
  obtain p u d b n t where step: "price k = Inr p" "getTotalComponentRealUnits s k = Inr u" "dec k = Inr d"
      "b = wrap_uint256 (10 ^ nat d)" "preciseDiv_int u b = Inr n" "preciseMul_int n p = Inr t"
    and rest: "valuation_loop price dec s ks (t + v0) = Inr v"
    using Cons.prems(3) by (auto simp: result_simps Let_def)
  have d: "nat d \<le> 76" using Cons.prems(1) step(3) by (auto simp: small_decimals_def)
  have b: "b = 10 ^ nat d" "0 < b" using step(4) wrap_power_of_ten [OF d] by simp_all
  have n: "n = tdiv (u * 10 ^ 18) b" using step(5) by (auto simp: preciseDiv_int_def result_simps)
  have t: "t = tdiv (n * p) (10 ^ 18)" using step(6) by (auto simp: preciseMul_int_def result_simps)
  have p: "0 \<le> p" using Cons.prems(2) [of k] step(1) by simp
  have one: "\<bar>real_of_int t - exact_value price dec s k\<bar> \<le> rounding_slack price k"
    using component_error [OF b(2) p, of u] step(1-3)
    by (simp add: t n exact_value_def rounding_slack_def b(1))
  have "small_decimals dec ks" using Cons.prems(1) by (simp add: small_decimals_def)
  from Cons.IH [OF this _ rest] Cons.prems(2)
  have "(\<forall>k \<in> set ks. \<exists>p. price k = Inr p)"
    "\<bar>real_of_int (v - (t + v0)) - (\<Sum>k\<leftarrow>ks. exact_value price dec s k)\<bar> \<le> (\<Sum>k\<leftarrow>ks. rounding_slack price k)"
    by auto
  then show ?case using one step(1) by auto
qed simp

subsection \<open>Accuracy\<close>

text \<open>\<open>priceOracle.getPrice(k, masterQuoteAsset)\<close> as the valuer \<open>this\<close> calls it.\<close>

definition master_price ::
  "(address \<Rightarrow> int result) \<Rightarrow> (address \<Rightarrow> address \<Rightarrow> address \<Rightarrow> (bool \<times> int) result) \<Rightarrow> controller \<Rightarrow> address \<Rightarrow>
   price_oracle \<Rightarrow> address \<Rightarrow> int result" where
  "master_price rd adp c this po k = getPrice rd adp c this po k (masterQuoteAsset po)"

text \<open>Oracles and adapters return values of their type.\<close>

definition prices_typed ::
  "(address \<Rightarrow> int result) \<Rightarrow> (address \<Rightarrow> address \<Rightarrow> address \<Rightarrow> (bool \<times> int) result) \<Rightarrow> bool" where
  "prices_typed rd adp \<longleftrightarrow> (\<forall>a p. rd a = Inr p \<longrightarrow> is_uint256 p) \<and> (\<forall>a x y f p. adp a x y = Inr (f, p) \<longrightarrow> is_uint256 p)"

lemma preciseDiv_uint_typed:
  assumes "is_uint256 a" "is_uint256 b" "preciseDiv_uint a b = Inr c"
  shows "is_uint256 c"
proof -
  have c: "a * 10 ^ 18 \<le> MAX_UINT_256" "0 < b" "c = a * 10 ^ 18 div b"
    using assms by (auto simp: preciseDiv_uint_eq_Inr is_uint256_def)
  have "is_uint256 (a * 10 ^ 18)" using c(1) assms(1) by (simp add: is_uint256_def)
  then show ?thesis unfolding c(3) using c(2) by (rule is_uint256_div)
qed

lemma getDirectOrInversePrice_typed:
  assumes "prices_typed rd adp" "getDirectOrInversePrice rd s x y = Inr (f, p)"
  shows "is_uint256 p"
  using assms preciseDiv_uint_typed [of preciseUnit]
  by (auto simp: getDirectOrInversePrice_def calculateInversePrice_def Let_def result_simps prices_typed_def preciseUnit_def
      split: if_splits)

lemma adapter_scan_typed:
  assumes "prices_typed rd adp" "adapter_scan adp as x y = Inr (f, p)"
  shows "is_uint256 p"
  using assms(2) assms(1)
  by (induction as) (auto simp: result_simps prices_typed_def split: if_splits)

lemma getPrice_typed:
  assumes "prices_typed rd adp" "getPrice rd adp c sender s x y = Inr p"
  shows "is_uint256 p"
proof -
  have master: "is_uint256 q" if "getPriceFromMasterQuote rd s x y = Inr (f, q)" for f q
    using that getDirectOrInversePrice_typed [OF assms(1)] preciseDiv_uint_typed
    by (fastforce simp: getPriceFromMasterQuote_def result_simps split: if_splits)
  from assms(2) show ?thesis
    using getDirectOrInversePrice_typed [OF assms(1)] master adapter_scan_typed [OF assms(1)]
    by (auto simp: getPrice_def getPriceFromAdapters_def result_simps split: if_splits)
qed

lemma valuation_Inr:
  "calculateSetTokenValuation rd adp dec oracle_at c this s quote = Inr v \<longleftrightarrow>
     (\<exists>po V. oracle_at (resourceId c 1) = Some po
        \<and> valuation_loop (master_price rd adp c this po) dec s (components s) 0 = Inr V \<and> 0 \<le> v
        \<and> (if masterQuoteAsset po = quote then v = V
           else \<exists>q. master_price rd adp c this po quote = Inr q \<and> q \<le> MAX_INT_256 \<and> preciseDiv_int V q = Inr v))"
  by (auto simp: calculateSetTokenValuation_def rid_getPriceOracle_def PRICE_ORACLE_RESOURCE_ID_def Let_def result_simps
      master_price_def [abs_def] split: option.splits)

text \<open>
  C20. A valuation succeeds only if every component has a price. Its result, in the master quote asset, is the
  sum over the components of units times price, debts subtracted, up to one unit and one base unit's price
  per component; in another asset it is that value divided by the asset's price, rounded towards zero. A
  negative value is never returned.
\<close>

theorem valuation_accuracy:
  assumes "prices_typed rd adp" "small_decimals dec (components s)" "oracle_at (resourceId c 1) = Some po"
    and run: "calculateSetTokenValuation rd adp dec oracle_at c this s quote = Inr v"
  shows "0 \<le> v \<and> (\<forall>k \<in> set (components s). \<exists>p. master_price rd adp c this po k = Inr p) \<and>
    (\<exists>V. \<bar>real_of_int V - (\<Sum>k\<leftarrow>components s. exact_value (master_price rd adp c this po) dec s k)\<bar>
          \<le> (\<Sum>k\<leftarrow>components s. rounding_slack (master_price rd adp c this po) k)
      \<and> v = (if masterQuoteAsset po = quote then V else tdiv (V * 10 ^ 18) (ok_value (master_price rd adp c this po quote))))"
proof -
  from run assms(3) obtain V where V: "valuation_loop (master_price rd adp c this po) dec s (components s) 0 = Inr V" "0 \<le> v"
    and v: "if masterQuoteAsset po = quote then v = V
      else \<exists>q. master_price rd adp c this po quote = Inr q \<and> preciseDiv_int V q = Inr v"
    by (auto simp: valuation_Inr split: if_splits)
  have price: "0 \<le> p" if "master_price rd adp c this po k = Inr p" for k p
    using getPrice_typed [OF assms(1)] that by (auto simp: master_price_def is_uint256_def)
  have "v = (if masterQuoteAsset po = quote then V else tdiv (V * 10 ^ 18) (ok_value (master_price rd adp c this po quote)))"
    using v by (auto simp: preciseDiv_int_def result_simps split: if_splits)
  with valuation_loop_error [OF assms(2) _ V(1)] price V(2) show ?thesis by auto
qed

subsection \<open>Availability\<close>

text \<open>
  A component that the valuer can handle: an oracle for it and the master quote asset, at most 36 decimals, and
  between zero and \<open>10 ^ 18\<close> whole tokens per Set.
\<close>

definition valuable :: "price_oracle \<Rightarrow> (address \<Rightarrow> int result) \<Rightarrow> set_token \<Rightarrow> address \<Rightarrow> bool" where
  "valuable po dec s k \<longleftrightarrow> has_oracle po k (masterQuoteAsset po) \<and>
     (\<exists>d u. dec k = Inr d \<and> 0 \<le> d \<and> d \<le> 36 \<and> getTotalComponentRealUnits s k = Inr u
        \<and> 0 \<le> u \<and> u \<le> 10 ^ 18 * 10 ^ nat d)"

lemma component_in_range:
  assumes "0 \<le> d" "d \<le> 36" "0 \<le> u" "u \<le> 10 ^ 18 * 10 ^ nat d" "0 < p" "p \<le> 10 ^ 36"
  shows "\<exists>n t. preciseDiv_int u (wrap_uint256 (10 ^ nat d)) = Inr n \<and> preciseMul_int n p = Inr t \<and> 0 \<le> t \<and> t \<le> 10 ^ 54"
proof -
  define b :: int where "b = 10 ^ nat d"
  have b: "0 < b" "b \<le> 10 ^ 36" using assms(1,2) power_increasing [of "nat d" 36 "10 :: int"] by (simp_all add: b_def)
  have u: "u * 10 ^ 18 \<le> b * 10 ^ 36" "u \<le> 10 ^ 18 * b" using assms(4) by (simp_all add: b_def)
  define n where "n = u * 10 ^ 18 div b"
  have n: "0 \<le> n" "n \<le> 10 ^ 36"
  proof -
    show "0 \<le> n" using assms(3) b(1) by (simp add: n_def pos_imp_zdiv_nonneg_iff)
    have "n * b \<le> u * 10 ^ 18" unfolding n_def by (rule div_mult_le_int [OF b(1)])
    also have "\<dots> \<le> 10 ^ 36 * b" using u(1) by simp
    finally show "n \<le> 10 ^ 36" using b(1) by (rule mult_right_le_imp_le)
  qed
  have div: "preciseDiv_int u b = Inr n"
  proof -
    have "b * 10 ^ 36 \<le> 10 ^ 36 * 10 ^ 36" using b by (intro mult_right_mono) simp_all
    with u(1) have "u * 10 ^ 18 \<le> 10 ^ 36 * 10 ^ 36" by (rule order_trans)
    then have "is_int256 (u * 10 ^ 18)" using assms(3) by (simp add: is_int256_def)
    moreover have "tdiv (u * 10 ^ 18) b = n" unfolding n_def using assms(3) b(1) by (intro tdiv_nonneg) simp_all
    moreover have "is_int256 n" using n by (simp add: is_int256_def)
    ultimately show ?thesis using b(1) by (simp add: preciseDiv_int_def rbind_eq_Inr smul_eq_Inr sdiv_eq_Inr del: power_numeral)
  qed
  have np: "0 \<le> n * p" "n * p \<le> 10 ^ 36 * 10 ^ 36" using n assms(5,6) by (simp, intro mult_mono) simp_all
  have "n * p div 10 ^ 18 \<le> 10 ^ 72 div 10 ^ 18" using np(2) by (intro zdiv_mono1) simp_all
  then have mul: "preciseMul_int n p = Inr (n * p div 10 ^ 18)" "n * p div 10 ^ 18 \<le> 10 ^ 54" "0 \<le> n * p div 10 ^ 18"
    using np by (simp_all add: preciseMul_int_def smul_def sdiv_def is_int256_def pos_imp_zdiv_nonneg_iff)
  have "wrap_uint256 (10 ^ nat d) = b" using wrap_power_of_ten [of "nat d"] assms(2) by (simp add: b_def)
  with div mul show ?thesis by auto
qed

lemma valuation_loop_available:
  assumes "\<And>k. k \<in> set ks \<Longrightarrow> valuable po dec s k" "\<And>k. k \<in> set ks \<Longrightarrow> price k = Inr (spot rd po k (masterQuoteAsset po))"
    "healthy rd po" "0 \<le> acc" "acc + int (length ks) * 10 ^ 54 \<le> 10 ^ 58"
  shows "\<exists>v. valuation_loop price dec s ks acc = Inr v \<and> 0 \<le> v \<and> v \<le> acc + int (length ks) * 10 ^ 54"
  using assms
proof (induction ks arbitrary: acc)
  case (Cons k ks)
  obtain d u where k: "has_oracle po k (masterQuoteAsset po)" "dec k = Inr d" "0 \<le> d" "d \<le> 36"
    "getTotalComponentRealUnits s k = Inr u" "0 \<le> u" "u \<le> 10 ^ 18 * 10 ^ nat d"
    using Cons.prems(1) [of k] by (auto simp: valuable_def)
  define p where "p = spot rd po k (masterQuoteAsset po)"
  have p: "0 < p" "p \<le> 10 ^ 36" using spot_bounds [OF Cons.prems(3) k(1)] by (simp_all add: p_def)
  obtain n t where t: "preciseDiv_int u (wrap_uint256 (10 ^ nat d)) = Inr n" "preciseMul_int n p = Inr t" "0 \<le> t" "t \<le> 10 ^ 54"
    using component_in_range [OF k(3,4,6,7) p] by blast
  have ten: "(10 :: int) ^ nat d \<le> 10 ^ 36" using k(4) power_increasing [of "nat d" 36 "10 :: int"] by simp
  have "toInt256 (wrap_uint256 (10 ^ nat d)) = Inr (wrap_uint256 (10 ^ nat d))" "toInt256 p = Inr p"
    using ten p(2) k(4) wrap_power_of_ten [of "nat d"] by (simp_all add: toInt256_eq_Inr)
  moreover have "sadd t acc = Inr (t + acc)" "0 \<le> t + acc" "t + acc + int (length ks) * 10 ^ 54 \<le> 10 ^ 58"
    using t(3,4) Cons.prems(4,5) by (simp_all add: sadd_eq_Inr is_int256_def algebra_simps)
  ultimately have step: "valuation_loop price dec s (k # ks) acc = valuation_loop price dec s ks (t + acc)"
    and nxt: "0 \<le> t + acc" "t + acc + int (length ks) * 10 ^ 54 \<le> 10 ^ 58"
    using Cons.prems(2) [of k] k(2,5) t(1,2) by (simp_all add: p_def Let_def)
  from Cons.IH [OF _ _ Cons.prems(3) nxt] Cons.prems(1,2) obtain v where
    "valuation_loop price dec s ks (t + acc) = Inr v" "0 \<le> v" "v \<le> t + acc + int (length ks) * 10 ^ 54" by auto
  then show ?case using step t(4) by (auto simp: algebra_simps)
qed simp

text \<open>
  C34. With healthy oracles that link every component and the quote asset to the master quote asset, a Set of
  at most 10000 components that the valuer can handle always has a value. An oracle for the master quote asset in
  itself is needed as soon as it is a component.
\<close>

theorem valuation_available:
  assumes "healthy rd po" "oracle_at (resourceId c 1) = Some po" "isSystemContract (po_controller po) c this"
    "\<forall>k \<in> set (components s). valuable po dec s k" "length (components s) \<le> 10000"
    "quote = masterQuoteAsset po \<or> has_oracle po quote (masterQuoteAsset po)"
  shows "\<exists>v. calculateSetTokenValuation rd adp dec oracle_at c this s quote = Inr v"
proof -
  have price: "master_price rd adp c this po k = Inr (spot rd po k (masterQuoteAsset po))"
    if "has_oracle po k (masterQuoteAsset po)" for k
    using that by (simp add: master_price_def getPrice_routes [OF assms(1,3)])
  have "int (length (components s)) * 10 ^ 54 \<le> 10000 * 10 ^ 54" using assms(5) by (intro mult_right_mono) simp_all
  then obtain V where V: "valuation_loop (master_price rd adp c this po) dec s (components s) 0 = Inr V" "0 \<le> V" "V \<le> 10 ^ 58"
    using valuation_loop_available [where acc = 0 and ks = "components s" and price = "master_price rd adp c this po"
        and rd = rd and dec = dec and s = s and po = po] assms(1,4) price
    by (fastforce simp: valuable_def)
  show ?thesis
  proof (cases "masterQuoteAsset po = quote")
    case True
    then show ?thesis using V assms(2) by (auto simp: valuation_Inr)
  next
    case False
    then have h: "has_oracle po quote (masterQuoteAsset po)" using assms(6) by auto
    define q where "q = spot rd po quote (masterQuoteAsset po)"
    have q: "0 < q" "q \<le> 10 ^ 36" using spot_bounds [OF assms(1) h] by (simp_all add: q_def)
    have r: "0 \<le> V * 10 ^ 18 div q" using V(2) q(1) by (simp add: pos_imp_zdiv_nonneg_iff)
    have "V * 10 ^ 18 div q \<le> V * 10 ^ 18 div 1" using V(2) q(1) by (intro zdiv_mono2) simp_all
    then have "preciseDiv_int V q = Inr (V * 10 ^ 18 div q)"
      using V(2,3) q(1) r by (simp add: preciseDiv_int_def smul_def sdiv_def is_int256_def)
    then show ?thesis using False V assms(2) q r price [OF h] by (auto simp: valuation_Inr q_def)
  qed
qed

text \<open>Prices for the two components of the example Set, in 12.\<close>

definition valuer_oracle :: price_oracle where
  "valuer_oracle = \<lparr>po_owner = 1, po_controller = 5,
     oracles = (\<lambda>x y. if (x, y) = (1, 12) then 60 else if (x, y) = (12, 2) then 61 else 0),
     masterQuoteAsset = 12, po_adapters = []\<rparr>"

lemma valuer_healthy: "healthy demo_read valuer_oracle"
  by (simp add: healthy_def demo_read_def valuer_oracle_def)

lemma demo_units: "getTotalComponentRealUnits demo_set 1 = Inr (3 * 10 ^ 18)" "getTotalComponentRealUnits demo_set 2 = Inr (5 * 10 ^ 17)"
  by code_simp+

theorem valuation_available_witness:
  "\<exists>v. calculateSetTokenValuation demo_read (\<lambda>_ _ _. Ok (False, 0)) (\<lambda>_. Ok 18) (\<lambda>_. Some valuer_oracle) demo_controller 7
     demo_set 12 = Inr v"
proof (rule valuation_available [OF valuer_healthy])
  show "isSystemContract (po_controller valuer_oracle) demo_controller 7"
    by (simp add: isSystemContract_def demo_controller_def)
  show "\<forall>k \<in> set (components demo_set). valuable valuer_oracle (\<lambda>_. Ok 18) demo_set k"
    using demo_units by (simp add: valuable_def has_oracle_def valuer_oracle_def demo_set_def)
qed (simp_all add: demo_set_def valuer_oracle_def)

theorem valuation_accuracy_witness:
  "calculateSetTokenValuation demo_read (\<lambda>_ _ _. Ok (False, 0)) (\<lambda>_. Ok 18) (\<lambda>_. Some valuer_oracle) demo_controller 7
     demo_set 12 = Ok (690125 * 10 ^ 15)
   \<and> (\<exists>V. \<bar>real_of_int V - (\<Sum>k\<leftarrow>components demo_set. exact_value (master_price demo_read (\<lambda>_ _ _. Ok (False, 0)) demo_controller 7 valuer_oracle)
            (\<lambda>_. Ok 18) demo_set k)\<bar>
          \<le> (\<Sum>k\<leftarrow>components demo_set. rounding_slack (master_price demo_read (\<lambda>_ _ _. Ok (False, 0)) demo_controller 7 valuer_oracle) k)
      \<and> V = 690125 * 10 ^ 15)"
proof -
  have run: "calculateSetTokenValuation demo_read (\<lambda>_ _ _. Ok (False, 0)) (\<lambda>_. Ok 18) (\<lambda>_. Some valuer_oracle) demo_controller 7
     demo_set 12 = Ok (690125 * 10 ^ 15)" by code_simp
  have typed: "prices_typed demo_read (\<lambda>_ _ _. Ok (False, 0))" by (auto simp: prices_typed_def demo_read_def is_uint256_def)
  have dec: "small_decimals (\<lambda>_. Ok 18) (components demo_set)" by (simp add: small_decimals_def)
  have "masterQuoteAsset valuer_oracle = 12" by (simp add: valuer_oracle_def)
  with valuation_accuracy [OF typed dec refl run] run show ?thesis by auto
qed

end
