(* ===== verification/TradeModule.thy ===== *)
theory TradeModule
  imports BasicIssuanceModule IntegrationRegistry
begin

section \<open>The TradeModule\<close>

text \<open>
  \<^verbatim>\<open>src/contracts/protocol/modules/v1/TradeModule.sol\<close>: the manager of a Set exchanges one component for
  another on an exchange, through an adapter registered in the \<open>IntegrationRegistry\<close>. The state is
  that of the theory \<open>Invoke\<close>, with \<open>module_entered\<close> the reentrancy guard of this module. The exchange is reached
  by \<open>invoke\<close>, the adapter only computes calldata: both are code outside the system, the fields of
  \<open>foreign\<close> and of \<open>adapters\<close>.

  The locale \<open>quiet_calls\<close> is all that the theorem relies on: balances can be read, and foreign code does not
  change the Set or the controller behind the module's back. Nothing is assumed about what the exchange or the
  tokens do with balances. The interface \<open>component_tokens\<close> of issuance gives this one (\<open>sublocale\<close>).
\<close>

record 'w adapters =
  name_hash :: "string \<Rightarrow> nat"
  registry_at :: "'w evm \<Rightarrow> address \<Rightarrow> integration_registry option"
  getSpender :: "address \<Rightarrow> 'w evm \<Rightarrow> address result"
  getTradeCalldata :: "address \<Rightarrow> address \<Rightarrow> address \<Rightarrow> address \<Rightarrow> int \<Rightarrow> int \<Rightarrow> bytes \<Rightarrow> 'w evm \<Rightarrow> (address \<times> int \<times> bytes) result"

text \<open>The struct; the field \<open>setToken\<close> is the argument \<open>self\<close> of the functions.\<close>

record TradeInfo =
  exchangeAdapter :: address
  sendToken :: address
  receiveToken :: address
  setTotalSupply :: int
  totalSendQuantity :: int
  totalMinReceiveQuantity :: int
  preTradeSendTokenBalance :: int
  preTradeReceiveTokenBalance :: int

definition TRADE_MODULE_PROTOCOL_FEE_INDEX :: int where
  "TRADE_MODULE_PROTOCOL_FEE_INDEX = 0"

definition trade_initialize :: "address \<Rightarrow> address \<Rightarrow> address \<Rightarrow> 'w evm \<Rightarrow> ('w evm) result" where
  "trade_initialize this msg_sender self e =
     rbind (validateOnlyValidAndPendingSet this (the_controller e) self (the_set e)) (\<lambda>_.
     rbind (validateOnlySetManager msg_sender (the_set e)) (\<lambda>_.
     on_set (\<lambda>c s. initializeModule this s) e))"

definition trade_removeModule :: "'w evm \<Rightarrow> ('w evm) result" where
  "trade_removeModule e = Ok e"

definition createTradeInfo ::
  "'w foreign \<Rightarrow> 'w adapters \<Rightarrow> address \<Rightarrow> address \<Rightarrow> string \<Rightarrow> address \<Rightarrow> address \<Rightarrow> int \<Rightarrow> int \<Rightarrow> 'w evm \<Rightarrow> TradeInfo result" where
  "createTradeInfo F A this self exchangeName sendToken0 receiveToken0 sendQuantity minReceiveQuantity e =
     rbind (getAndValidateAdapter (name_hash A) (registry_at A e) (the_controller e) this exchangeName) (\<lambda>adapter.
     let supply = totalSupply (the_set e) in
     rbind (getDefaultTotalNotional supply sendQuantity) (\<lambda>totalSend.
     rbind (getDefaultTotalNotional supply minReceiveQuantity) (\<lambda>totalMin.
     rbind (balance_of F sendToken0 self e) (\<lambda>preSend.
     rbind (balance_of F receiveToken0 self e) (\<lambda>preReceive.
     Ok \<lparr>exchangeAdapter = adapter, sendToken = sendToken0, receiveToken = receiveToken0, setTotalSupply = supply,
         totalSendQuantity = totalSend, totalMinReceiveQuantity = totalMin,
         preTradeSendTokenBalance = preSend, preTradeReceiveTokenBalance = preReceive\<rparr>)))))"

definition validatePreTradeData :: "TradeInfo \<Rightarrow> int \<Rightarrow> 'w evm \<Rightarrow> unit result" where
  "validatePreTradeData ti sendQuantity e =
     rbind (require (totalSendQuantity ti > 0) ''Token to sell must be nonzero'') (\<lambda>_.
     rbind (hasSufficientDefaultUnits (the_set e) (sendToken ti) sendQuantity) (\<lambda>enough.
     require enough ''Unit cant be greater than existing''))"

definition executeTrade ::
  "'w foreign \<Rightarrow> 'w adapters \<Rightarrow> address \<Rightarrow> address \<Rightarrow> TradeInfo \<Rightarrow> bytes \<Rightarrow> 'w evm \<Rightarrow> ('w evm) result" where
  "executeTrade F A this self ti data e =
     rbind (getSpender A (exchangeAdapter ti) e) (\<lambda>spender.
     rbind (invokeApprove F this self (sendToken ti) spender (totalSendQuantity ti) e) (\<lambda>e1.
     rbind (getTradeCalldata A (exchangeAdapter ti) (sendToken ti) (receiveToken ti) self (totalSendQuantity ti)
              (totalMinReceiveQuantity ti) data e1) (\<lambda>(targetExchange, callValue, methodData).
     set_invoke F this self targetExchange callValue methodData e1)))"

definition validatePostTrade :: "'w foreign \<Rightarrow> address \<Rightarrow> TradeInfo \<Rightarrow> 'w evm \<Rightarrow> int result" where
  "validatePostTrade F self ti e =
     rbind (balance_of F (receiveToken ti) self e) (\<lambda>b.
     rbind (safe_sub b (preTradeReceiveTokenBalance ti)) (\<lambda>exchangedQuantity.
     rbind (require (exchangedQuantity \<ge> totalMinReceiveQuantity ti) ''Slippage greater than allowed'') (\<lambda>_.
     Ok exchangedQuantity)))"

definition accrueProtocolFee ::
  "'w foreign \<Rightarrow> address \<Rightarrow> address \<Rightarrow> TradeInfo \<Rightarrow> int \<Rightarrow> 'w evm \<Rightarrow> (int \<times> 'w evm) result" where
  "accrueProtocolFee F this self ti exchangedQuantity e =
     rbind (base_getModuleFee this (the_controller e) TRADE_MODULE_PROTOCOL_FEE_INDEX exchangedQuantity) (\<lambda>protocolFeeTotal.
     rbind (payProtocolFeeFromSetToken F this self (receiveToken ti) protocolFeeTotal e) (\<lambda>e1.
     Ok (protocolFeeTotal, e1)))"

text \<open>\<open>setToken.calculateAndEditDefaultPosition\<close> reads the balance of the component itself.\<close>

definition edit_from_balance ::
  "'w foreign \<Rightarrow> address \<Rightarrow> address \<Rightarrow> address \<Rightarrow> int \<Rightarrow> int \<Rightarrow> 'w evm \<Rightarrow> (int \<times> 'w evm) result" where
  "edit_from_balance F this self k supply previous e =
     rbind (balance_of F k self e) (\<lambda>b.
     rbind (calculateAndEditDefaultPosition this (the_controller e) k b supply previous (the_set e)) (\<lambda>(s, current, _, _).
     Ok (current, e\<lparr>the_set := s\<rparr>)))"

definition updateSetTokenPositions ::
  "'w foreign \<Rightarrow> address \<Rightarrow> address \<Rightarrow> TradeInfo \<Rightarrow> 'w evm \<Rightarrow> (int \<times> int \<times> 'w evm) result" where
  "updateSetTokenPositions F this self ti e =
     rbind (edit_from_balance F this self (sendToken ti) (setTotalSupply ti) (preTradeSendTokenBalance ti) e)
       (\<lambda>(currentSendTokenBalance, e1).
     rbind (edit_from_balance F this self (receiveToken ti) (setTotalSupply ti) (preTradeReceiveTokenBalance ti) e1)
       (\<lambda>(currentReceiveTokenBalance, e2).
     rbind (safe_sub (preTradeSendTokenBalance ti) currentSendTokenBalance) (\<lambda>netSend.
     rbind (safe_sub currentReceiveTokenBalance (preTradeReceiveTokenBalance ti)) (\<lambda>netReceive.
     Ok (netSend, netReceive, e2)))))"

definition trade ::
  "'w foreign \<Rightarrow> 'w adapters \<Rightarrow> address \<Rightarrow> address \<Rightarrow> address \<Rightarrow> string \<Rightarrow> address \<Rightarrow> int \<Rightarrow> address \<Rightarrow> int \<Rightarrow> bytes \<Rightarrow>
   'w evm \<Rightarrow> ('w evm) result" where
  "trade F A this msg_sender self exchangeName sendToken0 sendQuantity receiveToken0 minReceiveQuantity data =
     nonReentrant (\<lambda>e.
     rbind (validateOnlyManagerAndValidSet this msg_sender (the_controller e) self (the_set e)) (\<lambda>_.
     rbind (createTradeInfo F A this self exchangeName sendToken0 receiveToken0 sendQuantity minReceiveQuantity e) (\<lambda>ti.
     rbind (validatePreTradeData ti sendQuantity e) (\<lambda>_.
     rbind (executeTrade F A this self ti data e) (\<lambda>e1.
     rbind (validatePostTrade F self ti e1) (\<lambda>exchangedQuantity.
     rbind (accrueProtocolFee F this self ti exchangedQuantity e1) (\<lambda>(protocolFee, e2).
     rbind (updateSetTokenPositions F this self ti e2) (\<lambda>(netSendAmount, netReceiveAmount, e3).
     Ok e3))))))))"

subsection \<open>Foreign code that leaves the Set alone\<close>

locale quiet_calls =
  fixes F :: "'w foreign"
    and self :: address
    and bal :: "address \<Rightarrow> address \<Rightarrow> 'w evm \<Rightarrow> int"
    and wf :: "'w evm \<Rightarrow> bool"
  assumes readable: "t \<noteq> self \<Longrightarrow> balance_of F t a e = Inr (bal t a e)"
    and bal_typed: "wf e \<Longrightarrow> is_uint256 (bal t a e)"
    and own_state: "outside e' = outside e \<Longrightarrow> bal t a e' = bal t a e \<and> (wf e' \<longleftrightarrow> wf e)"
    and call_keeps: "wf e \<Longrightarrow> t \<noteq> self \<Longrightarrow> functionCallWithValue F self t v d e = Inr (e', ret) \<Longrightarrow>
      wf e' \<and> the_set e' = the_set e \<and> the_controller e' = the_controller e"
begin

lemma invoke_keeps:
  assumes "wf e" "t \<noteq> self" "set_invoke F this self t v d e = Inr e'"
  shows "wf e' \<and> the_set e' = the_set e \<and> the_controller e' = the_controller e"
  using assms call_keeps [of e t v d e'] by (auto simp: set_invoke_def invoke_def result_simps)

lemma executeTrade_keeps:
  assumes "wf e" "sendToken ti \<noteq> self" "executeTrade F A this self ti data e = Inr e'"
    "\<And>e1 t v d. getTradeCalldata A (exchangeAdapter ti) (sendToken ti) (receiveToken ti) self (totalSendQuantity ti)
       (totalMinReceiveQuantity ti) data e1 = Inr (t, v, d) \<Longrightarrow> t \<noteq> self"
  shows "wf e' \<and> the_set e' = the_set e \<and> the_controller e' = the_controller e"
proof -
  obtain d0 e1 t v d where 1: "set_invoke F this self (sendToken ti) 0 d0 e = Inr e1"
    and cd: "getTradeCalldata A (exchangeAdapter ti) (sendToken ti) (receiveToken ti) self (totalSendQuantity ti)
       (totalMinReceiveQuantity ti) data e1 = Inr (t, v, d)" and 2: "set_invoke F this self t v d e1 = Inr e'"
    using assms(3) by (auto simp: executeTrade_def invokeApprove_def Let_def rbind_eq_Inr)
  show ?thesis using invoke_keeps [OF assms(1,2) 1] invoke_keeps [OF _ assms(4) [OF cd] 2] by simp
qed

lemma strict_transfer:
  assumes "wf e" "t \<noteq> self" "is_uint256 n" "strictInvokeTransfer F this self t y n e = Inr e'"
  shows "wf e' \<and> the_set e' = the_set e \<and> the_controller e' = the_controller e \<and> bal t self e' = bal t self e - n"
proof (cases "0 < n")
  case True
  then obtain d k where e': "set_invoke F this self t 0 d e = Inr e'" and k: "safe_sub (bal t self e) n = Inr k" "bal t self e' = k"
    using assms(2,4) by (auto simp: strictInvokeTransfer_def invokeTransfer_def Let_def rbind_eq_Inr require_eq_Inr readable)
  have "k = bal t self e - n" using k(1) bal_typed [OF assms(1)] assms(3) by (simp add: safe_sub_eq_Inr)
  then show ?thesis using invoke_keeps [OF assms(1,2) e'] k(2) by simp
next
  case False
  then show ?thesis using assms by (auto simp: strictInvokeTransfer_def is_uint256_def)
qed

lemma fee_payment:
  assumes "wf e" "t \<noteq> self" "0 \<le> n" "is_uint256 n" "payProtocolFeeFromSetToken F this self t n e = Inr e'"
  shows "wf e' \<and> the_set e' = the_set e \<and> the_controller e' = the_controller e \<and> bal t self e' = bal t self e - n"
  using assms strict_transfer [OF assms(1,2,4)] by (auto simp: payProtocolFeeFromSetToken_def split: if_splits)

end

sublocale component_tokens \<subseteq> quiet: quiet_calls F self bal wf
  by unfold_locales (use readable bal_typed own_state call_law in blast)+

context component_tokens
begin

lemma calls_quiet: "quiet_calls F self bal wf"
  by unfold_locales

end

lemma quiet_calls_beside:
  fixes F :: "'w foreign" and P :: "'s \<Rightarrow> bool"
  assumes "quiet_calls F self bal ok"
  shows "quiet_calls (beside F) self (\<lambda>t a e. bal t a (bare e)) (\<lambda>e. ok (bare e) \<and> P (fst (outside e)))"
proof
  fix e e' :: "('s \<times> 'w) evm" and t a v d ret
  show "t \<noteq> self \<Longrightarrow> balance_of (beside F) t a e = Inr (bal t a (bare e))"
    using quiet_calls.readable [OF assms] by (simp add: beside_def)
  show "ok (bare e) \<and> P (fst (outside e)) \<Longrightarrow> is_uint256 (bal t a (bare e))"
    using quiet_calls.bal_typed [OF assms] by blast
  show "bal t a (bare e') = bal t a (bare e) \<and> (ok (bare e') \<and> P (fst (outside e'))) = (ok (bare e) \<and> P (fst (outside e)))"
    if "outside e' = outside e"
    using quiet_calls.own_state [OF assms, of "bare e'" "bare e"] that by simp
  assume "ok (bare e) \<and> P (fst (outside e))" "t \<noteq> self" "functionCallWithValue (beside F) self t v d e = Inr (e', ret)"
  then show "(ok (bare e') \<and> P (fst (outside e'))) \<and> the_set e' = the_set e \<and> the_controller e' = the_controller e"
    using quiet_calls.call_keeps [OF assms, of "bare e" t v d] by (auto simp: beside_def rbind_eq_Inr)
qed

subsection \<open>Editing a position from a balance\<close>

lemma editDefaultPosition_frame:
  assumes "editDefaultPosition this c k n s = Inr s'"
  shows "totalSupply s' = totalSupply s \<and> balances s' = balances s \<and> manager s' = manager s \<and> moduleStates s' = moduleStates s
    \<and> isLocked s' = isLocked s \<and> locker s' = locker s \<and> positionMultiplier s' = positionMultiplier s
    \<and> (\<forall>j. j \<noteq> k \<longrightarrow> componentPositions s' j = componentPositions s j)"
proof -
  obtain s1 n' where s1: "s1 = s \<or> addComponent this c k s = Inr s1 \<or> removeComponent this c k s = Inr s1"
    and e: "editDefaultPositionUnit this c k n' s1 = Inr s'"
    using assms by (auto simp: editDefaultPosition_def rbind_eq_Inr split: if_splits)
  have "totalSupply s1 = totalSupply s \<and> balances s1 = balances s \<and> manager s1 = manager s \<and> moduleStates s1 = moduleStates s
    \<and> isLocked s1 = isLocked s \<and> locker s1 = locker s \<and> positionMultiplier s1 = positionMultiplier s
    \<and> componentPositions s1 = componentPositions s"
    using s1 by (auto simp: addComponent_def removeComponent_def result_simps)
  then show ?thesis using editDefaultPositionUnit_Inr [OF e] by auto
qed

lemma written_unit_le:
  assumes "units_ok s" "is_int256 n" "editDefaultPositionUnit this c k n s = Inr s'" "getDefaultPositionRealUnit s' k = Inr r"
  shows "r \<le> n"
proof -
  obtain v where v: "convertRealToVirtualUnit s n = Inr v"
    and s': "s' = s\<lparr>componentPositions := (componentPositions s)(k := (componentPositions s k)\<lparr>virtualUnit := v\<rparr>)\<rparr>"
    using editDefaultPositionUnit_Inr [OF assms(3)] by blast
  have "convertVirtualToRealUnit s v = Inr r" using assms(4) by (simp add: s' real_unit_defs)
  then show ?thesis using convert_round_trip [OF assms(1,2) v] by blast
qed

text \<open>An edit with a unit that a balance covers leaves a position that the balance covers.\<close>

lemma edit_covers:
  assumes "tracking s" "0 \<le> n" "0 \<le> supply" "supply * n \<le> b * PRECISE_UNIT" "editDefaultPosition this c k n s = Inr s'"
  shows "tracking s' \<and> (\<exists>r. getDefaultPositionRealUnit s' k = Inr r \<and> 0 \<le> r \<and> supply * r \<le> b * PRECISE_UNIT)
    \<and> (\<forall>j. j \<noteq> k \<longrightarrow> getDefaultPositionRealUnit s' j = getDefaultPositionRealUnit s j)"
proof -
  obtain s1 where s1: "editDefaultPositionUnit this c k n s1 = Inr s'" "n \<le> MAX_INT_256" "position_inv s1"
    using edit_default_steps [OF assms(1,5,2)] by blast
  have tr: "tracking s'" by (rule editDefaultPosition_tracking [OF assms(1,2,5)])
  then obtain r where r: "getDefaultPositionRealUnit s' k = Inr r" "0 \<le> r"
    using tracking_D [OF tr, of k] by (auto simp: tracked_def)
  have "r \<le> n"
    using written_unit_le [OF _ _ s1(1) r(1)] position_inv_at [OF s1(3)] assms(2) s1(2) by (simp add: is_int256_def)
  then have "supply * r \<le> supply * n" using assms(3) by (intro mult_left_mono)
  moreover have "getDefaultPositionRealUnit s' j = getDefaultPositionRealUnit s j" if "j \<noteq> k" for j
    using editDefaultPosition_frame [OF assms(5)] that by (intro real_unit_cong) simp_all
  ultimately show ?thesis using r tr assms(4) by fastforce
qed

text \<open>The unit that is written never claims more than the balance it was computed from.\<close>

lemma recomputed_unit:
  assumes "tracking s" "is_uint256 b" "is_uint256 supply" "is_uint256 prev"
    "calculateAndEditDefaultPosition this c k b supply prev s = Inr (s', cur, p, n)"
  shows "tracking s' \<and> cur = b \<and> editDefaultPosition this c k n s = Inr s'
    \<and> (\<exists>r. getDefaultPositionRealUnit s' k = Inr r \<and> 0 \<le> r \<and> supply * r \<le> b * PRECISE_UNIT)"
proof -
  have p: "getDefaultPositionRealUnit s k = Inr p" "0 \<le> p"
    and n: "(if b > 0 then calculateDefaultEditPositionUnit supply prev b p else Ok 0) = Inr n"
    and e: "editDefaultPosition this c k n s = Inr s'" and cur: "cur = b"
    using assms(5) by (auto simp: calculateAndEditDefaultPosition_def rbind_eq_Inr toUint256_eq_Inr)
  have typed: "is_uint256 p"
    using p real_unit_typed [OF tracking_inv [OF assms(1)] p(1)] by (simp add: is_int256_def is_uint256_def)
  have bound: "0 \<le> n \<and> supply * n \<le> b * PRECISE_UNIT"
  proof (cases "0 < b")
    case True
    let ?t = "p * supply div PRECISE_UNIT"
    have C: "0 < supply" "0 \<le> n" "?t \<le> prev" "n = (b - (prev - ?t)) * PRECISE_UNIT div supply"
      using calculateDefaultEditPositionUnit_Inr [OF assms(3,4,2) typed] n True by auto
    have "n * supply \<le> (b - (prev - ?t)) * PRECISE_UNIT" using div_mult_le_int [OF C(1)] C(4) by simp
    also have "\<dots> \<le> b * PRECISE_UNIT" using C(3) by (intro mult_right_mono) simp_all
    finally show ?thesis using C(2) by (simp add: mult.commute)
  next
    case False
    then show ?thesis using n assms(2) by (auto simp: is_uint256_def)
  qed
  show ?thesis using edit_covers [OF assms(1) _ _ _ e, of "supply" b] bound assms(3) cur e by (simp add: is_uint256_def)
qed

context quiet_calls
begin

lemma edit_from_balance_Inr:
  assumes "wf e" "k \<noteq> self" "tracking (the_set e)" "is_uint256 supply" "is_uint256 prev"
    "edit_from_balance F this self k supply prev e = Inr (cur, e')"
  shows "cur = bal k self e \<and> outside e' = outside e \<and> the_controller e' = the_controller e \<and> tracking (the_set e')
    \<and> (\<exists>n. editDefaultPosition this (the_controller e) k n (the_set e) = Inr (the_set e'))
    \<and> (\<exists>r. getDefaultPositionRealUnit (the_set e') k = Inr r \<and> 0 \<le> r \<and> supply * r \<le> bal k self e * PRECISE_UNIT)"
proof -
  obtain s p n where s: "calculateAndEditDefaultPosition this (the_controller e) k (bal k self e) supply prev (the_set e) = Inr (s, cur, p, n)"
    and e': "e' = e\<lparr>the_set := s\<rparr>"
    using assms(2,6) by (auto simp: edit_from_balance_def rbind_eq_Inr readable)
  show ?thesis using recomputed_unit [OF assms(3) bal_typed [OF assms(1)] assms(4,5) s] by (auto simp: e')
qed

text \<open>What the position of a token is worth, and whether the Set's balance covers it.\<close>

definition covered :: "address \<Rightarrow> 'w evm \<Rightarrow> bool" where
  "covered k e \<longleftrightarrow> (\<exists>r. getDefaultPositionRealUnit (the_set e) k = Inr r \<and> 0 \<le> r
     \<and> totalSupply (the_set e) * r \<le> bal k self e * PRECISE_UNIT)"

lemma update_positions:
  assumes "wf e" "tracking (the_set e)" "is_uint256 (totalSupply (the_set e))" "setTotalSupply ti = totalSupply (the_set e)"
    "sendToken ti \<noteq> receiveToken ti" "sendToken ti \<noteq> self" "receiveToken ti \<noteq> self"
    "is_uint256 (preTradeSendTokenBalance ti)" "is_uint256 (preTradeReceiveTokenBalance ti)"
    "updateSetTokenPositions F this self ti e = Inr (a, b, e')"
  shows "outside e' = outside e \<and> tracking (the_set e') \<and> totalSupply (the_set e') = totalSupply (the_set e)
    \<and> manager (the_set e') = manager (the_set e)
    \<and> covered (sendToken ti) e' \<and> covered (receiveToken ti) e'
    \<and> (\<forall>k. k \<noteq> sendToken ti \<longrightarrow> k \<noteq> receiveToken ti \<longrightarrow> componentPositions (the_set e') k = componentPositions (the_set e) k)"
proof -
  let ?x = "sendToken ti" and ?y = "receiveToken ti" and ?n = "totalSupply (the_set e)"
  obtain cx cy e1 where 1: "edit_from_balance F this self ?x ?n (preTradeSendTokenBalance ti) e = Inr (cx, e1)"
    and 2: "edit_from_balance F this self ?y ?n (preTradeReceiveTokenBalance ti) e1 = Inr (cy, e')"
    using assms(10) by (auto simp: updateSetTokenPositions_def rbind_eq_Inr assms(4))
  note S1 = edit_from_balance_Inr [OF assms(1,6,2,3,8) 1]
  then have "wf e1" "tracking (the_set e1)" using own_state [of e1 e] assms(1) by auto
  note S2 = edit_from_balance_Inr [OF this(1) assms(7) this(2) assms(3,9) 2]
  have out: "outside e1 = outside e" "outside e' = outside e" using S1 S2 by simp_all
  have bals: "bal t a e1 = bal t a e" "bal t a e' = bal t a e" for t a using own_state out by blast+
  obtain m n where F1: "editDefaultPosition this (the_controller e) ?x m (the_set e) = Inr (the_set e1)"
    and F2: "editDefaultPosition this (the_controller e1) ?y n (the_set e1) = Inr (the_set e')" using S1 S2 by blast
  note fr = editDefaultPosition_frame [OF F1] editDefaultPosition_frame [OF F2]
  have "getDefaultPositionRealUnit (the_set e') ?x = getDefaultPositionRealUnit (the_set e1) ?x"
    using fr(2) assms(5) by (intro real_unit_cong) simp_all
  then have "covered ?x e'" "covered ?y e'" using S1 S2 fr bals by (auto simp: covered_def)
  then show ?thesis using fr S2 out by simp
qed

end

context quiet_calls
begin

lemma trade_Inr:
  assumes ok: "wf e" "tracking (the_set e)" "is_uint256 (totalSupply (the_set e))" "is_uint256 (getModuleFee (the_controller e) this 0)"
    "is_uint256 sq" "is_uint256 mq" "x \<noteq> y" "x \<noteq> self" "y \<noteq> self"
    and target: "\<forall>a n m e1 t v d. getTradeCalldata A a x y self n m data e1 = Inr (t, v, d) \<longrightarrow> t \<noteq> self"
    and run: "trade F A this sender self nm x sq y mq data e = Inr e'"
  shows "sender = manager (the_set e) \<and> isSetValidAndInitialized this (the_controller e) self (the_set e)
    \<and> tracking (the_set e') \<and> totalSupply (the_set e') = totalSupply (the_set e)
    \<and> (\<exists>u. getDefaultPositionRealUnit (the_set e) x = Inr u \<and> sq \<le> u)
    \<and> (\<exists>got. totalSupply (the_set e) * mq div PRECISE_UNIT \<le> got
         \<and> bal y self e' = bal y self e + got - got * getModuleFee (the_controller e) this 0 div PRECISE_UNIT)
    \<and> covered x e' \<and> covered y e'
    \<and> (\<forall>k. k \<noteq> x \<longrightarrow> k \<noteq> y \<longrightarrow> componentPositions (the_set e') k = componentPositions (the_set e) k)"
proof -
  let ?e = "e\<lparr>module_entered := True\<rparr>" and ?n = "totalSupply (the_set e)" and ?fee = "getModuleFee (the_controller e) this 0"
  have e: "wf ?e" "bal t a ?e = bal t a e" for t a using own_state [of ?e e] ok(1) by simp_all
  obtain ti e1 got fee e2 ns nr e3 where guard: "validateOnlyManagerAndValidSet this sender (the_controller e) self (the_set e) = Inr ()"
    and ti: "createTradeInfo F A this self nm x y sq mq ?e = Inr ti" and pre: "validatePreTradeData ti sq ?e = Inr ()"
    and ex: "executeTrade F A this self ti data ?e = Inr e1" and post: "validatePostTrade F self ti e1 = Inr got"
    and fee: "accrueProtocolFee F this self ti got e1 = Inr (fee, e2)"
    and upd: "updateSetTokenPositions F this self ti e2 = Inr (ns, nr, e3)" and e': "e' = e3\<lparr>module_entered := False\<rparr>"
    using run by (auto simp: trade_def nonReentrant_def rbind_eq_Inr)
  have T: "sendToken ti = x" "receiveToken ti = y" "setTotalSupply ti = ?n" "totalMinReceiveQuantity ti = ?n * mq div PRECISE_UNIT"
    "preTradeSendTokenBalance ti = bal x self e" "preTradeReceiveTokenBalance ti = bal y self e"
    using ti ok(3,6,8,9) e(2) by (auto simp: createTradeInfo_def Let_def rbind_eq_Inr readable getDefaultTotalNotional_def preciseMul_uint_eq_Inr)
  have K1: "wf e1" "the_set e1 = the_set e" "the_controller e1 = the_controller e"
    using executeTrade_keeps [OF e(1) _ ex] target ok(8) T by auto
  have got: "?n * mq div PRECISE_UNIT \<le> got" "bal y self e1 = bal y self e + got" "is_uint256 got"
    using post ok(9) bal_typed [OF ok(1)] bal_typed [OF K1(1)] by (auto simp: validatePostTrade_def rbind_eq_Inr require_eq_Inr readable T safe_sub_eq_Inr is_uint256_diff)
  have f: "fee = got * ?fee div PRECISE_UNIT" "is_uint256 fee" "payProtocolFeeFromSetToken F this self y fee e1 = Inr e2"
    using fee got(3) ok(4) by (auto simp: accrueProtocolFee_def base_getModuleFee_def rbind_eq_Inr preciseMul_uint_eq_Inr T K1
        TRADE_MODULE_PROTOCOL_FEE_INDEX_def intro!: is_uint256_div is_uint256_mult)
  have K2: "wf e2" "the_set e2 = the_set e" "bal y self e2 = bal y self e1 - fee"
    using fee_payment [OF K1(1) ok(9) _ f(2,3)] f(2) K1 by (auto simp: is_uint256_def)
  have U: "outside e3 = outside e2 \<and> tracking (the_set e3) \<and> totalSupply (the_set e3) = ?n \<and> manager (the_set e3) = manager (the_set e)
      \<and> covered x e3 \<and> covered y e3 \<and> (\<forall>k. k \<noteq> x \<longrightarrow> k \<noteq> y \<longrightarrow> componentPositions (the_set e3) k = componentPositions (the_set e) k)"
    using update_positions [OF K2(1) _ _ _ _ _ _ _ _ upd] ok T K2(2) bal_typed [OF ok(1)] by simp
  have E: "bal t a e3 = bal t a e2" "bal t a e' = bal t a e3" for t a using own_state [of e3 e2] own_state [of e' e3] U e' by simp_all
  have "covered k e' = covered k e3" for k using E(2) by (simp add: covered_def e')
  moreover have "\<exists>u. getDefaultPositionRealUnit (the_set e) x = Inr u \<and> sq \<le> u"
    using pre by (auto simp: validatePreTradeData_def hasSufficientDefaultUnits_def rbind_eq_Inr require_eq_Inr toInt256_eq_Inr T)
  moreover have "bal y self e' = bal y self e + got - got * ?fee div PRECISE_UNIT" using E K2(3) got(2) f(1) by simp
  moreover have "sender = manager (the_set e)" "isSetValidAndInitialized this (the_controller e) self (the_set e)"
    using guard by (auto simp: validateOnlyManagerAndValidSet_def isSetManager_def result_simps)
  ultimately show ?thesis using U got(1) e' by auto
qed

end

subsection \<open>A market\<close>

text \<open>
  An exchange at the address 77 that pays token 2 for token 1, one for one, for all it is allowed to
  take, beside tokens that are ERC20 contracts.
\<close>

definition market_swap :: "address \<Rightarrow> (address \<Rightarrow> erc20) evm \<Rightarrow> ((address \<Rightarrow> erc20) evm) result" where
  "market_swap caller e = (let n = allowances (outside e 1) caller 77 in
     rbind (update_token 1 e (transferFrom 77 caller 77 n (outside e 1))) (\<lambda>e1.
     update_token 2 e1 (transfer 77 caller n (outside e1 2))))"

definition market_foreign :: "(address \<Rightarrow> erc20) foreign" where
  "market_foreign = ledger_foreign\<lparr>functionCallWithValue := (\<lambda>caller t v d e.
     if t = 77 then rbind (market_swap caller e) (\<lambda>e'. Ok (e', [])) else functionCallWithValue ledger_foreign caller t v d e)\<rparr>"

definition market_adapters :: "(address \<Rightarrow> erc20) adapters" where
  "market_adapters = \<lparr>name_hash = length,
     registry_at = (\<lambda>_ _. Some (set_integration 7 (length ''Market'') 78 (ir_constructor 3 5))),
     getSpender = (\<lambda>_ _. Ok 77), getTradeCalldata = (\<lambda>_ _ _ _ _ _ _ _. Ok (77, 0, []))\<rparr>"

lemma market_swap_typed:
  assumes "ledger_wf e" "market_swap caller e = Inr e'"
  shows "ledger_wf e' \<and> the_set e' = the_set e \<and> the_controller e' = the_controller e"
proof -
  define n where "n = allowances (outside e 1) caller 77"
  obtain t1 t2 where t1: "transferFrom 77 caller 77 n (outside e 1) = Inr t1" and t2: "transfer 77 caller n (outside e 2) = Inr t2"
    and e': "e' = e\<lparr>outside := (outside e)(1 := t1, 2 := t2)\<rparr>"
    using assms(2) by (auto simp: market_swap_def Let_def update_token_def rbind_eq_Inr n_def)
  have typed: "erc20_typed (outside e t)" for t using assms(1) by (simp add: ledger_wf_def)
  then have n: "is_uint256 n" by (simp add: n_def erc20_typed_def)
  have "erc20_typed t1" by (rule transferFrom_typed [OF typed n t1])
  moreover have "erc20_typed t2" using erc20.move_law [OF typed n] t2 by (simp add: transfer_def)
  ultimately show ?thesis using typed by (simp add: e' ledger_wf_def)
qed

interpretation market: quiet_calls market_foreign self ledger_bal ledger_wf
  for self
proof
  fix e e' :: "(address \<Rightarrow> erc20) evm" and t v d ret
  assume *: "ledger_wf e" "t \<noteq> self" "functionCallWithValue market_foreign self t v d e = Inr (e', ret)"
  show "ledger_wf e' \<and> the_set e' = the_set e \<and> the_controller e' = the_controller e"
  proof (cases "t = 77")
    case True
    then show ?thesis using * market_swap_typed by (auto simp: market_foreign_def rbind_eq_Inr)
  next
    case False
    then show ?thesis using * ledger.quiet.call_keeps [OF *(1,2)] by (simp add: market_foreign_def)
  qed
qed (auto simp: market_foreign_def ledger_foreign_def ledger_wf_def balanceOf_def erc20_typed_def)

subsection \<open>A trade keeps its promises\<close>

text \<open>
  C5. A trade that succeeds was ordered by the manager for a Set that uses this module, and sells no more per
  Set than the position holds. Whatever the exchange and the tokens did, the Set received at least
  the minimum times its supply, pays the protocol its share of what it received and keeps the rest, and the new units
  of both tokens are covered by what it holds. The list of components stays exact; positions in other
  tokens and the supply do not change.
\<close>

theorem trade_covered:
  assumes "quiet_calls F self bal ok" "ok e" "tracking (the_set e)" "is_uint256 (totalSupply (the_set e))"
    "is_uint256 (getModuleFee (the_controller e) this 0)" "is_uint256 sq" "is_uint256 mq" "x \<noteq> y" "x \<noteq> self" "y \<noteq> self"
    "\<forall>a n m e1 t v d. getTradeCalldata A a x y self n m data e1 = Inr (t, v, d) \<longrightarrow> t \<noteq> self"
    "trade F A this sender self nm x sq y mq data e = Inr e'"
  shows "sender = manager (the_set e) \<and> isSetValidAndInitialized this (the_controller e) self (the_set e)
    \<and> tracking (the_set e') \<and> totalSupply (the_set e') = totalSupply (the_set e)
    \<and> (\<exists>u. getDefaultPositionRealUnit (the_set e) x = Inr u \<and> sq \<le> u)
    \<and> (\<exists>got. totalSupply (the_set e) * mq div PRECISE_UNIT \<le> got
         \<and> bal y self e' = bal y self e + got - got * getModuleFee (the_controller e) this 0 div PRECISE_UNIT)
    \<and> (\<forall>k \<in> {x, y}. \<exists>r. getDefaultPositionRealUnit (the_set e') k = Inr r \<and> 0 \<le> r
         \<and> totalSupply (the_set e') * r \<le> bal k self e' * PRECISE_UNIT)
    \<and> (\<forall>k. k \<noteq> x \<longrightarrow> k \<noteq> y \<longrightarrow> componentPositions (the_set e') k = componentPositions (the_set e) k)"
  using quiet_calls.trade_Inr [OF assms, unfolded quiet_calls.covered_def [OF assms(1)]] by auto

lemma dispatch_approve:
  assumes "is_uint256 (int a)" "is_uint256 n"
  shows "token_dispatch caller 0 (encodeWithSignature ledger_foreign ''approve(address,uint256)'' [int a, n]) tok
    = approve caller a n tok"
proof -
  let ?d = "encodeWithSignature ledger_foreign ''approve(address,uint256)'' [int a, n]"
  have l: "length (token_selector ''approve(address,uint256)'') = 4"
    "token_selector ''approve(address,uint256)'' \<noteq> token_selector ''transfer(address,uint256)''" by (simp_all add: token_selector_def)
  have d: "?d = token_selector ''approve(address,uint256)'' @ abi_word (int a) @ abi_word n"
    by (simp add: encodeWithSignature_def ledger_foreign_def)
  have "take 4 ?d = token_selector ''approve(address,uint256)''" "take 32 (drop 4 ?d) = abi_word (int a)"
    "take 32 (drop 36 ?d) = abi_word n" "length ?d = 68" unfolding d using l by simp_all
  then show ?thesis
    using assms l(2) is_uint256_nonneg [OF assms(2)] by (simp add: token_dispatch_def abi_word_value Let_def)
qed

text \<open>The Set of the examples, on a market that has a stock of token 2.\<close>

definition market_evm :: "(address \<Rightarrow> erc20) evm" where
  "market_evm = held_evm\<lparr>outside := (\<lambda>_. (erc20_constructor ''T'' ''T'')\<lparr>balances := (\<lambda>_. 0)(20 := 10 ^ 24, 77 := 10 ^ 24),
     totalSupply := 2 * 10 ^ 24\<rparr>)\<rparr>"

definition approved_evm :: "(address \<Rightarrow> erc20) evm" where
  "approved_evm = market_evm\<lparr>module_entered := True, outside := (outside market_evm)(1 := (outside market_evm 1)\<lparr>
     allowances := (\<lambda>_ _. 0)(20 := (\<lambda>_. 0)(77 := 10 ^ 18))\<rparr>)\<rparr>"

lemma market_approve:
  "invokeApprove market_foreign 7 20 1 77 (10 ^ 18) (market_evm\<lparr>module_entered := True\<rparr>) = Inr approved_evm"
proof -
  have d: "encodeWithSignature market_foreign = encodeWithSignature ledger_foreign"
    by (rule ext, rule ext) (simp add: encodeWithSignature_def market_foreign_def)
  have "is_uint256 (int 77)" "is_uint256 (10 ^ 18)" by (simp_all add: is_uint256_def)
  note disp = dispatch_approve [OF this]
  show ?thesis
    unfolding invokeApprove_def set_invoke_def invoke_def d Let_def
    using disp
    by (simp add: guard_defs market_foreign_def ledger_foreign_def market_evm_def held_evm_def demo_set_def demo_controller_def
        approved_evm_def update_token_def approve_def erc20_approve_internal_def erc20_constructor_def)
qed

lemma market_trade_runs:
  "\<exists>e'. trade market_foreign market_adapters 7 9 20 ''Market'' 1 (10 ^ 18) 2 (9 * 10 ^ 17) [] market_evm = Inr e'"
proof -
  define ti where "ti = \<lparr>exchangeAdapter = 78, sendToken = 1, receiveToken = 2, setTotalSupply = 10 ^ 18, totalSendQuantity = 10 ^ 18,
     totalMinReceiveQuantity = 9 * 10 ^ 17, preTradeSendTokenBalance = 10 ^ 24, preTradeReceiveTokenBalance = 10 ^ 24\<rparr>"
  let ?e = "market_evm\<lparr>module_entered := True\<rparr>"
  have 1: "createTradeInfo market_foreign market_adapters 7 20 ''Market'' 1 2 (10 ^ 18) (9 * 10 ^ 17) ?e = Inr ti"
    unfolding ti_def by code_simp
  have 2: "validatePreTradeData ti (10 ^ 18) ?e = Inr ()" unfolding ti_def by code_simp
  have 3: "executeTrade market_foreign market_adapters 7 20 ti [] ?e = set_invoke market_foreign 7 20 77 0 [] approved_evm"
    using market_approve by (simp add: executeTrade_def ti_def market_adapters_def)
  have 4: "is_ok (rbind (set_invoke market_foreign 7 20 77 0 [] approved_evm) (\<lambda>e1.
     rbind (validatePostTrade market_foreign 20 ti e1) (\<lambda>exchangedQuantity.
     rbind (accrueProtocolFee market_foreign 7 20 ti exchangedQuantity e1) (\<lambda>(protocolFee, e2).
     rbind (updateSetTokenPositions market_foreign 7 20 ti e2) (\<lambda>(netSendAmount, netReceiveAmount, e3).
     Ok e3)))))"
    unfolding ti_def by code_simp
  have 5: "validateOnlyManagerAndValidSet 7 9 (the_controller ?e) 20 (the_set ?e) = Inr ()" by code_simp
  have 6: "require (\<not> module_entered market_evm) ''ReentrancyGuard: reentrant call'' = Inr ()" by code_simp
  from 4 obtain e3 where "rbind (set_invoke market_foreign 7 20 77 0 [] approved_evm) (\<lambda>e1.
     rbind (validatePostTrade market_foreign 20 ti e1) (\<lambda>exchangedQuantity.
     rbind (accrueProtocolFee market_foreign 7 20 ti exchangedQuantity e1) (\<lambda>(protocolFee, e2).
     rbind (updateSetTokenPositions market_foreign 7 20 ti e2) (\<lambda>(netSendAmount, netReceiveAmount, e3).
     Ok e3)))) = Inr e3" unfolding is_ok_iff ..
  then show ?thesis unfolding trade_def nonReentrant_def 6 rbind.simps 5 1 2 3 by auto
qed

theorem trade_covered_witness:
  "\<exists>e'. trade market_foreign market_adapters 7 9 20 ''Market'' 1 (10 ^ 18) 2 (9 * 10 ^ 17) [] market_evm = Inr e'
     \<and> tracking (the_set e') \<and> (\<exists>got \<ge> 9 * 10 ^ 17. ledger_bal 2 20 e' = 10 ^ 24 + got)"
proof -
  obtain e' where run: "trade market_foreign market_adapters 7 9 20 ''Market'' 1 (10 ^ 18) 2 (9 * 10 ^ 17) [] market_evm = Inr e'"
    using market_trade_runs ..
  have wf: "ledger_wf market_evm"
    by (auto simp: market_evm_def ledger_wf_def erc20_typed_def erc20_constructor_def is_uint256_def)
  have inv: "position_inv (the_set market_evm)" using held_evm_inv by (simp add: market_evm_def set_inv_def)
  have "tracked (the_set market_evm) k" for k
    by (auto simp: tracked_def market_evm_def held_evm_def demo_set_def real_unit_defs getExternalPositionModules_def
        convertVirtualToRealUnit_def conservativePreciseMul_exact is_int256_def)
  with inv have tr: "tracking (the_set market_evm)" by (simp add: tracking_def)
  have vals: "totalSupply (the_set market_evm) = 10 ^ 18" "getModuleFee (the_controller market_evm) 7 0 = 0" "ledger_bal 2 20 market_evm = 10 ^ 24"
    by (simp_all add: market_evm_def held_evm_def getModuleFee_def demo_controller_def controller_constructor_def erc20_constructor_def)
  have typed: "is_uint256 (totalSupply (the_set market_evm))" "is_uint256 (getModuleFee (the_controller market_evm) 7 0)"
    "is_uint256 (10 ^ 18)" "is_uint256 (9 * 10 ^ 17)" unfolding vals by (simp_all add: is_uint256_def)
  have target: "\<forall>a n m e1 t v d. getTradeCalldata market_adapters a 1 2 20 n m [] e1 = Inr (t, v, d) \<longrightarrow> t \<noteq> 20"
    by (simp add: market_adapters_def)
  from trade_covered [OF market.quiet_calls_axioms wf tr typed _ _ _ target run]
  have "tracking (the_set e')" "\<exists>got. totalSupply (the_set market_evm) * (9 * 10 ^ 17) div PRECISE_UNIT \<le> got
      \<and> ledger_bal 2 20 e' = ledger_bal 2 20 market_evm + got - got * getModuleFee (the_controller market_evm) 7 0 div PRECISE_UNIT"
    by simp_all
  then show ?thesis using run unfolding vals by auto
qed

end
