(* ===== verification/AirdropModule.thy ===== *)
theory AirdropModule
  imports TradeModule
begin

section \<open>The AirdropModule\<close>

text \<open>
  \<^verbatim>\<open>src/contracts/protocol/modules/v1/AirdropModule.sol\<close>: tokens sent to a Set are absorbed into its position, less a
  fee for the manager and the protocol. The state of the module is the record \<open>airdrop_module\<close>, the
  settings by Set and the flags of the allowed tokens. Absorbing reads it and changes the Set; the other
  functions change it. Tokens that are called while absorbing do not reach the settings, which only the
  manager changes.

  The theorems: the list of allowed tokens and the flags agree whatever the manager does and however often the module is
  removed and added again; absorbing pays at most the fee, and keeps every position of the Set covered.
\<close>

record AirdropSettings =
  airdrops :: "address list"
  airdrop_feeRecipient :: address
  airdropFee :: int
  anyoneAbsorb :: bool

record airdrop_module =
  airdropSettings :: "address \<Rightarrow> AirdropSettings"
  isAirdrop :: "address \<Rightarrow> address \<Rightarrow> bool"

definition AIRDROP_MODULE_PROTOCOL_FEE_INDEX :: int where
  "AIRDROP_MODULE_PROTOCOL_FEE_INDEX = 0"

definition no_airdrops :: AirdropSettings where
  "no_airdrops = \<lparr>airdrops = [], airdrop_feeRecipient = 0, airdropFee = 0, anyoneAbsorb = False\<rparr>"

definition update_settings :: "address \<Rightarrow> (AirdropSettings \<Rightarrow> AirdropSettings) \<Rightarrow> airdrop_module \<Rightarrow> airdrop_module" where
  "update_settings self f st = st\<lparr>airdropSettings := (airdropSettings st)(self := f (airdropSettings st self))\<rparr>"

definition set_flag :: "address \<Rightarrow> address \<Rightarrow> bool \<Rightarrow> airdrop_module \<Rightarrow> airdrop_module" where
  "set_flag self t b st = st\<lparr>isAirdrop := (isAirdrop st)(self := (isAirdrop st self)(t := b))\<rparr>"

definition isAirdropToken :: "airdrop_module \<Rightarrow> address \<Rightarrow> address \<Rightarrow> bool" where
  "isAirdropToken st self t = isAirdrop st self t"

definition getAirdrops :: "airdrop_module \<Rightarrow> address \<Rightarrow> address list" where
  "getAirdrops st self = airdrops (airdropSettings st self)"

definition isValidCaller :: "airdrop_module \<Rightarrow> address \<Rightarrow> address \<Rightarrow> set_token \<Rightarrow> bool" where
  "isValidCaller st msg_sender self s \<longleftrightarrow> anyoneAbsorb (airdropSettings st self) \<or> isSetManager s msg_sender"

subsection \<open>Absorbing\<close>

definition handleFees ::
  "'w foreign \<Rightarrow> airdrop_module \<Rightarrow> address \<Rightarrow> address \<Rightarrow> address \<Rightarrow> int \<Rightarrow> 'w evm \<Rightarrow> ((int \<times> int \<times> int) \<times> 'w evm) result" where
  "handleFees F st this self component amountAirdropped e =
     (let fee = airdropFee (airdropSettings st self) in
      if fee > 0 then
        rbind (preciseMul_uint amountAirdropped fee) (\<lambda>totalFees.
        rbind (base_getModuleFee this (the_controller e) AIRDROP_MODULE_PROTOCOL_FEE_INDEX totalFees) (\<lambda>protocolTake.
        rbind (safe_sub totalFees protocolTake) (\<lambda>netManagerTake.
        rbind (strictInvokeTransfer F this self component (airdrop_feeRecipient (airdropSettings st self)) netManagerTake e) (\<lambda>e1.
        rbind (payProtocolFeeFromSetToken F this self component protocolTake e1) (\<lambda>e2.
        Ok ((netManagerTake, protocolTake, totalFees), e2))))))
      else Ok ((0, 0, 0), e))"

definition getPostAirdropUnit :: "set_token \<Rightarrow> int \<Rightarrow> int \<Rightarrow> int result" where
  "getPostAirdropUnit s totalComponentBalance totalFeesPaid =
     rbind (safe_sub totalComponentBalance totalFeesPaid) (\<lambda>n. getDefaultPositionUnit (totalSupply s) n)"

definition handleAirdropPosition ::
  "'w foreign \<Rightarrow> airdrop_module \<Rightarrow> address \<Rightarrow> address \<Rightarrow> address \<Rightarrow> 'w evm \<Rightarrow> ('w evm) result" where
  "handleAirdropPosition F st this self t e =
     rbind (balance_of F t self e) (\<lambda>preFeeTokenBalance.
     rbind (getDefaultTrackedBalance (the_set e) t) (\<lambda>trackedBalance.
     rbind (safe_sub preFeeTokenBalance trackedBalance) (\<lambda>amountAirdropped.
     if amountAirdropped > 0 then
       rbind (handleFees F st this self t amountAirdropped e) (\<lambda>((managerTake, protocolTake, totalFees), e1).
       rbind (getPostAirdropUnit (the_set e1) preFeeTokenBalance totalFees) (\<lambda>newUnit.
       on_set (\<lambda>c s. editDefaultPosition this c t newUnit s) e1))
     else Ok e)))"

definition absorb_internal ::
  "'w foreign \<Rightarrow> airdrop_module \<Rightarrow> address \<Rightarrow> address \<Rightarrow> address \<Rightarrow> 'w evm \<Rightarrow> ('w evm) result" where
  "absorb_internal F st this self t e =
     rbind (require (isAirdropToken st self t) ''Must be approved token.'') (\<lambda>_.
     handleAirdropPosition F st this self t e)"

fun batchAbsorb_internal ::
  "'w foreign \<Rightarrow> airdrop_module \<Rightarrow> address \<Rightarrow> address \<Rightarrow> address list \<Rightarrow> 'w evm \<Rightarrow> ('w evm) result" where
  "batchAbsorb_internal F st this self [] e = Ok e"
| "batchAbsorb_internal F st this self (t # ts) e =
     rbind (absorb_internal F st this self t e) (batchAbsorb_internal F st this self ts)"

definition absorb ::
  "'w foreign \<Rightarrow> airdrop_module \<Rightarrow> address \<Rightarrow> address \<Rightarrow> address \<Rightarrow> address \<Rightarrow> 'w evm \<Rightarrow> ('w evm) result" where
  "absorb F st this msg_sender self t = nonReentrant (\<lambda>e.
     rbind (require (isValidCaller st msg_sender self (the_set e)) ''Must be valid caller'') (\<lambda>_.
     rbind (validateOnlyValidAndInitializedSet this (the_controller e) self (the_set e)) (\<lambda>_.
     absorb_internal F st this self t e)))"

definition batchAbsorb ::
  "'w foreign \<Rightarrow> airdrop_module \<Rightarrow> address \<Rightarrow> address \<Rightarrow> address \<Rightarrow> address list \<Rightarrow> 'w evm \<Rightarrow> ('w evm) result" where
  "batchAbsorb F st this msg_sender self ts = nonReentrant (\<lambda>e.
     rbind (require (isValidCaller st msg_sender self (the_set e)) ''Must be valid caller'') (\<lambda>_.
     rbind (validateOnlyValidAndInitializedSet this (the_controller e) self (the_set e)) (\<lambda>_.
     batchAbsorb_internal F st this self ts e)))"

subsection \<open>Settings\<close>

definition addAirdrop ::
  "address \<Rightarrow> address \<Rightarrow> controller \<Rightarrow> address \<Rightarrow> set_token \<Rightarrow> address \<Rightarrow> airdrop_module \<Rightarrow> airdrop_module result" where
  "addAirdrop this msg_sender c self s t st =
     rbind (validateOnlyManagerAndValidSet this msg_sender c self s) (\<lambda>_.
     rbind (require (\<not> isAirdropToken st self t) ''Token already added.'') (\<lambda>_.
     Ok (set_flag self t True (update_settings self (\<lambda>x. x\<lparr>airdrops := airdrops x @ [t]\<rparr>) st))))"

definition removeAirdrop ::
  "address \<Rightarrow> address \<Rightarrow> controller \<Rightarrow> address \<Rightarrow> set_token \<Rightarrow> address \<Rightarrow> airdrop_module \<Rightarrow> airdrop_module result" where
  "removeAirdrop this msg_sender c self s t st =
     rbind (validateOnlyManagerAndValidSet this msg_sender c self s) (\<lambda>_.
     rbind (require (isAirdropToken st self t) ''Token not added.'') (\<lambda>_.
     rbind (removeStorage (airdrops (airdropSettings st self)) t) (\<lambda>ts.
     Ok (set_flag self t False (update_settings self (\<lambda>x. x\<lparr>airdrops := ts\<rparr>) st)))))"

definition updateAnyoneAbsorb ::
  "address \<Rightarrow> address \<Rightarrow> controller \<Rightarrow> address \<Rightarrow> set_token \<Rightarrow> bool \<Rightarrow> airdrop_module \<Rightarrow> airdrop_module result" where
  "updateAnyoneAbsorb this msg_sender c self s b st =
     rbind (validateOnlyManagerAndValidSet this msg_sender c self s) (\<lambda>_.
     Ok (update_settings self (\<lambda>x. x\<lparr>anyoneAbsorb := b\<rparr>) st))"

definition airdrop_updateFeeRecipient ::
  "address \<Rightarrow> address \<Rightarrow> controller \<Rightarrow> address \<Rightarrow> set_token \<Rightarrow> address \<Rightarrow> airdrop_module \<Rightarrow> airdrop_module result" where
  "airdrop_updateFeeRecipient this msg_sender c self s newFeeRecipient st =
     rbind (validateOnlyManagerAndValidSet this msg_sender c self s) (\<lambda>_.
     rbind (require (newFeeRecipient \<noteq> address_zero) ''Passed address must be non-zero'') (\<lambda>_.
     Ok (update_settings self (\<lambda>x. x\<lparr>airdrop_feeRecipient := newFeeRecipient\<rparr>) st)))"

definition updateAirdropFee ::
  "'w foreign \<Rightarrow> address \<Rightarrow> address \<Rightarrow> address \<Rightarrow> int \<Rightarrow> airdrop_module \<Rightarrow> 'w evm \<Rightarrow> (airdrop_module \<times> 'w evm) result" where
  "updateAirdropFee F this msg_sender self newFee st e =
     rbind (validateOnlySetManager msg_sender (the_set e)) (\<lambda>_.
     rbind (validateOnlyValidAndInitializedSet this (the_controller e) self (the_set e)) (\<lambda>_.
     rbind (require (newFee \<le> preciseUnit) ''Airdrop fee can't exceed 100%'') (\<lambda>_.
     rbind (batchAbsorb_internal F st this self (airdrops (airdropSettings st self)) e) (\<lambda>e1.
     Ok (update_settings self (\<lambda>x. x\<lparr>airdropFee := newFee\<rparr>) st, e1)))))"

definition airdrop_initialize ::
  "address \<Rightarrow> address \<Rightarrow> controller \<Rightarrow> address \<Rightarrow> AirdropSettings \<Rightarrow> airdrop_module \<times> set_token \<Rightarrow> (airdrop_module \<times> set_token) result" where
  "airdrop_initialize this msg_sender c self settings = (\<lambda>(st, s).
     rbind (validateOnlySetManager msg_sender s) (\<lambda>_.
     rbind (validateOnlyValidAndPendingSet this c self s) (\<lambda>_.
     rbind (require (airdropFee settings \<le> preciseUnit) ''Fee must be <= 100%.'') (\<lambda>_.
     rbind (require (airdrop_feeRecipient settings \<noteq> address_zero) ''Zero fee address passed'') (\<lambda>_.
     rbind (if length (airdrops settings) > 0
            then rbind (hasDuplicate (airdrops settings)) (\<lambda>dup. require (\<not> dup) ''Duplicate airdrop token passed'')
            else Ok ()) (\<lambda>_.
     rbind (initializeModule this s) (\<lambda>s1.
     Ok (foldl (\<lambda>st t. set_flag self t True st) (update_settings self (\<lambda>_. settings) st) (airdrops settings), s1))))))))"

text \<open>Called by the Set, whose address \<open>msg.sender\<close> is \<open>self\<close>.\<close>

definition airdrop_removeModule :: "address \<Rightarrow> airdrop_module \<Rightarrow> airdrop_module" where
  "airdrop_removeModule self st =
     update_settings self (\<lambda>_. no_airdrops)
       (foldl (\<lambda>st t. set_flag self t False st) st (airdrops (airdropSettings st self)))"

subsection \<open>The list of allowed tokens and the flags\<close>

lemma settings_update [simp]:
  "airdropSettings (update_settings self f st) self = f (airdropSettings st self)"
  "isAirdrop (update_settings self f st) = isAirdrop st"
  "airdropSettings (set_flag self t b st) = airdropSettings st"
  "isAirdrop (set_flag self t b st) self = (isAirdrop st self)(t := b)"
  by (simp_all add: update_settings_def set_flag_def)

lemma set_flags [simp]:
  "airdropSettings (foldl (\<lambda>st t. set_flag self t b st) st ts) = airdropSettings st"
  "isAirdrop (foldl (\<lambda>st t. set_flag self t b st) st ts) self = (\<lambda>t. if t \<in> set ts then b else isAirdrop st self t)"
  by (induction ts arbitrary: st) auto

text \<open>
  The life of the module on one Set: its settings together with the Set. \<open>fee_change\<close> is what
  \<open>updateAirdropFee\<close> does to the settings (next lemma), \<open>elsewhere\<close> are calls for other Sets, \<open>other\<close>
  any change of the Set that neither initializes nor removes this module.
\<close>

definition fee_change ::
  "address \<Rightarrow> address \<Rightarrow> controller \<Rightarrow> address \<Rightarrow> set_token \<Rightarrow> int \<Rightarrow> airdrop_module \<Rightarrow> airdrop_module \<Rightarrow> bool" where
  "fee_change this u c self s n st st' \<longleftrightarrow> manager s = u \<and> isSetValidAndInitialized this c self s \<and> 0 \<le> n \<and> n \<le> PRECISE_UNIT
     \<and> st' = update_settings self (\<lambda>x. x\<lparr>airdropFee := n\<rparr>) st"

inductive airdrop_reachable :: "address \<Rightarrow> address \<Rightarrow> airdrop_module \<times> set_token \<Rightarrow> bool" for this self :: address where
  deployed: "moduleStates s this \<noteq> INITIALIZED \<Longrightarrow>
    airdrop_reachable this self (\<lparr>airdropSettings = (\<lambda>_. no_airdrops), isAirdrop = (\<lambda>_ _. False)\<rparr>, s)"
| initialized: "airdrop_reachable this self a \<Longrightarrow> is_uint256 (airdropFee x) \<Longrightarrow>
    airdrop_initialize this u c self x a = Inr b \<Longrightarrow> airdrop_reachable this self b"
| added: "airdrop_reachable this self (st, s) \<Longrightarrow> addAirdrop this u c self s t st = Inr st' \<Longrightarrow> airdrop_reachable this self (st', s)"
| removed: "airdrop_reachable this self (st, s) \<Longrightarrow> removeAirdrop this u c self s t st = Inr st' \<Longrightarrow> airdrop_reachable this self (st', s)"
| anyone: "airdrop_reachable this self (st, s) \<Longrightarrow> updateAnyoneAbsorb this u c self s f st = Inr st' \<Longrightarrow> airdrop_reachable this self (st', s)"
| recipient: "airdrop_reachable this self (st, s) \<Longrightarrow> airdrop_updateFeeRecipient this u c self s r st = Inr st' \<Longrightarrow>
    airdrop_reachable this self (st', s)"
| fee: "airdrop_reachable this self (st, s) \<Longrightarrow> fee_change this u c self s n st st' \<Longrightarrow> airdrop_reachable this self (st', s)"
| module_removed: "airdrop_reachable this self (st, s) \<Longrightarrow> removeModule (\<lambda>m s. Ok s) u this s = Inr s' \<Longrightarrow>
    airdrop_reachable this self (airdrop_removeModule self st, s')"
| elsewhere: "airdrop_reachable this self (st, s) \<Longrightarrow> airdropSettings st' self = airdropSettings st self \<Longrightarrow>
    isAirdrop st' self = isAirdrop st self \<Longrightarrow> airdrop_reachable this self (st', s)"
| other: "airdrop_reachable this self (st, s) \<Longrightarrow> (moduleStates s' this = INITIALIZED \<longleftrightarrow> moduleStates s this = INITIALIZED) \<Longrightarrow>
    airdrop_reachable this self (st, s')"

lemma updateAirdropFee_change:
  assumes "is_uint256 n" "updateAirdropFee F this u self n st e = Inr (st', e')"
  shows "fee_change this u (the_controller e) self (the_set e) n st st'"
  using assms by (auto simp: updateAirdropFee_def fee_change_def result_simps preciseUnit_def is_uint256_def
      validateOnlySetManager_def isSetManager_def validateOnlyValidAndInitializedSet_def)

definition airdrop_inv :: "address \<Rightarrow> address \<Rightarrow> airdrop_module \<times> set_token \<Rightarrow> bool" where
  "airdrop_inv this self a \<longleftrightarrow> (let x = airdropSettings (fst a) self in
     registry_ok (airdrops x) (isAirdrop (fst a) self) \<and> 0 \<le> airdropFee x \<and> airdropFee x \<le> PRECISE_UNIT
     \<and> (moduleStates (snd a) this \<noteq> INITIALIZED \<longrightarrow> x = no_airdrops))"

lemma airdrop_initialize_inv:
  assumes "airdrop_inv this self a" "is_uint256 (airdropFee x)" "airdrop_initialize this u c self x a = Inr b"
  shows "airdrop_inv this self b"
proof -
  obtain st s where a: "a = (st, s)" by (cases a)
  have pend: "moduleStates s this = PENDING" and fee: "airdropFee x \<le> PRECISE_UNIT" and dist: "distinct (airdrops x)"
    and b: "snd b = s\<lparr>moduleStates := (moduleStates s)(this := INITIALIZED), modules := modules s @ [this]\<rparr>"
      "fst b = foldl (\<lambda>st t. set_flag self t True st) (update_settings self (\<lambda>_. x) st) (airdrops x)"
    using assms(3) by (auto simp: a airdrop_initialize_def initializeModule_def preciseUnit_def hasDuplicate_exact
        result_simps split: if_splits)
  have empty: "airdropSettings st self = no_airdrops" "registry_ok [] (isAirdrop st self)"
    using assms(1) pend by (auto simp: a airdrop_inv_def no_airdrops_def Let_def)
  then have "\<not> isAirdrop st self t" for t by (simp add: registry_ok_def)
  then show ?thesis using fee dist assms(2) by (simp add: airdrop_inv_def b Let_def registry_ok_def is_uint256_def)
qed

lemma airdrop_reachable_inv: "airdrop_reachable this self a \<Longrightarrow> airdrop_inv this self a"
proof (induction rule: airdrop_reachable.induct)
  case (deployed s)
  then show ?case by (simp add: airdrop_inv_def no_airdrops_def registry_ok_def)
next
  case (initialized a x u c b)
  then show ?case by (blast intro: airdrop_initialize_inv)
next
  case (added st s u c t st')
  then show ?case
    using manager_initialized [of this u c self s]
    by (auto simp: addAirdrop_def airdrop_inv_def Let_def rbind_eq_Inr require_eq_Inr isAirdropToken_def registry_ok_add)
next
  case (removed st s u c t st')
  then show ?case
    using manager_initialized [of this u c self s]
    by (auto simp: removeAirdrop_def airdrop_inv_def Let_def rbind_eq_Inr require_eq_Inr registry_ok_removeStorage)
next
  case (anyone st s u c f st')
  then show ?case
    using manager_initialized [of this u c self s] by (auto simp: updateAnyoneAbsorb_def airdrop_inv_def Let_def rbind_eq_Inr)
next
  case (recipient st s u c r st')
  then show ?case
    using manager_initialized [of this u c self s] by (auto simp: airdrop_updateFeeRecipient_def airdrop_inv_def Let_def rbind_eq_Inr)
next
  case (fee st s u c n st')
  then show ?case
    by (simp add: fee_change_def airdrop_inv_def Let_def isSetValidAndInitialized_def isInitializedModule_def)
next
  case (module_removed st s u s')
  then show ?case by (simp add: airdrop_removeModule_def airdrop_inv_def Let_def no_airdrops_def registry_ok_def)
next
  case (elsewhere st s st')
  then show ?case by (simp add: airdrop_inv_def)
next
  case (other st s s')
  then show ?case by (auto simp: airdrop_inv_def Let_def)
qed

subsection \<open>Absorbing keeps positions covered\<close>

context quiet_calls
begin

text \<open>The fees are the configured share of the airdrop, rounded down, and leave the Set exactly.\<close>

lemma handleFees_Inr:
  assumes "wf e" "t \<noteq> self" "is_uint256 n" "is_uint256 (getModuleFee (the_controller e) this 0)"
    "is_uint256 (airdropFee (airdropSettings st self))" "handleFees F st this self t n e = Inr ((mt, pt, tf), e')"
  shows "wf e' \<and> the_set e' = the_set e \<and> the_controller e' = the_controller e \<and> bal t self e' = bal t self e - tf
    \<and> tf = n * airdropFee (airdropSettings st self) div PRECISE_UNIT"
proof (cases "0 < airdropFee (airdropSettings st self)")
  case True
  let ?f = "airdropFee (airdropSettings st self)" and ?p = "getModuleFee (the_controller e) this 0"
  obtain e1 where tf: "preciseMul_uint n ?f = Inr tf" and pt: "preciseMul_uint tf ?p = Inr pt" and mt: "safe_sub tf pt = Inr mt"
    and 1: "strictInvokeTransfer F this self t (airdrop_feeRecipient (airdropSettings st self)) mt e = Inr e1"
    and 2: "payProtocolFeeFromSetToken F this self t pt e1 = Inr e'"
    using assms(6) True by (auto simp: handleFees_def Let_def base_getModuleFee_def AIRDROP_MODULE_PROTOCOL_FEE_INDEX_def rbind_eq_Inr)
  have f: "tf = n * ?f div PRECISE_UNIT" "is_uint256 tf"
    using tf assms(3,5) by (auto simp: preciseMul_uint_eq_Inr intro!: is_uint256_div is_uint256_mult)
  have p: "is_uint256 pt"
    using pt f(2) assms(4) by (auto simp: preciseMul_uint_eq_Inr intro!: is_uint256_div is_uint256_mult)
  have m: "mt = tf - pt" "is_uint256 mt" using mt f(2) p by (auto simp: safe_sub_eq_Inr intro: is_uint256_diff)
  note K1 = strict_transfer [OF assms(1,2) m(2) 1]
  note K2 = fee_payment [OF _ assms(2) _ p 2]
  show ?thesis using K1 K2 p m f(1) by (auto simp: is_uint256_def)
next
  case False
  then show ?thesis using assms(1,5,6) by (auto simp: handleFees_def is_uint256_def)
qed

text \<open>The branches of \<open>handleAirdropPosition\<close>; \<open>am\<close> is the amount that is not tracked.\<close>

lemma handleAirdropPosition_Inr:
  assumes ok: "wf e" "tracking (the_set e)" "is_uint256 (totalSupply (the_set e))" "t \<noteq> self"
    and run: "handleAirdropPosition F st this self t e = Inr e'"
  obtains u am where "getDefaultPositionRealUnit (the_set e) t = Inr u" "is_uint256 am"
    "am = bal t self e - u * totalSupply (the_set e) div PRECISE_UNIT" "am = 0" "e' = e"
  | u am mt pt tf e1 n s' where "getDefaultPositionRealUnit (the_set e) t = Inr u" "is_uint256 am"
    "am = bal t self e - u * totalSupply (the_set e) div PRECISE_UNIT" "0 < am"
    "handleFees F st this self t am e = Inr ((mt, pt, tf), e1)" "getPostAirdropUnit (the_set e1) (bal t self e) tf = Inr n"
    "editDefaultPosition this (the_controller e1) t n (the_set e1) = Inr s'" "e' = e1\<lparr>the_set := s'\<rparr>"
proof -
  let ?n = "totalSupply (the_set e)"
  obtain u where u: "getDefaultPositionRealUnit (the_set e) t = Inr u" "0 \<le> u"
    using tracking_D [OF ok(2), of t] by (auto simp: tracked_def)
  have ut: "is_uint256 u" using u real_unit_typed [OF tracking_inv [OF ok(2)] u(1)] by (simp add: is_int256_def is_uint256_def)
  obtain x am where x: "getDefaultTrackedBalance (the_set e) t = Inr x" and y: "safe_sub (bal t self e) x = Inr am"
    and r: "(if am > 0 then rbind (handleFees F st this self t am e) (\<lambda>((managerTake, protocolTake, totalFees), e1).
       rbind (getPostAirdropUnit (the_set e1) (bal t self e) totalFees) (\<lambda>newUnit.
       on_set (\<lambda>c s. editDefaultPosition this c t newUnit s) e1)) else Ok e) = Inr e'"
    using run ok(4) by (auto simp: handleAirdropPosition_def rbind_eq_Inr readable)
  have xt: "x = u * ?n div PRECISE_UNIT" "is_uint256 x"
    using x u ut ok(3) by (auto simp: getDefaultTrackedBalance_def rbind_eq_Inr toUint256_eq_Inr preciseMul_uint_eq_Inr mult.commute
        intro!: is_uint256_div is_uint256_mult)
  then have am: "am = bal t self e - u * ?n div PRECISE_UNIT" "is_uint256 am"
    using y bal_typed [OF ok(1), of t self] by (auto simp: safe_sub_eq_Inr is_uint256_diff)
  show thesis
  proof (cases "0 < am")
    case True
    then show thesis using that(2) [OF u(1) am(2,1) True] r by (auto simp: rbind_eq_Inr on_set_def)
  next
    case False
    then show thesis using that(1) [OF u(1) am(2,1)] r am(2) by (auto simp: is_uint256_def)
  qed
qed

lemma absorbed:
  assumes ok: "wf e" "tracking (the_set e)" "is_uint256 (totalSupply (the_set e))" "t \<noteq> self"
    "is_uint256 (getModuleFee (the_controller e) this 0)" "0 \<le> airdropFee (airdropSettings st self)"
    "airdropFee (airdropSettings st self) \<le> PRECISE_UNIT"
    and run: "handleAirdropPosition F st this self t e = Inr e'"
  shows "wf e' \<and> tracking (the_set e') \<and> totalSupply (the_set e') = totalSupply (the_set e) \<and> the_controller e' = the_controller e
    \<and> (\<forall>k. k \<noteq> t \<longrightarrow> getDefaultPositionRealUnit (the_set e') k = getDefaultPositionRealUnit (the_set e) k)
    \<and> (covered t e \<longrightarrow> covered t e')
    \<and> (\<exists>u. getDefaultPositionRealUnit (the_set e) t = Inr u
         \<and> bal t self e' = bal t self e - (bal t self e - u * totalSupply (the_set e) div PRECISE_UNIT)
             * airdropFee (airdropSettings st self) div PRECISE_UNIT)"
  using handleAirdropPosition_Inr [OF ok(1-4) run]
proof cases
  case 1
  then show ?thesis using ok by auto
next
  case (2 u am mt pt tf e1 n s')
  let ?n = "totalSupply (the_set e)" and ?f = "airdropFee (airdropSettings st self)"
  have ft: "is_uint256 ?f" using ok(6,7) by (simp add: is_uint256_def)
  note H = handleFees_Inr [OF ok(1,4) 2(2) ok(5) ft 2(5)]
  have "am * ?f div PRECISE_UNIT \<le> am * PRECISE_UNIT div PRECISE_UNIT"
    using 2(4) ok(7) by (intro zdiv_mono1 mult_left_mono) simp_all
  then have "tf \<le> am" "0 \<le> tf" using H 2(4) ok(6) by (simp_all add: pos_imp_zdiv_nonneg_iff)
  then have "is_uint256 tf" using 2(2) by (simp add: is_uint256_def)
  then have n: "n = (bal t self e - tf) * PRECISE_UNIT div ?n" "0 < ?n" "0 \<le> bal t self e - tf"
    using 2(6) bal_typed [OF ok(1), of t self] ok(3) H
    by (auto simp: getPostAirdropUnit_def getDefaultPositionUnit_def rbind_eq_Inr safe_sub_eq_Inr preciseDiv_uint_eq_Inr is_uint256_diff is_uint256_def)
  have "0 \<le> n" using n by (simp add: pos_imp_zdiv_nonneg_iff)
  moreover have "?n * n \<le> bal t self e1 * PRECISE_UNIT"
    using div_mult_le_int [OF n(2), of "(bal t self e - tf) * PRECISE_UNIT"] H by (simp add: n(1) mult.commute)
  ultimately have E: "tracking s'" "\<exists>r. getDefaultPositionRealUnit s' t = Inr r \<and> 0 \<le> r \<and> ?n * r \<le> bal t self e1 * PRECISE_UNIT"
    "\<forall>j. j \<noteq> t \<longrightarrow> getDefaultPositionRealUnit s' j = getDefaultPositionRealUnit (the_set e1) j"
    using edit_covers [OF _ _ _ _ 2(7), of ?n "bal t self e1"] ok(2) H n(2) by auto
  have "bal k a e' = bal k a e1" "wf e'" for k a using own_state [of e' e1] H 2(8) by simp_all
  then show ?thesis using H E editDefaultPosition_frame [OF 2(7)] 2(1,3,8) by (auto simp: covered_def)
qed

end

context component_tokens
begin

lemma strict_others:
  assumes "wf e" "t \<noteq> self" "strictInvokeTransfer F this self t y n e = Inr e'"
  shows "wf e' \<and> (\<forall>k. k \<noteq> t \<longrightarrow> bal k self e' = bal k self e)"
  using assms set_invoke_Inr [OF assms(1,2)]
  by (auto simp: strictInvokeTransfer_def invokeTransfer_def Let_def rbind_eq_Inr split: if_splits)

lemma absorb_others:
  assumes "wf e" "t \<noteq> self" "handleAirdropPosition F st this self t e = Inr e'" "k \<noteq> t"
  shows "bal k self e' = bal k self e"
proof -
  have fees: "bal k self e1 = bal k self e" if run: "handleFees F st this self t n e = Inr (r, e1)" for n r e1
  proof (cases "0 < airdropFee (airdropSettings st self)")
    case True
    then obtain y m x e2 where 1: "strictInvokeTransfer F this self t y m e = Inr e2" and 2: "payProtocolFeeFromSetToken F this self t x e2 = Inr e1"
      using run by (auto simp: handleFees_def Let_def rbind_eq_Inr)
    note K = strict_others [OF assms(1,2) 1]
    show ?thesis using K 2 strict_others [OF conjunct1 [OF K] assms(2)] assms(4)
      by (auto simp: payProtocolFeeFromSetToken_def split: if_splits)
  next
    case False
    then show ?thesis using run by (simp add: handleFees_def)
  qed
  obtain e1 where "bal k self e1 = bal k self e" "outside e' = outside e1"
    using assms(3) fees by (fastforce simp: handleAirdropPosition_def on_set_def rbind_eq_Inr split: if_splits)
  then show ?thesis using own_state [of e' e1] by simp
qed

lemma batch_absorbed:
  assumes "wf e" "tracking (the_set e)" "is_uint256 (totalSupply (the_set e))" "self \<notin> set ts"
    "is_uint256 (getModuleFee (the_controller e) this 0)" "0 \<le> airdropFee (airdropSettings st self)"
    "airdropFee (airdropSettings st self) \<le> PRECISE_UNIT" "batchAbsorb_internal F st this self ts e = Inr e'"
  shows "wf e' \<and> tracking (the_set e') \<and> totalSupply (the_set e') = totalSupply (the_set e)
    \<and> (\<forall>t \<in> set ts. isAirdropToken st self t)
    \<and> (\<forall>k. quiet.covered k e \<longrightarrow> quiet.covered k e')
    \<and> (\<forall>k. k \<notin> set ts \<longrightarrow> bal k self e' = bal k self e \<and> getDefaultPositionRealUnit (the_set e') k = getDefaultPositionRealUnit (the_set e) k)"
  using assms
proof (induction ts arbitrary: e)
  case (Cons t ts)
  obtain e1 where t: "isAirdropToken st self t" and 1: "handleAirdropPosition F st this self t e = Inr e1"
    and 2: "batchAbsorb_internal F st this self ts e1 = Inr e'"
    using Cons.prems(8) by (auto simp: absorb_internal_def rbind_eq_Inr require_eq_Inr)
  have ts: "t \<noteq> self" "self \<notin> set ts" using Cons.prems(4) by auto
  note A = quiet.absorbed [OF Cons.prems(1-3) ts(1) Cons.prems(5-7) 1]
  have o: "bal k self e1 = bal k self e" if "k \<noteq> t" for k by (rule absorb_others [OF Cons.prems(1) ts(1) 1 that])
  have "quiet.covered k e1" if "quiet.covered k e" for k
    using that A o by (cases "k = t") (auto simp: quiet.covered_def)
  with Cons.IH [of e1] 2 ts(2) A Cons.prems(3,5-7) t o show ?case by simp
qed simp

end

subsection \<open>Properties\<close>

text \<open>
  The life of the airdrop module on a Set, from its deployment through every change of the settings, removals and
  new initializations included: the list of allowed tokens has no duplicates and holds exactly the flagged tokens, the
  fee is between nothing and everything, and a Set that does not use the module has no allowed tokens.
\<close>

lemma airdrop_lists_agree:
  assumes "airdrop_reachable this self (st, s)"
  shows "distinct (getAirdrops st self) \<and> (\<forall>t. isAirdropToken st self t \<longleftrightarrow> t \<in> set (getAirdrops st self))
    \<and> 0 \<le> airdropFee (airdropSettings st self) \<and> airdropFee (airdropSettings st self) \<le> PRECISE_UNIT
    \<and> (moduleStates s this \<noteq> INITIALIZED \<longrightarrow> getAirdrops st self = [])"
  using airdrop_reachable_inv [OF assms]
  by (auto simp: airdrop_inv_def Let_def registry_ok_def getAirdrops_def isAirdropToken_def no_airdrops_def)

text \<open>
  C24. Absorbing one token is for the manager, or for everybody when the manager allows it, and for allowed tokens.
  The Set pays the fee share of the amount that its position does not account for, rounded down, and nothing
  else; a position that was covered by the Set's balance is covered after. The supply and the
  units of other tokens do not change, and the list of components stays exact.
\<close>

theorem absorb_exact:
  assumes "quiet_calls F self bal ok" "ok e" "tracking (the_set e)" "is_uint256 (totalSupply (the_set e))" "t \<noteq> self"
    "is_uint256 (getModuleFee (the_controller e) this 0)" "0 \<le> airdropFee (airdropSettings st self)"
    "airdropFee (airdropSettings st self) \<le> PRECISE_UNIT" "absorb F st this sender self t e = Inr e'"
    "getDefaultPositionRealUnit (the_set e) t = Inr u"
  shows "(sender = manager (the_set e) \<or> anyoneAbsorb (airdropSettings st self)) \<and> isAirdropToken st self t
    \<and> tracking (the_set e') \<and> totalSupply (the_set e') = totalSupply (the_set e)
    \<and> bal t self e' = bal t self e - (bal t self e - u * totalSupply (the_set e) div PRECISE_UNIT)
        * airdropFee (airdropSettings st self) div PRECISE_UNIT
    \<and> (totalSupply (the_set e) * u \<le> bal t self e * PRECISE_UNIT \<longrightarrow>
        (\<exists>r. getDefaultPositionRealUnit (the_set e') t = Inr r \<and> 0 \<le> r \<and> totalSupply (the_set e') * r \<le> bal t self e' * PRECISE_UNIT))
    \<and> (\<forall>k. k \<noteq> t \<longrightarrow> getDefaultPositionRealUnit (the_set e') k = getDefaultPositionRealUnit (the_set e) k)"
proof -
  let ?e0 = "e\<lparr>module_entered := True\<rparr>"
  obtain e1 where v: "isValidCaller st sender self (the_set e)" "isAirdropToken st self t"
    and 1: "handleAirdropPosition F st this self t ?e0 = Inr e1" and e': "e' = e1\<lparr>module_entered := False\<rparr>"
    using assms(9) by (auto simp: absorb_def nonReentrant_def absorb_internal_def rbind_eq_Inr require_eq_Inr)
  have b: "bal k a ?e0 = bal k a e" "ok ?e0" "bal k a e' = bal k a e1" for k a
    using quiet_calls.own_state [OF assms(1), of ?e0 e] quiet_calls.own_state [OF assms(1), of e' e1] assms(2) e' by simp_all
  have u: "0 \<le> u" using tracking_D [OF assms(3), of t] assms(10) by (auto simp: tracked_def)
  note A = quiet_calls.absorbed [OF assms(1) b(2) _ _ assms(5) _ assms(7,8) 1]
  show ?thesis using A assms(3,4,6,10) v u b(1,3) e'
    by (auto simp: quiet_calls.covered_def [OF assms(1)] isValidCaller_def isSetManager_def)
qed

text \<open>
  Absorbing a list of tokens in one call leaves every position covered that was covered before, for tokens of the list and
  for all others; the balances and units of the others do not change at all.
\<close>

lemma batchAbsorb_covered:
  assumes "component_tokens F self bal ok" "ok e" "tracking (the_set e)" "is_uint256 (totalSupply (the_set e))" "self \<notin> set ts"
    "is_uint256 (getModuleFee (the_controller e) this 0)" "0 \<le> airdropFee (airdropSettings st self)"
    "airdropFee (airdropSettings st self) \<le> PRECISE_UNIT" "batchAbsorb F st this sender self ts e = Inr e'"
  shows "(sender = manager (the_set e) \<or> anyoneAbsorb (airdropSettings st self)) \<and> (\<forall>t \<in> set ts. isAirdropToken st self t)
    \<and> tracking (the_set e') \<and> totalSupply (the_set e') = totalSupply (the_set e)
    \<and> (\<forall>k u. getDefaultPositionRealUnit (the_set e) k = Inr u \<longrightarrow> totalSupply (the_set e) * u \<le> bal k self e * PRECISE_UNIT \<longrightarrow>
        (\<exists>r. getDefaultPositionRealUnit (the_set e') k = Inr r \<and> 0 \<le> r \<and> totalSupply (the_set e') * r \<le> bal k self e' * PRECISE_UNIT))
    \<and> (\<forall>k. k \<notin> set ts \<longrightarrow> bal k self e' = bal k self e
        \<and> getDefaultPositionRealUnit (the_set e') k = getDefaultPositionRealUnit (the_set e) k)"
proof -
  let ?e0 = "e\<lparr>module_entered := True\<rparr>"
  note q = component_tokens.calls_quiet [OF assms(1)]
  obtain e1 where v: "isValidCaller st sender self (the_set e)" and 1: "batchAbsorb_internal F st this self ts ?e0 = Inr e1"
    and e': "e' = e1\<lparr>module_entered := False\<rparr>"
    using assms(9) by (auto simp: batchAbsorb_def nonReentrant_def rbind_eq_Inr require_eq_Inr)
  have b: "bal k a ?e0 = bal k a e" "ok ?e0" "bal k a e' = bal k a e1" for k a
    using quiet_calls.own_state [OF q, of ?e0 e] quiet_calls.own_state [OF q, of e' e1] assms(2) e' by simp_all
  have u: "0 \<le> u" if "getDefaultPositionRealUnit (the_set e) k = Inr u" for k u
    using tracking_D [OF assms(3), of k] that by (auto simp: tracked_def)
  note A = component_tokens.batch_absorbed [OF assms(1) b(2) _ _ assms(5) _ assms(7,8) 1]
  show ?thesis using A assms(3,4,6) v u b(1,3) e'
    by (auto simp: quiet_calls.covered_def [OF q] isValidCaller_def isSetManager_def)
qed

subsection \<open>An example\<close>

text \<open>The module 7 on the Set 20: tokens 1 and 2 are allowed, account 50 gets a fee of 10%, everybody may absorb.\<close>

definition demo_settings :: AirdropSettings where
  "demo_settings = \<lparr>airdrops = [1, 2], airdrop_feeRecipient = 50, airdropFee = 10 ^ 17, anyoneAbsorb = True\<rparr>"

definition airdrop_deployed :: airdrop_module where
  "airdrop_deployed = \<lparr>airdropSettings = (\<lambda>_. no_airdrops), isAirdrop = (\<lambda>_ _. False)\<rparr>"

definition demo_airdrops :: airdrop_module where
  "demo_airdrops = foldl (\<lambda>st t. set_flag 20 t True st) (update_settings 20 (\<lambda>_. demo_settings) airdrop_deployed) [1, 2]"

lemma demo_airdrop_initialize:
  "airdrop_initialize 7 9 (the_controller held_evm) 20 demo_settings
     (airdrop_deployed, demo_set\<lparr>modules := [], moduleStates := (\<lambda>_. NONE)(7 := PENDING)\<rparr>) = Inr (demo_airdrops, demo_set)"
proof -
  have "hasDuplicate [1 :: address, 2] = Inr False" by (simp add: hasDuplicate_exact)
  then show ?thesis
    by (simp add: airdrop_initialize_def validateOnlySetManager_def isSetManager_def validateOnlyValidAndPendingSet_def
        isSetPendingInitialization_def isPendingModule_def demo_settings_def demo_set_def held_evm_def demo_controller_def initializeModule_def
        preciseUnit_def demo_airdrops_def)
qed

lemma airdrop_lists_agree_example:
  "airdrop_initialize 7 9 (the_controller held_evm) 20 demo_settings
     (airdrop_deployed, demo_set\<lparr>modules := [], moduleStates := (\<lambda>_. NONE)(7 := PENDING)\<rparr>) = Inr (demo_airdrops, demo_set)
   \<and> isAirdropToken demo_airdrops 20 2 \<and> distinct (getAirdrops demo_airdrops 20)"
proof -
  have "airdrop_reachable 7 20 (airdrop_deployed, demo_set\<lparr>modules := [], moduleStates := (\<lambda>_. NONE)(7 := PENDING)\<rparr>)"
    unfolding airdrop_deployed_def by (rule airdrop_reachable.deployed) simp
  from airdrop_reachable.initialized [OF this _ demo_airdrop_initialize]
  have "airdrop_reachable 7 20 (demo_airdrops, demo_set)" by (simp add: demo_settings_def is_uint256_def)
  from airdrop_lists_agree [OF this] demo_airdrop_initialize show ?thesis
    by (simp add: getAirdrops_def demo_airdrops_def demo_settings_def)
qed

lemma held_evm_ledger: "ledger_wf held_evm" "tracking (the_set held_evm)"
proof -
  show "ledger_wf held_evm" by (auto simp: held_evm_def ledger_wf_def erc20_typed_def erc20_constructor_def is_uint256_def)
  have "position_inv (the_set held_evm)" using held_evm_inv by (simp add: set_inv_def)
  moreover have "tracked (the_set held_evm) k" for k
    by (auto simp: tracked_def held_evm_def demo_set_def real_unit_defs getExternalPositionModules_def
        convertVirtualToRealUnit_def conservativePreciseMul_exact is_int256_def)
  ultimately show "tracking (the_set held_evm)" by (simp add: tracking_def)
qed

text \<open>Of 1000000 tokens the position accounts for half a token; a tenth of the rest is the fee.\<close>

lemma demo_absorb_internal:
  "\<exists>e'. absorb_internal ledger_foreign demo_airdrops 7 20 2 (held_evm\<lparr>module_entered := True\<rparr>) = Inr e'"
proof -
  let ?e = "held_evm\<lparr>module_entered := True\<rparr>" and ?fee = "(10 ^ 24 - 5 * 10 ^ 17) div 10 :: int"
  have "ledger_wf ?e" using held_evm_ledger(1) by (simp add: ledger_wf_def)
  from ledger_transfer_ok [OF this, of 7 20 50 ?fee 2] obtain tok where
    tr: "strictInvokeTransfer ledger_foreign 7 20 2 50 ?fee ?e = Inr (?e\<lparr>outside := (outside ?e)(2 := tok)\<rparr>)"
    by (auto simp: held_evm_def demo_set_def demo_controller_def is_uint256_def erc20_constructor_def)
  have settings: "airdropSettings demo_airdrops 20 = demo_settings" "isAirdropToken demo_airdrops 20 2"
    by (simp_all add: demo_airdrops_def isAirdropToken_def)
  have fees: "handleFees ledger_foreign demo_airdrops 7 20 2 (10 ^ 24 - 5 * 10 ^ 17) ?e
      = Inr ((?fee, 0, ?fee), ?e\<lparr>outside := (outside ?e)(2 := tok)\<rparr>)"
    using tr by (simp add: handleFees_def settings demo_settings_def preciseMul_uint_exact base_getModuleFee_def getModuleFee_def
        held_evm_def demo_controller_def controller_constructor_def safe_sub_exact is_uint256_def payProtocolFeeFromSetToken_def)
  have tracked: "getDefaultTrackedBalance (the_set ?e) 2 = Inr (5 * 10 ^ 17)" by code_simp
  have "is_ok (editDefaultPosition 7 (the_controller ?e) 2 (10 ^ 24 - ?fee) (the_set ?e))" by code_simp
  then obtain s where s: "editDefaultPosition 7 (the_controller ?e) 2 (10 ^ 24 - ?fee) (the_set ?e) = Inr s" unfolding is_ok_iff ..
  have "getPostAirdropUnit (the_set ?e) (10 ^ 24) ?fee = Inr (10 ^ 24 - ?fee)" by code_simp
  moreover have "balance_of ledger_foreign 2 20 ?e = Inr (10 ^ 24)" by code_simp
  moreover have "safe_sub (10 ^ 24) (5 * 10 ^ 17) = Inr (10 ^ 24 - 5 * 10 ^ 17)" by code_simp
  ultimately show ?thesis
    using tracked fees s by (simp add: absorb_internal_def handleAirdropPosition_def settings on_set_def)
qed

lemma demo_absorb:
  "\<exists>e'. absorb ledger_foreign demo_airdrops 7 30 20 2 held_evm = Inr e'"
  "\<exists>e'. batchAbsorb ledger_foreign demo_airdrops 7 30 20 [2] held_evm = Inr e'"
proof -
  let ?e = "held_evm\<lparr>module_entered := True\<rparr>"
  have guards: "module_entered held_evm = False" "isValidCaller demo_airdrops 30 20 (the_set ?e)"
    "validateOnlyValidAndInitializedSet 7 (the_controller ?e) 20 (the_set ?e) = Inr ()" by code_simp+
  then show "\<exists>e'. absorb ledger_foreign demo_airdrops 7 30 20 2 held_evm = Inr e'"
    "\<exists>e'. batchAbsorb ledger_foreign demo_airdrops 7 30 20 [2] held_evm = Inr e'"
    using demo_absorb_internal by (auto simp: absorb_def batchAbsorb_def nonReentrant_def)
qed

lemma demo_airdrop_typed: "is_uint256 (totalSupply (the_set held_evm))" "is_uint256 (getModuleFee (the_controller held_evm) 7 0)"
  "0 \<le> airdropFee (airdropSettings demo_airdrops 20)" "airdropFee (airdropSettings demo_airdrops 20) \<le> PRECISE_UNIT"
  by (simp_all add: held_evm_def is_uint256_def getModuleFee_def demo_controller_def controller_constructor_def demo_airdrops_def
      demo_settings_def)

theorem absorb_exact_witness:
  "\<exists>e'. absorb ledger_foreign demo_airdrops 7 30 20 2 held_evm = Inr e' \<and> ledger_bal 2 20 e' = 900000050000000000000000"
proof -
  obtain e' where run: "absorb ledger_foreign demo_airdrops 7 30 20 2 held_evm = Inr e'" using demo_absorb(1) ..
  have unit: "getDefaultPositionRealUnit (the_set held_evm) 2 = Inr (5 * 10 ^ 17)" by code_simp
  have vals: "ledger_bal 2 20 held_evm = 10 ^ 24" "totalSupply (the_set held_evm) = 10 ^ 18" "airdropFee (airdropSettings demo_airdrops 20) = 10 ^ 17"
    by (simp_all add: held_evm_def demo_airdrops_def demo_settings_def)
  from absorb_exact [OF ledger.quiet.quiet_calls_axioms held_evm_ledger demo_airdrop_typed(1) _ demo_airdrop_typed(2-4) run unit]
  have "ledger_bal 2 20 e' = 900000050000000000000000" unfolding vals by simp
  then show ?thesis using run by blast
qed

lemma batchAbsorb_covered_example:
  "\<exists>e'. batchAbsorb ledger_foreign demo_airdrops 7 30 20 [2] held_evm = Inr e' \<and> tracking (the_set e') \<and> ledger_bal 1 20 e' = 10 ^ 24"
proof -
  obtain e' where run: "batchAbsorb ledger_foreign demo_airdrops 7 30 20 [2] held_evm = Inr e'" using demo_absorb(2) ..
  have "ledger_bal 1 20 held_evm = 10 ^ 24" by (simp add: held_evm_def)
  then show ?thesis
    using batchAbsorb_covered [OF ledger.component_tokens_axioms held_evm_ledger demo_airdrop_typed(1) _ demo_airdrop_typed(2-4) run] run by auto
qed

end
