(* ===== verification/DebtIssuanceModule.thy ===== *)
theory DebtIssuanceModule
  imports BasicIssuanceModule
begin

section \<open>DebtIssuanceModule: issuing and redeeming Sets with debt\<close>

text \<open>
  \<^verbatim>\<open>src/contracts/protocol/modules/v1/DebtIssuanceModule.sol\<close>: issuing and redeeming against default and external positions, debt
  included, with fees in Sets for the manager and the protocol, and hooks of other modules before and during
  the transfers.

  Hooks and tokens may call back and change anything, the settings of this module included: the settings
  are a part of \<open>outside\<close>, its first component, and every function reads them where the code does. The
  hooks of a module are the record \<open>module_hooks\<close>, the interface \<open>IModuleIssuanceHook\<close>.

  The theorems: what a Set asks for on issuance is the net of its positions, rounded for the Set; with fees, and hooks that leave a Set collateralized (locale
  \<open>issuance_hooks\<close>; the theory \<open>SyncingHooks\<close> shows it of hooks that sync positions), issuing and redeeming keep it so; the supply
  grows by what is minted for the issuer, the manager and the protocol; fees stay below the
  maximum and the registered hooks agree with their flags through the module's life.
\<close>

record IssuanceSettings =
  maxManagerFee :: int
  managerIssueFee :: int
  managerRedeemFee :: int
  issue_feeRecipient :: address
  issue_managerHook :: address
  moduleIssuanceHooks :: "address list"
  isModuleHook :: "address \<Rightarrow> bool"

record debt_module =
  issuanceSettings :: "address \<Rightarrow> IssuanceSettings"

record 'w module_hooks =
  moduleIssueHook :: "address \<Rightarrow> address \<Rightarrow> int \<Rightarrow> 'w evm \<Rightarrow> ('w evm) result"
  moduleRedeemHook :: "address \<Rightarrow> address \<Rightarrow> int \<Rightarrow> 'w evm \<Rightarrow> ('w evm) result"
  componentIssueHook :: "address \<Rightarrow> address \<Rightarrow> int \<Rightarrow> address \<Rightarrow> bool \<Rightarrow> 'w evm \<Rightarrow> ('w evm) result"
  componentRedeemHook :: "address \<Rightarrow> address \<Rightarrow> int \<Rightarrow> address \<Rightarrow> bool \<Rightarrow> 'w evm \<Rightarrow> ('w evm) result"

type_synonym 'x debt_evm = "(debt_module \<times> 'x) evm"
type_synonym 'x debt_foreign = "(debt_module \<times> 'x) foreign"
type_synonym 'x debt_hooks = "(debt_module \<times> 'x) module_hooks"

definition ISSUANCE_MODULE_PROTOCOL_FEE_SPLIT_INDEX :: int where
  "ISSUANCE_MODULE_PROTOCOL_FEE_SPLIT_INDEX = 0"

definition settings_of :: "address \<Rightarrow> 'x debt_evm \<Rightarrow> IssuanceSettings" where
  "settings_of self e = issuanceSettings (fst (outside e)) self"

definition write_settings :: "address \<Rightarrow> (IssuanceSettings \<Rightarrow> IssuanceSettings) \<Rightarrow> 'x debt_evm \<Rightarrow> 'x debt_evm" where
  "write_settings self f e = e\<lparr>outside :=
     (fst (outside e)\<lparr>issuanceSettings := (issuanceSettings (fst (outside e)))(self := f (settings_of self e))\<rparr>, snd (outside e))\<rparr>"

subsection \<open>Fees and quantities\<close>

definition calculateTotalFees :: "address \<Rightarrow> address \<Rightarrow> int \<Rightarrow> bool \<Rightarrow> 'x debt_evm \<Rightarrow> (int \<times> int \<times> int) result" where
  "calculateTotalFees this self quantity isIssue e =
     (let x = settings_of self e;
          protocolFeeSplit = getModuleFee (the_controller e) this ISSUANCE_MODULE_PROTOCOL_FEE_SPLIT_INDEX;
          totalFeeRate = (if isIssue then managerIssueFee x else managerRedeemFee x) in
      rbind (preciseMul_uint totalFeeRate quantity) (\<lambda>totalFee.
      rbind (preciseMul_uint totalFee protocolFeeSplit) (\<lambda>protocolFee.
      rbind (safe_sub totalFee protocolFee) (\<lambda>managerFee.
      rbind (if isIssue then safe_add quantity totalFee else safe_sub quantity totalFee) (\<lambda>totalQuantity.
      Ok (totalQuantity, managerFee, protocolFee))))))"

fun split_external :: "set_token \<Rightarrow> address \<Rightarrow> address list \<Rightarrow> int \<Rightarrow> int \<Rightarrow> (int \<times> int) result" where
  "split_external s k [] cumulativeEquity cumulativeDebt = Ok (cumulativeEquity, cumulativeDebt)"
| "split_external s k (m # ms) cumulativeEquity cumulativeDebt =
     rbind (getExternalPositionRealUnit s k m) (\<lambda>externalPositionUnit.
     if externalPositionUnit > 0
     then rbind (sadd cumulativeEquity externalPositionUnit) (\<lambda>x. split_external s k ms x cumulativeDebt)
     else rbind (sadd cumulativeDebt externalPositionUnit) (split_external s k ms cumulativeEquity))"

text \<open>The two units of a component, from the equity of its default position.\<close>

definition component_units :: "set_token \<Rightarrow> address \<Rightarrow> int \<Rightarrow> (int \<times> int) result" where
  "component_units s k defaultEquity =
     rbind (split_external s k (getExternalPositionModules s k) defaultEquity 0) (\<lambda>(cumulativeEquity, cumulativeDebt).
     rbind (toUint256 cumulativeEquity) (\<lambda>equityUnit.
     rbind (smul cumulativeDebt (- 1)) (\<lambda>x.
     rbind (toUint256 x) (\<lambda>debtUnit.
     Ok (equityUnit, debtUnit)))))"

fun units_loop :: "set_token \<Rightarrow> address list \<Rightarrow> (int list \<times> int list) result" where
  "units_loop s [] = Ok ([], [])"
| "units_loop s (k # ks) =
     rbind (getDefaultPositionRealUnit s k) (\<lambda>u.
     rbind (component_units s k u) (\<lambda>(eq, db).
     rbind (units_loop s ks) (\<lambda>(eqs, dbs).
     Ok (eq # eqs, db # dbs))))"

definition getTotalIssuanceUnits :: "set_token \<Rightarrow> (address list \<times> int list \<times> int list) result" where
  "getTotalIssuanceUnits s = rbind (units_loop s (components s)) (\<lambda>(eqs, dbs). Ok (components s, eqs, dbs))"

text \<open>The arrays have the length of the list of components, so that no index is out of range.\<close>

fun notional_loop :: "int \<Rightarrow> bool \<Rightarrow> int list \<Rightarrow> int list \<Rightarrow> (int list \<times> int list) result" where
  "notional_loop quantity isIssue (eq # eqs) (db # dbs) =
     rbind (if isIssue then preciseMulCeil_uint eq quantity else preciseMul_uint eq quantity) (\<lambda>totalEquity.
     rbind (if isIssue then preciseMul_uint db quantity else preciseMulCeil_uint db quantity) (\<lambda>totalDebt.
     rbind (notional_loop quantity isIssue eqs dbs) (\<lambda>(es, ds).
     Ok (totalEquity # es, totalDebt # ds))))"
| "notional_loop quantity isIssue _ _ = Ok ([], [])"

definition calculateRequiredComponentIssuanceUnits ::
  "set_token \<Rightarrow> int \<Rightarrow> bool \<Rightarrow> (address list \<times> int list \<times> int list) result" where
  "calculateRequiredComponentIssuanceUnits s quantity isIssue =
     rbind (getTotalIssuanceUnits s) (\<lambda>(ks, equityUnits, debtUnits).
     rbind (notional_loop quantity isIssue equityUnits debtUnits) (\<lambda>(totalEquityUnits, totalDebtUnits).
     Ok (ks, totalEquityUnits, totalDebtUnits)))"

definition getRequiredComponentIssuanceUnits ::
  "address \<Rightarrow> address \<Rightarrow> int \<Rightarrow> 'x debt_evm \<Rightarrow> (address list \<times> int list \<times> int list) result" where
  "getRequiredComponentIssuanceUnits this self quantity e =
     rbind (calculateTotalFees this self quantity True e) (\<lambda>(totalQuantity, _, _).
     calculateRequiredComponentIssuanceUnits (the_set e) totalQuantity True)"

definition getRequiredComponentRedemptionUnits ::
  "address \<Rightarrow> address \<Rightarrow> int \<Rightarrow> 'x debt_evm \<Rightarrow> (address list \<times> int list \<times> int list) result" where
  "getRequiredComponentRedemptionUnits this self quantity e =
     rbind (calculateTotalFees this self quantity False e) (\<lambda>(totalQuantity, _, _).
     calculateRequiredComponentIssuanceUnits (the_set e) totalQuantity False)"

subsection \<open>Hooks\<close>

definition callManagerPreIssueHooks ::
  "'x debt_foreign \<Rightarrow> address \<Rightarrow> int \<Rightarrow> address \<Rightarrow> address \<Rightarrow> 'x debt_evm \<Rightarrow> (address \<times> 'x debt_evm) result" where
  "callManagerPreIssueHooks F self quantity caller to_account e =
     (let preIssueHook = issue_managerHook (settings_of self e) in
      if preIssueHook \<noteq> address_zero then
        rbind (invokePreIssueHook F preIssueHook self quantity caller to_account e) (\<lambda>e1. Ok (preIssueHook, e1))
      else Ok (address_zero, e))"

fun hook_loop :: "(address \<Rightarrow> 'w evm \<Rightarrow> ('w evm) result) \<Rightarrow> address list \<Rightarrow> 'w evm \<Rightarrow> ('w evm) result" where
  "hook_loop h [] e = Ok e"
| "hook_loop h (m # ms) e = rbind (h m e) (hook_loop h ms)"

definition callModulePreIssueHooks :: "'x debt_hooks \<Rightarrow> address \<Rightarrow> int \<Rightarrow> 'x debt_evm \<Rightarrow> ('x debt_evm) result" where
  "callModulePreIssueHooks H self quantity e =
     hook_loop (\<lambda>m. moduleIssueHook H m self quantity) (moduleIssuanceHooks (settings_of self e)) e"

definition callModulePreRedeemHooks :: "'x debt_hooks \<Rightarrow> address \<Rightarrow> int \<Rightarrow> 'x debt_evm \<Rightarrow> ('x debt_evm) result" where
  "callModulePreRedeemHooks H self quantity e =
     hook_loop (\<lambda>m. moduleRedeemHook H m self quantity) (moduleIssuanceHooks (settings_of self e)) e"

definition executeExternalPositionHooks ::
  "'w module_hooks \<Rightarrow> address \<Rightarrow> int \<Rightarrow> address \<Rightarrow> bool \<Rightarrow> bool \<Rightarrow> 'w evm \<Rightarrow> ('w evm) result" where
  "executeExternalPositionHooks H self setTokenQuantity k isIssue isEquity e =
     (let externalPositionModules = getExternalPositionModules (the_set e) k in
      if isIssue then hook_loop (\<lambda>m. componentIssueHook H m self setTokenQuantity k isEquity) externalPositionModules e
      else hook_loop (\<lambda>m. componentRedeemHook H m self setTokenQuantity k isEquity) externalPositionModules e)"

subsection \<open>Issuing and redeeming\<close>

fun resolveEquityPositions ::
  "'w foreign \<Rightarrow> 'w module_hooks \<Rightarrow> address \<Rightarrow> address \<Rightarrow> address \<Rightarrow> int \<Rightarrow> address \<Rightarrow> bool \<Rightarrow> address list \<Rightarrow> int list \<Rightarrow>
   'w evm \<Rightarrow> ('w evm) result" where
  "resolveEquityPositions F H this msg_sender self quantity to_account isIssue (k # ks) (n # ns) e =
     rbind (if n > 0 then
              if isIssue then
                rbind (base_transferFrom F this k msg_sender self n e) (executeExternalPositionHooks H self quantity k True True)
              else
                rbind (executeExternalPositionHooks H self quantity k False True e) (strictInvokeTransfer F this self k to_account n)
            else Ok e)
       (resolveEquityPositions F H this msg_sender self quantity to_account isIssue ks ns)"
| "resolveEquityPositions F H this msg_sender self quantity to_account isIssue _ _ e = Ok e"

fun resolveDebtPositions ::
  "'w foreign \<Rightarrow> 'w module_hooks \<Rightarrow> address \<Rightarrow> address \<Rightarrow> address \<Rightarrow> int \<Rightarrow> bool \<Rightarrow> address list \<Rightarrow> int list \<Rightarrow>
   'w evm \<Rightarrow> ('w evm) result" where
  "resolveDebtPositions F H this msg_sender self quantity isIssue (k # ks) (n # ns) e =
     rbind (if n > 0 then
              if isIssue then
                rbind (executeExternalPositionHooks H self quantity k True False e) (strictInvokeTransfer F this self k msg_sender n)
              else
                rbind (base_transferFrom F this k msg_sender self n e) (executeExternalPositionHooks H self quantity k False False)
            else Ok e)
       (resolveDebtPositions F H this msg_sender self quantity isIssue ks ns)"
| "resolveDebtPositions F H this msg_sender self quantity isIssue _ _ e = Ok e"

definition resolveFees :: "address \<Rightarrow> address \<Rightarrow> int \<Rightarrow> int \<Rightarrow> 'x debt_evm \<Rightarrow> ('x debt_evm) result" where
  "resolveFees this self managerFee protocolFee e =
     (if managerFee > 0 then
        rbind (on_set (\<lambda>c. set_mint this c (issue_feeRecipient (settings_of self e)) managerFee) e) (\<lambda>e1.
        if protocolFee > 0
        then on_set (\<lambda>c. set_mint this c (ctl_feeRecipient (the_controller e1)) protocolFee) e1
        else Ok e1)
      else Ok e)"

definition debt_issue ::
  "'x debt_foreign \<Rightarrow> 'x debt_hooks \<Rightarrow> address \<Rightarrow> address \<Rightarrow> address \<Rightarrow> int \<Rightarrow> address \<Rightarrow> 'x debt_evm \<Rightarrow> ('x debt_evm) result" where
  "debt_issue F H this msg_sender self quantity to_account = nonReentrant (\<lambda>e.
     rbind (validateOnlyValidAndInitializedSet this (the_controller e) self (the_set e)) (\<lambda>_.
     rbind (require (quantity > 0) ''Issue quantity must be > 0'') (\<lambda>_.
     rbind (callManagerPreIssueHooks F self quantity msg_sender to_account e) (\<lambda>(hookContract, e1).
     rbind (callModulePreIssueHooks H self quantity e1) (\<lambda>e2.
     rbind (calculateTotalFees this self quantity True e2) (\<lambda>(quantityWithFees, managerFee, protocolFee).
     rbind (calculateRequiredComponentIssuanceUnits (the_set e2) quantityWithFees True) (\<lambda>(ks, equityUnits, debtUnits).
     rbind (resolveEquityPositions F H this msg_sender self quantityWithFees to_account True ks equityUnits e2) (\<lambda>e3.
     rbind (resolveDebtPositions F H this msg_sender self quantityWithFees True ks debtUnits e3) (\<lambda>e4.
     rbind (resolveFees this self managerFee protocolFee e4)
       (on_set (\<lambda>c. set_mint this c to_account quantity)))))))))))"

definition debt_redeem ::
  "'x debt_foreign \<Rightarrow> 'x debt_hooks \<Rightarrow> address \<Rightarrow> address \<Rightarrow> address \<Rightarrow> int \<Rightarrow> address \<Rightarrow> 'x debt_evm \<Rightarrow> ('x debt_evm) result" where
  "debt_redeem F H this msg_sender self quantity to_account = nonReentrant (\<lambda>e.
     rbind (validateOnlyValidAndInitializedSet this (the_controller e) self (the_set e)) (\<lambda>_.
     rbind (require (quantity > 0) ''Redeem quantity must be > 0'') (\<lambda>_.
     rbind (callModulePreRedeemHooks H self quantity e) (\<lambda>e1.
     rbind (on_set (\<lambda>c. set_burn this c msg_sender quantity) e1) (\<lambda>e2.
     rbind (calculateTotalFees this self quantity False e2) (\<lambda>(quantityNetFees, managerFee, protocolFee).
     rbind (calculateRequiredComponentIssuanceUnits (the_set e2) quantityNetFees False) (\<lambda>(ks, equityUnits, debtUnits).
     rbind (resolveDebtPositions F H this msg_sender self quantityNetFees False ks debtUnits e2) (\<lambda>e3.
     rbind (resolveEquityPositions F H this msg_sender self quantityNetFees to_account False ks equityUnits e3)
       (resolveFees this self managerFee protocolFee)))))))))"

subsection \<open>Settings\<close>

definition debt_updateFeeRecipient :: "address \<Rightarrow> address \<Rightarrow> address \<Rightarrow> address \<Rightarrow> 'x debt_evm \<Rightarrow> ('x debt_evm) result" where
  "debt_updateFeeRecipient this msg_sender self newFeeRecipient e =
     rbind (validateOnlyManagerAndValidSet this msg_sender (the_controller e) self (the_set e)) (\<lambda>_.
     rbind (require (newFeeRecipient \<noteq> address_zero) ''Fee Recipient must be non-zero address.'') (\<lambda>_.
     rbind (require (newFeeRecipient \<noteq> issue_feeRecipient (settings_of self e)) ''Same fee recipient passed'') (\<lambda>_.
     Ok (write_settings self (\<lambda>x. x\<lparr>issue_feeRecipient := newFeeRecipient\<rparr>) e))))"

definition updateIssueFee :: "address \<Rightarrow> address \<Rightarrow> address \<Rightarrow> int \<Rightarrow> 'x debt_evm \<Rightarrow> ('x debt_evm) result" where
  "updateIssueFee this msg_sender self newIssueFee e =
     rbind (validateOnlyManagerAndValidSet this msg_sender (the_controller e) self (the_set e)) (\<lambda>_.
     rbind (require (newIssueFee \<le> maxManagerFee (settings_of self e)) ''Issue fee can't exceed maximum'') (\<lambda>_.
     rbind (require (newIssueFee \<noteq> managerIssueFee (settings_of self e)) ''Same issue fee passed'') (\<lambda>_.
     Ok (write_settings self (\<lambda>x. x\<lparr>managerIssueFee := newIssueFee\<rparr>) e))))"

definition updateRedeemFee :: "address \<Rightarrow> address \<Rightarrow> address \<Rightarrow> int \<Rightarrow> 'x debt_evm \<Rightarrow> ('x debt_evm) result" where
  "updateRedeemFee this msg_sender self newRedeemFee e =
     rbind (validateOnlyManagerAndValidSet this msg_sender (the_controller e) self (the_set e)) (\<lambda>_.
     rbind (require (newRedeemFee \<le> maxManagerFee (settings_of self e)) ''Redeem fee can't exceed maximum'') (\<lambda>_.
     rbind (require (newRedeemFee \<noteq> managerRedeemFee (settings_of self e)) ''Same redeem fee passed'') (\<lambda>_.
     Ok (write_settings self (\<lambda>x. x\<lparr>managerRedeemFee := newRedeemFee\<rparr>) e))))"

definition registerToIssuanceModule :: "address \<Rightarrow> address \<Rightarrow> address \<Rightarrow> 'x debt_evm \<Rightarrow> ('x debt_evm) result" where
  "registerToIssuanceModule this msg_sender self e =
     rbind (module_validateOnlyModule msg_sender (the_controller e) (the_set e)) (\<lambda>_.
     rbind (validateOnlyValidAndInitializedSet this (the_controller e) self (the_set e)) (\<lambda>_.
     rbind (require (\<not> isModuleHook (settings_of self e) msg_sender) ''Module already registered.'') (\<lambda>_.
     Ok (write_settings self (\<lambda>x. x\<lparr>moduleIssuanceHooks := moduleIssuanceHooks x @ [msg_sender],
       isModuleHook := (isModuleHook x)(msg_sender := True)\<rparr>) e))))"

definition unregisterFromIssuanceModule :: "address \<Rightarrow> address \<Rightarrow> address \<Rightarrow> 'x debt_evm \<Rightarrow> ('x debt_evm) result" where
  "unregisterFromIssuanceModule this msg_sender self e =
     rbind (module_validateOnlyModule msg_sender (the_controller e) (the_set e)) (\<lambda>_.
     rbind (validateOnlyValidAndInitializedSet this (the_controller e) self (the_set e)) (\<lambda>_.
     rbind (require (isModuleHook (settings_of self e) msg_sender) ''Module not registered.'') (\<lambda>_.
     rbind (removeStorage (moduleIssuanceHooks (settings_of self e)) msg_sender) (\<lambda>hooks.
     Ok (write_settings self (\<lambda>x. x\<lparr>moduleIssuanceHooks := hooks,
       isModuleHook := (isModuleHook x)(msg_sender := False)\<rparr>) e)))))"

text \<open>A struct is assigned and deleted without its mappings, so \<open>isModuleHook\<close> keeps its value.\<close>

definition debt_initialize ::
  "address \<Rightarrow> address \<Rightarrow> address \<Rightarrow> int \<Rightarrow> int \<Rightarrow> int \<Rightarrow> address \<Rightarrow> address \<Rightarrow> 'x debt_evm \<Rightarrow> ('x debt_evm) result" where
  "debt_initialize this msg_sender self maxFee issueFee redeemFee recipient hook e =
     rbind (validateOnlySetManager msg_sender (the_set e)) (\<lambda>_.
     rbind (validateOnlyValidAndPendingSet this (the_controller e) self (the_set e)) (\<lambda>_.
     rbind (require (issueFee \<le> maxFee) ''Issue fee can't exceed maximum fee'') (\<lambda>_.
     rbind (require (redeemFee \<le> maxFee) ''Redeem fee can't exceed maximum fee'') (\<lambda>_.
     on_set (\<lambda>c. initializeModule this)
       (write_settings self (\<lambda>x. \<lparr>maxManagerFee = maxFee, managerIssueFee = issueFee, managerRedeemFee = redeemFee,
          issue_feeRecipient = recipient, issue_managerHook = hook, moduleIssuanceHooks = [], isModuleHook = isModuleHook x\<rparr>) e)))))"

text \<open>Called by the Set, whose address \<open>msg.sender\<close> is \<open>self\<close>.\<close>

definition debt_removeModule :: "address \<Rightarrow> 'x debt_evm \<Rightarrow> ('x debt_evm) result" where
  "debt_removeModule self e =
     rbind (require (moduleIssuanceHooks (settings_of self e) = []) ''Registered modules must be removed.'') (\<lambda>_.
     Ok (write_settings self (\<lambda>x. \<lparr>maxManagerFee = 0, managerIssueFee = 0, managerRedeemFee = 0,
          issue_feeRecipient = 0, issue_managerHook = 0, moduleIssuanceHooks = [], isModuleHook = isModuleHook x\<rparr>) e))"

definition getModuleIssuanceHooks :: "address \<Rightarrow> 'x debt_evm \<Rightarrow> address list" where
  "getModuleIssuanceHooks self e = moduleIssuanceHooks (settings_of self e)"

definition isModuleIssuanceHook :: "address \<Rightarrow> 'x debt_evm \<Rightarrow> address \<Rightarrow> bool" where
  "isModuleIssuanceHook self e hook = isModuleHook (settings_of self e) hook"

subsection \<open>What a Set asks for\<close>

text \<open>Equity and debt sum to the total of the positions of a component, and the sum cannot overflow.\<close>

lemma split_external_net:
  assumes "split_external s k ms a b = Inr (x, y)" "0 \<le> a" "b \<le> 0" "is_int256 a" "is_int256 b"
  shows "sum_external_units s k ms (a + b) = Inr (x + y) \<and> 0 \<le> x \<and> y \<le> 0 \<and> is_int256 x \<and> is_int256 y"
  using assms
proof (induction ms arbitrary: a b)
  case (Cons m ms)
  then obtain u where u: "getExternalPositionRealUnit s k m = Inr u" by (auto simp: rbind_eq_Inr)
  show ?case
  proof (cases "0 < u")
    case True
    then have 1: "is_int256 (a + u)" "split_external s k ms (a + u) b = Inr (x, y)"
      using Cons.prems(1) u by (auto simp: rbind_eq_Inr sadd_eq_Inr)
    then have "is_int256 (a + b + u)" using Cons.prems True by (simp add: is_int256_def)
    then show ?thesis using Cons.IH [OF 1(2)] 1(1) Cons.prems(2-5) True u by (simp add: sadd_def ac_simps)
  next
    case False
    then have 1: "is_int256 (b + u)" "split_external s k ms a (b + u) = Inr (x, y)"
      using Cons.prems(1) u by (auto simp: rbind_eq_Inr sadd_eq_Inr)
    then have "is_int256 (a + b + u)" using Cons.prems False by (simp add: is_int256_def)
    then show ?thesis using Cons.IH [OF 1(2)] 1(1) Cons.prems(2-5) False u by (simp add: sadd_def ac_simps)
  qed
qed simp

lemma component_units_net:
  assumes "position_inv s" "getDefaultPositionRealUnit s k = Inr u" "0 \<le> u" "component_units s k u = Inr (eq, db)"
  shows "getTotalComponentRealUnits s k = Inr (eq - db) \<and> is_uint256 eq \<and> is_uint256 db"
proof -
  obtain x y where s: "split_external s k (getExternalPositionModules s k) u 0 = Inr (x, y)" and eq: "0 \<le> x" "eq = x"
    and db: "is_int256 (- y)" "db = - y"
    using assms(4) by (auto simp: component_units_def rbind_eq_Inr toUint256_eq_Inr smul_eq_Inr)
  have "is_int256 u" "is_int256 0" using real_unit_typed [OF assms(1,2)] by (auto simp: is_int256_def)
  from split_external_net [OF s assms(3) _ this]
  have "sum_external_units s k (getExternalPositionModules s k) u = Inr (x + y)" "y \<le> 0" "is_int256 x" by simp_all
  then show ?thesis using assms(2) eq db by (simp add: getTotalComponentRealUnits_def is_uint256_def is_int256_def)
qed

lemma required_units_nth:
  assumes "units_loop s ks = Inr (eqs, dbs)" "notional_loop q b eqs dbs = Inr (es, ds)"
  shows "length es = length ks \<and> length ds = length ks \<and> (\<forall>i < length ks. \<exists>u eq db.
    getDefaultPositionRealUnit s (ks ! i) = Inr u \<and> component_units s (ks ! i) u = Inr (eq, db)
    \<and> (if b then preciseMulCeil_uint eq q else preciseMul_uint eq q) = Inr (es ! i)
    \<and> (if b then preciseMul_uint db q else preciseMulCeil_uint db q) = Inr (ds ! i))"
  using assms
proof (induction ks arbitrary: eqs dbs es ds)
  case (Cons k ks)
  obtain u eq db eqs' dbs' where u: "getDefaultPositionRealUnit s k = Inr u" "component_units s k u = Inr (eq, db)"
    "units_loop s ks = Inr (eqs', dbs')" "eqs = eq # eqs'" "dbs = db # dbs'"
    using Cons.prems(1) by (auto simp: rbind_eq_Inr)
  obtain e d es' ds' where n: "(if b then preciseMulCeil_uint eq q else preciseMul_uint eq q) = Inr e"
    "(if b then preciseMul_uint db q else preciseMulCeil_uint db q) = Inr d" "notional_loop q b eqs' dbs' = Inr (es', ds')"
    "es = e # es'" "ds = d # ds'"
    using Cons.prems(2) u(4,5) by (auto simp: rbind_eq_Inr)
  show ?case using Cons.IH [OF u(3) n(3)] u(1,2) n by (auto simp: less_Suc_eq_0_disj split del: if_split)
qed simp

lemma mul_floor:
  assumes "is_uint256 a" "is_uint256 q" "preciseMul_uint a q = Inr n"
  shows "n * PRECISE_UNIT \<le> a * q \<and> a * q < n * PRECISE_UNIT + PRECISE_UNIT \<and> 0 \<le> n"
proof -
  have "n = a * q div PRECISE_UNIT" "0 \<le> a * q" using assms by (auto simp: preciseMul_uint_eq_Inr is_uint256_def)
  then show ?thesis using div_mult_le_int [of PRECISE_UNIT "a * q"] less_div_mult_int [of PRECISE_UNIT "a * q"]
    by (simp add: pos_imp_zdiv_nonneg_iff distrib_right)
qed

lemma mul_ceiling:
  assumes "is_uint256 a" "is_uint256 q" "preciseMulCeil_uint a q = Inr n"
  shows "a * q \<le> n * PRECISE_UNIT \<and> n * PRECISE_UNIT < a * q + PRECISE_UNIT \<and> 0 \<le> n"
proof -
  have n: "n = - ((- (a * q)) div PRECISE_UNIT)" "0 \<le> a * q"
    using assms by (auto simp: preciseMulCeil_uint_exact is_uint256_def split: if_splits)
  have "(- (a * q)) div PRECISE_UNIT \<le> 0" using n(2) by (simp add: div_nonpos_pos_le0)
  then show ?thesis using n(1) div_mult_le_int [of PRECISE_UNIT "- (a * q)"] less_div_mult_int [of PRECISE_UNIT "- (a * q)"]
    by (simp add: distrib_right)
qed

text \<open>
  C23. The amounts that issuing and redeeming ask for and give back. For every component, in the order of the Set, the equity less
  the debt is the sum of its default and external positions times the quantity, and rounding favours the Set, by less than
  two base units: the issuer brings at least that and the redeemer takes at most that.
\<close>

theorem issuance_units_net:
  assumes "position_inv s" "\<forall>k \<in> set (components s). \<exists>u \<ge> 0. getDefaultPositionRealUnit s k = Inr u" "is_uint256 q"
    "calculateRequiredComponentIssuanceUnits s q isIssue = Inr (ks, es, ds)"
  shows "ks = components s \<and> length es = length ks \<and> length ds = length ks
    \<and> (\<forall>i < length ks. 0 \<le> es ! i \<and> 0 \<le> ds ! i \<and> (\<exists>t. getTotalComponentRealUnits s (ks ! i) = Inr t
        \<and> (if isIssue then t * q \<le> (es ! i - ds ! i) * PRECISE_UNIT \<and> (es ! i - ds ! i) * PRECISE_UNIT < t * q + 2 * PRECISE_UNIT
           else (es ! i - ds ! i) * PRECISE_UNIT \<le> t * q \<and> t * q < (es ! i - ds ! i) * PRECISE_UNIT + 2 * PRECISE_UNIT)))"
proof -
  obtain eqs dbs where ks: "ks = components s" and u: "units_loop s ks = Inr (eqs, dbs)" and n: "notional_loop q isIssue eqs dbs = Inr (es, ds)"
    using assms(4) by (auto simp: calculateRequiredComponentIssuanceUnits_def getTotalIssuanceUnits_def rbind_eq_Inr)
  note R = required_units_nth [OF u n]
  have "0 \<le> es ! i \<and> 0 \<le> ds ! i \<and> (\<exists>t. getTotalComponentRealUnits s (ks ! i) = Inr t
      \<and> (if isIssue then t * q \<le> (es ! i - ds ! i) * PRECISE_UNIT \<and> (es ! i - ds ! i) * PRECISE_UNIT < t * q + 2 * PRECISE_UNIT
         else (es ! i - ds ! i) * PRECISE_UNIT \<le> t * q \<and> t * q < (es ! i - ds ! i) * PRECISE_UNIT + 2 * PRECISE_UNIT))"
    if i: "i < length ks" for i
  proof -
    obtain u eq db where c: "getDefaultPositionRealUnit s (ks ! i) = Inr u" "component_units s (ks ! i) u = Inr (eq, db)"
      "(if isIssue then preciseMulCeil_uint eq q else preciseMul_uint eq q) = Inr (es ! i)"
      "(if isIssue then preciseMul_uint db q else preciseMulCeil_uint db q) = Inr (ds ! i)"
      using R i by blast
    have "0 \<le> u" using assms(2) c(1) i ks nth_mem by fastforce
    note N = component_units_net [OF assms(1) c(1) this c(2)]
    show ?thesis
    proof (cases isIssue)
      case True
      then show ?thesis using N mul_ceiling [of eq q "es ! i"] mul_floor [of db q "ds ! i"] c(3,4) assms(3)
        by (simp add: left_diff_distrib)
    next
      case False
      then show ?thesis using N mul_floor [of eq q "es ! i"] mul_ceiling [of db q "ds ! i"] c(3,4) assms(3)
        by (simp add: left_diff_distrib)
    qed
  qed
  then show ?thesis using R ks by blast
qed

subsection \<open>Sets without external positions\<close>

definition plain_set :: "address \<Rightarrow> set_token \<Rightarrow> bool" where
  "plain_set self s \<longleftrightarrow> set_inv s \<and> self \<notin> set (components s) \<and> (\<forall>k \<in> set (components s). getExternalPositionModules s k = [])"

lemma plain_set_D:
  assumes "plain_set self s"
  shows "set_inv s" "position_inv s" "distinct (components s)" "self \<notin> set (components s)"
    "k \<in> set (components s) \<Longrightarrow> getExternalPositionModules s k = []"
  using assms by (auto simp: plain_set_def set_inv_def position_inv_def)

text \<open>What is transferred for a component: the unit times the quantity, rounded for the Set.\<close>

definition equity_amount :: "bool \<Rightarrow> set_token \<Rightarrow> int \<Rightarrow> address \<Rightarrow> int" where
  "equity_amount isIssue s q k = (if isIssue then deposit_quantity (real_unit s k) q else real_unit s k * q div PRECISE_UNIT)"

lemma plain_required_units:
  assumes "plain_set self s" "is_uint256 q" "calculateRequiredComponentIssuanceUnits s q b = Inr (ks, es, ds)"
  shows "ks = components s \<and> es = map (equity_amount b s q) ks \<and> ds = map (\<lambda>_. 0) ks
    \<and> (\<forall>k \<in> set ks. getDefaultPositionRealUnit s k = Inr (real_unit s k) \<and> is_uint256 (real_unit s k) \<and> is_uint256 (equity_amount b s q k))"
proof -
  obtain eqs dbs where ks: "ks = components s" and u: "units_loop s ks = Inr (eqs, dbs)" and n: "notional_loop q b eqs dbs = Inr (es, ds)"
    using assms(3) by (auto simp: calculateRequiredComponentIssuanceUnits_def getTotalIssuanceUnits_def rbind_eq_Inr)
  note R = required_units_nth [OF u n]
  have P: "es ! i = equity_amount b s q (ks ! i) \<and> ds ! i = 0 \<and> getDefaultPositionRealUnit s (ks ! i) = Inr (real_unit s (ks ! i))
      \<and> is_uint256 (real_unit s (ks ! i)) \<and> is_uint256 (equity_amount b s q (ks ! i))" if i: "i < length ks" for i
  proof -
    obtain u eq db where c: "getDefaultPositionRealUnit s (ks ! i) = Inr u" "component_units s (ks ! i) u = Inr (eq, db)"
      "(if b then preciseMulCeil_uint eq q else preciseMul_uint eq q) = Inr (es ! i)"
      "(if b then preciseMul_uint db q else preciseMulCeil_uint db q) = Inr (ds ! i)"
      using R i by blast
    have "ks ! i \<in> set (components s)" using i ks by simp
    then have "toUint256 u = Inr eq" "db = 0"
      using c(2) plain_set_D(5) [OF assms(1)] by (auto simp: component_units_def rbind_eq_Inr toUint256_eq_Inr smul_eq_Inr)
    note ru = real_unit_Inr [OF plain_set_D(2) [OF assms(1)] c(1) this(1)] and db = this(2)
    have "ds ! i = 0" using c(4) db assms(2) by (auto simp: preciseMul_uint_eq_Inr preciseMulCeil_uint_exact split: if_splits)
    moreover have "es ! i = equity_amount b s q (ks ! i) \<and> is_uint256 (equity_amount b s q (ks ! i))"
      using c(3) ru assms(2) deposit_quantity_typed [of "real_unit s (ks ! i)" q]
      by (auto simp: equity_amount_def preciseMul_uint_eq_Inr preciseMulCeil_uint_exact deposit_quantity_def
          intro!: is_uint256_div is_uint256_mult split: if_splits)
    ultimately show ?thesis using c(1) ru by simp
  qed
  then have "es = map (equity_amount b s q) ks" "ds = map (\<lambda>_. 0) ks" using R by (auto intro!: nth_equalityI)
  then show ?thesis using P ks by (auto simp: in_set_conv_nth)
qed

lemma no_debt: "resolveDebtPositions F H this x self q b ks (map (\<lambda>_. 0) ks') e = Inr e' \<Longrightarrow> e' = e"
proof (induction ks arbitrary: ks')
  case (Cons k ks)
  then show ?case by (cases ks') auto
qed simp

lemma no_hooks: "getExternalPositionModules (the_set e) k = [] \<Longrightarrow> executeExternalPositionHooks H self q k b c e = Ok e"
  by (simp add: executeExternalPositionHooks_def)

text \<open>The fees in Sets: what is minted for the manager and the protocol.\<close>

lemma calculateTotalFees_Inr:
  assumes "calculateTotalFees this self q b e = Inr (n, mf, pf)" "is_uint256 q" "is_uint256 (getModuleFee (the_controller e) this 0)"
    "is_uint256 (managerIssueFee (settings_of self e))" "is_uint256 (managerRedeemFee (settings_of self e))"
  shows "is_uint256 n \<and> is_uint256 mf \<and> is_uint256 pf \<and> n = (if b then q + (mf + pf) else q - (mf + pf))
    \<and> mf + pf = (if b then managerIssueFee (settings_of self e) else managerRedeemFee (settings_of self e)) * q div PRECISE_UNIT
    \<and> pf = (mf + pf) * getModuleFee (the_controller e) this 0 div PRECISE_UNIT"
proof -
  let ?r = "if b then managerIssueFee (settings_of self e) else managerRedeemFee (settings_of self e)"
  obtain tf where tf: "preciseMul_uint ?r q = Inr tf" and pf: "preciseMul_uint tf (getModuleFee (the_controller e) this 0) = Inr pf"
    and mf: "safe_sub tf pf = Inr mf" and n: "(if b then safe_add q tf else safe_sub q tf) = Inr n"
    using assms(1) by (auto simp: calculateTotalFees_def Let_def rbind_eq_Inr ISSUANCE_MODULE_PROTOCOL_FEE_SPLIT_INDEX_def)
  have r: "is_uint256 ?r" using assms(4,5) by simp
  have t: "tf = ?r * q div PRECISE_UNIT" "is_uint256 tf"
    using tf r assms(2) by (auto simp: preciseMul_uint_eq_Inr intro!: is_uint256_div is_uint256_mult split del: if_split)
  have p: "pf = tf * getModuleFee (the_controller e) this 0 div PRECISE_UNIT" "is_uint256 pf"
    using pf t(2) assms(3) by (auto simp: preciseMul_uint_eq_Inr intro!: is_uint256_div is_uint256_mult)
  have m: "mf = tf - pf" "is_uint256 mf" using mf t(2) p(2) by (auto simp: safe_sub_eq_Inr is_uint256_diff)
  have "n = (if b then q + tf else q - tf)" "is_uint256 n"
    using n t(2) assms(2) by (auto simp: safe_sub_eq_Inr safe_add_eq_Inr is_uint256_diff is_uint256_def split: if_splits)
  then show ?thesis using t p m by auto
qed

definition fees_minted :: "int \<Rightarrow> int \<Rightarrow> int" where
  "fees_minted managerFee protocolFee = (if managerFee > 0 then managerFee + protocolFee else 0)"

text \<open>Minting changes balances and the supply of the Set only.\<close>

lemma on_set_mint:
  assumes "set_inv (the_set e)" "is_uint256 n" "on_set (\<lambda>c. set_mint this c y n) e = Inr e'"
  shows "\<exists>b. e' = e\<lparr>the_set := (the_set e)\<lparr>balances := b, totalSupply := totalSupply (the_set e) + n\<rparr>\<rparr> \<and> set_inv (the_set e')
    \<and> b = (balances (the_set e))(y := balances (the_set e) y + n)"
  using assms(3) issue_amounts(1) [OF assms(1,2)] by (auto simp: on_set_def rbind_eq_Inr)

lemma resolveFees_Inr:
  assumes "set_inv (the_set e)" "is_uint256 mf" "is_uint256 pf" "resolveFees this self mf pf e = Inr e'"
  shows "\<exists>b. e' = e\<lparr>the_set := (the_set e)\<lparr>balances := b, totalSupply := totalSupply (the_set e) + fees_minted mf pf\<rparr>\<rparr>
    \<and> set_inv (the_set e')"
proof (cases "0 < mf")
  case True
  then obtain y e1 where 1: "on_set (\<lambda>c. set_mint this c y mf) e = Inr e1"
    and 2: "(if pf > 0 then on_set (\<lambda>c. set_mint this c (ctl_feeRecipient (the_controller e1)) pf) e1 else Ok e1) = Inr e'"
    using assms(4) by (auto simp: resolveFees_def rbind_eq_Inr)
  obtain b where e1: "e1 = e\<lparr>the_set := (the_set e)\<lparr>balances := b, totalSupply := totalSupply (the_set e) + mf\<rparr>\<rparr>" "set_inv (the_set e1)"
    using on_set_mint [OF assms(1,2) 1] by blast
  show ?thesis
  proof (cases "0 < pf")
    case True
    then have "on_set (\<lambda>c. set_mint this c (ctl_feeRecipient (the_controller e1)) pf) e1 = Inr e'" using 2 by simp
    from on_set_mint [OF e1(2) assms(3) this] obtain b' where
      "e' = e1\<lparr>the_set := (the_set e1)\<lparr>balances := b', totalSupply := totalSupply (the_set e1) + pf\<rparr>\<rparr>" "set_inv (the_set e')" by blast
    then show ?thesis using \<open>0 < mf\<close> by (intro exI [of _ b']) (simp add: e1(1) fees_minted_def add.assoc)
  next
    case False
    then show ?thesis using 2 e1 assms(3) \<open>0 < mf\<close> by (auto simp: fees_minted_def is_uint256_def)
  qed
next
  case False
  then show ?thesis using assms by (intro exI [of _ "balances (the_set e)"]) (simp add: resolveFees_def fees_minted_def)
qed

context component_tokens
begin

lemma equity_step:
  assumes "wf e" "k \<noteq> self" "is_uint256 n" "getExternalPositionModules (the_set e) k = []"
    "(if n > 0 then
        if b then rbind (base_transferFrom F this k x self n e) (executeExternalPositionHooks H self q k True True)
        else rbind (executeExternalPositionHooks H self q k False True e) (strictInvokeTransfer F this self k y n)
      else Ok e) = Inr e'"
  shows "moved k (if b then n else - n) e e'"
proof (cases "0 < n")
  case n: True
  show ?thesis
  proof (cases b)
    case True
    then obtain e1 where 1: "base_transferFrom F this k x self n e = Inr e1" and 2: "executeExternalPositionHooks H self q k True True e1 = Inr e'"
      using assms(5) n by (auto simp: rbind_eq_Inr)
    note m = explicit_transferFrom_Inr [OF assms(1,3,2) 1]
    then have "getExternalPositionModules (the_set e1) k = []" using assms(4) by (simp add: moved_def)
    then show ?thesis using 2 m True by (simp add: no_hooks)
  next
    case False
    then show ?thesis using assms(5) n strictInvokeTransfer_Inr [OF assms(1,3,2)] by (simp add: no_hooks [OF assms(4)])
  qed
next
  case False
  then show ?thesis using assms(1,3,5) by (auto simp: moved_def is_uint256_def)
qed

lemma resolveEquity_Inr:
  assumes "wf e" "distinct ks" "self \<notin> set ks" "\<forall>k \<in> set ks. is_uint256 (f k)" "\<forall>k \<in> set ks. getExternalPositionModules (the_set e) k = []"
    "resolveEquityPositions F H this x self q y b ks (map f ks) e = Inr e'"
  shows "all_moved ks (\<lambda>k. if b then f k else - f k) e e'"
  using assms
proof (induction ks arbitrary: e)
  case (Cons k ks)
  obtain e1 where 1: "(if f k > 0 then
        if b then rbind (base_transferFrom F this k x self (f k) e) (executeExternalPositionHooks H self q k True True)
        else rbind (executeExternalPositionHooks H self q k False True e) (strictInvokeTransfer F this self k y (f k))
      else Ok e) = Inr e1" and 2: "resolveEquityPositions F H this x self q y b ks (map f ks) e1 = Inr e'"
    using Cons.prems(6) by (auto simp: rbind_eq_Inr [of "if f k > 0 then _ else _"] split del: if_split)
  have m: "moved k (if b then f k else - f k) e e1" using equity_step [OF Cons.prems(1) _ _ _ 1] Cons.prems(3-5) by simp
  then have "all_moved ks (\<lambda>k. if b then f k else - f k) e1 e'" using Cons.IH [OF _ _ _ _ _ 2] Cons.prems(2-5) by (simp add: moved_def)
  then show ?case using all_moved_Cons [of k "\<lambda>k. if b then f k else - f k"] m Cons.prems(2) by simp
qed (simp add: all_moved_def)

end

subsection \<open>Hooks that sync positions\<close>

text \<open>
  What issuance relies on of the modules that are registered with it: a hook may change the positions of the Set,
  but leaves a consistent Set without external positions, mints and burns nothing, and does not take away
  the collateral.
\<close>

locale issuance_hooks = component_tokens F self bal wf
  for F :: "'x debt_foreign" and self :: address and bal :: "address \<Rightarrow> address \<Rightarrow> 'x debt_evm \<Rightarrow> int" and wf :: "'x debt_evm \<Rightarrow> bool" +
  fixes H :: "'x debt_hooks"
  assumes settings_typed: "wf e \<Longrightarrow> is_uint256 (managerIssueFee (settings_of self e)) \<and> is_uint256 (managerRedeemFee (settings_of self e))"
    and issue_hook_law: "wf e \<Longrightarrow> plain_set self (the_set e) \<Longrightarrow> moduleIssueHook H m self q e = Inr e' \<Longrightarrow>
      wf e' \<and> plain_set self (the_set e') \<and> the_controller e' = the_controller e \<and> totalSupply (the_set e') = totalSupply (the_set e)
      \<and> (collateralized F self e \<longrightarrow> collateralized F self e')"
    and redeem_hook_law: "wf e \<Longrightarrow> plain_set self (the_set e) \<Longrightarrow> moduleRedeemHook H m self q e = Inr e' \<Longrightarrow>
      wf e' \<and> plain_set self (the_set e') \<and> the_controller e' = the_controller e \<and> totalSupply (the_set e') = totalSupply (the_set e)
      \<and> (collateralized F self e \<longrightarrow> collateralized F self e')"
begin

definition prepared :: "'x debt_evm \<Rightarrow> 'x debt_evm \<Rightarrow> bool" where
  "prepared e e' \<longleftrightarrow> wf e' \<and> plain_set self (the_set e') \<and> the_controller e' = the_controller e
     \<and> totalSupply (the_set e') = totalSupply (the_set e) \<and> (collateralized F self e \<longrightarrow> collateralized F self e')"

lemma prepared_trans: "prepared e e1 \<Longrightarrow> prepared e1 e' \<Longrightarrow> prepared e e'"
  by (auto simp: prepared_def)

lemma hook_loop_prepared:
  assumes "\<And>m e e'. wf e \<Longrightarrow> plain_set self (the_set e) \<Longrightarrow> h m e = Inr e' \<Longrightarrow> prepared e e'"
    "wf e" "plain_set self (the_set e)" "hook_loop h ms e = Inr e'"
  shows "prepared e e'"
  using assms(2-4)
proof (induction ms arbitrary: e)
  case (Cons m ms)
  then obtain e1 where e1: "h m e = Inr e1" "hook_loop h ms e1 = Inr e'" by (auto simp: rbind_eq_Inr)
  note p = assms(1) [OF Cons.prems(1,2) e1(1)]
  then show ?case using Cons.IH [OF _ _ e1(2)] by (auto simp: prepared_def)
qed (simp add: prepared_def)

lemma backed_iff:
  assumes "self \<notin> set (components (the_set e))"
  shows "collateralized F self e \<longleftrightarrow> (\<forall>k \<in> set (components (the_set e)). \<forall>u. getDefaultPositionRealUnit (the_set e) k = Inr u \<longrightarrow>
    totalSupply (the_set e) * u \<le> bal k self e * PRECISE_UNIT)"
proof -
  have "balance_of F k self e = Inr (bal k self e)" if "k \<in> set (components (the_set e))" for k using assms that readable by metis
  then show ?thesis by (auto simp: collateralized_def)
qed

lemma entered [simp]: "wf (e\<lparr>module_entered := b\<rparr>) = wf e" "bal k a (e\<lparr>module_entered := b\<rparr>) = bal k a e"
  using own_state [of "e\<lparr>module_entered := b\<rparr>" e] by simp_all

lemma manager_hook:
  assumes "wf e" "plain_set self (the_set e)" "is_uint256 q" "callManagerPreIssueHooks F self q x y e = Inr (h, e')"
  shows "prepared e e' \<and> (issue_managerHook (settings_of self e) = address_zero \<longrightarrow> e' = e)"
proof (cases "issue_managerHook (settings_of self e) = address_zero")
  case True
  then show ?thesis using assms by (auto simp: callManagerPreIssueHooks_def prepared_def)
next
  case False
  then have "wf e' \<and> the_set e' = the_set e \<and> the_controller e' = the_controller e \<and> (\<forall>t. bal t self e \<le> bal t self e')"
    using hook_law [OF assms(1,3)] assms(4) by (auto simp: callManagerPreIssueHooks_def Let_def rbind_eq_Inr)
  moreover have "n \<le> bal k self e * PRECISE_UNIT \<Longrightarrow> bal k self e \<le> bal k self e' \<Longrightarrow> n \<le> bal k self e' * PRECISE_UNIT" for n k by simp
  ultimately show ?thesis using False assms(2) backed_iff plain_set_D(4) [OF assms(2)] by (auto simp: prepared_def)
qed

lemma module_hooks_prepared:
  assumes "wf e" "plain_set self (the_set e)"
  shows "callModulePreIssueHooks H self q e = Inr e' \<Longrightarrow> prepared e e' \<and> (moduleIssuanceHooks (settings_of self e) = [] \<longrightarrow> e' = e)"
    "callModulePreRedeemHooks H self q e = Inr e' \<Longrightarrow> prepared e e' \<and> (moduleIssuanceHooks (settings_of self e) = [] \<longrightarrow> e' = e)"
proof -
  have "prepared e e'" if "wf e" "plain_set self (the_set e)" "moduleIssueHook H m self q e = Inr e'" for m e e'
    using issue_hook_law [OF that] by (simp add: prepared_def)
  note L1 = hook_loop_prepared [of "\<lambda>m. moduleIssueHook H m self q", OF this assms]
  have "prepared e e'" if "wf e" "plain_set self (the_set e)" "moduleRedeemHook H m self q e = Inr e'" for m e e'
    using redeem_hook_law [OF that] by (simp add: prepared_def)
  note L2 = hook_loop_prepared [of "\<lambda>m. moduleRedeemHook H m self q", OF this assms]
  show "callModulePreIssueHooks H self q e = Inr e' \<Longrightarrow> prepared e e' \<and> (moduleIssuanceHooks (settings_of self e) = [] \<longrightarrow> e' = e)"
    using L1 by (auto simp: callModulePreIssueHooks_def)
  show "callModulePreRedeemHooks H self q e = Inr e' \<Longrightarrow> prepared e e' \<and> (moduleIssuanceHooks (settings_of self e) = [] \<longrightarrow> e' = e)"
    using L2 by (auto simp: callModulePreRedeemHooks_def)
qed

text \<open>Both versions prepare an issuance in the same way.\<close>

lemma issue_prepared:
  assumes "wf e" "plain_set self (the_set e)" "is_uint256 q" "callManagerPreIssueHooks F self q x y e = Inr (h, e1)"
    "callModulePreIssueHooks H self q e1 = Inr e2"
  shows "prepared e e2 \<and> (issue_managerHook (settings_of self e) = address_zero \<longrightarrow> moduleIssuanceHooks (settings_of self e) = [] \<longrightarrow> e2 = e)"
proof -
  note M = manager_hook [OF assms(1-4)]
  then have "wf e1" "plain_set self (the_set e1)" by (simp_all add: prepared_def)
  note N = module_hooks_prepared(1) [OF this assms(5)]
  show ?thesis using M N prepared_trans [of e e1 e2] by auto
qed

end

subsection \<open>Issuing and redeeming step by step\<close>

lemma fees_then_mint:
  assumes "set_inv (the_set e)" "is_uint256 mf" "is_uint256 pf" "is_uint256 q"
    "rbind (resolveFees this self mf pf e) (on_set (\<lambda>c. set_mint this c y q)) = Inr e'"
  shows "\<exists>b. e' = e\<lparr>the_set := (the_set e)\<lparr>balances := b, totalSupply := totalSupply (the_set e) + fees_minted mf pf + q\<rparr>\<rparr>"
proof -
  obtain e1 where 1: "resolveFees this self mf pf e = Inr e1" and 2: "on_set (\<lambda>c. set_mint this c y q) e1 = Inr e'"
    using assms(5) by (auto simp: rbind_eq_Inr)
  obtain b where "e1 = e\<lparr>the_set := (the_set e)\<lparr>balances := b, totalSupply := totalSupply (the_set e) + fees_minted mf pf\<rparr>\<rparr>"
    "set_inv (the_set e1)" using resolveFees_Inr [OF assms(1-3) 1] by blast
  then show ?thesis using on_set_mint [OF _ assms(4) 2] by auto
qed

lemma fees_minted_le: "0 \<le> mf \<Longrightarrow> 0 \<le> pf \<Longrightarrow> 0 \<le> fees_minted mf pf \<and> fees_minted mf pf \<le> mf + pf"
  by (simp add: fees_minted_def)

context issuance_hooks
begin

lemma fees_Inr:
  assumes "wf e" "is_uint256 q" "is_uint256 (getModuleFee (the_controller e) this 0)" "calculateTotalFees this self q b e = Inr (n, mf, pf)"
  shows "is_uint256 n \<and> is_uint256 mf \<and> is_uint256 pf \<and> n = (if b then q + (mf + pf) else q - (mf + pf)) \<and> 0 \<le> fees_minted mf pf
    \<and> fees_minted mf pf \<le> mf + pf"
proof -
  have F: "is_uint256 n" "is_uint256 mf" "is_uint256 pf" "n = (if b then q + (mf + pf) else q - (mf + pf))"
    using calculateTotalFees_Inr [OF assms(4,2,3)] settings_typed [OF assms(1)] by blast+
  then have "0 \<le> mf" "0 \<le> pf" by (simp_all add: is_uint256_def)
  then show ?thesis using F fees_minted_le by blast
qed

text \<open>
  The steps of an issuance, in the state \<open>e2\<close> after the hooks: the quantity with fees, and a state \<open>e3\<close>
  with the components transferred, whose Set is minted to.
\<close>

lemma debt_issue_Inr:
  assumes "wf e" "plain_set self (the_set e)" "is_uint256 q" "is_uint256 (getModuleFee (the_controller e) this 0)"
    "debt_issue F H this x self q y e = Inr e'"
  obtains e2 n mf pf b where "prepared e e2" "0 < q" "calculateTotalFees this self q True e2 = Inr (n, mf, pf)"
    "issue_managerHook (settings_of self e) = address_zero \<Longrightarrow> moduleIssuanceHooks (settings_of self e) = [] \<Longrightarrow> e2 = e\<lparr>module_entered := True\<rparr>"
    "\<forall>k \<in> set (components (the_set e2)). getDefaultPositionRealUnit (the_set e2) k = Inr (real_unit (the_set e2) k)
       \<and> 0 \<le> real_unit (the_set e2) k \<and> bal k self e' = bal k self e2 + deposit_quantity (real_unit (the_set e2) k) n"
    "the_set e' = (the_set e2)\<lparr>balances := b, totalSupply := totalSupply (the_set e2) + fees_minted mf pf + q\<rparr>"
proof -
  let ?e0 = "e\<lparr>module_entered := True\<rparr>"
  obtain h e1 e2 n mf pf ks es ds e3 e4 e5 where pos: "0 < q" and h: "callManagerPreIssueHooks F self q x y ?e0 = Inr (h, e1)"
    and h2: "callModulePreIssueHooks H self q e1 = Inr e2" and fee: "calculateTotalFees this self q True e2 = Inr (n, mf, pf)"
    and req: "calculateRequiredComponentIssuanceUnits (the_set e2) n True = Inr (ks, es, ds)"
    and eq: "resolveEquityPositions F H this x self n y True ks es e2 = Inr e3"
    and db: "resolveDebtPositions F H this x self n True ks ds e3 = Inr e4"
    and rest: "rbind (resolveFees this self mf pf e4) (on_set (\<lambda>c. set_mint this c y q)) = Inr e5" and e': "e' = e5\<lparr>module_entered := False\<rparr>"
    using assms(5) unfolding debt_issue_def nonReentrant_def by (force simp: rbind_eq_Inr require_eq_Inr)
  have "wf ?e0" "plain_set self (the_set ?e0)" using assms(1,2) by simp_all
  note P = issue_prepared [OF this assms(3) h h2]
  then have prep: "prepared e e2" using backed_iff [of ?e0] backed_iff [of e] plain_set_D(4) [OF assms(2)] by (simp add: prepared_def)
  then have p: "wf e2" "plain_set self (the_set e2)" "is_uint256 (getModuleFee (the_controller e2) this 0)" using assms(4) by (simp_all add: prepared_def)
  note fe = fees_Inr [OF p(1) assms(3) p(3) fee]
  note R = plain_required_units [OF p(2) conjunct1 [OF fe] req]
  have M: "all_moved ks (equity_amount True (the_set e2) n) e2 e3"
    using resolveEquity_Inr [OF p(1), of ks "equity_amount True (the_set e2) n" H this x n y True] eq R plain_set_D [OF p(2)] by simp
  have e4: "e4 = e3" using no_debt db R by metis
  have s3: "the_set e3 = the_set e2" using M by (simp add: all_moved_def)
  obtain b where e5: "e5 = e3\<lparr>the_set := (the_set e2)\<lparr>balances := b, totalSupply := totalSupply (the_set e2) + fees_minted mf pf + q\<rparr>\<rparr>"
    using fees_then_mint [OF _ _ _ assms(3) rest] plain_set_D(1) [OF p(2)] fe e4 s3 by auto
  have bal': "bal k self e' = bal k self e3" for k using own_state [of e' e3] by (simp add: e' e5)
  show thesis
  proof (rule that [OF prep pos fee _ _ _, of b])
    show "\<forall>k \<in> set (components (the_set e2)). getDefaultPositionRealUnit (the_set e2) k = Inr (real_unit (the_set e2) k)
       \<and> 0 \<le> real_unit (the_set e2) k \<and> bal k self e' = bal k self e2 + deposit_quantity (real_unit (the_set e2) k) n"
      using M R bal' by (auto simp: all_moved_def equity_amount_def is_uint256_def)
  qed (use P e' e5 in \<open>simp_all add: settings_of_def\<close>)
qed

lemma backed_after:
  assumes "plain_set self (the_set e2)" "the_set e' = (the_set e2)\<lparr>balances := b, totalSupply := n\<rparr>"
    "\<And>k. k \<in> set (components (the_set e2)) \<Longrightarrow> getDefaultPositionRealUnit (the_set e2) k = Inr (real_unit (the_set e2) k)
      \<and> n * real_unit (the_set e2) k \<le> bal k self e' * PRECISE_UNIT"
  shows "collateralized F self e'"
  using backed_iff [of e'] plain_set_D(4) [OF assms(1)] assms(2,3) by auto

lemma backed_before:
  assumes "plain_set self (the_set e)" "collateralized F self e" "k \<in> set (components (the_set e))"
    "getDefaultPositionRealUnit (the_set e) k = Inr u"
  shows "totalSupply (the_set e) * u \<le> bal k self e * PRECISE_UNIT"
  using backed_iff [of e] plain_set_D(4) [OF assms(1)] assms(2-4) by simp

text \<open>Both kinds of issuance back what they mint, and redemptions take no more than what they burn.\<close>

lemma issue_backs:
  assumes "plain_set self (the_set e2)" "collateralized F self e2" "0 \<le> n" "m \<le> n"
    "\<forall>k \<in> set (components (the_set e2)). getDefaultPositionRealUnit (the_set e2) k = Inr (real_unit (the_set e2) k)
       \<and> 0 \<le> real_unit (the_set e2) k \<and> bal k self e' = bal k self e2 + deposit_quantity (real_unit (the_set e2) k) n"
    "the_set e' = (the_set e2)\<lparr>balances := b, totalSupply := totalSupply (the_set e2) + m\<rparr>"
  shows "collateralized F self e'"
proof (rule backed_after [OF assms(1,6)])
  fix k assume k: "k \<in> set (components (the_set e2))"
  let ?u = "real_unit (the_set e2) k"
  have u: "getDefaultPositionRealUnit (the_set e2) k = Inr ?u" "0 \<le> ?u" using assms(5) k by auto
  have "?u * n \<le> deposit_quantity ?u n * PRECISE_UNIT" using deposit_quantity_bounds(3) u(2) assms(3) by simp
  moreover have "m * ?u \<le> n * ?u" using assms(4) u(2) by (rule mult_right_mono)
  ultimately have "(totalSupply (the_set e2) + m) * ?u \<le> bal k self e' * PRECISE_UNIT"
    using backed_before [OF assms(1,2) k u(1)] assms(5) k by (simp add: algebra_simps)
  then show "getDefaultPositionRealUnit (the_set e2) k = Inr ?u
      \<and> (totalSupply (the_set e2) + m) * ?u \<le> bal k self e' * PRECISE_UNIT" using u(1) by simp
qed

lemma redeem_backs:
  assumes "plain_set self (the_set e1)" "collateralized F self e1" "n \<le> m"
    "\<forall>k \<in> set (components (the_set e1)). getDefaultPositionRealUnit (the_set e1) k = Inr (real_unit (the_set e1) k)
       \<and> 0 \<le> real_unit (the_set e1) k \<and> bal k self e' = bal k self e1 - real_unit (the_set e1) k * n div PRECISE_UNIT"
    "the_set e' = (the_set e1)\<lparr>balances := b, totalSupply := totalSupply (the_set e1) - m\<rparr>"
  shows "collateralized F self e'"
proof (rule backed_after [OF assms(1,5)])
  fix k assume k: "k \<in> set (components (the_set e1))"
  let ?u = "real_unit (the_set e1) k"
  have u: "getDefaultPositionRealUnit (the_set e1) k = Inr ?u" "0 \<le> ?u" using assms(4) k by auto
  have "n * ?u \<le> m * ?u" using assms(3) u(2) by (rule mult_right_mono)
  moreover have "?u * n div PRECISE_UNIT * PRECISE_UNIT \<le> ?u * n" by (rule div_mult_le_int) simp
  moreover have "bal k self e' = bal k self e1 - ?u * n div PRECISE_UNIT" using assms(4) k by blast
  ultimately have "(totalSupply (the_set e1) - m) * ?u \<le> bal k self e' * PRECISE_UNIT"
    using backed_before [OF assms(1,2) k u(1)] by (simp add: algebra_simps)
  then show "getDefaultPositionRealUnit (the_set e1) k = Inr ?u
      \<and> (totalSupply (the_set e1) - m) * ?u \<le> bal k self e' * PRECISE_UNIT" using u(1) by simp
qed

lemma debt_issue_collateral:
  assumes "wf e" "plain_set self (the_set e)" "is_uint256 q" "is_uint256 (getModuleFee (the_controller e) this 0)" "collateralized F self e"
    "debt_issue F H this x self q y e = Inr e'"
  shows "collateralized F self e'"
  using assms(1-4,6)
proof (rule debt_issue_Inr)
  fix e2 n mf pf b
  assume prep: "prepared e e2" and q: "0 < q" and fee: "calculateTotalFees this self q True e2 = Inr (n, mf, pf)"
    and B: "\<forall>k \<in> set (components (the_set e2)). getDefaultPositionRealUnit (the_set e2) k = Inr (real_unit (the_set e2) k)
       \<and> 0 \<le> real_unit (the_set e2) k \<and> bal k self e' = bal k self e2 + deposit_quantity (real_unit (the_set e2) k) n"
    and s': "the_set e' = (the_set e2)\<lparr>balances := b, totalSupply := totalSupply (the_set e2) + fees_minted mf pf + q\<rparr>"
  have p: "wf e2" "plain_set self (the_set e2)" "is_uint256 (getModuleFee (the_controller e2) this 0)" "collateralized F self e2"
    using prep assms(4,5) by (simp_all add: prepared_def)
  have le: "fees_minted mf pf + q \<le> n" "0 \<le> n" using fees_Inr [OF p(1) assms(3) p(3) fee] by (simp_all add: is_uint256_def)
  show ?thesis using issue_backs [OF p(2,4) le(2,1) B] s' by (simp add: add.assoc)
qed

end

context issuance_hooks
begin

text \<open>A redemption burns in the state \<open>e1\<close> after the hooks.\<close>

lemma redeem_burn:
  assumes "wf e" "plain_set self (the_set e)" "is_uint256 q" "callModulePreRedeemHooks H self n (e\<lparr>module_entered := True\<rparr>) = Inr e1"
    "on_set (\<lambda>c. set_burn this c x q) e1 = Inr e2"
  obtains b where "prepared e e1" "the_set e2 = (the_set e1)\<lparr>balances := b, totalSupply := totalSupply (the_set e1) - q\<rparr>"
    "wf e2" "plain_set self (the_set e2)" "the_controller e2 = the_controller e" "\<forall>k. bal k self e2 = bal k self e1"
    "real_unit (the_set e2) = real_unit (the_set e1)" "outside e2 = outside e1"
proof -
  let ?e0 = "e\<lparr>module_entered := True\<rparr>"
  have "prepared ?e0 e1" using module_hooks_prepared(2) [OF _ _ assms(4)] assms(1,2) by simp
  then have prep: "prepared e e1" using backed_iff [of ?e0] backed_iff [of e] plain_set_D(4) [OF assms(2)] by (simp add: prepared_def)
  then have p: "plain_set self (the_set e1)" "wf e1" by (simp_all add: prepared_def)
  obtain s2 where s2: "set_burn this (the_controller e1) x q (the_set e1) = Inr s2" "e2 = e1\<lparr>the_set := s2\<rparr>"
    using assms(5) by (auto simp: on_set_def rbind_eq_Inr)
  note B = issue_amounts(2) [OF plain_set_D(1) [OF p(1)] assms(3) s2(1)]
  have "plain_set self s2" using B p(1) by (auto simp: plain_set_def getExternalPositionModules_def)
  moreover have "wf e2" "\<forall>k. bal k self e2 = bal k self e1" using own_state [of e2 e1] s2(2) p(2) by simp_all
  ultimately show thesis using that [OF prep, of "(balances (the_set e1))(x := balances (the_set e1) x - q)"] B s2(2) prep
    by (auto simp: prepared_def)
qed

lemma debt_redeem_Inr:
  assumes "wf e" "plain_set self (the_set e)" "is_uint256 q" "is_uint256 (getModuleFee (the_controller e) this 0)"
    "debt_redeem F H this x self q y e = Inr e'"
  obtains e1 e2 n mf pf b where "prepared e e1" "0 < q" "wf e2" "is_uint256 (getModuleFee (the_controller e2) this 0)"
    "calculateTotalFees this self q False e2 = Inr (n, mf, pf)"
    "\<forall>k \<in> set (components (the_set e1)). getDefaultPositionRealUnit (the_set e1) k = Inr (real_unit (the_set e1) k)
       \<and> 0 \<le> real_unit (the_set e1) k \<and> bal k self e' = bal k self e1 - real_unit (the_set e1) k * n div PRECISE_UNIT"
    "the_set e' = (the_set e1)\<lparr>balances := b, totalSupply := totalSupply (the_set e1) - q + fees_minted mf pf\<rparr>"
proof -
  let ?e0 = "e\<lparr>module_entered := True\<rparr>"
  obtain e1 e2 n mf pf ks es ds e3 e4 e5 where pos: "0 < q" and h: "callModulePreRedeemHooks H self q ?e0 = Inr e1"
    and bu: "on_set (\<lambda>c. set_burn this c x q) e1 = Inr e2" and fee: "calculateTotalFees this self q False e2 = Inr (n, mf, pf)"
    and req: "calculateRequiredComponentIssuanceUnits (the_set e2) n False = Inr (ks, es, ds)"
    and db: "resolveDebtPositions F H this x self n False ks ds e2 = Inr e3"
    and eq: "resolveEquityPositions F H this x self n y False ks es e3 = Inr e4"
    and rest: "resolveFees this self mf pf e4 = Inr e5" and e': "e' = e5\<lparr>module_entered := False\<rparr>"
    using assms(5) unfolding debt_redeem_def nonReentrant_def by (force simp: rbind_eq_Inr require_eq_Inr)
  from redeem_burn [OF assms(1-3) h bu] obtain b where prep: "prepared e e1"
    and s2: "the_set e2 = (the_set e1)\<lparr>balances := b, totalSupply := totalSupply (the_set e1) - q\<rparr>"
    and p: "wf e2" "plain_set self (the_set e2)" "the_controller e2 = the_controller e" "\<forall>k. bal k self e2 = bal k self e1"
    and ru: "real_unit (the_set e2) = real_unit (the_set e1)" .
  have c: "is_uint256 (getModuleFee (the_controller e2) this 0)" using p(3) assms(4) by simp
  note fe = fees_Inr [OF p(1) assms(3) c fee]
  note R = plain_required_units [OF p(2) conjunct1 [OF fe] req]
  have e3: "e3 = e2" using no_debt db R by metis
  have M: "all_moved ks (\<lambda>k. - equity_amount False (the_set e2) n k) e2 e4"
    using resolveEquity_Inr [OF p(1), of ks "equity_amount False (the_set e2) n" H this x n y False] eq e3 R plain_set_D [OF p(2)] by simp
  have s4: "the_set e4 = the_set e2" using M by (simp add: all_moved_def)
  obtain b' where e5: "e5 = e4\<lparr>the_set := (the_set e2)\<lparr>balances := b', totalSupply := totalSupply (the_set e2) + fees_minted mf pf\<rparr>\<rparr>"
    using resolveFees_Inr [OF _ _ _ rest] plain_set_D(1) [OF p(2)] fe s4 by auto
  have bal': "bal k self e' = bal k self e4" for k using own_state [of e' e4] by (simp add: e' e5)
  show thesis
  proof (rule that [OF prep pos p(1) c fee, of b'])
    show "\<forall>k \<in> set (components (the_set e1)). getDefaultPositionRealUnit (the_set e1) k = Inr (real_unit (the_set e1) k)
       \<and> 0 \<le> real_unit (the_set e1) k \<and> bal k self e' = bal k self e1 - real_unit (the_set e1) k * n div PRECISE_UNIT"
      using M R bal' p(4) ru s2 by (auto simp: all_moved_def equity_amount_def is_uint256_def)
  qed (simp add: e' e5 s2)
qed

lemma debt_redeem_collateral:
  assumes "wf e" "plain_set self (the_set e)" "is_uint256 q" "is_uint256 (getModuleFee (the_controller e) this 0)" "collateralized F self e"
    "debt_redeem F H this x self q y e = Inr e'"
  shows "collateralized F self e'"
  using assms(1-4,6)
proof (rule debt_redeem_Inr)
  fix e1 e2 n mf pf b
  assume prep: "prepared e e1" and w: "wf e2" "is_uint256 (getModuleFee (the_controller e2) this 0)"
    and fee: "calculateTotalFees this self q False e2 = Inr (n, mf, pf)"
    and B: "\<forall>k \<in> set (components (the_set e1)). getDefaultPositionRealUnit (the_set e1) k = Inr (real_unit (the_set e1) k)
       \<and> 0 \<le> real_unit (the_set e1) k \<and> bal k self e' = bal k self e1 - real_unit (the_set e1) k * n div PRECISE_UNIT"
    and s': "the_set e' = (the_set e1)\<lparr>balances := b, totalSupply := totalSupply (the_set e1) - q + fees_minted mf pf\<rparr>"
  have p: "plain_set self (the_set e1)" "collateralized F self e1" using prep assms(5) by (simp_all add: prepared_def)
  have le: "fees_minted mf pf - q \<le> - n" using fees_Inr [OF w(1) assms(3) w(2) fee] by simp
  show ?thesis using redeem_backs [OF p _ B, of "q - fees_minted mf pf" b] le s' by (simp add: algebra_simps)
qed

end

subsection \<open>The life of the settings\<close>

lemma settings_written [simp]:
  "settings_of self (write_settings self f e) = f (settings_of self e)" "the_set (write_settings self f e) = the_set e"
  "settings_of self (e\<lparr>the_set := s\<rparr>) = settings_of self e" "the_controller (write_settings self f e) = the_controller e"
  by (simp_all add: write_settings_def settings_of_def)

text \<open>
  The life of the module on one Set. \<open>other\<close> is everything that neither writes the settings of this Set nor
  initializes or removes the module: calls of other contracts, and of this module for other Sets.
\<close>

inductive debt_reachable :: "address \<Rightarrow> address \<Rightarrow> 'x debt_evm \<Rightarrow> bool" for this self :: address where
  deployed: "moduleStates (the_set e) this \<noteq> INITIALIZED \<Longrightarrow>
    settings_of self e = \<lparr>maxManagerFee = 0, managerIssueFee = 0, managerRedeemFee = 0, issue_feeRecipient = 0, issue_managerHook = 0,
      moduleIssuanceHooks = [], isModuleHook = (\<lambda>_. False)\<rparr> \<Longrightarrow> debt_reachable this self e"
| initialized: "debt_reachable this self e \<Longrightarrow> debt_initialize this u self m i r y h e = Inr e' \<Longrightarrow> debt_reachable this self e'"
| recipient: "debt_reachable this self e \<Longrightarrow> debt_updateFeeRecipient this u self y e = Inr e' \<Longrightarrow> debt_reachable this self e'"
| issue_fee: "debt_reachable this self e \<Longrightarrow> updateIssueFee this u self n e = Inr e' \<Longrightarrow> debt_reachable this self e'"
| redeem_fee: "debt_reachable this self e \<Longrightarrow> updateRedeemFee this u self n e = Inr e' \<Longrightarrow> debt_reachable this self e'"
| registered: "debt_reachable this self e \<Longrightarrow> registerToIssuanceModule this u self e = Inr e' \<Longrightarrow> debt_reachable this self e'"
| unregistered: "debt_reachable this self e \<Longrightarrow> unregisterFromIssuanceModule this u self e = Inr e' \<Longrightarrow> debt_reachable this self e'"
| removed: "debt_reachable this self e \<Longrightarrow> debt_removeModule self e = Inr e1 \<Longrightarrow> removeModule (\<lambda>m s. Ok s) u this (the_set e1) = Inr s \<Longrightarrow>
    debt_reachable this self (e1\<lparr>the_set := s\<rparr>)"
| other: "debt_reachable this self e \<Longrightarrow> settings_of self e' = settings_of self e \<Longrightarrow>
    (moduleStates (the_set e') this = INITIALIZED \<longleftrightarrow> moduleStates (the_set e) this = INITIALIZED) \<Longrightarrow> debt_reachable this self e'"

definition debt_settings_ok :: "address \<Rightarrow> address \<Rightarrow> 'x debt_evm \<Rightarrow> bool" where
  "debt_settings_ok this self e \<longleftrightarrow> (let x = settings_of self e in
     registry_ok (moduleIssuanceHooks x) (isModuleHook x) \<and> managerIssueFee x \<le> maxManagerFee x \<and> managerRedeemFee x \<le> maxManagerFee x
     \<and> (moduleStates (the_set e) this \<noteq> INITIALIZED \<longrightarrow> moduleIssuanceHooks x = [] \<and> maxManagerFee x = 0))"

lemma debt_initialize_ok:
  assumes "debt_settings_ok this self e" "debt_initialize this u self m i r y h e = Inr e'"
  shows "debt_settings_ok this self e'"
proof -
  have *: "moduleStates (the_set e) this = PENDING" "i \<le> m" "r \<le> m" "moduleStates (the_set e') this = INITIALIZED"
    "settings_of self e' = \<lparr>maxManagerFee = m, managerIssueFee = i, managerRedeemFee = r, issue_feeRecipient = y, issue_managerHook = h,
       moduleIssuanceHooks = [], isModuleHook = isModuleHook (settings_of self e)\<rparr>"
    using assms(2) by (auto simp: debt_initialize_def on_set_def initializeModule_def rbind_eq_Inr require_eq_Inr)
  then show ?thesis using assms(1) by (auto simp: debt_settings_ok_def Let_def)
qed

lemma debt_reachable_ok: "debt_reachable this self e \<Longrightarrow> debt_settings_ok this self e"
proof (induction rule: debt_reachable.induct)
  case (deployed e)
  then show ?case by (simp add: debt_settings_ok_def registry_ok_def)
next
  case (initialized e u m i r y h e')
  then show ?case by (blast intro: debt_initialize_ok)
next
  case (recipient e u y e')
  then show ?case by (auto simp: debt_updateFeeRecipient_def debt_settings_ok_def Let_def rbind_eq_Inr)
next
  case (issue_fee e u n e')
  then show ?case by (auto simp: updateIssueFee_def debt_settings_ok_def Let_def rbind_eq_Inr require_eq_Inr dest: manager_initialized)
next
  case (redeem_fee e u n e')
  then show ?case by (auto simp: updateRedeemFee_def debt_settings_ok_def Let_def rbind_eq_Inr require_eq_Inr dest: manager_initialized)
next
  case (registered e u e')
  let ?x = "settings_of self e"
  have "moduleStates (the_set e) this = INITIALIZED" "\<not> isModuleHook ?x u"
    and e': "e' = write_settings self (\<lambda>x. x\<lparr>moduleIssuanceHooks := moduleIssuanceHooks x @ [u], isModuleHook := (isModuleHook x)(u := True)\<rparr>) e"
    using registered by (auto simp: registerToIssuanceModule_def rbind_eq_Inr require_eq_Inr dest: valid_initialized)
  moreover from this have "registry_ok (moduleIssuanceHooks ?x @ [u]) ((isModuleHook ?x)(u := True))"
    using registered.IH by (simp add: debt_settings_ok_def Let_def registry_ok_add)
  ultimately show ?case using registered.IH by (simp add: debt_settings_ok_def Let_def)
next
  case (unregistered e u e')
  then show ?case
    by (auto simp: unregisterFromIssuanceModule_def debt_settings_ok_def Let_def rbind_eq_Inr require_eq_Inr registry_ok_removeStorage
        dest: valid_initialized)
next
  case (removed e e1 u s)
  then show ?case by (auto simp: debt_removeModule_def debt_settings_ok_def Let_def rbind_eq_Inr require_eq_Inr)
next
  case (other e e')
  then show ?case by (simp add: debt_settings_ok_def)
qed

text \<open>
  Through the life of the module on a Set, removals and new initializations included, the registered modules have no duplicates and are
  exactly the flagged ones, although the flags survive a removal, and the manager's fees stay below the maximum
  that was set on initialization; a Set that does not use the module has no registered modules and no fees.
\<close>

lemma debt_settings_consistent:
  assumes "debt_reachable this self e"
  shows "distinct (getModuleIssuanceHooks self e) \<and> (\<forall>m. isModuleIssuanceHook self e m \<longleftrightarrow> m \<in> set (getModuleIssuanceHooks self e))
    \<and> managerIssueFee (settings_of self e) \<le> maxManagerFee (settings_of self e)
    \<and> managerRedeemFee (settings_of self e) \<le> maxManagerFee (settings_of self e)
    \<and> (moduleStates (the_set e) this \<noteq> INITIALIZED \<longrightarrow> getModuleIssuanceHooks self e = [] \<and> maxManagerFee (settings_of self e) = 0)"
  using debt_reachable_ok [OF assms]
  by (auto simp: debt_settings_ok_def Let_def registry_ok_def getModuleIssuanceHooks_def isModuleIssuanceHook_def)

subsection \<open>A module with hooks\<close>

text \<open>
  \<^verbatim>\<open>src/contracts/mocks/protocol/module/ModuleIssuanceHookMock.sol\<close>, a module that keeps its share of a component
  on its own account. It does not sync before issuance.
\<close>

definition mock_notional :: "address \<Rightarrow> int \<Rightarrow> address \<Rightarrow> 'w evm \<Rightarrow> int result" where
  "mock_notional this setTokenQuantity k e =
     rbind (getExternalPositionRealUnit (the_set e) k this) (\<lambda>externalPositionUnit.
     rbind (toUint256 externalPositionUnit) (preciseMul_uint setTokenQuantity))"

definition mock_componentIssueHook :: "'w foreign \<Rightarrow> address \<Rightarrow> address \<Rightarrow> int \<Rightarrow> address \<Rightarrow> bool \<Rightarrow> 'w evm \<Rightarrow> ('w evm) result" where
  "mock_componentIssueHook F this self setTokenQuantity k isEquity e =
     rbind (mock_notional this setTokenQuantity k e) (\<lambda>totalNotionalExternalModule.
     invokeTransfer F this self k this totalNotionalExternalModule e)"

definition mock_componentRedeemHook :: "'w foreign \<Rightarrow> address \<Rightarrow> address \<Rightarrow> int \<Rightarrow> address \<Rightarrow> bool \<Rightarrow> 'w evm \<Rightarrow> ('w evm) result" where
  "mock_componentRedeemHook F this self setTokenQuantity k isEquity e =
     rbind (mock_notional this setTokenQuantity k e) (\<lambda>totalNotionalExternalModule.
     rbind (functionCallWithValue F this k 0 (encodeWithSignature F ''transfer(address,uint256)'' [int self, totalNotionalExternalModule]) e)
       (\<lambda>(e1, ret). Ok e1))"

definition mock_hooks :: "'w foreign \<Rightarrow> 'w module_hooks" where
  "mock_hooks F = \<lparr>moduleIssueHook = (\<lambda>this self n e. Ok e), moduleRedeemHook = (\<lambda>this self n e. Ok e),
     componentIssueHook = mock_componentIssueHook F, componentRedeemHook = mock_componentRedeemHook F\<rparr>"

definition fees_typed :: "debt_module \<Rightarrow> bool" where
  "fees_typed st \<longleftrightarrow> (\<forall>a. is_uint256 (managerIssueFee (issuanceSettings st a)) \<and> is_uint256 (managerRedeemFee (issuanceSettings st a)))"

interpretation debt_ledger: issuance_hooks "beside ledger_foreign" self "\<lambda>t a e. ledger_bal t a (bare e)"
    "\<lambda>e. ledger_wf (bare e) \<and> fees_typed (fst (outside e))" "mock_hooks (beside ledger_foreign)"
  for self
  by (intro issuance_hooks.intro component_tokens_beside ledger.component_tokens_axioms, unfold_locales)
    (auto simp: mock_hooks_def fees_typed_def settings_of_def)

subsection \<open>Properties\<close>

text \<open>
  C32. An issuance without hooks, to the unit: the issuer brings, for every component, the unit times the quantity with the fee, rounded up, and the
  supply grows by the quantity and the fee. When the protocol's share is all of the fee, nobody is minted
  the fee that was paid for.
\<close>

theorem debt_issue_exact:
  assumes "issuance_hooks F self bal ok H" "ok e" "plain_set self (the_set e)" "is_uint256 q"
    "is_uint256 (getModuleFee (the_controller e) this 0)" "issue_managerHook (settings_of self e) = address_zero"
    "moduleIssuanceHooks (settings_of self e) = []" "debt_issue F H this x self q y e = Inr e'"
    "fee = managerIssueFee (settings_of self e) * q div PRECISE_UNIT"
    "share = fee * getModuleFee (the_controller e) this 0 div PRECISE_UNIT"
  shows "totalSupply (the_set e') = totalSupply (the_set e) + q + (if share < fee then fee else 0)
    \<and> (\<forall>k \<in> set (components (the_set e)). bal k self e' = bal k self e + deposit_quantity (real_unit (the_set e) k) (q + fee))"
  using issuance_hooks.debt_issue_Inr [OF assms(1-5,8)]
proof cases
  case (1 e2 n mf pf b)
  have e2: "e2 = e\<lparr>module_entered := True\<rparr>" using 1(4) assms(6,7) by simp
  then have st: "settings_of self e2 = settings_of self e" "the_set e2 = the_set e" "the_controller e2 = the_controller e"
    by (simp_all add: settings_of_def)
  have F: "n = q + (mf + pf)" "mf + pf = fee" "pf = share"
    using calculateTotalFees_Inr [OF 1(3) assms(4)] issuance_hooks.settings_typed [OF assms(1,2)] assms(5,9,10) st by auto
  have "bal k self e2 = bal k self e" for k
    using issuance_hooks.entered(2) [OF assms(1)] e2 by simp
  then show ?thesis using 1(5,6) st F by (auto simp: fees_minted_def)
qed

subsection \<open>An example\<close>

text \<open>A Set with a debt of 1 in its first component, through module 8.\<close>

definition indebted_set :: set_token where
  "indebted_set = demo_set\<lparr>componentPositions := (componentPositions demo_set)(1 := \<lparr>virtualUnit = 3 * 10 ^ 18, externalPositionModules = [8],
     externalPositions = (\<lambda>_. no_external)(8 := no_external\<lparr>ext_virtualUnit := - (10 ^ 18)\<rparr>)\<rparr>)\<rparr>"

theorem issuance_units_net_witness:
  "calculateRequiredComponentIssuanceUnits indebted_set (10 ^ 17) True = Inr ([1, 2], [3 * 10 ^ 17, 5 * 10 ^ 16], [10 ^ 17, 0])
   \<and> (\<exists>t. getTotalComponentRealUnits indebted_set 1 = Inr t \<and> t * 10 ^ 17 \<le> (3 * 10 ^ 17 - 10 ^ 17) * PRECISE_UNIT)"
proof -
  have run: "calculateRequiredComponentIssuanceUnits indebted_set (10 ^ 17) True = Inr ([1, 2], [3 * 10 ^ 17, 5 * 10 ^ 16], [10 ^ 17, 0])"
    unfolding indebted_set_def demo_set_def by code_simp
  have inv: "position_inv indebted_set"
    by (auto simp: indebted_set_def position_inv_def virtual_typed_def units_ok_def demo_set_def is_int256_def real_unit_defs getExternalPositionModules_def)
  have units: "\<forall>k \<in> set (components indebted_set). \<exists>u \<ge> 0. getDefaultPositionRealUnit indebted_set k = Inr u"
    by (simp add: indebted_set_def demo_set_def real_unit_defs convertVirtualToRealUnit_def conservativePreciseMul_exact is_int256_def)
  have q: "is_uint256 (10 ^ 17)" by (simp add: is_uint256_def)
  note net = issuance_units_net [OF inv units q run, THEN conjunct2, THEN conjunct2, THEN conjunct2, rule_format, of 0]
  from net run show ?thesis by auto
qed

text \<open>The Set of the examples, with an issue fee of 1% for account 50.\<close>

definition demo_debt_settings :: IssuanceSettings where
  "demo_debt_settings = \<lparr>maxManagerFee = 2 * 10 ^ 16, managerIssueFee = 10 ^ 16, managerRedeemFee = 0, issue_feeRecipient = 50,
     issue_managerHook = 0, moduleIssuanceHooks = [], isModuleHook = (\<lambda>_. False)\<rparr>"

definition demo_debt_evm :: "(address \<Rightarrow> erc20) debt_evm" where
  "demo_debt_evm = dress \<lparr>issuanceSettings = (\<lambda>_. demo_debt_settings)\<rparr> demo_evm"

lemma demo_debt_evm_ok:
  "ledger_wf (bare demo_debt_evm) \<and> fees_typed (fst (outside demo_debt_evm))" "plain_set 20 (the_set demo_debt_evm)" "is_uint256 (10 ^ 18)"
  "is_uint256 (getModuleFee (the_controller demo_debt_evm) 7 0)" "collateralized (beside ledger_foreign) 20 demo_debt_evm"
proof -
  show "ledger_wf (bare demo_debt_evm) \<and> fees_typed (fst (outside demo_debt_evm))"
    using demo_evm_ok(1) by (simp add: demo_debt_evm_def fees_typed_def demo_debt_settings_def is_uint256_def)
  show "plain_set 20 (the_set demo_debt_evm)"
    using demo_evm_ok(2) by (auto simp: demo_debt_evm_def plain_set_def demo_evm_def demo_set_def getExternalPositionModules_def)
  show "collateralized (beside ledger_foreign) 20 demo_debt_evm"
    using demo_evm_ok(5) by (simp add: demo_debt_evm_def collateralized_def beside_def)
qed (simp_all add: is_uint256_def demo_debt_evm_def demo_evm_def getModuleFee_def demo_controller_def controller_constructor_def)

lemma demo_debt_issue:
  "\<exists>e'. debt_issue (beside ledger_foreign) (mock_hooks (beside ledger_foreign)) 7 30 20 (10 ^ 18) 40 demo_debt_evm = Inr e'"
proof -
  have "is_ok (debt_issue (beside ledger_foreign) (mock_hooks (beside ledger_foreign)) 7 30 20 (10 ^ 18) 40 demo_debt_evm)"
    unfolding demo_debt_evm_def demo_evm_def demo_token_def demo_set_def demo_controller_def by code_simp
  then show ?thesis by (simp add: is_ok_iff)
qed

theorem debt_issue_exact_witness:
  "\<exists>e'. debt_issue (beside ledger_foreign) (mock_hooks (beside ledger_foreign)) 7 30 20 (10 ^ 18) 40 demo_debt_evm = Inr e'
     \<and> totalSupply (the_set e') = 101 * 10 ^ 16 \<and> ledger_bal 1 20 (bare e') = 303 * 10 ^ 16"
proof -
  obtain e' where run: "debt_issue (beside ledger_foreign) (mock_hooks (beside ledger_foreign)) 7 30 20 (10 ^ 18) 40 demo_debt_evm = Inr e'"
    using demo_debt_issue ..
  have st: "settings_of 20 demo_debt_evm = demo_debt_settings" by (simp add: settings_of_def demo_debt_evm_def)
  have vals: "getModuleFee (the_controller demo_debt_evm) 7 0 = 0" "totalSupply (the_set demo_debt_evm) = 0" "ledger_bal 1 20 (bare demo_debt_evm) = 0"
    "real_unit (the_set demo_debt_evm) 1 = 3 * 10 ^ 18" "1 \<in> set (components (the_set demo_debt_evm))"
    by (simp_all add: demo_debt_evm_def demo_evm_def demo_set_def demo_token_def erc20_constructor_def real_unit_def getModuleFee_def
        demo_controller_def controller_constructor_def)
  have "issue_managerHook (settings_of 20 demo_debt_evm) = address_zero" "moduleIssuanceHooks (settings_of 20 demo_debt_evm) = []"
    "10 ^ 16 = managerIssueFee (settings_of 20 demo_debt_evm) * 10 ^ 18 div PRECISE_UNIT"
    "0 = 10 ^ 16 * getModuleFee (the_controller demo_debt_evm) 7 0 div PRECISE_UNIT"
    using vals(1) by (simp_all add: st demo_debt_settings_def)
  from debt_issue_exact [OF debt_ledger.issuance_hooks_axioms demo_debt_evm_ok(1-4) this(1,2) run this(3,4)]
  show ?thesis using run vals by (auto simp: deposit_quantity_def)
qed

lemma debt_settings_consistent_example:
  "\<exists>e'. debt_initialize 7 9 20 (2 * 10 ^ 16) (10 ^ 16) 0 50 0
      (dress \<lparr>issuanceSettings = (\<lambda>_. demo_debt_settings\<lparr>maxManagerFee := 0, managerIssueFee := 0, issue_feeRecipient := 0\<rparr>)\<rparr>
        (demo_evm\<lparr>the_set := demo_set\<lparr>modules := [], moduleStates := (\<lambda>_. NONE)(7 := PENDING)\<rparr>\<rparr>)) = Inr e'
    \<and> settings_of 20 e' = demo_debt_settings \<and> managerIssueFee (settings_of 20 e') \<le> maxManagerFee (settings_of 20 e')"
proof -
  let ?e = "dress \<lparr>issuanceSettings = (\<lambda>_. demo_debt_settings\<lparr>maxManagerFee := 0, managerIssueFee := 0, issue_feeRecipient := 0\<rparr>)\<rparr>
        (demo_evm\<lparr>the_set := demo_set\<lparr>modules := [], moduleStates := (\<lambda>_. NONE)(7 := PENDING)\<rparr>\<rparr>)"
  have start: "debt_reachable 7 20 ?e" by (rule debt_reachable.deployed) (simp_all add: settings_of_def demo_debt_settings_def)
  obtain e' where run: "debt_initialize 7 9 20 (2 * 10 ^ 16) (10 ^ 16) 0 50 0 ?e = Inr e'" "settings_of 20 e' = demo_debt_settings"
    by (simp add: debt_initialize_def validateOnlySetManager_def isSetManager_def validateOnlyValidAndPendingSet_def isSetPendingInitialization_def
        isPendingModule_def on_set_def initializeModule_def demo_set_def demo_evm_def demo_controller_def)
      (simp add: settings_of_def write_settings_def demo_debt_settings_def)
  from debt_settings_consistent [OF debt_reachable.initialized [OF start run(1)]] show ?thesis using run by blast
qed

end
