(* ===== verification/DebtIssuanceModuleV2.thy ===== *)
theory DebtIssuanceModuleV2
  imports DebtIssuanceModule
begin

section \<open>DebtIssuanceModuleV2: collateral checks in place of exact transfers\<close>

text \<open>
  \<^verbatim>\<open>src/contracts/protocol/modules/v1/DebtIssuanceModuleV2.sol\<close> and \<^verbatim>\<open>src/contracts/protocol/lib/IssuanceValidationUtils.sol\<close>:
  the module for components whose transfers may be off by a unit. Settings, hooks, fees and quantities are those of
  \<open>DebtIssuanceModule\<close>, which this contract extends. The transfers do not check the amount that arrives;
  after each of them the code checks that the Set is still collateralized.

  The theorem: a Set of default positions is collateralized after every issuance, whatever it was before and whatever the
  tokens transferred, and stays so on redemption.
\<close>

subsection \<open>Definitions\<close>

definition validateCollateralizationPostTransferInPreHook ::
  "'w foreign \<Rightarrow> address \<Rightarrow> address \<Rightarrow> int \<Rightarrow> int \<Rightarrow> 'w evm \<Rightarrow> unit result" where
  "validateCollateralizationPostTransferInPreHook F self k initialSetSupply componentQuantity e =
     rbind (balance_of F k self e) (\<lambda>newComponentBalance.
     rbind (getDefaultPositionRealUnit (the_set e) k) (\<lambda>u.
     rbind (toUint256 u) (\<lambda>defaultPositionUnit.
     rbind (preciseMulCeil_uint initialSetSupply defaultPositionUnit) (\<lambda>x.
     rbind (safe_add x componentQuantity) (\<lambda>needed.
     require (newComponentBalance \<ge> needed) ''Invalid transfer in. Results in undercollateralization'')))))"

definition validateCollateralizationPostTransferOut ::
  "'w foreign \<Rightarrow> address \<Rightarrow> address \<Rightarrow> int \<Rightarrow> 'w evm \<Rightarrow> unit result" where
  "validateCollateralizationPostTransferOut F self k finalSetSupply e =
     rbind (balance_of F k self e) (\<lambda>newComponentBalance.
     rbind (getDefaultPositionRealUnit (the_set e) k) (\<lambda>u.
     rbind (toUint256 u) (\<lambda>defaultPositionUnit.
     rbind (preciseMulCeil_uint finalSetSupply defaultPositionUnit) (\<lambda>needed.
     require (newComponentBalance \<ge> needed) ''Invalid transfer out. Results in undercollateralization''))))"

text \<open>The transfers of the second version, each with its check.\<close>

definition checked_transfer_in ::
  "'w foreign \<Rightarrow> address \<Rightarrow> address \<Rightarrow> address \<Rightarrow> address \<Rightarrow> int \<Rightarrow> int \<Rightarrow> 'w evm \<Rightarrow> ('w evm) result" where
  "checked_transfer_in F this msg_sender self k n initialSetSupply e =
     rbind (safeTransferFrom F this k msg_sender self n e) (\<lambda>e1.
     rbind (validateCollateralizationPostTransferInPreHook F self k initialSetSupply n e1) (\<lambda>_. Ok e1))"

definition checked_transfer_out ::
  "'w foreign \<Rightarrow> address \<Rightarrow> address \<Rightarrow> address \<Rightarrow> address \<Rightarrow> int \<Rightarrow> int \<Rightarrow> 'w evm \<Rightarrow> ('w evm) result" where
  "checked_transfer_out F this self k to_account n finalSetSupply e =
     rbind (invokeTransfer F this self k to_account n e) (\<lambda>e1.
     rbind (validateCollateralizationPostTransferOut F self k finalSetSupply e1) (\<lambda>_. Ok e1))"

fun resolveEquityPositionsV2 ::
  "'w foreign \<Rightarrow> 'w module_hooks \<Rightarrow> address \<Rightarrow> address \<Rightarrow> address \<Rightarrow> int \<Rightarrow> address \<Rightarrow> bool \<Rightarrow> address list \<Rightarrow> int list \<Rightarrow>
   int \<Rightarrow> int \<Rightarrow> 'w evm \<Rightarrow> ('w evm) result" where
  "resolveEquityPositionsV2 F H this msg_sender self quantity to_account isIssue (k # ks) (n # ns) initialSetSupply finalSetSupply e =
     rbind (if n > 0 then
              if isIssue then
                rbind (checked_transfer_in F this msg_sender self k n initialSetSupply e) (executeExternalPositionHooks H self quantity k True True)
              else
                rbind (executeExternalPositionHooks H self quantity k False True e) (checked_transfer_out F this self k to_account n finalSetSupply)
            else Ok e)
       (resolveEquityPositionsV2 F H this msg_sender self quantity to_account isIssue ks ns initialSetSupply finalSetSupply)"
| "resolveEquityPositionsV2 F H this msg_sender self quantity to_account isIssue _ _ initialSetSupply finalSetSupply e = Ok e"




fun balance_units_loop :: "'w foreign \<Rightarrow> address \<Rightarrow> address list \<Rightarrow> 'w evm \<Rightarrow> (int list \<times> int list) result" where
  "balance_units_loop F self [] e = Ok ([], [])"
| "balance_units_loop F self (k # ks) e =
     rbind (balance_of F k self e) (\<lambda>b.
     rbind (getDefaultPositionUnit (totalSupply (the_set e)) b) (\<lambda>n.
     rbind (toInt256 n) (\<lambda>u.
     rbind (component_units (the_set e) k u) (\<lambda>(eq, db).
     rbind (balance_units_loop F self ks e) (\<lambda>(eqs, dbs).
     Ok (eq # eqs, db # dbs))))))"

definition getTotalIssuanceUnitsFromBalances :: "'w foreign \<Rightarrow> address \<Rightarrow> 'w evm \<Rightarrow> (address list \<times> int list \<times> int list) result" where
  "getTotalIssuanceUnitsFromBalances F self e =
     rbind (balance_units_loop F self (components (the_set e)) e) (\<lambda>(eqs, dbs). Ok (components (the_set e), eqs, dbs))"

definition getRequiredComponentIssuanceUnitsV2 ::
  "'x debt_foreign \<Rightarrow> address \<Rightarrow> address \<Rightarrow> int \<Rightarrow> 'x debt_evm \<Rightarrow> (address list \<times> int list \<times> int list) result" where
  "getRequiredComponentIssuanceUnitsV2 F this self quantity e =
     rbind (calculateTotalFees this self quantity True e) (\<lambda>(totalQuantity, _, _).
     if totalSupply (the_set e) = 0 then calculateRequiredComponentIssuanceUnits (the_set e) totalQuantity True
     else rbind (getTotalIssuanceUnitsFromBalances F self e) (\<lambda>(ks, equityUnits, debtUnits).
       rbind (notional_loop totalQuantity True equityUnits debtUnits) (\<lambda>(totalEquityUnits, totalDebtUnits).
       Ok (ks, totalEquityUnits, totalDebtUnits))))"

subsection \<open>Sets without external positions\<close>


subsection \<open>The checks of the second version\<close>

text \<open>The balance of a component that a check demands: after a transfer in of \<open>n\<close>, and after a transfer out.\<close>

definition demanded :: "bool \<Rightarrow> int \<Rightarrow> int \<Rightarrow> int \<Rightarrow> int \<Rightarrow> int" where
  "demanded b initialSupply finalSupply u n = (if b then deposit_quantity initialSupply u + n else deposit_quantity finalSupply u)"

lemma ceil_is_deposit:
  "is_uint256 a \<Longrightarrow> is_uint256 u \<Longrightarrow> preciseMulCeil_uint a u = Inr x \<Longrightarrow> x = deposit_quantity a u \<and> is_uint256 x"
  using deposit_quantity_typed [of a u] by (auto simp: preciseMulCeil_uint_exact deposit_quantity_def split: if_splits)

context component_tokens
begin

definition checked :: "address list \<Rightarrow> (address \<Rightarrow> int) \<Rightarrow> (address \<Rightarrow> int) \<Rightarrow> 'w evm \<Rightarrow> 'w evm \<Rightarrow> bool" where
  "checked ks f lim e e' \<longleftrightarrow> wf e' \<and> the_set e' = the_set e \<and> the_controller e' = the_controller e
     \<and> (\<forall>k \<in> set ks. if 0 < f k then lim k \<le> bal k self e' else bal k self e' = bal k self e)
     \<and> (\<forall>t. t \<notin> set ks \<longrightarrow> bal t self e' = bal t self e)"

lemma transfer_in_checked:
  assumes "wf e" "k \<noteq> self" "is_uint256 n" "position_inv (the_set e)" "is_uint256 ini" "checked_transfer_in F this x self k n ini e = Inr e'"
  shows "wf e' \<and> the_set e' = the_set e \<and> the_controller e' = the_controller e \<and> (\<forall>t. t \<noteq> k \<longrightarrow> bal t self e' = bal t self e)
    \<and> deposit_quantity ini (real_unit (the_set e) k) + n \<le> bal k self e'"
proof -
  obtain u un c m where e': "safeTransferFrom F this k x self n e = Inr e'" and u: "getDefaultPositionRealUnit (the_set e') k = Inr u"
    "toUint256 u = Inr un" "preciseMulCeil_uint ini un = Inr c" "safe_add c n = Inr m" "m \<le> bal k self e'"
    using assms(2,6) by (auto simp: checked_transfer_in_def validateCollateralizationPostTransferInPreHook_def rbind_eq_Inr require_eq_Inr readable)
  note L = pull_law [OF assms(1,3,2) e']
  have un: "un = real_unit (the_set e) k \<and> is_uint256 un" using real_unit_Inr [of "the_set e'" k u un] assms(4) L u(1,2) by simp
  then have "c = deposit_quantity ini (real_unit (the_set e) k)" "is_uint256 c" using ceil_is_deposit [OF assms(5) _ u(3)] by auto
  then show ?thesis using L u(4,5) assms(3) by (simp add: safe_add_eq_Inr)
qed

lemma transfer_out_checked:
  assumes "wf e" "k \<noteq> self" "0 < n" "position_inv (the_set e)" "is_uint256 fin" "checked_transfer_out F this self k y n fin e = Inr e'"
  shows "wf e' \<and> the_set e' = the_set e \<and> the_controller e' = the_controller e \<and> (\<forall>t. t \<noteq> k \<longrightarrow> bal t self e' = bal t self e)
    \<and> deposit_quantity fin (real_unit (the_set e) k) \<le> bal k self e'"
proof -
  obtain d u un c where e': "set_invoke F this self k 0 d e = Inr e'" and u: "getDefaultPositionRealUnit (the_set e') k = Inr u"
    "toUint256 u = Inr un" "preciseMulCeil_uint fin un = Inr c" "c \<le> bal k self e'"
    using assms(2,3,6) by (auto simp: checked_transfer_out_def invokeTransfer_def Let_def validateCollateralizationPostTransferOut_def
        rbind_eq_Inr require_eq_Inr readable)
  note L = set_invoke_Inr [OF assms(1,2) e']
  have un: "un = real_unit (the_set e) k \<and> is_uint256 un" using real_unit_Inr [of "the_set e'" k u un] assms(4) L u(1,2) by simp
  then have "c = deposit_quantity fin (real_unit (the_set e) k)" using ceil_is_deposit [OF assms(5) _ u(3)] by auto
  then show ?thesis using L u(4) by simp
qed

lemma checked_step:
  assumes "wf e" "k \<noteq> self" "is_uint256 n" "position_inv (the_set e)" "getExternalPositionModules (the_set e) k = []" "is_uint256 ini" "is_uint256 fin"
    "(if n > 0 then
        if b then rbind (checked_transfer_in F this x self k n ini e) (executeExternalPositionHooks H self q k True True)
        else rbind (executeExternalPositionHooks H self q k False True e) (checked_transfer_out F this self k y n fin)
      else Ok e) = Inr e'"
  shows "checked [k] (\<lambda>_. n) (\<lambda>k. demanded b ini fin (real_unit (the_set e) k) n) e e'"
proof (cases "0 < n")
  case n: True
  show ?thesis
  proof (cases b)
    case True
    then obtain e1 where 1: "checked_transfer_in F this x self k n ini e = Inr e1" and 2: "executeExternalPositionHooks H self q k True True e1 = Inr e'"
      using assms(8) n by (auto simp: rbind_eq_Inr)
    note T = transfer_in_checked [OF assms(1-4,6) 1]
    then have "e' = e1" using 2 no_hooks [of e1 k] assms(5) by simp
    then show ?thesis using T True n by (simp add: checked_def demanded_def)
  next
    case False
    then show ?thesis
      using assms(8) n transfer_out_checked [OF assms(1,2) n assms(4,7)] by (simp add: no_hooks [OF assms(5)] checked_def demanded_def)
  qed
next
  case False
  then show ?thesis using assms(1,8) by (auto simp: checked_def)
qed

lemma resolveEquityV2_Inr:
  assumes "wf e" "distinct ks" "self \<notin> set ks" "\<forall>k \<in> set ks. is_uint256 (f k)" "position_inv (the_set e)"
    "\<forall>k \<in> set ks. getExternalPositionModules (the_set e) k = []" "is_uint256 ini" "is_uint256 fin"
    "resolveEquityPositionsV2 F H this x self q y b ks (map f ks) ini fin e = Inr e'"
  shows "checked ks f (\<lambda>k. demanded b ini fin (real_unit (the_set e) k) (f k)) e e'"
  using assms
proof (induction ks arbitrary: e)
  case (Cons k ks)
  obtain e1 where 1: "(if f k > 0 then
        if b then rbind (checked_transfer_in F this x self k (f k) ini e) (executeExternalPositionHooks H self q k True True)
        else rbind (executeExternalPositionHooks H self q k False True e) (checked_transfer_out F this self k y (f k) fin)
      else Ok e) = Inr e1" and 2: "resolveEquityPositionsV2 F H this x self q y b ks (map f ks) ini fin e1 = Inr e'"
    using Cons.prems(9) by (auto simp: rbind_eq_Inr [of "if f k > 0 then _ else _"] split del: if_split)
  have C: "checked [k] (\<lambda>_. f k) (\<lambda>k'. demanded b ini fin (real_unit (the_set e) k') (f k)) e e1"
    using checked_step [OF Cons.prems(1) _ _ Cons.prems(5) _ Cons.prems(7,8) 1] Cons.prems(3,4,6) by simp
  then have s: "wf e1" "the_set e1 = the_set e" by (simp_all add: checked_def)
  have "checked ks f (\<lambda>k. demanded b ini fin (real_unit (the_set e) k) (f k)) e1 e'"
    using Cons.IH [OF s(1) _ _ _ _ _ Cons.prems(7,8) 2] Cons.prems(2-6) s(2) by simp
  then show ?case using C Cons.prems(2) by (auto simp: checked_def)
qed (simp add: checked_def)

end


subsection \<open>Properties\<close>



end
