(* ===== verification/GovernanceModule.thy ===== *)
theory GovernanceModule
  imports TradeModule
begin

section \<open>The GovernanceModule\<close>

text \<open>
  \<^verbatim>\<open>src/contracts/protocol/modules/v1/GovernanceModule.sol\<close>: the manager takes part in the governance of component tokens.
  Every function looks up the adapter of a governance protocol, asks it for calldata and makes the Set call the protocol.
  The adapters, \<open>IGovernanceAdapter\<close>, are the record \<open>governance_adapters\<close>.

  The lemma: such a call is the manager's, for a Set that uses the module, and the Set's own state (positions, supply, modules) is the same
  afterwards.
\<close>

record 'w governance_adapters =
  gov_name_hash :: "string \<Rightarrow> nat"
  gov_registry_at :: "'w evm \<Rightarrow> address \<Rightarrow> integration_registry option"
  getVoteCalldata :: "address \<Rightarrow> int \<Rightarrow> bool \<Rightarrow> bytes \<Rightarrow> 'w evm \<Rightarrow> (address \<times> int \<times> bytes) result"
  getDelegateCalldata :: "address \<Rightarrow> address \<Rightarrow> 'w evm \<Rightarrow> (address \<times> int \<times> bytes) result"
  getRegisterCalldata :: "address \<Rightarrow> address \<Rightarrow> 'w evm \<Rightarrow> (address \<times> int \<times> bytes) result"
  getRevokeCalldata :: "address \<Rightarrow> 'w evm \<Rightarrow> (address \<times> int \<times> bytes) result"
  getProposeCalldata :: "address \<Rightarrow> bytes \<Rightarrow> 'w evm \<Rightarrow> (address \<times> int \<times> bytes) result"

text \<open>The body that the five functions share; \<open>calldata\<close> is the adapter's function with its arguments.\<close>

definition governance_call ::
  "'w foreign \<Rightarrow> 'w governance_adapters \<Rightarrow> address \<Rightarrow> address \<Rightarrow> address \<Rightarrow> string \<Rightarrow>
   (address \<Rightarrow> 'w evm \<Rightarrow> (address \<times> int \<times> bytes) result) \<Rightarrow> 'w evm \<Rightarrow> ('w evm) result" where
  "governance_call F A this msg_sender self governanceName calldata = nonReentrant (\<lambda>e.
     rbind (validateOnlyManagerAndValidSet this msg_sender (the_controller e) self (the_set e)) (\<lambda>_.
     rbind (getAndValidateAdapter (gov_name_hash A) (gov_registry_at A e) (the_controller e) this governanceName) (\<lambda>governanceAdapter.
     rbind (calldata governanceAdapter e) (\<lambda>(targetExchange, callValue, methodData).
     set_invoke F this self targetExchange callValue methodData e))))"

definition delegate ::
  "'w foreign \<Rightarrow> 'w governance_adapters \<Rightarrow> address \<Rightarrow> address \<Rightarrow> address \<Rightarrow> string \<Rightarrow> address \<Rightarrow> 'w evm \<Rightarrow> ('w evm) result" where
  "delegate F A this msg_sender self governanceName delegatee =
     governance_call F A this msg_sender self governanceName (\<lambda>adapter. getDelegateCalldata A adapter delegatee)"

definition propose ::
  "'w foreign \<Rightarrow> 'w governance_adapters \<Rightarrow> address \<Rightarrow> address \<Rightarrow> address \<Rightarrow> string \<Rightarrow> bytes \<Rightarrow> 'w evm \<Rightarrow> ('w evm) result" where
  "propose F A this msg_sender self governanceName proposalData =
     governance_call F A this msg_sender self governanceName (\<lambda>adapter. getProposeCalldata A adapter proposalData)"

definition governance_register ::
  "'w foreign \<Rightarrow> 'w governance_adapters \<Rightarrow> address \<Rightarrow> address \<Rightarrow> address \<Rightarrow> string \<Rightarrow> 'w evm \<Rightarrow> ('w evm) result" where
  "governance_register F A this msg_sender self governanceName =
     governance_call F A this msg_sender self governanceName (\<lambda>adapter. getRegisterCalldata A adapter self)"

definition revoke ::
  "'w foreign \<Rightarrow> 'w governance_adapters \<Rightarrow> address \<Rightarrow> address \<Rightarrow> address \<Rightarrow> string \<Rightarrow> 'w evm \<Rightarrow> ('w evm) result" where
  "revoke F A this msg_sender self governanceName =
     governance_call F A this msg_sender self governanceName (getRevokeCalldata A)"

definition vote ::
  "'w foreign \<Rightarrow> 'w governance_adapters \<Rightarrow> address \<Rightarrow> address \<Rightarrow> address \<Rightarrow> string \<Rightarrow> int \<Rightarrow> bool \<Rightarrow> bytes \<Rightarrow> 'w evm \<Rightarrow> ('w evm) result" where
  "vote F A this msg_sender self governanceName proposalId support data =
     governance_call F A this msg_sender self governanceName (\<lambda>adapter. getVoteCalldata A adapter proposalId support data)"

definition governance_initialize :: "address \<Rightarrow> address \<Rightarrow> address \<Rightarrow> 'w evm \<Rightarrow> ('w evm) result" where
  "governance_initialize this msg_sender self e =
     rbind (validateOnlySetManager msg_sender (the_set e)) (\<lambda>_.
     rbind (validateOnlyValidAndPendingSet this (the_controller e) self (the_set e)) (\<lambda>_.
     on_set (\<lambda>c. initializeModule this) e))"

definition governance_removeModule :: "'w evm \<Rightarrow> ('w evm) result" where
  "governance_removeModule e = Ok e"

text \<open>
  Every function of the module that succeeds was called by the manager of a Set that uses the module and made the
  Set call another contract once; the Set's state and the controller's are unchanged.
\<close>

lemma governance_keeps_set:
  assumes "quiet_calls F self bal ok" "ok e" "\<And>a e1 t v d. calldata a e1 = Inr (t, v, d) \<Longrightarrow> t \<noteq> self"
    "governance_call F A this sender self nm calldata e = Inr e'"
  shows "sender = manager (the_set e) \<and> isSetValidAndInitialized this (the_controller e) self (the_set e)
    \<and> ok e' \<and> the_set e' = the_set e \<and> the_controller e' = the_controller e"
proof -
  let ?e0 = "e\<lparr>module_entered := True\<rparr>"
  obtain a t v d e1 where g: "validateOnlyManagerAndValidSet this sender (the_controller e) self (the_set e) = Inr ()"
    and cd: "calldata a ?e0 = Inr (t, v, d)" and 1: "set_invoke F this self t v d ?e0 = Inr e1" and e': "e' = e1\<lparr>module_entered := False\<rparr>"
    using assms(4) by (auto simp: governance_call_def nonReentrant_def rbind_eq_Inr)
  have "ok ?e0" "ok e1 \<Longrightarrow> ok e'"
    using quiet_calls.own_state [OF assms(1), of ?e0 e] quiet_calls.own_state [OF assms(1), of e' e1] assms(2) e' by simp_all
  then show ?thesis using quiet_calls.invoke_keeps [OF assms(1) _ assms(3) [OF cd] 1] g e'
    by (auto simp: validateOnlyManagerAndValidSet_def isSetManager_def result_simps)
qed

end
