(* ===== verification/ClaimModule.thy ===== *)
theory ClaimModule
  imports TradeModule
begin

section \<open>The ClaimModule\<close>

text \<open>
  \<^verbatim>\<open>src/contracts/protocol/modules/v1/ClaimModule.sol\<close>: a Set claims rewards from the reward pools that its manager has listed,
  with the claim adapters listed for each pool. The module keeps the same information three times: the list of pools,
  a list of adapters for each pool, and flags for both. The state \<open>claim_module\<close> is the first component of \<open>outside\<close>, so that the
  contracts called while claiming may change it, and a batch reads it afresh for every claim.

  The theorems: lists and flags always represent one relation between pools and adapters, and adding, removing, the
  batches and the removal of the module act on it as the corresponding operations on a set of pairs; a claim is for listed pairs and
  valid callers, leaves the Set alone and never lowers its balance of the reward.
\<close>

record claim_module =
  anyoneClaim :: "address \<Rightarrow> bool"
  rewardPoolList :: "address \<Rightarrow> address list"
  rewardPoolStatus :: "address \<Rightarrow> address \<Rightarrow> bool"
  claimSettings :: "address \<Rightarrow> address \<Rightarrow> address list"
  claimSettingsStatus :: "address \<Rightarrow> address \<Rightarrow> address \<Rightarrow> bool"

type_synonym 'x claim_evm = "(claim_module \<times> 'x) evm"

record 'w claim_adapters =
  claim_name_hash :: "string \<Rightarrow> nat"
  claim_registry_at :: "'w evm \<Rightarrow> address \<Rightarrow> integration_registry option"
  getTokenAddress :: "address \<Rightarrow> address \<Rightarrow> 'w evm \<Rightarrow> address result"
  getClaimCallData :: "address \<Rightarrow> address \<Rightarrow> address \<Rightarrow> 'w evm \<Rightarrow> (address \<times> int \<times> bytes) result"
  getRewardsAmount :: "address \<Rightarrow> address \<Rightarrow> address \<Rightarrow> 'w evm \<Rightarrow> int result"

text \<open>Writing one entry of a mapping of mappings, and of a mapping of mappings of mappings.\<close>

definition put2 :: "address \<Rightarrow> address \<Rightarrow> 'b \<Rightarrow> (address \<Rightarrow> address \<Rightarrow> 'b) \<Rightarrow> address \<Rightarrow> address \<Rightarrow> 'b" where
  "put2 a b v f = f(a := (f a)(b := v))"

definition put3 :: "address \<Rightarrow> address \<Rightarrow> address \<Rightarrow> 'b \<Rightarrow> (address \<Rightarrow> address \<Rightarrow> address \<Rightarrow> 'b) \<Rightarrow> address \<Rightarrow> address \<Rightarrow> address \<Rightarrow> 'b" where
  "put3 a b c v f = f(a := put2 b c v (f a))"

definition claims_at :: "'x claim_evm \<Rightarrow> claim_module" where
  "claims_at e = fst (outside e)"

definition write_claims :: "claim_module \<Rightarrow> 'x claim_evm \<Rightarrow> 'x claim_evm" where
  "write_claims st e = e\<lparr>outside := (st, snd (outside e))\<rparr>"

subsection \<open>Reading\<close>

definition getRewardPools :: "claim_module \<Rightarrow> address \<Rightarrow> address list" where
  "getRewardPools st self = rewardPoolList st self"

definition isRewardPool :: "claim_module \<Rightarrow> address \<Rightarrow> address \<Rightarrow> bool" where
  "isRewardPool st self pool = rewardPoolStatus st self pool"

definition getRewardPoolClaims :: "claim_module \<Rightarrow> address \<Rightarrow> address \<Rightarrow> address list" where
  "getRewardPoolClaims st self pool = claimSettings st self pool"

definition claim_isValidCaller :: "claim_module \<Rightarrow> address \<Rightarrow> address \<Rightarrow> set_token \<Rightarrow> bool" where
  "claim_isValidCaller st msg_sender self s \<longleftrightarrow> anyoneClaim st self \<or> isSetManager s msg_sender"

definition claim_adapter :: "(claim_module \<times> 'x) claim_adapters \<Rightarrow> address \<Rightarrow> string \<Rightarrow> 'x claim_evm \<Rightarrow> address result" where
  "claim_adapter A this integrationName e =
     getAndValidateAdapter (claim_name_hash A) (claim_registry_at A e) (the_controller e) this integrationName"

definition isRewardPoolClaim :: "(claim_module \<times> 'x) claim_adapters \<Rightarrow> address \<Rightarrow> address \<Rightarrow> address \<Rightarrow> string \<Rightarrow> 'x claim_evm \<Rightarrow> bool result" where
  "isRewardPoolClaim A this self pool integrationName e =
     rbind (claim_adapter A this integrationName e) (\<lambda>adapter. Ok (claimSettingsStatus (claims_at e) self pool adapter))"

definition getAndValidateIntegrationAdapter ::
  "(claim_module \<times> 'x) claim_adapters \<Rightarrow> address \<Rightarrow> address \<Rightarrow> address \<Rightarrow> string \<Rightarrow> 'x claim_evm \<Rightarrow> address result" where
  "getAndValidateIntegrationAdapter A this self pool integrationName e =
     rbind (claim_adapter A this integrationName e) (\<lambda>adapter.
     rbind (require (claimSettingsStatus (claims_at e) self pool adapter) ''Adapter integration not present'') (\<lambda>_.
     Ok adapter))"

definition getRewards :: "(claim_module \<times> 'x) claim_adapters \<Rightarrow> address \<Rightarrow> address \<Rightarrow> address \<Rightarrow> string \<Rightarrow> 'x claim_evm \<Rightarrow> int result" where
  "getRewards A this self pool integrationName e =
     rbind (getAndValidateIntegrationAdapter A this self pool integrationName e) (\<lambda>adapter. getRewardsAmount A adapter self pool e)"

definition validateBatchArrays :: "address list \<Rightarrow> string list \<Rightarrow> nat result" where
  "validateBatchArrays pools names =
     rbind (require (length pools = length names) ''Array length mismatch'') (\<lambda>_.
     rbind (require (length pools > 0) ''Arrays must not be empty'') (\<lambda>_.
     Ok (length pools)))"

subsection \<open>Claiming\<close>

definition claim_internal ::
  "(claim_module \<times> 'x) foreign \<Rightarrow> (claim_module \<times> 'x) claim_adapters \<Rightarrow> address \<Rightarrow> address \<Rightarrow> address \<Rightarrow> string \<Rightarrow>
   'x claim_evm \<Rightarrow> ('x claim_evm) result" where
  "claim_internal F A this self pool integrationName e =
     rbind (require (isRewardPool (claims_at e) self pool) ''RewardPool not present'') (\<lambda>_.
     rbind (getAndValidateIntegrationAdapter A this self pool integrationName e) (\<lambda>adapter.
     rbind (getTokenAddress A adapter pool e) (\<lambda>rewardsToken.
     rbind (balance_of F rewardsToken self e) (\<lambda>initRewardsBalance.
     rbind (getClaimCallData A adapter self pool e) (\<lambda>(callTarget, callValue, callByteData).
     rbind (set_invoke F this self callTarget callValue callByteData e) (\<lambda>e1.
     rbind (balance_of F rewardsToken self e1) (\<lambda>finalRewardsBalance.
     rbind (safe_sub finalRewardsBalance initRewardsBalance) (\<lambda>amount.
     Ok e1))))))))"

fun batch_pairs :: "(address \<Rightarrow> string \<Rightarrow> 'w evm \<Rightarrow> ('w evm) result) \<Rightarrow> address list \<Rightarrow> string list \<Rightarrow> 'w evm \<Rightarrow> ('w evm) result" where
  "batch_pairs f (p # ps) (nm # nms) e = rbind (f p nm e) (batch_pairs f ps nms)"
| "batch_pairs f _ _ e = Ok e"

definition claim ::
  "(claim_module \<times> 'x) foreign \<Rightarrow> (claim_module \<times> 'x) claim_adapters \<Rightarrow> address \<Rightarrow> address \<Rightarrow> address \<Rightarrow> address \<Rightarrow> string \<Rightarrow>
   'x claim_evm \<Rightarrow> ('x claim_evm) result" where
  "claim F A this msg_sender self pool integrationName e =
     rbind (validateOnlyValidAndInitializedSet this (the_controller e) self (the_set e)) (\<lambda>_.
     rbind (require (claim_isValidCaller (claims_at e) msg_sender self (the_set e)) ''Must be valid caller'') (\<lambda>_.
     claim_internal F A this self pool integrationName e))"

definition batchClaim ::
  "(claim_module \<times> 'x) foreign \<Rightarrow> (claim_module \<times> 'x) claim_adapters \<Rightarrow> address \<Rightarrow> address \<Rightarrow> address \<Rightarrow> address list \<Rightarrow> string list \<Rightarrow>
   'x claim_evm \<Rightarrow> ('x claim_evm) result" where
  "batchClaim F A this msg_sender self pools names e =
     rbind (validateOnlyValidAndInitializedSet this (the_controller e) self (the_set e)) (\<lambda>_.
     rbind (require (claim_isValidCaller (claims_at e) msg_sender self (the_set e)) ''Must be valid caller'') (\<lambda>_.
     rbind (validateBatchArrays pools names) (\<lambda>_.
     batch_pairs (claim_internal F A this self) pools names e)))"

subsection \<open>Settings\<close>

definition updateAnyoneClaim :: "address \<Rightarrow> address \<Rightarrow> address \<Rightarrow> bool \<Rightarrow> 'x claim_evm \<Rightarrow> ('x claim_evm) result" where
  "updateAnyoneClaim this msg_sender self b e =
     rbind (validateOnlyManagerAndValidSet this msg_sender (the_controller e) self (the_set e)) (\<lambda>_.
     Ok (write_claims ((claims_at e)\<lparr>anyoneClaim := (anyoneClaim (claims_at e))(self := b)\<rparr>) e))"

text \<open>The effect of \<open>_addClaim\<close> and \<open>_removeClaim\<close> on the state, for an adapter that was looked up.\<close>

definition add_pair :: "address \<Rightarrow> address \<Rightarrow> address \<Rightarrow> claim_module \<Rightarrow> claim_module result" where
  "add_pair self pool adapter st =
     rbind (require (\<not> claimSettingsStatus st self pool adapter) ''Integration names must be unique'') (\<lambda>_.
     let st1 = st\<lparr>claimSettings := put2 self pool (claimSettings st self pool @ [adapter]) (claimSettings st),
                  claimSettingsStatus := put3 self pool adapter True (claimSettingsStatus st)\<rparr> in
     if \<not> rewardPoolStatus st1 self pool then
       Ok (st1\<lparr>rewardPoolList := (rewardPoolList st1)(self := rewardPoolList st1 self @ [pool]),
               rewardPoolStatus := put2 self pool True (rewardPoolStatus st1)\<rparr>)
     else Ok st1)"

definition remove_pair :: "address \<Rightarrow> address \<Rightarrow> address \<Rightarrow> claim_module \<Rightarrow> claim_module result" where
  "remove_pair self pool adapter st =
     rbind (require (claimSettingsStatus st self pool adapter) ''Integration must be added'') (\<lambda>_.
     rbind (removeStorage (claimSettings st self pool) adapter) (\<lambda>adapters.
     let st1 = st\<lparr>claimSettings := put2 self pool adapters (claimSettings st),
                  claimSettingsStatus := put3 self pool adapter False (claimSettingsStatus st)\<rparr> in
     if claimSettings st1 self pool = [] then
       rbind (removeStorage (rewardPoolList st1 self) pool) (\<lambda>pools.
       Ok (st1\<lparr>rewardPoolList := (rewardPoolList st1)(self := pools),
               rewardPoolStatus := put2 self pool False (rewardPoolStatus st1)\<rparr>))
     else Ok st1))"

definition addClaim_internal ::
  "(claim_module \<times> 'x) claim_adapters \<Rightarrow> address \<Rightarrow> address \<Rightarrow> address \<Rightarrow> string \<Rightarrow> 'x claim_evm \<Rightarrow> ('x claim_evm) result" where
  "addClaim_internal A this self pool integrationName e =
     rbind (claim_adapter A this integrationName e) (\<lambda>adapter.
     rbind (add_pair self pool adapter (claims_at e)) (\<lambda>st. Ok (write_claims st e)))"

definition removeClaim_internal ::
  "(claim_module \<times> 'x) claim_adapters \<Rightarrow> address \<Rightarrow> address \<Rightarrow> address \<Rightarrow> string \<Rightarrow> 'x claim_evm \<Rightarrow> ('x claim_evm) result" where
  "removeClaim_internal A this self pool integrationName e =
     rbind (claim_adapter A this integrationName e) (\<lambda>adapter.
     rbind (remove_pair self pool adapter (claims_at e)) (\<lambda>st. Ok (write_claims st e)))"

definition batchAddClaim_internal ::
  "(claim_module \<times> 'x) claim_adapters \<Rightarrow> address \<Rightarrow> address \<Rightarrow> address list \<Rightarrow> string list \<Rightarrow> 'x claim_evm \<Rightarrow> ('x claim_evm) result" where
  "batchAddClaim_internal A this self pools names e =
     rbind (validateBatchArrays pools names) (\<lambda>_. batch_pairs (addClaim_internal A this self) pools names e)"

definition addClaim ::
  "(claim_module \<times> 'x) claim_adapters \<Rightarrow> address \<Rightarrow> address \<Rightarrow> address \<Rightarrow> address \<Rightarrow> string \<Rightarrow> 'x claim_evm \<Rightarrow> ('x claim_evm) result" where
  "addClaim A this msg_sender self pool integrationName e =
     rbind (validateOnlyManagerAndValidSet this msg_sender (the_controller e) self (the_set e)) (\<lambda>_.
     addClaim_internal A this self pool integrationName e)"

definition batchAddClaim ::
  "(claim_module \<times> 'x) claim_adapters \<Rightarrow> address \<Rightarrow> address \<Rightarrow> address \<Rightarrow> address list \<Rightarrow> string list \<Rightarrow> 'x claim_evm \<Rightarrow> ('x claim_evm) result" where
  "batchAddClaim A this msg_sender self pools names e =
     rbind (validateOnlyManagerAndValidSet this msg_sender (the_controller e) self (the_set e)) (\<lambda>_.
     batchAddClaim_internal A this self pools names e)"

definition removeClaim ::
  "(claim_module \<times> 'x) claim_adapters \<Rightarrow> address \<Rightarrow> address \<Rightarrow> address \<Rightarrow> address \<Rightarrow> string \<Rightarrow> 'x claim_evm \<Rightarrow> ('x claim_evm) result" where
  "removeClaim A this msg_sender self pool integrationName e =
     rbind (validateOnlyManagerAndValidSet this msg_sender (the_controller e) self (the_set e)) (\<lambda>_.
     removeClaim_internal A this self pool integrationName e)"

definition batchRemoveClaim ::
  "(claim_module \<times> 'x) claim_adapters \<Rightarrow> address \<Rightarrow> address \<Rightarrow> address \<Rightarrow> address list \<Rightarrow> string list \<Rightarrow> 'x claim_evm \<Rightarrow> ('x claim_evm) result" where
  "batchRemoveClaim A this msg_sender self pools names e =
     rbind (validateOnlyManagerAndValidSet this msg_sender (the_controller e) self (the_set e)) (\<lambda>_.
     rbind (validateBatchArrays pools names) (\<lambda>_.
     batch_pairs (removeClaim_internal A this self) pools names e))"

definition claim_initialize ::
  "(claim_module \<times> 'x) claim_adapters \<Rightarrow> address \<Rightarrow> address \<Rightarrow> address \<Rightarrow> bool \<Rightarrow> address list \<Rightarrow> string list \<Rightarrow> 'x claim_evm \<Rightarrow> ('x claim_evm) result" where
  "claim_initialize A this msg_sender self b pools names e =
     rbind (validateOnlySetManager msg_sender (the_set e)) (\<lambda>_.
     rbind (validateOnlyValidAndPendingSet this (the_controller e) self (the_set e)) (\<lambda>_.
     rbind (batchAddClaim_internal A this self pools names e) (\<lambda>e1.
     on_set (\<lambda>c. initializeModule this)
       (write_claims ((claims_at e1)\<lparr>anyoneClaim := (anyoneClaim (claims_at e1))(self := b)\<rparr>) e1))))"

text \<open>
  The loops of \<open>removeModule\<close>. They also overwrite every element of an array with zero after reading it; the arrays
  are deleted afterwards, which leaves them empty.
\<close>

definition clear_pool :: "address \<Rightarrow> claim_module \<Rightarrow> address \<Rightarrow> claim_module" where
  "clear_pool self st pool =
     (let st1 = foldl (\<lambda>st a. st\<lparr>claimSettingsStatus := put3 self pool a False (claimSettingsStatus st)\<rparr>) st (claimSettings st self pool)
      in st1\<lparr>claimSettings := put2 self pool [] (claimSettings st1)\<rparr>)"

definition claim_removeModule :: "address \<Rightarrow> 'x claim_evm \<Rightarrow> ('x claim_evm) result" where
  "claim_removeModule self e =
     (let st = (claims_at e)\<lparr>anyoneClaim := (anyoneClaim (claims_at e))(self := False)\<rparr>;
          st1 = foldl (clear_pool self) st (rewardPoolList st self);
          st2 = foldl (\<lambda>st p. st\<lparr>rewardPoolStatus := put2 self p False (rewardPoolStatus st)\<rparr>) st1 (rewardPoolList st1 self)
      in Ok (write_claims (st2\<lparr>rewardPoolList := (rewardPoolList st2)(self := [])\<rparr>) e))"

subsection \<open>The relation of pools and adapters\<close>

definition claims_of :: "claim_module \<Rightarrow> address \<Rightarrow> (address \<times> address) set" where
  "claims_of st self = {(p, a). claimSettingsStatus st self p a}"

definition claim_ok :: "address \<Rightarrow> claim_module \<Rightarrow> bool" where
  "claim_ok self st \<longleftrightarrow> registry_ok (rewardPoolList st self) (rewardPoolStatus st self)
     \<and> (\<forall>p. registry_ok (claimSettings st self p) (claimSettingsStatus st self p) \<and> (rewardPoolStatus st self p \<longleftrightarrow> claimSettings st self p \<noteq> []))"

definition same_elsewhere :: "address \<Rightarrow> claim_module \<Rightarrow> claim_module \<Rightarrow> bool" where
  "same_elsewhere self st st' \<longleftrightarrow> (\<forall>b. b \<noteq> self \<longrightarrow> anyoneClaim st' b = anyoneClaim st b \<and> rewardPoolList st' b = rewardPoolList st b
     \<and> rewardPoolStatus st' b = rewardPoolStatus st b \<and> claimSettings st' b = claimSettings st b
     \<and> claimSettingsStatus st' b = claimSettingsStatus st b)"

lemma put_simps [simp]: "put2 a b v f a = (f a)(b := v)" "a' \<noteq> a \<Longrightarrow> put2 a b v f a' = f a'"
  "put3 a b c v g a = put2 b c v (g a)" "a' \<noteq> a \<Longrightarrow> put3 a b c v g a' = g a'"
  by (simp_all add: put2_def put3_def)

lemma put2_apply: "put2 a b v f x = (if x = a then (f a)(b := v) else f x)"
  by (simp add: put2_def)

lemma claim_okD:
  assumes "claim_ok self st"
  shows "distinct (rewardPoolList st self)" "rewardPoolStatus st self p \<longleftrightarrow> p \<in> set (rewardPoolList st self)"
    "distinct (claimSettings st self p)" "claimSettingsStatus st self p a \<longleftrightarrow> a \<in> set (claimSettings st self p)"
    "rewardPoolStatus st self p \<longleftrightarrow> claimSettings st self p \<noteq> []"
  using assms by (auto simp: claim_ok_def registry_ok_def)

lemma add_pair_exact:
  assumes ok: "claim_ok self st"
  shows "(pool, a) \<in> claims_of st self \<Longrightarrow> add_pair self pool a st = Err (Revert ''Integration names must be unique'')"
    "(pool, a) \<notin> claims_of st self \<Longrightarrow> \<exists>st'. add_pair self pool a st = Inr st' \<and> claim_ok self st'
       \<and> claims_of st' self = insert (pool, a) (claims_of st self) \<and> same_elsewhere self st st'"
proof -
  note D = claim_okD [OF ok]
  assume new: "(pool, a) \<notin> claims_of st self"
  then have n: "\<not> claimSettingsStatus st self pool a" by (simp add: claims_of_def)
  obtain st' where st': "add_pair self pool a st = Inr st'"
    and v: "claimSettings st' self = (claimSettings st self)(pool := claimSettings st self pool @ [a])"
      "claimSettingsStatus st' self = put2 pool a True (claimSettingsStatus st self)"
      "rewardPoolStatus st' self = (rewardPoolStatus st self)(pool := True)"
      "rewardPoolList st' self = (if rewardPoolStatus st self pool then rewardPoolList st self else rewardPoolList st self @ [pool])"
      "same_elsewhere self st st'"
    using n by (intro that [of "projr (add_pair self pool a st)"]; cases "rewardPoolStatus st self pool")
      (simp_all add: add_pair_def Let_def same_elsewhere_def fun_upd_idem)
  have "registry_ok (rewardPoolList st' self) (rewardPoolStatus st' self)" using D(1,2) by (auto simp: v registry_ok_def)
  moreover have "registry_ok (claimSettings st' self p) (claimSettingsStatus st' self p)" for p
    using D(3,4) n by (auto simp: v registry_ok_def put2_apply)
  moreover have "rewardPoolStatus st' self p \<longleftrightarrow> claimSettings st' self p \<noteq> []" for p using D(5) by (simp add: v)
  ultimately have "claim_ok self st'" by (simp add: claim_ok_def)
  moreover have "claims_of st' self = insert (pool, a) (claims_of st self)" by (auto simp: claims_of_def v put2_apply split: if_splits)
  ultimately show "\<exists>st'. add_pair self pool a st = Inr st' \<and> claim_ok self st'
       \<and> claims_of st' self = insert (pool, a) (claims_of st self) \<and> same_elsewhere self st st'" using st' v(5) by blast
qed (simp add: add_pair_def claims_of_def)

lemma remove_pair_exact:
  assumes ok: "claim_ok self st"
  shows "(pool, a) \<notin> claims_of st self \<Longrightarrow> remove_pair self pool a st = Err (Revert ''Integration must be added'')"
    "(pool, a) \<in> claims_of st self \<Longrightarrow> \<exists>st'. remove_pair self pool a st = Inr st' \<and> claim_ok self st'
       \<and> claims_of st' self = claims_of st self - {(pool, a)} \<and> same_elsewhere self st st'"
proof -
  note D = claim_okD [OF ok]
  assume old: "(pool, a) \<in> claims_of st self"
  then have c: "claimSettingsStatus st self pool a" by (simp add: claims_of_def)
  then have mem: "a \<in> set (claimSettings st self pool)" "pool \<in> set (rewardPoolList st self)"
    using D(4) D(2) [of pool] D(5) [of pool] by auto
  obtain as where as: "removeStorage (claimSettings st self pool) a = Inr as" "distinct as" "set as = set (claimSettings st self pool) - {a}"
    using removeStorage_present [OF mem(1)] removeStorage_distinct D(3) by blast
  obtain ps where ps: "removeStorage (rewardPoolList st self) pool = Inr ps" "distinct ps" "set ps = set (rewardPoolList st self) - {pool}"
    using removeStorage_present [OF mem(2)] removeStorage_distinct D(1) by blast
  obtain st' where st': "remove_pair self pool a st = Inr st'"
    and v: "claimSettings st' self = (claimSettings st self)(pool := as)"
      "claimSettingsStatus st' self = put2 pool a False (claimSettingsStatus st self)"
      "rewardPoolStatus st' self = (rewardPoolStatus st self)(pool := as \<noteq> [])"
      "rewardPoolList st' self = (if as = [] then ps else rewardPoolList st self)"
      "same_elsewhere self st st'"
    using c as(1) ps(1) mem(2) D(2) by (intro that [of "projr (remove_pair self pool a st)"]; cases "as = []")
      (simp_all add: remove_pair_def Let_def same_elsewhere_def fun_upd_idem)
  have "registry_ok (rewardPoolList st' self) (rewardPoolStatus st' self)" using D(1,2) ps(2,3) mem(2) by (auto simp: v registry_ok_def)
  moreover have "registry_ok (claimSettings st' self p) (claimSettingsStatus st' self p)" for p
    using D(3,4) as(2,3) by (auto simp: v registry_ok_def put2_apply)
  moreover have "rewardPoolStatus st' self p \<longleftrightarrow> claimSettings st' self p \<noteq> []" for p using D(5) by (simp add: v)
  ultimately have "claim_ok self st'" by (simp add: claim_ok_def)
  moreover have "claims_of st' self = claims_of st self - {(pool, a)}" by (auto simp: claims_of_def v put2_apply split: if_splits)
  ultimately show "\<exists>st'. remove_pair self pool a st = Inr st' \<and> claim_ok self st'
       \<and> claims_of st' self = claims_of st self - {(pool, a)} \<and> same_elsewhere self st st'" using st' v(5) by blast
qed (simp add: remove_pair_def claims_of_def)

lemma clear_adapters:
  fixes self pool as
  defines "f \<equiv> foldl (\<lambda>st a. st\<lparr>claimSettingsStatus := put3 self pool a False (claimSettingsStatus st)\<rparr>)"
  shows "anyoneClaim (f st as) = anyoneClaim st" "rewardPoolList (f st as) = rewardPoolList st" "rewardPoolStatus (f st as) = rewardPoolStatus st"
    "claimSettings (f st as) = claimSettings st" "b \<noteq> self \<Longrightarrow> claimSettingsStatus (f st as) b = claimSettingsStatus st b"
    "claimSettingsStatus (f st as) self p a \<longleftrightarrow> claimSettingsStatus st self p a \<and> \<not> (p = pool \<and> a \<in> set as)"
  unfolding f_def by (induction as arbitrary: st) (auto simp: put2_apply split: if_splits)

lemma clear_pool_simps [simp]:
  "anyoneClaim (clear_pool self st pool) = anyoneClaim st" "rewardPoolList (clear_pool self st pool) = rewardPoolList st"
  "rewardPoolStatus (clear_pool self st pool) = rewardPoolStatus st"
  "claimSettings (clear_pool self st pool) self = (claimSettings st self)(pool := [])"
  "b \<noteq> self \<Longrightarrow> claimSettings (clear_pool self st pool) b = claimSettings st b"
  "b \<noteq> self \<Longrightarrow> claimSettingsStatus (clear_pool self st pool) b = claimSettingsStatus st b"
  "claimSettingsStatus (clear_pool self st pool) self p a \<longleftrightarrow> claimSettingsStatus st self p a \<and> \<not> (p = pool \<and> a \<in> set (claimSettings st self pool))"
  by (simp_all add: clear_pool_def Let_def clear_adapters)

lemma clear_pools:
  assumes "\<forall>p a. claimSettingsStatus st self p a \<longleftrightarrow> a \<in> set (claimSettings st self p)" "st' = foldl (clear_pool self) st ps"
  shows "rewardPoolList st' = rewardPoolList st \<and> rewardPoolStatus st' = rewardPoolStatus st
    \<and> (\<forall>p. claimSettings st' self p = (if p \<in> set ps then [] else claimSettings st self p))
    \<and> (\<forall>p a. claimSettingsStatus st' self p a \<longleftrightarrow> p \<notin> set ps \<and> claimSettingsStatus st self p a) \<and> same_elsewhere self st st'"
  using assms
proof (induction ps arbitrary: st)
  case (Cons p ps)
  have "\<forall>q a. claimSettingsStatus (clear_pool self st p) self q a \<longleftrightarrow> a \<in> set (claimSettings (clear_pool self st p) self q)"
    using Cons.prems(1) by auto
  note I = Cons.IH [OF this]
  show ?case using I Cons.prems by (auto simp: same_elsewhere_def)
qed (simp add: same_elsewhere_def)

lemma clear_status:
  fixes self ps
  defines "f \<equiv> foldl (\<lambda>st p. st\<lparr>rewardPoolStatus := put2 self p False (rewardPoolStatus st)\<rparr>)"
  shows "anyoneClaim (f st ps) = anyoneClaim st" "rewardPoolList (f st ps) = rewardPoolList st" "claimSettings (f st ps) = claimSettings st"
    "claimSettingsStatus (f st ps) = claimSettingsStatus st" "b \<noteq> self \<Longrightarrow> rewardPoolStatus (f st ps) b = rewardPoolStatus st b"
    "rewardPoolStatus (f st ps) self p \<longleftrightarrow> rewardPoolStatus st self p \<and> p \<notin> set ps"
  unfolding f_def by (induction ps arbitrary: st) (auto split: if_splits)

lemma claims_written [simp]: "claims_at (write_claims st e) = st" "the_set (write_claims st e) = the_set e"
  "the_controller (write_claims st e) = the_controller e" "claims_at (e\<lparr>the_set := s\<rparr>) = claims_at e"
  by (simp_all add: claims_at_def write_claims_def)

text \<open>Removing the module forgets everything about the Set, and nothing about the others.\<close>

lemma claim_removeModule_exact:
  assumes "claim_ok self (claims_at e)"
  shows "\<exists>st. claim_removeModule self e = Inr (write_claims st e) \<and> claim_ok self st \<and> claims_of st self = {} \<and> rewardPoolList st self = []
    \<and> same_elsewhere self (claims_at e) st"
proof -
  note D = claim_okD [OF assms]
  let ?st = "(claims_at e)\<lparr>anyoneClaim := (anyoneClaim (claims_at e))(self := False)\<rparr>" and ?ps = "rewardPoolList (claims_at e) self"
  have "\<forall>p a. claimSettingsStatus ?st self p a \<longleftrightarrow> a \<in> set (claimSettings ?st self p)" using D(4) by simp
  note C' = clear_pools [OF this refl, of ?ps]
  then have C: "rewardPoolList (foldl (clear_pool self) ?st ?ps) = rewardPoolList (claims_at e)"
    "rewardPoolStatus (foldl (clear_pool self) ?st ?ps) = rewardPoolStatus (claims_at e)" by simp_all
  define st where "st = (foldl (\<lambda>st p. st\<lparr>rewardPoolStatus := put2 self p False (rewardPoolStatus st)\<rparr>) (foldl (clear_pool self) ?st ?ps) ?ps)
     \<lparr>rewardPoolList := (rewardPoolList (claims_at e))(self := [])\<rparr>"
  have run: "claim_removeModule self e = Inr (write_claims st e)"
    by (simp add: claim_removeModule_def Let_def C(1) st_def clear_status)
  have none: "p \<notin> set ?ps \<Longrightarrow> claimSettings (claims_at e) self p = []" for p using D(2) [of p] D(5) [of p] by simp
  have v: "rewardPoolList st self = []" "\<And>p. \<not> rewardPoolStatus st self p" "\<And>p. claimSettings st self p = []" "\<And>p a. \<not> claimSettingsStatus st self p a"
    using D(2,4) none C' by (auto simp: st_def clear_status C)
  moreover have "same_elsewhere self (claims_at e) st"
    using C' by (auto simp: st_def same_elsewhere_def clear_status)
  ultimately show ?thesis using run by (auto simp: claim_ok_def registry_ok_def claims_of_def)
qed

subsection \<open>The life of the lists\<close>

text \<open>
  The life of the module on one Set. \<open>other\<close> is everything that neither writes the entries of this Set nor
  initializes or removes the module.
\<close>

definition same_entries :: "address \<Rightarrow> claim_module \<Rightarrow> claim_module \<Rightarrow> bool" where
  "same_entries self st st' \<longleftrightarrow> rewardPoolList st' self = rewardPoolList st self \<and> rewardPoolStatus st' self = rewardPoolStatus st self
     \<and> claimSettings st' self = claimSettings st self \<and> claimSettingsStatus st' self = claimSettingsStatus st self"

inductive claim_reachable :: "(claim_module \<times> 'x) claim_adapters \<Rightarrow> address \<Rightarrow> address \<Rightarrow> 'x claim_evm \<Rightarrow> bool" for A this self where
  deployed: "moduleStates (the_set e) this \<noteq> INITIALIZED \<Longrightarrow> rewardPoolList (claims_at e) self = [] \<Longrightarrow>
    rewardPoolStatus (claims_at e) self = (\<lambda>_. False) \<Longrightarrow> claimSettings (claims_at e) self = (\<lambda>_. []) \<Longrightarrow>
    claimSettingsStatus (claims_at e) self = (\<lambda>_ _. False) \<Longrightarrow> claim_reachable A this self e"
| initialized: "claim_reachable A this self e \<Longrightarrow> claim_initialize A this u self b ps nms e = Inr e' \<Longrightarrow> claim_reachable A this self e'"
| anyone: "claim_reachable A this self e \<Longrightarrow> updateAnyoneClaim this u self b e = Inr e' \<Longrightarrow> claim_reachable A this self e'"
| added: "claim_reachable A this self e \<Longrightarrow> addClaim A this u self p nm e = Inr e' \<Longrightarrow> claim_reachable A this self e'"
| batch_added: "claim_reachable A this self e \<Longrightarrow> batchAddClaim A this u self ps nms e = Inr e' \<Longrightarrow> claim_reachable A this self e'"
| dropped: "claim_reachable A this self e \<Longrightarrow> removeClaim A this u self p nm e = Inr e' \<Longrightarrow> claim_reachable A this self e'"
| batch_dropped: "claim_reachable A this self e \<Longrightarrow> batchRemoveClaim A this u self ps nms e = Inr e' \<Longrightarrow> claim_reachable A this self e'"
| module_removed: "claim_reachable A this self e \<Longrightarrow> claim_removeModule self e = Inr e1 \<Longrightarrow> removeModule (\<lambda>m s. Ok s) u this (the_set e1) = Inr s \<Longrightarrow>
    claim_reachable A this self (e1\<lparr>the_set := s\<rparr>)"
| other: "claim_reachable A this self e \<Longrightarrow> same_entries self (claims_at e) (claims_at e') \<Longrightarrow>
    (moduleStates (the_set e') this = INITIALIZED \<longleftrightarrow> moduleStates (the_set e) this = INITIALIZED) \<Longrightarrow> claim_reachable A this self e'"

lemma batch_pairs_keeps:
  assumes step: "\<And>p nm e e'. P e \<Longrightarrow> f p nm e = Inr e' \<Longrightarrow> P e'" and "P e" "batch_pairs f ps nms e = Inr e'"
  shows "P e'"
  using assms(2,3)
proof (induction ps arbitrary: nms e)
  case (Cons p ps)
  show ?case
  proof (cases nms)
    case Nil
    then show ?thesis using Cons.prems by simp
  next
    case (Cons nm nms')
    then obtain e1 where "f p nm e = Inr e1" "batch_pairs f ps nms' e1 = Inr e'" using Cons.prems(2) by (auto simp: rbind_eq_Inr)
    then show ?thesis using Cons.IH step [OF Cons.prems(1)] by blast
  qed
qed simp

lemma pair_keeps:
  assumes "claim_ok self st"
  shows "add_pair self p a st = Inr st' \<Longrightarrow> claim_ok self st'" "remove_pair self p a st = Inr st' \<Longrightarrow> claim_ok self st'"
  using add_pair_exact [OF assms, of p a] remove_pair_exact [OF assms, of p a] by (cases "(p, a) \<in> claims_of st self"; auto)+

lemma internal_keeps:
  assumes "claim_ok self (claims_at e) \<and> the_set e = s"
  shows "addClaim_internal A this self p nm e = Inr e' \<Longrightarrow> claim_ok self (claims_at e') \<and> the_set e' = s"
    "removeClaim_internal A this self p nm e = Inr e' \<Longrightarrow> claim_ok self (claims_at e') \<and> the_set e' = s"
  using assms by (auto simp: addClaim_internal_def removeClaim_internal_def rbind_eq_Inr intro: pair_keeps)

lemma batch_keeps:
  assumes "claim_ok self (claims_at e)"
  shows "batchAddClaim_internal A this self ps nms e = Inr e' \<Longrightarrow> claim_ok self (claims_at e') \<and> the_set e' = the_set e"
    "batch_pairs (removeClaim_internal A this self) ps nms e = Inr e' \<Longrightarrow> claim_ok self (claims_at e') \<and> the_set e' = the_set e"
proof -
  let ?P = "\<lambda>x. claim_ok self (claims_at x) \<and> the_set x = the_set e"
  have P: "?P e" using assms by simp
  show "?P e'" if "batchAddClaim_internal A this self ps nms e = Inr e'"
  proof (rule batch_pairs_keeps [where P = ?P and f = "addClaim_internal A this self"])
    show "batch_pairs (addClaim_internal A this self) ps nms e = Inr e'" using that by (auto simp: batchAddClaim_internal_def rbind_eq_Inr)
  qed (use P internal_keeps(1) in blast)+
  show "?P e'" if "batch_pairs (removeClaim_internal A this self) ps nms e = Inr e'"
    by (rule batch_pairs_keeps [where P = ?P and f = "removeClaim_internal A this self", OF _ P that]) (rule internal_keeps(2))
qed

lemma same_entries_ok: "same_entries self st st' \<Longrightarrow> claim_ok self st' = claim_ok self st \<and> claims_of st' self = claims_of st self"
  by (simp add: same_entries_def claim_ok_def claims_of_def)

definition claim_inv :: "address \<Rightarrow> address \<Rightarrow> 'x claim_evm \<Rightarrow> bool" where
  "claim_inv this self e \<longleftrightarrow> claim_ok self (claims_at e) \<and> (moduleStates (the_set e) this \<noteq> INITIALIZED \<longrightarrow> claims_of (claims_at e) self = {})"

lemma claim_reachable_inv: "claim_reachable A this self e \<Longrightarrow> claim_inv this self e"
proof (induction rule: claim_reachable.induct)
  case (deployed e)
  then show ?case by (simp add: claim_inv_def claim_ok_def registry_ok_def claims_of_def)
next
  case (initialized e u b ps nms e')
  obtain e1 where 1: "batchAddClaim_internal A this self ps nms e = Inr e1"
    and e': "on_set (\<lambda>c. initializeModule this) (write_claims ((claims_at e1)\<lparr>anyoneClaim := (anyoneClaim (claims_at e1))(self := b)\<rparr>) e1) = Inr e'"
    using initialized.hyps by (auto simp: claim_initialize_def rbind_eq_Inr)
  have "claim_ok self (claims_at e1)" using batch_keeps(1) [OF _ 1] initialized.IH by (simp add: claim_inv_def)
  moreover have "same_entries self (claims_at e1) (claims_at e')" "moduleStates (the_set e') this = INITIALIZED"
    using e' by (auto simp: on_set_def initializeModule_def rbind_eq_Inr require_eq_Inr same_entries_def)
  ultimately show ?case using same_entries_ok by (auto simp: claim_inv_def)
next
  case (anyone e u b e')
  then have "same_entries self (claims_at e) (claims_at e')" "the_set e' = the_set e"
    by (auto simp: updateAnyoneClaim_def rbind_eq_Inr same_entries_def)
  then show ?case using anyone.IH same_entries_ok by (simp add: claim_inv_def)
next
  case (added e u p nm e')
  then have g: "moduleStates (the_set e) this = INITIALIZED" and i: "addClaim_internal A this self p nm e = Inr e'"
    by (auto simp: addClaim_def rbind_eq_Inr dest: manager_initialized)
  show ?case using internal_keeps(1) [OF _ i, of "the_set e"] added.IH g by (simp add: claim_inv_def)
next
  case (batch_added e u ps nms e')
  then have g: "moduleStates (the_set e) this = INITIALIZED" and i: "batchAddClaim_internal A this self ps nms e = Inr e'"
    by (auto simp: batchAddClaim_def rbind_eq_Inr dest: manager_initialized)
  show ?case using batch_keeps(1) [OF _ i] batch_added.IH g by (simp add: claim_inv_def)
next
  case (dropped e u p nm e')
  then have g: "moduleStates (the_set e) this = INITIALIZED" and i: "removeClaim_internal A this self p nm e = Inr e'"
    by (auto simp: removeClaim_def rbind_eq_Inr dest: manager_initialized)
  show ?case using internal_keeps(2) [OF _ i, of "the_set e"] dropped.IH g by (simp add: claim_inv_def)
next
  case (batch_dropped e u ps nms e')
  then have g: "moduleStates (the_set e) this = INITIALIZED" and i: "batch_pairs (removeClaim_internal A this self) ps nms e = Inr e'"
    by (auto simp: batchRemoveClaim_def rbind_eq_Inr dest: manager_initialized)
  show ?case using batch_keeps(2) [OF _ i] batch_dropped.IH g by (simp add: claim_inv_def)
next
  case (module_removed e e1 u s)
  then show ?case using claim_removeModule_exact [of self e] by (auto simp: claim_inv_def)
next
  case (other e e')
  then show ?case using same_entries_ok by (auto simp: claim_inv_def)
qed

subsection \<open>Properties\<close>

text \<open>
  C18. Through the life of the module on a Set the lists represent a relation between pools and adapters: the pools that have an adapter, and for
  each the adapters it has, all without duplicates. Adding a claim adds a new pair to the relation and refuses a known
  one, removing a claim removes a known pair and refuses any other, and the removal of the module empties the relation;
  the entries of other Sets are not touched.
\<close>

theorem claims_refine_relation:
  assumes "claim_reachable A this self e" "C = claims_of (claims_at e) self"
  shows "distinct (getRewardPools (claims_at e) self) \<and> set (getRewardPools (claims_at e) self) = fst ` C
    \<and> (\<forall>p. distinct (getRewardPoolClaims (claims_at e) self p) \<and> set (getRewardPoolClaims (claims_at e) self p) = {a. (p, a) \<in> C})
    \<and> (\<forall>p nm a. claim_adapter A this nm e = Inr a \<longrightarrow>
        (if (p, a) \<in> C
         then addClaim_internal A this self p nm e = Err (Revert ''Integration names must be unique'')
           \<and> (\<exists>e'. removeClaim_internal A this self p nm e = Inr e' \<and> claims_of (claims_at e') self = C - {(p, a)}
                \<and> same_elsewhere self (claims_at e) (claims_at e'))
         else removeClaim_internal A this self p nm e = Err (Revert ''Integration must be added'')
           \<and> (\<exists>e'. addClaim_internal A this self p nm e = Inr e' \<and> claims_of (claims_at e') self = insert (p, a) C
                \<and> same_elsewhere self (claims_at e) (claims_at e'))))
    \<and> (\<exists>e'. claim_removeModule self e = Inr e' \<and> claims_of (claims_at e') self = {} \<and> same_elsewhere self (claims_at e) (claims_at e'))"
proof -
  have ok: "claim_ok self (claims_at e)" using claim_reachable_inv [OF assms(1)] by (simp add: claim_inv_def)
  note D = claim_okD [OF ok]
  have mem: "(p, a) \<in> C \<longleftrightarrow> a \<in> set (claimSettings (claims_at e) self p)" for p a using D(4) by (simp add: assms(2) claims_of_def)
  have pool: "p \<in> set (rewardPoolList (claims_at e) self) \<longleftrightarrow> (\<exists>a. (p, a) \<in> C)" for p
    using D(2) [of p] D(5) [of p] mem by (cases "claimSettings (claims_at e) self p") auto
  have "set (getRewardPools (claims_at e) self) = fst ` C" using pool by (force simp: getRewardPools_def)
  moreover have "set (getRewardPoolClaims (claims_at e) self p) = {a. (p, a) \<in> C}" for p using mem by (auto simp: getRewardPoolClaims_def)
  moreover have "addClaim_internal A this self p nm e = Err (Revert ''Integration names must be unique'')
      \<and> (\<exists>e'. removeClaim_internal A this self p nm e = Inr e' \<and> claims_of (claims_at e') self = C - {(p, a)}
           \<and> same_elsewhere self (claims_at e) (claims_at e'))" if "claim_adapter A this nm e = Inr a" "(p, a) \<in> C" for p nm a
    using that add_pair_exact(1) [OF ok, of p a] remove_pair_exact(2) [OF ok, of p a]
    by (auto simp: addClaim_internal_def removeClaim_internal_def assms(2))
  moreover have "removeClaim_internal A this self p nm e = Err (Revert ''Integration must be added'')
      \<and> (\<exists>e'. addClaim_internal A this self p nm e = Inr e' \<and> claims_of (claims_at e') self = insert (p, a) C
           \<and> same_elsewhere self (claims_at e) (claims_at e'))" if "claim_adapter A this nm e = Inr a" "(p, a) \<notin> C" for p nm a
    using that add_pair_exact(2) [OF ok, of p a] remove_pair_exact(1) [OF ok, of p a]
    by (auto simp: addClaim_internal_def removeClaim_internal_def assms(2))
  moreover have "\<exists>e'. claim_removeModule self e = Inr e' \<and> claims_of (claims_at e') self = {} \<and> same_elsewhere self (claims_at e) (claims_at e')"
    using claim_removeModule_exact [OF ok] by auto
  ultimately show ?thesis using D(1,3) by (simp add: getRewardPools_def getRewardPoolClaims_def)
qed

text \<open>
  C33. A claim is made by the manager, or by anybody when the manager allows it, for a pool and an adapter that the manager has listed.
  Whatever the pool does, the Set's balance of the reward token is not lower afterwards, and the Set's positions, supply and
  modules are unchanged.
\<close>

theorem claim_never_loses:
  assumes "quiet_calls F self bal ok" "ok e" "claim F A this sender self pool nm e = Inr e'"
    "\<forall>a e1 t. getTokenAddress A a pool e1 = Inr t \<longrightarrow> t \<noteq> self"
    "\<forall>a e1 t v d. getClaimCallData A a self pool e1 = Inr (t, v, d) \<longrightarrow> t \<noteq> self"
  shows "(sender = manager (the_set e) \<or> anyoneClaim (claims_at e) self) \<and> isSetValidAndInitialized this (the_controller e) self (the_set e)
    \<and> the_set e' = the_set e \<and> ok e'
    \<and> (\<exists>a t. claim_adapter A this nm e = Inr a \<and> (pool, a) \<in> claims_of (claims_at e) self \<and> isRewardPool (claims_at e) self pool
         \<and> getTokenAddress A a pool e = Inr t \<and> bal t self e \<le> bal t self e')"
proof -
  obtain a t b0 b1 x v d n where g: "claim_isValidCaller (claims_at e) sender self (the_set e)" "isSetValidAndInitialized this (the_controller e) self (the_set e)"
      "isRewardPool (claims_at e) self pool"
    and a: "claim_adapter A this nm e = Inr a" "claimSettingsStatus (claims_at e) self pool a" and t: "getTokenAddress A a pool e = Inr t"
    and b: "balance_of F t self e = Inr b0" "balance_of F t self e' = Inr b1" "safe_sub b1 b0 = Inr n"
    and c: "getClaimCallData A a self pool e = Inr (x, v, d)" and i: "set_invoke F this self x v d e = Inr e'"
    using assms(3) by (auto simp: claim_def claim_internal_def getAndValidateIntegrationAdapter_def rbind_eq_Inr require_eq_Inr
        validateOnlyValidAndInitializedSet_def)
  have ne: "t \<noteq> self" "x \<noteq> self" using assms(4,5) t c by blast+
  note K = quiet_calls.invoke_keeps [OF assms(1,2) ne(2) i]
  have "b0 = bal t self e" "b1 = bal t self e'" using b(1,2) quiet_calls.readable [OF assms(1) ne(1)] by simp_all
  moreover have "is_uint256 (bal t self e)" "is_uint256 (bal t self e')" using quiet_calls.bal_typed [OF assms(1)] assms(2) K by blast+
  ultimately have "bal t self e \<le> bal t self e'" using b(3) by (simp add: safe_sub_eq_Inr)
  then show ?thesis using g a t K by (auto simp: claim_isValidCaller_def isSetManager_def claims_of_def)
qed

subsection \<open>An example\<close>

text \<open>
  The Set 20 on the market of the examples, which pays token 2 for the allowance it has. The adapter 78 is listed for the
  pool 77.
\<close>

definition market_claims :: "(claim_module \<times> (address \<Rightarrow> erc20)) claim_adapters" where
  "market_claims = \<lparr>claim_name_hash = length, claim_registry_at = (\<lambda>_ _. Some (set_integration 7 (length ''Market'') 78 (ir_constructor 3 5))),
     getTokenAddress = (\<lambda>_ _ _. Ok 2), getClaimCallData = (\<lambda>_ _ _ _. Ok (77, 0, [])), getRewardsAmount = (\<lambda>_ _ _ _. Ok 0)\<rparr>"

definition no_claims :: claim_module where
  "no_claims = \<lparr>anyoneClaim = (\<lambda>_. False), rewardPoolList = (\<lambda>_. []), rewardPoolStatus = (\<lambda>_ _. False), claimSettings = (\<lambda>_ _. []),
     claimSettingsStatus = (\<lambda>_ _ _. False)\<rparr>"

definition listed_claims :: claim_module where
  "listed_claims = no_claims\<lparr>rewardPoolList := (\<lambda>_. [])(20 := [77]), rewardPoolStatus := put2 20 77 True (\<lambda>_ _. False),
     claimSettings := put2 20 77 [78] (\<lambda>_ _. []), claimSettingsStatus := put3 20 77 78 True (\<lambda>_ _ _. False)\<rparr>"

theorem claims_refine_relation_witness:
  "\<exists>e'. addClaim_internal market_claims 7 20 77 ''Market'' (dress no_claims (market_evm\<lparr>the_set := demo_set\<lparr>moduleStates := (\<lambda>_. NONE)\<rparr>\<rparr>)) = Inr e'
     \<and> claims_of (claims_at e') 20 = {(77, 78)}"
proof -
  let ?e = "dress no_claims (market_evm\<lparr>the_set := demo_set\<lparr>moduleStates := (\<lambda>_. NONE)\<rparr>\<rparr>)"
  have r: "claim_reachable market_claims 7 20 ?e"
    by (rule claim_reachable.deployed) (simp_all add: claims_at_def no_claims_def)
  have "claims_of (claims_at ?e) 20 = {}" by (simp add: claims_at_def no_claims_def claims_of_def)
  moreover have "claim_adapter market_claims 7 ''Market'' ?e = Inr 78" by code_simp
  ultimately show ?thesis using claims_refine_relation [OF r refl] by fastforce
qed

theorem claim_never_loses_witness:
  "\<exists>e'. claim (beside market_foreign) market_claims 7 9 20 77 ''Market'' (dress listed_claims (approved_evm\<lparr>module_entered := False\<rparr>)) = Inr e'
     \<and> 10 ^ 24 \<le> ledger_bal 2 20 (bare e')"
proof -
  let ?e = "dress listed_claims (approved_evm\<lparr>module_entered := False\<rparr>)"
  have "is_ok (claim (beside market_foreign) market_claims 7 9 20 77 ''Market'' ?e)" by code_simp
  then obtain e' where run: "claim (beside market_foreign) market_claims 7 9 20 77 ''Market'' ?e = Inr e'" unfolding is_ok_iff ..
  have wf: "ledger_wf (bare ?e) \<and> True"
    by (auto simp: approved_evm_def market_evm_def ledger_wf_def erc20_typed_def erc20_constructor_def is_uint256_def)
  have "ledger_bal 2 20 (bare ?e) = 10 ^ 24" by (simp add: approved_evm_def market_evm_def)
  then show ?thesis
    using claim_never_loses [OF quiet_calls_beside [where P = "\<lambda>_. True", OF market.quiet_calls_axioms] wf run] run
    by (auto simp: market_claims_def)
qed

end
