(* ===== verification/HardhatConfig.thy ===== *)
theory HardhatConfig
  imports CommonUtils
begin

section \<open>The configuration of the build and the native compiler\<close>

text \<open>
  \<^verbatim>\<open>src/hardhat.config.ts\<close>, the object that hardhat reads, as a function of the environment, and
  \<^verbatim>\<open>src/utils/tasks/setupNativeSolc.ts\<close>. An object is \<open>JObj\<close>; a field whose value is \<open>undefined\<close> is left out,
  which reads the same. Strings are concatenated as JavaScript does, an unset variable becomes the text \<open>undefined\<close>.

  The lemmas: when forked tests are refused and selected; that the network \<open>hardhat\<close> forks whatever the environment says; that
  the gas which \<open>addGasToAbiMethods\<close> writes into ABIs stays below the block limit on every network that sets one; and that the native compiler is used
  only if the configuration has a version, which this one has not.
\<close>

subsection \<open>The environment\<close>

type_synonym env = "string \<Rightarrow> string option"

definition env_truthy :: "env \<Rightarrow> string \<Rightarrow> bool" where
  "env_truthy env x = truthy (map_option JStr (env x))"

definition env_text :: "env \<Rightarrow> string \<Rightarrow> string" where
  "env_text env x = default_to ''undefined'' (env x)"

definition opt_field :: "string \<Rightarrow> js option \<Rightarrow> (string \<times> js) list" where
  "opt_field k v = (case v of None \<Rightarrow> [] | Some x \<Rightarrow> [(k, x)])"

subsection \<open>The configuration\<close>

definition forkingConfig :: "env \<Rightarrow> js" where
  "forkingConfig env = JObj [
     (''url'', JStr (''https://eth-mainnet.alchemyapi.io/v2/'' @ env_text env ''ALCHEMY_TOKEN'')),
     (''blockNumber'', JNum 14792479)]"

definition mochaConfig :: "env \<Rightarrow> js" where
  "mochaConfig env = JObj [
     (''grep'', JStr ''@forked-mainnet''),
     (''invert'', JBool (if env_truthy env ''FORK'' then False else True)),
     (''timeout'', JNum (if env_truthy env ''FORK'' then 100000 else 40000))]"

text \<open>Whether the process goes on; otherwise it prints the message and exits with code 1.\<close>

definition checkForkedProviderEnvironment :: "env \<Rightarrow> bool" where
  "checkForkedProviderEnvironment env \<longleftrightarrow> \<not> (env_truthy env ''FORK'' \<and>
     (\<not> env_truthy env ''ALCHEMY_TOKEN'' \<or> env ''ALCHEMY_TOKEN'' = Some ''fake_alchemy_token''))"

definition getHardhatPrivateKeys :: js where
  "getHardhatPrivateKeys = JArr (map (\<lambda>key. JObj [
     (''privateKey'', JStr key),
     (''balance'', JStr ''1000000000000000000000000'')]) privateKeys)"

definition compilers :: js where
  "compilers = JArr [
     JObj [(''version'', JStr ''0.6.10''),
           (''settings'', JObj [(''optimizer'', JObj [(''enabled'', JBool True), (''runs'', JNum 200)])])],
     JObj [(''version'', JStr ''0.8.11''),
           (''settings'', JObj [(''optimizer'', JObj [(''enabled'', JBool True), (''runs'', JNum 200)])])]]"

definition network_hardhat :: "env \<Rightarrow> js" where
  "network_hardhat env = JObj [
     (''allowUnlimitedContractSize'', JBool False),
     (''forking'', JObj [(''url'', JStr (''https://arb-mainnet.g.alchemy.com/v2/'' @ env_text env ''ALCHEMY_TOKEN''))]),
     (''accounts'', getHardhatPrivateKeys),
     (''gas'', JNum 12000000),
     (''blockGasLimit'', JNum 12000000)]"

definition network_localhost :: "env \<Rightarrow> js" where
  "network_localhost env = JObj ([(''url'', JStr ''http://127.0.0.1:7545'')]
     @ opt_field ''forking'' (if env_truthy env ''FORK'' then Some (forkingConfig env) else None) @ [
     (''timeout'', JNum 200000),
     (''gas'', JNum 120000000),
     (''blockGasLimit'', JNum 1200000000)])"

definition private_account :: "env \<Rightarrow> string \<Rightarrow> js" where
  "private_account env x = JArr [JStr (''0x'' @ env_text env x)]"

definition network_sepolia :: "env \<Rightarrow> js" where
  "network_sepolia env = JObj [
     (''url'', JStr (''https://eth-sepolia.g.alchemy.com/v2/'' @ env_text env ''ALCHEMY_TOKEN'')),
     (''accounts'', private_account env ''SEPOLIA_DEPLOY_PRIVATE_KEY''),
     (''timeout'', JNum 200000),
     (''gas'', JNum 12000000),
     (''blockGasLimit'', JNum 30000000),
     (''loggingEnabled'', JBool True),
     (''throwOnTransactionFailures'', JBool True),
     (''throwOnCallFailures'', JBool True)]"

definition infura_network :: "env \<Rightarrow> string \<Rightarrow> string \<Rightarrow> js" where
  "infura_network env url key = JObj [
     (''url'', JStr (url @ env_text env ''INFURA_TOKEN'')),
     (''accounts'', private_account env key)]"

definition networks :: "env \<Rightarrow> (string \<times> js) list" where
  "networks env = [
     (''hardhat'', network_hardhat env),
     (''localhost'', network_localhost env),
     (''kovan'', infura_network env ''https://kovan.infura.io/v3/'' ''KOVAN_DEPLOY_PRIVATE_KEY''),
     (''sepolia'', network_sepolia env),
     (''staging_mainnet'', infura_network env ''https://mainnet.infura.io/v3/'' ''STAGING_MAINNET_DEPLOY_PRIVATE_KEY''),
     (''production'', infura_network env ''https://mainnet.infura.io/v3/'' ''PRODUCTION_MAINNET_DEPLOY_PRIVATE_KEY''),
     (''coverage'', JObj [(''url'', JStr ''http://127.0.0.1:8555''), (''timeout'', JNum 200000)])]"

text \<open>Loading the module: the check runs before the object is built.\<close>

definition hardhat_config :: "env \<Rightarrow> js option" where
  "hardhat_config env = (if \<not> checkForkedProviderEnvironment env then None else Some (JObj [
     (''solidity'', JObj [(''compilers'', compilers)]),
     (''networks'', JObj (networks env)),
     (''typechain'', JObj [(''outDir'', JStr ''typechain''), (''target'', JStr ''ethers-v5''),
        (''externalArtifacts'', JArr [JStr ''external/**/*.json''])]),
     (''contractSizer'', JObj [(''runOnCompile'', JBool False)]),
     (''mocha'', mochaConfig env),
     (''sourcify'', JObj [(''enabled'', JBool True)]),
     (''externalGasMods'', JArr [JStr ''external/abi/perp'']),
     (''etherscan'', JObj (opt_field ''apiKey'' (map_option JStr (env ''ETHERSCAN_API_KEY''))))]))"

subsection \<open>The native compiler\<close>

text \<open>
  \<open>version_output\<close> is what \<open>solc --version\<close> prints, \<open>None\<close> when the command fails; \<open>native\<close> runs \<open>solc\<close> on the text of
  the input and parses its output, \<open>None\<close> when one of the two throws; \<open>runSuper\<close> is hardhat's own compiler. \<open>includes(undefined)\<close> looks for
  the text \<open>undefined\<close>. The flag \<open>isFirstRun\<close> only silences the console.
\<close>

definition js_text :: "js option \<Rightarrow> string" where
  "js_text v = (case v of Some (JStr s) \<Rightarrow> s | _ \<Rightarrow> ''undefined'')"

definition setupNativeSolc :: "string option \<Rightarrow> (js \<Rightarrow> js option) \<Rightarrow> js \<Rightarrow> js \<Rightarrow> js option \<Rightarrow> js option" where
  "setupNativeSolc version_output native input config runSuper =
     (let solcVersionOutput = default_to '''' version_output in
      case field ''solidity'' config of
        None \<Rightarrow> None
      | Some solidity \<Rightarrow>
          if \<not> str_includes solcVersionOutput (js_text (field ''version'' solidity)) then runSuper else native input)"

subsection \<open>What the configuration says\<close>

lemma env_truthy_iff: "env_truthy env x \<longleftrightarrow> (\<exists>s. env x = Some s \<and> s \<noteq> '''')"
  by (cases "env x") (simp_all add: env_truthy_def truthy_def)

text \<open>Forked tests are selected exactly by \<open>FORK\<close>, and never run without a token of their own.\<close>

lemma forked_tests_need_token:
  "hardhat_config env \<noteq> None \<longleftrightarrow> \<not> env_truthy env ''FORK''
     \<or> (\<exists>token. env ''ALCHEMY_TOKEN'' = Some token \<and> token \<noteq> '''' \<and> token \<noteq> ''fake_alchemy_token'')"
  "field ''invert'' (mochaConfig env) = Some (JBool (\<not> env_truthy env ''FORK''))"
  by (auto simp: hardhat_config_def checkForkedProviderEnvironment_def env_truthy_iff mochaConfig_def)

text \<open>The network \<open>hardhat\<close> forks in every environment, without a token from a URL that ends in \<open>undefined\<close>.\<close>

lemma hardhat_always_forks:
  "Option.bind (map_of (networks env) ''hardhat'') (field ''forking'') =
     Some (JObj [(''url'', JStr (''https://arb-mainnet.g.alchemy.com/v2/'' @ env_text env ''ALCHEMY_TOKEN''))])"
  "env ''ALCHEMY_TOKEN'' = None \<Longrightarrow> env_text env ''ALCHEMY_TOKEN'' = ''undefined''"
  by (simp_all add: networks_def network_hardhat_def env_text_def)

text \<open>The accounts of the network \<open>hardhat\<close>: one for every wallet of the tests, with a million ether.\<close>

lemma hardhat_accounts:
  assumes "getHardhatPrivateKeys = JArr accounts"
  shows "map (field ''privateKey'') accounts = map (\<lambda>k. Some (JStr k)) privateKeys"
    "\<forall>a \<in> set accounts. field ''balance'' a = Some (JStr ''1000000000000000000000000'')"
  using assms by (auto simp: getHardhatPrivateKeys_def comp_def)

text \<open>
  The gas that \<open>addGasToAbiMethods\<close> writes into an ABI, the network's \<open>gas\<close> less a million, is positive and below the block limit
  on every network that sets \<open>gas\<close>. The networks of Infura and the coverage network do not set it.
\<close>

lemma configured_gas_fits:
  assumes "(nm, n) \<in> set (networks env)" "Option.bind (field ''gas'' n) as_num = Some gas"
  obtains limit where "Option.bind (field ''blockGasLimit'' n) as_num = Some limit" "0 < gas - 1000000" "gas - 1000000 < limit"
    "nm \<in> {''hardhat'', ''localhost'', ''sepolia''}"
  using assms
  by (auto simp: networks_def network_hardhat_def network_localhost_def network_sepolia_def infura_network_def opt_field_def split: if_splits)

text \<open>The configuration lists compilers and has no \<open>version\<close>: \<open>setupNativeSolc\<close> never runs the native one.\<close>

lemma native_solc_unused:
  assumes "hardhat_config env = Some config" "\<not> str_includes (default_to '''' out) ''undefined''"
  shows "setupNativeSolc out native input config runSuper = runSuper"
  using assms by (auto simp: hardhat_config_def setupNativeSolc_def js_text_def compilers_def Let_def split: if_splits)

end
