(* ===== verification/StakingModule.thy ===== *)
theory StakingModule
  imports TradeModule
begin

section \<open>The StakingModule\<close>

text \<open>
  \<^verbatim>\<open>src/contracts/protocol/modules/v1/StakingModule.sol\<close>: the manager of a Set stakes a component in an external
  contract, through an adapter. The staked units leave the default position and become an external position of this
  module; the module records, for every component, the staking contracts and the units at each. Issuance calls the
  component hooks to stake or unstake what belongs to the issued or redeemed quantity.

  The record \<open>staking_module\<close> is the state of the contract, the first component of \<open>outside\<close>; every function reads it
  again after a call of foreign code, as the code does. Adapters (\<open>IStakingAdapter\<close>) are the record
  \<open>staking_adapters\<close>. The locale \<open>staking_calls\<close> extends \<open>quiet_calls\<close>: the contracts a Set calls while it stakes do not
  make the manager change the records. It is interpreted on \<open>StakingAdapterMock\<close>, the staking contract of the tests.

  The theorems: the records stay consistent and the redeem hook brings back what they say, with any multiplier; while the position multiplier is 1 the external
  unit of the module is the sum of the recorded units, and stake and unstake move units between the two positions. A lemma shows
  what happens once a streaming fee lowered the multiplier: the records are real units that no longer match.
\<close>

record StakingPosition =
  adapterHash :: nat
  componentPositionUnits :: int

record ComponentPositions =
  stakingContracts :: "address list"
  staked_at :: "address \<Rightarrow> StakingPosition"

record staking_module =
  stakingPositions :: "address \<Rightarrow> address \<Rightarrow> ComponentPositions"

record 'w staking_adapters =
  stk_name_hash :: "string \<Rightarrow> nat"
  stk_registry_at :: "'w evm \<Rightarrow> address \<Rightarrow> integration_registry option"
  getSpenderAddress :: "address \<Rightarrow> address \<Rightarrow> 'w evm \<Rightarrow> address result"
  getStakeCallData :: "address \<Rightarrow> address \<Rightarrow> int \<Rightarrow> 'w evm \<Rightarrow> (address \<times> int \<times> bytes) result"
  getUnstakeCallData :: "address \<Rightarrow> address \<Rightarrow> int \<Rightarrow> 'w evm \<Rightarrow> (address \<times> int \<times> bytes) result"

type_synonym 'x stake_evm = "(staking_module \<times> 'x) evm"
type_synonym 'x stake_foreign = "(staking_module \<times> 'x) foreign"
type_synonym 'x stake_adapters = "(staking_module \<times> 'x) staking_adapters"

definition no_stake :: StakingPosition where
  "no_stake = \<lparr>adapterHash = 0, componentPositionUnits = 0\<rparr>"

definition stakes_of :: "address \<Rightarrow> address \<Rightarrow> 'x stake_evm \<Rightarrow> ComponentPositions" where
  "stakes_of self k e = stakingPositions (fst (outside e)) self k"

definition write_stakes :: "address \<Rightarrow> address \<Rightarrow> (ComponentPositions \<Rightarrow> ComponentPositions) \<Rightarrow> 'x stake_evm \<Rightarrow> 'x stake_evm" where
  "write_stakes self k f e = e\<lparr>outside :=
     (fst (outside e)\<lparr>stakingPositions := (stakingPositions (fst (outside e)))
        (self := (stakingPositions (fst (outside e)) self)(k := f (stakes_of self k e)))\<rparr>, snd (outside e))\<rparr>"

subsection \<open>Getters\<close>

definition getStakingContracts :: "'x stake_evm \<Rightarrow> address \<Rightarrow> address \<Rightarrow> address list" where
  "getStakingContracts e self k = stakingContracts (stakes_of self k e)"

definition getStakingPosition :: "'x stake_evm \<Rightarrow> address \<Rightarrow> address \<Rightarrow> address \<Rightarrow> StakingPosition" where
  "getStakingPosition e self k pool = staked_at (stakes_of self k e) pool"

definition getStakingPositionUnit :: "'x stake_evm \<Rightarrow> address \<Rightarrow> address \<Rightarrow> address \<Rightarrow> int" where
  "getStakingPositionUnit e self k pool = componentPositionUnits (getStakingPosition e self k pool)"

definition hasStakingPosition :: "'x stake_evm \<Rightarrow> address \<Rightarrow> address \<Rightarrow> address \<Rightarrow> bool" where
  "hasStakingPosition e self k pool = contains (getStakingContracts e self k) pool"

subsection \<open>Calls of the staking contract\<close>

definition stake_internal ::
  "'w foreign \<Rightarrow> 'w staking_adapters \<Rightarrow> address \<Rightarrow> address \<Rightarrow> address \<Rightarrow> address \<Rightarrow> address \<Rightarrow> int \<Rightarrow> int \<Rightarrow> 'w evm \<Rightarrow> ('w evm) result" where
  "stake_internal F A this self pool k adapter units setTokenStakeQuantity e =
     rbind (getDefaultTotalNotional setTokenStakeQuantity units) (\<lambda>notionalStakeQuantity.
     rbind (getSpenderAddress A adapter pool e) (\<lambda>spender.
     rbind (invokeApprove F this self k spender notionalStakeQuantity e) (\<lambda>e1.
     rbind (getStakeCallData A adapter pool notionalStakeQuantity e1) (\<lambda>(target, callValue, methodData).
     set_invoke F this self target callValue methodData e1))))"

definition unstake_internal ::
  "'w foreign \<Rightarrow> 'w staking_adapters \<Rightarrow> address \<Rightarrow> address \<Rightarrow> address \<Rightarrow> address \<Rightarrow> address \<Rightarrow> int \<Rightarrow> int \<Rightarrow> 'w evm \<Rightarrow> ('w evm) result" where
  "unstake_internal F A this self pool k adapter units setTokenUnstakeQuantity e =
     rbind (balance_of F k self e) (\<lambda>preActionBalance.
     rbind (getDefaultTotalNotional setTokenUnstakeQuantity units) (\<lambda>notionalUnstakeQuantity.
     rbind (getUnstakeCallData A adapter pool notionalUnstakeQuantity e) (\<lambda>(target, callValue, methodData).
     rbind (set_invoke F this self target callValue methodData e) (\<lambda>e1.
     rbind (balance_of F k self e1) (\<lambda>postActionBalance.
     rbind (safe_add preActionBalance notionalUnstakeQuantity) (\<lambda>expected.
     rbind (require (expected \<le> postActionBalance) ''Not enough tokens returned from stake contract'') (\<lambda>_.
     Ok e1)))))))"

subsection \<open>Updating the records and the positions of the Set\<close>

definition updateStakeState ::
  "'x stake_adapters \<Rightarrow> address \<Rightarrow> address \<Rightarrow> address \<Rightarrow> address \<Rightarrow> string \<Rightarrow> int \<Rightarrow> 'x stake_evm \<Rightarrow> ('x stake_evm) result" where
  "updateStakeState A this self pool k adapterName units e =
     rbind (if hasStakingPosition e self k pool then
              rbind (safe_add units (getStakingPositionUnit e self k pool)) (\<lambda>n.
              Ok (write_stakes self k (\<lambda>x. x\<lparr>staked_at := (staked_at x)
                    (pool := (staked_at x pool)\<lparr>componentPositionUnits := n\<rparr>)\<rparr>) e))
            else
              Ok (write_stakes self k (\<lambda>x. x\<lparr>stakingContracts := stakingContracts x @ [pool], staked_at := (staked_at x)
                    (pool := \<lparr>adapterHash = getNameHash (stk_name_hash A) adapterName, componentPositionUnits = units\<rparr>)\<rparr>) e)) (\<lambda>e1.
     rbind (getDefaultPositionRealUnit (the_set e1) k) (\<lambda>d.
     rbind (toUint256 d) (\<lambda>d'.
     rbind (safe_sub d' units) (\<lambda>newDefaultTokenUnit.
     rbind (on_set (\<lambda>c. editDefaultPosition this c k newDefaultTokenUnit) e1) (\<lambda>e2.
     rbind (getExternalPositionRealUnit (the_set e2) k this) (\<lambda>x.
     rbind (toInt256 units) (\<lambda>u.
     rbind (sadd x u) (\<lambda>newExternalTokenUnit.
     on_set (\<lambda>c. editExternalPosition this c k this newExternalTokenUnit []) e2))))))))"

definition updateUnstakeState ::
  "address \<Rightarrow> address \<Rightarrow> address \<Rightarrow> address \<Rightarrow> int \<Rightarrow> 'x stake_evm \<Rightarrow> ('x stake_evm) result" where
  "updateUnstakeState this self pool k units e =
     rbind (safe_sub (getStakingPositionUnit e self k pool) units) (\<lambda>remainingPositionUnits.
     rbind (if remainingPositionUnits > 0 then
              Ok (write_stakes self k (\<lambda>x. x\<lparr>staked_at := (staked_at x)
                    (pool := (staked_at x pool)\<lparr>componentPositionUnits := remainingPositionUnits\<rparr>)\<rparr>) e)
            else
              rbind (remove (getStakingContracts e self k) pool) (\<lambda>ps.
              Ok (write_stakes self k (\<lambda>x. x\<lparr>stakingContracts := ps, staked_at := (staked_at x)(pool := no_stake)\<rparr>) e))) (\<lambda>e1.
     rbind (getDefaultPositionRealUnit (the_set e1) k) (\<lambda>d.
     rbind (toUint256 d) (\<lambda>d'.
     rbind (safe_add d' units) (\<lambda>newTokenUnit.
     rbind (on_set (\<lambda>c. editDefaultPosition this c k newTokenUnit) e1) (\<lambda>e2.
     rbind (getExternalPositionRealUnit (the_set e2) k this) (\<lambda>x.
     rbind (toInt256 units) (\<lambda>u.
     rbind (ssub x u) (\<lambda>newExternalTokenUnit.
     on_set (\<lambda>c. editExternalPosition this c k this newExternalTokenUnit []) e2)))))))))"

subsection \<open>The manager's functions\<close>

definition stake ::
  "'x stake_foreign \<Rightarrow> 'x stake_adapters \<Rightarrow> address \<Rightarrow> address \<Rightarrow> address \<Rightarrow> address \<Rightarrow> address \<Rightarrow> string \<Rightarrow> int \<Rightarrow>
   'x stake_evm \<Rightarrow> ('x stake_evm) result" where
  "stake F A this msg_sender self pool k adapterName units e =
     rbind (validateOnlyManagerAndValidSet this msg_sender (the_controller e) self (the_set e)) (\<lambda>_.
     rbind (hasSufficientDefaultUnits (the_set e) k units) (\<lambda>enough.
     rbind (require enough ''Not enough component to stake'') (\<lambda>_.
     rbind (getAndValidateAdapter (stk_name_hash A) (stk_registry_at A e) (the_controller e) this adapterName) (\<lambda>adapter.
     rbind (stake_internal F A this self pool k adapter units (totalSupply (the_set e)) e)
       (updateStakeState A this self pool k adapterName units)))))"

definition unstake ::
  "'x stake_foreign \<Rightarrow> 'x stake_adapters \<Rightarrow> address \<Rightarrow> address \<Rightarrow> address \<Rightarrow> address \<Rightarrow> address \<Rightarrow> string \<Rightarrow> int \<Rightarrow>
   'x stake_evm \<Rightarrow> ('x stake_evm) result" where
  "unstake F A this msg_sender self pool k adapterName units e =
     rbind (validateOnlyManagerAndValidSet this msg_sender (the_controller e) self (the_set e)) (\<lambda>_.
     rbind (require (getStakingPositionUnit e self k pool \<ge> units) ''Not enough component tokens staked'') (\<lambda>_.
     rbind (getAndValidateAdapter (stk_name_hash A) (stk_registry_at A e) (the_controller e) this adapterName) (\<lambda>adapter.
     rbind (unstake_internal F A this self pool k adapter units (totalSupply (the_set e)) e)
       (updateUnstakeState this self pool k units))))"

definition staking_initialize :: "address \<Rightarrow> address \<Rightarrow> address \<Rightarrow> 'w evm \<Rightarrow> ('w evm) result" where
  "staking_initialize this msg_sender self e =
     rbind (validateOnlySetManager msg_sender (the_set e)) (\<lambda>_.
     rbind (validateOnlyValidAndPendingSet this (the_controller e) self (the_set e)) (\<lambda>_.
     on_set (\<lambda>c. initializeModule this) e))"

text \<open>Called by the Set, whose address \<open>msg.sender\<close> is \<open>self\<close>.\<close>

fun closed_loop :: "address \<Rightarrow> address list \<Rightarrow> 'x stake_evm \<Rightarrow> ('x stake_evm) result" where
  "closed_loop self [] e = Ok e"
| "closed_loop self (k # ks) e =
     rbind (require (length (getStakingContracts e self k) = 0) ''Open positions must be closed'') (\<lambda>_. closed_loop self ks e)"

definition staking_removeModule :: "address \<Rightarrow> 'x stake_evm \<Rightarrow> ('x stake_evm) result" where
  "staking_removeModule self e = closed_loop self (components (the_set e)) e"

subsection \<open>Hooks of issuance\<close>

text \<open>The list of contracts is read before the loop, the position of each and its adapter when its turn comes.\<close>

fun restake_loop ::
  "'x stake_foreign \<Rightarrow> 'x stake_adapters \<Rightarrow> address \<Rightarrow> address \<Rightarrow> address \<Rightarrow> int \<Rightarrow> address list \<Rightarrow> 'x stake_evm \<Rightarrow> ('x stake_evm) result" where
  "restake_loop F A this self k q [] e = Ok e"
| "restake_loop F A this self k q (pool # pools) e =
     (let p = getStakingPosition e self k pool in
      rbind (getAndValidateAdapterWithHash (stk_registry_at A e) (the_controller e) this (adapterHash p)) (\<lambda>adapter.
      rbind (stake_internal F A this self pool k adapter (componentPositionUnits p) q e) (restake_loop F A this self k q pools)))"

fun unstake_loop ::
  "'x stake_foreign \<Rightarrow> 'x stake_adapters \<Rightarrow> address \<Rightarrow> address \<Rightarrow> address \<Rightarrow> int \<Rightarrow> address list \<Rightarrow> 'x stake_evm \<Rightarrow> ('x stake_evm) result" where
  "unstake_loop F A this self k q [] e = Ok e"
| "unstake_loop F A this self k q (pool # pools) e =
     (let p = getStakingPosition e self k pool in
      rbind (getAndValidateAdapterWithHash (stk_registry_at A e) (the_controller e) this (adapterHash p)) (\<lambda>adapter.
      rbind (unstake_internal F A this self pool k adapter (componentPositionUnits p) q e) (unstake_loop F A this self k q pools)))"

definition staking_componentIssueHook ::
  "'x stake_foreign \<Rightarrow> 'x stake_adapters \<Rightarrow> address \<Rightarrow> address \<Rightarrow> address \<Rightarrow> int \<Rightarrow> address \<Rightarrow> bool \<Rightarrow> 'x stake_evm \<Rightarrow> ('x stake_evm) result" where
  "staking_componentIssueHook F A this msg_sender self setTokenQuantity k isEquity e =
     rbind (module_validateOnlyModule msg_sender (the_controller e) (the_set e)) (\<lambda>_.
     restake_loop F A this self k setTokenQuantity (getStakingContracts e self k) e)"

definition staking_componentRedeemHook ::
  "'x stake_foreign \<Rightarrow> 'x stake_adapters \<Rightarrow> address \<Rightarrow> address \<Rightarrow> address \<Rightarrow> int \<Rightarrow> address \<Rightarrow> bool \<Rightarrow> 'x stake_evm \<Rightarrow> ('x stake_evm) result" where
  "staking_componentRedeemHook F A this msg_sender self setTokenQuantity k isEquity e =
     rbind (module_validateOnlyModule msg_sender (the_controller e) (the_set e)) (\<lambda>_.
     unstake_loop F A this self k setTokenQuantity (getStakingContracts e self k) e)"

definition staking_moduleIssueHook :: "address \<Rightarrow> int \<Rightarrow> 'w evm \<Rightarrow> ('w evm) result" where
  "staking_moduleIssueHook self setTokenQuantity e = Ok e"

definition staking_moduleRedeemHook :: "address \<Rightarrow> int \<Rightarrow> 'w evm \<Rightarrow> ('w evm) result" where
  "staking_moduleRedeemHook self setTokenQuantity e = Ok e"

subsection \<open>Editing positions while the multiplier is 1\<close>

lemma unit_multiplier_read:
  assumes "position_inv s" "positionMultiplier s = PRECISE_UNIT_INT"
  shows "getDefaultPositionRealUnit s k = Inr r \<Longrightarrow> r = defaultPositionVirtualUnit s k"
    and "getExternalPositionRealUnit s k m = Inr r \<Longrightarrow> r = externalPositionVirtualUnit s k m"
  using position_inv_at [OF assms(1)] convertVirtualToRealUnit_eq [of s] assms
  by (auto simp: real_unit_defs position_inv_def virtual_typed_def)

lemma unit_multiplier_write:
  assumes "units_ok s" "positionMultiplier s = PRECISE_UNIT_INT" "is_int256 n" "convertRealToVirtualUnit s n = Inr v"
  shows "v = n"
  using convertRealToVirtualUnit_typed [OF assms(1,3,4)] assms(2) by simp

text \<open>The rest of the Set that an edit of one position leaves alone.\<close>

definition beside_positions :: "set_token \<Rightarrow> set_token \<Rightarrow> bool" where
  "beside_positions s s' \<longleftrightarrow> positionMultiplier s' = positionMultiplier s \<and> totalSupply s' = totalSupply s \<and> moduleStates s' = moduleStates s
     \<and> manager s' = manager s"

lemma default_written:
  assumes "tracking s" "positionMultiplier s = PRECISE_UNIT_INT" "0 \<le> n" "editDefaultPosition this c k n s = Inr s'"
  shows "tracking s' \<and> beside_positions s s' \<and> defaultPositionVirtualUnit s' k = n \<and> getDefaultPositionRealUnit s' k = Inr n
    \<and> (\<forall>j m. externalPositionVirtualUnit s' j m = externalPositionVirtualUnit s j m)"
proof -
  obtain s1 where e: "editDefaultPositionUnit this c k n s1 = Inr s'" and s1: "n \<le> MAX_INT_256" "position_inv s1"
      "componentPositions s1 = componentPositions s" "positionMultiplier s1 = positionMultiplier s"
    using edit_default_steps [OF assms(1,4,3)] by blast
  have t: "is_int256 n" and u: "units_ok s1" using s1(1,2) assms(3) by (simp_all add: is_int256_def position_inv_def)
  obtain v where v: "convertRealToVirtualUnit s1 n = Inr v"
    and s': "s' = s1\<lparr>componentPositions := (componentPositions s1)(k := (componentPositions s1 k)\<lparr>virtualUnit := v\<rparr>)\<rparr>"
    using editDefaultPositionUnit_Inr [OF e] by blast
  have "v = n" using unit_multiplier_write [OF u _ t v] s1(4) assms(2) by simp
  then have d: "defaultPositionVirtualUnit s' k = n" by (simp add: s' defaultPositionVirtualUnit_def)
  have tr: "tracking s'" by (rule editDefaultPosition_tracking [OF assms(1,3,4)])
  then obtain r where r: "getDefaultPositionRealUnit s' k = Inr r" using tracking_D [OF tr, of k] by (auto simp: tracked_def)
  moreover have m: "positionMultiplier s' = positionMultiplier s" using editDefaultPosition_frame [OF assms(4)] by simp
  ultimately have "r = n" using unit_multiplier_read(1) [OF tracking_inv [OF tr] _ r] assms(2) d by simp
  then show ?thesis using tr d r editDefaultPosition_frame [OF assms(4)] s1(3)
    by (simp add: beside_positions_def s' externalPositionVirtualUnit_def)
qed

text \<open>An edit that reaches only the external position of \<open>m\<close> in \<open>k\<close>.\<close>

definition external_only :: "address \<Rightarrow> address \<Rightarrow> set_token \<Rightarrow> set_token \<Rightarrow> bool" where
  "external_only k m s s' \<longleftrightarrow> beside_positions s s' \<and> (\<forall>j. defaultPositionVirtualUnit s' j = defaultPositionVirtualUnit s j)
     \<and> (\<forall>j x. (j, x) \<noteq> (k, m) \<longrightarrow> externalPositionVirtualUnit s' j x = externalPositionVirtualUnit s j x)"

lemma external_only_refl: "external_only k m s s"
  by (simp add: external_only_def beside_positions_def)

lemma external_only_trans: "external_only k m s s1 \<Longrightarrow> external_only k m s1 s2 \<Longrightarrow> external_only k m s s2"
  unfolding external_only_def beside_positions_def by metis

lemmas external_only_defs = external_only_def beside_positions_def defaultPositionVirtualUnit_def externalPositionVirtualUnit_def

lemma external_only_ops:
  "addComponent x c k' s = Inr s' \<Longrightarrow> external_only k m s s'"
  "removeComponent x c k' s = Inr s' \<Longrightarrow> external_only k m s s'"
  "addExternalPositionModule x c k m' s = Inr s' \<Longrightarrow> external_only k m s s'"
  "removeExternalPositionModule x c k m s = Inr s' \<Longrightarrow> external_only k m s s'"
  "editExternalPositionUnit x c k m u s = Inr s' \<Longrightarrow> external_only k m s s'"
  "editExternalPositionData x c k m d s = Inr s' \<Longrightarrow> external_only k m s s'"
  by (auto simp: set_ops external_only_defs rbind_eq_Inr privileged_eq_Inr require_eq_Inr)

lemma open_steps:
  assumes "n \<noteq> 0" "editExternalPosition this c k m n d s = Inr s'"
  obtains s2 s3 where "external_only k m s s2" "editExternalPositionUnit this c k m n s2 = Inr s3"
    "editExternalPositionData this c k m d s3 = Inr s'"
proof -
  obtain s1 s2 s3 where "s1 = s \<or> addComponent this c k s = Inr s1" "s2 = s1 \<or> addExternalPositionModule this c k m s1 = Inr s2"
    "editExternalPositionUnit this c k m n s2 = Inr s3" "editExternalPositionData this c k m d s3 = Inr s'"
    using assms by (auto simp: editExternalPosition_def rbind_eq_Inr split: if_splits)
  then show thesis using that external_only_ops external_only_refl external_only_trans by metis
qed

lemma external_frame:
  assumes "editExternalPosition this c k m n d s = Inr s'"
  shows "external_only k m s s'"
proof (cases "n = 0")
  case True
  show ?thesis
  proof (cases "s' = s")
    case False
    then obtain s1 where s1: "s1 = s \<or> removeComponent this c k s = Inr s1" and s': "removeExternalPositionModule this c k m s1 = Inr s'"
      using assms True by (auto simp: editExternalPosition_def Let_def rbind_eq_Inr require_eq_Inr split: if_splits)
    then show ?thesis using external_only_ops external_only_refl external_only_trans by metis
  qed (simp add: external_only_refl)
next
  case False
  then show ?thesis using open_steps [OF False assms] external_only_ops external_only_trans by metis
qed

lemma external_written:
  assumes "tracking s" "positionMultiplier s = PRECISE_UNIT_INT" "is_int256 n" "editExternalPosition this c k m n d s = Inr s'"
  shows "tracking s' \<and> externalPositionVirtualUnit s' k m = n"
proof (cases "n = 0")
  case True
  have cleared: "externalPositionVirtualUnit s' k m = 0" if "removeExternalPositionModule this c k m s1 = Inr s'" for s1
    using that by (auto simp: removeExternalPositionModule_def privileged_eq_Inr rbind_eq_Inr externalPositionVirtualUnit_def)
  have "(s' = s \<and> getExternalPositionRealUnit s k m = Inr 0) \<or> (\<exists>s1. removeExternalPositionModule this c k m s1 = Inr s')"
    using assms(4) True by (auto simp: editExternalPosition_def Let_def rbind_eq_Inr require_eq_Inr split: if_splits)
  then have "externalPositionVirtualUnit s' k m = 0"
    using cleared unit_multiplier_read(2) [OF tracking_inv [OF assms(1)] assms(2), of k m 0] by auto
  then show ?thesis using close_external_tracking [OF assms(1)] assms(4) True by simp
next
  case False
  obtain s1 s2 where s1: "external_only k m s s1" and s2: "editExternalPositionUnit this c k m n s1 = Inr s2"
    and s': "editExternalPositionData this c k m d s2 = Inr s'"
    using open_steps [OF False assms(4)] by metis
  obtain v where v: "convertRealToVirtualUnit s1 n = Inr v" and x: "externalPositionVirtualUnit s2 k m = v"
    using editExternalPositionUnit_Inr [OF s2] by (auto simp: externalPositionVirtualUnit_def)
  have "v = n" using unit_multiplier_write [OF _ _ assms(3) v] s1 assms(2) by (simp add: units_ok_def is_int256_def external_only_def beside_positions_def)
  then have "externalPositionVirtualUnit s' k m = n"
    using s' x by (auto simp: editExternalPositionData_def result_simps externalPositionVirtualUnit_def)
  then show ?thesis using open_external_tracking [OF assms(1,3) False assms(4)] by simp
qed

subsection \<open>What an update of the records and the positions does\<close>

lemma stakes_written [simp]:
  "stakes_of self k (write_stakes self k f e) = f (stakes_of self k e)"
  "j \<noteq> k \<Longrightarrow> stakes_of self j (write_stakes self k f e) = stakes_of self j e"
  "the_set (write_stakes self k f e) = the_set e" "the_controller (write_stakes self k f e) = the_controller e"
  "snd (outside (write_stakes self k f e)) = snd (outside e)"
  by (simp_all add: stakes_of_def write_stakes_def)

lemma stakes_of_cong: "fst (outside e') = fst (outside e) \<Longrightarrow> stakes_of self k e' = stakes_of self k e"
  by (simp add: stakes_of_def)

text \<open>The sum of the recorded units, and what makes the records of a component consistent.\<close>

definition staked_total :: "ComponentPositions \<Rightarrow> int" where
  "staked_total x = sum_list (map (\<lambda>p. componentPositionUnits (staked_at x p)) (stakingContracts x))"

definition stakes_ok :: "ComponentPositions \<Rightarrow> bool" where
  "stakes_ok x \<longleftrightarrow> distinct (stakingContracts x) \<and> (\<forall>p. 0 \<le> componentPositionUnits (staked_at x p))
     \<and> (\<forall>p. p \<notin> set (stakingContracts x) \<longrightarrow> staked_at x p = no_stake)"

lemma staked_total_upd:
  "distinct ps \<Longrightarrow> sum_list (map (\<lambda>p. componentPositionUnits ((f(q := y)) p)) ps)
     = sum_list (map (\<lambda>p. componentPositionUnits (f p)) ps) + (if q \<in> set ps then componentPositionUnits y - componentPositionUnits (f q) else 0)"
  by (induction ps) auto

lemma staked_total_remove1:
  "q \<in> set ps \<Longrightarrow> sum_list (map (\<lambda>p. componentPositionUnits (f p)) (remove1 q ps))
     = sum_list (map (\<lambda>p. componentPositionUnits (f p)) ps) - componentPositionUnits (f q)"
  by (induction ps) auto

text \<open>The two positions of a component after units moved between them: \<open>d\<close> to the default, \<open>x\<close> to the external position.\<close>

definition units_moved :: "address \<Rightarrow> address \<Rightarrow> int \<Rightarrow> int \<Rightarrow> set_token \<Rightarrow> set_token \<Rightarrow> bool" where
  "units_moved this k d x s s' \<longleftrightarrow> tracking s' \<and> beside_positions s s'
     \<and> getDefaultPositionRealUnit s' k = Inr (defaultPositionVirtualUnit s k + d)
     \<and> externalPositionVirtualUnit s' k this = externalPositionVirtualUnit s k this + x
     \<and> (\<forall>j m. (j, m) \<noteq> (k, this) \<longrightarrow> externalPositionVirtualUnit s' j m = externalPositionVirtualUnit s j m)"

lemma edits_move_units:
  assumes "tracking s" "positionMultiplier s = PRECISE_UNIT_INT" "0 \<le> defaultPositionVirtualUnit s k + d"
    "editDefaultPosition this c k (defaultPositionVirtualUnit s k + d) s = Inr s1" "getExternalPositionRealUnit s1 k this = Inr r"
    "is_int256 (r + x)" "editExternalPosition this c k this (r + x) [] s1 = Inr s'"
  shows "units_moved this k d x s s'"
proof -
  note D = default_written [OF assms(1-4)]
  then have m: "positionMultiplier s1 = PRECISE_UNIT_INT" and tr: "tracking s1" using assms(2) by (simp_all add: beside_positions_def)
  have r: "r = externalPositionVirtualUnit s k this" using unit_multiplier_read(2) [OF tracking_inv [OF tr] m assms(5)] D by simp
  note X = external_written [OF tr m assms(6,7)] external_frame [OF assms(7)]
  have "getDefaultPositionRealUnit s' k = getDefaultPositionRealUnit s1 k"
    using X(2) by (intro real_unit_cong) (simp_all add: external_only_defs)
  then show ?thesis using X D r by (simp add: units_moved_def external_only_def beside_positions_def)
qed

subsection \<open>Staking contracts that leave the records alone\<close>

definition targets_ok :: "'w staking_adapters \<Rightarrow> address \<Rightarrow> bool" where
  "targets_ok A self \<longleftrightarrow> (\<forall>adapter pool n e t v d. pool \<noteq> self \<longrightarrow> getStakeCallData A adapter pool n e = Inr (t, v, d)
     \<or> getUnstakeCallData A adapter pool n e = Inr (t, v, d) \<longrightarrow> t \<noteq> self)"

locale staking_calls = quiet_calls F self bal wf
  for F :: "'x stake_foreign" and self :: address and bal :: "address \<Rightarrow> address \<Rightarrow> 'x stake_evm \<Rightarrow> int" and wf :: "'x stake_evm \<Rightarrow> bool" +
  assumes own_records: "snd (outside e') = snd (outside e) \<Longrightarrow> bal t a e' = bal t a e \<and> (wf e' \<longleftrightarrow> wf e)"
    and records_kept: "wf e \<Longrightarrow> t \<noteq> self \<Longrightarrow> functionCallWithValue F self t v d e = Inr (e', ret) \<Longrightarrow> fst (outside e') = fst (outside e)"
begin

definition kept :: "'x stake_evm \<Rightarrow> 'x stake_evm \<Rightarrow> bool" where
  "kept e e' \<longleftrightarrow> wf e' \<and> the_set e' = the_set e \<and> the_controller e' = the_controller e \<and> fst (outside e') = fst (outside e)"

lemma kept_trans: "kept e e1 \<Longrightarrow> kept e1 e2 \<Longrightarrow> kept e e2"
  by (simp add: kept_def)

lemma kept_D:
  assumes "kept e e'"
  shows "wf e'" "the_set e' = the_set e" "the_controller e' = the_controller e" "stakes_of self' k e' = stakes_of self' k e"
  using assms by (simp_all add: kept_def stakes_of_def)

lemma invoke_kept:
  assumes "wf e" "t \<noteq> self" "set_invoke F this self t v d e = Inr e'"
  shows "kept e e'"
  using invoke_keeps [OF assms] records_kept [OF assms(1,2), of v d e'] assms(3)
  by (auto simp: kept_def set_invoke_def invoke_def result_simps)

lemma stake_internal_kept:
  assumes "wf e" "k \<noteq> self" "targets_ok A self" "pool \<noteq> self" "stake_internal F A this self pool k adapter u q e = Inr e'"
  shows "kept e e'"
proof -
  obtain n sp d e1 t v d' where 1: "set_invoke F this self k 0 d e = Inr e1" and cd: "getStakeCallData A adapter pool n e1 = Inr (t, v, d')"
    and 2: "set_invoke F this self t v d' e1 = Inr e'"
    using assms(5) by (auto simp: stake_internal_def invokeApprove_def Let_def rbind_eq_Inr)
  have "t \<noteq> self" using assms(3,4) cd unfolding targets_ok_def by blast
  then show ?thesis using invoke_kept [OF assms(1,2) 1] invoke_kept [OF _ _ 2] kept_trans kept_D(1) by metis
qed

text \<open>What unstaking guarantees: the tokens are on the Set.\<close>

lemma unstake_internal_Inr:
  assumes "wf e" "k \<noteq> self" "targets_ok A self" "pool \<noteq> self" "is_uint256 q" "is_uint256 u"
    "unstake_internal F A this self pool k adapter u q e = Inr e'"
  shows "kept e e' \<and> bal k self e + q * u div PRECISE_UNIT \<le> bal k self e'"
proof -
  obtain n t v d x where n: "preciseMul_uint q u = Inr n" and cd: "getUnstakeCallData A adapter pool n e = Inr (t, v, d)"
    and inv: "set_invoke F this self t v d e = Inr e'" and x: "safe_add (bal k self e) n = Inr x" "x \<le> bal k self e'"
    using assms(2,7) by (auto simp: unstake_internal_def getDefaultTotalNotional_def rbind_eq_Inr require_eq_Inr readable)
  have "n = q * u div PRECISE_UNIT" and "is_uint256 n"
    using n assms(5,6) by (auto simp: preciseMul_uint_eq_Inr intro!: is_uint256_div is_uint256_mult)
  moreover have "t \<noteq> self" using assms(3,4) cd unfolding targets_ok_def by blast
  ultimately show ?thesis using invoke_kept [OF assms(1) _ inv] x bal_typed [OF assms(1), of k self] by (auto simp: safe_add_eq_Inr)
qed

end

text \<open>The two updates of the records.\<close>

definition staked_more :: "string \<Rightarrow> nat \<Rightarrow> address \<Rightarrow> int \<Rightarrow> ComponentPositions \<Rightarrow> ComponentPositions" where
  "staked_more nm h pool u x = (if pool \<in> set (stakingContracts x)
     then x\<lparr>staked_at := (staked_at x)(pool := (staked_at x pool)\<lparr>componentPositionUnits := componentPositionUnits (staked_at x pool) + u\<rparr>)\<rparr>
     else x\<lparr>stakingContracts := stakingContracts x @ [pool], staked_at := (staked_at x)(pool := \<lparr>adapterHash = h, componentPositionUnits = u\<rparr>)\<rparr>)"

definition staked_less :: "address \<Rightarrow> int \<Rightarrow> ComponentPositions \<Rightarrow> ComponentPositions" where
  "staked_less pool u x = (if u < componentPositionUnits (staked_at x pool)
     then x\<lparr>staked_at := (staked_at x)(pool := (staked_at x pool)\<lparr>componentPositionUnits := componentPositionUnits (staked_at x pool) - u\<rparr>)\<rparr>
     else x\<lparr>stakingContracts := remove1 pool (stakingContracts x), staked_at := (staked_at x)(pool := no_stake)\<rparr>)"

lemma staked_more_ok:
  assumes "stakes_ok x" "0 \<le> u"
  shows "stakes_ok (staked_more nm h pool u x) \<and> staked_total (staked_more nm h pool u x) = staked_total x + u"
  using assms staked_total_upd [of "stakingContracts x" "staked_at x" pool]
  by (auto simp: stakes_ok_def staked_more_def staked_total_def no_stake_def)

lemma staked_less_ok:
  assumes "stakes_ok x" "0 \<le> u" "u \<le> componentPositionUnits (staked_at x pool)"
    "componentPositionUnits (staked_at x pool) \<le> u \<longrightarrow> pool \<in> set (stakingContracts x)"
  shows "stakes_ok (staked_less pool u x) \<and> staked_total (staked_less pool u x) = staked_total x - u"
proof (cases "u < componentPositionUnits (staked_at x pool)")
  case True
  then have "pool \<in> set (stakingContracts x)" using assms(1,2) by (force simp: stakes_ok_def no_stake_def)
  then show ?thesis using assms True staked_total_upd [of "stakingContracts x" "staked_at x" pool]
    by (auto simp: stakes_ok_def staked_less_def staked_total_def)
next
  case False
  let ?ps = "remove1 pool (stakingContracts x)"
  have p: "pool \<in> set (stakingContracts x)" "componentPositionUnits (staked_at x pool) = u" using assms(3,4) False by auto
  have "pool \<notin> set ?ps" "distinct ?ps" using assms(1) by (simp_all add: stakes_ok_def)
  then have "staked_total (staked_less pool u x) = sum_list (map (\<lambda>p. componentPositionUnits (staked_at x p)) ?ps)"
    using False by (auto simp: staked_less_def staked_total_def intro!: arg_cong [where f = sum_list])
  then have "staked_total (staked_less pool u x) = staked_total x - u"
    using staked_total_remove1 [OF p(1), of "staked_at x"] p(2) by (simp add: staked_total_def)
  then show ?thesis using assms(1) False by (auto simp: stakes_ok_def staked_less_def no_stake_def)
qed

lemma write_stakes_cong:
  "f (stakes_of self k e) = g (stakes_of self k e) \<Longrightarrow> write_stakes self k f e = write_stakes self k g e"
  by (simp add: write_stakes_def)

text \<open>The end of both updates: the two edits of the Set.\<close>

lemma position_edits_Inr:
  assumes "tracking (the_set e1)" "positionMultiplier (the_set e1) = PRECISE_UNIT_INT"
    "\<And>d n. is_uint256 d \<Longrightarrow> f d u = Inr n \<Longrightarrow> 0 \<le> n \<and> n = d + y" "\<And>x n. g x u = Inr n \<Longrightarrow> is_int256 n \<and> n = x + z"
    "rbind (getDefaultPositionRealUnit (the_set e1) k) (\<lambda>d.
     rbind (toUint256 d) (\<lambda>d'.
     rbind (f d' u) (\<lambda>newDefaultTokenUnit.
     rbind (on_set (\<lambda>c. editDefaultPosition this c k newDefaultTokenUnit) e1) (\<lambda>e2.
     rbind (getExternalPositionRealUnit (the_set e2) k this) (\<lambda>x.
     rbind (toInt256 u) (\<lambda>u.
     rbind (g x u) (\<lambda>newExternalTokenUnit.
     on_set (\<lambda>c. editExternalPosition this c k this newExternalTokenUnit []) e2))))))) = Inr e'"
  shows "units_moved this k y z (the_set e1) (the_set e')" "the_controller e' = the_controller e1" "outside e' = outside e1"
proof -
  let ?s = "the_set e1"
  obtain d n s2 r n' s3 where d: "getDefaultPositionRealUnit ?s k = Inr d" "0 \<le> d" and n: "f d u = Inr n"
    and s2: "editDefaultPosition this (the_controller e1) k n ?s = Inr s2" and r: "getExternalPositionRealUnit s2 k this = Inr r"
    and n': "g r u = Inr n'" and s3: "editExternalPosition this (the_controller e1) k this n' [] s2 = Inr s3" and e': "e' = e1\<lparr>the_set := s3\<rparr>"
    using assms(5) by (auto simp: rbind_eq_Inr on_set_def toUint256_eq_Inr toInt256_eq_Inr)
  note inv = tracking_inv [OF assms(1)]
  have dv: "d = defaultPositionVirtualUnit ?s k" by (rule unit_multiplier_read(1) [OF inv assms(2) d(1)])
  have "is_uint256 d" using real_unit_typed [OF inv d(1)] d(2) by (simp add: is_int256_def is_uint256_def)
  note N = assms(3) [OF this n] assms(4) [OF n']
  show "units_moved this k y z (the_set e1) (the_set e')" 
    using edits_move_units [OF assms(1,2), of k y this "the_controller e1" s2 r z s3] s2 s3 r N dv e' by auto
  show "the_controller e' = the_controller e1" "outside e' = outside e1" by (simp_all add: e')
qed

text \<open>The edits leave everything but the Set alone.\<close>

lemma position_edits_outside:
  assumes "rbind (getDefaultPositionRealUnit (the_set e1) k) (\<lambda>d.
     rbind (toUint256 d) (\<lambda>d'.
     rbind (f d' u) (\<lambda>newDefaultTokenUnit.
     rbind (on_set (\<lambda>c. editDefaultPosition this c k newDefaultTokenUnit) e1) (\<lambda>e2.
     rbind (getExternalPositionRealUnit (the_set e2) k this) (\<lambda>x.
     rbind (toInt256 u) (\<lambda>u.
     rbind (g x u) (\<lambda>newExternalTokenUnit.
     on_set (\<lambda>c. editExternalPosition this c k this newExternalTokenUnit []) e2))))))) = Inr e'"
  shows "the_controller e' = the_controller e1 \<and> outside e' = outside e1"
  using assms by (auto simp: rbind_eq_Inr on_set_def)

text \<open>The first half of the updates, whatever the multiplier: the records that are written.\<close>

lemma updateStakeState_write:
  assumes "is_uint256 u" "is_uint256 (getStakingPositionUnit e self k pool)" "updateStakeState A this self pool k nm u e = Inr e'"
  obtains e1 where "e1 = write_stakes self k (staked_more nm (getNameHash (stk_name_hash A) nm) pool u) e"
    "pool \<in> set (getStakingContracts e self k) \<longrightarrow> is_uint256 (getStakingPositionUnit e self k pool + u)"
    "rbind (getDefaultPositionRealUnit (the_set e1) k) (\<lambda>d.
     rbind (toUint256 d) (\<lambda>d'.
     rbind (safe_sub d' u) (\<lambda>newDefaultTokenUnit.
     rbind (on_set (\<lambda>c. editDefaultPosition this c k newDefaultTokenUnit) e1) (\<lambda>e2.
     rbind (getExternalPositionRealUnit (the_set e2) k this) (\<lambda>x.
     rbind (toInt256 u) (\<lambda>u.
     rbind (sadd x u) (\<lambda>newExternalTokenUnit.
     on_set (\<lambda>c. editExternalPosition this c k this newExternalTokenUnit []) e2))))))) = Inr e'"
proof -
  let ?more = "staked_more nm (getNameHash (stk_name_hash A) nm) pool u"
  obtain e1 where w: "(if hasStakingPosition e self k pool then
              rbind (safe_add u (getStakingPositionUnit e self k pool)) (\<lambda>n.
              Ok (write_stakes self k (\<lambda>x. x\<lparr>staked_at := (staked_at x)
                    (pool := (staked_at x pool)\<lparr>componentPositionUnits := n\<rparr>)\<rparr>) e))
            else
              Ok (write_stakes self k (\<lambda>x. x\<lparr>stakingContracts := stakingContracts x @ [pool], staked_at := (staked_at x)
                    (pool := \<lparr>adapterHash = getNameHash (stk_name_hash A) nm, componentPositionUnits = u\<rparr>)\<rparr>) e)) = Inr e1"
    and rest: "rbind (getDefaultPositionRealUnit (the_set e1) k) (\<lambda>d.
     rbind (toUint256 d) (\<lambda>d'.
     rbind (safe_sub d' u) (\<lambda>newDefaultTokenUnit.
     rbind (on_set (\<lambda>c. editDefaultPosition this c k newDefaultTokenUnit) e1) (\<lambda>e2.
     rbind (getExternalPositionRealUnit (the_set e2) k this) (\<lambda>x.
     rbind (toInt256 u) (\<lambda>u.
     rbind (sadd x u) (\<lambda>newExternalTokenUnit.
     on_set (\<lambda>c. editExternalPosition this c k this newExternalTokenUnit []) e2))))))) = Inr e'"
    using assms(3) unfolding updateStakeState_def rbind_eq_Inr by blast
  have e1: "e1 = write_stakes self k ?more e"
    using w assms(1,2)
    by (auto simp: staked_more_def hasStakingPosition_def getStakingContracts_def getStakingPositionUnit_def getStakingPosition_def
        safe_add_eq_Inr rbind_eq_Inr add.commute intro!: write_stakes_cong split: if_splits)
  have "pool \<in> set (getStakingContracts e self k) \<longrightarrow> is_uint256 (getStakingPositionUnit e self k pool + u)"
    using w assms(1,2) by (auto simp: hasStakingPosition_def safe_add_eq_Inr rbind_eq_Inr is_uint256_def add.commute split: if_splits)
  with e1 rest that show thesis by blast
qed

lemma updateStakeState_Inr:
  assumes "tracking (the_set e)" "positionMultiplier (the_set e) = PRECISE_UNIT_INT" "is_uint256 u"
    "is_uint256 (getStakingPositionUnit e self k pool)" "updateStakeState A this self pool k nm u e = Inr e'"
  shows "stakes_of self k e' = staked_more nm (getNameHash (stk_name_hash A) nm) pool u (stakes_of self k e)
    \<and> (\<forall>j. j \<noteq> k \<longrightarrow> stakes_of self j e' = stakes_of self j e) \<and> the_controller e' = the_controller e
    \<and> snd (outside e') = snd (outside e) \<and> units_moved this k (- u) u (the_set e) (the_set e')"
proof -
  let ?more = "staked_more nm (getNameHash (stk_name_hash A) nm) pool u"
  obtain e1 where e1: "e1 = write_stakes self k ?more e"
    and rest: "rbind (getDefaultPositionRealUnit (the_set e1) k) (\<lambda>d.
     rbind (toUint256 d) (\<lambda>d'.
     rbind (safe_sub d' u) (\<lambda>newDefaultTokenUnit.
     rbind (on_set (\<lambda>c. editDefaultPosition this c k newDefaultTokenUnit) e1) (\<lambda>e2.
     rbind (getExternalPositionRealUnit (the_set e2) k this) (\<lambda>x.
     rbind (toInt256 u) (\<lambda>u.
     rbind (sadd x u) (\<lambda>newExternalTokenUnit.
     on_set (\<lambda>c. editExternalPosition this c k this newExternalTokenUnit []) e2))))))) = Inr e'"
    by (rule updateStakeState_write [OF assms(3-5)]) blast
  have f: "0 \<le> n \<and> n = d + - u" if "is_uint256 d" "safe_sub d u = Inr n" for d n using that assms(3) by (simp add: safe_sub_eq_Inr)
  have g: "is_int256 n \<and> n = x + u" if "sadd x u = Inr n" for x n using that by (simp add: sadd_eq_Inr)
  have "tracking (the_set e1)" "positionMultiplier (the_set e1) = PRECISE_UNIT_INT" using assms(1,2) by (simp_all add: e1)
  note P = position_edits_Inr [where f = safe_sub and g = sadd and y = "- u" and z = "u", OF this f g rest]
  then have "stakes_of self j e' = stakes_of self j e1" for j by (intro stakes_of_cong) simp
  note same = this
  have E: "stakes_of self k e1 = ?more (stakes_of self k e)" "\<And>j. j \<noteq> k \<Longrightarrow> stakes_of self j e1 = stakes_of self j e"
    "the_controller e1 = the_controller e" "snd (outside e1) = snd (outside e)" "the_set e1 = the_set e" by (simp_all add: e1)
  show ?thesis using P E by (simp add: same)
qed

lemma updateUnstakeState_write:
  assumes "is_uint256 u" "is_uint256 (getStakingPositionUnit e self k pool)" "updateUnstakeState this self pool k u e = Inr e'"
  obtains e1 where "e1 = write_stakes self k (staked_less pool u) e" "u \<le> getStakingPositionUnit e self k pool"
    "getStakingPositionUnit e self k pool \<le> u \<longrightarrow> pool \<in> set (getStakingContracts e self k)"
    "rbind (getDefaultPositionRealUnit (the_set e1) k) (\<lambda>d.
     rbind (toUint256 d) (\<lambda>d'.
     rbind (safe_add d' u) (\<lambda>newTokenUnit.
     rbind (on_set (\<lambda>c. editDefaultPosition this c k newTokenUnit) e1) (\<lambda>e2.
     rbind (getExternalPositionRealUnit (the_set e2) k this) (\<lambda>x.
     rbind (toInt256 u) (\<lambda>u.
     rbind (ssub x u) (\<lambda>newExternalTokenUnit.
     on_set (\<lambda>c. editExternalPosition this c k this newExternalTokenUnit []) e2))))))) = Inr e'"
proof -
  let ?less = "staked_less pool u"
  obtain m e1 where m: "safe_sub (getStakingPositionUnit e self k pool) u = Inr m"
    and w: "(if m > 0 then
              Ok (write_stakes self k (\<lambda>x. x\<lparr>staked_at := (staked_at x)
                    (pool := (staked_at x pool)\<lparr>componentPositionUnits := m\<rparr>)\<rparr>) e)
            else
              rbind (remove (getStakingContracts e self k) pool) (\<lambda>ps.
              Ok (write_stakes self k (\<lambda>x. x\<lparr>stakingContracts := ps, staked_at := (staked_at x)(pool := no_stake)\<rparr>) e))) = Inr e1"
    and rest: "rbind (getDefaultPositionRealUnit (the_set e1) k) (\<lambda>d.
     rbind (toUint256 d) (\<lambda>d'.
     rbind (safe_add d' u) (\<lambda>newDefaultTokenUnit.
     rbind (on_set (\<lambda>c. editDefaultPosition this c k newDefaultTokenUnit) e1) (\<lambda>e2.
     rbind (getExternalPositionRealUnit (the_set e2) k this) (\<lambda>x.
     rbind (toInt256 u) (\<lambda>u.
     rbind (ssub x u) (\<lambda>newExternalTokenUnit.
     on_set (\<lambda>c. editExternalPosition this c k this newExternalTokenUnit []) e2))))))) = Inr e'"
    using assms(3) unfolding updateUnstakeState_def rbind_eq_Inr by blast
  have m': "m = getStakingPositionUnit e self k pool - u" "u \<le> getStakingPositionUnit e self k pool"
    using m assms(1,2) by (simp_all add: safe_sub_eq_Inr)
  have e1: "e1 = write_stakes self k ?less e" "m \<le> 0 \<longrightarrow> pool \<in> set (getStakingContracts e self k)"
    using w m'
    by (auto simp: staked_less_def getStakingContracts_def getStakingPositionUnit_def getStakingPosition_def
        remove_eq_Inr rbind_eq_Inr intro!: write_stakes_cong split: if_splits)
  with m' rest that show thesis by simp
qed

lemma updateUnstakeState_Inr:
  assumes "tracking (the_set e)" "positionMultiplier (the_set e) = PRECISE_UNIT_INT" "is_uint256 u"
    "is_uint256 (getStakingPositionUnit e self k pool)" "updateUnstakeState this self pool k u e = Inr e'"
  shows "stakes_of self k e' = staked_less pool u (stakes_of self k e) \<and> u \<le> getStakingPositionUnit e self k pool
    \<and> (getStakingPositionUnit e self k pool \<le> u \<longrightarrow> pool \<in> set (getStakingContracts e self k))
    \<and> (\<forall>j. j \<noteq> k \<longrightarrow> stakes_of self j e' = stakes_of self j e) \<and> the_controller e' = the_controller e
    \<and> snd (outside e') = snd (outside e) \<and> units_moved this k u (- u) (the_set e) (the_set e')"
proof -
  let ?less = "staked_less pool u"
  obtain e1 where e1: "e1 = write_stakes self k ?less e" "getStakingPositionUnit e self k pool \<le> u \<longrightarrow> pool \<in> set (getStakingContracts e self k)"
    and m': "u \<le> getStakingPositionUnit e self k pool"
    and rest: "rbind (getDefaultPositionRealUnit (the_set e1) k) (\<lambda>d.
     rbind (toUint256 d) (\<lambda>d'.
     rbind (safe_add d' u) (\<lambda>newTokenUnit.
     rbind (on_set (\<lambda>c. editDefaultPosition this c k newTokenUnit) e1) (\<lambda>e2.
     rbind (getExternalPositionRealUnit (the_set e2) k this) (\<lambda>x.
     rbind (toInt256 u) (\<lambda>u.
     rbind (ssub x u) (\<lambda>newExternalTokenUnit.
     on_set (\<lambda>c. editExternalPosition this c k this newExternalTokenUnit []) e2))))))) = Inr e'"
    by (rule updateUnstakeState_write [OF assms(3-5)]) blast
  have f: "0 \<le> n \<and> n = d + u" if "is_uint256 d" "safe_add d u = Inr n" for d n using that assms(3) by (simp add: safe_add_eq_Inr is_uint256_def)
  have g: "is_int256 n \<and> n = x + - u" if "ssub x u = Inr n" for x n using that by (simp add: ssub_eq_Inr)
  have "tracking (the_set e1)" "positionMultiplier (the_set e1) = PRECISE_UNIT_INT" using assms(1,2) by (simp_all add: e1(1))
  note P = position_edits_Inr [where f = safe_add and g = ssub and y = "u" and z = "- u", OF this f g rest]
  then have "stakes_of self j e' = stakes_of self j e1" for j by (intro stakes_of_cong) simp
  note same = this
  have E: "stakes_of self k e1 = ?less (stakes_of self k e)" "\<And>j. j \<noteq> k \<Longrightarrow> stakes_of self j e1 = stakes_of self j e"
    "the_controller e1 = the_controller e" "snd (outside e1) = snd (outside e)" "the_set e1 = the_set e" by (simp_all add: e1(1))
  show ?thesis using P E m' e1(2) by (simp add: same)
qed

subsection \<open>The records and the external positions agree\<close>

definition staking_inv :: "address \<Rightarrow> address \<Rightarrow> 'x stake_evm \<Rightarrow> bool" where
  "staking_inv this self e \<longleftrightarrow> tracking (the_set e) \<and> positionMultiplier (the_set e) = PRECISE_UNIT_INT
     \<and> (\<forall>k. stakes_ok (stakes_of self k e) \<and> self \<notin> set (stakingContracts (stakes_of self k e))
       \<and> staked_total (stakes_of self k e) = externalPositionVirtualUnit (the_set e) k this)"

lemma staked_unit_typed:
  assumes "staking_inv this self e"
  shows "is_uint256 (getStakingPositionUnit e self k p)"
proof -
  let ?x = "stakes_of self k e"
  have ok: "stakes_ok ?x" and total: "staked_total ?x \<le> MAX_INT_256"
    using assms position_inv_at [OF tracking_inv, of "the_set e"]
    by (auto simp: staking_inv_def position_inv_def virtual_typed_def tracking_def is_int256_def)
  show ?thesis
  proof (cases "p \<in> set (stakingContracts ?x)")
    case True
    then have "componentPositionUnits (staked_at ?x p) \<le> staked_total ?x"
      unfolding staked_total_def using ok by (intro member_le_sum_list) (auto simp: stakes_ok_def)
    then show ?thesis using ok total by (simp add: stakes_ok_def is_uint256_def getStakingPositionUnit_def getStakingPosition_def)
  next
    case False
    then show ?thesis using ok by (simp add: stakes_ok_def no_stake_def getStakingPositionUnit_def getStakingPosition_def)
  qed
qed

lemma units_moved_inv:
  assumes "staking_inv this self e" "units_moved this k y z (the_set e) (the_set e')"
    "stakes_ok (stakes_of self k e')" "self \<notin> set (stakingContracts (stakes_of self k e'))" "staked_total (stakes_of self k e') = staked_total (stakes_of self k e) + z"
    "\<forall>j. j \<noteq> k \<longrightarrow> stakes_of self j e' = stakes_of self j e"
  shows "staking_inv this self e'"
  unfolding staking_inv_def
proof (intro conjI allI)
  fix j
  show "stakes_ok (stakes_of self j e')" using assms by (cases "j = k") (simp_all add: staking_inv_def)
  show "self \<notin> set (stakingContracts (stakes_of self j e'))" using assms by (cases "j = k") (simp_all add: staking_inv_def)
  show "staked_total (stakes_of self j e') = externalPositionVirtualUnit (the_set e') j this"
    using assms by (cases "j = k") (simp_all add: staking_inv_def units_moved_def)
qed (use assms in \<open>simp_all add: staking_inv_def units_moved_def beside_positions_def\<close>)

text \<open>The part of the invariant that does not depend on the multiplier.\<close>

definition records_ok :: "address \<Rightarrow> 'x stake_evm \<Rightarrow> bool" where
  "records_ok self e \<longleftrightarrow> (\<forall>k. stakes_ok (stakes_of self k e) \<and> self \<notin> set (stakingContracts (stakes_of self k e))
     \<and> (\<forall>p. is_uint256 (getStakingPositionUnit e self k p)))"

lemma staking_inv_records: "staking_inv this self e \<Longrightarrow> records_ok self e"
  by (simp add: records_ok_def staked_unit_typed) (simp add: staking_inv_def)

lemma records_updated:
  assumes "records_ok self e" "stakes_of self k e' = x" "\<forall>j. j \<noteq> k \<longrightarrow> stakes_of self j e' = stakes_of self j e"
    "stakes_ok x" "self \<notin> set (stakingContracts x)" "\<forall>p. is_uint256 (componentPositionUnits (staked_at x p))"
  shows "records_ok self e'"
  unfolding records_ok_def
proof
  fix j
  show "stakes_ok (stakes_of self j e') \<and> self \<notin> set (stakingContracts (stakes_of self j e')) \<and> (\<forall>p. is_uint256 (getStakingPositionUnit e' self j p))"
    using assms by (cases "j = k") (simp_all add: records_ok_def getStakingPositionUnit_def getStakingPosition_def)
qed

context staking_calls
begin

lemma kept_records: "kept e e' \<Longrightarrow> records_ok self e \<Longrightarrow> records_ok self e'"
  by (simp add: records_ok_def kept_D getStakingPositionUnit_def getStakingPosition_def)

lemma kept_inv: "kept e e' \<Longrightarrow> staking_inv this self e \<Longrightarrow> staking_inv this self e'"
  by (simp add: staking_inv_def kept_D)

lemma kept_unit: "kept e e' \<Longrightarrow> getStakingPositionUnit e' s k p = getStakingPositionUnit e s k p"
  by (simp add: getStakingPositionUnit_def getStakingPosition_def kept_D)

lemma stake_Inr:
  assumes "wf e" "staking_inv this self e" "k \<noteq> self" "targets_ok A self" "pool \<noteq> self" "is_uint256 u" "stake F A this x self pool k nm u e = Inr e'"
  shows "wf e' \<and> staking_inv this self e' \<and> units_moved this k (- u) u (the_set e) (the_set e')
    \<and> getStakingPositionUnit e' self k pool = getStakingPositionUnit e self k pool + u"
proof -
  obtain a e1 where 1: "stake_internal F A this self pool k a u (totalSupply (the_set e)) e = Inr e1"
    and 2: "updateStakeState A this self pool k nm u e1 = Inr e'"
    using assms(7) by (auto simp: stake_def rbind_eq_Inr)
  note K = stake_internal_kept [OF assms(1,3,4,5) 1]
  note I = kept_inv [OF K assms(2)]
  have ok: "stakes_ok (stakes_of self k e1)" using I by (simp add: staking_inv_def)
  have U: "stakes_of self k e' = staked_more nm (getNameHash (stk_name_hash A) nm) pool u (stakes_of self k e1)"
    "\<forall>j. j \<noteq> k \<longrightarrow> stakes_of self j e' = stakes_of self j e1" "snd (outside e') = snd (outside e1)"
    "units_moved this k (- u) u (the_set e1) (the_set e')"
    using updateStakeState_Inr [OF _ _ assms(6) staked_unit_typed [OF I] 2] I by (auto simp: staking_inv_def)
  note S = staked_more_ok [OF ok is_uint256_nonneg [OF assms(6)], of nm "getNameHash (stk_name_hash A) nm" pool]
  have "staking_inv this self e'" using units_moved_inv [OF I U(4)] S U(1,2) I assms(5) by (auto simp: staking_inv_def staked_more_def)
  moreover have "wf e'" using own_records [OF U(3)] kept_D(1) [OF K] by simp
  moreover have "getStakingPositionUnit e' self k pool = getStakingPositionUnit e1 self k pool + u"
    using ok by (auto simp: getStakingPositionUnit_def getStakingPosition_def U(1) staked_more_def stakes_ok_def no_stake_def)
  ultimately show ?thesis using U(4) kept_unit [OF K] kept_D(2) [OF K] by simp
qed

lemma unstake_Inr:
  assumes "wf e" "staking_inv this self e" "k \<noteq> self" "targets_ok A self" "pool \<noteq> self" "is_uint256 u" "is_uint256 (totalSupply (the_set e))"
    "unstake F A this x self pool k nm u e = Inr e'"
  shows "wf e' \<and> staking_inv this self e' \<and> units_moved this k u (- u) (the_set e) (the_set e')
    \<and> getStakingPositionUnit e' self k pool = getStakingPositionUnit e self k pool - u
    \<and> bal k self e + totalSupply (the_set e) * u div PRECISE_UNIT \<le> bal k self e'"
proof -
  obtain a e1 where 1: "unstake_internal F A this self pool k a u (totalSupply (the_set e)) e = Inr e1"
    and 2: "updateUnstakeState this self pool k u e1 = Inr e'"
    using assms(8) by (auto simp: unstake_def rbind_eq_Inr)
  note K = unstake_internal_Inr [OF assms(1,3,4,5,7,6) 1]
  note I = kept_inv [OF conjunct1 [OF K] assms(2)]
  have ok: "stakes_ok (stakes_of self k e1)" using I by (simp add: staking_inv_def)
  have U: "stakes_of self k e' = staked_less pool u (stakes_of self k e1)"
    "u \<le> getStakingPositionUnit e1 self k pool" "getStakingPositionUnit e1 self k pool \<le> u \<longrightarrow> pool \<in> set (getStakingContracts e1 self k)"
    "\<forall>j. j \<noteq> k \<longrightarrow> stakes_of self j e' = stakes_of self j e1" "snd (outside e') = snd (outside e1)"
    "units_moved this k u (- u) (the_set e1) (the_set e')"
    using updateUnstakeState_Inr [OF _ _ assms(6) staked_unit_typed [OF I] 2] I by (auto simp: staking_inv_def)
  note S = staked_less_ok [OF ok is_uint256_nonneg [OF assms(6)], of pool]
  have S': "stakes_ok (stakes_of self k e') \<and> staked_total (stakes_of self k e') = staked_total (stakes_of self k e1) - u"
    using S U(2,3) unfolding U(1) getStakingPositionUnit_def getStakingPosition_def getStakingContracts_def by blast
  have "staking_inv this self e'" using units_moved_inv [OF I U(6)] S' U(1,4) I set_remove1_subset [of pool "stakingContracts (stakes_of self k e1)"]
    by (auto simp: staking_inv_def staked_less_def)
  moreover have "wf e'" "bal k self e' = bal k self e1" using own_records [OF U(5)] kept_D(1) [OF conjunct1 [OF K]] by simp_all
  moreover have "getStakingPositionUnit e' self k pool = getStakingPositionUnit e1 self k pool - u"
    using U(2) by (auto simp: getStakingPositionUnit_def getStakingPosition_def U(1) staked_less_def no_stake_def)
  ultimately show ?thesis using U(6) K kept_unit [OF conjunct1 [OF K]] kept_D(2) [OF conjunct1 [OF K]] by simp
qed

text \<open>With any multiplier: stake and unstake keep the records consistent.\<close>

lemma stake_records:
  assumes "wf e" "records_ok self e" "k \<noteq> self" "targets_ok A self" "pool \<noteq> self" "is_uint256 u" "stake F A this x self pool k nm u e = Inr e'"
  shows "wf e' \<and> records_ok self e'"
proof -
  let ?more = "staked_more nm (getNameHash (stk_name_hash A) nm) pool u"
  obtain a e1 where 1: "stake_internal F A this self pool k a u (totalSupply (the_set e)) e = Inr e1"
    and 2: "updateStakeState A this self pool k nm u e1 = Inr e'"
    using assms(7) by (auto simp: stake_def rbind_eq_Inr)
  note K = stake_internal_kept [OF assms(1,3,4,5) 1]
  note I = kept_records [OF K assms(2)]
  have typed: "is_uint256 (getStakingPositionUnit e1 self k p)" for p using I by (simp add: records_ok_def)
  obtain e2 where e2: "e2 = write_stakes self k ?more e1"
    and sum: "pool \<in> set (getStakingContracts e1 self k) \<longrightarrow> is_uint256 (getStakingPositionUnit e1 self k pool + u)"
    and same: "the_controller e' = the_controller e2 \<and> outside e' = outside e2"
    by (rule updateStakeState_write [OF assms(6) typed 2], drule position_edits_outside) blast
  have S: "stakes_of self j e' = stakes_of self j e2" for j using same by (intro stakes_of_cong) simp
  have ok: "stakes_ok (?more (stakes_of self k e1))" "self \<notin> set (stakingContracts (?more (stakes_of self k e1)))"
    using I staked_more_ok [OF _ is_uint256_nonneg [OF assms(6)]] assms(5) by (auto simp: records_ok_def staked_more_def)
  have "\<forall>p. is_uint256 (componentPositionUnits (staked_at (?more (stakes_of self k e1)) p))"
    using typed sum assms(6) by (auto simp: staked_more_def getStakingPositionUnit_def getStakingPosition_def getStakingContracts_def)
  note typed' = this
  have "records_ok self e'" by (rule records_updated [where k = k, OF I _ _ ok typed']) (simp_all add: S e2)
  moreover have "wf e'" using own_records [of e' e1] same kept_D(1) [OF K] by (simp add: e2)
  ultimately show ?thesis by simp
qed

lemma unstake_records:
  assumes "wf e" "records_ok self e" "k \<noteq> self" "targets_ok A self" "pool \<noteq> self" "is_uint256 u" "is_uint256 (totalSupply (the_set e))"
    "unstake F A this x self pool k nm u e = Inr e'"
  shows "wf e' \<and> records_ok self e'"
proof -
  let ?less = "staked_less pool u"
  obtain a e1 where 1: "unstake_internal F A this self pool k a u (totalSupply (the_set e)) e = Inr e1"
    and 2: "updateUnstakeState this self pool k u e1 = Inr e'"
    using assms(8) by (auto simp: unstake_def rbind_eq_Inr)
  note K = conjunct1 [OF unstake_internal_Inr [OF assms(1,3,4,5,7,6) 1]]
  note I = kept_records [OF K assms(2)]
  have typed: "is_uint256 (getStakingPositionUnit e1 self k p)" for p using I by (simp add: records_ok_def)
  obtain e2 where e2: "e2 = write_stakes self k ?less e1" and u: "u \<le> getStakingPositionUnit e1 self k pool"
    "getStakingPositionUnit e1 self k pool \<le> u \<longrightarrow> pool \<in> set (getStakingContracts e1 self k)"
    and same: "the_controller e' = the_controller e2 \<and> outside e' = outside e2"
    by (rule updateUnstakeState_write [OF assms(6) typed 2], drule position_edits_outside) blast
  have S: "stakes_of self j e' = stakes_of self j e2" for j using same by (intro stakes_of_cong) simp
  have ok1: "stakes_ok (stakes_of self k e1)" using I by (simp add: records_ok_def)
  note u' = u [unfolded getStakingPositionUnit_def getStakingPosition_def getStakingContracts_def]
  have ok: "stakes_ok (?less (stakes_of self k e1))" "self \<notin> set (stakingContracts (?less (stakes_of self k e1)))"
    using staked_less_ok [OF ok1 is_uint256_nonneg [OF assms(6)] u'] I set_remove1_subset [of pool "stakingContracts (stakes_of self k e1)"]
    by (auto simp: records_ok_def staked_less_def)
  have "\<forall>p. is_uint256 (componentPositionUnits (staked_at (?less (stakes_of self k e1)) p))"
    using typed assms(6) by (auto simp: staked_less_def getStakingPositionUnit_def getStakingPosition_def no_stake_def intro: is_uint256_diff)
  note typed' = this
  have "records_ok self e'" by (rule records_updated [where k = k, OF I _ _ ok typed']) (simp_all add: S e2)
  moreover have "wf e'" using own_records [of e' e1] same kept_D(1) [OF K] by (simp add: e2)
  ultimately show ?thesis by simp
qed

lemma restake_loop_kept:
  assumes "wf e" "k \<noteq> self" "targets_ok A self" "self \<notin> set ps" "restake_loop F A this self k q ps e = Inr e'"
  shows "kept e e'"
  using assms(1,4,5)
proof (induction ps arbitrary: e)
  case Nil
  then show ?case by (simp add: kept_def)
next
  case (Cons p ps)
  then obtain a u e1 where "stake_internal F A this self p k a u q e = Inr e1" "restake_loop F A this self k q ps e1 = Inr e'"
    by (auto simp: Let_def rbind_eq_Inr)
  then show ?case using stake_internal_kept [OF Cons.prems(1) assms(2,3)] Cons.IH Cons.prems(2) kept_trans kept_D(1)
    by (metis list.set_intros(1,2))
qed

text \<open>The redeem hook brings back, from every contract, the recorded units times the quantity.\<close>

lemma unstake_loop_Inr:
  assumes "wf e" "records_ok self e" "k \<noteq> self" "targets_ok A self" "is_uint256 q" "self \<notin> set ps" "unstake_loop F A this self k q ps e = Inr e'"
  shows "kept e e' \<and> bal k self e + sum_list (map (\<lambda>p. q * getStakingPositionUnit e self k p div PRECISE_UNIT) ps) \<le> bal k self e'"
  using assms(1,2,6,7)
proof (induction ps arbitrary: e)
  case Nil
  then show ?case by (simp add: kept_def)
next
  case (Cons p ps)
  let ?u = "\<lambda>e. getStakingPositionUnit e self k"
  obtain a e1 where 1: "unstake_internal F A this self p k a (?u e p) q e = Inr e1" and 2: "unstake_loop F A this self k q ps e1 = Inr e'"
    using Cons.prems(4) by (auto simp: Let_def rbind_eq_Inr getStakingPositionUnit_def)
  have p: "p \<noteq> self" "self \<notin> set ps" using Cons.prems(3) by auto
  have "is_uint256 (?u e p)" using Cons.prems(2) by (simp add: records_ok_def)
  note K = unstake_internal_Inr [OF Cons.prems(1) assms(3,4) p(1) assms(5) this 1]
  note R = Cons.IH [OF kept_D(1) [OF conjunct1 [OF K]] kept_records [OF conjunct1 [OF K] Cons.prems(2)] p(2) 2]
  show ?case using K R kept_trans kept_unit [OF conjunct1 [OF K]] by auto
qed

end

text \<open>
  The life of the module on one Set: the manager stakes and unstakes, modules call the hooks, anything that leaves the records
  alone happens in between. With \<open>par\<close> the multiplier stays 1 (no streaming fee is accrued and no multiplier edited while the module is in use), the positions of
  the Set stay consistent, and nothing else edits the external units of this module.
\<close>

inductive staking_reachable ::
  "bool \<Rightarrow> 'x stake_foreign \<Rightarrow> 'x stake_adapters \<Rightarrow> ('x stake_evm \<Rightarrow> bool) \<Rightarrow> address \<Rightarrow> address \<Rightarrow> 'x stake_evm \<Rightarrow> bool"
  for par F A wf and this self :: address where
  deployed: "wf e \<Longrightarrow> \<forall>k. stakes_of self k e = \<lparr>stakingContracts = [], staked_at = (\<lambda>_. no_stake)\<rparr> \<Longrightarrow>
    par \<longrightarrow> tracking (the_set e) \<and> positionMultiplier (the_set e) = PRECISE_UNIT_INT \<and> (\<forall>k. externalPositionVirtualUnit (the_set e) k this = 0) \<Longrightarrow>
    staking_reachable par F A wf this self e"
| staked: "staking_reachable par F A wf this self e \<Longrightarrow> k \<noteq> self \<Longrightarrow> pool \<noteq> self \<Longrightarrow> is_uint256 u \<Longrightarrow>
    stake F A this x self pool k nm u e = Inr e' \<Longrightarrow> staking_reachable par F A wf this self e'"
| unstaked: "staking_reachable par F A wf this self e \<Longrightarrow> k \<noteq> self \<Longrightarrow> pool \<noteq> self \<Longrightarrow> is_uint256 u \<Longrightarrow> is_uint256 (totalSupply (the_set e)) \<Longrightarrow>
    unstake F A this x self pool k nm u e = Inr e' \<Longrightarrow> staking_reachable par F A wf this self e'"
| issuing: "staking_reachable par F A wf this self e \<Longrightarrow> k \<noteq> self \<Longrightarrow>
    staking_componentIssueHook F A this x self q k b e = Inr e' \<Longrightarrow> staking_reachable par F A wf this self e'"
| redeeming: "staking_reachable par F A wf this self e \<Longrightarrow> k \<noteq> self \<Longrightarrow> is_uint256 q \<Longrightarrow>
    staking_componentRedeemHook F A this x self q k b e = Inr e' \<Longrightarrow> staking_reachable par F A wf this self e'"
| removed: "staking_reachable par F A wf this self e \<Longrightarrow> staking_removeModule self e = Inr e' \<Longrightarrow> staking_reachable par F A wf this self e'"
| elsewhere: "staking_reachable par F A wf this self e \<Longrightarrow> wf e' \<Longrightarrow> \<forall>k. stakes_of self k e' = stakes_of self k e \<Longrightarrow>
    par \<longrightarrow> tracking (the_set e') \<and> positionMultiplier (the_set e') = PRECISE_UNIT_INT
      \<and> (\<forall>k. externalPositionVirtualUnit (the_set e') k this = externalPositionVirtualUnit (the_set e) k this) \<Longrightarrow>
    staking_reachable par F A wf this self e'"

lemma closed_loop_Inr:
  "closed_loop self ks e = Inr e' \<Longrightarrow> e' = e \<and> (\<forall>k \<in> set ks. getStakingContracts e self k = [])"
  by (induction ks) (auto simp: rbind_eq_Inr require_eq_Inr)

context staking_calls
begin

lemma issue_hook_kept:
  assumes "wf e" "records_ok self e" "k \<noteq> self" "targets_ok A self" "staking_componentIssueHook F A this x self q k b e = Inr e'"
  shows "kept e e' \<and> moduleStates (the_set e) x = INITIALIZED \<and> isModule (the_controller e) x"
proof -
  have "self \<notin> set (getStakingContracts e self k)" using assms(2) by (simp add: records_ok_def getStakingContracts_def)
  moreover have "restake_loop F A this self k q (getStakingContracts e self k) e = Inr e'"
    "moduleStates (the_set e) x = INITIALIZED \<and> isModule (the_controller e) x"
    using assms(5) by (simp_all add: staking_componentIssueHook_def module_validateOnlyModule_def rbind_eq_Inr require_eq_Inr)
  ultimately show ?thesis using restake_loop_kept [OF assms(1,3,4)] by simp
qed

lemma redeem_hook_Inr:
  assumes "wf e" "records_ok self e" "k \<noteq> self" "targets_ok A self" "is_uint256 q"
    "staking_componentRedeemHook F A this x self q k b e = Inr e'"
  shows "kept e e' \<and> moduleStates (the_set e) x = INITIALIZED \<and> isModule (the_controller e) x
    \<and> bal k self e + (\<Sum>p \<leftarrow> getStakingContracts e self k. q * getStakingPositionUnit e self k p div PRECISE_UNIT) \<le> bal k self e'"
proof -
  have "self \<notin> set (getStakingContracts e self k)" using assms(2) by (simp add: records_ok_def getStakingContracts_def)
  moreover have "unstake_loop F A this self k q (getStakingContracts e self k) e = Inr e'"
    "moduleStates (the_set e) x = INITIALIZED \<and> isModule (the_controller e) x"
    using assms(6) by (simp_all add: staking_componentRedeemHook_def module_validateOnlyModule_def rbind_eq_Inr require_eq_Inr)
  ultimately show ?thesis using unstake_loop_Inr [OF assms(1-5)] by simp
qed

lemma staking_reachable_records:
  assumes "staking_reachable par F A wf this self e" "targets_ok A self"
  shows "wf e \<and> records_ok self e"
  using assms(1)
proof (induction rule: staking_reachable.induct)
  case (deployed e)
  then show ?case by (simp add: records_ok_def stakes_ok_def no_stake_def getStakingPositionUnit_def getStakingPosition_def)
next
  case (staked e k pool u x nm e')
  then show ?case using stake_records [OF _ _ staked.hyps(2) assms(2)] by blast
next
  case (unstaked e k pool u x nm e')
  then show ?case using unstake_records [OF _ _ unstaked.hyps(2) assms(2)] by blast
next
  case (issuing e k x q b e')
  then have "kept e e'" using issue_hook_kept [OF _ _ _ assms(2)] by blast
  then show ?case using issuing.IH kept_records kept_D(1) by blast
next
  case (redeeming e k q x b e')
  then have "kept e e'" using redeem_hook_Inr [OF _ _ _ assms(2)] by blast
  then show ?case using redeeming.IH kept_records kept_D(1) by blast
next
  case (removed e e')
  then show ?case using closed_loop_Inr unfolding staking_removeModule_def by blast
next
  case (elsewhere e e')
  then show ?case by (simp add: records_ok_def getStakingPositionUnit_def getStakingPosition_def)
qed

lemma staking_reachable_inv:
  assumes "staking_reachable True F A wf this self e" "targets_ok A self"
  shows "wf e \<and> staking_inv this self e"
proof -
  have "wf e \<and> (par \<longrightarrow> staking_inv this self e)" if "staking_reachable par F A wf this self e" for par
    using that
  proof (induction rule: staking_reachable.induct)
    case (deployed e)
    then show ?case by (simp add: staking_inv_def stakes_ok_def staked_total_def no_stake_def)
  next
    case (staked e k pool u x nm e')
    then have "wf e' \<and> records_ok self e'"
      using staking_reachable_records [OF staking_reachable.staked [OF staked.hyps] assms(2)] by blast
    then show ?case using staked stake_Inr [OF _ _ staked.hyps(2) assms(2)] by blast
  next
    case (unstaked e k pool u x nm e')
    then have "wf e' \<and> records_ok self e'"
      using staking_reachable_records [OF staking_reachable.unstaked [OF unstaked.hyps] assms(2)] by blast
    then show ?case using unstaked unstake_Inr [OF _ _ unstaked.hyps(2) assms(2)] by blast
  next
    case (issuing e k x q b e')
    then have "kept e e'" using issue_hook_kept [OF _ _ _ assms(2)] staking_reachable_records [OF issuing.hyps(1) assms(2)] by blast
    then show ?case using issuing.IH kept_inv kept_D(1) by blast
  next
    case (redeeming e k q x b e')
    then have "kept e e'" using redeem_hook_Inr [OF _ _ _ assms(2)] staking_reachable_records [OF redeeming.hyps(1) assms(2)] by blast
    then show ?case using redeeming.IH kept_inv kept_D(1) by blast
  next
    case (removed e e')
    then show ?case using closed_loop_Inr unfolding staking_removeModule_def by blast
  next
    case (elsewhere e e')
    then show ?case by (simp add: staking_inv_def)
  qed
  then show ?thesis using assms(1) by blast
qed

end

text \<open>
  Once a fee has lowered the multiplier, the external unit has shrunk with it and the records have not: the issue hook
  stakes more than the issuer brought for the external position, and unstaking all that is recorded asks for more
  than is staked. The records cannot be corrected other than by unstaking them.
\<close>

lemma fee_outdates_records:
  assumes "staking_inv this self e" "0 < staked_total (stakes_of self k e)" "0 < m" "m < PRECISE_UNIT_INT"
    "editPositionMultiplier x c m (the_set e) = Inr s" "getExternalPositionRealUnit s k this = Inr r"
  shows "r = staked_total (stakes_of self k e) * m div PRECISE_UNIT_INT \<and> r < staked_total (stakes_of self k e)"
proof -
  let ?v = "externalPositionVirtualUnit (the_set e) k this"
  have v: "staked_total (stakes_of self k e) = ?v" using assms(1) by (simp add: staking_inv_def)
  have s: "s = (the_set e)\<lparr>positionMultiplier := m\<rparr>" using assms(5) by (auto simp: editPositionMultiplier_def rbind_eq_Inr privileged_eq_Inr)
  have t: "is_int256 ?v" "is_int256 m"
    using assms(1,3,4) position_inv_at [OF tracking_inv, of "the_set e"]
    by (auto simp: staking_inv_def position_inv_def virtual_typed_def tracking_def is_int256_def)
  then have "r = ?v * m div PRECISE_UNIT_INT"
    using assms(6) by (simp add: s getExternalPositionRealUnit_def convertVirtualToRealUnit_def externalPositionVirtualUnit_def
        conservativePreciseMul_exact split: if_splits)
  moreover have "?v * m < ?v * PRECISE_UNIT_INT" using assms(2,4) v by (intro mult_strict_left_mono) auto
  then have "?v * m div PRECISE_UNIT_INT < ?v" by (simp add: div_less_iff_int)
  ultimately show ?thesis using v by simp
qed

subsection \<open>The staking contract of the tests\<close>

text \<open>
  \<^verbatim>\<open>src/contracts/mocks/integrations/StakingAdapterMock.sol\<close>, a staking contract and its adapter in one. \<open>this\<close> is its address. The asset is
  passed and returned beside the state of the contract.
\<close>

record staking_mock =
  stakes :: "address \<Rightarrow> int"
  unstakeFee :: int
  stakingAsset :: address

definition smock_constructor :: "address \<Rightarrow> staking_mock" where
  "smock_constructor asset = \<lparr>stakes = (\<lambda>_. 0), unstakeFee = 0, stakingAsset = asset\<rparr>"

definition smock_stake :: "address \<Rightarrow> address \<Rightarrow> int \<Rightarrow> staking_mock \<times> erc20 \<Rightarrow> (staking_mock \<times> erc20) result" where
  "smock_stake this msg_sender amount = (\<lambda>(st, asset).
     rbind (transferFrom this msg_sender this amount asset) (\<lambda>asset1.
     rbind (safe_add (stakes st msg_sender) amount) (\<lambda>n.
     Ok (st\<lparr>stakes := (stakes st)(msg_sender := n)\<rparr>, asset1))))"

definition smock_unstake :: "address \<Rightarrow> address \<Rightarrow> int \<Rightarrow> staking_mock \<times> erc20 \<Rightarrow> (staking_mock \<times> erc20) result" where
  "smock_unstake this msg_sender amount = (\<lambda>(st, asset).
     rbind (safe_sub (stakes st msg_sender) amount) (\<lambda>n.
     rbind (safe_sub PRECISE_UNIT (unstakeFee st)) (\<lambda>f.
     rbind (safe_mul amount f) (\<lambda>p.
     rbind (safe_div p PRECISE_UNIT) (\<lambda>paid.
     rbind (transfer this msg_sender paid asset) (\<lambda>asset1.
     Ok (st\<lparr>stakes := (stakes st)(msg_sender := n)\<rparr>, asset1)))))))"

definition setUnstakeFee :: "int \<Rightarrow> staking_mock \<Rightarrow> staking_mock" where
  "setUnstakeFee fee st = st\<lparr>unstakeFee := fee\<rparr>"

definition smock_selector :: "string \<Rightarrow> bytes" where
  "smock_selector sig = (if sig = ''stake(uint256)'' then [0xa6, 0x94, 0xfc, 0x3a]
     else if sig = ''unstake(uint256)'' then [0x2e, 0x17, 0xde, 0x78] else token_selector sig)"

text \<open>The dispatcher of its two staking functions; neither is payable.\<close>

definition smock_dispatch :: "address \<Rightarrow> address \<Rightarrow> int \<Rightarrow> bytes \<Rightarrow> staking_mock \<times> erc20 \<Rightarrow> (staking_mock \<times> erc20) result" where
  "smock_dispatch this caller value data w =
     (let n = int (be_value (take 32 (drop 4 data))) in
      if value \<noteq> 0 \<or> length data < 36 then Err (Revert [])
      else if take 4 data = smock_selector ''stake(uint256)'' then smock_stake this caller n w
      else if take 4 data = smock_selector ''unstake(uint256)'' then smock_unstake this caller n w
      else Err (Revert []))"

type_synonym smock_world = "(address \<Rightarrow> staking_mock option) \<times> (address \<Rightarrow> erc20)"

definition smock_foreign :: "smock_world foreign" where
  "smock_foreign = (beside ledger_foreign)\<lparr>functionCallWithValue := (\<lambda>caller t v d e.
       case fst (outside e) t of
         None \<Rightarrow> functionCallWithValue (beside ledger_foreign) caller t v d e
       | Some st \<Rightarrow> rbind (smock_dispatch t caller v d (st, snd (outside e) (stakingAsset st))) (\<lambda>(st', asset).
           Ok (e\<lparr>outside := ((fst (outside e))(t \<mapsto> st'), (snd (outside e))(stakingAsset st := asset))\<rparr>, []))),
     selector := smock_selector\<rparr>"

definition smock_adapters :: "integration_registry \<Rightarrow> 'w foreign \<Rightarrow> 'w staking_adapters" where
  "smock_adapters r F = \<lparr>stk_name_hash = length, stk_registry_at = (\<lambda>_ _. Some r),
     getSpenderAddress = (\<lambda>adapter pool e. Ok adapter),
     getStakeCallData = (\<lambda>adapter pool n e. Ok (pool, 0, encodeWithSignature F ''stake(uint256)'' [n])),
     getUnstakeCallData = (\<lambda>adapter pool n e. Ok (pool, 0, encodeWithSignature F ''unstake(uint256)'' [n]))\<rparr>"

lemma smock_targets: "targets_ok (smock_adapters r F) self"
  by (simp add: targets_ok_def smock_adapters_def)

definition smocks_typed :: "(address \<Rightarrow> staking_mock option) \<Rightarrow> bool" where
  "smocks_typed ms \<longleftrightarrow> (\<forall>t st. ms t = Some st \<longrightarrow> is_uint256 (unstakeFee st))"

lemma be_value_typed: "is_uint256 (int (be_value (take 32 bs)))"
proof -
  have "be_value (take 32 bs) < 256 ^ 32"
    by (rule order_less_le_trans [OF be_value_bound]) (rule power_increasing, simp_all)
  then show ?thesis by (simp add: is_uint256_def)
qed

lemma smock_dispatch_typed:
  assumes "is_uint256 (unstakeFee st)" "erc20_typed asset" "smock_dispatch this c v d (st, asset) = Inr (st', asset')"
  shows "erc20_typed asset' \<and> unstakeFee st' = unstakeFee st"
proof -
  define n where "n = int (be_value (take 32 (drop 4 d)))"
  have n: "is_uint256 n" unfolding n_def by (rule be_value_typed)
  have run: "smock_stake this c n (st, asset) = Inr (st', asset') \<or> smock_unstake this c n (st, asset) = Inr (st', asset')"
    using assms(3) by (auto simp: smock_dispatch_def Let_def n_def split: if_splits)
  then show ?thesis
  proof
    assume "smock_stake this c n (st, asset) = Inr (st', asset')"
    then show ?thesis using transferFrom_typed [OF assms(2) n] by (auto simp: smock_stake_def rbind_eq_Inr)
  next
    assume "smock_unstake this c n (st, asset) = Inr (st', asset')"
    then obtain f p where f: "safe_sub PRECISE_UNIT (unstakeFee st) = Inr f" and p: "safe_mul n f = Inr p"
      and t: "transfer this c (p div PRECISE_UNIT) asset = Inr asset'" and st': "unstakeFee st' = unstakeFee st"
      by (auto simp: smock_unstake_def rbind_eq_Inr safe_div_eq_Inr)
    have "is_uint256 PRECISE_UNIT" by (simp add: is_uint256_def)
    then have "is_uint256 f" using f assms(1) by (auto simp: safe_sub_eq_Inr intro: is_uint256_diff)
    then have "is_uint256 p" using p n by (auto simp: safe_mul_eq_Inr intro: is_uint256_mult)
    then have "is_uint256 (p div PRECISE_UNIT)" by (simp add: is_uint256_div)
    then show ?thesis using erc20.move_law [OF assms(2)] t st' by (simp add: transfer_def)
  qed
qed

interpretation smock: quiet_calls smock_foreign self "\<lambda>t a e. ledger_bal t a (bare e)" "\<lambda>e. ledger_wf (bare e) \<and> smocks_typed (fst (outside e))"
  for self
proof
  fix e e' :: "smock_world evm" and t v d ret
  assume *: "ledger_wf (bare e) \<and> smocks_typed (fst (outside e))" "t \<noteq> self" "functionCallWithValue smock_foreign self t v d e = Inr (e', ret)"
  show "(ledger_wf (bare e') \<and> smocks_typed (fst (outside e'))) \<and> the_set e' = the_set e \<and> the_controller e' = the_controller e"
  proof (cases "fst (outside e) t")
    case None
    then show ?thesis
      using *(3) quiet_calls.call_keeps [OF quiet_calls_beside [where P = smocks_typed, OF ledger.calls_quiet] *(1,2)]
      by (simp add: smock_foreign_def)
  next
    case (Some st)
    then obtain st' asset where d: "smock_dispatch t self v d (st, snd (outside e) (stakingAsset st)) = Inr (st', asset)"
      and e': "e' = e\<lparr>outside := ((fst (outside e))(t \<mapsto> st'), (snd (outside e))(stakingAsset st := asset))\<rparr>"
      using *(3) by (auto simp: smock_foreign_def rbind_eq_Inr)
    have "is_uint256 (unstakeFee st)" "erc20_typed (snd (outside e) (stakingAsset st))"
      using *(1) Some by (auto simp: smocks_typed_def ledger_wf_def)
    note T = smock_dispatch_typed [OF this d]
    then show ?thesis using *(1) Some by (auto simp: e' ledger_wf_def smocks_typed_def)
  qed
qed (auto simp: smock_foreign_def beside_def ledger_foreign_def ledger_wf_def balanceOf_def erc20_typed_def smocks_typed_def)

text \<open>Beside the module, the mock is foreign code that leaves the records alone.\<close>

abbreviation smock_ok :: "smock_world stake_evm \<Rightarrow> bool" where
  "smock_ok e \<equiv> (ledger_wf (bare (bare e)) \<and> smocks_typed (fst (outside (bare e)))) \<and> True"

interpretation smock_staking: staking_calls "beside smock_foreign" self "\<lambda>t a e. ledger_bal t a (bare (bare e))" smock_ok
  for self
  by (intro staking_calls.intro quiet_calls_beside [where P = "\<lambda>_. True"] smock.quiet_calls_axioms, unfold_locales)
    (auto simp: beside_def rbind_eq_Inr ledger_wf_def)

subsection \<open>An example\<close>

lemma smock_dispatch_calls:
  assumes "is_uint256 n"
  shows "smock_dispatch this c 0 (encodeWithSignature (beside smock_foreign) ''stake(uint256)'' [n]) w = smock_stake this c n w"
    and "smock_dispatch this c 0 (encodeWithSignature (beside smock_foreign) ''unstake(uint256)'' [n]) w = smock_unstake this c n w"
  using assms is_uint256_nonneg [OF assms]
  by (simp_all add: smock_dispatch_def encodeWithSignature_def beside_def smock_foreign_def smock_selector_def abi_word_value Let_def)

text \<open>The Set of the examples and an empty staking contract at 60, for token 1; then with an approval of 5, and after 5 were staked.\<close>

definition demo_staking_registry :: integration_registry where
  "demo_staking_registry = set_integration 7 (length ''Mock'') 60 (ir_constructor 3 5)"

definition demo_stakers :: "smock_world stake_adapters" where
  "demo_stakers = smock_adapters demo_staking_registry (beside smock_foreign)"

definition staking_world :: "int \<Rightarrow> int \<Rightarrow> smock_world stake_evm" where
  "staking_world allowed n = dress \<lparr>stakingPositions = (\<lambda>_ _. \<lparr>stakingContracts = [], staked_at = (\<lambda>_. no_stake)\<rparr>)\<rparr>
     (dress ((\<lambda>_. None)(60 \<mapsto> (smock_constructor 1)\<lparr>stakes := (\<lambda>_. 0)(20 := n)\<rparr>))
       (market_evm\<lparr>outside := (outside market_evm)(1 := (outside market_evm 1)\<lparr>
          balances := (balances (outside market_evm 1))(20 := 10 ^ 24 - n, 60 := n),
          allowances := (\<lambda>_ _. 0)(20 := (\<lambda>_. 0)(60 := allowed))\<rparr>)\<rparr>))"

lemma staking_world_approve: "invokeApprove (beside smock_foreign) 7 20 1 60 5 (staking_world 0 0) = Inr (staking_world 5 0)"
proof -
  have d: "encodeWithSignature (beside smock_foreign) ''approve(address,uint256)'' = encodeWithSignature ledger_foreign ''approve(address,uint256)''"
    by (rule ext) (simp add: encodeWithSignature_def beside_def smock_foreign_def smock_selector_def ledger_foreign_def)
  have "is_uint256 (int 60)" "is_uint256 5" by (simp_all add: is_uint256_def)
  note disp = dispatch_approve [OF this]
  show ?thesis
    unfolding invokeApprove_def set_invoke_def invoke_def d Let_def
    using disp
    by (simp add: guard_defs smock_foreign_def beside_def ledger_foreign_def staking_world_def market_evm_def held_evm_def demo_set_def demo_controller_def
        update_token_def approve_def erc20_approve_internal_def erc20_constructor_def dress_def bare_def smock_constructor_def fun_eq_iff)
qed

lemma smock_call:
  "fst (snd (outside e)) t = Some st \<Longrightarrow> functionCallWithValue (beside smock_foreign) c t v d e =
     rbind (smock_dispatch t c v d (st, snd (snd (outside e)) (stakingAsset st))) (\<lambda>(st', asset).
     Ok (e\<lparr>outside := (fst (outside e), (fst (snd (outside e)))(t \<mapsto> st'), (snd (snd (outside e)))(stakingAsset st := asset))\<rparr>, []))"
  by (cases "smock_dispatch t c v d (st, snd (snd (outside e)) (stakingAsset st))")
    (auto simp: smock_foreign_def beside_def dress_def bare_def)

lemma staking_world_stake:
  "set_invoke (beside smock_foreign) 7 20 60 0 (encodeWithSignature (beside smock_foreign) ''stake(uint256)'' [5]) (staking_world 5 0)
     = Inr (staking_world 0 5)"
proof -
  define d where "d = encodeWithSignature (beside smock_foreign) ''stake(uint256)'' [5]"
  have "is_uint256 5" by (simp add: is_uint256_def)
  note disp = smock_dispatch_calls(1) [OF this, folded d_def]
  have m: "fst (snd (outside (staking_world 5 0))) 60 = Some (smock_constructor 1)"
    by (simp add: staking_world_def dress_def smock_constructor_def fun_eq_iff)
  show ?thesis
    unfolding set_invoke_def invoke_def d_def [symmetric]
    by (simp add: smock_call [OF m] disp)
      (simp add: guard_defs staking_world_def market_evm_def held_evm_def demo_set_def demo_controller_def
        smock_stake_def transferFrom_def erc20_transfer_internal_def erc20_approve_internal_def erc20_constructor_def dress_def
        smock_constructor_def safe_sub_msg_def safe_add_def wrap_uint256_def Let_def fun_eq_iff)
qed

text \<open>The Set after the stake.\<close>

definition edited_set :: set_token where
  "edited_set = projr (editDefaultPosition 7 (the_controller market_evm) 1 (3 * 10 ^ 18 - 5) (the_set market_evm))"

definition staked_set :: set_token where
  "staked_set = projr (editExternalPosition 7 (the_controller market_evm) 1 7 5 [] edited_set)"

lemma demo_edits:
  "editDefaultPosition 7 (the_controller market_evm) 1 (3 * 10 ^ 18 - 5) (the_set market_evm) = Inr edited_set"
  "editExternalPosition 7 (the_controller market_evm) 1 7 5 [] edited_set = Inr staked_set"
  "getExternalPositionRealUnit edited_set 1 7 = Inr 0"
proof -
  have "is_ok (editDefaultPosition 7 (the_controller market_evm) 1 (3 * 10 ^ 18 - 5) (the_set market_evm))"
    unfolding market_evm_def held_evm_def by code_simp
  then show 1: "editDefaultPosition 7 (the_controller market_evm) 1 (3 * 10 ^ 18 - 5) (the_set market_evm) = Inr edited_set"
    by (auto simp: edited_set_def is_ok_iff)
  have "is_ok (rbind (editDefaultPosition 7 (the_controller market_evm) 1 (3 * 10 ^ 18 - 5) (the_set market_evm))
      (editExternalPosition 7 (the_controller market_evm) 1 7 5 []))"
    unfolding market_evm_def held_evm_def by code_simp
  then show "editExternalPosition 7 (the_controller market_evm) 1 7 5 [] edited_set = Inr staked_set"
    unfolding 1 rbind.simps is_ok_iff staked_set_def by auto
  have "rbind (editDefaultPosition 7 (the_controller market_evm) 1 (3 * 10 ^ 18 - 5) (the_set market_evm)) (\<lambda>s. getExternalPositionRealUnit s 1 7) = Inr 0"
    unfolding market_evm_def held_evm_def by code_simp
  then show "getExternalPositionRealUnit edited_set 1 7 = Inr 0" unfolding 1 rbind.simps .
qed

definition staked_evm :: "smock_world stake_evm" where
  "staked_evm = write_stakes 20 1 (\<lambda>x. x\<lparr>stakingContracts := [60], staked_at := (\<lambda>_. no_stake)(60 := \<lparr>adapterHash = 4, componentPositionUnits = 5\<rparr>)\<rparr>)
     (staking_world 0 5)\<lparr>the_set := staked_set\<rparr>"

lemma staking_world_sel [simp]:
  "the_set (staking_world a n) = the_set market_evm" "the_controller (staking_world a n) = the_controller market_evm"
  "stakes_of self k (staking_world a n) = \<lparr>stakingContracts = [], staked_at = (\<lambda>_. no_stake)\<rparr>"
  by (simp_all add: staking_world_def dress_def stakes_of_def)

lemma demo_update: "updateStakeState demo_stakers 7 20 60 1 ''Mock'' 5 (staking_world 0 5) = Inr staked_evm"
proof -
  have d: "getDefaultPositionRealUnit (the_set market_evm) 1 = Inr (3 * 10 ^ 18)" by code_simp
  have s: "safe_sub (3 * 10 ^ 18) 5 = Inr (3 * 10 ^ 18 - 5)" "toUint256 (3 * 10 ^ 18) = Inr (3 * 10 ^ 18)" "toInt256 5 = Inr 5" "sadd 0 5 = Inr 5" by code_simp+
  have h: "getNameHash (stk_name_hash demo_stakers) ''Mock'' = 4" by (simp add: getNameHash_def demo_stakers_def smock_adapters_def)
  show ?thesis
    unfolding updateStakeState_def hasStakingPosition_def getStakingContracts_def staking_world_sel h contains_iff
    by (simp add: on_set_def d [simplified] s [simplified] demo_edits [simplified] staked_evm_def write_stakes_def stakes_of_def)
      (simp add: staking_world_def dress_def)
qed

lemma demo_stake: "stake (beside smock_foreign) demo_stakers 7 9 20 60 1 ''Mock'' 5 (staking_world 0 0) = Inr staked_evm"
proof -
  have 1: "validateOnlyManagerAndValidSet 7 9 (the_controller market_evm) 20 (the_set market_evm) = Inr ()" by code_simp
  have 2: "hasSufficientDefaultUnits (the_set market_evm) 1 5 = Inr True" by code_simp
  have 3: "getAndValidateAdapter length (\<lambda>_. Some demo_staking_registry) (the_controller market_evm) 7 ''Mock'' = Inr 60" by code_simp
  have 4: "getDefaultTotalNotional (totalSupply (the_set market_evm)) 5 = Inr 5" by code_simp
  have "stake_internal (beside smock_foreign) demo_stakers 7 20 60 1 60 5 (totalSupply (the_set market_evm)) (staking_world 0 0)
      = Inr (staking_world 0 5)"
    unfolding stake_internal_def 4 using staking_world_approve staking_world_stake by (simp add: demo_stakers_def smock_adapters_def)
  moreover have "stk_name_hash demo_stakers = length" "stk_registry_at demo_stakers e = (\<lambda>_. Some demo_staking_registry)" for e
    by (simp_all add: demo_stakers_def smock_adapters_def)
  ultimately show ?thesis unfolding stake_def staking_world_sel 1 2 by (simp add: 3 demo_update [simplified])
qed

text \<open>The world before the stake is one in which the module was just deployed.\<close>

lemma staking_world_ok: "smock_ok (staking_world a n)" if "is_uint256 a" "is_uint256 n" "n \<le> 10 ^ 24"
  using that by (auto simp: staking_world_def market_evm_def ledger_wf_def erc20_typed_def erc20_constructor_def is_uint256_def smocks_typed_def
      smock_constructor_def)

lemma market_tracking: "tracking (the_set market_evm)"
proof -
  have "position_inv (the_set market_evm)" using held_evm_inv by (simp add: market_evm_def set_inv_def)
  moreover have "tracked (the_set market_evm) k" for k
    by (auto simp: tracked_def market_evm_def held_evm_def demo_set_def real_unit_defs getExternalPositionModules_def
        convertVirtualToRealUnit_def conservativePreciseMul_exact is_int256_def)
  ultimately show ?thesis by (simp add: tracking_def)
qed

lemma staking_world_deployed:
  "staking_reachable par (beside smock_foreign) demo_stakers smock_ok 7 20 (staking_world 0 0)"
proof (rule staking_reachable.deployed)
  show "smock_ok (staking_world 0 0)" by (rule staking_world_ok) (simp_all add: is_uint256_def)
qed (simp_all add: market_tracking, simp_all add: market_evm_def held_evm_def demo_set_def externalPositionVirtualUnit_def)

lemma demo_targets: "targets_ok demo_stakers 20"
  unfolding demo_stakers_def by (rule smock_targets)

lemma staked_evm_sel:
  "stakes_of 20 1 staked_evm = \<lparr>stakingContracts = [60], staked_at = (\<lambda>_. no_stake)(60 := \<lparr>adapterHash = 4, componentPositionUnits = 5\<rparr>)\<rparr>"
  "snd (outside staked_evm) = snd (outside (staking_world 0 5))" "the_set staked_evm = staked_set" "the_controller staked_evm = the_controller market_evm"
  by (simp_all add: staked_evm_def write_stakes_def staking_world_def dress_def stakes_of_def)

lemma staked_set_guards: "moduleStates staked_set 7 = INITIALIZED" "isLocked staked_set = False" "isModule (the_controller market_evm) 7"
proof -
  have "beside_positions edited_set staked_set" using external_frame [OF demo_edits(2)] by (simp add: external_only_def)
  then show "moduleStates staked_set 7 = INITIALIZED"
    using editDefaultPosition_frame [OF demo_edits(1)] by (simp add: beside_positions_def market_evm_def held_evm_def demo_set_def)
  have "rbind (editDefaultPosition 7 (the_controller market_evm) 1 (3 * 10 ^ 18 - 5) (the_set market_evm))
      (\<lambda>s. rbind (editExternalPosition 7 (the_controller market_evm) 1 7 5 [] s) (\<lambda>s. Ok (isLocked s))) = Inr False"
    unfolding market_evm_def held_evm_def by code_simp
  then show "isLocked staked_set = False" unfolding demo_edits rbind.simps by simp
qed (simp add: market_evm_def held_evm_def demo_controller_def)

lemma demo_unstake:
  "\<exists>e'. set_invoke (beside smock_foreign) 7 20 60 0 (encodeWithSignature (beside smock_foreign :: smock_world stake_foreign) ''unstake(uint256)'' [5]) staked_evm = Inr e'
     \<and> ledger_bal 1 20 (bare (bare e')) = 10 ^ 24"
proof -
  define d where "d = encodeWithSignature (beside smock_foreign :: smock_world stake_foreign) ''unstake(uint256)'' [5]"
  have disp: "smock_dispatch 60 20 0 d w = smock_unstake 60 20 5 w" for w
    unfolding d_def by (rule smock_dispatch_calls(2)) (simp add: is_uint256_def)
  have m: "fst (snd (outside staked_evm)) 60 = Some ((smock_constructor 1)\<lparr>stakes := (\<lambda>_. 0)(20 := 5)\<rparr>)"
    by (simp add: staked_evm_sel staking_world_def dress_def)
  have self: "staked_evm\<lparr>the_set := staked_set\<rparr> = staked_evm" by (simp add: staked_evm_def)
  show ?thesis
    unfolding set_invoke_def invoke_def d_def [symmetric] staked_evm_sel self smock_call [OF m] disp
    by (simp add: guard_defs staked_set_guards staked_evm_sel staking_world_def market_evm_def held_evm_def erc20_constructor_def smock_unstake_def transfer_def
        erc20_transfer_internal_def smock_constructor_def safe_sub_msg_def safe_sub_def safe_add_def safe_mul_def safe_div_def safe_div_msg_def
        wrap_uint256_def Let_def dress_def demo_controller_def)
qed

lemma demo_redeem:
  "\<exists>e'. staking_componentRedeemHook (beside smock_foreign) demo_stakers 7 7 20 (10 ^ 18) 1 True staked_evm = Inr e'"
proof -
  obtain e' where 1: "set_invoke (beside smock_foreign) 7 20 60 0 (encodeWithSignature (beside smock_foreign :: smock_world stake_foreign) ''unstake(uint256)'' [5]) staked_evm = Inr e'"
    and b: "ledger_bal 1 20 (bare (bare e')) = 10 ^ 24" using demo_unstake by blast
  have 3: "getAndValidateAdapterWithHash (\<lambda>_. Some demo_staking_registry) (the_controller market_evm) 7 4 = Inr 60" by code_simp
  have 4: "getDefaultTotalNotional (10 ^ 18) 5 = Inr 5" "safe_add (10 ^ 24 - 5) 5 = Inr (10 ^ 24)" by code_simp+
  have bal: "balance_of (beside smock_foreign) 1 20 e = Inr (ledger_bal 1 20 (bare (bare e)))" for e :: "smock_world stake_evm"
    by (rule smock_staking.readable [where self = 20]) simp
  have b0: "ledger_bal 1 20 (bare (bare staked_evm)) = 10 ^ 24 - 5" by (simp add: staked_evm_sel staking_world_def dress_def)
  have A: "getUnstakeCallData demo_stakers a p n e = Inr (p, 0, encodeWithSignature (beside smock_foreign :: smock_world stake_foreign) ''unstake(uint256)'' [n])"
    "stk_registry_at demo_stakers e = (\<lambda>_. Some demo_staking_registry)" for a p n and e :: "smock_world stake_evm"
    by (simp_all add: demo_stakers_def smock_adapters_def)
  have "unstake_internal (beside smock_foreign) demo_stakers 7 20 60 1 60 5 (10 ^ 18) staked_evm = Inr e'"
    unfolding unstake_internal_def bal b0 4 A rbind.simps prod.case 1 b by simp
  then show ?thesis
    unfolding staking_componentRedeemHook_def getStakingContracts_def staked_evm_sel
    by (simp add: module_validateOnlyModule_def staked_set_guards getStakingPosition_def staked_evm_sel A 3 del: One_nat_def)
qed

subsection \<open>Properties\<close>

text \<open>While the multiplier is 1, the external unit is the sum of the records.\<close>

lemma stakes_external:
  assumes "staking_calls F self bal ok" "targets_ok A self" "staking_reachable True F A ok this self e"
  shows "externalPositionVirtualUnit (the_set e) k this = (\<Sum>p \<leftarrow> getStakingContracts e self k. getStakingPositionUnit e self k p)"
  using staking_calls.staking_reachable_inv [OF assms(1,3,2)]
  by (simp add: staking_inv_def staked_total_def getStakingContracts_def getStakingPositionUnit_def getStakingPosition_def)

text \<open>
  C15. The records after any sequence of stakes, unstakes and hooks, whatever else happens to the Set: a component's staking contracts are listed once, the Set itself is
  not among them, a contract that is not listed holds nothing, no recorded unit leaves its type, and when the module can be removed, no component has a staking contract left.
  As long as the multiplier of the Set is 1 throughout (\<open>par\<close>), the records and the Set agree: the external unit of the module is the sum of the units at the
  listed contracts, and a module that can be removed has no position in any component. (A streaming fee ends the agreement, see \<open>fee_outdates_records\<close>.)
  Foreign calls leave the Set and the records alone (\<open>staking_calls\<close>), and adapters do not name the Set as a target (\<open>targets_ok\<close>).
\<close>

theorem stakes_agree:
  assumes "staking_calls F self bal ok" "targets_ok A self" "staking_reachable par F A ok this self e"
  shows "distinct (getStakingContracts e self k) \<and> \<not> hasStakingPosition e self k self
    \<and> (\<forall>p. is_uint256 (getStakingPositionUnit e self k p) \<and> (\<not> hasStakingPosition e self k p \<longrightarrow> getStakingPositionUnit e self k p = 0))
    \<and> (par \<longrightarrow> externalPositionVirtualUnit (the_set e) k this = (\<Sum>p \<leftarrow> getStakingContracts e self k. getStakingPositionUnit e self k p))
    \<and> (staking_removeModule self e = Inr e' \<longrightarrow> e' = e \<and> (\<forall>j \<in> set (components (the_set e)). getStakingContracts e self j = []
         \<and> (par \<longrightarrow> externalPositionVirtualUnit (the_set e) j this = 0)))"
proof -
  note I = conjunct2 [OF staking_calls.staking_reachable_records [OF assms(1,3,2)]]
  have closed: "e' = e \<and> (\<forall>j \<in> set (components (the_set e)). getStakingContracts e self j = [])" if "staking_removeModule self e = Inr e'"
    using closed_loop_Inr that unfolding staking_removeModule_def by blast
  have sums: "externalPositionVirtualUnit (the_set e) j this = (\<Sum>p \<leftarrow> getStakingContracts e self j. getStakingPositionUnit e self j p)" if par for j
    using stakes_external [OF assms(1,2), of this e j] assms(3) that by simp
  have "distinct (getStakingContracts e self k) \<and> \<not> hasStakingPosition e self k self
    \<and> (\<forall>p. is_uint256 (getStakingPositionUnit e self k p) \<and> (\<not> hasStakingPosition e self k p \<longrightarrow> getStakingPositionUnit e self k p = 0))"
    using I by (auto simp: records_ok_def stakes_ok_def hasStakingPosition_def getStakingContracts_def getStakingPositionUnit_def getStakingPosition_def no_stake_def)
  with closed sums show ?thesis by auto
qed

theorem stakes_agree_witness:
  "stake (beside smock_foreign) demo_stakers 7 9 20 60 1 ''Mock'' 5 (staking_world 0 0) = Inr staked_evm
   \<and> externalPositionVirtualUnit (the_set staked_evm) 1 7 = (\<Sum>p \<leftarrow> getStakingContracts staked_evm 20 1. getStakingPositionUnit staked_evm 20 1 p)
   \<and> getStakingContracts staked_evm 20 1 = [60]"
proof -
  have "staking_reachable True (beside smock_foreign) demo_stakers smock_ok 7 20 staked_evm"
    by (rule staking_reachable.staked [OF staking_world_deployed _ _ _ demo_stake]) (simp_all add: is_uint256_def)
  from stakes_agree [OF smock_staking.staking_calls_axioms demo_targets this] demo_stake
  show ?thesis by (simp add: getStakingContracts_def staked_evm_sel del: One_nat_def)
qed

text \<open>
  While the multiplier is 1, staking moves units of a component from the default position to the external position of the module and into the record of the contract, unstaking
  moves them back; the supply does not change. After unstaking the Set has the tokens: if the default position was covered
  before, the larger one is covered to less than one base unit, whatever the staking contract did.
\<close>

lemma stake_moves_units:
  assumes "staking_calls F self bal ok" "targets_ok A self" "staking_reachable True F A ok this self e" "k \<noteq> self" "pool \<noteq> self"
    "is_uint256 u" "is_uint256 (totalSupply (the_set e))" "getDefaultPositionRealUnit (the_set e) k = Inr d" "0 \<le> d"
  shows "(stake F A this x self pool k nm u e = Inr e' \<longrightarrow> totalSupply (the_set e') = totalSupply (the_set e)
      \<and> getDefaultPositionRealUnit (the_set e') k = Inr (d - u)
      \<and> externalPositionVirtualUnit (the_set e') k this = externalPositionVirtualUnit (the_set e) k this + u
      \<and> getStakingPositionUnit e' self k pool = getStakingPositionUnit e self k pool + u)
    \<and> (unstake F A this x self pool k nm u e = Inr e' \<longrightarrow> totalSupply (the_set e') = totalSupply (the_set e)
      \<and> getDefaultPositionRealUnit (the_set e') k = Inr (d + u)
      \<and> externalPositionVirtualUnit (the_set e') k this = externalPositionVirtualUnit (the_set e) k this - u
      \<and> getStakingPositionUnit e' self k pool = getStakingPositionUnit e self k pool - u
      \<and> (totalSupply (the_set e) * d \<le> bal k self e * PRECISE_UNIT \<longrightarrow>
           totalSupply (the_set e') * (d + u) < (bal k self e' + 1) * PRECISE_UNIT))"
proof -
  note R = staking_calls.staking_reachable_inv [OF assms(1,3,2)]
  have dv: "defaultPositionVirtualUnit (the_set e) k = d"
    using R unit_multiplier_read(1) [OF tracking_inv _ assms(8)] by (simp add: staking_inv_def)
  have cover: "n * (d + u) < (b' + 1) * PRECISE_UNIT"
    if "n * d \<le> b * PRECISE_UNIT" "b + n * u div PRECISE_UNIT \<le> b'" for n b b' :: int
  proof -
    have "n * u < (n * u div PRECISE_UNIT + 1) * PRECISE_UNIT" by (rule less_div_mult_int) simp
    then show ?thesis using that by (simp add: distrib_left)
  qed
  show ?thesis
    using staking_calls.stake_Inr [OF assms(1) conjunct1 [OF R] conjunct2 [OF R] assms(4,2,5,6)]
      staking_calls.unstake_Inr [OF assms(1) conjunct1 [OF R] conjunct2 [OF R] assms(4,2,5,6,7)] cover
    by (fastforce simp: units_moved_def beside_positions_def dv)
qed

lemma stake_moves_units_example:
  "stake (beside smock_foreign) demo_stakers 7 9 20 60 1 ''Mock'' 5 (staking_world 0 0) = Inr staked_evm
   \<and> getDefaultPositionRealUnit (the_set staked_evm) 1 = Inr (3 * 10 ^ 18 - 5) \<and> externalPositionVirtualUnit (the_set staked_evm) 1 7 = 5"
proof -
  have d: "getDefaultPositionRealUnit (the_set (staking_world 0 0)) 1 = Inr (3 * 10 ^ 18)" unfolding staking_world_sel by code_simp
  have t: "is_uint256 5" "is_uint256 (totalSupply (the_set (staking_world 0 0)))"
    by (simp_all add: is_uint256_def market_evm_def held_evm_def)
  have x: "externalPositionVirtualUnit (the_set (staking_world 0 0)) 1 7 = 0"
    by (simp add: externalPositionVirtualUnit_def market_evm_def held_evm_def demo_set_def)
  from stake_moves_units [OF smock_staking.staking_calls_axioms demo_targets staking_world_deployed _ _ t d, of 60 9 "''Mock''" staked_evm] x
  show ?thesis using demo_stake by simp
qed

text \<open>
  C17. The redeem hook, which only a module of the Set can call, leaves the records and the Set alone and brings back, from every staking contract, what the units recorded there
  are worth for the redeemed quantity, rounded down: together with any multiplier at least the recorded units times the quantity less one base unit per staking contract
  (strictly more, if there is a contract). As long as the multiplier is 1 throughout (\<open>par\<close>), these units are the external position of the module.
  The component is not the Set itself; foreign code is that of \<open>staking_calls\<close> and \<open>targets_ok\<close>.
\<close>

theorem redeem_hook_returns:
  assumes "staking_calls F self bal ok" "targets_ok A self" "staking_reachable par F A ok this self e" "k \<noteq> self" "is_uint256 q"
    "staking_componentRedeemHook F A this x self q k b e = Inr e'"
  shows "moduleStates (the_set e) x = INITIALIZED \<and> the_set e' = the_set e \<and> getStakingPositionUnit e' self k p = getStakingPositionUnit e self k p
    \<and> (\<Sum>p \<leftarrow> getStakingContracts e self k. q * getStakingPositionUnit e self k p div PRECISE_UNIT) \<le> bal k self e' - bal k self e
    \<and> (getStakingContracts e self k \<noteq> [] \<longrightarrow> q * (\<Sum>p \<leftarrow> getStakingContracts e self k. getStakingPositionUnit e self k p)
        < (bal k self e' - bal k self e + int (length (getStakingContracts e self k))) * PRECISE_UNIT)
    \<and> (par \<longrightarrow> externalPositionVirtualUnit (the_set e) k this = (\<Sum>p \<leftarrow> getStakingContracts e self k. getStakingPositionUnit e self k p))"
proof -
  note R = staking_calls.staking_reachable_records [OF assms(1,3,2)]
  note H = staking_calls.redeem_hook_Inr [OF assms(1) conjunct1 [OF R] conjunct2 [OF R] assms(4,2,5,6)]
  let ?u = "getStakingPositionUnit e self k" and ?ps = "getStakingContracts e self k"
  have "ps \<noteq> [] \<Longrightarrow> q * (\<Sum>p \<leftarrow> ps. ?u p) < ((\<Sum>p \<leftarrow> ps. q * ?u p div PRECISE_UNIT) + int (length ps)) * PRECISE_UNIT" for ps
  proof (induction ps)
    case (Cons p ps)
    have "q * ?u p < (q * ?u p div PRECISE_UNIT + 1) * PRECISE_UNIT" by (rule less_div_mult_int) simp
    then show ?case using Cons.IH by (cases "ps = []") (simp_all add: distrib_left distrib_right)
  qed simp
  from this [of ?ps] have lt: "?ps \<noteq> [] \<longrightarrow> q * (\<Sum>p \<leftarrow> ?ps. ?u p) < (bal k self e' - bal k self e + int (length ?ps)) * PRECISE_UNIT"
    using H by fastforce
  have "par \<longrightarrow> externalPositionVirtualUnit (the_set e) k this = (\<Sum>p \<leftarrow> ?ps. ?u p)"
    using stakes_external [OF assms(1,2), of this e k] assms(3) by (cases par) simp_all
  then show ?thesis using H lt staking_calls.kept_unit [OF assms(1)] staking_calls.kept_D(2) [OF assms(1)] by (auto simp: algebra_simps)
qed

theorem redeem_hook_returns_witness:
  "\<exists>e'. staking_componentRedeemHook (beside smock_foreign) demo_stakers 7 7 20 (10 ^ 18) 1 True staked_evm = Inr e'
     \<and> ledger_bal 1 20 (bare (bare staked_evm)) + 5 \<le> ledger_bal 1 20 (bare (bare e'))"
proof -
  obtain e' where run: "staking_componentRedeemHook (beside smock_foreign) demo_stakers 7 7 20 (10 ^ 18) 1 True staked_evm = Inr e'"
    using demo_redeem ..
  have r: "staking_reachable True (beside smock_foreign) demo_stakers smock_ok 7 20 staked_evm"
    by (rule staking_reachable.staked [OF staking_world_deployed _ _ _ demo_stake]) (simp_all add: is_uint256_def)
  have "is_uint256 (10 ^ 18)" by (simp add: is_uint256_def)
  from redeem_hook_returns [OF smock_staking.staking_calls_axioms demo_targets r _ this run, of 60]
  have "5 \<le> ledger_bal 1 20 (bare (bare e')) - ledger_bal 1 20 (bare (bare staked_evm))"
    by (simp add: getStakingContracts_def getStakingPositionUnit_def getStakingPosition_def staked_evm_sel del: One_nat_def)
  then show ?thesis using run by auto
qed

end
