(* ===== verification/SyncingHooks.thy ===== *)
theory SyncingHooks
  imports DebtIssuanceModule TradeModule
begin

section \<open>Hooks that bring a Set's positions up to date\<close>

text \<open>
  Modules register hooks with the issuance modules to bring the positions of a Set up to date before units are read: interest has accrued, a
  position has matured, tokens were exchanged. The locale \<open>syncing_hooks\<close> says what such a hook does, step by step, and nothing about collateral: tokens
  arrive; or the balance of one component changes in any way and its default position is then written by the code of this repository, either
  \<open>calculateAndEditDefaultPosition\<close> of the library or the balance divided by the supply, as the leverage modules do. That these steps keep a Set
  collateralized is proved here, from the rounding of that code, and gives the interface \<open>issuance_hooks\<close> (\<open>sublocale\<close>).

  An instance is \<open>sync\<close> of \<^verbatim>\<open>src/contracts/protocol/modules/v1/AaveLeverageModule.sol\<close>, the hook of that module, modelled here with both its
  loops, for Sets for which no asset is enabled to be borrowed. The rest of that module is not modelled.
\<close>

subsection \<open>The sync of the leverage module\<close>

record EnabledAssets =
  collateralAssets :: "address list"
  borrowAssets :: "address list"

record ReserveTokens_sol =
  aToken :: address
  variableDebtToken :: address

text \<open>The part of the module's storage that \<open>sync\<close> reads, as it is in the code.\<close>

record leverage_module =
  underlyingToReserveTokens :: "address \<Rightarrow> ReserveTokens_sol"
  enabledAssets :: "address \<Rightarrow> EnabledAssets"

definition getCollateralPosition :: "'w foreign \<Rightarrow> address \<Rightarrow> address \<Rightarrow> int \<Rightarrow> 'w evm \<Rightarrow> int result" where
  "getCollateralPosition F self k supply e =
     rbind (balance_of F k self e) (\<lambda>collateralNotionalBalance. preciseDiv_uint collateralNotionalBalance supply)"

definition getBorrowPosition :: "'w foreign \<Rightarrow> leverage_module \<Rightarrow> address \<Rightarrow> address \<Rightarrow> int \<Rightarrow> 'w evm \<Rightarrow> int result" where
  "getBorrowPosition F L self borrowAsset supply e =
     rbind (balance_of F (variableDebtToken (underlyingToReserveTokens L borrowAsset)) self e) (\<lambda>borrowNotionalBalance.
     rbind (preciseDivCeil_uint borrowNotionalBalance supply) (\<lambda>u.
     rbind (toInt256 u) (\<lambda>n. smul n (-1))))"

definition updateCollateralPosition :: "address \<Rightarrow> address \<Rightarrow> int \<Rightarrow> 'w evm \<Rightarrow> ('w evm) result" where
  "updateCollateralPosition this k newPositionUnit = on_set (\<lambda>c. editDefaultPosition this c k newPositionUnit)"

definition updateBorrowPosition :: "address \<Rightarrow> address \<Rightarrow> int \<Rightarrow> 'w evm \<Rightarrow> ('w evm) result" where
  "updateBorrowPosition this k newPositionUnit = on_set (\<lambda>c. editExternalPosition this c k this newPositionUnit [])"

fun collateral_loop :: "'w foreign \<Rightarrow> leverage_module \<Rightarrow> address \<Rightarrow> address \<Rightarrow> int \<Rightarrow> address list \<Rightarrow> 'w evm \<Rightarrow> ('w evm) result" where
  "collateral_loop F L this self supply [] e = Ok e"
| "collateral_loop F L this self supply (asset # assets) e =
     rbind (getDefaultPositionRealUnit (the_set e) (aToken (underlyingToReserveTokens L asset))) (\<lambda>u.
     rbind (toUint256 u) (\<lambda>previousPositionUnit.
     rbind (getCollateralPosition F self (aToken (underlyingToReserveTokens L asset)) supply e) (\<lambda>newPositionUnit.
     rbind (if previousPositionUnit \<noteq> newPositionUnit then updateCollateralPosition this (aToken (underlyingToReserveTokens L asset)) newPositionUnit e else Ok e)
       (collateral_loop F L this self supply assets))))"

fun borrow_loop :: "'w foreign \<Rightarrow> leverage_module \<Rightarrow> address \<Rightarrow> address \<Rightarrow> int \<Rightarrow> address list \<Rightarrow> 'w evm \<Rightarrow> ('w evm) result" where
  "borrow_loop F L this self supply [] e = Ok e"
| "borrow_loop F L this self supply (asset # assets) e =
     rbind (getExternalPositionRealUnit (the_set e) asset this) (\<lambda>previousPositionUnit.
     rbind (getBorrowPosition F L self asset supply e) (\<lambda>newPositionUnit.
     rbind (if newPositionUnit \<noteq> previousPositionUnit then updateBorrowPosition this asset newPositionUnit e else Ok e)
       (borrow_loop F L this self supply assets)))"

text \<open>The reentrancy guard is left out: \<open>sync\<close> only reads balances and calls the Set.\<close>

definition leverage_sync :: "'w foreign \<Rightarrow> leverage_module \<Rightarrow> address \<Rightarrow> address \<Rightarrow> 'w evm \<Rightarrow> ('w evm) result" where
  "leverage_sync F L this self e =
     rbind (validateOnlyValidAndInitializedSet this (the_controller e) self (the_set e)) (\<lambda>_.
     let supply = totalSupply (the_set e) in
     if supply > 0 then
       rbind (collateral_loop F L this self supply (collateralAssets (enabledAssets L self)) e)
         (borrow_loop F L this self supply (borrowAssets (enabledAssets L self)))
     else Ok e)"

definition leverage_hook :: "'w foreign \<Rightarrow> leverage_module \<Rightarrow> address \<Rightarrow> address \<Rightarrow> address \<Rightarrow> 'w evm \<Rightarrow> ('w evm) result" where
  "leverage_hook F L msg_sender this self e =
     rbind (module_validateOnlyModule msg_sender (the_controller e) (the_set e)) (\<lambda>_. leverage_sync F L this self e)"

text \<open>Its hooks, called by the issuance module at \<open>caller\<close>; the hooks for single components, which lend and borrow, are those of \<open>H\<close>.\<close>

definition leverage_hooks :: "'w foreign \<Rightarrow> leverage_module \<Rightarrow> address \<Rightarrow> 'w module_hooks \<Rightarrow> 'w module_hooks" where
  "leverage_hooks F L caller H = H\<lparr>moduleIssueHook := (\<lambda>this self n. leverage_hook F L caller this self),
     moduleRedeemHook := (\<lambda>this self n. leverage_hook F L caller this self)\<rparr>"

subsection \<open>The steps of a hook\<close>

definition position_synced :: "'w foreign \<Rightarrow> address \<Rightarrow> address \<Rightarrow> address \<Rightarrow> 'w evm \<Rightarrow> 'w evm \<Rightarrow> bool" where
  "position_synced F this self k e e' \<longleftrightarrow>
     (\<exists>prev cur. is_uint256 prev \<and> edit_from_balance F this self k (totalSupply (the_set e)) prev e = Inr (cur, e'))
     \<or> (\<exists>n. getCollateralPosition F self k (totalSupply (the_set e)) e = Inr n \<and> updateCollateralPosition this k n e = Inr e')"

inductive hook_run ::
  "'w foreign \<Rightarrow> address \<Rightarrow> (address \<Rightarrow> address \<Rightarrow> 'w evm \<Rightarrow> int) \<Rightarrow> ('w evm \<Rightarrow> bool) \<Rightarrow> 'w evm \<Rightarrow> 'w evm \<Rightarrow> bool"
  for F self bal ok and e :: "'w evm" where
  start: "hook_run F self bal ok e e"
| arrive: "hook_run F self bal ok e e1 \<Longrightarrow> ok e2 \<Longrightarrow> the_set e2 = the_set e1 \<Longrightarrow> the_controller e2 = the_controller e1 \<Longrightarrow>
    \<forall>j \<in> set (components (the_set e1)). bal j self e1 \<le> bal j self e2 \<Longrightarrow> hook_run F self bal ok e e2"
| sync: "hook_run F self bal ok e e1 \<Longrightarrow> ok e2 \<Longrightarrow> the_set e2 = the_set e1 \<Longrightarrow> the_controller e2 = the_controller e1 \<Longrightarrow> k \<noteq> self \<Longrightarrow>
    \<forall>j \<in> set (components (the_set e1)). j \<noteq> k \<longrightarrow> bal j self e1 \<le> bal j self e2 \<Longrightarrow>
    position_synced F this self k e2 e3 \<Longrightarrow> hook_run F self bal ok e e3"

lemma hook_run_trans:
  assumes "hook_run F self bal ok e1 e2" "hook_run F self bal ok e e1"
  shows "hook_run F self bal ok e e2"
  using assms by (induction rule: hook_run.induct) (auto intro: hook_run.intros)

subsection \<open>They keep the Set collateralized\<close>

lemma recomputed_bound:
  assumes "position_inv s" "is_uint256 b" "is_uint256 supply" "is_uint256 prev"
    "calculateAndEditDefaultPosition this c k b supply prev s = Inr (s', cur, p, n)"
  shows "editDefaultPosition this c k n s = Inr s' \<and> 0 \<le> n \<and> supply * n \<le> b * PRECISE_UNIT"
proof -
  have p: "getDefaultPositionRealUnit s k = Inr p" "0 \<le> p"
    and n: "(if b > 0 then calculateDefaultEditPositionUnit supply prev b p else Ok 0) = Inr n"
    and e: "editDefaultPosition this c k n s = Inr s'"
    using assms(5) by (auto simp: calculateAndEditDefaultPosition_def rbind_eq_Inr toUint256_eq_Inr)
  have typed: "is_uint256 p" using p real_unit_typed [OF assms(1) p(1)] by (simp add: is_int256_def is_uint256_def)
  show ?thesis
  proof (cases "0 < b")
    case True
    let ?t = "p * supply div PRECISE_UNIT"
    have C: "0 < supply" "0 \<le> n" "?t \<le> prev" "n = (b - (prev - ?t)) * PRECISE_UNIT div supply"
      using calculateDefaultEditPositionUnit_Inr [OF assms(3,4,2) typed] n True by auto
    have "n * supply \<le> (b - (prev - ?t)) * PRECISE_UNIT" using div_mult_le_int [OF C(1)] C(4) by simp
    also have "\<dots> \<le> b * PRECISE_UNIT" using C(3) by (intro mult_right_mono) simp_all
    finally show ?thesis using C(2) e by (simp add: mult.commute)
  next
    case False
    then show ?thesis using n e assms(2) by (auto simp: is_uint256_def)
  qed
qed

text \<open>An edit of a default position keeps a plain Set plain, and what is read is at most what was written.\<close>

lemma edit_default_plain:
  assumes "plain_set self s" "k \<noteq> self" "0 \<le> n" "editDefaultPosition this c k n s = Inr s'"
  shows "plain_set self s' \<and> set (components s') \<subseteq> insert k (set (components s)) \<and> totalSupply s' = totalSupply s
    \<and> (\<forall>u. getDefaultPositionRealUnit s' k = Inr u \<longrightarrow> u \<le> n)
    \<and> (\<forall>j. j \<noteq> k \<longrightarrow> getDefaultPositionRealUnit s' j = getDefaultPositionRealUnit s j)"
proof -
  note P = plain_set_D [OF assms(1)]
  obtain s1 where s1: "s1 = s \<or> addComponent this c k s = Inr s1 \<and> getExternalPositionModules s k = [] \<or> removeComponent this c k s = Inr s1"
    and e: "editDefaultPositionUnit this c k n s1 = Inr s'" and n: "is_int256 n"
    using assms(3,4) by (auto simp: editDefaultPosition_def rbind_eq_Inr toInt256_eq_Inr hasExternalPosition_def is_int256_def split: if_splits)
  have inv1: "set_inv s1"
    using s1 P(1) set_inv_exec [OF P(1), of "AddComponent k" this c s1] set_inv_exec [OF P(1), of "RemoveComponent k" this c s1] by auto
  have frame1: "componentPositions s1 = componentPositions s \<and> set (components s1) \<subseteq> set (components s) \<union> (if getExternalPositionModules s k = [] then {k} else {})"
    using s1 components_frame(1) [of this c k s s1] components_frame(2) [OF P(3), of this c k s1] by auto
  have "set_inv s'" using set_inv_exec [OF inv1, of "EditDefaultPositionUnit k n" this c s'] n e by simp
  moreover have "units_ok s1" using inv1 by (simp add: set_inv_def position_inv_def)
  note read = written_unit_le [OF this n e]
  note fr = positions_frame(1) [OF e]
  have ext: "getExternalPositionModules s' j = getExternalPositionModules s j" for j
    using fr frame1 by (simp add: getExternalPositionModules_def)
  have sub: "set (components s') \<subseteq> set (components s) \<union> (if getExternalPositionModules s k = [] then {k} else {})" using fr frame1 by simp
  have "self \<notin> set (components s')" using sub P(4) assms(2) by (auto split: if_splits)
  moreover have "\<forall>j \<in> set (components s'). getExternalPositionModules s' j = []" using sub P(5) ext by (auto split: if_splits)
  moreover have "getDefaultPositionRealUnit s' j = getDefaultPositionRealUnit s j" if "j \<noteq> k" for j
    using editDefaultPosition_frame [OF assms(4)] that by (intro real_unit_cong) simp_all
  ultimately show ?thesis using read sub editDefaultPosition_frame [OF assms(4)] by (auto simp: plain_set_def split: if_splits)
qed

context component_tokens
begin

text \<open>The written unit is covered by the balance it was computed from.\<close>

lemma position_synced_Inr:
  assumes "wf e" "plain_set self (the_set e)" "k \<noteq> self" "position_synced F this self k e e'"
  obtains n where "editDefaultPosition this (the_controller e) k n (the_set e) = Inr (the_set e')" "0 \<le> n"
    "totalSupply (the_set e) * n \<le> bal k self e * PRECISE_UNIT" "the_controller e' = the_controller e" "outside e' = outside e"
proof -
  have inv: "position_inv (the_set e)" by (rule plain_set_D(2) [OF assms(2)])
  have S: "is_uint256 (totalSupply (the_set e))"
    using plain_set_D(1) [OF assms(2)] by (simp add: set_inv_def ledger_inv_def erc20_typed_def)
  note b = bal_typed [OF assms(1), of k self]
  from assms(4) show thesis unfolding position_synced_def
  proof (elim disjE exE conjE)
    fix prev cur assume prev: "is_uint256 prev" and run: "edit_from_balance F this self k (totalSupply (the_set e)) prev e = Inr (cur, e')"
    then obtain s p n where r: "calculateAndEditDefaultPosition this (the_controller e) k (bal k self e) (totalSupply (the_set e)) prev (the_set e)
        = Inr (s, cur, p, n)" and e': "e' = e\<lparr>the_set := s\<rparr>"
      using assms(3) by (auto simp: edit_from_balance_def rbind_eq_Inr readable)
    show thesis using recomputed_bound [OF inv b S prev r] that [of n] by (simp add: e')
  next
    fix n assume n: "getCollateralPosition F self k (totalSupply (the_set e)) e = Inr n" and w: "updateCollateralPosition this k n e = Inr e'"
    have "preciseDiv_uint (bal k self e) (totalSupply (the_set e)) = Inr n" using n assms(3) by (simp add: getCollateralPosition_def readable)
    then have n': "n = bal k self e * PRECISE_UNIT div totalSupply (the_set e)" "0 < totalSupply (the_set e)"
      using b S by (auto simp: preciseDiv_uint_eq_Inr is_uint256_def)
    have "n * totalSupply (the_set e) \<le> bal k self e * PRECISE_UNIT" unfolding n'(1) by (rule div_mult_le_int [OF n'(2)])
    moreover have "0 \<le> n" using n' b by (simp add: pos_imp_zdiv_nonneg_iff is_uint256_def)
    ultimately show thesis using w that by (auto simp: updateCollateralPosition_def on_set_def rbind_eq_Inr mult.commute)
  qed
qed

lemma collateralized_iff:
  assumes "self \<notin> set (components (the_set e))"
  shows "collateralized F self e \<longleftrightarrow> (\<forall>k \<in> set (components (the_set e)). \<forall>u. getDefaultPositionRealUnit (the_set e) k = Inr u \<longrightarrow>
    totalSupply (the_set e) * u \<le> bal k self e * PRECISE_UNIT)"
proof -
  have "balance_of F k self e = Inr (bal k self e)" if "k \<in> set (components (the_set e))" for k using assms that readable by metis
  then show ?thesis by (auto simp: collateralized_def)
qed

text \<open>Every step of a hook, and so every run, keeps the Set plain and collateralized.\<close>

lemma hook_run_keeps:
  assumes "hook_run F self bal wf e e'" "wf e" "plain_set self (the_set e)"
  shows "wf e' \<and> plain_set self (the_set e') \<and> the_controller e' = the_controller e \<and> totalSupply (the_set e') = totalSupply (the_set e)
    \<and> (collateralized F self e \<longrightarrow> collateralized F self e')"
  using assms
proof (induction rule: hook_run.induct)
  case (arrive e1 e2)
  then have p: "plain_set self (the_set e1)" "the_set e2 = the_set e1" by simp_all
  have "collateralized F self e2" if "collateralized F self e1"
  proof -
    have "totalSupply (the_set e1) * u \<le> bal j self e2 * PRECISE_UNIT"
      if "j \<in> set (components (the_set e1))" "totalSupply (the_set e1) * u \<le> bal j self e1 * PRECISE_UNIT" for j u
      using that arrive.hyps(5) by fastforce
    then show ?thesis using that collateralized_iff [of e1] collateralized_iff [of e2] plain_set_D(4) [OF p(1)] p(2) by auto
  qed
  then show ?case using arrive p by simp
next
  case (sync e1 e2 k this e3)
  then have p: "wf e2" "plain_set self (the_set e2)" and c: "collateralized F self e \<longrightarrow> collateralized F self e1" by simp_all
  let ?S = "totalSupply (the_set e2)"
  obtain n where n: "editDefaultPosition this (the_controller e2) k n (the_set e2) = Inr (the_set e3)" "0 \<le> n"
    "?S * n \<le> bal k self e2 * PRECISE_UNIT" "the_controller e3 = the_controller e2" "outside e3 = outside e2"
    by (rule position_synced_Inr [OF p sync.hyps(5,7)])
  note E = edit_default_plain [OF p(2) sync.hyps(5) n(2,1)]
  have bal: "bal j self e3 = bal j self e2" "wf e3" for j using own_state [OF n(5)] p(1) by simp_all
  have S: "0 \<le> ?S" using plain_set_D(1) [OF p(2)] by (simp add: set_inv_def ledger_inv_def erc20_typed_def is_uint256_def)
  have "collateralized F self e3" if "collateralized F self e1"
  proof -
    have "?S * u \<le> bal j self e2 * PRECISE_UNIT" if j: "j \<in> set (components (the_set e3))" "getDefaultPositionRealUnit (the_set e3) j = Inr u" for j u
    proof (cases "j = k")
      case True
      then have "?S * u \<le> ?S * n" using E j S by (intro mult_left_mono) auto
      then show ?thesis using n(3) True by simp
    next
      case False
      then have "j \<in> set (components (the_set e1))" "getDefaultPositionRealUnit (the_set e1) j = Inr u"
        using E j sync.hyps(3) by auto
      then have "?S * u \<le> bal j self e1 * PRECISE_UNIT" "bal j self e1 \<le> bal j self e2"
        using \<open>collateralized F self e1\<close> collateralized_iff [of e1] plain_set_D(4) [OF p(2)] sync.hyps(3,6) False by auto
      then show ?thesis by (simp add: order_trans)
    qed
    then show ?thesis using collateralized_iff [of e3] plain_set_D(4) [of self "the_set e3"] E bal by auto
  qed
  then show ?case using E bal n(4) sync c by simp
qed simp

end

text \<open>The interface: hooks are runs of such steps.\<close>

locale syncing_hooks = component_tokens F self bal wf
  for F :: "'x debt_foreign" and self :: address and bal :: "address \<Rightarrow> address \<Rightarrow> 'x debt_evm \<Rightarrow> int" and wf :: "'x debt_evm \<Rightarrow> bool" +
  fixes H :: "'x debt_hooks"
  assumes fees_in_range: "wf e \<Longrightarrow> is_uint256 (managerIssueFee (settings_of self e)) \<and> is_uint256 (managerRedeemFee (settings_of self e))"
    and issue_hook_syncs: "wf e \<Longrightarrow> plain_set self (the_set e) \<Longrightarrow> moduleIssueHook H m self q e = Inr e' \<Longrightarrow> hook_run F self bal wf e e'"
    and redeem_hook_syncs: "wf e \<Longrightarrow> plain_set self (the_set e) \<Longrightarrow> moduleRedeemHook H m self q e = Inr e' \<Longrightarrow> hook_run F self bal wf e e'"

sublocale syncing_hooks \<subseteq> issuance_hooks F self bal wf H
proof
  show "is_uint256 (managerIssueFee (settings_of self e)) \<and> is_uint256 (managerRedeemFee (settings_of self e))" if "wf e" for e
    using that by (rule fees_in_range)
  show "wf e' \<and> plain_set self (the_set e') \<and> the_controller e' = the_controller e \<and> totalSupply (the_set e') = totalSupply (the_set e)
      \<and> (collateralized F self e \<longrightarrow> collateralized F self e')"
    if "wf e" "plain_set self (the_set e)" "moduleIssueHook H m self q e = Inr e'" for e m q e'
    using hook_run_keeps [OF issue_hook_syncs [OF that] that(1,2)] .
  show "wf e' \<and> plain_set self (the_set e') \<and> the_controller e' = the_controller e \<and> totalSupply (the_set e') = totalSupply (the_set e)
      \<and> (collateralized F self e \<longrightarrow> collateralized F self e')"
    if "wf e" "plain_set self (the_set e)" "moduleRedeemHook H m self q e = Inr e'" for e m q e'
    using hook_run_keeps [OF redeem_hook_syncs [OF that] that(1,2)] .
qed

context syncing_hooks
begin

lemma gives_issuance_hooks: "issuance_hooks F self bal wf H"
  by unfold_locales

end

subsection \<open>Instances\<close>

lemma collateral_loop_run:
  assumes "component_tokens F self bal ok" "\<forall>a \<in> set assets. aToken (underlyingToReserveTokens L a) \<noteq> self" "ok e" "n = totalSupply (the_set e)"
    "collateral_loop F L this self n assets e = Inr e'"
  shows "hook_run F self bal ok e e' \<and> ok e'"
  using assms(2-5)
proof (induction assets arbitrary: e)
  case Nil
  then show ?case by (auto intro: hook_run.start)
next
  case (Cons a as)
  let ?k = "aToken (underlyingToReserveTokens L a)"
  obtain u m e1 where m: "getCollateralPosition F self ?k n e = Inr m"
    and e1: "(if u \<noteq> m then updateCollateralPosition this ?k m e else Ok e) = Inr e1" and rest: "collateral_loop F L this self n as e1 = Inr e'"
    using Cons.prems(4) by (auto simp: rbind_eq_Inr)
  have "hook_run F self bal ok e e1 \<and> ok e1 \<and> totalSupply (the_set e1) = n"
  proof (cases "u = m")
    case True
    then show ?thesis using e1 Cons.prems(2,3) by (auto intro: hook_run.start)
  next
    case False
    then have w: "updateCollateralPosition this ?k m e = Inr e1" using e1 by simp
    then have "position_synced F this self ?k e e1" using m Cons.prems(3) by (auto simp: position_synced_def)
    moreover have "?k \<noteq> self" using Cons.prems(1) by simp
    ultimately have "hook_run F self bal ok e e1" using Cons.prems(2) by (intro hook_run.sync [OF hook_run.start]) auto
    moreover obtain s where s: "editDefaultPosition this (the_controller e) ?k m (the_set e) = Inr s" "e1 = e\<lparr>the_set := s\<rparr>"
      using w by (auto simp: updateCollateralPosition_def on_set_def rbind_eq_Inr)
    ultimately show ?thesis
      using editDefaultPosition_frame [OF s(1)] component_tokens.own_state [OF assms(1), of e1 e] Cons.prems(2,3) by simp
  qed
  then show ?case using Cons.IH [OF _ _ _ rest] Cons.prems(1) hook_run_trans by (metis list.set_intros(2))
qed

lemma leverage_hook_run:
  assumes "component_tokens F self bal ok" "borrowAssets (enabledAssets L self) = []" "\<forall>a \<in> set (collateralAssets (enabledAssets L self)). aToken (underlyingToReserveTokens L a) \<noteq> self" "ok e"
    "leverage_hook F L x this self e = Inr e'"
  shows "hook_run F self bal ok e e'"
  using assms(5) collateral_loop_run [OF assms(1,3,4) refl]
  by (auto simp: leverage_hook_def leverage_sync_def assms(2) Let_def rbind_eq_Inr intro: hook_run.start split: if_splits)

text \<open>The sync of the leverage module satisfies the interface, with any tokens that satisfy theirs.\<close>

lemma leverage_hooks_sync:
  assumes "component_tokens F self bal ok" "borrowAssets (enabledAssets L self) = []" "\<forall>a \<in> set (collateralAssets (enabledAssets L self)). aToken (underlyingToReserveTokens L a) \<noteq> self"
    "\<And>e. ok e \<Longrightarrow> is_uint256 (managerIssueFee (settings_of self e)) \<and> is_uint256 (managerRedeemFee (settings_of self e))"
  shows "syncing_hooks F self bal ok (leverage_hooks F L caller H)"
proof (intro syncing_hooks.intro syncing_hooks_axioms.intro)
  show "hook_run F self bal ok e e'"
    if "ok e" "plain_set self (the_set e)" "moduleIssueHook (leverage_hooks F L caller H) m self q e = Inr e'" for e e' m q
    using leverage_hook_run [OF assms(1-3) that(1)] that(3) by (simp add: leverage_hooks_def)
  show "hook_run F self bal ok e e'"
    if "ok e" "plain_set self (the_set e)" "moduleRedeemHook (leverage_hooks F L caller H) m self q e = Inr e'" for e e' m q
    using leverage_hook_run [OF assms(1-3) that(1)] that(3) by (simp add: leverage_hooks_def)
qed (use assms in auto)

text \<open>The token 1 of the examples is what the module holds as collateral for the asset 61.\<close>

definition demo_assets :: leverage_module where
  "demo_assets = \<lparr>underlyingToReserveTokens = (\<lambda>_. \<lparr>aToken = 0, variableDebtToken = 0\<rparr>)(61 := \<lparr>aToken = 1, variableDebtToken = 0\<rparr>),
     enabledAssets = (\<lambda>_. \<lparr>collateralAssets = [], borrowAssets = []\<rparr>)(20 := \<lparr>collateralAssets = [61], borrowAssets = []\<rparr>)\<rparr>"

abbreviation demo_leverage :: "(address \<Rightarrow> erc20) debt_hooks" where
  "demo_leverage \<equiv> leverage_hooks (beside ledger_foreign) demo_assets 7 (mock_hooks (beside ledger_foreign))"

interpretation leverage_ledger: syncing_hooks "beside ledger_foreign" 20 "\<lambda>t a e. ledger_bal t a (bare e)"
    "\<lambda>e. ledger_wf (bare e) \<and> fees_typed (fst (outside e))" demo_leverage
  by (rule leverage_hooks_sync [OF debt_ledger.component_tokens_axioms]) (auto simp: demo_assets_def fees_typed_def settings_of_def)

interpretation mock_ledger: syncing_hooks "beside ledger_foreign" self "\<lambda>t a e. ledger_bal t a (bare e)"
    "\<lambda>e. ledger_wf (bare e) \<and> fees_typed (fst (outside e))" "mock_hooks (beside ledger_foreign)"
  for self
  by (intro syncing_hooks.intro debt_ledger.component_tokens_axioms, unfold_locales)
    (auto simp: mock_hooks_def fees_typed_def settings_of_def intro: hook_run.start)

subsection \<open>Properties\<close>

text \<open>
  C3. With fees for the manager and the protocol, issuing and redeeming keep a Set of default positions (no component has an external position)
  collateralized: afterwards every Set token, those minted as fees included, is backed in every component. The registered modules may run hooks that change balances and
  positions in any sequence of the steps of \<open>hook_run\<close>: tokens arrive, or one component moves and its unit is recomputed from the balance by the code of
  the library or of the leverage module. Nothing is assumed of the hooks about collateral. Tokens and the hook of the manager are those of \<open>component_tokens\<close>: they change no other balances at the Set
  and not its state, and the hook takes nothing.
\<close>

theorem debt_issuance_keeps_collateral:
  assumes "syncing_hooks F self bal ok H" "ok e" "plain_set self (the_set e)" "is_uint256 q"
    "is_uint256 (getModuleFee (the_controller e) this 0)" "collateralized F self e"
  shows "(debt_issue F H this x self q y e = Inr e' \<longrightarrow> collateralized F self e')
    \<and> (debt_redeem F H this x self q y e = Inr e' \<longrightarrow> collateralized F self e')"
  using issuance_hooks.debt_issue_collateral [OF syncing_hooks.gives_issuance_hooks [OF assms(1)] assms(2-6)]
    issuance_hooks.debt_redeem_collateral [OF syncing_hooks.gives_issuance_hooks [OF assms(1)] assms(2-6)] by blast

text \<open>The example Set with one token outstanding and interest accrued: it holds 4 of token 1 and its position says 3. Module 8 is the leverage module.\<close>

definition leveraged_evm :: "(address \<Rightarrow> erc20) debt_evm" where
  "leveraged_evm = dress \<lparr>issuanceSettings = (\<lambda>_. demo_debt_settings\<lparr>moduleIssuanceHooks := [8], isModuleHook := (\<lambda>a. a = 8)\<rparr>)\<rparr>
     (demo_evm\<lparr>the_set := demo_set\<lparr>balances := (\<lambda>_. 0)(30 := 10 ^ 18), totalSupply := 10 ^ 18, modules := [7, 8],
          moduleStates := (\<lambda>_. NONE)(7 := INITIALIZED, 8 := INITIALIZED)\<rparr>,
        outside := (\<lambda>_. demo_token)(1 := demo_token\<lparr>balances := (\<lambda>_. 0)(30 := 10 ^ 24 - 4 * 10 ^ 18, 20 := 4 * 10 ^ 18)\<rparr>,
          2 := demo_token\<lparr>balances := (\<lambda>_. 0)(30 := 10 ^ 24 - 5 * 10 ^ 17, 20 := 5 * 10 ^ 17)\<rparr>)\<rparr>)"

lemma leveraged_evm_ok:
  "ledger_wf (bare leveraged_evm) \<and> fees_typed (fst (outside leveraged_evm))" "plain_set 20 (the_set leveraged_evm)" "is_uint256 (10 ^ 18)"
  "is_uint256 (getModuleFee (the_controller leveraged_evm) 7 0)" "collateralized (beside ledger_foreign) 20 leveraged_evm"
proof -
  show "ledger_wf (bare leveraged_evm) \<and> fees_typed (fst (outside leveraged_evm))"
    by (auto simp: leveraged_evm_def fees_typed_def demo_debt_settings_def is_uint256_def ledger_wf_def erc20_typed_def demo_token_def erc20_constructor_def
        demo_evm_def)
  have "set_inv (demo_set\<lparr>balances := (\<lambda>_. 0)(30 := 10 ^ 18), totalSupply := 10 ^ 18\<rparr>)" using held_evm_inv by (simp add: held_evm_def)
  then have "set_inv (the_set leveraged_evm)"
    by (auto simp: leveraged_evm_def demo_evm_def set_inv_def module_inv_def position_inv_def virtual_typed_def units_ok_def ledger_inv_def erc20_typed_def
        demo_set_def getExternalPositionModules_def defaultPositionVirtualUnit_def externalPositionVirtualUnit_def)
  then show "plain_set 20 (the_set leveraged_evm)"
    by (auto simp: leveraged_evm_def plain_set_def demo_evm_def demo_set_def getExternalPositionModules_def)
  show "collateralized (beside ledger_foreign) 20 leveraged_evm"
    by (auto simp: leveraged_evm_def collateralized_def beside_def ledger_foreign_def balanceOf_def demo_evm_def demo_set_def real_unit_defs
        convertVirtualToRealUnit_def conservativePreciseMul_exact is_int256_def demo_token_def erc20_constructor_def dress_def)
qed (simp_all add: is_uint256_def leveraged_evm_def demo_evm_def getModuleFee_def demo_controller_def controller_constructor_def)

lemma leveraged_issue:
  "\<exists>e'. debt_issue (beside ledger_foreign) demo_leverage 7 30 20 (10 ^ 18) 40 leveraged_evm = Inr e'
     \<and> getDefaultPositionRealUnit (the_set e') 1 = Inr (4 * 10 ^ 18)"
proof -
  let ?r = "debt_issue (beside ledger_foreign) demo_leverage 7 30 20 (10 ^ 18) 40 leveraged_evm"
  have "case ?r of Inl err \<Rightarrow> False | Inr e' \<Rightarrow> getDefaultPositionRealUnit (the_set e') 1 = Inr (4 * 10 ^ 18)"
    unfolding leveraged_evm_def demo_evm_def demo_token_def demo_set_def demo_controller_def by code_simp
  then show ?thesis by (cases ?r) simp_all
qed

theorem debt_issuance_keeps_collateral_witness:
  "\<exists>e'. debt_issue (beside ledger_foreign) demo_leverage 7 30 20 (10 ^ 18) 40 leveraged_evm = Inr e'
     \<and> getDefaultPositionRealUnit (the_set leveraged_evm) 1 = Inr (3 * 10 ^ 18) \<and> getDefaultPositionRealUnit (the_set e') 1 = Inr (4 * 10 ^ 18)
     \<and> collateralized (beside ledger_foreign) 20 e'"
proof -
  have "getDefaultPositionRealUnit (the_set leveraged_evm) 1 = Inr (3 * 10 ^ 18)"
    by (simp add: leveraged_evm_def demo_evm_def demo_set_def real_unit_defs convertVirtualToRealUnit_def conservativePreciseMul_exact is_int256_def)
  then show ?thesis
    using leveraged_issue debt_issuance_keeps_collateral [OF leverage_ledger.syncing_hooks_axioms leveraged_evm_ok, of 30 40] by blast
qed

end
