(* ===== verification/SlippageIssuanceModule.thy ===== *)
theory SlippageIssuanceModule
  imports SyncingHooks
begin

section \<open>The SlippageIssuanceModule: issuance with limits\<close>

text \<open>
  \<^verbatim>\<open>src/contracts/protocol/modules/v1/SlippageIssuanceModule.sol\<close>, a \<open>DebtIssuanceModule\<close> for Sets whose replication needs
  trades: the issuer bounds what is taken for components, the redeemer what is paid out. Settings, hooks, quantities and the
  resolution of positions and fees are those of the theory \<open>DebtIssuanceModule\<close>; \<open>issue\<close> and \<open>redeem\<close> are disabled. The two
  functions that forecast the amounts off chain ask the registered modules for adjustments, a record of functions
  (\<open>IModuleIssuanceHookV2\<close>) that may change state.

  The theorems: limits hold, relative to the balances after the hooks, and a Set of default positions stays collateralized when its hooks are those of
  the theory \<open>SyncingHooks\<close>; with empty limits and no hooks
  the functions do what \<open>issue\<close> and \<open>redeem\<close> of \<open>DebtIssuanceModule\<close> do; without hooks the forecast is the
  amount that issuance requires.
\<close>

record 'w adjustment_hooks =
  getIssuanceAdjustments :: "address \<Rightarrow> address \<Rightarrow> int \<Rightarrow> 'w evm \<Rightarrow> ((int list \<times> int list) \<times> 'w evm) result"
  getRedemptionAdjustments :: "address \<Rightarrow> address \<Rightarrow> int \<Rightarrow> 'w evm \<Rightarrow> ((int list \<times> int list) \<times> 'w evm) result"

subsection \<open>Limits\<close>

fun limits_loop :: "address list \<Rightarrow> int list \<Rightarrow> nat \<Rightarrow> address list \<Rightarrow> int list \<Rightarrow> bool \<Rightarrow> unit result" where
  "limits_loop [] limits i ks amounts isIssue = Ok ()"
| "limits_loop (c # cs) limits i ks amounts isIssue =
     (let (componentIndex, isIn) = indexOf ks c in
      rbind (require isIn ''Limit passed for invalid component'') (\<lambda>_.
      rbind (array_get limits i) (\<lambda>limit.
      rbind (array_get amounts (nat componentIndex)) (\<lambda>amount.
      rbind (if isIssue then require (limit \<ge> amount) ''Too many tokens required for issuance''
             else require (limit \<le> amount) ''Too few tokens returned for redemption'') (\<lambda>_.
      limits_loop cs limits (Suc i) ks amounts isIssue)))))"

definition validateTokenTransferLimits :: "address list \<Rightarrow> int list \<Rightarrow> address list \<Rightarrow> int list \<Rightarrow> bool \<Rightarrow> unit result" where
  "validateTokenTransferLimits checkedComponents tokenTransferLimits ks tokenTransferAmounts isIssue =
     limits_loop checkedComponents tokenTransferLimits 0 ks tokenTransferAmounts isIssue"

definition slippage_validateInputs :: "int \<Rightarrow> address list \<Rightarrow> int list \<Rightarrow> unit result" where
  "slippage_validateInputs setQuantity cs limits =
     rbind (require (setQuantity > 0) ''SetToken quantity must be > 0'') (\<lambda>_.
     rbind (require (length cs = length limits) ''Array length mismatch'') (\<lambda>_.
     if length cs > 0 then rbind (hasDuplicate cs) (\<lambda>dup. require (\<not> dup) ''Cannot duplicate addresses'')
     else Ok ()))"

subsection \<open>Issuing and redeeming\<close>

definition slippage_issue :: "address \<Rightarrow> int \<Rightarrow> address \<Rightarrow> 'w evm \<Rightarrow> ('w evm) result" where
  "slippage_issue self quantity to_account e = Err (Revert ''Call issueWithSlippage instead'')"

definition slippage_redeem :: "address \<Rightarrow> int \<Rightarrow> address \<Rightarrow> 'w evm \<Rightarrow> ('w evm) result" where
  "slippage_redeem self quantity to_account e = Err (Revert ''Call redeemWithSlippage instead'')"

definition issueWithSlippage ::
  "'x debt_foreign \<Rightarrow> 'x debt_hooks \<Rightarrow> address \<Rightarrow> address \<Rightarrow> address \<Rightarrow> int \<Rightarrow> address list \<Rightarrow> int list \<Rightarrow> address \<Rightarrow>
   'x debt_evm \<Rightarrow> ('x debt_evm) result" where
  "issueWithSlippage F H this msg_sender self setQuantity checkedComponents maxTokenAmountsIn to_account = nonReentrant (\<lambda>e.
     rbind (validateOnlyValidAndInitializedSet this (the_controller e) self (the_set e)) (\<lambda>_.
     rbind (slippage_validateInputs setQuantity checkedComponents maxTokenAmountsIn) (\<lambda>_.
     rbind (callManagerPreIssueHooks F self setQuantity msg_sender to_account e) (\<lambda>(hookContract, e1).
     rbind (calculateTotalFees this self setQuantity True e1) (\<lambda>(quantityWithFees, managerFee, protocolFee).
     rbind (callModulePreIssueHooks H self quantityWithFees e1) (\<lambda>e2.
     rbind (calculateRequiredComponentIssuanceUnits (the_set e2) quantityWithFees True) (\<lambda>(ks, equityUnits, debtUnits).
     rbind (validateTokenTransferLimits checkedComponents maxTokenAmountsIn ks equityUnits True) (\<lambda>_.
     rbind (resolveEquityPositions F H this msg_sender self quantityWithFees to_account True ks equityUnits e2) (\<lambda>e3.
     rbind (resolveDebtPositions F H this msg_sender self quantityWithFees True ks debtUnits e3) (\<lambda>e4.
     rbind (resolveFees this self managerFee protocolFee e4)
       (on_set (\<lambda>c. set_mint this c to_account setQuantity))))))))))))"

definition redeemWithSlippage ::
  "'x debt_foreign \<Rightarrow> 'x debt_hooks \<Rightarrow> address \<Rightarrow> address \<Rightarrow> address \<Rightarrow> int \<Rightarrow> address list \<Rightarrow> int list \<Rightarrow> address \<Rightarrow>
   'x debt_evm \<Rightarrow> ('x debt_evm) result" where
  "redeemWithSlippage F H this msg_sender self setQuantity checkedComponents minTokenAmountsOut to_account = nonReentrant (\<lambda>e.
     rbind (validateOnlyValidAndInitializedSet this (the_controller e) self (the_set e)) (\<lambda>_.
     rbind (slippage_validateInputs setQuantity checkedComponents minTokenAmountsOut) (\<lambda>_.
     rbind (calculateTotalFees this self setQuantity False e) (\<lambda>(quantityNetFees, managerFee, protocolFee).
     rbind (callModulePreRedeemHooks H self quantityNetFees e) (\<lambda>e1.
     rbind (on_set (\<lambda>c. set_burn this c msg_sender setQuantity) e1) (\<lambda>e2.
     rbind (calculateRequiredComponentIssuanceUnits (the_set e2) quantityNetFees False) (\<lambda>(ks, equityUnits, debtUnits).
     rbind (validateTokenTransferLimits checkedComponents minTokenAmountsOut ks equityUnits False) (\<lambda>_.
     rbind (resolveDebtPositions F H this msg_sender self quantityNetFees False ks debtUnits e2) (\<lambda>e3.
     rbind (resolveEquityPositions F H this msg_sender self quantityNetFees to_account False ks equityUnits e3)
       (resolveFees this self managerFee protocolFee))))))))))"

subsection \<open>The amounts forecast off chain\<close>

text \<open>One module's adjustments, added to the sums so far, component by component.\<close>

fun add_adjustments :: "int list \<Rightarrow> int list \<Rightarrow> nat \<Rightarrow> int list \<Rightarrow> int list \<Rightarrow> (int list \<times> int list) result" where
  "add_adjustments equityAdjustments debtAdjustments j (c # cs) (d # ds) =
     rbind (array_get equityAdjustments j) (\<lambda>x.
     rbind (sadd c x) (\<lambda>c'.
     rbind (array_get debtAdjustments j) (\<lambda>y.
     rbind (sadd d y) (\<lambda>d'.
     rbind (add_adjustments equityAdjustments debtAdjustments (Suc j) cs ds) (\<lambda>(cs', ds').
     Ok (c' # cs', d' # ds'))))))"
| "add_adjustments equityAdjustments debtAdjustments j _ _ = Ok ([], [])"

fun adjustments_loop ::
  "'w adjustment_hooks \<Rightarrow> address \<Rightarrow> int \<Rightarrow> bool \<Rightarrow> address list \<Rightarrow> int list \<Rightarrow> int list \<Rightarrow> 'w evm \<Rightarrow> ((int list \<times> int list) \<times> 'w evm) result" where
  "adjustments_loop H2 self quantity isIssue [] cs ds e = Ok ((cs, ds), e)"
| "adjustments_loop H2 self quantity isIssue (m # ms) cs ds e =
     rbind (if isIssue then getIssuanceAdjustments H2 m self quantity e else getRedemptionAdjustments H2 m self quantity e) (\<lambda>((x, y), e1).
     rbind (add_adjustments x y 0 cs ds) (\<lambda>(cs', ds').
     adjustments_loop H2 self quantity isIssue ms cs' ds' e1))"

definition calculateAdjustments ::
  "(debt_module \<times> 'x) adjustment_hooks \<Rightarrow> address \<Rightarrow> int \<Rightarrow> bool \<Rightarrow> 'x debt_evm \<Rightarrow> ((int list \<times> int list) \<times> 'x debt_evm) result" where
  "calculateAdjustments H2 self quantity isIssue e =
     (let componentsLength = length (components (the_set e)) in
      adjustments_loop H2 self quantity isIssue (moduleIssuanceHooks (settings_of self e))
        (replicate componentsLength 0) (replicate componentsLength 0) e)"

fun adjusted_loop :: "int \<Rightarrow> bool \<Rightarrow> int list \<Rightarrow> int list \<Rightarrow> nat \<Rightarrow> int list \<Rightarrow> int list \<Rightarrow> (int list \<times> int list) result" where
  "adjusted_loop quantity isIssue equityAdjustments debtAdjustments i (eq # eqs) (db # dbs) =
     rbind (toInt256 eq) (\<lambda>x.
     rbind (array_get equityAdjustments i) (\<lambda>a.
     rbind (sadd x a) (\<lambda>y.
     rbind (toUint256 y) (\<lambda>adjustedEquityUnits.
     rbind (if isIssue then preciseMulCeil_uint adjustedEquityUnits quantity else preciseMul_uint adjustedEquityUnits quantity) (\<lambda>totalEquity.
     rbind (toInt256 db) (\<lambda>z.
     rbind (array_get debtAdjustments i) (\<lambda>b.
     rbind (ssub z b) (\<lambda>w.
     rbind (toUint256 w) (\<lambda>adjustedDebtUnits.
     rbind (if isIssue then preciseMul_uint adjustedDebtUnits quantity else preciseMulCeil_uint adjustedDebtUnits quantity) (\<lambda>totalDebt.
     rbind (adjusted_loop quantity isIssue equityAdjustments debtAdjustments (Suc i) eqs dbs) (\<lambda>(es, ds).
     Ok (totalEquity # es, totalDebt # ds))))))))))))"
| "adjusted_loop quantity isIssue equityAdjustments debtAdjustments i _ _ = Ok ([], [])"

definition calculateAdjustedComponentIssuanceUnits ::
  "set_token \<Rightarrow> int \<Rightarrow> bool \<Rightarrow> int list \<Rightarrow> int list \<Rightarrow> (address list \<times> int list \<times> int list) result" where
  "calculateAdjustedComponentIssuanceUnits s quantity isIssue equityAdjustments debtAdjustments =
     rbind (getTotalIssuanceUnits s) (\<lambda>(ks, equityUnits, debtUnits).
     rbind (adjusted_loop quantity isIssue equityAdjustments debtAdjustments 0 equityUnits debtUnits) (\<lambda>(es, ds).
     Ok (ks, es, ds)))"

definition getRequiredComponentIssuanceUnitsOffChain ::
  "(debt_module \<times> 'x) adjustment_hooks \<Rightarrow> address \<Rightarrow> address \<Rightarrow> int \<Rightarrow> 'x debt_evm \<Rightarrow> ((address list \<times> int list \<times> int list) \<times> 'x debt_evm) result" where
  "getRequiredComponentIssuanceUnitsOffChain H2 this self quantity e =
     rbind (calculateTotalFees this self quantity True e) (\<lambda>(totalQuantity, _, _).
     rbind (calculateAdjustments H2 self totalQuantity True e) (\<lambda>((equityAdjustments, debtAdjustments), e1).
     rbind (calculateAdjustedComponentIssuanceUnits (the_set e1) totalQuantity True equityAdjustments debtAdjustments) (\<lambda>r.
     Ok (r, e1))))"

definition getRequiredComponentRedemptionUnitsOffChain ::
  "(debt_module \<times> 'x) adjustment_hooks \<Rightarrow> address \<Rightarrow> address \<Rightarrow> int \<Rightarrow> 'x debt_evm \<Rightarrow> ((address list \<times> int list \<times> int list) \<times> 'x debt_evm) result" where
  "getRequiredComponentRedemptionUnitsOffChain H2 this self quantity e =
     rbind (calculateTotalFees this self quantity False e) (\<lambda>(totalQuantity, _, _).
     rbind (calculateAdjustments H2 self totalQuantity False e) (\<lambda>((equityAdjustments, debtAdjustments), e1).
     rbind (calculateAdjustedComponentIssuanceUnits (the_set e1) totalQuantity False equityAdjustments debtAdjustments) (\<lambda>r.
     Ok (r, e1))))"

subsection \<open>What the limits check\<close>

lemma limits_loop_Inr:
  "limits_loop cs limits i ks amounts b = Inr u \<Longrightarrow> j < length cs \<Longrightarrow>
   \<exists>n < length ks. ks ! n = cs ! j \<and> n < length amounts \<and> i + j < length limits
     \<and> (if b then amounts ! n \<le> limits ! (i + j) else limits ! (i + j) \<le> amounts ! n)"
proof (induction cs arbitrary: i j)
  case (Cons c cs)
  obtain x isIn where ix: "indexOf ks c = (x, isIn)" by (cases "indexOf ks c")
  have step: "isIn" "i < length limits" "nat x < length amounts" "if b then amounts ! nat x \<le> limits ! i else limits ! i \<le> amounts ! nat x"
    and rest: "limits_loop cs limits (Suc i) ks amounts b = Inr u"
    using Cons.prems(1) by (auto simp: ix rbind_eq_Inr require_eq_Inr array_get_eq_Inr split: if_splits)
  show ?case
  proof (cases j)
    case 0
    have in_ks: "c \<in> set ks" using ix step(1) contains_iff [of ks c] by (simp add: contains_def del: contains_iff)
    then have "indexOf ks c = (int (length (takeWhile (\<lambda>y. y \<noteq> c) ks)), True)" by (simp add: indexOf_def indexOf_from_spec)
    then have "nat x < length ks" "ks ! nat x = c" using ix in_ks by (auto simp: takeWhile_neq_less nth_takeWhile_neq)
    then show ?thesis using step 0 by auto
  next
    case (Suc j')
    then show ?thesis using Cons.IH [OF rest, of j'] Cons.prems(2) by (cases b) simp_all
  qed
qed simp

subsection \<open>Limits and collateral\<close>

context issuance_hooks
begin

text \<open>
  The steps of an issuance: fees in the state \<open>e1\<close> after the manager's hook, quantities in the state \<open>e2\<close> after the
  hooks of the modules.
\<close>

lemma slippage_issue_Inr:
  assumes "wf e" "plain_set self (the_set e)" "is_uint256 q" "is_uint256 (getModuleFee (the_controller e) this 0)"
    "issueWithSlippage F H this x self q cs ls y e = Inr e'"
  obtains h e1 e2 n mf pf b where "callManagerPreIssueHooks F self q x y (e\<lparr>module_entered := True\<rparr>) = Inr (h, e1)"
    "calculateTotalFees this self q True e1 = Inr (n, mf, pf)" "callModulePreIssueHooks H self n e1 = Inr e2"
    "prepared e e2" "issue_managerHook (settings_of self e) = address_zero \<longrightarrow>
      moduleIssuanceHooks (settings_of self e) = [] \<longrightarrow> e2 = e\<lparr>module_entered := True\<rparr>"
    "0 < q" "length cs = length ls" "fees_minted mf pf + q \<le> n" "0 \<le> n"
    "\<forall>k \<in> set (components (the_set e2)). getDefaultPositionRealUnit (the_set e2) k = Inr (real_unit (the_set e2) k)
       \<and> 0 \<le> real_unit (the_set e2) k \<and> bal k self e' = bal k self e2 + deposit_quantity (real_unit (the_set e2) k) n"
    "the_set e' = (the_set e2)\<lparr>balances := b, totalSupply := totalSupply (the_set e2) + fees_minted mf pf + q\<rparr>"
    "\<forall>j < length cs. cs ! j \<in> set (components (the_set e2)) \<and> deposit_quantity (real_unit (the_set e2) (cs ! j)) n \<le> ls ! j"
proof -
  let ?e0 = "e\<lparr>module_entered := True\<rparr>"
  obtain h e1 e2 n mf pf ks es ds e3 e4 e5 where val: "slippage_validateInputs q cs ls = Inr ()"
    and h: "callManagerPreIssueHooks F self q x y ?e0 = Inr (h, e1)" and fee: "calculateTotalFees this self q True e1 = Inr (n, mf, pf)"
    and h2: "callModulePreIssueHooks H self n e1 = Inr e2"
    and req: "calculateRequiredComponentIssuanceUnits (the_set e2) n True = Inr (ks, es, ds)"
    and lim: "validateTokenTransferLimits cs ls ks es True = Inr ()"
    and eq: "resolveEquityPositions F H this x self n y True ks es e2 = Inr e3"
    and db: "resolveDebtPositions F H this x self n True ks ds e3 = Inr e4"
    and rest: "rbind (resolveFees this self mf pf e4) (on_set (\<lambda>c. set_mint this c y q)) = Inr e5" and e': "e' = e5\<lparr>module_entered := False\<rparr>"
    using assms(5) unfolding issueWithSlippage_def nonReentrant_def by (force simp: rbind_eq_Inr)
  have "wf ?e0" "plain_set self (the_set ?e0)" using assms(1,2) by simp_all
  note M = manager_hook [OF this assms(3) h]
  then have p1: "wf e1" "plain_set self (the_set e1)" "is_uint256 (getModuleFee (the_controller e1) this 0)"
    using assms(4) by (simp_all add: prepared_def)
  note fe = fees_Inr [OF p1(1) assms(3) p1(3) fee]
  note N = module_hooks_prepared(1) [OF p1(1,2) h2]
  have prep: "prepared e e2" using prepared_trans [of ?e0 e1 e2] M N backed_iff [of ?e0] backed_iff [of e] plain_set_D(4) [OF assms(2)]
    by (simp add: prepared_def)
  then have p: "wf e2" "plain_set self (the_set e2)" by (simp_all add: prepared_def)
  note R = plain_required_units [OF p(2) conjunct1 [OF fe] req]
  have Mv: "all_moved ks (equity_amount True (the_set e2) n) e2 e3"
    using resolveEquity_Inr [OF p(1), of ks "equity_amount True (the_set e2) n" H this x n y True] eq R plain_set_D [OF p(2)] by simp
  have e4: "e4 = e3" using no_debt db R by metis
  have s3: "the_set e3 = the_set e2" using Mv by (simp add: all_moved_def)
  obtain b where e5: "e5 = e3\<lparr>the_set := (the_set e2)\<lparr>balances := b, totalSupply := totalSupply (the_set e2) + fees_minted mf pf + q\<rparr>\<rparr>"
    using fees_then_mint [OF _ _ _ assms(3) rest] plain_set_D(1) [OF p(2)] fe e4 s3 by auto
  have bal': "bal k self e' = bal k self e3" for k using own_state [of e' e3] by (simp add: e' e5)
  have v: "0 < q" "length cs = length ls" using val by (auto simp: slippage_validateInputs_def rbind_eq_Inr require_eq_Inr)
  show thesis
  proof (rule that [OF h fee h2 prep _ v])
    show "\<forall>k \<in> set (components (the_set e2)). getDefaultPositionRealUnit (the_set e2) k = Inr (real_unit (the_set e2) k)
       \<and> 0 \<le> real_unit (the_set e2) k \<and> bal k self e' = bal k self e2 + deposit_quantity (real_unit (the_set e2) k) n"
      using Mv R bal' by (auto simp: all_moved_def equity_amount_def is_uint256_def)
    show "\<forall>j < length cs. cs ! j \<in> set (components (the_set e2)) \<and> deposit_quantity (real_unit (the_set e2) (cs ! j)) n \<le> ls ! j"
    proof (intro allI impI)
      fix j assume "j < length cs"
      from limits_loop_Inr [OF lim [unfolded validateTokenTransferLimits_def] this]
      obtain i where "i < length ks" "ks ! i = cs ! j" "es ! i \<le> ls ! j" by auto
      then show "cs ! j \<in> set (components (the_set e2)) \<and> deposit_quantity (real_unit (the_set e2) (cs ! j)) n \<le> ls ! j"
        using R by (auto simp: equity_amount_def) (metis nth_mem)
    qed
  qed (use M N fe v e' e5 in \<open>auto simp: settings_of_def is_uint256_def\<close>)
qed

lemma slippage_redeem_Inr:
  assumes "wf e" "plain_set self (the_set e)" "is_uint256 q" "is_uint256 (getModuleFee (the_controller e) this 0)"
    "redeemWithSlippage F H this x self q cs ls y e = Inr e'"
  obtains e1 n mf pf b where "calculateTotalFees this self q False (e\<lparr>module_entered := True\<rparr>) = Inr (n, mf, pf)"
    "callModulePreRedeemHooks H self n (e\<lparr>module_entered := True\<rparr>) = Inr e1" "prepared e e1" "moduleIssuanceHooks (settings_of self e) = [] \<longrightarrow> e1 = e\<lparr>module_entered := True\<rparr>"
    "0 < q" "length cs = length ls" "fees_minted mf pf + n \<le> q" "0 \<le> n"
    "\<forall>k \<in> set (components (the_set e1)). getDefaultPositionRealUnit (the_set e1) k = Inr (real_unit (the_set e1) k)
       \<and> 0 \<le> real_unit (the_set e1) k \<and> bal k self e' = bal k self e1 - real_unit (the_set e1) k * n div PRECISE_UNIT"
    "the_set e' = (the_set e1)\<lparr>balances := b, totalSupply := totalSupply (the_set e1) - q + fees_minted mf pf\<rparr>"
    "\<forall>j < length cs. cs ! j \<in> set (components (the_set e1)) \<and> ls ! j \<le> real_unit (the_set e1) (cs ! j) * n div PRECISE_UNIT"
proof -
  let ?e0 = "e\<lparr>module_entered := True\<rparr>"
  obtain e1 e2 n mf pf ks es ds e3 e4 e5 where val: "slippage_validateInputs q cs ls = Inr ()"
    and fee: "calculateTotalFees this self q False ?e0 = Inr (n, mf, pf)" and h: "callModulePreRedeemHooks H self n ?e0 = Inr e1"
    and bu: "on_set (\<lambda>c. set_burn this c x q) e1 = Inr e2"
    and req: "calculateRequiredComponentIssuanceUnits (the_set e2) n False = Inr (ks, es, ds)"
    and lim: "validateTokenTransferLimits cs ls ks es False = Inr ()"
    and db: "resolveDebtPositions F H this x self n False ks ds e2 = Inr e3"
    and eq: "resolveEquityPositions F H this x self n y False ks es e3 = Inr e4"
    and rest: "resolveFees this self mf pf e4 = Inr e5" and e': "e' = e5\<lparr>module_entered := False\<rparr>"
    using assms(5) unfolding redeemWithSlippage_def nonReentrant_def by (force simp: rbind_eq_Inr)
  have "wf ?e0" "plain_set self (the_set ?e0)" using assms(1,2) by simp_all
  note N = module_hooks_prepared(2) [OF this h]
  have w0: "wf ?e0" "is_uint256 (getModuleFee (the_controller ?e0) this 0)" using assms(1,4) by simp_all
  note fe = fees_Inr [OF w0(1) assms(3) w0(2) fee]
  from redeem_burn [OF assms(1-3) h bu] obtain b where prep: "prepared e e1"
    and s2: "the_set e2 = (the_set e1)\<lparr>balances := b, totalSupply := totalSupply (the_set e1) - q\<rparr>"
    and p: "wf e2" "plain_set self (the_set e2)" "the_controller e2 = the_controller e" "\<forall>k. bal k self e2 = bal k self e1"
    and ru: "real_unit (the_set e2) = real_unit (the_set e1)" .
  note R = plain_required_units [OF p(2) conjunct1 [OF fe] req]
  have e3: "e3 = e2" using no_debt db R by metis
  have M: "all_moved ks (\<lambda>k. - equity_amount False (the_set e2) n k) e2 e4"
    using resolveEquity_Inr [OF p(1), of ks "equity_amount False (the_set e2) n" H this x n y False] eq e3 R plain_set_D [OF p(2)] by simp
  have s4: "the_set e4 = the_set e2" using M by (simp add: all_moved_def)
  obtain b' where e5: "e5 = e4\<lparr>the_set := (the_set e2)\<lparr>balances := b', totalSupply := totalSupply (the_set e2) + fees_minted mf pf\<rparr>\<rparr>"
    using resolveFees_Inr [OF _ _ _ rest] plain_set_D(1) [OF p(2)] fe s4 by auto
  have bal': "bal k self e' = bal k self e4" for k using own_state [of e' e4] by (simp add: e' e5)
  have v: "0 < q" "length cs = length ls" using val by (auto simp: slippage_validateInputs_def rbind_eq_Inr require_eq_Inr)
  show thesis
  proof (rule that [OF fee h prep _ v])
    show "\<forall>k \<in> set (components (the_set e1)). getDefaultPositionRealUnit (the_set e1) k = Inr (real_unit (the_set e1) k)
       \<and> 0 \<le> real_unit (the_set e1) k \<and> bal k self e' = bal k self e1 - real_unit (the_set e1) k * n div PRECISE_UNIT"
      using M R bal' p(4) ru s2 by (auto simp: all_moved_def equity_amount_def is_uint256_def)
    show "\<forall>j < length cs. cs ! j \<in> set (components (the_set e1)) \<and> ls ! j \<le> real_unit (the_set e1) (cs ! j) * n div PRECISE_UNIT"
    proof (intro allI impI)
      fix j assume "j < length cs"
      from limits_loop_Inr [OF lim [unfolded validateTokenTransferLimits_def] this]
      obtain i where i: "i < length ks" "ks ! i = cs ! j" "ls ! j \<le> es ! i" by auto
      moreover have "ks = components (the_set e1)" "es = map (equity_amount False (the_set e2) n) ks" using R s2 by simp_all
      ultimately show "cs ! j \<in> set (components (the_set e1)) \<and> ls ! j \<le> real_unit (the_set e1) (cs ! j) * n div PRECISE_UNIT"
        using nth_mem [OF i(1)] by (simp add: equity_amount_def ru)
    qed
  qed (use N fe e' e5 s2 in \<open>auto simp: settings_of_def is_uint256_def\<close>)
qed

end

subsection \<open>The forecast without hooks\<close>

lemma split_external_typed:
  "split_external s k ms a d = Inr (x, y) \<Longrightarrow> a \<le> MAX_INT_256 \<Longrightarrow> x \<le> MAX_INT_256"
  by (induction ms arbitrary: a d) (auto simp: rbind_eq_Inr sadd_eq_Inr is_int256_def split: if_splits)

lemma component_units_typed:
  assumes "component_units s k u = Inr (eq, db)" "u \<le> MAX_INT_256"
  shows "0 \<le> eq \<and> is_int256 eq \<and> 0 \<le> db \<and> is_int256 db"
  using assms split_external_typed
  by (fastforce simp: component_units_def rbind_eq_Inr toUint256_eq_Inr smul_eq_Inr is_int256_def)

lemma units_loop_typed:
  assumes "position_inv s" "units_loop s ks = Inr (eqs, dbs)"
  shows "length eqs = length ks \<and> length dbs = length ks \<and> (\<forall>x \<in> set eqs \<union> set dbs. 0 \<le> x \<and> is_int256 x)"
  using assms(2)
proof (induction ks arbitrary: eqs dbs)
  case (Cons k ks)
  then obtain u eq db eqs' dbs' where u: "getDefaultPositionRealUnit s k = Inr u" and c: "component_units s k u = Inr (eq, db)"
    and r: "units_loop s ks = Inr (eqs', dbs')" and e: "eqs = eq # eqs'" "dbs = db # dbs'"
    by (auto simp: rbind_eq_Inr)
  have "u \<le> MAX_INT_256" using real_unit_typed [OF assms(1) u] by (simp add: is_int256_def)
  then show ?case using component_units_typed [OF c] Cons.IH [OF r] e by auto
qed simp

lemma adjusted_loop_zero:
  assumes "length eqs = length dbs" "\<forall>x \<in> set eqs \<union> set dbs. 0 \<le> x \<and> is_int256 x" "i + length eqs \<le> m"
  shows "adjusted_loop q b (replicate m 0) (replicate m 0) i eqs dbs = notional_loop q b eqs dbs"
  using assms
proof (induction eqs dbs arbitrary: i rule: list_induct2)
  case (Cons eq eqs db dbs)
  have "toInt256 eq = Inr eq" "toInt256 db = Inr db" "sadd eq 0 = Inr eq" "ssub db 0 = Inr db" "toUint256 eq = Inr eq" "toUint256 db = Inr db"
    using Cons.prems(1) by (simp_all add: toInt256_eq_Inr sadd_eq_Inr ssub_eq_Inr toUint256_eq_Inr is_int256_def)
  then show ?case using Cons by (simp add: array_get_def)
qed simp

text \<open>Without registered modules the forecast is the amount that issuance or redemption requires, and changes nothing.\<close>

lemma offchain_agrees:
  assumes "position_inv (the_set e)" "moduleIssuanceHooks (settings_of self e) = []"
  shows "getRequiredComponentIssuanceUnitsOffChain H2 this self q e
      = rbind (getRequiredComponentIssuanceUnits this self q e) (\<lambda>r. Ok (r, e))"
    and "getRequiredComponentRedemptionUnitsOffChain H2 this self q e
      = rbind (getRequiredComponentRedemptionUnits this self q e) (\<lambda>r. Ok (r, e))"
proof -
  let ?z = "replicate (length (components (the_set e))) (0 :: int)"
  have *: "calculateAdjustments H2 self n b e = Inr ((?z, ?z), e)" for n b
    by (simp add: calculateAdjustments_def assms(2) Let_def)
  have **: "calculateAdjustedComponentIssuanceUnits (the_set e) n b ?z ?z = calculateRequiredComponentIssuanceUnits (the_set e) n b" for n b
  proof (cases "units_loop (the_set e) (components (the_set e))")
    case (Inr x)
    then obtain eqs dbs where u: "units_loop (the_set e) (components (the_set e)) = Inr (eqs, dbs)" by (cases x) simp
    have "adjusted_loop n b ?z ?z 0 eqs dbs = notional_loop n b eqs dbs"
      using units_loop_typed [OF assms(1) u] by (intro adjusted_loop_zero) simp_all
    then show ?thesis by (simp add: calculateAdjustedComponentIssuanceUnits_def calculateRequiredComponentIssuanceUnits_def getTotalIssuanceUnits_def u)
  qed (simp add: calculateAdjustedComponentIssuanceUnits_def calculateRequiredComponentIssuanceUnits_def getTotalIssuanceUnits_def)
  show "getRequiredComponentIssuanceUnitsOffChain H2 this self q e
      = rbind (getRequiredComponentIssuanceUnits this self q e) (\<lambda>r. Ok (r, e))"
    unfolding getRequiredComponentIssuanceUnitsOffChain_def getRequiredComponentIssuanceUnits_def
    by (cases "calculateTotalFees this self q True e") (auto simp: * **)
  show "getRequiredComponentRedemptionUnitsOffChain H2 this self q e
      = rbind (getRequiredComponentRedemptionUnits this self q e) (\<lambda>r. Ok (r, e))"
    unfolding getRequiredComponentRedemptionUnitsOffChain_def getRequiredComponentRedemptionUnits_def
    by (cases "calculateTotalFees this self q False e") (auto simp: * **)
qed

subsection \<open>Without limits and hooks\<close>

lemma no_limits: "0 < q \<Longrightarrow> slippage_validateInputs q [] [] = Inr ()" "validateTokenTransferLimits [] [] ks es b = Inr ()"
  by (simp_all add: slippage_validateInputs_def validateTokenTransferLimits_def)

lemma fees_of_cong:
  "outside e' = outside e \<Longrightarrow> the_controller e' = the_controller e \<Longrightarrow> calculateTotalFees this self q b e' = calculateTotalFees this self q b e"
  by (simp add: calculateTotalFees_def settings_of_def)

text \<open>
  Empty limits make the functions those of \<open>DebtIssuanceModule\<close>, as the comment of the code says, for a Set without hooks: with
  hooks the modules are told the quantity with fees here and without fees there.
\<close>

lemma slippage_is_issuance:
  assumes "0 < q" "issue_managerHook (settings_of self e) = address_zero" "moduleIssuanceHooks (settings_of self e) = []"
  shows "issueWithSlippage F H this x self q [] [] y e = debt_issue F H this x self q y e"
    and "redeemWithSlippage F H this x self q [] [] y e = Inr e' \<longleftrightarrow> debt_redeem F H this x self q y e = Inr e'"
proof -
  let ?e0 = "e\<lparr>module_entered := True\<rparr>"
  have st: "settings_of self ?e0 = settings_of self e" by (simp add: settings_of_def)
  have h: "callManagerPreIssueHooks F self q x y ?e0 = Inr (address_zero, ?e0)" "callModulePreIssueHooks H self n ?e0 = Inr ?e0"
    "callModulePreRedeemHooks H self n ?e0 = Inr ?e0" for n
    by (simp_all add: callManagerPreIssueHooks_def callModulePreIssueHooks_def callModulePreRedeemHooks_def st assms(2,3))
  have q: "require (q > 0) msg = Inr ()" for msg using assms(1) by simp
  show "issueWithSlippage F H this x self q [] [] y e = debt_issue F H this x self q y e"
    by (simp add: issueWithSlippage_def debt_issue_def nonReentrant_def no_limits assms(1) h)
  have "calculateTotalFees this self q False e2 = calculateTotalFees this self q False ?e0"
    if "on_set (\<lambda>c. set_burn this c x q) ?e0 = Inr e2" for e2
    using that by (intro fees_of_cong) (auto simp: on_set_def rbind_eq_Inr)
  note fee = this
  show "redeemWithSlippage F H this x self q [] [] y e = Inr e' \<longleftrightarrow> debt_redeem F H this x self q y e = Inr e'"
    unfolding redeemWithSlippage_def debt_redeem_def nonReentrant_def
    by (simp add: no_limits assms(1) h rbind_eq_Inr) (use fee in \<open>fastforce simp: rbind_eq_Inr\<close>)
qed

context issuance_hooks
begin

lemma slippage_issue_safe:
  assumes "wf e" "plain_set self (the_set e)" "is_uint256 q" "is_uint256 (getModuleFee (the_controller e) this 0)" "collateralized F self e"
    "issueWithSlippage F H this x self q cs ls y e = Inr e'"
  shows "collateralized F self e' \<and> length cs = length ls
    \<and> (\<exists>h e1 n mf pf e2. callManagerPreIssueHooks F self q x y (e\<lparr>module_entered := True\<rparr>) = Inr (h, e1)
        \<and> calculateTotalFees this self q True e1 = Inr (n, mf, pf) \<and> callModulePreIssueHooks H self n e1 = Inr e2
        \<and> (\<forall>j < length cs. cs ! j \<in> set (components (the_set e2)) \<and> bal (cs ! j) self e' \<le> bal (cs ! j) self e2 + ls ! j))
    \<and> (issue_managerHook (settings_of self e) = address_zero \<longrightarrow> moduleIssuanceHooks (settings_of self e) = [] \<longrightarrow>
        (\<forall>j < length cs. cs ! j \<in> set (components (the_set e)) \<and> bal (cs ! j) self e' \<le> bal (cs ! j) self e + ls ! j))"
  using slippage_issue_Inr [OF assms(1-4,6)]
proof cases
  case (1 h e1 e2 n mf pf b)
  have p: "plain_set self (the_set e2)" "collateralized F self e2" using 1(4) assms(5) by (simp_all add: prepared_def)
  have C: "collateralized F self e'" using issue_backs [OF p 1(9,8,10)] 1(11) by (simp add: add.assoc)
  have "bal k self e' \<le> bal k self e2 + l" if "k \<in> set (components (the_set e2))" "deposit_quantity (real_unit (the_set e2) k) n \<le> l" for k l
    using 1(10) that by auto
  then have L: "\<forall>j < length cs. cs ! j \<in> set (components (the_set e2)) \<and> bal (cs ! j) self e' \<le> bal (cs ! j) self e2 + ls ! j"
    using 1(12) by auto
  show ?thesis
  proof (intro conjI)
    show "\<exists>h e1 n mf pf e2. callManagerPreIssueHooks F self q x y (e\<lparr>module_entered := True\<rparr>) = Inr (h, e1)
        \<and> calculateTotalFees this self q True e1 = Inr (n, mf, pf) \<and> callModulePreIssueHooks H self n e1 = Inr e2
        \<and> (\<forall>j < length cs. cs ! j \<in> set (components (the_set e2)) \<and> bal (cs ! j) self e' \<le> bal (cs ! j) self e2 + ls ! j)"
      using 1(1-3) L by blast
  qed (use C 1(5,7) L in auto)
qed

lemma slippage_redeem_safe:
  assumes "wf e" "plain_set self (the_set e)" "is_uint256 q" "is_uint256 (getModuleFee (the_controller e) this 0)" "collateralized F self e"
    "redeemWithSlippage F H this x self q cs ls y e = Inr e'"
  shows "collateralized F self e' \<and> length cs = length ls
    \<and> (\<exists>n mf pf e1. calculateTotalFees this self q False (e\<lparr>module_entered := True\<rparr>) = Inr (n, mf, pf)
        \<and> callModulePreRedeemHooks H self n (e\<lparr>module_entered := True\<rparr>) = Inr e1
        \<and> (\<forall>j < length cs. cs ! j \<in> set (components (the_set e1)) \<and> bal (cs ! j) self e' + ls ! j \<le> bal (cs ! j) self e1))
    \<and> (moduleIssuanceHooks (settings_of self e) = [] \<longrightarrow>
        (\<forall>j < length cs. cs ! j \<in> set (components (the_set e)) \<and> bal (cs ! j) self e' + ls ! j \<le> bal (cs ! j) self e))"
  using slippage_redeem_Inr [OF assms(1-4,6)]
proof cases
  case (1 e1 n mf pf b)
  have p: "plain_set self (the_set e1)" "collateralized F self e1" using 1(3) assms(5) by (simp_all add: prepared_def)
  have C: "collateralized F self e'" using redeem_backs [OF p _ 1(9), of "q - fees_minted mf pf" b] 1(7,10) by (simp add: algebra_simps)
  have "bal k self e' + l \<le> bal k self e1" if "k \<in> set (components (the_set e1))" "l \<le> real_unit (the_set e1) k * n div PRECISE_UNIT" for k l
    using 1(9) that by auto
  then have L: "\<forall>j < length cs. cs ! j \<in> set (components (the_set e1)) \<and> bal (cs ! j) self e' + ls ! j \<le> bal (cs ! j) self e1"
    using 1(11) by auto
  show ?thesis
  proof (intro conjI)
    show "\<exists>n mf pf e1. calculateTotalFees this self q False (e\<lparr>module_entered := True\<rparr>) = Inr (n, mf, pf)
        \<and> callModulePreRedeemHooks H self n (e\<lparr>module_entered := True\<rparr>) = Inr e1
        \<and> (\<forall>j < length cs. cs ! j \<in> set (components (the_set e1)) \<and> bal (cs ! j) self e' + ls ! j \<le> bal (cs ! j) self e1)"
      using 1(1,2) L by blast
  qed (use C 1(4,6) L in auto)
qed

end

subsection \<open>Properties\<close>

text \<open>
  C16. Issuance and redemption with limits, for a Set of default positions (no component has an external position) and any registered hooks that take the steps
  of \<open>hook_run\<close>. The Set stays collateralized. After an issuance the Set has of every checked component at most the limit more than after the hooks ran, and after a
  redemption at least the limit less; a checked token is a component after the hooks, and every token has its limit. What the hooks themselves moved is
  not limited; without hooks the bounds hold against the balances before the call. Tokens and the hook of the manager are those of \<open>component_tokens\<close>.
\<close>

theorem slippage_limits_hold:
  assumes "syncing_hooks F self bal ok H" "ok e" "plain_set self (the_set e)" "is_uint256 q"
    "is_uint256 (getModuleFee (the_controller e) this 0)" "collateralized F self e"
  shows "(issueWithSlippage F H this x self q cs ls y e = Inr e' \<longrightarrow> collateralized F self e' \<and> length cs = length ls
      \<and> (\<exists>h e1 n mf pf e2. callManagerPreIssueHooks F self q x y (e\<lparr>module_entered := True\<rparr>) = Inr (h, e1)
          \<and> calculateTotalFees this self q True e1 = Inr (n, mf, pf) \<and> callModulePreIssueHooks H self n e1 = Inr e2
          \<and> (\<forall>j < length cs. cs ! j \<in> set (components (the_set e2)) \<and> bal (cs ! j) self e' \<le> bal (cs ! j) self e2 + ls ! j))
      \<and> (issue_managerHook (settings_of self e) = address_zero \<longrightarrow> moduleIssuanceHooks (settings_of self e) = [] \<longrightarrow>
          (\<forall>j < length cs. cs ! j \<in> set (components (the_set e)) \<and> bal (cs ! j) self e' \<le> bal (cs ! j) self e + ls ! j)))
    \<and> (redeemWithSlippage F H this x self q cs ls y e = Inr e' \<longrightarrow> collateralized F self e' \<and> length cs = length ls
      \<and> (\<exists>n mf pf e1. calculateTotalFees this self q False (e\<lparr>module_entered := True\<rparr>) = Inr (n, mf, pf)
          \<and> callModulePreRedeemHooks H self n (e\<lparr>module_entered := True\<rparr>) = Inr e1
          \<and> (\<forall>j < length cs. cs ! j \<in> set (components (the_set e1)) \<and> bal (cs ! j) self e' + ls ! j \<le> bal (cs ! j) self e1))
      \<and> (moduleIssuanceHooks (settings_of self e) = [] \<longrightarrow>
          (\<forall>j < length cs. cs ! j \<in> set (components (the_set e)) \<and> bal (cs ! j) self e' + ls ! j \<le> bal (cs ! j) self e)))"
  using issuance_hooks.slippage_issue_safe [OF syncing_hooks.gives_issuance_hooks [OF assms(1)] assms(2-6)]
    issuance_hooks.slippage_redeem_safe [OF syncing_hooks.gives_issuance_hooks [OF assms(1)] assms(2-6)] by blast

lemma demo_slippage_issue:
  "\<exists>e'. issueWithSlippage (beside ledger_foreign) (mock_hooks (beside ledger_foreign)) 7 30 20 (10 ^ 18) [1] [4 * 10 ^ 18] 40 demo_debt_evm = Inr e'"
proof -
  let ?e0 = "demo_debt_evm\<lparr>module_entered := True\<rparr>" and ?F = "beside ledger_foreign :: (address \<Rightarrow> erc20) debt_foreign"
  have st: "settings_of 20 demo_debt_evm = demo_debt_settings" by (simp add: settings_of_def demo_debt_evm_def)
  then have h: "callManagerPreIssueHooks ?F 20 (10 ^ 18) 30 40 ?e0 = Inr (address_zero, ?e0)" "callModulePreIssueHooks (mock_hooks ?F) 20 n ?e0 = Inr ?e0" for n
    by (simp_all add: callManagerPreIssueHooks_def callModulePreIssueHooks_def settings_of_def demo_debt_settings_def)
  have fee: "calculateTotalFees 7 20 (10 ^ 18) True ?e0 = Inr (101 * 10 ^ 16, 10 ^ 16, 0)" by code_simp
  have req: "calculateRequiredComponentIssuanceUnits (the_set ?e0) (101 * 10 ^ 16) True = Inr ([1, 2], [303 * 10 ^ 16, 505 * 10 ^ 15], [0, 0])" by code_simp
  have lim: "validateTokenTransferLimits [1] [4 * 10 ^ 18] [1, 2] [303 * 10 ^ 16, 505 * 10 ^ 15] True = Inr ()" by code_simp
  have val: "slippage_validateInputs (10 ^ 18) [1] [4 * 10 ^ 18] = Inr ()" "slippage_validateInputs (10 ^ 18) [] [] = Inr ()" by code_simp+
  have "issueWithSlippage ?F (mock_hooks ?F) 7 30 20 (10 ^ 18) [1] [4 * 10 ^ 18] 40 demo_debt_evm
      = issueWithSlippage ?F (mock_hooks ?F) 7 30 20 (10 ^ 18) [] [] 40 demo_debt_evm"
    unfolding issueWithSlippage_def nonReentrant_def val h rbind.simps prod.case fee req lim no_limits(2) by (rule refl)
  also have "\<dots> = debt_issue ?F (mock_hooks ?F) 7 30 20 (10 ^ 18) 40 demo_debt_evm"
    by (rule slippage_is_issuance(1)) (simp_all add: st demo_debt_settings_def)
  finally show ?thesis using demo_debt_issue by simp
qed

text \<open>With the hook of the leverage module: the unit of token 1 is 4 when the limit is checked, so a limit of 5 passes and one of 4 does not.\<close>

lemma demo_slippage_sync:
  "\<exists>e'. issueWithSlippage (beside ledger_foreign) demo_leverage 7 30 20 (10 ^ 18) [1] [5 * 10 ^ 18] 40 leveraged_evm = Inr e'"
  "issueWithSlippage (beside ledger_foreign) demo_leverage 7 30 20 (10 ^ 18) [1] [4 * 10 ^ 18] 40 leveraged_evm
     = Inl (Revert ''Too many tokens required for issuance'')"
proof -
  have "is_ok (issueWithSlippage (beside ledger_foreign) demo_leverage 7 30 20 (10 ^ 18) [1] [5 * 10 ^ 18] 40 leveraged_evm)"
    unfolding leveraged_evm_def demo_evm_def demo_token_def demo_set_def demo_controller_def by code_simp
  then show "\<exists>e'. issueWithSlippage (beside ledger_foreign) demo_leverage 7 30 20 (10 ^ 18) [1] [5 * 10 ^ 18] 40 leveraged_evm = Inr e'"
    by (simp add: is_ok_iff)
  let ?r = "issueWithSlippage (beside ledger_foreign) demo_leverage 7 30 20 (10 ^ 18) [1] [4 * 10 ^ 18] 40 leveraged_evm"
  have "case ?r of Inl err \<Rightarrow> err = Revert ''Too many tokens required for issuance'' | Inr e' \<Rightarrow> False"
    unfolding leveraged_evm_def demo_evm_def demo_token_def demo_set_def demo_controller_def by code_simp
  then show "?r = Inl (Revert ''Too many tokens required for issuance'')" by (cases ?r) simp_all
qed

text \<open>The steps before the limits are checked: the hook edits the position and moves nothing.\<close>

lemma demo_slippage_steps:
  "callManagerPreIssueHooks (beside ledger_foreign) 20 (10 ^ 18) 30 40 (leveraged_evm\<lparr>module_entered := True\<rparr>)
     = Inr (address_zero, leveraged_evm\<lparr>module_entered := True\<rparr>)"
  "calculateTotalFees 7 20 (10 ^ 18) True (leveraged_evm\<lparr>module_entered := True\<rparr>) = Inr (101 * 10 ^ 16, 10 ^ 16, 0)"
  "callModulePreIssueHooks demo_leverage 20 (101 * 10 ^ 16) (leveraged_evm\<lparr>module_entered := True\<rparr>) = Inr e2 \<Longrightarrow>
     ledger_bal 1 20 (bare e2) = 4 * 10 ^ 18"
proof -
  show "callManagerPreIssueHooks (beside ledger_foreign) 20 (10 ^ 18) 30 40 (leveraged_evm\<lparr>module_entered := True\<rparr>)
     = Inr (address_zero, leveraged_evm\<lparr>module_entered := True\<rparr>)"
    by (simp add: callManagerPreIssueHooks_def settings_of_def leveraged_evm_def demo_debt_settings_def)
  show "calculateTotalFees 7 20 (10 ^ 18) True (leveraged_evm\<lparr>module_entered := True\<rparr>) = Inr (101 * 10 ^ 16, 10 ^ 16, 0)"
    unfolding leveraged_evm_def by code_simp
  have "case callModulePreIssueHooks demo_leverage 20 (101 * 10 ^ 16) (leveraged_evm\<lparr>module_entered := True\<rparr>) of
      Inl err \<Rightarrow> False | Inr e2 \<Rightarrow> ledger_bal 1 20 (bare e2) = 4 * 10 ^ 18"
    unfolding leveraged_evm_def demo_evm_def demo_token_def demo_set_def demo_controller_def by code_simp
  then show "ledger_bal 1 20 (bare e2) = 4 * 10 ^ 18"
    if "callModulePreIssueHooks demo_leverage 20 (101 * 10 ^ 16) (leveraged_evm\<lparr>module_entered := True\<rparr>) = Inr e2"
    unfolding that sum.case .
qed

theorem slippage_limits_hold_witness:
  "(\<exists>e'. issueWithSlippage (beside ledger_foreign) (mock_hooks (beside ledger_foreign)) 7 30 20 (10 ^ 18) [1] [4 * 10 ^ 18] 40 demo_debt_evm = Inr e'
     \<and> collateralized (beside ledger_foreign) 20 e' \<and> ledger_bal 1 20 (bare e') \<le> 4 * 10 ^ 18)
   \<and> (\<exists>e'. issueWithSlippage (beside ledger_foreign) demo_leverage 7 30 20 (10 ^ 18) [1] [5 * 10 ^ 18] 40 leveraged_evm = Inr e'
     \<and> collateralized (beside ledger_foreign) 20 e' \<and> ledger_bal 1 20 (bare e') \<le> 9 * 10 ^ 18)"
proof
  obtain e' where run: "issueWithSlippage (beside ledger_foreign) (mock_hooks (beside ledger_foreign)) 7 30 20 (10 ^ 18) [1] [4 * 10 ^ 18] 40 demo_debt_evm = Inr e'"
    using demo_slippage_issue ..
  have "issue_managerHook (settings_of 20 demo_debt_evm) = address_zero" "moduleIssuanceHooks (settings_of 20 demo_debt_evm) = []"
    "ledger_bal 1 20 (bare demo_debt_evm) = 0"
    by (simp_all add: settings_of_def demo_debt_evm_def demo_debt_settings_def demo_evm_def demo_token_def erc20_constructor_def)
  with slippage_limits_hold [OF mock_ledger.syncing_hooks_axioms demo_debt_evm_ok, of 30 "[1]" "[4 * 10 ^ 18]" 40 e'] run
  show "\<exists>e'. issueWithSlippage (beside ledger_foreign) (mock_hooks (beside ledger_foreign)) 7 30 20 (10 ^ 18) [1] [4 * 10 ^ 18] 40 demo_debt_evm = Inr e'
     \<and> collateralized (beside ledger_foreign) 20 e' \<and> ledger_bal 1 20 (bare e') \<le> 4 * 10 ^ 18"
    by auto
next
  obtain e' where run: "issueWithSlippage (beside ledger_foreign) demo_leverage 7 30 20 (10 ^ 18) [1] [5 * 10 ^ 18] 40 leveraged_evm = Inr e'"
    using demo_slippage_sync(1) ..
  note H = slippage_limits_hold [OF leverage_ledger.syncing_hooks_axioms leveraged_evm_ok, of 30 "[1]" "[5 * 10 ^ 18]" 40 e', THEN conjunct1, THEN mp, OF run]
  from H obtain h e1 n mf pf e2 where st: "callManagerPreIssueHooks (beside ledger_foreign) 20 (10 ^ 18) 30 40 (leveraged_evm\<lparr>module_entered := True\<rparr>) = Inr (h, e1)"
    "calculateTotalFees 7 20 (10 ^ 18) True e1 = Inr (n, mf, pf)" "callModulePreIssueHooks demo_leverage 20 n e1 = Inr e2"
    and lim: "\<forall>j < length [1 :: address]. [1] ! j \<in> set (components (the_set e2))
      \<and> ledger_bal ([1] ! j) 20 (bare e') \<le> ledger_bal ([1] ! j) 20 (bare e2) + [5 * 10 ^ 18] ! j" by blast
  have "e1 = leveraged_evm\<lparr>module_entered := True\<rparr>" using st(1) demo_slippage_steps(1) by simp
  then have "ledger_bal 1 20 (bare e2) = 4 * 10 ^ 18" using st(2,3) demo_slippage_steps(2,3) by simp
  moreover have "ledger_bal 1 20 (bare e') \<le> ledger_bal 1 20 (bare e2) + 5 * 10 ^ 18" using lim [rule_format, of 0] by simp
  ultimately show "\<exists>e'. issueWithSlippage (beside ledger_foreign) demo_leverage 7 30 20 (10 ^ 18) [1] [5 * 10 ^ 18] 40 leveraged_evm = Inr e'
     \<and> collateralized (beside ledger_foreign) 20 e' \<and> ledger_bal 1 20 (bare e') \<le> 9 * 10 ^ 18"
    using run H by (intro exI [of _ e']) simp
qed

text \<open>A limit that is too low, or for a token that is not a component, stops the issuance.\<close>

lemma demo_limits:
  "validateTokenTransferLimits [1] [3] [1, 2] [4, 5] True = Inl (Revert ''Too many tokens required for issuance'')"
  "validateTokenTransferLimits [2] [6] [1, 2] [4, 5] False = Inl (Revert ''Too few tokens returned for redemption'')"
  "validateTokenTransferLimits [9] [6] [1, 2] [4, 5] False = Inl (Revert ''Limit passed for invalid component'')"
  "validateTokenTransferLimits [2, 1] [5, 4] [1, 2] [4, 5] True = Inr ()"
  by (simp_all add: validateTokenTransferLimits_def indexOf_def array_get_def)

end
