(* ===== verification/NavIssuanceModule.thy ===== *)
theory NavIssuanceModule
  imports TradeModule SetValuer NavIssuanceModuleUtils
begin

section \<open>CustomOracleNAVIssuanceModule: issuing and redeeming at net asset value\<close>

text \<open>
  \<^verbatim>\<open>src/contracts/protocol/modules/v1/CustomOracleNAVIssuanceModule.sol\<close>: Sets are issued for, and redeemed into, one
  reserve asset, at the value a \<open>SetValuer\<close> gives the Set. A premium and fees of the manager and the protocol are
  taken from the amount. The units of the other components stay; the position multiplier is scaled by old supply over
  new supply.

  The record \<open>nav_module\<close> is the state of the contract, the first component of \<open>outside\<close>, so that hooks can reach it
  and every function reads it where the code does. \<open>nav_code\<close> collects the contracts it calls: the valuer at an
  address, the decimals of a token, the hooks (\<open>INAVIssuanceHook\<close>), the wrapped Ether and transfers of Ether. \<open>this\<close> is
  the module, \<open>self\<close> the Set; \<open>weth\<close> is the immutable address of the wrapped Ether.

  The lemmas follow an issue or a redemption through balances, supply, multiplier and units, once for every state type, in the
  locale \<open>nav_reserve\<close>, and the settings through the life of the module. \<open>NavMarket\<close> interprets the locale on contracts of the
  repository and states the properties.
\<close>

record NAVIssuanceSettings =
  nav_managerIssuanceHook :: address
  nav_managerRedemptionHook :: address
  nav_setValuer :: address
  reserveAssets :: "address list"
  nav_feeRecipient :: address
  managerFees :: "int list"
  nav_maxManagerFee :: int
  premiumPercentage :: int
  maxPremiumPercentage :: int
  minSetTokenSupply :: int

record ActionInfo =
  preFeeReserveQuantity :: int
  protocolFees :: int
  managerFee :: int
  netFlowQuantity :: int
  setTokenQuantity :: int
  previousSetTokenSupply :: int
  newSetTokenSupply :: int
  newPositionMultiplier :: int
  newReservePositionUnit :: int

record nav_module =
  navIssuanceSettings :: "address \<Rightarrow> NAVIssuanceSettings"
  isReserveAsset :: "address \<Rightarrow> address \<Rightarrow> bool"

record 'w nav_code =
  decimals_of :: "address \<Rightarrow> 'w evm \<Rightarrow> int result"
  valuation_by :: "address \<Rightarrow> address \<Rightarrow> address \<Rightarrow> 'w evm \<Rightarrow> int result"
  nav_issue_hook :: "address \<Rightarrow> address \<Rightarrow> address \<Rightarrow> int \<Rightarrow> address \<Rightarrow> address \<Rightarrow> 'w evm \<Rightarrow> ('w evm) result"
  nav_redeem_hook :: "address \<Rightarrow> address \<Rightarrow> int \<Rightarrow> address \<Rightarrow> address \<Rightarrow> 'w evm \<Rightarrow> ('w evm) result"
  weth_deposit :: "address \<Rightarrow> address \<Rightarrow> int \<Rightarrow> 'w evm \<Rightarrow> ('w evm) result"
  weth_withdraw :: "address \<Rightarrow> address \<Rightarrow> int \<Rightarrow> 'w evm \<Rightarrow> ('w evm) result"
  weth_transfer :: "address \<Rightarrow> address \<Rightarrow> address \<Rightarrow> int \<Rightarrow> 'w evm \<Rightarrow> ('w evm) result"
  send_ether :: "address \<Rightarrow> address \<Rightarrow> int \<Rightarrow> 'w evm \<Rightarrow> ('w evm) result"

type_synonym 'x nav_evm = "(nav_module \<times> 'x) evm"
type_synonym 'x nav_foreign = "(nav_module \<times> 'x) foreign"
type_synonym 'x nav_calls = "(nav_module \<times> 'x) nav_code"

definition no_nav :: NAVIssuanceSettings where
  "no_nav = \<lparr>nav_managerIssuanceHook = address_zero, nav_managerRedemptionHook = address_zero, nav_setValuer = address_zero,
     reserveAssets = [], nav_feeRecipient = address_zero, managerFees = [0, 0], nav_maxManagerFee = 0, premiumPercentage = 0,
     maxPremiumPercentage = 0, minSetTokenSupply = 0\<rparr>"

definition nav_of :: "address \<Rightarrow> 'x nav_evm \<Rightarrow> NAVIssuanceSettings" where
  "nav_of self e = navIssuanceSettings (fst (outside e)) self"

definition reserve_of :: "address \<Rightarrow> 'x nav_evm \<Rightarrow> address \<Rightarrow> bool" where
  "reserve_of self e = isReserveAsset (fst (outside e)) self"

definition write_nav :: "address \<Rightarrow> (NAVIssuanceSettings \<Rightarrow> NAVIssuanceSettings) \<Rightarrow> 'x nav_evm \<Rightarrow> 'x nav_evm" where
  "write_nav self f e = e\<lparr>outside :=
     (fst (outside e)\<lparr>navIssuanceSettings := (navIssuanceSettings (fst (outside e)))(self := f (nav_of self e))\<rparr>, snd (outside e))\<rparr>"

definition flag_reserve :: "address \<Rightarrow> address \<Rightarrow> bool \<Rightarrow> 'x nav_evm \<Rightarrow> 'x nav_evm" where
  "flag_reserve self a b e = e\<lparr>outside :=
     (fst (outside e)\<lparr>isReserveAsset := (isReserveAsset (fst (outside e)))(self := (reserve_of self e)(a := b))\<rparr>, snd (outside e))\<rparr>"

definition MANAGER_ISSUE_FEE_INDEX :: int where
  "MANAGER_ISSUE_FEE_INDEX = 0"

definition MANAGER_REDEEM_FEE_INDEX :: int where
  "MANAGER_REDEEM_FEE_INDEX = 1"

definition PROTOCOL_ISSUE_MANAGER_REVENUE_SHARE_FEE_INDEX :: int where
  "PROTOCOL_ISSUE_MANAGER_REVENUE_SHARE_FEE_INDEX = 0"

definition PROTOCOL_REDEEM_MANAGER_REVENUE_SHARE_FEE_INDEX :: int where
  "PROTOCOL_REDEEM_MANAGER_REVENUE_SHARE_FEE_INDEX = 1"

definition PROTOCOL_ISSUE_DIRECT_FEE_INDEX :: int where
  "PROTOCOL_ISSUE_DIRECT_FEE_INDEX = 2"

definition PROTOCOL_REDEEM_DIRECT_FEE_INDEX :: int where
  "PROTOCOL_REDEEM_DIRECT_FEE_INDEX = 3"

lemmas fee_indices = MANAGER_ISSUE_FEE_INDEX_def MANAGER_REDEEM_FEE_INDEX_def PROTOCOL_ISSUE_MANAGER_REVENUE_SHARE_FEE_INDEX_def
  PROTOCOL_REDEEM_MANAGER_REVENUE_SHARE_FEE_INDEX_def PROTOCOL_ISSUE_DIRECT_FEE_INDEX_def PROTOCOL_REDEEM_DIRECT_FEE_INDEX_def

subsection \<open>Fees and premiums\<close>

definition getIssuePremium :: "address \<Rightarrow> address \<Rightarrow> int \<Rightarrow> 'x nav_evm \<Rightarrow> int" where
  "getIssuePremium self reserveAsset quantity e = premiumPercentage (nav_of self e)"

definition getRedeemPremium :: "address \<Rightarrow> address \<Rightarrow> int \<Rightarrow> 'x nav_evm \<Rightarrow> int" where
  "getRedeemPremium self reserveAsset quantity e = premiumPercentage (nav_of self e)"

definition getManagerFee :: "address \<Rightarrow> int \<Rightarrow> 'x nav_evm \<Rightarrow> int result" where
  "getManagerFee self i e = array_get (managerFees (nav_of self e)) (nat i)"

definition getReserveAssets :: "address \<Rightarrow> 'x nav_evm \<Rightarrow> address list" where
  "getReserveAssets self e = reserveAssets (nav_of self e)"

definition getProtocolAndManagerFeePercentages ::
  "address \<Rightarrow> address \<Rightarrow> int \<Rightarrow> int \<Rightarrow> int \<Rightarrow> 'x nav_evm \<Rightarrow> (int \<times> int) result" where
  "getProtocolAndManagerFeePercentages this self protocolManagerFeeIndex protocolDirectFeeIndex managerFeeIndex e =
     (let protocolDirectFeePercent = getModuleFee (the_controller e) this protocolDirectFeeIndex;
          protocolManagerShareFeePercent = getModuleFee (the_controller e) this protocolManagerFeeIndex in
      rbind (getManagerFee self managerFeeIndex e) (\<lambda>managerFeePercent.
      rbind (preciseMul_uint protocolManagerShareFeePercent managerFeePercent) (\<lambda>protocolRevenueSharePercentage.
      rbind (safe_sub managerFeePercent protocolRevenueSharePercentage) (\<lambda>managerRevenueSharePercentage.
      rbind (safe_add protocolRevenueSharePercentage protocolDirectFeePercent) (\<lambda>totalProtocolFeePercentage.
      Ok (totalProtocolFeePercentage, managerRevenueSharePercentage))))))"

definition getFees :: "address \<Rightarrow> address \<Rightarrow> int \<Rightarrow> int \<Rightarrow> int \<Rightarrow> int \<Rightarrow> 'x nav_evm \<Rightarrow> (int \<times> int \<times> int) result" where
  "getFees this self quantity protocolManagerFeeIndex protocolDirectFeeIndex managerFeeIndex e =
     rbind (getProtocolAndManagerFeePercentages this self protocolManagerFeeIndex protocolDirectFeeIndex managerFeeIndex e)
       (\<lambda>(protocolFeePercentage, managerFeePercentage).
     rbind (preciseMul_uint protocolFeePercentage quantity) (\<lambda>protocolFees.
     rbind (preciseMul_uint managerFeePercentage quantity) (\<lambda>managerFee.
     rbind (safe_sub quantity protocolFees) (\<lambda>n.
     rbind (safe_sub n managerFee) (\<lambda>netReserveFlow.
     Ok (protocolFees, managerFee, netReserveFlow))))))"

definition issue_fees :: "address \<Rightarrow> address \<Rightarrow> int \<Rightarrow> 'x nav_evm \<Rightarrow> (int \<times> int \<times> int) result" where
  "issue_fees this self quantity = getFees this self quantity
     PROTOCOL_ISSUE_MANAGER_REVENUE_SHARE_FEE_INDEX PROTOCOL_ISSUE_DIRECT_FEE_INDEX MANAGER_ISSUE_FEE_INDEX"

definition redeem_fees :: "address \<Rightarrow> address \<Rightarrow> int \<Rightarrow> 'x nav_evm \<Rightarrow> (int \<times> int \<times> int) result" where
  "redeem_fees this self quantity = getFees this self quantity
     PROTOCOL_REDEEM_MANAGER_REVENUE_SHARE_FEE_INDEX PROTOCOL_REDEEM_DIRECT_FEE_INDEX MANAGER_REDEEM_FEE_INDEX"

subsection \<open>Quantities\<close>

definition nav_getSetValuer :: "address \<Rightarrow> 'x nav_evm \<Rightarrow> address" where
  "nav_getSetValuer self e =
     (let customValuer = nav_setValuer (nav_of self e) in
      if customValuer = address_zero then rid_getSetValuer (the_controller e) else customValuer)"

definition getSetTokenMintQuantity :: "'x nav_calls \<Rightarrow> address \<Rightarrow> address \<Rightarrow> int \<Rightarrow> int \<Rightarrow> 'x nav_evm \<Rightarrow> int result" where
  "getSetTokenMintQuantity C self reserveAsset netReserveFlows supply e =
     rbind (preciseMul_uint netReserveFlows (getIssuePremium self reserveAsset netReserveFlows e)) (\<lambda>premiumValue.
     rbind (valuation_by C (nav_getSetValuer self e) self reserveAsset e) (\<lambda>setTokenValuation.
     rbind (decimals_of C reserveAsset e) (\<lambda>reserveAssetDecimals.
     let base = wrap_uint256 (10 ^ nat reserveAssetDecimals) in
     rbind (preciseDiv_uint netReserveFlows base) (\<lambda>normalizedNetFees.
     rbind (safe_sub netReserveFlows premiumValue) (\<lambda>netFeesAndPremium.
     rbind (preciseDiv_uint netFeesAndPremium base) (\<lambda>normalizedNetFeesAndPremium.
     rbind (preciseMul_uint supply setTokenValuation) (\<lambda>totalValue.
     rbind (safe_add totalValue normalizedNetFees) (\<lambda>x.
     rbind (safe_sub x normalizedNetFeesAndPremium) (\<lambda>denominator.
     rbind (preciseMul_uint normalizedNetFeesAndPremium supply) (\<lambda>numerator.
     preciseDiv_uint numerator denominator))))))))))"

definition getRedeemReserveQuantity :: "'x nav_calls \<Rightarrow> address \<Rightarrow> address \<Rightarrow> int \<Rightarrow> 'x nav_evm \<Rightarrow> int result" where
  "getRedeemReserveQuantity C self reserveAsset quantity e =
     rbind (valuation_by C (nav_getSetValuer self e) self reserveAsset e) (\<lambda>setTokenValuation.
     rbind (preciseMul_uint quantity setTokenValuation) (\<lambda>totalRedeemValue.
     rbind (decimals_of C reserveAsset e) (\<lambda>reserveAssetDecimals.
     rbind (preciseMul_uint totalRedeemValue (wrap_uint256 (10 ^ nat reserveAssetDecimals))) (\<lambda>prePremiumReserveQuantity.
     rbind (preciseMulCeil_uint prePremiumReserveQuantity (getRedeemPremium self reserveAsset quantity e)) (\<lambda>premiumQuantity.
     safe_sub prePremiumReserveQuantity premiumQuantity)))))"

text \<open>The multiplier times old supply over new supply, as signed numbers.\<close>

definition scaled_multiplier :: "set_token \<Rightarrow> int \<Rightarrow> int \<Rightarrow> int result" where
  "scaled_multiplier s previousSupply newSupply =
     rbind (toInt256 previousSupply) (\<lambda>p.
     rbind (smul (positionMultiplier s) p) (\<lambda>x.
     rbind (toInt256 newSupply) (\<lambda>n.
     sdiv x n)))"

definition getIssuePositionMultiplier :: "set_token \<Rightarrow> ActionInfo \<Rightarrow> (int \<times> int) result" where
  "getIssuePositionMultiplier s info =
     rbind (safe_add (setTokenQuantity info) (previousSetTokenSupply info)) (\<lambda>newTotalSupply.
     rbind (scaled_multiplier s (previousSetTokenSupply info) newTotalSupply) (\<lambda>m.
     Ok (newTotalSupply, m)))"

definition getRedeemPositionMultiplier :: "set_token \<Rightarrow> int \<Rightarrow> ActionInfo \<Rightarrow> (int \<times> int) result" where
  "getRedeemPositionMultiplier s quantity info =
     rbind (safe_sub (previousSetTokenSupply info) quantity) (\<lambda>newTotalSupply.
     rbind (scaled_multiplier s (previousSetTokenSupply info) newTotalSupply) (\<lambda>m.
     Ok (newTotalSupply, m)))"

definition getIssuePositionUnit :: "set_token \<Rightarrow> address \<Rightarrow> ActionInfo \<Rightarrow> int result" where
  "getIssuePositionUnit s reserveAsset info =
     rbind (getDefaultPositionRealUnit s reserveAsset) (\<lambda>u.
     rbind (toUint256 u) (\<lambda>existingUnit.
     rbind (preciseMul_uint existingUnit (previousSetTokenSupply info)) (\<lambda>x.
     rbind (safe_add x (netFlowQuantity info)) (\<lambda>totalReserve.
     preciseDiv_uint totalReserve (newSetTokenSupply info)))))"

definition getRedeemPositionUnit :: "set_token \<Rightarrow> address \<Rightarrow> ActionInfo \<Rightarrow> int result" where
  "getRedeemPositionUnit s reserveAsset info =
     rbind (getDefaultPositionRealUnit s reserveAsset) (\<lambda>u.
     rbind (toUint256 u) (\<lambda>existingUnit.
     rbind (preciseMul_uint existingUnit (previousSetTokenSupply info)) (\<lambda>totalExistingUnits.
     rbind (safe_add (netFlowQuantity info) (protocolFees info)) (\<lambda>x.
     rbind (safe_add x (managerFee info)) (\<lambda>outflow.
     rbind (require (totalExistingUnits \<ge> outflow) ''Must be greater than total available collateral'') (\<lambda>_.
     rbind (safe_sub totalExistingUnits outflow) (\<lambda>left.
     preciseDiv_uint left (newSetTokenSupply info))))))))"

text \<open>The fields are computed in the order of the code; a field not yet computed is zero.\<close>

definition createIssuanceInfo :: "'x nav_calls \<Rightarrow> address \<Rightarrow> address \<Rightarrow> address \<Rightarrow> int \<Rightarrow> 'x nav_evm \<Rightarrow> ActionInfo result" where
  "createIssuanceInfo C this self reserveAsset quantity e =
     (let s = the_set e; supply = totalSupply s in
      rbind (issue_fees this self quantity e) (\<lambda>(pf, mf, net).
      rbind (getSetTokenMintQuantity C self reserveAsset net supply e) (\<lambda>q.
      let info = \<lparr>preFeeReserveQuantity = quantity, protocolFees = pf, managerFee = mf, netFlowQuantity = net,
            setTokenQuantity = q, previousSetTokenSupply = supply, newSetTokenSupply = 0, newPositionMultiplier = 0,
            newReservePositionUnit = 0\<rparr> in
      rbind (getIssuePositionMultiplier s info) (\<lambda>(newSupply, m).
      let info = info\<lparr>newSetTokenSupply := newSupply, newPositionMultiplier := m\<rparr> in
      rbind (getIssuePositionUnit s reserveAsset info) (\<lambda>u.
      Ok (info\<lparr>newReservePositionUnit := u\<rparr>))))))"

definition createRedemptionInfo :: "'x nav_calls \<Rightarrow> address \<Rightarrow> address \<Rightarrow> address \<Rightarrow> int \<Rightarrow> 'x nav_evm \<Rightarrow> ActionInfo result" where
  "createRedemptionInfo C this self reserveAsset quantity e =
     (let s = the_set e in
      rbind (getRedeemReserveQuantity C self reserveAsset quantity e) (\<lambda>preFee.
      rbind (redeem_fees this self preFee e) (\<lambda>(pf, mf, net).
      let info = \<lparr>preFeeReserveQuantity = preFee, protocolFees = pf, managerFee = mf, netFlowQuantity = net,
            setTokenQuantity = quantity, previousSetTokenSupply = totalSupply s, newSetTokenSupply = 0,
            newPositionMultiplier = 0, newReservePositionUnit = 0\<rparr> in
      rbind (getRedeemPositionMultiplier s quantity info) (\<lambda>(newSupply, m).
      let info = info\<lparr>newSetTokenSupply := newSupply, newPositionMultiplier := m\<rparr> in
      rbind (getRedeemPositionUnit s reserveAsset info) (\<lambda>u.
      Ok (info\<lparr>newReservePositionUnit := u\<rparr>))))))"

subsection \<open>Guards and hooks\<close>

definition validateCommon :: "address \<Rightarrow> address \<Rightarrow> int \<Rightarrow> 'x nav_evm \<Rightarrow> unit result" where
  "validateCommon self reserveAsset quantity e =
     rbind (require (quantity > 0) ''Quantity must be > 0'') (\<lambda>_.
     require (reserve_of self e reserveAsset) ''Must be valid reserve asset'')"

definition validateIssuanceInfo :: "address \<Rightarrow> int \<Rightarrow> ActionInfo \<Rightarrow> 'x nav_evm \<Rightarrow> unit result" where
  "validateIssuanceInfo self minReceive info e =
     rbind (require (previousSetTokenSupply info \<ge> minSetTokenSupply (nav_of self e))
              ''Supply must be greater than minimum to enable issuance'') (\<lambda>_.
     require (setTokenQuantity info \<ge> minReceive) ''Must be greater than min SetToken'')"

definition validateRedemptionInfo :: "address \<Rightarrow> int \<Rightarrow> ActionInfo \<Rightarrow> 'x nav_evm \<Rightarrow> unit result" where
  "validateRedemptionInfo self minReceive info e =
     rbind (require (newSetTokenSupply info \<ge> minSetTokenSupply (nav_of self e))
              ''Supply must be greater than minimum to enable redemption'') (\<lambda>_.
     require (netFlowQuantity info \<ge> minReceive) ''Must be greater than min receive reserve quantity'')"

definition nav_callPreIssueHooks ::
  "'x nav_calls \<Rightarrow> address \<Rightarrow> address \<Rightarrow> int \<Rightarrow> address \<Rightarrow> address \<Rightarrow> 'x nav_evm \<Rightarrow> ('x nav_evm) result" where
  "nav_callPreIssueHooks C self reserveAsset quantity caller to_account e =
     (let preIssueHook = nav_managerIssuanceHook (nav_of self e) in
      if preIssueHook \<noteq> address_zero then nav_issue_hook C preIssueHook self reserveAsset quantity caller to_account e
      else Ok e)"

definition nav_callPreRedeemHooks :: "'x nav_calls \<Rightarrow> address \<Rightarrow> int \<Rightarrow> address \<Rightarrow> address \<Rightarrow> 'x nav_evm \<Rightarrow> ('x nav_evm) result" where
  "nav_callPreRedeemHooks C self quantity caller to_account e =
     (let preRedeemHook = nav_managerRedemptionHook (nav_of self e) in
      if preRedeemHook \<noteq> address_zero then nav_redeem_hook C preRedeemHook self quantity caller to_account e
      else Ok e)"

subsection \<open>Issuing and redeeming\<close>

definition transferCollateralAndHandleFees ::
  "'x nav_foreign \<Rightarrow> address \<Rightarrow> address \<Rightarrow> address \<Rightarrow> address \<Rightarrow> ActionInfo \<Rightarrow> 'x nav_evm \<Rightarrow> ('x nav_evm) result" where
  "transferCollateralAndHandleFees F this msg_sender self reserveAsset info e =
     rbind (base_transferFrom F this reserveAsset msg_sender self (netFlowQuantity info) e) (\<lambda>e1.
     rbind (if protocolFees info > 0
            then base_transferFrom F this reserveAsset msg_sender (ctl_feeRecipient (the_controller e1)) (protocolFees info) e1
            else Ok e1) (\<lambda>e2.
     if managerFee info > 0
     then base_transferFrom F this reserveAsset msg_sender (nav_feeRecipient (nav_of self e2)) (managerFee info) e2
     else Ok e2))"

definition transferWETHAndHandleFees ::
  "'x nav_calls \<Rightarrow> address \<Rightarrow> address \<Rightarrow> address \<Rightarrow> ActionInfo \<Rightarrow> 'x nav_evm \<Rightarrow> ('x nav_evm) result" where
  "transferWETHAndHandleFees C weth this self info e =
     rbind (weth_transfer C this weth self (netFlowQuantity info) e) (\<lambda>e1.
     rbind (if protocolFees info > 0
            then weth_transfer C this weth (ctl_feeRecipient (the_controller e1)) (protocolFees info) e1
            else Ok e1) (\<lambda>e2.
     if managerFee info > 0
     then weth_transfer C this weth (nav_feeRecipient (nav_of self e2)) (managerFee info) e2
     else Ok e2))"

definition handleIssueStateUpdates ::
  "address \<Rightarrow> address \<Rightarrow> address \<Rightarrow> ActionInfo \<Rightarrow> 'w evm \<Rightarrow> ('w evm) result" where
  "handleIssueStateUpdates this reserveAsset to_account info e =
     rbind (on_set (\<lambda>c. editPositionMultiplier this c (newPositionMultiplier info)) e) (\<lambda>e1.
     rbind (on_set (\<lambda>c. editDefaultPosition this c reserveAsset (newReservePositionUnit info)) e1) (\<lambda>e2.
     on_set (\<lambda>c. set_mint this c to_account (setTokenQuantity info)) e2))"

definition handleRedeemStateUpdates :: "address \<Rightarrow> address \<Rightarrow> ActionInfo \<Rightarrow> 'w evm \<Rightarrow> ('w evm) result" where
  "handleRedeemStateUpdates this reserveAsset info e =
     rbind (on_set (\<lambda>c. editPositionMultiplier this c (newPositionMultiplier info)) e) (\<lambda>e1.
     on_set (\<lambda>c. editDefaultPosition this c reserveAsset (newReservePositionUnit info)) e1)"

definition handleRedemptionFees ::
  "'x nav_foreign \<Rightarrow> address \<Rightarrow> address \<Rightarrow> address \<Rightarrow> ActionInfo \<Rightarrow> 'x nav_evm \<Rightarrow> ('x nav_evm) result" where
  "handleRedemptionFees F this self reserveAsset info e =
     rbind (payProtocolFeeFromSetToken F this self reserveAsset (protocolFees info) e) (\<lambda>e1.
     if managerFee info > 0
     then strictInvokeTransfer F this self reserveAsset (nav_feeRecipient (nav_of self e1)) (managerFee info) e1
     else Ok e1)"

definition nav_issue ::
  "'x nav_foreign \<Rightarrow> 'x nav_calls \<Rightarrow> address \<Rightarrow> address \<Rightarrow> address \<Rightarrow> address \<Rightarrow> int \<Rightarrow> int \<Rightarrow> address \<Rightarrow>
   'x nav_evm \<Rightarrow> ('x nav_evm) result" where
  "nav_issue F C this msg_sender self reserveAsset quantity minReceive to_account = nonReentrant (\<lambda>e.
     rbind (validateOnlyValidAndInitializedSet this (the_controller e) self (the_set e)) (\<lambda>_.
     rbind (validateCommon self reserveAsset quantity e) (\<lambda>_.
     rbind (nav_callPreIssueHooks C self reserveAsset quantity msg_sender to_account e) (\<lambda>e1.
     rbind (createIssuanceInfo C this self reserveAsset quantity e1) (\<lambda>info.
     rbind (validateIssuanceInfo self minReceive info e1) (\<lambda>_.
     rbind (transferCollateralAndHandleFees F this msg_sender self reserveAsset info e1)
       (handleIssueStateUpdates this reserveAsset to_account info)))))))"

text \<open>The Ether \<open>value\<close> of the call has been credited to the module when the body runs.\<close>

definition issueWithEther ::
  "'x nav_calls \<Rightarrow> address \<Rightarrow> address \<Rightarrow> address \<Rightarrow> address \<Rightarrow> int \<Rightarrow> int \<Rightarrow> address \<Rightarrow> 'x nav_evm \<Rightarrow> ('x nav_evm) result" where
  "issueWithEther C weth this msg_sender self msg_value minReceive to_account = nonReentrant (\<lambda>e.
     rbind (validateOnlyValidAndInitializedSet this (the_controller e) self (the_set e)) (\<lambda>_.
     rbind (weth_deposit C this weth msg_value e) (\<lambda>e0.
     rbind (validateCommon self weth msg_value e0) (\<lambda>_.
     rbind (nav_callPreIssueHooks C self weth msg_value msg_sender to_account e0) (\<lambda>e1.
     rbind (createIssuanceInfo C this self weth msg_value e1) (\<lambda>info.
     rbind (validateIssuanceInfo self minReceive info e1) (\<lambda>_.
     rbind (transferWETHAndHandleFees C weth this self info e1)
       (handleIssueStateUpdates this weth to_account info))))))))"

definition nav_redeem ::
  "'x nav_foreign \<Rightarrow> 'x nav_calls \<Rightarrow> address \<Rightarrow> address \<Rightarrow> address \<Rightarrow> address \<Rightarrow> int \<Rightarrow> int \<Rightarrow> address \<Rightarrow>
   'x nav_evm \<Rightarrow> ('x nav_evm) result" where
  "nav_redeem F C this msg_sender self reserveAsset quantity minReceive to_account = nonReentrant (\<lambda>e.
     rbind (validateOnlyValidAndInitializedSet this (the_controller e) self (the_set e)) (\<lambda>_.
     rbind (validateCommon self reserveAsset quantity e) (\<lambda>_.
     rbind (nav_callPreRedeemHooks C self quantity msg_sender to_account e) (\<lambda>e1.
     rbind (createRedemptionInfo C this self reserveAsset quantity e1) (\<lambda>info.
     rbind (validateRedemptionInfo self minReceive info e1) (\<lambda>_.
     rbind (on_set (\<lambda>c. set_burn this c msg_sender quantity) e1) (\<lambda>e2.
     rbind (strictInvokeTransfer F this self reserveAsset to_account (netFlowQuantity info) e2) (\<lambda>e3.
     rbind (handleRedemptionFees F this self reserveAsset info e3)
       (handleRedeemStateUpdates this reserveAsset info)))))))))"

definition redeemIntoEther ::
  "'x nav_foreign \<Rightarrow> 'x nav_calls \<Rightarrow> address \<Rightarrow> address \<Rightarrow> address \<Rightarrow> address \<Rightarrow> int \<Rightarrow> int \<Rightarrow> address \<Rightarrow>
   'x nav_evm \<Rightarrow> ('x nav_evm) result" where
  "redeemIntoEther F C weth this msg_sender self quantity minReceive to_account = nonReentrant (\<lambda>e.
     rbind (validateOnlyValidAndInitializedSet this (the_controller e) self (the_set e)) (\<lambda>_.
     rbind (validateCommon self weth quantity e) (\<lambda>_.
     rbind (nav_callPreRedeemHooks C self quantity msg_sender to_account e) (\<lambda>e1.
     rbind (createRedemptionInfo C this self weth quantity e1) (\<lambda>info.
     rbind (validateRedemptionInfo self minReceive info e1) (\<lambda>_.
     rbind (on_set (\<lambda>c. set_burn this c msg_sender quantity) e1) (\<lambda>e2.
     rbind (strictInvokeTransfer F this self weth this (netFlowQuantity info) e2) (\<lambda>e3.
     rbind (weth_withdraw C this weth (netFlowQuantity info) e3) (\<lambda>e4.
     rbind (send_ether C this to_account (netFlowQuantity info) e4) (\<lambda>e5.
     rbind (handleRedemptionFees F this self weth info e5)
       (handleRedeemStateUpdates this weth info)))))))))))"

subsection \<open>Views\<close>

definition nav_getExpectedSetTokenIssueQuantity :: "'x nav_calls \<Rightarrow> address \<Rightarrow> address \<Rightarrow> address \<Rightarrow> int \<Rightarrow> 'x nav_evm \<Rightarrow> int result" where
  "nav_getExpectedSetTokenIssueQuantity C this self reserveAsset quantity e =
     rbind (issue_fees this self quantity e) (\<lambda>(_, _, netReserveFlow).
     getSetTokenMintQuantity C self reserveAsset netReserveFlow (totalSupply (the_set e)) e)"

definition nav_getExpectedReserveRedeemQuantity :: "'x nav_calls \<Rightarrow> address \<Rightarrow> address \<Rightarrow> address \<Rightarrow> int \<Rightarrow> 'x nav_evm \<Rightarrow> int result" where
  "nav_getExpectedReserveRedeemQuantity C this self reserveAsset quantity e =
     rbind (getRedeemReserveQuantity C self reserveAsset quantity e) (\<lambda>preFeeReserveQuantity.
     rbind (redeem_fees this self preFeeReserveQuantity e) (\<lambda>(_, _, netReserveFlows). Ok netReserveFlows))"

definition isIssueValid :: "address \<Rightarrow> address \<Rightarrow> int \<Rightarrow> 'x nav_evm \<Rightarrow> bool" where
  "isIssueValid self reserveAsset quantity e \<longleftrightarrow>
     quantity \<noteq> 0 \<and> reserve_of self e reserveAsset \<and> totalSupply (the_set e) \<ge> minSetTokenSupply (nav_of self e)"

text \<open>\<open>||\<close> is lazy: the sum is computed only when the first two tests fail.\<close>

definition isRedeemValid :: "'x nav_calls \<Rightarrow> address \<Rightarrow> address \<Rightarrow> address \<Rightarrow> int \<Rightarrow> 'x nav_evm \<Rightarrow> bool result" where
  "isRedeemValid C this self reserveAsset quantity e =
     (let setTotalSupply = totalSupply (the_set e) in
      rbind (if quantity = 0 \<or> \<not> reserve_of self e reserveAsset then Ok True
             else rbind (safe_add (minSetTokenSupply (nav_of self e)) quantity) (\<lambda>x. Ok (setTotalSupply < x))) (\<lambda>refused.
      if refused then Ok False
      else
        rbind (getRedeemReserveQuantity C self reserveAsset quantity e) (\<lambda>totalRedeemValue.
        rbind (redeem_fees this self totalRedeemValue e) (\<lambda>(_, _, expectedRedeemQuantity).
        rbind (getDefaultPositionRealUnit (the_set e) reserveAsset) (\<lambda>u.
        rbind (toUint256 u) (\<lambda>existingUnit.
        rbind (preciseMul_uint existingUnit setTotalSupply) (\<lambda>x.
        Ok (x \<ge> expectedRedeemQuantity))))))))"

subsection \<open>Settings\<close>

definition addReserveAsset :: "address \<Rightarrow> address \<Rightarrow> address \<Rightarrow> address \<Rightarrow> 'x nav_evm \<Rightarrow> ('x nav_evm) result" where
  "addReserveAsset this msg_sender self a e =
     rbind (validateOnlyManagerAndValidSet this msg_sender (the_controller e) self (the_set e)) (\<lambda>_.
     rbind (require (\<not> reserve_of self e a) ''Reserve asset already exists'') (\<lambda>_.
     Ok (flag_reserve self a True (write_nav self (\<lambda>x. x\<lparr>reserveAssets := reserveAssets x @ [a]\<rparr>) e))))"

definition removeReserveAsset :: "address \<Rightarrow> address \<Rightarrow> address \<Rightarrow> address \<Rightarrow> 'x nav_evm \<Rightarrow> ('x nav_evm) result" where
  "removeReserveAsset this msg_sender self a e =
     rbind (validateOnlyManagerAndValidSet this msg_sender (the_controller e) self (the_set e)) (\<lambda>_.
     rbind (require (reserve_of self e a) ''Reserve asset does not exist'') (\<lambda>_.
     rbind (remove (reserveAssets (nav_of self e)) a) (\<lambda>as.
     Ok (flag_reserve self a False (write_nav self (\<lambda>x. x\<lparr>reserveAssets := as\<rparr>) e)))))"

definition editPremium :: "address \<Rightarrow> address \<Rightarrow> address \<Rightarrow> int \<Rightarrow> 'x nav_evm \<Rightarrow> ('x nav_evm) result" where
  "editPremium this msg_sender self n e =
     rbind (validateOnlyManagerAndValidSet this msg_sender (the_controller e) self (the_set e)) (\<lambda>_.
     rbind (require (n \<le> maxPremiumPercentage (nav_of self e)) ''Premium must be less than maximum allowed'') (\<lambda>_.
     Ok (write_nav self (\<lambda>x. x\<lparr>premiumPercentage := n\<rparr>) e)))"

text \<open>An index beyond the two fees is an invalid access.\<close>

definition editManagerFee :: "address \<Rightarrow> address \<Rightarrow> address \<Rightarrow> int \<Rightarrow> int \<Rightarrow> 'x nav_evm \<Rightarrow> ('x nav_evm) result" where
  "editManagerFee this msg_sender self n i e =
     rbind (validateOnlyManagerAndValidSet this msg_sender (the_controller e) self (the_set e)) (\<lambda>_.
     rbind (require (n \<le> nav_maxManagerFee (nav_of self e)) ''Manager fee must be less than maximum allowed'') (\<lambda>_.
     rbind (array_get (managerFees (nav_of self e)) (nat i)) (\<lambda>_.
     Ok (write_nav self (\<lambda>x. x\<lparr>managerFees := (managerFees x)[nat i := n]\<rparr>) e))))"

definition nav_editFeeRecipient :: "address \<Rightarrow> address \<Rightarrow> address \<Rightarrow> address \<Rightarrow> 'x nav_evm \<Rightarrow> ('x nav_evm) result" where
  "nav_editFeeRecipient this msg_sender self a e =
     rbind (validateOnlyManagerAndValidSet this msg_sender (the_controller e) self (the_set e)) (\<lambda>_.
     rbind (require (a \<noteq> address_zero) ''Fee recipient must not be 0 address'') (\<lambda>_.
     Ok (write_nav self (\<lambda>x. x\<lparr>nav_feeRecipient := a\<rparr>) e)))"

fun reserve_loop :: "address \<Rightarrow> address list \<Rightarrow> 'x nav_evm \<Rightarrow> ('x nav_evm) result" where
  "reserve_loop self [] e = Ok e"
| "reserve_loop self (a # as) e =
     rbind (require (\<not> reserve_of self e a) ''Reserve assets must be unique'') (\<lambda>_.
     reserve_loop self as (flag_reserve self a True e))"

definition nav_initialize :: "address \<Rightarrow> address \<Rightarrow> address \<Rightarrow> NAVIssuanceSettings \<Rightarrow> 'x nav_evm \<Rightarrow> ('x nav_evm) result" where
  "nav_initialize this msg_sender self settings e =
     rbind (validateOnlySetManager msg_sender (the_set e)) (\<lambda>_.
     rbind (validateOnlyValidAndPendingSet this (the_controller e) self (the_set e)) (\<lambda>_.
     rbind (require (length (reserveAssets settings) > 0) ''Reserve assets must be greater than 0'') (\<lambda>_.
     rbind (require (nav_maxManagerFee settings < preciseUnit) ''Max manager fee must be less than 100%'') (\<lambda>_.
     rbind (require (maxPremiumPercentage settings < preciseUnit) ''Max premium percentage must be less than 100%'') (\<lambda>_.
     rbind (array_get (managerFees settings) 0) (\<lambda>issueFee.
     rbind (require (issueFee \<le> nav_maxManagerFee settings) ''Manager issue fee must be less than max'') (\<lambda>_.
     rbind (array_get (managerFees settings) 1) (\<lambda>redeemFee.
     rbind (require (redeemFee \<le> nav_maxManagerFee settings) ''Manager redeem fee must be less than max'') (\<lambda>_.
     rbind (require (premiumPercentage settings \<le> maxPremiumPercentage settings) ''Premium must be less than max'') (\<lambda>_.
     rbind (require (nav_feeRecipient settings \<noteq> address_zero) ''Fee Recipient must be non-zero address.'') (\<lambda>_.
     rbind (require (minSetTokenSupply settings > 0) ''Min SetToken supply must be greater than 0'') (\<lambda>_.
     rbind (reserve_loop self (reserveAssets settings) e) (\<lambda>e1.
     on_set (\<lambda>c. initializeModule this) (write_nav self (\<lambda>_. settings) e1))))))))))))))"

text \<open>Called by the Set, whose address \<open>msg.sender\<close> is \<open>self\<close>.\<close>

definition nav_removeModule :: "address \<Rightarrow> 'x nav_evm \<Rightarrow> ('x nav_evm) result" where
  "nav_removeModule self e =
     Ok (write_nav self (\<lambda>_. no_nav) (fold (\<lambda>a. flag_reserve self a False) (reserveAssets (nav_of self e)) e))"

subsection \<open>What the computations yield\<close>

definition nav_typed :: "NAVIssuanceSettings \<Rightarrow> bool" where
  "nav_typed x \<longleftrightarrow> is_uint256 (premiumPercentage x) \<and> is_uint256 (minSetTokenSupply x) \<and> (\<forall>n \<in> set (managerFees x). is_uint256 n)"

lemma uint_steps:
  assumes "is_uint256 a" "is_uint256 b"
  shows "preciseMul_uint a b = Inr c \<Longrightarrow> c = a * b div PRECISE_UNIT \<and> is_uint256 c"
    and "preciseMulCeil_uint a b = Inr c \<Longrightarrow> c = - ((- (a * b)) div PRECISE_UNIT) \<and> is_uint256 c"
    and "preciseDiv_uint a b = Inr c \<Longrightarrow> 0 < b \<and> c = a * PRECISE_UNIT div b \<and> is_uint256 c"
    and "safe_add a b = Inr c \<Longrightarrow> c = a + b \<and> is_uint256 c"
    and "safe_sub a b = Inr c \<Longrightarrow> b \<le> a \<and> c = a - b \<and> is_uint256 c"
proof -
  have nn: "0 \<le> a" "0 \<le> b" "0 \<le> a * b" using assms by (simp_all add: is_uint256_def)
  show "preciseMul_uint a b = Inr c \<Longrightarrow> c = a * b div PRECISE_UNIT \<and> is_uint256 c"
    using assms by (auto simp: preciseMul_uint_eq_Inr intro!: is_uint256_div is_uint256_mult)
  show "preciseMulCeil_uint a b = Inr c \<Longrightarrow> c = - ((- (a * b)) div PRECISE_UNIT) \<and> is_uint256 c"
    using assms deposit_quantity_typed [OF assms] by (auto simp: preciseMulCeil_uint_exact deposit_quantity_def split: if_splits)
  show "preciseDiv_uint a b = Inr c \<Longrightarrow> 0 < b \<and> c = a * PRECISE_UNIT div b \<and> is_uint256 c"
    using assms preciseDiv_uint_typed [OF assms] nn(2) by (auto simp: preciseDiv_uint_eq_Inr)
  show "safe_add a b = Inr c \<Longrightarrow> c = a + b \<and> is_uint256 c"
    using assms by (auto simp: safe_add_eq_Inr intro: is_uint256_add)
  show "safe_sub a b = Inr c \<Longrightarrow> b \<le> a \<and> c = a - b \<and> is_uint256 c"
    using assms by (auto simp: safe_sub_eq_Inr intro: is_uint256_diff)
qed

lemma getFees_percent:
  assumes "getFees this self q i j k e = Inr (pf, mf, net)" "is_uint256 q" "nav_typed (nav_of self e)"
    "\<And>i. is_uint256 (getModuleFee (the_controller e) this i)"
  obtains tp mp where "getProtocolAndManagerFeePercentages this self i j k e = Inr (tp, mp)" "0 \<le> tp" "0 \<le> mp"
    "pf = tp * q div PRECISE_UNIT" "mf = mp * q div PRECISE_UNIT" "is_uint256 pf" "is_uint256 mf" "is_uint256 net" "pf + mf + net = q"
proof -
  obtain fee sh mp tp n where fee: "getManagerFee self k e = Inr fee"
    and sh: "preciseMul_uint (getModuleFee (the_controller e) this i) fee = Inr sh" and mp: "safe_sub fee sh = Inr mp"
    and tp: "safe_add sh (getModuleFee (the_controller e) this j) = Inr tp"
    and pf: "preciseMul_uint tp q = Inr pf" and mf: "preciseMul_uint mp q = Inr mf"
    and n: "safe_sub q pf = Inr n" and net: "safe_sub n mf = Inr net"
    using assms(1) by (auto simp: getFees_def getProtocolAndManagerFeePercentages_def Let_def rbind_eq_Inr)
  have ty: "is_uint256 fee" using fee assms(3) by (auto simp: getManagerFee_def array_get_eq_Inr nav_typed_def)
  have "is_uint256 sh" using uint_steps(1) [OF assms(4) ty sh] by blast
  moreover have "is_uint256 mp" using uint_steps(5) [OF ty calculation mp] by blast
  moreover have "is_uint256 tp" using uint_steps(4) [OF calculation(1) assms(4) tp] by blast
  ultimately have P: "pf = tp * q div PRECISE_UNIT" "is_uint256 pf" "mf = mp * q div PRECISE_UNIT" "is_uint256 mf" "0 \<le> tp" "0 \<le> mp"
    using uint_steps(1) [OF _ assms(2) pf] uint_steps(1) [OF _ assms(2) mf] by (simp_all add: is_uint256_def)
  have N: "n = q - pf" "is_uint256 n" using uint_steps(5) [OF assms(2) P(2) n] by blast+
  have "is_uint256 net" "pf + mf + net = q" using uint_steps(5) [OF N(2) P(4) net] N(1) by auto
  moreover have "getProtocolAndManagerFeePercentages this self i j k e = Inr (tp, mp)"
    using fee sh mp tp by (simp add: getProtocolAndManagerFeePercentages_def)
  ultimately show thesis using that P by blast
qed

lemma getFees_Inr:
  assumes "getFees this self q i j k e = Inr (pf, mf, net)" "is_uint256 q" "nav_typed (nav_of self e)"
    "\<And>i. is_uint256 (getModuleFee (the_controller e) this i)"
  shows "is_uint256 pf \<and> is_uint256 mf \<and> is_uint256 net \<and> pf + mf + net = q"
  by (rule getFees_percent [OF assms]) blast

text \<open>Minted Sets against the amount left after fees and premium: \<open>t\<close> is the value of the supply.\<close>

lemma mint_share:
  fixes S V net p b U n1 n2 q :: int
  assumes U: "0 < U" and b: "0 < b" and nn: "0 \<le> S" "0 \<le> V" "0 \<le> p" "p \<le> net"
    and n: "n1 = net * U div b" "n2 = (net - p) * U div b"
    and D: "0 < S * V div U + n1 - n2" and q: "q = n2 * S div U * U div (S * V div U + n1 - n2)"
  shows "q * V * b * S \<le> ((net - p) * S * U + q * b) * U"
proof -
  let ?t = "S * V div U" and ?D = "S * V div U + n1 - n2"
  have le: "n2 \<le> n1" unfolding n using nn b U by (intro zdiv_mono1 mult_right_mono) simp_all
  have n2: "0 \<le> n2" "n2 * b \<le> (net - p) * U" unfolding n(2) using nn b U by (simp_all add: pos_imp_zdiv_nonneg_iff div_mult_le_int)
  have q0: "0 \<le> q" unfolding q using D n2 nn U by (simp add: pos_imp_zdiv_nonneg_iff)
  have "q * ?t \<le> q * ?D" using le q0 by (intro mult_left_mono) simp_all
  also have "\<dots> \<le> n2 * S div U * U" unfolding q using D by (rule div_mult_le_int)
  also have "\<dots> \<le> n2 * S" using U by (rule div_mult_le_int)
  finally have qt: "q * ?t \<le> n2 * S" .
  have "S * V \<le> (?t + 1) * U" using less_div_mult_int [OF U, of "S * V"] by simp
  then have "q * (S * V) \<le> q * ((?t + 1) * U)" using q0 by (rule mult_left_mono)
  also have "\<dots> = (q * ?t + q) * U" by (simp add: algebra_simps)
  also have "\<dots> \<le> (n2 * S + q) * U" using qt U by simp
  finally have "q * (S * V) * b \<le> (n2 * S + q) * U * b" using b by simp
  also have "\<dots> = (n2 * b * S + q * b) * U" by (simp add: algebra_simps)
  also have "\<dots> \<le> ((net - p) * U * S + q * b) * U" using n2(2) nn(1) U by (intro mult_right_mono add_right_mono) simp_all
  finally show ?thesis by (simp add: ac_simps)
qed

lemma mint_steps:
  assumes "getSetTokenMintQuantity C self a net supply e = Inr q" "is_uint256 net" "is_uint256 supply" "nav_typed (nav_of self e)"
    "\<And>v V. valuation_by C v self a e = Inr V \<Longrightarrow> is_uint256 V"
  obtains V d p b n1 n2 where "valuation_by C (nav_getSetValuer self e) self a e = Inr V" "decimals_of C a e = Inr d"
    "b = wrap_uint256 (10 ^ nat d)" "p = net * premiumPercentage (nav_of self e) div PRECISE_UNIT" "0 \<le> p" "p \<le> net" "0 < b" "0 \<le> V"
    "n1 = net * PRECISE_UNIT div b" "n2 = (net - p) * PRECISE_UNIT div b" "0 < supply * V div PRECISE_UNIT + n1 - n2"
    "q = n2 * supply div PRECISE_UNIT * PRECISE_UNIT div (supply * V div PRECISE_UNIT + n1 - n2)" "is_uint256 q"
proof -
  obtain p V d n1 n' n2 t x D m where st: "preciseMul_uint net (premiumPercentage (nav_of self e)) = Inr p"
    "valuation_by C (nav_getSetValuer self e) self a e = Inr V" "decimals_of C a e = Inr d"
    "preciseDiv_uint net (wrap_uint256 (10 ^ nat d)) = Inr n1" "safe_sub net p = Inr n'"
    "preciseDiv_uint n' (wrap_uint256 (10 ^ nat d)) = Inr n2" "preciseMul_uint supply V = Inr t" "safe_add t n1 = Inr x"
    "safe_sub x n2 = Inr D" "preciseMul_uint n2 supply = Inr m" "preciseDiv_uint m D = Inr q"
    using assms(1) by (auto simp: getSetTokenMintQuantity_def getIssuePremium_def Let_def rbind_eq_Inr)
  let ?b = "wrap_uint256 (10 ^ nat d)"
  have b: "is_uint256 ?b" by (simp add: wrap_uint256_def is_uint256_def)
  have prem: "is_uint256 (premiumPercentage (nav_of self e))" using assms(4) by (simp add: nav_typed_def)
  note V = assms(5) [OF st(2)]
  note p = uint_steps(1) [OF assms(2) prem st(1)]
  note n1 = uint_steps(3) [OF assms(2) b st(4)]
  note n' = uint_steps(5) [OF assms(2) conjunct2 [OF p] st(5)]
  then have tn': "is_uint256 n'" by blast
  note n2 = uint_steps(3) [OF tn' b st(6)]
  note t = uint_steps(1) [OF assms(3) V st(7)]
  have tn: "is_uint256 n1" "is_uint256 n2" "is_uint256 t" using n1 n2 t by blast+
  note x = uint_steps(4) [OF tn(3,1) st(8)]
  note D = uint_steps(5) [OF conjunct2 [OF x] tn(2) st(9)]
  then have tD: "is_uint256 D" by blast
  note m = uint_steps(1) [OF tn(2) assms(3) st(10)]
  note q = uint_steps(3) [OF conjunct2 [OF m] tD st(11)]
  have E: "n1 = net * PRECISE_UNIT div ?b" "n2 = (net - p) * PRECISE_UNIT div ?b" "D = supply * V div PRECISE_UNIT + n1 - n2"
    "m = n2 * supply div PRECISE_UNIT" using n1 n' n2 t x D m by metis+
  have "0 \<le> V" "0 \<le> p" "0 < D" "q = n2 * supply div PRECISE_UNIT * PRECISE_UNIT div (supply * V div PRECISE_UNIT + n1 - n2)"
    using V p q unfolding E(3,4) by (simp_all add: is_uint256_def)
  then show thesis using that [OF st(2,3) refl conjunct1 [OF p] _ _ _ _ E(1,2)] n1 n' q unfolding E(3) by blast
qed

lemma getSetTokenMintQuantity_Inr:
  assumes "getSetTokenMintQuantity C self a net supply e = Inr q" "is_uint256 net" "is_uint256 supply" "nav_typed (nav_of self e)"
    "\<And>v V. valuation_by C v self a e = Inr V \<Longrightarrow> is_uint256 V"
  obtains V d p where "valuation_by C (nav_getSetValuer self e) self a e = Inr V" "decimals_of C a e = Inr d"
    "p = net * premiumPercentage (nav_of self e) div PRECISE_UNIT" "0 \<le> p" "p \<le> net" "0 < wrap_uint256 (10 ^ nat d)" "is_uint256 q"
    "q * V * wrap_uint256 (10 ^ nat d) * supply \<le> ((net - p) * supply * PRECISE_UNIT + q * wrap_uint256 (10 ^ nat d)) * PRECISE_UNIT"
proof (rule mint_steps [OF assms])
  fix V d p b n1 n2 :: int
  assume *: "valuation_by C (nav_getSetValuer self e) self a e = Inr V" "decimals_of C a e = Inr d" "b = wrap_uint256 (10 ^ nat d)"
    "p = net * premiumPercentage (nav_of self e) div PRECISE_UNIT" "0 \<le> p" "p \<le> net" "0 < b" "0 \<le> V"
    "n1 = net * PRECISE_UNIT div b" "n2 = (net - p) * PRECISE_UNIT div b" "0 < supply * V div PRECISE_UNIT + n1 - n2"
    "q = n2 * supply div PRECISE_UNIT * PRECISE_UNIT div (supply * V div PRECISE_UNIT + n1 - n2)" "is_uint256 q"
  have "0 \<le> supply" using assms(3) by (simp add: is_uint256_def)
  from mint_share [OF _ *(7) this *(8,5,6,9-12)] show thesis using that [OF *(1,2,4-6)] *(3,7,13) by simp
qed

lemma redeem_quantity_steps:
  assumes "getRedeemReserveQuantity C self a q e = Inr r" "is_uint256 q" "nav_typed (nav_of self e)"
    "\<And>v V. valuation_by C v self a e = Inr V \<Longrightarrow> is_uint256 V"
  obtains V d t r0 p where "valuation_by C (nav_getSetValuer self e) self a e = Inr V" "decimals_of C a e = Inr d" "0 \<le> V"
    "t = q * V div PRECISE_UNIT" "0 \<le> t" "r0 = t * wrap_uint256 (10 ^ nat d) div PRECISE_UNIT" "0 \<le> r0"
    "p = - ((- (r0 * premiumPercentage (nav_of self e))) div PRECISE_UNIT)" "p \<le> r0" "r = r0 - p" "is_uint256 r"
proof -
  obtain V t d r0 p where st: "valuation_by C (nav_getSetValuer self e) self a e = Inr V" "preciseMul_uint q V = Inr t"
    "decimals_of C a e = Inr d" "preciseMul_uint t (wrap_uint256 (10 ^ nat d)) = Inr r0"
    "preciseMulCeil_uint r0 (premiumPercentage (nav_of self e)) = Inr p" "safe_sub r0 p = Inr r"
    using assms(1) by (auto simp: getRedeemReserveQuantity_def getRedeemPremium_def Let_def rbind_eq_Inr)
  have b: "is_uint256 (wrap_uint256 (10 ^ nat d))" by (simp add: wrap_uint256_def is_uint256_def)
  have prem: "is_uint256 (premiumPercentage (nav_of self e))" using assms(3) by (simp add: nav_typed_def)
  note V = assms(4) [OF st(1)]
  note t = uint_steps(1) [OF assms(2) V st(2)]
  note r0 = uint_steps(1) [OF conjunct2 [OF t] b st(4)]
  note p = uint_steps(2) [OF conjunct2 [OF r0] prem st(5)]
  note r = uint_steps(5) [OF conjunct2 [OF r0] conjunct2 [OF p] st(6)]
  show thesis
    by (rule that [OF st(1,3) _ conjunct1 [OF t] _ conjunct1 [OF r0] _ conjunct1 [OF p]]) (use V t r0 p r in \<open>simp_all add: is_uint256_def\<close>)
qed

lemma getRedeemReserveQuantity_Inr:
  assumes "getRedeemReserveQuantity C self a q e = Inr r" "is_uint256 q" "nav_typed (nav_of self e)"
    "\<And>v V. valuation_by C v self a e = Inr V \<Longrightarrow> is_uint256 V"
  obtains V d where "valuation_by C (nav_getSetValuer self e) self a e = Inr V" "decimals_of C a e = Inr d" "is_uint256 r"
    "premiumPercentage (nav_of self e) \<le> PRECISE_UNIT \<Longrightarrow> r * PRECISE_UNIT ^ 3
       \<le> q * V * wrap_uint256 (10 ^ nat d) * (PRECISE_UNIT - premiumPercentage (nav_of self e))"
proof (rule redeem_quantity_steps [OF assms])
  let ?U = "PRECISE_UNIT :: int" and ?prem = "premiumPercentage (nav_of self e)"
  fix V d t r0 p :: int
  let ?b = "wrap_uint256 (10 ^ nat d)"
  assume *: "valuation_by C (nav_getSetValuer self e) self a e = Inr V" "decimals_of C a e = Inr d" "0 \<le> V" "t = q * V div ?U" "0 \<le> t"
    "r0 = t * ?b div ?U" "0 \<le> r0" "p = - ((- (r0 * ?prem)) div ?U)" "p \<le> r0" "r = r0 - p" "is_uint256 r"
  have nn: "0 \<le> ?b" "0 \<le> ?prem" using assms(3) by (simp_all add: nav_typed_def is_uint256_def wrap_uint256_def)
  have "r0 * ?prem \<le> p * ?U" using deposit_quantity_bounds(3) [of r0 ?prem] nn *(7,8) by (simp add: deposit_quantity_def)
  then have rU: "r * ?U \<le> r0 * (?U - ?prem)" using *(10) by (simp add: algebra_simps)
  have r0U: "r0 * ?U * ?U \<le> q * V * ?b"
  proof -
    have "r0 * ?U \<le> t * ?b" unfolding *(6) by (rule div_mult_le_int) simp
    then have "r0 * ?U * ?U \<le> t * ?b * ?U" by simp
    also have "\<dots> = t * ?U * ?b" by simp
    also have "\<dots> \<le> q * V * ?b" unfolding *(4) using nn(1) by (intro mult_right_mono div_mult_le_int) simp_all
    finally show ?thesis .
  qed
  show thesis
  proof (rule that [OF *(1,2,11)])
    assume le: "?prem \<le> ?U"
    have "r * ?U * (?U * ?U) \<le> r0 * (?U - ?prem) * (?U * ?U)" using rU by (intro mult_right_mono) simp_all
    also have "\<dots> = r0 * ?U * ?U * (?U - ?prem)" by (simp add: ac_simps)
    also have "\<dots> \<le> q * V * ?b * (?U - ?prem)" using r0U le by (intro mult_right_mono) simp_all
    finally show "r * ?U ^ 3 \<le> q * V * ?b * (?U - ?prem)" by (simp add: power3_eq_cube ac_simps)
  qed
qed

subsection \<open>The Set\<close>

text \<open>A balance backs a position: supply times virtual unit times multiplier, all unrounded, is covered.\<close>

definition backs :: "int \<Rightarrow> set_token \<Rightarrow> address \<Rightarrow> bool" where
  "backs b s k \<longleftrightarrow> totalSupply s * (virtualUnit (componentPositions s k) * positionMultiplier s) \<le> b * PRECISE_UNIT * PRECISE_UNIT"

lemma backs_kept:
  assumes "backs b s k" "virtualUnit (componentPositions s' k) = virtualUnit (componentPositions s k)" "0 \<le> b" "b \<le> b'"
    "0 \<le> totalSupply s' * positionMultiplier s'" "totalSupply s' * positionMultiplier s' \<le> totalSupply s * positionMultiplier s"
  shows "backs b' s' k"
proof -
  let ?v = "virtualUnit (componentPositions s k)"
  have le: "b * PRECISE_UNIT * PRECISE_UNIT \<le> b' * PRECISE_UNIT * PRECISE_UNIT" using assms(4) by simp
  have "?v * (totalSupply s' * positionMultiplier s') \<le> b * PRECISE_UNIT * PRECISE_UNIT"
  proof (cases "0 \<le> ?v")
    case True
    then have "?v * (totalSupply s' * positionMultiplier s') \<le> ?v * (totalSupply s * positionMultiplier s)"
      using assms(6) by (intro mult_left_mono)
    then show ?thesis using assms(1) by (simp add: backs_def ac_simps)
  next
    case False
    then have "?v * (totalSupply s' * positionMultiplier s') \<le> 0" using assms(5) by (intro mult_nonpos_nonneg) simp_all
    then show ?thesis using assms(3) by simp
  qed
  then show ?thesis using le by (simp add: backs_def assms(2) ac_simps)
qed

lemma backs_written:
  assumes "virtualUnit (componentPositions s k) * positionMultiplier s \<le> u * PRECISE_UNIT" "totalSupply s * u \<le> b * PRECISE_UNIT"
    "0 \<le> totalSupply s"
  shows "backs b s k"
proof -
  have "totalSupply s * (virtualUnit (componentPositions s k) * positionMultiplier s) \<le> totalSupply s * (u * PRECISE_UNIT)"
    using assms(1,3) by (rule mult_left_mono)
  also have "\<dots> = totalSupply s * u * PRECISE_UNIT" by simp
  also have "\<dots> \<le> b * PRECISE_UNIT * PRECISE_UNIT" using assms(2) by (rule mult_right_mono) simp
  finally show ?thesis by (simp add: backs_def)
qed

lemma backs_unit:
  assumes "backs b s k" "position_inv s" "getDefaultPositionRealUnit s k = Inr u" "0 \<le> totalSupply s"
  shows "u * totalSupply s div PRECISE_UNIT \<le> b"
proof -
  have u: "u = virtualUnit (componentPositions s k) * positionMultiplier s div PRECISE_UNIT_INT"
    using real_unit_typed [OF assms(2,3)] by blast
  have "u * PRECISE_UNIT \<le> virtualUnit (componentPositions s k) * positionMultiplier s" unfolding u by (rule div_mult_le_int) simp
  then have "totalSupply s * (u * PRECISE_UNIT) \<le> b * PRECISE_UNIT * PRECISE_UNIT"
    using order_trans [OF mult_left_mono [OF _ assms(4)]] assms(1) by (simp add: backs_def)
  then have "(u * totalSupply s) * PRECISE_UNIT \<le> (b * PRECISE_UNIT) * PRECISE_UNIT" by (simp add: ac_simps)
  then have "u * totalSupply s \<le> b * PRECISE_UNIT" by (rule mult_right_le_imp_le) simp
  then have "u * totalSupply s div PRECISE_UNIT \<le> b * PRECISE_UNIT div PRECISE_UNIT" by (rule zdiv_mono1) simp
  then show ?thesis by simp
qed

lemma editDefaultPosition_written:
  assumes "set_inv s" "0 \<le> n" "editDefaultPosition this c k n s = Inr s'"
  shows "set_inv s' \<and> virtualUnit (componentPositions s' k) * positionMultiplier s' \<le> n * PRECISE_UNIT"
proof -
  obtain s1 where s1: "s1 = s \<or> addComponent this c k s = Inr s1 \<or> removeComponent this c k s = Inr s1"
    and e: "editDefaultPositionUnit this c k n s1 = Inr s'" and n: "is_int256 n"
    using assms(2,3) by (auto simp: editDefaultPosition_def rbind_eq_Inr toInt256_eq_Inr is_int256_def split: if_splits)
  have inv: "set_inv s1" using s1 assms(1) set_inv_exec [of s "AddComponent k" this c s1] set_inv_exec [of s "RemoveComponent k" this c s1] by auto
  then have u: "units_ok s1" by (simp add: set_inv_def position_inv_def)
  obtain v where v: "convertRealToVirtualUnit s1 n = Inr v"
    and s': "s' = s1\<lparr>componentPositions := (componentPositions s1)(k := (componentPositions s1 k)\<lparr>virtualUnit := v\<rparr>)\<rparr>"
    using editDefaultPositionUnit_Inr [OF e] by blast
  have "v * positionMultiplier s1 \<le> n * PRECISE_UNIT"
    using convertRealToVirtualUnit_typed [OF u n v] u div_mult_le_int [of "positionMultiplier s1" "n * PRECISE_UNIT"] by (simp add: units_ok_def)
  then show ?thesis using set_inv_exec [OF inv, of "EditDefaultPositionUnit k n"] n e by (simp add: s')
qed

lemma scaled_multiplier_Inr:
  assumes "scaled_multiplier s S S' = Inr m" "units_ok s" "0 \<le> S" "0 \<le> S'"
  shows "0 < S' \<and> is_int256 m \<and> 0 \<le> m \<and> m * S' \<le> positionMultiplier s * S"
proof -
  have m: "S' \<noteq> 0" "is_int256 m" "m = tdiv (positionMultiplier s * S) S'"
    using assms(1) by (auto simp: scaled_multiplier_def result_simps)
  have p: "0 \<le> positionMultiplier s * S" using assms(2,3) by (simp add: units_ok_def)
  then have "m = positionMultiplier s * S div S'" using m assms(4) by (simp add: tdiv_nonneg)
  then show ?thesis using m(1,2) p assms(4) div_mult_le_int [of S' "positionMultiplier s * S"] by (simp add: pos_imp_zdiv_nonneg_iff)
qed

lemma issue_unit_Inr:
  assumes "getIssuePositionUnit s a info = Inr u" "position_inv s" "is_uint256 (previousSetTokenSupply info)"
    "is_uint256 (netFlowQuantity info)" "is_uint256 (newSetTokenSupply info)"
  obtains r where "getDefaultPositionRealUnit s a = Inr r" "0 \<le> u"
    "newSetTokenSupply info * u \<le> (r * previousSetTokenSupply info div PRECISE_UNIT + netFlowQuantity info) * PRECISE_UNIT"
proof -
  obtain r n x t where st: "getDefaultPositionRealUnit s a = Inr r" "toUint256 r = Inr n"
    "preciseMul_uint n (previousSetTokenSupply info) = Inr x" "safe_add x (netFlowQuantity info) = Inr t"
    "preciseDiv_uint t (newSetTokenSupply info) = Inr u"
    using assms(1) by (auto simp: getIssuePositionUnit_def rbind_eq_Inr)
  have n: "n = r" "is_uint256 n" using real_unit_Inr [OF assms(2) st(1,2)] by auto
  note x = uint_steps(1) [OF n(2) assms(3) st(3)]
  note t = uint_steps(4) [OF conjunct2 [OF x] assms(4) st(4)]
  note u = uint_steps(3) [OF conjunct2 [OF t] assms(5) st(5)]
  have "0 \<le> u" using u by (simp add: is_uint256_def)
  moreover have "newSetTokenSupply info * u \<le> t * PRECISE_UNIT"
    using u div_mult_le_int [of "newSetTokenSupply info" "t * PRECISE_UNIT"] by (simp add: mult.commute)
  ultimately show thesis using that [OF st(1)] x t n(1) by simp
qed

lemma redeem_unit_Inr:
  assumes "getRedeemPositionUnit s a info = Inr u" "position_inv s" "is_uint256 (previousSetTokenSupply info)"
    "is_uint256 (netFlowQuantity info)" "is_uint256 (protocolFees info)" "is_uint256 (managerFee info)" "is_uint256 (newSetTokenSupply info)"
  obtains r where "getDefaultPositionRealUnit s a = Inr r" "0 \<le> u"
    "netFlowQuantity info + protocolFees info + managerFee info \<le> r * previousSetTokenSupply info div PRECISE_UNIT"
    "newSetTokenSupply info * u \<le> (r * previousSetTokenSupply info div PRECISE_UNIT
       - (netFlowQuantity info + protocolFees info + managerFee info)) * PRECISE_UNIT"
proof -
  obtain r n x y out l where st: "getDefaultPositionRealUnit s a = Inr r" "toUint256 r = Inr n"
    "preciseMul_uint n (previousSetTokenSupply info) = Inr x" "safe_add (netFlowQuantity info) (protocolFees info) = Inr y"
    "safe_add y (managerFee info) = Inr out" "safe_sub x out = Inr l" "preciseDiv_uint l (newSetTokenSupply info) = Inr u"
    using assms(1) by (auto simp: getRedeemPositionUnit_def rbind_eq_Inr)
  have n: "n = r" "is_uint256 n" using real_unit_Inr [OF assms(2) st(1,2)] by auto
  note x = uint_steps(1) [OF n(2) assms(3) st(3)]
  note y = uint_steps(4) [OF assms(4,5) st(4)]
  note out = uint_steps(4) [OF conjunct2 [OF y] assms(6) st(5)]
  note l = uint_steps(5) [OF conjunct2 [OF x] conjunct2 [OF out] st(6)]
  then have tl: "is_uint256 l" by blast
  note u = uint_steps(3) [OF tl assms(7) st(7)]
  have "0 \<le> u" using u by (simp add: is_uint256_def)
  moreover have "newSetTokenSupply info * u \<le> l * PRECISE_UNIT"
    using u div_mult_le_int [of "newSetTokenSupply info" "l * PRECISE_UNIT"] by (simp add: mult.commute)
  ultimately show thesis using that [OF st(1)] x y out l n(1) by simp
qed

lemma handleRedeemStateUpdates_Inr:
  assumes "handleRedeemStateUpdates this a info e = Inr e'" "set_inv (the_set e)" "is_int256 (newPositionMultiplier info)"
    "0 \<le> newReservePositionUnit info"
  shows "outside e' = outside e \<and> the_controller e' = the_controller e \<and> set_inv (the_set e')
    \<and> totalSupply (the_set e') = totalSupply (the_set e) \<and> balances (the_set e') = balances (the_set e)
    \<and> positionMultiplier (the_set e') = newPositionMultiplier info \<and> 0 < newPositionMultiplier info
    \<and> (\<forall>j. j \<noteq> a \<longrightarrow> componentPositions (the_set e') j = componentPositions (the_set e) j)
    \<and> virtualUnit (componentPositions (the_set e') a) * newPositionMultiplier info \<le> newReservePositionUnit info * PRECISE_UNIT"
proof -
  let ?s = "the_set e" and ?m = "newPositionMultiplier info"
  obtain s1 s2 where s1: "editPositionMultiplier this (the_controller e) ?m ?s = Inr s1"
    and s2: "editDefaultPosition this (the_controller e) a (newReservePositionUnit info) s1 = Inr s2" and e': "e' = e\<lparr>the_set := s2\<rparr>"
    using assms(1) by (auto simp: handleRedeemStateUpdates_def on_set_def rbind_eq_Inr)
  have "virtual_typed ?s" using assms(2) by (simp add: set_inv_def position_inv_def)
  then have S1: "s1 = ?s\<lparr>positionMultiplier := ?m\<rparr>" "0 < ?m" using editPositionMultiplier_Inr [OF _ assms(3) s1] by auto
  have "set_inv s1" using set_inv_exec [OF assms(2), of "EditPositionMultiplier ?m"] assms(3) s1 by simp
  then show ?thesis using editDefaultPosition_written [OF _ assms(4) s2] editDefaultPosition_frame [OF s2] S1 by (simp add: e')
qed

lemma handleIssueStateUpdates_split:
  "handleIssueStateUpdates this a y info e =
     rbind (handleRedeemStateUpdates this a info e) (on_set (\<lambda>c. set_mint this c y (setTokenQuantity info)))"
  by (simp add: handleIssueStateUpdates_def handleRedeemStateUpdates_def rbind_assoc)

subsection \<open>The contracts the module calls\<close>

text \<open>A call that leaves the Set and the controller alone and takes no tokens from the Set.\<close>

definition spared :: "address \<Rightarrow> (address \<Rightarrow> address \<Rightarrow> 'w evm \<Rightarrow> int) \<Rightarrow> ('w evm \<Rightarrow> bool) \<Rightarrow> 'w evm \<Rightarrow> 'w evm \<Rightarrow> bool" where
  "spared self bal ok e e' \<longleftrightarrow> ok e' \<and> the_set e' = the_set e \<and> the_controller e' = the_controller e \<and> (\<forall>t. bal t self e \<le> bal t self e')"

lemma spared_refl: "ok e \<Longrightarrow> spared self bal ok e e"
  by (simp add: spared_def)

lemma spared_trans: "spared self bal ok e e1 \<Longrightarrow> spared self bal ok e1 e' \<Longrightarrow> spared self bal ok e e'"
  by (auto simp: spared_def intro: order_trans)

text \<open>
  Beside the laws of the component tokens: a token does not take from an account that is not the payer, wrapped Ether
  credits what it is sent, hooks leave the Set alone, the settings and the valuations are typed values.
\<close>

locale nav_reserve = component_tokens F self bal wf
  for F :: "'x nav_foreign" and self :: address and bal :: "address \<Rightarrow> address \<Rightarrow> 'x nav_evm \<Rightarrow> int" and wf :: "'x nav_evm \<Rightarrow> bool" +
  fixes C :: "'x nav_calls" and weth this :: address
  assumes settings_typed: "wf e \<Longrightarrow> nav_typed (nav_of self e)"
    and value_typed: "wf e \<Longrightarrow> valuation_by C v self a e = Inr n \<Longrightarrow> is_uint256 n"
    and payer_law: "wf e \<Longrightarrow> is_uint256 n \<Longrightarrow> t \<noteq> self \<Longrightarrow> x \<noteq> self \<Longrightarrow> safeTransferFrom F sp t x y n e = Inr e' \<Longrightarrow>
      bal t self e \<le> bal t self e'"
    and issue_hook_law: "wf e \<Longrightarrow> is_uint256 n \<Longrightarrow> nav_issue_hook C h self a n x y e = Inr e' \<Longrightarrow> spared self bal wf e e'"
    and redeem_hook_law: "wf e \<Longrightarrow> is_uint256 n \<Longrightarrow> nav_redeem_hook C h self n x y e = Inr e' \<Longrightarrow> spared self bal wf e e'"
    and deposit_law: "wf e \<Longrightarrow> is_uint256 n \<Longrightarrow> weth_deposit C this weth n e = Inr e' \<Longrightarrow> spared self bal wf e e'"
    and weth_law: "wf e \<Longrightarrow> is_uint256 n \<Longrightarrow> weth_transfer C this weth y n e = Inr e' \<Longrightarrow> spared self bal wf e e'
      \<and> (y = self \<longrightarrow> bal weth self e' = bal weth self e + n)"
    and withdraw_law: "wf e \<Longrightarrow> is_uint256 n \<Longrightarrow> weth_withdraw C this weth n e = Inr e' \<Longrightarrow> spared self bal wf e e'"
    and ether_law: "wf e \<Longrightarrow> is_uint256 n \<Longrightarrow> send_ether C this y n e = Inr e' \<Longrightarrow> spared self bal wf e e'"
begin

lemma pull_spares:
  assumes "wf e" "is_uint256 n" "t \<noteq> self" "x \<noteq> self" "base_transferFrom F this t x y n e = Inr e'"
  shows "spared self bal wf e e'"
proof (cases "0 < n")
  case True
  then have "safeTransferFrom F this t x y n e = Inr e'"
    using assms(3,5) by (auto simp: base_transferFrom_def explicit_transferFrom_def rbind_eq_Inr require_eq_Inr)
  with pull_law [OF assms(1-3) this] payer_law [OF assms(1-4) this] show ?thesis by (metis order_refl spared_def)
qed (use assms in \<open>auto simp: base_transferFrom_def explicit_transferFrom_def spared_refl\<close>)

lemma collateral_in:
  assumes "wf e" "a \<noteq> self" "x \<noteq> self" "is_uint256 (netFlowQuantity info)" "is_uint256 (protocolFees info)" "is_uint256 (managerFee info)"
    "transferCollateralAndHandleFees F this x self a info e = Inr e'"
  shows "spared self bal wf e e' \<and> bal a self e + netFlowQuantity info \<le> bal a self e'"
proof -
  obtain e1 e2 where 1: "base_transferFrom F this a x self (netFlowQuantity info) e = Inr e1"
    and 2: "(if protocolFees info > 0 then base_transferFrom F this a x (ctl_feeRecipient (the_controller e1)) (protocolFees info) e1
       else Ok e1) = Inr e2"
    and 3: "(if managerFee info > 0 then base_transferFrom F this a x (nav_feeRecipient (nav_of self e2)) (managerFee info) e2
       else Ok e2) = Inr e'"
    using assms(7) by (auto simp: transferCollateralAndHandleFees_def rbind_eq_Inr)
  have S1: "spared self bal wf e e1" "bal a self e1 = bal a self e + netFlowQuantity info"
    using pull_spares [OF assms(1,4,2,3) 1] explicit_transferFrom_Inr [OF assms(1,4,2) 1] by (simp_all add: moved_def)
  have S2: "spared self bal wf e1 e2"
    using 2 pull_spares [of e1] S1 assms(2,3,5) by (auto simp: spared_def split: if_splits)
  have S3: "spared self bal wf e2 e'"
    using 3 pull_spares [of e2] S2 assms(2,3,6) by (auto simp: spared_def split: if_splits)
  note T = spared_trans [OF S2 S3]
  from spared_trans [OF S1(1) T] T show ?thesis by (simp add: S1(2) [symmetric]) (simp add: spared_def)
qed

lemma weth_in:
  assumes "wf e" "is_uint256 (netFlowQuantity info)" "is_uint256 (protocolFees info)" "is_uint256 (managerFee info)"
    "transferWETHAndHandleFees C weth this self info e = Inr e'"
  shows "spared self bal wf e e' \<and> bal weth self e + netFlowQuantity info \<le> bal weth self e'"
proof -
  obtain e1 e2 where 1: "weth_transfer C this weth self (netFlowQuantity info) e = Inr e1"
    and 2: "(if protocolFees info > 0 then weth_transfer C this weth (ctl_feeRecipient (the_controller e1)) (protocolFees info) e1
       else Ok e1) = Inr e2"
    and 3: "(if managerFee info > 0 then weth_transfer C this weth (nav_feeRecipient (nav_of self e2)) (managerFee info) e2
       else Ok e2) = Inr e'"
    using assms(5) by (auto simp: transferWETHAndHandleFees_def rbind_eq_Inr)
  have S1: "spared self bal wf e e1" "bal weth self e1 = bal weth self e + netFlowQuantity info"
    using weth_law [OF assms(1,2) 1] by simp_all
  have S2: "spared self bal wf e1 e2"
    using 2 weth_law [of e1 "protocolFees info"] S1 assms(3) by (auto simp: spared_def split: if_splits)
  have S3: "spared self bal wf e2 e'"
    using 3 weth_law [of e2 "managerFee info"] S2 assms(4) by (auto simp: spared_def split: if_splits)
  note T = spared_trans [OF S2 S3]
  from spared_trans [OF S1(1) T] T show ?thesis by (simp add: S1(2) [symmetric]) (simp add: spared_def)
qed

lemma fees_out:
  assumes "wf e" "a \<noteq> self" "is_uint256 (protocolFees info)" "is_uint256 (managerFee info)"
    "handleRedemptionFees F this self a info e = Inr e'"
  shows "moved a (- (protocolFees info + managerFee info)) e e'"
proof -
  obtain e1 where 1: "payProtocolFeeFromSetToken F this self a (protocolFees info) e = Inr e1"
    and 2: "(if managerFee info > 0 then strictInvokeTransfer F this self a (nav_feeRecipient (nav_of self e1)) (managerFee info) e1
       else Ok e1) = Inr e'"
    using assms(5) by (auto simp: handleRedemptionFees_def rbind_eq_Inr)
  have z: "moved a (- n) e e" if "\<not> 0 < n" "is_uint256 n" "wf e" for n e using that by (simp add: moved_def is_uint256_def)
  have M1: "moved a (- protocolFees info) e e1"
    using 1 strictInvokeTransfer_Inr [OF assms(1,3,2)] z [OF _ assms(3,1)] by (auto simp: payProtocolFeeFromSetToken_def split: if_splits)
  then have "wf e1" by (simp add: moved_def)
  then have "moved a (- managerFee info) e1 e'"
    using 2 strictInvokeTransfer_Inr [OF _ assms(4,2)] z [OF _ assms(4)] by (auto split: if_splits)
  with M1 show ?thesis by (simp add: moved_def)
qed

lemma hooks_spare:
  assumes "wf e" "is_uint256 q"
  shows "nav_callPreIssueHooks C self a q x y e = Inr e' \<Longrightarrow> spared self bal wf e e'"
    and "nav_callPreRedeemHooks C self q x y e = Inr e' \<Longrightarrow> spared self bal wf e e'"
  using issue_hook_law [OF assms] redeem_hook_law [OF assms] spared_refl [where ok = wf, OF assms(1)]
  by (auto simp: nav_callPreIssueHooks_def nav_callPreRedeemHooks_def Let_def split: if_splits)

text \<open>What the computed quantities are, for the state \<open>e\<close> after the hook.\<close>

lemma issuance_info:
  assumes "wf e" "set_inv (the_set e)" "is_uint256 q" "\<And>i. is_uint256 (getModuleFee (the_controller e) this i)"
    "createIssuanceInfo C this self a q e = Inr info"
  shows "is_uint256 (protocolFees info) \<and> is_uint256 (managerFee info) \<and> is_uint256 (netFlowQuantity info)
    \<and> protocolFees info + managerFee info + netFlowQuantity info = q \<and> is_uint256 (setTokenQuantity info)
    \<and> previousSetTokenSupply info = totalSupply (the_set e)
    \<and> newSetTokenSupply info = totalSupply (the_set e) + setTokenQuantity info
    \<and> getSetTokenMintQuantity C self a (netFlowQuantity info) (totalSupply (the_set e)) e = Inr (setTokenQuantity info)
    \<and> scaled_multiplier (the_set e) (totalSupply (the_set e)) (newSetTokenSupply info) = Inr (newPositionMultiplier info)
    \<and> getIssuePositionUnit (the_set e) a info = Inr (newReservePositionUnit info)
    \<and> is_uint256 (newSetTokenSupply info)"
proof -
  let ?s = "the_set e"
  obtain pf mf net mq ns m u i1 where fee: "issue_fees this self q e = Inr (pf, mf, net)"
    and mq: "getSetTokenMintQuantity C self a net (totalSupply ?s) e = Inr mq"
    and i1: "i1 = \<lparr>preFeeReserveQuantity = q, protocolFees = pf, managerFee = mf, netFlowQuantity = net,
            setTokenQuantity = mq, previousSetTokenSupply = totalSupply ?s, newSetTokenSupply = ns, newPositionMultiplier = m,
            newReservePositionUnit = 0\<rparr>"
    and ns: "safe_add mq (totalSupply ?s) = Inr ns" and m: "scaled_multiplier ?s (totalSupply ?s) ns = Inr m"
    and u: "getIssuePositionUnit ?s a i1 = Inr u" and info: "info = i1\<lparr>newReservePositionUnit := u\<rparr>"
    using assms(5) by (auto simp: createIssuanceInfo_def getIssuePositionMultiplier_def Let_def rbind_eq_Inr)
  have sup: "is_uint256 (totalSupply ?s)" using assms(2) by (simp add: set_inv_def ledger_inv_def erc20_typed_def)
  have f: "is_uint256 pf \<and> is_uint256 mf \<and> is_uint256 net \<and> pf + mf + net = q"
    using getFees_Inr [OF _ assms(3) settings_typed [OF assms(1)] assms(4)] fee by (simp add: issue_fees_def)
  then have net: "is_uint256 net" by blast
  have mq': "is_uint256 mq"
    using getSetTokenMintQuantity_Inr [OF mq net sup settings_typed [OF assms(1)]] value_typed [OF assms(1)] by metis
  note n = uint_steps(4) [OF mq' sup ns]
  have "getIssuePositionUnit ?s a info = Inr u" using u by (simp add: getIssuePositionUnit_def i1 info)
  then show ?thesis using f mq mq' m n by (auto simp: i1 info)
qed

lemma redemption_info:
  assumes "wf e" "set_inv (the_set e)" "is_uint256 q" "\<And>i. is_uint256 (getModuleFee (the_controller e) this i)"
    "createRedemptionInfo C this self a q e = Inr info"
  shows "is_uint256 (protocolFees info) \<and> is_uint256 (managerFee info) \<and> is_uint256 (netFlowQuantity info)
    \<and> getRedeemReserveQuantity C self a q e = Inr (protocolFees info + managerFee info + netFlowQuantity info)
    \<and> previousSetTokenSupply info = totalSupply (the_set e) \<and> q \<le> totalSupply (the_set e)
    \<and> newSetTokenSupply info = totalSupply (the_set e) - q
    \<and> scaled_multiplier (the_set e) (totalSupply (the_set e)) (newSetTokenSupply info) = Inr (newPositionMultiplier info)
    \<and> getRedeemPositionUnit (the_set e) a info = Inr (newReservePositionUnit info)
    \<and> is_uint256 (newSetTokenSupply info)"
proof -
  let ?s = "the_set e"
  obtain r pf mf net ns m u i1 where r: "getRedeemReserveQuantity C self a q e = Inr r"
    and fee: "redeem_fees this self r e = Inr (pf, mf, net)"
    and i1: "i1 = \<lparr>preFeeReserveQuantity = r, protocolFees = pf, managerFee = mf, netFlowQuantity = net,
            setTokenQuantity = q, previousSetTokenSupply = totalSupply ?s, newSetTokenSupply = ns, newPositionMultiplier = m,
            newReservePositionUnit = 0\<rparr>"
    and ns: "safe_sub (totalSupply ?s) q = Inr ns" and m: "scaled_multiplier ?s (totalSupply ?s) ns = Inr m"
    and u: "getRedeemPositionUnit ?s a i1 = Inr u" and info: "info = i1\<lparr>newReservePositionUnit := u\<rparr>"
    using assms(5) by (auto simp: createRedemptionInfo_def getRedeemPositionMultiplier_def Let_def rbind_eq_Inr)
  have sup: "is_uint256 (totalSupply ?s)" using assms(2) by (simp add: set_inv_def ledger_inv_def erc20_typed_def)
  have tr: "is_uint256 r"
    using getRedeemReserveQuantity_Inr [OF r assms(3) settings_typed [OF assms(1)]] value_typed [OF assms(1)] by metis
  have f: "is_uint256 pf \<and> is_uint256 mf \<and> is_uint256 net \<and> pf + mf + net = r"
    using getFees_Inr [OF _ tr settings_typed [OF assms(1)] assms(4)] fee by (simp add: redeem_fees_def)
  note n = uint_steps(5) [OF sup assms(3) ns]
  have "getRedeemPositionUnit ?s a info = Inr u" using u by (simp add: getRedeemPositionUnit_def i1 info)
  then show ?thesis using f r m n by (auto simp: i1 info)
qed

end

subsection \<open>Backing\<close>

context nav_reserve
begin

definition still_backed :: "'x nav_evm \<Rightarrow> 'x nav_evm \<Rightarrow> bool" where
  "still_backed e e' \<longleftrightarrow> wf e' \<and> set_inv (the_set e') \<and> the_controller e' = the_controller e
     \<and> (\<forall>k. backs (bal k self e) (the_set e) k \<longrightarrow> backs (bal k self e') (the_set e') k)"

lemma backs_spared:
  assumes "spared self bal wf e e1" "backs (bal k self e) (the_set e) k"
  shows "backs (bal k self e1) (the_set e1) k"
proof -
  have "bal k self e * PRECISE_UNIT * PRECISE_UNIT \<le> bal k self e1 * PRECISE_UNIT * PRECISE_UNIT" using assms(1) by (simp add: spared_def)
  from order_trans [OF assms(2) [unfolded backs_def] this] show ?thesis using assms(1) by (simp add: spared_def backs_def)
qed

lemma set_inv_numbers: "set_inv s \<Longrightarrow> is_uint256 (totalSupply s) \<and> 0 \<le> totalSupply s \<and> units_ok s \<and> position_inv s"
  by (simp add: set_inv_def ledger_inv_def erc20_typed_def is_uint256_def position_inv_def)

text \<open>The reserve arrived between \<open>e1\<close>, where the quantities were computed, and \<open>e2\<close>.\<close>

lemma issue_updates:
  assumes "wf e1" "set_inv (the_set e1)" "is_uint256 q" "\<And>i. is_uint256 (getModuleFee (the_controller e1) this i)"
    "createIssuanceInfo C this self a q e1 = Inr info"
    "spared self bal wf e1 e2" "bal a self e1 + netFlowQuantity info \<le> bal a self e2"
    "handleIssueStateUpdates this a y info e2 = Inr e'"
  shows "still_backed e1 e' \<and> totalSupply (the_set e') = totalSupply (the_set e1) + setTokenQuantity info
    \<and> balances (the_set e') = (balances (the_set e1))(y := balances (the_set e1) y + setTokenQuantity info) \<and> outside e' = outside e2"
proof -
  let ?s = "the_set e1" and ?S = "totalSupply (the_set e1)" and ?n = "setTokenQuantity info" and ?m = "newPositionMultiplier info"
  note N = set_inv_numbers [OF assms(2)]
  from N have S: "is_uint256 ?S" "0 \<le> ?S" "units_ok ?s" "position_inv ?s" by blast+
  note I = issuance_info [OF assms(1-5)]
  then have net: "is_uint256 (netFlowQuantity info)" and n: "is_uint256 ?n" and S': "newSetTokenSupply info = ?S + ?n"
    and prev: "previousSetTokenSupply info = ?S" and t: "is_uint256 (newSetTokenSupply info)"
    and unit: "getIssuePositionUnit ?s a info = Inr (newReservePositionUnit info)"
    and mult: "scaled_multiplier ?s ?S (?S + ?n) = Inr ?m" by auto
  have n0: "0 \<le> ?n" using n by (simp add: is_uint256_def)
  have m: "is_int256 ?m" "0 \<le> ?m" "?m * (?S + ?n) \<le> positionMultiplier ?s * ?S"
    using scaled_multiplier_Inr [OF mult S(3,2)] S(2) n0 by simp_all
  obtain r where r: "getDefaultPositionRealUnit ?s a = Inr r" "0 \<le> newReservePositionUnit info"
    "(?S + ?n) * newReservePositionUnit info \<le> (r * ?S div PRECISE_UNIT + netFlowQuantity info) * PRECISE_UNIT"
    using issue_unit_Inr [OF unit S(4) _ net t] S(1) prev S' by (metis (no_types))
  have e2: "the_set e2 = ?s" "the_controller e2 = the_controller e1" "wf e2" "\<And>k. bal k self e1 \<le> bal k self e2"
    using assms(6) by (simp_all add: spared_def)
  obtain e3 s where e3: "handleRedeemStateUpdates this a info e2 = Inr e3"
    and s: "set_mint this (the_controller e3) y ?n (the_set e3) = Inr s" and e': "e' = e3\<lparr>the_set := s\<rparr>"
    using assms(8) by (auto simp: handleIssueStateUpdates_split on_set_def rbind_eq_Inr)
  note H = handleRedeemStateUpdates_Inr [OF e3 _ m(1) r(2)]
  have H: "outside e3 = outside e2" "the_controller e3 = the_controller e1" "set_inv (the_set e3)" "totalSupply (the_set e3) = ?S"
    "balances (the_set e3) = balances ?s" "positionMultiplier (the_set e3) = ?m" "0 < ?m"
    "\<And>j. j \<noteq> a \<Longrightarrow> componentPositions (the_set e3) j = componentPositions ?s j"
    "virtualUnit (componentPositions (the_set e3) a) * ?m \<le> newReservePositionUnit info * PRECISE_UNIT"
    using H assms(2) e2(1,2) by simp_all
  have M: "set_inv s" "s = (the_set e3)\<lparr>balances := (balances ?s)(y := balances ?s y + ?n), totalSupply := ?S + ?n\<rparr>"
    using issue_amounts(1) [OF H(3) n s] H(4,5) by auto
  have B: "bal k self e' = bal k self e2" "wf e'" for k using own_state [of e' e2] e' H(1) e2(3) by simp_all
  have "backs (bal k self e') s k" if b: "backs (bal k self e1) ?s k" for k
  proof (cases "k = a")
    case True
    have "r * ?S div PRECISE_UNIT + netFlowQuantity info \<le> bal a self e'"
      using backs_unit [OF _ S(4) r(1) S(2)] b True assms(7) B(1) [of a] by fastforce
    then have "(?S + ?n) * newReservePositionUnit info \<le> bal a self e' * PRECISE_UNIT"
      by (rule order_trans [OF r(3) mult_right_mono]) simp
    then show ?thesis using H(6,9) S(2) n0 by (auto simp: True M(2) intro!: backs_written)
  next
    case False
    show ?thesis
      by (rule backs_kept [OF b]) (use bal_typed [OF assms(1), of k self] e2(4) [of k] B(1) [of k] H(6,8) False S(2) n0 m in
        \<open>simp_all add: M(2) is_uint256_def ac_simps\<close>)
  qed
  then show ?thesis using B M H(1,2) by (simp add: still_backed_def e')
qed

text \<open>The reserve left: the fees and the net amount, no more than the position held.\<close>

lemma redeem_updates:
  assumes "wf e1" "set_inv (the_set e1)" "is_uint256 q" "\<And>i. is_uint256 (getModuleFee (the_controller e1) this i)"
    "createRedemptionInfo C this self a q e1 = Inr info"
    "set_burn this (the_controller e1) x q (the_set e1) = Inr s1"
    "wf e2" "the_set e2 = s1" "the_controller e2 = the_controller e1" "\<And>k. k \<noteq> a \<Longrightarrow> bal k self e1 \<le> bal k self e2"
    "bal a self e1 - (netFlowQuantity info + protocolFees info + managerFee info) \<le> bal a self e2"
    "handleRedeemStateUpdates this a info e2 = Inr e'"
  shows "still_backed e1 e' \<and> totalSupply (the_set e') = totalSupply (the_set e1) - q \<and> q \<le> balances (the_set e1) x
    \<and> balances (the_set e') = (balances (the_set e1))(x := balances (the_set e1) x - q) \<and> outside e' = outside e2"
proof -
  let ?s = "the_set e1" and ?S = "totalSupply (the_set e1)" and ?m = "newPositionMultiplier info"
  let ?out = "netFlowQuantity info + protocolFees info + managerFee info"
  note N = set_inv_numbers [OF assms(2)]
  from N have S: "is_uint256 ?S" "0 \<le> ?S" "units_ok ?s" "position_inv ?s" by blast+
  note I = redemption_info [OF assms(1-5)]
  then have ty: "is_uint256 (netFlowQuantity info)" "is_uint256 (protocolFees info)" "is_uint256 (managerFee info)"
    and S': "newSetTokenSupply info = ?S - q" and t: "is_uint256 (newSetTokenSupply info)"
    and prev: "previousSetTokenSupply info = ?S" and unit: "getRedeemPositionUnit ?s a info = Inr (newReservePositionUnit info)"
    and mult: "scaled_multiplier ?s ?S (?S - q) = Inr ?m" and le: "q \<le> ?S" by auto
  have m: "is_int256 ?m" "0 \<le> ?m" "?m * (?S - q) \<le> positionMultiplier ?s * ?S"
    using scaled_multiplier_Inr [OF mult S(3,2)] le by simp_all
  obtain r where r: "getDefaultPositionRealUnit ?s a = Inr r" "0 \<le> newReservePositionUnit info" "?out \<le> r * ?S div PRECISE_UNIT"
    "(?S - q) * newReservePositionUnit info \<le> (r * ?S div PRECISE_UNIT - ?out) * PRECISE_UNIT"
    using redeem_unit_Inr [OF unit S(4) _ ty t] S(1) prev S' by (metis (no_types))
  have M: "set_inv s1" "q \<le> balances ?s x" "s1 = ?s\<lparr>balances := (balances ?s)(x := balances ?s x - q), totalSupply := ?S - q\<rparr>"
    using issue_amounts(2) [OF assms(2,3,6)] by auto
  note H = handleRedeemStateUpdates_Inr [OF assms(12) _ m(1) r(2)]
  have H: "outside e' = outside e2" "the_controller e' = the_controller e1" "set_inv (the_set e')" "totalSupply (the_set e') = ?S - q"
    "balances (the_set e') = (balances ?s)(x := balances ?s x - q)" "positionMultiplier (the_set e') = ?m" "0 < ?m"
    "\<And>j. j \<noteq> a \<Longrightarrow> componentPositions (the_set e') j = componentPositions ?s j"
    "virtualUnit (componentPositions (the_set e') a) * ?m \<le> newReservePositionUnit info * PRECISE_UNIT"
    using H M(1) assms(8,9) by (simp_all add: M(3))
  have B: "bal k self e' = bal k self e2" "wf e'" for k using own_state [OF H(1)] assms(7) by simp_all
  have "backs (bal k self e') (the_set e') k" if b: "backs (bal k self e1) ?s k" for k
  proof (cases "k = a")
    case True
    have "r * ?S div PRECISE_UNIT - ?out \<le> bal a self e'"
      using backs_unit [OF _ S(4) r(1) S(2)] b True assms(11) B(1) [of a] by fastforce
    then have "(?S - q) * newReservePositionUnit info \<le> bal a self e' * PRECISE_UNIT"
      by (rule order_trans [OF r(4) mult_right_mono]) simp
    then show ?thesis using H(4,6,9) le by (auto simp: True intro!: backs_written)
  next
    case False
    show ?thesis
      by (rule backs_kept [OF b]) (use bal_typed [OF assms(1), of k self] assms(10) [OF False] B(1) [of k] H(4,6,8) False S(2) le m in
        \<open>simp_all add: is_uint256_def ac_simps\<close>)
  qed
  then show ?thesis using B M H by (simp add: still_backed_def)
qed

end

subsection \<open>The four functions\<close>

context nav_reserve
begin

lemma guard_flag:
  "spared self bal wf e (e\<lparr>module_entered := b\<rparr>)" if "wf e"
  using own_state [of "e\<lparr>module_entered := b\<rparr>" e] that by (simp add: spared_def)

lemma still_backed_flags:
  assumes "spared self bal wf e e1" "still_backed e1 e2" "e' = e2\<lparr>module_entered := b\<rparr>"
  shows "still_backed e e'"
proof -
  have "wf e'" "\<And>k. bal k self e' = bal k self e2" "the_set e' = the_set e2" "the_controller e' = the_controller e2"
    using own_state [of e' e2] assms(2,3) by (simp_all add: still_backed_def)
  then show ?thesis using backs_spared [OF assms(1)] assms(1,2) by (simp add: still_backed_def) (simp add: spared_def)
qed

text \<open>\<open>ready e\<close>: a state in which the functions may be called.\<close>

definition ready :: "'x nav_evm \<Rightarrow> bool" where
  "ready e \<longleftrightarrow> wf e \<and> set_inv (the_set e) \<and> (\<forall>i. is_uint256 (getModuleFee (the_controller e) this i))"

lemma ready_spared: "ready e \<Longrightarrow> spared self bal wf e e1 \<Longrightarrow> ready e1"
  by (simp add: ready_def spared_def)

lemma nav_issue_steps:
  assumes "ready e" "a \<noteq> self" "x \<noteq> self" "is_uint256 q" "nav_issue F C this x self a q mn y e = Inr e'"
  obtains e1 info where "nav_callPreIssueHooks C self a q x y (e\<lparr>module_entered := True\<rparr>) = Inr e1" "spared self bal wf e e1" "ready e1"
    "isSetValidAndInitialized this (the_controller e) self (the_set e)" "0 < q" "reserve_of self e a"
    "createIssuanceInfo C this self a q e1 = Inr info" "minSetTokenSupply (nav_of self e1) \<le> totalSupply (the_set e1)"
    "mn \<le> setTokenQuantity info" "still_backed e e'"
    "totalSupply (the_set e') = totalSupply (the_set e) + setTokenQuantity info"
    "balances (the_set e') = (balances (the_set e))(y := balances (the_set e) y + setTokenQuantity info)"
    "bal a self e1 + netFlowQuantity info \<le> bal a self e'"
proof -
  let ?e = "e\<lparr>module_entered := True\<rparr>"
  obtain e1 info e2 e3 where g: "isSetValidAndInitialized this (the_controller e) self (the_set e)" "0 < q" "reserve_of self ?e a"
    and h: "nav_callPreIssueHooks C self a q x y ?e = Inr e1" and i: "createIssuanceInfo C this self a q e1 = Inr info"
    and v: "minSetTokenSupply (nav_of self e1) \<le> previousSetTokenSupply info" "mn \<le> setTokenQuantity info"
    and t: "transferCollateralAndHandleFees F this x self a info e1 = Inr e2"
    and u: "handleIssueStateUpdates this a y info e2 = Inr e3" and e': "e' = e3\<lparr>module_entered := False\<rparr>"
    using assms(5) by (auto simp: nav_issue_def nonReentrant_def validateOnlyValidAndInitializedSet_def validateCommon_def
        validateIssuanceInfo_def rbind_eq_Inr require_eq_Inr)
  have w: "wf e" using assms(1) by (simp add: ready_def)
  have s0: "spared self bal wf e ?e" by (rule guard_flag [OF w])
  then have "wf ?e" by (simp add: spared_def)
  note s1 = spared_trans [OF s0 hooks_spare(1) [OF this assms(4) h]]
  have r1: "wf e1" "set_inv (the_set e1)" "\<And>i. is_uint256 (getModuleFee (the_controller e1) this i)" "ready e1"
    using ready_spared [OF assms(1) s1] by (simp_all add: ready_def)
  note I = issuance_info [OF r1(1,2) assms(4) r1(3) i]
  have t2: "spared self bal wf e1 e2 \<and> bal a self e1 + netFlowQuantity info \<le> bal a self e2"
    by (rule collateral_in [OF r1(1) assms(2,3) _ _ _ t]) (use I in blast)+
  note U = issue_updates [OF r1(1,2) assms(4) r1(3) i conjunct1 [OF t2] conjunct2 [OF t2] u]
  have o: "outside e' = outside e2" using U e' by simp
  show thesis
  proof (rule that [OF h s1 r1(4) g(1,2) _ i _ v(2)])
    show "reserve_of self e a" using g(3) by (simp add: reserve_of_def)
    show "minSetTokenSupply (nav_of self e1) \<le> totalSupply (the_set e1)" using v(1) I by auto
    show "still_backed e e'" by (rule still_backed_flags [OF s1 conjunct1 [OF U] e'])
    show "bal a self e1 + netFlowQuantity info \<le> bal a self e'" using t2 own_state [OF o] by simp
  qed (use U s1 e' in \<open>simp_all add: spared_def\<close>)
qed

lemma issueWithEther_steps:
  assumes "ready e" "is_uint256 q" "issueWithEther C weth this x self q mn y e = Inr e'"
  obtains e1 info where "spared self bal wf e e1" "ready e1" "createIssuanceInfo C this self weth q e1 = Inr info"
    "minSetTokenSupply (nav_of self e1) \<le> totalSupply (the_set e1)" "mn \<le> setTokenQuantity info" "still_backed e e'"
    "totalSupply (the_set e') = totalSupply (the_set e) + setTokenQuantity info"
    "bal weth self e1 + netFlowQuantity info \<le> bal weth self e'"
proof -
  let ?e = "e\<lparr>module_entered := True\<rparr>"
  obtain e0 e1 info e2 e3 where d: "weth_deposit C this weth q ?e = Inr e0"
    and h: "nav_callPreIssueHooks C self weth q x y e0 = Inr e1" and i: "createIssuanceInfo C this self weth q e1 = Inr info"
    and v: "minSetTokenSupply (nav_of self e1) \<le> previousSetTokenSupply info" "mn \<le> setTokenQuantity info"
    and t: "transferWETHAndHandleFees C weth this self info e1 = Inr e2"
    and u: "handleIssueStateUpdates this weth y info e2 = Inr e3" and e': "e' = e3\<lparr>module_entered := False\<rparr>"
    using assms(3) by (auto simp: issueWithEther_def nonReentrant_def validateIssuanceInfo_def rbind_eq_Inr require_eq_Inr)
  have w: "wf e" using assms(1) by (simp add: ready_def)
  have s0: "spared self bal wf e ?e" by (rule guard_flag [OF w])
  then have "wf ?e" by (simp add: spared_def)
  note sd = spared_trans [OF s0 deposit_law [OF this assms(2) d]]
  then have "wf e0" by (simp add: spared_def)
  note s1 = spared_trans [OF sd hooks_spare(1) [OF this assms(2) h]]
  have r1: "wf e1" "set_inv (the_set e1)" "\<And>i. is_uint256 (getModuleFee (the_controller e1) this i)" "ready e1"
    using ready_spared [OF assms(1) s1] by (simp_all add: ready_def)
  note I = issuance_info [OF r1(1,2) assms(2) r1(3) i]
  have t2: "spared self bal wf e1 e2 \<and> bal weth self e1 + netFlowQuantity info \<le> bal weth self e2"
    by (rule weth_in [OF r1(1) _ _ _ t]) (use I in blast)+
  note U = issue_updates [OF r1(1,2) assms(2) r1(3) i conjunct1 [OF t2] conjunct2 [OF t2] u]
  have o: "outside e' = outside e2" using U e' by simp
  show thesis
  proof (rule that [OF s1 r1(4) i _ v(2)])
    show "minSetTokenSupply (nav_of self e1) \<le> totalSupply (the_set e1)" using v(1) I by auto
    show "still_backed e e'" by (rule still_backed_flags [OF s1 conjunct1 [OF U] e'])
    show "bal weth self e1 + netFlowQuantity info \<le> bal weth self e'" using t2 own_state [OF o] by simp
  qed (use U s1 e' in \<open>simp_all add: spared_def\<close>)
qed

lemma burn_step:
  assumes "wf e1" "on_set (\<lambda>c. set_burn this c x q) e1 = Inr e2"
  shows "wf e2 \<and> set_burn this (the_controller e1) x q (the_set e1) = Inr (the_set e2) \<and> the_controller e2 = the_controller e1
    \<and> (\<forall>k. bal k self e2 = bal k self e1)"
  using assms own_state [of e2 e1] by (auto simp: on_set_def rbind_eq_Inr)

lemma nav_redeem_steps:
  assumes "ready e" "a \<noteq> self" "is_uint256 q" "nav_redeem F C this x self a q mn y e = Inr e'"
  obtains e1 info where "nav_callPreRedeemHooks C self q x y (e\<lparr>module_entered := True\<rparr>) = Inr e1" "spared self bal wf e e1" "ready e1"
    "isSetValidAndInitialized this (the_controller e) self (the_set e)" "0 < q" "reserve_of self e a"
    "createRedemptionInfo C this self a q e1 = Inr info" "minSetTokenSupply (nav_of self e1) \<le> totalSupply (the_set e')"
    "mn \<le> netFlowQuantity info" "still_backed e e'"
    "totalSupply (the_set e') = totalSupply (the_set e) - q" "q \<le> balances (the_set e) x"
    "balances (the_set e') = (balances (the_set e))(x := balances (the_set e) x - q)"
    "bal a self e' = bal a self e1 - (netFlowQuantity info + protocolFees info + managerFee info)"
proof -
  let ?e = "e\<lparr>module_entered := True\<rparr>"
  obtain e1 info e2 e3 e4 e5 where g: "isSetValidAndInitialized this (the_controller e) self (the_set e)" "0 < q" "reserve_of self ?e a"
    and h: "nav_callPreRedeemHooks C self q x y ?e = Inr e1" and i: "createRedemptionInfo C this self a q e1 = Inr info"
    and v: "minSetTokenSupply (nav_of self e1) \<le> newSetTokenSupply info" "mn \<le> netFlowQuantity info"
    and b: "on_set (\<lambda>c. set_burn this c x q) e1 = Inr e2"
    and t: "strictInvokeTransfer F this self a y (netFlowQuantity info) e2 = Inr e3"
    and f: "handleRedemptionFees F this self a info e3 = Inr e4"
    and u: "handleRedeemStateUpdates this a info e4 = Inr e5" and e': "e' = e5\<lparr>module_entered := False\<rparr>"
    using assms(4) by (auto simp: nav_redeem_def nonReentrant_def validateOnlyValidAndInitializedSet_def validateCommon_def
        validateRedemptionInfo_def rbind_eq_Inr require_eq_Inr)
  have w: "wf e" using assms(1) by (simp add: ready_def)
  have s0: "spared self bal wf e ?e" by (rule guard_flag [OF w])
  then have "wf ?e" by (simp add: spared_def)
  note s1 = spared_trans [OF s0 hooks_spare(2) [OF this assms(3) h]]
  have r1: "wf e1" "set_inv (the_set e1)" "\<And>i. is_uint256 (getModuleFee (the_controller e1) this i)" "ready e1"
    using ready_spared [OF assms(1) s1] by (simp_all add: ready_def)
  note I = redemption_info [OF r1(1,2) assms(3) r1(3) i]
  then have ty: "is_uint256 (netFlowQuantity info)" "is_uint256 (protocolFees info)" "is_uint256 (managerFee info)" by blast+
  have B: "wf e2" "set_burn this (the_controller e1) x q (the_set e1) = Inr (the_set e2)" "the_controller e2 = the_controller e1"
    "\<And>k. bal k self e2 = bal k self e1" using burn_step [OF r1(1) b] by blast+
  have T: "moved a (- netFlowQuantity info) e2 e3" by (rule strictInvokeTransfer_Inr [OF B(1) ty(1) assms(2) t])
  then have "wf e3" by (simp add: moved_def)
  note T2 = fees_out [OF this assms(2) ty(2,3) f]
  have U: "still_backed e1 e5 \<and> totalSupply (the_set e5) = totalSupply (the_set e1) - q \<and> q \<le> balances (the_set e1) x
    \<and> balances (the_set e5) = (balances (the_set e1))(x := balances (the_set e1) x - q) \<and> outside e5 = outside e4"
    by (rule redeem_updates [OF r1(1,2) assms(3) r1(3) i B(2) _ _ _ _ _ u]) (use T T2 B in \<open>simp_all add: moved_def\<close>)
  have o: "outside e' = outside e4" using U e' by simp
  show thesis
  proof (rule that [OF h s1 r1(4) g(1,2) _ i _ v(2)])
    show "reserve_of self e a" using g(3) by (simp add: reserve_of_def)
    show "minSetTokenSupply (nav_of self e1) \<le> totalSupply (the_set e')" using v(1) I U e' by auto
    show "still_backed e e'" by (rule still_backed_flags [OF s1 conjunct1 [OF U] e'])
    show "bal a self e' = bal a self e1 - (netFlowQuantity info + protocolFees info + managerFee info)"
      using T T2 B own_state [OF o] by (simp add: moved_def)
  qed (use U s1 e' in \<open>simp_all add: spared_def\<close>)
qed

lemma redeemIntoEther_steps:
  assumes "ready e" "weth \<noteq> self" "is_uint256 q" "redeemIntoEther F C weth this x self q mn y e = Inr e'"
  obtains e1 info where "spared self bal wf e e1" "ready e1" "createRedemptionInfo C this self weth q e1 = Inr info"
    "minSetTokenSupply (nav_of self e1) \<le> totalSupply (the_set e')" "mn \<le> netFlowQuantity info" "still_backed e e'"
    "totalSupply (the_set e') = totalSupply (the_set e) - q"
    "bal weth self e1 - (netFlowQuantity info + protocolFees info + managerFee info) \<le> bal weth self e'"
proof -
  let ?e = "e\<lparr>module_entered := True\<rparr>"
  obtain e1 info e2 e3 e4 e5 e6 e7 where h: "nav_callPreRedeemHooks C self q x y ?e = Inr e1"
    and i: "createRedemptionInfo C this self weth q e1 = Inr info"
    and v: "minSetTokenSupply (nav_of self e1) \<le> newSetTokenSupply info" "mn \<le> netFlowQuantity info"
    and b: "on_set (\<lambda>c. set_burn this c x q) e1 = Inr e2"
    and t: "strictInvokeTransfer F this self weth this (netFlowQuantity info) e2 = Inr e3"
    and w4: "weth_withdraw C this weth (netFlowQuantity info) e3 = Inr e4" and w5: "send_ether C this y (netFlowQuantity info) e4 = Inr e5"
    and f: "handleRedemptionFees F this self weth info e5 = Inr e6"
    and u: "handleRedeemStateUpdates this weth info e6 = Inr e7" and e': "e' = e7\<lparr>module_entered := False\<rparr>"
    using assms(4) by (auto simp: redeemIntoEther_def nonReentrant_def validateRedemptionInfo_def rbind_eq_Inr require_eq_Inr)
  have w: "wf e" using assms(1) by (simp add: ready_def)
  have s0: "spared self bal wf e ?e" by (rule guard_flag [OF w])
  then have "wf ?e" by (simp add: spared_def)
  note s1 = spared_trans [OF s0 hooks_spare(2) [OF this assms(3) h]]
  have r1: "wf e1" "set_inv (the_set e1)" "\<And>i. is_uint256 (getModuleFee (the_controller e1) this i)" "ready e1"
    using ready_spared [OF assms(1) s1] by (simp_all add: ready_def)
  note I = redemption_info [OF r1(1,2) assms(3) r1(3) i]
  then have ty: "is_uint256 (netFlowQuantity info)" "is_uint256 (protocolFees info)" "is_uint256 (managerFee info)" by blast+
  have B: "wf e2" "set_burn this (the_controller e1) x q (the_set e1) = Inr (the_set e2)" "the_controller e2 = the_controller e1"
    "\<And>k. bal k self e2 = bal k self e1" using burn_step [OF r1(1) b] by blast+
  have T: "moved weth (- netFlowQuantity info) e2 e3" by (rule strictInvokeTransfer_Inr [OF B(1) ty(1) assms(2) t])
  then have "wf e3" by (simp add: moved_def)
  note W = withdraw_law [OF this ty(1) w4]
  then have "wf e4" by (simp add: spared_def)
  note W = spared_trans [OF W ether_law [OF this ty(1) w5]]
  then have "wf e5" by (simp add: spared_def)
  note T2 = fees_out [OF this assms(2) ty(2,3) f]
  have G: "bal k self e1 \<le> bal k self e6" if "k \<noteq> weth" for k
    using W T T2 B(4) [of k] that by (simp add: moved_def spared_def) (metis order_trans)
  have L: "bal weth self e1 - (netFlowQuantity info + protocolFees info + managerFee info) \<le> bal weth self e6"
  proof -
    have "bal weth self e3 \<le> bal weth self e5" using W by (simp add: spared_def)
    then show ?thesis using T T2 B(4) [of weth] by (simp add: moved_def)
  qed
  have U: "still_backed e1 e7 \<and> totalSupply (the_set e7) = totalSupply (the_set e1) - q \<and> q \<le> balances (the_set e1) x
    \<and> balances (the_set e7) = (balances (the_set e1))(x := balances (the_set e1) x - q) \<and> outside e7 = outside e6"
    by (rule redeem_updates [OF r1(1,2) assms(3) r1(3) i B(2) _ _ _ G L u]) (use T T2 B W in \<open>simp_all add: moved_def spared_def\<close>)
  have o: "outside e' = outside e6" using U e' by simp
  show thesis
  proof (rule that [OF s1 r1(4) i _ v(2)])
    show "minSetTokenSupply (nav_of self e1) \<le> totalSupply (the_set e')" using v(1) I U e' by auto
    show "still_backed e e'" by (rule still_backed_flags [OF s1 conjunct1 [OF U] e'])
    show "bal weth self e1 - (netFlowQuantity info + protocolFees info + managerFee info) \<le> bal weth self e'"
      using L own_state [OF o] by simp
  qed (use U s1 e' in \<open>simp_all add: spared_def\<close>)
qed

end

subsection \<open>The settings through the life of the module\<close>

lemma nav_writes [simp]:
  "nav_of self (write_nav self f e) = f (nav_of self e)" "reserve_of self (write_nav self f e) = reserve_of self e"
  "nav_of self (flag_reserve self a b e) = nav_of self e" "reserve_of self (flag_reserve self a b e) = (reserve_of self e)(a := b)"
  "the_set (write_nav self f e) = the_set e" "the_set (flag_reserve self a b e) = the_set e"
  "the_controller (write_nav self f e) = the_controller e" "the_controller (flag_reserve self a b e) = the_controller e"
  "nav_of self (e\<lparr>the_set := s\<rparr>) = nav_of self e" "reserve_of self (e\<lparr>the_set := s\<rparr>) = reserve_of self e"
  by (simp_all add: write_nav_def flag_reserve_def nav_of_def reserve_of_def)

lemma reserve_loop_Inr:
  assumes "reserve_loop self as e = Inr e'"
  shows "nav_of self e' = nav_of self e \<and> the_set e' = the_set e \<and> distinct as \<and> (\<forall>a \<in> set as. \<not> reserve_of self e a)
    \<and> reserve_of self e' = (\<lambda>a. a \<in> set as \<or> reserve_of self e a)"
  using assms
proof (induction as arbitrary: e)
  case (Cons a as)
  then have r: "\<not> reserve_of self e a" and l: "reserve_loop self as (flag_reserve self a True e) = Inr e'"
    by (simp_all add: rbind_eq_Inr require_eq_Inr)
  from Cons.IH [OF l] r show ?case by (auto simp: fun_eq_iff split: if_splits)
qed auto

lemma flags_cleared:
  "nav_of self (fold (\<lambda>a. flag_reserve self a False) as e) = nav_of self e
    \<and> the_set (fold (\<lambda>a. flag_reserve self a False) as e) = the_set e
    \<and> reserve_of self (fold (\<lambda>a. flag_reserve self a False) as e) = (\<lambda>a. a \<notin> set as \<and> reserve_of self e a)"
  by (induction as arbitrary: e) (auto simp: fun_eq_iff)

text \<open>
  The life of the module on one Set. The arguments have the types of the ABI: numbers below \<open>2 ^ 256\<close> and two manager fees.
  \<open>other\<close> is any step that neither writes these settings nor initializes or removes the module.
\<close>

inductive nav_reachable :: "address \<Rightarrow> address \<Rightarrow> 'x nav_evm \<Rightarrow> bool" for this self :: address where
  deployed: "moduleStates (the_set e) this \<noteq> INITIALIZED \<Longrightarrow> nav_of self e = no_nav \<Longrightarrow> reserve_of self e = (\<lambda>_. False) \<Longrightarrow>
    nav_reachable this self e"
| initialized: "nav_reachable this self e \<Longrightarrow> nav_typed x \<Longrightarrow> length (managerFees x) = 2 \<Longrightarrow>
    nav_initialize this u self x e = Inr e' \<Longrightarrow> nav_reachable this self e'"
| reserve_added: "nav_reachable this self e \<Longrightarrow> addReserveAsset this u self a e = Inr e' \<Longrightarrow> nav_reachable this self e'"
| reserve_removed: "nav_reachable this self e \<Longrightarrow> removeReserveAsset this u self a e = Inr e' \<Longrightarrow> nav_reachable this self e'"
| premium: "nav_reachable this self e \<Longrightarrow> is_uint256 n \<Longrightarrow> editPremium this u self n e = Inr e' \<Longrightarrow> nav_reachable this self e'"
| manager_fee: "nav_reachable this self e \<Longrightarrow> is_uint256 n \<Longrightarrow> editManagerFee this u self n i e = Inr e' \<Longrightarrow> nav_reachable this self e'"
| recipient: "nav_reachable this self e \<Longrightarrow> nav_editFeeRecipient this u self a e = Inr e' \<Longrightarrow> nav_reachable this self e'"
| removed: "nav_reachable this self e \<Longrightarrow> nav_removeModule self e = Inr e1 \<Longrightarrow> removeModule (\<lambda>m s. Ok s) u this (the_set e1) = Inr s \<Longrightarrow>
    nav_reachable this self (e1\<lparr>the_set := s\<rparr>)"
| other: "nav_reachable this self e \<Longrightarrow> nav_of self e' = nav_of self e \<Longrightarrow> reserve_of self e' = reserve_of self e \<Longrightarrow>
    (moduleStates (the_set e') this = INITIALIZED \<longleftrightarrow> moduleStates (the_set e) this = INITIALIZED) \<Longrightarrow> nav_reachable this self e'"

definition nav_settings_ok :: "address \<Rightarrow> address \<Rightarrow> 'x nav_evm \<Rightarrow> bool" where
  "nav_settings_ok this self e \<longleftrightarrow> (let x = nav_of self e in
     registry_ok (reserveAssets x) (reserve_of self e) \<and> nav_typed x \<and> length (managerFees x) = 2
     \<and> (\<forall>n \<in> set (managerFees x). n \<le> nav_maxManagerFee x) \<and> nav_maxManagerFee x < PRECISE_UNIT
     \<and> premiumPercentage x \<le> maxPremiumPercentage x \<and> maxPremiumPercentage x < PRECISE_UNIT
     \<and> (if moduleStates (the_set e) this = INITIALIZED then nav_feeRecipient x \<noteq> address_zero \<and> 0 < minSetTokenSupply x else x = no_nav))"

lemma no_nav_ok: "moduleStates (the_set e) this \<noteq> INITIALIZED \<Longrightarrow> nav_of self e = no_nav \<Longrightarrow> (\<And>a. \<not> reserve_of self e a) \<Longrightarrow> nav_settings_ok this self e"
  by (simp add: nav_settings_ok_def no_nav_def registry_ok_def nav_typed_def is_uint256_def)

lemma nav_initialize_ok:
  assumes "nav_settings_ok this self e" "nav_typed x" "length (managerFees x) = 2" "nav_initialize this u self x e = Inr e'"
  shows "nav_settings_ok this self e'"
proof -
  obtain i r where fees: "managerFees x = [i, r]"
    using assms(3) by (metis (no_types, lifting) One_nat_def Suc_1 length_0_conv length_Suc_conv)
  obtain e1 s where pend: "moduleStates (the_set e) this = PENDING"
    and lim: "nav_maxManagerFee x < PRECISE_UNIT" "maxPremiumPercentage x < PRECISE_UNIT" "i \<le> nav_maxManagerFee x" "r \<le> nav_maxManagerFee x"
      "premiumPercentage x \<le> maxPremiumPercentage x" "nav_feeRecipient x \<noteq> address_zero" "0 < minSetTokenSupply x"
    and e1: "reserve_loop self (reserveAssets x) e = Inr e1"
    and s: "initializeModule this (the_set e1) = Inr s" and e': "e' = (write_nav self (\<lambda>_. x) e1)\<lparr>the_set := s\<rparr>"
    using assms(4) by (auto simp: nav_initialize_def on_set_def rbind_eq_Inr require_eq_Inr array_get_eq_Inr fees preciseUnit_def
        validateOnlyValidAndPendingSet_def isSetPendingInitialization_def isPendingModule_def)
  note L = reserve_loop_Inr [OF e1]
  have "moduleStates s this = INITIALIZED" using s by (auto simp: initializeModule_def result_simps)
  moreover have "\<not> reserve_of self e a" for a
    using assms(1) pend by (auto simp: nav_settings_ok_def Let_def registry_ok_def no_nav_def)
  ultimately show ?thesis using L lim assms(2) by (simp add: nav_settings_ok_def e' registry_ok_def fees)
qed

lemma nav_edits_ok:
  assumes "nav_settings_ok this self e"
  shows "addReserveAsset this u self a e = Inr e' \<Longrightarrow> nav_settings_ok this self e'"
    and "removeReserveAsset this u self a e = Inr e' \<Longrightarrow> nav_settings_ok this self e'"
    and "is_uint256 n \<Longrightarrow> editPremium this u self n e = Inr e' \<Longrightarrow> nav_settings_ok this self e'"
    and "is_uint256 n \<Longrightarrow> editManagerFee this u self n i e = Inr e' \<Longrightarrow> nav_settings_ok this self e'"
    and "nav_editFeeRecipient this u self a e = Inr e' \<Longrightarrow> nav_settings_ok this self e'"
proof -
  note D = assms [unfolded nav_settings_ok_def Let_def]
  note init = manager_initialized [of this u "the_controller e" self "the_set e"]
  show "addReserveAsset this u self a e = Inr e' \<Longrightarrow> nav_settings_ok this self e'"
    using D init by (auto simp: addReserveAsset_def rbind_eq_Inr require_eq_Inr nav_settings_ok_def Let_def nav_typed_def intro: registry_ok_add)
  show "removeReserveAsset this u self a e = Inr e' \<Longrightarrow> nav_settings_ok this self e'"
    using D init by (auto simp: removeReserveAsset_def rbind_eq_Inr require_eq_Inr remove_eq_Inr nav_settings_ok_def Let_def nav_typed_def
        intro: registry_ok_remove)
  show "is_uint256 n \<Longrightarrow> editPremium this u self n e = Inr e' \<Longrightarrow> nav_settings_ok this self e'"
    using D init by (auto simp: editPremium_def rbind_eq_Inr require_eq_Inr nav_settings_ok_def Let_def nav_typed_def)
  show "nav_editFeeRecipient this u self a e = Inr e' \<Longrightarrow> nav_settings_ok this self e'"
    using D init by (auto simp: nav_editFeeRecipient_def rbind_eq_Inr require_eq_Inr nav_settings_ok_def Let_def nav_typed_def)
  show "is_uint256 n \<Longrightarrow> editManagerFee this u self n i e = Inr e' \<Longrightarrow> nav_settings_ok this self e'"
    using D init set_update_subset_insert [of "managerFees (nav_of self e)" "nat i" n]
    by (auto simp: editManagerFee_def rbind_eq_Inr require_eq_Inr array_get_eq_Inr nav_settings_ok_def Let_def nav_typed_def)
qed

lemma nav_removed_ok:
  assumes "nav_settings_ok this self e" "nav_removeModule self e = Inr e1" "removeModule (\<lambda>m s. Ok s) u this (the_set e1) = Inr s"
  shows "nav_settings_ok this self (e1\<lparr>the_set := s\<rparr>)"
proof (rule no_nav_ok)
  have e1: "e1 = write_nav self (\<lambda>_. no_nav) (fold (\<lambda>a. flag_reserve self a False) (reserveAssets (nav_of self e)) e)"
    using assms(2) by (simp add: nav_removeModule_def)
  show "nav_of self (e1\<lparr>the_set := s\<rparr>) = no_nav" by (simp add: e1)
  show "\<not> reserve_of self (e1\<lparr>the_set := s\<rparr>) a" for a
    using assms(1) flags_cleared [of self "reserveAssets (nav_of self e)" e] by (simp add: e1 nav_settings_ok_def Let_def registry_ok_def)
  show "moduleStates (the_set (e1\<lparr>the_set := s\<rparr>)) this \<noteq> INITIALIZED"
    using assms(3) by (auto simp: removeModule_def result_simps)
qed

subsection \<open>The utilities of the tests\<close>

lemma post_fee_exact:
  assumes "0 \<le> q" "0 \<le> tp" "0 \<le> mp" "pf = tp * q div PRECISE_UNIT" "mf = mp * q div PRECISE_UNIT" "pf + mf + net = q"
  shows "getExpectedPostFeeQuantity q mp tp = Inr net"
  using assms by (simp add: getExpectedPostFeeQuantity_def preciseMul_nonneg mult.commute [of q])

subsection \<open>What the four functions promise\<close>

context nav_reserve
begin

lemma keeps_backing:
  assumes "wf e" "set_inv (the_set e)" "\<forall>i. is_uint256 (getModuleFee (the_controller e) this i)"
    "a \<noteq> self" "weth \<noteq> self" "x \<noteq> self" "is_uint256 q"
    and run: "nav_issue F C this x self a q mn y e = Inr e' \<or> nav_redeem F C this x self a q mn y e = Inr e'
      \<or> issueWithEther C weth this x self q mn y e = Inr e' \<or> redeemIntoEther F C weth this x self q mn y e = Inr e'"
  shows "wf e' \<and> set_inv (the_set e') \<and> (\<forall>k. backs (bal k self e) (the_set e) k \<longrightarrow> backs (bal k self e') (the_set e') k)"
proof -
  have r: "ready e" using assms(1-3) by (simp add: ready_def)
  from run have "still_backed e e'"
  proof (elim disjE)
    assume "nav_issue F C this x self a q mn y e = Inr e'"
    then show ?thesis by (rule nav_issue_steps [OF r assms(4,6,7)])
  next
    assume "nav_redeem F C this x self a q mn y e = Inr e'"
    then show ?thesis by (rule nav_redeem_steps [OF r assms(4,7)])
  next
    assume "issueWithEther C weth this x self q mn y e = Inr e'"
    then show ?thesis by (rule issueWithEther_steps [OF r assms(7)])
  next
    assume "redeemIntoEther F C weth this x self q mn y e = Inr e'"
    then show ?thesis by (rule redeemIntoEther_steps [OF r assms(5,7)])
  qed
  then show ?thesis by (simp add: still_backed_def)
qed

lemma issue_price:
  assumes "wf e" "set_inv (the_set e)" "\<forall>i. is_uint256 (getModuleFee (the_controller e) this i)"
    "a \<noteq> self" "x \<noteq> self" "is_uint256 q" "nav_issue F C this x self a q mn y e = Inr e'"
  shows "\<exists>e1 V d net p n. spared self bal wf e e1 \<and> valuation_by C (nav_getSetValuer self e1) self a e1 = Inr V \<and> decimals_of C a e1 = Inr d
    \<and> net \<le> q \<and> p = net * premiumPercentage (nav_of self e1) div PRECISE_UNIT \<and> 0 \<le> p \<and> p \<le> net
    \<and> minSetTokenSupply (nav_of self e1) \<le> totalSupply (the_set e) \<and> mn \<le> n
    \<and> totalSupply (the_set e') = totalSupply (the_set e) + n
    \<and> balances (the_set e') = (balances (the_set e))(y := balances (the_set e) y + n)
    \<and> bal a self e + net \<le> bal a self e'
    \<and> n * V * wrap_uint256 (10 ^ nat d) * totalSupply (the_set e)
        \<le> ((net - p) * totalSupply (the_set e) * PRECISE_UNIT + n * wrap_uint256 (10 ^ nat d)) * PRECISE_UNIT"
proof -
  have r: "ready e" using assms(1-3) by (simp add: ready_def)
  obtain e1 info where S: "spared self bal wf e e1" "ready e1" "createIssuanceInfo C this self a q e1 = Inr info"
    "minSetTokenSupply (nav_of self e1) \<le> totalSupply (the_set e1)" "mn \<le> setTokenQuantity info"
    "totalSupply (the_set e') = totalSupply (the_set e) + setTokenQuantity info"
    "balances (the_set e') = (balances (the_set e))(y := balances (the_set e) y + setTokenQuantity info)"
    "bal a self e1 + netFlowQuantity info \<le> bal a self e'"
    by (rule nav_issue_steps [OF r assms(4-7)]) blast
  have e1: "wf e1" "set_inv (the_set e1)" "\<And>i. is_uint256 (getModuleFee (the_controller e1) this i)" using S(2) by (simp_all add: ready_def)
  have s: "the_set e1 = the_set e" "bal a self e \<le> bal a self e1" using S(1) by (simp_all add: spared_def)
  have I: "is_uint256 (netFlowQuantity info)" "netFlowQuantity info \<le> q"
    "getSetTokenMintQuantity C self a (netFlowQuantity info) (totalSupply (the_set e)) e1 = Inr (setTokenQuantity info)"
    using issuance_info [OF e1(1,2) assms(6) e1(3) S(3)] s(1) by (auto simp: is_uint256_def)
  have t: "is_uint256 (totalSupply (the_set e))" using set_inv_numbers [OF assms(2)] by blast
  obtain V d p where M: "valuation_by C (nav_getSetValuer self e1) self a e1 = Inr V" "decimals_of C a e1 = Inr d"
    "p = netFlowQuantity info * premiumPercentage (nav_of self e1) div PRECISE_UNIT" "0 \<le> p" "p \<le> netFlowQuantity info"
    "setTokenQuantity info * V * wrap_uint256 (10 ^ nat d) * totalSupply (the_set e)
       \<le> ((netFlowQuantity info - p) * totalSupply (the_set e) * PRECISE_UNIT + setTokenQuantity info * wrap_uint256 (10 ^ nat d)) * PRECISE_UNIT"
    by (rule getSetTokenMintQuantity_Inr [OF I(3,1) t settings_typed [OF e1(1)] value_typed [OF e1(1)]]) blast+
  have le: "minSetTokenSupply (nav_of self e1) \<le> totalSupply (the_set e)" "bal a self e + netFlowQuantity info \<le> bal a self e'"
    using S(4,8) s by simp_all
  show ?thesis
    by (intro exI conjI) (rule S(1) M(1) M(2) I(2) M(3) M(4) M(5) le(1) S(5) S(6) S(7) le(2) M(6))+
qed

lemma redeem_price:
  assumes "wf e" "set_inv (the_set e)" "\<forall>i. is_uint256 (getModuleFee (the_controller e) this i)"
    "a \<noteq> self" "is_uint256 q" "nav_redeem F C this x self a q mn y e = Inr e'"
  shows "\<exists>e1 V d out net. spared self bal wf e e1 \<and> valuation_by C (nav_getSetValuer self e1) self a e1 = Inr V \<and> decimals_of C a e1 = Inr d
    \<and> minSetTokenSupply (nav_of self e1) \<le> totalSupply (the_set e') \<and> mn \<le> net \<and> net \<le> out
    \<and> totalSupply (the_set e') = totalSupply (the_set e) - q \<and> q \<le> balances (the_set e) x
    \<and> balances (the_set e') = (balances (the_set e))(x := balances (the_set e) x - q)
    \<and> bal a self e' = bal a self e1 - out
    \<and> (premiumPercentage (nav_of self e1) \<le> PRECISE_UNIT \<longrightarrow> out * PRECISE_UNIT ^ 3
        \<le> q * V * wrap_uint256 (10 ^ nat d) * (PRECISE_UNIT - premiumPercentage (nav_of self e1)))"
proof -
  have r: "ready e" using assms(1-3) by (simp add: ready_def)
  obtain e1 info where S: "spared self bal wf e e1" "ready e1" "createRedemptionInfo C this self a q e1 = Inr info"
    "minSetTokenSupply (nav_of self e1) \<le> totalSupply (the_set e')" "mn \<le> netFlowQuantity info"
    "totalSupply (the_set e') = totalSupply (the_set e) - q" "q \<le> balances (the_set e) x"
    "balances (the_set e') = (balances (the_set e))(x := balances (the_set e) x - q)"
    "bal a self e' = bal a self e1 - (netFlowQuantity info + protocolFees info + managerFee info)"
    by (rule nav_redeem_steps [OF r assms(4-6)]) blast
  have e1: "wf e1" "set_inv (the_set e1)" "\<And>i. is_uint256 (getModuleFee (the_controller e1) this i)" using S(2) by (simp_all add: ready_def)
  let ?out = "netFlowQuantity info + protocolFees info + managerFee info"
  have I: "netFlowQuantity info \<le> ?out" "getRedeemReserveQuantity C self a q e1 = Inr ?out"
    using redemption_info [OF e1(1,2) assms(5) e1(3) S(3)] by (auto simp: is_uint256_def ac_simps)
  obtain V d where M: "valuation_by C (nav_getSetValuer self e1) self a e1 = Inr V" "decimals_of C a e1 = Inr d"
    "premiumPercentage (nav_of self e1) \<le> PRECISE_UNIT \<Longrightarrow> ?out * PRECISE_UNIT ^ 3
       \<le> q * V * wrap_uint256 (10 ^ nat d) * (PRECISE_UNIT - premiumPercentage (nav_of self e1))"
    by (rule getRedeemReserveQuantity_Inr [OF I(2) assms(5) settings_typed [OF e1(1)] value_typed [OF e1(1)]]) blast+
  have "premiumPercentage (nav_of self e1) \<le> PRECISE_UNIT \<longrightarrow> ?out * PRECISE_UNIT ^ 3
       \<le> q * V * wrap_uint256 (10 ^ nat d) * (PRECISE_UNIT - premiumPercentage (nav_of self e1))" using M(3) by blast
  then show ?thesis
    by (intro exI conjI) (rule S(1) M(1) M(2) S(4) S(5) I(1) S(6) S(7) S(8) S(9) | assumption)+
qed

end

end
