(* ===== verification/WrappedEther.thy ===== *)
theory WrappedEther
  imports ERC20
begin

section \<open>Wrapped Ether\<close>

text \<open>
  \<^verbatim>\<open>src/external/contracts/WETH9.sol\<close>, the wrapped Ether of the tests. Its arithmetic is unchecked: sums and differences
  wrap modulo \<open>2 ^ 256\<close>. The Ether that \<open>deposit\<close> receives and \<open>withdraw\<close> sends belongs to the chain and is moved by
  the caller of these definitions; \<open>totalSupply\<close> is the Ether balance of the contract.

  While the balances add up to at most the Ether the contract holds, no sum wraps and the contract stays solvent.
\<close>

record weth9 =
  weth_balanceOf :: "address \<Rightarrow> int"
  weth_allowance :: "address \<Rightarrow> address \<Rightarrow> int"

definition weth9_deposit :: "address \<Rightarrow> int \<Rightarrow> weth9 \<Rightarrow> weth9" where
  "weth9_deposit msg_sender msg_value w =
     w\<lparr>weth_balanceOf := (weth_balanceOf w)(msg_sender := wrap_uint256 (weth_balanceOf w msg_sender + msg_value))\<rparr>"

definition weth9_withdraw :: "address \<Rightarrow> int \<Rightarrow> weth9 \<Rightarrow> weth9 result" where
  "weth9_withdraw msg_sender wad w =
     rbind (require (weth_balanceOf w msg_sender \<ge> wad) []) (\<lambda>_.
     Ok (w\<lparr>weth_balanceOf := (weth_balanceOf w)(msg_sender := wrap_uint256 (weth_balanceOf w msg_sender - wad))\<rparr>))"

definition weth9_approve :: "address \<Rightarrow> address \<Rightarrow> int \<Rightarrow> weth9 \<Rightarrow> weth9" where
  "weth9_approve msg_sender guy wad w =
     w\<lparr>weth_allowance := (weth_allowance w)(msg_sender := (weth_allowance w msg_sender)(guy := wad))\<rparr>"

definition weth9_transferFrom :: "address \<Rightarrow> address \<Rightarrow> address \<Rightarrow> int \<Rightarrow> weth9 \<Rightarrow> weth9 result" where
  "weth9_transferFrom msg_sender src dst wad w =
     rbind (require (weth_balanceOf w src \<ge> wad) []) (\<lambda>_.
     rbind (if src \<noteq> msg_sender \<and> weth_allowance w src msg_sender \<noteq> wrap_uint256 (- 1) then
              rbind (require (weth_allowance w src msg_sender \<ge> wad) []) (\<lambda>_.
              Ok (w\<lparr>weth_allowance := (weth_allowance w)(src := (weth_allowance w src)
                 (msg_sender := wrap_uint256 (weth_allowance w src msg_sender - wad)))\<rparr>))
            else Ok w) (\<lambda>w1.
     let b = (weth_balanceOf w1)(src := wrap_uint256 (weth_balanceOf w1 src - wad)) in
     Ok (w1\<lparr>weth_balanceOf := b(dst := wrap_uint256 (b dst + wad))\<rparr>)))"

definition weth9_transfer :: "address \<Rightarrow> address \<Rightarrow> int \<Rightarrow> weth9 \<Rightarrow> weth9 result" where
  "weth9_transfer msg_sender dst wad w = weth9_transferFrom msg_sender msg_sender dst wad w"

subsection \<open>Solvency\<close>

text \<open>The balances are numbers of their type that add up to \<open>n\<close>.\<close>

definition weth9_sums :: "weth9 \<Rightarrow> int \<Rightarrow> bool" where
  "weth9_sums w n \<longleftrightarrow> (\<forall>a. is_uint256 (weth_balanceOf w a)) \<and> conserved (weth_balanceOf w) n \<and> n \<le> MAX_UINT_256"

lemma conserved_le: "conserved f n \<Longrightarrow> (\<And>a. 0 \<le> f a) \<Longrightarrow> f x \<le> n"
  using le_total [of f x] by (auto simp: conserved_def)

lemma weth9_deposit_sums:
  assumes "weth9_sums w n" "0 \<le> v" "n + v \<le> MAX_UINT_256"
  shows "weth9_sums (weth9_deposit x v w) (n + v)
    \<and> weth_balanceOf (weth9_deposit x v w) = (weth_balanceOf w)(x := weth_balanceOf w x + v)"
proof -
  have "0 \<le> weth_balanceOf w x" "weth_balanceOf w x \<le> n"
    using assms(1) conserved_le [of "weth_balanceOf w" n x] by (simp_all add: weth9_sums_def is_uint256_def)
  then have t: "is_uint256 (weth_balanceOf w x + v)" using assms(2,3) by (simp add: is_uint256_def)
  then show ?thesis using assms conserved_credit [of "weth_balanceOf w" n x v]
    by (simp add: weth9_deposit_def weth9_sums_def wrap_uint256_id)
qed

lemma weth9_withdraw_sums:
  assumes "weth9_sums w n" "is_uint256 v" "weth9_withdraw x v w = Inr w'"
  shows "weth9_sums w' (n - v) \<and> v \<le> n \<and> v \<le> weth_balanceOf w x \<and> weth_balanceOf w' = (weth_balanceOf w)(x := weth_balanceOf w x - v)"
proof -
  have v: "v \<le> weth_balanceOf w x" "w' = w\<lparr>weth_balanceOf := (weth_balanceOf w)(x := wrap_uint256 (weth_balanceOf w x - v))\<rparr>"
    using assms(3) by (auto simp: weth9_withdraw_def rbind_eq_Inr require_eq_Inr)
  have "weth_balanceOf w x \<le> n"
    using assms(1) conserved_le [of "weth_balanceOf w" n x] by (simp add: weth9_sums_def is_uint256_def)
  moreover have t: "is_uint256 (weth_balanceOf w x - v)" using assms(1,2) v(1) by (intro is_uint256_diff) (simp_all add: weth9_sums_def)
  ultimately show ?thesis using assms(1,2) v conserved_debit [of "weth_balanceOf w" n x v]
    by (simp add: weth9_sums_def wrap_uint256_id) (simp add: is_uint256_def)
qed

lemma weth9_transferFrom_sums:
  assumes "weth9_sums w n" "is_uint256 v" "weth9_transferFrom s x y v w = Inr w'"
  shows "weth9_sums w' n \<and> v \<le> weth_balanceOf w x
    \<and> weth_balanceOf w' = ((weth_balanceOf w)(x := weth_balanceOf w x - v))(y := ((weth_balanceOf w)(x := weth_balanceOf w x - v)) y + v)"
proof -
  let ?b = "(weth_balanceOf w)(x := weth_balanceOf w x - v)"
  have v: "v \<le> weth_balanceOf w x"
    and w': "weth_balanceOf w' = ((weth_balanceOf w)(x := wrap_uint256 (weth_balanceOf w x - v)))
       (y := wrap_uint256 (((weth_balanceOf w)(x := wrap_uint256 (weth_balanceOf w x - v))) y + v))"
    using assms(3) by (auto simp: weth9_transferFrom_def rbind_eq_Inr require_eq_Inr Let_def split: if_splits)
  have t: "is_uint256 (weth_balanceOf w x - v)" using assms(1,2) v by (intro is_uint256_diff) (simp_all add: weth9_sums_def)
  have c: "conserved ?b (n - v)" using assms(1) conserved_debit by (simp add: weth9_sums_def)
  have nn: "0 \<le> ?b a" for a using assms(1) t by (simp add: weth9_sums_def is_uint256_def)
  have "?b y + v \<le> n" using conserved_le [OF c nn] by (simp add: algebra_simps)
  then have ty: "is_uint256 (?b y + v)" using nn [of y] assms(1,2) by (simp add: is_uint256_def weth9_sums_def)
  have e: "weth_balanceOf w' = ?b(y := ?b y + v)" unfolding w' using wrap_uint256_id [OF t] wrap_uint256_id [OF ty] by simp
  have "conserved (?b(y := ?b y + v)) n" using conserved_credit [OF c, of y v] by simp
  moreover have "is_uint256 ((?b(y := ?b y + v)) a)" for a using ty t assms(1) by (simp add: weth9_sums_def)
  ultimately show ?thesis using e v assms(1) by (simp add: weth9_sums_def del: fun_upd_apply)
qed

end
