(* ===== verification/AssetLimitHook.thy ===== *)
theory AssetLimitHook
  imports AddressArrayUtils
begin

section \<open>AssetLimitHook\<close>

text \<open>
  \<^verbatim>\<open>src/contracts/product/AssetLimitHook.sol\<close>: a hook of issuance at net asset value that bounds the size of an issue per
  reserve asset and of a redemption per Set. \<open>Ownable\<close> is a package outside the repository; of it the model has the owner
  and his check.

  An asset with a limit is always listed. A limit of zero counts as absent, so that an asset added with limit zero can be
  added again and never removed.
\<close>

record asset_limit_hook =
  alh_owner :: address
  assetLimits :: "address \<Rightarrow> int"
  limited_assets :: "address list"

fun alh_loop :: "address list \<Rightarrow> int list \<Rightarrow> nat \<Rightarrow> (address \<Rightarrow> int) \<Rightarrow> (address \<Rightarrow> int) result" where
  "alh_loop [] ls i f = Ok f"
| "alh_loop (a # as) ls i f =
     rbind (require (f a = 0) ''Asset already added'') (\<lambda>_.
     rbind (array_get ls i) (\<lambda>n.
     alh_loop as ls (Suc i) (f(a := n))))"

definition alh_constructor :: "address \<Rightarrow> address list \<Rightarrow> int list \<Rightarrow> asset_limit_hook result" where
  "alh_constructor msg_sender as ls =
     rbind (require (length as = length ls) ''Arrays must be equal'') (\<lambda>_.
     rbind (require (length as \<noteq> 0) ''Array must not be empty'') (\<lambda>_.
     rbind (alh_loop as ls 0 (\<lambda>_. 0)) (\<lambda>f.
     Ok \<lparr>alh_owner = msg_sender, assetLimits = f, limited_assets = as\<rparr>)))"

definition alh_invokePreIssueHook :: "asset_limit_hook \<Rightarrow> address \<Rightarrow> int \<Rightarrow> unit result" where
  "alh_invokePreIssueHook h reserveAsset quantity = require (quantity \<le> assetLimits h reserveAsset) ''Issue size exceeds asset limit''"

definition alh_invokePreRedeemHook :: "asset_limit_hook \<Rightarrow> address \<Rightarrow> int \<Rightarrow> unit result" where
  "alh_invokePreRedeemHook h setToken quantity = require (quantity \<le> assetLimits h setToken) ''Redeem size exceeds asset limit''"

definition alh_onlyOwner :: "address \<Rightarrow> asset_limit_hook \<Rightarrow> unit result" where
  "alh_onlyOwner msg_sender h = require (alh_owner h = msg_sender) ''Ownable: caller is not the owner''"

definition addAssetLimit :: "address \<Rightarrow> address \<Rightarrow> int \<Rightarrow> asset_limit_hook \<Rightarrow> asset_limit_hook result" where
  "addAssetLimit msg_sender a n h =
     rbind (alh_onlyOwner msg_sender h) (\<lambda>_.
     rbind (require (assetLimits h a = 0) ''Asset already added'') (\<lambda>_.
     Ok (h\<lparr>assetLimits := (assetLimits h)(a := n), limited_assets := limited_assets h @ [a]\<rparr>)))"

definition editAssetLimit :: "address \<Rightarrow> address \<Rightarrow> int \<Rightarrow> asset_limit_hook \<Rightarrow> asset_limit_hook result" where
  "editAssetLimit msg_sender a n h =
     rbind (alh_onlyOwner msg_sender h) (\<lambda>_.
     rbind (require (assetLimits h a \<noteq> 0) ''Asset not added'') (\<lambda>_.
     Ok (h\<lparr>assetLimits := (assetLimits h)(a := n)\<rparr>)))"

definition removeAssetLimit :: "address \<Rightarrow> address \<Rightarrow> asset_limit_hook \<Rightarrow> asset_limit_hook result" where
  "removeAssetLimit msg_sender a h =
     rbind (alh_onlyOwner msg_sender h) (\<lambda>_.
     rbind (require (assetLimits h a \<noteq> 0) ''Asset not added'') (\<lambda>_.
     rbind (remove (limited_assets h) a) (\<lambda>as.
     Ok (h\<lparr>assetLimits := (assetLimits h)(a := 0), limited_assets := as\<rparr>))))"

definition getAssets :: "asset_limit_hook \<Rightarrow> address list" where
  "getAssets h = limited_assets h"

subsection \<open>Limits and the list\<close>

inductive alh_reachable :: "asset_limit_hook \<Rightarrow> bool" where
  created: "alh_constructor u as ls = Inr h \<Longrightarrow> alh_reachable h"
| added: "alh_reachable h \<Longrightarrow> addAssetLimit u a n h = Inr h' \<Longrightarrow> alh_reachable h'"
| edited: "alh_reachable h \<Longrightarrow> editAssetLimit u a n h = Inr h' \<Longrightarrow> alh_reachable h'"
| removed: "alh_reachable h \<Longrightarrow> removeAssetLimit u a h = Inr h' \<Longrightarrow> alh_reachable h'"
| handed_over: "alh_reachable h \<Longrightarrow> alh_reachable (h\<lparr>alh_owner := u\<rparr>)"

lemma alh_loop_listed: "alh_loop as ls i f = Inr g \<Longrightarrow> g a \<noteq> f a \<Longrightarrow> a \<in> set as"
proof (induction as arbitrary: i f)
  case (Cons b as)
  then show ?case
    using Cons.IH [of "Suc i" "f(b := ls ! i)"] by (cases "a = b") (auto simp: rbind_eq_Inr require_eq_Inr array_get_eq_Inr)
qed simp

lemma limits_listed: "alh_reachable h \<Longrightarrow> assetLimits h a \<noteq> 0 \<Longrightarrow> a \<in> set (limited_assets h)"
proof (induction arbitrary: a rule: alh_reachable.induct)
  case (created u as ls h)
  then show ?case using alh_loop_listed [of as ls 0 "\<lambda>_. 0" "assetLimits h" a]
    by (auto simp: alh_constructor_def rbind_eq_Inr require_eq_Inr)
qed (auto simp: addAssetLimit_def editAssetLimit_def removeAssetLimit_def rbind_eq_Inr require_eq_Inr remove_eq_Inr split: if_splits)

text \<open>An asset added with limit zero is listed twice after the next addition, and cannot be removed.\<close>

lemma zero_limit_stuck:
  assumes "assetLimits h a = 0" "alh_owner h = u"
  shows "\<exists>h1 h2. addAssetLimit u a 0 h = Inr h1 \<and> addAssetLimit u a 0 h1 = Inr h2
    \<and> limited_assets h2 = limited_assets h @ [a, a] \<and> removeAssetLimit u a h2 = Inl (Revert ''Asset not added'')"
  using assms by (simp add: addAssetLimit_def removeAssetLimit_def alh_onlyOwner_def)

end
