(* ===== verification/NavMarket.thy ===== *)
theory NavMarket
  imports Complex_Main NavIssuanceModule WrappedEther AssetLimitHook
begin

section \<open>Issuance at net asset value among the contracts of the repository\<close>

text \<open>
  The module of the theory \<open>NavIssuanceModule\<close> together with the contracts it meets in the tests: components that are ERC20
  tokens, \<open>WETH9\<close> at the address 50, the \<open>SetValuer\<close> at 44 with the oracles of its example, hooks that are \<open>AssetLimitHook\<close>
  contracts, and the Ether of all accounts. The interface \<open>nav_reserve\<close> is interpreted on them, for the Set at 20 and the
  module at 7. The properties of the module follow, each with an issue evaluated in this world.
\<close>

record nav_market =
  tokens :: "address \<Rightarrow> erc20"
  wrapped :: weth9
  ether :: "address \<Rightarrow> int"
  limit_hooks :: "address \<Rightarrow> asset_limit_hook option"

definition WETH :: address where
  "WETH = 50"

definition VALUER :: address where
  "VALUER = 44"

definition put_market :: "(nav_market \<Rightarrow> nav_market) \<Rightarrow> nav_market nav_evm \<Rightarrow> nav_market nav_evm" where
  "put_market f e = e\<lparr>outside := (fst (outside e), f (snd (outside e)))\<rparr>"

definition put_token :: "address \<Rightarrow> nav_market nav_evm \<Rightarrow> erc20 result \<Rightarrow> (nav_market nav_evm) result" where
  "put_token t e r = rbind r (\<lambda>tok. Ok (put_market (\<lambda>m. m\<lparr>tokens := (tokens m)(t := tok)\<rparr>) e))"

definition put_wrapped :: "nav_market nav_evm \<Rightarrow> weth9 result \<Rightarrow> (nav_market nav_evm) result" where
  "put_wrapped e r = rbind r (\<lambda>w. Ok (put_market (\<lambda>m. m\<lparr>wrapped := w\<rparr>) e))"

definition move_ether :: "address \<Rightarrow> address \<Rightarrow> int \<Rightarrow> nav_market nav_evm \<Rightarrow> (nav_market nav_evm) result" where
  "move_ether x y n e =
     (let b = ether (snd (outside e)) in
      rbind (require (n \<le> b x) []) (\<lambda>_.
      let b1 = b(x := b x - n) in
      Ok (put_market (\<lambda>m. m\<lparr>ether := b1(y := b1 y + n)\<rparr>) e)))"

text \<open>Calls of the Set on WETH9: \<open>transfer\<close> and \<open>approve\<close>, without Ether.\<close>

definition weth9_dispatch :: "address \<Rightarrow> int \<Rightarrow> bytes \<Rightarrow> weth9 \<Rightarrow> weth9 result" where
  "weth9_dispatch caller value data w =
     (let a = be_value (take 32 (drop 4 data)); n = int (be_value (take 32 (drop 36 data))) in
      if value \<noteq> 0 \<or> length data < 68 then Err (Revert [])
      else if take 4 data = token_selector ''transfer(address,uint256)'' then weth9_transfer caller a n w
      else if take 4 data = token_selector ''approve(address,uint256)'' then Ok (weth9_approve caller a n w)
      else Err (Revert []))"

definition nav_foreign_code :: "nav_market nav_foreign" where
  "nav_foreign_code =
     \<lparr>balance_of = (\<lambda>t a e. Ok (if t = WETH then weth_balanceOf (wrapped (snd (outside e))) a else balanceOf (tokens (snd (outside e)) t) a)),
      safeTransferFrom = (\<lambda>sp t x y n e.
        if t = WETH then put_wrapped e (weth9_transferFrom sp x y n (wrapped (snd (outside e))))
        else put_token t e (transferFrom sp x y n (tokens (snd (outside e)) t))),
      functionCallWithValue = (\<lambda>caller t v d e.
        rbind (if t = WETH then put_wrapped e (weth9_dispatch caller v d (wrapped (snd (outside e))))
               else put_token t e (token_dispatch caller v d (tokens (snd (outside e)) t))) (\<lambda>e'. Ok (e', abi_word 1))),
      invokePreIssueHook = (\<lambda>h a n x y e. Ok e),
      selector = token_selector\<rparr>"

definition nav_valuation :: "address \<Rightarrow> controller \<Rightarrow> set_token \<Rightarrow> address \<Rightarrow> int result" where
  "nav_valuation v c s quote =
     (if v = VALUER then calculateSetTokenValuation demo_read (\<lambda>_ _ _. Ok (False, 0)) (\<lambda>_. Ok 18) (\<lambda>_. Some valuer_oracle) c v s quote
      else Err (Revert []))"

definition nav_code_here :: "nav_market nav_calls" where
  "nav_code_here =
     \<lparr>decimals_of = (\<lambda>t e. Ok (if t = WETH then 18 else token_decimals (tokens (snd (outside e)) t))),
      valuation_by = (\<lambda>v set_address quote e. nav_valuation v (the_controller e) (the_set e) quote),
      nav_issue_hook = (\<lambda>h set_address a n x y e. case limit_hooks (snd (outside e)) h of None \<Rightarrow> Err (Revert [])
        | Some l \<Rightarrow> rbind (alh_invokePreIssueHook l a n) (\<lambda>_. Ok e)),
      nav_redeem_hook = (\<lambda>h set_address n x y e. case limit_hooks (snd (outside e)) h of None \<Rightarrow> Err (Revert [])
        | Some l \<Rightarrow> rbind (alh_invokePreRedeemHook l set_address n) (\<lambda>_. Ok e)),
      weth_deposit = (\<lambda>caller w n e. if w \<noteq> WETH then Err (Revert []) else
        rbind (move_ether caller WETH n e) (\<lambda>e1. put_wrapped e1 (Ok (weth9_deposit caller n (wrapped (snd (outside e1))))))),
      weth_withdraw = (\<lambda>caller w n e. if w \<noteq> WETH then Err (Revert []) else
        rbind (put_wrapped e (weth9_withdraw caller n (wrapped (snd (outside e))))) (move_ether WETH caller n)),
      weth_transfer = (\<lambda>caller w y n e. if w \<noteq> WETH then Err (Revert []) else
        put_wrapped e (weth9_transfer caller y n (wrapped (snd (outside e))))),
      send_ether = move_ether\<rparr>"

subsection \<open>The state of the world\<close>

definition nav_bal :: "address \<Rightarrow> address \<Rightarrow> nav_market nav_evm \<Rightarrow> int" where
  "nav_bal t a e = (if t = WETH then weth_balanceOf (wrapped (snd (outside e))) a else balances (tokens (snd (outside e)) t) a)"

text \<open>WETH9 holds the Ether for all its tokens.\<close>

definition market_ok :: "nav_market \<Rightarrow> bool" where
  "market_ok m \<longleftrightarrow> (\<forall>t. erc20_typed (tokens m t)) \<and> (\<forall>a. 0 \<le> ether m a) \<and> (\<exists>E \<le> MAX_UINT_256. conserved (ether m) E)
     \<and> (\<exists>n \<le> ether m WETH. weth9_sums (wrapped m) n)"

definition nav_world_ok :: "nav_market nav_evm \<Rightarrow> bool" where
  "nav_world_ok e \<longleftrightarrow> (\<forall>a. nav_typed (navIssuanceSettings (fst (outside e)) a)) \<and> market_ok (snd (outside e))"

lemma put_market_simps [simp]:
  "the_set (put_market f e) = the_set e" "the_controller (put_market f e) = the_controller e"
  "outside (put_market f e) = (fst (outside e), f (snd (outside e)))"
  by (simp_all add: put_market_def)

lemma put_token_Inr:
  assumes "put_token t e r = Inr e'" "nav_world_ok e" "\<And>tok. r = Inr tok \<Longrightarrow> erc20_typed tok" "t \<noteq> WETH"
  obtains tok where "r = Inr tok" "nav_world_ok e'" "the_set e' = the_set e" "the_controller e' = the_controller e"
    "\<And>t' a. nav_bal t' a e' = (if t' = t then balances tok a else nav_bal t' a e)"
proof -
  obtain tok where tok: "r = Inr tok" "e' = put_market (\<lambda>m. m\<lparr>tokens := (tokens m)(t := tok)\<rparr>) e"
    using assms(1) by (auto simp: put_token_def rbind_eq_Inr)
  show thesis by (rule that [OF tok(1)]) (use assms(2-4) tok in \<open>auto simp: nav_world_ok_def market_ok_def nav_bal_def\<close>)
qed

lemma put_wrapped_Inr:
  assumes "put_wrapped e r = Inr e'" "nav_world_ok e" "\<And>w n. r = Inr w \<Longrightarrow> weth9_sums (wrapped (snd (outside e))) n \<Longrightarrow> weth9_sums w n"
  obtains w where "r = Inr w" "nav_world_ok e'" "the_set e' = the_set e" "the_controller e' = the_controller e"
    "\<And>t a. nav_bal t a e' = (if t = WETH then weth_balanceOf w a else nav_bal t a e)"
proof -
  obtain w where w: "r = Inr w" "e' = put_market (\<lambda>m. m\<lparr>wrapped := w\<rparr>) e"
    using assms(1) by (auto simp: put_wrapped_def rbind_eq_Inr)
  show thesis by (rule that [OF w(1)]) (use assms(2,3) w in \<open>auto simp: nav_world_ok_def market_ok_def nav_bal_def\<close>)
qed

lemma market_ether:
  assumes "market_ok m" "0 \<le> v" "v \<le> ether m x" "m' = m\<lparr>ether := ((ether m)(x := ether m x - v))(y := ((ether m)(x := ether m x - v)) y + v)\<rparr>"
    "weth9_sums (wrapped m) n" "n + (if x = WETH then v else 0) \<le> ether m WETH"
  shows "market_ok m' \<and> n + (if y = WETH then v else 0) \<le> ether m' WETH \<and> ether m' WETH \<le> MAX_UINT_256"
proof -
  obtain E where E: "conserved (ether m) E" "E \<le> MAX_UINT_256" using assms(1) by (auto simp: market_ok_def)
  let ?f = "(ether m)(x := ether m x - v)"
  have c: "conserved (?f(y := ?f y + v)) E" using conserved_credit [OF conserved_debit [OF E(1), of x v], of y v] by simp
  have nn: "0 \<le> (?f(y := ?f y + v)) a" for a using assms(1-3) by (auto simp: market_ok_def)
  have W: "n + (if y = WETH then v else 0) \<le> (?f(y := ?f y + v)) WETH" using assms(2,6) by auto
  then have "\<exists>n \<le> (?f(y := ?f y + v)) WETH. weth9_sums (wrapped m) n" using assms(2,5) by (intro exI [of _ n]) (auto split: if_splits)
  moreover have "(?f(y := ?f y + v)) WETH \<le> MAX_UINT_256" using conserved_le [OF c nn, of WETH] E(2) by (rule order_trans)
  ultimately show ?thesis using assms(1) c nn E(2) W by (auto simp: assms(4) market_ok_def simp del: fun_upd_apply)
qed

lemma move_ether_Inr:
  assumes "move_ether x y v e = Inr e'" "nav_world_ok e" "0 \<le> v" "weth9_sums (wrapped (snd (outside e))) n"
    "n + (if x = WETH then v else 0) \<le> ether (snd (outside e)) WETH"
  shows "nav_world_ok e' \<and> the_set e' = the_set e \<and> the_controller e' = the_controller e \<and> (\<forall>t a. nav_bal t a e' = nav_bal t a e)
    \<and> fst (outside e') = fst (outside e) \<and> wrapped (snd (outside e')) = wrapped (snd (outside e))
    \<and> n + (if y = WETH then v else 0) \<le> ether (snd (outside e')) WETH \<and> ether (snd (outside e')) WETH \<le> MAX_UINT_256"
proof -
  let ?m = "snd (outside e)"
  let ?f = "(ether ?m)(x := ether ?m x - v)"
  define m' where "m' = ?m\<lparr>ether := ?f(y := ?f y + v)\<rparr>"
  have v: "v \<le> ether ?m x" and e': "e' = put_market (\<lambda>m. m\<lparr>ether := ?f(y := ?f y + v)\<rparr>) e"
    using assms(1) by (auto simp: move_ether_def Let_def rbind_eq_Inr require_eq_Inr)
  have o: "outside e' = (fst (outside e), m')" "wrapped m' = wrapped ?m" "tokens m' = tokens ?m" by (simp_all add: e' m'_def)
  have "market_ok ?m" using assms(2) by (simp add: nav_world_ok_def)
  from market_ether [OF this assms(3) v m'_def assms(4,5)] show ?thesis
    using assms(2) o by (simp add: e' nav_world_ok_def nav_bal_def)
qed

lemma nav_sums: "nav_world_ok e \<Longrightarrow> \<exists>n. n \<le> ether (snd (outside e)) WETH \<and> weth9_sums (wrapped (snd (outside e))) n"
  by (auto simp: nav_world_ok_def market_ok_def)

lemma deposit_spares:
  assumes "nav_world_ok e" "is_uint256 v" "x \<noteq> self" "x \<noteq> WETH" "weth_deposit nav_code_here x w v e = Inr e'"
  shows "spared self nav_bal nav_world_ok e e'"
proof -
  obtain n where n: "n \<le> ether (snd (outside e)) WETH" "weth9_sums (wrapped (snd (outside e))) n" using nav_sums [OF assms(1)] by blast
  obtain e1 where e1: "move_ether x WETH v e = Inr e1"
    and e': "e' = put_market (\<lambda>m. m\<lparr>wrapped := weth9_deposit x v (wrapped (snd (outside e1)))\<rparr>) e1"
    using assms(5) by (auto simp: nav_code_here_def rbind_eq_Inr put_wrapped_def split: if_splits)
  have v: "0 \<le> v" using assms(2) by (simp add: is_uint256_def)
  have M: "nav_world_ok e1" "the_set e1 = the_set e" "the_controller e1 = the_controller e" "\<And>t a. nav_bal t a e1 = nav_bal t a e"
    "wrapped (snd (outside e1)) = wrapped (snd (outside e))" "n + v \<le> ether (snd (outside e1)) WETH" "ether (snd (outside e1)) WETH \<le> MAX_UINT_256"
    using move_ether_Inr [OF e1 assms(1) v n(2)] n(1) assms(4) by simp_all
  have D: "weth9_sums (weth9_deposit x v (wrapped (snd (outside e1)))) (n + v)"
    "weth_balanceOf (weth9_deposit x v (wrapped (snd (outside e1)))) = (weth_balanceOf (wrapped (snd (outside e1))))(x := weth_balanceOf (wrapped (snd (outside e1))) x + v)"
    using weth9_deposit_sums [of "wrapped (snd (outside e1))" n v x] n(2) M(5-7) v by simp_all
  have "nav_world_ok e'" using M(1,6) D(1) by (auto simp: e' nav_world_ok_def market_ok_def)
  moreover have "nav_bal t self e' = nav_bal t self e1" for t using D(2) assms(3) by (simp add: nav_bal_def e')
  ultimately show ?thesis using M(2-4) by (simp add: spared_def) (simp add: e')
qed

lemma withdraw_spares:
  assumes "nav_world_ok e" "is_uint256 v" "x \<noteq> self" "weth_withdraw nav_code_here x w v e = Inr e'"
  shows "spared self nav_bal nav_world_ok e e'"
proof -
  obtain n where n: "n \<le> ether (snd (outside e)) WETH" "weth9_sums (wrapped (snd (outside e))) n" using nav_sums [OF assms(1)] by blast
  obtain w1 where w1: "weth9_withdraw x v (wrapped (snd (outside e))) = Inr w1"
    and e': "move_ether WETH x v (put_market (\<lambda>m. m\<lparr>wrapped := w1\<rparr>) e) = Inr e'"
    using assms(4) by (auto simp: nav_code_here_def rbind_eq_Inr put_wrapped_def split: if_splits)
  let ?e1 = "put_market (\<lambda>m. m\<lparr>wrapped := w1\<rparr>) e"
  have v: "0 \<le> v" using assms(2) by (simp add: is_uint256_def)
  note W = weth9_withdraw_sums [OF n(2) assms(2) w1]
  have "nav_world_ok ?e1" using assms(1) W n(1) v by (auto simp: nav_world_ok_def market_ok_def intro!: exI [of _ "n - v"])
  from move_ether_Inr [OF e' this v, of "n - v"] W n(1)
  have "nav_world_ok e'" "the_set e' = the_set e" "the_controller e' = the_controller e" "\<And>t a. nav_bal t a e' = nav_bal t a ?e1"
    by simp_all
  moreover have "nav_bal t self ?e1 = nav_bal t self e" for t using W assms(3) by (simp add: nav_bal_def)
  ultimately show ?thesis by (simp add: spared_def)
qed

lemma ether_spares:
  assumes "nav_world_ok e" "is_uint256 v" "x \<noteq> WETH" "send_ether nav_code_here x y v e = Inr e'"
  shows "spared self nav_bal nav_world_ok e e'"
proof -
  obtain n where n: "n \<le> ether (snd (outside e)) WETH" "weth9_sums (wrapped (snd (outside e))) n" using nav_sums [OF assms(1)] by blast
  have "move_ether x y v e = Inr e'" "0 \<le> v" using assms(2,4) by (simp_all add: nav_code_here_def is_uint256_def)
  from move_ether_Inr [OF this(1) assms(1) this(2) n(2)] n(1) assms(3) show ?thesis by (simp add: spared_def)
qed

lemma weth_moves:
  assumes "nav_world_ok e" "is_uint256 v" "put_wrapped e (weth9_transferFrom s x y v (wrapped (snd (outside e)))) = Inr e'"
  shows "nav_world_ok e' \<and> the_set e' = the_set e \<and> the_controller e' = the_controller e
    \<and> (\<forall>t a. t \<noteq> WETH \<longrightarrow> nav_bal t a e' = nav_bal t a e)
    \<and> (\<forall>a. x \<noteq> a \<longrightarrow> nav_bal WETH a e' = nav_bal WETH a e + (if y = a then v else 0))"
proof (rule put_wrapped_Inr [OF assms(3,1)])
  fix w n assume "weth9_transferFrom s x y v (wrapped (snd (outside e))) = Inr w" "weth9_sums (wrapped (snd (outside e))) n"
  then show "weth9_sums w n" using weth9_transferFrom_sums assms(2) by blast
next
  fix w
  assume w: "weth9_transferFrom s x y v (wrapped (snd (outside e))) = Inr w" and *: "nav_world_ok e'" "the_set e' = the_set e"
    "the_controller e' = the_controller e" "\<And>t a. nav_bal t a e' = (if t = WETH then weth_balanceOf w a else nav_bal t a e)"
  obtain n where n: "weth9_sums (wrapped (snd (outside e))) n" using nav_sums [OF assms(1)] by blast
  have "weth_balanceOf w a = nav_bal WETH a e + (if y = a then v else 0)" if "x \<noteq> a" for a
    using weth9_transferFrom_sums [OF n assms(2) w] that by (simp add: nav_bal_def)
  then show ?thesis using * by simp
qed

lemma token_pull:
  assumes "nav_world_ok e" "is_uint256 v" "t \<noteq> WETH" "put_token t e (transferFrom s x y v (tokens (snd (outside e)) t)) = Inr e'"
  shows "nav_world_ok e' \<and> the_set e' = the_set e \<and> the_controller e' = the_controller e
    \<and> (\<forall>t' a. t' \<noteq> t \<longrightarrow> nav_bal t' a e' = nav_bal t' a e)
    \<and> (\<forall>a. x \<noteq> a \<longrightarrow> nav_bal t a e \<le> nav_bal t a e')"
proof -
  let ?tok = "tokens (snd (outside e)) t"
  have ty: "erc20_typed ?tok" using assms(1) by (simp add: nav_world_ok_def market_ok_def)
  have T: "erc20_typed tok" if "transferFrom s x y v ?tok = Inr tok" for tok using transferFrom_typed [OF ty assms(2) that] .
  obtain tok where tok: "transferFrom s x y v ?tok = Inr tok" and *: "nav_world_ok e'" "the_set e' = the_set e"
    "the_controller e' = the_controller e" "\<And>t' a. nav_bal t' a e' = (if t' = t then balances tok a else nav_bal t' a e)"
    using put_token_Inr [OF assms(4,1) T assms(3)] by blast
  obtain s1 where s1: "erc20_transfer_internal x y v ?tok = Inr s1" "balances tok = balances s1"
    using tok by (auto simp: transferFrom_def rbind_eq_Inr erc20_approve_internal_def require_eq_Inr)
  have "nav_bal t a e \<le> balances tok a" if "x \<noteq> a" for a
    using erc20.move_law [OF ty assms(2) s1(1)] s1(2) that assms(2,3) by (simp add: nav_bal_def is_uint256_def)
  then show ?thesis using * by simp
qed

lemma market_call:
  assumes "nav_world_ok e" "functionCallWithValue nav_foreign_code x t v d e = Inr (e', ret)"
  shows "nav_world_ok e' \<and> the_set e' = the_set e \<and> the_controller e' = the_controller e
    \<and> (\<forall>t' a. t' \<noteq> t \<longrightarrow> nav_bal t' a e' = nav_bal t' a e)"
proof (cases "t = WETH")
  case True
  let ?w = "wrapped (snd (outside e))" and ?n = "int (be_value (take 32 (drop 36 d)))"
  have "be_value (take 32 (drop 36 d)) < 256 ^ 32"
    by (rule order_less_le_trans [OF be_value_bound]) (rule power_increasing, simp_all)
  then have n: "is_uint256 ?n" by (simp add: is_uint256_def)
  have sums: "weth9_sums w' k" if d: "weth9_dispatch x v d ?w = Inr w'" and k: "weth9_sums ?w k" for w' k
  proof -
    let ?a = "be_value (take 32 (drop 4 d))"
    have "weth9_transferFrom x x ?a ?n ?w = Inr w' \<or> w' = weth9_approve x ?a ?n ?w"
      using d by (auto simp: weth9_dispatch_def weth9_transfer_def Let_def split: if_splits)
    moreover have "weth9_sums (weth9_approve x ?a ?n ?w) k" using k by (simp add: weth9_approve_def weth9_sums_def)
    ultimately show ?thesis using weth9_transferFrom_sums [OF k n] by blast
  qed
  have r: "put_wrapped e (weth9_dispatch x v d ?w) = Inr e'"
    using assms(2) True by (auto simp: nav_foreign_code_def rbind_eq_Inr)
  show ?thesis by (rule put_wrapped_Inr [OF r assms(1) sums]) (use True in simp_all)
next
  case False
  have ty: "erc20_typed (tokens (snd (outside e)) t)" using assms(1) by (simp add: nav_world_ok_def market_ok_def)
  have r: "put_token t e (token_dispatch x v d (tokens (snd (outside e)) t)) = Inr e'"
    using assms(2) False by (auto simp: nav_foreign_code_def rbind_eq_Inr)
  show ?thesis by (rule put_token_Inr [OF r assms(1) token_dispatch_typed [OF ty] False]) simp_all
qed

lemma valuation_loop_typed: "is_int256 v0 \<Longrightarrow> valuation_loop price dec s ks v0 = Inr v \<Longrightarrow> is_int256 v"
  by (induction ks arbitrary: v0) (auto simp: rbind_eq_Inr Let_def sadd_eq_Inr)

lemma nav_valuation_typed: "nav_valuation v c s quote = Inr n \<Longrightarrow> is_uint256 n"
proof -
  assume "nav_valuation v c s quote = Inr n"
  then obtain V where n: "0 \<le> n" "valuation_loop (master_price demo_read (\<lambda>_ _ _. Ok (False, 0)) c v valuer_oracle) (\<lambda>_. Ok 18) s (components s) 0 = Inr V"
    "n = V \<or> (\<exists>q. preciseDiv_int V q = Inr n)"
    by (auto simp: nav_valuation_def valuation_Inr split: if_splits)
  have "is_int256 V" by (rule valuation_loop_typed [OF _ n(2)]) (simp add: is_int256_def)
  then have "is_int256 n" using n(3) by (auto simp: preciseDiv_int_def result_simps)
  then show ?thesis using n(1) by (simp add: is_int256_def is_uint256_def)
qed

interpretation nav_world: nav_reserve nav_foreign_code 20 nav_bal nav_world_ok nav_code_here 50 7
proof
  fix e e' :: "nav_market nav_evm" and n t sp x y
  assume ok: "nav_world_ok e" and n: "is_uint256 n"
    and run: "safeTransferFrom nav_foreign_code sp t x y n e = Inr e'"
  have R: "nav_world_ok e' \<and> the_set e' = the_set e \<and> the_controller e' = the_controller e
      \<and> (\<forall>t' a. t' \<noteq> t \<longrightarrow> nav_bal t' a e' = nav_bal t' a e) \<and> (x \<noteq> 20 \<longrightarrow> nav_bal t 20 e \<le> nav_bal t 20 e')"
    using weth_moves [OF ok n, of sp x y e'] token_pull [OF ok n, of t sp x y e'] run n
    by (cases "t = WETH") (auto simp: nav_foreign_code_def is_uint256_def)
  then show "nav_world_ok e' \<and> the_set e' = the_set e \<and> the_controller e' = the_controller e
      \<and> (\<forall>t' a. t' \<noteq> t \<longrightarrow> nav_bal t' a e' = nav_bal t' a e)" by blast
  show "nav_bal t 20 e \<le> nav_bal t 20 e'" if "x \<noteq> 20" using R that by blast
next
  show "nav_world_ok e' \<and> the_set e' = the_set e \<and> the_controller e' = the_controller e
      \<and> (\<forall>t' a. t' \<noteq> t \<longrightarrow> nav_bal t' a e' = nav_bal t' a e)"
    if "nav_world_ok e" "functionCallWithValue nav_foreign_code 20 t v d e = Inr (e', ret)" for e e' t v d ret
    by (rule market_call [OF that])
next
  show "spared 20 nav_bal nav_world_ok e e' \<and> (y = 20 \<longrightarrow> nav_bal 50 20 e' = nav_bal 50 20 e + n)"
    if "nav_world_ok e" "is_uint256 n" "weth_transfer nav_code_here 7 50 y n e = Inr e'" for e e' n y
  proof -
    have M: "nav_world_ok e' \<and> the_set e' = the_set e \<and> the_controller e' = the_controller e
      \<and> (\<forall>t a. t \<noteq> 50 \<longrightarrow> nav_bal t a e' = nav_bal t a e) \<and> nav_bal 50 20 e' = nav_bal 50 20 e + (if y = 20 then n else 0)"
      using weth_moves [OF that(1,2), of 7 7 y e'] that(3) by (simp add: nav_code_here_def weth9_transfer_def WETH_def)
    then have "nav_bal t 20 e \<le> nav_bal t 20 e'" for t using that(2) by (cases "t = 50") (simp_all add: is_uint256_def)
    then show ?thesis using M by (simp add: spared_def)
  qed
next
  show "spared 20 nav_bal nav_world_ok e e'" if "nav_world_ok e" "is_uint256 n" "weth_deposit nav_code_here 7 50 n e = Inr e'" for e e' n
    by (rule deposit_spares [OF that(1,2) _ _ that(3)]) (simp_all add: WETH_def)
next
  show "spared 20 nav_bal nav_world_ok e e'" if "nav_world_ok e" "is_uint256 n" "weth_withdraw nav_code_here 7 50 n e = Inr e'" for e e' n
    by (rule withdraw_spares [OF that(1,2) _ that(3)]) simp
next
  show "spared 20 nav_bal nav_world_ok e e'" if "nav_world_ok e" "is_uint256 n" "send_ether nav_code_here 7 y n e = Inr e'" for e e' n y
    by (rule ether_spares [OF that(1,2) _ that(3)]) (simp add: WETH_def)
next
  show "spared 20 nav_bal nav_world_ok e e'" if "nav_world_ok e" "nav_issue_hook nav_code_here h 20 a n x y e = Inr e'" for e e' h a n x y
    using that by (auto simp: nav_code_here_def rbind_eq_Inr spared_refl split: option.splits)
next
  show "spared 20 nav_bal nav_world_ok e e'" if "nav_world_ok e" "nav_redeem_hook nav_code_here h 20 n x y e = Inr e'" for e e' h n x y
    using that by (auto simp: nav_code_here_def rbind_eq_Inr spared_refl split: option.splits)
next
  fix e :: "nav_market nav_evm" and t a
  assume ok: "nav_world_ok e"
  then obtain n where "weth9_sums (wrapped (snd (outside e))) n" using nav_sums by blast
  with ok show "is_uint256 (nav_bal t a e)" by (auto simp: nav_bal_def weth9_sums_def nav_world_ok_def market_ok_def erc20_typed_def)
next
  show "is_uint256 n" if "valuation_by nav_code_here v 20 a e = Inr n" for v a e n
    using that nav_valuation_typed by (simp add: nav_code_here_def)
qed (auto simp: nav_foreign_code_def nav_bal_def balanceOf_def nav_world_ok_def nav_of_def)

subsection \<open>A Set in this world\<close>

text \<open>
  The Set of the examples with one token outstanding, held by account 30, at prices of 230 and 1/4 for its components 1 and 2. Account 30
  has tokens and has allowed the module to take them. The premium is 1%, the manager's fees are 1% and 2%, every fee of the
  protocol is 1%, and the hook 90 limits issues with token 1 to 1000 tokens and redemptions to one Set.
\<close>

definition demo_nav :: NAVIssuanceSettings where
  "demo_nav = \<lparr>nav_managerIssuanceHook = 90, nav_managerRedemptionHook = 90, nav_setValuer = address_zero,
     reserveAssets = [1, 2], nav_feeRecipient = 12, managerFees = [10 ^ 16, 2 * 10 ^ 16], nav_maxManagerFee = 5 * 10 ^ 16,
     premiumPercentage = 10 ^ 16, maxPremiumPercentage = 10 ^ 17, minSetTokenSupply = 10 ^ 14\<rparr>"

definition demo_limits_hook :: asset_limit_hook where
  "demo_limits_hook = \<lparr>alh_owner = 9, assetLimits = (\<lambda>_. 0)(1 := 10 ^ 21, 20 := 10 ^ 18), limited_assets = [1, 20]\<rparr>"

definition nav_token :: erc20 where
  "nav_token = (erc20_constructor ''T'' ''T'')\<lparr>balances := (\<lambda>_. 0)(20 := 3 * 10 ^ 18, 30 := 10 ^ 24), totalSupply := 10 ^ 24 + 3 * 10 ^ 18,
     allowances := (\<lambda>_ _. 0)(30 := (\<lambda>_. 0)(7 := 10 ^ 24))\<rparr>"

definition nav_demo :: "nav_market nav_evm" where
  "nav_demo = \<lparr>the_controller = demo_controller\<lparr>isSet := (\<lambda>a. a = 20), fees := (\<lambda>_ _. 10 ^ 16), resourceId := (\<lambda>i. 42 + nat i),
       isResource := (\<lambda>a. a = 44)\<rparr>,
     the_set = the_set held_evm, managerIssuanceHook = (\<lambda>_. 0), module_entered = False,
     outside = (\<lparr>navIssuanceSettings = (\<lambda>_. no_nav)(20 := demo_nav), isReserveAsset = (\<lambda>_ _. False)(20 := (\<lambda>a. a = 1 \<or> a = 2))\<rparr>,
       \<lparr>tokens = (\<lambda>_. nav_token), wrapped = \<lparr>weth_balanceOf = (\<lambda>_. 0), weth_allowance = (\<lambda>_ _. 0)\<rparr>, ether = (\<lambda>_. 0),
        limit_hooks = (\<lambda>_. None)(90 \<mapsto> demo_limits_hook)\<rparr>)\<rparr>"

subsection \<open>Properties\<close>

lemmas nav_demo_defs = nav_demo_def held_evm_def demo_set_def demo_controller_def nav_token_def demo_nav_def demo_limits_hook_def

lemma nav_demo_ok: "nav_world_ok nav_demo" "set_inv (the_set nav_demo)" "\<forall>i. is_uint256 (getModuleFee (the_controller nav_demo) 7 i)"
  "is_uint256 (10 ^ 18)" "nav_typed demo_nav"
proof -
  have t: "nav_typed demo_nav" by (auto simp: nav_typed_def demo_nav_def is_uint256_def)
  have z: "conserved (\<lambda>_ :: address. 0 :: int) 0" by (simp add: conserved_def total_def)
  then have m: "market_ok (snd (outside nav_demo))"
    by (auto simp: market_ok_def nav_demo_def nav_token_def erc20_typed_def erc20_constructor_def weth9_sums_def is_uint256_def
        intro!: exI [of _ "0 :: int"])
  have "nav_typed no_nav" by (simp add: nav_typed_def no_nav_def is_uint256_def)
  with t m show "nav_world_ok nav_demo" by (simp add: nav_world_ok_def nav_demo_def)
  show "set_inv (the_set nav_demo)" using held_evm_inv by (simp add: nav_demo_def)
  show "\<forall>i. is_uint256 (getModuleFee (the_controller nav_demo) 7 i)" "is_uint256 (10 ^ 18)" "nav_typed demo_nav"
    using t by (simp_all add: nav_demo_def getModuleFee_def is_uint256_def)
qed

lemma nav_demo_issue: "\<exists>e. nav_issue nav_foreign_code nav_code_here 7 30 20 1 (10 ^ 18) 0 30 nav_demo = Inr e"
proof -
  have "is_ok (nav_issue nav_foreign_code nav_code_here 7 30 20 1 (10 ^ 18) 0 30 nav_demo)"
    unfolding nav_demo_defs by code_simp
  then show ?thesis by (simp add: is_ok_iff)
qed

text \<open>
  C6. Issuing and redeeming at net asset value, with tokens or with Ether, keep the Set backed. If before the call a token's
  balance covers supply times unit, unrounded, so it does afterwards, for every token: the scaled multiplier makes room for the new supply, and the
  unit written for the reserve asset claims no more than what is there. The invariant of the Set is kept.
\<close>

theorem nav_keeps_backing:
  assumes "nav_reserve F self bal ok C weth this" "ok e" "set_inv (the_set e)" "\<forall>i. is_uint256 (getModuleFee (the_controller e) this i)"
    "a \<noteq> self" "weth \<noteq> self" "x \<noteq> self" "is_uint256 q"
    and run: "nav_issue F C this x self a q mn y e = Inr e' \<or> nav_redeem F C this x self a q mn y e = Inr e'
      \<or> issueWithEther C weth this x self q mn y e = Inr e' \<or> redeemIntoEther F C weth this x self q mn y e = Inr e'"
  shows "ok e' \<and> set_inv (the_set e') \<and> (\<forall>k. backs (bal k self e) (the_set e) k \<longrightarrow> backs (bal k self e') (the_set e') k)"
  using nav_reserve.keeps_backing [OF assms] .

theorem nav_keeps_backing_witness:
  "\<exists>e. nav_issue nav_foreign_code nav_code_here 7 30 20 1 (10 ^ 18) 0 30 nav_demo = Inr e \<and> backs (nav_bal 1 20 e) (the_set e) 1"
proof -
  obtain e where e: "nav_issue nav_foreign_code nav_code_here 7 30 20 1 (10 ^ 18) 0 30 nav_demo = Inr e" using nav_demo_issue ..
  have "backs (nav_bal 1 20 nav_demo) (the_set nav_demo) 1"
    by (simp add: backs_def nav_bal_def WETH_def nav_demo_def nav_token_def held_evm_def demo_set_def)
  moreover have "(1 :: address) \<noteq> 20" "(50 :: address) \<noteq> 20" "(30 :: address) \<noteq> 20" by simp_all
  ultimately show ?thesis
    using nav_keeps_backing [OF nav_world.nav_reserve_axioms nav_demo_ok(1-3) _ _ _ nav_demo_ok(4), of 1 30 0 30 e] e by blast
qed

text \<open>
  C22. Nobody is paid more than the net asset value. The Sets minted for a quantity are worth, at the valuation of the Set in the
  reserve asset, at most what is left of the quantity after fees and premium, up to one unit of rounding in proportion to the supply; a redemption takes from the Set, fees
  included, at most the value of the Sets less the premium. The limits of the caller and the minimum supply are respected, and the
  supply changes by what is minted or burned.
\<close>

theorem nav_prices_fair:
  assumes "nav_reserve F self bal ok C weth this" "ok e" "set_inv (the_set e)" "\<forall>i. is_uint256 (getModuleFee (the_controller e) this i)"
    "a \<noteq> self" "x \<noteq> self" "is_uint256 q"
  shows "(nav_issue F C this x self a q mn y e = Inr e' \<longrightarrow>
      (\<exists>e1 V d net p n. spared self bal ok e e1 \<and> valuation_by C (nav_getSetValuer self e1) self a e1 = Inr V \<and> decimals_of C a e1 = Inr d
        \<and> net \<le> q \<and> p = net * premiumPercentage (nav_of self e1) div PRECISE_UNIT \<and> 0 \<le> p \<and> p \<le> net
        \<and> minSetTokenSupply (nav_of self e1) \<le> totalSupply (the_set e) \<and> mn \<le> n
        \<and> totalSupply (the_set e') = totalSupply (the_set e) + n
        \<and> balances (the_set e') = (balances (the_set e))(y := balances (the_set e) y + n)
        \<and> bal a self e + net \<le> bal a self e'
        \<and> n * V * wrap_uint256 (10 ^ nat d) * totalSupply (the_set e)
            \<le> ((net - p) * totalSupply (the_set e) * PRECISE_UNIT + n * wrap_uint256 (10 ^ nat d)) * PRECISE_UNIT))
    \<and> (nav_redeem F C this x self a q mn y e = Inr e' \<longrightarrow>
      (\<exists>e1 V d out net. spared self bal ok e e1 \<and> valuation_by C (nav_getSetValuer self e1) self a e1 = Inr V \<and> decimals_of C a e1 = Inr d
        \<and> minSetTokenSupply (nav_of self e1) \<le> totalSupply (the_set e') \<and> mn \<le> net \<and> net \<le> out
        \<and> totalSupply (the_set e') = totalSupply (the_set e) - q \<and> q \<le> balances (the_set e) x
        \<and> balances (the_set e') = (balances (the_set e))(x := balances (the_set e) x - q)
        \<and> bal a self e' = bal a self e1 - out
        \<and> (premiumPercentage (nav_of self e1) \<le> PRECISE_UNIT \<longrightarrow> out * PRECISE_UNIT ^ 3
            \<le> q * V * wrap_uint256 (10 ^ nat d) * (PRECISE_UNIT - premiumPercentage (nav_of self e1)))))"
  using nav_reserve.issue_price [OF assms] nav_reserve.redeem_price [OF assms(1-5,7)] by blast

theorem nav_prices_fair_witness:
  "\<exists>e n V d net p. nav_issue nav_foreign_code nav_code_here 7 30 20 1 (10 ^ 18) 0 30 nav_demo = Inr e
     \<and> totalSupply (the_set e) = 10 ^ 18 + n \<and> 0 \<le> p \<and> p \<le> net \<and> net \<le> 10 ^ 18
     \<and> n * V * wrap_uint256 (10 ^ nat d) * 10 ^ 18 \<le> ((net - p) * 10 ^ 18 * PRECISE_UNIT + n * wrap_uint256 (10 ^ nat d)) * PRECISE_UNIT"
proof -
  obtain e where e: "nav_issue nav_foreign_code nav_code_here 7 30 20 1 (10 ^ 18) 0 30 nav_demo = Inr e" using nav_demo_issue ..
  have ne: "(1 :: address) \<noteq> 20" "(30 :: address) \<noteq> 20" by simp_all
  have s: "totalSupply (the_set nav_demo) = 10 ^ 18" by (simp add: nav_demo_def held_evm_def)
  show ?thesis
    using conjunct1 [OF nav_prices_fair [OF nav_world.nav_reserve_axioms nav_demo_ok(1-3) ne nav_demo_ok(4), of 0 30 e], rule_format, OF e] e
    unfolding s by blast
qed

text \<open>
  C35. Through the whole life of the module on a Set the reserve assets are distinct and are exactly the flagged ones, the
  premium and both manager fees are at most their maxima and the maxima are below 100%; while the module is initialized fees have a
  recipient and the minimum supply is positive, and after its removal nothing is left.
\<close>

theorem nav_settings_bounded:
  assumes "nav_reachable this self e"
  shows "nav_settings_ok this self e"
  using assms
proof induction
  case (deployed e)
  then show ?case by (intro no_nav_ok) simp_all
next
  case (initialized e x u e')
  show ?case by (rule nav_initialize_ok [OF initialized.IH initialized.hyps(2-4)])
next
  case (reserve_added e u a e')
  show ?case by (rule nav_edits_ok(1) [OF reserve_added.IH reserve_added.hyps(2)])
next
  case (reserve_removed e u a e')
  show ?case by (rule nav_edits_ok(2) [OF reserve_removed.IH reserve_removed.hyps(2)])
next
  case (premium e n u e')
  show ?case by (rule nav_edits_ok(3) [OF premium.IH premium.hyps(2,3)])
next
  case (manager_fee e n u i e')
  show ?case by (rule nav_edits_ok(4) [OF manager_fee.IH manager_fee.hyps(2,3)])
next
  case (recipient e u a e')
  show ?case by (rule nav_edits_ok(5) [OF recipient.IH recipient.hyps(2)])
next
  case (removed e e1 u s)
  show ?case by (rule nav_removed_ok [OF removed.IH removed.hyps(2,3)])
next
  case (other e e')
  then show ?case by (simp add: nav_settings_ok_def)
qed

text \<open>The module is pending on the Set and is initialized with the settings of the example.\<close>

lemma nav_demo_initialize:
  "\<exists>e. nav_initialize 7 9 20 demo_nav (nav_demo\<lparr>the_set := (the_set nav_demo)\<lparr>modules := [], moduleStates := (\<lambda>_. NONE)(7 := PENDING)\<rparr>,
     outside := (\<lparr>navIssuanceSettings = (\<lambda>_. no_nav), isReserveAsset = (\<lambda>_ _. False)\<rparr>, snd (outside nav_demo))\<rparr>) = Inr e"
proof -
  have "is_ok (nav_initialize 7 9 20 demo_nav (nav_demo\<lparr>the_set := (the_set nav_demo)\<lparr>modules := [], moduleStates := (\<lambda>_. NONE)(7 := PENDING)\<rparr>,
     outside := (\<lparr>navIssuanceSettings = (\<lambda>_. no_nav), isReserveAsset = (\<lambda>_ _. False)\<rparr>, snd (outside nav_demo))\<rparr>))"
    unfolding nav_demo_defs by code_simp
  then show ?thesis by (simp add: is_ok_iff)
qed

theorem nav_settings_bounded_witness:
  "\<exists>e :: nav_market nav_evm. nav_reachable 7 20 e \<and> nav_of 20 e = demo_nav \<and> nav_settings_ok 7 20 e"
proof -
  let ?e0 = "nav_demo\<lparr>the_set := (the_set nav_demo)\<lparr>modules := [], moduleStates := (\<lambda>_. NONE)(7 := PENDING)\<rparr>,
     outside := (\<lparr>navIssuanceSettings = (\<lambda>_. no_nav), isReserveAsset = (\<lambda>_ _. False)\<rparr>, snd (outside nav_demo))\<rparr>"
  obtain e where e: "nav_initialize 7 9 20 demo_nav ?e0 = Inr e" using nav_demo_initialize ..
  have 0: "nav_reachable 7 20 ?e0" by (rule nav_reachable.deployed) (simp_all add: nav_of_def reserve_of_def)
  have "length (managerFees demo_nav) = 2" by (simp add: demo_nav_def)
  note r = nav_reachable.initialized [OF 0 nav_demo_ok(5) this e]
  have "nav_of 20 e = demo_nav" using e by (auto simp: nav_initialize_def on_set_def rbind_eq_Inr)
  then show ?thesis using r nav_settings_bounded [OF r] by blast
qed

text \<open>
  The contract converts the notional to the reserve asset and then takes premium and fees, the utility converts last. With all roundings the two
  quantities are less than four base units apart.
\<close>

lemma floor_scaled: "0 < (U::int) \<Longrightarrow> real_of_int (x * y div U) \<le> real_of_int x * (real_of_int y / real_of_int U)
    \<and> real_of_int x * (real_of_int y / real_of_int U) - 1 < real_of_int (x * y div U)"
  using floor_divide_of_int_eq [of "x * y" U, where 'a = real] floor_correct [of "real_of_int (x * y) / real_of_int U"] by simp linarith?

lemma ceil_scaled: "0 < (U::int) \<Longrightarrow> real_of_int x * (real_of_int y / real_of_int U) \<le> real_of_int (- ((- (x * y)) div U))
    \<and> real_of_int (- ((- (x * y)) div U)) < real_of_int x * (real_of_int y / real_of_int U) + 1"
  using floor_scaled [of U "- x" y] by simp

lemma conversion_order:
  fixes t b U prem mp tp :: int
  assumes U: "0 < U" and t: "0 \<le> t" and b: "0 < b" "b \<le> U" and prem: "0 \<le> prem" "prem \<le> U" and f: "0 \<le> mp" "0 \<le> tp" "mp + tp \<le> U"
    and r: "r0 = t * b div U" "r = r0 - (- ((- (r0 * prem)) div U))" "n = r - r * mp div U - r * tp div U"
    and T: "T = t - (- ((- (t * prem)) div U))" "N = T - T * mp div U - T * tp div U" "n' = N * b div U"
  shows "\<bar>n' - n\<bar> \<le> 3"
proof -
  define A B m p G X where "A = 1 - real_of_int prem / real_of_int U" and "B = real_of_int b / real_of_int U"
    and "m = real_of_int mp / real_of_int U" and "p = real_of_int tp / real_of_int U" and "G = 1 - m - p" and "X = real_of_int t * A * B * G"
  have u: "0 < real_of_int U" using U by simp
  have mp: "m + p \<le> 1" unfolding m_def p_def add_divide_distrib [symmetric] using f(3) u by simp
  have "0 \<le> m" "0 \<le> p" using f u by (simp_all add: m_def p_def)
  then have unit: "0 \<le> A" "A \<le> 1" "0 < B" "B \<le> 1" "0 \<le> G" "G \<le> 1"
    using prem b u mp unfolding G_def by (simp_all add: A_def B_def)
  have lower: "(y - e) * z \<ge> y * z - e" if "0 \<le> z" "z \<le> 1" "0 \<le> e" for y z e :: real
    using mult_left_mono [OF that(2,3)] by (simp add: algebra_simps)
  have r0: "r0 \<le> real_of_int t * B" "real_of_int t * B - 1 \<le> r0" using floor_scaled [OF U, of t b] by (simp_all add: r(1) B_def)
  have rr: "r \<le> r0 * A" "r0 * A - 1 < r" using ceil_scaled [OF U, of r0 prem] by (simp_all add: r(2) A_def algebra_simps)
  have n: "r * G \<le> n" "n < r * G + 2"
    using floor_scaled [OF U, of r mp] floor_scaled [OF U, of r tp] by (simp_all add: r(3) G_def m_def p_def algebra_simps)
  have TT: "T \<le> real_of_int t * A" "real_of_int t * A - 1 < T" using ceil_scaled [OF U, of t prem] by (simp_all add: T(1) A_def algebra_simps)
  have N: "T * G \<le> N" "N < T * G + 2"
    using floor_scaled [OF U, of T mp] floor_scaled [OF U, of T tp] by (simp_all add: T(2) G_def m_def p_def algebra_simps)
  have n': "n' \<le> N * B" "N * B - 1 < n'" using floor_scaled [OF U, of N b] by (simp_all add: T(3) B_def)
  have "real_of_int r0 * A \<le> real_of_int t * B * A" using r0(1) unit(1) by (rule mult_right_mono)
  then have "real_of_int r * G \<le> real_of_int t * B * A * G" using rr(1) unit(5) by (intro mult_right_mono) simp_all
  then have 1: "n < X + 2" using n(2) by (simp add: X_def mult_ac)
  have "(real_of_int t * B - 1) * A \<le> real_of_int r0 * A" using r0(2) unit(1) by (rule mult_right_mono)
  then have "real_of_int t * B * A - 2 \<le> r" using lower [OF unit(1,2), of 1 "real_of_int t * B"] rr(2) by linarith
  then have "(real_of_int t * B * A - 2) * G \<le> real_of_int r * G" using unit(5) by (rule mult_right_mono)
  then have 2: "X - 2 \<le> n" using lower [OF unit(5,6), of 2 "real_of_int t * B * A"] n(1) by (simp add: X_def mult_ac)
  have "real_of_int T * G \<le> real_of_int t * A * G" using TT(1) unit(5) by (rule mult_right_mono)
  then have "real_of_int N < real_of_int t * A * G + 2" using N(2) by linarith
  then have "real_of_int N * B < (real_of_int t * A * G + 2) * B" using unit(3) by (rule mult_strict_right_mono)
  then have 3: "n' < X + 2" using n'(1) unit(4) by (simp add: X_def algebra_simps)
  have "(real_of_int t * A - 1) * G \<le> real_of_int T * G" using TT(2) unit(5) by (intro mult_right_mono) simp_all
  then have "real_of_int t * A * G - 1 \<le> N" using lower [OF unit(5,6), of 1 "real_of_int t * A"] N(1) by linarith
  then have "(real_of_int t * A * G - 1) * B \<le> real_of_int N * B" using unit(3) by (intro mult_right_mono) simp_all
  then have 4: "X - 2 < n'" using n'(2) unit(4) by (simp add: X_def algebra_simps)
  show ?thesis using 1 2 3 4 by linarith
qed

text \<open>
  C28. The utilities of \<open>navIssuanceModuleUtils.ts\<close> predict the contract. Whenever its view \<open>getExpectedSetTokenIssueQuantity\<close>
  returns, the utility of the same name returns the same quantity from the valuation, the two effective fee percentages and
  the premium. Whenever its view \<open>getExpectedReserveRedeemQuantity\<close> returns, so does the utility if the reserve asset has 18 decimals; for a reserve asset
  with fewer decimals, where the utility converts to base units after taking premium and fees and the contract before, and with premium and fees of at most 100%,
  the two quantities differ by at most 3 base units. The multipliers they expect are never above the multipliers of the contract.
\<close>

theorem nav_utils_predict_contract:
  assumes "nav_typed (nav_of self e)" "\<forall>i. is_uint256 (getModuleFee (the_controller e) this i)" "is_uint256 q"
    "is_uint256 (totalSupply (the_set e))" "\<forall>v V. valuation_by C v self a e = Inr V \<longrightarrow> is_uint256 V"
  shows "(nav_getExpectedSetTokenIssueQuantity C this self a q e = Inr n \<longrightarrow>
      (\<exists>V d tp mp. valuation_by C (nav_getSetValuer self e) self a e = Inr V \<and> decimals_of C a e = Inr d
        \<and> getProtocolAndManagerFeePercentages this self 0 2 0 e = Inr (tp, mp)
        \<and> getExpectedSetTokenIssueQuantity (\<lambda>_ _. V) (totalSupply (the_set e)) self a (wrap_uint256 (10 ^ nat d)) q mp tp
            (premiumPercentage (nav_of self e)) = Inr n))
    \<and> (nav_getExpectedReserveRedeemQuantity C this self a q e = Inr n \<longrightarrow>
      (\<exists>V d tp mp. valuation_by C (nav_getSetValuer self e) self a e = Inr V \<and> decimals_of C a e = Inr d
        \<and> getProtocolAndManagerFeePercentages this self 1 3 1 e = Inr (tp, mp)
        \<and> (d = 18 \<longrightarrow> getExpectedReserveRedeemQuantity q V (10 ^ 18) mp tp (premiumPercentage (nav_of self e)) = Inr n)
        \<and> (0 \<le> d \<and> d \<le> 18 \<and> premiumPercentage (nav_of self e) \<le> PRECISE_UNIT \<and> mp + tp \<le> PRECISE_UNIT \<longrightarrow>
            (\<exists>n'. getExpectedReserveRedeemQuantity q V (10 ^ nat d) mp tp (premiumPercentage (nav_of self e)) = Inr n' \<and> \<bar>n' - n\<bar> \<le> 3))))
    \<and> (units_ok s \<longrightarrow> 0 < s0 \<longrightarrow> 0 < s1 \<longrightarrow> scaled_multiplier s s0 s1 = Inr m \<longrightarrow>
      (s0 \<le> s1 \<longrightarrow> (\<exists>r. getExpectedIssuePositionMultiplier (positionMultiplier s) s0 s1 = Inr r \<and> r \<le> m))
      \<and> (s1 \<le> s0 \<longrightarrow> (\<exists>r. getExpectedRedeemPositionMultiplier (positionMultiplier s) s0 s1 = Inr r \<and> r \<le> m)))"
proof (intro conjI impI)
  let ?prem = "premiumPercentage (nav_of self e)" and ?S = "totalSupply (the_set e)"
  have nn: "0 \<le> q" "0 \<le> ?S" "0 \<le> ?prem" using assms(1,3,4) by (simp_all add: is_uint256_def nav_typed_def)
  { assume "nav_getExpectedSetTokenIssueQuantity C this self a q e = Inr n"
    then obtain pf mf net where f: "getFees this self q 0 2 0 e = Inr (pf, mf, net)"
      and m: "getSetTokenMintQuantity C self a net ?S e = Inr n"
      by (auto simp: nav_getExpectedSetTokenIssueQuantity_def issue_fees_def fee_indices rbind_eq_Inr)
    obtain tp mp where F: "getProtocolAndManagerFeePercentages this self 0 2 0 e = Inr (tp, mp)" "0 \<le> tp" "0 \<le> mp"
      "pf = tp * q div PRECISE_UNIT" "mf = mp * q div PRECISE_UNIT" "is_uint256 net" "pf + mf + net = q"
      using getFees_percent [OF f assms(3,1)] assms(2) by metis
    note net = post_fee_exact [OF nn(1) F(2-5,7)]
    obtain V d p b n1 n2 where M: "valuation_by C (nav_getSetValuer self e) self a e = Inr V" "decimals_of C a e = Inr d"
      "b = wrap_uint256 (10 ^ nat d)" "p = net * ?prem div PRECISE_UNIT" "0 \<le> p" "p \<le> net" "0 < b" "0 \<le> V"
      "n1 = net * PRECISE_UNIT div b" "n2 = (net - p) * PRECISE_UNIT div b" "0 < ?S * V div PRECISE_UNIT + n1 - n2"
      "n = n2 * ?S div PRECISE_UNIT * PRECISE_UNIT div (?S * V div PRECISE_UNIT + n1 - n2)"
      using mint_steps [OF m F(6) assms(4,1)] assms(5) by metis
    define t x where "t = ?S * V div PRECISE_UNIT" and "x = n2 * ?S div PRECISE_UNIT"
    have pos: "0 \<le> net" "0 \<le> n2" "0 \<le> x" using F(6) M(6,7) nn(2) by (simp_all add: is_uint256_def M(10) x_def pos_imp_zdiv_nonneg_iff)
    have "preciseMul net ?prem = Inr p" "preciseDiv net b = Inr n1" "preciseDiv (net - p) b = Inr n2" "preciseMul ?S V = Inr t"
      "preciseMul n2 ?S = Inr x" "preciseDiv x (t + n1 - n2) = Inr n"
      using pos nn M(6-8,11) preciseMul_nonneg [of net ?prem] preciseDiv_nonneg [of net b] preciseDiv_nonneg [of "net - p" b]
        preciseMul_nonneg [of ?S V] preciseMul_nonneg [of n2 ?S] preciseDiv_nonneg [of x "t + n1 - n2"]
      unfolding M(4) [symmetric] M(9,10) [symmetric] t_def [symmetric] x_def [symmetric] M(12) by simp_all
    then have "getExpectedSetTokenIssueQuantity (\<lambda>_ _. V) ?S self a b q mp tp ?prem = Inr n"
      by (simp add: getExpectedSetTokenIssueQuantity_def net)
    then show "\<exists>V d tp mp. valuation_by C (nav_getSetValuer self e) self a e = Inr V \<and> decimals_of C a e = Inr d
        \<and> getProtocolAndManagerFeePercentages this self 0 2 0 e = Inr (tp, mp)
        \<and> getExpectedSetTokenIssueQuantity (\<lambda>_ _. V) ?S self a (wrap_uint256 (10 ^ nat d)) q mp tp ?prem = Inr n"
      using M(1-3) F(1) by blast }
  { assume "nav_getExpectedReserveRedeemQuantity C this self a q e = Inr n"
    then obtain r pf mf where r: "getRedeemReserveQuantity C self a q e = Inr r" and f: "getFees this self r 1 3 1 e = Inr (pf, mf, n)"
      by (auto simp: nav_getExpectedReserveRedeemQuantity_def redeem_fees_def fee_indices rbind_eq_Inr)
    obtain V d t r0 p where R: "valuation_by C (nav_getSetValuer self e) self a e = Inr V" "decimals_of C a e = Inr d" "0 \<le> V"
      "t = q * V div PRECISE_UNIT" "0 \<le> t" "r0 = t * wrap_uint256 (10 ^ nat d) div PRECISE_UNIT" "0 \<le> r0"
      "p = - ((- (r0 * ?prem)) div PRECISE_UNIT)" "p \<le> r0" "r = r0 - p" "is_uint256 r"
      by (rule redeem_quantity_steps [OF r assms(3,1)]) (use assms(5) in blast)
    have rn: "0 \<le> r" using R(9,10) by simp
    obtain tp mp where F: "getProtocolAndManagerFeePercentages this self 1 3 1 e = Inr (tp, mp)" "0 \<le> tp" "0 \<le> mp"
      "pf = tp * r div PRECISE_UNIT" "mf = mp * r div PRECISE_UNIT" "is_uint256 n" "pf + mf + n = r"
      using getFees_percent [OF f R(11) assms(1)] assms(2) by metis
    note net = post_fee_exact [OF rn F(2-5,7)]
    have exact: "getExpectedReserveRedeemQuantity q V (10 ^ 18) mp tp ?prem = Inr n" if "d = 18"
    proof -
      have "wrap_uint256 (10 ^ nat 18) = PRECISE_UNIT" by (simp add: wrap_uint256_def)
      then have "r0 = t" using R(6) that by simp
      then show ?thesis
        using net nn R F(6) by (simp add: getExpectedReserveRedeemQuantity_def preciseMul_nonneg preciseMulCeil_nonneg is_uint256_def mult.commute)
    qed
    have close: "\<exists>n'. getExpectedReserveRedeemQuantity q V (10 ^ nat d) mp tp ?prem = Inr n' \<and> \<bar>n' - n\<bar> \<le> 3"
      if c: "0 \<le> d \<and> d \<le> 18 \<and> ?prem \<le> PRECISE_UNIT \<and> mp + tp \<le> PRECISE_UNIT"
    proof -
      define T N n' where "T = t - (- ((- (t * ?prem)) div PRECISE_UNIT))"
        and "N = T - T * mp div PRECISE_UNIT - T * tp div PRECISE_UNIT" and "n' = N * 10 ^ nat d div PRECISE_UNIT"
      have ten: "(10::int) ^ nat d \<le> 10 ^ 18" using c by (intro power_increasing) auto
      then have b: "wrap_uint256 (10 ^ nat d) = 10 ^ nat d" "(0::int) < 10 ^ nat d"
        using wrap_uint256_id [of "10 ^ nat d"] by (simp_all add: is_uint256_def)
      have n: "n = r - r * mp div PRECISE_UNIT - r * tp div PRECISE_UNIT" using F(4,5,7) by (simp add: mult.commute)
      have "\<bar>n' - n\<bar> \<le> 3"
        using conversion_order [OF _ R(5) b(2) ten nn(3) _ F(3,2) _ R(6) [unfolded b(1)] R(10) [unfolded R(8)] n T_def N_def n'_def] c by simp
      moreover have prem: "T = t - (- ((- (t * ?prem)) div PRECISE_UNIT))" "0 \<le> T"
      proof -
        have "t * (- PRECISE_UNIT) \<le> - (t * ?prem)" using R(5) c by (simp add: mult_left_mono)
        then have "- t \<le> (- (t * ?prem)) div PRECISE_UNIT" by (simp add: le_div_iff_int)
        then show "0 \<le> T" by (simp add: T_def)
      qed (simp add: T_def)
      moreover have "0 \<le> N"
      proof -
        have "N * PRECISE_UNIT \<ge> T * (PRECISE_UNIT - mp - tp)"
          using div_mult_le_int [of PRECISE_UNIT "T * mp"] div_mult_le_int [of PRECISE_UNIT "T * tp"] by (simp add: N_def algebra_simps)
        moreover have "0 \<le> T * (PRECISE_UNIT - mp - tp)" using prem(2) c by simp
        ultimately have "0 \<le> N * PRECISE_UNIT" by linarith
        then show ?thesis by (simp add: zero_le_mult_iff)
      qed
      moreover have "preciseMul V q = Inr t" "preciseMulCeil t ?prem = Inr (t - T)" "preciseMul T mp = Inr (T * mp div PRECISE_UNIT)"
        "preciseMul T tp = Inr (T * tp div PRECISE_UNIT)" "preciseMul N (10 ^ nat d) = Inr n'"
        using nn R(3-5) prem F(2,3) \<open>0 \<le> N\<close> b(2) by (simp_all add: preciseMul_nonneg preciseMulCeil_nonneg mult.commute n'_def)
      ultimately show ?thesis
        by (intro exI [of _ n']) (simp add: getExpectedReserveRedeemQuantity_def getExpectedPostFeeQuantity_def N_def)
    qed
    show "\<exists>V d tp mp. valuation_by C (nav_getSetValuer self e) self a e = Inr V \<and> decimals_of C a e = Inr d
        \<and> getProtocolAndManagerFeePercentages this self 1 3 1 e = Inr (tp, mp)
        \<and> (d = 18 \<longrightarrow> getExpectedReserveRedeemQuantity q V (10 ^ 18) mp tp ?prem = Inr n)
        \<and> (0 \<le> d \<and> d \<le> 18 \<and> ?prem \<le> PRECISE_UNIT \<and> mp + tp \<le> PRECISE_UNIT \<longrightarrow>
            (\<exists>n'. getExpectedReserveRedeemQuantity q V (10 ^ nat d) mp tp ?prem = Inr n' \<and> \<bar>n' - n\<bar> \<le> 3))"
      using R(1,2) F(1) exact close by blast }
  { assume u: "units_ok s" "0 < s0" "0 < s1" and m: "scaled_multiplier s s0 s1 = Inr m"
    have p: "0 \<le> positionMultiplier s" using u(1) by (simp add: units_ok_def)
    then have m: "m = positionMultiplier s * s0 div s1"
      using m u by (auto simp: scaled_multiplier_def result_simps tdiv_nonneg)
    have le: "r * s1 \<le> positionMultiplier s * s0 \<Longrightarrow> r \<le> m" for r using u(3) by (simp add: m le_div_iff_int)
    show "\<exists>r. getExpectedIssuePositionMultiplier (positionMultiplier s) s0 s1 = Inr r \<and> r \<le> m" if "s0 \<le> s1"
      using issue_multiplier_bounds [OF p _ that u(3)] u(2) le by fastforce
    show "\<exists>r. getExpectedRedeemPositionMultiplier (positionMultiplier s) s0 s1 = Inr r \<and> r \<le> m" if "s1 \<le> s0"
      using redeem_multiplier_bounds [OF p u(3) that] le by fastforce }
qed

theorem nav_utils_predict_contract_witness:
  "\<exists>tp mp d. getProtocolAndManagerFeePercentages 7 20 0 2 0 nav_demo = Inr (tp, mp)
     \<and> getExpectedSetTokenIssueQuantity (\<lambda>_ _. 3000543478260869565) (10 ^ 18) 20 1 (wrap_uint256 (10 ^ nat d)) (10 ^ 18) mp tp (10 ^ 16)
        = Inr 322288804253161924"
proof -
  have run: "nav_getExpectedSetTokenIssueQuantity nav_code_here 7 20 1 (10 ^ 18) nav_demo = Ok 322288804253161924"
    and val: "valuation_by nav_code_here (nav_getSetValuer 20 nav_demo) 20 1 nav_demo = Ok 3000543478260869565"
    unfolding nav_demo_defs by code_simp+
  have s: "nav_of 20 nav_demo = demo_nav" "totalSupply (the_set nav_demo) = 10 ^ 18" "premiumPercentage demo_nav = 10 ^ 16"
    by (simp_all add: nav_of_def nav_demo_def held_evm_def demo_nav_def)
  have v: "\<forall>v V. valuation_by nav_code_here v 20 1 nav_demo = Inr V \<longrightarrow> is_uint256 V"
    using nav_valuation_typed by (simp add: nav_code_here_def)
  have t: "nav_typed (nav_of 20 nav_demo)" "is_uint256 (totalSupply (the_set nav_demo))"
    using nav_demo_ok(4,5) by (simp_all add: s)
  from nav_utils_predict_contract [OF t(1) nav_demo_ok(3,4) t(2) v, of 322288804253161924 undefined 0 0 0] run val show ?thesis
    by (auto simp: s)
qed

text \<open>
  C36. With an \<open>AssetLimitHook\<close> as the manager's hook, no issue exceeds the limit of the reserve asset and no redemption the
  limit of the Set, with tokens or with Ether, whatever the owner of the hook did before; an asset that is not on the
  list of the hook is not accepted at all.
\<close>

theorem asset_limits_enforced:
  assumes "alh_reachable l" "limit_hooks (snd (outside e)) h = Some l" "h \<noteq> address_zero" "w = WETH"
  shows "(nav_managerIssuanceHook (nav_of self e) = h \<longrightarrow> nav_issue F nav_code_here this x self a q mn y e = Inr e' \<longrightarrow>
        q \<le> assetLimits l a \<and> a \<in> set (limited_assets l))
    \<and> (nav_managerRedemptionHook (nav_of self e) = h \<longrightarrow> nav_redeem F nav_code_here this x self a q mn y e = Inr e' \<longrightarrow>
        q \<le> assetLimits l self \<and> self \<in> set (limited_assets l))
    \<and> (nav_managerIssuanceHook (nav_of self e) = h \<longrightarrow> issueWithEther nav_code_here w this x self q mn y e = Inr e' \<longrightarrow>
        q \<le> assetLimits l w \<and> w \<in> set (limited_assets l))
    \<and> (nav_managerRedemptionHook (nav_of self e) = h \<longrightarrow> redeemIntoEther F nav_code_here w this x self q mn y e = Inr e' \<longrightarrow>
        q \<le> assetLimits l self \<and> self \<in> set (limited_assets l))"
proof -
  have lim: "0 < q \<Longrightarrow> q \<le> assetLimits l k \<Longrightarrow> q \<le> assetLimits l k \<and> k \<in> set (limited_assets l)" for k
    using limits_listed [OF assms(1), of k] by fastforce
  have flag: "nav_of self (e\<lparr>module_entered := True\<rparr>) = nav_of self e" by (simp add: nav_of_def)
  show ?thesis
  proof (intro conjI impI)
    assume hk: "nav_managerIssuanceHook (nav_of self e) = h" and run: "nav_issue F nav_code_here this x self a q mn y e = Inr e'"
    then have "0 < q" "q \<le> assetLimits l a" using assms(2,3) flag
      by (auto simp: nav_issue_def nonReentrant_def validateCommon_def nav_callPreIssueHooks_def nav_code_here_def
          alh_invokePreIssueHook_def rbind_eq_Inr require_eq_Inr)
    then show "q \<le> assetLimits l a" "a \<in> set (limited_assets l)" using lim by blast+
  next
    assume hk: "nav_managerRedemptionHook (nav_of self e) = h" and run: "nav_redeem F nav_code_here this x self a q mn y e = Inr e'"
    then have "0 < q" "q \<le> assetLimits l self" using assms(2,3) flag
      by (auto simp: nav_redeem_def nonReentrant_def validateCommon_def nav_callPreRedeemHooks_def nav_code_here_def
          alh_invokePreRedeemHook_def rbind_eq_Inr require_eq_Inr)
    then show "q \<le> assetLimits l self" "self \<in> set (limited_assets l)" using lim by blast+
  next
    assume hk: "nav_managerIssuanceHook (nav_of self e) = h" and run: "issueWithEther nav_code_here w this x self q mn y e = Inr e'"
    then obtain e0 e1 where d: "weth_deposit nav_code_here this w q (e\<lparr>module_entered := True\<rparr>) = Inr e0" and q: "0 < q"
      and c: "nav_callPreIssueHooks nav_code_here self w q x y e0 = Inr e1"
      by (auto simp: issueWithEther_def nonReentrant_def validateCommon_def rbind_eq_Inr require_eq_Inr)
    have "fst (outside e0) = fst (outside e)" "limit_hooks (snd (outside e0)) = limit_hooks (snd (outside e))"
      using d assms(4) by (auto simp: nav_code_here_def move_ether_def put_wrapped_def Let_def rbind_eq_Inr)
    then have "q \<le> assetLimits l w" using c assms(2,3) hk
      by (auto simp: nav_callPreIssueHooks_def nav_of_def nav_code_here_def alh_invokePreIssueHook_def rbind_eq_Inr require_eq_Inr)
    then show "q \<le> assetLimits l w" "w \<in> set (limited_assets l)" using lim q by blast+
  next
    assume hk: "nav_managerRedemptionHook (nav_of self e) = h" and run: "redeemIntoEther F nav_code_here w this x self q mn y e = Inr e'"
    then have "0 < q" "q \<le> assetLimits l self" using assms(2,3) flag
      by (auto simp: redeemIntoEther_def nonReentrant_def validateCommon_def nav_callPreRedeemHooks_def nav_code_here_def
          alh_invokePreRedeemHook_def rbind_eq_Inr require_eq_Inr)
    then show "q \<le> assetLimits l self" "self \<in> set (limited_assets l)" using lim by blast+
  qed
qed

theorem asset_limits_enforced_witness:
  "\<exists>e. nav_issue nav_foreign_code nav_code_here 7 30 20 1 (10 ^ 18) 0 30 nav_demo = Inr e
     \<and> 10 ^ 18 \<le> assetLimits demo_limits_hook 1 \<and> 1 \<in> set (limited_assets demo_limits_hook)"
proof -
  obtain e where e: "nav_issue nav_foreign_code nav_code_here 7 30 20 1 (10 ^ 18) 0 30 nav_demo = Inr e" using nav_demo_issue ..
  have "alh_constructor 9 [1, 20] [10 ^ 21, 10 ^ 18] = Inr demo_limits_hook"
    by (simp add: alh_constructor_def array_get_def demo_limits_hook_def)
  then have r: "alh_reachable demo_limits_hook" by (rule alh_reachable.created)
  have h: "limit_hooks (snd (outside nav_demo)) 90 = Some demo_limits_hook" "nav_managerIssuanceHook (nav_of 20 nav_demo) = 90"
    by (simp_all add: nav_demo_def nav_of_def demo_nav_def)
  show ?thesis using asset_limits_enforced [OF r h(1) _ refl, of 20 nav_foreign_code 7 30 1 "10 ^ 18" 0 30 e] h(2) e by simp
qed

subsection \<open>A view that promises too much\<close>

text \<open>
  \<open>isRedeemValid\<close> compares the reserve position with the amount net of fees, while \<open>redeem\<close> needs it to cover the fees as
  well: the view says yes and the redemption reverts.
\<close>

lemma redeem_valid_reverts:
  "isRedeemValid nav_code_here 7 20 2 (188 * 10 ^ 12) nav_demo = Ok True
   \<and> nav_redeem nav_foreign_code nav_code_here 7 30 20 2 (188 * 10 ^ 12) 0 30 nav_demo
     = Err (Revert ''Must be greater than total available collateral'')"
proof
  show "isRedeemValid nav_code_here 7 20 2 (188 * 10 ^ 12) nav_demo = Ok True"
    unfolding nav_demo_defs by code_simp
  have "case nav_redeem nav_foreign_code nav_code_here 7 30 20 2 (188 * 10 ^ 12) 0 30 nav_demo of
      Inl err \<Rightarrow> err = Revert ''Must be greater than total available collateral'' | Inr _ \<Rightarrow> False"
    unfolding nav_demo_defs by code_simp
  then show "nav_redeem nav_foreign_code nav_code_here 7 30 20 2 (188 * 10 ^ 12) 0 30 nav_demo
     = Err (Revert ''Must be greater than total available collateral'')"
    by (cases "nav_redeem nav_foreign_code nav_code_here 7 30 20 2 (188 * 10 ^ 12) 0 30 nav_demo") simp_all
qed

end
