(* ===== verification/PreciseRounding.thy ===== *)
theory PreciseRounding
  imports PreciseUnitMath Complex_Main
begin

section \<open>PreciseUnitMath and exact rational values\<close>

text \<open>
  The functions of \<^verbatim>\<open>src/contracts/lib/PreciseUnitMath.sol\<close> against the real numbers: what each of them returns is the
  exact product or quotient, rounded to an integer in one direction.
\<close>

text \<open>Results stay in their type.\<close>

lemma precise_uint_typed:
  assumes "is_uint256 a" "is_uint256 b"
  shows "preciseMul_uint a b = Inr c \<Longrightarrow> is_uint256 c" "preciseDiv_uint a b = Inr c \<Longrightarrow> is_uint256 c"
    "preciseMulCeil_uint a b = Inr c \<Longrightarrow> is_uint256 c" "preciseDivCeil_uint a b = Inr c \<Longrightarrow> is_uint256 c"
proof -
  have u: "is_uint256 (10 ^ 18)" by simp
  show "preciseMul_uint a b = Inr c \<Longrightarrow> is_uint256 c" "preciseDiv_uint a b = Inr c \<Longrightarrow> is_uint256 c"
    unfolding preciseMul_uint_def preciseDiv_uint_def
    by (rule mul_div_typed [OF assms(1,2) u], assumption, rule mul_div_typed [OF assms(1) u assms(2)], assumption)
  show "preciseMulCeil_uint a b = Inr c \<Longrightarrow> is_uint256 c"
    using mul_div_up_typed [OF assms(1,2) u] by (auto simp: preciseMulCeil_uint_def split: if_splits)
  show "preciseDivCeil_uint a b = Inr c \<Longrightarrow> is_uint256 c"
    using mul_div_up_typed [OF assms(1) u assms(2)] by (auto simp: preciseDivCeil_uint_def require_def split: if_splits)
qed

lemma precise_int_typed:
  assumes "is_int256 x"
  shows "preciseMul_int x y = Inr c \<Longrightarrow> is_int256 c" "preciseDiv_int x y = Inr c \<Longrightarrow> is_int256 c"
    "preciseDivCeil_int x y = Inr c \<Longrightarrow> is_int256 c" "divDown_int x y = Inr c \<Longrightarrow> is_int256 c"
    "conservativePreciseMul x y = Inr c \<Longrightarrow> is_int256 c" "conservativePreciseDiv x y = Inr c \<Longrightarrow> is_int256 c"
  using assms by (auto simp: preciseMul_int_def preciseDiv_int_def preciseDivCeil_int_def conservativePreciseMul_def conservativePreciseDiv_def
      rbind_eq_Inr smul_eq_Inr is_int256_wrap dest: sdiv_typed divDown_typed split: if_splits)

text \<open>Rounding of an exact quotient: down is \<open>\<lfloor>q\<rfloor>\<close> and up is \<open>\<lceil>q\<rceil>\<close>; Solidity's division of signed integers goes towards zero.\<close>

definition toward_zero :: "real \<Rightarrow> int" where
  "toward_zero q = (if 0 \<le> q then \<lfloor>q\<rfloor> else \<lceil>q\<rceil>)"

definition away_from_zero :: "real \<Rightarrow> int" where
  "away_from_zero q = (if 0 \<le> q then \<lceil>q\<rceil> else \<lfloor>q\<rfloor>)"

lemma sgn_quotient: "sgn (real_of_int a / real_of_int b) = real_of_int (sgn a * sgn b)"
  by (simp add: divide_inverse sgn_mult) (auto simp: sgn_if)

lemma tdiv_toward_zero: "tdiv a b = toward_zero (real_of_int a / real_of_int b)"
proof -
  have m: "real_of_int \<bar>a\<bar> / real_of_int \<bar>b\<bar> = \<bar>real_of_int a / real_of_int b\<bar>" by simp
  have "\<bar>a\<bar> div \<bar>b\<bar> = \<lfloor>\<bar>real_of_int a / real_of_int b\<bar>\<rfloor>" unfolding m [symmetric] by (rule floor_divide_of_int_eq [symmetric])
  then show ?thesis
    using sgn_quotient [of a b] by (auto simp: tdiv_def toward_zero_def ceiling_def abs_if sgn_if split: if_splits)
qed

lemma adiv_away_from_zero: "adiv a b = away_from_zero (real_of_int a / real_of_int b)"
proof -
  have m: "real_of_int \<bar>a\<bar> / real_of_int \<bar>b\<bar> = \<bar>real_of_int a / real_of_int b\<bar>" by simp
  have "- ((- \<bar>a\<bar>) div \<bar>b\<bar>) = \<lceil>\<bar>real_of_int a / real_of_int b\<bar>\<rceil>" unfolding m [symmetric] by (rule ceiling_divide_eq_div [symmetric])
  then show ?thesis
    using sgn_quotient [of a b] by (auto simp: adiv_def away_from_zero_def ceiling_def abs_if sgn_if split: if_splits)
qed

lemmas quotient_rounding = floor_divide_of_int_eq [where 'a = real, symmetric] ceiling_divide_eq_div [where 'a = real, symmetric]
  tdiv_toward_zero adiv_away_from_zero

text \<open>
  C37. Every function of the library returns the exact rational value rounded in the direction its documentation promises, and reverts exactly when the
  product leaves the integer type or the divisor is zero: the unsigned functions round down, their \<open>Ceil\<close> versions up; the signed product and quotient
  round towards zero, \<open>preciseDivCeil\<close> away from zero, and \<open>divDown\<close> and the conservative versions towards minus infinity, for every sign of
  the operands. The rounded value is of the declared type, although rounding up adds one and some of the signed code uses unchecked operators that wrap.
\<close>

theorem precise_results_rounded:
  assumes "is_uint256 a" "is_uint256 b" "is_int256 x" "is_int256 y"
  shows "(preciseMul_uint a b = Inr c \<longleftrightarrow> a * b \<le> MAX_UINT_256 \<and> c = \<lfloor>real_of_int (a * b) / 10 ^ 18\<rfloor>)
    \<and> (preciseMulCeil_uint a b = Inr c \<longleftrightarrow> a * b \<le> MAX_UINT_256 \<and> c = \<lceil>real_of_int (a * b) / 10 ^ 18\<rceil>)
    \<and> (preciseDiv_uint a b = Inr c \<longleftrightarrow> a * 10 ^ 18 \<le> MAX_UINT_256 \<and> b \<noteq> 0 \<and> c = \<lfloor>real_of_int (a * 10 ^ 18) / real_of_int b\<rfloor>)
    \<and> (preciseDivCeil_uint a b = Inr c \<longleftrightarrow> a * 10 ^ 18 \<le> MAX_UINT_256 \<and> b \<noteq> 0 \<and> c = \<lceil>real_of_int (a * 10 ^ 18) / real_of_int b\<rceil>)
    \<and> (preciseMul_int x y = Inr z \<longleftrightarrow> is_int256 (x * y) \<and> z = toward_zero (real_of_int (x * y) / 10 ^ 18))
    \<and> (preciseDiv_int x y = Inr z \<longleftrightarrow> is_int256 (x * 10 ^ 18) \<and> y \<noteq> 0 \<and> z = toward_zero (real_of_int (x * 10 ^ 18) / real_of_int y))
    \<and> (preciseDivCeil_int x y = Inr z \<longleftrightarrow> is_int256 (x * 10 ^ 18) \<and> y \<noteq> 0 \<and> z = away_from_zero (real_of_int (x * 10 ^ 18) / real_of_int y))
    \<and> (divDown_int x y = Inr z \<longleftrightarrow> y \<noteq> 0 \<and> \<not> (x = MIN_INT_256 \<and> y = -1) \<and> z = \<lfloor>real_of_int x / real_of_int y\<rfloor>)
    \<and> (conservativePreciseMul x y = Inr z \<longleftrightarrow> is_int256 (x * y) \<and> z = \<lfloor>real_of_int (x * y) / 10 ^ 18\<rfloor>)
    \<and> (conservativePreciseDiv x y = Inr z \<longleftrightarrow> is_int256 (x * 10 ^ 18) \<and> y \<noteq> 0 \<and> z = \<lfloor>real_of_int (x * 10 ^ 18) / real_of_int y\<rfloor>)
    \<and> (Inr c \<in> {preciseMul_uint a b, preciseMulCeil_uint a b, preciseDiv_uint a b, preciseDivCeil_uint a b} \<longrightarrow> is_uint256 c)
    \<and> (Inr z \<in> {preciseMul_int x y, preciseDiv_int x y, preciseDivCeil_int x y, divDown_int x y, conservativePreciseMul x y,
          conservativePreciseDiv x y} \<longrightarrow> is_int256 z)"
proof -
  have r: "k div 10 ^ 18 = \<lfloor>real_of_int k / 10 ^ 18\<rfloor>" "- ((- k) div 10 ^ 18) = \<lceil>real_of_int k / 10 ^ 18\<rceil>"
    "tdiv k (10 ^ 18) = toward_zero (real_of_int k / 10 ^ 18)" for k
    using quotient_rounding [of k "10 ^ 18"] by (simp_all add: tdiv_toward_zero)
  have unsigned: "Inr c \<in> {preciseMul_uint a b, preciseMulCeil_uint a b, preciseDiv_uint a b, preciseDivCeil_uint a b} \<longrightarrow> is_uint256 c"
    using precise_uint_typed [OF assms(1,2), of c] by auto
  have signed: "Inr z \<in> {preciseMul_int x y, preciseDiv_int x y, preciseDivCeil_int x y, divDown_int x y, conservativePreciseMul x y,
      conservativePreciseDiv x y} \<longrightarrow> is_int256 z"
    using precise_int_typed [OF assms(3), of y z] by auto
  show ?thesis
    by (intro conjI unsigned signed)
      (use assms unit_multiple_not_min [of x] in \<open>auto simp: safe_math_simps r quotient_rounding ceiling_def\<close>)
qed

theorem precise_results_rounded_witness:
  "preciseMulCeil_uint (10 ^ 30) 7 = Inr (7 * 10 ^ 12) \<and> preciseDivCeil_int (- 7) 2000000000000000000 = Inr (- 4)
    \<and> away_from_zero (real_of_int (- 7 * 10 ^ 18) / real_of_int 2000000000000000000) = - 4"
proof -
  have v: "preciseMulCeil_uint (10 ^ 30) 7 = Inr (7 * 10 ^ 12)" "preciseDivCeil_int (- 7) 2000000000000000000 = Inr (- 4)" by code_simp+
  have "is_uint256 (10 ^ 30)" "is_uint256 7" "is_int256 (- 7)" "is_int256 2000000000000000000" by (simp_all add: is_uint256_def is_int256_def)
  from precise_results_rounded [OF this, of 0 "- 4"] v show ?thesis by simp
qed

end
