(* ===== verification/Spec2Isabelle.thy ===== *)
theory Spec2Isabelle
  imports "HOL-Library.Countable" StreamingFeeModule FeeModuleUtils NavIssuanceModuleUtils UniswapUtils PerpV2Utils
    BasicIssuanceModule SetTokenCreator SystemFixture ExchangeFixtures LendingFixtures PerpV2Fixture SystemFixtureDeploys
    AccountUtils Subtasks SetValuer AirdropModule DebtIssuanceModuleV2 GovernanceModule ClaimModule HardhatConfig
    StakingModule SyncingHooks SlippageIssuanceModule NavMarket PreciseRounding
begin

text \<open>
  \<^bold>\<open>A verification development of Set Protocol V2.\<close>

  Set Protocol is a system of Solidity contracts for tokens (Sets) that hold other tokens (components), with
  a TypeScript layer that deploys the contracts, reimplements their arithmetic and prepares whole systems
  (fixtures) for scripts and tests. A Controller registers factories, modules, resources and Sets; a
  factory creates Sets; a Set keeps its positions and lets registered modules, and nobody else, change them;
  the issuance modules mint and burn Sets against their components and debts; the streaming fee module charges
  holders by inflating the supply; the other modules trade components, absorb airdrops, claim rewards and vote, through adapters that the
  integration registry lists; the price oracle and the valuer price Sets.

  \<^bold>\<open>How the code is modelled.\<close> A contract is a record of its storage. A function takes \<open>msg.sender\<close> and its
  arguments and returns the new state, or the reason of the revert (type \<open>result\<close>). Integers are unbounded
  \<open>int\<close>s with the width written out: checked operations fail at the bounds of \<open>uint256\<close> and \<open>int256\<close>,
  unchecked ones wrap. A TypeScript script is a function on a world, the list of the requests sent to the
  node together with the node's state; the node is a parameter (type \<open>chain\<close>), a step that throws is
  \<open>None\<close>, and \<open>BigNumber\<close> arithmetic throws where ethers does. Code outside the repository (foreign tokens,
  hooks, OpenZeppelin's \<open>SafeERC20\<close>, \<open>keccak256\<close>, the Uniswap SDK) is a parameter with named laws.

  \<^bold>\<open>Contracts\<close> (files under \<^verbatim>\<open>src/contracts\<close>).
  \<^item> \<open>SafeMath\<close>, \<open>ERC20\<close>: the OpenZeppelin code copied into \<^verbatim>\<open>src/external/contracts/aave/v1/AaveTokenV2Mintable.sol\<close>;
    the signed library and the casts, which are outside the repository, through the locale
    \<open>signed_safe_math\<close>. The locale \<open>ledger\<close> states what mint, burn and transfer do to balances and supply.
  \<^item> \<open>PreciseUnitMath\<close>, \<open>AddressArrayUtils\<close>: \<^verbatim>\<open>lib/PreciseUnitMath.sol\<close> and \<^verbatim>\<open>lib/AddressArrayUtils.sol\<close>, every
    function, with closed forms and ranges of the results; \<open>PreciseRounding\<close> compares them with exact rational values.
  \<^item> \<open>Controller\<close>: \<^verbatim>\<open>protocol/Controller.sol\<close>. Reachable states by a step relation, their invariant, access
    control, and the refinement of an abstract registry of sets and a map. What depends on arrays without duplicates given to
    \<open>initialize\<close>, which the code does not check, is marked by a parameter \<open>uniq\<close>.
  \<^item> \<open>SetToken\<close>: \<^verbatim>\<open>protocol/SetToken.sol\<close>, every function. The contract invariant over all sequences of
    calls, re-entrant calls during \<open>invoke\<close> and \<open>removeModule\<close> included (\<open>set_run\<close>); locking, and the module that keeps the lock after it is removed; the life cycle of a module; read-after-write laws of position units
    (locale \<open>unit_store\<close>, for default and external positions); \<open>getPositions\<close>; the multiplier.
  \<^item> \<open>PositionLib\<close>: \<^verbatim>\<open>protocol/lib/Position.sol\<close>. The component list stays exact; airdrops are not counted.
  \<^item> \<open>StreamingFeeModule\<close>: \<^verbatim>\<open>protocol/modules/v1/StreamingFeeModule.sol\<close> and the validations of
    \<^verbatim>\<open>protocol/lib/ModuleBase.sol\<close>. What an accrual mints, what it costs, the bounds of the fee.
  \<^item> \<open>Invoke\<close>: \<^verbatim>\<open>protocol/lib/Invoke.sol\<close>, \<^verbatim>\<open>lib/ExplicitERC20.sol\<close>, the transfers of \<open>ModuleBase\<close>. The locale
    \<open>component_tokens\<close> is the interface to foreign tokens, interpreted for ERC20 ledgers.
  \<^item> \<open>BasicIssuanceModule\<close>: \<^verbatim>\<open>protocol/modules/v1/BasicIssuanceModule.sol\<close>. Collateral is kept, issuing and
    redeeming is a round trip up to one unit, redeeming is always possible.
  \<^item> \<open>SetTokenCreator\<close>: \<^verbatim>\<open>protocol/SetTokenCreator.sol\<close>. When creation succeeds and what it creates.
  \<^item> \<open>DebtIssuanceModule\<close>, \<open>DebtIssuanceModuleV2\<close>: \<^verbatim>\<open>protocol/modules/v1/DebtIssuanceModule.sol\<close>, its second version and
    \<^verbatim>\<open>protocol/lib/IssuanceValidationUtils.sol\<close>. Amounts net of debt; collateral with fees and hooks (locale \<open>issuance_hooks\<close>,
    interpreted for the hook mock of the tests beside ERC20 ledgers; see \<open>SyncingHooks\<close>); what is minted; the life of the settings.
  \<^item> \<open>SyncingHooks\<close>: what the hooks of other modules do before issuance, as a step relation (\<open>hook_run\<close>) from which the collateral is proved to be kept
    (locale \<open>syncing_hooks\<close>), and an instance, \<open>sync\<close> of \<^verbatim>\<open>protocol/modules/v1/AaveLeverageModule.sol\<close>.
  \<^item> \<open>SlippageIssuanceModule\<close>: \<^verbatim>\<open>protocol/modules/v1/SlippageIssuanceModule.sol\<close>, which extends \<open>DebtIssuanceModule\<close>. The limits of issuer
    and redeemer hold against the balances after the hooks; the amounts forecast off chain; equality with the parent without limits and hooks.
  \<^item> \<open>NavIssuanceModule\<close>: \<^verbatim>\<open>protocol/modules/v1/CustomOracleNAVIssuanceModule.sol\<close>, issuance at net asset value. The locale
    \<open>nav_reserve\<close>, which extends \<open>component_tokens\<close>, states what the module relies on of tokens, hooks, the valuer and wrapped Ether.
    Backing is kept, nobody is paid more than the value, the settings stay bounded.
  \<^item> \<open>WrappedEther\<close>: \<^verbatim>\<open>external/contracts/WETH9.sol\<close>; \<open>AssetLimitHook\<close>: \<^verbatim>\<open>product/AssetLimitHook.sol\<close>. \<open>NavMarket\<close> puts
    them, ERC20 ledgers, Ether and the \<open>SetValuer\<close> together, interprets \<open>nav_reserve\<close> on them, and holds the module's properties.
  \<^item> \<open>IntegrationRegistry\<close>: \<^verbatim>\<open>protocol/IntegrationRegistry.sol\<close>, \<^verbatim>\<open>protocol/lib/ResourceIdentifier.sol\<close> and the adapter
    lookup of \<open>ModuleBase\<close>. It refines a partial map; batches through the locale \<open>batched_write\<close>.
  \<^item> \<open>PriceOracle\<close>, \<open>SetValuer\<close>: \<^verbatim>\<open>protocol/PriceOracle.sol\<close> and \<^verbatim>\<open>protocol/SetValuer.sol\<close>. Which source a price comes from,
    and how far a valuation is from the exact value.
  \<^item> \<open>TradeModule\<close>, \<open>AirdropModule\<close>, \<open>ClaimModule\<close>, \<open>GovernanceModule\<close>: the contracts of these names in \<^verbatim>\<open>protocol/modules/v1\<close>.
    The locale \<open>quiet_calls\<close> is all they rely on of the contracts a Set calls: these do not change the Set. Trades and airdrops
    leave positions that the Set's balances cover; lists and flags agree; claims lose nothing.
  \<^item> \<open>StakingModule\<close>: \<^verbatim>\<open>protocol/modules/v1/StakingModule.sol\<close> and the staking contract of the tests. The records stay consistent with any multiplier, and agree with the external
    positions while the multiplier is 1 (parameter \<open>par\<close>; locale \<open>staking_calls\<close>, which extends \<open>quiet_calls\<close>); the redeem hook brings the tokens
    back; after a streaming fee the records are stale.

  \<^bold>\<open>TypeScript\<close> (files under \<^verbatim>\<open>src/utils\<close>).
  \<^item> \<open>Ethers\<close>, \<open>Scripts\<close>: strings, numbers and JavaScript values as the scripts use them; requests, worlds,
    deployments and calls, with the laws \<open>fresh_addresses\<close> of a node.
  \<^item> \<open>MathUtils\<close>, \<open>FeeModuleUtils\<close>, \<open>NavIssuanceModuleUtils\<close>, \<open>UniswapUtils\<close>, \<open>PerpV2Utils\<close>: \<^verbatim>\<open>common/*.ts\<close>, the
    off-chain arithmetic. It is compared with the contracts (locale \<open>reference_of\<close>) or with its purpose.
  \<^item> \<open>CommonUtils\<close>: the encoders, constants, snapshots and ABI changes of \<^verbatim>\<open>common/\<close>, \<^verbatim>\<open>constants.ts\<close> and \<^verbatim>\<open>test/\<close>.
  \<^item> \<open>Deploys\<close>, \<open>DeployExternal\<close>, \<open>DeployMocks\<close>: \<^verbatim>\<open>deploys/*.ts\<close>, one definition per deploy or get method.
  \<^item> \<open>SystemFixture\<close>, \<open>SystemFixtureDeploys\<close>, \<open>ExchangeFixtures\<close>, \<open>LendingFixtures\<close>, \<open>PerpV2Fixture\<close>: \<^verbatim>\<open>fixtures/*.ts\<close>,
    what each fixture deploys, in which order, and how it wires the contracts together.
  \<^item> \<open>AccountUtils\<close>: \<^verbatim>\<open>test/accountUtils.ts\<close>. Every token of a forked main net is connected to a signer that the
    node is asked to impersonate and that is paid for gas.
  \<^item> \<open>Subtasks\<close>: \<^verbatim>\<open>src/tasks/subtasks.ts\<close>, on a store of files and cached objects. The artifacts rewritten for the
    type generator are restored when it succeeds, and stay rewritten when it throws.
  \<^item> \<open>HardhatConfig\<close>: \<^verbatim>\<open>src/hardhat.config.ts\<close> and \<^verbatim>\<open>tasks/setupNativeSolc.ts\<close>. Which tests and networks an environment selects.

  \<^bold>\<open>This theory\<close> holds what spans components: the last request of \<open>SystemFixture.initialize\<close> is a call the
  Controller accepts, and an accrual of fees leaves a backed Set short of less than one base unit of a
  component per Set, with a run in which a shortfall occurs.

  \<^bold>\<open>Bounds and loops.\<close> Loops over arrays are structural recursion. The square root loop of \<open>UniswapUtils\<close> and
  the search for a token address in \<open>PerpV2Fixture\<close> need not be structural and are partial functions into
  \<open>option\<close>: the first is shown to return for every value, the second as soon as the node hands out a
  suitable address. There is no fuel.

  \<^bold>\<open>Not modelled.\<close> Events, gas and console output. The Aave delegation and permit code beside the ERC20 ledger.
  The wrapping, index, liquidity and leverage modules (but for \<open>sync\<close> of the Aave leverage module), the adapters and viewers:
  most of their code prepares calls of external protocols. The initial prices of \<open>UniswapV3Fixture\<close>, which
  are floating point. The files that only re-export.
\<close>

subsection \<open>The fixture's last request and the Controller\<close>

lemma controller_initialize_ok:
  assumes "address_zero \<notin> set (fs @ ms @ [r0, r1, r2])"
  shows "\<exists>c. controller_initialize o1 fs ms [r0, r1, r2] [0, 1, 2] (controller_constructor o1 fr) = Inr c"
  using assms by (simp add: controller_initialize_def onlyOwner_def controller_constructor_def init_factories_exact init_modules_exact)

lemma controller_initialize_result:
  assumes "controller_initialize o1 fs ms [r0, r1, r2] [0, 1, 2] (controller_constructor o1 fr) = Inr c"
    "distinct fs" "distinct ms" "distinct [r0, r1, r2]"
  shows "controller_inv c \<and> isInitialized c \<and> ctl_factories c = fs \<and> ctl_modules c = ms
    \<and> resourceId c 0 = r0 \<and> resourceId c 1 = r1 \<and> resourceId c 2 = r2"
proof -
  have "controller_inv c"
    by (rule initialize_inv [OF assms controller_inv_constructor])
       (simp add: uninitialized_empty_def controller_constructor_def)
  then show ?thesis using initialize_fields [OF assms(1)] by (simp add: resource_after_def id_map_def)
qed

text \<open>
  C25. The deployment script and the Controller fit together. When \<open>SystemFixture.initialize\<close> returns, its last
  request is a call of \<open>Controller.initialize\<close> which the contract accepts, from the owner and on the
  freshly constructed state, under every reading of address strings as addresses that keeps the deployed
  contracts and the zero address apart; the Controller is then initialized, satisfies its invariant, and
  has the factory, the three modules, and the three resources under their identifiers.
\<close>

theorem fixture_initializes_controller:
  assumes "fresh_addresses ch used" "sf_initialize ch (new_SystemFixture owner) ([], s) = Some (f, w)"
  shows "\<exists>(ctl :: handle) (factory :: handle) (issuance :: handle) (streaming :: handle) (nav :: handle) (registry :: handle)
      (prices :: handle) (valuer :: handle).
    last (fst w) = Transact owner ''Controller'' (addr ctl) ''initialize''
      [JArr [JStr (addr factory)], JArr (map (JStr \<circ> addr) [issuance, streaming, nav]),
       JArr (map (JStr \<circ> addr) [registry, prices, valuer]), JArr [JNum 0, JNum 1, JNum 2]]
    \<and> (\<forall>(enc :: string \<Rightarrow> address) fr.
         enc ADDRESS_ZERO = address_zero \<and> inj_on enc (insert ADDRESS_ZERO (addr ` {factory, issuance, streaming, nav, registry, prices, valuer})) \<longrightarrow>
         (\<exists>c. controller_initialize (enc owner) [enc (addr factory)] (map (enc \<circ> addr) [issuance, streaming, nav])
                (map (enc \<circ> addr) [registry, prices, valuer]) [0, 1, 2] (controller_constructor (enc owner) fr) = Inr c
            \<and> controller_inv c \<and> isInitialized c \<and> isFactory c (enc (addr factory))
            \<and> (\<forall>m \<in> {issuance, streaming, nav}. isModule c (enc (addr m)))
            \<and> resourceId c 0 = enc (addr registry) \<and> resourceId c 1 = enc (addr prices) \<and> resourceId c 2 = enc (addr valuer)))"
proof -
  obtain accounts t and ctl factory issuance streaming nav registry prices valuer :: handle where
    dist: "distinct (map addr [ctl, factory, issuance, streaming, nav, registry, prices, valuer])"
    and zero: "ADDRESS_ZERO \<notin> addr ` set [ctl, factory, issuance, streaming, nav, registry, prices, valuer]"
    and tr: "fst w = [Rpc ''listAccounts'' [], Deploy owner ''Controller'' [] [accounts ! 3]] @ t @
       [Transact owner ''Controller'' (addr ctl) ''initialize''
         [JArr [JStr (addr factory)], JArr (map (JStr \<circ> addr) [issuance, streaming, nav]),
          JArr (map (JStr \<circ> addr) [registry, prices, valuer]), JArr [JNum 0, JNum 1, JNum 2]]]"
    by (rule system_wiring [OF assms])
  have l: "last (fst w) = Transact owner ''Controller'' (addr ctl) ''initialize''
      [JArr [JStr (addr factory)], JArr (map (JStr \<circ> addr) [issuance, streaming, nav]),
       JArr (map (JStr \<circ> addr) [registry, prices, valuer]), JArr [JNum 0, JNum 1, JNum 2]]" using tr by simp
  let ?hs = "{factory, issuance, streaming, nav, registry, prices, valuer}"
  have ok: "\<exists>c. controller_initialize (enc owner) [enc (addr factory)] (map (enc \<circ> addr) [issuance, streaming, nav])
                (map (enc \<circ> addr) [registry, prices, valuer]) [0, 1, 2] (controller_constructor (enc owner) fr) = Inr c
            \<and> controller_inv c \<and> isInitialized c \<and> isFactory c (enc (addr factory))
            \<and> (\<forall>m \<in> {issuance, streaming, nav}. isModule c (enc (addr m)))
            \<and> resourceId c 0 = enc (addr registry) \<and> resourceId c 1 = enc (addr prices) \<and> resourceId c 2 = enc (addr valuer)"
    if enc: "enc ADDRESS_ZERO = address_zero \<and> inj_on enc (insert ADDRESS_ZERO (addr ` ?hs))" for enc fr
  proof -
    have nz: "enc (addr h) \<noteq> address_zero" if "h \<in> ?hs" for h
      using inj_on_contraD [OF conjunct2 [OF enc], of "addr h" ADDRESS_ZERO] enc zero that by auto
    let ?ms = "map (enc \<circ> addr) [issuance, streaming, nav]" and ?rs = "[enc (addr registry), enc (addr prices), enc (addr valuer)]"
    have "address_zero \<notin> set ([enc (addr factory)] @ ?ms @ ?rs)" using nz by auto
    from controller_initialize_ok [OF this] obtain c where
      c: "controller_initialize (enc owner) [enc (addr factory)] ?ms ?rs [0, 1, 2] (controller_constructor (enc owner) fr) = Inr c" by auto
    have "inj_on enc (addr ` {issuance, streaming, nav})" "inj_on enc (addr ` {registry, prices, valuer})"
      by (rule inj_on_subset [OF conjunct2 [OF enc]], blast)+
    then have "distinct (map enc (map addr [issuance, streaming, nav]))" "distinct (map enc (map addr [registry, prices, valuer]))"
      using dist unfolding distinct_map [of enc] by simp_all
    then have d: "distinct ?ms" "distinct ?rs" by simp_all
    have "distinct [enc (addr factory)]" by simp
    note R = controller_initialize_result [OF c this d]
    have "isFactory c (enc (addr factory))" "\<forall>m \<in> {issuance, streaming, nav}. isModule c (enc (addr m))"
      using initialize_fields [OF c] by simp_all
    with R c show ?thesis by (intro exI [of _ c]) simp
  qed
  show ?thesis by (rule exI)+ (rule conjI [OF l], intro allI impI, rule ok)
qed

theorem fixture_initializes_controller_witness:
  "\<exists>f w c. sf_initialize demo_node (new_SystemFixture ''0xa'') ([], 0) = Some (f, w) \<and> controller_inv c \<and> isInitialized c"
proof -
  define enc :: "string \<Rightarrow> address" where "enc a = (if a = ADDRESS_ZERO then address_zero else Suc (to_nat a))" for a
  have enc: "enc ADDRESS_ZERO = address_zero" "inj_on enc A" for A
    by (simp_all add: enc_def inj_on_def)
  have "sf_initialize demo_node (new_SystemFixture ''0xa'') ([], 0) \<noteq> None" by code_simp
  then obtain f w where run: "sf_initialize demo_node (new_SystemFixture ''0xa'') ([], 0) = Some (f, w)" by auto
  have "fresh_addresses demo_node (\<lambda>n. (\<lambda>k. CHR ''0'' # CHR ''x'' # replicate (Suc k) CHR ''1'') ` {..<n})"
    unfolding demo_node_def by (rule table_chain_fresh)
  from fixture_initializes_controller [OF this run] enc run show ?thesis by blast
qed

subsection \<open>Fees and collateral\<close>

text \<open>
  C31. What an accrual of the streaming fee can cost the backing of a Set. Position units are rounded down
  when they are read, so a Set that is exactly backed before an accrual may owe more than it holds after
  it; the shortfall is less than one base unit of the component (with a default unit of at least 0) per whole Set of the old supply (and none without a supply).
\<close>

theorem accrual_shortfall_bounded:
  assumes "set_inv s" "fee_ok (f a)" "is_uint256 now" "is_uint256 (getModuleFee c this 0)"
    "accrueFee this now c a f s = Inr (f', s', mf, pf)"
    and unit: "getDefaultPositionRealUnit s k = Inr u" "getDefaultPositionRealUnit s' k = Inr u'" "0 \<le> virtualUnit (componentPositions s k)"
    and backed: "totalSupply s * u \<le> b * PRECISE_UNIT"
  shows "totalSupply s' * u' \<le> b * PRECISE_UNIT + totalSupply s
    \<and> (0 < totalSupply s \<longrightarrow> totalSupply s' * u' < b * PRECISE_UNIT + totalSupply s)"
proof (cases "streamingFeePercentage (f a) > 0")
  case False
  then have "s' = s" using assms(5) by (auto simp: accrueFee_def rbind_eq_Inr)
  moreover have "0 \<le> totalSupply s" using assms(1) by (simp add: set_inv_def ledger_inv_def erc20_typed_def is_uint256_def)
  ultimately show ?thesis using unit(1,2) backed by simp
next
  case True
  let ?U = "PRECISE_UNIT :: int" and ?v = "virtualUnit (componentPositions s k)" and ?S = "totalSupply s" and ?m = "positionMultiplier s"
  obtain fee q where acc: "0 \<le> fee" "fee < ?U" "q = fee * ?S div (?U - fee)" "totalSupply s' = ?S + q"
    "positionMultiplier s' = ?m * (?U - fee) div ?U" "componentPositions s' = componentPositions s" "set_inv s'"
    by (rule accrueFee_Inr [OF assms(1-4) True assms(5)])
  have pos: "0 \<le> ?S" "0 < ?m" "0 \<le> totalSupply s'"
    using assms(1) acc(7) by (simp_all add: set_inv_def ledger_inv_def erc20_typed_def is_uint256_def position_inv_def units_ok_def)
  have u: "u = ?v * ?m div ?U" "u' = ?v * positionMultiplier s' div ?U"
    using real_unit_typed [OF _ unit(1)] real_unit_typed [OF _ unit(2)] assms(1) acc(6,7) by (auto simp: set_inv_def)
  have "totalSupply s' * (u' * ?U) \<le> totalSupply s' * (?v * positionMultiplier s')"
    unfolding u(2) using pos(3) div_mult_le_int [of ?U] by (intro mult_left_mono) simp_all
  also have "\<dots> = ?v * (totalSupply s' * positionMultiplier s')" by simp
  also have "\<dots> \<le> ?v * (?S * ?m)"
    using inflation_collateral [OF acc(1,2) pos(1), of ?m "totalSupply s'" "positionMultiplier s'"] acc(3-5) pos(2) unit(3)
    by (intro mult_left_mono) simp_all
  also have "\<dots> = ?S * (?v * ?m)" by simp
  finally have le: "totalSupply s' * (u' * ?U) \<le> ?S * (?v * ?m)" .
  have lt: "?v * ?m < (u + 1) * ?U" unfolding u(1) using less_div_mult_int [of ?U "?v * ?m"] by simp
  have "?S * (?v * ?m) \<le> ?S * ((u + 1) * ?U)" using pos(1) lt by (intro mult_left_mono) simp_all
  with le have "(totalSupply s' * u') * ?U \<le> (?S * u + ?S) * ?U" by (simp add: algebra_simps)
  then have "totalSupply s' * u' \<le> ?S * u + ?S" by (rule mult_right_le_imp_le) simp
  moreover have "totalSupply s' * u' < ?S * u + ?S" if "0 < ?S"
  proof -
    have "?S * (?v * ?m) < ?S * ((u + 1) * ?U)" using that lt by (rule mult_strict_left_mono [rotated])
    with le have "(totalSupply s' * u') * ?U < (?S * u + ?S) * ?U" by (simp add: algebra_simps)
    then show ?thesis by (rule mult_right_less_imp_less) simp
  qed
  ultimately show ?thesis using backed by fastforce
qed

theorem accrual_shortfall_bounded_witness:
  "\<exists>f' s' mf pf u'. accrueFee 7 31558600 fee_controller 20 demo_fees funded_set = Inr (f', s', mf, pf)
     \<and> getDefaultPositionRealUnit s' 1 = Inr u' \<and> totalSupply s' * u' < 3 * 10 ^ 18 * PRECISE_UNIT + 10 ^ 18"
proof -
  have "is_ok (rbind (accrueFee 7 31558600 fee_controller 20 demo_fees funded_set) (\<lambda>(_, s', _). getDefaultPositionRealUnit s' 1))"
    unfolding fee_controller_def demo_fees_def funded_set_def demo_set_def demo_controller_def by code_simp
  then obtain f' s' mf pf u' where e: "accrueFee 7 31558600 fee_controller 20 demo_fees funded_set = Inr (f', s', mf, pf)"
    and u': "getDefaultPositionRealUnit s' 1 = Inr u'" by (auto simp: is_ok_iff rbind_eq_Inr)
  have u: "getDefaultPositionRealUnit funded_set 1 = Inr (3 * 10 ^ 18)" "0 \<le> virtualUnit (componentPositions funded_set 1)"
    "totalSupply funded_set * (3 * 10 ^ 18) \<le> 3 * 10 ^ 18 * PRECISE_UNIT" "is_uint256 31558600"
    by (simp_all add: funded_set_def demo_set_def real_unit_defs convertVirtualToRealUnit_def conservativePreciseMul_exact
        is_int256_def is_uint256_def)
  from accrual_shortfall_bounded [OF funded_inv demo_fee_ok u(4) demo_fee_typed e u(1) u' u(2,3)] e u' show ?thesis
    by (auto simp: funded_set_def)
qed

text \<open>
  The shortfall occurs. A Set with 19 base units of a component and a streaming fee of 5% a year: one Set
  is issued, a year's fee is accrued, a thousand Sets are issued at the rounded unit 18, and the fee of
  some weeks is accrued. The unit is still 18, the supply has grown, and the Set owes more than it holds.
\<close>

definition fee_step :: "int \<Rightarrow> fee_states \<Rightarrow> 'w evm \<Rightarrow> (fee_states \<times> 'w evm) result" where
  "fee_step now fs e = rbind (accrueFee 8 now (the_controller e) 20 fs (the_set e)) (\<lambda>(fs', s', _). Ok (fs', e\<lparr>the_set := s'\<rparr>))"

definition rounding_start :: "((address \<Rightarrow> erc20) evm) result" where
  "rounding_start = rbind (set_token_constructor [1] [19] [7, 8] 5 9 ''Set'' ''SET'') (\<lambda>s.
     issuance_initialize 7 9 20 address_zero (demo_evm\<lparr>the_set := s\<rparr>))"

definition rounding_run :: "((address \<Rightarrow> erc20) evm) result" where
  "rounding_run = rbind rounding_start (\<lambda>e.
     rbind (fee_initialize 8 9 0 (the_controller e) 20
        \<lparr>fs_feeRecipient = 50, maxStreamingFeePercentage = 10 ^ 17, streamingFeePercentage = 5 * 10 ^ 16, lastStreamingFeeTimestamp = 0\<rparr>
        (\<lambda>_. no_fee) (the_set e)) (\<lambda>(fs, s).
     rbind (issue ledger_foreign 7 30 20 (10 ^ 18) 30 (e\<lparr>the_set := s\<rparr>)) (\<lambda>e.
     rbind (fee_step ONE_YEAR_IN_SECONDS fs e) (\<lambda>(fs, e).
     rbind (issue ledger_foreign 7 30 20 (1000 * 10 ^ 18) 30 e) (\<lambda>e.
     rbind (fee_step (ONE_YEAR_IN_SECONDS + 1704110) fs e) (\<lambda>(_, e).
     Ok e))))))"

lemma accrual_shortfall_occurs:
  "\<exists>e. rounding_run = Inr e \<and> getDefaultPositionRealUnit (the_set e) 1 = Inr 18
     \<and> (\<exists>b. balance_of ledger_foreign 1 20 e = Inr b \<and> b * PRECISE_UNIT < totalSupply (the_set e) * 18)"
proof -
  have ev: "case rounding_run of Inl err \<Rightarrow> False | Inr e \<Rightarrow> getDefaultPositionRealUnit (the_set e) 1 = Inr 18
      \<and> balance_of ledger_foreign 1 20 e = Inr 18019 \<and> 18019 * PRECISE_UNIT < totalSupply (the_set e) * 18"
    unfolding rounding_run_def rounding_start_def demo_evm_def demo_token_def demo_controller_def demo_set_def by code_simp
  show ?thesis
  proof (cases rounding_run)
    case (Inl err)
    from ev show ?thesis unfolding Inl sum.case by simp
  next
    case (Inr e)
    from ev have "getDefaultPositionRealUnit (the_set e) 1 = Inr 18" "balance_of ledger_foreign 1 20 e = Inr 18019"
      "18019 * PRECISE_UNIT < totalSupply (the_set e) * 18" unfolding Inr sum.case by blast+
    then show ?thesis using Inr by blast
  qed
qed

end
